(* ===== verification/Prelude.thy ===== *)
theory Prelude
  imports Main "HOL-Library.Multiset" "HOL-Library.List_Lexorder" "HOL-Library.Char_ord" "HOL-Library.Product_Lexorder"
begin

section \<open>Shared vocabulary of the development\<close>

text \<open>
  The types, string operations, result combinators and list lemmas every component uses.

  Python strings are modelled as \<open>string\<close>: the list of the bytes of their UTF-8 form, so
  that \<open>length\<close> is \<open>len(s.encode())\<close> and the lexicographic order is Python's order by code
  point.  \<open>upper\<close>, \<open>lower\<close> and \<open>strip\<close> act on the ASCII range.
  A Python exception is the left side of a sum.
\<close>

named_theorems row_simps \<open>effect of an operation on the rows of a table\<close>
named_theorems inv_intros \<open>an operation keeps an invariant\<close>

subsection \<open>Python strings\<close>

definition char_code :: "char \<Rightarrow> nat" where
  "char_code c = of_char c"

definition upper_char :: "char \<Rightarrow> char" where
  "upper_char c = (if 97 \<le> char_code c \<and> char_code c \<le> 122 then char_of (char_code c - 32) else c)"

definition lower_char :: "char \<Rightarrow> char" where
  "lower_char c = (if 65 \<le> char_code c \<and> char_code c \<le> 90 then char_of (char_code c + 32) else c)"

definition upper :: "string \<Rightarrow> string" where
  "upper s = map upper_char s"

definition lower :: "string \<Rightarrow> string" where
  "lower s = map lower_char s"

text \<open>The ASCII characters for which \<open>str.isspace\<close> holds.\<close>

definition is_space :: "char \<Rightarrow> bool" where
  "is_space c \<longleftrightarrow>
     (9 \<le> char_code c \<and> char_code c \<le> 13) \<or> (28 \<le> char_code c \<and> char_code c \<le> 32)"

definition lstrip :: "string \<Rightarrow> string" where
  "lstrip s = dropWhile is_space s"

definition strip :: "string \<Rightarrow> string" where
  "strip s = rev (lstrip (rev (lstrip s)))"

definition ends_with :: "string \<Rightarrow> string \<Rightarrow> bool" where
  "ends_with s t \<longleftrightarrow> length t \<le> length s \<and> drop (length s - length t) s = t"

definition starts_with :: "string \<Rightarrow> string \<Rightarrow> bool" where
  "starts_with s t \<longleftrightarrow> take (length t) s = t"

text \<open>\<open>p in s\<close>.\<close>

definition occurs_in :: "string \<Rightarrow> string \<Rightarrow> bool" where
  "occurs_in p s = list_ex (\<lambda>i. starts_with (drop i s) p) [0..<Suc (length s)]"

text \<open>\<open>len(s)\<close> and \<open>s[:n]\<close> of the text whose UTF-8 bytes are given.\<close>

definition is_continuation :: "char \<Rightarrow> bool" where
  "is_continuation c \<longleftrightarrow> 128 \<le> char_code c \<and> char_code c < 192"

definition code_points :: "string \<Rightarrow> int" where
  "code_points s = int (length (filter (\<lambda>c. \<not> is_continuation c) s))"

fun take_points :: "nat \<Rightarrow> string \<Rightarrow> string" where
  "take_points n [] = []"
| "take_points n (c # s) =
     (if is_continuation c then c # take_points n s
      else case n of 0 \<Rightarrow> [] | Suc m \<Rightarrow> c # take_points m s)"

text \<open>\<open>s.rstrip()\<close> and \<open>s.split()\<close>.\<close>

definition rstrip :: "string \<Rightarrow> string" where
  "rstrip s = rev (lstrip (rev s))"

fun split_words :: "string \<Rightarrow> string list" where
  "split_words [] = []"
| "split_words (c # s) =
     (if is_space c then split_words s
      else (case s of [] \<Rightarrow> [[c]]
            | d # t \<Rightarrow> if is_space d then [c] # split_words t
                else (case split_words s of [] \<Rightarrow> [[c]] | w # ws \<Rightarrow> (c # w) # ws)))"

text \<open>\<open>s.split(d)\<close> for a separator of one character.\<close>

fun split_at :: "char \<Rightarrow> string \<Rightarrow> string list" where
  "split_at d [] = [[]]"
| "split_at d (c # s) =
     (if c = d then [] # split_at d s
      else case split_at d s of [] \<Rightarrow> [[c]] | p # ps \<Rightarrow> (c # p) # ps)"

definition is_upper_letter :: "char \<Rightarrow> bool" where
  "is_upper_letter c \<longleftrightarrow> 65 \<le> char_code c \<and> char_code c \<le> 90"

definition is_lower_letter :: "char \<Rightarrow> bool" where
  "is_lower_letter c \<longleftrightarrow> 97 \<le> char_code c \<and> char_code c \<le> 122"

definition is_digit :: "char \<Rightarrow> bool" where
  "is_digit c \<longleftrightarrow> 48 \<le> char_code c \<and> char_code c \<le> 57"

definition is_alnum :: "char \<Rightarrow> bool" where
  "is_alnum c \<longleftrightarrow> is_upper_letter c \<or> is_lower_letter c \<or> is_digit c"

lemma char_code_char_of: "n < 256 \<Longrightarrow> char_code (char_of n) = n"
  by (simp add: char_code_def)

lemma char_code_upper_char:
  "char_code (upper_char c) =
     (if 97 \<le> char_code c \<and> char_code c \<le> 122 then char_code c - 32 else char_code c)"
  by (auto simp: upper_char_def intro!: char_code_char_of)

lemma char_code_lower_char:
  "char_code (lower_char c) =
     (if 65 \<le> char_code c \<and> char_code c \<le> 90 then char_code c + 32 else char_code c)"
  by (simp add: lower_char_def char_code_char_of)

lemma upper_char_idem [simp]: "upper_char (upper_char c) = upper_char c"
proof -
  have "\<not> (97 \<le> char_code (upper_char c) \<and> char_code (upper_char c) \<le> 122)"
    by (auto simp: char_code_upper_char split: if_splits)
  then show ?thesis
    unfolding upper_char_def [of "upper_char c"] by (simp only: if_False)
qed

lemma lower_char_idem [simp]: "lower_char (lower_char c) = lower_char c"
proof -
  have "\<not> (65 \<le> char_code (lower_char c) \<and> char_code (lower_char c) \<le> 90)"
    by (auto simp: char_code_lower_char split: if_splits)
  then show ?thesis
    unfolding lower_char_def [of "lower_char c"] by (simp only: if_False)
qed

lemma upper_idem [simp]: "upper (upper s) = upper s"
  by (simp add: upper_def)

lemma lower_idem [simp]: "lower (lower s) = lower s"
  by (simp add: lower_def)

lemma length_upper [simp]: "length (upper s) = length s"
  by (simp add: upper_def)

lemma strip_no_space: "\<forall>c \<in> set s. \<not> is_space c \<Longrightarrow> strip s = s"
proof -
  assume a: "\<forall>c \<in> set s. \<not> is_space c"
  have *: "lstrip t = t" if "\<forall>c \<in> set t. \<not> is_space c" for t
    using that by (cases t) (simp_all add: lstrip_def)
  show "strip s = s"
    using a by (simp add: strip_def *)
qed

lemma upper_char_fixed: "is_upper_letter c \<or> is_digit c \<Longrightarrow> upper_char c = c"
  by (auto simp: upper_char_def is_upper_letter_def is_digit_def)

lemma upper_fixed: "\<forall>c \<in> set s. is_upper_letter c \<or> is_digit c \<Longrightarrow> upper s = s"
  by (simp add: upper_def upper_char_fixed map_idI)

lemma alnum_not_space: "is_alnum c \<Longrightarrow> \<not> is_space c"
  by (auto simp: is_alnum_def is_upper_letter_def is_lower_letter_def is_digit_def is_space_def)

subsection \<open>Results: a raised exception is \<open>Inl\<close>\<close>

fun res_bind :: "'e + 'a \<Rightarrow> ('a \<Rightarrow> 'e + 'b) \<Rightarrow> 'e + 'b" where
  "res_bind (Inl e) f = Inl e"
| "res_bind (Inr x) f = f x"

lemma res_bind_Inr_iff: "res_bind r f = Inr y \<longleftrightarrow> (\<exists>x. r = Inr x \<and> f x = Inr y)"
  by (cases r) auto

lemma res_bind_Inl_iff:
  "res_bind r f = Inl e \<longleftrightarrow> r = Inl e \<or> (\<exists>x. r = Inr x \<and> f x = Inl e)"
  by (cases r) auto

text \<open>Apply a raising function to each element in turn; the first exception wins.\<close>

fun res_map :: "('a \<Rightarrow> 'e + 'b) \<Rightarrow> 'a list \<Rightarrow> 'e + 'b list" where
  "res_map f [] = Inr []"
| "res_map f (x # xs) = res_bind (f x) (\<lambda>y. res_bind (res_map f xs) (\<lambda>ys. Inr (y # ys)))"

lemma res_map_Inr_iff:
  "res_map f xs = Inr ys \<longleftrightarrow> list_all2 (\<lambda>x y. f x = Inr y) xs ys"
  by (induction xs arbitrary: ys) (auto simp: res_bind_Inr_iff list_all2_Cons1)

lemma res_map_defined: "\<forall>x \<in> set xs. \<exists>y. f x = Inr y \<Longrightarrow> \<exists>ys. res_map f xs = Inr ys"
  by (induction xs) auto

subsection \<open>Tables as lists of rows\<close>

text \<open>The \<open>UPDATE ... WHERE\<close> of a table kept in row order.\<close>

definition update_where :: "('r \<Rightarrow> bool) \<Rightarrow> ('r \<Rightarrow> 'r) \<Rightarrow> 'r list \<Rightarrow> 'r list" where
  "update_where p f rs = map (\<lambda>r. if p r then f r else r) rs"

lemma length_update_where [simp]: "length (update_where p f rs) = length rs"
  by (simp add: update_where_def)

lemma update_where_Nil [simp]: "update_where p f [] = []"
  by (simp add: update_where_def)

lemma update_where_Cons [simp]:
  "update_where p f (r # rs) = (if p r then f r else r) # update_where p f rs"
  by (simp add: update_where_def)

lemma set_update_where: "set (update_where p f rs) = (\<lambda>r. if p r then f r else r) ` set rs"
  by (simp add: update_where_def)

lemma map_update_where: "(\<And>r. p r \<Longrightarrow> g (f r) = g r) \<Longrightarrow> map g (update_where p f rs) = map g rs"
  by (induction rs) auto

lemma update_where_none: "\<forall>r \<in> set rs. \<not> p r \<Longrightarrow> update_where p f rs = rs"
  by (induction rs) auto

lemma find_Some_in: "find p xs = Some x \<Longrightarrow> x \<in> set xs \<and> p x"
  by (induction xs) (auto split: if_splits)

lemma find_key:
  "distinct (map k rs) \<Longrightarrow> r \<in> set rs \<Longrightarrow> find (\<lambda>x. k x = k r) rs = Some r"
proof (induction rs)
  case Nil
  then show ?case by simp
next
  case (Cons x xs)
  show ?case
  proof (cases "x = r")
    case True
    then show ?thesis by simp
  next
    case False
    with Cons.prems have "r \<in> set xs" "k x \<noteq> k r"
      by (auto simp: image_iff)
    with Cons show ?thesis by simp
  qed
qed

lemma update_where_cong:
  "(\<And>r. r \<in> set rs \<Longrightarrow> p r = q r) \<Longrightarrow> (\<And>r. r \<in> set rs \<Longrightarrow> q r \<Longrightarrow> f r = g r) \<Longrightarrow>
   update_where p f rs = update_where q g rs"
  by (induction rs) auto

lemma update_where_comp:
  "update_where p f (update_where q g rs) =
     map (\<lambda>r. let r' = (if q r then g r else r) in if p r' then f r' else r') rs"
  by (simp add: update_where_def Let_def)

text \<open>Keys and filtered keys under an update that keeps the key.\<close>

lemma set_filter_update_where:
  assumes "\<And>r. r \<in> set rs \<Longrightarrow> p r \<Longrightarrow> a (f r) \<Longrightarrow> g (f r) = g r \<and> a r"
  shows "g ` set (filter a (update_where p f rs)) \<subseteq> g ` set (filter a rs)"
proof (rule image_subsetI)
  fix y
  assume "y \<in> set (filter a (update_where p f rs))"
  then obtain r where r: "r \<in> set rs" "y = (if p r then f r else r)" "a y"
    by (auto simp: set_update_where)
  have "g y = g r" "a r"
    using r assms [of r] by (simp_all split: if_splits)
  with r(1) show "g y \<in> g ` set (filter a rs)"
    by (intro image_eqI [where x = r]) simp_all
qed

lemma distinct_filter_update_where:
  assumes "distinct (map g (filter a rs))"
    and "\<And>r. r \<in> set rs \<Longrightarrow> p r \<Longrightarrow> a (f r) \<Longrightarrow> g (f r) = g r \<and> a r"
  shows "distinct (map g (filter a (update_where p f rs)))"
  using assms
proof (induction rs)
  case Nil
  then show ?case by simp
next
  case (Cons r rs)
  let ?r = "if p r then f r else r"
  have sub: "g ` set (filter a (update_where p f rs)) \<subseteq> g ` set (filter a rs)"
    by (rule set_filter_update_where) (simp add: Cons.prems(2))
  have "distinct (map g (filter a rs))"
    using Cons.prems(1) by (simp split: if_splits)
  then have ih: "distinct (map g (filter a (update_where p f rs)))"
    by (rule Cons.IH) (simp add: Cons.prems(2))
  show ?case
  proof (cases "a ?r")
    case False
    then show ?thesis using ih by simp
  next
    case True
    then have *: "g ?r = g r" "a r"
      using Cons.prems(2) [of r] by (auto split: if_splits)
    then have "g r \<notin> g ` set (filter a rs)"
      using Cons.prems(1) by auto
    then have "g ?r \<notin> g ` set (filter a (update_where p f rs))"
      using sub *(1) by auto
    then show ?thesis
      using ih True by auto
  qed
qed

lemma find_map_key:
  assumes "\<And>r. r \<in> set rs \<Longrightarrow> k (h r) = k r"
  shows "find (\<lambda>r. k r = x) (map h rs) = map_option h (find (\<lambda>r. k r = x) rs)"
  using assms by (induction rs) auto

lemma find_update_where:
  assumes "\<And>r. r \<in> set rs \<Longrightarrow> p r \<Longrightarrow> k (f r) = k r"
  shows "find (\<lambda>r. k r = x) (update_where p f rs) =
    map_option (\<lambda>r. if p r then f r else r) (find (\<lambda>r. k r = x) rs)"
  unfolding update_where_def by (rule find_map_key) (use assms in auto)

lemma find_filter_key:
  assumes "distinct (map k rs)"
  shows "find (\<lambda>r. k r = x) (filter q rs) =
    (case find (\<lambda>r. k r = x) rs of None \<Rightarrow> None | Some r \<Rightarrow> if q r then Some r else None)"
  using assms
proof (induction rs)
  case (Cons r rs)
  have "find (\<lambda>r'. k r' = k r) (filter q rs) = None"
    using Cons.prems by (auto simp: find_None_iff image_iff)
  with Cons show ?case by auto
qed simp

lemma distinct_map_inj: "distinct (map k rs) \<Longrightarrow> x \<in> set rs \<Longrightarrow> y \<in> set rs \<Longrightarrow> k x = k y \<Longrightarrow> x = y"
  by (simp add: distinct_map inj_on_def)

lemma list_all2_map_eq: "list_all2 P xs ys \<Longrightarrow> (\<And>x y. P x y \<Longrightarrow> g y = g x) \<Longrightarrow> map g ys = map g xs"
  by (induction rule: list_all2_induct) auto

lemma set_list_all2: "list_all2 P xs ys \<Longrightarrow> y \<in> set ys \<Longrightarrow> \<exists>x \<in> set xs. P x y"
  by (induction rule: list_all2_induct) auto

lemma set_list_all2_left: "list_all2 P xs ys \<Longrightarrow> x \<in> set xs \<Longrightarrow> \<exists>y \<in> set ys. P x y"
  by (induction rule: list_all2_induct) auto

lemma list_all2_find:
  "list_all2 P xs ys \<Longrightarrow> (\<And>x y. P x y \<Longrightarrow> k y = k x) \<Longrightarrow>
   rel_option P (find (\<lambda>x. k x = i) xs) (find (\<lambda>y. k y = i) ys)"
  by (induction rule: list_all2_induct) auto

lemma find_append: "find p (xs @ ys) = (case find p xs of None \<Rightarrow> find p ys | Some x \<Rightarrow> Some x)"
  by (induction xs) auto

lemma find_map_comp: "find p (map f xs) = map_option f (find (\<lambda>x. p (f x)) xs)"
  by (induction xs) auto

lemma find_key_None: "i \<notin> k ` set xs \<Longrightarrow> find (\<lambda>x. k x = i) xs = None"
  by (auto simp: find_None_iff)

lemma filter_key: "distinct (map k xs) \<Longrightarrow> r \<in> set xs \<Longrightarrow> filter (\<lambda>x. k x = k r) xs = [r]"
proof (induction xs)
  case (Cons x xs)
  show ?case
  proof (cases "x = r")
    case True
    then have "filter (\<lambda>y. k y = k r) xs = []"
      using Cons.prems by (simp add: filter_empty_conv) (metis image_eqI)
    with True show ?thesis by simp
  next
    case False
    with Cons.prems have "r \<in> set xs" "k x \<noteq> k r" by (auto simp: image_iff)
    with Cons show ?thesis by simp
  qed
qed simp

lemma distinct_filter_map: "distinct (map k rs) \<Longrightarrow> distinct (map k (filter q rs))"
  by (auto simp: distinct_map inj_on_def)

lemma distinct_map_perm: "distinct (map k xs) \<Longrightarrow> mset ys = mset xs \<Longrightarrow> distinct (map k ys)"
  using mset_eq_imp_distinct_iff [of "map k ys" "map k xs"] by simp

lemma sort_key_hd: "sort_key k xs = y # ys \<Longrightarrow> y \<in> set xs"
  by (metis list.set_intros(1) set_sort)

subsection \<open>Dictionaries\<close>

text \<open>
  A Python \<open>dict\<close> as the list of its items in insertion order: assigning to a present key keeps its
  place, a new key goes last.
\<close>

fun dict_set :: "'k \<Rightarrow> 'v \<Rightarrow> ('k \<times> 'v) list \<Rightarrow> ('k \<times> 'v) list" where
  "dict_set k v [] = [(k, v)]"
| "dict_set k v ((k', v') # d) = (if k' = k then (k, v) # d else (k', v') # dict_set k v d)"

definition dict_del :: "'k \<Rightarrow> ('k \<times> 'v) list \<Rightarrow> ('k \<times> 'v) list" where
  "dict_del k d = filter (\<lambda>(k', _). k' \<noteq> k) d"

definition dict_ok :: "('k \<times> 'v) list \<Rightarrow> bool" where
  "dict_ok d \<longleftrightarrow> distinct (map fst d)"

lemma map_of_dict_set [simp]: "map_of (dict_set k v d) = (map_of d)(k \<mapsto> v)"
  by (induction k v d rule: dict_set.induct) (auto simp: fun_upd_twist)

lemma map_of_dict_del: "map_of (dict_del k d) k' = (if k' = k then None else map_of d k')"
  by (induction d) (auto simp: dict_del_def)

lemma keys_dict_set: "fst ` set (dict_set k v d) = insert k (fst ` set d)"
  by (induction k v d rule: dict_set.induct) auto

lemma dict_ok_set: "dict_ok d \<Longrightarrow> dict_ok (dict_set k v d)"
proof (induction k v d rule: dict_set.induct)
  case (2 k v k' v' d)
  then show ?case
    using keys_dict_set [of k v d] by (auto simp: dict_ok_def)
qed (simp add: dict_ok_def)

lemma dict_ok_del: "dict_ok d \<Longrightarrow> dict_ok (dict_del k d)"
  by (auto simp: dict_ok_def dict_del_def distinct_map inj_on_def)

lemma dict_set_new: "map_of d k = None \<Longrightarrow> dict_set k v d = d @ [(k, v)]"
  by (induction k v d rule: dict_set.induct) (auto split: if_splits)

lemma dict_ok_value: "dict_ok d \<Longrightarrow> (k, v) \<in> set d \<Longrightarrow> map_of d k = Some v"
  by (simp add: dict_ok_def)

subsection \<open>Stores\<close>

text \<open>
  What a client may assume of a store with keys: a lookup returns what was last put under the key,
  and the other keys are not disturbed.
\<close>

locale keyed_store =
  fixes find_key_in :: "'s \<Rightarrow> 'k \<Rightarrow> 'v option"
    and put :: "'k \<Rightarrow> 'v \<Rightarrow> 's \<Rightarrow> 's"
    and erase :: "'k \<Rightarrow> 's \<Rightarrow> 's"
  assumes find_put: "find_key_in (put k v s) k' = (if k' = k then Some v else find_key_in s k')"
    and find_erase: "find_key_in (erase k s) k' = (if k' = k then None else find_key_in s k')"
begin

lemma put_get: "find_key_in (put k v s) k = Some v"
  by (simp add: find_put)

lemma put_other: "k' \<noteq> k \<Longrightarrow> find_key_in (put k v s) k' = find_key_in s k'"
  by (simp add: find_put)

lemma put_put: "find_key_in (put k v' (put k v s)) = find_key_in (put k v' s)"
  by (rule ext) (simp add: find_put)

lemma erase_put: "find_key_in (erase k (put k v s)) = find_key_in (erase k s)"
  by (rule ext) (simp add: find_put find_erase)

end

interpretation dict: keyed_store map_of dict_set dict_del
  by unfold_locales (simp_all add: map_of_dict_del)

subsection \<open>Transition systems\<close>

inductive reach :: "('s \<Rightarrow> bool) \<Rightarrow> ('s \<Rightarrow> 's \<Rightarrow> bool) \<Rightarrow> 's \<Rightarrow> bool" for init step where
  reach_init: "init s \<Longrightarrow> reach init step s"
| reach_step: "reach init step s \<Longrightarrow> step s t \<Longrightarrow> reach init step t"

text \<open>A component whose every operation keeps an invariant.\<close>

locale invariant_system =
  fixes init :: "'s \<Rightarrow> bool"
    and step :: "'s \<Rightarrow> 's \<Rightarrow> bool"
    and inv :: "'s \<Rightarrow> bool"
  assumes inv_init: "init s \<Longrightarrow> inv s"
    and inv_step: "step s t \<Longrightarrow> inv s \<Longrightarrow> inv t"
begin

lemma reach_inv: "reach init step s \<Longrightarrow> inv s"
  by (induction rule: reach.induct) (auto intro: inv_init inv_step)

lemma steps_inv: "step\<^sup>*\<^sup>* s t \<Longrightarrow> inv s \<Longrightarrow> inv t"
  by (induction rule: rtranclp_induct) (auto intro: inv_step)

end

text \<open>
  An abstraction of the state that every operation moves along the abstract transitions, none or
  several at a time.
\<close>

locale simulation = invariant_system init step inv
  for init :: "'s \<Rightarrow> bool" and step :: "'s \<Rightarrow> 's \<Rightarrow> bool" and inv :: "'s \<Rightarrow> bool" +
  fixes abs :: "'s \<Rightarrow> 'a"
    and abs_step :: "'a \<Rightarrow> 'a \<Rightarrow> bool"
  assumes sim_step: "step s t \<Longrightarrow> inv s \<Longrightarrow> abs_step\<^sup>*\<^sup>* (abs s) (abs t)"
begin

lemma sim_steps: "step\<^sup>*\<^sup>* s t \<Longrightarrow> inv s \<Longrightarrow> abs_step\<^sup>*\<^sup>* (abs s) (abs t)"
proof (induction rule: rtranclp_induct)
  case (step t u)
  then have "abs_step\<^sup>*\<^sup>* (abs t) (abs u)"
    by (auto intro: sim_step steps_inv)
  with step show ?case by (auto intro: rtranclp_trans)
qed simp

lemma sim_preserves:
  assumes "step\<^sup>*\<^sup>* s t" and "inv s" and "P (abs s)"
    and "\<And>p q. abs_step p q \<Longrightarrow> P p \<Longrightarrow> P q"
  shows "P (abs t)"
  using sim_steps [OF assms(1,2)] assms(3,4) by (induction rule: rtranclp_induct) auto

end

end
