(* ===== verification/PyDate.thy ===== *)
theory PyDate
  imports Prelude
begin

section \<open>Calendar dates and JSON text, as the Python standard library has them\<close>

text \<open>
  \<open>datetime.date\<close> with its ordinal and its ISO form, written and read, and the value tree and compact rendering of
  \<open>json.dumps(..., separators=(",", ":"), sort_keys=True)\<close>.
\<close>

subsection \<open>Dates\<close>

record py_date =
  d_year :: nat
  d_month :: nat
  d_day :: nat

definition is_leap :: "nat \<Rightarrow> bool" where
  "is_leap y \<longleftrightarrow> y mod 4 = 0 \<and> (y mod 100 \<noteq> 0 \<or> y mod 400 = 0)"

definition days_in_month :: "nat \<Rightarrow> nat \<Rightarrow> nat" where
  "days_in_month y m =
     (if m = 2 then (if is_leap y then 29 else 28)
      else if m \<in> {4, 6, 9, 11} then 30 else 31)"

definition valid_date :: "py_date \<Rightarrow> bool" where
  "valid_date d \<longleftrightarrow>
     1 \<le> d_year d \<and> d_year d \<le> 9999 \<and> 1 \<le> d_month d \<and> d_month d \<le> 12 \<and>
     1 \<le> d_day d \<and> d_day d \<le> days_in_month (d_year d) (d_month d)"

definition days_before_year :: "nat \<Rightarrow> int" where
  "days_before_year y =
     (let k = int y - 1 in 365 * k + k div 4 - k div 100 + k div 400)"

definition days_before_month :: "nat \<Rightarrow> nat \<Rightarrow> int" where
  "days_before_month y m = int (sum_list (map (days_in_month y) [1..<m]))"

definition date_ordinal :: "py_date \<Rightarrow> int" where
  "date_ordinal d =
     days_before_year (d_year d) + days_before_month (d_year d) (d_month d) + int (d_day d)"

text \<open>Python compares dates by (year, month, day).\<close>

definition date_key :: "py_date \<Rightarrow> nat \<times> nat \<times> nat" where
  "date_key d = (d_year d, d_month d, d_day d)"

fun digits_of :: "nat \<Rightarrow> nat \<Rightarrow> string" where
  "digits_of 0 n = []"
| "digits_of (Suc k) n = digits_of k (n div 10) @ [char_of (48 + n mod 10)]"

definition isoformat :: "py_date \<Rightarrow> string" where
  "isoformat d = digits_of 4 (d_year d) @ ''-'' @ digits_of 2 (d_month d) @ ''-'' @ digits_of 2 (d_day d)"

lemma length_digits_of [simp]: "length (digits_of k n) = k"
  by (induction k arbitrary: n) auto

lemma length_isoformat [simp]: "length (isoformat d) = 10"
  by (simp add: isoformat_def)

lemma digits_of_digit: "c \<in> set (digits_of k n) \<Longrightarrow> is_digit c"
  by (induction k arbitrary: n) (auto simp: is_digit_def char_code_char_of)

text \<open>
  \<open>date.fromisoformat\<close>: every Python reads the form \<open>YYYY-MM-DD\<close>; the other forms that releases after
  3.10 read are an argument.
\<close>

definition iso_form :: "string \<Rightarrow> bool" where
  "iso_form s \<longleftrightarrow> length s = 10 \<and> s ! 4 = CHR ''-'' \<and> s ! 7 = CHR ''-'' \<and>
     list_all is_digit (take 4 s @ take 2 (drop 5 s) @ drop 8 s)"

definition digits_number :: "string \<Rightarrow> nat" where
  "digits_number s = foldl (\<lambda>n c. 10 * n + (char_code c - 48)) 0 s"

definition iso_date :: "string \<Rightarrow> py_date" where
  "iso_date s = \<lparr>d_year = digits_number (take 4 s), d_month = digits_number (take 2 (drop 5 s)),
     d_day = digits_number (drop 8 s)\<rparr>"

definition fromisoformat :: "(string \<Rightarrow> py_date option) \<Rightarrow> string \<Rightarrow> py_date option" where
  "fromisoformat other s =
     (if iso_form s then (if valid_date (iso_date s) then Some (iso_date s) else None) else other s)"

lemma digits_number_snoc: "digits_number (s @ [c]) = 10 * digits_number s + (char_code c - 48)"
  by (simp add: digits_number_def)

lemma digits_number_digits_of: "digits_number (digits_of k n) = n mod 10 ^ k"
proof (induction k arbitrary: n)
  case (Suc k)
  have "n mod 10 ^ Suc k = 10 * (n div 10 mod 10 ^ k) + n mod 10"
    by (simp add: mod_mult2_eq)
  then show ?case
    using Suc by (simp add: digits_number_snoc char_code_char_of)
qed (simp add: digits_number_def)

lemma fromisoformat_isoformat:
  assumes "valid_date d"
  shows "fromisoformat other (isoformat d) = Some d"
proof -
  let ?y = "digits_of 4 (d_year d)" and ?m = "digits_of 2 (d_month d)" and ?d = "digits_of 2 (d_day d)"
  have parts: "take 4 (isoformat d) = ?y" "take 2 (drop 5 (isoformat d)) = ?m" "drop 8 (isoformat d) = ?d"
    "isoformat d ! 4 = CHR ''-''" "isoformat d ! 7 = CHR ''-''"
    by (simp_all add: isoformat_def nth_append)
  have day: "d_day d < 100"
    using assms by (auto simp: valid_date_def days_in_month_def split: if_splits)
  have "iso_date (isoformat d) = d"
    using assms day unfolding iso_date_def parts digits_number_digits_of by (simp add: valid_date_def)
  moreover have "iso_form (isoformat d)"
    unfolding iso_form_def parts by (auto simp: list_all_iff dest: digits_of_digit)
  ultimately show ?thesis using assms by (simp add: fromisoformat_def)
qed

text \<open>The ordinal orders valid dates as the calendar does.\<close>

definition year_length :: "nat \<Rightarrow> int" where
  "year_length y = (if is_leap y then 366 else 365)"

lemma days_before_month_step:
  "1 \<le> m \<Longrightarrow> days_before_month y (Suc m) = days_before_month y m + int (days_in_month y m)"
  by (simp add: days_before_month_def)

lemma days_before_month_mono:
  assumes "1 \<le> m" and "m < m'"
  shows "days_before_month y m + int (days_in_month y m) \<le> days_before_month y m'"
  using assms(2)
proof (induction m')
  case (Suc k)
  show ?case
  proof (cases "m = k")
    case True
    then show ?thesis using assms(1) by (simp add: days_before_month_step)
  next
    case False
    with Suc show ?thesis using assms(1) by (simp add: days_before_month_step)
  qed
qed simp

lemma days_before_month_13: "days_before_month y 13 = year_length y"
  by (simp add: days_before_month_def days_in_month_def year_length_def upt_rec)

lemma div_step: "0 < n \<Longrightarrow> (k + 1) div n - k div n = (if (k + 1) mod n = 0 then 1 else 0)" for k n :: int
proof -
  assume n: "0 < n"
  show ?thesis
  proof (cases "(k + 1) mod n = 0")
    case True
    then obtain q where q: "k + 1 = n * q" by (auto simp: mod_eq_0_iff_dvd dvd_def)
    have "k = n * (q - 1) + (n - 1)"
      using q by (simp add: right_diff_distrib)
    then have "k div n = q - 1"
      using n int_div_pos_eq [of k n "q - 1" "n - 1"] by simp
    moreover have "(k + 1) div n = q" using q n by simp
    ultimately show ?thesis using True by simp
  next
    case False
    have m: "(k + 1) mod n = (k mod n + 1) mod n" by (simp add: mod_add_left_eq)
    have b: "0 \<le> k mod n" "k mod n < n" using n by simp_all
    with False m have lt: "k mod n + 1 < n"
      by (metis add1_zle_eq le_less mod_self)
    have "k + 1 = n * (k div n) + (k mod n + 1)" by simp
    then have "(k + 1) div n = k div n"
      using lt b int_div_pos_eq [of "k + 1" n "k div n" "k mod n + 1"] by simp
    with False show ?thesis by simp
  qed
qed

lemma year_sum:
  "x4 = k4 + a \<Longrightarrow> x100 = k100 + b \<Longrightarrow> x400 = k400 + c \<Longrightarrow> l = 365 + a - b + c \<Longrightarrow>
   365 * y + x4 - x100 + x400 = 365 * (y - 1) + k4 - k100 + k400 + l" for y :: int
  by simp

lemma days_before_year_step:
  assumes "1 \<le> y"
  shows "days_before_year (Suc y) = days_before_year y + year_length y"
proof -
  have m: "(int y mod int n = 0) = (y mod n = 0)" for n
    by (metis of_nat_eq_0_iff of_nat_mod)
  have d4: "int y div 4 = (int y - 1) div 4 + (if y mod 4 = 0 then 1 else 0)"
    using div_step [of 4 "int y - 1"] m [of 4] by (simp split: if_splits)
  have d100: "int y div 100 = (int y - 1) div 100 + (if y mod 100 = 0 then 1 else 0)"
    using div_step [of 100 "int y - 1"] m [of 100] by (simp split: if_splits)
  have d400: "int y div 400 = (int y - 1) div 400 + (if y mod 400 = 0 then 1 else 0)"
    using div_step [of 400 "int y - 1"] m [of 400] by (simp split: if_splits)
  have i: "y mod 400 = 0 \<Longrightarrow> y mod 100 = 0" "y mod 100 = 0 \<Longrightarrow> y mod 4 = 0"
    using dvd_trans [of 100 400 y] dvd_trans [of 4 100 y] by (simp_all add: mod_eq_0_iff_dvd)
  have l: "year_length y = 365 + (if y mod 4 = 0 then 1 else 0) - (if y mod 100 = 0 then 1 else 0)
             + (if y mod 400 = 0 then 1 else 0)"
    using i by (cases "y mod 4 = 0"; cases "y mod 100 = 0"; cases "y mod 400 = 0")
      (simp_all add: year_length_def is_leap_def)
  have suc: "int (Suc y) - 1 = int y" by simp
  show ?thesis
    unfolding days_before_year_def Let_def suc by (rule year_sum [OF d4 d100 d400 l])
qed

lemma days_before_year_mono:
  assumes "1 \<le> y" and "y < y'"
  shows "days_before_year y + year_length y \<le> days_before_year y'"
  using assms(2)
proof (induction y')
  case (Suc k)
  show ?case
  proof (cases "y = k")
    case True
    then show ?thesis using assms(1) by (simp add: days_before_year_step)
  next
    case False
    with Suc assms(1) show ?thesis
      by (simp add: days_before_year_step year_length_def split: if_splits)
  qed
qed simp

lemma day_of_year_bounds:
  assumes "valid_date d"
  shows "1 \<le> days_before_month (d_year d) (d_month d) + int (d_day d)"
    and "days_before_month (d_year d) (d_month d) + int (d_day d) \<le> year_length (d_year d)"
proof -
  show "1 \<le> days_before_month (d_year d) (d_month d) + int (d_day d)"
    using assms by (simp add: valid_date_def days_before_month_def)
  have "days_before_month (d_year d) (d_month d) + int (days_in_month (d_year d) (d_month d))
          \<le> days_before_month (d_year d) 13"
    by (rule days_before_month_mono) (use assms in \<open>simp_all add: valid_date_def\<close>)
  with assms show "days_before_month (d_year d) (d_month d) + int (d_day d) \<le> year_length (d_year d)"
    by (simp add: valid_date_def days_before_month_13)
qed

lemma date_ordinal_mono:
  assumes "valid_date a" and "valid_date b" and "date_key a < date_key b"
  shows "date_ordinal a < date_ordinal b"
proof -
  note bounds = day_of_year_bounds [OF assms(1)] day_of_year_bounds [OF assms(2)]
  consider "d_year a < d_year b"
    | "d_year a = d_year b" "d_month a < d_month b"
    | "d_year a = d_year b" "d_month a = d_month b" "d_day a < d_day b"
    using assms(3) by (auto simp: date_key_def less_prod_def' split: if_splits)
  then show ?thesis
  proof cases
    case 1
    then have "days_before_year (d_year a) + year_length (d_year a) \<le> days_before_year (d_year b)"
      using assms(1) by (intro days_before_year_mono) (simp_all add: valid_date_def)
    with bounds show ?thesis by (simp add: date_ordinal_def)
  next
    case 2
    then have "days_before_month (d_year a) (d_month a) + int (days_in_month (d_year a) (d_month a))
                 \<le> days_before_month (d_year a) (d_month b)"
      using assms(1) by (intro days_before_month_mono) (simp_all add: valid_date_def)
    with 2 assms show ?thesis by (simp add: date_ordinal_def valid_date_def)
  next
    case 3
    then show ?thesis by (simp add: date_ordinal_def)
  qed
qed

subsection \<open>JSON\<close>

datatype json =
    JNull
  | JBool bool
  | JInt int
  | JFloat string
  | JStr string
  | JArr "json list"
  | JObj "(string \<times> json) list"

definition escape_char :: "char \<Rightarrow> string" where
  "escape_char c =
     (if c = CHR 34 then [CHR 92, CHR 34]
      else if c = CHR 92 then [CHR 92, CHR 92]
      else if c = CHR 8 then [CHR 92, CHR ''b'']
      else if c = CHR 9 then [CHR 92, CHR ''t'']
      else if c = CHR 10 then [CHR 92, CHR ''n'']
      else if c = CHR 12 then [CHR 92, CHR ''f'']
      else if c = CHR 13 then [CHR 92, CHR ''r'']
      else [c])"

text \<open>
  The characters \<open>json.dumps\<close> copies as they are: printable ASCII other than the quote and the
  backslash.  Every string of a validated goal consists of these.
\<close>

definition plain_char :: "char \<Rightarrow> bool" where
  "plain_char c \<longleftrightarrow> 32 \<le> char_code c \<and> char_code c < 127 \<and> c \<noteq> CHR 34 \<and> c \<noteq> CHR 92"

definition render_string :: "string \<Rightarrow> string" where
  "render_string s = [CHR 34] @ concat (map escape_char s) @ [CHR 34]"

fun int_digits :: "nat \<Rightarrow> string" where
  "int_digits n = (if n < 10 then [char_of (48 + n)] else int_digits (n div 10) @ [char_of (48 + n mod 10)])"

declare int_digits.simps [simp del]

definition render_int :: "int \<Rightarrow> string" where
  "render_int i = (if i < 0 then ''-'' @ int_digits (nat (- i)) else int_digits (nat i))"

fun join :: "string \<Rightarrow> string list \<Rightarrow> string" where
  "join sep [] = []"
| "join sep [s] = s"
| "join sep (s # t # ts) = s @ sep @ join sep (t # ts)"

fun render :: "json \<Rightarrow> string" where
  "render JNull = ''null''"
| "render (JBool b) = (if b then ''true'' else ''false'')"
| "render (JInt i) = render_int i"
| "render (JFloat s) = s"
| "render (JStr s) = render_string s"
| "render (JArr js) = ''['' @ join '','' (map render js) @ '']''"
| "render (JObj kvs) =
     ''{'' @ join '','' (map (\<lambda>(k, v). render_string k @ '':'' @ render v) kvs) @ ''}''"

lemma escape_char_plain: "plain_char c \<Longrightarrow> escape_char c = [c]"
  by (auto simp: plain_char_def escape_char_def char_code_def)

lemma render_string_plain:
  "\<forall>c \<in> set s. plain_char c \<Longrightarrow> render_string s = [CHR 34] @ s @ [CHR 34]"
proof -
  assume "\<forall>c \<in> set s. plain_char c"
  then have "concat (map escape_char s) = s"
    by (induction s) (simp_all add: escape_char_plain)
  then show ?thesis by (simp add: render_string_def)
qed

lemma length_escape_char: "length (escape_char c) \<le> 2"
  by (simp add: escape_char_def)

lemma length_render_string_plain:
  "\<forall>c \<in> set s. plain_char c \<Longrightarrow> length (render_string s) = length s + 2"
  by (simp add: render_string_plain)

lemma length_join: "length (join [c] ss) \<le> (\<Sum>s\<leftarrow>ss. length s + 1)"
  by (induction "[c]" ss rule: join.induct) auto

lemma alnum_plain: "is_alnum c \<Longrightarrow> plain_char c"
  by (auto simp: is_alnum_def is_upper_letter_def is_lower_letter_def is_digit_def plain_char_def
      char_code_def)

end
