(* ===== verification/Goals.thy ===== *)
theory Goals
  imports PyDate
begin

section \<open>Provisioning goals (\<open>provisioning_queue/models.py\<close>)\<close>

text \<open>
  The finite goals a client may submit to the durable queue, the validators of their fields,
  their canonical JSON payload and its parser, and the identity under which two submissions
  are the same goal.

  A goal value of type \<open>goal\<close> is what pydantic has read from the caller or from JSON, field by
  field with its declared type; \<open>typed_goal\<close> is the strict reading of a JSON object that the field
  declarations ask for, and \<open>validate_goal\<close> is the validators the source adds.  \<open>json.loads\<close>,
  pydantic's reading of a date and \<open>sha256\<close> are the parameters \<open>codec\<close> of the functions that call
  them.
\<close>

subsection \<open>Enumerations\<close>

datatype goal_type = ENSURE_CURRENT_SYMBOL | SYNC_DATASET_RANGE | FINALIZE_MARKET_SESSION

fun goal_type_value :: "goal_type \<Rightarrow> string" where
  "goal_type_value ENSURE_CURRENT_SYMBOL = ''ENSURE_CURRENT_SYMBOL''"
| "goal_type_value SYNC_DATASET_RANGE = ''SYNC_DATASET_RANGE''"
| "goal_type_value FINALIZE_MARKET_SESSION = ''FINALIZE_MARKET_SESSION''"

datatype goal_enrichment =
    COMPANY_CONTEXT
  | SESSION_CONTEXT
  | FUNDAMENTAL_CONTEXT
  | OFFICIAL_EVENT_CONTEXT
  | SHARE_COUNT_CONTEXT
  | FLOW_CONTEXT
  | VALUATION_CONTEXT

fun enrichment_value :: "goal_enrichment \<Rightarrow> string" where
  "enrichment_value COMPANY_CONTEXT = ''COMPANY_CONTEXT''"
| "enrichment_value SESSION_CONTEXT = ''SESSION_CONTEXT''"
| "enrichment_value FUNDAMENTAL_CONTEXT = ''FUNDAMENTAL_CONTEXT''"
| "enrichment_value OFFICIAL_EVENT_CONTEXT = ''OFFICIAL_EVENT_CONTEXT''"
| "enrichment_value SHARE_COUNT_CONTEXT = ''SHARE_COUNT_CONTEXT''"
| "enrichment_value FLOW_CONTEXT = ''FLOW_CONTEXT''"
| "enrichment_value VALUATION_CONTEXT = ''VALUATION_CONTEXT''"

lemma enrichment_value_inj: "enrichment_value a = enrichment_value b \<longleftrightarrow> a = b"
  by (cases a; cases b) simp_all

text \<open>Enrichments are ordered by their value, the key of the \<open>sorted\<close> call.\<close>

instantiation goal_enrichment :: linorder
begin

definition less_eq_goal_enrichment :: "goal_enrichment \<Rightarrow> goal_enrichment \<Rightarrow> bool" where
  "less_eq_goal_enrichment a b \<longleftrightarrow> enrichment_value a \<le> enrichment_value b"

definition less_goal_enrichment :: "goal_enrichment \<Rightarrow> goal_enrichment \<Rightarrow> bool" where
  "less_goal_enrichment a b \<longleftrightarrow> enrichment_value a < enrichment_value b"

instance
  by standard
    (auto simp: less_eq_goal_enrichment_def less_goal_enrichment_def
      enrichment_value_inj [symmetric] not_less dest: order_antisym)

end

datatype refresh_mode = CACHE_FIRST | FORCE_REFRESH

fun refresh_mode_value :: "refresh_mode \<Rightarrow> string" where
  "refresh_mode_value CACHE_FIRST = ''CACHE_FIRST''"
| "refresh_mode_value FORCE_REFRESH = ''FORCE_REFRESH''"

datatype queue_dataset = INDEX_OHLCV

fun queue_dataset_value :: "queue_dataset \<Rightarrow> string" where
  "queue_dataset_value INDEX_OHLCV = ''index.ohlcv''"

datatype queue_entity_type = INDEX

fun queue_entity_type_value :: "queue_entity_type \<Rightarrow> string" where
  "queue_entity_type_value INDEX = ''index''"

datatype readiness_capability = PRICE_ANALYSIS | CANDIDATE_RANKING

fun readiness_capability_value :: "readiness_capability \<Rightarrow> string" where
  "readiness_capability_value PRICE_ANALYSIS = ''PRICE_ANALYSIS''"
| "readiness_capability_value CANDIDATE_RANKING = ''CANDIDATE_RANKING''"

subsection \<open>Contract versions and patterns\<close>

definition current_goal_schema_version :: int where
  "current_goal_schema_version = 1"

definition max_goal_payload_bytes :: nat where
  "max_goal_payload_bytes = 4096"

definition max_dataset_range_days :: int where
  "max_dataset_range_days = 366"

definition supported_source_policy_version :: string where
  "supported_source_policy_version = ''policy-v1''"

fun supported_contract_versions :: "goal_type \<Rightarrow> string" where
  "supported_contract_versions ENSURE_CURRENT_SYMBOL = ''current-symbol-v1''"
| "supported_contract_versions SYNC_DATASET_RANGE = ''dataset-range-v1''"
| "supported_contract_versions FINALIZE_MARKET_SESSION = ''finalization-v1''"

text \<open>
  \<open>_VERSION_PATTERN\<close> and \<open>_ENTITY_ID_PATTERN\<close> are the same regular expression; both are
  matched with \<open>fullmatch\<close>.
\<close>

definition identifier_char :: "char \<Rightarrow> bool" where
  "identifier_char c \<longleftrightarrow> is_alnum c \<or> c \<in> set ''._-''"

definition identifier_pattern :: "string \<Rightarrow> bool" where
  "identifier_pattern s =
     (case s of [] \<Rightarrow> False
      | c # cs \<Rightarrow> is_alnum c \<and> length cs \<le> 63 \<and>
          list_all identifier_char cs)"

definition symbol_pattern :: "string \<Rightarrow> bool" where
  "symbol_pattern s =
     (case s of [] \<Rightarrow> False
      | c # cs \<Rightarrow> is_upper_letter c \<and> length cs \<le> 9 \<and>
          list_all (\<lambda>x. is_upper_letter x \<or> is_digit x) cs)"

definition normalize_version :: "string \<Rightarrow> string \<Rightarrow> string + string" where
  "normalize_version value field_name =
     (let normalized = strip value in
      if \<not> identifier_pattern normalized
      then Inl (field_name @ '' must be a bounded version identifier'')
      else Inr normalized)"

definition supported_contract_version :: "string \<Rightarrow> goal_type \<Rightarrow> string \<Rightarrow> string + string" where
  "supported_contract_version value gt field_name =
     res_bind (normalize_version value field_name) (\<lambda>normalized.
       if normalized \<noteq> supported_contract_versions gt
       then Inl (field_name @ '' is unsupported'') else Inr normalized)"

subsection \<open>The goal models\<close>

record ensure_goal =
  eg_source_policy_version :: string
  eg_symbol :: string
  eg_effective_date :: py_date
  eg_desired_capability :: readiness_capability
  eg_allowed_fallback :: "readiness_capability option"
  eg_requested_enrichments :: "goal_enrichment list"
  eg_refresh_mode :: refresh_mode
  eg_contract_version :: string

record sync_goal =
  sg_source_policy_version :: string
  sg_dataset :: queue_dataset
  sg_entity_type :: queue_entity_type
  sg_entity_id :: string
  sg_start_date :: py_date
  sg_end_date :: py_date
  sg_refresh_mode :: refresh_mode
  sg_contract_version :: string

record finalize_goal =
  fg_source_policy_version :: string
  fg_maintenance_run_id :: string
  fg_resolved_session :: py_date
  fg_frozen_universe_hash :: string
  fg_finalization_contract_version :: string

datatype goal =
    EnsureCurrentSymbolGoal ensure_goal
  | SyncDatasetRangeGoal sync_goal
  | FinalizeMarketSessionGoal finalize_goal

fun goal_type_of :: "goal \<Rightarrow> goal_type" where
  "goal_type_of (EnsureCurrentSymbolGoal g) = ENSURE_CURRENT_SYMBOL"
| "goal_type_of (SyncDatasetRangeGoal g) = SYNC_DATASET_RANGE"
| "goal_type_of (FinalizeMarketSessionGoal g) = FINALIZE_MARKET_SESSION"

subsection \<open>Field validators\<close>

definition normalize_source_policy_version :: "string \<Rightarrow> string + string" where
  "normalize_source_policy_version value =
     res_bind (normalize_version value ''source_policy_version'') (\<lambda>normalized.
       if normalized \<noteq> supported_source_policy_version
       then Inl ''source_policy_version is unsupported'' else Inr normalized)"

definition normalize_symbol :: "string \<Rightarrow> string + string" where
  "normalize_symbol value =
     (let normalized = upper (strip value) in
      if \<not> symbol_pattern normalized then Inl ''symbol must be a valid exchange symbol''
      else Inr normalized)"

definition normalize_enrichments :: "goal_enrichment list \<Rightarrow> goal_enrichment list" where
  "normalize_enrichments value = sort (remdups value)"

definition normalize_entity_id :: "string \<Rightarrow> string + string" where
  "normalize_entity_id value =
     (let normalized = strip value in
      if \<not> identifier_pattern normalized then Inl ''entity_id must be a bounded identifier''
      else Inr normalized)"

text \<open>
  pydantic runs every field validator and collects their errors; the model validator runs when
  no field failed.
\<close>

fun error_of :: "string + 'a \<Rightarrow> string list" where
  "error_of (Inl m) = [m]"
| "error_of (Inr _) = []"

definition validate_ensure :: "ensure_goal \<Rightarrow> string list + ensure_goal" where
  "validate_ensure g =
     (let policy = normalize_source_policy_version (eg_source_policy_version g);
          sym = normalize_symbol (eg_symbol g);
          contract = supported_contract_version (eg_contract_version g)
                       ENSURE_CURRENT_SYMBOL ''contract_version'';
          errors = error_of policy @ error_of sym @ error_of contract in
      if errors \<noteq> [] then Inl errors
      else if eg_allowed_fallback g \<noteq> None \<and>
              (eg_desired_capability g \<noteq> CANDIDATE_RANKING \<or>
               eg_allowed_fallback g \<noteq> Some PRICE_ANALYSIS)
      then Inl [''allowed_fallback must be a lower readiness capability'']
      else Inr (g\<lparr>eg_source_policy_version := projr policy,
                 eg_symbol := projr sym,
                 eg_requested_enrichments := normalize_enrichments (eg_requested_enrichments g),
                 eg_contract_version := projr contract\<rparr>))"

definition validate_sync :: "sync_goal \<Rightarrow> string list + sync_goal" where
  "validate_sync g =
     (let policy = normalize_source_policy_version (sg_source_policy_version g);
          entity = normalize_entity_id (sg_entity_id g);
          contract = supported_contract_version (sg_contract_version g)
                       SYNC_DATASET_RANGE ''contract_version'';
          errors = error_of policy @ error_of entity @ error_of contract in
      if errors \<noteq> [] then Inl errors
      else if date_key (sg_end_date g) < date_key (sg_start_date g)
      then Inl [''start_date must not be after end_date'']
      else if max_dataset_range_days <
                date_ordinal (sg_end_date g) - date_ordinal (sg_start_date g)
      then Inl [''dataset range exceeds the maximum allowed duration'']
      else Inr (g\<lparr>sg_source_policy_version := projr policy,
                 sg_entity_id := projr entity,
                 sg_contract_version := projr contract\<rparr>))"

definition validate_finalize :: "finalize_goal \<Rightarrow> string list + finalize_goal" where
  "validate_finalize g =
     (let policy = normalize_source_policy_version (fg_source_policy_version g);
          run = normalize_version (fg_maintenance_run_id g) ''goal identity field'';
          hash = normalize_version (fg_frozen_universe_hash g) ''goal identity field'';
          contract = supported_contract_version (fg_finalization_contract_version g)
                       FINALIZE_MARKET_SESSION ''finalization_contract_version'';
          errors = error_of policy @ error_of run @ error_of hash @ error_of contract in
      if errors \<noteq> [] then Inl errors
      else Inr (g\<lparr>fg_source_policy_version := projr policy,
                 fg_maintenance_run_id := projr run,
                 fg_frozen_universe_hash := projr hash,
                 fg_finalization_contract_version := projr contract\<rparr>))"

fun validate_goal :: "goal \<Rightarrow> string list + goal" where
  "validate_goal (EnsureCurrentSymbolGoal g) =
     res_bind (validate_ensure g) (\<lambda>g'. Inr (EnsureCurrentSymbolGoal g'))"
| "validate_goal (SyncDatasetRangeGoal g) =
     res_bind (validate_sync g) (\<lambda>g'. Inr (SyncDatasetRangeGoal g'))"
| "validate_goal (FinalizeMarketSessionGoal g) =
     res_bind (validate_finalize g) (\<lambda>g'. Inr (FinalizeMarketSessionGoal g'))"

text \<open>A goal object the constructors can return: its validators leave it as it is.\<close>

definition valid_goal :: "goal \<Rightarrow> bool" where
  "valid_goal g \<longleftrightarrow> validate_goal g = Inr g"

subsection \<open>Payload, parser, identity\<close>

fun option_json :: "('a \<Rightarrow> json) \<Rightarrow> 'a option \<Rightarrow> json" where
  "option_json f None = JNull"
| "option_json f (Some x) = f x"

fun model_dump :: "goal \<Rightarrow> (string \<times> json) list" where
  "model_dump (EnsureCurrentSymbolGoal g) =
     [(''source_policy_version'', JStr (eg_source_policy_version g)),
      (''goal_type'', JStr (goal_type_value ENSURE_CURRENT_SYMBOL)),
      (''schema_version'', JInt current_goal_schema_version),
      (''symbol'', JStr (eg_symbol g)),
      (''effective_date'', JStr (isoformat (eg_effective_date g))),
      (''desired_capability'', JStr (readiness_capability_value (eg_desired_capability g))),
      (''allowed_fallback'',
         option_json (\<lambda>c. JStr (readiness_capability_value c)) (eg_allowed_fallback g)),
      (''requested_enrichments'',
         JArr (map (\<lambda>e. JStr (enrichment_value e)) (eg_requested_enrichments g))),
      (''refresh_mode'', JStr (refresh_mode_value (eg_refresh_mode g))),
      (''contract_version'', JStr (eg_contract_version g))]"
| "model_dump (SyncDatasetRangeGoal g) =
     [(''source_policy_version'', JStr (sg_source_policy_version g)),
      (''goal_type'', JStr (goal_type_value SYNC_DATASET_RANGE)),
      (''schema_version'', JInt current_goal_schema_version),
      (''dataset'', JStr (queue_dataset_value (sg_dataset g))),
      (''entity_type'', JStr (queue_entity_type_value (sg_entity_type g))),
      (''entity_id'', JStr (sg_entity_id g)),
      (''start_date'', JStr (isoformat (sg_start_date g))),
      (''end_date'', JStr (isoformat (sg_end_date g))),
      (''refresh_mode'', JStr (refresh_mode_value (sg_refresh_mode g))),
      (''contract_version'', JStr (sg_contract_version g))]"
| "model_dump (FinalizeMarketSessionGoal g) =
     [(''source_policy_version'', JStr (fg_source_policy_version g)),
      (''goal_type'', JStr (goal_type_value FINALIZE_MARKET_SESSION)),
      (''schema_version'', JInt current_goal_schema_version),
      (''maintenance_run_id'', JStr (fg_maintenance_run_id g)),
      (''resolved_session'', JStr (isoformat (fg_resolved_session g))),
      (''frozen_universe_hash'', JStr (fg_frozen_universe_hash g)),
      (''finalization_contract_version'', JStr (fg_finalization_contract_version g))]"

text \<open>\<open>sort_keys=True\<close>: the members of a goal are scalars and arrays of strings, so only the outer
  object has keys to sort.\<close>

definition goal_object :: "goal \<Rightarrow> json" where
  "goal_object g = JObj (sort_key fst (model_dump g))"

definition payload_json :: "goal \<Rightarrow> string" where
  "payload_json g = render (goal_object g)"

record codec =
  c_loads :: "string \<Rightarrow> json option"
  c_date :: "string \<Rightarrow> py_date option"
  c_sha256 :: "string \<Rightarrow> string"

text \<open>\<open>_reject_duplicate_keys\<close> sees every object of the document, the inner ones first.\<close>

fun has_duplicate_member :: "json \<Rightarrow> bool" where
  "has_duplicate_member (JArr js) = list_ex has_duplicate_member js"
| "has_duplicate_member (JObj kvs) =
     (list_ex (\<lambda>(k, v). has_duplicate_member v) kvs \<or> \<not> distinct (map fst kvs))"
| "has_duplicate_member _ = False"

text \<open>
  What \<open>validate_json(..., strict=True)\<close> does with the members of an object, following the field
  declarations: a value is read at the declared type without conversions, an enumeration by the
  value of a member, a tuple from an array; a declared default stands for a missing member;
  \<open>extra="forbid"\<close> refuses a member that no field declares; and the discriminator \<open>goal_type\<close>, which
  must be there, selects the model.  \<open>None\<close> is a \<open>ValidationError\<close>.
\<close>

fun typed_str :: "json \<Rightarrow> string option" where
  "typed_str (JStr s) = Some s"
| "typed_str _ = None"

definition typed_date :: "(string \<Rightarrow> py_date option) \<Rightarrow> json \<Rightarrow> py_date option" where
  "typed_date date j = Option.bind (typed_str j) date"

definition typed_enum :: "('a \<Rightarrow> string) \<Rightarrow> 'a list \<Rightarrow> json \<Rightarrow> 'a option" where
  "typed_enum value members j = Option.bind (typed_str j) (\<lambda>s. find (\<lambda>m. value m = s) members)"

definition typed_optional :: "(json \<Rightarrow> 'a option) \<Rightarrow> json \<Rightarrow> 'a option option" where
  "typed_optional typed j = (case j of JNull \<Rightarrow> Some None | _ \<Rightarrow> map_option Some (typed j))"

definition typed_tuple :: "(json \<Rightarrow> 'a option) \<Rightarrow> json \<Rightarrow> 'a list option" where
  "typed_tuple typed j = (case j of JArr js \<Rightarrow> those (map typed js) | _ \<Rightarrow> None)"

definition declared_field :: "(json \<Rightarrow> 'a option) \<Rightarrow> (string \<times> json) list \<Rightarrow> string \<Rightarrow> 'a option" where
  "declared_field typed kvs k = Option.bind (map_of kvs k) typed"

definition defaulted_field ::
  "(json \<Rightarrow> 'a option) \<Rightarrow> 'a \<Rightarrow> (string \<times> json) list \<Rightarrow> string \<Rightarrow> 'a option" where
  "defaulted_field typed v kvs k = (case map_of kvs k of None \<Rightarrow> Some v | Some j \<Rightarrow> typed j)"

definition extra_forbidden :: "string list \<Rightarrow> (string \<times> json) list \<Rightarrow> unit option" where
  "extra_forbidden names kvs = (if list_all (\<lambda>(k, j). k \<in> set names) kvs then Some () else None)"

definition typed_schema_version :: "json \<Rightarrow> int option" where
  "typed_schema_version j =
     (if j = JInt current_goal_schema_version then Some current_goal_schema_version else None)"

definition typed_refresh_mode :: "json \<Rightarrow> refresh_mode option" where
  "typed_refresh_mode = typed_enum refresh_mode_value [CACHE_FIRST, FORCE_REFRESH]"

definition typed_capability :: "json \<Rightarrow> readiness_capability option" where
  "typed_capability = typed_enum readiness_capability_value [PRICE_ANALYSIS, CANDIDATE_RANKING]"

definition typed_enrichment :: "json \<Rightarrow> goal_enrichment option" where
  "typed_enrichment = typed_enum enrichment_value
     [COMPANY_CONTEXT, SESSION_CONTEXT, FUNDAMENTAL_CONTEXT, OFFICIAL_EVENT_CONTEXT, SHARE_COUNT_CONTEXT,
      FLOW_CONTEXT, VALUATION_CONTEXT]"

definition typed_ensure ::
  "(string \<Rightarrow> py_date option) \<Rightarrow> (string \<times> json) list \<Rightarrow> ensure_goal option" where
  "typed_ensure date kvs =
     Option.bind (extra_forbidden
       [''source_policy_version'', ''goal_type'', ''schema_version'', ''symbol'', ''effective_date'',
        ''desired_capability'', ''allowed_fallback'', ''requested_enrichments'', ''refresh_mode'',
        ''contract_version''] kvs) (\<lambda>_.
     Option.bind (defaulted_field typed_schema_version current_goal_schema_version kvs ''schema_version'') (\<lambda>_.
     Option.bind (declared_field typed_str kvs ''source_policy_version'') (\<lambda>policy.
     Option.bind (declared_field typed_str kvs ''symbol'') (\<lambda>sym.
     Option.bind (declared_field (typed_date date) kvs ''effective_date'') (\<lambda>day.
     Option.bind (declared_field typed_capability kvs ''desired_capability'') (\<lambda>desired.
     Option.bind (defaulted_field (typed_optional typed_capability) None kvs ''allowed_fallback'') (\<lambda>fallback.
     Option.bind (defaulted_field (typed_tuple typed_enrichment) [] kvs ''requested_enrichments'') (\<lambda>es.
     Option.bind (defaulted_field typed_refresh_mode CACHE_FIRST kvs ''refresh_mode'') (\<lambda>mode.
     Option.bind (declared_field typed_str kvs ''contract_version'') (\<lambda>contract.
       Some \<lparr>eg_source_policy_version = policy, eg_symbol = sym, eg_effective_date = day,
         eg_desired_capability = desired, eg_allowed_fallback = fallback, eg_requested_enrichments = es,
         eg_refresh_mode = mode, eg_contract_version = contract\<rparr>))))))))))"

definition typed_sync ::
  "(string \<Rightarrow> py_date option) \<Rightarrow> (string \<times> json) list \<Rightarrow> sync_goal option" where
  "typed_sync date kvs =
     Option.bind (extra_forbidden
       [''source_policy_version'', ''goal_type'', ''schema_version'', ''dataset'', ''entity_type'',
        ''entity_id'', ''start_date'', ''end_date'', ''refresh_mode'', ''contract_version''] kvs) (\<lambda>_.
     Option.bind (defaulted_field typed_schema_version current_goal_schema_version kvs ''schema_version'') (\<lambda>_.
     Option.bind (declared_field typed_str kvs ''source_policy_version'') (\<lambda>policy.
     Option.bind (declared_field (typed_enum queue_dataset_value [INDEX_OHLCV]) kvs ''dataset'') (\<lambda>dataset.
     Option.bind (declared_field (typed_enum queue_entity_type_value [INDEX]) kvs ''entity_type'') (\<lambda>entity.
     Option.bind (declared_field typed_str kvs ''entity_id'') (\<lambda>entity_id.
     Option.bind (declared_field (typed_date date) kvs ''start_date'') (\<lambda>start.
     Option.bind (declared_field (typed_date date) kvs ''end_date'') (\<lambda>stop.
     Option.bind (defaulted_field typed_refresh_mode CACHE_FIRST kvs ''refresh_mode'') (\<lambda>mode.
     Option.bind (declared_field typed_str kvs ''contract_version'') (\<lambda>contract.
       Some \<lparr>sg_source_policy_version = policy, sg_dataset = dataset, sg_entity_type = entity,
         sg_entity_id = entity_id, sg_start_date = start, sg_end_date = stop, sg_refresh_mode = mode,
         sg_contract_version = contract\<rparr>))))))))))"

definition typed_finalize ::
  "(string \<Rightarrow> py_date option) \<Rightarrow> (string \<times> json) list \<Rightarrow> finalize_goal option" where
  "typed_finalize date kvs =
     Option.bind (extra_forbidden
       [''source_policy_version'', ''goal_type'', ''schema_version'', ''maintenance_run_id'',
        ''resolved_session'', ''frozen_universe_hash'', ''finalization_contract_version''] kvs) (\<lambda>_.
     Option.bind (defaulted_field typed_schema_version current_goal_schema_version kvs ''schema_version'') (\<lambda>_.
     Option.bind (declared_field typed_str kvs ''source_policy_version'') (\<lambda>policy.
     Option.bind (declared_field typed_str kvs ''maintenance_run_id'') (\<lambda>run.
     Option.bind (declared_field (typed_date date) kvs ''resolved_session'') (\<lambda>day.
     Option.bind (declared_field typed_str kvs ''frozen_universe_hash'') (\<lambda>hash.
     Option.bind (declared_field typed_str kvs ''finalization_contract_version'') (\<lambda>contract.
       Some \<lparr>fg_source_policy_version = policy, fg_maintenance_run_id = run, fg_resolved_session = day,
         fg_frozen_universe_hash = hash, fg_finalization_contract_version = contract\<rparr>)))))))"

definition typed_goal :: "(string \<Rightarrow> py_date option) \<Rightarrow> (string \<times> json) list \<Rightarrow> goal option" where
  "typed_goal date kvs =
     Option.bind (declared_field
       (typed_enum goal_type_value [ENSURE_CURRENT_SYMBOL, SYNC_DATASET_RANGE, FINALIZE_MARKET_SESSION])
       kvs ''goal_type'') (\<lambda>gt.
     case gt of
       ENSURE_CURRENT_SYMBOL \<Rightarrow> map_option EnsureCurrentSymbolGoal (typed_ensure date kvs)
     | SYNC_DATASET_RANGE \<Rightarrow> map_option SyncDatasetRangeGoal (typed_sync date kvs)
     | FINALIZE_MARKET_SESSION \<Rightarrow> map_option FinalizeMarketSessionGoal (typed_finalize date kvs))"

datatype invalid_goal = InvalidProvisioningGoalError

definition parse_goal_payload :: "codec \<Rightarrow> string \<Rightarrow> invalid_goal + goal" where
  "parse_goal_payload c s =
     (if max_goal_payload_bytes < length s then Inl InvalidProvisioningGoalError
      else case c_loads c s of
        None \<Rightarrow> Inl InvalidProvisioningGoalError
      | Some j \<Rightarrow>
          (if has_duplicate_member j then Inl InvalidProvisioningGoalError
           else case j of
             JObj kvs \<Rightarrow>
               (case map_of kvs ''schema_version'' of
                  Some (JInt v) \<Rightarrow>
                    (if v \<noteq> current_goal_schema_version then Inl InvalidProvisioningGoalError
                     else case typed_goal (c_date c) kvs of
                       None \<Rightarrow> Inl InvalidProvisioningGoalError
                     | Some raw \<Rightarrow>
                         (case validate_goal raw of
                            Inl _ \<Rightarrow> Inl InvalidProvisioningGoalError
                          | Inr g \<Rightarrow> Inr g))
                | _ \<Rightarrow> Inl InvalidProvisioningGoalError)
           | _ \<Rightarrow> Inl InvalidProvisioningGoalError))"

definition goal_identity :: "codec \<Rightarrow> goal \<Rightarrow> string" where
  "goal_identity c g = c_sha256 c (payload_json g)"

fun goal_dates :: "goal \<Rightarrow> py_date list" where
  "goal_dates (EnsureCurrentSymbolGoal g) = [eg_effective_date g]"
| "goal_dates (SyncDatasetRangeGoal g) = [sg_start_date g, sg_end_date g]"
| "goal_dates (FinalizeMarketSessionGoal g) = [fg_resolved_session g]"

text \<open>
  What \<open>parse_goal_payload\<close> relies on at a goal: \<open>json.loads\<close> inverts \<open>json.dumps\<close> on the dumped
  object, and pydantic reads the ISO text of each date of the goal as that date.
\<close>

definition codec_reads :: "codec \<Rightarrow> goal \<Rightarrow> bool" where
  "codec_reads c g \<longleftrightarrow>
     c_loads c (payload_json g) = Some (goal_object g) \<and>
     list_all (\<lambda>d. c_date c (isoformat d) = Some d) (goal_dates g)"

end
