(* ===== verification/Goal_Facts.thy ===== *)
theory Goal_Facts
  imports Goals
begin

section \<open>What the goal model guarantees\<close>

text \<open>
  Validation is idempotent and canonicalises; the payload of a validated goal is bounded and is
  read back as the same goal; the identity separates distinct goals; a validated range is
  forward and bounded in days.
\<close>

subsection \<open>Validators fix their own results\<close>

lemma identifier_pattern_chars: "identifier_pattern s \<Longrightarrow> c \<in> set s \<Longrightarrow> identifier_char c"
  by (cases s) (auto simp: identifier_pattern_def identifier_char_def list_all_iff)

lemma identifier_pattern_length: "identifier_pattern s \<Longrightarrow> length s \<le> 64"
  by (cases s) (auto simp: identifier_pattern_def)

lemma identifier_char_facts:
  assumes "identifier_char c"
  shows "plain_char c \<and> \<not> is_space c"
proof (cases "is_alnum c")
  case True
  then show ?thesis by (simp add: alnum_plain alnum_not_space)
next
  case False
  with assms have "c = CHR ''.'' \<or> c = CHR ''_'' \<or> c = CHR ''-''"
    by (simp add: identifier_char_def)
  then show ?thesis
    by (elim disjE) (simp_all add: plain_char_def is_space_def char_code_def)
qed

lemma identifier_pattern_strip: "identifier_pattern s \<Longrightarrow> strip s = s"
  by (rule strip_no_space) (simp add: identifier_pattern_chars identifier_char_facts)

lemma symbol_pattern_chars:
  "symbol_pattern s \<Longrightarrow> c \<in> set s \<Longrightarrow> is_upper_letter c \<or> is_digit c"
  by (cases s) (auto simp: symbol_pattern_def list_all_iff)

lemma symbol_pattern_length: "symbol_pattern s \<Longrightarrow> length s \<le> 10"
  by (cases s) (auto simp: symbol_pattern_def)

lemma symbol_pattern_fixed: "symbol_pattern s \<Longrightarrow> upper (strip s) = s"
proof -
  assume p: "symbol_pattern s"
  have "strip s = s"
  proof (rule strip_no_space, rule ballI)
    fix c assume "c \<in> set s"
    with p have "is_upper_letter c \<or> is_digit c" by (rule symbol_pattern_chars)
    then show "\<not> is_space c" by (intro alnum_not_space) (auto simp: is_alnum_def)
  qed
  moreover have "upper s = s"
    by (rule upper_fixed) (use p symbol_pattern_chars in blast)
  ultimately show ?thesis by simp
qed

lemma normalize_version_Inr:
  "normalize_version v f = Inr w \<longleftrightarrow> w = strip v \<and> identifier_pattern w"
  by (auto simp: normalize_version_def Let_def)

declare supported_contract_versions.simps [simp del]

lemma contract_version_pattern: "identifier_pattern (supported_contract_versions gt)"
  by (cases gt; hypsubst; code_simp)

lemma supported_contract_version_Inr:
  "supported_contract_version v gt f = Inr w \<longleftrightarrow> w = strip v \<and> w = supported_contract_versions gt"
  using contract_version_pattern
  by (auto simp: supported_contract_version_def res_bind_Inr_iff normalize_version_Inr)

lemma policy_version_pattern: "identifier_pattern supported_source_policy_version"
  by code_simp

lemma normalize_source_policy_version_Inr:
  "normalize_source_policy_version v = Inr w \<longleftrightarrow> w = strip v \<and> w = supported_source_policy_version"
  using policy_version_pattern
  by (auto simp: normalize_source_policy_version_def res_bind_Inr_iff normalize_version_Inr)

lemma normalize_symbol_Inr:
  "normalize_symbol v = Inr w \<longleftrightarrow> w = upper (strip v) \<and> symbol_pattern w"
  by (auto simp: normalize_symbol_def Let_def)

lemma normalize_entity_id_Inr:
  "normalize_entity_id v = Inr w \<longleftrightarrow> w = strip v \<and> identifier_pattern w"
  by (auto simp: normalize_entity_id_def Let_def)

lemma error_of_Nil: "error_of r = [] \<longleftrightarrow> r = Inr (projr r)"
  by (cases r) auto

lemma normalize_enrichments_idem [simp]:
  "normalize_enrichments (normalize_enrichments es) = normalize_enrichments es"
  by (simp add: normalize_enrichments_def sort_key_id_if_sorted remdups_id_iff_distinct [THEN iffD2]
      sorted_sort_id)

lemma normalize_enrichments_eq_iff:
  "normalize_enrichments xs = normalize_enrichments ys \<longleftrightarrow> set xs = set ys"
  unfolding normalize_enrichments_def
  by (metis set_remdups set_sort sorted_list_of_set_sort_remdups)

lemmas validator_facts =
  normalize_version_Inr supported_contract_version_Inr normalize_source_policy_version_Inr
  normalize_symbol_Inr normalize_entity_id_Inr

lemma validate_ensure_Inr:
  "validate_ensure g = Inr g' \<longleftrightarrow>
     strip (eg_source_policy_version g) = supported_source_policy_version \<and>
     symbol_pattern (upper (strip (eg_symbol g))) \<and>
     strip (eg_contract_version g) = supported_contract_versions ENSURE_CURRENT_SYMBOL \<and>
     (eg_allowed_fallback g \<noteq> None \<longrightarrow>
        eg_desired_capability g = CANDIDATE_RANKING \<and> eg_allowed_fallback g = Some PRICE_ANALYSIS) \<and>
     g' = g\<lparr>eg_source_policy_version := strip (eg_source_policy_version g),
             eg_symbol := upper (strip (eg_symbol g)),
             eg_requested_enrichments := normalize_enrichments (eg_requested_enrichments g),
             eg_contract_version := strip (eg_contract_version g)\<rparr>"
proof -
  let ?p = "normalize_source_policy_version (eg_source_policy_version g)"
  let ?s = "normalize_symbol (eg_symbol g)"
  let ?c = "supported_contract_version (eg_contract_version g) ENSURE_CURRENT_SYMBOL ''contract_version''"
  have "validate_ensure g = Inr g' \<longleftrightarrow> (\<exists>p' s' c'.
     ?p = Inr p' \<and> ?s = Inr s' \<and> ?c = Inr c' \<and>
     (eg_allowed_fallback g \<noteq> None \<longrightarrow>
        eg_desired_capability g = CANDIDATE_RANKING \<and> eg_allowed_fallback g = Some PRICE_ANALYSIS) \<and>
     g' = g\<lparr>eg_source_policy_version := p', eg_symbol := s',
             eg_requested_enrichments := normalize_enrichments (eg_requested_enrichments g),
             eg_contract_version := c'\<rparr>)"
    by (cases ?p; cases ?s; cases ?c) (auto simp: validate_ensure_def Let_def)
  then show ?thesis
    by (auto simp: validator_facts)
qed

lemma validate_sync_Inr:
  "validate_sync g = Inr g' \<longleftrightarrow>
     strip (sg_source_policy_version g) = supported_source_policy_version \<and>
     identifier_pattern (strip (sg_entity_id g)) \<and>
     strip (sg_contract_version g) = supported_contract_versions SYNC_DATASET_RANGE \<and>
     \<not> date_key (sg_end_date g) < date_key (sg_start_date g) \<and>
     date_ordinal (sg_end_date g) - date_ordinal (sg_start_date g) \<le> max_dataset_range_days \<and>
     g' = g\<lparr>sg_source_policy_version := strip (sg_source_policy_version g),
             sg_entity_id := strip (sg_entity_id g),
             sg_contract_version := strip (sg_contract_version g)\<rparr>"
proof -
  let ?p = "normalize_source_policy_version (sg_source_policy_version g)"
  let ?e = "normalize_entity_id (sg_entity_id g)"
  let ?c = "supported_contract_version (sg_contract_version g) SYNC_DATASET_RANGE ''contract_version''"
  have "validate_sync g = Inr g' \<longleftrightarrow> (\<exists>p' e' c'.
     ?p = Inr p' \<and> ?e = Inr e' \<and> ?c = Inr c' \<and>
     \<not> date_key (sg_end_date g) < date_key (sg_start_date g) \<and>
     date_ordinal (sg_end_date g) - date_ordinal (sg_start_date g) \<le> max_dataset_range_days \<and>
     g' = g\<lparr>sg_source_policy_version := p', sg_entity_id := e', sg_contract_version := c'\<rparr>)"
    by (cases ?p; cases ?e; cases ?c) (auto simp: validate_sync_def Let_def)
  then show ?thesis
    by (auto simp: validator_facts)
qed

lemma validate_finalize_Inr:
  "validate_finalize g = Inr g' \<longleftrightarrow>
     strip (fg_source_policy_version g) = supported_source_policy_version \<and>
     identifier_pattern (strip (fg_maintenance_run_id g)) \<and>
     identifier_pattern (strip (fg_frozen_universe_hash g)) \<and>
     strip (fg_finalization_contract_version g) = supported_contract_versions FINALIZE_MARKET_SESSION \<and>
     g' = g\<lparr>fg_source_policy_version := strip (fg_source_policy_version g),
             fg_maintenance_run_id := strip (fg_maintenance_run_id g),
             fg_frozen_universe_hash := strip (fg_frozen_universe_hash g),
             fg_finalization_contract_version := strip (fg_finalization_contract_version g)\<rparr>"
proof -
  let ?p = "normalize_source_policy_version (fg_source_policy_version g)"
  let ?r = "normalize_version (fg_maintenance_run_id g) ''goal identity field''"
  let ?h = "normalize_version (fg_frozen_universe_hash g) ''goal identity field''"
  let ?c = "supported_contract_version (fg_finalization_contract_version g)
              FINALIZE_MARKET_SESSION ''finalization_contract_version''"
  have "validate_finalize g = Inr g' \<longleftrightarrow> (\<exists>p' r' h' c'.
     ?p = Inr p' \<and> ?r = Inr r' \<and> ?h = Inr h' \<and> ?c = Inr c' \<and>
     g' = g\<lparr>fg_source_policy_version := p', fg_maintenance_run_id := r',
             fg_frozen_universe_hash := h', fg_finalization_contract_version := c'\<rparr>)"
    by (cases ?p; cases ?r; cases ?h; cases ?c) (auto simp: validate_finalize_def Let_def)
  then show ?thesis
    by (auto simp: validator_facts)
qed

subsection \<open>Canonical form\<close>

lemma valid_ensure_iff:
  "valid_goal (EnsureCurrentSymbolGoal g) \<longleftrightarrow>
     eg_source_policy_version g = supported_source_policy_version \<and>
     symbol_pattern (eg_symbol g) \<and>
     eg_contract_version g = supported_contract_versions ENSURE_CURRENT_SYMBOL \<and>
     (eg_allowed_fallback g \<noteq> None \<longrightarrow>
        eg_desired_capability g = CANDIDATE_RANKING \<and> eg_allowed_fallback g = Some PRICE_ANALYSIS) \<and>
     normalize_enrichments (eg_requested_enrichments g) = eg_requested_enrichments g"
  unfolding valid_goal_def
  by (cases g)
    (auto simp: res_bind_Inr_iff validate_ensure_Inr symbol_pattern_fixed
      identifier_pattern_strip policy_version_pattern contract_version_pattern)

lemma valid_sync_iff:
  "valid_goal (SyncDatasetRangeGoal g) \<longleftrightarrow>
     sg_source_policy_version g = supported_source_policy_version \<and>
     identifier_pattern (sg_entity_id g) \<and>
     sg_contract_version g = supported_contract_versions SYNC_DATASET_RANGE \<and>
     \<not> date_key (sg_end_date g) < date_key (sg_start_date g) \<and>
     date_ordinal (sg_end_date g) - date_ordinal (sg_start_date g) \<le> max_dataset_range_days"
  unfolding valid_goal_def
  by (cases g)
    (auto simp: res_bind_Inr_iff validate_sync_Inr
      identifier_pattern_strip policy_version_pattern contract_version_pattern)

lemma valid_finalize_iff:
  "valid_goal (FinalizeMarketSessionGoal g) \<longleftrightarrow>
     fg_source_policy_version g = supported_source_policy_version \<and>
     identifier_pattern (fg_maintenance_run_id g) \<and>
     identifier_pattern (fg_frozen_universe_hash g) \<and>
     fg_finalization_contract_version g = supported_contract_versions FINALIZE_MARKET_SESSION"
  unfolding valid_goal_def
  by (cases g)
    (auto simp: res_bind_Inr_iff validate_finalize_Inr
      identifier_pattern_strip policy_version_pattern contract_version_pattern)

lemmas valid_goal_iffs = valid_ensure_iff valid_sync_iff valid_finalize_iff

lemma validate_goal_valid: "validate_goal g = Inr g' \<Longrightarrow> valid_goal g'"
  by (cases g)
    (auto simp: res_bind_Inr_iff valid_goal_iffs validate_ensure_Inr validate_sync_Inr
      validate_finalize_Inr)

subsection \<open>The payload\<close>

lemma identifier_plain: "identifier_pattern s \<Longrightarrow> \<forall>c \<in> set s. plain_char c"
  by (simp add: identifier_pattern_chars identifier_char_facts)

lemma symbol_plain: "symbol_pattern s \<Longrightarrow> \<forall>c \<in> set s. plain_char c"
  by (auto dest!: symbol_pattern_chars intro!: alnum_plain simp: is_alnum_def)

lemma length_render_identifier: "identifier_pattern s \<Longrightarrow> length (render_string s) \<le> 66"
  using identifier_pattern_length [of s] by (simp add: length_render_string_plain identifier_plain)

lemma length_render_symbol: "symbol_pattern s \<Longrightarrow> length (render_string s) \<le> 66"
  using symbol_pattern_length [of s] by (simp add: length_render_string_plain symbol_plain)

lemma length_render_string_le: "length (render_string s) \<le> 2 * length s + 2"
proof -
  have "length (concat (map escape_char s)) \<le> 2 * length s"
  proof (induction s)
    case (Cons c s)
    then show ?case using length_escape_char [of c] by simp
  qed simp
  then show ?thesis by (simp add: render_string_def)
qed

lemma enrichment_count: "length (normalize_enrichments es) \<le> 7"
proof -
  let ?all = "{COMPANY_CONTEXT, SESSION_CONTEXT, FUNDAMENTAL_CONTEXT, OFFICIAL_EVENT_CONTEXT,
               SHARE_COUNT_CONTEXT, FLOW_CONTEXT, VALUATION_CONTEXT}"
  have sub: "set es \<subseteq> ?all"
    using goal_enrichment.exhaust by blast
  have "length (normalize_enrichments es) = card (set es)"
    by (simp add: normalize_enrichments_def length_remdups_card_conv)
  also have "\<dots> \<le> card ?all"
    by (rule card_mono) (use sub in simp_all)
  finally show ?thesis by simp
qed

lemma length_render_enrichment: "length (render_string (enrichment_value e)) \<le> 50"
  by (rule order_trans [OF length_render_string_le]) (cases e; simp)

lemma length_join_le:
  assumes "\<forall>s \<in> set ss. length s \<le> b"
  shows "length (join [c] ss) \<le> length ss * (b + 1)"
proof -
  have "(\<Sum>s\<leftarrow>ss. length s + 1) \<le> length ss * (b + 1)"
    using assms by (induction ss) auto
  then show ?thesis using length_join [of c ss] by (rule order_trans [rotated])
qed

lemma length_render_enrichments:
  "length (render (JArr (map (\<lambda>e. JStr (enrichment_value e)) (normalize_enrichments es)))) \<le> 359"
proof -
  let ?ss = "map (\<lambda>e. render_string (enrichment_value e)) (normalize_enrichments es)"
  have "length (join '','' ?ss) \<le> length ?ss * 51"
    using length_join_le [of ?ss 50 "CHR '',''"] by (simp add: length_render_enrichment)
  also have "\<dots> \<le> 7 * 51" using enrichment_count [of es] by simp
  finally show ?thesis by (simp add: o_def)
qed

text \<open>An object is as long as its members, their separators and its brackets.\<close>

lemma length_render_object:
  "length (render (JObj kvs)) \<le> 2 + (\<Sum>(k, v)\<leftarrow>kvs. 2 * length k + 4 + length (render v))"
proof -
  let ?ss = "map (\<lambda>(k, v). render_string k @ '':'' @ render v) kvs"
  have "(\<Sum>s\<leftarrow>?ss. length s + 1) \<le> (\<Sum>(k, v)\<leftarrow>kvs. 2 * length k + 4 + length (render v))"
  proof (induction kvs)
    case (Cons kv kvs)
    obtain k v where "kv = (k, v)" by force
    with Cons show ?case using length_render_string_le [of k] by simp
  qed simp
  with length_join [of "CHR '',''" ?ss] show ?thesis by simp
qed

lemma sum_list_sort_key: "sum_list (map f (sort_key k xs)) = sum_list (map f xs)"
  for f :: "'a \<Rightarrow> nat"
  by (metis mset_map mset_sort sum_mset_sum_list)

lemma length_payload_le:
  "length (payload_json g) \<le> 2 + (\<Sum>(k, v)\<leftarrow>model_dump g. 2 * length k + 4 + length (render v))"
  unfolding payload_json_def goal_object_def
  by (rule order_trans [OF length_render_object]) (simp add: sum_list_sort_key)

lemma length_render_date: "length (render_string (isoformat d)) \<le> 22"
  using length_render_string_le [of "isoformat d"] by simp

lemma length_render_version: "length (render_string (supported_contract_versions gt)) \<le> 66"
  by (rule length_render_identifier) (rule contract_version_pattern)

lemma length_render_policy: "length (render_string supported_source_policy_version) \<le> 66"
  by (rule length_render_identifier) (rule policy_version_pattern)

lemma length_render_goal_type: "length (render_string (goal_type_value t)) \<le> 48"
  by (rule order_trans [OF length_render_string_le]) (cases t; simp)

lemma length_render_refresh: "length (render_string (refresh_mode_value m)) \<le> 28"
  by (rule order_trans [OF length_render_string_le]) (cases m; simp)

lemma length_render_capability: "length (render_string (readiness_capability_value c)) \<le> 36"
  by (rule order_trans [OF length_render_string_le]) (cases c; simp)

lemma length_render_fallback:
  "length (render (option_json (\<lambda>c. JStr (readiness_capability_value c)) f)) \<le> 36"
  by (cases f) (simp_all add: length_render_capability)

lemma length_render_schema: "length (render_int current_goal_schema_version) = 1"
  by (simp add: render_int_def current_goal_schema_version_def int_digits.simps)

lemma length_render_dataset: "length (render_string (queue_dataset_value d)) \<le> 24"
  by (rule order_trans [OF length_render_string_le]) (cases d; simp)

lemma length_render_entity_type: "length (render_string (queue_entity_type_value d)) \<le> 12"
  by (rule order_trans [OF length_render_string_le]) (cases d; simp)

lemma payload_ensure_le:
  assumes "valid_goal (EnsureCurrentSymbolGoal g)"
  shows "length (payload_json (EnsureCurrentSymbolGoal g)) \<le> 1200"
proof -
  from assms have f: "symbol_pattern (eg_symbol g)"
      "eg_requested_enrichments g = normalize_enrichments (eg_requested_enrichments g)"
      "eg_source_policy_version g = supported_source_policy_version"
      "eg_contract_version g = supported_contract_versions ENSURE_CURRENT_SYMBOL"
    by (simp_all add: valid_ensure_iff)
  have e: "length (render (JArr (map (\<lambda>e. JStr (enrichment_value e)) (eg_requested_enrichments g)))) \<le> 359"
    using length_render_enrichments [of "eg_requested_enrichments g"] f(2) by simp
  show ?thesis
    by (rule order_trans [OF length_payload_le])
      (use e f length_render_symbol [OF f(1)] length_render_policy
        length_render_version [of ENSURE_CURRENT_SYMBOL] length_render_goal_type [of ENSURE_CURRENT_SYMBOL]
        length_render_date [of "eg_effective_date g"] length_render_refresh [of "eg_refresh_mode g"]
        length_render_capability [of "eg_desired_capability g"]
        length_render_fallback [of "eg_allowed_fallback g"] length_render_schema
        in \<open>simp del: goal_type_value.simps render.simps(6)\<close>)
qed

lemma payload_sync_le:
  assumes "valid_goal (SyncDatasetRangeGoal g)"
  shows "length (payload_json (SyncDatasetRangeGoal g)) \<le> 1200"
proof -
  from assms have f: "identifier_pattern (sg_entity_id g)"
      "sg_source_policy_version g = supported_source_policy_version"
      "sg_contract_version g = supported_contract_versions SYNC_DATASET_RANGE"
    by (simp_all add: valid_sync_iff)
  show ?thesis
    by (rule order_trans [OF length_payload_le])
      (use f length_render_identifier [OF f(1)] length_render_policy
        length_render_version [of SYNC_DATASET_RANGE] length_render_goal_type [of SYNC_DATASET_RANGE]
        length_render_date [of "sg_start_date g"] length_render_date [of "sg_end_date g"]
        length_render_refresh [of "sg_refresh_mode g"] length_render_dataset [of "sg_dataset g"]
        length_render_entity_type [of "sg_entity_type g"] length_render_schema
        in \<open>simp del: goal_type_value.simps\<close>)
qed

lemma payload_finalize_le:
  assumes "valid_goal (FinalizeMarketSessionGoal g)"
  shows "length (payload_json (FinalizeMarketSessionGoal g)) \<le> 1200"
proof -
  from assms have f: "identifier_pattern (fg_maintenance_run_id g)"
      "identifier_pattern (fg_frozen_universe_hash g)"
      "fg_source_policy_version g = supported_source_policy_version"
      "fg_finalization_contract_version g = supported_contract_versions FINALIZE_MARKET_SESSION"
    by (simp_all add: valid_finalize_iff)
  show ?thesis
    by (rule order_trans [OF length_payload_le])
      (use f length_render_identifier [OF f(1)] length_render_identifier [OF f(2)] length_render_policy
        length_render_version [of FINALIZE_MARKET_SESSION]
        length_render_goal_type [of FINALIZE_MARKET_SESSION]
        length_render_date [of "fg_resolved_session g"] length_render_schema
        in \<open>simp del: goal_type_value.simps\<close>)
qed

lemma payload_le: "valid_goal g \<Longrightarrow> length (payload_json g) \<le> 1200"
  by (cases g) (simp_all add: payload_ensure_le payload_sync_le payload_finalize_le)

subsection \<open>Reading the payload back\<close>

lemma distinct_model_dump: "distinct (map fst (model_dump g))"
  by (cases g) simp_all

lemma map_of_sort_key:
  assumes "distinct (map fst kvs)"
  shows "map_of (sort_key fst kvs) = map_of kvs"
proof -
  have "distinct (map fst (sort_key fst kvs))"
    using assms by (metis distinct_map distinct_sort set_sort)
  with assms show ?thesis by (simp add: map_of_inject_set)
qed

lemma schema_version_in_dump:
  "map_of (sort_key fst (model_dump g)) ''schema_version'' = Some (JInt current_goal_schema_version)"
  by (simp add: map_of_sort_key distinct_model_dump) (cases g; simp)

lemma dump_no_duplicates: "\<not> has_duplicate_member (goal_object g)"
proof -
  have "distinct (map fst (sort_key fst (model_dump g)))"
    using distinct_model_dump by (metis distinct_map distinct_sort set_sort)
  moreover have "\<not> has_duplicate_member v" if "(k, v) \<in> set (model_dump g)" for k v
  proof (cases g)
    case (EnsureCurrentSymbolGoal e)
    with that show ?thesis
      by (cases "eg_allowed_fallback e") (auto simp: list_ex_iff)
  qed (use that in auto)
  ultimately show ?thesis
    by (auto simp: goal_object_def list_ex_iff)
qed

text \<open>The typed reading of the fields gives back what \<open>model_dump\<close> wrote.\<close>

lemma typed_values:
  "typed_refresh_mode (JStr (refresh_mode_value m)) = Some m"
  "typed_capability (JStr (readiness_capability_value k)) = Some k"
  "typed_enrichment (JStr (enrichment_value e)) = Some e"
  "typed_enum queue_dataset_value [INDEX_OHLCV] (JStr (queue_dataset_value d)) = Some d"
  "typed_enum queue_entity_type_value [INDEX] (JStr (queue_entity_type_value t)) = Some t"
  "typed_enum goal_type_value [ENSURE_CURRENT_SYMBOL, SYNC_DATASET_RANGE, FINALIZE_MARKET_SESSION]
     (JStr (goal_type_value gt)) = Some gt"
proof -
  show "typed_refresh_mode (JStr (refresh_mode_value m)) = Some m"
    by (cases m) (simp_all add: typed_refresh_mode_def typed_enum_def)
  show "typed_capability (JStr (readiness_capability_value k)) = Some k"
    by (cases k) (simp_all add: typed_capability_def typed_enum_def)
  show "typed_enrichment (JStr (enrichment_value e)) = Some e"
    by (cases e) (simp_all add: typed_enrichment_def typed_enum_def)
  show "typed_enum queue_dataset_value [INDEX_OHLCV] (JStr (queue_dataset_value d)) = Some d"
    by (cases d) (simp add: typed_enum_def)
  show "typed_enum queue_entity_type_value [INDEX] (JStr (queue_entity_type_value t)) = Some t"
    by (cases t) (simp add: typed_enum_def)
  show "typed_enum goal_type_value [ENSURE_CURRENT_SYMBOL, SYNC_DATASET_RANGE, FINALIZE_MARKET_SESSION]
     (JStr (goal_type_value gt)) = Some gt"
    by (cases gt) (simp_all add: typed_enum_def)
qed

lemma typed_fallback:
  "typed_optional typed_capability (option_json (\<lambda>c. JStr (readiness_capability_value c)) f) = Some f"
  by (cases f) (simp_all add: typed_optional_def typed_values)

lemma typed_enrichments: "typed_tuple typed_enrichment (JArr (map (\<lambda>e. JStr (enrichment_value e)) es)) = Some es"
proof -
  have "those (map typed_enrichment (map (\<lambda>e. JStr (enrichment_value e)) es)) = Some es"
    by (induction es) (simp_all add: typed_values)
  then show ?thesis by (simp add: typed_tuple_def)
qed

lemmas typed_reading =
  declared_field_def defaulted_field_def typed_schema_version_def typed_date_def typed_values typed_fallback
  typed_enrichments

lemma dump_fields_declared:
  "map_of kvs = map_of (model_dump g) \<Longrightarrow>
   extra_forbidden names kvs = (if set (map fst (model_dump g)) \<subseteq> set names then Some () else None)"
proof -
  assume "map_of kvs = map_of (model_dump g)"
  then have "fst ` set kvs = fst ` set (model_dump g)"
    by (metis dom_map_of_conv_image_fst)
  then have "list_all (\<lambda>(k, j). k \<in> set names) kvs = (set (map fst (model_dump g)) \<subseteq> set names)"
    unfolding list_all_iff set_map by (subst (asm) eq_commute) (simp only:, force)
  then show ?thesis by (simp add: extra_forbidden_def)
qed

lemma typed_goal_dump:
  assumes "map_of kvs = map_of (model_dump g)"
    and "list_all (\<lambda>d. date (isoformat d) = Some d) (goal_dates g)"
  shows "typed_goal date kvs = Some g"
proof (cases g)
  case (EnsureCurrentSymbolGoal e)
  have fields:
    "map_of kvs ''source_policy_version'' = Some (JStr (eg_source_policy_version e))"
    "map_of kvs ''goal_type'' = Some (JStr (goal_type_value ENSURE_CURRENT_SYMBOL))"
    "map_of kvs ''schema_version'' = Some (JInt current_goal_schema_version)"
    "map_of kvs ''symbol'' = Some (JStr (eg_symbol e))"
    "map_of kvs ''effective_date'' = Some (JStr (isoformat (eg_effective_date e)))"
    "map_of kvs ''desired_capability'' = Some (JStr (readiness_capability_value (eg_desired_capability e)))"
    "map_of kvs ''allowed_fallback'' = Some (option_json (\<lambda>c. JStr (readiness_capability_value c)) (eg_allowed_fallback e))"
    "map_of kvs ''requested_enrichments'' = Some (JArr (map (\<lambda>e. JStr (enrichment_value e)) (eg_requested_enrichments e)))"
    "map_of kvs ''refresh_mode'' = Some (JStr (refresh_mode_value (eg_refresh_mode e)))"
    "map_of kvs ''contract_version'' = Some (JStr (eg_contract_version e))"
    unfolding assms(1) EnsureCurrentSymbolGoal by simp_all
  have declared: "extra_forbidden names kvs =
      (if set (map fst (model_dump (EnsureCurrentSymbolGoal e))) \<subseteq> set names then Some () else None)" for names
    using dump_fields_declared [OF assms(1)] EnsureCurrentSymbolGoal by simp
  show ?thesis
    using assms(2) unfolding EnsureCurrentSymbolGoal typed_goal_def typed_ensure_def declared declared_field_def defaulted_field_def fields
    by (simp add: typed_reading del: goal_type_value.simps)
next
  case (SyncDatasetRangeGoal e)
  have fields:
    "map_of kvs ''source_policy_version'' = Some (JStr (sg_source_policy_version e))"
    "map_of kvs ''goal_type'' = Some (JStr (goal_type_value SYNC_DATASET_RANGE))"
    "map_of kvs ''schema_version'' = Some (JInt current_goal_schema_version)"
    "map_of kvs ''dataset'' = Some (JStr (queue_dataset_value (sg_dataset e)))"
    "map_of kvs ''entity_type'' = Some (JStr (queue_entity_type_value (sg_entity_type e)))"
    "map_of kvs ''entity_id'' = Some (JStr (sg_entity_id e))"
    "map_of kvs ''start_date'' = Some (JStr (isoformat (sg_start_date e)))"
    "map_of kvs ''end_date'' = Some (JStr (isoformat (sg_end_date e)))"
    "map_of kvs ''refresh_mode'' = Some (JStr (refresh_mode_value (sg_refresh_mode e)))"
    "map_of kvs ''contract_version'' = Some (JStr (sg_contract_version e))"
    unfolding assms(1) SyncDatasetRangeGoal by simp_all
  have declared: "extra_forbidden names kvs =
      (if set (map fst (model_dump (SyncDatasetRangeGoal e))) \<subseteq> set names then Some () else None)" for names
    using dump_fields_declared [OF assms(1)] SyncDatasetRangeGoal by simp
  show ?thesis
    using assms(2) unfolding SyncDatasetRangeGoal typed_goal_def typed_sync_def declared declared_field_def defaulted_field_def fields
    by (simp add: typed_reading del: goal_type_value.simps)
next
  case (FinalizeMarketSessionGoal e)
  have fields:
    "map_of kvs ''source_policy_version'' = Some (JStr (fg_source_policy_version e))"
    "map_of kvs ''goal_type'' = Some (JStr (goal_type_value FINALIZE_MARKET_SESSION))"
    "map_of kvs ''schema_version'' = Some (JInt current_goal_schema_version)"
    "map_of kvs ''maintenance_run_id'' = Some (JStr (fg_maintenance_run_id e))"
    "map_of kvs ''resolved_session'' = Some (JStr (isoformat (fg_resolved_session e)))"
    "map_of kvs ''frozen_universe_hash'' = Some (JStr (fg_frozen_universe_hash e))"
    "map_of kvs ''finalization_contract_version'' = Some (JStr (fg_finalization_contract_version e))"
    unfolding assms(1) FinalizeMarketSessionGoal by simp_all
  have declared: "extra_forbidden names kvs =
      (if set (map fst (model_dump (FinalizeMarketSessionGoal e))) \<subseteq> set names then Some () else None)" for names
    using dump_fields_declared [OF assms(1)] FinalizeMarketSessionGoal by simp
  show ?thesis
    using assms(2) unfolding FinalizeMarketSessionGoal typed_goal_def typed_finalize_def declared declared_field_def defaulted_field_def fields
    by (simp add: typed_reading del: goal_type_value.simps)
qed

lemma typed_goal_payload:
  "list_all (\<lambda>d. date (isoformat d) = Some d) (goal_dates g) \<Longrightarrow>
   typed_goal date (sort_key fst (model_dump g)) = Some g"
  by (rule typed_goal_dump) (simp add: map_of_sort_key distinct_model_dump)

lemma parse_payload:
  assumes "valid_goal g" and "codec_reads c g"
  shows "parse_goal_payload c (payload_json g) = Inr g"
proof -
  have "\<not> max_goal_payload_bytes < length (payload_json g)"
    using payload_le [OF assms(1)] by (simp add: max_goal_payload_bytes_def)
  then show ?thesis
    using assms schema_version_in_dump [of g] dump_no_duplicates [of g]
    by (simp add: parse_goal_payload_def codec_reads_def valid_goal_def goal_object_def typed_goal_payload)
qed

lemma parse_goal_payload_valid: "parse_goal_payload c s = Inr g \<Longrightarrow> valid_goal g"
  by (auto simp: parse_goal_payload_def Let_def validate_goal_valid
      split: if_splits option.splits json.splits sum.splits)

lemma payload_json_inj:
  assumes "codec_reads c g" and "codec_reads c h" and "payload_json g = payload_json h"
  shows "g = h"
proof -
  from assms have "goal_object g = goal_object h" by (simp add: codec_reads_def)
  then have "typed_goal (c_date c) (sort_key fst (model_dump g)) =
      typed_goal (c_date c) (sort_key fst (model_dump h))"
    by (simp add: goal_object_def)
  with assms show ?thesis by (simp add: codec_reads_def typed_goal_payload)
qed

lemma date_range_days:
  assumes "valid_date a" and "valid_date b"
  shows "date_key b < date_key a \<longleftrightarrow> date_ordinal b - date_ordinal a < 0"
proof -
  consider "date_key b < date_key a" | "date_key a < date_key b" | "date_key a = date_key b"
    by (rule linorder_cases)
  then show ?thesis
  proof cases
    case 3
    then have "date_ordinal a = date_ordinal b" by (simp add: date_key_def date_ordinal_def)
    with 3 show ?thesis by simp
  qed (use date_ordinal_mono assms in force)+
qed

subsection \<open>Properties\<close>

text \<open>
  C35: the payload of a validated goal fits the size bound, has no duplicate member and the
  supported schema version, and parsing it gives the goal back: reading the sorted members by the
  strict field declarations of the models (types, enumerations, defaults, no extra member, the
  discriminator) and running the validators again yields the goal the queue was given.  Of the
  libraries it needs only that \<open>json.loads\<close> inverts \<open>json.dumps\<close> on the object and that the ISO text of
  each date is read as that date.
\<close>

theorem payload_roundtrip:
  assumes "valid_goal g" and "codec_reads c g"
  shows "length (payload_json g) \<le> max_goal_payload_bytes \<and>
    parse_goal_payload c (payload_json g) = Inr g"
  using assms payload_le [OF assms(1)]
  by (simp_all add: parse_payload max_goal_payload_bytes_def)

definition sample_goal :: goal where
  "sample_goal = EnsureCurrentSymbolGoal
     \<lparr>eg_source_policy_version = ''policy-v1'', eg_symbol = ''FPT'',
      eg_effective_date = \<lparr>d_year = 2026, d_month = 7, d_day = 15\<rparr>,
      eg_desired_capability = CANDIDATE_RANKING, eg_allowed_fallback = Some PRICE_ANALYSIS,
      eg_requested_enrichments = [COMPANY_CONTEXT, FLOW_CONTEXT], eg_refresh_mode = CACHE_FIRST,
      eg_contract_version = ''current-symbol-v1''\<rparr>"

definition table_codec :: "goal list \<Rightarrow> codec" where
  "table_codec gs =
     \<lparr>c_loads = (\<lambda>s. map_option goal_object (find (\<lambda>g. payload_json g = s) gs)),
      c_date = fromisoformat (\<lambda>_. None),
      c_sha256 = (\<lambda>s. s)\<rparr>"

lemma sample_goal_valid: "valid_goal sample_goal"
  unfolding sample_goal_def valid_ensure_iff by code_simp

lemma table_codec_reads:
  assumes "find (\<lambda>h. payload_json h = payload_json g) gs = Some g" and "list_all valid_date (goal_dates g)"
  shows "codec_reads (table_codec gs) g"
  using assms by (auto simp: codec_reads_def table_codec_def list_all_iff fromisoformat_isoformat)

lemma sample_codec_reads: "codec_reads (table_codec [sample_goal]) sample_goal"
  by (rule table_codec_reads) (simp_all add: sample_goal_def valid_date_def days_in_month_def)

lemma payload_roundtrip_witness:
  "length (payload_json sample_goal) \<le> max_goal_payload_bytes \<and>
   parse_goal_payload (table_codec [sample_goal]) (payload_json sample_goal) = Inr sample_goal"
  using payload_roundtrip [OF sample_goal_valid sample_codec_reads] by simp

text \<open>
  Two current-symbol requests that validate get the same identity exactly when they ask for
  the same thing: the symbol up to case and surrounding space, the date, the capability, the
  fallback, the refresh mode, and the same set of enrichments in whatever order and however often
  they are written.
\<close>

lemma ensure_identity_iff:
  assumes g: "validate_ensure g = Inr g'" and h: "validate_ensure h = Inr h'"
    and reads: "codec_reads c (EnsureCurrentSymbolGoal g')" "codec_reads c (EnsureCurrentSymbolGoal h')"
    and no_collision: "c_sha256 c (payload_json (EnsureCurrentSymbolGoal g')) =
        c_sha256 c (payload_json (EnsureCurrentSymbolGoal h')) \<Longrightarrow>
      payload_json (EnsureCurrentSymbolGoal g') = payload_json (EnsureCurrentSymbolGoal h')"
  shows "goal_identity c (EnsureCurrentSymbolGoal g') = goal_identity c (EnsureCurrentSymbolGoal h') \<longleftrightarrow>
     upper (strip (eg_symbol g)) = upper (strip (eg_symbol h)) \<and>
     eg_effective_date g = eg_effective_date h \<and>
     eg_desired_capability g = eg_desired_capability h \<and>
     eg_allowed_fallback g = eg_allowed_fallback h \<and>
     eg_refresh_mode g = eg_refresh_mode h \<and>
     set (eg_requested_enrichments g) = set (eg_requested_enrichments h)"
proof -
  have "goal_identity c (EnsureCurrentSymbolGoal g') = goal_identity c (EnsureCurrentSymbolGoal h')
          \<longleftrightarrow> g' = h'"
    using no_collision payload_json_inj [OF reads] by (auto simp: goal_identity_def)
  also have "\<dots> \<longleftrightarrow> upper (strip (eg_symbol g)) = upper (strip (eg_symbol h)) \<and>
     eg_effective_date g = eg_effective_date h \<and>
     eg_desired_capability g = eg_desired_capability h \<and>
     eg_allowed_fallback g = eg_allowed_fallback h \<and>
     eg_refresh_mode g = eg_refresh_mode h \<and>
     normalize_enrichments (eg_requested_enrichments g) = normalize_enrichments (eg_requested_enrichments h)"
    using g h unfolding validate_ensure_Inr by (cases g; cases h) auto
  finally show ?thesis by (simp only: normalize_enrichments_eq_iff)
qed

definition sample_request :: "string \<Rightarrow> goal_enrichment list \<Rightarrow> ensure_goal" where
  "sample_request s es =
     \<lparr>eg_source_policy_version = ''policy-v1'', eg_symbol = s,
      eg_effective_date = \<lparr>d_year = 2026, d_month = 7, d_day = 15\<rparr>,
      eg_desired_capability = CANDIDATE_RANKING, eg_allowed_fallback = Some PRICE_ANALYSIS,
      eg_requested_enrichments = es, eg_refresh_mode = CACHE_FIRST,
      eg_contract_version = ''current-symbol-v1''\<rparr>"

lemma sample_request_goal:
  "EnsureCurrentSymbolGoal (sample_request ''FPT'' [COMPANY_CONTEXT, FLOW_CONTEXT]) = sample_goal"
  by (simp add: sample_request_def sample_goal_def)

lemma ensure_identity_iff_witness:
  "goal_identity (table_codec [sample_goal])
     (EnsureCurrentSymbolGoal (sample_request ''FPT'' [COMPANY_CONTEXT, FLOW_CONTEXT])) =
   goal_identity (table_codec [sample_goal])
     (EnsureCurrentSymbolGoal (sample_request ''FPT'' [COMPANY_CONTEXT, FLOW_CONTEXT]))"
proof -
  let ?r = "sample_request ''FPT'' [COMPANY_CONTEXT, FLOW_CONTEXT]"
  have g: "validate_ensure (sample_request '' fpt '' [FLOW_CONTEXT, COMPANY_CONTEXT, FLOW_CONTEXT]) = Inr ?r"
    by code_simp
  have h: "validate_ensure ?r = Inr ?r" by code_simp
  have s: "upper (strip '' fpt '') = upper (strip ''FPT'')" by code_simp
  have reads: "codec_reads (table_codec [sample_goal]) (EnsureCurrentSymbolGoal ?r)"
    using sample_codec_reads by (simp only: sample_request_goal)
  show ?thesis
    by (rule ensure_identity_iff [OF g h reads reads, THEN iffD2])
      (use s in \<open>auto simp: sample_request_def table_codec_def\<close>)
qed

text \<open>
  A dataset-range goal with proper dates and well-formed identifiers is accepted exactly when
  its end is not before its start and at most 366 days after it, counted on the calendar.
\<close>

lemma sync_range_accepted_iff:
  assumes "valid_date (sg_start_date g)" and "valid_date (sg_end_date g)"
    and "strip (sg_source_policy_version g) = ''policy-v1''"
    and "identifier_pattern (strip (sg_entity_id g))"
    and "strip (sg_contract_version g) = ''dataset-range-v1''"
  shows "(\<exists>g'. validate_sync g = Inr g') \<longleftrightarrow>
     0 \<le> date_ordinal (sg_end_date g) - date_ordinal (sg_start_date g) \<and>
     date_ordinal (sg_end_date g) - date_ordinal (sg_start_date g) \<le> 366"
  using assms date_range_days [OF assms(1,2)]
  by (auto simp: validate_sync_Inr supported_source_policy_version_def
      supported_contract_versions.simps max_dataset_range_days_def)

definition sample_range :: "py_date \<Rightarrow> py_date \<Rightarrow> sync_goal" where
  "sample_range a b =
     \<lparr>sg_source_policy_version = ''policy-v1'', sg_dataset = INDEX_OHLCV, sg_entity_type = INDEX,
      sg_entity_id = ''VNINDEX'', sg_start_date = a, sg_end_date = b,
      sg_refresh_mode = CACHE_FIRST, sg_contract_version = ''dataset-range-v1''\<rparr>"

definition leap_start :: py_date where
  "leap_start = \<lparr>d_year = 2024, d_month = 2, d_day = 28\<rparr>"

definition year_later :: "nat \<Rightarrow> nat \<Rightarrow> py_date" where
  "year_later m d = \<lparr>d_year = 2025, d_month = m, d_day = d\<rparr>"

lemmas calendar_simps =
  valid_date_def date_ordinal_def days_before_year_def days_before_month_def days_in_month_def
  is_leap_def upt_rec

lemma sample_dates:
  "valid_date leap_start" "valid_date (year_later 2 28)" "valid_date (year_later 3 1)"
  "date_ordinal leap_start = 738944" "date_ordinal (year_later 2 28) = 739310"
  "date_ordinal (year_later 3 1) = 739311"
  by (simp_all add: leap_start_def year_later_def calendar_simps)

lemma sample_range_fields:
  "sg_start_date (sample_range a b) = a" "sg_end_date (sample_range a b) = b"
  "strip (sg_source_policy_version (sample_range a b)) = ''policy-v1''"
  "identifier_pattern (strip (sg_entity_id (sample_range a b)))"
  "strip (sg_contract_version (sample_range a b)) = ''dataset-range-v1''"
  unfolding sample_range_def sync_goal.simps by (rule refl | code_simp)+

lemma sync_range_accepted_iff_witness:
  "(\<exists>g'. validate_sync (sample_range leap_start (year_later 2 28)) = Inr g') \<and>
   \<not> (\<exists>g'. validate_sync (sample_range leap_start (year_later 3 1)) = Inr g')"
proof -
  note accepted = sync_range_accepted_iff [where g = "sample_range leap_start (year_later m d)" for m d,
      unfolded sample_range_fields, OF sample_dates(1) _ refl sample_range_fields(4) refl]
  show ?thesis
    by (simp only: accepted [OF sample_dates(2)] accepted [OF sample_dates(3)] sample_dates) simp
qed

end
