(* ===== verification/Queue_Model.thy ===== *)
theory Queue_Model
  imports Goal_Facts
begin

section \<open>State and values of the durable queue\<close>

text \<open>
  The public values and errors of \<open>queue_models.py\<close>, the SQLite tables of \<open>_sqlite.py\<close> and the
  row conversion and argument checks of \<open>_records.py\<close>.

  A table is the list of its rows in rowid order.  Every time point is a number of
  milliseconds, what \<open>timestamp_ms\<close> makes of a \<open>datetime\<close>; the current time is an argument of
  each operation.  Columns constrained by \<open>CHECK (... IN ...)\<close> have the enumeration as their type.
\<close>

subsection \<open>Public values (\<open>queue_models.py\<close>)\<close>

datatype job_status = QUEUED | RUNNING | SUCCEEDED | FAILED | CANCELLED

fun job_status_value :: "job_status \<Rightarrow> string" where
  "job_status_value QUEUED = ''QUEUED''"
| "job_status_value RUNNING = ''RUNNING''"
| "job_status_value SUCCEEDED = ''SUCCEEDED''"
| "job_status_value FAILED = ''FAILED''"
| "job_status_value CANCELLED = ''CANCELLED''"

definition terminal :: "job_status \<Rightarrow> bool" where
  "terminal s \<longleftrightarrow> s = SUCCEEDED \<or> s = FAILED \<or> s = CANCELLED"

definition active :: "job_status \<Rightarrow> bool" where
  "active s \<longleftrightarrow> s = QUEUED \<or> s = RUNNING"

lemma active_iff_not_terminal: "active s \<longleftrightarrow> \<not> terminal s"
  by (cases s) (simp_all add: active_def terminal_def)

lemma terminal_simps [simp]:
  "terminal SUCCEEDED" "terminal FAILED" "terminal CANCELLED" "\<not> terminal QUEUED" "\<not> terminal RUNNING"
  by (simp_all add: terminal_def)

lemma active_simps [simp]:
  "active QUEUED" "active RUNNING" "\<not> active SUCCEEDED" "\<not> active FAILED" "\<not> active CANCELLED"
  by (simp_all add: active_def)

record provisioning_job =
  job_id :: string
  job_goal_identity :: string
  job_goal :: goal
  job_status :: job_status
  job_priority :: int
  job_stage :: string
  job_attempts :: int
  job_lease_owner :: "string option"
  job_lease_expires_at :: "int option"
  job_lease_heartbeat_at :: "int option"
  job_origin :: "string option"
  job_correlation_id :: "string option"
  job_cancellation_requested :: bool
  job_result :: "string option"
  job_error :: "string option"
  job_created_at :: int
  job_updated_at :: int

definition job_is_terminal :: "provisioning_job \<Rightarrow> bool" where
  "job_is_terminal job \<longleftrightarrow> job_status job \<in> {SUCCEEDED, FAILED, CANCELLED}"

record submit_result =
  submit_job :: provisioning_job
  joined_existing_job :: bool

record runtime_settings =
  rs_journal_mode :: string
  rs_foreign_keys_enabled :: bool
  rs_busy_timeout_ms :: int
  rs_synchronous :: string
  rs_lease_seconds :: int

record health_report =
  hr_schema_version :: "int option"
  hr_supported_schema :: bool
  hr_integrity_check :: string
  hr_integrity_ok :: bool
  hr_journal_mode :: "string option"
  hr_synchronous :: "string option"
  hr_busy_timeout_ms :: "int option"
  hr_file_size_bytes :: int
  hr_wal_size_bytes :: int
  hr_disk_free_bytes :: "int option"
  hr_disk_free_threshold_bytes :: int
  hr_disk_free_above_threshold :: bool
  hr_readable :: bool
  hr_writable :: bool
  hr_active_leases :: "int option"
  hr_expired_leases :: "int option"
  hr_queue_depth :: "int option"
  hr_oldest_queued_age_seconds :: "int option"
  hr_last_checkpoint_at :: "int option"
  hr_last_prune_at :: "int option"
  hr_last_migration_at :: "int option"
  hr_detail :: "string option"

definition can_claim :: "health_report \<Rightarrow> bool" where
  "can_claim r \<longleftrightarrow>
     hr_supported_schema r \<and> hr_integrity_ok r \<and> hr_readable r \<and> hr_writable r \<and>
     hr_disk_free_above_threshold r"

record checkpoint_result =
  cp_busy_readers :: int
  cp_wal_frames :: int
  cp_checkpointed_frames :: int
  cp_completed_at :: int

record prune_result =
  pruned_succeeded :: nat
  pruned_failed :: nat
  pruned_cancelled :: nat
  retained_referenced :: nat
  prune_completed_at :: int

record pruned_job =
  pj_job_id :: string
  pj_final_status :: job_status
  pj_pruned_at :: int

datatype queue_error =
    QueueValidationError string
  | QueueStorageError string
  | QueueHealthError string health_report
  | JobNotFoundError string
  | JobTransitionError string job_status
  | JobLeaseError string

subsection \<open>Tables and configuration (\<open>_sqlite.py\<close>)\<close>

record queue_configuration =
  busy_timeout_ms :: int
  lease_seconds :: int
  max_attempts :: int

record job_row =
  row_job_id :: string
  row_goal_identity :: string
  row_goal_type :: goal_type
  row_status :: job_status
  row_priority :: int
  row_stage :: string
  row_payload_version :: int
  row_payload_json :: string
  row_attempts :: int
  row_lease_owner :: "string option"
  row_lease_expires_at_ms :: "int option"
  row_lease_heartbeat_at_ms :: "int option"
  row_origin :: "string option"
  row_correlation_id :: "string option"
  row_cancellation_requested :: bool
  row_result :: "string option"
  row_error :: "string option"
  row_available_at_ms :: int
  row_created_at_ms :: int
  row_updated_at_ms :: int

record queue_db =
  user_version :: int
  provision_job :: "job_row list"
  pruned_provision_job :: "pruned_job list"
  queue_metadata :: "string \<rightharpoonup> int"

text \<open>
  The constraints an \<open>INSERT INTO provision_job\<close> is checked against: the primary key, the
  partial unique index on the identity of active jobs, and the \<open>CHECK\<close>s; a violation is an
  \<open>IntegrityError\<close>, here \<open>None\<close>.
\<close>

definition insert_job_row :: "job_row \<Rightarrow> job_row list \<Rightarrow> job_row list option" where
  "insert_job_row r rows =
     (if list_ex (\<lambda>x. row_job_id x = row_job_id r) rows \<or>
         active (row_status r) \<and>
           list_ex (\<lambda>x. row_goal_identity x = row_goal_identity r \<and> active (row_status x)) rows \<or>
         row_priority r < 0 \<or> 1000 < row_priority r \<or> row_attempts r < 0
      then None else Some (rows @ [r]))"

definition insert_pruned_row :: "pruned_job \<Rightarrow> pruned_job list \<Rightarrow> pruned_job list option" where
  "insert_pruned_row r rows =
     (if list_ex (\<lambda>x. pj_job_id x = pj_job_id r) rows \<or> \<not> terminal (pj_final_status r)
      then None else Some (rows @ [r]))"

definition set_metadata :: "string \<Rightarrow> int \<Rightarrow> queue_db \<Rightarrow> queue_db" where
  "set_metadata key v db = db\<lparr>queue_metadata := (queue_metadata db)(key \<mapsto> v)\<rparr>"

subsection \<open>Rows and argument checks (\<open>_records.py\<close>)\<close>

definition max_queue_detail_bytes :: nat where
  "max_queue_detail_bytes = 2048"

definition max_queue_metadata_bytes :: nat where
  "max_queue_metadata_bytes = 128"

definition max_queue_priority :: int where
  "max_queue_priority = 1000"

definition job_from_row :: "codec \<Rightarrow> job_row \<Rightarrow> queue_error + provisioning_job" where
  "job_from_row c r =
     (case parse_goal_payload c (row_payload_json r) of
        Inl _ \<Rightarrow> Inl (QueueStorageError ''provisioning queue contains invalid data'')
      | Inr g \<Rightarrow> Inr
          \<lparr>job_id = row_job_id r, job_goal_identity = row_goal_identity r, job_goal = g,
           job_status = row_status r, job_priority = row_priority r, job_stage = row_stage r,
           job_attempts = row_attempts r, job_lease_owner = row_lease_owner r,
           job_lease_expires_at = row_lease_expires_at_ms r,
           job_lease_heartbeat_at = row_lease_heartbeat_at_ms r, job_origin = row_origin r,
           job_correlation_id = row_correlation_id r,
           job_cancellation_requested = row_cancellation_requested r,
           job_result = row_result r, job_error = row_error r,
           job_created_at = row_created_at_ms r, job_updated_at = row_updated_at_ms r\<rparr>)"

definition validated_goal :: "codec \<Rightarrow> goal \<Rightarrow> queue_error + goal" where
  "validated_goal c g =
     (case parse_goal_payload c (payload_json g) of
        Inl _ \<Rightarrow> Inl (QueueValidationError ''invalid provisioning goal'')
      | Inr g' \<Rightarrow> Inr g')"

definition positive :: "int \<Rightarrow> string \<Rightarrow> int \<Rightarrow> queue_error + int" where
  "positive v field_name maximum =
     (if \<not> (1 \<le> v \<and> v \<le> maximum) then Inl (QueueValidationError (field_name @ '' must be bounded''))
      else Inr v)"

definition validated_priority :: "int \<Rightarrow> queue_error + int" where
  "validated_priority v =
     (if \<not> (0 \<le> v \<and> v \<le> max_queue_priority)
      then Inl (QueueValidationError ''priority must be bounded'') else Inr v)"

definition required_metadata :: "string \<Rightarrow> string \<Rightarrow> queue_error + string" where
  "required_metadata v field_name =
     (if v = [] \<or> max_queue_metadata_bytes < length v \<or>
         list_ex (\<lambda>ch. ch \<in> set v) [CHR 0x0D, CHR 0x0A, CHR 0x00]
      then Inl (QueueValidationError (field_name @ '' must be bounded metadata'')) else Inr v)"

definition metadata :: "string option \<Rightarrow> string \<Rightarrow> queue_error + string option" where
  "metadata v field_name =
     (case v of None \<Rightarrow> Inr None
      | Some s \<Rightarrow> res_bind (required_metadata s field_name) (\<lambda>s'. Inr (Some s')))"

definition detail :: "string \<Rightarrow> string \<Rightarrow> queue_error + string" where
  "detail v field_name =
     (if strip v = [] \<or> max_queue_detail_bytes < length v
      then Inl (QueueValidationError (field_name @ '' must be bounded'')) else Inr v)"

lemma job_from_row_Inr:
  "job_from_row c r = Inr job \<longleftrightarrow>
     (\<exists>g. parse_goal_payload c (row_payload_json r) = Inr g \<and>
        job =
          \<lparr>job_id = row_job_id r, job_goal_identity = row_goal_identity r, job_goal = g,
           job_status = row_status r, job_priority = row_priority r, job_stage = row_stage r,
           job_attempts = row_attempts r, job_lease_owner = row_lease_owner r,
           job_lease_expires_at = row_lease_expires_at_ms r,
           job_lease_heartbeat_at = row_lease_heartbeat_at_ms r, job_origin = row_origin r,
           job_correlation_id = row_correlation_id r,
           job_cancellation_requested = row_cancellation_requested r,
           job_result = row_result r, job_error = row_error r,
           job_created_at = row_created_at_ms r, job_updated_at = row_updated_at_ms r\<rparr>)"
  by (auto simp: job_from_row_def split: sum.splits)

text \<open>The fields of a converted row that the operations read again.\<close>

lemma job_from_row_fields:
  assumes "job_from_row c r = Inr job"
  shows "job_id job = row_job_id r" "job_status job = row_status r"
    "job_attempts job = row_attempts r" "job_priority job = row_priority r"
    "job_cancellation_requested job = row_cancellation_requested r"
    "job_lease_owner job = row_lease_owner r" "job_goal_identity job = row_goal_identity r"
    "job_lease_expires_at job = row_lease_expires_at_ms r"
    "job_result job = row_result r" "job_error job = row_error r"
  using assms by (auto simp: job_from_row_Inr)

lemma required_metadata_Inr [simp]: "required_metadata v f = Inr w \<Longrightarrow> w = v"
  by (auto simp: required_metadata_def split: if_splits)

lemma detail_Inr: "detail v f = Inr w \<longleftrightarrow> w = v \<and> strip v \<noteq> [] \<and> length v \<le> max_queue_detail_bytes"
  by (auto simp: detail_def)

lemma validated_priority_Inr: "validated_priority v = Inr w \<longleftrightarrow> w = v \<and> 0 \<le> v \<and> v \<le> 1000"
  by (auto simp: validated_priority_def max_queue_priority_def)

lemma validated_goal_valid: "validated_goal c g = Inr g' \<Longrightarrow> valid_goal g'"
  by (auto simp: validated_goal_def parse_goal_payload_valid split: sum.splits)

end
