(* ===== verification/Queue_Ops.thy ===== *)
theory Queue_Ops
  imports Queue_Model
begin

section \<open>Operations of the durable queue\<close>

text \<open>
  \<open>_submission.py\<close>, \<open>_lifecycle.py\<close> and \<open>_operations.py\<close>, one definition per function.

  An operation takes the database and returns its result, \<open>Inl\<close> for a raised error, with the
  database it leaves.  Each runs inside \<open>BEGIN IMMEDIATE\<close>: what it wrote before raising is rolled
  back when the connection closes without a commit, and an error raised after the commit (the
  conversion of the returned row) leaves the committed tables.
\<close>

type_synonym 'a op_result = "(queue_error + 'a) \<times> queue_db"

definition select_job :: "string \<Rightarrow> job_row list \<Rightarrow> job_row option" where
  "select_job jid rows = find (\<lambda>r. row_job_id r = jid) rows"

text \<open>Run a transaction: roll back on an error, otherwise commit and convert the result row.\<close>

definition commit_row ::
  "codec \<Rightarrow> queue_db \<Rightarrow> job_row list \<Rightarrow> string \<Rightarrow> string \<Rightarrow> provisioning_job op_result" where
  "commit_row c db rows jid lost =
     (case select_job jid rows of
        None \<Rightarrow> (Inl (QueueStorageError lost), db)
      | Some r \<Rightarrow> (job_from_row c r, db\<lparr>provision_job := rows\<rparr>))"

subsection \<open>Submission (\<open>_submission.py\<close>)\<close>

definition new_job_row ::
  "codec \<Rightarrow> goal \<Rightarrow> int \<Rightarrow> string option \<Rightarrow> string option \<Rightarrow> int \<Rightarrow> string \<Rightarrow> job_row" where
  "new_job_row c g prio origin corr ts new_id =
     \<lparr>row_job_id = new_id, row_goal_identity = goal_identity c g, row_goal_type = goal_type_of g,
      row_status = QUEUED, row_priority = prio, row_stage = ''QUEUED'',
      row_payload_version = current_goal_schema_version, row_payload_json = payload_json g,
      row_attempts = 0, row_lease_owner = None, row_lease_expires_at_ms = None,
      row_lease_heartbeat_at_ms = None, row_origin = origin, row_correlation_id = corr,
      row_cancellation_requested = False, row_result = None, row_error = None,
      row_available_at_ms = ts, row_created_at_ms = ts, row_updated_at_ms = ts\<rparr>"

definition select_active :: "string \<Rightarrow> job_row list \<Rightarrow> job_row option" where
  "select_active identity rows =
     find (\<lambda>r. row_goal_identity r = identity \<and> active (row_status r)) rows"

definition join_update :: "int \<Rightarrow> int \<Rightarrow> job_row \<Rightarrow> job_row" where
  "join_update prio ts r = r\<lparr>row_priority := max (row_priority r) prio, row_updated_at_ms := ts\<rparr>"

definition submit_transaction ::
  "codec \<Rightarrow> goal \<Rightarrow> int \<Rightarrow> string option \<Rightarrow> string option \<Rightarrow> int \<Rightarrow> string \<Rightarrow> queue_db \<Rightarrow>
   submit_result op_result" where
  "submit_transaction c g prio origin corr ts new_id db =
     (case select_active (goal_identity c g) (provision_job db) of
        Some r \<Rightarrow>
          (case job_from_row c r of
             Inl e \<Rightarrow> (Inl e, db)
           | Inr job \<Rightarrow>
               (if job_status job = QUEUED then
                  (let rows = update_where (\<lambda>x. row_job_id x = job_id job)
                         (join_update prio ts)
                         (provision_job db) in
                   case select_job (job_id job) rows of
                     None \<Rightarrow> (Inl (QueueStorageError ''provisioning queue lost an active job''), db)
                   | Some r' \<Rightarrow>
                       (case job_from_row c r' of
                          Inl e \<Rightarrow> (Inl e, db)
                        | Inr job' \<Rightarrow>
                            (Inr \<lparr>submit_job = job', joined_existing_job = True\<rparr>,
                             db\<lparr>provision_job := rows\<rparr>)))
                else (Inr \<lparr>submit_job = job, joined_existing_job = True\<rparr>, db)))
      | None \<Rightarrow>
          (case insert_job_row (new_job_row c g prio origin corr ts new_id) (provision_job db) of
             None \<Rightarrow> (Inl (QueueStorageError ''provisioning queue could not submit a job''), db)
           | Some rows \<Rightarrow>
               (case commit_row c db rows new_id ''provisioning queue lost a new job'' of
                  (Inl e, db') \<Rightarrow> (Inl e, db')
                | (Inr job, db') \<Rightarrow> (Inr \<lparr>submit_job = job, joined_existing_job = False\<rparr>, db'))))"

definition submit_or_join ::
  "codec \<Rightarrow> goal \<Rightarrow> int \<Rightarrow> string option \<Rightarrow> string option \<Rightarrow> int \<Rightarrow> string \<Rightarrow> queue_db \<Rightarrow>
   submit_result op_result" where
  "submit_or_join c g prio origin corr ts new_id db =
     (case res_bind (validated_goal c g) (\<lambda>g'.
             res_bind (validated_priority prio) (\<lambda>p.
             res_bind (metadata origin ''origin'') (\<lambda>o'.
             res_bind (metadata corr ''correlation_id'') (\<lambda>c'. Inr (g', p, o', c'))))) of
        Inl e \<Rightarrow> (Inl e, db)
      | Inr (g', p, o', c') \<Rightarrow> submit_transaction c g' p o' c' ts new_id db)"

definition get_job :: "codec \<Rightarrow> string \<Rightarrow> queue_db \<Rightarrow> queue_error + provisioning_job option" where
  "get_job c jid db =
     (case select_job jid (provision_job db) of
        None \<Rightarrow> Inr None
      | Some r \<Rightarrow> res_bind (job_from_row c r) (\<lambda>job. Inr (Some job)))"

text \<open>\<open>ORDER BY created_at_ms DESC, rowid DESC LIMIT 1\<close>: the last of the stable ascending order.\<close>

definition find_by_identity ::
  "codec \<Rightarrow> string \<Rightarrow> string \<Rightarrow> string \<Rightarrow> queue_db \<Rightarrow> queue_error + provisioning_job option" where
  "find_by_identity c identity origin corr db =
     (let rows = sort_key row_created_at_ms
          (filter (\<lambda>r. row_goal_identity r = identity \<and> row_origin r = Some origin \<and>
                       row_correlation_id r = Some corr) (provision_job db)) in
      if rows = [] then Inr None
      else res_bind (job_from_row c (last rows)) (\<lambda>job. Inr (Some job)))"

definition list_jobs ::
  "codec \<Rightarrow> job_status option \<Rightarrow> queue_db \<Rightarrow> queue_error + provisioning_job list" where
  "list_jobs c st db =
     res_map (job_from_row c)
       (sort_key row_created_at_ms
          (filter (\<lambda>r. st = None \<or> st = Some (row_status r)) (provision_job db)))"

subsection \<open>Lease recovery, claim and heartbeat (\<open>_lifecycle.py\<close>)\<close>

definition retry_delay_seconds :: int where
  "retry_delay_seconds = 60 * 60"

definition lease_expired :: "int \<Rightarrow> job_row \<Rightarrow> bool" where
  "lease_expired ts r \<longleftrightarrow>
     row_status r = RUNNING \<and>
     (case row_lease_expires_at_ms r of None \<Rightarrow> False | Some e \<Rightarrow> e \<le> ts)"

definition live_lease :: "string \<Rightarrow> int \<Rightarrow> job_row \<Rightarrow> bool" where
  "live_lease worker ts r \<longleftrightarrow>
     row_status r = RUNNING \<and> row_lease_owner r = Some worker \<and>
     (case row_lease_expires_at_ms r of None \<Rightarrow> False | Some e \<Rightarrow> ts < e)"

definition clear_lease :: "job_row \<Rightarrow> job_row" where
  "clear_lease r = r\<lparr>row_lease_owner := None, row_lease_expires_at_ms := None,
                    row_lease_heartbeat_at_ms := None\<rparr>"

text \<open>The three updates a recovered job can get, chosen from the job as it was read.\<close>

definition recovery_update ::
  "queue_configuration \<Rightarrow> int \<Rightarrow> provisioning_job \<Rightarrow> job_row \<Rightarrow> job_row" where
  "recovery_update cfg ts job r =
     (if job_cancellation_requested job then
        (clear_lease r)\<lparr>row_status := CANCELLED, row_stage := ''CANCELLED'', row_updated_at_ms := ts\<rparr>
      else if max_attempts cfg \<le> job_attempts job then
        (clear_lease r)\<lparr>row_status := FAILED, row_stage := ''FAILED'',
           row_error := Some ''lease retry limit exhausted'', row_updated_at_ms := ts\<rparr>
      else
        (clear_lease r)\<lparr>row_status := QUEUED, row_stage := ''QUEUED'', row_updated_at_ms := ts\<rparr>)"

fun recover_rows ::
  "codec \<Rightarrow> queue_configuration \<Rightarrow> int \<Rightarrow> job_row list \<Rightarrow> job_row list \<Rightarrow> queue_error + job_row list" where
  "recover_rows c cfg ts [] rows = Inr rows"
| "recover_rows c cfg ts (r # rs) rows =
     res_bind (job_from_row c r) (\<lambda>job.
       recover_rows c cfg ts rs
         (update_where (\<lambda>x. row_job_id x = job_id job \<and> row_status x = RUNNING)
            (recovery_update cfg ts job) rows))"

definition recover_expired ::
  "codec \<Rightarrow> queue_configuration \<Rightarrow> int \<Rightarrow> job_row list \<Rightarrow> queue_error + job_row list" where
  "recover_expired c cfg ts rows = recover_rows c cfg ts (filter (lease_expired ts) rows) rows"

definition claimable :: "int \<Rightarrow> job_row \<Rightarrow> bool" where
  "claimable ts r \<longleftrightarrow> row_status r = QUEUED \<and> row_available_at_ms r \<le> ts"

definition claim_key :: "job_row \<Rightarrow> int \<times> int" where
  "claim_key r = (- row_priority r, row_created_at_ms r)"

text \<open>\<open>ORDER BY priority DESC, created_at_ms ASC, rowid ASC LIMIT 1\<close>: the sort is stable.\<close>

definition next_claim :: "int \<Rightarrow> job_row list \<Rightarrow> job_row option" where
  "next_claim ts rows =
     (case sort_key claim_key (filter (claimable ts) rows) of [] \<Rightarrow> None | r # _ \<Rightarrow> Some r)"

definition claim_update :: "queue_configuration \<Rightarrow> string \<Rightarrow> int \<Rightarrow> job_row \<Rightarrow> job_row" where
  "claim_update cfg worker ts r =
     r\<lparr>row_status := RUNNING, row_stage := ''RUNNING'', row_attempts := row_attempts r + 1,
       row_lease_owner := Some worker,
       row_lease_expires_at_ms := Some (ts + lease_seconds cfg * 1000),
       row_lease_heartbeat_at_ms := Some ts, row_updated_at_ms := ts\<rparr>"

definition claim ::
  "codec \<Rightarrow> queue_configuration \<Rightarrow> string \<Rightarrow> int \<Rightarrow> queue_db \<Rightarrow> provisioning_job option op_result" where
  "claim c cfg worker_id ts db =
     (case required_metadata worker_id ''worker_id'' of
        Inl e \<Rightarrow> (Inl e, db)
      | Inr worker \<Rightarrow>
          (case recover_expired c cfg ts (provision_job db) of
             Inl e \<Rightarrow> (Inl e, db)
           | Inr rows \<Rightarrow>
               (case next_claim ts rows of
                  None \<Rightarrow> (Inr None, db\<lparr>provision_job := rows\<rparr>)
                | Some r \<Rightarrow>
                    (case job_from_row c r of
                       Inl e \<Rightarrow> (Inl e, db)
                     | Inr job \<Rightarrow>
                         (case commit_row c db
                                 (update_where (\<lambda>x. row_job_id x = job_id job \<and> row_status x = QUEUED)
                                    (claim_update cfg worker ts) rows)
                                 (job_id job) ''provisioning queue lost a claimed job'' of
                            (Inl e, db') \<Rightarrow> (Inl e, db')
                          | (Inr job', db') \<Rightarrow> (Inr (Some job'), db'))))))"

definition lease_error :: "string \<Rightarrow> job_row list \<Rightarrow> queue_error" where
  "lease_error jid rows =
     (if select_job jid rows = None then JobNotFoundError jid else JobLeaseError jid)"

definition heartbeat_update :: "queue_configuration \<Rightarrow> int \<Rightarrow> job_row \<Rightarrow> job_row" where
  "heartbeat_update cfg ts r =
     r\<lparr>row_lease_expires_at_ms := Some (ts + lease_seconds cfg * 1000),
       row_lease_heartbeat_at_ms := Some ts, row_updated_at_ms := ts\<rparr>"

definition heartbeat ::
  "codec \<Rightarrow> queue_configuration \<Rightarrow> string \<Rightarrow> string \<Rightarrow> int \<Rightarrow> queue_db \<Rightarrow> provisioning_job op_result" where
  "heartbeat c cfg jid worker_id ts db =
     (case required_metadata worker_id ''worker_id'' of
        Inl e \<Rightarrow> (Inl e, db)
      | Inr worker \<Rightarrow>
          (if \<not> list_ex (\<lambda>r. row_job_id r = jid \<and> live_lease worker ts r) (provision_job db)
           then (Inl (lease_error jid (provision_job db)), db)
           else commit_row c db
                  (update_where (\<lambda>r. row_job_id r = jid \<and> live_lease worker ts r)
                     (heartbeat_update cfg ts) (provision_job db))
                  jid ''provisioning queue lost a heartbeated job''))"

definition requeue_expired ::
  "codec \<Rightarrow> queue_configuration \<Rightarrow> int \<Rightarrow> queue_db \<Rightarrow> provisioning_job list op_result" where
  "requeue_expired c cfg ts db =
     (case recover_expired c cfg ts (provision_job db) of
        Inl e \<Rightarrow> (Inl e, db)
      | Inr rows \<Rightarrow>
          (res_map (job_from_row c)
             (sort_key row_updated_at_ms
                (filter (\<lambda>r. row_status r \<in> {QUEUED, FAILED, CANCELLED}) rows)),
           db\<lparr>provision_job := rows\<rparr>))"

subsection \<open>Terminal transitions and cancellation (\<open>_lifecycle.py\<close>)\<close>

definition terminal_detail ::
  "job_status \<Rightarrow> string \<Rightarrow> queue_error + (string option \<times> string option)" where
  "terminal_detail st v =
     (if st = SUCCEEDED then res_bind (detail v ''result'') (\<lambda>d. Inr (Some d, None))
      else if st = FAILED then res_bind (detail v ''error'') (\<lambda>d. Inr (None, Some d))
      else if st = CANCELLED then res_bind (detail v ''cancellation reason'') (\<lambda>d. Inr (None, Some d))
      else Inl (QueueValidationError ''only terminal queue statuses are supported''))"

definition terminalizable :: "string \<Rightarrow> string \<Rightarrow> int \<Rightarrow> job_status \<Rightarrow> job_row \<Rightarrow> bool" where
  "terminalizable jid worker ts st r \<longleftrightarrow>
     row_job_id r = jid \<and> live_lease worker ts r \<and>
     row_cancellation_requested r = (st = CANCELLED)"

definition retry_update :: "int \<Rightarrow> string option \<Rightarrow> job_row \<Rightarrow> job_row" where
  "retry_update ts err r =
     (clear_lease r)\<lparr>row_status := QUEUED, row_stage := ''RETRY_SCHEDULED'', row_result := None,
        row_error := err, row_available_at_ms := ts + retry_delay_seconds * 1000,
        row_updated_at_ms := ts\<rparr>"

definition terminal_update ::
  "job_status \<Rightarrow> string option \<Rightarrow> string option \<Rightarrow> int \<Rightarrow> job_row \<Rightarrow> job_row" where
  "terminal_update st res err ts r =
     (clear_lease r)\<lparr>row_status := st, row_stage := job_status_value st, row_result := res,
        row_error := err, row_updated_at_ms := ts\<rparr>"

definition terminalize_transaction ::
  "codec \<Rightarrow> queue_configuration \<Rightarrow> string \<Rightarrow> string \<Rightarrow> job_status \<Rightarrow> string option \<Rightarrow> string option \<Rightarrow>
   int \<Rightarrow> bool \<Rightarrow> queue_db \<Rightarrow> provisioning_job op_result" where
  "terminalize_transaction c cfg jid worker st res err ts retryable db =
     (case find (terminalizable jid worker ts st) (provision_job db) of
        None \<Rightarrow> (Inl (lease_error jid (provision_job db)), db)
      | Some r \<Rightarrow>
          (case job_from_row c r of
             Inl e \<Rightarrow> (Inl e, db)
           | Inr job \<Rightarrow>
               (let rows =
                  (if st = FAILED \<and> retryable \<and> job_attempts job < max_attempts cfg
                   then update_where (\<lambda>x. row_job_id x = jid \<and> live_lease worker ts x)
                          (retry_update ts err) (provision_job db)
                   else update_where (terminalizable jid worker ts st)
                          (terminal_update st res err ts) (provision_job db)) in
                commit_row c db rows jid ''provisioning queue lost a terminal job'')))"

definition terminalize ::
  "codec \<Rightarrow> queue_configuration \<Rightarrow> string \<Rightarrow> string \<Rightarrow> job_status \<Rightarrow> string \<Rightarrow> int \<Rightarrow> bool \<Rightarrow> queue_db \<Rightarrow>
   provisioning_job op_result" where
  "terminalize c cfg jid worker_id st v ts retryable db =
     (case res_bind (required_metadata worker_id ''worker_id'') (\<lambda>worker.
             res_bind (terminal_detail st v) (\<lambda>re. Inr (worker, re))) of
        Inl e \<Rightarrow> (Inl e, db)
      | Inr (worker, res, err) \<Rightarrow>
          terminalize_transaction c cfg jid worker st res err ts retryable db)"

definition cancel_queued_update :: "int \<Rightarrow> job_row \<Rightarrow> job_row" where
  "cancel_queued_update ts r =
     r\<lparr>row_status := CANCELLED, row_stage := ''CANCELLED'', row_cancellation_requested := True,
       row_updated_at_ms := ts\<rparr>"

definition cancel_running_update :: "int \<Rightarrow> job_row \<Rightarrow> job_row" where
  "cancel_running_update ts r = r\<lparr>row_cancellation_requested := True, row_updated_at_ms := ts\<rparr>"

definition cancel_job :: "codec \<Rightarrow> string \<Rightarrow> int \<Rightarrow> queue_db \<Rightarrow> provisioning_job op_result" where
  "cancel_job c jid ts db =
     (case select_job jid (provision_job db) of
        None \<Rightarrow> (Inl (JobNotFoundError jid), db)
      | Some r \<Rightarrow>
          (case job_from_row c r of
             Inl e \<Rightarrow> (Inl e, db)
           | Inr job \<Rightarrow>
               (if job_status job = QUEUED then
                  commit_row c db
                    (update_where (\<lambda>x. row_job_id x = jid \<and> row_status x = QUEUED)
                       (cancel_queued_update ts)
                       (provision_job db))
                    jid ''provisioning queue lost a cancelled job''
                else if job_status job = RUNNING then
                  commit_row c db
                    (update_where (\<lambda>x. row_job_id x = jid \<and> row_status x = RUNNING)
                       (cancel_running_update ts)
                       (provision_job db))
                    jid ''provisioning queue lost a cancelled job''
                else (Inl (JobTransitionError jid (job_status job)), db))))"

subsection \<open>Retention (\<open>_operations.py\<close>)\<close>

definition max_prune_batch_size :: nat where
  "max_prune_batch_size = 100"

definition get_pruned :: "string \<Rightarrow> queue_db \<Rightarrow> pruned_job option" where
  "get_pruned jid db = find (\<lambda>p. pj_job_id p = jid) (pruned_provision_job db)"

text \<open>The loop over the batch; \<open>counts\<close> is the \<open>pruned_counts\<close> dictionary.\<close>

fun prune_rows ::
  "string list \<Rightarrow> int \<Rightarrow> job_row list \<Rightarrow>
   job_row list \<times> pruned_job list \<times> (job_status \<Rightarrow> nat) \<times> nat \<Rightarrow>
   queue_error + (job_row list \<times> pruned_job list \<times> (job_status \<Rightarrow> nat) \<times> nat)" where
  "prune_rows retained ts [] acc = Inr acc"
| "prune_rows retained ts (r # rs) (rows, pruned, counts, kept) =
     (if row_job_id r \<in> set retained then prune_rows retained ts rs (rows, pruned, counts, Suc kept)
      else case insert_pruned_row
                  \<lparr>pj_job_id = row_job_id r, pj_final_status = row_status r, pj_pruned_at = ts\<rparr> pruned of
        None \<Rightarrow> Inl (QueueStorageError ''provisioning queue could not prune terminal jobs'')
      | Some pruned' \<Rightarrow>
          prune_rows retained ts rs
            (filter (\<lambda>x. \<not> (row_job_id x = row_job_id r \<and> terminal (row_status x))) rows,
             pruned', counts(row_status r := Suc (counts (row_status r))), kept))"

definition prune_batch :: "int \<Rightarrow> job_row list \<Rightarrow> job_row list" where
  "prune_batch cutoff rows =
     take max_prune_batch_size
       (sort_key row_updated_at_ms
          (filter (\<lambda>r. terminal (row_status r) \<and> row_updated_at_ms r < cutoff) rows))"

definition prune_terminal ::
  "int \<Rightarrow> string list \<Rightarrow> int \<Rightarrow> queue_db \<Rightarrow> prune_result op_result" where
  "prune_terminal older_than_days retained completed_at db =
     (case prune_rows retained completed_at
             (prune_batch (completed_at - older_than_days * 86400000) (provision_job db))
             (provision_job db, pruned_provision_job db, \<lambda>_. 0, 0) of
        Inl e \<Rightarrow> (Inl e, db)
      | Inr (rows, pruned, counts, kept) \<Rightarrow>
          (Inr \<lparr>pruned_succeeded = counts SUCCEEDED, pruned_failed = counts FAILED,
                pruned_cancelled = counts CANCELLED, retained_referenced = kept,
                prune_completed_at = completed_at\<rparr>,
           set_metadata ''last_prune_at_ms'' completed_at
             (db\<lparr>provision_job := rows, pruned_provision_job := pruned\<rparr>)))"

end
