(* ===== verification/Queue_Inv.thy ===== *)
theory Queue_Inv
  imports Queue_Ops
begin

section \<open>Row changes and the queue invariant\<close>

text \<open>
  Every update an operation makes to a row is one of eight (\<open>row_step\<close>), and every operation is a
  sequence of database changes (\<open>db_change\<close>): rows taking such steps, an inserted row, a pruned
  row, a metadata entry.  The invariant (\<open>db_ok\<close>) and the life cycle of \<open>Queue_Life\<close> are proved
  on these changes, and hold for the operations because each is made of them.
\<close>

subsection \<open>The steps of a row\<close>

text \<open>What recovery makes of an expired row, by the row's own fields.\<close>

definition recover_row :: "queue_configuration \<Rightarrow> int \<Rightarrow> job_row \<Rightarrow> job_row" where
  "recover_row cfg ts r =
     (if row_cancellation_requested r then
        (clear_lease r)\<lparr>row_status := CANCELLED, row_stage := ''CANCELLED'', row_updated_at_ms := ts\<rparr>
      else if max_attempts cfg \<le> row_attempts r then
        (clear_lease r)\<lparr>row_status := FAILED, row_stage := ''FAILED'',
           row_error := Some ''lease retry limit exhausted'', row_updated_at_ms := ts\<rparr>
      else
        (clear_lease r)\<lparr>row_status := QUEUED, row_stage := ''QUEUED'', row_updated_at_ms := ts\<rparr>)"

inductive row_step :: "queue_configuration \<Rightarrow> job_row \<Rightarrow> job_row \<Rightarrow> bool" for cfg where
  rs_recover: "lease_expired ts r \<Longrightarrow> row_step cfg r (recover_row cfg ts r)"
| rs_claim: "row_status r = QUEUED \<Longrightarrow> row_step cfg r (claim_update cfg w ts r)"
| rs_heartbeat: "row_status r = RUNNING \<Longrightarrow> row_step cfg r (heartbeat_update cfg ts r)"
| rs_retry: "row_status r = RUNNING \<Longrightarrow> \<not> row_cancellation_requested r \<Longrightarrow>
    row_attempts r < max_attempts cfg \<Longrightarrow> row_step cfg r (retry_update ts (Some e) r)"
| rs_terminal: "row_status r = RUNNING \<Longrightarrow> terminal st \<Longrightarrow>
    row_cancellation_requested r = (st = CANCELLED) \<Longrightarrow> (res \<noteq> None) = (st = SUCCEEDED) \<Longrightarrow>
    (err = None) = (st = SUCCEEDED) \<Longrightarrow> row_step cfg r (terminal_update st res err ts r)"
| rs_cancel_queued: "row_status r = QUEUED \<Longrightarrow> row_step cfg r (cancel_queued_update ts r)"
| rs_cancel_running: "row_status r = RUNNING \<Longrightarrow> row_step cfg r (cancel_running_update ts r)"
| rs_join: "row_status r = QUEUED \<Longrightarrow> 0 \<le> p \<Longrightarrow> p \<le> 1000 \<Longrightarrow> row_step cfg r (join_update p ts r)"

lemmas row_update_defs =
  recover_row_def claim_update_def heartbeat_update_def retry_update_def terminal_update_def
  cancel_queued_update_def cancel_running_update_def join_update_def clear_lease_def

text \<open>The columns no update writes.\<close>

definition row_fixed ::
  "job_row \<Rightarrow> string \<times> string \<times> goal_type \<times> string \<times> int \<times> string option \<times> string option" where
  "row_fixed r =
     (row_job_id r, row_goal_identity r, row_goal_type r, row_payload_json r, row_created_at_ms r,
      row_origin r, row_correlation_id r)"

lemma row_step_fixed: "row_step cfg r r' \<Longrightarrow> row_fixed r' = row_fixed r"
  by (cases rule: row_step.cases) (auto simp: row_update_defs row_fixed_def)

lemma row_steps_fixed: "(row_step cfg)\<^sup>*\<^sup>* r r' \<Longrightarrow> row_fixed r' = row_fixed r"
  by (induction rule: rtranclp_induct) (simp_all add: row_step_fixed)

lemma row_step_active: "row_step cfg r r' \<Longrightarrow> active (row_status r)"
  by (cases rule: row_step.cases) (auto simp: lease_expired_def)

lemma row_steps_active: "(row_step cfg)\<^sup>*\<^sup>* r r' \<Longrightarrow> active (row_status r') \<Longrightarrow> active (row_status r)"
  by (induction rule: rtranclp_induct) (simp_all add: row_step_active)

lemma row_steps_terminal: "(row_step cfg)\<^sup>*\<^sup>* r r' \<Longrightarrow> terminal (row_status r) \<Longrightarrow> r' = r"
  by (induction rule: rtranclp_induct) (auto dest: row_step_active simp: active_iff_not_terminal)

subsection \<open>The invariant of a row\<close>

definition payload_ok :: "codec \<Rightarrow> job_row \<Rightarrow> bool" where
  "payload_ok c r \<longleftrightarrow>
     (\<exists>g. parse_goal_payload c (row_payload_json r) = Inr g \<and>
          row_goal_identity r = goal_identity c g \<and> row_goal_type r = goal_type_of g)"

text \<open>
  A running row, and no other, has an owner, a heartbeat and the expiry \<open>lease_seconds\<close> after it;
  the attempts stay within the limit, with one to spare while queued; a result is the mark of
  success, and only success clears the error.
\<close>

definition lease_fields :: "queue_configuration \<Rightarrow> job_row \<Rightarrow> bool" where
  "lease_fields cfg r \<longleftrightarrow>
     (if row_status r = RUNNING then
        row_lease_owner r \<noteq> None \<and> row_lease_heartbeat_at_ms r \<noteq> None \<and>
        row_lease_expires_at_ms r =
          map_option (\<lambda>h. h + lease_seconds cfg * 1000) (row_lease_heartbeat_at_ms r)
      else row_lease_owner r = None \<and> row_lease_expires_at_ms r = None \<and>
        row_lease_heartbeat_at_ms r = None)"

definition attempts_ok :: "queue_configuration \<Rightarrow> job_row \<Rightarrow> bool" where
  "attempts_ok cfg r \<longleftrightarrow>
     0 \<le> row_attempts r \<and> row_attempts r \<le> max_attempts cfg \<and>
     (row_status r = QUEUED \<longrightarrow> row_attempts r < max_attempts cfg) \<and>
     (row_status r \<in> {RUNNING, SUCCEEDED, FAILED} \<longrightarrow> 1 \<le> row_attempts r)"

definition status_fields :: "job_row \<Rightarrow> bool" where
  "status_fields r \<longleftrightarrow>
     (row_result r \<noteq> None \<longleftrightarrow> row_status r = SUCCEEDED) \<and>
     (row_status r = SUCCEEDED \<longrightarrow> row_error r = None) \<and>
     (row_status r = FAILED \<longrightarrow> row_error r \<noteq> None) \<and>
     (row_status r \<in> {QUEUED, SUCCEEDED, FAILED} \<longrightarrow> \<not> row_cancellation_requested r) \<and>
     (row_status r = CANCELLED \<longrightarrow> row_cancellation_requested r) \<and>
     (row_stage r = job_status_value (row_status r) \<or>
      row_status r = QUEUED \<and> row_stage r = ''RETRY_SCHEDULED'')"

definition row_ok :: "codec \<Rightarrow> queue_configuration \<Rightarrow> job_row \<Rightarrow> bool" where
  "row_ok c cfg r \<longleftrightarrow>
     0 \<le> row_priority r \<and> row_priority r \<le> 1000 \<and> payload_ok c r \<and>
     lease_fields cfg r \<and> attempts_ok cfg r \<and> status_fields r"

lemma row_ok_step: "row_step cfg r r' \<Longrightarrow> row_ok c cfg r \<Longrightarrow> row_ok c cfg r'"
proof (induction rule: row_step.induct)
  case (rs_terminal r st res err ts)
  then show ?case
    by (cases st) (auto simp: row_update_defs row_ok_def payload_ok_def lease_fields_def
        attempts_ok_def status_fields_def)
qed (auto simp: row_update_defs row_ok_def payload_ok_def lease_fields_def attempts_ok_def
      status_fields_def lease_expired_def)

lemma row_ok_steps: "(row_step cfg)\<^sup>*\<^sup>* r r' \<Longrightarrow> row_ok c cfg r \<Longrightarrow> row_ok c cfg r'"
  by (induction rule: rtranclp_induct) (auto intro: row_ok_step)

lemma row_ok_parses: "row_ok c cfg r \<Longrightarrow> \<exists>job. job_from_row c r = Inr job"
  by (auto simp: row_ok_def payload_ok_def job_from_row_def)

subsection \<open>Changes of the database\<close>

inductive db_change :: "codec \<Rightarrow> queue_configuration \<Rightarrow> queue_db \<Rightarrow> queue_db \<Rightarrow> bool" for c cfg where
  dc_rows: "list_all2 (row_step cfg)\<^sup>*\<^sup>* (provision_job db) rows \<Longrightarrow>
    db_change c cfg db (db\<lparr>provision_job := rows\<rparr>)"
| dc_insert: "insert_job_row (new_job_row c g p org corr ts i) (provision_job db) = Some rows \<Longrightarrow>
    parse_goal_payload c (payload_json g) = Inr g \<Longrightarrow> 0 \<le> p \<Longrightarrow> p \<le> 1000 \<Longrightarrow>
    i \<notin> pj_job_id ` set (pruned_provision_job db) \<Longrightarrow>
    db_change c cfg db (db\<lparr>provision_job := rows\<rparr>)"
| dc_prune: "r \<in> set (provision_job db) \<Longrightarrow> terminal (row_status r) \<Longrightarrow>
    insert_pruned_row \<lparr>pj_job_id = row_job_id r, pj_final_status = row_status r, pj_pruned_at = ts\<rparr>
      (pruned_provision_job db) = Some pruned \<Longrightarrow>
    db_change c cfg db
      (db\<lparr>provision_job := filter (\<lambda>x. \<not> (row_job_id x = row_job_id r \<and> terminal (row_status x)))
            (provision_job db), pruned_provision_job := pruned\<rparr>)"
| dc_metadata: "db_change c cfg db (set_metadata k v db)"

text \<open>Ids and the identities of active jobs are unique; a pruned id is terminal and gone.\<close>

definition table_ok :: "job_row list \<Rightarrow> bool" where
  "table_ok rows \<longleftrightarrow>
     distinct (map row_job_id rows) \<and>
     distinct (map row_goal_identity (filter (\<lambda>r. active (row_status r)) rows))"

definition db_ok :: "codec \<Rightarrow> queue_configuration \<Rightarrow> queue_db \<Rightarrow> bool" where
  "db_ok c cfg db \<longleftrightarrow>
     table_ok (provision_job db) \<and> (\<forall>r \<in> set (provision_job db). row_ok c cfg r) \<and>
     distinct (map pj_job_id (pruned_provision_job db)) \<and>
     (\<forall>p \<in> set (pruned_provision_job db). terminal (pj_final_status p)) \<and>
     row_job_id ` set (provision_job db) \<inter> pj_job_id ` set (pruned_provision_job db) = {}"

lemma row_steps_ids:
  "list_all2 (row_step cfg)\<^sup>*\<^sup>* rows rows' \<Longrightarrow> map row_job_id rows' = map row_job_id rows"
  by (erule list_all2_map_eq) (drule row_steps_fixed, simp add: row_fixed_def)

lemma row_steps_active_identities:
  assumes "list_all2 (row_step cfg)\<^sup>*\<^sup>* rows rows'"
    and "distinct (map row_goal_identity (filter (\<lambda>r. active (row_status r)) rows))"
  shows "distinct (map row_goal_identity (filter (\<lambda>r. active (row_status r)) rows'))"
  using assms
proof (induction rule: list_all2_induct)
  case Nil
  then show ?case by simp
next
  case (Cons r rows r' rows')
  have ih: "distinct (map row_goal_identity (filter (\<lambda>r. active (row_status r)) rows'))"
    using Cons.IH Cons.prems by (simp split: if_splits)
  show ?case
  proof (cases "active (row_status r')")
    case False
    then show ?thesis using ih by simp
  next
    case True
    have r: "active (row_status r)" "row_goal_identity r' = row_goal_identity r"
      using row_steps_active [OF Cons.hyps(1) True] row_steps_fixed [OF Cons.hyps(1)]
      by (simp_all add: row_fixed_def)
    have "row_goal_identity r' \<noteq> row_goal_identity y" if y: "y \<in> set rows'" "active (row_status y)" for y
    proof -
      obtain x where x: "x \<in> set rows" "(row_step cfg)\<^sup>*\<^sup>* x y"
        using set_list_all2 [OF Cons.hyps(2) y(1)] by blast
      have "active (row_status x)" "row_goal_identity y = row_goal_identity x"
        using row_steps_active [OF x(2) y(2)] row_steps_fixed [OF x(2)] by (simp_all add: row_fixed_def)
      with Cons.prems r x(1) show ?thesis by auto
    qed
    with ih True show ?thesis by auto
  qed
qed

lemma insert_job_row_Some:
  "insert_job_row r rows = Some rows' \<longleftrightarrow>
     rows' = rows @ [r] \<and> row_job_id r \<notin> row_job_id ` set rows \<and>
     (active (row_status r) \<longrightarrow>
        row_goal_identity r \<notin> row_goal_identity ` set (filter (\<lambda>x. active (row_status x)) rows)) \<and>
     0 \<le> row_priority r \<and> row_priority r \<le> 1000 \<and> 0 \<le> row_attempts r"
  by (auto simp: insert_job_row_def list_ex_iff image_iff eq_commute [of "row_job_id r"] eq_commute [of "row_goal_identity r"])

lemma insert_pruned_row_Some:
  "insert_pruned_row p ps = Some ps' \<longleftrightarrow>
     ps' = ps @ [p] \<and> pj_job_id p \<notin> pj_job_id ` set ps \<and> terminal (pj_final_status p)"
  by (auto simp: insert_pruned_row_def list_ex_iff image_iff eq_commute [of "pj_job_id p"])

lemma new_job_row_ok:
  assumes "parse_goal_payload c (payload_json g) = Inr g" "0 \<le> p" "p \<le> 1000" "1 \<le> max_attempts cfg"
  shows "row_ok c cfg (new_job_row c g p org corr ts i)"
  using assms by (simp add: row_ok_def new_job_row_def payload_ok_def lease_fields_def attempts_ok_def
      status_fields_def)

lemma table_ok_filter: "table_ok rows \<Longrightarrow> table_ok (filter q rows)"
proof -
  assume "table_ok rows"
  then have d: "distinct (map row_job_id rows)"
    "distinct (map row_goal_identity (filter (\<lambda>r. active (row_status r)) rows))"
    by (simp_all add: table_ok_def)
  have "distinct (map row_goal_identity (filter q (filter (\<lambda>r. active (row_status r)) rows)))"
    by (rule distinct_filter_map) (rule d(2))
  then have "distinct (map row_goal_identity (filter (\<lambda>r. active (row_status r)) (filter q rows)))"
    by (simp add: conj_commute)
  with distinct_filter_map [OF d(1)] show ?thesis by (simp add: table_ok_def)
qed

lemma db_ok_change:
  assumes "db_change c cfg db db'" and "db_ok c cfg db" and "1 \<le> max_attempts cfg"
  shows "db_ok c cfg db'"
  using assms
proof (induction rule: db_change.induct)
  case (dc_rows db rows)
  have ids: "map row_job_id rows = map row_job_id (provision_job db)"
    by (rule row_steps_ids) (rule dc_rows.hyps)
  then have "row_job_id ` set rows = row_job_id ` set (provision_job db)"
    by (metis set_map)
  moreover have "table_ok rows"
    using dc_rows ids row_steps_active_identities [OF dc_rows.hyps]
    by (simp add: db_ok_def table_ok_def)
  moreover have "\<forall>r \<in> set rows. row_ok c cfg r"
    using dc_rows set_list_all2 [OF dc_rows.hyps] by (force simp: db_ok_def intro: row_ok_steps)
  ultimately show ?case
    using dc_rows.prems by (simp add: db_ok_def)
next
  case (dc_insert g p org corr ts i db rows)
  let ?r = "new_job_row c g p org corr ts i"
  have ok: "row_ok c cfg ?r"
    using dc_insert by (simp add: new_job_row_ok)
  have [simp]: "row_job_id ?r = i" "row_status ?r = QUEUED"
    by (simp_all add: new_job_row_def)
  show ?case
    using dc_insert ok by (simp add: insert_job_row_Some db_ok_def table_ok_def)
next
  case (dc_prune r db ts pruned)
  let ?q = "\<lambda>x. \<not> (row_job_id x = row_job_id r \<and> terminal (row_status x))"
  have eq: "x = r" if "x \<in> set (provision_job db)" "row_job_id x = row_job_id r" for x
    using that dc_prune.prems dc_prune.hyps(1)
    by (intro distinct_map_inj [of row_job_id "provision_job db"]) (auto simp: db_ok_def table_ok_def)
  have "table_ok (filter ?q (provision_job db))"
    using dc_prune.prems by (simp add: table_ok_filter db_ok_def)
  moreover have "row_job_id r \<notin> row_job_id ` set (filter ?q (provision_job db))"
    using eq dc_prune.hyps(2) by auto
  ultimately show ?case
    using dc_prune.prems dc_prune.hyps by (auto simp: insert_pruned_row_Some db_ok_def)
next
  case (dc_metadata db k v)
  then show ?case by (simp add: db_ok_def set_metadata_def)
qed

lemma db_ok_changes:
  "(db_change c cfg)\<^sup>*\<^sup>* db db' \<Longrightarrow> db_ok c cfg db \<Longrightarrow> 1 \<le> max_attempts cfg \<Longrightarrow> db_ok c cfg db'"
  by (induction rule: rtranclp_induct) (auto intro: db_ok_change)

lemma db_ok_ids: "db_ok c cfg db \<Longrightarrow> distinct (map row_job_id (provision_job db))"
  by (simp add: db_ok_def table_ok_def)

lemma db_ok_row: "db_ok c cfg db \<Longrightarrow> r \<in> set (provision_job db) \<Longrightarrow> row_ok c cfg r"
  by (simp add: db_ok_def)

subsection \<open>Recovery as one pass\<close>

lemma recovery_update_row:
  "job_from_row c r = Inr job \<Longrightarrow> recovery_update cfg ts job r = recover_row cfg ts r"
  by (simp add: recovery_update_def recover_row_def job_from_row_fields)

lemma recover_rows_Inr:
  assumes "recover_rows c cfg ts cs rows = Inr rows'"
    and "distinct (map row_job_id rows)" and "distinct (map row_job_id cs)"
    and "set cs \<subseteq> set rows" and "\<forall>r \<in> set cs. row_status r = RUNNING"
  shows "rows' = update_where (\<lambda>r. r \<in> set cs) (recover_row cfg ts) rows"
  using assms
proof (induction cs arbitrary: rows)
  case Nil
  then show ?case by (simp add: update_where_none)
next
  case (Cons r cs)
  from Cons.prems(1) obtain job where job: "job_from_row c r = Inr job"
    and rec: "recover_rows c cfg ts cs
      (update_where (\<lambda>x. row_job_id x = job_id job \<and> row_status x = RUNNING)
         (recovery_update cfg ts job) rows) = Inr rows'"
    by (auto simp: res_bind_Inr_iff)
  have id: "job_id job = row_job_id r" using job by (simp add: job_from_row_fields)
  have same: "x = r" if "x \<in> set rows" "row_job_id x = row_job_id r" for x
    using that Cons.prems by (intro distinct_map_inj [of row_job_id rows]) auto
  have first: "update_where (\<lambda>x. row_job_id x = job_id job \<and> row_status x = RUNNING)
      (recovery_update cfg ts job) rows = update_where (\<lambda>x. x = r) (recover_row cfg ts) rows"
  proof (rule update_where_cong)
    fix x assume "x \<in> set rows"
    then show "(row_job_id x = job_id job \<and> row_status x = RUNNING) = (x = r)"
      using same [of x] Cons.prems(5) id by auto
  next
    fix x assume "x = r"
    then show "recovery_update cfg ts job x = recover_row cfg ts x"
      using job by (simp add: recovery_update_row)
  qed
  let ?rows = "update_where (\<lambda>x. x = r) (recover_row cfg ts) rows"
  have key: "row_job_id (recover_row cfg ts x) = row_job_id x" for x
    by (simp add: recover_row_def clear_lease_def)
  have r_notin: "x \<notin> set cs" if "row_job_id x = row_job_id r" for x
    using that Cons.prems(3) by (metis distinct.simps(2) image_eqI list.simps(9) set_map)
  have "rows' = update_where (\<lambda>x. x \<in> set cs) (recover_row cfg ts) ?rows"
  proof (rule Cons.IH)
    show "recover_rows c cfg ts cs ?rows = Inr rows'" using rec first by simp
    show "distinct (map row_job_id ?rows)"
      using Cons.prems(2) by (simp add: map_update_where key)
    show "distinct (map row_job_id cs)" using Cons.prems(3) by simp
    show "set cs \<subseteq> set ?rows"
      using Cons.prems(4) r_notin by (force simp: set_update_where)
    show "\<forall>x \<in> set cs. row_status x = RUNNING" using Cons.prems(5) by simp
  qed
  also have "\<dots> = update_where (\<lambda>x. x \<in> set (r # cs)) (recover_row cfg ts) rows"
    unfolding update_where_def map_map comp_def
    by (rule map_cong [OF refl]) (use r_notin key in auto)
  finally show ?case .
qed

lemma recover_expired_Inr:
  assumes "recover_expired c cfg ts rows = Inr rows'" and "distinct (map row_job_id rows)"
  shows "rows' = update_where (lease_expired ts) (recover_row cfg ts) rows"
proof -
  have "rows' = update_where (\<lambda>r. r \<in> set (filter (lease_expired ts) rows)) (recover_row cfg ts) rows"
    using assms
    by (intro recover_rows_Inr [of c]) (auto simp: recover_expired_def distinct_filter_map lease_expired_def)
  also have "\<dots> = update_where (lease_expired ts) (recover_row cfg ts) rows"
    by (rule update_where_cong) auto
  finally show ?thesis .
qed

text \<open>Recovery fails only at a row whose payload does not parse.\<close>

lemma recover_rows_defined:
  "\<forall>r \<in> set cs. \<exists>job. job_from_row c r = Inr job \<Longrightarrow> \<exists>rows'. recover_rows c cfg ts cs rows = Inr rows'"
  by (induction cs arbitrary: rows) auto

end
