(* ===== verification/Queue_Steps.thy ===== *)
theory Queue_Steps
  imports Queue_Inv
begin

section \<open>The operations as changes, and the reachable databases\<close>

text \<open>
  Every operation of \<open>Queue_Ops\<close>, whatever it returns, is a sequence of the changes of
  \<open>Queue_Inv\<close>; \<open>queue_step\<close> is one call of an operation with any arguments and any clock reading,
  and a reachable database is one that such calls make from empty tables.
\<close>

subsection \<open>Operations are changes\<close>

lemma rows_change:
  assumes "\<And>r. r \<in> set (provision_job db) \<Longrightarrow> p r \<Longrightarrow> row_step cfg r (f r)"
  shows "db_change c cfg db (db\<lparr>provision_job := update_where p f (provision_job db)\<rparr>)"
proof (rule dc_rows)
  show "list_all2 (row_step cfg)\<^sup>*\<^sup>* (provision_job db) (update_where p f (provision_job db))"
    using assms by (auto simp: update_where_def list.rel_map intro!: list.rel_refl_strong)
qed

lemma commit_row_cases:
  "commit_row c db rows jid lost = (res, db') \<Longrightarrow> db' = db \<or> db' = db\<lparr>provision_job := rows\<rparr>"
  by (auto simp: commit_row_def split: option.splits)

lemma commit_row_change:
  assumes "commit_row c db (update_where p f (provision_job db)) jid lost = (res, db')"
    and "\<And>r. r \<in> set (provision_job db) \<Longrightarrow> p r \<Longrightarrow> row_step cfg r (f r)"
  shows "(db_change c cfg)\<^sup>*\<^sup>* db db'"
  using commit_row_cases [OF assms(1)] rows_change [OF assms(2), of db] by auto

lemma recover_change:
  assumes "recover_expired c cfg ts (provision_job db) = Inr rows" and "db_ok c cfg db"
  shows "db_change c cfg db (db\<lparr>provision_job := rows\<rparr>)"
  unfolding recover_expired_Inr [OF assms(1) db_ok_ids [OF assms(2)]]
  by (rule rows_change) (rule rs_recover)

lemma requeue_change:
  "requeue_expired c cfg ts db = (res, db') \<Longrightarrow> db_ok c cfg db \<Longrightarrow> (db_change c cfg)\<^sup>*\<^sup>* db db'"
  by (auto simp: requeue_expired_def dest: recover_change split: sum.splits)

lemma next_claim_in: "next_claim ts rows = Some r \<Longrightarrow> r \<in> set rows \<and> claimable ts r"
  by (auto simp: next_claim_def dest!: sort_key_hd split: list.splits)

lemma claim_change:
  assumes "claim c cfg w ts db = (res, db')" and "db_ok c cfg db"
  shows "(db_change c cfg)\<^sup>*\<^sup>* db db'"
proof (cases "db' = db")
  case False
  with assms(1) have "\<exists>rows p. recover_expired c cfg ts (provision_job db) = Inr rows \<and>
      (db' = db\<lparr>provision_job := rows\<rparr> \<or>
       db' = db\<lparr>provision_job := update_where (\<lambda>x. p x \<and> row_status x = QUEUED)
        (claim_update cfg w ts) rows\<rparr>)"
    by (fastforce simp: claim_def dest!: required_metadata_Inr commit_row_cases
        split: sum.splits option.splits prod.splits)
  then obtain rows p where rec: "recover_expired c cfg ts (provision_job db) = Inr rows"
    and "db' = db\<lparr>provision_job := rows\<rparr> \<or>
      db' = db\<lparr>provision_job := update_where (\<lambda>x. p x \<and> row_status x = QUEUED)
        (claim_update cfg w ts) rows\<rparr>"
    by blast
  moreover have "db_change c cfg db (db\<lparr>provision_job := rows\<rparr>)"
    by (rule recover_change) (rule rec assms(2))+
  moreover have "db_change c cfg (db\<lparr>provision_job := rows\<rparr>)
      (db\<lparr>provision_job := update_where (\<lambda>x. p x \<and> row_status x = QUEUED) (claim_update cfg w ts) rows\<rparr>)"
    using rows_change [of "db\<lparr>provision_job := rows\<rparr>" "\<lambda>x. p x \<and> row_status x = QUEUED" cfg
        "claim_update cfg w ts" c]
    by (simp add: rs_claim)
  ultimately show ?thesis by (auto intro: converse_rtranclp_into_rtranclp)
qed simp

lemma heartbeat_change:
  assumes "heartbeat c cfg jid w ts db = (res, db')"
  shows "(db_change c cfg)\<^sup>*\<^sup>* db db'"
proof (cases "db' = db")
  case False
  with assms show ?thesis
    by (auto simp: heartbeat_def live_lease_def intro!: rs_heartbeat commit_row_change
        split: sum.splits if_splits)
qed simp

lemma terminal_detail_Inr:
  "terminal_detail st v = Inr (res, err) \<Longrightarrow>
     terminal st \<and> (res \<noteq> None) = (st = SUCCEEDED) \<and> (err = None) = (st = SUCCEEDED)"
  by (cases st) (auto simp: terminal_detail_def res_bind_Inr_iff)

lemma terminalize_change:
  assumes "terminalize c cfg jid w st v ts retryable db = (res, db')" and "db_ok c cfg db"
  shows "(db_change c cfg)\<^sup>*\<^sup>* db db'"
proof (cases "db' = db")
  case False
  with assms obtain rs err where d: "terminal_detail st v = Inr (rs, err)"
    and t: "terminalize_transaction c cfg jid w st rs err ts retryable db = (res, db')"
    by (auto simp: terminalize_def res_bind_Inr_iff dest!: required_metadata_Inr split: sum.splits)
  note shape = terminal_detail_Inr [OF d]
  from t False obtain r job where r: "find (terminalizable jid w ts st) (provision_job db) = Some r"
    and job: "job_from_row c r = Inr job"
    by (auto simp: terminalize_transaction_def split: option.splits sum.splits)
  have r_in: "r \<in> set (provision_job db)" "terminalizable jid w ts st r"
    using find_Some_in [OF r] by auto
  have same: "x = r" if "x \<in> set (provision_job db)" "row_job_id x = jid" for x
    using that r_in db_ok_ids [OF assms(2)]
    by (intro distinct_map_inj [of row_job_id "provision_job db"]) (auto simp: terminalizable_def)
  show ?thesis
  proof (cases "st = FAILED \<and> retryable \<and> job_attempts job < max_attempts cfg")
    case True
    then obtain e where e: "err = Some e" using shape by auto
    have "commit_row c db (update_where (\<lambda>x. row_job_id x = jid \<and> live_lease w ts x)
        (retry_update ts (Some e)) (provision_job db)) jid ''provisioning queue lost a terminal job''
        = (res, db')"
      using t r job True by (simp add: terminalize_transaction_def e)
    then show ?thesis
    proof (rule commit_row_change)
      fix x assume "x \<in> set (provision_job db)" "row_job_id x = jid \<and> live_lease w ts x"
      then have "x = r" using same by blast
      then show "row_step cfg x (retry_update ts (Some e) x)"
        using r_in True by (auto simp: terminalizable_def live_lease_def job_from_row_fields(3) [OF job]
            intro: rs_retry)
    qed
  next
    case other: False
    have "commit_row c db (update_where (terminalizable jid w ts st) (terminal_update st rs err ts)
        (provision_job db)) jid ''provisioning queue lost a terminal job'' = (res, db')"
      using t r job other by (simp add: terminalize_transaction_def)
    then show ?thesis
      by (rule commit_row_change) (use shape in \<open>auto simp: terminalizable_def live_lease_def intro: rs_terminal\<close>)
  qed
qed simp

lemma cancel_change:
  assumes "cancel_job c jid ts db = (res, db')"
  shows "(db_change c cfg)\<^sup>*\<^sup>* db db'"
  using assms
  by (auto simp: cancel_job_def intro!: rs_cancel_queued rs_cancel_running commit_row_change
      split: option.splits sum.splits if_splits)

lemma submit_change:
  assumes "submit_or_join c g p org corr ts i db = (res, db')" and "db_ok c cfg db"
    and "i \<notin> pj_job_id ` set (pruned_provision_job db)"
    and reads: "\<And>g'. validated_goal c g = Inr g' \<Longrightarrow> codec_reads c g'"
  shows "(db_change c cfg)\<^sup>*\<^sup>* db db'"
proof (cases "db' = db")
  case False
  with assms(1) obtain g' org' corr' where g: "validated_goal c g = Inr g'" and p: "0 \<le> p" "p \<le> 1000"
    and t: "submit_transaction c g' p org' corr' ts i db = (res, db')"
    by (auto simp: submit_or_join_def res_bind_Inr_iff validated_priority_Inr split: sum.splits)
  have parse: "parse_goal_payload c (payload_json g') = Inr g'"
    by (rule parse_payload [OF validated_goal_valid [OF g] reads [OF g]])
  show ?thesis
  proof (cases "select_active (goal_identity c g') (provision_job db)")
    case None
    with t False obtain rows
      where "insert_job_row (new_job_row c g' p org' corr' ts i) (provision_job db) = Some rows"
        and "db' = db\<lparr>provision_job := rows\<rparr>"
      by (auto simp: submit_transaction_def dest: commit_row_cases
          split: option.splits prod.splits sum.splits)
    then show ?thesis using parse p assms(3) by (auto intro: dc_insert)
  next
    case (Some r)
    with t False obtain job where job: "job_from_row c r = Inr job" "job_status job = QUEUED"
      and db': "db' = db\<lparr>provision_job := update_where (\<lambda>x. row_job_id x = job_id job)
        (join_update p ts) (provision_job db)\<rparr>"
      by (auto simp: submit_transaction_def Let_def split: sum.splits if_splits option.splits)
    have r: "r \<in> set (provision_job db)"
      using find_Some_in [OF Some [unfolded select_active_def]] by simp
    have "row_step cfg x (join_update p ts x)"
      if "x \<in> set (provision_job db)" "row_job_id x = job_id job" for x
    proof -
      have "x = r"
        using that r job db_ok_ids [OF assms(2)]
        by (intro distinct_map_inj [of row_job_id "provision_job db"]) (auto simp: job_from_row_fields)
      with job p show ?thesis by (auto simp: job_from_row_fields intro: rs_join)
    qed
    then show ?thesis unfolding db' by (intro r_into_rtranclp rows_change)
  qed
qed simp

text \<open>One pruned row of the batch after another.\<close>

lemma prune_rows_changes:
  assumes "prune_rows retained ts batch (rows, pruned, counts, kept) = Inr (rows', pruned', counts', kept')"
    and "set batch \<subseteq> set rows" and "distinct (map row_job_id batch)"
    and "\<forall>r \<in> set batch. terminal (row_status r)"
  shows "(db_change c cfg)\<^sup>*\<^sup>* (db\<lparr>provision_job := rows, pruned_provision_job := pruned\<rparr>)
    (db\<lparr>provision_job := rows', pruned_provision_job := pruned'\<rparr>)"
  using assms
proof (induction batch arbitrary: rows pruned counts kept)
  case Nil
  then show ?case by simp
next
  case (Cons r batch)
  show ?case
  proof (cases "row_job_id r \<in> set retained")
    case True
    with Cons show ?thesis by simp
  next
    case False
    let ?rows = "filter (\<lambda>x. \<not> (row_job_id x = row_job_id r \<and> terminal (row_status x))) rows"
    let ?p = "\<lparr>pj_job_id = row_job_id r, pj_final_status = row_status r, pj_pruned_at = ts\<rparr>"
    from Cons.prems(1) False obtain ps where ps: "insert_pruned_row ?p pruned = Some ps"
      and rest: "prune_rows retained ts batch
        (?rows, ps, counts(row_status r := Suc (counts (row_status r))), kept)
        = Inr (rows', pruned', counts', kept')"
      by (auto split: option.splits)
    have "row_job_id x \<noteq> row_job_id r" if "x \<in> set batch" for x
      using that Cons.prems(3) by (metis distinct.simps(2) image_eqI list.simps(9) set_map)
    then have "(db_change c cfg)\<^sup>*\<^sup>* (db\<lparr>provision_job := ?rows, pruned_provision_job := ps\<rparr>)
        (db\<lparr>provision_job := rows', pruned_provision_job := pruned'\<rparr>)"
      using Cons.prems by (intro Cons.IH [OF rest]) auto
    moreover have "db_change c cfg (db\<lparr>provision_job := rows, pruned_provision_job := pruned\<rparr>)
        (db\<lparr>provision_job := ?rows, pruned_provision_job := ps\<rparr>)"
      using dc_prune [of r "db\<lparr>provision_job := rows, pruned_provision_job := pruned\<rparr>" ts ps c cfg]
        Cons.prems ps by simp
    ultimately show ?thesis by (rule converse_rtranclp_into_rtranclp [rotated])
  qed
qed

lemma prune_batch_facts:
  "set (prune_batch cutoff rows) \<subseteq> set rows"
  "r \<in> set (prune_batch cutoff rows) \<Longrightarrow> terminal (row_status r) \<and> row_updated_at_ms r < cutoff"
  "length (prune_batch cutoff rows) \<le> max_prune_batch_size"
  "distinct (map row_job_id rows) \<Longrightarrow> distinct (map row_job_id (prune_batch cutoff rows))"
proof -
  let ?sel = "filter (\<lambda>r. terminal (row_status r) \<and> row_updated_at_ms r < cutoff) rows"
  have sub: "set (prune_batch cutoff rows) \<subseteq> set ?sel"
    using set_take_subset [of max_prune_batch_size "sort_key row_updated_at_ms ?sel"]
    by (simp add: prune_batch_def)
  then show "set (prune_batch cutoff rows) \<subseteq> set rows" by auto
  show "r \<in> set (prune_batch cutoff rows) \<Longrightarrow> terminal (row_status r) \<and> row_updated_at_ms r < cutoff"
    using sub by auto
  show "length (prune_batch cutoff rows) \<le> max_prune_batch_size"
    by (simp add: prune_batch_def)
  assume "distinct (map row_job_id rows)"
  then have "distinct (map row_job_id ?sel)" by (rule distinct_filter_map)
  then have "distinct (map row_job_id (sort_key row_updated_at_ms ?sel))"
    by (rule distinct_map_perm) simp
  then show "distinct (map row_job_id (prune_batch cutoff rows))"
    by (simp add: prune_batch_def take_map [symmetric])
qed

lemma prune_change:
  assumes "prune_terminal days retained ts db = (res, db')" and "db_ok c cfg db"
  shows "(db_change c cfg)\<^sup>*\<^sup>* db db'"
proof (cases "db' = db")
  case False
  with assms(1) obtain rows pruned counts kept where
    p: "prune_rows retained ts (prune_batch (ts - days * 86400000) (provision_job db))
          (provision_job db, pruned_provision_job db, \<lambda>_. 0, 0) = Inr (rows, pruned, counts, kept)"
    and db': "db' = set_metadata ''last_prune_at_ms'' ts
          (db\<lparr>provision_job := rows, pruned_provision_job := pruned\<rparr>)"
    by (auto simp: prune_terminal_def split: sum.splits)
  have "(db_change c cfg)\<^sup>*\<^sup>* (db\<lparr>provision_job := provision_job db,
      pruned_provision_job := pruned_provision_job db\<rparr>)
    (db\<lparr>provision_job := rows, pruned_provision_job := pruned\<rparr>)"
    using prune_batch_facts db_ok_ids [OF assms(2)] by (intro prune_rows_changes [OF p]) blast+
  then show ?thesis
    unfolding db' by (auto intro: rtranclp.rtrancl_into_rtrancl dc_metadata)
qed simp

subsection \<open>Reachable databases\<close>

inductive queue_step :: "codec \<Rightarrow> queue_configuration \<Rightarrow> queue_db \<Rightarrow> queue_db \<Rightarrow> bool" for c cfg where
  qs_submit: "submit_or_join c g p org corr ts i db = (submitted, db') \<Longrightarrow>
    i \<notin> pj_job_id ` set (pruned_provision_job db) \<Longrightarrow>
    \<forall>g'. validated_goal c g = Inr g' \<longrightarrow> codec_reads c g' \<Longrightarrow> queue_step c cfg db db'"
| qs_claim: "claim c cfg w ts db = (claimed, db') \<Longrightarrow> queue_step c cfg db db'"
| qs_heartbeat: "heartbeat c cfg jid w ts db = (job, db') \<Longrightarrow> queue_step c cfg db db'"
| qs_requeue: "requeue_expired c cfg ts db = (jobs, db') \<Longrightarrow> queue_step c cfg db db'"
| qs_terminalize: "terminalize c cfg jid w st v ts retryable db = (job, db') \<Longrightarrow> queue_step c cfg db db'"
| qs_cancel: "cancel_job c jid ts db = (job, db') \<Longrightarrow> queue_step c cfg db db'"
| qs_prune: "prune_terminal days retained ts db = (pruned, db') \<Longrightarrow> queue_step c cfg db db'"

text \<open>The configuration limits the repository's constructor enforces.\<close>

definition cfg_ok :: "queue_configuration \<Rightarrow> bool" where
  "cfg_ok cfg \<longleftrightarrow> 1 \<le> max_attempts cfg \<and> 1 \<le> lease_seconds cfg"

definition opened :: "queue_configuration \<Rightarrow> queue_db \<Rightarrow> bool" where
  "opened cfg db \<longleftrightarrow> cfg_ok cfg \<and> provision_job db = [] \<and> pruned_provision_job db = []"

definition queue_ok :: "codec \<Rightarrow> queue_configuration \<Rightarrow> queue_db \<Rightarrow> bool" where
  "queue_ok c cfg db \<longleftrightarrow> cfg_ok cfg \<and> db_ok c cfg db"

lemma queue_step_changes:
  "queue_step c cfg db db' \<Longrightarrow> db_ok c cfg db \<Longrightarrow> (db_change c cfg)\<^sup>*\<^sup>* db db'"
  by (induction rule: queue_step.induct)
    (auto intro: submit_change claim_change heartbeat_change requeue_change terminalize_change
      cancel_change prune_change)

lemma queue_step_ok: "queue_step c cfg db db' \<Longrightarrow> queue_ok c cfg db \<Longrightarrow> queue_ok c cfg db'"
  using queue_step_changes [of c cfg db db'] db_ok_changes [of c cfg db db']
  by (simp add: queue_ok_def cfg_ok_def)

interpretation queue: invariant_system "opened cfg" "queue_step c cfg" "queue_ok c cfg"
proof
  show "queue_ok c cfg db" if "opened cfg db" for db
    using that by (simp add: opened_def queue_ok_def db_ok_def table_ok_def)
  show "queue_ok c cfg db'" if "queue_step c cfg db db'" "queue_ok c cfg db" for db db'
    using that by (rule queue_step_ok)
qed

text \<open>The operations keep the invariant, one fact per operation for the proofs that follow.\<close>

lemma queue_ok_ids: "queue_ok c cfg db \<Longrightarrow> distinct (map row_job_id (provision_job db))"
  using db_ok_ids [of c cfg db] by (simp add: queue_ok_def)

lemma queue_ok_row: "queue_ok c cfg db \<Longrightarrow> r \<in> set (provision_job db) \<Longrightarrow> row_ok c cfg r"
  using db_ok_row [of c cfg db r] by (simp add: queue_ok_def)

lemma queue_ok_parses:
  "queue_ok c cfg db \<Longrightarrow> r \<in> set (provision_job db) \<Longrightarrow> \<exists>job. job_from_row c r = Inr job"
  using queue_ok_row row_ok_parses by blast

lemma queue_steps_changes:
  assumes "(queue_step c cfg)\<^sup>*\<^sup>* db db'" and "queue_ok c cfg db"
  shows "(db_change c cfg)\<^sup>*\<^sup>* db db'"
  using assms
proof (induction rule: rtranclp_induct)
  case (step db1 db2)
  have "queue_ok c cfg db1"
    using step by (auto intro: queue.steps_inv)
  with step show ?case
    using queue_step_changes [of c cfg db1 db2] by (auto simp: queue_ok_def intro: rtranclp_trans)
qed simp

end
