(* ===== verification/Queue_Life.thy ===== *)
theory Queue_Life
  imports Queue_Steps
begin

section \<open>The life cycle of a job\<close>

text \<open>
  The abstract specification of the queue as one job sees it: a job waits, is leased to one worker,
  goes back to wait while attempts are left, ends in one of three outcomes, and may then be pruned.
  \<open>phase db jid\<close> is the abstraction of a database at a job id; every operation moves every id
  along \<open>life\<close>.
\<close>

datatype phase =
    Absent
  | Waiting int
  | Leased int "string option"
  | Cancelling int "string option"
  | Done job_status
  | Pruned job_status

inductive life :: "int \<Rightarrow> phase \<Rightarrow> phase \<Rightarrow> bool" for limit where
  life_submit: "life limit Absent (Waiting 0)"
| life_lease: "life limit (Waiting n) (Leased (n + 1) w)"
| life_withdraw: "life limit (Waiting n) (Done CANCELLED)"
| life_retry: "n < limit \<Longrightarrow> life limit (Leased n w) (Waiting n)"
| life_succeed: "life limit (Leased n w) (Done SUCCEEDED)"
| life_fail: "life limit (Leased n w) (Done FAILED)"
| life_cancel: "life limit (Leased n w) (Cancelling n w)"
| life_cancelled: "life limit (Cancelling n w) (Done CANCELLED)"
| life_prune: "life limit (Done s) (Pruned s)"

inductive_cases life_DoneE: "life limit (Done s) p"
inductive_cases life_PrunedE: "life limit (Pruned s) p"
inductive_cases life_CancellingE: "life limit (Cancelling n w) p"
inductive_cases life_to_LeasedE: "life limit p (Leased n w)"

definition row_phase :: "job_row \<Rightarrow> phase" where
  "row_phase r =
     (case row_status r of
        QUEUED \<Rightarrow> Waiting (row_attempts r)
      | RUNNING \<Rightarrow>
          (if row_cancellation_requested r then Cancelling (row_attempts r) (row_lease_owner r)
           else Leased (row_attempts r) (row_lease_owner r))
      | s \<Rightarrow> Done s)"

definition phase :: "queue_db \<Rightarrow> string \<Rightarrow> phase" where
  "phase db jid =
     (case select_job jid (provision_job db) of
        Some r \<Rightarrow> row_phase r
      | None \<Rightarrow> (case get_pruned jid db of Some p \<Rightarrow> Pruned (pj_final_status p) | None \<Rightarrow> Absent))"

lemma row_phase_terminal: "terminal (row_status r) \<Longrightarrow> row_phase r = Done (row_status r)"
  by (cases "row_status r") (simp_all add: row_phase_def)

subsection \<open>Every change follows the life cycle\<close>

lemma row_step_life:
  assumes "row_step cfg r r'" and "row_ok c cfg r"
  shows "(life (max_attempts cfg))\<^sup>*\<^sup>* (row_phase r) (row_phase r')"
  using assms
proof (induction rule: row_step.induct)
  case (rs_recover ts r)
  then show ?case
    by (auto simp: row_phase_def row_update_defs lease_expired_def
        intro!: r_into_rtranclp life.intros)
next
  case (rs_terminal r st res err ts)
  then show ?case
    by (cases st) (auto simp: row_phase_def row_update_defs intro!: r_into_rtranclp life.intros)
qed (auto simp: row_phase_def row_update_defs row_ok_def status_fields_def
      intro!: r_into_rtranclp life.intros)

lemma row_steps_life:
  "(row_step cfg)\<^sup>*\<^sup>* r r' \<Longrightarrow> row_ok c cfg r \<Longrightarrow>
   (life (max_attempts cfg))\<^sup>*\<^sup>* (row_phase r) (row_phase r')"
proof (induction rule: rtranclp_induct)
  case (step r' r'')
  then have "(life (max_attempts cfg))\<^sup>*\<^sup>* (row_phase r') (row_phase r'')"
    using row_step_life row_ok_steps by blast
  with step show ?case by (auto intro: rtranclp_trans)
qed simp

lemma change_life:
  assumes "db_change c cfg db db'" and "db_ok c cfg db"
  shows "(life (max_attempts cfg))\<^sup>*\<^sup>* (phase db jid) (phase db' jid)"
  using assms
proof (induction rule: db_change.induct)
  case (dc_rows db rows)
  have rel: "rel_option (row_step cfg)\<^sup>*\<^sup>* (select_job jid (provision_job db)) (select_job jid rows)"
    unfolding select_job_def using dc_rows.hyps
    by (rule list_all2_find) (drule row_steps_fixed, simp add: row_fixed_def)
  show ?case
  proof (cases "select_job jid (provision_job db)")
    case None
    with rel show ?thesis by (simp add: phase_def get_pruned_def)
  next
    case (Some r)
    then obtain r' where r': "select_job jid rows = Some r'" "(row_step cfg)\<^sup>*\<^sup>* r r'"
      using rel by (auto simp: option_rel_Some1)
    have "r \<in> set (provision_job db)"
      using find_Some_in [OF Some [unfolded select_job_def]] by simp
    with dc_rows.prems r' Some show ?thesis
      by (auto simp: phase_def db_ok_def intro: row_steps_life)
  qed
next
  case (dc_insert g p org corr ts i db rows)
  let ?r = "new_job_row c g p org corr ts i"
  have fields: "row_job_id ?r = i" "row_phase ?r = Waiting 0"
    by (simp_all add: new_job_row_def row_phase_def)
  have rows: "rows = provision_job db @ [?r]" "i \<notin> row_job_id ` set (provision_job db)"
    using dc_insert by (simp_all add: insert_job_row_Some fields)
  have "select_job i (provision_job db) = None" "get_pruned i db = None"
    using rows(2) dc_insert.hyps by (simp_all add: select_job_def get_pruned_def find_key_None)
  then show ?case
    by (cases "jid = i") (auto simp: phase_def rows(1) select_job_def get_pruned_def find_append fields
        intro!: r_into_rtranclp life.intros split: option.splits)
next
  case (dc_prune r db ts pruned)
  let ?q = "\<lambda>x. \<not> (row_job_id x = row_job_id r \<and> terminal (row_status x))"
  have sel: "select_job (row_job_id r) (provision_job db) = Some r"
    using dc_prune.prems dc_prune.hyps(1) by (auto simp: select_job_def db_ok_def table_ok_def intro: find_key)
  have ids: "distinct (map row_job_id (provision_job db))"
    using dc_prune.prems by (rule db_ok_ids)
  have "get_pruned (row_job_id r) db = None"
    using dc_prune.hyps(3) by (auto simp: insert_pruned_row_Some get_pruned_def find_key_None)
  then show ?case
    using sel dc_prune.hyps find_filter_key [OF ids, of jid ?q]
    by (cases "jid = row_job_id r")
      (auto simp: phase_def select_job_def get_pruned_def insert_pruned_row_Some find_append
        row_phase_terminal intro!: r_into_rtranclp life.intros split: option.splits dest: find_Some_in)
next
  case (dc_metadata db k v)
  show ?case
    by (simp add: phase_def set_metadata_def get_pruned_def cong: option.case_cong)
qed

lemma changes_life:
  "(db_change c cfg)\<^sup>*\<^sup>* db db' \<Longrightarrow> queue_ok c cfg db \<Longrightarrow>
   (life (max_attempts cfg))\<^sup>*\<^sup>* (phase db jid) (phase db' jid)"
proof (induction rule: rtranclp_induct)
  case (step db' db'')
  then have "db_ok c cfg db'"
    by (auto simp: queue_ok_def cfg_ok_def intro: db_ok_changes)
  with step show ?case
    by (auto intro: rtranclp_trans change_life)
qed simp

interpretation queue_life:
  simulation "opened cfg" "queue_step c cfg" "queue_ok c cfg" "\<lambda>db. phase db jid" "life (max_attempts cfg)"
proof
  show "(life (max_attempts cfg))\<^sup>*\<^sup>* (phase db jid) (phase db' jid)"
    if "queue_step c cfg db db'" "queue_ok c cfg db" for db db'
    using queue_step_changes [OF that(1)] that(2) by (auto simp: queue_ok_def intro: changes_life)
qed

subsection \<open>Consequences on the abstract side\<close>

definition settled :: "job_status \<Rightarrow> phase \<Rightarrow> bool" where
  "settled s p \<longleftrightarrow> p = Done s \<or> p = Pruned s"

lemma settled_life: "life limit p q \<Longrightarrow> settled s p \<Longrightarrow> settled s q"
  by (auto simp: settled_def elim: life_DoneE life_PrunedE)

text \<open>The number of leases a job has been granted, and the bound on it.\<close>

fun phase_attempts :: "phase \<Rightarrow> int" where
  "phase_attempts (Waiting n) = n"
| "phase_attempts (Leased n w) = n"
| "phase_attempts (Cancelling n w) = n"
| "phase_attempts _ = 0"

end
