(* ===== verification/Queue_Facts.thy ===== *)
theory Queue_Facts
  imports Queue_Life
begin

section \<open>What the queue guarantees\<close>

text \<open>
  The properties of the queue operations on a database that satisfies the invariant.  The lemmas
  give each operation's result and database on each of its branches; the properties combine them
  with the invariant of \<open>Queue_Inv\<close> and the life cycle of \<open>Queue_Life\<close>.
\<close>

subsection \<open>Selected rows\<close>

lemma select_job_in: "select_job jid rows = Some r \<Longrightarrow> r \<in> set rows \<and> row_job_id r = jid"
  unfolding select_job_def by (rule find_Some_in)

lemma select_job_key: "distinct (map row_job_id rows) \<Longrightarrow> r \<in> set rows \<Longrightarrow> select_job (row_job_id r) rows = Some r"
  by (simp add: select_job_def find_key)

lemma select_job_None: "select_job jid rows = None \<longleftrightarrow> (\<forall>r \<in> set rows. row_job_id r \<noteq> jid)"
  by (auto simp: select_job_def find_None_iff)

lemma select_job_update:
  "(\<And>r. p r \<Longrightarrow> row_job_id (f r) = row_job_id r) \<Longrightarrow>
   select_job jid (update_where p f rows) =
     map_option (\<lambda>r. if p r then f r else r) (select_job jid rows)"
  unfolding select_job_def by (rule find_update_where) simp

lemma row_update_ids [simp]:
  "row_job_id (recover_row cfg ts r) = row_job_id r"
  "row_job_id (claim_update cfg w ts r) = row_job_id r"
  "row_job_id (heartbeat_update cfg ts r) = row_job_id r"
  "row_job_id (retry_update ts e r) = row_job_id r"
  "row_job_id (terminal_update st res err ts r) = row_job_id r"
  "row_job_id (cancel_queued_update ts r) = row_job_id r"
  "row_job_id (cancel_running_update ts r) = row_job_id r"
  "row_job_id (join_update p ts r) = row_job_id r"
  by (simp_all add: row_update_defs)

lemma row_update_payloads [simp]:
  "row_payload_json (recover_row cfg ts r) = row_payload_json r"
  "row_payload_json (claim_update cfg w ts r) = row_payload_json r"
  "row_payload_json (heartbeat_update cfg ts r) = row_payload_json r"
  "row_payload_json (retry_update ts e r) = row_payload_json r"
  "row_payload_json (terminal_update st res err ts r) = row_payload_json r"
  "row_payload_json (cancel_queued_update ts r) = row_payload_json r"
  "row_payload_json (cancel_running_update ts r) = row_payload_json r"
  "row_payload_json (join_update p ts r) = row_payload_json r"
  by (simp_all add: row_update_defs)

text \<open>The job a row converts to, on rows whose payload parses.\<close>

definition row_job :: "codec \<Rightarrow> job_row \<Rightarrow> provisioning_job" where
  "row_job c r = projr (job_from_row c r)"

lemma job_from_row_ok: "row_ok c cfg r \<Longrightarrow> job_from_row c r = Inr (row_job c r)"
  using row_ok_parses by (fastforce simp: row_job_def)

lemma job_from_row_payload:
  "row_payload_json r' = row_payload_json r \<Longrightarrow> row_ok c cfg r \<Longrightarrow> job_from_row c r' = Inr (row_job c r')"
  by (auto simp: row_job_def job_from_row_def row_ok_def payload_ok_def)

lemma row_job_fields:
  assumes "row_ok c cfg r"
  shows "job_id (row_job c r) = row_job_id r" "job_status (row_job c r) = row_status r"
    "job_attempts (row_job c r) = row_attempts r" "job_priority (row_job c r) = row_priority r"
    "job_cancellation_requested (row_job c r) = row_cancellation_requested r"
    "job_lease_owner (row_job c r) = row_lease_owner r"
    "job_goal_identity (row_job c r) = row_goal_identity r"
    "job_lease_expires_at (row_job c r) = row_lease_expires_at_ms r"
    "job_result (row_job c r) = row_result r" "job_error (row_job c r) = row_error r"
  using job_from_row_fields [OF job_from_row_ok [OF assms]] by simp_all

lemma queue_ok_recover:
  assumes "queue_ok c cfg db"
  shows "recover_expired c cfg ts (provision_job db) =
    Inr (update_where (lease_expired ts) (recover_row cfg ts) (provision_job db))"
proof -
  have "\<exists>rows. recover_expired c cfg ts (provision_job db) = Inr rows"
    unfolding recover_expired_def
    by (rule recover_rows_defined) (use queue_ok_parses [OF assms] in auto)
  with recover_expired_Inr queue_ok_ids [OF assms] show ?thesis by fastforce
qed

abbreviation recovered :: "queue_configuration \<Rightarrow> int \<Rightarrow> queue_db \<Rightarrow> job_row list" where
  "recovered cfg ts db \<equiv> update_where (lease_expired ts) (recover_row cfg ts) (provision_job db)"

lemma recovered_not_expired: "r \<in> set (recovered cfg ts db) \<Longrightarrow> \<not> lease_expired ts' r \<or> \<not> lease_expired ts r"
  by (auto simp: set_update_where recover_row_def clear_lease_def lease_expired_def split: if_splits)

lemma recovered_ok:
  assumes "queue_ok c cfg db"
  shows "queue_ok c cfg (db\<lparr>provision_job := recovered cfg ts db\<rparr>)"
proof -
  have "db_change c cfg db (db\<lparr>provision_job := recovered cfg ts db\<rparr>)"
    by (rule rows_change) (rule rs_recover)
  with assms show ?thesis
    by (auto simp: queue_ok_def cfg_ok_def intro: db_ok_change)
qed

subsection \<open>The order of claims\<close>

lemma sort_key_Cons_min:
  fixes k :: "'a \<Rightarrow> 'b::linorder"
  assumes "sort_key k xs = y # ys" and "x \<in> set xs"
  shows "k y \<le> k x"
proof -
  have "sorted (map k (y # ys))" and "set (y # ys) = set xs"
    using assms(1) by (metis sorted_sort_key, metis set_sort)
  with assms(2) show ?thesis by auto
qed

lemma sort_key_Cons_first:
  fixes k :: "'a \<Rightarrow> 'b::linorder"
  assumes "sort_key k xs = y # ys"
  shows "find (\<lambda>x. k x = k y) xs = Some y"
proof -
  have "filter (\<lambda>x. k x = k y) (sort_key k xs) = filter (\<lambda>x. k x = k y) xs"
    by (rule sort_key_stable)
  then have "filter (\<lambda>x. k x = k y) xs = y # filter (\<lambda>x. k x = k y) ys"
    using assms by simp
  then show ?thesis by (induction xs) (auto split: if_splits)
qed

lemma next_claim_None: "next_claim ts rows = None \<longleftrightarrow> (\<forall>r \<in> set rows. \<not> claimable ts r)"
proof -
  have "sort_key claim_key (filter (claimable ts) rows) = [] \<longleftrightarrow> filter (claimable ts) rows = []"
    by (metis length_0_conv length_sort)
  then show ?thesis
    by (auto simp: next_claim_def filter_empty_conv split: list.splits)
qed

lemma next_claim_best:
  assumes "next_claim ts rows = Some r" and "x \<in> set rows" and "claimable ts x"
  shows "row_priority x < row_priority r \<or>
    row_priority x = row_priority r \<and> row_created_at_ms r \<le> row_created_at_ms x"
proof -
  obtain ys where "sort_key claim_key (filter (claimable ts) rows) = r # ys"
    using assms(1) by (auto simp: next_claim_def split: list.splits)
  then have "claim_key r \<le> claim_key x"
    by (rule sort_key_Cons_min) (simp add: assms)
  then show ?thesis by (auto simp: claim_key_def less_eq_prod_def)
qed

text \<open>Among equals the row inserted first is taken.\<close>

lemma next_claim_first:
  assumes "next_claim ts rows = Some r"
  shows "find (\<lambda>x. claimable ts x \<and> claim_key x = claim_key r) rows = Some r"
proof -
  obtain ys where "sort_key claim_key (filter (claimable ts) rows) = r # ys"
    using assms by (auto simp: next_claim_def split: list.splits)
  then have "find (\<lambda>x. claim_key x = claim_key r) (filter (claimable ts) rows) = Some r"
    by (rule sort_key_Cons_first)
  then show ?thesis by (induction rows) (auto split: if_splits)
qed

subsection \<open>Results of the operations\<close>

lemma commit_row_update:
  assumes "distinct (map row_job_id rows)" and "r \<in> set rows" and "row_ok c cfg r" and "p r"
    and "\<And>x. row_job_id (f x) = row_job_id x" and "\<And>x. row_payload_json (f x) = row_payload_json x"
  shows "commit_row c db (update_where p f rows) (row_job_id r) lost =
    (Inr (row_job c (f r)), db\<lparr>provision_job := update_where p f rows\<rparr>)"
  using assms select_job_key [OF assms(1,2)] job_from_row_payload [OF _ assms(3), of "f r"]
  by (simp add: commit_row_def select_job_update)

lemma claim_result:
  assumes "queue_ok c cfg db" and "required_metadata w ''worker_id'' = Inr w"
  shows "claim c cfg w ts db =
    (case next_claim ts (recovered cfg ts db) of
       None \<Rightarrow> (Inr None, db\<lparr>provision_job := recovered cfg ts db\<rparr>)
     | Some r \<Rightarrow>
         (Inr (Some (row_job c (claim_update cfg w ts r))),
          db\<lparr>provision_job :=
            update_where (\<lambda>x. row_job_id x = row_job_id r \<and> row_status x = QUEUED)
              (claim_update cfg w ts) (recovered cfg ts db)\<rparr>))"
proof (cases "next_claim ts (recovered cfg ts db)")
  case None
  then show ?thesis using assms by (simp add: claim_def queue_ok_recover)
next
  case (Some r)
  let ?rows = "recovered cfg ts db"
  have r: "r \<in> set ?rows" "claimable ts r"
    using next_claim_in [OF Some] by auto
  have ok: "row_ok c cfg r" and ids: "distinct (map row_job_id ?rows)"
    using recovered_ok [OF assms(1), of ts] r(1) by (auto dest: queue_ok_row queue_ok_ids)
  have "commit_row c db (update_where (\<lambda>x. row_job_id x = row_job_id r \<and> row_status x = QUEUED)
      (claim_update cfg w ts) ?rows) (row_job_id r) ''provisioning queue lost a claimed job'' =
    (Inr (row_job c (claim_update cfg w ts r)), db\<lparr>provision_job :=
      update_where (\<lambda>x. row_job_id x = row_job_id r \<and> row_status x = QUEUED) (claim_update cfg w ts) ?rows\<rparr>)"
    by (rule commit_row_update [OF ids r(1) ok]) (use r(2) in \<open>simp_all add: claimable_def\<close>)
  then show ?thesis
    using assms Some ok by (simp add: claim_def queue_ok_recover job_from_row_ok row_job_fields)
qed

lemma claim_result_row:
  assumes "queue_ok c cfg db" and "next_claim ts (recovered cfg ts db) = Some r"
  shows "update_where (\<lambda>x. row_job_id x = row_job_id r \<and> row_status x = QUEUED) f (recovered cfg ts db) =
    update_where (\<lambda>x. row_job_id x = row_job_id r) (\<lambda>_. f r) (recovered cfg ts db)"
proof (rule update_where_cong)
  let ?rows = "recovered cfg ts db"
  have ids: "distinct (map row_job_id ?rows)"
    using queue_ok_ids [OF recovered_ok [OF assms(1), of ts]] by simp
  have r: "r \<in> set ?rows" "row_status r = QUEUED"
    using next_claim_in [OF assms(2)] by (auto simp: claimable_def)
  fix x assume x: "x \<in> set ?rows"
  have same: "row_job_id x = row_job_id r \<Longrightarrow> x = r"
    by (rule distinct_map_inj [OF ids x r(1)])
  show "(row_job_id x = row_job_id r \<and> row_status x = QUEUED) = (row_job_id x = row_job_id r)"
    using same r(2) by blast
  show "f x = f r" if "row_job_id x = row_job_id r" using same [OF that] by simp
qed

lemma find_terminalizable:
  assumes "distinct (map row_job_id rows)" and "r \<in> set rows" and "terminalizable jid w ts st r"
  shows "find (terminalizable jid w ts st) rows = Some r"
proof -
  obtain x where x: "find (terminalizable jid w ts st) rows = Some x"
    using assms(2,3) by (metis find_None_iff not_None_eq)
  then have "x \<in> set rows" "terminalizable jid w ts st x" using find_Some_in by fast+
  with assms have "x = r"
    by (intro distinct_map_inj [of row_job_id rows]) (auto simp: terminalizable_def)
  with x show ?thesis by simp
qed

lemma terminalize_result:
  assumes "queue_ok c cfg db" and "required_metadata w ''worker_id'' = Inr w"
    and "terminal_detail st v = Inr (res, err)"
    and "r \<in> set (provision_job db)" and "terminalizable jid w ts st r"
  shows "terminalize c cfg jid w st v ts retryable db =
    (let retry = (st = FAILED \<and> retryable \<and> row_attempts r < max_attempts cfg);
         r' = (if retry then retry_update ts err r else terminal_update st res err ts r) in
     (Inr (row_job c r'),
      db\<lparr>provision_job := update_where (\<lambda>x. row_job_id x = jid) (\<lambda>_. r') (provision_job db)\<rparr>))"
proof -
  have ids: "distinct (map row_job_id (provision_job db))" and ok: "row_ok c cfg r"
    using assms by (auto dest: queue_ok_ids queue_ok_row)
  have jid: "row_job_id r = jid" "live_lease w ts r"
    using assms(5) by (simp_all add: terminalizable_def)
  have same: "x = r" if "x \<in> set (provision_job db)" "row_job_id x = jid" for x
    using that assms(4) ids jid by (intro distinct_map_inj [of row_job_id "provision_job db"]) auto
  note fnd = find_terminalizable [OF ids assms(4,5)]
  have upd: "update_where p f (provision_job db) =
      update_where (\<lambda>x. row_job_id x = jid) (\<lambda>_. f r) (provision_job db)"
    if "p r" "\<And>x. p x \<Longrightarrow> row_job_id x = jid" for p and f :: "job_row \<Rightarrow> job_row"
    by (rule update_where_cong) (use that same in blast)+
  show ?thesis
  proof (cases "st = FAILED \<and> retryable \<and> row_attempts r < max_attempts cfg")
    case True
    have "commit_row c db (update_where (\<lambda>x. row_job_id x = jid \<and> live_lease w ts x)
        (retry_update ts err) (provision_job db)) (row_job_id r) ''provisioning queue lost a terminal job''
      = (Inr (row_job c (retry_update ts err r)), db\<lparr>provision_job :=
          update_where (\<lambda>x. row_job_id x = jid \<and> live_lease w ts x) (retry_update ts err)
            (provision_job db)\<rparr>)"
      by (rule commit_row_update [OF ids assms(4) ok]) (simp_all add: jid)
    then show ?thesis
      using assms True fnd jid upd [of "\<lambda>x. row_job_id x = jid \<and> live_lease w ts x" "retry_update ts err"]
      by (simp add: terminalize_def terminalize_transaction_def job_from_row_ok [OF ok]
          row_job_fields [OF ok] Let_def)
  next
    case False
    have "commit_row c db (update_where (terminalizable jid w ts st) (terminal_update st res err ts)
        (provision_job db)) (row_job_id r) ''provisioning queue lost a terminal job''
      = (Inr (row_job c (terminal_update st res err ts r)), db\<lparr>provision_job :=
          update_where (terminalizable jid w ts st) (terminal_update st res err ts) (provision_job db)\<rparr>)"
      by (rule commit_row_update [OF ids assms(4) ok]) (simp_all add: assms(5))
    moreover have "update_where (terminalizable jid w ts st) (terminal_update st res err ts) (provision_job db) =
        update_where (\<lambda>x. row_job_id x = jid) (\<lambda>_. terminal_update st res err ts r) (provision_job db)"
      by (rule upd) (use assms(5) in \<open>auto simp: terminalizable_def\<close>)
    ultimately show ?thesis
      using assms False fnd jid
      by (auto simp add: Let_def terminalize_def terminalize_transaction_def job_from_row_ok [OF ok]
          row_job_fields [OF ok])
  qed
qed

lemma terminalize_refused:
  assumes "required_metadata w ''worker_id'' = Inr w" and "terminal_detail st v = Inr re"
    and "\<forall>r \<in> set (provision_job db). \<not> terminalizable jid w ts st r"
  shows "terminalize c cfg jid w st v ts retryable db = (Inl (lease_error jid (provision_job db)), db)"
proof -
  have "find (terminalizable jid w ts st) (provision_job db) = None"
    using assms(3) by (auto simp: find_None_iff)
  with assms show ?thesis
    by (cases re) (simp add: terminalize_def terminalize_transaction_def)
qed

lemma heartbeat_result:
  assumes "queue_ok c cfg db" and "required_metadata w ''worker_id'' = Inr w"
    and "r \<in> set (provision_job db)" and "live_lease w ts r"
  shows "heartbeat c cfg (row_job_id r) w ts db =
    (Inr (row_job c (heartbeat_update cfg ts r)),
     db\<lparr>provision_job := update_where (\<lambda>x. row_job_id x = row_job_id r \<and> live_lease w ts x)
        (heartbeat_update cfg ts) (provision_job db)\<rparr>)"
proof -
  have ids: "distinct (map row_job_id (provision_job db))" and ok: "row_ok c cfg r"
    using assms by (auto dest: queue_ok_ids queue_ok_row)
  have "list_ex (\<lambda>x. row_job_id x = row_job_id r \<and> live_lease w ts x) (provision_job db)"
    using assms(3,4) by (auto simp: list_ex_iff)
  moreover have "commit_row c db (update_where (\<lambda>x. row_job_id x = row_job_id r \<and> live_lease w ts x)
      (heartbeat_update cfg ts) (provision_job db)) (row_job_id r)
      ''provisioning queue lost a heartbeated job'' =
    (Inr (row_job c (heartbeat_update cfg ts r)),
     db\<lparr>provision_job := update_where (\<lambda>x. row_job_id x = row_job_id r \<and> live_lease w ts x)
        (heartbeat_update cfg ts) (provision_job db)\<rparr>)"
    by (rule commit_row_update [OF ids assms(3) ok]) (simp_all add: assms(4))
  ultimately show ?thesis using assms(2) by (simp add: heartbeat_def)
qed

lemma cancel_result:
  assumes "queue_ok c cfg db" and "r \<in> set (provision_job db)"
  shows "cancel_job c (row_job_id r) ts db =
    (if row_status r = QUEUED then
       (Inr (row_job c (cancel_queued_update ts r)),
        db\<lparr>provision_job := update_where (\<lambda>x. row_job_id x = row_job_id r \<and> row_status x = QUEUED)
           (cancel_queued_update ts) (provision_job db)\<rparr>)
     else if row_status r = RUNNING then
       (Inr (row_job c (cancel_running_update ts r)),
        db\<lparr>provision_job := update_where (\<lambda>x. row_job_id x = row_job_id r \<and> row_status x = RUNNING)
           (cancel_running_update ts) (provision_job db)\<rparr>)
     else (Inl (JobTransitionError (row_job_id r) (row_status r)), db))"
proof -
  have ids: "distinct (map row_job_id (provision_job db))" and ok: "row_ok c cfg r"
    using assms by (auto dest: queue_ok_ids queue_ok_row)
  note c = commit_row_update [OF ids assms(2) ok]
  have 1: "row_status r = QUEUED \<Longrightarrow>
      commit_row c db (update_where (\<lambda>x. row_job_id x = row_job_id r \<and> row_status x = QUEUED)
        (cancel_queued_update ts) (provision_job db)) (row_job_id r) ''provisioning queue lost a cancelled job''
      = (Inr (row_job c (cancel_queued_update ts r)),
        db\<lparr>provision_job := update_where (\<lambda>x. row_job_id x = row_job_id r \<and> row_status x = QUEUED)
           (cancel_queued_update ts) (provision_job db)\<rparr>)"
    by (rule c) simp_all
  have 2: "row_status r = RUNNING \<Longrightarrow>
      commit_row c db (update_where (\<lambda>x. row_job_id x = row_job_id r \<and> row_status x = RUNNING)
        (cancel_running_update ts) (provision_job db)) (row_job_id r) ''provisioning queue lost a cancelled job''
      = (Inr (row_job c (cancel_running_update ts r)),
        db\<lparr>provision_job := update_where (\<lambda>x. row_job_id x = row_job_id r \<and> row_status x = RUNNING)
           (cancel_running_update ts) (provision_job db)\<rparr>)"
    by (rule c) simp_all
  show ?thesis
    using 1 2 select_job_key [OF ids assms(2)]
    by (simp add: cancel_job_def job_from_row_ok [OF ok] row_job_fields [OF ok])
qed

lemma select_active_None:
  "select_active i rows = None \<longleftrightarrow> (\<forall>r \<in> set rows. \<not> (row_goal_identity r = i \<and> active (row_status r)))"
  by (auto simp: select_active_def find_None_iff)

lemma validated_goal_eq:
  assumes "valid_goal g" and "codec_reads c g"
  shows "validated_goal c g = Inr g"
  using parse_payload [OF assms] by (simp add: validated_goal_def)

lemma submit_arguments:
  assumes "valid_goal g" and "codec_reads c g" and "validated_priority p = Inr p"
    and "metadata org ''origin'' = Inr org" and "metadata corr ''correlation_id'' = Inr corr"
  shows "submit_or_join c g p org corr ts i db = submit_transaction c g p org corr ts i db"
  using assms validated_goal_eq [OF assms(1,2)] by (simp add: submit_or_join_def)

lemma submit_new_result:
  assumes "queue_ok c cfg db" and "valid_goal g" and "codec_reads c g" and "0 \<le> p" and "p \<le> 1000"
    and "i \<notin> row_job_id ` set (provision_job db)"
    and "select_active (goal_identity c g) (provision_job db) = None"
  shows "submit_transaction c g p org corr ts i db =
    (Inr \<lparr>submit_job = row_job c (new_job_row c g p org corr ts i), joined_existing_job = False\<rparr>,
     db\<lparr>provision_job := provision_job db @ [new_job_row c g p org corr ts i]\<rparr>)"
proof -
  let ?r = "new_job_row c g p org corr ts i"
  let ?rows = "provision_job db @ [?r]"
  have fields: "row_job_id ?r = i" "row_status ?r = QUEUED" "row_goal_identity ?r = goal_identity c g"
    "row_priority ?r = p" "row_attempts ?r = 0"
    by (simp_all add: new_job_row_def)
  have ins: "insert_job_row ?r (provision_job db) = Some ?rows"
    using assms fields by (auto simp: insert_job_row_Some select_active_None image_iff)
  have "row_ok c cfg ?r"
    using assms parse_payload [OF assms(2,3)]
    by (intro new_job_row_ok) (simp_all add: queue_ok_def cfg_ok_def)
  then have job: "job_from_row c ?r = Inr (row_job c ?r)"
    by (rule job_from_row_ok)
  have "select_job i ?rows = Some ?r"
    using assms(6) by (simp add: select_job_def find_append find_key_None fields)
  then have "commit_row c db ?rows i ''provisioning queue lost a new job'' =
      (Inr (row_job c ?r), db\<lparr>provision_job := ?rows\<rparr>)"
    by (simp add: commit_row_def job)
  then show ?thesis
    using assms(7) ins by (simp add: submit_transaction_def)
qed

lemma submit_join_result:
  assumes "queue_ok c cfg db" and "select_active (goal_identity c g) (provision_job db) = Some r"
  shows "submit_transaction c g p org corr ts i db =
    (if row_status r = QUEUED then
       (Inr \<lparr>submit_job = row_job c (join_update p ts r), joined_existing_job = True\<rparr>,
        db\<lparr>provision_job := update_where (\<lambda>x. row_job_id x = row_job_id r) (join_update p ts)
             (provision_job db)\<rparr>)
     else (Inr \<lparr>submit_job = row_job c r, joined_existing_job = True\<rparr>, db))"
proof -
  have r: "r \<in> set (provision_job db)"
    using find_Some_in [OF assms(2) [unfolded select_active_def]] by simp
  have ids: "distinct (map row_job_id (provision_job db))" and ok: "row_ok c cfg r"
    using assms(1) r by (auto dest: queue_ok_ids queue_ok_row)
  have "select_job (row_job_id r) (update_where (\<lambda>x. row_job_id x = row_job_id r) (join_update p ts)
      (provision_job db)) = Some (join_update p ts r)"
    using select_job_key [OF ids r] by (simp add: select_job_update)
  moreover have "job_from_row c (join_update p ts r) = Inr (row_job c (join_update p ts r))"
    using ok by (intro job_from_row_payload [where r = r]) simp
  ultimately show ?thesis
    using assms(2) by (simp add: submit_transaction_def Let_def job_from_row_ok [OF ok] row_job_fields [OF ok])
qed

lemma active_row_unique:
  assumes "queue_ok c cfg db" and "r \<in> set (provision_job db)" and "active (row_status r)"
  shows "filter (\<lambda>x. row_goal_identity x = row_goal_identity r \<and> active (row_status x))
    (provision_job db) = [r]"
proof -
  have "filter (\<lambda>x. row_goal_identity x = row_goal_identity r)
      (filter (\<lambda>x. active (row_status x)) (provision_job db)) = [r]"
    by (rule filter_key) (use assms in \<open>auto simp: queue_ok_def db_ok_def table_ok_def\<close>)
  then show ?thesis by (simp add: conj_commute)
qed

lemma claim_leases:
  assumes "queue_ok c cfg db" and "required_metadata w ''worker_id'' = Inr w"
    and "claim c cfg w ts db = (Inr (Some job), db')"
  shows "queue_ok c cfg db' \<and> (\<exists>r \<in> set (provision_job db'). row_job_id r = job_id job \<and>
    row_status r = RUNNING \<and> row_lease_owner r = Some w \<and>
    row_lease_expires_at_ms r = Some (ts + lease_seconds cfg * 1000))"
proof -
  have "queue_ok c cfg db'"
    using queue_step_ok [OF qs_claim [OF assms(3)] assms(1)] .
  obtain r where r: "next_claim ts (recovered cfg ts db) = Some r"
    and job: "job = row_job c (claim_update cfg w ts r)"
    and db': "provision_job db' = update_where (\<lambda>x. row_job_id x = row_job_id r \<and> row_status x = QUEUED)
      (claim_update cfg w ts) (recovered cfg ts db)"
    using claim_result [OF assms(1,2), of ts] assms(3) by (auto split: option.splits)
  have r_in: "r \<in> set (recovered cfg ts db)" "row_status r = QUEUED"
    using next_claim_in [OF r] by (auto simp: claimable_def)
  have mem: "claim_update cfg w ts r \<in> set (provision_job db')"
    unfolding db' by (subst set_update_where, rule image_eqI [where x = r]) (use r_in in simp_all)
  then have "row_ok c cfg (claim_update cfg w ts r)"
    using \<open>queue_ok c cfg db'\<close> by (auto dest: queue_ok_row)
  then have "job_id job = row_job_id (claim_update cfg w ts r)"
    unfolding job by (rule row_job_fields)
  with mem \<open>queue_ok c cfg db'\<close> show ?thesis
    by (intro conjI bexI [OF _ mem]) (simp_all add: claim_update_def)
qed

text \<open>A row leased to one worker is out of reach of another until the lease expires.\<close>

lemma foreign_lease:
  assumes "queue_ok c cfg db" and "r \<in> set (provision_job db)" and "row_status r = RUNNING"
    and "row_lease_owner r = Some w" and "w2 \<noteq> w"
    and "row_lease_expires_at_ms r = Some e" and "t < e"
    and "required_metadata w2 ''worker_id'' = Inr w2"
  shows "heartbeat c cfg (row_job_id r) w2 t db = (Inl (JobLeaseError (row_job_id r)), db)"
    and "terminal_detail st v = Inr re \<Longrightarrow>
      terminalize c cfg (row_job_id r) w2 st v t retryable db = (Inl (JobLeaseError (row_job_id r)), db)"
    and "claim c cfg w2 t db = (Inr (Some job2), db2) \<Longrightarrow> job_id job2 \<noteq> row_job_id r"
proof -
  have ids: "distinct (map row_job_id (provision_job db))"
    using assms(1) by (rule queue_ok_ids)
  have same: "x = r" if "x \<in> set (provision_job db)" "row_job_id x = row_job_id r" for x
    using that assms(2) ids by (intro distinct_map_inj [of row_job_id "provision_job db"])
  have lost: "\<forall>x \<in> set (provision_job db). \<not> (row_job_id x = row_job_id r \<and> live_lease w2 t x)"
    using assms(4,5) by (auto simp: live_lease_def dest: same)
  have err: "lease_error (row_job_id r) (provision_job db) = JobLeaseError (row_job_id r)"
    using assms(2) by (auto simp: lease_error_def select_job_None)
  show "heartbeat c cfg (row_job_id r) w2 t db = (Inl (JobLeaseError (row_job_id r)), db)"
    using lost assms(8) err by (simp add: heartbeat_def list_ex_iff)
  show "terminalize c cfg (row_job_id r) w2 st v t retryable db = (Inl (JobLeaseError (row_job_id r)), db)"
    if "terminal_detail st v = Inr re"
  proof -
    have "\<forall>x \<in> set (provision_job db). \<not> terminalizable (row_job_id r) w2 t st x"
      using lost by (auto simp: terminalizable_def)
    from terminalize_refused [OF assms(8) that this] show ?thesis by (simp add: err)
  qed
  show "job_id job2 \<noteq> row_job_id r" if run: "claim c cfg w2 t db = (Inr (Some job2), db2)"
  proof
    assume eq: "job_id job2 = row_job_id r"
    obtain q where q: "next_claim t (recovered cfg t db) = Some q"
      and job: "job2 = row_job c (claim_update cfg w2 t q)"
      using claim_result [OF assms(1,8), of t] run by (auto split: option.splits)
    have q_in: "q \<in> set (recovered cfg t db)" "row_status q = QUEUED"
      using next_claim_in [OF q] by (auto simp: claimable_def)
    have ok: "row_ok c cfg q"
      using queue_ok_row [OF recovered_ok [OF assms(1), of t]] q_in by simp
    have "row_job_id q = row_job_id r"
      using eq row_job_fields(1) [OF row_ok_step [OF rs_claim [OF q_in(2)] ok, of w2 t]]
      by (simp add: job)
    moreover from q_in obtain x where x: "x \<in> set (provision_job db)"
      "q = (if lease_expired t x then recover_row cfg t x else x)"
      by (auto simp: set_update_where)
    ultimately have "x = r" using same [OF x(1)] by (auto split: if_splits)
    then have "q = r" using x(2) assms(6,7) by (simp add: lease_expired_def)
    with q_in(2) assms(3) show False by simp
  qed
qed

subsection \<open>Retention\<close>

definition tombstone :: "int \<Rightarrow> job_row \<Rightarrow> pruned_job" where
  "tombstone ts r = \<lparr>pj_job_id = row_job_id r, pj_final_status = row_status r, pj_pruned_at = ts\<rparr>"

lemma prune_rows_result:
  assumes "set batch \<subseteq> set rows" and "distinct (map row_job_id rows)" and "distinct (map row_job_id batch)"
    and "\<forall>r \<in> set batch. terminal (row_status r) \<and> row_job_id r \<notin> pj_job_id ` set pruned"
  shows "\<exists>counts'. prune_rows retained ts batch (rows, pruned, counts, kept) =
    Inr (filter (\<lambda>r. r \<notin> set (filter (\<lambda>r. row_job_id r \<notin> set retained) batch)) rows,
         pruned @ map (tombstone ts) (filter (\<lambda>r. row_job_id r \<notin> set retained) batch), counts',
         kept + length (filter (\<lambda>r. row_job_id r \<in> set retained) batch)) \<and>
    counts' SUCCEEDED + counts' FAILED + counts' CANCELLED =
      counts SUCCEEDED + counts FAILED + counts CANCELLED +
      length (filter (\<lambda>r. row_job_id r \<notin> set retained) batch)"
  using assms
proof (induction batch arbitrary: rows pruned counts kept)
  case Nil
  then show ?case by (auto intro!: exI [where x = counts])
next
  case (Cons r batch)
  show ?case
  proof (cases "row_job_id r \<in> set retained")
    case True
    obtain counts' where "prune_rows retained ts batch (rows, pruned, counts, Suc kept) =
        Inr (filter (\<lambda>r. r \<notin> set (filter (\<lambda>r. row_job_id r \<notin> set retained) batch)) rows,
             pruned @ map (tombstone ts) (filter (\<lambda>r. row_job_id r \<notin> set retained) batch), counts',
             Suc kept + length (filter (\<lambda>r. row_job_id r \<in> set retained) batch))"
      "counts' SUCCEEDED + counts' FAILED + counts' CANCELLED =
         counts SUCCEEDED + counts FAILED + counts CANCELLED +
         length (filter (\<lambda>r. row_job_id r \<notin> set retained) batch)"
      using Cons.IH [of rows pruned counts "Suc kept"] Cons.prems by auto
    with True show ?thesis by simp
  next
    case False
    let ?rows = "filter (\<lambda>x. \<not> (row_job_id x = row_job_id r \<and> terminal (row_status x))) rows"
    let ?counts = "counts(row_status r := Suc (counts (row_status r)))"
    have other: "row_job_id x \<noteq> row_job_id r" if "x \<in> set batch" for x
      using that Cons.prems(3) by (metis distinct.simps(2) image_eqI list.simps(9) set_map)
    have rows: "?rows = filter (\<lambda>x. x \<noteq> r) rows"
    proof (rule filter_cong [OF refl])
      fix x assume "x \<in> set rows"
      then show "(\<not> (row_job_id x = row_job_id r \<and> terminal (row_status x))) = (x \<noteq> r)"
        using Cons.prems distinct_map_inj [OF Cons.prems(2), of x r] by auto
    qed
    have ins: "insert_pruned_row (tombstone ts r) pruned = Some (pruned @ [tombstone ts r])"
      using Cons.prems(4) by (simp add: insert_pruned_row_Some tombstone_def)
    have p1: "set batch \<subseteq> set ?rows"
      using Cons.prems(1) other by auto
    have p2: "distinct (map row_job_id ?rows)"
      using Cons.prems(2) by (rule distinct_filter_map)
    have p3: "distinct (map row_job_id batch)"
      using Cons.prems(3) by simp
    have p4: "\<forall>x \<in> set batch. terminal (row_status x) \<and>
        row_job_id x \<notin> pj_job_id ` set (pruned @ [tombstone ts r])"
      using Cons.prems(4) other by (auto simp: tombstone_def)
    obtain counts' where
      rest: "prune_rows retained ts batch (?rows, pruned @ [tombstone ts r], ?counts, kept) =
        Inr (filter (\<lambda>r. r \<notin> set (filter (\<lambda>r. row_job_id r \<notin> set retained) batch)) ?rows,
             (pruned @ [tombstone ts r]) @ map (tombstone ts) (filter (\<lambda>r. row_job_id r \<notin> set retained) batch),
             counts', kept + length (filter (\<lambda>r. row_job_id r \<in> set retained) batch))"
      and sum: "counts' SUCCEEDED + counts' FAILED + counts' CANCELLED =
         ?counts SUCCEEDED + ?counts FAILED + ?counts CANCELLED +
         length (filter (\<lambda>r. row_job_id r \<notin> set retained) batch)"
      using Cons.IH [OF p1 p2 p3 p4, of ?counts kept] by blast
    have step: "prune_rows retained ts (r # batch) (rows, pruned, counts, kept) =
        prune_rows retained ts batch (?rows, pruned @ [tombstone ts r], ?counts, kept)"
      using False ins by (simp add: tombstone_def)
    have kept_rows: "filter (\<lambda>x. x \<notin> set (filter (\<lambda>r. row_job_id r \<notin> set retained) batch)) ?rows =
        filter (\<lambda>x. x \<notin> set (filter (\<lambda>r. row_job_id r \<notin> set retained) (r # batch))) rows"
      unfolding rows using False by (auto intro: filter_cong)
    have "?counts SUCCEEDED + ?counts FAILED + ?counts CANCELLED =
        Suc (counts SUCCEEDED + counts FAILED + counts CANCELLED)"
      using Cons.prems(4) by (cases "row_status r") auto
    then have "counts' SUCCEEDED + counts' FAILED + counts' CANCELLED =
        counts SUCCEEDED + counts FAILED + counts CANCELLED +
        length (filter (\<lambda>r. row_job_id r \<notin> set retained) (r # batch))"
      using sum False by simp
    moreover have "prune_rows retained ts (r # batch) (rows, pruned, counts, kept) =
        Inr (filter (\<lambda>x. x \<notin> set (filter (\<lambda>r. row_job_id r \<notin> set retained) (r # batch))) rows,
             pruned @ map (tombstone ts) (filter (\<lambda>r. row_job_id r \<notin> set retained) (r # batch)), counts',
             kept + length (filter (\<lambda>r. row_job_id r \<in> set retained) (r # batch)))"
      unfolding step rest kept_rows using False by simp
    ultimately show ?thesis by blast
  qed
qed

subsection \<open>Unreadable rows\<close>

lemma job_from_row_Inl:
  "job_from_row c r = Inl e \<Longrightarrow> e = QueueStorageError ''provisioning queue contains invalid data''"
  by (auto simp: job_from_row_def split: sum.splits)

lemma recover_rows_unreadable:
  assumes "r \<in> set cs" and "job_from_row c r = Inl e"
  shows "recover_rows c cfg ts cs rows = Inl (QueueStorageError ''provisioning queue contains invalid data'')"
  using assms
proof (induction cs arbitrary: rows)
  case (Cons x cs)
  show ?case
  proof (cases "job_from_row c x")
    case (Inl e')
    then show ?thesis by (auto dest: job_from_row_Inl)
  next
    case (Inr job)
    with Cons.prems have "r \<in> set cs" by auto
    with Inr Cons show ?thesis by simp
  qed
qed simp

end
