(* ===== verification/Queue_Props.thy ===== *)
theory Queue_Props
  imports Queue_Facts
begin

section \<open>Properties of the durable queue\<close>

text \<open>
  The properties of submission, claim, leases, terminal transitions, cancellation, recovery and
  retention, each with a small database at which it is applied.
\<close>

subsection \<open>Sample databases\<close>

definition sample_codec :: codec where
  "sample_codec = table_codec [sample_goal]"

definition sample_cfg :: queue_configuration where
  "sample_cfg = \<lparr>busy_timeout_ms = 5000, lease_seconds = 30, max_attempts = 2\<rparr>"

definition waiting_row :: job_row where
  "waiting_row = new_job_row sample_codec sample_goal 100 None None 1000 ''j1''"

definition leased_row :: job_row where
  "leased_row = claim_update sample_cfg ''w1'' 2000 waiting_row"

definition failed_row :: job_row where
  "failed_row = terminal_update FAILED None (Some ''boom'') 3000 leased_row"

definition db_with :: "job_row list \<Rightarrow> queue_db" where
  "db_with rows =
     \<lparr>user_version = 3, provision_job = rows, pruned_provision_job = [], queue_metadata = Map.empty\<rparr>"

lemma sample_cfg_ok: "cfg_ok sample_cfg"
  by (simp add: cfg_ok_def sample_cfg_def)

lemma sample_reads: "codec_reads sample_codec sample_goal"
  unfolding sample_codec_def by (rule sample_codec_reads)

lemma waiting_row_fields [simp]:
  "row_job_id waiting_row = ''j1''" "row_status waiting_row = QUEUED" "row_priority waiting_row = 100"
  "row_attempts waiting_row = 0" "row_available_at_ms waiting_row = 1000"
  "row_created_at_ms waiting_row = 1000" "row_lease_owner waiting_row = None"
  "row_lease_expires_at_ms waiting_row = None" "\<not> row_cancellation_requested waiting_row"
  "row_goal_identity waiting_row = goal_identity sample_codec sample_goal"
  by (simp_all add: waiting_row_def new_job_row_def)

lemma leased_row_fields [simp]:
  "row_job_id leased_row = ''j1''" "row_status leased_row = RUNNING"
  "row_attempts leased_row = 1" "row_lease_owner leased_row = Some ''w1''"
  "row_lease_expires_at_ms leased_row = Some 32000" "\<not> row_cancellation_requested leased_row"
  by (simp_all add: leased_row_def claim_update_def sample_cfg_def)

lemma failed_row_fields [simp]:
  "row_job_id failed_row = ''j1''" "row_status failed_row = FAILED" "row_updated_at_ms failed_row = 3000"
  by (simp_all add: failed_row_def terminal_update_def clear_lease_def)

lemma sample_rows_ok:
  "row_ok sample_codec sample_cfg waiting_row" "row_ok sample_codec sample_cfg leased_row"
  "row_ok sample_codec sample_cfg failed_row"
proof -
  show w: "row_ok sample_codec sample_cfg waiting_row"
    unfolding waiting_row_def
    by (rule new_job_row_ok) (simp_all add: parse_payload sample_goal_valid sample_reads sample_cfg_def)
  show l: "row_ok sample_codec sample_cfg leased_row"
    unfolding leased_row_def by (rule row_ok_step [OF rs_claim w]) simp
  show "row_ok sample_codec sample_cfg failed_row"
    unfolding failed_row_def by (rule row_ok_step [OF rs_terminal l]) simp_all
qed

lemma db_with_fields [simp]:
  "provision_job (db_with rows) = rows" "pruned_provision_job (db_with rows) = []"
  by (simp_all add: db_with_def)

lemma db_with_ok: "row_ok sample_codec sample_cfg r \<Longrightarrow> queue_ok sample_codec sample_cfg (db_with [r])"
  by (simp add: queue_ok_def sample_cfg_ok db_ok_def table_ok_def)

lemma sample_worker: "required_metadata ''w1'' ''worker_id'' = Inr ''w1''"
  "required_metadata ''w2'' ''worker_id'' = Inr ''w2''"
  by code_simp+

lemma sample_db_with_update [simp]:
  "(db_with rows)\<lparr>provision_job := rows'\<rparr> = db_with rows'"
  by (simp add: db_with_def)

subsection \<open>Invariant and life cycle\<close>

text \<open>
  C1: in every database the operations can reach from empty tables, by any calls in any order with
  any clock readings, job ids are unique, no two active jobs have the same goal identity, every
  row's lease fields, attempts, result, error, stage and cancellation flag agree with its status,
  every stored payload reads back as a goal with the stored identity, and no pruned id is a live one.
\<close>

theorem reachable_queue_ok:
  assumes "reach (opened cfg) (queue_step c cfg) db"
  shows "db_ok c cfg db"
  using queue.reach_inv [OF assms] by (simp add: queue_ok_def)

text \<open>
  C2: the queue refines the job life cycle: from a database that satisfies the invariant, whatever
  calls are made, each job id moves only along \<open>life\<close> (submitted, leased, retried while attempts
  are left, cancelled, ended once, pruned after its end).
\<close>

theorem queue_refines_life:
  assumes "(queue_step c cfg)\<^sup>*\<^sup>* db db'" and "queue_ok c cfg db"
  shows "(life (max_attempts cfg))\<^sup>*\<^sup>* (phase db jid) (phase db' jid)"
  by (rule queue_life.sim_steps [OF assms])

text \<open>
  The outcome of a job is final: once it has ended with a status, every later database shows
  that status for its id, in the row or in the record that pruning leaves.
\<close>

lemma outcome_is_final:
  assumes "(queue_step c cfg)\<^sup>*\<^sup>* db db'" and "queue_ok c cfg db"
    and "phase db jid = Done s"
  shows "phase db' jid = Done s \<or> phase db' jid = Pruned s"
  using queue_life.sim_preserves [where P = "settled s" and jid = jid, OF assms(1,2)] assms(3)
  by (auto simp: settled_def dest: settled_life [unfolded settled_def])

subsection \<open>Submission\<close>

text \<open>
  C6: a submission of a valid goal never fails on a database of the invariant, and after it exactly
  one active job has the goal's identity; the result is that job.  It joins exactly when an active
  job had the identity, and then adds no row, and a queued job it joins gets the larger of the two
  priorities.
\<close>

theorem submit_joins_or_adds:
  assumes "queue_ok c cfg db" and "valid_goal g" and "codec_reads c g"
    and "validated_priority p = Inr p" and "metadata org ''origin'' = Inr org"
    and "metadata corr ''correlation_id'' = Inr corr"
    and "i \<notin> row_job_id ` set (provision_job db)"
    and "i \<notin> pj_job_id ` set (pruned_provision_job db)"
  shows "\<exists>res db'. submit_or_join c g p org corr ts i db = (Inr res, db') \<and>
    (\<exists>r. filter (\<lambda>r. row_goal_identity r = goal_identity c g \<and> active (row_status r))
           (provision_job db') = [r] \<and> job_from_row c r = Inr (submit_job res)) \<and>
    (joined_existing_job res \<longleftrightarrow> select_active (goal_identity c g) (provision_job db) \<noteq> None) \<and>
    map row_job_id (provision_job db') =
      map row_job_id (provision_job db) @ (if joined_existing_job res then [] else [i]) \<and>
    (job_status (submit_job res) = QUEUED \<longrightarrow> p \<le> job_priority (submit_job res))"
proof -
  let ?i = "goal_identity c g"
  have p: "0 \<le> p" "p \<le> 1000" using assms(4) by (simp_all add: validated_priority_Inr)
  obtain res db' where run: "submit_or_join c g p org corr ts i db = (res, db')"
    by (cases "submit_or_join c g p org corr ts i db") auto
  have "queue_step c cfg db db'"
    by (rule qs_submit [OF run assms(8)]) (simp add: validated_goal_eq assms(2,3))
  then have ok': "queue_ok c cfg db'" using assms(1) by (rule queue_step_ok)
  note tr = run [unfolded submit_arguments [OF assms(2-6)]]
  show ?thesis
  proof (cases "select_active ?i (provision_job db)")
    case None
    let ?r = "new_job_row c g p org corr ts i"
    have eq: "res = Inr \<lparr>submit_job = row_job c ?r, joined_existing_job = False\<rparr>"
      "db' = db\<lparr>provision_job := provision_job db @ [?r]\<rparr>"
      using tr submit_new_result [OF assms(1-3) p assms(7) None] by auto
    have r: "?r \<in> set (provision_job db')" "active (row_status ?r)" "row_goal_identity ?r = ?i"
      "row_job_id ?r = i" "row_priority ?r = p"
      by (simp_all add: eq(2) new_job_row_def)
    have r_ok: "row_ok c cfg ?r" using ok' r(1) by (rule queue_ok_row)
    show ?thesis
      unfolding run
      using None eq r active_row_unique [OF ok' r(1,2)] job_from_row_ok [OF r_ok] row_job_fields [OF r_ok]
      by simp
  next
    case (Some r)
    have r: "r \<in> set (provision_job db)" "row_goal_identity r = ?i" "active (row_status r)"
      using find_Some_in [OF Some [unfolded select_active_def]] by auto
    have r_ok: "row_ok c cfg r" using assms(1) r(1) by (rule queue_ok_row)
    note res = submit_join_result [OF assms(1) Some, of p org corr ts i, unfolded tr]
    show ?thesis
    proof (cases "row_status r = QUEUED")
      case True
      let ?r = "join_update p ts r"
      have eq: "res = Inr \<lparr>submit_job = row_job c ?r, joined_existing_job = True\<rparr>"
        "db' = db\<lparr>provision_job := update_where (\<lambda>x. row_job_id x = row_job_id r) (join_update p ts)
           (provision_job db)\<rparr>"
        using res True by auto
      have r': "?r \<in> set (provision_job db')" "active (row_status ?r)" "row_goal_identity ?r = ?i"
        "p \<le> row_priority ?r"
        using r by (auto simp: eq(2) set_update_where join_update_def)
      have r'_ok: "row_ok c cfg ?r" using ok' r'(1) by (rule queue_ok_row)
      show ?thesis
        unfolding run
        using Some eq r' active_row_unique [OF ok' r'(1,2)] job_from_row_ok [OF r'_ok] row_job_fields [OF r'_ok]
        by (simp add: map_update_where)
    next
      case False
      then have "res = Inr \<lparr>submit_job = row_job c r, joined_existing_job = True\<rparr>" "db' = db"
        using res by auto
      then show ?thesis
        unfolding run
        using Some r False active_row_unique [OF assms(1) r(1,3)] job_from_row_ok [OF r_ok] row_job_fields [OF r_ok]
        by simp
    qed
  qed
qed

text \<open>A second submission of the sample goal while the first job is leased joins it.\<close>

lemma submit_joins_or_adds_witness:
  "\<exists>res db'. submit_or_join sample_codec sample_goal 5 None None 9000 ''j2'' (db_with [leased_row]) =
      (Inr res, db') \<and> joined_existing_job res \<and> map row_job_id (provision_job db') = [''j1'']"
proof -
  have a: "row_goal_identity leased_row = goal_identity sample_codec sample_goal"
    by (simp add: leased_row_def claim_update_def)
  have "validated_priority 5 = Inr 5" "metadata None f = Inr None" for f
    by (simp_all add: validated_priority_def max_queue_priority_def metadata_def)
  then show ?thesis
    using submit_joins_or_adds [OF db_with_ok [OF sample_rows_ok(2)] sample_goal_valid sample_reads,
        of 5 None None "''j2''" 9000]
    by (fastforce simp: select_active_def a)
qed

lemma sample_submit_step:
  "queue_step sample_codec sample_cfg (db_with []) (db_with [waiting_row])"
proof -
  have "submit_or_join sample_codec sample_goal 100 None None 1000 ''j1'' (db_with []) =
      (Inr \<lparr>submit_job = row_job sample_codec waiting_row, joined_existing_job = False\<rparr>, db_with [waiting_row])"
  proof (subst submit_arguments [OF sample_goal_valid sample_reads])
    show "validated_priority 100 = Inr 100" "metadata None ''origin'' = Inr None"
      "metadata None ''correlation_id'' = Inr None"
      by (simp_all add: validated_priority_def max_queue_priority_def metadata_def)
    have "queue_ok sample_codec sample_cfg (db_with [])"
      by (simp add: queue_ok_def sample_cfg_ok db_ok_def table_ok_def)
    from submit_new_result [OF this sample_goal_valid sample_reads, of 100 "''j1''" None None 1000]
    show "submit_transaction sample_codec sample_goal 100 None None 1000 ''j1'' (db_with []) =
      (Inr \<lparr>submit_job = row_job sample_codec waiting_row, joined_existing_job = False\<rparr>, db_with [waiting_row])"
      by (simp add: select_active_def waiting_row_def)
  qed
  then show ?thesis
    by (rule qs_submit) (simp_all add: validated_goal_eq sample_goal_valid sample_reads)
qed

lemma reachable_queue_ok_witness: "db_ok sample_codec sample_cfg (db_with [waiting_row])"
proof -
  have "reach (opened sample_cfg) (queue_step sample_codec sample_cfg) (db_with [])"
    by (rule reach_init) (simp add: opened_def sample_cfg_ok)
  then have "reach (opened sample_cfg) (queue_step sample_codec sample_cfg) (db_with [waiting_row])"
    by (rule reach_step) (rule sample_submit_step)
  then show ?thesis by (rule reachable_queue_ok)
qed

lemma queue_refines_life_witness:
  "(life 2)\<^sup>*\<^sup>* (phase (db_with []) ''j1'') (phase (db_with [waiting_row]) ''j1'')"
proof -
  have "queue_ok sample_codec sample_cfg (db_with [])"
    by (simp add: queue_ok_def sample_cfg_ok db_ok_def table_ok_def)
  from queue_refines_life [OF r_into_rtranclp [of "queue_step sample_codec sample_cfg", OF sample_submit_step] this, of "''j1''"]
  show ?thesis by (simp add: sample_cfg_def)
qed

lemma prune_failed_row:
  "prune_terminal 1 [] 90000000 (db_with [failed_row]) =
    (Inr \<lparr>pruned_succeeded = 0, pruned_failed = 1, pruned_cancelled = 0, retained_referenced = 0,
          prune_completed_at = 90000000\<rparr>,
     set_metadata ''last_prune_at_ms'' 90000000
       ((db_with [])\<lparr>pruned_provision_job :=
          [\<lparr>pj_job_id = ''j1'', pj_final_status = FAILED, pj_pruned_at = 90000000\<rparr>]\<rparr>))"
  by (simp add: prune_terminal_def prune_batch_def max_prune_batch_size_def insert_pruned_row_def)

lemma outcome_is_final_witness:
  "\<exists>db'. queue_step sample_codec sample_cfg (db_with [failed_row]) db' \<and>
     (phase db' ''j1'' = Done FAILED \<or> phase db' ''j1'' = Pruned FAILED)"
proof -
  have ph: "phase (db_with [failed_row]) ''j1'' = Done FAILED"
    by (simp add: phase_def select_job_def row_phase_def)
  note st = qs_prune [OF prune_failed_row, of sample_codec sample_cfg]
  show ?thesis
    using st outcome_is_final [OF r_into_rtranclp [of "queue_step sample_codec sample_cfg", OF st] db_with_ok [OF sample_rows_ok(3)] ph] by blast
qed

subsection \<open>Claim and leases\<close>

text \<open>
  C3: a claim by a valid worker name never fails on a database of the invariant.  It returns no job
  exactly when no recovered row is queued and due, and then commits the recovery and nothing else.
  Otherwise the job it leases is the first, in insertion order, of the due rows with the highest
  priority and, among those, the earliest creation time: the result is that row read as a job, running,
  owned by the worker, with one more attempt, a heartbeat and a lease of \<open>lease_seconds\<close>, and the
  database afterwards holds exactly this row in its place among the recovered rows, every other row
  and every other table as the recovery left them.
\<close>

theorem claim_takes_the_best:
  assumes "queue_ok c cfg db" and "required_metadata w ''worker_id'' = Inr w"
  shows "\<exists>rows res db'. recover_expired c cfg ts (provision_job db) = Inr rows \<and>
    claim c cfg w ts db = (Inr res, db') \<and>
    (case res of
       None \<Rightarrow> (\<forall>r \<in> set rows. \<not> claimable ts r) \<and> provision_job db' = rows \<and>
         db' = db\<lparr>provision_job := rows\<rparr>
     | Some job \<Rightarrow>
         (\<exists>r r'. find (\<lambda>x. claimable ts x \<and> claim_key x = claim_key r) rows = Some r \<and>
            (\<forall>x \<in> set rows. claimable ts x \<longrightarrow>
               row_priority x < row_priority r \<or>
               row_priority x = row_priority r \<and> row_created_at_ms r \<le> row_created_at_ms x) \<and>
            job_id job = row_job_id r \<and> job_status job = RUNNING \<and>
            job_attempts job = row_attempts r + 1 \<and> job_lease_owner job = Some w \<and>
            job_lease_expires_at job = Some (ts + lease_seconds cfg * 1000) \<and>
            r' = r\<lparr>row_status := RUNNING, row_stage := ''RUNNING'', row_attempts := row_attempts r + 1,
              row_lease_owner := Some w,
              row_lease_expires_at_ms := Some (ts + lease_seconds cfg * 1000),
              row_lease_heartbeat_at_ms := Some ts, row_updated_at_ms := ts\<rparr> \<and>
            job_from_row c r' = Inr job \<and>
            db' = db\<lparr>provision_job := update_where (\<lambda>x. row_job_id x = row_job_id r) (\<lambda>_. r') rows\<rparr>))"
proof -
  let ?rows = "recovered cfg ts db"
  note rec = queue_ok_recover [OF assms(1), of ts] and run = claim_result [OF assms, of ts]
  show ?thesis
  proof (cases "next_claim ts ?rows")
    case None
    then show ?thesis using rec run next_claim_None [of ts ?rows] by simp
  next
    case (Some r)
    let ?r' = "claim_update cfg w ts r"
    have r: "r \<in> set ?rows" "row_status r = QUEUED"
      using next_claim_in [OF Some] by (auto simp: claimable_def)
    have ok: "row_ok c cfg r"
      using queue_ok_row [OF recovered_ok [OF assms(1), of ts]] r(1) by simp
    have "row_ok c cfg ?r'"
      by (rule row_ok_step [OF rs_claim [OF r(2)] ok])
    note fields = row_job_fields [OF this] and read = job_from_row_ok [OF this]
    have db: "claim c cfg w ts db = (Inr (Some (row_job c ?r')),
        db\<lparr>provision_job := update_where (\<lambda>x. row_job_id x = row_job_id r) (\<lambda>_. ?r') ?rows\<rparr>)"
      using run Some claim_result_row [OF assms(1) Some, of "claim_update cfg w ts"] by simp
    have best: "\<forall>x \<in> set ?rows. claimable ts x \<longrightarrow> row_priority x < row_priority r \<or>
        row_priority x = row_priority r \<and> row_created_at_ms r \<le> row_created_at_ms x"
      using next_claim_best [OF Some] by blast
    have job: "job_id (row_job c ?r') = row_job_id r" "job_status (row_job c ?r') = RUNNING"
      "job_attempts (row_job c ?r') = row_attempts r + 1" "job_lease_owner (row_job c ?r') = Some w"
      "job_lease_expires_at (row_job c ?r') = Some (ts + lease_seconds cfg * 1000)"
      unfolding fields by (simp_all add: claim_update_def)
    show ?thesis
      by (intro exI conjI, rule rec, rule db, unfold option.case)
        (intro exI [of _ r] exI [of _ ?r'] conjI next_claim_first [OF Some] best job read refl claim_update_def)
  qed
qed

text \<open>An expired lease is recovered and leased again in the same claim.\<close>

lemma claim_takes_the_best_witness:
  "\<exists>job db'. claim sample_codec sample_cfg ''w2'' 40000 (db_with [leased_row]) = (Inr (Some job), db') \<and>
     job_attempts job = 2 \<and> job_lease_owner job = Some ''w2''"
proof -
  have rec: "recover_expired sample_codec sample_cfg 40000 (provision_job (db_with [leased_row])) =
      Inr [recover_row sample_cfg 40000 leased_row]"
    by (simp add: queue_ok_recover [OF db_with_ok [OF sample_rows_ok(2)], simplified] lease_expired_def)
  have "claimable 40000 (recover_row sample_cfg 40000 leased_row)"
    "row_attempts (recover_row sample_cfg 40000 leased_row) = 1"
    by (simp_all add: recover_row_def clear_lease_def claimable_def sample_cfg_def leased_row_def
        claim_update_def)
  then show ?thesis
    using claim_takes_the_best [OF db_with_ok [OF sample_rows_ok(2)] sample_worker(2), of 40000] rec
    by (auto split: option.splits if_splits)
qed

text \<open>
  C4: a worker ends a job exactly when it holds the live lease and the job's cancellation flag
  matches: \<open>complete\<close> and \<open>fail\<close> only without a requested cancellation, \<open>CANCELLED\<close> only with one.
  Then the row is ended with the status, or, for a retryable failure with attempts left, queued
  again an hour later, and no other row changes.  Otherwise nothing changes and the error tells a
  missing job from a lost lease.
\<close>

theorem terminalize_exact:
  assumes "queue_ok c cfg db" and "required_metadata w ''worker_id'' = Inr w"
    and "terminal_detail st v = Inr (res, err)"
  shows "if \<exists>r \<in> set (provision_job db). terminalizable jid w ts st r
    then \<exists>job r r'. r \<in> set (provision_job db) \<and> terminalizable jid w ts st r \<and>
      terminalize c cfg jid w st v ts retryable db =
        (Inr job, db\<lparr>provision_job := update_where (\<lambda>x. row_job_id x = jid) (\<lambda>_. r') (provision_job db)\<rparr>) \<and>
      job_from_row c r' = Inr job \<and>
      (if st = FAILED \<and> retryable \<and> row_attempts r < max_attempts cfg
       then row_status r' = QUEUED \<and> row_available_at_ms r' = ts + 3600000 \<and> row_error r' = err
       else row_status r' = st \<and> row_result r' = res \<and> row_error r' = err) \<and>
      row_attempts r' = row_attempts r \<and> row_lease_owner r' = None
    else terminalize c cfg jid w st v ts retryable db =
      (Inl (if \<exists>r \<in> set (provision_job db). row_job_id r = jid then JobLeaseError jid
            else JobNotFoundError jid), db)"
proof (cases "\<exists>r \<in> set (provision_job db). terminalizable jid w ts st r")
  case True
  then obtain r where r: "r \<in> set (provision_job db)" "terminalizable jid w ts st r" by blast
  let ?r = "if st = FAILED \<and> retryable \<and> row_attempts r < max_attempts cfg
    then retry_update ts err r else terminal_update st res err ts r"
  have run: "terminalize c cfg jid w st v ts retryable db = (Inr (row_job c ?r),
      db\<lparr>provision_job := update_where (\<lambda>x. row_job_id x = jid) (\<lambda>_. ?r) (provision_job db)\<rparr>)"
    using terminalize_result [OF assms r, of retryable] by (simp only: Let_def)
  have "job_from_row c ?r = Inr (row_job c ?r)"
    using queue_ok_row [OF assms(1) r(1)] by (intro job_from_row_payload) (simp_all split: if_splits)
  then show ?thesis
    using True r run
    by (intro if_P [THEN iffD2, OF True] exI [where x = "row_job c ?r"] exI [where x = r] exI [where x = ?r])
      (simp add: retry_update_def terminal_update_def clear_lease_def retry_delay_seconds_def)
next
  case False
  then have "terminalize c cfg jid w st v ts retryable db = (Inl (lease_error jid (provision_job db)), db)"
    using terminalize_refused [OF assms(2,3)] by blast
  with False show ?thesis
    by (auto simp: lease_error_def select_job_None)
qed

lemma sample_detail: "terminal_detail FAILED ''boom'' = Inr (None, Some ''boom'')"
  by code_simp

text \<open>A retryable failure of the sample lease puts the job back in the queue.\<close>

lemma terminalize_exact_witness:
  "\<exists>job db'. terminalize sample_codec sample_cfg ''j1'' ''w1'' FAILED ''boom'' 3000 True (db_with [leased_row]) =
     (Inr job, db') \<and> job_status job = QUEUED"
proof -
  have t: "terminalizable ''j1'' ''w1'' 3000 FAILED leased_row"
    by (simp add: terminalizable_def live_lease_def)
  show ?thesis
    using terminalize_exact [OF db_with_ok [OF sample_rows_ok(2)] sample_worker(1) sample_detail,
        of "''j1''" 3000 True] t
    by (auto simp: sample_cfg_def dest: job_from_row_fields)
qed

text \<open>
  C7: a lease excludes every other worker until it expires: after a claim that returned a job, until
  \<open>lease_seconds\<close> have passed, no other worker can heartbeat, complete, fail or cancel the job, and
  no claim returns it, whatever the clock of the caller shows within the lease.
\<close>

theorem lease_excludes_others:
  assumes "queue_ok c cfg db" and "claim c cfg w ts db = (Inr (Some job), db')"
    and "required_metadata w ''worker_id'' = Inr w"
    and "required_metadata w2 ''worker_id'' = Inr w2" and "w2 \<noteq> w"
    and "t < ts + lease_seconds cfg * 1000"
  shows "heartbeat c cfg (job_id job) w2 t db' = (Inl (JobLeaseError (job_id job)), db') \<and>
    (\<forall>re. terminal_detail st v = Inr re \<longrightarrow>
       terminalize c cfg (job_id job) w2 st v t retryable db' = (Inl (JobLeaseError (job_id job)), db')) \<and>
    (\<forall>job2 db''. claim c cfg w2 t db' = (Inr (Some job2), db'') \<longrightarrow> job_id job2 \<noteq> job_id job)"
proof -
  obtain r where ok: "queue_ok c cfg db'" and r: "r \<in> set (provision_job db')"
    "row_job_id r = job_id job" "row_status r = RUNNING" "row_lease_owner r = Some w"
    "row_lease_expires_at_ms r = Some (ts + lease_seconds cfg * 1000)"
    using claim_leases [OF assms(1,3,2)] by blast
  note foreign = foreign_lease [OF ok r(1,3,4) assms(5) r(5) assms(6,4), unfolded r(2)]
  show ?thesis by (intro conjI allI impI) (simp_all add: foreign)
qed

lemma lease_excludes_others_witness:
  "\<exists>job db'. claim sample_codec sample_cfg ''w1'' 2000 (db_with [waiting_row]) = (Inr (Some job), db') \<and>
     heartbeat sample_codec sample_cfg (job_id job) ''w2'' 31999 db' = (Inl (JobLeaseError (job_id job)), db')"
proof -
  have "recovered sample_cfg 2000 (db_with [waiting_row]) = [waiting_row]"
    by (simp add: lease_expired_def)
  moreover have "next_claim 2000 [waiting_row] = Some waiting_row"
    by (simp add: next_claim_def claimable_def)
  ultimately obtain job db' where
    run: "claim sample_codec sample_cfg ''w1'' 2000 (db_with [waiting_row]) = (Inr (Some job), db')"
    using claim_result [OF db_with_ok [OF sample_rows_ok(1)] sample_worker(1), of 2000] by auto
  show ?thesis
    using run lease_excludes_others [OF db_with_ok [OF sample_rows_ok(1)] run sample_worker, of 31999]
    by (simp add: sample_cfg_def)
qed

text \<open>
  Cancelling an unknown job fails, cancelling an ended job fails with its status, a queued job is
  cancelled at once, and a running job keeps its lease and only gets the flag, which stops its worker
  from completing or failing it; no other row changes.
\<close>

lemma cancel_exact:
  assumes "queue_ok c cfg db"
  shows "case select_job jid (provision_job db) of
      None \<Rightarrow> cancel_job c jid ts db = (Inl (JobNotFoundError jid), db)
    | Some r \<Rightarrow>
        (if terminal (row_status r) then cancel_job c jid ts db = (Inl (JobTransitionError jid (row_status r)), db)
         else \<exists>job r'. cancel_job c jid ts db =
             (Inr job, db\<lparr>provision_job := update_where (\<lambda>x. row_job_id x = jid) (\<lambda>_. r') (provision_job db)\<rparr>) \<and>
           job_from_row c r' = Inr job \<and> row_cancellation_requested r' \<and>
           row_status r' = (if row_status r = QUEUED then CANCELLED else RUNNING) \<and>
           row_lease_owner r' = row_lease_owner r \<and>
           (\<forall>w t st. st \<noteq> CANCELLED \<longrightarrow> \<not> terminalizable jid w t st r'))"
proof (cases "select_job jid (provision_job db)")
  case None
  then show ?thesis by (simp add: cancel_job_def)
next
  case (Some r)
  have r: "r \<in> set (provision_job db)" "row_job_id r = jid"
    using select_job_in [OF Some] by auto
  have same: "x = r" if "x \<in> set (provision_job db)" "row_job_id x = jid" for x
    using that r queue_ok_ids [OF assms] by (intro distinct_map_inj [of row_job_id "provision_job db"]) auto
  have upd: "update_where (\<lambda>x. row_job_id x = jid \<and> row_status x = row_status r) f (provision_job db) =
      update_where (\<lambda>x. row_job_id x = jid) (\<lambda>_. f r) (provision_job db)" for f :: "job_row \<Rightarrow> job_row"
    by (rule update_where_cong) (use same in blast)+
  note job = job_from_row_payload [OF _ queue_ok_row [OF assms r(1)]]
  note run = cancel_result [OF assms r(1), of ts, unfolded r(2)]
  show ?thesis
  proof (cases "row_status r")
    case QUEUED
    then show ?thesis
      using Some run upd [of "cancel_queued_update ts"] job [of "cancel_queued_update ts r"]
      by (auto intro!: exI [where x = "cancel_queued_update ts r"]
          simp: cancel_queued_update_def terminalizable_def)
  next
    case RUNNING
    then show ?thesis
      using Some run upd [of "cancel_running_update ts"] job [of "cancel_running_update ts r"]
      by (auto intro!: exI [where x = "cancel_running_update ts r"]
          simp: cancel_running_update_def terminalizable_def)
  qed (use Some run in simp_all)
qed

lemma cancel_exact_witness:
  "\<exists>job db'. cancel_job sample_codec ''j1'' 4000 (db_with [leased_row]) = (Inr job, db') \<and>
     job_status job = RUNNING \<and> job_cancellation_requested job"
  using cancel_exact [OF db_with_ok [OF sample_rows_ok(2)], of "''j1''" 4000]
  by (auto simp: select_job_def job_from_row_fields(2,5))

subsection \<open>Recovery\<close>

text \<open>
  C5: recovery never fails on a database of the invariant and leaves no expired lease: it changes
  exactly the running rows whose lease has expired, and each of those becomes cancelled when its
  cancellation was requested, failed when its attempts are used up, and queued otherwise, keeping
  its attempts, so a job whose worker died is neither lost nor run more often than allowed.
\<close>

theorem recovery_exact:
  assumes "queue_ok c cfg db"
  shows "\<exists>rows. recover_expired c cfg ts (provision_job db) = Inr rows \<and>
    (\<forall>r \<in> set rows. \<not> lease_expired ts r) \<and>
    list_all2 (\<lambda>r r'. if lease_expired ts r then
        row_job_id r' = row_job_id r \<and> row_attempts r' = row_attempts r \<and> row_lease_owner r' = None \<and>
        row_status r' =
          (if row_cancellation_requested r then CANCELLED
           else if max_attempts cfg \<le> row_attempts r then FAILED else QUEUED)
      else r' = r) (provision_job db) rows"
proof -
  have "\<not> lease_expired ts r" if "r \<in> set (recovered cfg ts db)" for r
    using recovered_not_expired [OF that] by blast
  moreover have "list_all2 (\<lambda>r r'. if lease_expired ts r then
        row_job_id r' = row_job_id r \<and> row_attempts r' = row_attempts r \<and> row_lease_owner r' = None \<and>
        row_status r' =
          (if row_cancellation_requested r then CANCELLED
           else if max_attempts cfg \<le> row_attempts r then FAILED else QUEUED)
      else r' = r) (provision_job db) (recovered cfg ts db)"
    unfolding update_where_def list.rel_map
    by (rule list.rel_refl_strong) (simp add: recover_row_def clear_lease_def)
  ultimately show ?thesis using queue_ok_recover [OF assms] by blast
qed

lemma recovery_exact_witness:
  "\<exists>rows. recover_expired sample_codec sample_cfg 40000 (provision_job (db_with [leased_row])) = Inr rows \<and>
     map row_status rows = [QUEUED]"
  using recovery_exact [OF db_with_ok [OF sample_rows_ok(2)], of 40000]
  by (auto simp: lease_expired_def list_all2_Cons1 sample_cfg_def)

text \<open>
  One unreadable row fails the queue closed: while an expired row has a payload that does not
  parse, \<open>claim\<close> and \<open>requeue_expired\<close> raise the storage error and change nothing, for every worker.
\<close>

lemma unreadable_row_blocks:
  assumes "r \<in> set (provision_job db)" and "lease_expired ts r" and "job_from_row c r = Inl e"
    and "required_metadata w ''worker_id'' = Inr w"
  shows "claim c cfg w ts db = (Inl (QueueStorageError ''provisioning queue contains invalid data''), db) \<and>
    requeue_expired c cfg ts db =
      (Inl (QueueStorageError ''provisioning queue contains invalid data''), db)"
proof -
  have "recover_expired c cfg ts (provision_job db) =
      Inl (QueueStorageError ''provisioning queue contains invalid data'')"
    unfolding recover_expired_def
    by (rule recover_rows_unreadable [OF _ assms(3)]) (simp add: assms(1,2))
  with assms(4) show ?thesis by (simp add: claim_def requeue_expired_def)
qed

lemma unreadable_row_blocks_witness:
  "claim (table_codec []) sample_cfg ''w1'' 40000 (db_with [leased_row]) =
     (Inl (QueueStorageError ''provisioning queue contains invalid data''), db_with [leased_row])"
proof -
  have "parse_goal_payload (table_codec []) s = Inl InvalidProvisioningGoalError" for s
    by (simp add: parse_goal_payload_def table_codec_def)
  then have "job_from_row (table_codec []) leased_row =
      Inl (QueueStorageError ''provisioning queue contains invalid data'')"
    by (simp add: job_from_row_def)
  then show ?thesis
    using unreadable_row_blocks [of leased_row "db_with [leased_row]" 40000 "table_codec []" _ "''w1''"]
      sample_worker(1)
    by (auto simp: lease_expired_def)
qed

text \<open>
  An operation that raises has changed nothing: on a database of the invariant every error of a
  submission, claim, heartbeat, terminal transition, cancellation, recovery or pruning leaves the
  database it found.
\<close>

lemma failed_call_changes_nothing:
  assumes "queue_ok c cfg db"
  shows "(\<forall>e db'. claim c cfg w ts db = (Inl e, db') \<longrightarrow> db' = db) \<and>
    (\<forall>e db'. heartbeat c cfg jid w ts db = (Inl e, db') \<longrightarrow> db' = db) \<and>
    (\<forall>e db'. terminalize c cfg jid w st v ts retryable db = (Inl e, db') \<longrightarrow> db' = db) \<and>
    (\<forall>e db'. cancel_job c jid ts db = (Inl e, db') \<longrightarrow> db' = db) \<and>
    (\<forall>e db'. requeue_expired c cfg ts db = (Inl e, db') \<longrightarrow> db' = db) \<and>
    (\<forall>e db'. prune_terminal days retained ts db = (Inl e, db') \<longrightarrow> db' = db)"
proof (intro conjI allI impI)
  fix e db'
  show "db' = db" if "claim c cfg w ts db = (Inl e, db')"
    using that claim_result [OF assms, of w ts]
    by (cases "required_metadata w ''worker_id''")
      (auto simp: claim_def dest: required_metadata_Inr split: option.splits)
  show "db' = db" if run: "heartbeat c cfg jid w ts db = (Inl e, db')"
  proof (cases "required_metadata w ''worker_id'' = Inr w \<and>
      (\<exists>r \<in> set (provision_job db). row_job_id r = jid \<and> live_lease w ts r)")
    case True
    then show ?thesis using run heartbeat_result [OF assms] by auto
  next
    case False
    then show ?thesis
      using run
      by (cases "required_metadata w ''worker_id''")
        (auto simp: heartbeat_def list_ex_iff dest!: required_metadata_Inr split: if_splits)
  qed
  show "db' = db" if run: "terminalize c cfg jid w st v ts retryable db = (Inl e, db')"
  proof (cases "\<exists>re. required_metadata w ''worker_id'' = Inr w \<and> terminal_detail st v = Inr re")
    case True
    then obtain res err where a: "required_metadata w ''worker_id'' = Inr w" "terminal_detail st v = Inr (res, err)"
      by auto
    show ?thesis
      using run terminalize_result [OF assms a] terminalize_refused [OF a]
      by (cases "\<exists>r \<in> set (provision_job db). terminalizable jid w ts st r") (fastforce simp: Let_def)+
  next
    case False
    have "required_metadata w ''worker_id'' = Inr w' \<Longrightarrow> w' = w" for w'
      by simp
    with False run show ?thesis
      by (fastforce simp: terminalize_def res_bind_Inr_iff split: sum.splits)
  qed
  show "db' = db" if run: "cancel_job c jid ts db = (Inl e, db')"
  proof (cases "select_job jid (provision_job db)")
    case (Some r)
    then have "r \<in> set (provision_job db)" "row_job_id r = jid"
      using select_job_in by auto
    with run cancel_result [OF assms, of r ts] show ?thesis by (auto split: if_splits)
  qed (use run in \<open>simp add: cancel_job_def\<close>)
  show "db' = db" if run: "requeue_expired c cfg ts db = (Inl e, db')"
  proof -
    let ?rows = "sort_key row_updated_at_ms (filter (\<lambda>r. row_status r \<in> {QUEUED, FAILED, CANCELLED})
      (recovered cfg ts db))"
    have "\<exists>jobs. res_map (job_from_row c) ?rows = Inr jobs"
      by (rule res_map_defined) (use queue_ok_parses [OF recovered_ok [OF assms, of ts]] in simp)
    with run show ?thesis
      by (auto simp: requeue_expired_def queue_ok_recover [OF assms])
  qed
  show "db' = db" if "prune_terminal days retained ts db = (Inl e, db')"
    using that by (auto simp: prune_terminal_def split: sum.splits)
qed

lemma failed_call_changes_nothing_witness:
  "snd (cancel_job sample_codec ''nope'' 5 (db_with [waiting_row])) = db_with [waiting_row]"
proof -
  have "cancel_job sample_codec ''nope'' 5 (db_with [waiting_row]) =
      (Inl (JobNotFoundError ''nope''), snd (cancel_job sample_codec ''nope'' 5 (db_with [waiting_row])))"
    by (simp add: cancel_job_def select_job_def)
  then show ?thesis
    using failed_call_changes_nothing [OF db_with_ok [OF sample_rows_ok(1)], where jid = "''nope''" and ts = 5]
    by blast
qed

subsection \<open>Retention\<close>

text \<open>
  Pruning never fails on a database of the invariant.  It removes exactly the selected batch less
  the retained ids: at most a hundred rows, each ended and not changed since the cutoff; every
  removed id keeps a record of its final status, the counts add up, and no other row is touched.
\<close>

lemma prune_exact:
  assumes "queue_ok c cfg db"
    and gone_def: "gone = filter (\<lambda>r. row_job_id r \<notin> set retained)
      (prune_batch (ts - days * 86400000) (provision_job db))"
  shows "\<exists>res db'. prune_terminal days retained ts db = (Inr res, db') \<and>
    provision_job db' = filter (\<lambda>r. r \<notin> set gone) (provision_job db) \<and>
    (\<forall>r \<in> set gone. terminal (row_status r) \<and> row_updated_at_ms r < ts - days * 86400000 \<and>
       (\<exists>p. get_pruned (row_job_id r) db' = Some p \<and> pj_final_status p = row_status r)) \<and>
    pruned_succeeded res + pruned_failed res + pruned_cancelled res = length gone \<and>
    length gone + retained_referenced res \<le> max_prune_batch_size"
proof -
  let ?batch = "prune_batch (ts - days * 86400000) (provision_job db)"
  note ids = queue_ok_ids [OF assms(1)] and facts = prune_batch_facts
  have batch: "\<forall>r \<in> set ?batch. terminal (row_status r) \<and> row_job_id r \<notin> pj_job_id ` set (pruned_provision_job db)"
    using facts(1,2) assms(1) by (fastforce simp: queue_ok_def db_ok_def)
  obtain counts where run: "prune_rows retained ts ?batch (provision_job db, pruned_provision_job db, \<lambda>_. 0, 0) =
      Inr (filter (\<lambda>r. r \<notin> set gone) (provision_job db), pruned_provision_job db @ map (tombstone ts) gone, counts,
           length (filter (\<lambda>r. row_job_id r \<in> set retained) ?batch))"
    and sum: "counts SUCCEEDED + counts FAILED + counts CANCELLED = length gone"
    using prune_rows_result [OF facts(1) ids facts(4) [OF ids] batch, of retained ts "\<lambda>_. 0" 0]
    unfolding gone_def by auto
  have total: "length gone + length (filter (\<lambda>r. row_job_id r \<in> set retained) ?batch) \<le> max_prune_batch_size"
    using facts(3) [of "ts - days * 86400000" "provision_job db"]
      sum_length_filter_compl [of "\<lambda>r. row_job_id r \<in> set retained" ?batch]
    by (simp add: gone_def)
  have tomb: "find (\<lambda>p. pj_job_id p = row_job_id r) (pruned_provision_job db @ map (tombstone ts) gone) =
      Some (tombstone ts r)" if "r \<in> set gone" for r
  proof -
    have key: "pj_job_id (tombstone ts x) = row_job_id x" for x
      by (simp add: tombstone_def)
    have "row_job_id r \<notin> pj_job_id ` set (pruned_provision_job db)"
      using that batch by (auto simp: gone_def)
    moreover have "distinct (map row_job_id gone)"
      unfolding gone_def by (rule distinct_filter_map) (rule facts(4) [OF ids])
    ultimately show ?thesis
      using find_key [of row_job_id gone r] that
      by (simp add: find_append find_key_None find_map_comp key)
  qed
  have gone: "terminal (row_status r) \<and> row_updated_at_ms r < ts - days * 86400000" if "r \<in> set gone" for r
    using that facts(2) by (auto simp: gone_def)
  show ?thesis
    using run sum total tomb gone
    by (simp add: prune_terminal_def set_metadata_def get_pruned_def tombstone_def)
qed

lemma prune_exact_witness:
  "\<exists>res db'. prune_terminal 1 [''j9''] 90000000 (db_with [failed_row]) = (Inr res, db') \<and>
     provision_job db' = [] \<and> pruned_failed res = 1"
  using prune_exact [OF db_with_ok [OF sample_rows_ok(3)] refl, where retained = "[''j9'']" and ts = 90000000 and days = 1]
  by (simp add: prune_terminal_def prune_batch_def max_prune_batch_size_def insert_pruned_row_def set_metadata_def)

end
