(* ===== verification/Queue_Store.thy ===== *)
theory Queue_Store
  imports Queue_Ops
begin

section \<open>Storage, health and the repository\<close>

text \<open>
  The rest of \<open>_sqlite.py\<close> (schema creation, migrations, health inspection, checkpoint) and the
  \<open>ProvisioningQueue\<close> class of \<open>repository.py\<close>.

  \<open>stored_queue\<close> is the database file: which tables and columns it has, beside the rows.  What
  SQLite and the file system report (pragmas, file sizes, the integrity check, the result of the
  checkpoint) is an argument.
\<close>

subsection \<open>The database file\<close>

record stored_queue =
  sq_has_jobs :: bool
  sq_has_available :: bool
  sq_has_metadata :: bool
  sq_has_pruned :: bool
  sq_db :: queue_db

definition schema_version :: int where
  "schema_version = 3"

definition storage_unavailable :: queue_error where
  "storage_unavailable = QueueStorageError ''provisioning queue storage is unavailable''"

text \<open>An \<open>sqlite3.Error\<close> is \<open>None\<close>: a missing metadata table makes the upsert fail.\<close>

definition record_migration :: "int \<Rightarrow> stored_queue \<Rightarrow> stored_queue option" where
  "record_migration now s =
     (if sq_has_metadata s
      then Some (s\<lparr>sq_db := set_metadata ''last_migration_at_ms'' now (sq_db s)\<rparr>) else None)"

text \<open>
  \<open>CREATE_SCHEMA_SQL\<close>: \<open>IF NOT EXISTS\<close> everywhere, but the last index names the column
  \<open>available_at_ms\<close>, which an existing table may lack.
\<close>

definition create_schema :: "stored_queue \<Rightarrow> stored_queue option" where
  "create_schema s =
     (if sq_has_jobs s \<and> \<not> sq_has_available s then None
      else Some (s\<lparr>sq_has_jobs := True, sq_has_available := True, sq_has_metadata := True,
                   sq_has_pruned := True\<rparr>))"

definition set_user_version :: "int \<Rightarrow> stored_queue \<Rightarrow> stored_queue" where
  "set_user_version v s = s\<lparr>sq_db := (sq_db s)\<lparr>user_version := v\<rparr>\<rparr>"

text \<open>The migrations roll back on an error, so \<open>None\<close> stands for the file unchanged.\<close>

definition migrate_v1_to_v2 :: "int \<Rightarrow> stored_queue \<Rightarrow> stored_queue option" where
  "migrate_v1_to_v2 now s =
     record_migration now (set_user_version 2 (s\<lparr>sq_has_metadata := True, sq_has_pruned := True\<rparr>))"

definition migrate_v2_to_v3 :: "int \<Rightarrow> stored_queue \<Rightarrow> stored_queue option" where
  "migrate_v2_to_v3 now s =
     (if \<not> sq_has_jobs s \<or> sq_has_available s then None
      else record_migration now (set_user_version schema_version
             (s\<lparr>sq_has_available := True,
                sq_db := (sq_db s)\<lparr>provision_job :=
                  map (\<lambda>r. r\<lparr>row_available_at_ms := row_created_at_ms r\<rparr>) (provision_job (sq_db s))\<rparr>\<rparr>)))"

record pragma_values =
  pv_synchronous :: int
  pv_journal_mode :: string
  pv_foreign_keys :: int
  pv_busy_timeout :: int

definition runtime_settings_from :: "queue_configuration \<Rightarrow> pragma_values \<Rightarrow> runtime_settings" where
  "runtime_settings_from cfg pv =
     \<lparr>rs_journal_mode = upper (pv_journal_mode pv), rs_foreign_keys_enabled = (pv_foreign_keys pv \<noteq> 0),
      rs_busy_timeout_ms = pv_busy_timeout pv,
      rs_synchronous =
        (if pv_synchronous pv = 0 then ''OFF'' else if pv_synchronous pv = 1 then ''NORMAL''
         else if pv_synchronous pv = 2 then ''FULL'' else if pv_synchronous pv = 3 then ''EXTRA''
         else ''UNKNOWN''),
      rs_lease_seconds = lease_seconds cfg\<rparr>"

text \<open>Each migration commits on its own, so a failing second one keeps the first.\<close>

definition initialize_store ::
  "queue_configuration \<Rightarrow> pragma_values \<Rightarrow> int \<Rightarrow> stored_queue \<Rightarrow>
   (queue_error + runtime_settings) \<times> stored_queue" where
  "initialize_store cfg pv now s =
     (let version = user_version (sq_db s); settings = Inr (runtime_settings_from cfg pv) in
      if version = 0 then
        (case create_schema s of
           None \<Rightarrow> (Inl storage_unavailable, s)
         | Some s1 \<Rightarrow>
             (case record_migration now (set_user_version schema_version s1) of
                None \<Rightarrow> (Inl storage_unavailable, set_user_version schema_version s1)
              | Some s2 \<Rightarrow> (settings, s2)))
      else if version = 1 then
        (case migrate_v1_to_v2 now s of
           None \<Rightarrow> (Inl storage_unavailable, s)
         | Some s1 \<Rightarrow>
             (case migrate_v2_to_v3 now s1 of
                None \<Rightarrow> (Inl storage_unavailable, s1)
              | Some s2 \<Rightarrow> (settings, s2)))
      else if version = 2 then
        (case migrate_v2_to_v3 now s of
           None \<Rightarrow> (Inl storage_unavailable, s)
         | Some s1 \<Rightarrow> (settings, s1))
      else if version \<noteq> schema_version then
        (Inl (QueueStorageError ''unsupported provisioning queue schema version''), s)
      else (settings, s))"

subsection \<open>Health\<close>

definition min_free_disk_bytes :: int where
  "min_free_disk_bytes = 100 * 1024 * 1024"

definition has_disk_space :: "int option \<Rightarrow> bool" where
  "has_disk_space free = (case free of None \<Rightarrow> False | Some n \<Rightarrow> min_free_disk_bytes \<le> n)"

text \<open>\<open>_filesystem_state\<close>, with whether the file exists; an \<open>OSError\<close> inside it is \<open>None\<close>.\<close>

record file_probe =
  fp_file_size :: int
  fp_wal_size :: int
  fp_readable :: bool
  fp_writable :: bool
  fp_disk_free :: "int option"

definition filesystem_state :: "file_probe option \<Rightarrow> file_probe" where
  "filesystem_state probe =
     (case probe of
        None \<Rightarrow> \<lparr>fp_file_size = 0, fp_wal_size = 0, fp_readable = False, fp_writable = False,
                 fp_disk_free = None\<rparr>
      | Some p \<Rightarrow> p)"

text \<open>What the read-only connection finds, or the text of the error it raises.\<close>

record store_inspection =
  si_integrity_check :: string
  si_journal_mode :: string
  si_db :: queue_db

definition queue_counts :: "int \<Rightarrow> job_row list \<Rightarrow> nat \<times> nat \<times> nat \<times> int option" where
  "queue_counts ts rows =
     (let queued = filter (\<lambda>r. row_status r = QUEUED) rows in
      (length (filter (\<lambda>r. row_status r = RUNNING \<and>
          (case row_lease_expires_at_ms r of None \<Rightarrow> False | Some e \<Rightarrow> ts < e)) rows),
       length (filter (\<lambda>r. row_status r = RUNNING \<and>
          (case row_lease_expires_at_ms r of None \<Rightarrow> False | Some e \<Rightarrow> e \<le> ts)) rows),
       length queued,
       (if queued = [] then None
        else Some (max 0 ((ts - Min (row_created_at_ms ` set queued)) div 1000)))))"

definition maintenance_timestamps :: "queue_db \<Rightarrow> int option \<times> int option \<times> int option" where
  "maintenance_timestamps db =
     (queue_metadata db ''last_checkpoint_at_ms'', queue_metadata db ''last_prune_at_ms'',
      queue_metadata db ''last_migration_at_ms'')"

definition unavailable_report :: "file_probe \<Rightarrow> string \<Rightarrow> string \<Rightarrow> health_report" where
  "unavailable_report fp integrity why =
     \<lparr>hr_schema_version = None, hr_supported_schema = False, hr_integrity_check = integrity,
      hr_integrity_ok = False, hr_journal_mode = None, hr_synchronous = None,
      hr_busy_timeout_ms = None, hr_file_size_bytes = fp_file_size fp,
      hr_wal_size_bytes = fp_wal_size fp, hr_disk_free_bytes = fp_disk_free fp,
      hr_disk_free_threshold_bytes = min_free_disk_bytes,
      hr_disk_free_above_threshold = has_disk_space (fp_disk_free fp),
      hr_readable = fp_readable fp, hr_writable = fp_writable fp, hr_active_leases = None,
      hr_expired_leases = None, hr_queue_depth = None, hr_oldest_queued_age_seconds = None,
      hr_last_checkpoint_at = None, hr_last_prune_at = None, hr_last_migration_at = None,
      hr_detail = Some why\<rparr>"

definition health ::
  "queue_configuration \<Rightarrow> bool \<Rightarrow> file_probe option \<Rightarrow> string + store_inspection \<Rightarrow> int \<Rightarrow>
   health_report" where
  "health cfg file_exists probe inspection ts =
     (let fp = filesystem_state probe in
      if \<not> file_exists then unavailable_report fp ''NOT_RUN'' ''queue database file does not exist''
      else case inspection of
        Inl e \<Rightarrow> unavailable_report fp ''UNAVAILABLE'' (''queue health inspection failed: '' @ e)
      | Inr si \<Rightarrow>
          (let version = user_version (si_db si);
               supported = (version = schema_version);
               (running, expired, depth, oldest) = queue_counts ts (provision_job (si_db si));
               (checkpoint_at, prune_at, migration_at) = maintenance_timestamps (si_db si) in
           \<lparr>hr_schema_version = Some version, hr_supported_schema = supported,
            hr_integrity_check = si_integrity_check si,
            hr_integrity_ok = (lower (si_integrity_check si) = ''ok''),
            hr_journal_mode = Some (upper (si_journal_mode si)), hr_synchronous = Some ''NORMAL'',
            hr_busy_timeout_ms = Some (busy_timeout_ms cfg), hr_file_size_bytes = fp_file_size fp,
            hr_wal_size_bytes = fp_wal_size fp, hr_disk_free_bytes = fp_disk_free fp,
            hr_disk_free_threshold_bytes = min_free_disk_bytes,
            hr_disk_free_above_threshold = has_disk_space (fp_disk_free fp),
            hr_readable = fp_readable fp, hr_writable = fp_writable fp,
            hr_active_leases = (if supported then Some (int running) else None),
            hr_expired_leases = (if supported then Some (int expired) else None),
            hr_queue_depth = (if supported then Some (int depth) else None),
            hr_oldest_queued_age_seconds = (if supported then oldest else None),
            hr_last_checkpoint_at = (if supported then checkpoint_at else None),
            hr_last_prune_at = (if supported then prune_at else None),
            hr_last_migration_at = (if supported then migration_at else None),
            hr_detail = (if supported then None else Some ''unsupported queue schema version'')\<rparr>))"

text \<open>The passive checkpoint: \<open>pragma\<close> is the row SQLite answers with.\<close>

definition checkpoint ::
  "(int \<times> int \<times> int) option \<Rightarrow> int \<Rightarrow> queue_db \<Rightarrow> checkpoint_result op_result" where
  "checkpoint pragma now db =
     (let db' = set_metadata ''last_checkpoint_at_ms'' now db in
      case pragma of
        None \<Rightarrow> (Inl (QueueStorageError ''provisioning queue checkpoint returned no result''), db')
      | Some (busy, frames, checkpointed) \<Rightarrow>
          (Inr \<lparr>cp_busy_readers = busy, cp_wal_frames = frames, cp_checkpointed_frames = checkpointed,
                cp_completed_at = now\<rparr>, db'))"

subsection \<open>The repository (\<open>repository.py\<close>)\<close>

definition queue_configuration_from :: "int \<Rightarrow> int \<Rightarrow> int \<Rightarrow> queue_error + queue_configuration" where
  "queue_configuration_from busy lease attempts =
     res_bind (positive busy ''busy_timeout_ms'' 10000) (\<lambda>b.
     res_bind (positive lease ''lease_seconds'' 3600) (\<lambda>l.
     res_bind (positive attempts ''max_attempts'' 10) (\<lambda>a.
       Inr \<lparr>busy_timeout_ms = b, lease_seconds = l, max_attempts = a\<rparr>)))"

definition repository_claim ::
  "codec \<Rightarrow> queue_configuration \<Rightarrow> health_report \<Rightarrow> string \<Rightarrow> int \<Rightarrow> queue_db \<Rightarrow>
   provisioning_job option op_result" where
  "repository_claim c cfg report worker_id ts db =
     (if \<not> can_claim report
      then (Inl (QueueHealthError ''provisioning queue health prevents claims'' report), db)
      else claim c cfg worker_id ts db)"

datatype prune_error = PruneRangeError | PruneQueueError queue_error

definition repository_prune ::
  "queue_configuration \<Rightarrow> pragma_values \<Rightarrow> int \<Rightarrow> string list \<Rightarrow> int \<Rightarrow> stored_queue \<Rightarrow>
   (prune_error + prune_result) \<times> stored_queue" where
  "repository_prune cfg pv older_than_days retained now s =
     (if \<not> (1 \<le> older_than_days \<and> older_than_days \<le> 3650) then (Inl PruneRangeError, s)
      else case initialize_store cfg pv now s of
        (Inl e, s1) \<Rightarrow> (Inl (PruneQueueError e), s1)
      | (Inr _, s1) \<Rightarrow>
          (case prune_terminal older_than_days retained now (sq_db s1) of
             (Inl e, db) \<Rightarrow> (Inl (PruneQueueError e), s1\<lparr>sq_db := db\<rparr>)
           | (Inr res, db) \<Rightarrow> (Inr res, s1\<lparr>sq_db := db\<rparr>)))"

definition repository_checkpoint ::
  "queue_configuration \<Rightarrow> pragma_values \<Rightarrow> (int \<times> int \<times> int) option \<Rightarrow> int \<Rightarrow> stored_queue \<Rightarrow>
   (queue_error + checkpoint_result) \<times> stored_queue" where
  "repository_checkpoint cfg pv pragma now s =
     (case initialize_store cfg pv now s of
        (Inl e, s1) \<Rightarrow> (Inl e, s1)
      | (Inr _, s1) \<Rightarrow>
          (case checkpoint pragma now (sq_db s1) of (res, db) \<Rightarrow> (res, s1\<lparr>sq_db := db\<rparr>)))"

definition complete ::
  "codec \<Rightarrow> queue_configuration \<Rightarrow> string \<Rightarrow> string \<Rightarrow> string \<Rightarrow> int \<Rightarrow> queue_db \<Rightarrow> provisioning_job op_result" where
  "complete c cfg jid worker v now db = terminalize c cfg jid worker SUCCEEDED v now False db"

definition fail ::
  "codec \<Rightarrow> queue_configuration \<Rightarrow> string \<Rightarrow> string \<Rightarrow> string \<Rightarrow> int \<Rightarrow> bool \<Rightarrow> queue_db \<Rightarrow>
   provisioning_job op_result" where
  "fail c cfg jid worker v now retryable db = terminalize c cfg jid worker FAILED v now retryable db"

definition acknowledge_cancellation ::
  "codec \<Rightarrow> queue_configuration \<Rightarrow> string \<Rightarrow> string \<Rightarrow> string \<Rightarrow> int \<Rightarrow> queue_db \<Rightarrow> provisioning_job op_result" where
  "acknowledge_cancellation c cfg jid worker v now db = terminalize c cfg jid worker CANCELLED v now False db"

end
