(* ===== verification/Finalization.thy ===== *)
theory Finalization
  imports Queue_Store
begin

section \<open>The finalization trigger\<close>

text \<open>
  \<open>finalization_trigger.py\<close>: a maintenance run is finalized once every acquisition job it waits for
  has ended.  \<open>ledger\<close> holds the two warehouse tables the functions read and write; a raised
  exception rolls the warehouse transaction back, while what the queue committed stays.  The
  correlation id in force, the fresh job id and the result of opening the warehouse are arguments.
\<close>

record maintenance_run =
  mr_run_id :: string
  mr_resolved_date :: "py_date option"
  mr_universe_hash :: "string option"
  mr_source_policy_version :: "string option"
  mr_status :: string
  mr_expected_goals_json :: "string option"

record maintenance_run_job =
  rj_run_id :: string
  rj_goal_identity :: string
  rj_goal_type :: string
  rj_entity_id :: string
  rj_goal_payload_json :: string
  rj_job_id :: "string option"

record ledger =
  maintenance_run :: "maintenance_run list"
  maintenance_run_job :: "maintenance_run_job list"

record finalization_result =
  fr_maintenance_run_id :: string
  fr_submitted :: bool
  fr_joined :: bool
  fr_job_id :: "string option"
  fr_state :: string
  fr_correlation_id :: string

datatype finalization_error =
    WarehouseOpenError string
  | UnknownRunError
  | FinalizationValueError
  | FinalizationGoalError
  | FinalizationQueueError queue_error
  | LedgerConstraintError

text \<open>\<open>str\<close> of a nullable text column.\<close>

definition str_of :: "string option \<Rightarrow> string" where
  "str_of v = (case v of None \<Rightarrow> ''None'' | Some s \<Rightarrow> s)"

definition default_configuration :: queue_configuration where
  "default_configuration = \<lparr>busy_timeout_ms = 1000, lease_seconds = 60, max_attempts = 3\<rparr>"

fun json_length :: "json \<Rightarrow> nat option" where
  "json_length (JArr xs) = Some (length xs)"
| "json_length (JObj kvs) = Some (length kvs)"
| "json_length (JStr s) = Some (length s)"
| "json_length _ = None"

definition acquisition_rows :: "ledger \<Rightarrow> string \<Rightarrow> maintenance_run_job list" where
  "acquisition_rows l run_id =
     filter (\<lambda>j. rj_run_id j = run_id \<and> rj_goal_type j \<noteq> ''FINALIZE_MARKET_SESSION'')
       (maintenance_run_job l)"

definition finalization_row :: "ledger \<Rightarrow> string \<Rightarrow> maintenance_run_job option" where
  "finalization_row l run_id =
     find (\<lambda>j. rj_run_id j = run_id \<and> rj_goal_type j = ''FINALIZE_MARKET_SESSION'')
       (maintenance_run_job l)"

definition insert_run_job :: "maintenance_run_job \<Rightarrow> ledger \<Rightarrow> ledger option" where
  "insert_run_job j l =
     (if list_ex (\<lambda>x. rj_run_id x = rj_run_id j \<and> rj_goal_identity x = rj_goal_identity j)
           (maintenance_run_job l)
      then None else Some (l\<lparr>maintenance_run_job := maintenance_run_job l @ [j]\<rparr>))"

definition set_run_status :: "string \<Rightarrow> string \<Rightarrow> ledger \<Rightarrow> ledger" where
  "set_run_status run_id st l =
     l\<lparr>maintenance_run := update_where (\<lambda>r. mr_run_id r = run_id) (\<lambda>r. r\<lparr>mr_status := st\<rparr>)
        (maintenance_run l)\<rparr>"

definition acquiring :: "string \<Rightarrow> string \<Rightarrow> finalization_result" where
  "acquiring run_id corr =
     \<lparr>fr_maintenance_run_id = run_id, fr_submitted = False, fr_joined = False, fr_job_id = None,
      fr_state = ''ACQUIRING'', fr_correlation_id = corr\<rparr>"

definition finalization_goal :: "string \<Rightarrow> maintenance_run \<Rightarrow> finalization_error + goal" where
  "finalization_goal run_id run =
     (case mr_resolved_date run of
        None \<Rightarrow> Inl FinalizationValueError
      | Some d \<Rightarrow>
          (case validate_finalize
                  \<lparr>fg_source_policy_version = str_of (mr_source_policy_version run),
                   fg_maintenance_run_id = run_id, fg_resolved_session = d,
                   fg_frozen_universe_hash = str_of (mr_universe_hash run),
                   fg_finalization_contract_version = ''finalization-v1''\<rparr> of
             Inl _ \<Rightarrow> Inl FinalizationGoalError
           | Inr g \<Rightarrow> Inr (FinalizeMarketSessionGoal g)))"

text \<open>The submission, and the two ledger updates that follow it in the same transaction.\<close>

definition submit_finalization ::
  "codec \<Rightarrow> string \<Rightarrow> goal \<Rightarrow> int \<Rightarrow> string \<Rightarrow> int \<Rightarrow> string \<Rightarrow> ledger \<Rightarrow> stored_queue \<Rightarrow>
   (finalization_error + finalization_result) \<times> ledger \<times> stored_queue" where
  "submit_finalization c run_id g prio corr now new_id l s =
     (case submit_or_join c g prio (Some ''maintenance-finalization'') (Some corr) now new_id (sq_db s) of
        (Inl e, db) \<Rightarrow> (Inl (FinalizationQueueError e), l, s\<lparr>sq_db := db\<rparr>)
      | (Inr submission, db) \<Rightarrow>
          (case insert_run_job
                  \<lparr>rj_run_id = run_id, rj_goal_identity = goal_identity c g,
                   rj_goal_type = goal_type_value (goal_type_of g), rj_entity_id = run_id,
                   rj_goal_payload_json = payload_json g,
                   rj_job_id = Some (job_id (submit_job submission))\<rparr> l of
             None \<Rightarrow> (Inl LedgerConstraintError, l, s\<lparr>sq_db := db\<rparr>)
           | Some l' \<Rightarrow>
               (Inr \<lparr>fr_maintenance_run_id = run_id,
                     fr_submitted = (\<not> joined_existing_job submission),
                     fr_joined = joined_existing_job submission,
                     fr_job_id = Some (job_id (submit_job submission)),
                     fr_state = ''FINALIZATION_QUEUED'', fr_correlation_id = corr\<rparr>,
                set_run_status run_id ''FINALIZATION_QUEUED'' l', s\<lparr>sq_db := db\<rparr>)))"

definition maybe_submit_session_finalization ::
  "codec \<Rightarrow> pragma_values \<Rightarrow> string option \<Rightarrow> string \<Rightarrow> int \<Rightarrow> string \<Rightarrow> int \<Rightarrow> string \<Rightarrow> ledger \<Rightarrow>
   stored_queue \<Rightarrow> (finalization_error + finalization_result) \<times> ledger \<times> stored_queue" where
  "maybe_submit_session_finalization c pv wopen run_id prio corr now new_id l s0 =
     (case initialize_store default_configuration pv now s0 of
        (Inl e, s) \<Rightarrow> (Inl (FinalizationQueueError e), l, s)
      | (Inr _, s) \<Rightarrow>
          (case wopen of
             Some e \<Rightarrow> (Inl (WarehouseOpenError e), l, s)
           | None \<Rightarrow>
               (case find (\<lambda>r. mr_run_id r = run_id) (maintenance_run l) of
                  None \<Rightarrow> (Inl UnknownRunError, l, s)
                | Some run \<Rightarrow>
                    (let rows = acquisition_rows l run_id in
                     case Option.bind (c_loads c (str_of (mr_expected_goals_json run))) json_length of
                       None \<Rightarrow> (Inl FinalizationValueError, l, s)
                     | Some expected \<Rightarrow>
                         (if length rows \<noteq> expected \<or> list_ex (\<lambda>j. rj_job_id j = None) rows
                          then (Inr (acquiring run_id corr), l, s)
                          else case res_map (\<lambda>j. get_job c (the (rj_job_id j)) (sq_db s)) rows of
                            Inl e \<Rightarrow> (Inl (FinalizationQueueError e), l, s)
                          | Inr jobs \<Rightarrow>
                              (if list_ex (\<lambda>job. case job of None \<Rightarrow> True
                                    | Some j \<Rightarrow> \<not> job_is_terminal j) jobs
                               then (Inr (acquiring run_id corr), l, s)
                               else case Option.bind (finalization_row l run_id) rj_job_id of
                                 Some jid \<Rightarrow>
                                   (Inr \<lparr>fr_maintenance_run_id = run_id, fr_submitted = False,
                                         fr_joined = True, fr_job_id = Some jid,
                                         fr_state = ''FINALIZATION_QUEUED'', fr_correlation_id = corr\<rparr>,
                                    l, s)
                               | None \<Rightarrow>
                                   (case finalization_goal run_id run of
                                      Inl e \<Rightarrow> (Inl e, l, s)
                                    | Inr g \<Rightarrow>
                                        submit_finalization c run_id g prio corr now new_id l s)))))))"

text \<open>Each run in turn; the first exception ends the loop, with what was done before it kept.\<close>

fun submit_each ::
  "codec \<Rightarrow> pragma_values \<Rightarrow> string option \<Rightarrow> string \<Rightarrow> int \<Rightarrow> (nat \<Rightarrow> string) \<Rightarrow> string list \<Rightarrow> ledger \<Rightarrow>
   stored_queue \<Rightarrow> (finalization_error + finalization_result list) \<times> ledger \<times> stored_queue" where
  "submit_each c pv wopen corr now ids [] l s = (Inr [], l, s)"
| "submit_each c pv wopen corr now ids (r # rs) l s =
     (case maybe_submit_session_finalization c pv wopen r 0 corr now (ids (length rs)) l s of
        (Inl e, l1, s1) \<Rightarrow> (Inl e, l1, s1)
      | (Inr x, l1, s1) \<Rightarrow>
          (case submit_each c pv wopen corr now ids rs l1 s1 of
             (Inl e, l2, s2) \<Rightarrow> (Inl e, l2, s2)
           | (Inr xs, l2, s2) \<Rightarrow> (Inr (x # xs), l2, s2)))"

text \<open>A missing warehouse file, or one without the ledger tables (\<open>None\<close>), triggers nothing.\<close>

definition maybe_submit_finalization_for_terminal_job ::
  "codec \<Rightarrow> pragma_values \<Rightarrow> bool \<Rightarrow> string option \<Rightarrow> string \<Rightarrow> int \<Rightarrow> (nat \<Rightarrow> string) \<Rightarrow> string \<Rightarrow>
   ledger option \<Rightarrow> stored_queue \<Rightarrow>
   (finalization_error + finalization_result list) \<times> ledger option \<times> stored_queue" where
  "maybe_submit_finalization_for_terminal_job c pv file_exists wopen corr now ids jid lo s =
     (if \<not> file_exists then (Inr [], lo, s)
      else case wopen of
        Some e \<Rightarrow> (Inl (WarehouseOpenError e), lo, s)
      | None \<Rightarrow>
          (case lo of
             None \<Rightarrow> (Inr [], lo, s)
           | Some l \<Rightarrow>
               (case submit_each c pv wopen corr now ids
                       (remdups (map rj_run_id
                          (filter (\<lambda>j. rj_job_id j = Some jid \<and>
                                       rj_goal_type j \<noteq> ''FINALIZE_MARKET_SESSION'')
                             (maintenance_run_job l)))) l s of
                  (res, l', s') \<Rightarrow> (res, Some l', s'))))"

definition recover_session_finalization ::
  "codec \<Rightarrow> pragma_values \<Rightarrow> string option \<Rightarrow> string \<Rightarrow> int \<Rightarrow> (nat \<Rightarrow> string) \<Rightarrow> string option \<Rightarrow>
   ledger \<Rightarrow> stored_queue \<Rightarrow>
   (finalization_error + finalization_result list) \<times> ledger \<times> stored_queue" where
  "recover_session_finalization c pv wopen corr now ids run_id l s =
     (case wopen of
        Some e \<Rightarrow> (Inl (WarehouseOpenError e), l, s)
      | None \<Rightarrow>
          submit_each c pv wopen corr now ids
            (sort (map mr_run_id
               (filter (\<lambda>r. run_id = None \<and> mr_status r = ''ACQUIRING'' \<or> run_id = Some (mr_run_id r))
                  (maintenance_run l)))) l s)"

end
