(* ===== verification/Store_Props.thy ===== *)
theory Store_Props
  imports Finalization Queue_Props
begin

section \<open>Properties of storage, health and the finalization trigger\<close>

text \<open>
  Migration of a database file, the health gate of \<open>claim\<close>, and the finalization trigger: when it
  submits, and that it submits once.
\<close>

subsection \<open>Storage\<close>

text \<open>The layouts a file of each version has when it was written by this program.\<close>

definition layout_ok :: "stored_queue \<Rightarrow> bool" where
  "layout_ok s \<longleftrightarrow>
     (let v = user_version (sq_db s) in
      v = 0 \<and> \<not> sq_has_jobs s \<and> provision_job (sq_db s) = [] \<or>
      v = 1 \<and> sq_has_jobs s \<and> \<not> sq_has_available s \<or>
      v = 2 \<and> sq_has_jobs s \<and> \<not> sq_has_available s \<and> sq_has_metadata s \<and> sq_has_pruned s \<or>
      v = 3 \<and> sq_has_jobs s \<and> sq_has_available s \<and> sq_has_metadata s \<and> sq_has_pruned s)"

lemma initialize_current:
  "user_version (sq_db s) = 3 \<Longrightarrow> initialize_store cfg pv now s = (Inr (runtime_settings_from cfg pv), s)"
  by (simp add: initialize_store_def schema_version_def)

lemmas initialize_defs =
  initialize_store_def create_schema_def migrate_v1_to_v2_def migrate_v2_to_v3_def record_migration_def
  set_user_version_def set_metadata_def schema_version_def

text \<open>
  Opening a queue file of any version the program has written (or a new one) succeeds, brings it to
  version 3 with all tables, keeps every job and every pruned record, gives each job of an older
  version its creation time as the time it becomes available, and opening it again changes nothing.
\<close>

lemma initialize_upgrades:
  assumes "layout_ok s"
  shows "\<exists>s'. initialize_store cfg pv now s = (Inr (runtime_settings_from cfg pv), s') \<and>
    user_version (sq_db s') = 3 \<and> layout_ok s' \<and>
    provision_job (sq_db s') =
      (if user_version (sq_db s) = 1 \<or> user_version (sq_db s) = 2
       then map (\<lambda>r. r\<lparr>row_available_at_ms := row_created_at_ms r\<rparr>) (provision_job (sq_db s))
       else provision_job (sq_db s)) \<and>
    pruned_provision_job (sq_db s') = pruned_provision_job (sq_db s) \<and>
    initialize_store cfg pv now' s' = (Inr (runtime_settings_from cfg pv), s')"
proof -
  consider "user_version (sq_db s) = 0" | "user_version (sq_db s) = 1" | "user_version (sq_db s) = 2"
    | "user_version (sq_db s) = 3"
    using assms by (auto simp: layout_ok_def Let_def)
  then show ?thesis
    by cases (use assms in \<open>simp_all add: initialize_defs layout_ok_def\<close>)
qed

definition old_file :: stored_queue where
  "old_file =
     \<lparr>sq_has_jobs = True, sq_has_available = False, sq_has_metadata = False, sq_has_pruned = False,
      sq_db = (db_with [waiting_row])\<lparr>user_version := 1\<rparr>\<rparr>"

definition sample_pragmas :: pragma_values where
  "sample_pragmas =
     \<lparr>pv_synchronous = 1, pv_journal_mode = ''wal'', pv_foreign_keys = 1, pv_busy_timeout = 1000\<rparr>"

lemma initialize_upgrades_witness:
  "\<exists>s'. initialize_store sample_cfg sample_pragmas 5 old_file =
      (Inr (runtime_settings_from sample_cfg sample_pragmas), s') \<and>
     user_version (sq_db s') = 3 \<and> map row_job_id (provision_job (sq_db s')) = [''j1'']"
proof -
  have "layout_ok old_file" by (simp add: layout_ok_def old_file_def)
  from initialize_upgrades [OF this] show ?thesis by (fastforce simp: old_file_def)
qed

subsection \<open>Configuration and health\<close>

text \<open>
  The repository accepts exactly the configurations within its bounds, and every configuration it
  accepts allows at least one attempt and a positive lease, which the queue invariant rests on.
\<close>

lemma configuration_accepted_iff:
  "queue_configuration_from busy lease attempts = Inr cfg \<longleftrightarrow>
     cfg = \<lparr>busy_timeout_ms = busy, lease_seconds = lease, max_attempts = attempts\<rparr> \<and>
     busy \<in> {1..10000} \<and> lease \<in> {1..3600} \<and> attempts \<in> {1..10} \<and> cfg_ok cfg"
  by (auto simp: queue_configuration_from_def positive_def res_bind_Inr_iff cfg_ok_def split: if_splits)

text \<open>
  A claim through the repository leases a job only on a healthy queue: the file exists, could be
  inspected, has the supported version and passes the integrity check, is readable and writable, and
  at least 100 MiB of disk are free.
\<close>

lemma claim_needs_health:
  assumes "repository_claim c cfg (health cfg file_exists probe inspection ts) w now db = (Inr (Some job), db')"
  shows "file_exists \<and>
    (\<exists>si. inspection = Inr si \<and> user_version (si_db si) = schema_version \<and>
       lower (si_integrity_check si) = ''ok'') \<and>
    (\<exists>p n. probe = Some p \<and> fp_readable p \<and> fp_writable p \<and> fp_disk_free p = Some n \<and> 104857600 \<le> n)"
proof -
  have can: "can_claim (health cfg file_exists probe inspection ts)"
    using assms by (auto simp: repository_claim_def split: if_splits)
  have ex: "file_exists"
    using can by (rule contrapos_pp) (simp add: health_def can_claim_def unavailable_report_def Let_def)
  then obtain si where si: "inspection = Inr si"
    using can by (cases inspection) (auto simp: health_def can_claim_def unavailable_report_def Let_def)
  then have "user_version (si_db si) = schema_version" "lower (si_integrity_check si) = ''ok''"
    "fp_readable (filesystem_state probe)" "fp_writable (filesystem_state probe)"
    "has_disk_space (fp_disk_free (filesystem_state probe))"
    using can ex by (auto simp: health_def can_claim_def Let_def split: prod.splits)
  with ex si show ?thesis
    by (cases probe) (auto simp: filesystem_state_def has_disk_space_def min_free_disk_bytes_def
        split: option.splits)
qed

definition sample_probe :: file_probe where
  "sample_probe =
     \<lparr>fp_file_size = 4096, fp_wal_size = 0, fp_readable = True, fp_writable = True,
      fp_disk_free = Some 200000000\<rparr>"

definition sample_inspection :: "queue_db \<Rightarrow> store_inspection" where
  "sample_inspection db = \<lparr>si_integrity_check = ''ok'', si_journal_mode = ''wal'', si_db = db\<rparr>"

lemma sample_health: "can_claim (health sample_cfg True (Some sample_probe)
    (Inr (sample_inspection (db_with rows))) ts)"
proof -
  have "lower ''ok'' = ''ok''" by code_simp
  then show ?thesis
    by (simp add: health_def can_claim_def sample_probe_def sample_inspection_def filesystem_state_def
        has_disk_space_def min_free_disk_bytes_def db_with_def schema_version_def maintenance_timestamps_def
        split: prod.split)
qed

lemma sample_claim_result:
  "\<exists>job db'. claim sample_codec sample_cfg ''w1'' 2000 (db_with [waiting_row]) = (Inr (Some job), db')"
proof -
  have "recovered sample_cfg 2000 (db_with [waiting_row]) = [waiting_row]"
    "next_claim 2000 [waiting_row] = Some waiting_row"
    by (simp_all add: lease_expired_def next_claim_def claimable_def)
  then show ?thesis
    using claim_result [OF db_with_ok [OF sample_rows_ok(1)] sample_worker(1), of 2000] by auto
qed

lemma claim_needs_health_witness:
  "(\<exists>n. fp_disk_free sample_probe = Some n \<and> 104857600 \<le> n) \<and>
   lower (si_integrity_check (sample_inspection (db_with [waiting_row]))) = ''ok''"
proof -
  obtain job db' where run: "claim sample_codec sample_cfg ''w1'' 2000 (db_with [waiting_row]) = (Inr (Some job), db')"
    using sample_claim_result by blast
  have "repository_claim sample_codec sample_cfg (health sample_cfg True (Some sample_probe)
      (Inr (sample_inspection (db_with [waiting_row]))) 2000) ''w1'' 2000 (db_with [waiting_row]) =
      (Inr (Some job), db')"
    using sample_health run by (simp add: repository_claim_def)
  from claim_needs_health [OF this] show ?thesis by auto
qed

text \<open>
  The health counts agree with the queue: on a database of the invariant the live and the expired
  leases it reports are together the running jobs, and right after a recovery no lease is expired.
\<close>

lemma health_counts_leases:
  assumes "queue_ok c cfg db" and "queue_counts ts (provision_job db) = (live, expired, depth, oldest)"
  shows "live + expired = length (filter (\<lambda>r. row_status r = RUNNING) (provision_job db)) \<and>
    depth = length (filter (\<lambda>r. row_status r = QUEUED) (provision_job db)) \<and>
    (oldest = None \<longleftrightarrow> depth = 0) \<and>
    (\<exists>rows. recover_expired c cfg ts (provision_job db) = Inr rows \<and>
       fst (snd (queue_counts ts rows)) = 0)"
proof -
  have expiry: "row_lease_expires_at_ms r \<noteq> None" if "r \<in> set (provision_job db)" "row_status r = RUNNING" for r
    using queue_ok_row [OF assms(1) that(1)] that(2) by (auto simp: row_ok_def lease_fields_def)
  have "length (filter (\<lambda>r. row_status r = RUNNING \<and>
          (case row_lease_expires_at_ms r of None \<Rightarrow> False | Some e \<Rightarrow> ts < e)) rows) +
        length (filter (\<lambda>r. row_status r = RUNNING \<and>
          (case row_lease_expires_at_ms r of None \<Rightarrow> False | Some e \<Rightarrow> e \<le> ts)) rows) =
        length (filter (\<lambda>r. row_status r = RUNNING) rows)"
    if "set rows \<subseteq> set (provision_job db)" for rows
    using that
  proof (induction rows)
    case (Cons r rows)
    then show ?case
      using expiry [of r] by (cases "row_lease_expires_at_ms r") auto
  qed simp
  moreover have "\<exists>rows. recover_expired c cfg ts (provision_job db) = Inr rows \<and>
      fst (snd (queue_counts ts rows)) = 0"
    using queue_ok_recover [OF assms(1), of ts] recovered_not_expired [where ts = ts and ts' = ts and cfg = cfg and db = db]
    by (auto simp: queue_counts_def Let_def filter_empty_conv lease_expired_def)
  ultimately show ?thesis
    using assms(2) by (auto simp: queue_counts_def Let_def filter_empty_conv split: if_splits)
qed

lemma health_counts_leases_witness:
  "fst (queue_counts 40000 [leased_row]) + fst (snd (queue_counts 40000 [leased_row])) = 1"
proof -
  obtain a b d e where q: "queue_counts 40000 (provision_job (db_with [leased_row])) = (a, b, d, e)"
    by (cases "queue_counts 40000 [leased_row]") auto
  from health_counts_leases [OF db_with_ok [OF sample_rows_ok(2)] q] q show ?thesis by simp
qed

section \<open>Properties of the finalization trigger\<close>

text \<open>
  A run is finalized only after all its acquisition jobs have ended, and once; on the queue the
  trigger only makes submissions.
\<close>

text \<open>The codec reads back every goal that its own parser accepts.\<close>

definition codec_law :: "codec \<Rightarrow> bool" where
  "codec_law c \<longleftrightarrow> (\<forall>g g'. validated_goal c g = Inr g' \<longrightarrow> codec_reads c g')"

text \<open>What the trigger may do to a queue file.\<close>

definition store_moves :: "codec \<Rightarrow> queue_configuration \<Rightarrow> stored_queue \<Rightarrow> stored_queue \<Rightarrow> bool" where
  "store_moves c cfg s s' \<longleftrightarrow>
     (queue_step c cfg)\<^sup>*\<^sup>* (sq_db s) (sq_db s') \<and>
     user_version (sq_db s') = user_version (sq_db s) \<and>
     pruned_provision_job (sq_db s') = pruned_provision_job (sq_db s)"

lemma store_moves_refl [simp]: "store_moves c cfg s s"
  by (simp add: store_moves_def)

lemma store_moves_trans: "store_moves c cfg s t \<Longrightarrow> store_moves c cfg t u \<Longrightarrow> store_moves c cfg s u"
  by (auto simp: store_moves_def)

lemma commit_row_keeps:
  "commit_row c db rows jid lost = (r, db') \<Longrightarrow>
   user_version db' = user_version db \<and> pruned_provision_job db' = pruned_provision_job db"
  by (auto simp: commit_row_def split: option.splits)

lemma submit_transaction_keeps:
  "submit_transaction c g p org corr ts i db = (r, db') \<Longrightarrow>
   user_version db' = user_version db \<and> pruned_provision_job db' = pruned_provision_job db"
  by (auto simp: submit_transaction_def Let_def dest: commit_row_keeps
      split: option.splits sum.splits if_splits prod.splits)

lemma submit_or_join_keeps:
  "submit_or_join c g p org corr ts i db = (r, db') \<Longrightarrow>
   user_version db' = user_version db \<and> pruned_provision_job db' = pruned_provision_job db"
  by (auto simp: submit_or_join_def dest: submit_transaction_keeps split: sum.splits)

lemma submit_finalization_moves:
  assumes "submit_finalization c run_id g prio corr now i l s = (r, l', s')" and "codec_law c"
    and "i \<notin> pj_job_id ` set (pruned_provision_job (sq_db s))"
  shows "store_moves c cfg s s'"
proof -
  obtain x db where sub: "submit_or_join c g prio (Some ''maintenance-finalization'') (Some corr) now i (sq_db s) = (x, db)"
    by (cases "submit_or_join c g prio (Some ''maintenance-finalization'') (Some corr) now i (sq_db s)") auto
  then have "s' = s\<lparr>sq_db := db\<rparr>"
    using assms(1) by (auto simp: submit_finalization_def split: sum.splits option.splits)
  moreover have "queue_step c cfg (sq_db s) db"
    by (rule qs_submit [OF sub assms(3)]) (use assms(2) in \<open>simp add: codec_law_def\<close>)
  ultimately show ?thesis
    using submit_or_join_keeps [OF sub] by (auto simp: store_moves_def)
qed

lemma session_finalization_moves:
  assumes "maybe_submit_session_finalization c pv wopen run_id prio corr now i l s = (r, l', s')"
    and "codec_law c" and "user_version (sq_db s) = 3"
    and "i \<notin> pj_job_id ` set (pruned_provision_job (sq_db s))"
  shows "store_moves c cfg s s'"
proof (cases "s' = s")
  case False
  with assms(1) obtain g where "submit_finalization c run_id g prio corr now i l s = (r, l', s')"
    by (auto simp: maybe_submit_session_finalization_def initialize_current [OF assms(3)] Let_def
        split: option.splits sum.splits if_splits)
  then show ?thesis using assms(2,4) by (rule submit_finalization_moves)
qed simp

lemma submit_each_moves:
  assumes "submit_each c pv wopen corr now ids runs l s = (r, l', s')" and "codec_law c"
    and "user_version (sq_db s) = 3" and "\<forall>n. ids n \<notin> pj_job_id ` set (pruned_provision_job (sq_db s))"
  shows "store_moves c cfg s s'"
  using assms
proof (induction runs arbitrary: r l s l' s')
  case Nil
  then show ?case by simp
next
  case (Cons run runs)
  obtain x l1 s1 where first:
    "maybe_submit_session_finalization c pv wopen run 0 corr now (ids (length runs)) l s = (x, l1, s1)"
    by (cases "maybe_submit_session_finalization c pv wopen run 0 corr now (ids (length runs)) l s") auto
  have m: "store_moves c cfg s s1"
    using first Cons.prems(2,3) by (rule session_finalization_moves) (use Cons.prems(4) in blast)
  show ?case
  proof (cases x)
    case (Inl e)
    with Cons.prems(1) first m show ?thesis by simp
  next
    case (Inr y)
    obtain r2 l2 s2 where rest: "submit_each c pv wopen corr now ids runs l1 s1 = (r2, l2, s2)"
      by (cases "submit_each c pv wopen corr now ids runs l1 s1") auto
    have "store_moves c cfg s1 s2"
      using rest Cons.prems(2) by (rule Cons.IH) (use m Cons.prems(3,4) in \<open>simp_all add: store_moves_def\<close>)
    moreover have "s' = s2"
      using Cons.prems(1) first Inr rest by (cases r2) auto
    ultimately show ?thesis using m by (auto intro: store_moves_trans)
  qed
qed

text \<open>The branches of a call that reports neither an error nor \<open>ACQUIRING\<close>.\<close>

lemma finalization_passes:
  assumes "maybe_submit_session_finalization c pv wopen run_id prio corr now i l s = (Inr res, l', s')"
    and "user_version (sq_db s) = 3" and "fr_state res \<noteq> ''ACQUIRING''"
  shows "\<exists>run. find (\<lambda>r. mr_run_id r = run_id) (maintenance_run l) = Some run \<and>
    Option.bind (c_loads c (str_of (mr_expected_goals_json run))) json_length =
      Some (length (acquisition_rows l run_id)) \<and>
    (\<forall>j \<in> set (acquisition_rows l run_id). \<exists>jid job.
       rj_job_id j = Some jid \<and> get_job c jid (sq_db s) = Inr (Some job) \<and> job_is_terminal job) \<and>
    (case Option.bind (finalization_row l run_id) rj_job_id of
       Some jid \<Rightarrow> fr_job_id res = Some jid \<and> l' = l \<and> s' = s
     | None \<Rightarrow> \<exists>g. finalization_goal run_id run = Inr g \<and>
         submit_finalization c run_id g prio corr now i l s = (Inr res, l', s'))"
proof -
  let ?rows = "acquisition_rows l run_id"
  obtain run where w: "wopen = None" and run: "find (\<lambda>r. mr_run_id r = run_id) (maintenance_run l) = Some run"
    using assms(1)
    by (cases wopen; cases "find (\<lambda>r. mr_run_id r = run_id) (maintenance_run l)")
      (simp_all add: maybe_submit_session_finalization_def initialize_current [OF assms(2)])
  obtain n where n: "Option.bind (c_loads c (str_of (mr_expected_goals_json run))) json_length = Some n"
    using assms(1) w run
    by (cases "Option.bind (c_loads c (str_of (mr_expected_goals_json run))) json_length")
      (simp_all add: maybe_submit_session_finalization_def initialize_current [OF assms(2)] Let_def)
  have len: "length ?rows = n" and mapped: "\<forall>j \<in> set ?rows. rj_job_id j \<noteq> None"
    using assms(1) w run n assms(3)
    by (auto simp: maybe_submit_session_finalization_def initialize_current [OF assms(2)] Let_def
        acquiring_def list_ex_iff split: if_splits)
  have quiet: "\<not> (length ?rows \<noteq> n \<or> list_ex (\<lambda>j. rj_job_id j = None) ?rows)"
    using len mapped by (simp add: list_ex_iff)
  obtain jobs where jobs: "res_map (\<lambda>j. get_job c (the (rj_job_id j)) (sq_db s)) ?rows = Inr jobs"
    using assms(1) w run n quiet
    by (cases "res_map (\<lambda>j. get_job c (the (rj_job_id j)) (sq_db s)) ?rows")
      (simp_all add: maybe_submit_session_finalization_def initialize_current [OF assms(2)] Let_def)
  have ended: "\<forall>job \<in> set jobs. \<exists>j. job = Some j \<and> job_is_terminal j"
  proof (rule ccontr)
    assume "\<not> ?thesis"
    then have "list_ex (\<lambda>job. case job of None \<Rightarrow> True | Some j \<Rightarrow> \<not> job_is_terminal j) jobs"
      by (auto simp: list_ex_iff split: option.splits)
    with assms(1) w run n quiet jobs have "(Inr (acquiring run_id corr), l, s) = (Inr res, l', s')"
      by (simp add: maybe_submit_session_finalization_def initialize_current [OF assms(2)] Let_def)
    with assms(3) show False by (simp add: acquiring_def) (auto simp: acquiring_def)
  qed
  have jobs_ended: "\<exists>jid job. rj_job_id j = Some jid \<and> get_job c jid (sq_db s) = Inr (Some job) \<and> job_is_terminal job"
    if j: "j \<in> set (acquisition_rows l run_id)" for j
  proof -
    have "list_all2 (\<lambda>j job. get_job c (the (rj_job_id j)) (sq_db s) = Inr job) (acquisition_rows l run_id) jobs"
      using jobs by (simp add: res_map_Inr_iff)
    then obtain x where "x \<in> set jobs" and get: "get_job c (the (rj_job_id j)) (sq_db s) = Inr x"
      using set_list_all2_left [OF _ j] by blast
    then obtain job where "x = Some job" "job_is_terminal job" using ended by blast
    moreover obtain jid where "rj_job_id j = Some jid" using mapped j by blast
    ultimately show ?thesis using get by simp
  qed
  have last: "\<not> list_ex (\<lambda>job. case job of None \<Rightarrow> True | Some j \<Rightarrow> \<not> job_is_terminal j) jobs"
    using ended by (auto simp: list_ex_iff)
  have "case Option.bind (finalization_row l run_id) rj_job_id of
       Some jid \<Rightarrow> fr_job_id res = Some jid \<and> l' = l \<and> s' = s
     | None \<Rightarrow> \<exists>g. finalization_goal run_id run = Inr g \<and>
         submit_finalization c run_id g prio corr now i l s = (Inr res, l', s')"
    using assms(1) w run n quiet jobs last
    by (cases "Option.bind (finalization_row l run_id) rj_job_id"; cases "finalization_goal run_id run")
      (auto simp: maybe_submit_session_finalization_def initialize_current [OF assms(2)] Let_def)
  with run n len jobs_ended show ?thesis by blast
qed

text \<open>
  The finalization of a run waits for its acquisition: a call that reports anything but an error
  or \<open>ACQUIRING\<close> has found as many acquisition jobs as the run expects, each mapped to a queue job
  that has ended, and a call that reports \<open>ACQUIRING\<close> has submitted nothing and changed neither the
  ledger nor an open queue.
\<close>

lemma finalization_waits:
  assumes "maybe_submit_session_finalization c pv wopen run_id prio corr now i l s = (Inr res, l', s')"
    and "user_version (sq_db s) = 3"
  shows "if fr_state res = ''ACQUIRING'' then
      \<not> fr_submitted res \<and> \<not> fr_joined res \<and> l' = l \<and> s' = s
    else \<exists>run n. run \<in> set (maintenance_run l) \<and> mr_run_id run = run_id \<and>
      Option.bind (c_loads c (str_of (mr_expected_goals_json run))) json_length = Some n \<and>
      length (acquisition_rows l run_id) = n \<and>
      (\<forall>j \<in> set (acquisition_rows l run_id). \<exists>jid job.
         rj_job_id j = Some jid \<and> get_job c jid (sq_db s) = Inr (Some job) \<and> job_is_terminal job)"
proof (cases "fr_state res = ''ACQUIRING''")
  case True
  have "fr_state res = ''FINALIZATION_QUEUED''"
    if "submit_finalization c run_id g prio corr now i l s = (Inr res, l', s')" for g
    using that by (auto simp: submit_finalization_def split: prod.splits sum.splits option.splits)
  then show ?thesis
    using assms(1) True
    by (auto simp: maybe_submit_session_finalization_def initialize_current [OF assms(2)] Let_def
        acquiring_def split: option.splits sum.splits if_splits)
next
  case False
  obtain run where "find (\<lambda>r. mr_run_id r = run_id) (maintenance_run l) = Some run"
    and "Option.bind (c_loads c (str_of (mr_expected_goals_json run))) json_length =
      Some (length (acquisition_rows l run_id))"
    and "\<forall>j \<in> set (acquisition_rows l run_id). \<exists>jid job.
       rj_job_id j = Some jid \<and> get_job c jid (sq_db s) = Inr (Some job) \<and> job_is_terminal job"
    using finalization_passes [OF assms False] by blast
  with False show ?thesis
    using find_Some_in [of "\<lambda>r. mr_run_id r = run_id" "maintenance_run l" run] by auto
qed

subsection \<open>Once per run\<close>

lemma select_job_status:
  assumes "get_job c jid db = Inr (Some job)" and "job_is_terminal job"
  shows "\<exists>r. select_job jid (provision_job db) = Some r \<and> terminal (row_status r) \<and> job_from_row c r = Inr job"
  using assms by (auto simp: get_job_def res_bind_Inr_iff job_is_terminal_def terminal_def
      job_from_row_fields(2) split: option.splits)

text \<open>A submission leaves an ended job as it is.\<close>

lemma submit_keeps_ended:
  assumes "submit_transaction c g p org corr ts i db = (x, db')"
    and "distinct (map row_job_id (provision_job db))"
    and "get_job c jid db = Inr (Some job)" and "job_is_terminal job"
  shows "get_job c jid db' = Inr (Some job)"
proof -
  obtain r where r: "select_job jid (provision_job db) = Some r" "terminal (row_status r)" "job_from_row c r = Inr job"
    using select_job_status [OF assms(3,4)] by blast
  have "select_job jid (provision_job db') = Some r"
  proof (cases "select_active (goal_identity c g) (provision_job db)")
    case None
    then have "db' = db \<or> (\<exists>rows. insert_job_row (new_job_row c g p org corr ts i) (provision_job db) = Some rows \<and>
        db' = db\<lparr>provision_job := rows\<rparr>)"
      using assms(1) by (auto simp: submit_transaction_def dest: commit_row_cases
          split: option.splits prod.splits sum.splits)
    then show ?thesis
      using r(1) by (auto simp: insert_job_row_Some select_job_def find_append)
  next
    case (Some a)
    have a: "a \<in> set (provision_job db)" "active (row_status a)"
      using find_Some_in [OF Some [unfolded select_active_def]] by auto
    have "row_job_id r \<noteq> row_job_id a"
      using distinct_map_inj [OF assms(2), of r a] select_job_in [OF r(1)] a r(2)
      by (auto simp: active_iff_not_terminal)
    moreover from Some assms(1) have "db' = db \<or> db' = db\<lparr>provision_job :=
        update_where (\<lambda>x. row_job_id x = row_job_id a) (join_update p ts) (provision_job db)\<rparr>"
      by (auto simp: submit_transaction_def Let_def job_from_row_fields(1)
          split: sum.splits if_splits option.splits)
    ultimately show ?thesis
      using r(1) by (auto simp: select_job_update)
  qed
  then show ?thesis by (simp add: get_job_def r(3))
qed

lemma submit_or_join_keeps_ended:
  assumes "submit_or_join c g p org corr ts i db = (x, db')"
    and "distinct (map row_job_id (provision_job db))"
    and "get_job c jid db = Inr (Some job)" and "job_is_terminal job"
  shows "get_job c jid db' = Inr (Some job)"
proof -
  have "db' = db \<or> (\<exists>g p org corr. submit_transaction c g p org corr ts i db = (x, db'))"
    using assms(1) by (auto simp: submit_or_join_def split: sum.splits)
  then show ?thesis using assms(3) submit_keeps_ended [OF _ assms(2-4)] by blast
qed

lemma find_run_status:
  "find (\<lambda>r. mr_run_id r = run_id) (maintenance_run (set_run_status rid st l)) =
   map_option (\<lambda>r. if mr_run_id r = rid then r\<lparr>mr_status := st\<rparr> else r)
     (find (\<lambda>r. mr_run_id r = run_id) (maintenance_run l))"
  by (simp add: set_run_status_def find_update_where)

lemma run_status_rows [simp]: "maintenance_run_job (set_run_status rid st l) = maintenance_run_job l"
  by (simp add: set_run_status_def)

text \<open>The calls that answer from a finalization row already there.\<close>

lemma finalization_joined:
  assumes "user_version (sq_db s) = 3"
    and "find (\<lambda>r. mr_run_id r = run_id) (maintenance_run l) = Some run"
    and "Option.bind (c_loads c (str_of (mr_expected_goals_json run))) json_length =
      Some (length (acquisition_rows l run_id))"
    and jobs: "\<forall>j \<in> set (acquisition_rows l run_id). \<exists>jid job.
      rj_job_id j = Some jid \<and> get_job c jid (sq_db s) = Inr (Some job) \<and> job_is_terminal job"
    and "finalization_row l run_id = Some f" and "rj_job_id f = Some fid"
  shows "maybe_submit_session_finalization c pv None run_id prio corr now i l s =
    (Inr \<lparr>fr_maintenance_run_id = run_id, fr_submitted = False, fr_joined = True, fr_job_id = Some fid,
          fr_state = ''FINALIZATION_QUEUED'', fr_correlation_id = corr\<rparr>, l, s)"
proof -
  let ?rows = "acquisition_rows l run_id"
  have mapped: "\<not> list_ex (\<lambda>j. rj_job_id j = None) ?rows"
    using jobs by (force simp: list_ex_iff)
  have "\<forall>j \<in> set ?rows. \<exists>job. get_job c (the (rj_job_id j)) (sq_db s) = Inr job"
    using jobs by force
  then obtain found where found: "res_map (\<lambda>j. get_job c (the (rj_job_id j)) (sq_db s)) ?rows = Inr found"
    using res_map_defined [of ?rows "\<lambda>j. get_job c (the (rj_job_id j)) (sq_db s)"] by blast
  then have rel: "list_all2 (\<lambda>j job. get_job c (the (rj_job_id j)) (sq_db s) = Inr job) ?rows found"
    by (simp add: res_map_Inr_iff)
  have "\<not> list_ex (\<lambda>job. case job of None \<Rightarrow> True | Some j \<Rightarrow> \<not> job_is_terminal j) found"
  proof
    assume "list_ex (\<lambda>job. case job of None \<Rightarrow> True | Some j \<Rightarrow> \<not> job_is_terminal j) found"
    then obtain y where y: "y \<in> set found" "case y of None \<Rightarrow> True | Some j \<Rightarrow> \<not> job_is_terminal j"
      by (auto simp: list_ex_iff)
    obtain j where "j \<in> set ?rows" "get_job c (the (rj_job_id j)) (sq_db s) = Inr y"
      using set_list_all2 [OF rel y(1)] by blast
    with jobs y(2) show False by force
  qed
  then show ?thesis
    using assms mapped found
    by (simp add: maybe_submit_session_finalization_def initialize_current Let_def)
qed

text \<open>
  A run is finalized once: after a call that queued the finalization of a run, every further call
  for it, with any arguments, reports that same job as joined and changes neither ledger nor queue.
\<close>

lemma finalization_submits_once:
  assumes "maybe_submit_session_finalization c pv wopen run_id prio corr now i l s = (Inr res, l', s')"
    and "fr_state res \<noteq> ''ACQUIRING''"
    and "user_version (sq_db s) = 3" and "queue_ok c cfg (sq_db s)"
    and "\<forall>f. finalization_row l run_id = Some f \<longrightarrow> rj_job_id f \<noteq> None"
  shows "maybe_submit_session_finalization c pv None run_id prio2 corr2 now2 i2 l' s' =
    (Inr \<lparr>fr_maintenance_run_id = run_id, fr_submitted = False, fr_joined = True,
          fr_job_id = fr_job_id res, fr_state = ''FINALIZATION_QUEUED'', fr_correlation_id = corr2\<rparr>, l', s')"
proof -
  obtain run n where run: "find (\<lambda>r. mr_run_id r = run_id) (maintenance_run l) = Some run"
    and n: "Option.bind (c_loads c (str_of (mr_expected_goals_json run))) json_length =
      Some (length (acquisition_rows l run_id))"
    and jobs: "\<forall>j \<in> set (acquisition_rows l run_id). \<exists>jid job.
      rj_job_id j = Some jid \<and> get_job c jid (sq_db s) = Inr (Some job) \<and> job_is_terminal job"
    and row: "case Option.bind (finalization_row l run_id) rj_job_id of
        Some jid \<Rightarrow> fr_job_id res = Some jid \<and> l' = l \<and> s' = s
      | None \<Rightarrow> \<exists>g. finalization_goal run_id run = Inr g \<and> submit_finalization c run_id g prio corr now i l s = (Inr res, l', s')"
    using finalization_passes [OF assms(1,3,2)] by blast
  show ?thesis
  proof (cases "finalization_row l run_id")
    case (Some f)
    then obtain fid where "rj_job_id f = Some fid" using assms(5) by auto
    with Some row show ?thesis
      using finalization_joined [OF assms(3) run n jobs Some] by simp
  next
    case None
    with row obtain g where g: "finalization_goal run_id run = Inr g"
      and call: "submit_finalization c run_id g prio corr now i l s = (Inr res, l', s')"
      by auto
    have g_type: "goal_type_value (goal_type_of g) = ''FINALIZE_MARKET_SESSION''"
      using g by (auto simp: finalization_goal_def split: option.splits sum.splits)
    obtain x db where sub0:
      "submit_or_join c g prio (Some ''maintenance-finalization'') (Some corr) now i (sq_db s) = (x, db)"
      by (cases "submit_or_join c g prio (Some ''maintenance-finalization'') (Some corr) now i (sq_db s)") auto
    then obtain sub where x: "x = Inr sub"
      using call by (cases x) (simp_all add: submit_finalization_def)
    note sub = sub0 [unfolded x]
    define j where "j = \<lparr>rj_run_id = run_id, rj_goal_identity = goal_identity c g,
        rj_goal_type = goal_type_value (goal_type_of g), rj_entity_id = run_id,
        rj_goal_payload_json = payload_json g, rj_job_id = Some (job_id (submit_job sub))\<rparr>"
    have j: "rj_run_id j = run_id" "rj_goal_type j = goal_type_value (goal_type_of g)"
        "rj_job_id j = Some (job_id (submit_job sub))"
      by (simp_all add: j_def)
    have "insert_run_job j l = Some (l\<lparr>maintenance_run_job := maintenance_run_job l @ [j]\<rparr>)"
      using call sub by (auto simp: submit_finalization_def insert_run_job_def j_def split: if_splits)
    then have l': "l' = set_run_status run_id ''FINALIZATION_QUEUED'' (l\<lparr>maintenance_run_job := maintenance_run_job l @ [j]\<rparr>)"
      and s': "s' = s\<lparr>sq_db := db\<rparr>" and res: "fr_job_id res = Some (job_id (submit_job sub))"
      using call sub by (auto simp: submit_finalization_def insert_run_job_def j_def split: if_splits)
    have others: "finalization_row l' run_id = Some j" "acquisition_rows l' run_id = acquisition_rows l run_id"
      using None j g_type by (simp_all add: l' finalization_row_def acquisition_rows_def find_append)
    let ?run = "run\<lparr>mr_status := ''FINALIZATION_QUEUED''\<rparr>"
    have run': "find (\<lambda>r. mr_run_id r = run_id) (maintenance_run l') = Some ?run"
      using run find_Some_in [OF run] by (simp add: l' find_run_status)
    have "user_version (sq_db s') = 3"
      using submit_or_join_keeps [OF sub] assms(3) by (simp add: s')
    moreover have "\<forall>j \<in> set (acquisition_rows l' run_id). \<exists>jid job.
      rj_job_id j = Some jid \<and> get_job c jid (sq_db s') = Inr (Some job) \<and> job_is_terminal job"
      using jobs submit_or_join_keeps_ended [OF sub queue_ok_ids [OF assms(4)]]
      unfolding others s' by fastforce
    ultimately show ?thesis
      using finalization_joined [OF _ run' _ _ others(1) j(3)] n others(2) by (simp add: res)
  qed
qed

subsection \<open>A sample run\<close>

definition run_codec :: codec where
  "run_codec = sample_codec\<lparr>c_loads := (c_loads sample_codec)(''[1]'' \<mapsto> JArr [JInt 1])\<rparr>"

definition sample_ledger :: ledger where
  "sample_ledger =
     \<lparr>maintenance_run =
        [\<lparr>mr_run_id = ''run-1'', mr_resolved_date = None, mr_universe_hash = None,
          mr_source_policy_version = None, mr_status = ''FINALIZATION_QUEUED'',
          mr_expected_goals_json = Some ''[1]''\<rparr>],
      maintenance_run_job =
        [\<lparr>rj_run_id = ''run-1'', rj_goal_identity = ''a'', rj_goal_type = ''ENSURE_CURRENT_SYMBOL'',
          rj_entity_id = ''FPT'', rj_goal_payload_json = ''{}'', rj_job_id = Some ''j1''\<rparr>,
         \<lparr>rj_run_id = ''run-1'', rj_goal_identity = ''b'', rj_goal_type = ''FINALIZE_MARKET_SESSION'',
          rj_entity_id = ''run-1'', rj_goal_payload_json = ''{}'', rj_job_id = Some ''j9''\<rparr>]\<rparr>"

definition sample_file :: "job_row list \<Rightarrow> stored_queue" where
  "sample_file rows =
     \<lparr>sq_has_jobs = True, sq_has_available = True, sq_has_metadata = True, sq_has_pruned = True,
      sq_db = db_with rows\<rparr>"

lemma payload_start: "hd (payload_json g) = CHR ''{''"
  by (cases g) (simp_all add: payload_json_def goal_object_def)

lemma run_codec_reads: "codec_reads run_codec sample_goal"
proof -
  have "payload_json sample_goal \<noteq> ''[1]''"
    using payload_start [of sample_goal] by auto
  then show ?thesis
    using sample_reads by (simp add: codec_reads_def run_codec_def)
qed

lemma sample_file_fields [simp]:
  "sq_db (sample_file rows) = db_with rows" "user_version (db_with rows) = 3"
  by (simp_all add: sample_file_def db_with_def)

lemma failed_row_payload: "row_payload_json failed_row = payload_json sample_goal"
  by (simp add: failed_row_def leased_row_def waiting_row_def new_job_row_def terminal_update_def
      clear_lease_def claim_update_def)

lemma sample_finalization:
  "maybe_submit_session_finalization run_codec pv None ''run-1'' 0 ''c'' now i sample_ledger (sample_file [failed_row]) =
    (Inr \<lparr>fr_maintenance_run_id = ''run-1'', fr_submitted = False, fr_joined = True, fr_job_id = Some ''j9'',
          fr_state = ''FINALIZATION_QUEUED'', fr_correlation_id = ''c''\<rparr>, sample_ledger, sample_file [failed_row])"
proof -
  obtain job where job: "job_from_row run_codec failed_row = Inr job"
    using parse_payload [OF sample_goal_valid run_codec_reads] failed_row_payload
    by (simp add: job_from_row_def)
  then have "job_is_terminal job"
    by (simp add: job_is_terminal_def job_from_row_fields(2))
  with job have "get_job run_codec ''j1'' (db_with [failed_row]) = Inr (Some job)" "job_is_terminal job"
    by (simp_all add: get_job_def select_job_def)
  moreover have "Option.bind (c_loads run_codec (str_of (Some ''[1]''))) json_length = Some (Suc 0)"
    by (simp add: str_of_def run_codec_def)
  ultimately show ?thesis
    by (intro finalization_joined [where run = "hd (maintenance_run sample_ledger)"
          and f = "maintenance_run_job sample_ledger ! 1"])
      (simp_all add: sample_ledger_def acquisition_rows_def finalization_row_def)
qed

lemma finalization_waits_witness:
  "\<exists>job. get_job run_codec ''j1'' (db_with [failed_row]) = Inr (Some job) \<and> job_is_terminal job"
  using finalization_waits [OF sample_finalization]
  by (simp add: sample_ledger_def acquisition_rows_def)

lemma failed_row_ok: "queue_ok run_codec sample_cfg (db_with [failed_row])"
proof -
  have "row_ok sample_codec sample_cfg failed_row" by (rule sample_rows_ok(3))
  moreover have "payload_ok run_codec failed_row"
    using parse_payload [OF sample_goal_valid run_codec_reads]
    by (simp add: payload_ok_def failed_row_payload)
      (simp add: failed_row_def leased_row_def waiting_row_def new_job_row_def terminal_update_def
        clear_lease_def claim_update_def goal_identity_def run_codec_def)
  ultimately have "row_ok run_codec sample_cfg failed_row"
    by (simp add: row_ok_def)
  then show ?thesis by (simp add: queue_ok_def sample_cfg_ok db_ok_def table_ok_def)
qed

lemma finalization_submits_once_witness:
  "fst (maybe_submit_session_finalization run_codec sample_pragmas None ''run-1'' 7 ''d'' 9 ''j10'' sample_ledger
      (sample_file [failed_row])) =
    Inr \<lparr>fr_maintenance_run_id = ''run-1'', fr_submitted = False, fr_joined = True, fr_job_id = Some ''j9'',
         fr_state = ''FINALIZATION_QUEUED'', fr_correlation_id = ''d''\<rparr>"
  using finalization_submits_once [OF sample_finalization [of sample_pragmas 1 "''x''"],
      of sample_cfg 7 "''d''" 9 "''j10''"] failed_row_ok
  by (simp add: finalization_row_def sample_ledger_def)

end
