(* ===== verification/Worker.thy ===== *)
theory Worker
  imports Finalization
begin

section \<open>The provisioning worker\<close>

text \<open>
  \<open>worker.py\<close>, \<open>_worker_execution.py\<close>, \<open>_worker_runtime.py\<close> and \<open>handlers.py\<close>: claim a job, run the
  stages of its handler between safe boundaries under a maintained lease, and end the job.

  The worker runs beside other processes.  \<open>tick\<close> counts its calls of the queue; before each call
  the other processes act on the database (\<open>env_others\<close>) and the clock shows \<open>env_clock\<close>.  The stop
  flag, the time a stage takes, the beats of the heartbeat thread during it, the file system and the
  opening of the warehouse are read from \<open>env\<close> in the same way.  What a stage does to the warehouse
  (\<open>ensure_current_symbol_ready\<close>, \<open>refresh_company_context\<close>, \<open>SessionFinalizer\<close>) is its action, an
  argument.  The process locks only serialise workers, and have no counterpart here.
\<close>

subsection \<open>The world around a worker\<close>

datatype worker_error =
    WorkerQueueError queue_error
  | WorkerFinalizationError finalization_error
  | WorkerWarehouseError string
  | WorkerOtherError string

record world =
  tick :: nat
  store :: stored_queue
  world_ledger :: "ledger option"

record environment =
  env_others :: "nat \<Rightarrow> queue_db \<Rightarrow> queue_db"
  env_clock :: "nat \<Rightarrow> int"
  env_stop :: "nat \<Rightarrow> bool"
  env_elapsed :: "nat \<Rightarrow> int"
  env_beats :: "nat \<Rightarrow> nat"
  env_warehouse_exists :: bool
  env_warehouse_error :: "nat \<Rightarrow> string option"
  env_file_exists :: bool
  env_probe :: "file_probe option"
  env_inspection :: "queue_db \<Rightarrow> string + store_inspection"
  env_pragmas :: pragma_values
  env_correlation :: string
  env_new_id :: "nat \<Rightarrow> queue_db \<Rightarrow> string"

type_synonym 'a action = "world \<Rightarrow> (worker_error + 'a) \<times> world"

definition world_db :: "world \<Rightarrow> queue_db" where
  "world_db w = sq_db (store w)"

definition w_return :: "'a \<Rightarrow> 'a action" where
  "w_return x w = (Inr x, w)"

definition w_bind :: "'a action \<Rightarrow> ('a \<Rightarrow> 'b action) \<Rightarrow> 'b action" where
  "w_bind m f w = (case m w of (Inl e, w') \<Rightarrow> (Inl e, w') | (Inr x, w') \<Rightarrow> f x w')"

definition w_catch :: "'a action \<Rightarrow> (worker_error \<Rightarrow> 'a action) \<Rightarrow> 'a action" where
  "w_catch m h w = (case m w of (Inl e, w') \<Rightarrow> h e w' | (Inr x, w') \<Rightarrow> (Inr x, w'))"

definition w_raise :: "worker_error \<Rightarrow> 'a action" where
  "w_raise e w = (Inl e, w)"

definition w_read :: "(nat \<Rightarrow> 'a) \<Rightarrow> 'a action" where
  "w_read f w = (Inr (f (tick w)), w)"

text \<open>One call of the queue, after what the other processes did.\<close>

definition queue_call :: "environment \<Rightarrow> (int \<Rightarrow> queue_db \<Rightarrow> 'a op_result) \<Rightarrow> 'a action" where
  "queue_call env f w =
     (case f (env_clock env (tick w)) (env_others env (tick w) (world_db w)) of
        (r, db) \<Rightarrow>
          ((case r of Inl e \<Rightarrow> Inl (WorkerQueueError e) | Inr x \<Rightarrow> Inr x),
           w\<lparr>tick := Suc (tick w), store := (store w)\<lparr>sq_db := db\<rparr>\<rparr>))"

definition is_lease_error :: "worker_error \<Rightarrow> bool" where
  "is_lease_error e \<longleftrightarrow> (\<exists>jid. e = WorkerQueueError (JobLeaseError jid))"

fun warehouse_open_error :: "worker_error \<Rightarrow> string option" where
  "warehouse_open_error (WorkerWarehouseError s) = Some s"
| "warehouse_open_error (WorkerFinalizationError (WarehouseOpenError s)) = Some s"
| "warehouse_open_error _ = None"

subsection \<open>Handlers (\<open>handlers.py\<close>)\<close>

record handler_result =
  succeeded :: bool
  result_detail :: string
  retryable :: bool

definition handler_result_of :: "bool \<Rightarrow> string \<Rightarrow> handler_result" where
  "handler_result_of ok d = \<lparr>succeeded = ok, result_detail = d, retryable = False\<rparr>"

text \<open>The action is given whether it gets a connection, and the tick at which it runs.\<close>

record stage =
  stage_name :: string
  requires_warehouse_write :: bool
  stage_action :: "bool \<Rightarrow> nat \<Rightarrow> worker_error + handler_result"

type_synonym handlers = "(goal_type \<times> (goal \<Rightarrow> stage list)) list"

definition admit_current_symbol :: "ensure_goal \<Rightarrow> handler_result" where
  "admit_current_symbol g =
     (if list_ex (\<lambda>e. e \<noteq> COMPANY_CONTEXT) (eg_requested_enrichments g)
      then handler_result_of False ''UNSUPPORTED_ENRICHMENT_REQUEST''
      else handler_result_of True ''CURRENT_SYMBOL_ADMITTED'')"

text \<open>The operations of other packages: readiness with its trace, and the two refresh results.\<close>

record operations =
  ensure_current_symbol_ready ::
    "string \<Rightarrow> string \<Rightarrow> bool \<Rightarrow> bool \<Rightarrow> nat \<Rightarrow> worker_error + (bool \<times> string)"
  refresh_company_context :: "string \<Rightarrow> nat \<Rightarrow> worker_error + string"
  session_finalizer_execute :: "finalize_goal \<Rightarrow> string \<Rightarrow> nat \<Rightarrow> worker_error + (bool \<times> string)"

definition provision_current_symbol ::
  "operations \<Rightarrow> ensure_goal \<Rightarrow> bool \<Rightarrow> nat \<Rightarrow> worker_error + handler_result" where
  "provision_current_symbol ops g connected n =
     (if \<not> connected
      then Inl (WorkerOtherError ''current-symbol provisioning requires a writable warehouse'')
      else res_bind (ensure_current_symbol_ready ops (eg_symbol g) (isoformat (eg_effective_date g))
                       (eg_refresh_mode g = FORCE_REFRESH)
                       (eg_desired_capability g = PRICE_ANALYSIS) n)
             (\<lambda>(ready, evidence). Inr (handler_result_of ready evidence)))"

definition refresh_company_context_stage ::
  "operations \<Rightarrow> ensure_goal \<Rightarrow> bool \<Rightarrow> nat \<Rightarrow> worker_error + handler_result" where
  "refresh_company_context_stage ops g connected n =
     (if \<not> connected
      then Inl (WorkerOtherError ''company-context provisioning requires a writable warehouse'')
      else res_bind (refresh_company_context ops (eg_symbol g) n)
             (\<lambda>outcome. Inr (handler_result_of True outcome)))"

definition current_symbol_stages :: "operations \<Rightarrow> goal \<Rightarrow> stage list" where
  "current_symbol_stages ops goal =
     (case goal of
        EnsureCurrentSymbolGoal g \<Rightarrow>
          [\<lparr>stage_name = ''current-symbol-admission'', requires_warehouse_write = False,
            stage_action = (\<lambda>_ _. Inr (admit_current_symbol g))\<rparr>,
           \<lparr>stage_name = ''current-symbol-provision'', requires_warehouse_write = True,
            stage_action = provision_current_symbol ops g\<rparr>] @
          (if COMPANY_CONTEXT \<in> set (eg_requested_enrichments g)
           then [\<lparr>stage_name = ''company-context'', requires_warehouse_write = True,
                  stage_action = refresh_company_context_stage ops g\<rparr>]
           else [])
      | _ \<Rightarrow> [])"

definition finalization_stage_names :: "string list" where
  "finalization_stage_names =
     [''finalization-coverage'', ''finalization-features'', ''finalization-score-watchlist'',
      ''finalization-context'', ''finalization-outcomes'', ''finalization-memory'',
      ''finalization-result'']"

definition finalize_stage ::
  "operations \<Rightarrow> finalize_goal \<Rightarrow> string \<Rightarrow> bool \<Rightarrow> nat \<Rightarrow> worker_error + handler_result" where
  "finalize_stage ops g name connected n =
     (if \<not> connected
      then Inl (WorkerOtherError ''session finalization requires a writable warehouse'')
      else res_bind (session_finalizer_execute ops g name n)
             (\<lambda>(ok, d). Inr (handler_result_of ok d)))"

definition finalize_session_stages :: "operations \<Rightarrow> goal \<Rightarrow> stage list" where
  "finalize_session_stages ops goal =
     (case goal of
        FinalizeMarketSessionGoal g \<Rightarrow>
          map (\<lambda>name. \<lparr>stage_name = name, requires_warehouse_write = True,
                       stage_action = finalize_stage ops g name\<rparr>) finalization_stage_names
      | _ \<Rightarrow> [])"

definition default_handlers :: "operations \<Rightarrow> handlers" where
  "default_handlers ops =
     [(ENSURE_CURRENT_SYMBOL, current_symbol_stages ops),
      (FINALIZE_MARKET_SESSION, finalize_session_stages ops)]"

text \<open>\<open>_handler_registry\<close>: a second handler for a goal type is a configuration error.\<close>

fun handler_registry :: "handlers \<Rightarrow> handlers \<Rightarrow> string + handlers" where
  "handler_registry [] registry = Inr registry"
| "handler_registry ((t, h) # hs) registry =
     (if map_of registry t \<noteq> None then Inl ''duplicate provisioning handler''
      else handler_registry hs (registry @ [(t, h)]))"

subsection \<open>Settings and the lease heartbeat\<close>

record worker_settings =
  stage_timeout_seconds :: int
  lease_safety_seconds :: int
  idle_poll_positive :: bool

definition validate_settings :: "worker_settings \<Rightarrow> int \<Rightarrow> string + unit" where
  "validate_settings st lease =
     (if stage_timeout_seconds st < 1 \<or> lease_safety_seconds st < 1
      then Inl ''worker timing settings must be positive''
      else if \<not> idle_poll_positive st then Inl ''idle poll interval must be positive''
      else if lease \<le> stage_timeout_seconds st + lease_safety_seconds st
      then Inl ''queue lease must exceed stage timeout plus safety margin''
      else Inr ())"

record worker =
  wk_codec :: codec
  wk_cfg :: queue_configuration
  wk_id :: string
  wk_settings :: worker_settings
  wk_handlers :: handlers

definition worker_new ::
  "codec \<Rightarrow> queue_configuration \<Rightarrow> pragma_values \<Rightarrow> string \<Rightarrow> worker_settings \<Rightarrow> handlers \<Rightarrow> int \<Rightarrow>
   stored_queue \<Rightarrow> (worker_error + worker) \<times> stored_queue" where
  "worker_new c cfg pv wid st hs now s =
     (case handler_registry hs [] of
        Inl e \<Rightarrow> (Inl (WorkerOtherError e), s)
      | Inr registry \<Rightarrow>
          (case initialize_store cfg pv now s of
             (Inl e, s1) \<Rightarrow> (Inl (WorkerQueueError e), s1)
           | (Inr settings, s1) \<Rightarrow>
               (case validate_settings st (rs_lease_seconds settings) of
                  Inl e \<Rightarrow> (Inl (WorkerOtherError e), s1)
                | Inr _ \<Rightarrow> (Inr \<lparr>wk_codec = c, wk_cfg = cfg, wk_id = wid, wk_settings = st,
                                  wk_handlers = registry\<rparr>, s1))))"

definition beat :: "worker \<Rightarrow> environment \<Rightarrow> string \<Rightarrow> provisioning_job action" where
  "beat wk env jid = queue_call env (heartbeat (wk_codec wk) (wk_cfg wk) jid (wk_id wk))"

text \<open>The heartbeat thread: it ends at the first queue error, which it keeps for \<open>__exit__\<close>.\<close>

fun maintain :: "worker \<Rightarrow> environment \<Rightarrow> string \<Rightarrow> nat \<Rightarrow> world \<Rightarrow> worker_error option \<times> world" where
  "maintain wk env jid 0 w = (None, w)"
| "maintain wk env jid (Suc n) w =
     (case beat wk env jid w of
        (Inl e, w') \<Rightarrow> (Some e, w')
      | (Inr _, w') \<Rightarrow> maintain wk env jid n w')"

text \<open>The body under \<open>with heartbeat\<close>: an exception of the body wins over one of the thread.\<close>

definition with_heartbeat ::
  "worker \<Rightarrow> environment \<Rightarrow> string \<Rightarrow> (nat \<Rightarrow> worker_error + handler_result) \<Rightarrow> handler_result action" where
  "with_heartbeat wk env jid body =
     w_bind (beat wk env jid) (\<lambda>_ w.
       (case maintain wk env jid (env_beats env (tick w)) w of
          (failure, w') \<Rightarrow>
            ((case body (tick w) of
                Inl e \<Rightarrow> Inl e
              | Inr r \<Rightarrow> (case failure of Some e \<Rightarrow> Inl e | None \<Rightarrow> Inr r)), w')))"

subsection \<open>Stages between safe boundaries (\<open>_worker_execution.py\<close>)\<close>

datatype handler_execution =
    HandlerCompleted handler_result
  | HandlerCancellationRequested
  | HandlerStopRequested

definition execute_stage :: "worker \<Rightarrow> environment \<Rightarrow> string \<Rightarrow> stage \<Rightarrow> handler_result action" where
  "execute_stage wk env jid st =
     (if requires_warehouse_write st then
        w_bind (w_read (env_warehouse_error env)) (\<lambda>we.
          case we of
            Some e \<Rightarrow> w_raise (WorkerWarehouseError e)
          | None \<Rightarrow> with_heartbeat wk env jid (stage_action st True))
      else with_heartbeat wk env jid (stage_action st False))"

fun join_names :: "string list \<Rightarrow> string" where
  "join_names [] = ''''"
| "join_names [n] = n"
| "join_names (n # ns) = n @ '', '' @ join_names ns"

definition failed_with_blocked :: "string \<Rightarrow> stage list \<Rightarrow> handler_result" where
  "failed_with_blocked d dependent =
     (if dependent = [] then handler_result_of False d
      else handler_result_of False (d @ ''; BLOCKED: '' @ join_names (map stage_name dependent)))"

definition read_job :: "worker \<Rightarrow> environment \<Rightarrow> string \<Rightarrow> provisioning_job option action" where
  "read_job wk env jid = queue_call env (\<lambda>_ db. (get_job (wk_codec wk) jid db, db))"

definition cancellation_requested :: "worker \<Rightarrow> environment \<Rightarrow> string \<Rightarrow> bool action" where
  "cancellation_requested wk env jid =
     w_bind (read_job wk env jid) (\<lambda>current.
       w_return (case current of None \<Rightarrow> False | Some j \<Rightarrow> job_cancellation_requested j))"

definition safe_boundary :: "worker \<Rightarrow> environment \<Rightarrow> string \<Rightarrow> handler_execution option action" where
  "safe_boundary wk env jid =
     w_bind (cancellation_requested wk env jid) (\<lambda>cancelled.
       if cancelled then w_return (Some HandlerCancellationRequested)
       else w_bind (w_read (env_stop env)) (\<lambda>stop.
         w_return (if stop then Some HandlerStopRequested else None)))"

text \<open>The loop over the stages; \<open>result\<close> is the result of the last one run.\<close>

fun run_stages ::
  "worker \<Rightarrow> environment \<Rightarrow> string \<Rightarrow> handler_result \<Rightarrow> stage list \<Rightarrow> handler_execution action" where
  "run_stages wk env jid result [] = w_return (HandlerCompleted result)"
| "run_stages wk env jid result (st # rest) =
     w_bind (safe_boundary wk env jid) (\<lambda>boundary.
       case boundary of
         Some b \<Rightarrow> w_return b
       | None \<Rightarrow>
           w_bind (execute_stage wk env jid st) (\<lambda>r.
           w_bind (w_read (env_elapsed env)) (\<lambda>elapsed.
             if stage_timeout_seconds (wk_settings wk) < elapsed
             then w_return (HandlerCompleted (failed_with_blocked ''STAGE_TIMEOUT'' rest))
             else if \<not> succeeded r
             then w_return (HandlerCompleted (failed_with_blocked (result_detail r) rest))
             else run_stages wk env jid r rest)))"

definition execute_handler_stages ::
  "worker \<Rightarrow> environment \<Rightarrow> string \<Rightarrow> stage list \<Rightarrow> handler_execution action" where
  "execute_handler_stages wk env jid stages =
     (if stages = [] then w_return (HandlerCompleted (handler_result_of False ''NO_HANDLER_STAGES''))
      else run_stages wk env jid (handler_result_of False ''NO_HANDLER_STAGES'') stages)"

subsection \<open>Processing a claimed job (\<open>worker.py\<close>)\<close>

definition trigger_finalization :: "worker \<Rightarrow> environment \<Rightarrow> provisioning_job \<Rightarrow> unit action" where
  "trigger_finalization wk env job w =
     (if \<not> job_is_terminal job then (Inr (), w)
      else
        (let s = (store w)\<lparr>sq_db := env_others env (tick w) (world_db w)\<rparr> in
         case maybe_submit_finalization_for_terminal_job (wk_codec wk) (env_pragmas env)
                (env_warehouse_exists env) (env_warehouse_error env (tick w)) (env_correlation env)
                (env_clock env (tick w)) (\<lambda>n. env_new_id env n (sq_db s)) (job_id job)
                (world_ledger w) s of
           (r, l', s') \<Rightarrow>
             ((case r of Inl e \<Rightarrow> Inl (WorkerFinalizationError e) | Inr _ \<Rightarrow> Inr ()),
              w\<lparr>tick := Suc (tick w), store := s', world_ledger := l'\<rparr>)))"

definition finish :: "worker \<Rightarrow> environment \<Rightarrow> provisioning_job action \<Rightarrow> provisioning_job option action" where
  "finish wk env m =
     w_bind m (\<lambda>terminal_job.
     w_bind (trigger_finalization wk env terminal_job) (\<lambda>_. w_return (Some terminal_job)))"

definition cancel_at_safe_boundary ::
  "worker \<Rightarrow> environment \<Rightarrow> string \<Rightarrow> provisioning_job option action" where
  "cancel_at_safe_boundary wk env jid =
     w_catch
       (finish wk env (queue_call env (acknowledge_cancellation (wk_codec wk) (wk_cfg wk) jid (wk_id wk)
          ''CANCELLED_AT_SAFE_BOUNDARY'')))
       (\<lambda>e. if is_lease_error e then w_return None else w_raise e)"

definition fail_or_cancel ::
  "worker \<Rightarrow> environment \<Rightarrow> string \<Rightarrow> string \<Rightarrow> provisioning_job option action" where
  "fail_or_cancel wk env jid d =
     w_catch
       (finish wk env (queue_call env (\<lambda>now. fail (wk_codec wk) (wk_cfg wk) jid (wk_id wk) d now False)))
       (\<lambda>e. if is_lease_error e then
              w_bind (cancellation_requested wk env jid) (\<lambda>cancelled.
                if cancelled then cancel_at_safe_boundary wk env jid else w_return None)
            else w_raise e)"

definition end_job :: "worker \<Rightarrow> environment \<Rightarrow> string \<Rightarrow> handler_result \<Rightarrow> provisioning_job option action" where
  "end_job wk env jid r =
     w_bind (cancellation_requested wk env jid) (\<lambda>cancelled.
       if cancelled then cancel_at_safe_boundary wk env jid
       else w_bind (w_read (env_stop env)) (\<lambda>stop.
         if stop then w_return None
         else w_bind (beat wk env jid) (\<lambda>_.
           finish wk env
             (if succeeded r
              then queue_call env (complete (wk_codec wk) (wk_cfg wk) jid (wk_id wk) (result_detail r))
              else queue_call env (\<lambda>now. fail (wk_codec wk) (wk_cfg wk) jid (wk_id wk)
                     (result_detail r) now (retryable r))))))"

definition process_claimed :: "worker \<Rightarrow> environment \<Rightarrow> provisioning_job \<Rightarrow> provisioning_job option action" where
  "process_claimed wk env job =
     (let jid = job_id job in
      case map_of (wk_handlers wk) (goal_type_of (job_goal job)) of
        None \<Rightarrow> fail_or_cancel wk env jid ''UNSUPPORTED_GOAL_HANDLER''
      | Some stages \<Rightarrow>
          w_bind (cancellation_requested wk env jid) (\<lambda>cancelled.
            if cancelled then cancel_at_safe_boundary wk env jid
            else w_catch
              (w_bind (execute_handler_stages wk env jid (stages (job_goal job))) (\<lambda>outcome.
                 case outcome of
                   HandlerCancellationRequested \<Rightarrow> cancel_at_safe_boundary wk env jid
                 | HandlerStopRequested \<Rightarrow> w_return None
                 | HandlerCompleted r \<Rightarrow> end_job wk env jid r))
              (\<lambda>e. if is_lease_error e then
                     w_bind (cancellation_requested wk env jid) (\<lambda>cancelled.
                       if cancelled then cancel_at_safe_boundary wk env jid else w_return None)
                   else case warehouse_open_error e of
                     Some s \<Rightarrow> fail_or_cancel wk env jid s
                   | None \<Rightarrow> w_raise e)))"

definition claim_job :: "worker \<Rightarrow> environment \<Rightarrow> provisioning_job option action" where
  "claim_job wk env =
     w_bind (queue_call env (\<lambda>now db.
         (Inr (health (wk_cfg wk) (env_file_exists env) (env_probe env) (env_inspection env db) now), db)))
       (\<lambda>report. queue_call env (repository_claim (wk_codec wk) (wk_cfg wk) report (wk_id wk)))"

definition process_one :: "worker \<Rightarrow> environment \<Rightarrow> provisioning_job option action" where
  "process_one wk env =
     w_bind (w_read (env_stop env)) (\<lambda>stop.
       if stop then w_return None
       else w_bind (claim_job wk env) (\<lambda>job.
         case job of None \<Rightarrow> w_return None | Some j \<Rightarrow> process_claimed wk env j))"

text \<open>
  The loop of \<open>run\<close>, with fuel: \<open>None\<close> when the fuel runs out before the stop flag is set.  The
  idle wait only delays the next iteration.
\<close>

fun run_loop :: "nat \<Rightarrow> worker \<Rightarrow> environment \<Rightarrow> nat \<Rightarrow> world \<Rightarrow> ((worker_error + nat) \<times> world) option" where
  "run_loop 0 wk env processed w = None"
| "run_loop (Suc fuel) wk env processed w =
     (if env_stop env (tick w) then Some (Inr processed, w)
      else case process_one wk env w of
        (Inl e, w') \<Rightarrow> Some (Inl e, w')
      | (Inr None, w') \<Rightarrow> run_loop fuel wk env processed w'
      | (Inr (Some _), w') \<Rightarrow> run_loop fuel wk env (Suc processed) w')"

definition run_once :: "worker \<Rightarrow> environment \<Rightarrow> nat action" where
  "run_once wk env =
     w_bind (process_one wk env) (\<lambda>job. w_return (case job of None \<Rightarrow> 0 | Some _ \<Rightarrow> 1))"

end
