(* ===== verification/Worker_Logic.thy ===== *)
theory Worker_Logic
  imports Worker Queue_Props
begin

section \<open>Reasoning about the worker\<close>

text \<open>
  \<open>holds I R m Q\<close>: from a world that satisfies \<open>I\<close>, the action \<open>m\<close> moves along \<open>R\<close>, whether it
  returns or raises, and what it returns satisfies \<open>Q\<close>.  \<open>world_logic\<close> gives the rules for the
  combinators; \<open>worker_logic\<close> states what the worker needs of the queue calls it makes, and derives
  the fact about \<open>process_one\<close>.  It is used twice: for the queue steps the worker and its
  environment make, and for the progress of the tick counter.
\<close>

definition holds :: "(world \<Rightarrow> bool) \<Rightarrow> (world \<Rightarrow> world \<Rightarrow> bool) \<Rightarrow> 'a action \<Rightarrow> ('a \<Rightarrow> bool) \<Rightarrow> bool" where
  "holds I R m Q \<longleftrightarrow>
     (\<forall>w r w'. I w \<longrightarrow> m w = (r, w') \<longrightarrow> R w w' \<and> (\<forall>x. r = Inr x \<longrightarrow> Q x))"

lemma holdsI:
  "(\<And>w r w'. I w \<Longrightarrow> m w = (r, w') \<Longrightarrow> R w w' \<and> (\<forall>x. r = Inr x \<longrightarrow> Q x)) \<Longrightarrow> holds I R m Q"
  by (simp add: holds_def)

lemma holdsD: "holds I R m Q \<Longrightarrow> I w \<Longrightarrow> m w = (r, w') \<Longrightarrow> R w w' \<and> (\<forall>x. r = Inr x \<longrightarrow> Q x)"
  by (simp add: holds_def)

lemma holds_weaken: "holds I R m P \<Longrightarrow> (\<And>x. P x \<Longrightarrow> Q x) \<Longrightarrow> holds I R m Q"
  by (auto simp: holds_def)

locale world_logic =
  fixes I :: "world \<Rightarrow> bool"
    and R :: "world \<Rightarrow> world \<Rightarrow> bool"
  assumes R_refl: "R w w"
    and R_trans: "R u v \<Longrightarrow> R v w \<Longrightarrow> R u w"
    and R_inv: "R w w' \<Longrightarrow> I w \<Longrightarrow> I w'"
begin

lemma return_holds: "Q x \<Longrightarrow> holds I R (w_return x) Q"
  by (auto simp: holds_def w_return_def R_refl)

lemma raise_holds: "holds I R (w_raise e) Q"
  by (auto simp: holds_def w_raise_def R_refl)

lemma read_holds: "holds I R (w_read f) (\<lambda>_. True)"
  by (auto simp: holds_def w_read_def R_refl)

lemma bind_holds:
  assumes "holds I R m P" and "\<And>x. P x \<Longrightarrow> holds I R (f x) Q"
  shows "holds I R (w_bind m f) Q"
proof (rule holdsI)
  fix w r w'
  assume w: "I w" and run: "w_bind m f w = (r, w')"
  show "R w w' \<and> (\<forall>x. r = Inr x \<longrightarrow> Q x)"
  proof (cases "m w")
    case (Pair r1 w1)
    note m = holdsD [OF assms(1) w Pair]
    show ?thesis
    proof (cases r1)
      case (Inl e)
      then show ?thesis using run Pair m by (auto simp: w_bind_def)
    next
      case (Inr x)
      then have "f x w1 = (r, w')" using run Pair by (simp add: w_bind_def)
      with Inr m show ?thesis
        using holdsD [OF assms(2) _ \<open>f x w1 = (r, w')\<close>] R_inv [OF _ w] by (blast intro: R_trans)
    qed
  qed
qed

lemma catch_holds:
  assumes "holds I R m Q" and "\<And>e. holds I R (h e) Q"
  shows "holds I R (w_catch m h) Q"
proof (rule holdsI)
  fix w r w'
  assume w: "I w" and run: "w_catch m h w = (r, w')"
  show "R w w' \<and> (\<forall>x. r = Inr x \<longrightarrow> Q x)"
  proof (cases "m w")
    case (Pair r1 w1)
    note m = holdsD [OF assms(1) w Pair]
    show ?thesis
    proof (cases r1)
      case (Inl e)
      then have "h e w1 = (r, w')" using run Pair by (simp add: w_catch_def)
      then show ?thesis
        using m holdsD [OF assms(2) _ \<open>h e w1 = (r, w')\<close>] R_inv [OF _ w] by (blast intro: R_trans)
    next
      case (Inr x)
      then show ?thesis using run Pair m by (auto simp: w_catch_def)
    qed
  qed
qed

lemma if_holds: "(b \<Longrightarrow> holds I R m Q) \<Longrightarrow> (\<not> b \<Longrightarrow> holds I R n Q) \<Longrightarrow> holds I R (if b then m else n) Q"
  by simp

lemma bind_any: "holds I R m (\<lambda>_. True) \<Longrightarrow> (\<And>x. holds I R (f x) Q) \<Longrightarrow> holds I R (w_bind m f) Q"
  by (rule bind_holds)

end

text \<open>A failed execution is never retryable.\<close>

definition settles :: "handler_execution \<Rightarrow> bool" where
  "settles x \<longleftrightarrow> (\<forall>r. x = HandlerCompleted r \<longrightarrow> \<not> succeeded r \<longrightarrow> \<not> retryable r)"

abbreviation job_ended :: "(provisioning_job \<Rightarrow> bool) \<Rightarrow> provisioning_job option \<Rightarrow> bool" where
  "job_ended T jo \<equiv> \<forall>j. jo = Some j \<longrightarrow> T j"

text \<open>What the worker asks of its queue: \<open>T\<close> is what a call that ends the job ensures of it.\<close>

locale worker_logic = world_logic I R
  for I :: "world \<Rightarrow> bool" and R :: "world \<Rightarrow> world \<Rightarrow> bool" +
  fixes wk :: worker
    and env :: environment
    and T :: "provisioning_job \<Rightarrow> bool"
  assumes beat_holds: "holds I R (beat wk env jid) (\<lambda>_. True)"
    and read_job_holds: "holds I R (read_job wk env jid) (\<lambda>_. True)"
    and claim_holds: "holds I R (claim_job wk env) (\<lambda>_. True)"
    and acknowledge_holds:
      "holds I R (queue_call env (acknowledge_cancellation (wk_codec wk) (wk_cfg wk) jid (wk_id wk) d)) T"
    and complete_holds:
      "holds I R (queue_call env (complete (wk_codec wk) (wk_cfg wk) jid (wk_id wk) d)) T"
    and fail_holds:
      "\<not> rt \<Longrightarrow> holds I R (queue_call env (\<lambda>now. fail (wk_codec wk) (wk_cfg wk) jid (wk_id wk) d now rt)) T"
    and trigger_holds: "holds I R (trigger_finalization wk env job) (\<lambda>_. True)"
begin

lemma maintain_holds: "I w \<Longrightarrow> maintain wk env jid n w = (e, w') \<Longrightarrow> R w w'"
proof (induction n arbitrary: w)
  case 0
  then show ?case by (simp add: R_refl)
next
  case (Suc n)
  obtain r w1 where b: "beat wk env jid w = (r, w1)"
    by (cases "beat wk env jid w") auto
  have "R w w1" using holdsD [OF beat_holds Suc.prems(1) b] by simp
  moreover from this have "I w1" using Suc.prems(1) by (rule R_inv)
  ultimately show ?case
    using Suc b by (cases r) (auto intro: R_trans)
qed

lemma with_heartbeat_holds: "holds I R (with_heartbeat wk env jid body) (\<lambda>_. True)"
  unfolding with_heartbeat_def
proof (rule bind_any [OF beat_holds])
  fix x
  show "holds I R (\<lambda>w. case maintain wk env jid (env_beats env (tick w)) w of
      (failure, w') \<Rightarrow> (case body (tick w) of Inl e \<Rightarrow> Inl e
         | Inr r \<Rightarrow> (case failure of None \<Rightarrow> Inr r | Some e \<Rightarrow> Inl e), w')) (\<lambda>_. True)"
    by (rule holdsI) (auto dest: maintain_holds split: prod.splits)
qed

lemma execute_stage_holds: "holds I R (execute_stage wk env jid st) (\<lambda>_. True)"
  unfolding execute_stage_def
  by (intro if_holds with_heartbeat_holds bind_any read_holds)
    (simp add: raise_holds with_heartbeat_holds split: option.split)

lemma cancellation_holds: "holds I R (cancellation_requested wk env jid) (\<lambda>_. True)"
  unfolding cancellation_requested_def by (intro bind_any read_job_holds return_holds TrueI)

lemma safe_boundary_holds:
  "holds I R (safe_boundary wk env jid)
     (\<lambda>b. b = None \<or> b = Some HandlerCancellationRequested \<or> b = Some HandlerStopRequested)"
  unfolding safe_boundary_def
  by (intro bind_any cancellation_holds if_holds read_holds return_holds) simp_all

lemma blocked_settles: "settles (HandlerCompleted (failed_with_blocked d stages))"
  by (simp add: settles_def failed_with_blocked_def handler_result_of_def)

lemma run_stages_holds:
  "(\<not> succeeded r \<longrightarrow> \<not> retryable r) \<Longrightarrow> holds I R (run_stages wk env jid r stages) settles"
proof (induction stages arbitrary: r)
  case Nil
  then show ?case by (auto simp: settles_def intro: return_holds)
next
  case (Cons st stages)
  have rest: "holds I R
      (w_bind (execute_stage wk env jid st) (\<lambda>r.
       w_bind (w_read (env_elapsed env)) (\<lambda>elapsed.
         if stage_timeout_seconds (wk_settings wk) < elapsed
         then w_return (HandlerCompleted (failed_with_blocked ''STAGE_TIMEOUT'' stages))
         else if \<not> succeeded r
         then w_return (HandlerCompleted (failed_with_blocked (result_detail r) stages))
         else run_stages wk env jid r stages))) settles"
    by (intro bind_any execute_stage_holds read_holds if_holds return_holds blocked_settles Cons.IH) simp
  show ?case
    unfolding run_stages.simps
  proof (rule bind_holds [OF safe_boundary_holds])
    fix b assume "b = None \<or> b = Some HandlerCancellationRequested \<or> b = Some HandlerStopRequested"
    then show "holds I R (case b of None \<Rightarrow>
           w_bind (execute_stage wk env jid st) (\<lambda>r.
           w_bind (w_read (env_elapsed env)) (\<lambda>elapsed.
             if stage_timeout_seconds (wk_settings wk) < elapsed
             then w_return (HandlerCompleted (failed_with_blocked ''STAGE_TIMEOUT'' stages))
             else if \<not> succeeded r
             then w_return (HandlerCompleted (failed_with_blocked (result_detail r) stages))
             else run_stages wk env jid r stages))
         | Some b \<Rightarrow> w_return b) settles"
      using rest by (elim disjE) (auto simp: settles_def intro: return_holds)
  qed
qed

lemma execute_handler_stages_holds: "holds I R (execute_handler_stages wk env jid stages) settles"
  unfolding execute_handler_stages_def
  by (intro if_holds return_holds run_stages_holds) (simp_all add: settles_def handler_result_of_def)

lemma finish_holds: "holds I R m T \<Longrightarrow> holds I R (finish wk env m) (job_ended T)"
  unfolding finish_def
  by (rule bind_holds, assumption, rule bind_any [OF trigger_holds]) (auto intro: return_holds)

lemma cancel_at_boundary_holds: "holds I R (cancel_at_safe_boundary wk env jid) (job_ended T)"
  unfolding cancel_at_safe_boundary_def
  by (intro catch_holds finish_holds acknowledge_holds if_holds return_holds raise_holds) simp

lemma fail_or_cancel_holds: "holds I R (fail_or_cancel wk env jid d) (job_ended T)"
  unfolding fail_or_cancel_def
  by (intro catch_holds finish_holds fail_holds if_holds bind_any cancellation_holds
      cancel_at_boundary_holds return_holds raise_holds) simp_all

lemma end_job_holds:
  assumes "\<not> succeeded r \<longrightarrow> \<not> retryable r"
  shows "holds I R (end_job wk env jid r) (job_ended T)"
  unfolding end_job_def
  by (intro bind_any cancellation_holds if_holds cancel_at_boundary_holds read_holds return_holds
      beat_holds finish_holds complete_holds fail_holds) (use assms in simp_all)

lemma process_claimed_holds: "holds I R (process_claimed wk env job) (job_ended T)"
proof -
  have outcome: "holds I R (case x of
        HandlerCancellationRequested \<Rightarrow> cancel_at_safe_boundary wk env (job_id job)
      | HandlerStopRequested \<Rightarrow> w_return None
      | HandlerCompleted r \<Rightarrow> end_job wk env (job_id job) r) (job_ended T)" if "settles x" for x
    using that
    by (cases x) (simp_all add: settles_def cancel_at_boundary_holds end_job_holds return_holds)
  have handle: "holds I R
      (if is_lease_error e then w_bind (cancellation_requested wk env (job_id job)) (\<lambda>cancelled.
         if cancelled then cancel_at_safe_boundary wk env (job_id job) else w_return None)
       else case warehouse_open_error e of
         None \<Rightarrow> w_raise e | Some s \<Rightarrow> fail_or_cancel wk env (job_id job) s) (job_ended T)" for e
    by (intro if_holds bind_any cancellation_holds cancel_at_boundary_holds return_holds)
      (simp_all add: raise_holds fail_or_cancel_holds split: option.split)
  have run: "holds I R (w_bind (execute_handler_stages wk env (job_id job) stages) (\<lambda>outcome.
      case outcome of
        HandlerCompleted r \<Rightarrow> end_job wk env (job_id job) r
      | HandlerCancellationRequested \<Rightarrow> cancel_at_safe_boundary wk env (job_id job)
      | HandlerStopRequested \<Rightarrow> w_return None)) (job_ended T)" for stages
    by (rule bind_holds [OF execute_handler_stages_holds]) (use outcome in blast)
  show ?thesis
    unfolding process_claimed_def Let_def
    by (cases "map_of (wk_handlers wk) (goal_type_of (job_goal job))")
      (auto intro!: fail_or_cancel_holds bind_any cancellation_holds if_holds cancel_at_boundary_holds
        catch_holds run handle)
qed

lemma process_one_holds: "holds I R (process_one wk env) (job_ended T)"
  unfolding process_one_def
proof (intro bind_any read_holds if_holds claim_holds)
  show "holds I R (case job of None \<Rightarrow> w_return None | Some j \<Rightarrow> process_claimed wk env j) (job_ended T)" for job
    by (cases job) (simp_all add: return_holds process_claimed_holds)
qed (simp add: return_holds)

end

end
