(* ===== verification/Worker_Props.thy ===== *)
theory Worker_Props
  imports Worker_Logic Store_Props
begin

section \<open>Properties of the provisioning worker\<close>

text \<open>
  \<open>worker_logic\<close> is interpreted twice: on the queue steps, which shows that a worker among other
  users of the queue makes only queue steps and returns only ended jobs, and on the tick counter,
  which shows that its loop ends.
\<close>

subsection \<open>The queue steps of a worker\<close>

text \<open>The other processes use the queue's operations only, and new ids are not those of pruned jobs.\<close>

definition friendly :: "worker \<Rightarrow> environment \<Rightarrow> bool" where
  "friendly wk env \<longleftrightarrow>
     codec_law (wk_codec wk) \<and>
     (\<forall>n db. (queue_step (wk_codec wk) (wk_cfg wk))\<^sup>*\<^sup>* db (env_others env n db) \<and>
        user_version (env_others env n db) = user_version db) \<and>
     (\<forall>n db. env_new_id env n db \<notin> pj_job_id ` set (pruned_provision_job db))"

definition queue_world :: "worker \<Rightarrow> environment \<Rightarrow> world \<Rightarrow> bool" where
  "queue_world wk env w \<longleftrightarrow>
     friendly wk env \<and> queue_ok (wk_codec wk) (wk_cfg wk) (world_db w) \<and> user_version (world_db w) = 3"

definition queue_moves :: "worker \<Rightarrow> world \<Rightarrow> world \<Rightarrow> bool" where
  "queue_moves wk w w' \<longleftrightarrow>
     (queue_step (wk_codec wk) (wk_cfg wk))\<^sup>*\<^sup>* (world_db w) (world_db w') \<and>
     user_version (world_db w') = user_version (world_db w)"

lemma change_keeps_version: "db_change c cfg db db' \<Longrightarrow> user_version db' = user_version db"
  by (induction rule: db_change.induct) (simp_all add: set_metadata_def)

lemma changes_keep_version: "(db_change c cfg)\<^sup>*\<^sup>* db db' \<Longrightarrow> user_version db' = user_version db"
  by (induction rule: rtranclp_induct) (simp_all add: change_keeps_version)

text \<open>A call of the queue that makes a queue step.\<close>

lemma queue_call_holds:
  assumes "\<And>ts db r db'. queue_ok (wk_codec wk) (wk_cfg wk) db \<Longrightarrow> f ts db = (r, db') \<Longrightarrow>
    (db' = db \<or> queue_step (wk_codec wk) (wk_cfg wk) db db') \<and> (\<forall>x. r = Inr x \<longrightarrow> Q x)"
  shows "holds (queue_world wk env) (queue_moves wk) (queue_call env f) Q"
proof (rule holdsI)
  fix w r w'
  assume w: "queue_world wk env w" and run: "queue_call env f w = (r, w')"
  let ?db = "env_others env (tick w) (world_db w)"
  let ?step = "queue_step (wk_codec wk) (wk_cfg wk)"
  have others: "?step\<^sup>*\<^sup>* (world_db w) ?db" "user_version ?db = user_version (world_db w)"
    using w by (simp_all add: queue_world_def friendly_def)
  then have ok: "queue_ok (wk_codec wk) (wk_cfg wk) ?db"
    using w by (auto simp: queue_world_def intro: queue.steps_inv)
  obtain x db where call: "f (env_clock env (tick w)) ?db = (x, db)"
    by (cases "f (env_clock env (tick w)) ?db") auto
  have "world_db w' = db" and r: "r = (case x of Inl e \<Rightarrow> Inl (WorkerQueueError e) | Inr y \<Rightarrow> Inr y)"
    using run call by (auto simp: queue_call_def world_db_def)
  moreover have "?step\<^sup>*\<^sup>* ?db db" "user_version db = user_version ?db"
    using assms [OF ok call] ok queue_step_changes [of "wk_codec wk" "wk_cfg wk" ?db db]
    by (auto simp: queue_ok_def dest: changes_keep_version)
  ultimately show "queue_moves wk w w' \<and> (\<forall>x. r = Inr x \<longrightarrow> Q x)"
    using assms [OF ok call] others by (auto simp: queue_moves_def split: sum.splits)
qed

text \<open>What ends a job: the status a transition reports.\<close>

lemma terminalize_status:
  assumes "queue_ok c cfg db" and "terminalize c cfg jid w st v ts rt db = (Inr job, db')"
    and "st = FAILED \<longrightarrow> \<not> rt"
  shows "job_status job = st \<and> terminal st"
proof -
  obtain res err where a: "required_metadata w ''worker_id'' = Inr w" "terminal_detail st v = Inr (res, err)"
  proof -
    have "\<exists>re. required_metadata w ''worker_id'' = Inr w \<and> terminal_detail st v = Inr re"
      using assms(2)
      by (cases "required_metadata w ''worker_id''"; cases "terminal_detail st v")
        (auto simp: terminalize_def dest: required_metadata_Inr)
    then show ?thesis using that by auto
  qed
  obtain r where r: "r \<in> set (provision_job db)" "terminalizable jid w ts st r"
    using terminalize_refused [OF a] assms(2) by fastforce
  have "job = row_job c (terminal_update st res err ts r)"
    using terminalize_result [OF assms(1) a r, of rt] assms(2,3) by (auto simp: Let_def split: if_splits)
  moreover have "job_from_row c (terminal_update st res err ts r) = Inr (row_job c (terminal_update st res err ts r))"
    using queue_ok_row [OF assms(1) r(1)] by (intro job_from_row_payload) simp
  ultimately have "job_status job = row_status (terminal_update st res err ts r)"
    by (auto dest: job_from_row_fields(2))
  then show ?thesis using terminal_detail_Inr [OF a(2)] by (simp add: terminal_update_def)
qed

lemma job_is_terminal_status: "terminal (job_status job) \<Longrightarrow> job_is_terminal job"
  by (auto simp: job_is_terminal_def terminal_def)

lemma trigger_moves:
  "holds (queue_world wk env) (queue_moves wk) (trigger_finalization wk env job) (\<lambda>_. True)"
proof (rule holdsI)
  fix w r w'
  assume w: "queue_world wk env w" and run: "trigger_finalization wk env job w = (r, w')"
  let ?step = "queue_step (wk_codec wk) (wk_cfg wk)"
  let ?s = "(store w)\<lparr>sq_db := env_others env (tick w) (world_db w)\<rparr>"
  show "queue_moves wk w w' \<and> (\<forall>x. r = Inr x \<longrightarrow> True)"
  proof (cases "job_is_terminal job")
    case False
    then show ?thesis using run by (simp add: trigger_finalization_def queue_moves_def)
  next
    case True
    obtain x l s' where call: "maybe_submit_finalization_for_terminal_job (wk_codec wk) (env_pragmas env)
        (env_warehouse_exists env) (env_warehouse_error env (tick w)) (env_correlation env)
        (env_clock env (tick w)) (\<lambda>n. env_new_id env n (sq_db ?s)) (job_id job) (world_ledger w) ?s = (x, l, s')"
      by (rule prod_cases3)
    have "world_db w' = sq_db s'"
      using run call True by (auto simp: trigger_finalization_def world_db_def)
    moreover have others: "?step\<^sup>*\<^sup>* (world_db w) (sq_db ?s)" "user_version (sq_db ?s) = 3"
      using w by (simp_all add: queue_world_def friendly_def)
    moreover have "store_moves (wk_codec wk) (wk_cfg wk) ?s s'"
    proof (cases "s' = ?s")
      case False
      then obtain runs l0 l1 where "submit_each (wk_codec wk) (env_pragmas env) None (env_correlation env)
          (env_clock env (tick w)) (\<lambda>n. env_new_id env n (sq_db ?s)) runs l0 ?s = (x, l1, s')"
        using call by (auto simp: maybe_submit_finalization_for_terminal_job_def
            split: if_splits option.splits prod.splits)
      then show ?thesis
        by (rule submit_each_moves) (use w others(2) in \<open>simp_all add: queue_world_def friendly_def\<close>)
    qed simp
    ultimately show ?thesis
      using w by (auto simp: queue_moves_def store_moves_def queue_world_def)
  qed
qed

interpretation queue_logic: world_logic "queue_world wk env" "queue_moves wk"
proof
  show "queue_moves wk w w" for w
    by (simp add: queue_moves_def)
  show "queue_moves wk u w" if "queue_moves wk u v" "queue_moves wk v w" for u v w
    using that by (auto simp: queue_moves_def)
  show "queue_world wk env w'" if "queue_moves wk w w'" "queue_world wk env w" for w w'
    using that by (auto simp: queue_moves_def queue_world_def intro: queue.steps_inv)
qed

interpretation queue_worker: worker_logic "queue_world wk env" "queue_moves wk" wk env job_is_terminal
proof
  show "holds (queue_world wk env) (queue_moves wk) (beat wk env jid) (\<lambda>_. True)" for jid
    unfolding beat_def by (rule queue_call_holds) (auto intro: qs_heartbeat)
  show "holds (queue_world wk env) (queue_moves wk) (read_job wk env jid) (\<lambda>_. True)" for jid
    unfolding read_job_def by (rule queue_call_holds) auto
  show "holds (queue_world wk env) (queue_moves wk) (trigger_finalization wk env job) (\<lambda>_. True)" for job
    by (rule trigger_moves)
  show "holds (queue_world wk env) (queue_moves wk)
      (queue_call env (acknowledge_cancellation (wk_codec wk) (wk_cfg wk) jid (wk_id wk) d)) job_is_terminal" for jid d
    by (rule queue_call_holds)
      (auto simp: acknowledge_cancellation_def intro: qs_terminalize job_is_terminal_status
        dest!: terminalize_status)
  show "holds (queue_world wk env) (queue_moves wk)
      (queue_call env (complete (wk_codec wk) (wk_cfg wk) jid (wk_id wk) d)) job_is_terminal" for jid d
    by (rule queue_call_holds)
      (auto simp: complete_def intro: qs_terminalize job_is_terminal_status dest!: terminalize_status)
  show "holds (queue_world wk env) (queue_moves wk)
      (queue_call env (\<lambda>now. fail (wk_codec wk) (wk_cfg wk) jid (wk_id wk) d now rt)) job_is_terminal"
    if "\<not> rt" for jid d rt
    using that
    by (intro queue_call_holds)
      (auto simp: fail_def intro: qs_terminalize job_is_terminal_status dest!: terminalize_status)
  show "holds (queue_world wk env) (queue_moves wk) (claim_job wk env) (\<lambda>_. True)"
    unfolding claim_job_def
  proof (rule queue_logic.bind_any)
    show "holds (queue_world wk env) (queue_moves wk)
        (queue_call env (repository_claim (wk_codec wk) (wk_cfg wk) report (wk_id wk))) (\<lambda>_. True)" for report
      by (rule queue_call_holds) (auto simp: repository_claim_def intro: qs_claim split: if_splits)
  qed (rule queue_call_holds, auto)
qed

subsection \<open>The progress of a worker\<close>

definition tick_moves :: "world \<Rightarrow> world \<Rightarrow> bool" where
  "tick_moves w w' \<longleftrightarrow> tick w \<le> tick w'"

lemma queue_call_ticks: "queue_call env f w = (r, w') \<Longrightarrow> tick w' = Suc (tick w)"
  by (auto simp: queue_call_def split: prod.splits)

lemma queue_call_tick_holds: "holds (\<lambda>_. True) tick_moves (queue_call env f) (\<lambda>_. True)"
  by (rule holdsI) (auto simp: tick_moves_def dest: queue_call_ticks)

interpretation tick_logic: world_logic "\<lambda>_. True" tick_moves
  by unfold_locales (auto simp: tick_moves_def)

interpretation tick_worker: worker_logic "\<lambda>_. True" tick_moves wk env "\<lambda>_. True"
proof
  show "holds (\<lambda>_. True) tick_moves (claim_job wk env) (\<lambda>_. True)"
    unfolding claim_job_def by (intro tick_logic.bind_any queue_call_tick_holds)
  show "holds (\<lambda>_. True) tick_moves (trigger_finalization wk env job) (\<lambda>_. True)" for job
    by (rule holdsI) (auto simp: trigger_finalization_def tick_moves_def Let_def split: if_splits prod.splits)
qed (simp_all add: beat_def read_job_def queue_call_tick_holds)

lemma claim_ticks: "claim_job wk env w = (r, w') \<Longrightarrow> tick w < tick w'"
  unfolding claim_job_def w_bind_def
  by (auto dest!: queue_call_ticks split: prod.splits sum.splits)

lemma process_one_ticks:
  assumes "process_one wk env w = (r, w')" and "\<not> env_stop env (tick w)"
  shows "tick w < tick w'"
proof -
  obtain x w1 where c: "claim_job wk env w = (x, w1)" by (cases "claim_job wk env w") auto
  have "tick w < tick w1" using c by (rule claim_ticks)
  moreover have "tick w1 \<le> tick w'"
  proof (cases x)
    case (Inl e)
    with assms c show ?thesis by (simp add: process_one_def w_bind_def w_read_def)
  next
    case (Inr jo)
    have "holds (\<lambda>_. True) tick_moves
        (case jo of None \<Rightarrow> w_return None | Some j \<Rightarrow> process_claimed wk env j) (\<lambda>_. True)"
      by (cases jo) (auto intro: tick_logic.return_holds holds_weaken [OF tick_worker.process_claimed_holds])
    moreover have "(case jo of None \<Rightarrow> w_return None | Some j \<Rightarrow> process_claimed wk env j) w1 = (r, w')"
      using assms c Inr by (simp add: process_one_def w_bind_def w_read_def)
    ultimately show ?thesis by (auto simp: holds_def tick_moves_def)
  qed
  ultimately show ?thesis by simp
qed

lemma run_loop_ends:
  assumes "\<forall>n \<ge> stop. env_stop env n" and "stop < tick w + fuel" and "0 < fuel"
  shows "run_loop fuel wk env processed w \<noteq> None"
  using assms
proof (induction fuel arbitrary: processed w)
  case 0
  then show ?case by simp
next
  case (Suc fuel)
  show ?case
  proof (cases "env_stop env (tick w)")
    case True
    then show ?thesis by simp
  next
    case False
    obtain r w1 where p: "process_one wk env w = (r, w1)" by (cases "process_one wk env w") auto
    have "tick w < tick w1" using p False by (rule process_one_ticks)
    moreover have "tick w < stop" using False Suc.prems(1) by (meson not_le)
    ultimately have "stop < tick w1 + fuel" "0 < fuel" using Suc.prems(2) by simp_all
    then have "run_loop fuel wk env n w1 \<noteq> None" for n
      using Suc.IH Suc.prems(1) by blast
    with False p show ?thesis by (auto split: sum.splits option.splits)
  qed
qed

subsection \<open>Stages that ran\<close>

lemma w_bind_Inr:
  "w_bind m f w = (Inr y, w') \<longleftrightarrow> (\<exists>x w1. m w = (Inr x, w1) \<and> f x w1 = (Inr y, w'))"
  by (auto simp: w_bind_def split: prod.splits sum.splits)

lemma w_return_Inr [simp]: "w_return x w = (Inr y, w') \<longleftrightarrow> y = x \<and> w' = w"
  by (auto simp: w_return_def)

lemma w_read_Inr [simp]: "w_read f w = (Inr y, w') \<longleftrightarrow> y = f (tick w) \<and> w' = w"
  by (auto simp: w_read_def)

lemma w_raise_Inr [simp]: "w_raise e w \<noteq> (Inr y, w')"
  by (simp add: w_raise_def)

lemma with_heartbeat_Inr:
  assumes "with_heartbeat wk env jid body w = (Inr x, w')"
  shows "\<exists>n. body n = Inr x"
proof -
  obtain w1 where "(case maintain wk env jid (env_beats env (tick w1)) w1 of
      (failure, w2) \<Rightarrow> (case body (tick w1) of Inl e \<Rightarrow> Inl e
         | Inr r \<Rightarrow> (case failure of None \<Rightarrow> Inr r | Some e \<Rightarrow> Inl e), w2)) = (Inr x, w')"
    using assms unfolding with_heartbeat_def w_bind_Inr by blast
  then have "body (tick w1) = Inr x"
    by (cases "maintain wk env jid (env_beats env (tick w1)) w1"; cases "body (tick w1)")
      (simp_all split: option.splits)
  then show ?thesis by blast
qed

lemma execute_stage_Inr:
  "execute_stage wk env jid st w = (Inr x, w') \<Longrightarrow>
   \<exists>n. stage_action st (requires_warehouse_write st) n = Inr x"
  by (auto simp: execute_stage_def w_bind_Inr dest!: with_heartbeat_Inr split: if_splits option.splits)

lemma run_stages_success:
  assumes "run_stages wk env jid r0 stages w = (Inr (HandlerCompleted r), w')" and "succeeded r"
    and "st \<in> set stages"
  shows "\<exists>n x. stage_action st (requires_warehouse_write st) n = Inr x \<and> succeeded x"
  using assms
proof (induction stages arbitrary: r0 w)
  case (Cons s stages)
  from Cons.prems(1) obtain b w1 where b: "safe_boundary wk env jid w = (Inr b, w1)"
    and rest: "(case b of Some b \<Rightarrow> w_return b
       | None \<Rightarrow>
           w_bind (execute_stage wk env jid s) (\<lambda>r.
           w_bind (w_read (env_elapsed env)) (\<lambda>elapsed.
             if stage_timeout_seconds (wk_settings wk) < elapsed
             then w_return (HandlerCompleted (failed_with_blocked ''STAGE_TIMEOUT'' stages))
             else if \<not> succeeded r
             then w_return (HandlerCompleted (failed_with_blocked (result_detail r) stages))
             else run_stages wk env jid r stages))) w1 = (Inr (HandlerCompleted r), w')"
    by (auto simp: w_bind_Inr)
  have "b = None"
    using rest holdsD [OF tick_worker.safe_boundary_holds TrueI b] by (auto split: option.splits)
  then obtain x w2 where x: "execute_stage wk env jid s w1 = (Inr x, w2)"
    and cont: "(if stage_timeout_seconds (wk_settings wk) < env_elapsed env (tick w2)
             then w_return (HandlerCompleted (failed_with_blocked ''STAGE_TIMEOUT'' stages))
             else if \<not> succeeded x
             then w_return (HandlerCompleted (failed_with_blocked (result_detail x) stages))
             else run_stages wk env jid x stages) w2 = (Inr (HandlerCompleted r), w')"
    using rest by (auto simp: w_bind_Inr)
  have "\<not> succeeded (failed_with_blocked d stages)" for d
    by (simp add: failed_with_blocked_def handler_result_of_def)
  then have "succeeded x" "run_stages wk env jid x stages w2 = (Inr (HandlerCompleted r), w')"
    using cont Cons.prems(2) by (auto split: if_splits)
  then show ?case
    using Cons.IH [OF _ Cons.prems(2)] execute_stage_Inr [OF x] Cons.prems(3) by auto
qed simp

subsection \<open>A sample worker\<close>

definition sample_worker_of :: "handlers \<Rightarrow> worker" where
  "sample_worker_of hs =
     \<lparr>wk_codec = sample_codec, wk_cfg = sample_cfg, wk_id = ''w1'',
      wk_settings = \<lparr>stage_timeout_seconds = 10, lease_safety_seconds = 5, idle_poll_positive = True\<rparr>,
      wk_handlers = hs\<rparr>"

definition sample_env :: environment where
  "sample_env =
     \<lparr>env_others = (\<lambda>_ db. db), env_clock = (\<lambda>n. 3000 + int n), env_stop = (\<lambda>n. 9 \<le> n),
      env_elapsed = (\<lambda>_. 0), env_beats = (\<lambda>_. 0), env_warehouse_exists = False,
      env_warehouse_error = (\<lambda>_. None), env_file_exists = True, env_probe = Some sample_probe,
      env_inspection = (\<lambda>db. Inr (sample_inspection db)), env_pragmas = sample_pragmas,
      env_correlation = ''c'',
      env_new_id = (\<lambda>_ db. CHR ''x'' # concat (map pj_job_id (pruned_provision_job db)))\<rparr>"

definition sample_world :: "job_row list \<Rightarrow> world" where
  "sample_world rows = \<lparr>tick = 0, store = sample_file rows, world_ledger = None\<rparr>"

definition sample_stage :: "handler_result \<Rightarrow> stage" where
  "sample_stage r =
     \<lparr>stage_name = ''s'', requires_warehouse_write = False, stage_action = (\<lambda>_ _. Inr r)\<rparr>"

lemma sample_worker_fields [simp]:
  "wk_codec (sample_worker_of hs) = sample_codec" "wk_cfg (sample_worker_of hs) = sample_cfg"
  "wk_id (sample_worker_of hs) = ''w1''"
  "stage_timeout_seconds (wk_settings (sample_worker_of hs)) = 10"
  by (simp_all add: sample_worker_of_def)

lemma sample_codec_law: "codec_law sample_codec"
  unfolding codec_law_def
proof (intro allI impI)
  fix g g'
  assume v: "validated_goal sample_codec g = Inr g'"
  then have "payload_json g = payload_json sample_goal"
    by (rule contrapos_pp)
      (auto simp: validated_goal_def parse_goal_payload_def Let_def sample_codec_def table_codec_def)
  then have "validated_goal sample_codec g = validated_goal sample_codec sample_goal"
    by (simp add: validated_goal_def)
  with v validated_goal_eq [OF sample_goal_valid sample_reads] show "codec_reads sample_codec g'"
    using sample_reads by simp
qed

lemma sample_friendly: "friendly (sample_worker_of hs) sample_env"
proof -
  have "CHR ''x'' # concat ids \<notin> set ids" for ids :: "string list"
  proof
    assume "CHR ''x'' # concat ids \<in> set ids"
    then have "length (CHR ''x'' # concat ids) \<le> length (concat ids)"
      by (metis concat.simps(2) concat_append length_append le_add1 le_add2 order_trans split_list)
    then show False by simp
  qed
  from this [of "map pj_job_id ps" for ps :: "pruned_job list"] show ?thesis
    by (simp add: friendly_def sample_codec_law sample_env_def)
qed

lemma sample_get_job: "get_job sample_codec ''j1'' (db_with [r]) = Inr (Some (row_job sample_codec r))"
  if "row_ok sample_codec sample_cfg r" "row_job_id r = ''j1''"
  using that by (simp add: get_job_def select_job_def job_from_row_ok)

lemma sample_beat:
  "heartbeat sample_codec sample_cfg ''j1'' ''w1'' 3001 (db_with [leased_row]) =
     (Inr (row_job sample_codec (heartbeat_update sample_cfg 3001 leased_row)),
      db_with [heartbeat_update sample_cfg 3001 leased_row])"
  using heartbeat_result [OF db_with_ok [OF sample_rows_ok(2)] sample_worker(1), of leased_row 3001]
  by (simp add: live_lease_def)

lemma sample_execution:
  "\<exists>w'. execute_handler_stages (sample_worker_of hs) sample_env ''j1'' [sample_stage r] (sample_world [leased_row]) =
     (Inr (HandlerCompleted (if succeeded r then r else failed_with_blocked (result_detail r) [])), w')"
  using sample_get_job [OF sample_rows_ok(2)] row_job_fields(5) [OF sample_rows_ok(2)] sample_beat
  by (simp add: execute_handler_stages_def w_bind_def safe_boundary_def cancellation_requested_def
      read_job_def queue_call_def w_return_def w_read_def sample_world_def world_db_def sample_env_def
      sample_stage_def execute_stage_def with_heartbeat_def beat_def)

subsection \<open>Properties\<close>

text \<open>
  A worker is a well-behaved user of the queue: with other processes acting between any two of
  its calls, stages failing, timing out or raising, heartbeats lost, cancellations and stops at any
  boundary, one round of the worker makes only queue operations, so it keeps the queue's invariant,
  and a job it returns has ended.
\<close>

lemma worker_keeps_the_queue:
  assumes "process_one wk env w = (r, w')" and "friendly wk env"
    and "queue_ok (wk_codec wk) (wk_cfg wk) (world_db w)" and "user_version (world_db w) = 3"
  shows "(queue_step (wk_codec wk) (wk_cfg wk))\<^sup>*\<^sup>* (world_db w) (world_db w') \<and>
    db_ok (wk_codec wk) (wk_cfg wk) (world_db w') \<and>
    (\<forall>job. r = Inr (Some job) \<longrightarrow> job_is_terminal job)"
proof -
  have "queue_world wk env w" using assms by (simp add: queue_world_def)
  from holdsD [OF queue_worker.process_one_holds this assms(1)]
  have steps: "(queue_step (wk_codec wk) (wk_cfg wk))\<^sup>*\<^sup>* (world_db w) (world_db w')"
    and job: "\<forall>job. r = Inr (Some job) \<longrightarrow> job_is_terminal job"
    by (simp_all add: queue_moves_def)
  with queue.steps_inv [OF steps assms(3)] show ?thesis by (simp add: queue_ok_def)
qed

lemma worker_keeps_the_queue_witness:
  "db_ok sample_codec sample_cfg
     (world_db (snd (process_one (sample_worker_of []) sample_env (sample_world [waiting_row]))))"
  using worker_keeps_the_queue [OF surjective_pairing sample_friendly, of "[]" "sample_world [waiting_row]"]
    db_with_ok [OF sample_rows_ok(1)]
  by (simp add: sample_world_def world_db_def)

text \<open>
  A handler execution that fails is never retryable, whatever the failing stage asked for: the
  result that reports the blocked stages drops the flag, so the worker's failures end the job and the
  delayed retry of the queue is not used by it.
\<close>

lemma failed_stage_never_retryable:
  assumes "execute_handler_stages wk env jid stages w = (Inr (HandlerCompleted r), w')"
    and "\<not> succeeded r"
  shows "\<not> retryable r"
  using holdsD [OF tick_worker.execute_handler_stages_holds TrueI assms(1)] assms(2)
  by (simp add: settles_def)

lemma failed_stage_never_retryable_witness:
  "\<exists>r w'. execute_handler_stages (sample_worker_of []) sample_env ''j1''
     [sample_stage \<lparr>succeeded = False, result_detail = ''busy'', retryable = True\<rparr>] (sample_world [leased_row]) =
     (Inr (HandlerCompleted r), w') \<and> \<not> retryable r"
proof -
  let ?r = "\<lparr>succeeded = False, result_detail = ''busy'', retryable = True\<rparr>"
  obtain w' where run: "execute_handler_stages (sample_worker_of []) sample_env ''j1'' [sample_stage ?r]
      (sample_world [leased_row]) = (Inr (HandlerCompleted (failed_with_blocked ''busy'' [])), w')"
    using sample_execution [of "[]" ?r] by auto
  have "\<not> succeeded (failed_with_blocked ''busy'' [])"
    by (simp add: failed_with_blocked_def handler_result_of_def)
  from failed_stage_never_retryable [OF run this] run show ?thesis by blast
qed

text \<open>
  C38: a job is completed only when all its stages have succeeded: if the execution of a handler ends
  with a successful result, the handler has stages and the action of each of them returned success.
\<close>

theorem success_needs_every_stage:
  assumes "execute_handler_stages wk env jid stages w = (Inr (HandlerCompleted r), w')" and "succeeded r"
  shows "stages \<noteq> [] \<and>
    (\<forall>st \<in> set stages. \<exists>n x. stage_action st (requires_warehouse_write st) n = Inr x \<and> succeeded x)"
proof -
  have "stages \<noteq> []"
    using assms by (auto simp: execute_handler_stages_def handler_result_of_def)
  with assms(1) show ?thesis
    using run_stages_success [OF _ assms(2)] by (auto simp: execute_handler_stages_def)
qed

lemma success_needs_every_stage_witness:
  "\<exists>n x. stage_action (sample_stage (handler_result_of True ''ok'')) False n = Inr x \<and> succeeded x"
proof -
  obtain w' where "execute_handler_stages (sample_worker_of []) sample_env ''j1''
      [sample_stage (handler_result_of True ''ok'')] (sample_world [leased_row]) =
      (Inr (HandlerCompleted (handler_result_of True ''ok'')), w')"
    using sample_execution [of "[]" "handler_result_of True ''ok''"] by (auto simp: handler_result_of_def)
  from success_needs_every_stage [OF this] show ?thesis
    by (simp add: handler_result_of_def sample_stage_def)
qed

text \<open>
  C40: the loop of the worker ends: if the stop flag is set from some call of the queue on, the loop
  returns (a count or an error) within as many rounds as there are calls until then, whatever jobs it
  meets in between.
\<close>

theorem worker_loop_ends:
  assumes "\<forall>n \<ge> stop. env_stop env n"
  shows "\<exists>res. run_loop (Suc stop) wk env 0 w = Some res"
  using run_loop_ends [OF assms, of w "Suc stop" wk 0] by auto

lemma worker_loop_ends_witness:
  "\<exists>res. run_loop 10 (sample_worker_of []) sample_env 0 (sample_world [waiting_row]) = Some res"
  using worker_loop_ends [of 9 sample_env "sample_worker_of []" "sample_world [waiting_row]"]
  by (simp add: sample_env_def)

end
