(* ===== verification/Provider_Model.thy ===== *)
theory Provider_Model
  imports Prelude
begin

section \<open>Providers, health and routing data\<close>

text \<open>
  The values of the provider platform: \<open>vnstock/core/provider\<close> (\<open>exceptions.py\<close>, \<open>health.py\<close>,
  \<open>plugin.py\<close>, \<open>routing.py\<close>) and the auth values the router reads (\<open>vnstock/core/auth\<close>:
  \<open>types.py\<close>, \<open>spec.py\<close>, \<open>policies.py\<close>).

  Times, latencies and cooldowns are numbers of microseconds.  A plugin is what the platform reads
  from the object: its name, its capabilities per dataset, its auth spec per dataset (\<open>None\<close> when
  \<open>auth_spec\<close> is missing or raises).
\<close>

definition quoted :: "string \<Rightarrow> string" where
  "quoted s = CHR 0x27 # s @ [CHR 0x27]"

subsection \<open>Errors (\<open>exceptions.py\<close>)\<close>

datatype platform_error =
    VnstockPlatformError string
  | DatasetContractError string string "string option"
  | ProviderNotFoundError string
  | UnsupportedDatasetError string
  | UnsupportedDatasetForProviderError string string
  | ProviderFetchError string string "string option"
  | InvalidProviderRequestError string string
  | NoProviderForDatasetError string
  | NoHealthyProviderError string "string list" "(string \<times> string) list"
  | ProviderInCooldownError string string "int option"
  | ProviderDisabledError string string "string option"

subsection \<open>Health records (\<open>health.py\<close>)\<close>

datatype health_status = HEALTHY | DEGRADED | FAILING | UNKNOWN | DISABLED

record provider_health =
  ph_provider :: string
  ph_dataset :: string
  ph_status :: health_status
  ph_latency :: "int option"
  ph_freshness_score :: "int option"
  ph_last_success_at :: "int option"
  ph_last_failure_at :: "int option"
  ph_failure_count :: int
  ph_success_count :: int
  ph_cooldown_until :: "int option"
  ph_notes :: "string option"

definition new_provider_health :: "string \<Rightarrow> string \<Rightarrow> provider_health" where
  "new_provider_health provider dataset =
     \<lparr>ph_provider = provider, ph_dataset = dataset, ph_status = UNKNOWN, ph_latency = None,
      ph_freshness_score = None, ph_last_success_at = None, ph_last_failure_at = None,
      ph_failure_count = 0, ph_success_count = 0, ph_cooldown_until = None, ph_notes = None\<rparr>"

definition is_in_cooldown :: "provider_health \<Rightarrow> int \<Rightarrow> bool" where
  "is_in_cooldown h now = (case ph_cooldown_until h of None \<Rightarrow> False | Some t \<Rightarrow> now < t)"

subsection \<open>Auth values\<close>

datatype auth_type = AUTH_NONE | BEARER_TOKEN | API_KEY | BASIC | OAUTH2 | INTERACTIVE | CUSTOM

fun auth_type_value :: "auth_type \<Rightarrow> string" where
  "auth_type_value AUTH_NONE = ''none''"
| "auth_type_value BEARER_TOKEN = ''bearer_token''"
| "auth_type_value API_KEY = ''api_key''"
| "auth_type_value BASIC = ''basic''"
| "auth_type_value OAUTH2 = ''oauth2''"
| "auth_type_value INTERACTIVE = ''interactive''"
| "auth_type_value CUSTOM = ''custom''"

record auth_spec =
  as_auth_type :: auth_type
  as_required :: bool
  as_experimental :: bool
  as_explicit_only :: bool
  as_scopes :: "string list"
  as_notes :: string

definition no_auth :: auth_spec where
  "no_auth =
     \<lparr>as_auth_type = AUTH_NONE, as_required = False, as_experimental = False,
      as_explicit_only = False, as_scopes = [], as_notes = ''''\<rparr>"

definition tcbs_experimental :: "string list \<Rightarrow> auth_spec" where
  "tcbs_experimental scopes =
     \<lparr>as_auth_type = INTERACTIVE, as_required = True, as_experimental = True,
      as_explicit_only = True, as_scopes = scopes,
      as_notes = ''TCBS interactive login (username+password+OTP). Experimental and data-read only. Use `vnstock auth login tcbs` to authenticate.''\<rparr>"

datatype auth_policy =
  FORBID_AUTHENTICATED | PREFER_NO_AUTH | ALLOW_AUTHENTICATED | REQUIRE_AUTHENTICATED

definition default_auth_policy :: auth_policy where
  "default_auth_policy = PREFER_NO_AUTH"

subsection \<open>Plugins (\<open>plugin.py\<close>)\<close>

record capability =
  cap_supported :: "bool option"
  cap_status :: "string option"
  cap_auth_required :: "bool option"
  cap_notes :: "string option"

record plugin =
  pl_name :: string
  pl_capabilities :: "string \<Rightarrow> capability option"
  pl_auth_spec :: "string \<Rightarrow> auth_spec option"

text \<open>\<open>cap and cap.get("supported", False)\<close>.\<close>

definition supports :: "plugin \<Rightarrow> string \<Rightarrow> bool" where
  "supports p dataset =
     (case pl_capabilities p dataset of None \<Rightarrow> False | Some cap \<Rightarrow> cap_supported cap = Some True)"

subsection \<open>Routing values (\<open>routing.py\<close>)\<close>

definition default_provider_priority :: "string \<Rightarrow> string list option" where
  "default_provider_priority =
     map_of
       [(''equity.ohlcv'', [''KBS'', ''VCI'', ''DNSE'', ''TCBS'']),
        (''index.ohlcv'', [''KBS'', ''VCI'', ''DNSE'']),
        (''equity.quote'', [''KBS'', ''VCI'', ''DNSE'']),
        (''equity.intraday_trades'', [''KBS'', ''VCI'']),
        (''reference.symbols'', [''KBS'', ''VCI'']),
        (''reference.company_info'', [''KBS'', ''VCI'']),
        (''fundamental.balance_sheet'', [''KBS'', ''VCI'']),
        (''fundamental.income_statement'', [''KBS'', ''VCI'']),
        (''fundamental.cash_flow'', [''KBS'', ''VCI'']),
        (''fundamental.financial_ratio'', [''KBS'', ''VCI'']),
        (''fund.nav'', [''FMARKET''])]"

record routing_policy =
  prefer_healthy :: bool
  allow_degraded :: bool
  allow_failing_fallback :: bool
  respect_cooldown :: bool
  use_priority_tiebreaker :: bool

definition default_routing_policy :: routing_policy where
  "default_routing_policy =
     \<lparr>prefer_healthy = True, allow_degraded = True, allow_failing_fallback = False,
      respect_cooldown = True, use_priority_tiebreaker = True\<rparr>"

definition permissive_policy :: routing_policy where
  "permissive_policy = default_routing_policy\<lparr>allow_failing_fallback := True\<rparr>"

definition strict_policy :: routing_policy where
  "strict_policy = default_routing_policy\<lparr>allow_degraded := False\<rparr>"

record routing_decision =
  rd_dataset :: string
  rd_requested_source :: "string option"
  rd_selected_provider :: "string option"
  rd_candidates :: "string list"
  rd_rejected :: "(string \<times> string) list"
  rd_fallback :: bool
  rd_reason :: string
  rd_health_snapshot :: "(string \<times> provider_health) list"
  rd_warnings :: "string list"

end
