(* ===== verification/Provider_Health.thy ===== *)
theory Provider_Health
  imports Provider_Model
begin

section \<open>The provider health store\<close>

text \<open>
  \<open>ProviderHealthStore\<close> and \<open>InMemoryProviderHealthStore\<close> of \<open>provider/health.py\<close>.

  The abstract base class is the locale \<open>health_store\<close>: what \<open>get\<close> returns after each of the two
  recordings, for the recorded pair and for the others.  The in-memory store is its
  interpretation.  Records are kept under the upper-case provider name.
\<close>

subsection \<open>The in-memory store\<close>

record health_memory =
  hm_failure_threshold :: int
  hm_cooldown :: int
  hm_store :: "((string \<times> string) \<times> provider_health) list"

definition health_get :: "health_memory \<Rightarrow> string \<Rightarrow> string \<Rightarrow> provider_health" where
  "health_get s provider dataset =
     (case map_of (hm_store s) (upper provider, dataset) of
        None \<Rightarrow> new_provider_health (upper provider) dataset
      | Some h \<Rightarrow> h)"

definition health_set :: "provider_health \<Rightarrow> health_memory \<Rightarrow> health_memory" where
  "health_set h s =
     s\<lparr>hm_store := dict_set (upper (ph_provider h), ph_dataset h) h (hm_store s)\<rparr>"

text \<open>The two transitions, as functions of the record that \<open>get\<close> returned.\<close>

definition after_success ::
  "string \<Rightarrow> string \<Rightarrow> int option \<Rightarrow> int option \<Rightarrow> int \<Rightarrow> provider_health \<Rightarrow> provider_health" where
  "after_success provider dataset latency freshness now h =
     h\<lparr>ph_provider := upper provider, ph_dataset := dataset, ph_status := HEALTHY,
       ph_last_success_at := Some now, ph_failure_count := 0, ph_cooldown_until := None,
       ph_success_count := ph_success_count h + 1,
       ph_latency := (if latency = None then ph_latency h else latency),
       ph_freshness_score := (if freshness = None then ph_freshness_score h else freshness)\<rparr>"

definition after_failure ::
  "string \<Rightarrow> string \<Rightarrow> string option \<Rightarrow> int \<Rightarrow> int \<Rightarrow> int \<Rightarrow> provider_health \<Rightarrow> provider_health" where
  "after_failure provider dataset notes threshold cooldown now h0 =
     (let h = h0\<lparr>ph_provider := upper provider, ph_dataset := dataset, ph_last_failure_at := Some now,
                 ph_failure_count := ph_failure_count h0 + 1,
                 ph_notes := (case notes of None \<Rightarrow> ph_notes h0
                   | Some n \<Rightarrow> if n = '''' then ph_notes h0 else Some n)\<rparr> in
      if threshold \<le> ph_failure_count h then
        h\<lparr>ph_status := FAILING, ph_cooldown_until := Some (now + cooldown)\<rparr>
      else if ph_failure_count h = 1 \<and> ph_status h = HEALTHY then h\<lparr>ph_status := DEGRADED\<rparr>
      else if ph_status h = UNKNOWN then h\<lparr>ph_status := DEGRADED\<rparr>
      else h)"

definition health_record_success ::
  "string \<Rightarrow> string \<Rightarrow> int option \<Rightarrow> int option \<Rightarrow> int \<Rightarrow> health_memory \<Rightarrow> health_memory" where
  "health_record_success provider dataset latency freshness now s =
     health_set (after_success provider dataset latency freshness now (health_get s provider dataset)) s"

definition health_record_failure ::
  "string \<Rightarrow> string \<Rightarrow> string option \<Rightarrow> int option \<Rightarrow> int option \<Rightarrow> int \<Rightarrow> health_memory \<Rightarrow>
   health_memory" where
  "health_record_failure provider dataset notes threshold cooldown now s =
     health_set
       (after_failure provider dataset notes
          (case threshold of None \<Rightarrow> hm_failure_threshold s | Some t \<Rightarrow> t)
          (case cooldown of None \<Rightarrow> hm_cooldown s | Some c \<Rightarrow> c)
          now (health_get s provider dataset)) s"

definition health_list_for_dataset :: "string \<Rightarrow> health_memory \<Rightarrow> provider_health list" where
  "health_list_for_dataset dataset s = map snd (filter (\<lambda>((_, ds), _). ds = dataset) (hm_store s))"

definition health_all_providers :: "health_memory \<Rightarrow> string set" where
  "health_all_providers s = (fst \<circ> fst) ` set (hm_store s)"

definition health_all_datasets :: "health_memory \<Rightarrow> string set" where
  "health_all_datasets s = (snd \<circ> fst) ` set (hm_store s)"

definition health_clear :: "health_memory \<Rightarrow> health_memory" where
  "health_clear s = s\<lparr>hm_store := []\<rparr>"

subsection \<open>The contract of a health store\<close>

locale health_store =
  fixes get :: "'s \<Rightarrow> string \<Rightarrow> string \<Rightarrow> provider_health"
    and succeed :: "string \<Rightarrow> string \<Rightarrow> int \<Rightarrow> 's \<Rightarrow> 's"
    and fail_at :: "string \<Rightarrow> string \<Rightarrow> int \<Rightarrow> int \<Rightarrow> int \<Rightarrow> 's \<Rightarrow> 's"
  assumes get_upper: "get s (upper p) d = get s p d"
    and get_succeed: "get (succeed p d now s) p d = after_success p d None None now (get s p d)"
    and get_fail: "get (fail_at p d t c now s) p d = after_failure p d None t c now (get s p d)"
    and succeed_other: "(upper q, e) \<noteq> (upper p, d) \<Longrightarrow> get (succeed p d now s) q e = get s q e"
    and fail_other: "(upper q, e) \<noteq> (upper p, d) \<Longrightarrow> get (fail_at p d t c now s) q e = get s q e"
begin

text \<open>Failures at a sequence of times.\<close>

definition fail_all :: "string \<Rightarrow> string \<Rightarrow> int \<Rightarrow> int \<Rightarrow> int list \<Rightarrow> 's \<Rightarrow> 's" where
  "fail_all p d t c stamps s = fold (fail_at p d t c) stamps s"

lemma fail_all_count:
  "ph_failure_count (get (fail_all p d t c stamps s) p d) = ph_failure_count (get s p d) + int (length stamps)"
  by (induction stamps arbitrary: s) (simp_all add: fail_all_def get_fail after_failure_def Let_def)

lemma fail_all_others:
  "(upper q, e) \<noteq> (upper p, d) \<Longrightarrow> get (fail_all p d t c stamps s) q e = get s q e"
  by (induction stamps arbitrary: s) (simp_all add: fail_all_def fail_other)

text \<open>The last failure decides on the cooldown.\<close>

lemma fail_all_last:
  "get (fail_all p d t c (stamps @ [now]) s) p d =
     after_failure p d None t c now (get (fail_all p d t c stamps s) p d)"
  by (simp add: fail_all_def get_fail)

lemma failing_at_threshold:
  assumes "ph_failure_count (get s p d) = 0" and "1 \<le> t" and "length stamps + 1 \<ge> nat t"
  shows "ph_status (get (fail_all p d t c (stamps @ [now]) s) p d) = FAILING \<and>
    ph_cooldown_until (get (fail_all p d t c (stamps @ [now]) s) p d) = Some (now + c)"
proof -
  have "t \<le> ph_failure_count (get (fail_all p d t c stamps s) p d) + 1"
    using assms by (simp add: fail_all_count)
  then show ?thesis
    by (simp add: fail_all_last after_failure_def Let_def)
qed

lemma not_cooled_below_threshold:
  assumes "ph_failure_count (get s p d) = 0" and "int (length stamps) < t"
    and "ph_cooldown_until (get s p d) = None" and "ph_status (get s p d) \<noteq> FAILING"
  shows "ph_cooldown_until (get (fail_all p d t c stamps s) p d) = None \<and>
    ph_status (get (fail_all p d t c stamps s) p d) \<noteq> FAILING"
  using assms(2)
proof (induction stamps rule: rev_induct)
  case Nil
  then show ?case using assms by (simp add: fail_all_def)
next
  case (snoc now stamps)
  then have "\<not> t \<le> ph_failure_count (get (fail_all p d t c stamps s) p d) + 1"
    using assms(1) by (simp add: fail_all_count)
  with snoc show ?case
    by (auto simp: fail_all_last after_failure_def Let_def)
qed

lemma recovered:
  "ph_status (get (succeed p d now s) p d) = HEALTHY \<and>
   ph_failure_count (get (succeed p d now s) p d) = 0 \<and>
   \<not> is_in_cooldown (get (succeed p d now s) p d) t"
  by (simp add: get_succeed after_success_def is_in_cooldown_def)

end

lemma health_get_set: "upper (ph_provider h) = upper p \<Longrightarrow> ph_dataset h = d \<Longrightarrow> health_get (health_set h s) p d = h"
  by (simp add: health_get_def health_set_def)

lemma health_get_set_other:
  "(upper q, e) \<noteq> (upper (ph_provider h), ph_dataset h) \<Longrightarrow> health_get (health_set h s) q e = health_get s q e"
  by (auto simp: health_get_def health_set_def)

lemma after_success_key [simp]:
  "ph_provider (after_success p d l f now h) = upper p" "ph_dataset (after_success p d l f now h) = d"
  by (simp_all add: after_success_def)

lemma after_failure_key [simp]:
  "ph_provider (after_failure p d n t c now h) = upper p" "ph_dataset (after_failure p d n t c now h) = d"
  by (simp_all add: after_failure_def Let_def)

lemma health_record_get:
  "health_get (health_record_success p d l f now s) p d = after_success p d l f now (health_get s p d)"
  "health_get (health_record_failure p d n t c now s) p d =
     after_failure p d n (case t of None \<Rightarrow> hm_failure_threshold s | Some x \<Rightarrow> x)
       (case c of None \<Rightarrow> hm_cooldown s | Some x \<Rightarrow> x) now (health_get s p d)"
  by (simp_all add: health_record_success_def health_record_failure_def health_get_set)

lemma health_record_other:
  "(upper q, e) \<noteq> (upper p, d) \<Longrightarrow> health_get (health_record_success p d l f now s) q e = health_get s q e"
  "(upper q, e) \<noteq> (upper p, d) \<Longrightarrow> health_get (health_record_failure p d n t c now s) q e = health_get s q e"
  by (simp_all add: health_record_success_def health_record_failure_def health_get_set_other)

lemma health_get_upper [simp]: "health_get s (upper p) d = health_get s p d"
  by (simp add: health_get_def cong: option.case_cong)

interpretation memory: health_store health_get
  "\<lambda>p d now. health_record_success p d None None now"
  "\<lambda>p d t c now. health_record_failure p d None (Some t) (Some c) now"
  by unfold_locales (simp_all add: health_record_get health_record_other)

end
