(* ===== verification/Registries.thy ===== *)
theory Registries
  imports Provider_Health
begin

section \<open>The plugin and contract registries\<close>

text \<open>
  \<open>PluginRegistry\<close> of \<open>provider/plugin_registry.py\<close> and \<open>DatasetContractRegistry\<close> of
  \<open>contracts/base.py\<close>.  Both promise the same thing, the locale \<open>registration\<close>: a name is
  registered at most once, and a registered object is found under its name until it is removed.
\<close>

subsection \<open>Plugins\<close>

type_synonym plugin_registry = "(string \<times> plugin) list"

definition registry_register :: "plugin \<Rightarrow> plugin_registry \<Rightarrow> string + plugin_registry" where
  "registry_register p reg =
     (if map_of reg (upper (pl_name p)) \<noteq> None
      then Inl (''Provider '' @ quoted (pl_name p) @ '' is already registered. Use a distinct name or deregister the existing provider first.'')
      else Inr (dict_set (upper (pl_name p)) p reg))"

definition registry_get :: "string \<Rightarrow> plugin_registry \<Rightarrow> platform_error + plugin" where
  "registry_get name reg =
     (case map_of reg (upper name) of None \<Rightarrow> Inl (ProviderNotFoundError name) | Some p \<Rightarrow> Inr p)"

definition providers_for :: "string \<Rightarrow> plugin_registry \<Rightarrow> plugin list" where
  "providers_for dataset reg = filter (\<lambda>p. supports p dataset) (map snd reg)"

definition registry_names :: "plugin_registry \<Rightarrow> string list" where
  "registry_names reg = sort (map fst reg)"

definition capability_matrix ::
  "plugin_registry \<Rightarrow> (string \<times> (string \<Rightarrow> capability option)) list" where
  "capability_matrix reg =
     map (\<lambda>n. (n, pl_capabilities (the (map_of reg n)))) (registry_names reg)"

definition registry_deregister :: "string \<Rightarrow> plugin_registry \<Rightarrow> platform_error + plugin_registry" where
  "registry_deregister name reg =
     (if map_of reg (upper name) = None then Inl (ProviderNotFoundError name)
      else Inr (dict_del (upper name) reg))"

definition registry_clear :: "plugin_registry \<Rightarrow> plugin_registry" where
  "registry_clear reg = []"

definition registry_contains :: "string \<Rightarrow> plugin_registry \<Rightarrow> bool" where
  "registry_contains name reg \<longleftrightarrow> map_of reg (upper name) \<noteq> None"

text \<open>Every plugin is kept under its own name in upper case.\<close>

definition registry_ok :: "plugin_registry \<Rightarrow> bool" where
  "registry_ok reg \<longleftrightarrow> dict_ok reg \<and> (\<forall>(n, p) \<in> set reg. n = upper (pl_name p))"

subsection \<open>Dataset contracts\<close>

record dataset_contract =
  dc_dataset :: string
  dc_required_columns :: "string list"
  dc_optional_columns :: "string list"
  dc_dtype_rules :: "(string \<times> string) list"
  dc_time_column :: "string option"
  dc_symbol_column :: "string option"
  dc_validator :: "string option"
  dc_description :: "string option"

type_synonym contract_registry = "(string \<times> dataset_contract) list"

definition contract_register ::
  "dataset_contract \<Rightarrow> contract_registry \<Rightarrow> string + contract_registry" where
  "contract_register c reg =
     (if map_of reg (dc_dataset c) \<noteq> None
      then Inl (''Dataset contract '' @ quoted (dc_dataset c) @ '' is already registered.'')
      else Inr (dict_set (dc_dataset c) c reg))"

text \<open>A missing contract is a \<open>KeyError\<close> that lists the available names.\<close>

definition contract_get :: "string \<Rightarrow> contract_registry \<Rightarrow> string list + dataset_contract" where
  "contract_get dataset reg =
     (case map_of reg dataset of None \<Rightarrow> Inl (sort (map fst reg)) | Some c \<Rightarrow> Inr c)"

definition contract_list :: "contract_registry \<Rightarrow> dataset_contract list" where
  "contract_list reg = map (\<lambda>k. the (map_of reg k)) (sort (map fst reg))"

definition contract_names :: "contract_registry \<Rightarrow> string list" where
  "contract_names reg = sort (map fst reg)"

subsection \<open>The contract of a registry\<close>

locale registration =
  fixes key :: "'v \<Rightarrow> string"
    and norm :: "string \<Rightarrow> string"
    and register :: "'v \<Rightarrow> 's \<Rightarrow> 'e + 's"
    and entry :: "'s \<Rightarrow> string \<Rightarrow> 'v option"
  assumes norm_idem: "norm (norm n) = norm n"
    and register_taken: "entry s (norm (key v)) \<noteq> None \<Longrightarrow> \<exists>e. register v s = Inl e"
    and register_free: "entry s (norm (key v)) = None \<Longrightarrow> \<exists>s'. register v s = Inr s'"
    and entry_register: "register v s = Inr s' \<Longrightarrow>
      entry s' n = (if n = norm (key v) then Some v else entry s n)"
begin

lemma registered: "register v s = Inr s' \<Longrightarrow> entry s' (norm (key v)) = Some v"
  by (simp add: entry_register)

lemma register_twice:
  assumes "register v s = Inr s'" and "norm (key w) = norm (key v)"
  shows "\<exists>e. register w s' = Inl e"
  by (rule register_taken) (simp add: registered [OF assms(1)] assms(2))

lemma register_keeps:
  assumes "register v s = Inr s'" and "entry s n = Some w"
  shows "entry s' n = Some w"
proof -
  have "n \<noteq> norm (key v)"
    using assms register_taken [of s v] by auto
  with assms show ?thesis by (simp add: entry_register)
qed

end

interpretation plugins: registration pl_name upper registry_register map_of
  by unfold_locales (auto simp: registry_register_def split: if_splits)

interpretation contracts: registration dc_dataset "\<lambda>n. n" contract_register map_of
  by unfold_locales (auto simp: contract_register_def split: if_splits)

subsection \<open>The invariant of the plugin registry\<close>

lemma set_dict_set: "set (dict_set k v d) \<subseteq> insert (k, v) (set d)"
  by (induction k v d rule: dict_set.induct) auto

lemma registry_ok_register: "registry_register p reg = Inr reg' \<Longrightarrow> registry_ok reg \<Longrightarrow> registry_ok reg'"
  using set_dict_set [of "upper (pl_name p)" p reg]
  by (auto simp: registry_register_def registry_ok_def dict_ok_set split: if_splits)

lemma registry_ok_deregister: "registry_deregister n reg = Inr reg' \<Longrightarrow> registry_ok reg \<Longrightarrow> registry_ok reg'"
  by (auto simp: registry_deregister_def registry_ok_def dict_ok_del split: if_splits)
    (auto simp: dict_del_def)

lemma registry_ok_names:
  assumes "registry_ok reg" and "p \<in> snd ` set reg"
  shows "map_of reg (upper (pl_name p)) = Some p"
proof -
  obtain n where "(n, p) \<in> set reg" using assms(2) by auto
  with assms(1) show ?thesis
    using dict_ok_value [of reg n p] by (auto simp: registry_ok_def)
qed

lemma providers_for_in: "p \<in> set (providers_for dataset reg) \<longleftrightarrow> p \<in> snd ` set reg \<and> supports p dataset"
  by (auto simp: providers_for_def)

text \<open>Two candidates have different names, whatever their case.\<close>

lemma distinct_candidate_names:
  assumes "registry_ok reg"
  shows "distinct (map (\<lambda>p. upper (pl_name p)) (providers_for dataset reg))"
proof -
  have eq: "map (\<lambda>p. upper (pl_name p)) (map snd reg) = map fst reg"
    using assms by (auto simp: registry_ok_def)
  have "distinct (map fst reg)"
    using assms by (simp add: registry_ok_def dict_ok_def)
  then have "distinct (map (\<lambda>p. upper (pl_name p)) (map snd reg))"
    unfolding eq .
  then show ?thesis
    unfolding providers_for_def by (rule distinct_filter_map)
qed

end
