(* ===== verification/Router.thy ===== *)
theory Router
  imports Registries
begin

section \<open>The plugin router\<close>

text \<open>
  \<open>PluginRouter\<close> of \<open>provider/plugin_router.py\<close>: explicit and automatic selection of a provider from
  its health, the routing policy and the auth policy.  The router's attributes are the record
  \<open>router\<close>; the clock reading is an argument.
\<close>

record router =
  rt_registry :: plugin_registry
  rt_default_priority :: "string list option"
  rt_health :: health_memory
  rt_policy :: routing_policy
  rt_default_auth_policy :: auth_policy
  rt_last_decision :: "routing_decision option"

text \<open>The shared default store is passed by the caller here.\<close>

definition new_router ::
  "plugin_registry \<Rightarrow> string list option \<Rightarrow> health_memory \<Rightarrow> routing_policy option \<Rightarrow>
   auth_policy option \<Rightarrow> router" where
  "new_router reg prio hs policy auth =
     \<lparr>rt_registry = reg,
      rt_default_priority =
        (case prio of None \<Rightarrow> None | Some ns \<Rightarrow> if ns = [] then None else Some (map upper ns)),
      rt_health = hs,
      rt_policy = (case policy of None \<Rightarrow> default_routing_policy | Some p \<Rightarrow> p),
      rt_default_auth_policy = (case auth of None \<Rightarrow> default_auth_policy | Some a \<Rightarrow> a),
      rt_last_decision = None\<rparr>"

definition provider_requires_auth :: "plugin \<Rightarrow> string \<Rightarrow> bool" where
  "provider_requires_auth p dataset =
     (case pl_auth_spec p dataset of None \<Rightarrow> False | Some s \<Rightarrow> as_auth_type s \<noteq> AUTH_NONE)"

definition provider_is_explicit_only :: "plugin \<Rightarrow> string \<Rightarrow> bool" where
  "provider_is_explicit_only p dataset =
     (case pl_auth_spec p dataset of None \<Rightarrow> False | Some s \<Rightarrow> as_explicit_only s)"

definition build_health_snapshot ::
  "health_memory \<Rightarrow> plugin list \<Rightarrow> string \<Rightarrow> (string \<times> provider_health) list" where
  "build_health_snapshot hs ps dataset =
     fold (\<lambda>p d. dict_set (pl_name p) (health_get hs (pl_name p) dataset) d) ps []"

subsection \<open>Explicit routing\<close>

definition explicit_warnings :: "plugin \<Rightarrow> string \<Rightarrow> health_status \<Rightarrow> string list" where
  "explicit_warnings p dataset st =
     (if st = FAILING then
        [''Provider '' @ quoted (pl_name p) @ '' is FAILING for dataset '' @ quoted dataset @
         ''. Proceeding because source was explicitly requested.'']
      else if st = DEGRADED then [''Provider '' @ quoted (pl_name p) @ '' is DEGRADED for dataset '' @ quoted dataset @ ''.'']
      else [])"

definition resolve_explicit :: "router \<Rightarrow> int \<Rightarrow> string \<Rightarrow> string \<Rightarrow> (platform_error + plugin) \<times> router" where
  "resolve_explicit rt now dataset source =
     (case registry_get source (rt_registry rt) of
        Inl e \<Rightarrow> (Inl e, rt)
      | Inr p \<Rightarrow>
          (if \<not> supports p dataset
           then (Inl (UnsupportedDatasetForProviderError (pl_name p) dataset), rt)
           else
             (let h = health_get (rt_health rt) (pl_name p) dataset in
              if ph_status h = DISABLED
              then (Inl (ProviderDisabledError (pl_name p) dataset (ph_notes h)), rt)
              else if respect_cooldown (rt_policy rt) \<and> is_in_cooldown h now
              then (Inl (ProviderInCooldownError (pl_name p) dataset (ph_cooldown_until h)), rt)
              else
                (Inr p, rt\<lparr>rt_last_decision := Some
                   \<lparr>rd_dataset = dataset, rd_requested_source = Some source,
                    rd_selected_provider = Some (pl_name p),
                    rd_candidates = map pl_name (providers_for dataset (rt_registry rt)),
                    rd_rejected = [], rd_fallback = False, rd_reason = ''explicit source requested'',
                    rd_health_snapshot = build_health_snapshot (rt_health rt) [p] dataset,
                    rd_warnings = explicit_warnings p dataset (ph_status h)\<rparr>\<rparr>))))"

subsection \<open>Automatic routing\<close>

definition priority_list :: "router \<Rightarrow> string \<Rightarrow> string list" where
  "priority_list rt dataset =
     (case rt_default_priority rt of
        Some ns \<Rightarrow> ns
      | None \<Rightarrow> (case default_provider_priority dataset of None \<Rightarrow> [] | Some ns \<Rightarrow> ns))"

text \<open>\<open>{name.upper(): i for i, name in enumerate(priority_list)}\<close>: the last index of a name counts.\<close>

definition priority_index :: "string list \<Rightarrow> string \<Rightarrow> nat option" where
  "priority_index names = map_of (rev (zip (map upper names) [0..<length names]))"

definition routing_key :: "string list \<Rightarrow> plugin \<Rightarrow> nat \<times> string" where
  "routing_key names p =
     ((case priority_index names (upper (pl_name p)) of None \<Rightarrow> length names | Some i \<Rightarrow> i),
      upper (pl_name p))"

type_synonym tiers = "plugin list \<times> plugin list \<times> plugin list \<times> (string \<times> string) list"

text \<open>One round of the loop that sorts the candidates into health tiers.\<close>

definition bucket_one :: "router \<Rightarrow> int \<Rightarrow> string \<Rightarrow> plugin \<Rightarrow> tiers \<Rightarrow> tiers" where
  "bucket_one rt now dataset p t =
     (case t of (healthy, degraded, failing, rejected) \<Rightarrow>
        if provider_is_explicit_only p dataset
        then (healthy, degraded, failing, dict_set (pl_name p) ''explicit source required'' rejected)
        else
          (let h = health_get (rt_health rt) (pl_name p) dataset in
           if ph_status h = DISABLED
           then (healthy, degraded, failing, dict_set (pl_name p) ''DISABLED'' rejected)
           else if respect_cooldown (rt_policy rt) \<and> is_in_cooldown h now
           then (healthy, degraded, failing, dict_set (pl_name p) ''cooldown active'' rejected)
           else if ph_status h \<in> {HEALTHY, UNKNOWN} then (healthy @ [p], degraded, failing, rejected)
           else if ph_status h = DEGRADED then (healthy, degraded @ [p], failing, rejected)
           else (healthy, degraded, failing @ [p], rejected)))"

definition bucket_all :: "router \<Rightarrow> int \<Rightarrow> string \<Rightarrow> plugin list \<Rightarrow> tiers" where
  "bucket_all rt now dataset ps = fold (bucket_one rt now dataset) ps ([], [], [], [])"

definition reject_all :: "string \<Rightarrow> plugin list \<Rightarrow> (string \<times> string) list \<Rightarrow> (string \<times> string) list" where
  "reject_all why ps rejected = fold (\<lambda>p d. dict_set (pl_name p) why d) ps rejected"

definition keep_providers :: "(plugin \<Rightarrow> bool) \<Rightarrow> string \<Rightarrow> tiers \<Rightarrow> tiers" where
  "keep_providers ok why t =
     (case t of (healthy, degraded, failing, rejected) \<Rightarrow>
        (filter ok healthy, filter ok degraded, filter ok failing,
         reject_all why (filter (\<lambda>p. \<not> ok p) (healthy @ degraded @ failing)) rejected))"

definition public_first :: "string \<Rightarrow> plugin list \<Rightarrow> plugin list" where
  "public_first dataset ps =
     filter (\<lambda>p. \<not> provider_requires_auth p dataset) ps @ filter (\<lambda>p. provider_requires_auth p dataset) ps"

fun apply_auth_policy :: "string \<Rightarrow> auth_policy \<Rightarrow> tiers \<Rightarrow> tiers" where
  "apply_auth_policy dataset ALLOW_AUTHENTICATED t = t"
| "apply_auth_policy dataset FORBID_AUTHENTICATED t =
     keep_providers (\<lambda>p. \<not> provider_requires_auth p dataset) ''auth policy: forbid_authenticated'' t"
| "apply_auth_policy dataset PREFER_NO_AUTH (healthy, degraded, failing, rejected) =
     (public_first dataset healthy, public_first dataset degraded, public_first dataset failing, rejected)"
| "apply_auth_policy dataset REQUIRE_AUTHENTICATED t =
     keep_providers (\<lambda>p. provider_requires_auth p dataset)
       ''auth policy: require_authenticated (provider is public)'' t"

text \<open>The provider, whether it is a fallback, the reason and the warnings.\<close>

definition select_tier ::
  "routing_policy \<Rightarrow> string \<Rightarrow> tiers \<Rightarrow> plugin option \<times> bool \<times> string \<times> string list" where
  "select_tier policy dataset t =
     (case t of (healthy, degraded, failing, rejected) \<Rightarrow>
        if prefer_healthy policy \<and> healthy \<noteq> []
        then (Some (hd healthy), False,
              ''selected by health-aware default priority (HEALTHY/UNKNOWN)'', [])
        else if allow_degraded policy \<and> degraded \<noteq> []
        then (Some (hd degraded), True,
              ''fallback to DEGRADED provider (no HEALTHY provider available)'',
              [''Provider '' @ quoted (pl_name (hd degraded)) @ '' is DEGRADED for dataset '' @ quoted dataset @ ''.''])
        else if allow_failing_fallback policy \<and> failing \<noteq> []
        then (Some (hd failing), True, ''last-resort fallback to FAILING provider'',
              [''Provider '' @ quoted (pl_name (hd failing)) @ '' is FAILING for dataset '' @ quoted dataset @
               ''. allow_failing_fallback is enabled.''])
        else (None, False, '''', []))"

definition ordered_candidates :: "router \<Rightarrow> string \<Rightarrow> plugin list" where
  "ordered_candidates rt dataset =
     sort_key (routing_key (priority_list rt dataset)) (providers_for dataset (rt_registry rt))"

definition auto_tiers :: "router \<Rightarrow> int \<Rightarrow> string \<Rightarrow> auth_policy \<Rightarrow> tiers" where
  "auto_tiers rt now dataset auth =
     apply_auth_policy dataset auth (bucket_all rt now dataset (ordered_candidates rt dataset))"

definition resolve_auto ::
  "router \<Rightarrow> int \<Rightarrow> string \<Rightarrow> auth_policy \<Rightarrow> (platform_error + plugin) \<times> router" where
  "resolve_auto rt now dataset auth =
     (let candidates = providers_for dataset (rt_registry rt) in
      if candidates = [] then
        (Inl (UnsupportedDatasetError dataset),
         rt\<lparr>rt_last_decision := Some
           \<lparr>rd_dataset = dataset, rd_requested_source = None, rd_selected_provider = None,
            rd_candidates = [], rd_rejected = [], rd_fallback = False,
            rd_reason = ''no providers registered for this dataset'', rd_health_snapshot = [],
            rd_warnings = []\<rparr>\<rparr>)
      else
        (let tiers = auto_tiers rt now dataset auth;
             rejected = snd (snd (snd tiers));
             (selected, fallback, reason, warnings) = select_tier (rt_policy rt) dataset tiers;
             rt' = rt\<lparr>rt_last_decision := Some
               \<lparr>rd_dataset = dataset, rd_requested_source = None,
                rd_selected_provider = map_option pl_name selected,
                rd_candidates = map pl_name candidates, rd_rejected = rejected,
                rd_fallback = fallback, rd_reason = reason,
                rd_health_snapshot = build_health_snapshot (rt_health rt) candidates dataset,
                rd_warnings = warnings\<rparr>\<rparr> in
         case selected of
           None \<Rightarrow> (Inl (NoHealthyProviderError dataset (map pl_name candidates) rejected), rt')
         | Some p \<Rightarrow> (Inr p, rt')))"

definition resolve ::
  "router \<Rightarrow> int \<Rightarrow> string \<Rightarrow> string option \<Rightarrow> auth_policy option \<Rightarrow> (platform_error + plugin) \<times> router" where
  "resolve rt now dataset source auth =
     (let effective = (case auth of None \<Rightarrow> rt_default_auth_policy rt | Some a \<Rightarrow> a) in
      case source of
        Some s \<Rightarrow> (if lower s \<noteq> ''auto'' then resolve_explicit rt now dataset s
                   else resolve_auto rt now dataset effective)
      | None \<Rightarrow> resolve_auto rt now dataset effective)"

definition router_record_success ::
  "router \<Rightarrow> string \<Rightarrow> string \<Rightarrow> int option \<Rightarrow> int option \<Rightarrow> int \<Rightarrow> router" where
  "router_record_success rt provider dataset latency freshness now =
     rt\<lparr>rt_health := health_record_success provider dataset latency freshness now (rt_health rt)\<rparr>"

definition router_record_failure ::
  "router \<Rightarrow> string \<Rightarrow> string \<Rightarrow> string option \<Rightarrow> int option \<Rightarrow> int option \<Rightarrow> int \<Rightarrow> router" where
  "router_record_failure rt provider dataset notes threshold cooldown now =
     rt\<lparr>rt_health := health_record_failure provider dataset notes threshold cooldown now (rt_health rt)\<rparr>"

definition last_decision :: "router \<Rightarrow> routing_decision option" where
  "last_decision rt = rt_last_decision rt"

end
