(* ===== verification/Router_Props.thy ===== *)
theory Router_Props
  imports Router
begin

section \<open>Properties of health, registries and routing\<close>

text \<open>
  The health record is a state machine driven by successes and failures; the router's choice is
  characterised by eligibility, tier, auth class and priority.
\<close>

subsection \<open>Health\<close>

text \<open>
  C37: from a record without failures, whatever its status but FAILING (DISABLED included), consecutive
  failures lead to FAILING and a cooldown exactly when their number reaches the threshold, the cooldown ends \<open>cooldown\<close> after the last failure, one
  success clears both, and no other provider or dataset is affected.
\<close>

theorem cooldown_at_threshold:
  assumes "ph_failure_count (health_get s p d) = 0" and "ph_cooldown_until (health_get s p d) = None"
    and "ph_status (health_get s p d) \<noteq> FAILING" and "1 \<le> t" and "stamps \<noteq> []"
    and "s' = fold (\<lambda>now. health_record_failure p d None (Some t) (Some c) now) stamps s"
  shows "(ph_status (health_get s' p d) = FAILING \<longleftrightarrow> t \<le> int (length stamps)) \<and>
    ph_cooldown_until (health_get s' p d) =
      (if t \<le> int (length stamps) then Some (last stamps + c) else None) \<and>
    ph_status (health_get (health_record_success p d None None now s') p d) = HEALTHY \<and>
    \<not> is_in_cooldown (health_get (health_record_success p d None None now s') p d) later \<and>
    (\<forall>q e. (upper q, e) \<noteq> (upper p, d) \<longrightarrow> health_get s' q e = health_get s q e)"
proof -
  have s': "s' = memory.fail_all p d t c stamps s"
    using assms(6) by (simp add: memory.fail_all_def)
  have st: "stamps = butlast stamps @ [last stamps]"
    using assms(5) by simp
  have "ph_status (health_get s' p d) = FAILING \<and> ph_cooldown_until (health_get s' p d) = Some (last stamps + c)"
    if "t \<le> int (length stamps)"
    using memory.failing_at_threshold [OF assms(1,4), of "butlast stamps" c "last stamps"] that assms(4,5)
    by (simp add: s' st [symmetric])
  moreover have "ph_cooldown_until (health_get s' p d) = None \<and> ph_status (health_get s' p d) \<noteq> FAILING"
    if "\<not> t \<le> int (length stamps)"
    unfolding s' using that by (intro memory.not_cooled_below_threshold assms) simp
  ultimately show ?thesis
    using memory.recovered [of p d now s'] memory.fail_all_others [of _ _ p d t c stamps s]
    by (auto simp: s')
qed

definition fresh_store :: health_memory where
  "fresh_store = \<lparr>hm_failure_threshold = 3, hm_cooldown = 60000000, hm_store = []\<rparr>"

lemma fresh_get: "health_get fresh_store p d = new_provider_health (upper p) d"
  by (simp add: health_get_def fresh_store_def)

lemma cooldown_at_threshold_witness:
  "ph_cooldown_until (health_get
     (fold (\<lambda>now. health_record_failure ''KBS'' ''equity.ohlcv'' None (Some 3) (Some 60) now) [10, 20, 30] fresh_store)
     ''KBS'' ''equity.ohlcv'') = Some 90"
proof -
  have "(1::int) \<le> 3" "[10, 20, 30] \<noteq> ([]::int list)" by simp_all
  from cooldown_at_threshold [of fresh_store "''KBS''" "''equity.ohlcv''", OF _ _ _ this refl]
  show ?thesis by (simp add: fresh_get new_provider_health_def)
qed

text \<open>
  A DISABLED record does not stay disabled: recording one success makes the provider HEALTHY, and
  a failure that reaches the threshold makes it FAILING, so that after its cooldown the router may
  select it again.
\<close>

lemma disabled_is_reenabled:
  assumes "ph_status (health_get s p d) = DISABLED"
  shows "ph_status (health_get (health_record_success p d l f now s) p d) = HEALTHY \<and>
    (hm_failure_threshold s \<le> ph_failure_count (health_get s p d) + 1 \<longrightarrow>
      ph_status (health_get (health_record_failure p d n None None now s) p d) = FAILING)"
  by (simp add: health_record_get after_success_def after_failure_def Let_def)

definition disabled_store :: health_memory where
  "disabled_store =
     health_set ((new_provider_health ''KBS'' ''equity.ohlcv'')\<lparr>ph_status := DISABLED\<rparr>) fresh_store"

lemma upper_KBS [simp]: "upper ''KBS'' = ''KBS''" "upper ''VCI'' = ''VCI''"
  by code_simp+

lemma disabled_get: "health_get disabled_store ''KBS'' ''equity.ohlcv'' =
    (new_provider_health ''KBS'' ''equity.ohlcv'')\<lparr>ph_status := DISABLED\<rparr>"
  unfolding disabled_store_def by (rule health_get_set) (simp_all add: new_provider_health_def)

lemma disabled_is_reenabled_witness:
  "ph_status (health_get (health_record_success ''KBS'' ''equity.ohlcv'' None None 5 disabled_store)
     ''KBS'' ''equity.ohlcv'') = HEALTHY"
  using disabled_is_reenabled [of disabled_store "''KBS''" "''equity.ohlcv''"] by (simp add: disabled_get)

subsection \<open>The tiers\<close>

definition eligible :: "router \<Rightarrow> int \<Rightarrow> string \<Rightarrow> plugin \<Rightarrow> bool" where
  "eligible rt now dataset p \<longleftrightarrow>
     \<not> provider_is_explicit_only p dataset \<and>
     ph_status (health_get (rt_health rt) (pl_name p) dataset) \<noteq> DISABLED \<and>
     \<not> (respect_cooldown (rt_policy rt) \<and> is_in_cooldown (health_get (rt_health rt) (pl_name p) dataset) now)"

abbreviation status_of :: "router \<Rightarrow> string \<Rightarrow> plugin \<Rightarrow> health_status" where
  "status_of rt dataset p \<equiv> ph_status (health_get (rt_health rt) (pl_name p) dataset)"

lemma bucket_one_eq:
  "\<exists>r'. bucket_one rt now dataset p (h, d, f, r) =
     (h @ (if eligible rt now dataset p \<and> status_of rt dataset p \<in> {HEALTHY, UNKNOWN} then [p] else []),
      d @ (if eligible rt now dataset p \<and> status_of rt dataset p = DEGRADED then [p] else []),
      f @ (if eligible rt now dataset p \<and> status_of rt dataset p = FAILING then [p] else []), r')"
proof (cases "eligible rt now dataset p")
  case True
  then show ?thesis
    by (cases "status_of rt dataset p") (simp_all add: bucket_one_def eligible_def Let_def)
next
  case False
  then show ?thesis
    by (cases "provider_is_explicit_only p dataset"; cases "status_of rt dataset p = DISABLED")
      (simp_all add: bucket_one_def eligible_def Let_def)
qed

lemma bucket_fold:
  "\<exists>r'. fold (bucket_one rt now dataset) ps (h, d, f, r) =
     (h @ filter (\<lambda>p. eligible rt now dataset p \<and> status_of rt dataset p \<in> {HEALTHY, UNKNOWN}) ps,
      d @ filter (\<lambda>p. eligible rt now dataset p \<and> status_of rt dataset p = DEGRADED) ps,
      f @ filter (\<lambda>p. eligible rt now dataset p \<and> status_of rt dataset p = FAILING) ps, r')"
proof (induction ps arbitrary: h d f r)
  case (Cons p ps)
  obtain r1 where one: "bucket_one rt now dataset p (h, d, f, r) =
     (h @ (if eligible rt now dataset p \<and> status_of rt dataset p \<in> {HEALTHY, UNKNOWN} then [p] else []),
      d @ (if eligible rt now dataset p \<and> status_of rt dataset p = DEGRADED then [p] else []),
      f @ (if eligible rt now dataset p \<and> status_of rt dataset p = FAILING then [p] else []), r1)"
    (is "_ = (?h, ?d, ?f, r1)")
    using bucket_one_eq by blast
  obtain r2 where "fold (bucket_one rt now dataset) ps (?h, ?d, ?f, r1) =
     (?h @ filter (\<lambda>p. eligible rt now dataset p \<and> status_of rt dataset p \<in> {HEALTHY, UNKNOWN}) ps,
      ?d @ filter (\<lambda>p. eligible rt now dataset p \<and> status_of rt dataset p = DEGRADED) ps,
      ?f @ filter (\<lambda>p. eligible rt now dataset p \<and> status_of rt dataset p = FAILING) ps, r2)"
    using Cons.IH by blast
  then show ?case by (simp add: one)
qed simp

text \<open>Whether the auth policy lets a provider be selected.\<close>

fun auth_allows :: "string \<Rightarrow> auth_policy \<Rightarrow> plugin \<Rightarrow> bool" where
  "auth_allows dataset FORBID_AUTHENTICATED p \<longleftrightarrow> \<not> provider_requires_auth p dataset"
| "auth_allows dataset REQUIRE_AUTHENTICATED p \<longleftrightarrow> provider_requires_auth p dataset"
| "auth_allows dataset _ p \<longleftrightarrow> True"

text \<open>A tier after the auth policy: what is in it, and in which order.\<close>

definition auth_order :: "string \<Rightarrow> auth_policy \<Rightarrow> plugin list \<Rightarrow> plugin list" where
  "auth_order dataset auth ps =
     (if auth = PREFER_NO_AUTH then public_first dataset ps else filter (auth_allows dataset auth) ps)"

lemma apply_auth_tiers:
  "apply_auth_policy dataset auth (h, d, f, r) =
     (auth_order dataset auth h, auth_order dataset auth d, auth_order dataset auth f,
      snd (snd (snd (apply_auth_policy dataset auth (h, d, f, r)))))"
proof -
  have "auth_allows dataset FORBID_AUTHENTICATED = (\<lambda>p. \<not> provider_requires_auth p dataset)"
    "auth_allows dataset REQUIRE_AUTHENTICATED = (\<lambda>p. provider_requires_auth p dataset)"
    "auth_allows dataset ALLOW_AUTHENTICATED = (\<lambda>p. True)"
    by (rule ext, simp)+
  then show ?thesis
    by (cases auth) (simp_all add: auth_order_def keep_providers_def)
qed

lemma set_auth_order: "set (auth_order dataset auth ps) = {p \<in> set ps. auth_allows dataset auth p}"
  by (cases auth) (auto simp: auth_order_def public_first_def)

definition tier :: "router \<Rightarrow> int \<Rightarrow> string \<Rightarrow> auth_policy \<Rightarrow> health_status set \<Rightarrow> plugin list" where
  "tier rt now dataset auth sts =
     auth_order dataset auth
       (filter (\<lambda>p. eligible rt now dataset p \<and> status_of rt dataset p \<in> sts) (ordered_candidates rt dataset))"

lemma auto_tiers_eq:
  "\<exists>r. auto_tiers rt now dataset auth =
     (tier rt now dataset auth {HEALTHY, UNKNOWN}, tier rt now dataset auth {DEGRADED},
      tier rt now dataset auth {FAILING}, r)"
proof -
  obtain r where b: "bucket_all rt now dataset (ordered_candidates rt dataset) =
     (filter (\<lambda>p. eligible rt now dataset p \<and> status_of rt dataset p \<in> {HEALTHY, UNKNOWN}) (ordered_candidates rt dataset),
      filter (\<lambda>p. eligible rt now dataset p \<and> status_of rt dataset p = DEGRADED) (ordered_candidates rt dataset),
      filter (\<lambda>p. eligible rt now dataset p \<and> status_of rt dataset p = FAILING) (ordered_candidates rt dataset), r)"
    unfolding bucket_all_def
    using bucket_fold [of rt now dataset "ordered_candidates rt dataset" "[]" "[]" "[]" "[]"] by auto
  show ?thesis
    unfolding auto_tiers_def b by (subst apply_auth_tiers) (simp add: tier_def)
qed

lemma set_tier:
  "p \<in> set (tier rt now dataset auth sts) \<longleftrightarrow>
     p \<in> snd ` set (rt_registry rt) \<and> supports p dataset \<and> eligible rt now dataset p \<and>
     auth_allows dataset auth p \<and> status_of rt dataset p \<in> sts"
  by (auto simp: tier_def set_auth_order ordered_candidates_def providers_for_in)

lemma resolve_auto_cases:
  "fst (resolve_auto rt now dataset auth) =
     (if providers_for dataset (rt_registry rt) = [] then Inl (UnsupportedDatasetError dataset)
      else case fst (select_tier (rt_policy rt) dataset (auto_tiers rt now dataset auth)) of
        None \<Rightarrow> Inl (NoHealthyProviderError dataset (map pl_name (providers_for dataset (rt_registry rt)))
                  (snd (snd (snd (auto_tiers rt now dataset auth)))))
      | Some p \<Rightarrow> Inr p)"
  by (auto simp: resolve_auto_def Let_def split: prod.splits option.splits)

text \<open>The choice, tier by tier.\<close>

lemma selected_tier:
  "fst (select_tier (rt_policy rt) dataset (auto_tiers rt now dataset auth)) = Some p \<longleftrightarrow>
     (let h = tier rt now dataset auth {HEALTHY, UNKNOWN}; d = tier rt now dataset auth {DEGRADED};
          f = tier rt now dataset auth {FAILING}; po = rt_policy rt in
      prefer_healthy po \<and> h \<noteq> [] \<and> p = hd h \<or>
      \<not> (prefer_healthy po \<and> h \<noteq> []) \<and> allow_degraded po \<and> d \<noteq> [] \<and> p = hd d \<or>
      \<not> (prefer_healthy po \<and> h \<noteq> []) \<and> \<not> (allow_degraded po \<and> d \<noteq> []) \<and>
        allow_failing_fallback po \<and> f \<noteq> [] \<and> p = hd f)"
proof -
  obtain r where "auto_tiers rt now dataset auth =
     (tier rt now dataset auth {HEALTHY, UNKNOWN}, tier rt now dataset auth {DEGRADED},
      tier rt now dataset auth {FAILING}, r)"
    using auto_tiers_eq by blast
  then show ?thesis by (auto simp: select_tier_def Let_def)
qed

text \<open>Who may be selected at all, and from which tiers the policy lets the router select.\<close>

definition selectable :: "router \<Rightarrow> int \<Rightarrow> string \<Rightarrow> auth_policy \<Rightarrow> plugin \<Rightarrow> bool" where
  "selectable rt now dataset auth p \<longleftrightarrow>
     p \<in> snd ` set (rt_registry rt) \<and> supports p dataset \<and> eligible rt now dataset p \<and>
     auth_allows dataset auth p"

fun tier_rank :: "health_status \<Rightarrow> nat" where
  "tier_rank DEGRADED = 1"
| "tier_rank FAILING = 2"
| "tier_rank DISABLED = 3"
| "tier_rank _ = 0"

fun tier_open :: "routing_policy \<Rightarrow> nat \<Rightarrow> bool" where
  "tier_open po 0 = prefer_healthy po"
| "tier_open po (Suc 0) = allow_degraded po"
| "tier_open po _ = allow_failing_fallback po"

definition ranked :: "router \<Rightarrow> int \<Rightarrow> string \<Rightarrow> auth_policy \<Rightarrow> nat \<Rightarrow> plugin list" where
  "ranked rt now dataset auth n = tier rt now dataset auth {st. tier_rank st = n}"

lemma ranked_tiers:
  "tier rt now dataset auth {HEALTHY, UNKNOWN} = ranked rt now dataset auth 0"
  "tier rt now dataset auth {DEGRADED} = ranked rt now dataset auth 1"
  "tier rt now dataset auth {FAILING} = ranked rt now dataset auth 2"
proof -
  have "{HEALTHY, UNKNOWN} = {st. tier_rank st = 0}" "{DEGRADED} = {st. tier_rank st = 1}"
    "{FAILING} = {st. tier_rank st = 2}"
    by (auto elim!: tier_rank.elims)
  then show "tier rt now dataset auth {HEALTHY, UNKNOWN} = ranked rt now dataset auth 0"
    "tier rt now dataset auth {DEGRADED} = ranked rt now dataset auth 1"
    "tier rt now dataset auth {FAILING} = ranked rt now dataset auth 2"
    by (simp_all add: ranked_def)
qed

lemma set_ranked:
  "p \<in> set (ranked rt now dataset auth n) \<longleftrightarrow>
     selectable rt now dataset auth p \<and> tier_rank (status_of rt dataset p) = n"
  by (auto simp: ranked_def set_tier selectable_def)


text \<open>The selected provider heads the first open tier that is not empty.\<close>

lemma resolve_auto_ranked:
  "fst (resolve_auto rt now dataset auth) = Inr p \<longleftrightarrow>
     (\<exists>n \<in> {0, 1, 2}. tier_open (rt_policy rt) n \<and> ranked rt now dataset auth n \<noteq> [] \<and>
        p = hd (ranked rt now dataset auth n) \<and>
        (\<forall>m < n. tier_open (rt_policy rt) m \<longrightarrow> ranked rt now dataset auth m = []))"
  (is "?L \<longleftrightarrow> ?R")
proof -
  have sel: "fst (select_tier (rt_policy rt) dataset (auto_tiers rt now dataset auth)) = Some p \<longleftrightarrow> ?R"
    unfolding selected_tier ranked_tiers Let_def
    by (auto simp: numeral_2_eq_2 less_Suc_eq)
  have "\<not> ?R" if "providers_for dataset (rt_registry rt) = []"
  proof -
    have "ranked rt now dataset auth n = []" for n
      using that by (simp add: ranked_def tier_def ordered_candidates_def auth_order_def public_first_def)
    then show ?thesis by blast
  qed
  then show ?thesis
    unfolding resolve_auto_cases using sel by (auto split: option.splits)
qed

lemma auto_tiers_never:
  assumes "\<not> eligible rt now dataset q"
  shows "fst (resolve_auto rt now dataset auth) \<noteq> Inr q"
proof
  assume "fst (resolve_auto rt now dataset auth) = Inr q"
  then obtain n where "ranked rt now dataset auth n \<noteq> []" "q = hd (ranked rt now dataset auth n)"
    unfolding resolve_auto_ranked by blast
  then have "q \<in> set (ranked rt now dataset auth n)" by simp
  with assms show False by (simp add: set_ranked selectable_def)
qed

text \<open>Within a tier the head is the smallest by authentication class and key.\<close>

lemma sorted_hd_least:
  "sorted (map k xs) \<Longrightarrow> x \<in> set xs \<Longrightarrow> k (hd xs) \<le> k x"
  by (cases xs) auto

lemma sorted_filter_candidates: "sorted (map (routing_key (priority_list rt dataset)) (filter q (ordered_candidates rt dataset)))"
  unfolding ordered_candidates_def by (rule sorted_filter) simp

lemma hd_public_first:
  assumes "sorted (map k xs)" and "x \<in> set xs" and "p = hd (public_first dataset xs)"
  shows "(provider_requires_auth p dataset \<longrightarrow> provider_requires_auth x dataset) \<and>
    (provider_requires_auth p dataset = provider_requires_auth x dataset \<longrightarrow> k p \<le> k x)"
proof (cases "filter (\<lambda>p. \<not> provider_requires_auth p dataset) xs = []")
  case True
  then have all: "\<forall>y \<in> set xs. provider_requires_auth y dataset"
    by (simp add: filter_empty_conv)
  then have "public_first dataset xs = xs"
    using True by (simp add: public_first_def filter_id_conv)
  then show ?thesis
    using assms all sorted_hd_least [of k xs x] by simp
next
  case False
  then have p: "p = hd (filter (\<lambda>p. \<not> provider_requires_auth p dataset) xs)"
    using assms(3) by (simp add: public_first_def)
  then have pub: "\<not> provider_requires_auth p dataset"
    using hd_in_set [OF False] by simp
  have "k p \<le> k x" if "\<not> provider_requires_auth x dataset"
    unfolding p using that assms(2) by (intro sorted_hd_least sorted_filter assms(1)) simp
  with pub show ?thesis by simp
qed

lemma hd_ranked:
  assumes "q \<in> set (ranked rt now dataset auth n)" and "p = hd (ranked rt now dataset auth n)"
  shows "(auth = PREFER_NO_AUTH \<and> provider_requires_auth p dataset \<longrightarrow> provider_requires_auth q dataset) \<and>
    (auth \<noteq> PREFER_NO_AUTH \<or> provider_requires_auth p dataset = provider_requires_auth q dataset \<longrightarrow>
      routing_key (priority_list rt dataset) p \<le> routing_key (priority_list rt dataset) q)"
proof (cases "auth = PREFER_NO_AUTH")
  case True
  let ?xs = "filter (\<lambda>p. eligible rt now dataset p \<and> status_of rt dataset p \<in> {st. tier_rank st = n}) (ordered_candidates rt dataset)"
  have r: "ranked rt now dataset auth n = public_first dataset ?xs"
    using True by (simp add: ranked_def tier_def auth_order_def)
  have "q \<in> set ?xs"
    using assms(1) unfolding r by (auto simp: public_first_def)
  from hd_public_first [OF sorted_filter_candidates this, of p dataset] show ?thesis
    using True assms(2) r by auto
next
  case False
  then show ?thesis
    using assms unfolding ranked_def tier_def auth_order_def filter_filter if_not_P [OF False]
    by (simp add: sorted_hd_least sorted_filter_candidates)
qed

subsection \<open>Automatic routing\<close>

text \<open>
  C8: a provider selected automatically is registered, supports the dataset, is not explicit-only, not
  DISABLED and not cooling down, is allowed by the auth policy, is in a tier the policy opens, and no
  selectable provider is in a better open tier, whether it requires authentication or not: under
  \<open>PREFER_NO_AUTH\<close> the class decides inside the tier, where a provider that requires authentication is
  selected only if all selectable ones require it.
\<close>

theorem auto_selection_sound:
  assumes "fst (resolve_auto rt now dataset auth) = Inr p"
  shows "selectable rt now dataset auth p \<and>
    tier_open (rt_policy rt) (tier_rank (status_of rt dataset p)) \<and>
    (\<forall>q. selectable rt now dataset auth q \<and> tier_open (rt_policy rt) (tier_rank (status_of rt dataset q)) \<longrightarrow>
      tier_rank (status_of rt dataset p) \<le> tier_rank (status_of rt dataset q)) \<and>
    (auth = PREFER_NO_AUTH \<and> provider_requires_auth p dataset \<longrightarrow>
      (\<forall>q. selectable rt now dataset auth q \<and> tier_rank (status_of rt dataset q) = tier_rank (status_of rt dataset p) \<longrightarrow>
        provider_requires_auth q dataset))"
proof -
  from assms obtain n where n: "tier_open (rt_policy rt) n" "ranked rt now dataset auth n \<noteq> []"
    "p = hd (ranked rt now dataset auth n)"
    "\<forall>m < n. tier_open (rt_policy rt) m \<longrightarrow> ranked rt now dataset auth m = []"
    unfolding resolve_auto_ranked by blast
  then have "p \<in> set (ranked rt now dataset auth n)" by simp
  then have p: "selectable rt now dataset auth p" "tier_rank (status_of rt dataset p) = n"
    by (simp_all add: set_ranked)
  have "n \<le> tier_rank (status_of rt dataset q)"
    if "selectable rt now dataset auth q" "tier_open (rt_policy rt) (tier_rank (status_of rt dataset q))" for q
  proof (rule ccontr)
    assume "\<not> n \<le> tier_rank (status_of rt dataset q)"
    then have "ranked rt now dataset auth (tier_rank (status_of rt dataset q)) = []"
      using n(4) that(2) by simp
    moreover have "q \<in> set (ranked rt now dataset auth (tier_rank (status_of rt dataset q)))"
      using that(1) by (simp add: set_ranked)
    ultimately show False by simp
  qed
  moreover have "provider_requires_auth q dataset"
    if "auth = PREFER_NO_AUTH" "provider_requires_auth p dataset" "selectable rt now dataset auth q"
      "tier_rank (status_of rt dataset q) = tier_rank (status_of rt dataset p)" for q
  proof -
    have "q \<in> set (ranked rt now dataset auth n)"
      using that(3,4) p(2) by (simp add: set_ranked)
    from hd_ranked [OF this n(3)] show ?thesis using that(1,2) by simp
  qed
  ultimately show ?thesis using p n(1) by simp
qed

text \<open>
  Among the selectable providers of its tier the selected one is the best: under
  \<open>PREFER_NO_AUTH\<close> an authenticated provider is selected only if all of them are authenticated, and
  among those of its class (among all, under the other policies) its position in the priority list, the
  name breaking ties, is the least.
\<close>

lemma auto_selection_best:
  assumes "fst (resolve_auto rt now dataset auth) = Inr p" and "selectable rt now dataset auth q"
    and "tier_rank (status_of rt dataset q) = tier_rank (status_of rt dataset p)"
  shows "(auth = PREFER_NO_AUTH \<and> provider_requires_auth p dataset \<longrightarrow> provider_requires_auth q dataset) \<and>
    (auth \<noteq> PREFER_NO_AUTH \<or> provider_requires_auth p dataset = provider_requires_auth q dataset \<longrightarrow>
      routing_key (priority_list rt dataset) p \<le> routing_key (priority_list rt dataset) q)"
proof -
  from assms(1) obtain n where n: "ranked rt now dataset auth n \<noteq> []" "p = hd (ranked rt now dataset auth n)"
    unfolding resolve_auto_ranked by blast
  then have "p \<in> set (ranked rt now dataset auth n)" by simp
  then have "q \<in> set (ranked rt now dataset auth n)"
    using assms(2,3) by (simp add: set_ranked)
  from hd_ranked [OF this n(2)] show ?thesis .
qed


subsection \<open>A concrete router\<close>

definition demo_plugin :: "string \<Rightarrow> auth_spec option \<Rightarrow> plugin" where
  "demo_plugin name auth =
     \<lparr>pl_name = name,
      pl_capabilities = (\<lambda>d. if d = ''equity.ohlcv''
        then Some \<lparr>cap_supported = Some True, cap_status = None, cap_auth_required = None, cap_notes = None\<rparr>
        else None),
      pl_auth_spec = (\<lambda>d. auth)\<rparr>"

definition demo_registry :: plugin_registry where
  "demo_registry = [(''VCI'', demo_plugin ''VCI'' None), (''KBS'', demo_plugin ''KBS'' None)]"

definition demo_router :: router where
  "demo_router = new_router demo_registry None fresh_store None None"

lemma demo_simps:
  "rt_registry demo_router = demo_registry"
  "rt_policy demo_router = default_routing_policy"
  "rt_health demo_router = fresh_store"
  "rt_default_auth_policy demo_router = PREFER_NO_AUTH"
  by (simp_all add: demo_router_def new_router_def default_auth_policy_def)

lemma demo_policy [simp]:
  "prefer_healthy default_routing_policy" "allow_degraded default_routing_policy"
  "\<not> allow_failing_fallback default_routing_policy" "respect_cooldown default_routing_policy"
  by (simp_all add: default_routing_policy_def)

lemma demo_selectable:
  "p \<in> {demo_plugin ''VCI'' None, demo_plugin ''KBS'' None} \<Longrightarrow>
     selectable demo_router now ''equity.ohlcv'' ALLOW_AUTHENTICATED p \<and>
     status_of demo_router ''equity.ohlcv'' p = UNKNOWN"
  by (auto simp: selectable_def eligible_def demo_simps demo_registry_def demo_plugin_def supports_def
      provider_is_explicit_only_def fresh_get new_provider_health_def is_in_cooldown_def)

lemma demo_candidates: "providers_for ''equity.ohlcv'' demo_registry = [demo_plugin ''VCI'' None, demo_plugin ''KBS'' None]"
  by (simp add: providers_for_def demo_registry_def demo_plugin_def supports_def)

lemma demo_keys:
  "routing_key (priority_list demo_router ''equity.ohlcv'') (demo_plugin ''VCI'' None) = (1, ''VCI'')"
  "routing_key (priority_list demo_router ''equity.ohlcv'') (demo_plugin ''KBS'' None) = (0, ''KBS'')"
  by code_simp+

lemma demo_resolve:
  "fst (resolve_auto demo_router now ''equity.ohlcv'' ALLOW_AUTHENTICATED) = Inr (demo_plugin ''KBS'' None)"
proof -
  have "ordered_candidates demo_router ''equity.ohlcv'' = [demo_plugin ''KBS'' None, demo_plugin ''VCI'' None]"
    by (simp add: ordered_candidates_def demo_simps demo_candidates demo_keys)
  then have "ranked demo_router now ''equity.ohlcv'' ALLOW_AUTHENTICATED 0 =
      [demo_plugin ''KBS'' None, demo_plugin ''VCI'' None]"
    using demo_selectable [of "demo_plugin ''KBS'' None" now] demo_selectable [of "demo_plugin ''VCI'' None" now]
    by (simp add: ranked_def tier_def auth_order_def selectable_def)
  then show ?thesis
    unfolding resolve_auto_ranked by (simp add: demo_simps)
qed

lemma auto_selection_sound_witness:
  "selectable demo_router 0 ''equity.ohlcv'' ALLOW_AUTHENTICATED (demo_plugin ''KBS'' None)"
  using auto_selection_sound [OF demo_resolve [of 0]] by blast

lemma auto_selection_best_witness:
  "routing_key (priority_list demo_router ''equity.ohlcv'') (demo_plugin ''KBS'' None)
     \<le> routing_key (priority_list demo_router ''equity.ohlcv'') (demo_plugin ''VCI'' None)"
  using auto_selection_best [OF demo_resolve [of 0], of "demo_plugin ''VCI'' None"]
    demo_selectable [of "demo_plugin ''KBS'' None" 0] demo_selectable [of "demo_plugin ''VCI'' None" 0]
  by simp


text \<open>
  Without \<open>prefer_healthy\<close> a provider recorded HEALTHY or UNKNOWN is never selected
  automatically, even when it is the only candidate.
\<close>

lemma healthy_never_without_preference:
  assumes "\<not> prefer_healthy (rt_policy rt)"
    and "\<forall>q. selectable rt now dataset auth q \<longrightarrow> status_of rt dataset q \<in> {HEALTHY, UNKNOWN}"
  shows "\<nexists>p. fst (resolve_auto rt now dataset auth) = Inr p"
proof
  assume "\<exists>p. fst (resolve_auto rt now dataset auth) = Inr p"
  then obtain n where "n \<in> {0, 1, 2}" "tier_open (rt_policy rt) n" "ranked rt now dataset auth n \<noteq> []"
    unfolding resolve_auto_ranked by blast
  moreover from this(3) have "hd (ranked rt now dataset auth n) \<in> set (ranked rt now dataset auth n)" by simp
  ultimately show False
    using assms by (auto simp: set_ranked)
qed

definition unhealthy_router :: router where
  "unhealthy_router = demo_router\<lparr>rt_policy := default_routing_policy\<lparr>prefer_healthy := False\<rparr>\<rparr>"

lemma healthy_never_without_preference_witness:
  "\<not> (\<exists>p. fst (resolve_auto unhealthy_router 0 ''equity.ohlcv'' ALLOW_AUTHENTICATED) = Inr p) \<and>
   providers_for ''equity.ohlcv'' (rt_registry unhealthy_router) \<noteq> []"
proof -
  have st: "status_of unhealthy_router ''equity.ohlcv'' q = UNKNOWN" for q
    by (simp add: unhealthy_router_def demo_simps fresh_get new_provider_health_def)
  have "\<not> prefer_healthy (rt_policy unhealthy_router)"
    by (simp add: unhealthy_router_def)
  from healthy_never_without_preference [OF this, of 0 "''equity.ohlcv''" ALLOW_AUTHENTICATED]
  show ?thesis
    by (simp add: st) (simp add: unhealthy_router_def demo_simps demo_candidates)
qed

subsection \<open>Explicit routing\<close>

lemma explicit_accepted:
  assumes "registry_get source (rt_registry rt) = Inr q"
    and "supports q dataset \<and> status_of rt dataset q \<noteq> DISABLED \<and>
      \<not> (respect_cooldown (rt_policy rt) \<and> is_in_cooldown (health_get (rt_health rt) (pl_name q) dataset) now)"
  shows "\<exists>rd. resolve_explicit rt now dataset source = (Inr q, rt\<lparr>rt_last_decision := Some rd\<rparr>) \<and>
    rd_selected_provider rd = Some (pl_name q) \<and>
    rd_warnings rd = explicit_warnings q dataset (status_of rt dataset q)"
  using assms by (intro exI conjI) (simp add: resolve_explicit_def Let_def, simp_all)

lemma explicit_refused:
  assumes "registry_get source (rt_registry rt) = Inr q"
    and "\<not> (supports q dataset \<and> status_of rt dataset q \<noteq> DISABLED \<and>
      \<not> (respect_cooldown (rt_policy rt) \<and> is_in_cooldown (health_get (rt_health rt) (pl_name q) dataset) now))"
    and "resolve_explicit rt now dataset source = (result, rt')"
  shows "(\<exists>e. result = Inl e) \<and> rt' = rt"
proof -
  consider (unsupported) "\<not> supports q dataset" | (disabled) "supports q dataset" "status_of rt dataset q = DISABLED"
    | (cooling) "supports q dataset" "status_of rt dataset q \<noteq> DISABLED" "respect_cooldown (rt_policy rt)"
      "is_in_cooldown (health_get (rt_health rt) (pl_name q) dataset) now"
    using assms(2) by blast
  then show ?thesis
    by cases (use assms(1,3) in \<open>auto simp: resolve_explicit_def Let_def\<close>)
qed

text \<open>
  An explicit source other than \<open>auto\<close> is used exactly when it is registered under that name in
  any case, supports the dataset, is not DISABLED and is not cooling down (when the policy respects
  cooldowns); the tier, the auth policy and \<open>explicit_only\<close> do not matter, a FAILING provider is
  used with a warning in the recorded decision, and a refusal leaves the router as it was.
\<close>

lemma explicit_source_exact:
  assumes "lower source \<noteq> ''auto''" and "resolve rt now dataset (Some source) auth = (result, rt')"
  shows "(result = Inr p \<longleftrightarrow>
      map_of (rt_registry rt) (upper source) = Some p \<and> supports p dataset \<and>
      status_of rt dataset p \<noteq> DISABLED \<and>
      \<not> (respect_cooldown (rt_policy rt) \<and> is_in_cooldown (health_get (rt_health rt) (pl_name p) dataset) now)) \<and>
    (case result of
       Inl e \<Rightarrow> rt' = rt
     | Inr q \<Rightarrow> (\<exists>rd. rt' = rt\<lparr>rt_last_decision := Some rd\<rparr> \<and> rd_selected_provider rd = Some (pl_name q) \<and>
         (rd_warnings rd \<noteq> [] \<longleftrightarrow> status_of rt dataset q \<in> {FAILING, DEGRADED})))"
proof -
  have r: "resolve_explicit rt now dataset source = (result, rt')"
    using assms by (simp add: resolve_def Let_def)
  show ?thesis
  proof (cases "map_of (rt_registry rt) (upper source)")
    case None
    then have "result = Inl (ProviderNotFoundError source) \<and> rt' = rt"
      using r by (simp add: resolve_explicit_def registry_get_def)
    then show ?thesis
      using None by simp
  next
    case (Some q)
    let ?h = "health_get (rt_health rt) (pl_name q) dataset"
    have reg: "registry_get source (rt_registry rt) = Inr q"
      using Some by (simp add: registry_get_def)
    show ?thesis
    proof (cases "supports q dataset \<and> ph_status ?h \<noteq> DISABLED \<and> \<not> (respect_cooldown (rt_policy rt) \<and> is_in_cooldown ?h now)")
      case True
      then obtain rd where rd: "resolve_explicit rt now dataset source = (Inr q, rt\<lparr>rt_last_decision := Some rd\<rparr>)"
        "rd_selected_provider rd = Some (pl_name q)" "rd_warnings rd = explicit_warnings q dataset (ph_status ?h)"
        using explicit_accepted [OF reg] by blast
      have "result = Inr q" "rt' = rt\<lparr>rt_last_decision := Some rd\<rparr>"
        using r rd(1) by simp_all
      moreover have "rd_warnings rd \<noteq> [] \<longleftrightarrow> ph_status ?h \<in> {FAILING, DEGRADED}"
        by (simp add: rd(3) explicit_warnings_def)
      ultimately have "case result of Inl e \<Rightarrow> rt' = rt
        | Inr q \<Rightarrow> (\<exists>rd. rt' = rt\<lparr>rt_last_decision := Some rd\<rparr> \<and> rd_selected_provider rd = Some (pl_name q) \<and>
           (rd_warnings rd \<noteq> [] \<longleftrightarrow> status_of rt dataset q \<in> {FAILING, DEGRADED}))"
        using rd(2) unfolding \<open>result = Inr q\<close> sum.case by blast
      moreover have "result = Inr p \<longleftrightarrow>
          map_of (rt_registry rt) (upper source) = Some p \<and> supports p dataset \<and>
          status_of rt dataset p \<noteq> DISABLED \<and>
          \<not> (respect_cooldown (rt_policy rt) \<and> is_in_cooldown (health_get (rt_health rt) (pl_name p) dataset) now)"
        unfolding \<open>result = Inr q\<close> Some using True by (cases "p = q") simp_all
      ultimately show ?thesis by (rule conjI [rotated])
    next
      case False
      then have "resolve_explicit rt now dataset source = (result, rt') \<longrightarrow> (\<exists>e. result = Inl e) \<and> rt' = rt"
        using explicit_refused [OF reg] by blast
      with r False Some show ?thesis by auto
    qed
  qed
qed

lemma explicit_source_exact_witness:
  "fst (resolve demo_router 0 ''equity.ohlcv'' (Some ''KBS'') None) = Inr (demo_plugin ''KBS'' None)"
proof -
  have l: "lower ''KBS'' \<noteq> ''auto''" by code_simp
  obtain result rt' where r: "resolve demo_router 0 ''equity.ohlcv'' (Some ''KBS'') None = (result, rt')"
    by (rule prod.exhaust)
  from explicit_source_exact [OF l r, of "demo_plugin ''KBS'' None"]
  show ?thesis
    using demo_selectable [of "demo_plugin ''KBS'' None" 0] r
    by (simp add: demo_simps demo_registry_def selectable_def eligible_def)
qed

subsection \<open>Health and routing together\<close>

text \<open>
  Once a recorded failure reaches the threshold, no routing of the dataset, explicit or automatic
  and under any auth policy, selects a provider of that name before its cooldown ends (under a policy
  that respects cooldowns).
\<close>

lemma cooling_provider_not_selected:
  assumes "rt' = router_record_failure rt name dataset notes (Some t) (Some c) failed_at"
    and "respect_cooldown (rt_policy rt)"
    and "t \<le> ph_failure_count (health_get (rt_health rt) name dataset) + 1" and "now < failed_at + c"
    and "upper (pl_name q) = upper name"
  shows "fst (resolve rt' now dataset source auth) \<noteq> Inr q"
proof -
  have "health_get (rt_health rt') (pl_name q) dataset = health_get (rt_health rt') name dataset"
    using health_get_upper [of "rt_health rt'" "pl_name q" dataset] health_get_upper [of "rt_health rt'" name dataset]
      assms(5) by simp
  also have "is_in_cooldown \<dots> now"
    using assms(1,3,4) by (simp add: router_record_failure_def health_record_get after_failure_def Let_def is_in_cooldown_def)
  finally have cool: "is_in_cooldown (health_get (rt_health rt') (pl_name q) dataset) now" .
  have pol: "respect_cooldown (rt_policy rt')"
    using assms(1,2) by (simp add: router_record_failure_def)
  have "fst (resolve_auto rt' now dataset a) \<noteq> Inr q" for a
    using auto_tiers_never [of rt' now dataset q a] cool pol by (simp add: eligible_def)
  moreover have "fst (resolve_explicit rt' now dataset s) \<noteq> Inr q" for s
    using cool pol by (auto simp: resolve_explicit_def registry_get_def Let_def split: option.splits)
  ultimately show ?thesis
    by (simp add: resolve_def Let_def split: option.split)
qed

lemma cooling_provider_not_selected_witness:
  "fst (resolve (router_record_failure demo_router ''KBS'' ''equity.ohlcv'' None (Some 1) (Some 30) 100)
     120 ''equity.ohlcv'' (Some ''KBS'') None) \<noteq> Inr (demo_plugin ''KBS'' None)"
  by (rule cooling_provider_not_selected [OF refl])
    (simp_all add: demo_simps fresh_get new_provider_health_def demo_plugin_def)

subsection \<open>The plugin registry\<close>

text \<open>
  Registering a provider keeps the registry keyed by the upper-case names, makes it found under its
  name in any case, leaves every other name as it was, and makes a second registration of the name
  fail; deregistering makes the name unknown again.
\<close>

lemma registration_is_unique:
  assumes "registry_ok reg" and "registry_register p reg = Inr reg'"
  shows "registry_ok reg' \<and>
    registry_get n reg' = (if upper n = upper (pl_name p) then Inr p else registry_get n reg) \<and>
    (\<forall>q. upper (pl_name q) = upper (pl_name p) \<longrightarrow> (\<exists>e. registry_register q reg' = Inl e)) \<and>
    (\<exists>reg''. registry_deregister (pl_name p) reg' = Inr reg'' \<and> registry_ok reg'' \<and>
      registry_get (pl_name p) reg'' = Inl (ProviderNotFoundError (pl_name p)))"
proof -
  have ok: "registry_ok reg'"
    by (rule registry_ok_register [OF assms(2,1)])
  have "registry_get n reg' = (if upper n = upper (pl_name p) then Inr p else registry_get n reg)"
    using plugins.entry_register [OF assms(2)] by (simp add: registry_get_def)
  moreover have "\<exists>e. registry_register q reg' = Inl e" if "upper (pl_name q) = upper (pl_name p)" for q
    using plugins.register_twice [OF assms(2) that] .
  moreover have "registry_deregister (pl_name p) reg' = Inr (dict_del (upper (pl_name p)) reg')"
    using plugins.registered [OF assms(2)] by (simp add: registry_deregister_def)
  moreover from this have "registry_ok (dict_del (upper (pl_name p)) reg')"
    using ok by (rule registry_ok_deregister)
  ultimately show ?thesis
    using ok by (auto simp: registry_get_def map_of_dict_del)
qed

lemma registration_is_unique_witness:
  "registry_get ''kbs'' [(''KBS'', demo_plugin ''KBS'' None)] = Inr (demo_plugin ''KBS'' None)"
proof -
  have "registry_register (demo_plugin ''KBS'' None) [] = Inr [(''KBS'', demo_plugin ''KBS'' None)]"
    by (simp add: registry_register_def demo_plugin_def)
  moreover have "upper ''kbs'' = ''KBS''" by code_simp
  moreover have "registry_ok []" by (simp add: registry_ok_def dict_ok_def)
  ultimately show ?thesis
    using registration_is_unique [of "[]" "demo_plugin ''KBS'' None" "[(''KBS'', demo_plugin ''KBS'' None)]" "''kbs''"]
    by (simp add: demo_plugin_def)
qed

end
