(* ===== verification/Regex.thy ===== *)
theory Regex
  imports Prelude
begin

section \<open>Regular expressions\<close>

text \<open>
  The part of \<open>re\<close> the program uses.  A pattern is a term of \<open>regex\<close>, matched the way the
  backtracking matcher does: \<open>ends\<close> lists the ends of the matches at a position in the order they
  are tried.  Letters and word characters are the ASCII ones.
\<close>

datatype regex =
    Empty
  | Chars "char \<Rightarrow> bool"
  | Seq regex regex
  | Alt regex regex
  | Star regex
  | Word_Boundary

definition word_char :: "char \<Rightarrow> bool" where
  "word_char c \<longleftrightarrow> is_alnum c \<or> c = CHR ''_''"

definition at_word_boundary :: "string \<Rightarrow> nat \<Rightarrow> bool" where
  "at_word_boundary s i \<longleftrightarrow>
     (0 < i \<and> word_char (s ! (i - 1))) \<noteq> (i < length s \<and> word_char (s ! i))"

function ends :: "regex \<Rightarrow> string \<Rightarrow> nat \<Rightarrow> nat list" where
  "ends Empty s i = [i]"
| "ends (Chars p) s i = (if i < length s \<and> p (s ! i) then [i + 1] else [])"
| "ends (Seq a b) s i = concat (map (ends b s) (ends a s i))"
| "ends (Alt a b) s i = ends a s i @ ends b s i"
| "ends (Star a) s i =
     concat (map (\<lambda>j. if i < j \<and> j \<le> length s then ends (Star a) s j else []) (ends a s i)) @ [i]"
| "ends Word_Boundary s i = (if at_word_boundary s i then [i] else [])"
  by pat_completeness auto
termination
  by (relation "measures [\<lambda>(r, s, i). size r, \<lambda>(r, s, i). length s - i]") auto

subsection \<open>Derived patterns\<close>

definition plus :: "regex \<Rightarrow> regex" where
  "plus a = Seq a (Star a)"

definition opt :: "regex \<Rightarrow> regex" where
  "opt a = Alt a Empty"

text \<open>A literal under \<open>IGNORECASE\<close>.\<close>

fun lit :: "string \<Rightarrow> regex" where
  "lit [] = Empty"
| "lit (c # s) = Seq (Chars (\<lambda>x. lower_char x = lower_char c)) (lit s)"

fun alts :: "regex list \<Rightarrow> regex" where
  "alts [] = Empty"
| "alts [r] = r"
| "alts (r # rs) = Alt r (alts rs)"

definition slice :: "string \<Rightarrow> nat \<Rightarrow> nat \<Rightarrow> string" where
  "slice s i j = take (j - i) (drop i s)"

text \<open>\<open>pattern.search(s) is not None\<close>: a match at some position.\<close>

definition matches_at :: "regex \<Rightarrow> string \<Rightarrow> nat \<Rightarrow> bool" where
  "matches_at r s i \<longleftrightarrow> ends r s i \<noteq> []"

definition searches :: "regex \<Rightarrow> string \<Rightarrow> bool" where
  "searches r s \<longleftrightarrow> list_ex (matches_at r s) [0..<Suc (length s)]"

end
