(* ===== verification/Redaction.thy ===== *)
theory Redaction
  imports Provider_Health Regex
begin

section \<open>Redaction of diagnostics\<close>

text \<open>
  \<open>auth/redaction.py\<close>, \<open>auth/diagnostics.py\<close> and \<open>auth/context.py\<close>.

  \<open>value\<close> is what a diagnostics dictionary holds.  Dictionary keys are strings (a key of another
  type makes \<open>is_sensitive_key\<close> raise).  \<open>VTime\<close> is a time as the text \<open>isoformat\<close> gives it.

  The patterns are terms of \<open>regex\<close> (theory \<open>Regex\<close>); \<open>sub_from\<close> replaces the first match at
  each position from left to right, as \<open>re.sub\<close> does.
\<close>

subsection \<open>Values\<close>

record auth_context =
  ac_provider :: string
  ac_auth_type :: auth_type
  ac_authenticated :: bool
  ac_credential_label :: string
  ac_scopes :: "string list"
  ac_expires_at :: "int option"
  ac_experimental :: bool
  ac_explicit_only :: bool
  ac_token :: "string option"
  ac_credentials :: "(string \<times> string) list option"

datatype "value" =
    VNone
  | VBool bool
  | VNum int
  | VStr string
  | VTime int
  | VAuth auth_context
  | VList "value list"
  | VTuple "value list"
  | VDict "(string \<times> value) list"

text \<open>The first match at a position of \<open>kept\<close> followed by \<open>dropped\<close>: the ends of both.\<close>

definition first_match :: "regex \<Rightarrow> regex \<Rightarrow> string \<Rightarrow> nat \<Rightarrow> (nat \<times> nat) option" where
  "first_match kept dropped s i =
     (case concat (map (\<lambda>j. map (Pair j) (ends dropped s j)) (ends kept s i)) of
        [] \<Rightarrow> None
      | m # _ \<Rightarrow> Some m)"

definition redacted :: string where
  "redacted = ''[REDACTED]''"

text \<open>\<open>pattern.sub(r"\\1[REDACTED]", s)\<close> from a position on; no pattern matches the empty string.\<close>

function sub_from :: "regex \<Rightarrow> regex \<Rightarrow> string \<Rightarrow> nat \<Rightarrow> string" where
  "sub_from kept dropped s i =
     (if length s \<le> i then []
      else case first_match kept dropped s i of
        None \<Rightarrow> s ! i # sub_from kept dropped s (i + 1)
      | Some (j, e) \<Rightarrow>
          (if i < e then slice s i j @ redacted @ sub_from kept dropped s e
           else s ! i # sub_from kept dropped s (i + 1)))"
  by pat_completeness auto
termination
  by (relation "measure (\<lambda>(kept, dropped, s, i). length s - i)") auto

declare sub_from.simps [simp del]

subsection \<open>The patterns\<close>

definition base64url_char :: "char \<Rightarrow> bool" where
  "base64url_char c \<longleftrightarrow> is_alnum c \<or> c = CHR ''_'' \<or> c = CHR ''-''"

definition jwt_pattern :: regex where
  "jwt_pattern =
     Seq (lit ''eyJ'') (Seq (plus (Chars base64url_char)) (Seq (lit ''.'')
       (Seq (plus (Chars base64url_char)) (Seq (lit ''.'') (plus (Chars base64url_char))))))"

definition bearer_pattern :: regex where
  "bearer_pattern =
     Seq (lit ''Bearer'') (Seq (plus (Chars is_space))
       (plus (Chars (\<lambda>c. is_alnum c \<or> c \<in> {CHR ''.'', CHR ''_'', CHR ''-''}))))"

definition basic_pattern :: regex where
  "basic_pattern =
     Seq (lit ''Basic'') (Seq (plus (Chars is_space))
       (plus (Chars (\<lambda>c. is_alnum c \<or> c \<in> {CHR ''+'', CHR ''/'', CHR ''=''}))))"

definition key_words :: "regex list" where
  "key_words =
     [Seq (lit ''api'') (Seq (opt (lit ''_'')) (lit ''key'')),
      Seq (lit ''access'') (Seq (opt (lit ''_'')) (lit ''key'')),
      Seq (lit ''access'') (Seq (opt (lit ''_'')) (lit ''token'')),
      Seq (lit ''auth'') (Seq (opt (lit ''_'')) (lit ''token'')),
      Seq (lit ''client'') (Seq (opt (lit ''_'')) (lit ''secret'')),
      Seq (lit ''private'') (Seq (opt (lit ''_'')) (lit ''key'')),
      Seq (lit ''refresh'') (Seq (opt (lit ''_'')) (lit ''token'')),
      Seq (lit ''session'') (Seq (opt (lit ''_'')) (lit ''token'')),
      lit ''token'', lit ''password'', lit ''passwd'', lit ''secret'', lit ''authorization'', lit ''cookie'',
      Seq (lit ''credential'') (opt (lit ''s''))]"

text \<open>Group 1 of the last pattern, which the replacement keeps, and the value it drops.\<close>

definition assignment_prefix :: regex where
  "assignment_prefix =
     Seq Word_Boundary
       (Seq (Star (Seq (plus (Chars is_alnum)) (lit ''_'')))
         (Seq (alts key_words)
           (Seq (Star (Chars is_space))
             (Seq (Chars (\<lambda>c. c \<in> {CHR '':'', CHR ''=''})) (Star (Chars is_space))))))"

definition assigned_value :: regex where
  "assigned_value = plus (Chars (\<lambda>c. \<not> is_space c \<and> c \<notin> {CHR '','', CHR '';'', CHR ''}'', CHR '']''}))"

definition redact :: "string \<Rightarrow> string" where
  "redact s0 =
     (let s1 = sub_from Empty jwt_pattern s0 0;
          s2 = sub_from Empty bearer_pattern s1 0;
          s3 = sub_from Empty basic_pattern s2 0 in
      sub_from assignment_prefix assigned_value s3 0)"

subsection \<open>Dictionaries\<close>

definition sensitive_keys :: "string list" where
  "sensitive_keys =
     [''token'', ''access_token'', ''refresh_token'', ''api_key'', ''apikey'', ''password'', ''passwd'',
      ''secret'', ''authorization'', ''bearer'', ''cookie'', ''session_id'', ''otp_session'',
      ''otpsession'', ''credential'', ''private_key'']"

definition is_sensitive_key :: "string \<Rightarrow> bool" where
  "is_sensitive_key key =
     (let normalized = map (\<lambda>c. if c = CHR ''-'' \<or> c = CHR ''.'' then CHR ''_'' else c) (lower (strip key)) in
      normalized \<in> set sensitive_keys \<or>
      list_ex (\<lambda>sensitive. ends_with normalized (CHR ''_'' # sensitive)) sensitive_keys)"

definition max_redaction_depth :: nat where
  "max_redaction_depth = 10"

lemma size_dict_value [termination_simp]: "(k, v) \<in> set d \<Longrightarrow> size v < Suc (size_list (size_prod (\<lambda>_. 0) size) d)"
  by (induction d) auto

lemma size_list_value [termination_simp]: "v \<in> set vs \<Longrightarrow> size v < Suc (size_list size vs)"
  by (induction vs) auto

function redact_dict :: "bool \<Rightarrow> nat \<Rightarrow> (string \<times> value) list \<Rightarrow> (string \<times> value) list"
  and redact_list :: "nat \<Rightarrow> value list \<Rightarrow> value list" where
  "redact_dict deep depth data =
     (if max_redaction_depth < depth then [(''redacted'', VStr redacted)]
      else map (\<lambda>(k, v). (k,
        if is_sensitive_key k then VStr redacted
        else case v of
          VDict d \<Rightarrow> if deep then VDict (redact_dict deep (depth + 1) d) else v
        | VList vs \<Rightarrow> if deep then VList (redact_list (depth + 1) vs) else v
        | VTuple vs \<Rightarrow> if deep then VList (redact_list (depth + 1) vs) else v
        | VStr s \<Rightarrow> VStr (redact s)
        | _ \<Rightarrow> if deep \<and> max_redaction_depth \<le> depth then VStr redacted else v)) data)"
| "redact_list depth items =
     (if max_redaction_depth < depth then [VStr redacted]
      else map (\<lambda>v. case v of
          VDict d \<Rightarrow> VDict (redact_dict True (depth + 1) d)
        | VList vs \<Rightarrow> VList (redact_list (depth + 1) vs)
        | VTuple vs \<Rightarrow> VList (redact_list (depth + 1) vs)
        | VStr s \<Rightarrow> VStr (redact s)
        | _ \<Rightarrow> if max_redaction_depth \<le> depth then VStr redacted else v) items)"
  by pat_completeness auto
termination
  by (relation "measure (\<lambda>x. case x of Inl (_, depth, _) \<Rightarrow> 11 - depth | Inr (depth, _) \<Rightarrow> 11 - depth)")
    (auto simp: max_redaction_depth_def)

declare redact_dict.simps [simp del] redact_list.simps [simp del]

subsection \<open>Auth contexts and auth diagnostics\<close>

record auth_diagnostics =
  ad_provider :: string
  ad_auth_used :: bool
  ad_auth_type :: string
  ad_credential_label :: string
  ad_scopes :: "string list option"
  ad_expires_at :: "int option"
  ad_experimental :: bool
  ad_explicit_only :: bool

definition unauthenticated_context :: "string \<Rightarrow> auth_context" where
  "unauthenticated_context provider =
     \<lparr>ac_provider = provider, ac_auth_type = AUTH_NONE, ac_authenticated = False, ac_credential_label = '''',
      ac_scopes = [], ac_expires_at = None, ac_experimental = False, ac_explicit_only = False,
      ac_token = None, ac_credentials = None\<rparr>"

definition unauthenticated_diagnostics :: "string \<Rightarrow> auth_diagnostics" where
  "unauthenticated_diagnostics provider =
     \<lparr>ad_provider = provider, ad_auth_used = False, ad_auth_type = ''none'', ad_credential_label = '''',
      ad_scopes = None, ad_expires_at = None, ad_experimental = False, ad_explicit_only = False\<rparr>"

definition diagnostics_from_context :: "auth_context \<Rightarrow> auth_diagnostics" where
  "diagnostics_from_context c =
     \<lparr>ad_provider = ac_provider c, ad_auth_used = ac_authenticated c,
      ad_auth_type = auth_type_value (ac_auth_type c), ad_credential_label = ac_credential_label c,
      ad_scopes = Some (ac_scopes c), ad_expires_at = ac_expires_at c,
      ad_experimental = ac_experimental c, ad_explicit_only = ac_explicit_only c\<rparr>"

fun opt_value :: "('a \<Rightarrow> value) \<Rightarrow> 'a option \<Rightarrow> value" where
  "opt_value f None = VNone"
| "opt_value f (Some x) = f x"

definition strings :: "string list \<Rightarrow> value" where
  "strings xs = VList (map VStr xs)"

definition auth_diagnostics_to_dict :: "auth_diagnostics \<Rightarrow> value" where
  "auth_diagnostics_to_dict d = VDict
     [(''provider'', VStr (ad_provider d)), (''auth_used'', VBool (ad_auth_used d)),
      (''auth_type'', VStr (ad_auth_type d)), (''credential_label'', VStr (ad_credential_label d)),
      (''scopes'', strings (case ad_scopes d of None \<Rightarrow> [] | Some xs \<Rightarrow> xs)),
      (''expires_at'', opt_value VTime (ad_expires_at d)),
      (''experimental'', VBool (ad_experimental d)), (''explicit_only'', VBool (ad_explicit_only d))]"

definition safe_diagnostics :: "auth_context \<Rightarrow> value" where
  "safe_diagnostics c = VDict
     [(''provider'', VStr (ac_provider c)), (''auth_type'', VStr (auth_type_value (ac_auth_type c))),
      (''authenticated'', VBool (ac_authenticated c)), (''credential_label'', VStr (ac_credential_label c)),
      (''scopes'', strings (ac_scopes c)), (''expires_at'', opt_value VTime (ac_expires_at c)),
      (''experimental'', VBool (ac_experimental c)), (''explicit_only'', VBool (ac_explicit_only c))]"

subsection \<open>Health records and routing decisions as dictionaries\<close>

fun health_status_value :: "health_status \<Rightarrow> string" where
  "health_status_value HEALTHY = ''HEALTHY''"
| "health_status_value DEGRADED = ''DEGRADED''"
| "health_status_value FAILING = ''FAILING''"
| "health_status_value UNKNOWN = ''UNKNOWN''"
| "health_status_value DISABLED = ''DISABLED''"

definition health_to_dict :: "provider_health \<Rightarrow> value" where
  "health_to_dict h = VDict
     [(''provider'', VStr (ph_provider h)), (''dataset'', VStr (ph_dataset h)),
      (''status'', VStr (health_status_value (ph_status h))), (''latency_ms'', opt_value VNum (ph_latency h)),
      (''freshness_score'', opt_value VNum (ph_freshness_score h)),
      (''last_success_at'', opt_value VTime (ph_last_success_at h)),
      (''last_failure_at'', opt_value VTime (ph_last_failure_at h)),
      (''failure_count'', VNum (ph_failure_count h)), (''success_count'', VNum (ph_success_count h)),
      (''cooldown_until'', opt_value VTime (ph_cooldown_until h)), (''notes'', opt_value VStr (ph_notes h))]"

definition decision_to_dict :: "routing_decision \<Rightarrow> value" where
  "decision_to_dict d = VDict
     [(''dataset'', VStr (rd_dataset d)), (''requested_source'', opt_value VStr (rd_requested_source d)),
      (''selected_provider'', opt_value VStr (rd_selected_provider d)),
      (''candidates'', strings (rd_candidates d)),
      (''rejected'', VDict (map (\<lambda>(n, why). (n, VStr why)) (rd_rejected d))),
      (''fallback'', VBool (rd_fallback d)), (''reason'', VStr (rd_reason d)),
      (''health_snapshot'', VDict (map (\<lambda>(n, h). (n, health_to_dict h)) (rd_health_snapshot d))),
      (''warnings'', strings (rd_warnings d))]"

end
