(* ===== verification/Redaction_Props.thy ===== *)
theory Redaction_Props
  imports Redaction
begin

section \<open>Properties of redaction\<close>

text \<open>
  The matcher agrees with the language of its pattern, so that what \<open>sub\<close> leaves behind can be
  described: every substring of its result without brackets was already in its input.
\<close>

subsection \<open>The matcher\<close>

inductive accepts :: "regex \<Rightarrow> string \<Rightarrow> bool" where
  "accepts Empty []"
| "p c \<Longrightarrow> accepts (Chars p) [c]"
| "accepts a u \<Longrightarrow> accepts b v \<Longrightarrow> accepts (Seq a b) (u @ v)"
| "accepts a u \<Longrightarrow> accepts (Alt a b) u"
| "accepts b u \<Longrightarrow> accepts (Alt a b) u"
| "accepts (Star a) []"
| "accepts a u \<Longrightarrow> u \<noteq> [] \<Longrightarrow> accepts (Star a) v \<Longrightarrow> accepts (Star a) (u @ v)"

inductive_simps accepts_simps [simp]:
  "accepts Empty w" "accepts (Chars p) w" "accepts (Seq a b) w" "accepts (Alt a b) w"

fun no_boundary :: "regex \<Rightarrow> bool" where
  "no_boundary Word_Boundary \<longleftrightarrow> False"
| "no_boundary (Seq a b) \<longleftrightarrow> no_boundary a \<and> no_boundary b"
| "no_boundary (Alt a b) \<longleftrightarrow> no_boundary a \<and> no_boundary b"
| "no_boundary (Star a) \<longleftrightarrow> no_boundary a"
| "no_boundary _ \<longleftrightarrow> True"

declare ends.simps(5) [simp del]

lemma ends_star:
  "e \<in> set (ends (Star a) s i) \<longleftrightarrow>
     e = i \<or> (\<exists>j \<in> set (ends a s i). i < j \<and> j \<le> length s \<and> e \<in> set (ends (Star a) s j))"
  by (subst ends.simps(5)) (auto split: if_splits)

lemma ends_bounds: "e \<in> set (ends r s i) \<Longrightarrow> i \<le> length s \<Longrightarrow> i \<le> e \<and> e \<le> length s"
proof (induction r s i arbitrary: e rule: ends.induct)
  case (3 a b s i)
  from 3(3) obtain j where j: "j \<in> set (ends a s i)" "e \<in> set (ends b s j)" by auto
  then have "i \<le> j \<and> j \<le> length s" using 3 by blast
  moreover from this have "j \<le> e \<and> e \<le> length s" using 3(2) [OF j(1) j(2)] by blast
  ultimately show ?case by simp
next
  case (5 a s i)
  from 5(3) consider "e = i" | j where "j \<in> set (ends a s i)" "i < j" "j \<le> length s" "e \<in> set (ends (Star a) s j)"
    using iffD1 [OF ends_star] by blast
  then show ?case
  proof cases
    case 2
    then have "j \<le> e \<and> e \<le> length s" using 5(2) [of j e] by simp
    with 2 show ?thesis by simp
  qed (use 5(4) in simp)
qed (auto split: if_splits)

lemma slice_append:
  assumes "i \<le> j" and "j \<le> e"
  shows "slice s i e = slice s i j @ slice s j e"
proof -
  have "e - i = (j - i) + (e - j)" using assms by simp
  then show ?thesis
    using assms(1) by (simp only: slice_def take_add drop_drop le_add_diff_inverse2)
qed

lemma ends_sound:
  "e \<in> set (ends r s i) \<Longrightarrow> no_boundary r \<Longrightarrow> i \<le> length s \<Longrightarrow> accepts r (slice s i e)"
proof (induction r s i arbitrary: e rule: ends.induct)
  case (1 s i)
  then show ?case by (simp add: slice_def)
next
  case (2 p s i)
  then show ?case by (auto simp: slice_def Cons_nth_drop_Suc [symmetric] split: if_splits)
next
  case (3 a b s i)
  then obtain j where j: "j \<in> set (ends a s i)" "e \<in> set (ends b s j)" by auto
  have b: "i \<le> j" "j \<le> length s" using ends_bounds [OF j(1)] 3 by auto
  have "j \<le> e" using ends_bounds [OF j(2)] b by simp
  then have "slice s i e = slice s i j @ slice s j e"
    by (intro slice_append b)
  moreover have "accepts a (slice s i j)" "accepts b (slice s j e)"
    using 3(1) [OF j(1)] 3(2) [OF j] 3(4,5) b by simp_all
  ultimately show ?case by auto
next
  case (5 a s i)
  show ?case
  proof (cases "e = i")
    case True
    then show ?thesis by (simp add: slice_def accepts.intros)
  next
    case False
    then obtain j where j: "j \<in> set (ends a s i)" "i < j" "j \<le> length s" "e \<in> set (ends (Star a) s j)"
      using iffD1 [OF ends_star 5(3)] by blast
    have e: "j \<le> e" using ends_bounds [OF j(4,3)] by simp
    have "slice s i j \<noteq> []" using j(2,3) by (simp add: slice_def)
    moreover have "accepts a (slice s i j)" using 5(1) [OF j(1)] 5 by simp
    moreover have "accepts (Star a) (slice s j e)"
      using 5(2) [OF j(1) _ j(4)] 5(4) j by simp
    ultimately show ?thesis
      using slice_append [of i j e s] j(2) e by (auto intro: accepts.intros)
  qed
qed auto

lemma after_prefix:
  assumes "i \<le> length s" and "drop i s = u @ rest"
  shows "drop (i + length u) s = rest \<and> i + length u \<le> length s"
proof -
  have "drop (length u) (drop i s) = rest" by (simp add: assms(2))
  moreover have "length (drop i s) = length u + length rest" by (simp add: assms(2))
  ultimately show ?thesis using assms(1) by (simp add: add.commute)
qed

lemma ends_complete:
  "accepts r w \<Longrightarrow> i \<le> length s \<Longrightarrow> drop i s = w @ rest \<Longrightarrow> i + length w \<in> set (ends r s i)"
proof (induction arbitrary: i rest rule: accepts.induct)
  case (2 p c)
  have i: "i < length s"
  proof (rule ccontr)
    assume "\<not> i < length s"
    with 2 show False by simp
  qed
  then have "s ! i = c" using 2 by (metis append_Cons hd_append hd_drop_conv_nth list.distinct(1) list.sel(1))
  with i 2 show ?case by simp
next
  case (3 a u b v)
  have a: "i + length u \<in> set (ends a s i)" using 3 by simp
  have "i + length u + length v \<in> set (ends b s (i + length u))"
    using after_prefix [OF 3(5), of u "v @ rest"] 3 by simp
  with a show ?case by (auto simp: add.assoc intro!: bexI [of _ "i + length u"])
next
  case (7 a u v)
  have a: "i + length u \<in> set (ends a s i)" using 7 by simp
  have l: "drop (i + length u) s = v @ rest \<and> i + length u \<le> length s"
    using after_prefix [OF 7(6), of u "v @ rest"] 7 by simp
  then have "i + length u + length v \<in> set (ends (Star a) s (i + length u))"
    using 7 by simp
  with a l 7(2) show ?case
    by (intro iffD2 [OF ends_star] disjI2 bexI [OF _ a]) (simp_all add: add.assoc)
next
  case (6 a)
  show ?case by (intro iffD2 [OF ends_star]) simp
qed simp_all

text \<open>The characters a match can hold.\<close>

fun chars_of :: "regex \<Rightarrow> char set" where
  "chars_of (Chars p) = {c. p c}"
| "chars_of (Seq a b) = chars_of a \<union> chars_of b"
| "chars_of (Alt a b) = chars_of a \<union> chars_of b"
| "chars_of (Star a) = chars_of a"
| "chars_of _ = {}"

lemma accepts_chars: "accepts r w \<Longrightarrow> set w \<subseteq> chars_of r"
  by (induction rule: accepts.induct) auto


lemma first_match_Empty: "first_match Empty d s i = (case ends d s i of [] \<Rightarrow> None | e # _ \<Rightarrow> Some (i, e))"
  by (simp add: first_match_def split: list.split)

lemma first_match_bounds:
  assumes "first_match k d s i = Some (j, e)" and "i \<le> length s"
  shows "i \<le> j \<and> j \<le> e \<and> e \<le> length s"
proof -
  have "(j, e) \<in> set (concat (map (\<lambda>j. map (Pair j) (ends d s j)) (ends k s i)))"
    using assms(1) unfolding first_match_def by (cases "concat (map (\<lambda>j. map (Pair j) (ends d s j)) (ends k s i))") simp_all
  then have "j \<in> set (ends k s i)" "e \<in> set (ends d s j)" by auto
  then show ?thesis using ends_bounds assms(2) by blast
qed

lemma nothing_found_iff:
  assumes "no_boundary d" and "i \<le> length s"
  shows "first_match Empty d s i = None \<longleftrightarrow> (\<forall>w rest. drop i s = w @ rest \<longrightarrow> \<not> accepts d w)"
proof -
  have "ends d s i = [] \<longleftrightarrow> (\<forall>w rest. drop i s = w @ rest \<longrightarrow> \<not> accepts d w)"
  proof
    assume a: "ends d s i = []"
    then show "\<forall>w rest. drop i s = w @ rest \<longrightarrow> \<not> accepts d w"
      using ends_complete [OF _ assms(2)] by fastforce
  next
    assume a: "\<forall>w rest. drop i s = w @ rest \<longrightarrow> \<not> accepts d w"
    show "ends d s i = []"
    proof (rule ccontr)
      assume "ends d s i \<noteq> []"
      then have "accepts d (slice s i (hd (ends d s i)))"
        by (intro ends_sound assms) simp
      with a show False
        unfolding slice_def by (metis append_take_drop_id)
    qed
  qed
  moreover have "first_match Empty d s i = None \<longleftrightarrow> ends d s i = []"
    by (simp add: first_match_Empty split: list.split)
  ultimately show ?thesis by (rule trans [rotated])
qed

subsection \<open>What a substitution leaves\<close>

text \<open>A string without a character cannot cross an occurrence of it.\<close>

lemma before_character: "w @ v = a @ c # b \<Longrightarrow> c \<notin> set w \<Longrightarrow> \<exists>a'. a = w @ a'"
proof (induction w arbitrary: a)
  case (Cons x w)
  then show ?case by (cases a) auto
qed simp

lemma sub_from_step:
  assumes "i \<le> length s"
  obtains (stop) "i = length s" "sub_from k d s i = []"
  | (copy) "i < length s" "first_match k d s i = None \<or> (\<exists>j. first_match k d s i = Some (j, i))"
      "sub_from k d s i = s ! i # sub_from k d s (i + 1)"
  | (replace) j e where "first_match k d s i = Some (j, e)" "i \<le> j" "j \<le> e" "i < e" "e \<le> length s"
      "sub_from k d s i = slice s i j @ redacted @ sub_from k d s e"
proof (cases "i < length s")
  case False
  with assms show thesis by (intro stop) (simp_all add: sub_from.simps)
next
  case lt: True
  show thesis
  proof (cases "first_match k d s i")
    case None
    with lt show thesis by (intro copy) (simp_all add: sub_from.simps)
  next
    case (Some m)
    obtain j e where m: "m = (j, e)" by (cases m)
    then have b: "i \<le> j \<and> j \<le> e \<and> e \<le> length s"
      using first_match_bounds [of k d s i j e] Some assms by simp
    show thesis
    proof (cases "i < e")
      case True
      then have "sub_from k d s i = slice s i j @ redacted @ sub_from k d s e"
        using lt Some m by (subst sub_from.simps) simp
      with True b Some m show thesis by (intro replace) simp_all
    next
      case False
      then have "sub_from k d s i = s ! i # sub_from k d s (i + 1)"
        using lt Some m by (subst sub_from.simps) simp
      with False b Some m lt show thesis by (intro copy) auto
    qed
  qed
qed

lemma redacted_ends: "redacted = CHR ''['' # ''REDACTED'' @ [CHR '']'']"
  by (simp add: redacted_def)

lemma sub_prefix:
  "i \<le> length s \<Longrightarrow> sub_from k d s i = w @ v \<Longrightarrow> CHR ''['' \<notin> set w \<Longrightarrow> \<exists>rest. drop i s = w @ rest"
proof (induction w arbitrary: i)
  case (Cons c w)
  from Cons.prems(1) show ?case
  proof (cases rule: sub_from_step [where k = k and d = d])
    case stop
    with Cons.prems show ?thesis by simp
  next
    case copy
    with Cons.prems obtain rest where "drop (i + 1) s = w @ rest"
      using Cons.IH [of "i + 1"] by auto
    with copy Cons.prems show ?thesis by (auto simp: Cons_nth_drop_Suc [symmetric])
  next
    case (replace j e)
    then have "(c # w) @ v = slice s i j @ CHR ''['' # (''REDACTED'' @ [CHR '']'']) @ sub_from k d s e"
      using Cons.prems by (simp add: redacted_ends)
    from before_character [OF this Cons.prems(3)] obtain a' where "slice s i j = (c # w) @ a'" by blast
    then show ?thesis
      unfolding slice_def by (metis append.assoc append_take_drop_id)
  qed
qed simp

text \<open>
  A string without brackets that occurs in the result occurs in the subject or in the replacement.
\<close>

definition occurs :: "string \<Rightarrow> string \<Rightarrow> bool" where
  "occurs w s \<longleftrightarrow> (\<exists>u v. s = u @ w @ v)"

lemma occurs_drop: "drop i s = w @ rest \<Longrightarrow> occurs w s"
  unfolding occurs_def by (metis append_take_drop_id)

lemma occurs_slice:
  assumes "occurs w (slice s i j)"
  shows "occurs w s"
proof -
  obtain u v where "slice s i j = u @ w @ v" using assms unfolding occurs_def by blast
  then have "drop i s = u @ w @ v @ drop (j - i) (drop i s)"
    unfolding slice_def by (metis append.assoc append_take_drop_id)
  then have "s = (take i s @ u) @ w @ v @ drop (j - i) (drop i s)"
    by (metis append.assoc append_take_drop_id)
  then show ?thesis unfolding occurs_def by blast
qed

lemma occurs_in_replacement:
  assumes "A @ redacted @ out = u @ w @ v" and "w \<noteq> []"
    and "CHR ''['' \<notin> set w" and "CHR '']'' \<notin> set w"
  shows "occurs w A \<or> occurs w redacted \<or> (\<exists>u'. out = u' @ w @ v)"
proof -
  consider (inside) u' where "A = u @ u'" "u' \<noteq> []" | (mid) u' where "u = A @ u'" "length u' < length redacted"
    | (after) u' where "u = A @ redacted @ u'"
  proof (cases "length u < length A")
    case True
    then have "A = u @ drop (length u) A"
      using assms(1) by (metis append_eq_append_conv_if less_imp_le append_take_drop_id)
    then show thesis using True inside [of "drop (length u) A"] by simp
  next
    case False
    then have "u = A @ drop (length A) u"
      using assms(1) by (metis append_eq_append_conv_if append_take_drop_id not_less)
    then obtain u' where u': "u = A @ u'" ..
    then have e: "redacted @ out = u' @ w @ v" using assms(1) by simp
    show thesis
    proof (cases "length u' < length redacted")
      case True
      with u' show thesis by (rule mid)
    next
      case False
      then have "u' = redacted @ drop (length redacted) u'"
        using e by (metis append_eq_append_conv_if append_take_drop_id not_less)
      with u' show thesis using after [of "drop (length redacted) u'"] by simp
    qed
  qed
  then show ?thesis
  proof cases
    case inside
    then have "w @ v = u' @ CHR ''['' # (''REDACTED'' @ [CHR '']'']) @ out"
      using assms(1) by (simp add: redacted_ends)
    from before_character [OF this assms(3)] obtain a' where "u' = w @ a'" by blast
    then have "A = u @ w @ a'" using inside by simp
    then show ?thesis unfolding occurs_def by blast
  next
    case mid
    then have e: "redacted @ out = u' @ w @ v" using assms(1) by simp
    then have r: "redacted = u' @ drop (length u') redacted"
      using mid(2) by (metis append_eq_append_conv_if less_imp_le append_take_drop_id)
    have "drop (length u') redacted = butlast (drop (length u') redacted) @ [CHR '']'']"
      using mid(2) append_butlast_last_id [of "drop (length u') redacted"]
      by (simp add: last_drop) (simp add: redacted_ends)
    then have "w @ v = butlast (drop (length u') redacted) @ CHR '']'' # out"
      using e r by (metis append.assoc append_Cons append_Nil same_append_eq)
    from before_character [OF this assms(4)] obtain a' where "butlast (drop (length u') redacted) = w @ a'" by blast
    then have "redacted = u' @ w @ a' @ [CHR '']'']"
      using r \<open>drop (length u') redacted = butlast (drop (length u') redacted) @ [CHR '']'']\<close> by simp
    then show ?thesis unfolding occurs_def by blast
  next
    case after
    then show ?thesis using assms(1) by auto
  qed
qed

lemma sub_occurs:
  "i \<le> length s \<Longrightarrow> sub_from k d s i = u @ w @ v \<Longrightarrow> w \<noteq> [] \<Longrightarrow> CHR ''['' \<notin> set w \<Longrightarrow> CHR '']'' \<notin> set w \<Longrightarrow>
   occurs w s \<or> occurs w redacted"
proof (induction "length s - i" arbitrary: i u rule: less_induct)
  case less
  from less.prems(1) show ?case
  proof (cases rule: sub_from_step [where k = k and d = d])
    case stop
    with less.prems show ?thesis by simp
  next
    case copy
    show ?thesis
    proof (cases u)
      case Nil
      with less.prems sub_prefix [of i s k d w v] show ?thesis by (auto dest: occurs_drop)
    next
      case (Cons c u')
      then show ?thesis
        using copy less.prems by (intro less.hyps [of "i + 1" u']) auto
    qed
  next
    case (replace j e)
    from occurs_in_replacement [OF _ less.prems(3,4,5), of "slice s i j" "sub_from k d s e" u v] show ?thesis
      using replace less.prems less.hyps [of e] occurs_slice [of w s i j] by auto
  qed
qed

text \<open>
  After a substitution that keeps nothing, the pattern itself occurs nowhere, unless in the
  replacement.
\<close>

definition token_pattern :: "regex \<Rightarrow> bool" where
  "token_pattern d \<longleftrightarrow>
     no_boundary d \<and>
     (\<forall>w. accepts d w \<longrightarrow> w \<noteq> [] \<and> CHR ''['' \<notin> set w \<and> CHR '']'' \<notin> set w \<and> \<not> occurs w redacted)"

definition holds_no :: "regex \<Rightarrow> string \<Rightarrow> bool" where
  "holds_no d s \<longleftrightarrow> (\<forall>w. occurs w s \<longrightarrow> \<not> accepts d w)"

lemma sub_removes_prefix:
  assumes "token_pattern d" and "accepts d w" and "i \<le> length s"
  shows "sub_from Empty d s i \<noteq> w @ v"
proof
  assume out: "sub_from Empty d s i = w @ v"
  have w: "w \<noteq> []" "CHR ''['' \<notin> set w" "no_boundary d"
    using assms(1,2) by (auto simp: token_pattern_def)
  obtain rest where r: "drop i s = w @ rest"
    using sub_prefix [OF assms(3) out w(2)] by blast
  from assms(3) show False
  proof (cases rule: sub_from_step [where k = Empty and d = d])
    case stop
    with out w show False by simp
  next
    case copy
    have "first_match Empty d s i \<noteq> None"
      using nothing_found_iff [OF w(3) assms(3)] r assms(2) by blast
    then obtain j where "first_match Empty d s i = Some (j, i)"
      using copy(2) by auto
    then have "i \<in> set (ends d s i)"
      by (auto simp: first_match_Empty split: list.splits)
    from ends_sound [OF this w(3) assms(3)] have "accepts d (slice s i i)" .
    then show False
      using assms(1) by (auto simp: token_pattern_def slice_def)
  next
    case (replace j e)
    then have "j = i"
      by (auto simp: first_match_Empty split: list.splits)
    with replace(6) out have "CHR ''['' = hd (w @ v)"
      by (simp add: slice_def redacted_ends)
    with w show False by (cases w) auto
  qed
qed

lemma sub_removes:
  assumes "token_pattern d" and "accepts d w"
  shows "i \<le> length s \<Longrightarrow> sub_from Empty d s i \<noteq> u @ w @ v"
proof (induction "length s - i" arbitrary: i u rule: less_induct)
  case less
  show ?case
  proof
    assume out: "sub_from Empty d s i = u @ w @ v"
    have w: "w \<noteq> []" "CHR ''['' \<notin> set w" "CHR '']'' \<notin> set w" "\<not> occurs w redacted"
      using assms by (auto simp: token_pattern_def)
    from less.prems show False
    proof (cases rule: sub_from_step [where k = Empty and d = d])
      case stop
      with out w show False by simp
    next
      case copy
      have "sub_from Empty d s (i + 1) \<noteq> tl u @ w @ v"
        using copy(1) by (intro less.hyps) simp_all
      then show False
        using out copy(3) sub_removes_prefix [OF assms less.prems, of v] by (cases u) simp_all
    next
      case (replace j e)
      then have "j = i"
        by (auto simp: first_match_Empty split: list.splits)
      then have "slice s i i @ redacted @ sub_from Empty d s e = u @ w @ v"
        using replace out by simp
      then have "[] @ redacted @ sub_from Empty d s e = u @ w @ v"
        by (simp add: slice_def)
      from occurs_in_replacement [OF this w(1-3)] w(1,4)
      have "\<exists>u'. sub_from Empty d s e = u' @ w @ v"
        by (simp add: occurs_def)
      then obtain u' where "sub_from Empty d s e = u' @ w @ v" ..
      then show False
        using less.hyps [of e u'] replace by simp
    qed
  qed
qed

lemma holds_no_sub:
  assumes "token_pattern d" and "holds_no d s"
  shows "holds_no d (sub_from k' d' s 0)"
  unfolding holds_no_def
proof (intro allI impI)
  fix w
  assume "occurs w (sub_from k' d' s 0)"
  then obtain u v where "sub_from k' d' s 0 = u @ w @ v" unfolding occurs_def by blast
  from sub_occurs [OF _ this] have "occurs w s \<or> occurs w redacted" if "accepts d w"
    using assms(1) that by (auto simp: token_pattern_def)
  then show "\<not> accepts d w"
    using assms by (auto simp: token_pattern_def holds_no_def)
qed

lemma holds_no_after: "token_pattern d \<Longrightarrow> holds_no d (sub_from Empty d s 0)"
  unfolding holds_no_def occurs_def using sub_removes by (metis le0)

lemma holds_no_found: "token_pattern d \<Longrightarrow> holds_no d s \<Longrightarrow> i \<le> length s \<Longrightarrow> first_match Empty d s i = None"
  using nothing_found_iff [of d i s] occurs_drop by (auto simp: token_pattern_def holds_no_def)

lemma occurs_chars: "occurs w s \<Longrightarrow> set w \<subseteq> set s"
  by (auto simp: occurs_def)

lemma token_patternI:
  assumes "no_boundary d" and "CHR ''['' \<notin> chars_of d" and "CHR '']'' \<notin> chars_of d"
    and "\<And>w. accepts d w \<Longrightarrow> \<exists>c \<in> set w. c \<notin> set redacted"
  shows "token_pattern d"
  unfolding token_pattern_def
proof (intro conjI allI impI)
  fix w
  assume a: "accepts d w"
  from assms(4) [OF this] show "w \<noteq> []" by auto
  from accepts_chars [OF a] assms(2,3) show "CHR ''['' \<notin> set w" "CHR '']'' \<notin> set w" by auto
  show "\<not> occurs w redacted"
    using assms(4) [OF a] occurs_chars [of w redacted] by auto
qed (rule assms(1))

lemma lower_char_dot: "lower_char c = lower_char CHR ''.'' \<Longrightarrow> c \<notin> set redacted"
proof -
  have "\<forall>c \<in> set redacted. lower_char c \<noteq> lower_char CHR ''.''" by code_simp
  then show "lower_char c = lower_char CHR ''.'' \<Longrightarrow> c \<notin> set redacted" by blast
qed

lemma space_not_redacted: "is_space c \<Longrightarrow> c \<notin> set redacted"
proof -
  have "\<forall>c \<in> set redacted. \<not> is_space c" by code_simp
  then show "is_space c \<Longrightarrow> c \<notin> set redacted" by blast
qed

lemma brackets_not_in_patterns:
  "CHR ''['' \<notin> chars_of jwt_pattern" "CHR '']'' \<notin> chars_of jwt_pattern"
  "CHR ''['' \<notin> chars_of bearer_pattern" "CHR '']'' \<notin> chars_of bearer_pattern"
  "CHR ''['' \<notin> chars_of basic_pattern" "CHR '']'' \<notin> chars_of basic_pattern"
  by (simp_all add: jwt_pattern_def bearer_pattern_def basic_pattern_def plus_def base64url_char_def)
    code_simp+

lemma token_patterns:
  "token_pattern jwt_pattern" "token_pattern bearer_pattern" "token_pattern basic_pattern"
proof -
  show "token_pattern jwt_pattern"
    by (rule token_patternI)
      (auto simp: brackets_not_in_patterns, auto simp: jwt_pattern_def plus_def dest: lower_char_dot)
  show "token_pattern bearer_pattern"
    by (rule token_patternI)
      (auto simp: brackets_not_in_patterns, auto simp: bearer_pattern_def plus_def dest: space_not_redacted)
  show "token_pattern basic_pattern"
    by (rule token_patternI)
      (auto simp: brackets_not_in_patterns, auto simp: basic_pattern_def plus_def dest: space_not_redacted)
qed

lemma nothing_beyond:
  assumes "length s < i"
  shows "first_match Empty jwt_pattern s i = None" "first_match Empty bearer_pattern s i = None"
    "first_match Empty basic_pattern s i = None"
  using assms
  by (simp_all add: first_match_Empty jwt_pattern_def bearer_pattern_def basic_pattern_def)

text \<open>
  C36: in a redacted string none of the JWT, \<open>Bearer\<close> and \<open>Basic\<close> patterns matches at any position.
\<close>

theorem redact_leaves_no_token:
  "first_match Empty jwt_pattern (redact s) i = None \<and>
   first_match Empty bearer_pattern (redact s) i = None \<and>
   first_match Empty basic_pattern (redact s) i = None"
proof (cases "i \<le> length (redact s)")
  case True
  have "holds_no jwt_pattern (redact s)" "holds_no bearer_pattern (redact s)" "holds_no basic_pattern (redact s)"
    unfolding redact_def Let_def
    by (intro holds_no_sub holds_no_after token_patterns)+
  with True show ?thesis by (simp add: holds_no_found token_patterns)
qed (simp add: nothing_beyond)

text \<open>
  A secret that follows \<open>Bearer token:\<close> is not redacted: the second pattern replaces the words
  \<open>Bearer token\<close>, and the last one then finds no key word before the colon; without \<open>Bearer\<close> the same
  text is redacted.
\<close>

lemma bearer_label_hides_key_word:
  "redact ''Bearer token:x1'' = ''[REDACTED]:x1'' \<and> redact ''token:x1'' = ''token:[REDACTED]''"
proof
  show "redact ''Bearer token:x1'' = ''[REDACTED]:x1''" by code_simp
  show "redact ''token:x1'' = ''token:[REDACTED]''" by code_simp
qed

subsection \<open>Dictionaries\<close>

text \<open>No sensitive key has a value, at any depth, and every string went through \<open>redact\<close>.\<close>

fun clean :: "value \<Rightarrow> bool" where
  "clean (VDict d) \<longleftrightarrow> (\<forall>kv \<in> set d. (is_sensitive_key (fst kv) \<longrightarrow> snd kv = VStr redacted) \<and> clean (snd kv))"
| "clean (VList vs) \<longleftrightarrow> (\<forall>v \<in> set vs. clean v)"
| "clean (VTuple vs) \<longleftrightarrow> False"
| "clean (VStr s) \<longleftrightarrow> s = redacted \<or> (\<exists>t. s = redact t)"
| "clean _ \<longleftrightarrow> True"

fun nesting :: "value \<Rightarrow> nat" where
  "nesting (VDict d) = Suc (Max (insert 0 (nesting ` snd ` set d)))"
| "nesting (VList vs) = Suc (Max (insert 0 (nesting ` set vs)))"
| "nesting (VTuple vs) = Suc (Max (insert 0 (nesting ` set vs)))"
| "nesting _ = 0"

definition redact_value :: "bool \<Rightarrow> nat \<Rightarrow> value \<Rightarrow> value" where
  "redact_value deep depth v =
     (case v of
        VDict d \<Rightarrow> if deep then VDict (redact_dict deep (depth + 1) d) else v
      | VList vs \<Rightarrow> if deep then VList (redact_list (depth + 1) vs) else v
      | VTuple vs \<Rightarrow> if deep then VList (redact_list (depth + 1) vs) else v
      | VStr s \<Rightarrow> VStr (redact s)
      | _ \<Rightarrow> if deep \<and> max_redaction_depth \<le> depth then VStr redacted else v)"

lemma redact_dict_eq:
  "\<not> max_redaction_depth < depth \<Longrightarrow> redact_dict deep depth data =
     map (\<lambda>(k, v). (k, if is_sensitive_key k then VStr redacted else redact_value deep depth v)) data"
  by (subst redact_dict.simps, unfold redact_value_def, simp only: if_False)

lemma redact_list_eq:
  "\<not> max_redaction_depth < depth \<Longrightarrow> redact_list depth items = map (redact_value True depth) items"
  by (subst redact_list.simps, unfold redact_value_def, simp only: if_False if_True simp_thms)

lemma redact_deep:
  "max_redaction_depth < depth \<Longrightarrow> redact_dict deep depth data = [(''redacted'', VStr redacted)]"
  "max_redaction_depth < depth \<Longrightarrow> redact_list depth items = [VStr redacted]"
  by (simp_all add: redact_dict.simps redact_list.simps)

lemma redact_clean:
  "deep \<Longrightarrow> clean (VDict (redact_dict deep depth data))"
  "clean (VList (redact_list depth items))"
proof (induction deep depth data and depth items rule: redact_dict_redact_list.induct)
  case (1 deep depth data)
  show ?case
  proof (cases "max_redaction_depth < depth")
    case False
    have "clean (redact_value deep depth v)" if "(k, v) \<in> set data" "\<not> is_sensitive_key k" for k v
      using 1 that False by (cases v) (simp_all add: redact_value_def del: clean.simps(1,2), auto)
    then show ?thesis
      using False by (auto simp: redact_dict_eq)
  qed (simp add: redact_deep)
next
  case (2 depth items)
  show ?case
  proof (cases "max_redaction_depth < depth")
    case False
    have "clean (redact_value True depth v)" if "v \<in> set items" for v
      using 2 that False by (cases v) (simp_all add: redact_value_def del: clean.simps(1,2), auto)
    then show ?thesis
      using False by (auto simp: redact_list_eq)
  qed (simp add: redact_deep)
qed

text \<open>
  In a redacted dictionary, at every depth, the value of a sensitive key is \<open>[REDACTED]\<close>, every
  other string is the result of \<open>redact\<close>, and the top-level keys are those of the input.
\<close>

lemma redact_dict_safe:
  "clean (VDict (redact_dict True 0 data)) \<and> map fst (redact_dict True 0 data) = map fst data"
  using redact_clean(1) [of True 0 data]
  by (auto simp: redact_dict_eq max_redaction_depth_def)

end
