(* ===== verification/Contracts.thy ===== *)
theory Contracts
  imports Registries
begin

section \<open>The built-in dataset contracts\<close>

text \<open>
  The contracts of \<open>vnstock/core/contracts\<close> and the registry \<open>CONTRACT_REGISTRY\<close> that
  \<open>contracts/__init__.py\<close> fills with them.
\<close>

subsection \<open>\<open>contracts/equity.py\<close>\<close>

definition ohlcv_contract :: dataset_contract where
  "ohlcv_contract =
     \<lparr>dc_dataset = ''equity.ohlcv'',
      dc_required_columns =
        [''symbol'', ''time'', ''open'', ''high'', ''low'', ''close'', ''volume''],
      dc_optional_columns =
        [''value'', ''provider'', ''fetched_at'', ''adjusted''],
      dc_dtype_rules =
        [(''symbol'', ''string''), (''time'', ''datetime64[ns]''), (''open'', ''float64''), (''high'',
         ''float64''), (''low'', ''float64''), (''close'', ''float64''), (''volume'', ''float64'')],
      dc_time_column = Some ''time'', dc_symbol_column = Some ''symbol'', dc_validator = Some ''ohlcv'',
      dc_description = Some ''Daily or intraday OHLCV bars for equity instruments.''\<rparr>"

definition quote_contract :: dataset_contract where
  "quote_contract =
     \<lparr>dc_dataset = ''equity.quote'',
      dc_required_columns =
        [''symbol'', ''close_price'', ''volume_accumulated''],
      dc_optional_columns =
        [''open_price'', ''high_price'', ''low_price'', ''reference_price'', ''ceiling_price'',
         ''floor_price'', ''buy_volume'', ''sell_volume'', ''foreign_buy_volume'', ''foreign_sell_volume'',
         ''fetched_at'', ''provider''],
      dc_dtype_rules =
        [(''symbol'', ''string''), (''close_price'', ''float64''), (''volume_accumulated'', ''float64'')],
      dc_time_column = None, dc_symbol_column = Some ''symbol'', dc_validator = Some ''price_board'',
      dc_description = Some ''Real-time or delayed price board snapshot for equities.''\<rparr>"

definition intraday_trades_contract :: dataset_contract where
  "intraday_trades_contract =
     \<lparr>dc_dataset = ''equity.intraday_trades'',
      dc_required_columns =
        [''symbol'', ''time'', ''price'', ''volume'', ''match_type''],
      dc_optional_columns =
        [''value'', ''sequence'', ''fetched_at'', ''provider''],
      dc_dtype_rules =
        [(''symbol'', ''string''), (''time'', ''datetime64[ns]''), (''price'', ''float64''), (''volume'',
         ''float64''), (''match_type'', ''string'')],
      dc_time_column = Some ''time'', dc_symbol_column = Some ''symbol'', dc_validator = Some ''intraday_trades'',
      dc_description = Some ''Intraday tick-by-tick trade records for equity instruments.''\<rparr>"

subsection \<open>\<open>contracts/index.py\<close>\<close>

definition index_ohlcv_contract :: dataset_contract where
  "index_ohlcv_contract =
     \<lparr>dc_dataset = ''index.ohlcv'',
      dc_required_columns =
        [''symbol'', ''time'', ''open'', ''high'', ''low'', ''close'', ''volume''],
      dc_optional_columns =
        [''value'', ''provider'', ''fetched_at''],
      dc_dtype_rules =
        [(''symbol'', ''string''), (''time'', ''datetime64[ns]''), (''open'', ''float64''), (''high'',
         ''float64''), (''low'', ''float64''), (''close'', ''float64''), (''volume'', ''float64'')],
      dc_time_column = Some ''time'', dc_symbol_column = Some ''symbol'', dc_validator = Some ''ohlcv'',
      dc_description = Some ''OHLCV bars for market index instruments (e.g. VN-Index, HNX-Index).''\<rparr>"

subsection \<open>\<open>contracts/reference.py\<close>\<close>

definition symbols_contract :: dataset_contract where
  "symbols_contract =
     \<lparr>dc_dataset = ''reference.symbols'',
      dc_required_columns =
        [''symbol'', ''exchange''],
      dc_optional_columns =
        [''short_name'', ''full_name'', ''industry'', ''industry_code'', ''company_type'',
         ''listing_date'', ''fetched_at'', ''provider''],
      dc_dtype_rules =
        [(''symbol'', ''string''), (''exchange'', ''string'')],
      dc_time_column = None, dc_symbol_column = Some ''symbol'', dc_validator = None,
      dc_description = Some ''Master symbol listing including exchange and sector classification.''\<rparr>"

definition company_info_contract :: dataset_contract where
  "company_info_contract =
     \<lparr>dc_dataset = ''reference.company_info'',
      dc_required_columns =
        [''symbol'', ''exchange''],
      dc_optional_columns =
        [''short_name'', ''full_name'', ''website'', ''industry'', ''industry_code'', ''company_type'',
         ''established_year'', ''employees'', ''foreign_percent'', ''outstanding_share'', ''issue_share'',
         ''stock_rating'', ''fetched_at'', ''provider''],
      dc_dtype_rules =
        [(''symbol'', ''string''), (''exchange'', ''string'')],
      dc_time_column = None, dc_symbol_column = Some ''symbol'', dc_validator = None,
      dc_description = Some ''Company profile and fundamental overview data.''\<rparr>"

definition index_membership_snapshot_contract :: dataset_contract where
  "index_membership_snapshot_contract =
     \<lparr>dc_dataset = ''reference.index_membership_snapshot'',
      dc_required_columns =
        [''entity_id'', ''member_symbol'', ''observed_at''],
      dc_optional_columns =
        [],
      dc_dtype_rules =
        [(''entity_id'', ''string''), (''member_symbol'', ''string''), (''observed_at'', ''datetime64[ns,
         UTC]'')],
      dc_time_column = Some ''observed_at'', dc_symbol_column = Some ''member_symbol'', dc_validator = None,
      dc_description = Some ''Observed current membership snapshot for a market index.''\<rparr>"

definition sector_membership_snapshot_contract :: dataset_contract where
  "sector_membership_snapshot_contract =
     \<lparr>dc_dataset = ''reference.sector_membership_snapshot'',
      dc_required_columns =
        [''entity_id'', ''member_symbol'', ''observed_at''],
      dc_optional_columns =
        [],
      dc_dtype_rules =
        [(''entity_id'', ''string''), (''member_symbol'', ''string''), (''observed_at'', ''datetime64[ns,
         UTC]'')],
      dc_time_column = Some ''observed_at'', dc_symbol_column = Some ''member_symbol'', dc_validator = None,
      dc_description = Some ''Observed current membership snapshot for an ICB sector query.''\<rparr>"

subsection \<open>\<open>contracts/fundamental.py\<close>\<close>

definition balance_sheet_contract :: dataset_contract where
  "balance_sheet_contract =
     \<lparr>dc_dataset = ''fundamental.balance_sheet'',
      dc_required_columns =
        [''symbol'', ''year'', ''period_type''],
      dc_optional_columns =
        [''quarter'', ''total_assets'', ''total_liabilities'', ''equity'', ''cash_and_equivalents'',
         ''short_term_investments'', ''receivables'', ''inventories'', ''fixed_assets'', ''fetched_at'',
         ''provider''],
      dc_dtype_rules =
        [(''symbol'', ''string''), (''year'', ''int64''), (''period_type'', ''string'')],
      dc_time_column = None, dc_symbol_column = Some ''symbol'', dc_validator = None,
      dc_description = Some ''Periodic balance sheet data for listed companies.''\<rparr>"

definition income_statement_contract :: dataset_contract where
  "income_statement_contract =
     \<lparr>dc_dataset = ''fundamental.income_statement'',
      dc_required_columns =
        [''symbol'', ''year'', ''period_type''],
      dc_optional_columns =
        [''quarter'', ''net_revenue'', ''gross_profit'', ''operating_income'', ''net_income'', ''ebitda'',
         ''eps'', ''fetched_at'', ''provider''],
      dc_dtype_rules =
        [(''symbol'', ''string''), (''year'', ''int64''), (''period_type'', ''string'')],
      dc_time_column = None, dc_symbol_column = Some ''symbol'', dc_validator = None,
      dc_description = Some ''Periodic income statement data for listed companies.''\<rparr>"

definition cash_flow_contract :: dataset_contract where
  "cash_flow_contract =
     \<lparr>dc_dataset = ''fundamental.cash_flow'',
      dc_required_columns =
        [''symbol'', ''year'', ''period_type''],
      dc_optional_columns =
        [''quarter'', ''operating_cash_flow'', ''investing_cash_flow'', ''financing_cash_flow'',
         ''net_cash_change'', ''capex'', ''free_cash_flow'', ''fetched_at'', ''provider''],
      dc_dtype_rules =
        [(''symbol'', ''string''), (''year'', ''int64''), (''period_type'', ''string'')],
      dc_time_column = None, dc_symbol_column = Some ''symbol'', dc_validator = None,
      dc_description = Some ''Periodic cash flow statement data for listed companies.''\<rparr>"

definition financial_ratio_contract :: dataset_contract where
  "financial_ratio_contract =
     \<lparr>dc_dataset = ''fundamental.financial_ratio'',
      dc_required_columns =
        [''symbol'', ''year'', ''period_type''],
      dc_optional_columns =
        [''quarter'', ''pe'', ''pb'', ''roe'', ''roa'', ''debt_to_equity'', ''current_ratio'',
         ''gross_margin'', ''net_margin'', ''fetched_at'', ''provider''],
      dc_dtype_rules =
        [(''symbol'', ''string''), (''year'', ''int64''), (''period_type'', ''string'')],
      dc_time_column = None, dc_symbol_column = Some ''symbol'', dc_validator = None,
      dc_description = Some ''Periodic financial ratios for listed companies.''\<rparr>"

subsection \<open>\<open>contracts/fund.py\<close>\<close>

definition fund_nav_contract :: dataset_contract where
  "fund_nav_contract =
     \<lparr>dc_dataset = ''fund.nav'',
      dc_required_columns =
        [''symbol'', ''time'', ''nav''],
      dc_optional_columns =
        [''nav_change'', ''nav_change_pct'', ''fund_type'', ''aum'', ''fetched_at'', ''provider''],
      dc_dtype_rules =
        [(''symbol'', ''string''), (''time'', ''datetime64[ns]''), (''nav'', ''float64'')],
      dc_time_column = Some ''time'', dc_symbol_column = Some ''symbol'', dc_validator = None,
      dc_description = Some ''Net Asset Value (NAV) time series for investment funds.''\<rparr>"

subsection \<open>\<open>contracts/foreign_flow.py\<close>\<close>

definition foreign_flow_daily_contract :: dataset_contract where
  "foreign_flow_daily_contract =
     \<lparr>dc_dataset = ''foreign_flow.daily'',
      dc_required_columns =
        [''symbol'', ''time'', ''buy_volume'', ''sell_volume''],
      dc_optional_columns =
        [''buy_value'', ''sell_value'', ''net_volume'', ''net_value'', ''room_remaining'', ''fetched_at'',
         ''provider''],
      dc_dtype_rules =
        [(''symbol'', ''string''), (''time'', ''datetime64[ns]''), (''buy_volume'', ''float64''),
         (''sell_volume'', ''float64'')],
      dc_time_column = Some ''time'', dc_symbol_column = Some ''symbol'', dc_validator = None,
      dc_description = Some ''Daily foreign investor buy/sell activity for equity instruments.''\<rparr>"

subsection \<open>\<open>contracts/corporate_action.py\<close>\<close>

definition corporate_actions_contract :: dataset_contract where
  "corporate_actions_contract =
     \<lparr>dc_dataset = ''reference.corporate_actions'',
      dc_required_columns =
        [''provider_event_id'', ''symbol'', ''action_type'', ''provider'', ''source_reference'',
         ''source_version'', ''content_hash'', ''source_payload_json''],
      dc_optional_columns =
        [''announced_at'', ''ex_date'', ''record_date'', ''effective_date'', ''cash_amount'', ''ratio'',
         ''ratio_text'', ''subscription_price'', ''reference_price'', ''currency'', ''title'',
         ''quality_status''],
      dc_dtype_rules =
        [(''provider_event_id'', ''string''), (''symbol'', ''string''), (''action_type'', ''string''),
         (''provider'', ''string''), (''source_reference'', ''string''), (''source_version'', ''string''),
         (''content_hash'', ''string''), (''source_payload_json'', ''string'')],
      dc_time_column = Some ''effective_date'', dc_symbol_column = Some ''symbol'', dc_validator = None,
      dc_description = Some ''Provider-normalized corporate-action evidence. Source records remain untrusted until vnalpha canonical reconciliation succeeds.''\<rparr>"

subsection \<open>The registry\<close>

definition builtin_contracts :: "dataset_contract list" where
  "builtin_contracts =
     [ohlcv_contract, quote_contract, intraday_trades_contract, index_ohlcv_contract, symbols_contract,
      company_info_contract, index_membership_snapshot_contract, sector_membership_snapshot_contract,
      balance_sheet_contract, income_statement_contract, cash_flow_contract, financial_ratio_contract,
      fund_nav_contract, foreign_flow_daily_contract, corporate_actions_contract]"

fun register_contracts :: "dataset_contract list \<Rightarrow> contract_registry \<Rightarrow> string + contract_registry" where
  "register_contracts [] reg = Inr reg"
| "register_contracts (c # cs) reg = res_bind (contract_register c reg) (register_contracts cs)"

definition default_contract_registry :: "string + contract_registry" where
  "default_contract_registry = register_contracts builtin_contracts []"

text \<open>The columns a contract talks about are columns it lists, and lists once.\<close>

definition contract_ok :: "dataset_contract \<Rightarrow> bool" where
  "contract_ok c \<longleftrightarrow>
     distinct (dc_required_columns c @ dc_optional_columns c) \<and>
     distinct (map fst (dc_dtype_rules c)) \<and>
     list_all (\<lambda>(col, _). List.member (dc_required_columns c) col) (dc_dtype_rules c) \<and>
     (case dc_time_column c of None \<Rightarrow> True
      | Some t \<Rightarrow> List.member (dc_required_columns c @ dc_optional_columns c) t) \<and>
     (case dc_symbol_column c of None \<Rightarrow> True | Some s \<Rightarrow> List.member (dc_required_columns c) s) \<and>
     (case dc_validator c of None \<Rightarrow> True
      | Some v \<Rightarrow> List.member [''ohlcv'', ''price_board'', ''intraday_trades''] v)"

lemma register_contracts_new:
  "distinct (map fst reg @ map dc_dataset cs) \<Longrightarrow>
   register_contracts cs reg = Inr (reg @ map (\<lambda>c. (dc_dataset c, c)) cs)"
proof (induction cs arbitrary: reg)
  case (Cons c cs)
  have "map_of reg (dc_dataset c) = None"
    using Cons.prems by (auto simp: map_of_eq_None_iff)
  then have "contract_register c reg = Inr (reg @ [(dc_dataset c, c)])"
    by (simp add: contract_register_def dict_set_new)
  with Cons show ?case by simp
qed simp

lemma builtin_datasets_distinct: "distinct (map dc_dataset builtin_contracts)"
  by code_simp

lemma builtin_contracts_ok: "list_all contract_ok builtin_contracts"
  by code_simp

lemma priority_datasets_have_contracts:
  "list_all (\<lambda>d. List.member (map dc_dataset builtin_contracts) d)
     [''equity.ohlcv'', ''index.ohlcv'', ''equity.quote'', ''equity.intraday_trades'', ''reference.symbols'',
      ''reference.company_info'', ''fundamental.balance_sheet'', ''fundamental.income_statement'',
      ''fundamental.cash_flow'', ''fundamental.financial_ratio'', ''fund.nav'']"
  by code_simp

text \<open>
  The registry of the built-in contracts is filled without a clash, every contract is found under
  its name, and every contract is consistent: its columns are listed once, its dtype rules, time column and symbol
  column name listed columns, and its validator is a registered one.
\<close>

lemma builtin_registry_complete:
  "\<exists>reg. default_contract_registry = Inr reg \<and>
     list_all (\<lambda>c. contract_get (dc_dataset c) reg = Inr c \<and> contract_ok c) builtin_contracts \<and>
     contract_names reg = sort (map dc_dataset builtin_contracts)"
proof -
  let ?reg = "map (\<lambda>c. (dc_dataset c, c)) builtin_contracts"
  have "default_contract_registry = Inr ?reg"
    unfolding default_contract_registry_def
    using register_contracts_new [of "[]" builtin_contracts] builtin_datasets_distinct by simp
  moreover have "contract_get (dc_dataset c) ?reg = Inr c" if "c \<in> set builtin_contracts" for c
  proof -
    have "distinct (map fst ?reg)"
      using builtin_datasets_distinct by (simp add: comp_def)
    then have "map_of ?reg (dc_dataset c) = Some c"
      using that by (intro map_of_is_SomeI) auto
    then show ?thesis by (simp add: contract_get_def)
  qed
  moreover have "contract_names ?reg = sort (map dc_dataset builtin_contracts)"
    by (simp add: contract_names_def comp_def)
  ultimately show ?thesis
    using builtin_contracts_ok by (intro exI [of _ ?reg]) (auto simp: list_all_iff)
qed

end
