(* ===== verification/Runtime.thy ===== *)
theory Runtime
  imports Router Redaction
begin

section \<open>The plugin runtime\<close>

text \<open>
  \<open>runtime/request.py\<close>, \<open>runtime/plugin_runtime.py\<close> and \<open>core/result.py\<close>: one fetch from the request
  to the result, with the health recordings on every way out.

  What a provider does is the record \<open>providers\<close>: its parameter check, its fetch, its
  diagnostics.  A data frame is its columns, its number of rows and its \<open>attrs\<close>; a column is what
  pandas answers about it.  The quality validators are the function \<open>pv_quality\<close>, the
  \<open>str\<close> of a parameter is \<open>pv_text\<close>.  The clock readings of a fetch are the record \<open>clock\<close>, in
  microseconds.
\<close>

subsection \<open>Requests\<close>

record dataset_request =
  rq_dataset :: string
  rq_params :: "(string \<times> value) list"
  rq_source :: "string option"
  rq_validate :: bool
  rq_quality_mode :: string
  rq_return_result :: bool

datatype request_error = EmptyDataset | UndottedDataset string | BadQualityMode string

definition check_request :: "dataset_request \<Rightarrow> request_error + dataset_request" where
  "check_request rq =
     (if rq_dataset rq = '''' then Inl EmptyDataset
      else if CHR ''.'' \<notin> set (rq_dataset rq) then Inl (UndottedDataset (rq_dataset rq))
      else if rq_quality_mode rq \<notin> {''off'', ''warn'', ''strict''} then Inl (BadQualityMode (rq_quality_mode rq))
      else Inr rq)"

subsection \<open>Data frames and results\<close>

record series =
  se_dtype :: string
  se_is_object :: bool
  se_all_str :: bool
  se_is_string :: bool
  se_is_numeric :: bool
  se_is_bool :: bool
  se_is_integer :: bool
  se_is_datetime :: bool
  se_timezone :: "string option"
  se_equals :: "string \<Rightarrow> bool"

record frame =
  fr_columns :: "(string \<times> series) list"
  fr_rows :: nat
  fr_attrs :: "(string \<times> value) list"

definition frame_empty :: "frame \<Rightarrow> bool" where
  "frame_empty df \<longleftrightarrow> fr_rows df = 0 \<or> fr_columns df = []"

record data_result =
  dr_dataset :: string
  dr_provider :: string
  dr_data :: frame
  dr_quality_status :: "string option"
  dr_quality_report :: "(string \<times> value) list option"
  dr_diagnostics :: "(string \<times> value) list"
  dr_fetched_at :: "int option"
  dr_ingestion_run_id :: "string option"

definition to_dataframe :: "data_result \<Rightarrow> frame" where
  "to_dataframe r = (dr_data r)\<lparr>fr_attrs :=
     dict_set ''ingestion_run_id'' (opt_value VStr (dr_ingestion_run_id r))
     (dict_set ''fetched_at'' (opt_value VTime (dr_fetched_at r))
     (dict_set ''diagnostics'' (VDict (dr_diagnostics r))
     (dict_set ''quality'' (opt_value VDict (dr_quality_report r))
     (dict_set ''quality_status'' (opt_value VStr (dr_quality_status r))
     (dict_set ''provider'' (VStr (dr_provider r))
     (dict_set ''dataset'' (VStr (dr_dataset r)) (fr_attrs (dr_data r))))))))\<rparr>"

subsection \<open>Providers\<close>

datatype params_check = Params_Ok | Params_Value_Error | Params_Raises string

text \<open>A raised platform error comes with its \<open>kind\<close> attribute, if it has one.\<close>

datatype fetch_outcome = Fetched frame | Platform_Raised platform_error "string option" | Other_Raised string

record providers =
  pv_validate_params :: "plugin \<Rightarrow> string \<Rightarrow> (string \<times> value) list \<Rightarrow> params_check"
  pv_fetch :: "plugin \<Rightarrow> string \<Rightarrow> (string \<times> value) list \<Rightarrow> fetch_outcome"
  pv_diagnostics :: "plugin \<Rightarrow> string + (string \<times> value) list"
  pv_quality :: "frame \<Rightarrow> string \<Rightarrow> string \<Rightarrow> string option \<Rightarrow> string option \<Rightarrow> string + (string \<times> string) list"
  pv_text :: "value \<Rightarrow> string"

record clock =
  ck_resolve :: int
  ck_latency :: int
  ck_record :: int
  ck_fetched :: int

subsection \<open>Python's text of a string and of a list of strings\<close>

definition hex_digit :: "nat \<Rightarrow> char" where
  "hex_digit n = ''0123456789abcdef'' ! n"

definition repr_char :: "char \<Rightarrow> char \<Rightarrow> string" where
  "repr_char q c =
     (if c = q \<or> c = CHR 0x5C then [CHR 0x5C, c]
      else if c = CHR 0x0A then [CHR 0x5C, CHR ''n'']
      else if c = CHR 0x0D then [CHR 0x5C, CHR ''r'']
      else if c = CHR 0x09 then [CHR 0x5C, CHR ''t'']
      else if char_code c < 32 \<or> char_code c = 127
      then [CHR 0x5C, CHR ''x'', hex_digit (char_code c div 16), hex_digit (char_code c mod 16)]
      else [c])"

definition py_repr :: "string \<Rightarrow> string" where
  "py_repr s =
     (let q = (if CHR 0x27 \<in> set s \<and> CHR 0x22 \<notin> set s then CHR 0x22 else CHR 0x27) in
      q # concat (map (repr_char q) s) @ [q])"

fun comma_join :: "string list \<Rightarrow> string" where
  "comma_join [] = []"
| "comma_join [s] = s"
| "comma_join (s # ss) = s @ '', '' @ comma_join ss"

definition py_repr_list :: "string list \<Rightarrow> string" where
  "py_repr_list ss = ''['' @ comma_join (map py_repr ss) @ '']''"

subsection \<open>Failure kinds and health\<close>

definition non_health_failure_kinds :: "string list" where
  "non_health_failure_kinds =
     [''not_installed'', ''untested_version'', ''license_not_acknowledged'', ''credentials_missing'',
      ''authentication'', ''entitlement'', ''quota'', ''invalid_request'']"

definition cooldown_failure_kinds :: "string list" where
  "cooldown_failure_kinds = [''rate_limit'', ''concurrency'', ''transient'']"

definition failure_kind :: "string option \<Rightarrow> string option" where
  "failure_kind kind =
     (case kind of None \<Rightarrow> None
      | Some raw \<Rightarrow> (let normalized = lower (strip raw) in if normalized = '''' then None else Some normalized))"

definition record_failure_for_exception ::
  "string \<Rightarrow> string \<Rightarrow> string option \<Rightarrow> int \<Rightarrow> router \<Rightarrow> router" where
  "record_failure_for_exception provider dataset raw now rt =
     (case failure_kind raw of
        None \<Rightarrow>
          router_record_failure rt provider dataset
            (Some (''ProviderFetchError in runtime for dataset '' @ quoted dataset)) None None now
      | Some kind \<Rightarrow>
          if kind \<in> set non_health_failure_kinds then rt
          else if kind \<in> set cooldown_failure_kinds then
            router_record_failure rt provider dataset (Some (''typed_provider_failure:'' @ kind))
              (Some 1) (Some 30000000) now
          else
            router_record_failure rt provider dataset (Some (''typed_provider_failure:'' @ kind)) None None now)"

subsection \<open>Contract validation\<close>

definition dtype_matches :: "series \<Rightarrow> string \<Rightarrow> bool" where
  "dtype_matches s expected =
     (if expected = ''string'' then (if se_is_object s then se_all_str s else se_is_string s)
      else if expected = ''float64'' then se_is_numeric s \<and> \<not> se_is_bool s
      else if expected = ''int64'' then se_is_integer s \<and> \<not> se_is_bool s
      else if expected = ''datetime64[ns]'' then se_is_datetime s \<and> se_timezone s = None
      else if expected = ''datetime64[ns, UTC]''
      then (case se_timezone s of None \<Rightarrow> False | Some tz \<Rightarrow> upper tz = ''UTC'')
      else se_equals s expected)"

definition optional_text :: "(value \<Rightarrow> string) \<Rightarrow> value option \<Rightarrow> string option" where
  "optional_text text v =
     (case v of None \<Rightarrow> None
      | Some VNone \<Rightarrow> None
      | Some x \<Rightarrow> (let t = strip (text x) in if t = '''' then None else Some t))"

definition missing_columns :: "dataset_contract \<Rightarrow> frame \<Rightarrow> string list" where
  "missing_columns c df = filter (\<lambda>col. col \<notin> fst ` set (fr_columns df)) (dc_required_columns c)"

definition dtype_errors :: "dataset_contract \<Rightarrow> frame \<Rightarrow> string list" where
  "dtype_errors c df =
     concat (map (\<lambda>(col, expected).
       case map_of (fr_columns df) col of
         None \<Rightarrow> []
       | Some s \<Rightarrow>
           if dtype_matches s expected then []
           else [''Column '' @ quoted col @ '' dtype is '' @ quoted (se_dtype s) @ '', expected '' @ quoted expected])
       (dc_dtype_rules c))"

definition validate_contract ::
  "providers \<Rightarrow> contract_registry \<Rightarrow> frame \<Rightarrow> string \<Rightarrow> string \<Rightarrow> (string \<times> value) list \<Rightarrow> bool \<Rightarrow> string list" where
  "validate_contract pv contracts df dataset provider params strict =
     (case contract_get dataset contracts of
        Inl _ \<Rightarrow> if strict then [''No contract registered for dataset '' @ quoted dataset] else []
      | Inr c \<Rightarrow>
          (let missing = missing_columns c df;
               structural = (if missing = [] then [] else [''Missing required columns: '' @ py_repr_list missing])
                 @ dtype_errors c df in
           case dc_validator c of
             None \<Rightarrow> structural
           | Some key \<Rightarrow>
               if missing = [] \<and> \<not> frame_empty df then
                 (case pv_quality pv df key provider
                    (optional_text (pv_text pv) (map_of params ''symbol''))
                    (optional_text (pv_text pv) (map_of params ''interval'')) of
                    Inl message \<Rightarrow> structural @ [message]
                  | Inr issues \<Rightarrow> structural @ map (\<lambda>(code, message). code @ '': '' @ message) issues)
               else structural))"

subsection \<open>Diagnostics\<close>

definition round_latency :: "int \<Rightarrow> int" where
  "round_latency us =
     (let q = us div 10; r = us mod 10 in 10 * (if 5 < r \<or> r = 5 \<and> odd q then q + 1 else q))"

definition auth_entry :: "(string \<times> value) list \<Rightarrow> string \<Rightarrow> value" where
  "auth_entry diagnostics provider =
     (case map_of diagnostics ''auth_context'' of
        None \<Rightarrow> auth_diagnostics_to_dict (unauthenticated_diagnostics provider)
      | Some VNone \<Rightarrow> auth_diagnostics_to_dict (unauthenticated_diagnostics provider)
      | Some (VAuth c) \<Rightarrow> auth_diagnostics_to_dict (diagnostics_from_context c)
      | Some _ \<Rightarrow> VDict [(''auth_used'', VBool False), (''auth_type'', VStr ''none'')])"

definition build_diagnostics ::
  "routing_decision option \<Rightarrow> (string \<times> value) list \<Rightarrow> int \<Rightarrow> string list \<Rightarrow> string \<Rightarrow> (string \<times> value) list" where
  "build_diagnostics decision provider_diagnostics latency contract_errors provider =
     (let safe = filter (\<lambda>(k, _). \<not> is_sensitive_key k) (redact_dict True 0 provider_diagnostics) in
      (case decision of None \<Rightarrow> [] | Some d \<Rightarrow> [(''routing'', decision_to_dict d)])
      @ [(''latency_ms'', VNum (round_latency latency))]
      @ (if contract_errors = [] then [] else [(''contract_errors'', strings contract_errors)])
      @ (if safe = [] then [] else [(''provider_diagnostics'', VDict safe)])
      @ [(''auth'', auth_entry provider_diagnostics provider)])"

definition scalar :: "value \<Rightarrow> bool" where
  "scalar v = (case v of VStr _ \<Rightarrow> True | VNum _ \<Rightarrow> True | VBool _ \<Rightarrow> True | _ \<Rightarrow> False)"

definition lineage_keys :: "string list" where
  "lineage_keys = [''sdk_version'', ''contract_version'', ''source_method'', ''source_query'', ''snapshot_semantics'']"

definition policy_keys :: "string list" where
  "policy_keys = [''adjusted'', ''basis'', ''lasted'', ''mode'', ''start'', ''end'']"

definition safe_provider_lineage :: "(string \<times> value) list \<Rightarrow> (string \<times> value) list" where
  "safe_provider_lineage attrs =
     concat (map (\<lambda>k. case map_of attrs k of None \<Rightarrow> [] | Some v \<Rightarrow> if scalar v then [(k, v)] else []) lineage_keys)
     @ (case map_of attrs ''ohlcv_request_policy'' of
          Some (VDict d) \<Rightarrow>
            (let safe = filter (\<lambda>(k, v). k \<in> set policy_keys \<and> (scalar v \<or> v = VNone)) d in
             if safe = [] then [] else [(''ohlcv_request_policy'', VDict safe)])
        | _ \<Rightarrow> [])"

definition last_diagnostics :: "router \<Rightarrow> value option" where
  "last_diagnostics rt = map_option decision_to_dict (last_decision rt)"

subsection \<open>A fetch\<close>

record runtime =
  rn_router :: router
  rn_contracts :: contract_registry
  rn_path :: string

datatype runtime_error = Request_Error request_error | Platform_Error platform_error | Foreign_Error string

datatype fetched = Result data_result | Data_Frame frame

definition is_fetch_error :: "platform_error \<Rightarrow> bool" where
  "is_fetch_error e = (case e of ProviderFetchError _ _ _ \<Rightarrow> True | _ \<Rightarrow> False)"

text \<open>Everything after the fetch returned \<open>df\<close>.\<close>

definition finish_fetch ::
  "providers \<Rightarrow> clock \<Rightarrow> runtime \<Rightarrow> dataset_request \<Rightarrow> routing_decision option \<Rightarrow> plugin \<Rightarrow> bool \<Rightarrow> string \<Rightarrow>
   frame \<Rightarrow> router \<Rightarrow> (runtime_error + fetched) \<times> router" where
  "finish_fetch pv ck rn rq decision p validate quality_mode df rt =
     (let dataset = rq_dataset rq;
          errors = (if validate
            then validate_contract pv (rn_contracts rn) df dataset (pl_name p) (rq_params rq) (quality_mode = ''strict'')
            else []) in
      if errors \<noteq> [] \<and> quality_mode = ''strict'' then
        (let message = ''Contract validation failed: '' @ py_repr_list errors in
         (Inl (Platform_Error (DatasetContractError dataset message (Some (pl_name p)))),
          router_record_failure rt (pl_name p) dataset (Some message) None None (ck_record ck)))
      else
        (let rt' = router_record_success rt (pl_name p) dataset (Some (ck_latency ck)) None (ck_record ck) in
         case pv_diagnostics pv p of
           Inl raised \<Rightarrow> (Inl (Foreign_Error raised), rt')
         | Inr provider_diagnostics \<Rightarrow>
             (let lineage = safe_provider_lineage (fr_attrs df);
                  result =
                    \<lparr>dr_dataset = dataset, dr_provider = pl_name p, dr_data = df,
                     dr_quality_status =
                       (if \<not> validate then None else if errors = [] then Some ''PASS'' else Some ''FAIL''),
                     dr_quality_report = (if \<not> validate then None else Some [(''contract_errors'', strings errors)]),
                     dr_diagnostics =
                       build_diagnostics decision provider_diagnostics (ck_latency ck) errors (pl_name p)
                       @ (if lineage = [] then [] else [(''provider_lineage'', VDict lineage)])
                       @ [(''runtime_path'', VStr (rn_path rn))],
                     dr_fetched_at = Some (ck_fetched ck), dr_ingestion_run_id = None\<rparr> in
              (Inr (if rq_return_result rq then Result result else Data_Frame (to_dataframe result)), rt'))))"

definition execute_with ::
  "providers \<Rightarrow> clock \<Rightarrow> runtime \<Rightarrow> dataset_request \<Rightarrow> plugin \<Rightarrow> router \<Rightarrow> (runtime_error + fetched) \<times> router" where
  "execute_with pv ck rn rq p rt =
     (let dataset = rq_dataset rq;
          decision = rt_last_decision rt;
          fiinquantx = (upper (strip (pl_name p)) = ''FIINQUANTX'');
          validate = (rq_validate rq \<or> fiinquantx);
          quality_mode = (if fiinquantx then ''strict'' else rq_quality_mode rq) in
      case pv_validate_params pv p dataset (rq_params rq) of
        Params_Value_Error \<Rightarrow> (Inl (Platform_Error (InvalidProviderRequestError (pl_name p) dataset)), rt)
      | Params_Raises e \<Rightarrow> (Inl (Foreign_Error e), rt)
      | Params_Ok \<Rightarrow>
          (case pv_fetch pv p dataset (rq_params rq) of
             Platform_Raised e kind \<Rightarrow>
               (Inl (Platform_Error e),
                if is_fetch_error e
                then record_failure_for_exception (pl_name p) dataset kind (ck_record ck) rt
                else router_record_failure rt (pl_name p) dataset
                  (Some (''VnstockPlatformError in runtime for dataset '' @ quoted dataset)) None None (ck_record ck))
           | Other_Raised e \<Rightarrow>
               (Inl (Platform_Error (ProviderFetchError (pl_name p) dataset (Some e))),
                router_record_failure rt (pl_name p) dataset
                  (Some (''unexpected_provider_failure:'' @ e)) None None (ck_record ck))
           | Fetched df \<Rightarrow> finish_fetch pv ck rn rq decision p validate quality_mode df rt))"

definition execute ::
  "providers \<Rightarrow> clock \<Rightarrow> dataset_request \<Rightarrow> runtime \<Rightarrow> (runtime_error + fetched) \<times> runtime" where
  "execute pv ck rq rn =
     (case resolve (rn_router rn) (ck_resolve ck) (rq_dataset rq) (rq_source rq) None of
        (Inl e, rt) \<Rightarrow> (Inl (Platform_Error e), rn\<lparr>rn_router := rt\<rparr>)
      | (Inr p, rt) \<Rightarrow>
          (case execute_with pv ck rn rq p rt of (r, rt') \<Rightarrow> (r, rn\<lparr>rn_router := rt'\<rparr>)))"

definition fetch_dataset ::
  "providers \<Rightarrow> clock \<Rightarrow> string \<Rightarrow> (string \<times> value) list \<Rightarrow> string option \<Rightarrow> bool \<Rightarrow> string \<Rightarrow> bool \<Rightarrow>
   runtime \<Rightarrow> (runtime_error + fetched) \<times> runtime" where
  "fetch_dataset pv ck dataset params source validate quality_mode return_result rn =
     (case check_request \<lparr>rq_dataset = dataset, rq_params = params, rq_source = source, rq_validate = validate,
                          rq_quality_mode = quality_mode, rq_return_result = return_result\<rparr> of
        Inl e \<Rightarrow> (Inl (Request_Error e), rn)
      | Inr rq \<Rightarrow> execute pv ck rq rn)"

end
