(* ===== verification/Runtime_Props.thy ===== *)
theory Runtime_Props
  imports Runtime Router_Props Redaction_Props
begin

section \<open>Properties of the plugin runtime\<close>

text \<open>
  What a fetch does to the health records on each of its ways out, and what a result is worth.
\<close>

lemmas record_simps = router_record_success_def router_record_failure_def health_record_get

lemma execute_Inl: "resolve (rn_router rn) (ck_resolve ck) (rq_dataset rq) (rq_source rq) None = (Inl e, rt) \<Longrightarrow>
    execute pv ck rq rn = (Inl (Platform_Error e), rn\<lparr>rn_router := rt\<rparr>)"
  by (simp add: execute_def)

lemma execute_Inr: "resolve (rn_router rn) (ck_resolve ck) (rq_dataset rq) (rq_source rq) None = (Inr p, rt) \<Longrightarrow>
    execute pv ck rq rn =
      (fst (execute_with pv ck rn rq p rt), rn\<lparr>rn_router := snd (execute_with pv ck rn rq p rt)\<rparr>)"
  by (simp add: execute_def split: prod.split)

text \<open>Routing never touches health records, the registry or the policies.\<close>

lemma resolve_keeps:
  "rt_health (snd (resolve rt now dataset source auth)) = rt_health rt \<and>
   rt_registry (snd (resolve rt now dataset source auth)) = rt_registry rt \<and>
   rt_policy (snd (resolve rt now dataset source auth)) = rt_policy rt"
proof -
  have a: "\<exists>d. snd (resolve_auto rt now dataset a) = rt\<lparr>rt_last_decision := d\<rparr>" for a
    by (auto simp: resolve_auto_def Let_def split: prod.split option.split)
  have e: "\<exists>d. snd (resolve_explicit rt now dataset s) = rt\<lparr>rt_last_decision := d\<rparr>" for s
    unfolding resolve_explicit_def Let_def
    by (auto split: sum.split) (metis router.surjective router.update_convs(6))+
  have "\<exists>d. snd (resolve rt now dataset source auth) = rt\<lparr>rt_last_decision := d\<rparr>"
    using a e by (simp add: resolve_def Let_def split: option.split)
  then show ?thesis by auto
qed

text \<open>What a fetch can do to the health store, by the error it ends with.\<close>

inductive health_effect :: "string \<Rightarrow> string \<Rightarrow> health_memory \<Rightarrow> health_memory \<Rightarrow> bool" for p d where
  no_effect: "health_effect p d s s"
| failure_effect: "health_effect p d s (health_record_failure p d why t c now s)"

lemma health_effect_get:
  assumes "health_effect p d s s'"
  shows "ph_success_count (health_get s' q e) = ph_success_count (health_get s q e) \<and>
    ph_last_success_at (health_get s' q e) = ph_last_success_at (health_get s q e) \<and>
    ((upper q, e) \<noteq> (upper p, d) \<longrightarrow> health_get s' q e = health_get s q e) \<and>
    (ph_status (health_get s' q e) = HEALTHY \<longrightarrow> ph_status (health_get s q e) = HEALTHY)"
  using assms
proof cases
  case (failure_effect why t c now)
  show ?thesis
  proof (cases "(upper q, e) = (upper p, d)")
    case True
    then have "health_get s' q e = health_get s' p d" "health_get s q e = health_get s p d"
      by (metis Pair_inject health_get_upper)+
    then show ?thesis
      using True by (auto simp: failure_effect health_record_get after_failure_def Let_def split: if_splits)
  next
    case False
    then show ?thesis by (simp add: failure_effect health_record_other)
  qed
qed simp

lemma record_failure_effect:
  "health_effect p d (rt_health rt) (rt_health (router_record_failure rt p d why t c now))"
  by (simp add: router_record_failure_def failure_effect)

lemma record_failure_for_exception_effect:
  "health_effect p d (rt_health rt) (rt_health (record_failure_for_exception p d raw now rt))"
  by (auto simp: record_failure_for_exception_def intro: no_effect record_failure_effect split: option.split)

text \<open>The ways out of \<open>finish_fetch\<close>.\<close>

lemma finish_fetch_cases:
  assumes "finish_fetch pv ck rn rq decision p validate mode df rt = (r, rt')"
    and "errors = (if validate
      then validate_contract pv (rn_contracts rn) df (rq_dataset rq) (pl_name p) (rq_params rq) (mode = ''strict'')
      else [])"
  obtains (rejected) "errors \<noteq> []" "mode = ''strict''"
      "r = Inl (Platform_Error (DatasetContractError (rq_dataset rq)
        (''Contract validation failed: '' @ py_repr_list errors) (Some (pl_name p))))"
      "rt' = router_record_failure rt (pl_name p) (rq_dataset rq)
        (Some (''Contract validation failed: '' @ py_repr_list errors)) None None (ck_record ck)"
  | (raised) e where "errors = [] \<or> mode \<noteq> ''strict''" "pv_diagnostics pv p = Inl e" "r = Inl (Foreign_Error e)"
      "rt' = router_record_success rt (pl_name p) (rq_dataset rq) (Some (ck_latency ck)) None (ck_record ck)"
  | (finished) res where "errors = [] \<or> mode \<noteq> ''strict''"
      "r = Inr (if rq_return_result rq then Result res else Data_Frame (to_dataframe res))"
      "dr_dataset res = rq_dataset rq" "dr_provider res = pl_name p" "dr_data res = df"
      "dr_quality_status res = (if \<not> validate then None else if errors = [] then Some ''PASS'' else Some ''FAIL'')"
      "rt' = router_record_success rt (pl_name p) (rq_dataset rq) (Some (ck_latency ck)) None (ck_record ck)"
proof (cases "errors \<noteq> [] \<and> mode = ''strict''")
  case True
  have "(r, rt') = (Inl (Platform_Error (DatasetContractError (rq_dataset rq)
        (''Contract validation failed: '' @ py_repr_list errors) (Some (pl_name p)))),
      router_record_failure rt (pl_name p) (rq_dataset rq)
        (Some (''Contract validation failed: '' @ py_repr_list errors)) None None (ck_record ck))"
    unfolding assms(1) [symmetric] finish_fetch_def Let_def assms(2) [symmetric]
    using True by simp
  with True show thesis by (intro rejected) simp_all
next
  case ok: False
  show thesis
  proof (cases "pv_diagnostics pv p")
    case (Inl e)
    have "(r, rt') = (Inl (Foreign_Error e),
        router_record_success rt (pl_name p) (rq_dataset rq) (Some (ck_latency ck)) None (ck_record ck))"
      unfolding assms(1) [symmetric] finish_fetch_def Let_def assms(2) [symmetric]
      using ok Inl by simp
    with ok Inl show thesis by (intro raised [of e]) auto
  next
    case (Inr ds)
    define res where "res = \<lparr>dr_dataset = rq_dataset rq, dr_provider = pl_name p, dr_data = df,
       dr_quality_status = (if \<not> validate then None else if errors = [] then Some ''PASS'' else Some ''FAIL''),
       dr_quality_report = (if \<not> validate then None else Some [(''contract_errors'', strings errors)]),
       dr_diagnostics = build_diagnostics decision ds (ck_latency ck) errors (pl_name p)
         @ (let lineage = safe_provider_lineage (fr_attrs df) in
            if lineage = [] then [] else [(''provider_lineage'', VDict lineage)])
         @ [(''runtime_path'', VStr (rn_path rn))],
       dr_fetched_at = Some (ck_fetched ck), dr_ingestion_run_id = None\<rparr>"
    have "(r, rt') = (Inr (if rq_return_result rq then Result res else Data_Frame (to_dataframe res)),
        router_record_success rt (pl_name p) (rq_dataset rq) (Some (ck_latency ck)) None (ck_record ck))"
      unfolding assms(1) [symmetric] finish_fetch_def Let_def assms(2) [symmetric] res_def
      using ok Inr by simp
    then show thesis
      using ok by (intro finished [of res]) (auto simp: res_def)
  qed
qed

text \<open>The mode a fetch runs in.\<close>

definition is_fiinquantx :: "plugin \<Rightarrow> bool" where
  "is_fiinquantx p \<longleftrightarrow> upper (strip (pl_name p)) = ''FIINQUANTX''"

definition validates :: "dataset_request \<Rightarrow> plugin \<Rightarrow> bool" where
  "validates rq p \<longleftrightarrow> rq_validate rq \<or> is_fiinquantx p"

definition strict :: "dataset_request \<Rightarrow> plugin \<Rightarrow> bool" where
  "strict rq p \<longleftrightarrow> is_fiinquantx p \<or> rq_quality_mode rq = ''strict''"

definition contract_errors :: "providers \<Rightarrow> runtime \<Rightarrow> dataset_request \<Rightarrow> plugin \<Rightarrow> frame \<Rightarrow> string list" where
  "contract_errors pv rn rq p df =
     (if validates rq p
      then validate_contract pv (rn_contracts rn) df (rq_dataset rq) (pl_name p) (rq_params rq) (strict rq p)
      else [])"

text \<open>The ways out of \<open>execute_with\<close>.\<close>

lemma execute_with_cases:
  assumes "execute_with pv ck rn rq p rt = (r, rt')"
  obtains (invalid) e where "r = Inl e" "rt' = rt" "pv_validate_params pv p (rq_dataset rq) (rq_params rq) \<noteq> Params_Ok"
  | (failed) e where "r = Inl (Platform_Error e)" "health_effect (pl_name p) (rq_dataset rq) (rt_health rt) (rt_health rt')"
      "pv_validate_params pv p (rq_dataset rq) (rq_params rq) = Params_Ok"
      "\<And>df. pv_fetch pv p (rq_dataset rq) (rq_params rq) \<noteq> Fetched df"
  | (returned) df where "pv_validate_params pv p (rq_dataset rq) (rq_params rq) = Params_Ok"
      "pv_fetch pv p (rq_dataset rq) (rq_params rq) = Fetched df"
      "finish_fetch pv ck rn rq (rt_last_decision rt) p (validates rq p)
        (if is_fiinquantx p then ''strict'' else rq_quality_mode rq) df rt = (r, rt')"
proof (cases "pv_validate_params pv p (rq_dataset rq) (rq_params rq)")
  case Params_Ok
  show thesis
  proof (cases "pv_fetch pv p (rq_dataset rq) (rq_params rq)")
    case (Fetched df)
    with Params_Ok assms show thesis
      by (intro returned [of df]) (simp_all add: execute_with_def Let_def validates_def is_fiinquantx_def)
  next
    case (Platform_Raised e kind)
    have "r = Inl (Platform_Error e)" "rt' = (if is_fetch_error e
        then record_failure_for_exception (pl_name p) (rq_dataset rq) kind (ck_record ck) rt
        else router_record_failure rt (pl_name p) (rq_dataset rq)
          (Some (''VnstockPlatformError in runtime for dataset '' @ quoted (rq_dataset rq))) None None (ck_record ck))"
      using Params_Ok Platform_Raised assms by (simp_all add: execute_with_def Let_def)
    with Params_Ok Platform_Raised show thesis
      by (intro failed [of e]) (auto intro: record_failure_effect record_failure_for_exception_effect)
  next
    case (Other_Raised e)
    have "r = Inl (Platform_Error (ProviderFetchError (pl_name p) (rq_dataset rq) (Some e)))"
      "rt' = router_record_failure rt (pl_name p) (rq_dataset rq)
         (Some (''unexpected_provider_failure:'' @ e)) None None (ck_record ck)"
      using Params_Ok Other_Raised assms by (simp_all add: execute_with_def Let_def)
    with Params_Ok Other_Raised show thesis
      by (intro failed) (auto intro: record_failure_effect)
  qed
qed (use assms in \<open>auto simp: execute_with_def Let_def intro: invalid\<close>)

lemma errors_eq:
  "contract_errors pv rn rq p df = (if validates rq p
     then validate_contract pv (rn_contracts rn) df (rq_dataset rq) (pl_name p) (rq_params rq)
       ((if is_fiinquantx p then ''strict'' else rq_quality_mode rq) = ''strict'')
     else [])"
  by (simp add: contract_errors_def strict_def)

text \<open>
  C9: a fetch that returns data got it from the provider routing selected, whose parameter check
  passed; its contract errors are empty when the request is strict, and always for FIINQUANTX;
  the provider is recorded HEALTHY without cooldown, and no other record changed.
\<close>

theorem fetch_success_exact:
  assumes "execute pv ck rq rn = (Inr out, rn')"
  shows "\<exists>p df res. fst (resolve (rn_router rn) (ck_resolve ck) (rq_dataset rq) (rq_source rq) None) = Inr p \<and>
    pv_validate_params pv p (rq_dataset rq) (rq_params rq) = Params_Ok \<and>
    pv_fetch pv p (rq_dataset rq) (rq_params rq) = Fetched df \<and>
    (strict rq p \<longrightarrow> contract_errors pv rn rq p df = []) \<and>
    out = (if rq_return_result rq then Result res else Data_Frame (to_dataframe res)) \<and>
    dr_dataset res = rq_dataset rq \<and> dr_provider res = pl_name p \<and> dr_data res = df \<and>
    (dr_quality_status res = Some ''PASS'' \<longleftrightarrow> validates rq p \<and> contract_errors pv rn rq p df = []) \<and>
    ph_status (health_get (rt_health (rn_router rn')) (pl_name p) (rq_dataset rq)) = HEALTHY \<and>
    ph_cooldown_until (health_get (rt_health (rn_router rn')) (pl_name p) (rq_dataset rq)) = None \<and>
    (\<forall>q d. (upper q, d) \<noteq> (upper (pl_name p), rq_dataset rq) \<longrightarrow>
      health_get (rt_health (rn_router rn')) q d = health_get (rt_health (rn_router rn)) q d)"
proof -
  obtain routed rt where rs: "resolve (rn_router rn) (ck_resolve ck) (rq_dataset rq) (rq_source rq) None = (routed, rt)"
    by (rule prod.exhaust)
  with assms obtain p where p: "routed = Inr p"
    using execute_Inl by (cases routed) fastforce+
  obtain r rt' where e: "execute_with pv ck rn rq p rt = (r, rt')"
    by (rule prod.exhaust)
  with assms execute_Inr [OF rs [unfolded p], of pv] have r: "r = Inr out" and rn': "rn' = rn\<lparr>rn_router := rt'\<rparr>"
    by auto
  have h: "rt_health rt = rt_health (rn_router rn)"
    using resolve_keeps [of "rn_router rn" "ck_resolve ck" "rq_dataset rq" "rq_source rq" None] rs by simp
  from e obtain df where df: "pv_validate_params pv p (rq_dataset rq) (rq_params rq) = Params_Ok"
    "pv_fetch pv p (rq_dataset rq) (rq_params rq) = Fetched df"
    "finish_fetch pv ck rn rq (rt_last_decision rt) p (validates rq p)
        (if is_fiinquantx p then ''strict'' else rq_quality_mode rq) df rt = (r, rt')"
    by (rule execute_with_cases) (use r in simp_all)
  from df(3) errors_eq show ?thesis
  proof (rule finish_fetch_cases)
    fix res
    assume ok: "contract_errors pv rn rq p df = [] \<or> (if is_fiinquantx p then ''strict'' else rq_quality_mode rq) \<noteq> ''strict''"
      and res: "r = Inr (if rq_return_result rq then Result res else Data_Frame (to_dataframe res))"
        "dr_dataset res = rq_dataset rq" "dr_provider res = pl_name p" "dr_data res = df"
        "dr_quality_status res = (if \<not> validates rq p then None
          else if contract_errors pv rn rq p df = [] then Some ''PASS'' else Some ''FAIL'')"
      and rt': "rt' = router_record_success rt (pl_name p) (rq_dataset rq) (Some (ck_latency ck)) None (ck_record ck)"
    have st: "strict rq p \<longrightarrow> contract_errors pv rn rq p df = []"
      using ok by (auto simp: strict_def split: if_splits)
    have "ph_status (health_get (rt_health rt') (pl_name p) (rq_dataset rq)) = HEALTHY \<and>
        ph_cooldown_until (health_get (rt_health rt') (pl_name p) (rq_dataset rq)) = None"
      by (simp add: rt' record_simps after_success_def)
    moreover have "health_get (rt_health rt') q d = health_get (rt_health rt) q d"
      if "(upper q, d) \<noteq> (upper (pl_name p), rq_dataset rq)" for q d
      using that by (simp add: rt' router_record_success_def health_record_other)
    ultimately show ?thesis
      using rs p df st res r h by (intro exI [of _ p] exI [of _ df] exI [of _ res]) (auto simp: rn')
  qed (use r in simp_all)
qed

subsection \<open>A concrete fetch\<close>

definition demo_frame :: frame where
  "demo_frame = \<lparr>fr_columns = [], fr_rows = 0, fr_attrs = []\<rparr>"

definition demo_providers :: "fetch_outcome \<Rightarrow> providers" where
  "demo_providers out =
     \<lparr>pv_validate_params = (\<lambda>_ _ _. Params_Ok), pv_fetch = (\<lambda>_ _ _. out), pv_diagnostics = (\<lambda>_. Inr []),
      pv_quality = (\<lambda>_ _ _ _ _. Inr []), pv_text = (\<lambda>_. [])\<rparr>"

definition demo_clock :: clock where
  "demo_clock = \<lparr>ck_resolve = 0, ck_latency = 5, ck_record = 10, ck_fetched = 11\<rparr>"

definition demo_request :: dataset_request where
  "demo_request = \<lparr>rq_dataset = ''equity.ohlcv'', rq_params = [], rq_source = Some ''KBS'', rq_validate = False,
     rq_quality_mode = ''warn'', rq_return_result = True\<rparr>"

definition demo_runtime :: runtime where
  "demo_runtime = \<lparr>rn_router = demo_router, rn_contracts = [], rn_path = ''plugin_runtime''\<rparr>"

definition kbs :: plugin where
  "kbs = demo_plugin ''KBS'' None"

lemma demo_routed:
  "resolve (rn_router demo_runtime) (ck_resolve demo_clock) (rq_dataset demo_request) (rq_source demo_request) None =
     (Inr kbs, snd (resolve demo_router 0 ''equity.ohlcv'' (Some ''KBS'') None))"
  using explicit_accepted [of "''KBS''" demo_router kbs "''equity.ohlcv''" 0] demo_selectable [of kbs 0]
proof -
  have l: "lower ''KBS'' \<noteq> ''auto''" by code_simp
  have "registry_get ''KBS'' (rt_registry demo_router) = Inr kbs"
    by (simp add: registry_get_def demo_simps demo_registry_def kbs_def)
  moreover have "supports kbs ''equity.ohlcv'' \<and> status_of demo_router ''equity.ohlcv'' kbs \<noteq> DISABLED \<and>
      \<not> (respect_cooldown (rt_policy demo_router) \<and> is_in_cooldown (health_get (rt_health demo_router) (pl_name kbs) ''equity.ohlcv'') 0)"
    using demo_selectable [of kbs 0] by (simp add: kbs_def selectable_def eligible_def)
  ultimately obtain rd where "resolve_explicit demo_router 0 ''equity.ohlcv'' ''KBS'' =
      (Inr kbs, demo_router\<lparr>rt_last_decision := Some rd\<rparr>)"
    using explicit_accepted by blast
  then show ?thesis
    using l by (simp add: demo_runtime_def demo_clock_def demo_request_def resolve_def Let_def)
qed

lemma kbs_not_fiinquantx: "\<not> is_fiinquantx kbs"
  unfolding is_fiinquantx_def kbs_def demo_plugin_def by code_simp

lemma demo_fetch_ok:
  "\<exists>out rn'. execute (demo_providers (Fetched demo_frame)) demo_clock demo_request demo_runtime = (Inr out, rn')"
proof -
  have v: "\<not> validates demo_request kbs"
    by (simp add: validates_def kbs_not_fiinquantx demo_request_def)
  obtain r rt' where e: "execute_with (demo_providers (Fetched demo_frame)) demo_clock demo_runtime demo_request kbs
      (snd (resolve demo_router 0 ''equity.ohlcv'' (Some ''KBS'') None)) = (r, rt')"
    by (rule prod.exhaust)
  then have "\<exists>out. r = Inr out"
    by (rule execute_with_cases)
      (auto simp: demo_providers_def v finish_fetch_def Let_def)
  then show ?thesis
    using execute_Inr [OF demo_routed, of "demo_providers (Fetched demo_frame)"] e by auto
qed

lemma fetch_success_exact_witness:
  "\<exists>out rn'. execute (demo_providers (Fetched demo_frame)) demo_clock demo_request demo_runtime = (Inr out, rn') \<and>
     ph_status (health_get (rt_health (rn_router rn')) ''KBS'' ''equity.ohlcv'') = HEALTHY"
proof -
  obtain out rn' where e: "execute (demo_providers (Fetched demo_frame)) demo_clock demo_request demo_runtime = (Inr out, rn')"
    using demo_fetch_ok by blast
  from fetch_success_exact [OF e] have
    "ph_status (health_get (rt_health (rn_router rn')) (pl_name kbs) (rq_dataset demo_request)) = HEALTHY"
    using demo_routed by auto
  with e show ?thesis by (auto simp: kbs_def demo_plugin_def demo_request_def)
qed

subsection \<open>Failed fetches\<close>

text \<open>
  A fetch that ends with a platform error or is refused never counts as a success: no record's success
  count or last success changes, no record becomes HEALTHY, and only the record of the selected
  provider and the requested dataset can change at all.
\<close>

lemma failed_fetch_never_healthy:
  assumes "execute pv ck rq rn = (Inl (Platform_Error e), rn')"
  shows "(\<forall>q d. ph_success_count (health_get (rt_health (rn_router rn')) q d) =
        ph_success_count (health_get (rt_health (rn_router rn)) q d) \<and>
      ph_last_success_at (health_get (rt_health (rn_router rn')) q d) =
        ph_last_success_at (health_get (rt_health (rn_router rn)) q d) \<and>
      (ph_status (health_get (rt_health (rn_router rn')) q d) = HEALTHY \<longrightarrow>
        ph_status (health_get (rt_health (rn_router rn)) q d) = HEALTHY) \<and>
      (health_get (rt_health (rn_router rn')) q d \<noteq> health_get (rt_health (rn_router rn)) q d \<longrightarrow>
        d = rq_dataset rq \<and>
        (\<exists>p. fst (resolve (rn_router rn) (ck_resolve ck) (rq_dataset rq) (rq_source rq) None) = Inr p \<and>
          upper q = upper (pl_name p))))"
proof -
  obtain routed rt where rs: "resolve (rn_router rn) (ck_resolve ck) (rq_dataset rq) (rq_source rq) None = (routed, rt)"
    by (rule prod.exhaust)
  have h: "rt_health rt = rt_health (rn_router rn)"
    using resolve_keeps [of "rn_router rn" "ck_resolve ck" "rq_dataset rq" "rq_source rq" None] rs by simp
  show ?thesis
  proof (cases routed)
    case (Inl e')
    then have "rt_health (rn_router rn') = rt_health (rn_router rn)"
      using execute_Inl [OF rs [unfolded Inl], of pv] assms h by auto
    then show ?thesis by simp
  next
    case (Inr p)
    obtain r rt' where e: "execute_with pv ck rn rq p rt = (r, rt')"
      by (rule prod.exhaust)
    then have r: "r = Inl (Platform_Error e)" and rn': "rn' = rn\<lparr>rn_router := rt'\<rparr>"
      using assms execute_Inr [OF rs [unfolded Inr], of pv] by auto
    from e have eff: "health_effect (pl_name p) (rq_dataset rq) (rt_health rt) (rt_health rt')"
    proof (rule execute_with_cases)
      fix df
      assume "finish_fetch pv ck rn rq (rt_last_decision rt) p (validates rq p)
        (if is_fiinquantx p then ''strict'' else rq_quality_mode rq) df rt = (r, rt')"
      from this errors_eq show ?thesis
        by (rule finish_fetch_cases) (use r in \<open>auto intro: record_failure_effect\<close>)
    qed (auto intro: no_effect)
    show ?thesis
      using health_effect_get [OF eff] rs Inr by (auto simp: rn' h)
  qed
qed

text \<open>
  C34: the kind of a typed provider failure decides its effect: installation, account and request
  failures leave every health record as it was; rate-limit, concurrency and transient failures make the
  provider FAILING with a cooldown of 30 seconds at once, whatever the threshold of the store.
\<close>

theorem typed_failure_effect:
  assumes "resolve (rn_router rn) (ck_resolve ck) (rq_dataset rq) (rq_source rq) None = (Inr p, rt)"
    and "pv_validate_params pv p (rq_dataset rq) (rq_params rq) = Params_Ok"
    and "pv_fetch pv p (rq_dataset rq) (rq_params rq) = Platform_Raised (ProviderFetchError n d cause) (Some raw)"
  shows "fst (execute pv ck rq rn) = Inl (Platform_Error (ProviderFetchError n d cause)) \<and>
    (lower (strip raw) \<in> set non_health_failure_kinds \<longrightarrow>
      rt_health (rn_router (snd (execute pv ck rq rn))) = rt_health (rn_router rn)) \<and>
    (lower (strip raw) \<in> set cooldown_failure_kinds \<longrightarrow>
      (let h = health_get (rt_health (rn_router (snd (execute pv ck rq rn)))) (pl_name p) (rq_dataset rq);
           h0 = health_get (rt_health (rn_router rn)) (pl_name p) (rq_dataset rq) in
       0 \<le> ph_failure_count h0 \<longrightarrow>
       ph_status h = FAILING \<and> ph_cooldown_until h = Some (ck_record ck + 30000000) \<and>
       ph_failure_count h = ph_failure_count h0 + 1))"
proof -
  let ?rt' = "record_failure_for_exception (pl_name p) (rq_dataset rq) (Some raw) (ck_record ck) rt"
  have e: "execute pv ck rq rn = (Inl (Platform_Error (ProviderFetchError n d cause)), rn\<lparr>rn_router := ?rt'\<rparr>)"
    using execute_Inr [OF assms(1), of pv] assms(2,3) by (simp add: execute_with_def Let_def is_fetch_error_def)
  have h: "rt_health rt = rt_health (rn_router rn)"
    using resolve_keeps [of "rn_router rn" "ck_resolve ck" "rq_dataset rq" "rq_source rq" None] assms(1) by simp
  have nonempty: "'''' \<notin> set non_health_failure_kinds" "'''' \<notin> set cooldown_failure_kinds"
    "set non_health_failure_kinds \<inter> set cooldown_failure_kinds = {}"
    by (simp_all add: non_health_failure_kinds_def cooldown_failure_kinds_def)
  have "?rt' = rt" if "lower (strip raw) \<in> set non_health_failure_kinds"
    using that nonempty by (auto simp: record_failure_for_exception_def failure_kind_def Let_def)
  moreover have "?rt' = router_record_failure rt (pl_name p) (rq_dataset rq)
      (Some (''typed_provider_failure:'' @ lower (strip raw))) (Some 1) (Some 30000000) (ck_record ck)"
    if "lower (strip raw) \<in> set cooldown_failure_kinds"
    using that nonempty by (auto simp: record_failure_for_exception_def failure_kind_def Let_def)
  ultimately show ?thesis
    by (auto simp: e h record_simps after_failure_def Let_def)
qed

definition rate_limited :: fetch_outcome where
  "rate_limited = Platform_Raised (ProviderFetchError ''KBS'' ''equity.ohlcv'' None) (Some ''rate_limit'')"

lemma lower_rate_limit: "lower (strip ''rate_limit'') \<in> set cooldown_failure_kinds"
  by code_simp

theorem typed_failure_effect_witness:
  "ph_cooldown_until (health_get (rt_health (rn_router (snd
     (execute (demo_providers rate_limited) demo_clock demo_request demo_runtime)))) ''KBS'' ''equity.ohlcv'') =
   Some 30000010"
  using typed_failure_effect [OF demo_routed, of "demo_providers rate_limited" "''KBS''" "''equity.ohlcv''" None "''rate_limit''"]
    lower_rate_limit
  by (simp add: demo_providers_def rate_limited_def Let_def kbs_def demo_plugin_def demo_request_def demo_clock_def
      demo_runtime_def demo_simps fresh_get new_provider_health_def)

lemma failed_fetch_never_healthy_witness:
  "\<exists>e rn'. execute (demo_providers rate_limited) demo_clock demo_request demo_runtime = (Inl (Platform_Error e), rn') \<and>
     ph_success_count (health_get (rt_health (rn_router rn')) ''KBS'' ''equity.ohlcv'') = 0"
proof -
  obtain rn' where e: "execute (demo_providers rate_limited) demo_clock demo_request demo_runtime =
      (Inl (Platform_Error (ProviderFetchError ''KBS'' ''equity.ohlcv'' None)), rn')"
    using execute_Inr [OF demo_routed, of "demo_providers rate_limited"]
    by (simp add: demo_providers_def rate_limited_def execute_with_def Let_def)
  from failed_fetch_never_healthy [OF e] e show ?thesis
    by (simp add: demo_runtime_def demo_simps fresh_get new_provider_health_def)
qed

subsection \<open>Diagnostics\<close>

text \<open>
  The provider diagnostics a result carries hold no sensitive key at the top and no value under a
  sensitive key at any depth; but an auth context object passes as it is, with its token.
\<close>

lemma diagnostics_redacted_except_contexts:
  "(case map_of (build_diagnostics decision pd latency errors provider) ''provider_diagnostics'' of
      Some (VDict d) \<Rightarrow> clean (VDict d) \<and> list_all (\<lambda>(k, _). \<not> is_sensitive_key k) d
    | Some _ \<Rightarrow> False
    | None \<Rightarrow> True) \<and>
   map_of (build_diagnostics decision [(''auth_context'', VAuth c)] latency errors provider) ''provider_diagnostics'' =
     Some (VDict [(''auth_context'', VAuth c)])"
proof
  let ?safe = "\<lambda>pd. filter (\<lambda>(k, _). \<not> is_sensitive_key k) (redact_dict True 0 pd)"
  have entry: "map_of (build_diagnostics decision pd latency errors provider) ''provider_diagnostics'' =
      (if ?safe pd = [] then None else Some (VDict (?safe pd)))" for pd
    by (simp add: build_diagnostics_def Let_def split: option.split)
  have "clean (VDict (?safe pd))"
    using redact_clean(1) [of True 0 pd] by auto
  moreover have "list_all (\<lambda>(k, _). \<not> is_sensitive_key k) (?safe pd)"
    by (auto simp: list_all_iff)
  ultimately show "case map_of (build_diagnostics decision pd latency errors provider) ''provider_diagnostics'' of
      Some (VDict d) \<Rightarrow> clean (VDict d) \<and> list_all (\<lambda>(k, _). \<not> is_sensitive_key k) d
    | Some _ \<Rightarrow> False
    | None \<Rightarrow> True"
    unfolding entry by (simp del: clean.simps(1))
  have "\<not> is_sensitive_key ''auth_context''" by code_simp
  then show "map_of (build_diagnostics decision [(''auth_context'', VAuth c)] latency errors provider) ''provider_diagnostics'' =
     Some (VDict [(''auth_context'', VAuth c)])"
    unfolding entry by (simp add: redact_dict_eq redact_value_def max_redaction_depth_def)
qed

end
