(* ===== verification/Sandbox_Guard.thy ===== *)
theory Sandbox_Guard
  imports Regex
begin

section \<open>The static guard of generated code\<close>

text \<open>
  \<open>sandbox/static_guard.py\<close>, \<open>_static_guard_ast.py\<close>, \<open>_static_guard_models.py\<close> and the lists of
  \<open>policy/safety_policy.py\<close>.

  The Python parser is an argument: \<open>parse code\<close> is the tree \<open>ast.parse\<close> gives, \<open>None\<close> when parsing
  or compiling raises.  \<open>pynode\<close> has the nodes the visitor treats; every other node is \<open>Other_node\<close>
  with its class name, its position and its child nodes in field order (the expression contexts
  \<open>Load\<close> and \<open>Store\<close> and the operators are such nodes).  A position is \<open>lineno\<close> and \<open>col_offset\<close>,
  both 0 for a node without them.  \<open>sha256\<close> is an argument as well.

  The recursion limit of the interpreter is not modelled: the budget of 256 nodes also bounds the
  depth of the visit.
\<close>

subsection \<open>Forbidden prefixes and names\<close>

definition forbidden_tool_prefixes :: "string list" where
  "forbidden_tool_prefixes =
     [''network'', ''python'', ''mcp'', ''sql'', ''filesystem'', ''broker'', ''order'', ''allocation'',
      ''account'', ''trading'', ''margin'', ''transfer'', ''portfolio'']"

definition forbidden_tool_names :: "string list" where
  "forbidden_tool_names =
     [''python_exec'', ''shell_exec'', ''raw_sql'', ''file_read'', ''file_write'', ''place_order'',
      ''cancel_order'', ''modify_order'', ''submit_order'', ''execute_order'', ''get_holdings'',
      ''rebalance'', ''rebalance_holdings'', ''allocate'', ''allocate_capital'', ''get_account'',
      ''get_account_balance'', ''transfer_funds'', ''withdraw'', ''deposit'', ''connect_broker'',
      ''disconnect_broker'', ''authenticate_broker'', ''auto_execute'', ''schedule_trade'',
      ''automated_execution'']"

subsection \<open>Syntax trees\<close>

type_synonym position = "int \<times> int"

datatype const_value =
    Str_const string
  | Bool_const bool
  | Complex_const
  | Other_const

datatype pynode =
    Import_node position "string list"
  | Import_from_node position "string option"
  | Constant_node position const_value
  | Name_node position string
  | Attribute_node position string pynode pynode
  | Keyword_node position "string option" pynode
  | Call_node position pynode "pynode list" "pynode list"
  | Other_node string position "pynode list"

fun node_type :: "pynode \<Rightarrow> string" where
  "node_type (Import_node p ns) = ''Import''"
| "node_type (Import_from_node p m) = ''ImportFrom''"
| "node_type (Constant_node p c) = ''Constant''"
| "node_type (Name_node p n) = ''Name''"
| "node_type (Attribute_node p a v c) = ''Attribute''"
| "node_type (Keyword_node p a v) = ''keyword''"
| "node_type (Call_node p f as ks) = ''Call''"
| "node_type (Other_node t p cs) = t"

fun node_position :: "pynode \<Rightarrow> position" where
  "node_position (Import_node p ns) = p"
| "node_position (Import_from_node p m) = p"
| "node_position (Constant_node p c) = p"
| "node_position (Name_node p n) = p"
| "node_position (Attribute_node p a v c) = p"
| "node_position (Keyword_node p a v) = p"
| "node_position (Call_node p f as ks) = p"
| "node_position (Other_node t p cs) = p"

text \<open>The child nodes the visitor goes into, in order: an import, a constant and a name are leaves.\<close>

fun visited_children :: "pynode \<Rightarrow> pynode list" where
  "visited_children (Attribute_node p a v c) = [v, c]"
| "visited_children (Keyword_node p a v) = [v]"
| "visited_children (Call_node p f as ks) = f # as @ ks"
| "visited_children (Other_node t p cs) = cs"
| "visited_children n = []"

subsection \<open>Violations\<close>

datatype guard_rule =
    Parse_Compile
  | Analysis_Failure
  | Complexity_Limit
  | Unsupported_Ast
  | Shell_Process
  | Network
  | Dependency_Install
  | Environment_Secret
  | Dynamic_Reflection
  | Filesystem_Write
  | Trading_Boundary

fun rule_value :: "guard_rule \<Rightarrow> string" where
  "rule_value Parse_Compile = ''parse_compile''"
| "rule_value Analysis_Failure = ''analysis_failure''"
| "rule_value Complexity_Limit = ''complexity_limit''"
| "rule_value Unsupported_Ast = ''unsupported_ast''"
| "rule_value Shell_Process = ''shell_process''"
| "rule_value Network = ''network''"
| "rule_value Dependency_Install = ''dependency_install''"
| "rule_value Environment_Secret = ''environment_secret''"
| "rule_value Dynamic_Reflection = ''dynamic_reflection''"
| "rule_value Filesystem_Write = ''filesystem_write''"
| "rule_value Trading_Boundary = ''trading_boundary''"

lemma rule_value_inj [simp]: "rule_value r = rule_value r' \<longleftrightarrow> r = r'"
  by (cases r; cases r'; simp)

datatype guard_violation =
  Guard_violation (gv_rule: guard_rule) (gv_node_type: string) (gv_line: int) (gv_column: int)

text \<open>The order of the dataclass: field by field, the rule by its text.\<close>

fun violation_key :: "guard_violation \<Rightarrow> string \<times> string \<times> int \<times> int" where
  "violation_key (Guard_violation r t l c) = (rule_value r, t, l, c)"

lemma violation_key_inj [simp]: "violation_key v = violation_key w \<longleftrightarrow> v = w"
  by (cases v; cases w) simp

instantiation guard_violation :: linorder
begin

definition less_eq_guard_violation :: "guard_violation \<Rightarrow> guard_violation \<Rightarrow> bool" where
  "less_eq_guard_violation v w \<longleftrightarrow> violation_key v \<le> violation_key w"

definition less_guard_violation :: "guard_violation \<Rightarrow> guard_violation \<Rightarrow> bool" where
  "less_guard_violation v w \<longleftrightarrow> violation_key v < violation_key w"

instance
  by standard (auto simp: less_eq_guard_violation_def less_guard_violation_def order.strict_iff_order)

end

record guard_result =
  gr_schema_version :: nat
  gr_code_digest :: string
  gr_allowed :: bool
  gr_violations :: "guard_violation list"

subsection \<open>The checks of one node\<close>

definition max_nodes :: nat where
  "max_nodes = 256"

definition allowed_import_roots :: "string list" where
  "allowed_import_roots =
     [''math'', ''statistics'', ''json'', ''csv'', ''datetime'', ''collections'', ''numpy'', ''pandas'',
      ''matplotlib'']"

definition network_import_roots :: "string list" where
  "network_import_roots =
     [''requests'', ''httpx'', ''urllib'', ''socket'', ''http'', ''ftplib'', ''websocket'']"

definition shell_import_roots :: "string list" where
  "shell_import_roots = [''os'', ''subprocess'', ''shutil'']"

definition dynamic_names :: "string list" where
  "dynamic_names = [''eval'', ''exec'', ''compile'', ''__import__'', ''globals'', ''locals'']"

definition process_names :: "string list" where
  "process_names = [''system'', ''popen'', ''run'', ''call'', ''check_call'', ''check_output'']"

text \<open>\<open>module.split(".", 1)[0]\<close>.\<close>

definition import_root :: "string \<Rightarrow> string" where
  "import_root m = takeWhile (\<lambda>c. c \<noteq> CHR ''.'') m"

definition check_import :: "string \<Rightarrow> guard_rule list" where
  "check_import m =
     (let root = import_root m in
      if root \<in> set network_import_roots then [Network]
      else if root \<in> set shell_import_roots then [Shell_Process]
      else if root \<notin> set allowed_import_roots then [Unsupported_Ast]
      else [])"

definition check_identifier :: "string \<Rightarrow> guard_rule list" where
  "check_identifier identifier =
     (let normalized = lower identifier in
      if normalized \<in> set dynamic_names then [Dynamic_Reflection]
      else if list_ex (\<lambda>t. occurs_in t normalized) forbidden_tool_prefixes then [Trading_Boundary]
      else if normalized \<in> set process_names then [Shell_Process]
      else [])"

fun call_name :: "pynode \<Rightarrow> string" where
  "call_name (Name_node p n) = lower n"
| "call_name (Attribute_node p a v c) = lower a"
| "call_name n = []"

fun keyword_value :: "string \<Rightarrow> pynode list \<Rightarrow> pynode option" where
  "keyword_value k [] = None"
| "keyword_value k (Keyword_node p a v # ks) = (if a = Some k then Some v else keyword_value k ks)"
| "keyword_value k (n # ks) = keyword_value k ks"

definition open_mode_node :: "pynode list \<Rightarrow> pynode list \<Rightarrow> pynode option" where
  "open_mode_node as ks = (if 2 \<le> length as then Some (as ! 1) else keyword_value ''mode'' ks)"

definition is_contained_output_path :: "string \<Rightarrow> bool" where
  "is_contained_output_path path =
     (let parts = split_at CHR ''/'' path in
      2 \<le> length parts \<and> hd parts = ''output'' \<and>
      list_all (\<lambda>p. p \<notin> {[], ''.'', ''..''}) (tl parts))"

definition opens_outside_output :: "pynode list \<Rightarrow> pynode list \<Rightarrow> bool" where
  "opens_outside_output as ks =
     (case open_mode_node as ks of
        None \<Rightarrow> False
      | Some mode_node \<Rightarrow>
          (case mode_node of
             Constant_node _ (Str_const mode) \<Rightarrow>
               if \<not> list_ex (\<lambda>flag. flag \<in> set mode) ''wax+'' then False
               else (case as of
                       Constant_node _ (Str_const path) # _ \<Rightarrow> \<not> is_contained_output_path path
                     | _ \<Rightarrow> True)
           | _ \<Rightarrow> True))"

text \<open>The rules one node breaks, in the order the visitor reports them.\<close>

fun node_rules :: "pynode \<Rightarrow> guard_rule list" where
  "node_rules (Import_node p names) = concat (map check_import names)"
| "node_rules (Import_from_node p m) = check_import (case m of None \<Rightarrow> [] | Some x \<Rightarrow> x)"
| "node_rules (Constant_node p c) =
     (case c of Bool_const _ \<Rightarrow> [Unsupported_Ast] | Complex_const \<Rightarrow> [Unsupported_Ast] | _ \<Rightarrow> [])"
| "node_rules (Name_node p n) = check_identifier n"
| "node_rules (Attribute_node p a v c) = check_identifier a"
| "node_rules (Call_node p f as ks) =
     (let name = call_name f in
      if name \<in> set dynamic_names then [Dynamic_Reflection]
      else if name = ''open'' \<and> opens_outside_output as ks then [Filesystem_Write]
      else [])"
| "node_rules _ = []"

definition violation_at :: "pynode \<Rightarrow> guard_rule \<Rightarrow> guard_violation" where
  "violation_at n r = Guard_violation r (node_type n) (fst (node_position n)) (snd (node_position n))"

subsection \<open>The visitor\<close>

record visitor =
  vi_violations :: "guard_violation list"
  vi_node_count :: nat
  vi_complexity_exceeded :: bool

definition new_visitor :: visitor where
  "new_visitor = \<lparr>vi_violations = [], vi_node_count = 0, vi_complexity_exceeded = False\<rparr>"

definition add_rules :: "pynode \<Rightarrow> guard_rule list \<Rightarrow> visitor \<Rightarrow> visitor" where
  "add_rules n rs st = st\<lparr>vi_violations := vi_violations st @ map (violation_at n) rs\<rparr>"

lemma visited_children_size [simp]: "c \<in> set (visited_children n) \<Longrightarrow> size c < size n"
  by (cases n) (fastforce dest: size_list_estimation' [of c _ "size c" size])+

function visit :: "pynode \<Rightarrow> visitor \<Rightarrow> visitor" where
  "visit n st =
     (if vi_complexity_exceeded st then st
      else
        (let st1 = st\<lparr>vi_node_count := vi_node_count st + 1\<rparr> in
         if max_nodes < vi_node_count st1
         then add_rules n [Complexity_Limit] (st1\<lparr>vi_complexity_exceeded := True\<rparr>)
         else fold visit (visited_children n) (add_rules n (node_rules n) st1)))"
  by pat_completeness auto
termination
  by (relation "measure (\<lambda>(n, st). size n)") auto

declare visit.simps [simp del]

subsection \<open>The decision\<close>

text \<open>
  \<open>\<backslash>b0[xX][0-9A-Fa-f_]{8192,}\<backslash>b\<close>: the characters of the class are word characters, so the match
  ends where the run of them ends.
\<close>

definition hex_or_underscore :: "char \<Rightarrow> bool" where
  "hex_or_underscore c \<longleftrightarrow> is_digit c \<or> c \<in> set ''abcdefABCDEF_''"

definition huge_hex_at :: "string \<Rightarrow> nat \<Rightarrow> bool" where
  "huge_hex_at s i =
     (i + 2 \<le> length s \<and> at_word_boundary s i \<and> s ! i = CHR ''0'' \<and>
      (s ! (i + 1) = CHR ''x'' \<or> s ! (i + 1) = CHR ''X'') \<and>
      (let n = length (takeWhile hex_or_underscore (drop (i + 2) s)) in
       8192 \<le> n \<and> at_word_boundary s (i + 2 + n)))"

definition huge_hex_literal :: "string \<Rightarrow> bool" where
  "huge_hex_literal s = list_ex (huge_hex_at s) [0..<length s]"

text \<open>A lone surrogate, which strict UTF-8 does not encode: its bytes start with ED and A0 to BF.\<close>

fun has_surrogate :: "string \<Rightarrow> bool" where
  "has_surrogate (a # b # s) =
     ((char_code a = 237 \<and> 160 \<le> char_code b \<and> char_code b < 192) \<or> has_surrogate (b # s))"
| "has_surrogate s = False"

definition denied :: "string \<Rightarrow> guard_rule \<Rightarrow> string \<Rightarrow> guard_result" where
  "denied digest r t =
     \<lparr>gr_schema_version = 1, gr_code_digest = digest, gr_allowed = False,
      gr_violations = [Guard_violation r t 0 0]\<rparr>"

definition evaluate_code ::
  "(string \<Rightarrow> string) \<Rightarrow> (string \<Rightarrow> pynode option) \<Rightarrow> string \<Rightarrow> guard_result" where
  "evaluate_code sha256 parse code =
     (let digest = sha256 code in
      if has_surrogate code then denied digest Analysis_Failure ''Module''
      else if huge_hex_literal code then denied digest Analysis_Failure ''Module''
      else case parse code of
        None \<Rightarrow> denied digest Parse_Compile ''Module''
      | Some tree \<Rightarrow>
          (let violations = sort (remdups (vi_violations (visit tree new_visitor))) in
           \<lparr>gr_schema_version = 1, gr_code_digest = digest, gr_allowed = (violations = []),
            gr_violations = violations\<rparr>))"

end
