(* ===== verification/Loop_Policy.thy ===== *)
theory Loop_Policy
  imports Sandbox_Guard
begin

section \<open>The read-only boundary of the repair loop\<close>

text \<open>
  \<open>closed_loop/policy.py\<close>, \<open>closed_loop/paths.py\<close>, \<open>closed_loop/service_config.py\<close> and
  \<open>closed_loop/errors.py\<close>, and the enumerations of \<open>closed_loop/models.py\<close>.

  A path is the list of its components from the file-system root.  Symbolic links are not modelled,
  so a directory inside the store's root has no entry that leads out of it.
\<close>

datatype loop_error =
    Persistence_Error string
  | Not_Found string
  | Boundary_Error string
  | Gate_Error string
  | Validation_Error string
  | Value_Error string
  | Attribute_Error string

subsection \<open>Text\<close>

text \<open>\<open>len(s)\<close> and \<open>s[:n]\<close> count characters: the bytes that do not continue one.\<close>

definition continuation_byte :: "char \<Rightarrow> bool" where
  "continuation_byte c \<longleftrightarrow> 128 \<le> char_code c \<and> char_code c < 192"

definition py_len :: "string \<Rightarrow> nat" where
  "py_len s = length (filter (\<lambda>c. \<not> continuation_byte c) s)"

fun py_take :: "nat \<Rightarrow> string \<Rightarrow> string" where
  "py_take n [] = []"
| "py_take n (c # s) =
     (if continuation_byte c then c # py_take n s
      else case n of 0 \<Rightarrow> [] | Suc m \<Rightarrow> c # py_take m s)"

fun join :: "string \<Rightarrow> string list \<Rightarrow> string" where
  "join sep [] = []"
| "join sep [s] = s"
| "join sep (s # ss) = s @ sep @ join sep ss"

subsection \<open>Prohibited behaviour\<close>

definition non_research_prefixes :: "string list" where
  "non_research_prefixes = [''network'', ''python'', ''mcp'', ''sql'', ''filesystem'']"

definition research_boundary_prefixes :: "string list" where
  "research_boundary_prefixes =
     filter (\<lambda>p. p \<notin> set non_research_prefixes) forbidden_tool_prefixes"

text \<open>\<open>(?<![a-z])prefix(?![a-z])\<close> at a position.\<close>

definition stands_alone_at :: "string \<Rightarrow> string \<Rightarrow> nat \<Rightarrow> bool" where
  "stands_alone_at p s i \<longleftrightarrow>
     starts_with (drop i s) p \<and>
     (i = 0 \<or> \<not> is_lower_letter (s ! (i - 1))) \<and>
     (i + length p \<ge> length s \<or> \<not> is_lower_letter (s ! (i + length p)))"

definition stands_alone :: "string \<Rightarrow> string \<Rightarrow> bool" where
  "stands_alone p s = list_ex (stands_alone_at p s) [0..<Suc (length s)]"

text \<open>Literal text, matched exactly.\<close>

fun exactly :: "string \<Rightarrow> regex" where
  "exactly [] = Empty"
| "exactly (c # s) = Seq (Chars (\<lambda>x. x = c)) (exactly s)"

definition live_pattern :: regex where
  "live_pattern =
     Seq Word_Boundary (Seq (exactly ''live'') (Seq (opt (Chars (\<lambda>c. c \<in> set ''_ -'')))
       (Seq (alts [exactly ''order'', exactly ''execution'', exactly ''trade'']) Word_Boundary)))"

definition execution_call_pattern :: regex where
  "execution_call_pattern =
     Seq Word_Boundary
       (Seq (alts [exactly ''buy'', exactly ''sell'', exactly ''trade'', exactly ''short'', exactly ''cover''])
         (Seq (Star (Chars is_space)) (exactly ''('')))"

definition prohibited_behaviors :: "string \<Rightarrow> string list" where
  "prohibited_behaviors v =
     (let lowered = lower v;
          f0 = filter (\<lambda>p. stands_alone p lowered) (sort research_boundary_prefixes);
          f1 = (if searches live_pattern lowered \<and> ''trading'' \<notin> set f0 then f0 @ [''trading''] else f0) in
      if searches execution_call_pattern lowered \<and> ''trading'' \<notin> set f1 then f1 @ [''trading''] else f1)"

definition newline :: string where
  "newline = [char_of (10 :: nat)]"

definition allowed_proposal_text :: "string \<Rightarrow> string \<Rightarrow> bool \<times> string list" where
  "allowed_proposal_text patch replacement_code =
     (let findings = prohibited_behaviors (patch @ newline @ replacement_code) in
      (findings = [], findings))"

subsection \<open>Artifact types\<close>

datatype artifact_type =
    Indicator_Definition
  | Feature_Definition
  | Experiment_Template
  | Pattern_Scanner_Definition
  | Offline_Event_Study_Template

fun artifact_type_value :: "artifact_type \<Rightarrow> string" where
  "artifact_type_value Indicator_Definition = ''indicator_definition''"
| "artifact_type_value Feature_Definition = ''feature_definition''"
| "artifact_type_value Experiment_Template = ''experiment_template''"
| "artifact_type_value Pattern_Scanner_Definition = ''pattern_scanner_definition''"
| "artifact_type_value Offline_Event_Study_Template = ''offline_event_study_template''"

definition artifact_types :: "artifact_type list" where
  "artifact_types =
     [Indicator_Definition, Feature_Definition, Experiment_Template, Pattern_Scanner_Definition,
      Offline_Event_Study_Template]"

definition artifact_type_aliases :: "(string \<times> artifact_type) list" where
  "artifact_type_aliases =
     [(''indicator_experiment'', Indicator_Definition),
      (''indicator_definition'', Indicator_Definition),
      (''feature'', Feature_Definition),
      (''feature_definition'', Feature_Definition),
      (''experiment_template'', Experiment_Template),
      (''hypothesis_test'', Experiment_Template),
      (''pattern_scan'', Pattern_Scanner_Definition),
      (''pattern_scanner_definition'', Pattern_Scanner_Definition),
      (''offline_event_study'', Offline_Event_Study_Template),
      (''offline_event_study_template'', Offline_Event_Study_Template)]"

definition parse_artifact_type :: "string \<Rightarrow> loop_error + artifact_type" where
  "parse_artifact_type v =
     (case find (\<lambda>t. artifact_type_value t = v) artifact_types of
        Some t \<Rightarrow> Inr t
      | None \<Rightarrow>
          (case map_of artifact_type_aliases v of
             Some t \<Rightarrow> Inr t
           | None \<Rightarrow> Inl (Value_Error (''unsupported research artifact type: '' @ v))))"

definition is_research_artifact_type :: "string \<Rightarrow> bool" where
  "is_research_artifact_type v = (case parse_artifact_type v of Inl _ \<Rightarrow> False | Inr _ \<Rightarrow> True)"

text \<open>\<open>RepairScope\<close>.\<close>

datatype repair_scope =
    Sandbox_Research_Code
  | Experiment_Definition_Scope
  | Feature_Definition_Scope
  | Validation_Schema

subsection \<open>Identifiers and paths\<close>

text \<open>\<open>[A-Za-z0-9][A-Za-z0-9._:-]{0,127}\<close>, the whole text.\<close>

definition safe_id :: "string \<Rightarrow> bool" where
  "safe_id s \<longleftrightarrow>
     s \<noteq> [] \<and> length s \<le> 128 \<and> is_alnum (hd s) \<and>
     list_all (\<lambda>c. is_alnum c \<or> c \<in> set ''._:-'') (tl s)"

definition validate_identifier :: "string \<Rightarrow> string \<Rightarrow> loop_error + string" where
  "validate_identifier v fld =
     (if safe_id v then Inr v else Inl (Boundary_Error (''invalid '' @ fld)))"

type_synonym path = "string list"

datatype path_arg = Absolute path | Relative path

text \<open>\<open>Path.resolve\<close>: a component \<open>..\<close> drops the one before it, none at the file-system root.\<close>

fun resolve_parts :: "path \<Rightarrow> path \<Rightarrow> path" where
  "resolve_parts acc [] = acc"
| "resolve_parts acc (p # ps) =
     (if p = ''..'' then resolve_parts (butlast acc) ps else resolve_parts (acc @ [p]) ps)"

definition is_under :: "path \<Rightarrow> path \<Rightarrow> bool" where
  "is_under base p \<longleftrightarrow> take (length base) p = base"

fun resolve_under :: "path \<Rightarrow> path_arg \<Rightarrow> string \<Rightarrow> loop_error + path" where
  "resolve_under root cand fld =
     (let base = resolve_parts [] root;
          r = (case cand of Absolute p \<Rightarrow> resolve_parts [] p | Relative p \<Rightarrow> resolve_parts base p) in
      if is_under base r then Inr r
      else Inl (Boundary_Error (fld @ '' escapes the closed-loop root'')))"

declare resolve_under.simps [simp del]

definition resolve_component :: "path \<Rightarrow> string \<Rightarrow> string \<Rightarrow> string \<Rightarrow> loop_error + path" where
  "resolve_component root parent v fld =
     res_bind (validate_identifier v fld) (\<lambda>c. resolve_under root (Relative [parent, c]) fld)"

definition resolve_file :: "path \<Rightarrow> string \<Rightarrow> string \<Rightarrow> string \<Rightarrow> string \<Rightarrow> loop_error + path" where
  "resolve_file root parent v suffix fld =
     res_bind (validate_identifier v fld)
       (\<lambda>c. resolve_under root (Relative [parent, c @ suffix]) fld)"

text \<open>Without links the check of every entry below the directory always passes.\<close>

definition ensure_tree_confined :: "path \<Rightarrow> path_arg \<Rightarrow> string \<Rightarrow> loop_error + path" where
  "ensure_tree_confined root cand fld = resolve_under root cand fld"

subsection \<open>Configuration\<close>

definition max_repair_attempts :: int where
  "max_repair_attempts = 10"

definition default_repair_attempts :: int where
  "default_repair_attempts = 3"

text \<open>\<open>int(value)\<close>: spaces around, a sign, digits with single underscores between them.\<close>

fun digits_value :: "int \<Rightarrow> string \<Rightarrow> int option" where
  "digits_value acc [] = Some acc"
| "digits_value acc (c # s) =
     (if is_digit c then digits_value (10 * acc + (int (char_code c) - 48)) s
      else case s of
        d # s' \<Rightarrow> if c = CHR ''_'' \<and> is_digit d
                  then digits_value (10 * acc + (int (char_code d) - 48)) s' else None
      | [] \<Rightarrow> None)"

definition unsigned_value :: "string \<Rightarrow> int option" where
  "unsigned_value s =
     (case s of c # s' \<Rightarrow> if is_digit c then digits_value 0 s else None | [] \<Rightarrow> None)"

definition py_int :: "string \<Rightarrow> int option" where
  "py_int v =
     (case strip v of
        [] \<Rightarrow> None
      | c # s \<Rightarrow>
          if c = CHR ''-'' then map_option uminus (unsigned_value s)
          else if c = CHR ''+'' then unsigned_value s
          else unsigned_value (c # s))"

definition configured_max_attempts :: "string option \<Rightarrow> int" where
  "configured_max_attempts env_value =
     (case env_value of
        None \<Rightarrow> default_repair_attempts
      | Some v \<Rightarrow>
          (case py_int v of
             None \<Rightarrow> default_repair_attempts
           | Some n \<Rightarrow> if 1 \<le> n \<and> n \<le> max_repair_attempts then n else default_repair_attempts))"

end
