(* ===== verification/Effects.thy ===== *)
theory Effects
  imports Prelude
begin

section \<open>Operations with state and exceptions\<close>

text \<open>
  A method that reads and writes a store and may raise: a function from the store to the outcome and
  the store it leaves.  What was written before an exception stays written.  \<open>op_bind\<close> is the
  sequence of two statements, \<open>op_catch\<close> an \<open>except\<close> clause.
\<close>

type_synonym ('s, 'e, 'a) op = "'s \<Rightarrow> ('e + 'a) \<times> 's"

definition op_return :: "'a \<Rightarrow> ('s, 'e, 'a) op" where
  "op_return x = (\<lambda>s. (Inr x, s))"

definition op_raise :: "'e \<Rightarrow> ('s, 'e, 'a) op" where
  "op_raise e = (\<lambda>s. (Inl e, s))"

definition op_lift :: "'e + 'a \<Rightarrow> ('s, 'e, 'a) op" where
  "op_lift r = (\<lambda>s. (r, s))"

definition op_read :: "('s \<Rightarrow> 'a) \<Rightarrow> ('s, 'e, 'a) op" where
  "op_read f = (\<lambda>s. (Inr (f s), s))"

definition op_try :: "('s \<Rightarrow> 'e + 'a) \<Rightarrow> ('s, 'e, 'a) op" where
  "op_try f = (\<lambda>s. (f s, s))"

definition op_write :: "('s \<Rightarrow> 's) \<Rightarrow> ('s, 'e, unit) op" where
  "op_write f = (\<lambda>s. (Inr (), f s))"

definition op_bind :: "('s, 'e, 'a) op \<Rightarrow> ('a \<Rightarrow> ('s, 'e, 'b) op) \<Rightarrow> ('s, 'e, 'b) op" where
  "op_bind m f = (\<lambda>s. case m s of (Inl e, t) \<Rightarrow> (Inl e, t) | (Inr x, t) \<Rightarrow> f x t)"

definition op_seq :: "('s, 'e, unit) op \<Rightarrow> ('s, 'e, 'b) op \<Rightarrow> ('s, 'e, 'b) op" where
  "op_seq m n = op_bind m (\<lambda>_. n)"

definition op_catch :: "('s, 'e, 'a) op \<Rightarrow> ('e \<Rightarrow> ('s, 'e, 'a) op) \<Rightarrow> ('s, 'e, 'a) op" where
  "op_catch m h = (\<lambda>s. case m s of (Inl e, t) \<Rightarrow> h e t | (Inr x, t) \<Rightarrow> (Inr x, t))"

text \<open>The statement \<open>if b: raise e\<close>.\<close>

definition op_guard :: "bool \<Rightarrow> 'e \<Rightarrow> ('s, 'e, unit) op" where
  "op_guard b e = (if b then op_raise e else op_return ())"

fun op_all :: "('s, 'e, unit) op list \<Rightarrow> ('s, 'e, unit) op" where
  "op_all [] = op_return ()"
| "op_all (m # ms) = op_seq m (op_all ms)"

named_theorems op_simps \<open>evaluation of operations\<close>

lemma op_return_apply [op_simps]: "op_return x s = (Inr x, s)"
  by (simp add: op_return_def)

lemma op_raise_apply [op_simps]: "op_raise e s = (Inl e, s)"
  by (simp add: op_raise_def)

lemma op_lift_apply [op_simps]: "op_lift r s = (r, s)"
  by (simp add: op_lift_def)

lemma op_read_apply [op_simps]: "op_read f s = (Inr (f s), s)"
  by (simp add: op_read_def)

lemma op_try_apply [op_simps]: "op_try f s = (f s, s)"
  by (simp add: op_try_def)

lemma op_write_apply [op_simps]: "op_write f s = (Inr (), f s)"
  by (simp add: op_write_def)

lemma op_guard_apply [op_simps]: "op_guard b e s = (if b then Inl e else Inr (), s)"
  by (simp add: op_guard_def op_simps)

lemma op_bind_Inr: "m s = (Inr x, t) \<Longrightarrow> op_bind m f s = f x t"
  by (simp add: op_bind_def)

lemma op_bind_Inl: "m s = (Inl e, t) \<Longrightarrow> op_bind m f s = (Inl e, t)"
  by (simp add: op_bind_def)

lemma op_bind_Inr_iff:
  "op_bind m f s = (Inr y, u) \<longleftrightarrow> (\<exists>x t. m s = (Inr x, t) \<and> f x t = (Inr y, u))"
  by (auto simp: op_bind_def split: prod.splits sum.splits)

lemma op_bind_Inl_iff:
  "op_bind m f s = (Inl e, u) \<longleftrightarrow>
     m s = (Inl e, u) \<or> (\<exists>x t. m s = (Inr x, t) \<and> f x t = (Inl e, u))"
  by (auto simp: op_bind_def split: prod.splits sum.splits)

lemma op_bind_lift [op_simps]:
  "op_bind (op_lift r) f s = (case r of Inl e \<Rightarrow> (Inl e, s) | Inr x \<Rightarrow> f x s)"
  by (simp add: op_bind_def op_simps split: sum.splits)

lemma op_bind_try [op_simps]:
  "op_bind (op_try r) f s = (case r s of Inl e \<Rightarrow> (Inl e, s) | Inr x \<Rightarrow> f x s)"
  by (simp add: op_bind_def op_simps split: sum.splits)

lemma op_bind_read [op_simps]: "op_bind (op_read g) f s = f (g s) s"
  by (simp add: op_bind_def op_simps)

lemma op_bind_return [op_simps]: "op_bind (op_return x) f = f x"
  by (simp add: op_bind_def op_simps)

lemma op_bind_return_right [op_simps]: "op_bind m op_return = m"
  by (rule ext) (simp add: op_bind_def op_return_def split: prod.splits sum.splits)

lemma op_bind_raise [op_simps]: "op_bind (op_raise e) f = op_raise e"
  by (rule ext) (simp add: op_bind_def op_simps)

lemma op_bind_assoc: "op_bind (op_bind m f) g = op_bind m (\<lambda>x. op_bind (f x) g)"
  by (rule ext) (simp add: op_bind_def split: prod.splits sum.splits)

lemma op_seq_write [op_simps]: "op_seq (op_write g) m s = m (g s)"
  by (simp add: op_seq_def op_bind_def op_simps)

lemma op_seq_guard [op_simps]: "op_seq (op_guard b e) m s = (if b then (Inl e, s) else m s)"
  by (simp add: op_seq_def op_bind_def op_simps)

lemma op_catch_try [op_simps]:
  "op_catch (op_try r) h s = (case r s of Inl e \<Rightarrow> h e s | Inr x \<Rightarrow> (Inr x, s))"
  by (simp add: op_catch_def op_simps split: sum.splits)

text \<open>An operation that returned: each of its parts did, one after the other.\<close>

lemmas op_success =
  op_seq_def op_bind_Inr_iff op_lift_apply op_try_apply op_read_apply op_return_apply op_raise_apply
  op_guard_apply op_write_apply

subsection \<open>What every operation does to the store\<close>

text \<open>
  A relation between the store before and after that holds of doing nothing and of doing one thing
  after the other: an invariant kept, a log that only grows.  \<open>keeps m\<close> says that \<open>m\<close> moves the
  store along it, whether it returns or raises.
\<close>

locale effect_frame =
  fixes rel :: "'s \<Rightarrow> 's \<Rightarrow> bool"
  assumes rel_refl: "rel s s"
    and rel_trans: "rel s t \<Longrightarrow> rel t u \<Longrightarrow> rel s u"
begin

definition keeps :: "('s, 'e, 'a) op \<Rightarrow> bool" where
  "keeps m \<longleftrightarrow> (\<forall>s. rel s (snd (m s)))"

lemma keepsD: "keeps m \<Longrightarrow> m s = (r, t) \<Longrightarrow> rel s t"
  unfolding keeps_def by (metis snd_conv)

lemma keeps_return: "keeps (op_return x)"
  by (simp add: keeps_def op_simps rel_refl)

lemma keeps_raise: "keeps (op_raise e)"
  by (simp add: keeps_def op_simps rel_refl)

lemma keeps_lift: "keeps (op_lift r)"
  by (simp add: keeps_def op_simps rel_refl)

lemma keeps_read: "keeps (op_read f)"
  by (simp add: keeps_def op_simps rel_refl)

lemma keeps_try: "keeps (op_try f)"
  by (simp add: keeps_def op_simps rel_refl)

lemma keeps_guard: "keeps (op_guard b e)"
  by (simp add: keeps_def op_simps rel_refl)

lemma keeps_write: "(\<And>s. rel s (f s)) \<Longrightarrow> keeps (op_write f)"
  by (simp add: keeps_def op_simps)

lemma keeps_bind:
  assumes "keeps m" and "\<And>x. keeps (f x)"
  shows "keeps (op_bind m f)"
  unfolding keeps_def
proof
  fix s
  show "rel s (snd (op_bind m f s))"
  proof (cases "m s")
    case (Pair r t)
    then have "rel s t" using assms(1) keepsD by blast
    with Pair assms(2) show ?thesis
      by (cases r) (auto simp: op_bind_def keeps_def intro: rel_trans)
  qed
qed

text \<open>What follows a check may rely on what the check gave.\<close>

lemma keeps_bind_lift: "(\<And>x. r = Inr x \<Longrightarrow> keeps (f x)) \<Longrightarrow> keeps (op_bind (op_lift r) f)"
  by (cases r) (auto simp: keeps_def op_simps rel_refl)

lemma keeps_bind_try: "(\<And>x s. g s = Inr x \<Longrightarrow> keeps (f x)) \<Longrightarrow> keeps (op_bind (op_try g) f)"
  by (auto simp: keeps_def op_simps rel_refl split: sum.split)

lemma keeps_seq: "keeps m \<Longrightarrow> keeps n \<Longrightarrow> keeps (op_seq m n)"
  by (auto simp: op_seq_def intro: keeps_bind)

lemma keeps_catch:
  assumes "keeps m" and "\<And>e. keeps (h e)"
  shows "keeps (op_catch m h)"
  unfolding keeps_def
proof
  fix s
  show "rel s (snd (op_catch m h s))"
  proof (cases "m s")
    case (Pair r t)
    then have "rel s t" using assms(1) keepsD by blast
    with Pair assms(2) show ?thesis
      by (cases r) (auto simp: op_catch_def keeps_def intro: rel_trans)
  qed
qed

lemma keeps_all: "\<forall>m \<in> set ms. keeps m \<Longrightarrow> keeps (op_all ms)"
  by (induction ms) (auto intro: keeps_seq keeps_return)

lemma keeps_if: "(b \<Longrightarrow> keeps m) \<Longrightarrow> (\<not> b \<Longrightarrow> keeps n) \<Longrightarrow> keeps (if b then m else n)"
  by simp

lemma keeps_option:
  "keeps m \<Longrightarrow> (\<And>x. keeps (f x)) \<Longrightarrow> keeps (case v of None \<Rightarrow> m | Some x \<Rightarrow> f x)"
  by (cases v) simp_all

lemmas keeps_rules =
  keeps_return keeps_raise keeps_lift keeps_read keeps_try keeps_guard keeps_bind keeps_seq keeps_catch
  keeps_if keeps_option

end

text \<open>The frame of an invariant.\<close>

locale invariant_frame =
  fixes inv :: "'s \<Rightarrow> bool"

sublocale invariant_frame \<subseteq> effect_frame "\<lambda>s t. inv s \<longrightarrow> inv t"
  by unfold_locales auto

end
