(* ===== verification/Loop_Model.thy ===== *)
theory Loop_Model
  imports Loop_Policy Effects
begin

section \<open>Records and files of the repair loop\<close>

text \<open>
  \<open>closed_loop/models.py\<close>, \<open>store_io.py\<close> and the data of \<open>events.py\<close>.

  The store is a directory; \<open>st_files\<close> is the dictionary from paths to what the files hold, so that
  two records whose names meet are one file.  A file is a \<open>document\<close>: a model written as JSON, a log
  of JSON lines, or text from outside.  A directory is a proper prefix of a file's path; empty
  directories are not modelled.  The file system itself does not fail.

  \<open>loop_env\<close> holds what the code takes from elsewhere: the clock and the successive values of
  \<open>uuid4\<close> for one call, the correlation id of the context, SHA-256, the Python parser, \<open>json.loads\<close>, the text of a document as it is written out, and the redaction of
  \<open>observability/redaction.py\<close>.
\<close>

subsection \<open>JSON\<close>

text \<open>A number is its text.\<close>

datatype json =
    JNull
  | JBool bool
  | JNum string
  | JStr string
  | JList "json list"
  | JObj "(string \<times> json) list"

text \<open>
  \<open>str(value)\<close>.  Of a list or a dictionary only the brackets are kept: the text is compared with
  words and with the empty text only.
\<close>

fun json_str :: "json \<Rightarrow> string" where
  "json_str JNull = ''None''"
| "json_str (JBool b) = (if b then ''True'' else ''False'')"
| "json_str (JNum t) = t"
| "json_str (JStr s) = s"
| "json_str (JList xs) = ''[]''"
| "json_str (JObj d) = ''{}''"

subsection \<open>Lifecycle and records\<close>

datatype lifecycle_state =
    RUN | OBSERVE | PACKAGE | AI_FIX | VALIDATE | PROMOTE_READY | PROMOTED | REJECTED | ROLLED_BACK | FAILED

fun lifecycle_value :: "lifecycle_state \<Rightarrow> string" where
  "lifecycle_value RUN = ''RUN''"
| "lifecycle_value OBSERVE = ''OBSERVE''"
| "lifecycle_value PACKAGE = ''PACKAGE''"
| "lifecycle_value AI_FIX = ''AI_FIX''"
| "lifecycle_value VALIDATE = ''VALIDATE''"
| "lifecycle_value PROMOTE_READY = ''PROMOTE_READY''"
| "lifecycle_value PROMOTED = ''PROMOTED''"
| "lifecycle_value REJECTED = ''REJECTED''"
| "lifecycle_value ROLLED_BACK = ''ROLLED_BACK''"
| "lifecycle_value FAILED = ''FAILED''"

record repair_bundle =
  rb_repair_id :: string
  rb_correlation_id :: string
  rb_failed_job_id :: string
  rb_failed_session_id :: "string option"
  rb_user_request :: string
  rb_plan_summary :: string
  rb_generated_code :: string
  rb_static_guard_result :: json
  rb_stdout :: string
  rb_stderr :: string
  rb_error_trace :: string
  rb_input_dataset_references :: "string list"
  rb_artifact_manifest :: json
  rb_output_state :: json
  rb_validation_result :: json
  rb_environment_summary :: json
  rb_redaction_status :: string
  rb_run_id :: "string option"
  rb_artifact_id :: "string option"
  rb_experiment_id :: "string option"
  rb_feature_id :: "string option"
  rb_hypothesis_id :: "string option"
  rb_pattern_id :: "string option"

record repair_proposal =
  rp_proposal_id :: string
  rp_repair_id :: string
  rp_correlation_id :: string
  rp_scope :: repair_scope
  rp_suspected_failure_cause :: string
  rp_proposed_patch :: string
  rp_replacement_generated_code :: string
  rp_expected_validation_checks :: "string list"
  rp_accepted :: bool
  rp_rejection_reason :: "string option"

record sandbox_attempt_result =
  sr_passed :: bool
  sr_stdout :: string
  sr_stderr :: string
  sr_error_trace :: string
  sr_artifact_id :: "string option"

record repair_attempt =
  ra_attempt_id :: string
  ra_repair_id :: string
  ra_attempt :: int
  ra_passed :: bool
  ra_stdout :: string
  ra_stderr :: string
  ra_error_trace :: string
  ra_artifact_id :: "string option"
  ra_created_at :: string

record lifecycle_record =
  lr_repair_id :: string
  lr_state :: lifecycle_state
  lr_correlation_id :: string
  lr_run_id :: "string option"
  lr_sandbox_job_id :: "string option"
  lr_research_experiment_id :: "string option"
  lr_feature_id :: "string option"
  lr_hypothesis_id :: "string option"
  lr_pattern_id :: "string option"
  lr_artifact_id :: "string option"
  lr_created_at :: string
  lr_detail :: string

record validation_check =
  vc_name :: string
  vc_passed :: bool
  vc_detail :: string

record validation_report =
  vr_artifact_id :: string
  vr_correlation_id :: string
  vr_checks :: "validation_check list"
  vr_passed :: bool
  vr_created_at :: string
  vr_artifact_digest :: string
  vr_artifact_root :: "path option"

record promotion_verification =
  pv_candidate :: string
  pv_deployment_id :: string
  pv_correlation_id :: string
  pv_candidate_type :: artifact_type
  pv_validation_report_id :: string
  pv_artifact_digest :: string
  pv_artifact_root :: "path option"
  pv_passed :: bool
  pv_created_at :: string

datatype deployment_status = Status_Verified | Status_Promoted | Status_Rolled_Back

record deployment_state =
  ds_deployment_id :: string
  ds_candidate :: string
  ds_candidate_type :: artifact_type
  ds_correlation_id :: string
  ds_validation_report_id :: string
  ds_artifact_root :: "path option"
  ds_previous_candidate :: "string option"
  ds_status :: deployment_status
  ds_created_at :: string
  ds_updated_at :: string
  ds_rollback_reason :: "string option"

record loop_event =
  ev_event_type :: string
  ev_correlation_id :: string
  ev_repair_id :: string
  ev_artifact_id :: string
  ev_run_id :: string
  ev_status :: string
  ev_detail :: string
  ev_metadata :: json
  ev_event_id :: string
  ev_created_at :: string

subsection \<open>Field constraints\<close>

text \<open>What constructing or loading a model checks.\<close>

definition opt_id :: "string option \<Rightarrow> bool" where
  "opt_id v \<longleftrightarrow> (case v of None \<Rightarrow> True | Some s \<Rightarrow> safe_id s)"

definition at_most :: "int \<Rightarrow> string \<Rightarrow> bool" where
  "at_most n s \<longleftrightarrow> int (py_len s) \<le> n"

definition opt_at_most :: "int \<Rightarrow> string option \<Rightarrow> bool" where
  "opt_at_most n v \<longleftrightarrow> (case v of None \<Rightarrow> True | Some s \<Rightarrow> at_most n s)"

text \<open>\<open>str(path)\<close>.\<close>

definition path_text :: "path \<Rightarrow> string" where
  "path_text p = ''/'' @ join ''/'' p"

fun json_object :: "json \<Rightarrow> bool" where
  "json_object (JObj d) = True"
| "json_object _ = False"

definition redaction_statuses :: "string list" where
  "redaction_statuses = [''redacted'', ''metadata'', ''full'']"

definition bundle_valid :: "repair_bundle \<Rightarrow> bool" where
  "bundle_valid b \<longleftrightarrow>
     safe_id (rb_repair_id b) \<and> safe_id (rb_correlation_id b) \<and> safe_id (rb_failed_job_id b) \<and>
     list_all opt_id [rb_failed_session_id b, rb_run_id b, rb_artifact_id b, rb_experiment_id b,
                      rb_feature_id b, rb_hypothesis_id b, rb_pattern_id b] \<and>
     at_most 20000 (rb_user_request b) \<and> at_most 20000 (rb_plan_summary b) \<and>
     at_most 100000 (rb_generated_code b) \<and>
     at_most 50000 (rb_stdout b) \<and> at_most 50000 (rb_stderr b) \<and> at_most 50000 (rb_error_trace b) \<and>
     list_all json_object [rb_static_guard_result b, rb_artifact_manifest b, rb_output_state b,
                           rb_validation_result b, rb_environment_summary b] \<and>
     rb_redaction_status b \<in> set redaction_statuses"

definition proposal_valid :: "repair_proposal \<Rightarrow> bool" where
  "proposal_valid p \<longleftrightarrow>
     safe_id (rp_proposal_id p) \<and> safe_id (rp_repair_id p) \<and> safe_id (rp_correlation_id p) \<and>
     rp_suspected_failure_cause p \<noteq> [] \<and> at_most 20000 (rp_suspected_failure_cause p) \<and>
     at_most 100000 (rp_proposed_patch p) \<and> at_most 100000 (rp_replacement_generated_code p) \<and>
     opt_at_most 2000 (rp_rejection_reason p)"

definition attempt_result_valid :: "sandbox_attempt_result \<Rightarrow> bool" where
  "attempt_result_valid r \<longleftrightarrow>
     at_most 50000 (sr_stdout r) \<and> at_most 50000 (sr_stderr r) \<and> at_most 50000 (sr_error_trace r) \<and>
     opt_id (sr_artifact_id r)"

definition attempt_valid :: "repair_attempt \<Rightarrow> bool" where
  "attempt_valid a \<longleftrightarrow>
     safe_id (ra_attempt_id a) \<and> safe_id (ra_repair_id a) \<and> 1 \<le> ra_attempt a \<and> ra_attempt a \<le> 100 \<and>
     at_most 50000 (ra_stdout a) \<and> at_most 50000 (ra_stderr a) \<and> at_most 50000 (ra_error_trace a) \<and>
     opt_id (ra_artifact_id a)"

definition lifecycle_valid :: "lifecycle_record \<Rightarrow> bool" where
  "lifecycle_valid r \<longleftrightarrow>
     safe_id (lr_repair_id r) \<and> safe_id (lr_correlation_id r) \<and>
     list_all opt_id [lr_run_id r, lr_sandbox_job_id r, lr_research_experiment_id r, lr_feature_id r,
                      lr_hypothesis_id r, lr_pattern_id r, lr_artifact_id r] \<and>
     at_most 2000 (lr_detail r)"

definition report_valid :: "validation_report \<Rightarrow> bool" where
  "report_valid r \<longleftrightarrow>
     safe_id (vr_artifact_id r) \<and> safe_id (vr_correlation_id r) \<and>
     list_all (\<lambda>c. vc_name c \<noteq> [] \<and> at_most 128 (vc_name c) \<and> at_most 2000 (vc_detail c)) (vr_checks r)"

definition verification_valid :: "promotion_verification \<Rightarrow> bool" where
  "verification_valid v \<longleftrightarrow>
     safe_id (pv_candidate v) \<and> safe_id (pv_deployment_id v) \<and> safe_id (pv_correlation_id v) \<and>
     safe_id (pv_validation_report_id v) \<and> opt_at_most 1000 (map_option path_text (pv_artifact_root v))"

definition deployment_valid :: "deployment_state \<Rightarrow> bool" where
  "deployment_valid d \<longleftrightarrow>
     safe_id (ds_deployment_id d) \<and> safe_id (ds_candidate d) \<and> safe_id (ds_correlation_id d) \<and>
     safe_id (ds_validation_report_id d) \<and> opt_id (ds_previous_candidate d) \<and>
     opt_at_most 1000 (map_option path_text (ds_artifact_root d)) \<and>
     opt_at_most 2000 (ds_rollback_reason d)"

definition build :: "('a \<Rightarrow> bool) \<Rightarrow> string \<Rightarrow> 'a \<Rightarrow> loop_error + 'a" where
  "build valid name x = (if valid x then Inr x else Inl (Validation_Error name))"

lemma build_Inr_iff [simp]: "build valid name x = Inr y \<longleftrightarrow> valid x \<and> y = x"
  by (auto simp: build_def)

subsection \<open>Files\<close>

datatype log_line = Lifecycle_Line lifecycle_record | Event_Line loop_event

datatype document =
    Text_Doc string
  | Bytes_Doc string
  | Json_Doc json
  | Bundle_Doc repair_bundle
  | Proposal_Doc repair_proposal
  | Attempt_Doc repair_attempt
  | Report_Doc validation_report
  | Verification_Doc promotion_verification
  | Deployment_Doc deployment_state
  | Log_Doc "log_line list"

record loop_store =
  st_root :: path
  st_files :: "(path \<times> document) list"

record loop_env =
  le_now :: string
  le_uuid :: "nat \<Rightarrow> string"
  le_correlation_id :: string
  le_sha256 :: "string \<Rightarrow> string"
  le_parse :: "string \<Rightarrow> pynode option"
  le_json_loads :: "string \<Rightarrow> json option"
  le_document_text :: "document \<Rightarrow> string"
  le_redact :: "string \<Rightarrow> string"
  le_redact_json :: "json \<Rightarrow> json"
  le_content_mode :: string

type_synonym 'a loop_op = "(loop_store, loop_error, 'a) op"

definition file_at :: "loop_store \<Rightarrow> path \<Rightarrow> document option" where
  "file_at s p = map_of (st_files s) p"

definition put_file :: "path \<Rightarrow> document \<Rightarrow> loop_store \<Rightarrow> loop_store" where
  "put_file p d s = s\<lparr>st_files := dict_set p d (st_files s)\<rparr>"

definition is_dir :: "loop_store \<Rightarrow> path \<Rightarrow> bool" where
  "is_dir s p \<longleftrightarrow> list_ex (\<lambda>(q, _). is_under p q \<and> length p < length q) (st_files s)"

lemma file_at_put [simp]: "file_at (put_file p d s) q = (if q = p then Some d else file_at s q)"
  by (simp add: file_at_def put_file_def)

lemma root_put [simp]: "st_root (put_file p d s) = st_root s"
  by (simp add: put_file_def)

text \<open>The bytes of a file, and its text when they are UTF-8.\<close>

definition bytes_of :: "loop_env \<Rightarrow> document \<Rightarrow> string" where
  "bytes_of e d = (case d of Text_Doc t \<Rightarrow> t | Bytes_Doc b \<Rightarrow> b | _ \<Rightarrow> le_document_text e d)"

definition text_of :: "loop_env \<Rightarrow> document \<Rightarrow> string option" where
  "text_of e d = (case d of Bytes_Doc _ \<Rightarrow> None | _ \<Rightarrow> Some (bytes_of e d))"

text \<open>\<open>append_json\<close>: one more line.\<close>

definition append_line :: "path \<Rightarrow> log_line \<Rightarrow> loop_store \<Rightarrow> loop_store" where
  "append_line p l s =
     put_file p (Log_Doc ((case file_at s p of Some (Log_Doc ls) \<Rightarrow> ls | _ \<Rightarrow> []) @ [l])) s"

definition log_at :: "loop_store \<Rightarrow> path \<Rightarrow> log_line list" where
  "log_at s p = (case file_at s p of Some (Log_Doc ls) \<Rightarrow> ls | _ \<Rightarrow> [])"

text \<open>
  \<open>load_model\<close>: a file with another kind of record, or one that breaks a constraint, does not load.
\<close>

definition load_model ::
  "(document \<Rightarrow> 'a option) \<Rightarrow> ('a \<Rightarrow> bool) \<Rightarrow> path \<Rightarrow> loop_store \<Rightarrow> loop_error + 'a" where
  "load_model decode valid p s =
     (case file_at s p of
        None \<Rightarrow> Inl (Not_Found (''closed-loop record not found: '' @ path_text p))
      | Some d \<Rightarrow>
          (case decode d of
             Some x \<Rightarrow> if valid x then Inr x else Inl (Persistence_Error (''could not load '' @ path_text p))
           | None \<Rightarrow> Inl (Persistence_Error (''could not load '' @ path_text p))))"

fun as_bundle :: "document \<Rightarrow> repair_bundle option" where
  "as_bundle (Bundle_Doc b) = Some b" | "as_bundle _ = None"

fun as_proposal :: "document \<Rightarrow> repair_proposal option" where
  "as_proposal (Proposal_Doc b) = Some b" | "as_proposal _ = None"

fun as_attempt :: "document \<Rightarrow> repair_attempt option" where
  "as_attempt (Attempt_Doc b) = Some b" | "as_attempt _ = None"

fun as_report :: "document \<Rightarrow> validation_report option" where
  "as_report (Report_Doc b) = Some b" | "as_report _ = None"

fun as_verification :: "document \<Rightarrow> promotion_verification option" where
  "as_verification (Verification_Doc b) = Some b" | "as_verification _ = None"

fun as_deployment :: "document \<Rightarrow> deployment_state option" where
  "as_deployment (Deployment_Doc b) = Some b" | "as_deployment _ = None"

lemma as_document [simp]:
  "as_bundle d = Some b \<longleftrightarrow> d = Bundle_Doc b"
  "as_proposal d = Some p \<longleftrightarrow> d = Proposal_Doc p"
  "as_attempt d = Some a \<longleftrightarrow> d = Attempt_Doc a"
  "as_report d = Some r \<longleftrightarrow> d = Report_Doc r"
  "as_verification d = Some v \<longleftrightarrow> d = Verification_Doc v"
  "as_deployment d = Some t \<longleftrightarrow> d = Deployment_Doc t"
  by (cases d; simp)+

lemma load_model_Inr_iff:
  "load_model decode valid p s = Inr x \<longleftrightarrow>
     (\<exists>d. file_at s p = Some d \<and> decode d = Some x \<and> valid x)"
  by (auto simp: load_model_def split: option.splits)

end
