(* ===== verification/Loop_Store.thy ===== *)
theory Loop_Store
  imports Loop_Model
begin

section \<open>The store of the repair loop and the evidence in its directories\<close>

text \<open>
  \<open>closed_loop/store.py\<close>, \<open>events.py\<close> and \<open>artifact_integrity.py\<close>.
\<close>

subsection \<open>Paths of the store\<close>

definition scoped_path :: "loop_store \<Rightarrow> path \<Rightarrow> string \<Rightarrow> loop_error + path" where
  "scoped_path s p fld = resolve_under (st_root s) (Absolute p) fld"

definition scoped_directory :: "loop_store \<Rightarrow> path_arg \<Rightarrow> string \<Rightarrow> loop_error + path" where
  "scoped_directory s p fld =
     res_bind (ensure_tree_confined (st_root s) p fld)
       (\<lambda>r. if is_dir s r then Inr r
            else Inl (Not_Found (fld @ '' was not found: '' @ path_text r)))"

definition run_directory :: "loop_store \<Rightarrow> path_arg \<Rightarrow> loop_error + path" where
  "run_directory s p =
     res_bind (ensure_tree_confined (st_root s @ [''runs'']) p ''run directory'')
       (\<lambda>r. if is_dir s r then Inr r
            else Inl (Not_Found (''run directory was not found: '' @ path_text r)))"

definition bundle_dir :: "loop_store \<Rightarrow> string \<Rightarrow> loop_error + path" where
  "bundle_dir s rid = resolve_component (st_root s) ''bundles'' rid ''repair_id''"

definition bundle_file :: "loop_store \<Rightarrow> string \<Rightarrow> path \<Rightarrow> string \<Rightarrow> loop_error + path" where
  "bundle_file s rid rest fld = res_bind (bundle_dir s rid) (\<lambda>d. scoped_path s (d @ rest) fld)"

definition deployment_path :: "loop_store \<Rightarrow> string \<Rightarrow> loop_error + path" where
  "deployment_path s did = resolve_file (st_root s) ''deployments'' did ''.json'' ''deployment_id''"

definition verification_path :: "loop_store \<Rightarrow> string \<Rightarrow> loop_error + path" where
  "verification_path s did =
     resolve_file (st_root s) ''deployments'' did ''-verification.json'' ''deployment_id''"

definition report_path :: "loop_store \<Rightarrow> string \<Rightarrow> string \<Rightarrow> loop_error + path" where
  "report_path s aid fld = resolve_file (st_root s) ''validations'' aid ''.json'' fld"

text \<open>The log and the state file of a repair, or of an artifact under the name \<open>artifact:<id>\<close>.\<close>

definition artifact_prefix :: string where
  "artifact_prefix = ''artifact:''"

definition lifecycle_path :: "loop_store \<Rightarrow> string \<Rightarrow> loop_error + path" where
  "lifecycle_path s rid =
     (if starts_with rid artifact_prefix
      then res_bind (validate_identifier (drop 9 rid) ''artifact_id'')
             (\<lambda>aid. resolve_file (st_root s) ''closed-loop'' aid ''-lifecycle.jsonl'' ''lifecycle'')
      else res_bind (bundle_dir s rid) (\<lambda>d. Inr (d @ [''lifecycle.jsonl''])))"

definition state_path :: "loop_store \<Rightarrow> string \<Rightarrow> loop_error + path" where
  "state_path s rid =
     (if starts_with rid artifact_prefix
      then res_bind (validate_identifier (drop 9 rid) ''artifact_id'')
             (\<lambda>aid. resolve_file (st_root s) ''closed-loop'' aid ''-state.json'' ''state'')
      else res_bind (bundle_dir s rid) (\<lambda>d. Inr (d @ [''repair-state.json''])))"

definition event_path :: "loop_store \<Rightarrow> string \<Rightarrow> string \<Rightarrow> loop_error + path" where
  "event_path s rid aid =
     (if rid \<noteq> []
      then res_bind (resolve_component (st_root s) ''bundles'' rid ''repair_id'')
             (\<lambda>d. Inr (d @ [''closed-loop.jsonl'']))
      else if aid \<noteq> [] then resolve_file (st_root s) ''closed-loop'' aid ''.jsonl'' ''artifact_id''
      else resolve_file (st_root s) ''closed-loop'' ''events'' ''.jsonl'' ''events'')"

subsection \<open>Writing\<close>

definition write_doc :: "(loop_store \<Rightarrow> loop_error + path) \<Rightarrow> document \<Rightarrow> unit loop_op" where
  "write_doc p d = op_bind (op_try p) (\<lambda>q. op_write (put_file q d))"

definition write_line :: "(loop_store \<Rightarrow> loop_error + path) \<Rightarrow> log_line \<Rightarrow> unit loop_op" where
  "write_line p l = op_bind (op_try p) (\<lambda>q. op_write (append_line q l))"

definition state_json :: "lifecycle_state \<Rightarrow> string \<Rightarrow> string \<Rightarrow> json" where
  "state_json st k now = JObj [(k, JStr (lifecycle_value st)), (''updated_at'', JStr now)]"

fun opt_json :: "string option \<Rightarrow> json" where
  "opt_json None = JNull"
| "opt_json (Some s) = JStr s"

definition bundle_manifest :: "repair_bundle \<Rightarrow> json" where
  "bundle_manifest b =
     JObj [(''bundle_id'', JStr (rb_repair_id b)), (''bundle_type'', JStr ''repair''),
           (''source_run_id'', opt_json (rb_run_id b)), (''source_job_id'', JStr (rb_failed_job_id b)),
           (''correlation_id'', JStr (rb_correlation_id b)),
           (''redaction_status'', JStr (rb_redaction_status b)),
           (''included_sections'', JList (map JStr
             [''repair-bundle.json'', ''static_guard_result'', ''stdout'', ''stderr'', ''error_trace'',
              ''input_dataset_references'', ''artifact_manifest'', ''output_state'',
              ''validation_result'', ''environment_summary'']))]"

definition save_bundle :: "loop_env \<Rightarrow> repair_bundle \<Rightarrow> unit loop_op" where
  "save_bundle e b =
     op_all
       [write_doc (\<lambda>s. bundle_file s (rb_repair_id b) [''repair-bundle.json''] ''path'') (Bundle_Doc b),
        write_doc (\<lambda>s. bundle_file s (rb_repair_id b) [''manifest.json''] ''path'')
          (Json_Doc (bundle_manifest b)),
        write_doc (\<lambda>s. bundle_file s (rb_repair_id b) [''repair-state.json''] ''path'')
          (Json_Doc (state_json PACKAGE ''repair_status'' (le_now e)))]"

definition load_bundle :: "string \<Rightarrow> loop_store \<Rightarrow> loop_error + repair_bundle" where
  "load_bundle rid s =
     res_bind (bundle_file s rid [''repair-bundle.json''] ''repair bundle'')
       (\<lambda>p. load_model as_bundle bundle_valid p s)"

definition save_proposal :: "repair_proposal \<Rightarrow> unit loop_op" where
  "save_proposal p =
     write_doc (\<lambda>s. bundle_file s (rp_repair_id p) [''repair-proposal.json''] ''path'') (Proposal_Doc p)"

definition load_proposal :: "string \<Rightarrow> loop_store \<Rightarrow> loop_error + repair_proposal" where
  "load_proposal rid s =
     res_bind (bundle_file s rid [''repair-proposal.json''] ''path'')
       (\<lambda>p. load_model as_proposal proposal_valid p s)"

text \<open>\<open>f"attempt-{n}.json"\<close>.\<close>

function decimal :: "nat \<Rightarrow> string" where
  "decimal n = (if n < 10 then [char_of (48 + n)] else decimal (n div 10) @ [char_of (48 + n mod 10)])"
  by pat_completeness auto
termination
  by (relation "measure id") auto

declare decimal.simps [simp del]

definition int_text :: "int \<Rightarrow> string" where
  "int_text i = (if i < 0 then ''-'' @ decimal (nat (- i)) else decimal (nat i))"

definition attempt_file :: "int \<Rightarrow> string" where
  "attempt_file n = ''attempt-'' @ int_text n @ ''.json''"

definition save_attempt :: "repair_attempt \<Rightarrow> unit loop_op" where
  "save_attempt a =
     write_doc (\<lambda>s. bundle_file s (ra_repair_id a) [''attempts'', attempt_file (ra_attempt a)] ''path'')
       (Attempt_Doc a)"

text \<open>\<open>sorted(dir.glob("attempt-*.json"))\<close>: the paths in the directory with such a name, in order.\<close>

definition attempt_name :: "string \<Rightarrow> bool" where
  "attempt_name n \<longleftrightarrow> starts_with n ''attempt-'' \<and> ends_with n ''.json'' \<and> 13 \<le> length n"

definition attempt_files :: "path \<Rightarrow> loop_store \<Rightarrow> path list" where
  "attempt_files d s =
     sort (filter (\<lambda>p. is_under d p \<and> length p = Suc (length d) \<and> attempt_name (last p))
             (map fst (st_files s)))"

definition list_attempts :: "string \<Rightarrow> loop_store \<Rightarrow> loop_error + repair_attempt list" where
  "list_attempts rid s =
     res_bind (bundle_file s rid [''attempts''] ''attempts directory'')
       (\<lambda>d. res_map (\<lambda>p. res_bind (scoped_path s p ''attempt'')
                              (\<lambda>q. load_model as_attempt attempt_valid q s))
              (attempt_files d s))"

definition record_lifecycle :: "lifecycle_record \<Rightarrow> unit loop_op" where
  "record_lifecycle r =
     op_seq
       (write_line (\<lambda>s. res_bind (lifecycle_path s (lr_repair_id r)) (\<lambda>p. scoped_path s p ''lifecycle''))
          (Lifecycle_Line r))
       (write_doc (\<lambda>s. res_bind (state_path s (lr_repair_id r)) (\<lambda>p. scoped_path s p ''state''))
          (Json_Doc (state_json (lr_state r) ''state'' (lr_created_at r))))"

text \<open>\<open>_record_bundle_state\<close> and the callers below build the record first, which checks its fields.\<close>

definition record_built :: "lifecycle_record \<Rightarrow> unit loop_op" where
  "record_built r = op_bind (op_lift (build lifecycle_valid ''LifecycleRecord'' r)) record_lifecycle"

definition current_lifecycle :: "string \<Rightarrow> loop_store \<Rightarrow> loop_error + lifecycle_record" where
  "current_lifecycle rid s =
     res_bind (res_bind (lifecycle_path s rid) (\<lambda>p. scoped_path s p ''lifecycle''))
       (\<lambda>p. case log_at s p of
              [] \<Rightarrow> Inl (Not_Found (''no lifecycle state for '' @ rid))
            | ls \<Rightarrow> (case last ls of
                       Lifecycle_Line r \<Rightarrow>
                         if lifecycle_valid r then Inr r else Inl (Validation_Error ''LifecycleRecord'')
                     | Event_Line _ \<Rightarrow> Inl (Validation_Error ''LifecycleRecord'')))"

definition save_validation_report :: "validation_report \<Rightarrow> path option \<Rightarrow> unit loop_op" where
  "save_validation_report r root =
     op_seq
       (write_doc (\<lambda>s. res_bind (report_path s (vr_artifact_id r) ''artifact_id'')
                         (\<lambda>p. scoped_path s p ''validation report'')) (Report_Doc r))
       (case root of
          None \<Rightarrow> op_return ()
        | Some d \<Rightarrow>
            op_bind (op_try (\<lambda>s. scoped_directory s (Absolute d) ''artifact root''))
              (\<lambda>d'. write_doc (\<lambda>s. scoped_path s (d' @ [''validation-report.json'']) ''path'') (Report_Doc r)))"

definition load_validation_report :: "string \<Rightarrow> loop_store \<Rightarrow> loop_error + validation_report" where
  "load_validation_report aid s =
     res_bind (validate_identifier aid ''artifact_id'')
       (\<lambda>a. res_bind (report_path s a ''validation report'') (\<lambda>p. load_model as_report report_valid p s))"

definition save_verification :: "promotion_verification \<Rightarrow> unit loop_op" where
  "save_verification v = write_doc (\<lambda>s. verification_path s (pv_deployment_id v)) (Verification_Doc v)"

definition load_verification :: "string \<Rightarrow> loop_store \<Rightarrow> loop_error + promotion_verification" where
  "load_verification did s =
     res_bind (verification_path s did) (\<lambda>p. load_model as_verification verification_valid p s)"

definition save_deployment :: "deployment_state \<Rightarrow> unit loop_op" where
  "save_deployment d = write_doc (\<lambda>s. deployment_path s (ds_deployment_id d)) (Deployment_Doc d)"

definition load_deployment :: "string \<Rightarrow> loop_store \<Rightarrow> loop_error + deployment_state" where
  "load_deployment did s =
     res_bind (deployment_path s did) (\<lambda>p. load_model as_deployment deployment_valid p s)"

text \<open>\<open>emit_event\<close>: the texts of an event are redacted, the file is chosen by the plain identifiers.\<close>

definition emit ::
  "loop_env \<Rightarrow> string \<Rightarrow> string \<Rightarrow> string \<Rightarrow> string \<Rightarrow> string \<Rightarrow> string \<Rightarrow> string \<Rightarrow> json \<Rightarrow> unit loop_op" where
  "emit e etype corr rid aid run status detail meta =
     write_line (\<lambda>s. event_path s rid aid)
       (Event_Line
         \<lparr>ev_event_type = le_redact e etype, ev_correlation_id = le_redact e corr,
          ev_repair_id = le_redact e rid, ev_artifact_id = le_redact e aid, ev_run_id = le_redact e run,
          ev_status = le_redact e status, ev_detail = le_redact e detail,
          ev_metadata = le_redact_json e meta, ev_event_id = le_uuid e 0, ev_created_at = le_now e\<rparr>)"

definition event_types :: "string \<Rightarrow> loop_store \<Rightarrow> loop_error + string list" where
  "event_types ident s =
     res_bind (validate_identifier ident ''event identifier'') (\<lambda>i.
     res_bind (resolve_component (st_root s) ''bundles'' i ''event identifier'') (\<lambda>d.
     res_bind (resolve_file (st_root s) ''closed-loop'' i ''.jsonl'' ''event identifier'') (\<lambda>f.
       Inr (concat (map (\<lambda>l. case l of Event_Line ev \<Rightarrow> [ev_event_type ev] | Lifecycle_Line _ \<Rightarrow> [])
                     (log_at s (d @ [''closed-loop.jsonl'']) @ log_at s f))))))"

subsection \<open>Evidence of an artifact\<close>

text \<open>
  The run directories in the order of \<open>iterdir\<close>: the order of the store's files.
\<close>

definition sub_dirs :: "path \<Rightarrow> loop_store \<Rightarrow> path list" where
  "sub_dirs d s =
     remdups (map (take (Suc (length d)))
       (filter (\<lambda>p. is_under d p \<and> Suc (length d) < length p) (map fst (st_files s))))"

definition resolve_artifact_root :: "string \<Rightarrow> loop_store \<Rightarrow> path option" where
  "resolve_artifact_root aid s =
     (if \<not> safe_id aid then None
      else
        (let confined = (\<lambda>p. case ensure_tree_confined (st_root s) (Absolute p) ''artifact root'' of
                               Inl _ \<Rightarrow> None
                             | Inr q \<Rightarrow> if is_dir s q then Some q else None);
             fixed = [st_root s @ [''research'', aid], st_root s @ [''artifacts'', aid]];
             in_runs = map (\<lambda>d. d @ [''research'', aid]) (sub_dirs (st_root s @ [''runs'']) s) in
         case List.map_filter confined (fixed @ in_runs) of [] \<Rightarrow> None | q # _ \<Rightarrow> Some q))"

definition resolve_requested_root :: "string \<Rightarrow> path_arg option \<Rightarrow> loop_store \<Rightarrow> path option" where
  "resolve_requested_root aid requested s =
     (case requested of
        Some p \<Rightarrow> (case scoped_directory s p ''artifact root'' of Inl _ \<Rightarrow> None | Inr q \<Rightarrow> Some q)
      | None \<Rightarrow> resolve_artifact_root aid s)"

definition digest_excluded :: "string list" where
  "digest_excluded = [''promotion.json'', ''validation-report.json'']"

definition nul :: string where
  "nul = [char_of (0 :: nat)]"

definition tree_files :: "path \<Rightarrow> loop_store \<Rightarrow> path list" where
  "tree_files root s =
     sort (filter (\<lambda>p. is_under root p \<and> length root < length p) (map fst (st_files s)))"

definition digest_input :: "loop_env \<Rightarrow> path \<Rightarrow> loop_store \<Rightarrow> string" where
  "digest_input e root s =
     concat (map (\<lambda>p. case file_at s p of
                        None \<Rightarrow> []
                      | Some d \<Rightarrow> join ''/'' (drop (length root) p) @ nul @ bytes_of e d @ nul)
       (filter (\<lambda>p. last p \<notin> set digest_excluded) (tree_files root s)))"

definition artifact_digest :: "loop_env \<Rightarrow> path \<Rightarrow> loop_store \<Rightarrow> string" where
  "artifact_digest e root s = le_sha256 e (digest_input e root s)"

definition read_text :: "loop_env \<Rightarrow> path option \<Rightarrow> loop_store \<Rightarrow> string" where
  "read_text e p s =
     (case p of
        None \<Rightarrow> []
      | Some q \<Rightarrow>
          (case file_at s q of
             None \<Rightarrow> []
           | Some d \<Rightarrow> (case text_of e d of None \<Rightarrow> [] | Some t \<Rightarrow> t)))"

text \<open>\<open>{}\<close> for a text that is not a JSON object.\<close>

definition read_json :: "loop_env \<Rightarrow> path option \<Rightarrow> loop_store \<Rightarrow> (string \<times> json) list" where
  "read_json e p s =
     (let t = read_text e p s in
      if t = [] then []
      else case le_json_loads e t of Some (JObj d) \<Rightarrow> d | _ \<Rightarrow> [])"

end
