(* ===== verification/Loop_Service.thy ===== *)
theory Loop_Service
  imports Loop_Store
begin

section \<open>The repair service\<close>

text \<open>
  \<open>closed_loop/bundle.py\<close> (packaging), \<open>proposal.py\<close>, \<open>service.py\<close> and \<open>runner.py\<close>.

  Each operation is an \<open>op\<close> on the store in the order of the code, so what it wrote before an
  exception stays.  The runner is an argument: whether it says it is a sandbox, and what its \<open>run\<close>
  gives; it does not reach the store.
\<close>

subsection \<open>Packaging a failed run\<close>

definition is_line_break :: "char \<Rightarrow> bool" where
  "is_line_break c \<longleftrightarrow> char_code c \<in> {10, 11, 12, 13, 28, 29, 30}"

text \<open>The lines of a text; empty ones are dropped by the readers.\<close>

fun text_lines :: "string \<Rightarrow> string list" where
  "text_lines [] = [[]]"
| "text_lines (c # s) =
     (if is_line_break c then [] # text_lines s
      else case text_lines s of [] \<Rightarrow> [[c]] | l # ls \<Rightarrow> (c # l) # ls)"

text \<open>\<open>observability/jsonl.py\<close>: a line that is not JSON is skipped.\<close>

definition read_jsonl :: "loop_env \<Rightarrow> path \<Rightarrow> loop_store \<Rightarrow> json list" where
  "read_jsonl e p s =
     List.map_filter (\<lambda>l. if l = [] then None else le_json_loads e l)
       (map strip (text_lines (read_text e (Some p) s)))"

definition dict_text :: "(string \<times> json) list \<Rightarrow> string \<Rightarrow> string" where
  "dict_text d k = (case map_of d k of Some (JStr v) \<Rightarrow> strip v | _ \<Rightarrow> [])"

definition text_value :: "json \<Rightarrow> string \<Rightarrow> loop_error + string" where
  "text_value j k =
     (case j of JObj d \<Rightarrow> Inr (dict_text d k) | _ \<Rightarrow> Inl (Attribute_Error ''get''))"

fun first_text :: "json list \<Rightarrow> string \<Rightarrow> loop_error + string" where
  "first_text [] k = Inr []"
| "first_text (j # js) k =
     res_bind (text_value j k) (\<lambda>v. if v \<noteq> [] then Inr v else first_text js k)"

definition or_text :: "string \<Rightarrow> string \<Rightarrow> string" where
  "or_text a b = (if a \<noteq> [] then a else b)"

text \<open>\<open>a or b\<close> where \<open>b\<close> may raise and is read only when \<open>a\<close> is empty.\<close>

definition or_else :: "string \<Rightarrow> loop_error + string \<Rightarrow> loop_error + string" where
  "or_else a b = (if a \<noteq> [] then Inr a else b)"

definition opt_text :: "string \<Rightarrow> string option" where
  "opt_text v = (if v \<noteq> [] then Some v else None)"

definition truthy :: "json \<Rightarrow> bool" where
  "truthy j =
     (case j of JNull \<Rightarrow> False | JBool b \<Rightarrow> b | JNum t \<Rightarrow> t \<notin> {''0'', ''0.0'', ''-0.0''}
      | JStr s \<Rightarrow> s \<noteq> [] | JList l \<Rightarrow> l \<noteq> [] | JObj d \<Rightarrow> d \<noteq> [])"

definition get_truthy :: "(string \<times> json) list \<Rightarrow> string \<Rightarrow> json option" where
  "get_truthy d k = (case map_of d k of Some j \<Rightarrow> if truthy j then Some j else None | None \<Rightarrow> None)"

definition dataset_refs :: "(string \<times> json) list \<Rightarrow> (string \<times> json) list \<Rightarrow> string list" where
  "dataset_refs input_references manifest =
     (case (case get_truthy input_references ''datasets'' of
              Some j \<Rightarrow> Some j | None \<Rightarrow> get_truthy manifest ''input_dataset_references'') of
        Some (JList js) \<Rightarrow> concat (map (\<lambda>j. case j of JStr v \<Rightarrow> if v \<noteq> [] then [v] else [] | _ \<Rightarrow> []) js)
      | _ \<Rightarrow> [])"

definition error_lines :: "json list \<Rightarrow> loop_error + string" where
  "error_lines errs =
     res_bind (res_map (\<lambda>ev. res_bind (text_value ev ''stacktrace'') (\<lambda>a.
                             res_bind (text_value ev ''error_message'') (\<lambda>b. Inr [a, b]))) errs)
       (\<lambda>vs. Inr (join newline (filter (\<lambda>v. v \<noteq> []) (concat vs))))"

record repair_preparation =
  pr_run_dir :: path_arg
  pr_failed_job_id :: "string option"
  pr_user_request :: string
  pr_plan_summary :: string

definition package_bundle ::
  "loop_env \<Rightarrow> repair_preparation \<Rightarrow> path \<Rightarrow> loop_store \<Rightarrow> loop_error + repair_bundle" where
  "package_bundle e prep dir s =
     (let errs = read_jsonl e (dir @ [''errors.jsonl'']) s;
          commands = read_jsonl e (dir @ [''commands.jsonl'']) s;
          audit = read_jsonl e (dir @ [''audit.jsonl'']) s;
          evs = errs @ commands @ audit;
          environment = read_json e (Some (dir @ [''environment.json''])) s;
          manifest = read_json e (Some (dir @ [''manifest.json''])) s;
          validation = read_json e (Some (dir @ [''validation.json''])) s;
          output_state = read_json e (Some (dir @ [''execution.json''])) s;
          guard = read_json e (Some (dir @ [''guard.json''])) s;
          input_references = read_json e (Some (dir @ [''input_references.json''])) s;
          file = (\<lambda>n. read_text e (Some (dir @ [n])) s);
          red = le_redact e in
      res_bind (first_text evs ''correlation_id'') (\<lambda>corr0.
      (let corr1 = or_text corr0 (le_correlation_id e);
           corr = (if corr1 \<in> {[], ''unset''} then le_uuid e 1 else corr1) in
      res_bind (or_else (case pr_failed_job_id prep of Some j \<Rightarrow> j | None \<Rightarrow> [])
                  (res_bind (first_text evs ''job_id'') (\<lambda>j. Inr (or_text j (last dir))))) (\<lambda>job.
      res_bind (first_text evs ''session_id'') (\<lambda>session.
      res_bind (or_else (pr_user_request prep)
                  (res_bind (first_text evs ''user_request'') (\<lambda>r.
                     or_else r (or_else (dict_text environment ''request'')
                       (first_text commands ''command''))))) (\<lambda>request.
      res_bind (or_else (pr_plan_summary prep)
                  (res_bind (first_text evs ''plan_summary'')
                     (\<lambda>r. Inr (or_text r (file ''ai-agent-summary.md''))))) (\<lambda>plan.
      res_bind (or_else (file ''stdout.txt'') (first_text commands ''stdout_tail'')) (\<lambda>out.
      res_bind (or_else (file ''stderr.txt'') (first_text commands ''stderr_tail'')) (\<lambda>err.
      res_bind (error_lines errs) (\<lambda>trace.
        build bundle_valid ''RepairBundle''
          \<lparr>rb_repair_id = ''repair-'' @ le_uuid e 2, rb_correlation_id = red corr,
           rb_failed_job_id = red job, rb_failed_session_id = map_option red (opt_text session),
           rb_user_request = red request, rb_plan_summary = red plan,
           rb_generated_code = red (file ''generated_code.py''),
           rb_static_guard_result = le_redact_json e (JObj guard),
           rb_stdout = red out, rb_stderr = red err, rb_error_trace = red trace,
           rb_input_dataset_references = map red (dataset_refs input_references manifest),
           rb_artifact_manifest = le_redact_json e (JObj manifest),
           rb_output_state = le_redact_json e (JObj output_state),
           rb_validation_result = le_redact_json e (JObj validation),
           rb_environment_summary = le_redact_json e (JObj environment),
           rb_redaction_status = le_content_mode e, rb_run_id = Some (last dir),
           rb_artifact_id = opt_text (dict_text manifest ''artifact_id''),
           rb_experiment_id = opt_text (dict_text manifest ''experiment_id''),
           rb_feature_id = opt_text (dict_text manifest ''feature_id''),
           rb_hypothesis_id = opt_text (dict_text manifest ''hypothesis_id''),
           rb_pattern_id = opt_text (dict_text manifest ''pattern_id'')\<rparr>))))))))))"

definition run_text :: "repair_bundle \<Rightarrow> string" where
  "run_text b = (case rb_run_id b of None \<Rightarrow> [] | Some r \<Rightarrow> r)"

definition package_repair :: "loop_env \<Rightarrow> repair_preparation \<Rightarrow> repair_bundle loop_op" where
  "package_repair e prep =
     op_bind (op_try (\<lambda>s. run_directory s (pr_run_dir prep))) (\<lambda>dir.
     op_bind (op_try (package_bundle e prep dir)) (\<lambda>b.
     op_seq (save_bundle e b)
       (op_seq (emit e ''REPAIR_BUNDLE_CREATED'' (rb_correlation_id b) (rb_repair_id b) [] (run_text b)
                  ''OK'' ''repair bundle created from failed research run''
                  (JObj [(''failed_job_id'', JStr (rb_failed_job_id b))]))
         (op_return b))))"

subsection \<open>Proposals\<close>

definition expected_checks :: "string list" where
  "expected_checks =
     [''static_guard'', ''sandbox_execution'', ''output_schema'', ''artifact_manifest'', ''lineage'',
      ''quality_status'', ''caveats'', ''read_only_boundary'']"

definition default_cause :: "repair_bundle \<Rightarrow> string" where
  "default_cause b =
     or_text (py_take 2000 (rb_error_trace b)) ''The failed research run requires bounded repair review.''"

definition default_patch :: "repair_bundle \<Rightarrow> string \<Rightarrow> string" where
  "default_patch b cause =
     ''Review '' @ rb_failed_job_id b @ '' in the sandbox; suspected cause: '' @ py_take 500 cause"

definition build_proposal ::
  "loop_env \<Rightarrow> repair_bundle \<Rightarrow> repair_scope \<Rightarrow> string \<Rightarrow> string \<Rightarrow> string \<Rightarrow> loop_error + repair_proposal" where
  "build_proposal e b scope patch suspected_cause replacement =
     (let cause = or_text (strip suspected_cause) (default_cause b);
          proposed = or_text (strip patch) (default_patch b cause);
          (accepted, findings) = allowed_proposal_text proposed replacement in
      build proposal_valid ''RepairProposal''
        \<lparr>rp_proposal_id = ''proposal-'' @ le_uuid e 1, rp_repair_id = rb_repair_id b,
         rp_correlation_id = rb_correlation_id b, rp_scope = scope,
         rp_suspected_failure_cause = cause, rp_proposed_patch = proposed,
         rp_replacement_generated_code = replacement, rp_expected_validation_checks = expected_checks,
         rp_accepted = accepted,
         rp_rejection_reason =
           (if accepted then None
            else Some (''proposal includes prohibited trading/execution boundary behavior: '' @
                       join '', '' findings))\<rparr>)"

subsection \<open>Lifecycle of a repair\<close>

definition bundle_record :: "loop_env \<Rightarrow> repair_bundle \<Rightarrow> lifecycle_state \<Rightarrow> lifecycle_record" where
  "bundle_record e b st =
     \<lparr>lr_repair_id = rb_repair_id b, lr_state = st, lr_correlation_id = rb_correlation_id b,
      lr_run_id = rb_run_id b, lr_sandbox_job_id = Some (rb_failed_job_id b),
      lr_research_experiment_id = rb_experiment_id b, lr_feature_id = rb_feature_id b,
      lr_hypothesis_id = rb_hypothesis_id b, lr_pattern_id = rb_pattern_id b,
      lr_artifact_id = rb_artifact_id b, lr_created_at = le_now e, lr_detail = []\<rparr>"

definition record_bundle_state :: "loop_env \<Rightarrow> repair_bundle \<Rightarrow> lifecycle_state \<Rightarrow> unit loop_op" where
  "record_bundle_state e b st = record_built (bundle_record e b st)"

definition prepare_failed_run :: "loop_env \<Rightarrow> repair_preparation \<Rightarrow> repair_bundle loop_op" where
  "prepare_failed_run e prep =
     op_bind (package_repair e prep) (\<lambda>b.
     op_seq (op_all (map (record_bundle_state e b) [RUN, OBSERVE, PACKAGE]))
       (op_return b))"

fun scope_value :: "repair_scope \<Rightarrow> string" where
  "scope_value Sandbox_Research_Code = ''sandbox_research_code''"
| "scope_value Experiment_Definition_Scope = ''experiment_definition''"
| "scope_value Feature_Definition_Scope = ''feature_definition''"
| "scope_value Validation_Schema = ''validation_schema''"

definition propose ::
  "loop_env \<Rightarrow> string \<Rightarrow> repair_scope \<Rightarrow> string \<Rightarrow> string \<Rightarrow> string \<Rightarrow> repair_proposal loop_op" where
  "propose e rid scope patch suspected_cause replacement =
     op_bind (op_try (load_bundle rid)) (\<lambda>b.
     op_bind (op_lift (build_proposal e b scope patch suspected_cause replacement)) (\<lambda>p.
     op_seq (save_proposal p)
       (op_seq (record_bundle_state e b (if rp_accepted p then AI_FIX else REJECTED))
         (op_seq
           (emit e ''REPAIR_PROPOSAL_CREATED'' (rb_correlation_id b) rid [] (run_text b)
              (if rp_accepted p then ''ACCEPTED'' else ''REJECTED'')
              (case rp_rejection_reason p of None \<Rightarrow> ''bounded repair proposal created'' | Some r \<Rightarrow> r)
              (JObj [(''proposal_id'', JStr (rp_proposal_id p)), (''scope'', JStr (scope_value scope))]))
           (op_return p)))))"

text \<open>What a runner does: it gives a result, raises with a text, or gives something else.\<close>

datatype runner_outcome =
    Run_Result sandbox_attempt_result
  | Run_Raised string
  | Run_Other

record sandbox_runner =
  rn_is_sandbox :: bool
  rn_run :: "repair_bundle \<Rightarrow> repair_proposal \<Rightarrow> int \<Rightarrow> runner_outcome"

definition failed_result :: "string \<Rightarrow> sandbox_attempt_result" where
  "failed_result trace =
     \<lparr>sr_passed = False, sr_stdout = [], sr_stderr = [], sr_error_trace = trace, sr_artifact_id = None\<rparr>"

definition attempt_result :: "runner_outcome \<Rightarrow> loop_error + sandbox_attempt_result" where
  "attempt_result out =
     (case out of
        Run_Result r \<Rightarrow> Inr r
      | Run_Raised msg \<Rightarrow> build attempt_result_valid ''SandboxAttemptResult'' (failed_result msg)
      | Run_Other \<Rightarrow> Inr (failed_result ''sandbox runner returned an invalid result''))"

definition terminal_states :: "lifecycle_state list" where
  "terminal_states = [FAILED, REJECTED, VALIDATE, PROMOTE_READY, PROMOTED, ROLLED_BACK]"

definition attempt_record ::
  "loop_env \<Rightarrow> string \<Rightarrow> int \<Rightarrow> sandbox_attempt_result \<Rightarrow> loop_error + repair_attempt" where
  "attempt_record e rid n r =
     build attempt_valid ''RepairAttempt''
       \<lparr>ra_attempt_id = ''attempt-'' @ le_uuid e 1, ra_repair_id = rid, ra_attempt = n,
        ra_passed = sr_passed r, ra_stdout = le_redact e (sr_stdout r),
        ra_stderr = le_redact e (sr_stderr r), ra_error_trace = le_redact e (sr_error_trace r),
        ra_artifact_id = sr_artifact_id r, ra_created_at = le_now e\<rparr>"

definition state_after_attempt :: "int \<Rightarrow> int \<Rightarrow> bool \<Rightarrow> lifecycle_state" where
  "state_after_attempt max_attempts n passed =
     (if passed then VALIDATE else if max_attempts \<le> n then FAILED else AI_FIX)"

text \<open>The part of \<open>apply\<close> after its guards: the start, the run, the record and its consequence.\<close>

definition conclude_attempt ::
  "loop_env \<Rightarrow> int \<Rightarrow> repair_bundle \<Rightarrow> string \<Rightarrow> int \<Rightarrow> bool \<Rightarrow> repair_attempt \<Rightarrow>
   repair_attempt loop_op" where
  "conclude_attempt e max_attempts b rid n passed rec =
     op_seq (emit e (if passed then ''REPAIR_ATTEMPT_SUCCEEDED'' else ''REPAIR_ATTEMPT_FAILED'')
               (rb_correlation_id b) rid [] (run_text b) (if passed then ''PASSED'' else ''FAILED'')
               (''sandbox repair attempt '' @ int_text n @ '' completed'') (JObj []))
      (op_seq (record_bundle_state e b (state_after_attempt max_attempts n passed))
        (op_return rec))"

definition start_attempt :: "loop_env \<Rightarrow> repair_bundle \<Rightarrow> string \<Rightarrow> int \<Rightarrow> unit loop_op" where
  "start_attempt e b rid n =
     op_seq (record_bundle_state e b AI_FIX)
       (emit e ''REPAIR_ATTEMPT_STARTED'' (rb_correlation_id b) rid [] (run_text b) ''STARTED''
         (''sandbox repair attempt '' @ int_text n @ '' started'') (JObj []))"

definition run_attempt ::
  "loop_env \<Rightarrow> int \<Rightarrow> repair_bundle \<Rightarrow> repair_proposal \<Rightarrow> string \<Rightarrow> int \<Rightarrow> sandbox_runner \<Rightarrow>
   repair_attempt loop_op" where
  "run_attempt e max_attempts b p rid n runner =
     op_seq (start_attempt e b rid n)
      (op_bind (op_lift (attempt_result (rn_run runner b p n))) (\<lambda>r.
       op_bind (op_lift (attempt_record e rid n r)) (\<lambda>rec.
       op_seq (save_attempt rec) (conclude_attempt e max_attempts b rid n (sr_passed r) rec))))"

definition apply_repair ::
  "loop_env \<Rightarrow> int \<Rightarrow> string \<Rightarrow> int \<Rightarrow> sandbox_runner \<Rightarrow> repair_attempt loop_op" where
  "apply_repair e max_attempts rid n runner =
     op_bind (op_try (load_bundle rid)) (\<lambda>b.
     op_bind (op_try (load_proposal rid)) (\<lambda>p.
     op_seq (op_guard (\<not> rp_accepted p) (Boundary_Error ''rejected repair proposals cannot be applied''))
     (op_seq (op_guard (n < 1) (Boundary_Error ''repair attempt must be positive''))
      (if max_attempts < n
       then op_seq (record_bundle_state e b FAILED)
              (op_raise (Boundary_Error ''maximum repair attempts exhausted''))
       else
         op_bind (op_try (current_lifecycle rid)) (\<lambda>l.
         op_seq (op_guard (lr_state l \<in> set terminal_states)
                  (Boundary_Error (''repair is already in terminal state '' @ lifecycle_value (lr_state l))))
         (op_bind (op_try (list_attempts rid)) (\<lambda>done_before.
          op_seq (op_guard (n \<noteq> int (length done_before) + 1)
                   (Boundary_Error (''repair attempt must be the next sequential attempt ('' @
                      int_text (int (length done_before) + 1) @ '')'')))
          (op_seq (op_guard (\<not> rn_is_sandbox runner)
                    (Boundary_Error ''repair attempts must use a sandbox runner''))
            (run_attempt e max_attempts b p rid n runner)))))))))"

definition new_service :: "int \<Rightarrow> loop_error + int" where
  "new_service max_attempts =
     (if 1 \<le> max_attempts \<and> max_attempts \<le> max_repair_attempts then Inr max_attempts
      else Inl (Value_Error ''max_attempts must be between 1 and 10''))"

end
