(* ===== verification/Loop_Deploy.thy ===== *)
theory Loop_Deploy
  imports Loop_Service
begin

section \<open>Validation, promotion and rollback of research artifacts\<close>

text \<open>
  \<open>closed_loop/validation.py\<close>, \<open>deployment.py\<close> and \<open>deployment_support.py\<close>.
\<close>

subsection \<open>The checks of a validation\<close>

definition check_of :: "string \<Rightarrow> bool \<Rightarrow> string \<Rightarrow> string \<Rightarrow> validation_check" where
  "check_of name passed good bad =
     \<lparr>vc_name = name, vc_passed = passed, vc_detail = (if passed then good else bad)\<rparr>"

definition static_guard_check ::
  "loop_env \<Rightarrow> path option \<Rightarrow> string \<Rightarrow> loop_store \<Rightarrow> validation_check" where
  "static_guard_check e root code s =
     (if root = None \<or> file_at s (the root @ [''generated_code.py'']) = None
      then check_of ''static_guard'' False [] ''confined generated_code.py evidence is missing''
      else if code = [] then check_of ''static_guard'' False [] ''generated code is empty''
      else check_of ''static_guard'' (gr_allowed (evaluate_code (le_sha256 e) (le_parse e) code))
             ''sandbox static guard passed'' ''sandbox static guard rejected generated code'')"

definition json_dict_str :: "(string \<times> json) list \<Rightarrow> string \<Rightarrow> string" where
  "json_dict_str d k = (case map_of d k of None \<Rightarrow> [] | Some j \<Rightarrow> json_str j)"

definition sandbox_execution_check :: "(string \<times> json) list \<Rightarrow> validation_check" where
  "sandbox_execution_check execution =
     check_of ''sandbox_execution''
       (lower (json_dict_str execution ''status'') \<in> {''passed'', ''succeeded'', ''success''})
       ''sandbox execution evidence passed'' ''sandbox execution evidence is missing or failed''"

definition recognized_type :: "json option \<Rightarrow> bool" where
  "recognized_type j = (case j of Some (JStr t) \<Rightarrow> is_research_artifact_type t | _ \<Rightarrow> False)"

definition manifest_check :: "(string \<times> json) list \<Rightarrow> string \<Rightarrow> validation_check" where
  "manifest_check manifest aid =
     check_of ''artifact_manifest''
       (manifest \<noteq> [] \<and> map_of manifest ''artifact_id'' = Some (JStr aid) \<and>
        recognized_type (map_of manifest ''artifact_type''))
       ''artifact manifest is present'' ''manifest.json is missing or incomplete''"

definition quality_check :: "(string \<times> json) list \<Rightarrow> (string \<times> json) list \<Rightarrow> validation_check" where
  "quality_check validation quality_file =
     (let payload = (case map_of validation ''quality_status'' of
                       Some (JObj d) \<Rightarrow> if d \<noteq> [] then d else quality_file
                     | _ \<Rightarrow> quality_file);
          status = lower (json_dict_str payload ''status'') in
      check_of ''quality_status''
        (payload \<noteq> [] \<and> status \<noteq> [] \<and> status \<notin> {''fail'', ''failed'', ''error'', ''rejected''})
        ''quality status is present'' ''quality status is missing'')"

definition caveat_pattern :: regex where
  "caveat_pattern = Seq Word_Boundary (Seq (lit ''caveat'') (Seq (opt (lit ''s'')) Word_Boundary))"

definition caveat_check :: "string \<Rightarrow> (string \<times> json) list \<Rightarrow> validation_check" where
  "caveat_check summary validation =
     check_of ''caveats''
       ((case map_of validation ''caveats'' of Some (JList cs) \<Rightarrow> cs \<noteq> [] | _ \<Rightarrow> False) \<or>
        searches caveat_pattern summary)
       ''caveats are present'' ''caveats are missing''"

definition validation_checks ::
  "loop_env \<Rightarrow> string \<Rightarrow> path option \<Rightarrow> loop_store \<Rightarrow> validation_check list" where
  "validation_checks e aid root s =
     (let at = (\<lambda>n. map_option (\<lambda>r. r @ [n]) root);
          manifest = read_json e (at ''manifest.json'') s;
          validation = read_json e (at ''validation.json'') s;
          result = read_json e (at ''result.json'') s;
          summary = read_text e (at ''summary.md'') s;
          lineage = read_json e (at ''lineage.json'') s;
          code = read_text e (at ''generated_code.py'') s in
      [static_guard_check e root code s,
       sandbox_execution_check (read_json e (at ''execution.json'') s),
       check_of ''output_schema'' (result \<noteq> [] \<and> strip summary \<noteq> [])
         ''result.json and summary.md are present and non-empty''
         ''result.json or summary.md is missing or invalid'',
       manifest_check manifest aid,
       check_of ''lineage'' (lineage \<noteq> []) ''lineage evidence is present'' ''lineage.json is missing'',
       quality_check validation (read_json e (at ''quality_status.json'') s),
       caveat_check summary validation,
       check_of ''read_only_boundary'' (prohibited_behaviors code = [])
         ''research code stays inside the read-only boundary''
         ''generated code contains execution-like behavior''])"

definition evidence_correlation_id :: "(string \<times> json) list \<Rightarrow> string \<Rightarrow> string" where
  "evidence_correlation_id validation aid =
     (case map_of validation ''correlation_id'' of
        Some (JStr v) \<Rightarrow> if safe_id v then v else ''artifact-'' @ aid
      | _ \<Rightarrow> ''artifact-'' @ aid)"

definition artifact_record ::
  "string \<Rightarrow> lifecycle_state \<Rightarrow> string \<Rightarrow> string \<Rightarrow> string \<Rightarrow> lifecycle_record" where
  "artifact_record aid st corr created detail =
     \<lparr>lr_repair_id = artifact_prefix @ aid, lr_state = st, lr_correlation_id = corr, lr_run_id = None,
      lr_sandbox_job_id = None, lr_research_experiment_id = None, lr_feature_id = None,
      lr_hypothesis_id = None, lr_pattern_id = None, lr_artifact_id = Some aid,
      lr_created_at = created, lr_detail = detail\<rparr>"

definition failed_checks :: "validation_report \<Rightarrow> string list" where
  "failed_checks r = map vc_name (filter (\<lambda>c. \<not> vc_passed c) (vr_checks r))"

definition build_report ::
  "loop_env \<Rightarrow> string \<Rightarrow> path option \<Rightarrow> string option \<Rightarrow> loop_store \<Rightarrow> loop_error + validation_report" where
  "build_report e aid root corr s =
     (let checks = validation_checks e aid root s;
          validation = read_json e (map_option (\<lambda>r. r @ [''validation.json'']) root) s in
      res_bind (case corr of
                  Some c \<Rightarrow> validate_identifier c ''correlation_id''
                | None \<Rightarrow> Inr (evidence_correlation_id validation aid)) (\<lambda>cid.
        build report_valid ''ValidationReport''
          \<lparr>vr_artifact_id = aid, vr_correlation_id = cid, vr_checks = checks,
           vr_passed = list_all vc_passed checks, vr_created_at = le_now e,
           vr_artifact_digest = (case root of None \<Rightarrow> [] | Some r \<Rightarrow> artifact_digest e r s),
           vr_artifact_root = root\<rparr>))"

definition validate_research_artifact ::
  "loop_env \<Rightarrow> string \<Rightarrow> path_arg option \<Rightarrow> string option \<Rightarrow> validation_report loop_op" where
  "validate_research_artifact e aid requested corr =
     op_bind (op_lift (validate_identifier aid ''artifact_id'')) (\<lambda>a.
     op_bind (op_read (resolve_requested_root a requested)) (\<lambda>root.
     op_bind (op_try (build_report e a root corr)) (\<lambda>r.
     op_seq (save_validation_report r root)
      (op_seq (emit e ''VALIDATION_STARTED'' (vr_correlation_id r) [] a [] ''STARTED''
                ''research artifact validation started'' (JObj []))
       (op_seq (emit e (if vr_passed r then ''VALIDATION_SUCCEEDED'' else ''VALIDATION_FAILED'')
                 (vr_correlation_id r) [] a [] (if vr_passed r then ''PASSED'' else ''FAILED'')
                 ''research artifact validation completed''
                 (JObj [(''failed_checks'', JList (map JStr (failed_checks r)))]))
        (op_seq (record_built (artifact_record a (if vr_passed r then PROMOTE_READY else REJECTED)
                   (vr_correlation_id r) (vr_created_at r)
                   (if vr_passed r then ''validation gate passed'' else ''validation gate failed'')))
          (op_return r)))))))"

subsection \<open>Verification before promotion\<close>

text \<open>A manifest that is not UTF-8 is not caught: \<open>UnicodeDecodeError\<close> is no \<open>JSONDecodeError\<close>.\<close>

definition manifest_type ::
  "loop_env \<Rightarrow> path option \<Rightarrow> loop_store \<Rightarrow> loop_error + artifact_type option" where
  "manifest_type e root s =
     (case root of
        None \<Rightarrow> Inr None
      | Some r \<Rightarrow>
          (case file_at s (r @ [''manifest.json'']) of
             None \<Rightarrow> Inr None
           | Some d \<Rightarrow>
               (if text_of e d = None then Inl (Value_Error ''manifest.json is not UTF-8 text'')
                else
                  case map_of (read_json e (Some (r @ [''manifest.json''])) s) ''artifact_type'' of
                    Some (JStr t) \<Rightarrow> Inr (case parse_artifact_type t of Inl _ \<Rightarrow> None | Inr ty \<Rightarrow> Some ty)
                  | _ \<Rightarrow> Inr None)))"

definition candidate_is_safe :: "loop_env \<Rightarrow> path \<Rightarrow> string \<Rightarrow> loop_store \<Rightarrow> bool" where
  "candidate_is_safe e root candidate s =
     (case file_at s (root @ [''generated_code.py'']) of
        None \<Rightarrow> False
      | Some d \<Rightarrow>
          (case text_of e d of
             None \<Rightarrow> False
           | Some code \<Rightarrow> prohibited_behaviors (candidate @ newline @ code) = []))"

text \<open>\<open>NotFound\<close> of a directory is not caught by \<open>verify_research_artifact\<close>, a boundary error is.\<close>

definition verify_root ::
  "loop_env \<Rightarrow> string \<Rightarrow> path_arg option \<Rightarrow> loop_store \<Rightarrow> loop_error + (path option \<times> string)" where
  "verify_root e candidate requested s =
     (case (case requested of
              Some p \<Rightarrow> Some p
            | None \<Rightarrow> map_option Absolute (resolve_artifact_root candidate s)) of
        None \<Rightarrow> Inr (None, [])
      | Some p \<Rightarrow>
          (case scoped_directory s p ''artifact root'' of
             Inr r \<Rightarrow> Inr (Some r, artifact_digest e r s)
           | Inl (Boundary_Error _) \<Rightarrow> Inr (None, [])
           | Inl err \<Rightarrow> Inl err))"

definition load_report_or_none :: "string \<Rightarrow> loop_store \<Rightarrow> loop_error + validation_report option" where
  "load_report_or_none aid s =
     (case load_validation_report aid s of
        Inr r \<Rightarrow> Inr (Some r)
      | Inl (Not_Found _) \<Rightarrow> Inr None
      | Inl err \<Rightarrow> Inl err)"

definition resolved_type :: "artifact_type option \<Rightarrow> artifact_type option \<Rightarrow> artifact_type option" where
  "resolved_type requested found = (case requested of Some t \<Rightarrow> Some t | None \<Rightarrow> found)"

definition verification_passes ::
  "loop_env \<Rightarrow> string \<Rightarrow> path option \<Rightarrow> string \<Rightarrow> validation_report option \<Rightarrow> artifact_type option \<Rightarrow>
   artifact_type option \<Rightarrow> loop_store \<Rightarrow> bool" where
  "verification_passes e candidate root digest report requested_type found s =
     (case report of
        None \<Rightarrow> False
      | Some r \<Rightarrow>
          vr_passed r \<and> vr_artifact_id r = candidate \<and>
          (case root of
             None \<Rightarrow> False
           | Some d \<Rightarrow>
               is_dir s d \<and> vr_artifact_digest r = digest \<and> digest \<noteq> [] \<and> vr_artifact_root r = Some d \<and>
               (case found of
                  None \<Rightarrow> False
                | Some t \<Rightarrow> requested_type \<in> {None, Some t}) \<and>
               candidate_is_safe e d candidate s))"

definition build_verification ::
  "loop_env \<Rightarrow> string \<Rightarrow> string \<Rightarrow> path_arg option \<Rightarrow> artifact_type option \<Rightarrow> loop_store \<Rightarrow>
   loop_error + promotion_verification" where
  "build_verification e candidate did requested requested_type s =
     res_bind (verify_root e candidate requested s) (\<lambda>(root, digest).
     res_bind (load_report_or_none candidate s) (\<lambda>report.
     res_bind (manifest_type e root s) (\<lambda>found.
       build verification_valid ''PromotionVerification''
         \<lparr>pv_candidate = candidate, pv_deployment_id = did,
          pv_correlation_id =
            (case report of Some r \<Rightarrow> vr_correlation_id r | None \<Rightarrow> ''artifact-'' @ candidate),
          pv_candidate_type =
            (case resolved_type requested_type found of
               Some t \<Rightarrow> t | None \<Rightarrow> Feature_Definition),
          pv_validation_report_id =
            (case report of Some r \<Rightarrow> vr_artifact_id r | None \<Rightarrow> ''missing''),
          pv_artifact_digest = digest, pv_artifact_root = root,
          pv_passed = verification_passes e candidate root digest report requested_type found s,
          pv_created_at = le_now e\<rparr>)))"

definition verify_research_artifact ::
  "loop_env \<Rightarrow> string \<Rightarrow> path_arg option \<Rightarrow> artifact_type option \<Rightarrow> string option \<Rightarrow>
   promotion_verification loop_op" where
  "verify_research_artifact e candidate requested requested_type deployment =
     op_bind (op_lift (validate_identifier candidate ''candidate'')) (\<lambda>c.
     op_bind (op_lift (validate_identifier
       (case deployment of
          Some d \<Rightarrow> if d \<noteq> [] then d else ''deployment-'' @ le_uuid e 1
        | None \<Rightarrow> ''deployment-'' @ le_uuid e 1) ''deployment_id'')) (\<lambda>did.
     op_bind (op_try (build_verification e c did requested requested_type)) (\<lambda>v.
     op_seq (save_verification v)
      (op_seq (emit e ''DEPLOY_VERIFY_COMPLETED'' (pv_correlation_id v) [] c []
                (if pv_passed v then ''PASSED'' else ''FAILED'')
                ''research artifact promotion readiness checked''
                (JObj [(''deployment_id'', JStr did),
                       (''candidate_type'', JStr (artifact_type_value (pv_candidate_type v)))]))
        (op_return v)))))"

subsection \<open>Promotion and rollback\<close>

definition verified_artifact_root ::
  "promotion_verification \<Rightarrow> loop_store \<Rightarrow> loop_error + path option" where
  "verified_artifact_root v s =
     (case pv_artifact_root v of
        None \<Rightarrow> Inr None
      | Some r \<Rightarrow>
          (case scoped_directory s (Absolute r) ''artifact root'' of
             Inr d \<Rightarrow> Inr (Some d)
           | Inl (Boundary_Error _) \<Rightarrow> Inr None
           | Inl (Not_Found _) \<Rightarrow> Inr None
           | Inl err \<Rightarrow> Inl err))"

text \<open>\<open>except ClosedLoopNotFoundError: raise PromotionGateError(msg)\<close>.\<close>

definition not_found_as_gate :: "string \<Rightarrow> loop_error + 'a \<Rightarrow> loop_error + 'a" where
  "not_found_as_gate msg r = (case r of Inl (Not_Found _) \<Rightarrow> Inl (Gate_Error msg) | _ \<Rightarrow> r)"

definition raise_if :: "bool \<Rightarrow> loop_error \<Rightarrow> loop_error + unit" where
  "raise_if b err = (if b then Inl err else Inr ())"

text \<open>The gates of a promotion, in order; what passes them is the state to record.\<close>

definition promotion_gate ::
  "loop_env \<Rightarrow> string \<Rightarrow> string \<Rightarrow> string option \<Rightarrow> loop_store \<Rightarrow> loop_error + deployment_state" where
  "promotion_gate e candidate did previous s =
     res_bind (not_found_as_gate ''validation verification is required before promotion''
                 (load_verification did s)) (\<lambda>v.
     res_bind (raise_if (pv_candidate v \<noteq> candidate \<or> \<not> pv_passed v)
                 (Gate_Error ''validation gate or read-only boundary check has not passed'')) (\<lambda>_.
     res_bind (verified_artifact_root v s) (\<lambda>root.
     res_bind (case root of
                 None \<Rightarrow> Inl (Gate_Error ''verified research artifact root is unavailable'')
               | Some d \<Rightarrow> Inr d) (\<lambda>d.
     res_bind (not_found_as_gate ''validation report is unavailable'' (load_validation_report candidate s)) (\<lambda>r.
     res_bind (raise_if (\<not> vr_passed r \<or> vr_artifact_digest r \<noteq> pv_artifact_digest v \<or>
                         vr_correlation_id r \<noteq> pv_correlation_id v)
                 (Gate_Error ''validation evidence is stale or no longer passing'')) (\<lambda>_.
     res_bind (raise_if (artifact_digest e d s \<noteq> pv_artifact_digest v \<or>
                         \<not> candidate_is_safe e d candidate s)
                 (Gate_Error ''research artifact changed or crossed the read-only boundary'')) (\<lambda>_.
       build deployment_valid ''DeploymentState''
         \<lparr>ds_deployment_id = did, ds_candidate = candidate, ds_candidate_type = pv_candidate_type v,
          ds_correlation_id = pv_correlation_id v, ds_validation_report_id = pv_validation_report_id v,
          ds_artifact_root = pv_artifact_root v, ds_previous_candidate = previous,
          ds_status = Status_Promoted, ds_created_at = pv_created_at v, ds_updated_at = le_now e,
          ds_rollback_reason = None\<rparr>)))))))"

definition promotion_marker :: "deployment_state \<Rightarrow> string \<Rightarrow> string \<Rightarrow> json" where
  "promotion_marker d status reason =
     JObj [(''artifact_id'', JStr (ds_candidate d)), (''deployment_id'', JStr (ds_deployment_id d)),
           (''status'', JStr status), (''updated_at'', JStr (ds_updated_at d)), (''reason'', JStr reason)]"

definition write_promotion_marker :: "deployment_state \<Rightarrow> string \<Rightarrow> string \<Rightarrow> unit loop_op" where
  "write_promotion_marker d status reason =
     (case ds_artifact_root d of
        None \<Rightarrow> op_return ()
      | Some r \<Rightarrow>
          op_bind (op_try (\<lambda>s. scoped_directory s (Absolute r) ''artifact root'')) (\<lambda>root.
            write_doc (\<lambda>s. scoped_path s (root @ [''promotion.json'']) ''promotion marker'')
              (Json_Doc (promotion_marker d status reason))))"

definition promote_research_artifact ::
  "loop_env \<Rightarrow> string \<Rightarrow> string \<Rightarrow> string option \<Rightarrow> deployment_state loop_op" where
  "promote_research_artifact e candidate did previous =
     op_bind (op_lift (validate_identifier candidate ''candidate'')) (\<lambda>c.
     op_bind (op_lift (validate_identifier did ''deployment_id'')) (\<lambda>dep.
     op_bind (op_try (promotion_gate e c dep previous)) (\<lambda>d.
     op_seq (save_deployment d)
      (op_seq (write_promotion_marker d ''PROMOTED'' [])
       (op_seq (emit e ''RESEARCH_ARTIFACT_PROMOTED'' (ds_correlation_id d) [] c [] ''PROMOTED''
                 ''research artifact promoted''
                 (JObj [(''deployment_id'', JStr dep),
                        (''artifact_type'', JStr (artifact_type_value (ds_candidate_type d)))]))
        (op_seq (record_built (artifact_record c PROMOTED (ds_correlation_id d) (ds_updated_at d)
                   ''research artifact promotion recorded''))
          (op_return d)))))))"

definition rolled_back :: "loop_env \<Rightarrow> string \<Rightarrow> deployment_state \<Rightarrow> deployment_state" where
  "rolled_back e reason d =
     d\<lparr>ds_status := Status_Rolled_Back, ds_updated_at := le_now e, ds_rollback_reason := Some reason\<rparr>"

definition rollback_research_artifact ::
  "loop_env \<Rightarrow> string \<Rightarrow> string \<Rightarrow> deployment_state loop_op" where
  "rollback_research_artifact e did reason =
     op_bind (op_try (\<lambda>s. not_found_as_gate ''deployment state was not found'' (load_deployment did s))) (\<lambda>d0.
     (let d = rolled_back e reason d0 in
      op_seq (save_deployment d)
       (op_seq (write_promotion_marker d ''ROLLED_BACK'' reason)
        (op_seq (emit e ''RESEARCH_ARTIFACT_ROLLED_BACK'' (ds_correlation_id d) [] (ds_candidate d) []
                  ''ROLLED_BACK'' ''research artifact promotion rolled back''
                  (JObj [(''deployment_id'', JStr did), (''reason'', JStr reason)]))
         (op_seq (record_built (artifact_record (ds_candidate d) ROLLED_BACK (ds_correlation_id d)
                    (ds_updated_at d) reason))
           (op_return d))))))"

end
