(* ===== verification/Loop_Facts.thy ===== *)
theory Loop_Facts
  imports Loop_Deploy "HOL-Library.Sublist"
begin

section \<open>What the operations of the repair loop do to the store\<close>

text \<open>
  Where each record is kept, and two frames every operation moves in: the logs only grow
  (\<open>log_frame\<close>), and the recorded attempts are touched by \<open>save_attempt\<close> alone (\<open>attempt_frame\<close>).
\<close>

subsection \<open>Paths\<close>

lemma resolve_parts_plain: "''..'' \<notin> set ps \<Longrightarrow> resolve_parts acc ps = acc @ ps"
  by (induction acc ps rule: resolve_parts.induct) auto

lemma resolve_parts_no_dots: "''..'' \<notin> set acc \<Longrightarrow> ''..'' \<notin> set (resolve_parts acc ps)"
  by (induction acc ps rule: resolve_parts.induct) (auto dest: in_set_butlastD)

definition base_path :: "loop_store \<Rightarrow> path" where
  "base_path s = resolve_parts [] (st_root s)"

lemma base_no_dots [simp]: "''..'' \<notin> set (base_path s)"
  by (simp add: base_path_def resolve_parts_no_dots)

lemma base_put [simp]: "base_path (put_file p d s) = base_path s"
  by (simp add: base_path_def)

lemma is_under_append [simp]: "is_under b (b @ p)"
  by (simp add: is_under_def)

lemma is_under_iff: "is_under b p \<longleftrightarrow> (\<exists>q. p = b @ q)"
  unfolding is_under_def by (metis append_eq_conv_conj append_take_drop_id)

lemma safe_id_no_dots: "safe_id v \<Longrightarrow> v \<noteq> ''..''"
  by (auto simp: safe_id_def is_alnum_def is_upper_letter_def is_lower_letter_def is_digit_def char_code_def)

lemma safe_id_not_dots [simp]: "\<not> safe_id ''..''"
  using safe_id_no_dots by blast

lemma dots_not_safe: "''..'' = v \<Longrightarrow> \<not> safe_id v"
  by auto

lemma safe_id_not_Nil [simp]: "\<not> safe_id []"
  by (simp add: safe_id_def)

lemma long_no_dots: "2 < length suf \<Longrightarrow> v @ suf \<noteq> ''..''"
proof
  assume "2 < length suf" and "v @ suf = ''..''"
  then have "length v + length suf = 2" by (metis length_append length_Cons list.size(3) One_nat_def Suc_1)
  with \<open>2 < length suf\<close> show False by simp
qed

lemma resolve_under_Inr:
  "resolve_under root cand fld = Inr q \<Longrightarrow> is_under (resolve_parts [] root) q"
  by (auto simp: resolve_under.simps Let_def split: if_splits)

lemma resolve_under_relative:
  "''..'' \<notin> set ps \<Longrightarrow> resolve_under (st_root s) (Relative ps) fld = Inr (base_path s @ ps)"
  by (simp add: resolve_under.simps Let_def resolve_parts_plain base_path_def)

lemma scoped_base:
  "''..'' \<notin> set ps \<Longrightarrow> scoped_path s (base_path s @ ps) fld = Inr (base_path s @ ps)"
  by (simp add: scoped_path_def resolve_under.simps Let_def resolve_parts_plain
      flip: base_path_def)

lemma scoped_path_no_dots: "scoped_path s p fld = Inr q \<Longrightarrow> ''..'' \<notin> set p \<Longrightarrow> q = p"
  by (auto simp: scoped_path_def resolve_under.simps Let_def resolve_parts_plain split: if_splits)

lemma validate_identifier_Inr_iff [simp]: "validate_identifier v fld = Inr w \<longleftrightarrow> safe_id v \<and> w = v"
  by (auto simp: validate_identifier_def)

lemma resolve_component_Inr_iff:
  "parent \<noteq> ''..'' \<Longrightarrow>
     resolve_component (st_root s) parent v fld = Inr q \<longleftrightarrow> safe_id v \<and> q = base_path s @ [parent, v]"
  using safe_id_no_dots [of v]
  by (auto simp: resolve_component_def res_bind_Inr_iff resolve_under_relative)

lemma resolve_file_Inr_iff:
  "parent \<noteq> ''..'' \<Longrightarrow> 2 < length suf \<Longrightarrow>
     resolve_file (st_root s) parent v suf fld = Inr q \<longleftrightarrow>
       safe_id v \<and> q = base_path s @ [parent, v @ suf]"
  using long_no_dots [of suf v]
  by (auto simp: resolve_file_def res_bind_Inr_iff resolve_under_relative)

lemma bundle_dir_Inr_iff: "bundle_dir s rid = Inr d \<longleftrightarrow> safe_id rid \<and> d = base_path s @ [''bundles'', rid]"
  by (simp add: bundle_dir_def resolve_component_Inr_iff)

lemma bundle_file_Inr_iff:
  "''..'' \<notin> set rest \<Longrightarrow>
     bundle_file s rid rest fld = Inr p \<longleftrightarrow> safe_id rid \<and> p = base_path s @ [''bundles'', rid] @ rest"
  using scoped_base [of "[''bundles'', rid] @ rest" s fld] safe_id_no_dots [of rid]
  by (auto simp: bundle_file_def res_bind_Inr_iff bundle_dir_Inr_iff)

lemma deployment_path_Inr_iff:
  "deployment_path s did = Inr p \<longleftrightarrow> safe_id did \<and> p = base_path s @ [''deployments'', did @ ''.json'']"
  by (simp add: deployment_path_def resolve_file_Inr_iff)

lemma verification_path_Inr_iff:
  "verification_path s did = Inr p \<longleftrightarrow>
     safe_id did \<and> p = base_path s @ [''deployments'', did @ ''-verification.json'']"
  by (simp add: verification_path_def resolve_file_Inr_iff)

lemma report_path_Inr_iff:
  "report_path s aid fld = Inr p \<longleftrightarrow> safe_id aid \<and> p = base_path s @ [''validations'', aid @ ''.json'']"
  by (simp add: report_path_def resolve_file_Inr_iff)

lemma event_path_Inr:
  "event_path s rid aid = Inr p \<Longrightarrow>
     p = base_path s @ [''bundles'', rid, ''closed-loop.jsonl''] \<or>
     (\<exists>n. p = base_path s @ [''closed-loop'', n @ ''.jsonl''])"
  by (auto simp: event_path_def res_bind_Inr_iff resolve_component_Inr_iff resolve_file_Inr_iff split: if_splits)

lemma lifecycle_path_Inr:
  "lifecycle_path s rid = Inr p \<Longrightarrow>
     (if starts_with rid artifact_prefix
      then p = base_path s @ [''closed-loop'', drop 9 rid @ ''-lifecycle.jsonl''] \<and> safe_id (drop 9 rid)
      else p = base_path s @ [''bundles'', rid, ''lifecycle.jsonl''] \<and> safe_id rid)"
  by (auto simp: lifecycle_path_def res_bind_Inr_iff resolve_file_Inr_iff bundle_dir_Inr_iff split: if_splits)

lemma state_path_Inr:
  "state_path s rid = Inr p \<Longrightarrow>
     (if starts_with rid artifact_prefix
      then p = base_path s @ [''closed-loop'', drop 9 rid @ ''-state.json''] \<and> safe_id (drop 9 rid)
      else p = base_path s @ [''bundles'', rid, ''repair-state.json''] \<and> safe_id rid)"
  by (auto simp: state_path_def res_bind_Inr_iff resolve_file_Inr_iff bundle_dir_Inr_iff split: if_splits)

lemmas path_simps =
  resolve_component_Inr_iff resolve_file_Inr_iff bundle_dir_Inr_iff bundle_file_Inr_iff
  deployment_path_Inr_iff verification_path_Inr_iff report_path_Inr_iff

subsection \<open>Logs only grow\<close>

definition log_name :: "string \<Rightarrow> bool" where
  "log_name n \<longleftrightarrow> ends_with n ''.jsonl''"

definition logs_grow :: "loop_store \<Rightarrow> loop_store \<Rightarrow> bool" where
  "logs_grow s t \<longleftrightarrow>
     st_root t = st_root s \<and> (\<forall>p. log_name (last p) \<longrightarrow> prefix (log_at s p) (log_at t p))"

interpretation grow: effect_frame logs_grow
  by unfold_locales (auto simp: logs_grow_def intro: prefix_order.trans)

lemma ends_with_last: "ends_with s t \<Longrightarrow> t \<noteq> [] \<Longrightarrow> last s = last t"
  by (metis ends_with_def append_take_drop_id last_appendR)

lemma log_name_last: "log_name n \<Longrightarrow> last n = CHR ''l''"
  using ends_with_last [of n "''.jsonl''"] by (simp add: log_name_def)

lemma log_at_put [simp]:
  "log_at (put_file p d s) q = (if q = p then (case d of Log_Doc ls \<Rightarrow> ls | _ \<Rightarrow> []) else log_at s q)"
  by (simp add: log_at_def)

lemma log_at_append [simp]:
  "log_at (append_line p l s) q = (if q = p then log_at s p @ [l] else log_at s q)"
  by (simp add: append_line_def log_at_def)

lemma root_append [simp]: "st_root (append_line p l s) = st_root s"
  by (simp add: append_line_def)

lemma grow_write_line: "grow.keeps (write_line p l)"
  by (auto simp: write_line_def logs_grow_def intro!: grow.keeps_rules grow.keeps_write)

text \<open>A record is written under a name that ends in \<open>.json\<close>.\<close>

definition json_target :: "(loop_store \<Rightarrow> loop_error + path) \<Rightarrow> bool" where
  "json_target p \<longleftrightarrow> (\<forall>s q. p s = Inr q \<longrightarrow> last (last q) = CHR ''n'')"

lemma grow_write_doc:
  assumes "json_target p"
  shows "grow.keeps (write_doc p d)"
  unfolding grow.keeps_def
proof
  fix s
  show "logs_grow s (snd (write_doc p d s))"
  proof (cases "p s")
    case (Inr q)
    then have "\<not> log_name (last q)"
      using assms log_name_last by (fastforce simp: json_target_def)
    then show ?thesis
      using Inr by (auto simp: write_doc_def logs_grow_def op_simps)
  qed (simp add: write_doc_def op_simps logs_grow_def)
qed

lemma json_target_bundle [intro, simp]:
  "''..'' \<notin> set rest \<Longrightarrow> rest \<noteq> [] \<Longrightarrow> last (last rest) = CHR ''n'' \<Longrightarrow>
     json_target (\<lambda>s. bundle_file s rid rest fld)"
  by (auto simp: json_target_def bundle_file_Inr_iff)

lemma last_dot_json [simp]: "last (v @ ''.json'') = CHR ''n''"
  by simp

lemma json_target_scoped:
  assumes "\<And>s q. f s = Inr q \<Longrightarrow> ''..'' \<notin> set q \<and> last (last q) = CHR ''n''"
  shows "json_target (\<lambda>s. res_bind (f s) (\<lambda>p. scoped_path s p fld))"
  using assms scoped_path_no_dots by (fastforce simp: json_target_def res_bind_Inr_iff)

lemma last_attempt_file [simp]: "last (attempt_file n) = CHR ''n''" "attempt_file n \<noteq> ''..''" "''..'' \<noteq> attempt_file n"
  by (simp_all add: attempt_file_def)

lemma json_target_paths [intro, simp]:
  "json_target (\<lambda>s. deployment_path s did)" "json_target (\<lambda>s. verification_path s did)"
  by (auto simp: json_target_def path_simps)

lemma json_target_report [intro, simp]:
  "json_target (\<lambda>s. res_bind (report_path s aid fld) (\<lambda>p. scoped_path s p fld'))"
  using long_no_dots [of "''.json''" aid] by (intro json_target_scoped) (auto simp: path_simps)

lemma json_target_state [intro, simp]:
  "json_target (\<lambda>s. res_bind (state_path s rid) (\<lambda>p. scoped_path s p fld))"
  using long_no_dots [of "''-state.json''" "drop 9 rid"]
  by (intro json_target_scoped) (auto dest!: state_path_Inr dest: safe_id_no_dots split: if_splits)

lemma scoped_directory_no_dots: "scoped_directory s p fld = Inr q \<Longrightarrow> ''..'' \<notin> set q"
  by (cases p) (auto simp: scoped_directory_def ensure_tree_confined_def resolve_under.simps Let_def
      res_bind_Inr_iff resolve_parts_no_dots split: if_splits)

lemma resolve_parts_snoc: "x \<noteq> ''..'' \<Longrightarrow> resolve_parts acc (ps @ [x]) = resolve_parts acc ps @ [x]"
  by (induction acc ps rule: resolve_parts.induct) auto

lemma scoped_path_snoc:
  "scoped_path s (d @ [x]) fld = Inr q \<Longrightarrow> x \<noteq> ''..'' \<Longrightarrow> q = resolve_parts [] d @ [x]"
  by (auto simp: scoped_path_def resolve_under.simps Let_def resolve_parts_snoc split: if_splits)

lemma json_target_in_dir [intro, simp]:
  "x \<noteq> ''..'' \<Longrightarrow> last x = CHR ''n'' \<Longrightarrow> json_target (\<lambda>s. scoped_path s (d @ [x]) fld)"
  by (auto simp: json_target_def dest!: scoped_path_snoc)

lemma grow_store:
  "grow.keeps (save_bundle e b)" "grow.keeps (save_proposal p)" "grow.keeps (save_attempt a)"
  "grow.keeps (record_lifecycle r)" "grow.keeps (save_validation_report vr root)"
  "grow.keeps (save_verification v)" "grow.keeps (save_deployment d)"
  "grow.keeps (emit e ty corr rid aid run st dt mt)" "grow.keeps (write_promotion_marker d x y)"
  unfolding save_bundle_def save_proposal_def save_attempt_def record_lifecycle_def
    save_validation_report_def save_verification_def save_deployment_def emit_def
    write_promotion_marker_def op_all.simps
  by (intro grow.keeps_rules grow_write_doc grow_write_line; simp)+

lemma grow_record_built: "grow.keeps (record_built r)"
  unfolding record_built_def by (intro grow.keeps_rules grow_store)

lemma grow_bundle_state: "grow.keeps (record_bundle_state e b st)"
  by (simp add: record_bundle_state_def grow_record_built)

lemmas grow_rules = grow.keeps_rules grow_store grow_record_built grow_bundle_state

lemma grow_operations:
  "grow.keeps (prepare_failed_run e prep)"
  "grow.keeps (propose e rid scope patch cause code)"
  "grow.keeps (apply_repair e m rid n runner)"
  "grow.keeps (validate_research_artifact e aid req corr)"
  "grow.keeps (verify_research_artifact e c req ty dep)"
  "grow.keeps (promote_research_artifact e c did prev)"
  "grow.keeps (rollback_research_artifact e did reason)"
  unfolding prepare_failed_run_def package_repair_def propose_def apply_repair_def run_attempt_def
    start_attempt_def conclude_attempt_def
    validate_research_artifact_def verify_research_artifact_def promote_research_artifact_def
    rollback_research_artifact_def Let_def list.map op_all.simps
  by (intro grow_rules)+

end
