(* ===== verification/Loop_Attempts.thy ===== *)
theory Loop_Attempts
  imports Loop_Facts
begin

section \<open>The attempts of a repair\<close>

text \<open>
  Only \<open>save_attempt\<close> writes an attempt file, \<open>apply_repair\<close> calls it with the next number, and the
  number is at most the maximum: the attempts of every repair are numbered from 1 without a gap.
\<close>

subsection \<open>File names\<close>

lemma char_code_digit: "n < 10 \<Longrightarrow> char_code (char_of (48 + n)) = 48 + n"
  by (simp add: char_code_char_of)

lemma digits_value_digit:
  "n < 10 \<Longrightarrow> digits_value acc (char_of (48 + n) # s) = digits_value (10 * acc + int n) s"
  by (simp add: is_digit_def char_code_digit)

lemma digits_value_decimal: "digits_value 0 (decimal n @ s) = digits_value (int n) s"
proof (induction n arbitrary: s rule: less_induct)
  case (less n)
  show ?case
  proof (cases "n < 10")
    case True
    then show ?thesis
      by (subst decimal.simps) (simp add: digits_value_digit del: digits_value.simps)
  next
    case False
    have m: "10 * int (n div 10) + int (n mod 10) = int n"
      by (metis mult_div_mod_eq of_nat_add of_nat_mult of_nat_numeral)
    have "decimal n = decimal (n div 10) @ [char_of (48 + n mod 10)]"
      using False by (subst decimal.simps) simp
    then have "digits_value 0 (decimal n @ s) =
        digits_value (int (n div 10)) (char_of (48 + n mod 10) # s)"
      using less.IH [of "n div 10" "char_of (48 + n mod 10) # s"] False by simp
    also have "\<dots> = digits_value (int n) s"
      by (simp only: digits_value_digit [of "n mod 10"] m mod_less_divisor zero_less_numeral)
    finally show ?thesis .
  qed
qed

lemma decimal_value: "digits_value 0 (decimal n) = Some (int n)"
  using digits_value_decimal [of n "[]"] by simp

lemma decimal_inj: "decimal m = decimal n \<Longrightarrow> m = n"
  by (metis decimal_value option.inject of_nat_eq_iff)

lemma attempt_file_inj: "attempt_file (int m) = attempt_file (int n) \<longleftrightarrow> m = n"
  by (simp add: attempt_file_def int_text_def) (metis decimal_inj)

lemma decimal_nonempty [simp]: "decimal n \<noteq> []"
  by (subst decimal.simps) (simp only: append_is_Nil_conv list.distinct simp_thms split: if_splits)

lemma attempt_name_file: "0 \<le> n \<Longrightarrow> attempt_name (attempt_file n)"
proof -
  assume "0 \<le> n"
  have "0 < length (decimal (nat n))" by simp
  moreover have "ends_with (u @ v) v" for u v :: string
    by (simp add: ends_with_def)
  then have "ends_with ((''attempt-'' @ decimal (nat n)) @ ''.json'') ''.json''" .
  ultimately show ?thesis
    using \<open>0 \<le> n\<close> by (simp add: attempt_name_def attempt_file_def int_text_def starts_with_def)
qed

subsection \<open>The frame of the attempt files\<close>

definition attempt_path :: "loop_store \<Rightarrow> string \<Rightarrow> string \<Rightarrow> path" where
  "attempt_path s rid n = base_path s @ [''bundles'', rid, ''attempts'', n]"

definition attempts_kept :: "loop_store \<Rightarrow> loop_store \<Rightarrow> bool" where
  "attempts_kept s t \<longleftrightarrow>
     st_root t = st_root s \<and> (dict_ok (st_files s) \<longrightarrow> dict_ok (st_files t)) \<and>
     (\<forall>rid n. attempt_name n \<longrightarrow> file_at t (attempt_path s rid n) = file_at s (attempt_path s rid n))"

lemma attempt_path_root: "st_root t = st_root s \<Longrightarrow> attempt_path t rid n = attempt_path s rid n"
  by (simp add: attempt_path_def base_path_def)

lemma attempts_kept_trans:
  assumes "attempts_kept s t" and "attempts_kept t u"
  shows "attempts_kept s u"
proof -
  have "attempt_path t rid n = attempt_path s rid n" for rid n
    using assms(1) by (intro attempt_path_root) (simp add: attempts_kept_def)
  with assms show ?thesis by (simp add: attempts_kept_def)
qed

interpretation att: effect_frame attempts_kept
proof
  show "attempts_kept s s" for s by (simp add: attempts_kept_def)
qed (rule attempts_kept_trans)

definition no_attempt_target :: "(loop_store \<Rightarrow> loop_error + path) \<Rightarrow> bool" where
  "no_attempt_target p \<longleftrightarrow>
     (\<forall>s q rid n. p s = Inr q \<longrightarrow> attempt_name n \<longrightarrow> q \<noteq> attempt_path s rid n)"

lemma dict_ok_put [simp]: "dict_ok (st_files s) \<Longrightarrow> dict_ok (st_files (put_file p d s))"
  by (simp add: put_file_def dict_ok_set)

lemma att_write_doc: "no_attempt_target p \<Longrightarrow> att.keeps (write_doc p d)"
  unfolding att.keeps_def
proof
  fix s
  assume "no_attempt_target p"
  then show "attempts_kept s (snd (write_doc p d s))"
    by (cases "p s") (auto simp: write_doc_def op_simps att.rel_refl attempts_kept_def no_attempt_target_def)
qed

lemma att_write_line: "no_attempt_target p \<Longrightarrow> att.keeps (write_line p l)"
  unfolding att.keeps_def
proof
  fix s
  assume "no_attempt_target p"
  then show "attempts_kept s (snd (write_line p l s))"
    by (cases "p s") (auto simp: write_line_def op_simps att.rel_refl attempts_kept_def no_attempt_target_def
        append_line_def)
qed

lemma no_attempt_length:
  assumes "\<And>s q. p s = Inr q \<Longrightarrow> length q \<noteq> length (base_path s) + 4"
  shows "no_attempt_target p"
  using assms by (fastforce simp: no_attempt_target_def attempt_path_def)

lemma no_attempt_last:
  assumes "\<And>s q. p s = Inr q \<Longrightarrow> \<not> attempt_name (last q)"
  shows "no_attempt_target p"
  using assms by (fastforce simp: no_attempt_target_def attempt_path_def)

lemma no_attempt_bundle [simp]: "x \<noteq> ''..'' \<Longrightarrow> no_attempt_target (\<lambda>s. bundle_file s rid [x] fld)"
  by (rule no_attempt_length) (auto simp: bundle_file_Inr_iff)

lemma no_attempt_deployment [simp]:
  "no_attempt_target (\<lambda>s. deployment_path s did)" "no_attempt_target (\<lambda>s. verification_path s did)"
  by (rule no_attempt_length; auto simp: path_simps)+

lemma no_attempt_report [simp]:
  "no_attempt_target (\<lambda>s. res_bind (report_path s aid fld) (\<lambda>p. scoped_path s p fld'))"
  using long_no_dots [of "''.json''" aid]
  by (intro no_attempt_length) (auto simp: path_simps res_bind_Inr_iff dest!: scoped_path_no_dots)

lemma no_attempt_state [simp]:
  "no_attempt_target (\<lambda>s. res_bind (state_path s rid) (\<lambda>p. scoped_path s p fld))"
  using long_no_dots [of "''-state.json''" "drop 9 rid"] safe_id_no_dots [of rid]
  by (intro no_attempt_length)
    (auto simp: res_bind_Inr_iff dest!: state_path_Inr scoped_path_no_dots split: if_splits)

lemma no_attempt_lifecycle [simp]:
  "no_attempt_target (\<lambda>s. res_bind (lifecycle_path s rid) (\<lambda>p. scoped_path s p fld))"
  using long_no_dots [of "''-lifecycle.jsonl''" "drop 9 rid"] safe_id_no_dots [of rid]
  by (intro no_attempt_length)
    (auto simp: res_bind_Inr_iff dest!: lifecycle_path_Inr scoped_path_no_dots split: if_splits)

lemma no_attempt_event [simp]: "no_attempt_target (\<lambda>s. event_path s rid aid)"
  by (rule no_attempt_length) (auto dest!: event_path_Inr)

lemma no_attempt_in_dir [simp]:
  "x \<noteq> ''..'' \<Longrightarrow> \<not> attempt_name x \<Longrightarrow> no_attempt_target (\<lambda>s. scoped_path s (d @ [x]) fld)"
  by (rule no_attempt_last) (auto dest!: scoped_path_snoc)

lemma fixed_names [simp]:
  "\<not> attempt_name ''validation-report.json''" "\<not> attempt_name ''promotion.json''"
  by (simp_all add: attempt_name_def starts_with_def)

lemma att_store:
  "att.keeps (save_bundle e b)" "att.keeps (save_proposal p)"
  "att.keeps (record_lifecycle r)" "att.keeps (save_validation_report vr root)"
  "att.keeps (save_verification v)" "att.keeps (save_deployment d)"
  "att.keeps (emit e ty corr rid aid run st dt mt)" "att.keeps (write_promotion_marker d x y)"
  unfolding save_bundle_def save_proposal_def record_lifecycle_def
    save_validation_report_def save_verification_def save_deployment_def emit_def
    write_promotion_marker_def op_all.simps
  by (intro att.keeps_rules att_write_doc att_write_line; simp)+

lemma att_record_built: "att.keeps (record_built r)"
  unfolding record_built_def by (intro att.keeps_rules att_store)

lemma att_bundle_state: "att.keeps (record_bundle_state e b st)"
  by (simp add: record_bundle_state_def att_record_built)

lemmas att_rules = att.keeps_rules att_store att_record_built att_bundle_state

lemma att_operations:
  "att.keeps (prepare_failed_run e prep)"
  "att.keeps (propose e rid scope patch cause code)"
  "att.keeps (validate_research_artifact e aid req corr)"
  "att.keeps (verify_research_artifact e c req ty dep)"
  "att.keeps (promote_research_artifact e c did prev)"
  "att.keeps (rollback_research_artifact e did reason)"
  unfolding prepare_failed_run_def package_repair_def propose_def
    validate_research_artifact_def verify_research_artifact_def promote_research_artifact_def
    rollback_research_artifact_def Let_def list.map op_all.simps
  by (intro att_rules)+

subsection \<open>Numbering\<close>

text \<open>The attempts of a repair are the files of the numbers 1 to \<open>k\<close>, each with its own record.\<close>

definition attempt_doc_ok :: "string \<Rightarrow> int \<Rightarrow> document \<Rightarrow> bool" where
  "attempt_doc_ok rid i d \<longleftrightarrow>
     (case d of Attempt_Doc a \<Rightarrow> ra_attempt a = i \<and> ra_repair_id a = rid | _ \<Rightarrow> False)"

definition numbered :: "nat \<Rightarrow> string \<Rightarrow> loop_store \<Rightarrow> bool" where
  "numbered k rid s \<longleftrightarrow>
     (\<forall>n. attempt_name n \<longrightarrow>
        (case file_at s (attempt_path s rid n) of
           None \<Rightarrow> \<forall>i. 1 \<le> i \<and> i \<le> k \<longrightarrow> n \<noteq> attempt_file (int i)
         | Some d \<Rightarrow> \<exists>i. 1 \<le> i \<and> i \<le> k \<and> n = attempt_file (int i) \<and> attempt_doc_ok rid (int i) d))"

definition attempts_inv :: "int \<Rightarrow> loop_store \<Rightarrow> bool" where
  "attempts_inv m s \<longleftrightarrow> dict_ok (st_files s) \<and> (\<forall>rid. \<exists>k. int k \<le> m \<and> numbered k rid s)"

lemma attempts_inv_kept: "attempts_kept s t \<Longrightarrow> attempts_inv m s \<Longrightarrow> attempts_inv m t"
proof -
  assume k: "attempts_kept s t" and i: "attempts_inv m s"
  have "attempt_path t rid n = attempt_path s rid n" for rid n
    using k by (intro attempt_path_root) (simp add: attempts_kept_def)
  with k i show ?thesis
    by (simp add: attempts_inv_def numbered_def attempts_kept_def)
qed

lemma numbered_file_iff:
  "numbered k rid s \<Longrightarrow> attempt_name n \<Longrightarrow>
     file_at s (attempt_path s rid n) \<noteq> None \<longleftrightarrow> (\<exists>i. 1 \<le> i \<and> i \<le> k \<and> n = attempt_file (int i))"
  by (cases "file_at s (attempt_path s rid n)") (auto simp: numbered_def split: option.splits)

lemma file_at_None_iff: "file_at s p \<noteq> None \<longleftrightarrow> p \<in> fst ` set (st_files s)"
  by (simp add: file_at_def map_of_eq_None_iff)

lemma attempt_files_set:
  "set (attempt_files (base_path s @ [''bundles'', rid, ''attempts'']) s) =
     {attempt_path s rid n | n. attempt_name n \<and> file_at s (attempt_path s rid n) \<noteq> None}"
proof -
  let ?d = "base_path s @ [''bundles'', rid, ''attempts'']"
  have shape: "is_under d p \<and> length p = Suc (length d) \<and> attempt_name (last p) \<longleftrightarrow>
          (\<exists>n. p = d @ [n] \<and> attempt_name n)" for d p :: path
    by (cases p rule: rev_cases) (auto simp: is_under_def)
  have "set (attempt_files ?d s) = {p \<in> fst ` set (st_files s). \<exists>n. p = ?d @ [n] \<and> attempt_name n}"
    unfolding attempt_files_def set_sort set_filter set_map shape by (rule refl)
  also have "\<dots> = {?d @ [n] | n. attempt_name n \<and> ?d @ [n] \<in> fst ` set (st_files s)}"
    by (rule Collect_cong) metis
  finally show ?thesis
    by (simp add: attempt_path_def flip: file_at_None_iff)
qed

lemma attempt_files_count:
  assumes "dict_ok (st_files s)" and "numbered k rid s"
  shows "length (attempt_files (base_path s @ [''bundles'', rid, ''attempts'']) s) = k"
proof -
  let ?fs = "attempt_files (base_path s @ [''bundles'', rid, ''attempts'']) s"
  have "set ?fs = (\<lambda>i. attempt_path s rid (attempt_file (int i))) ` {1..k}"
  proof -
    have "set ?fs = {attempt_path s rid n | n. attempt_name n \<and>
                       (\<exists>i. 1 \<le> i \<and> i \<le> k \<and> n = attempt_file (int i))}"
      unfolding attempt_files_set using numbered_file_iff [OF assms(2)] by blast
    also have "\<dots> = {attempt_path s rid (attempt_file (int i)) | i. 1 \<le> i \<and> i \<le> k}"
      by (rule Collect_cong) (metis attempt_name_file of_nat_0_le_iff)
    finally show ?thesis unfolding image_def Bex_def atLeastAtMost_iff by blast
  qed
  moreover have "inj_on (\<lambda>i. attempt_path s rid (attempt_file (int i))) {1..k}"
    by (auto simp: inj_on_def attempt_path_def attempt_file_inj)
  moreover have "distinct ?fs"
    using assms(1) by (simp add: attempt_files_def dict_ok_def)
  ultimately show ?thesis
    using distinct_card [of ?fs] by (simp add: card_image)
qed

lemma list_attempts_length:
  assumes "list_attempts rid s = Inr as" and "attempts_inv m s"
  shows "numbered (length as) rid s \<and> int (length as) \<le> m"
proof -
  obtain k where k: "int k \<le> m" "numbered k rid s" "dict_ok (st_files s)"
    using assms(2) by (auto simp: attempts_inv_def)
  have "length as = length (attempt_files (base_path s @ [''bundles'', rid, ''attempts'']) s)"
    using assms(1)
    by (auto simp: list_attempts_def res_bind_Inr_iff bundle_file_Inr_iff res_map_Inr_iff
        dest: list_all2_lengthD)
  with k attempt_files_count show ?thesis by simp
qed

lemma save_attempt_file:
  assumes "save_attempt a s = (r, t)"
  shows "t = s \<or> t = put_file (attempt_path s (ra_repair_id a) (attempt_file (ra_attempt a))) (Attempt_Doc a) s"
proof (cases "bundle_file s (ra_repair_id a) [''attempts'', attempt_file (ra_attempt a)] ''path''")
  case (Inr q)
  then have "q = attempt_path s (ra_repair_id a) (attempt_file (ra_attempt a))"
    by (simp add: bundle_file_Inr_iff attempt_path_def)
  with Inr assms show ?thesis by (simp add: save_attempt_def write_doc_def op_simps)
qed (use assms in \<open>simp add: save_attempt_def write_doc_def op_simps\<close>)

lemma attempt_path_put [simp]: "attempt_path (put_file p d s) = attempt_path s"
  by (rule ext)+ (simp add: attempt_path_def)

lemma attempt_path_inj [simp]:
  "attempt_path s rid n = attempt_path s rid' n' \<longleftrightarrow> rid = rid' \<and> n = n'"
  by (auto simp: attempt_path_def)

lemma save_next_attempt:
  assumes "attempts_inv m s" and "numbered k rid s" and "int k + 1 \<le> m"
    and "ra_repair_id a = rid" and "ra_attempt a = int k + 1" and "save_attempt a s = (r, t)"
  shows "attempts_inv m t"
  using save_attempt_file [OF assms(6)]
proof
  assume t: "t = put_file (attempt_path s (ra_repair_id a) (attempt_file (ra_attempt a))) (Attempt_Doc a) s"
  have a: "ra_attempt a = int (Suc k)" using assms(5) by simp
  have "numbered (Suc k) rid t"
    unfolding numbered_def
  proof (intro allI impI)
    fix n assume n: "attempt_name n"
    show "case file_at t (attempt_path t rid n) of
        None \<Rightarrow> \<forall>i. 1 \<le> i \<and> i \<le> Suc k \<longrightarrow> n \<noteq> attempt_file (int i)
      | Some d \<Rightarrow> \<exists>i. 1 \<le> i \<and> i \<le> Suc k \<and> n = attempt_file (int i) \<and> attempt_doc_ok rid (int i) d"
    proof (cases "n = attempt_file (int (Suc k))")
      case True
      then show ?thesis
        using t a assms(4) by (auto simp: attempt_doc_ok_def intro!: exI [of _ "Suc k"])
    next
      case False
      then have "file_at t (attempt_path t rid n) = file_at s (attempt_path s rid n)"
        using t a by simp
      moreover have "case file_at s (attempt_path s rid n) of
          None \<Rightarrow> \<forall>i. 1 \<le> i \<and> i \<le> k \<longrightarrow> n \<noteq> attempt_file (int i)
        | Some d \<Rightarrow> \<exists>i. 1 \<le> i \<and> i \<le> k \<and> n = attempt_file (int i) \<and> attempt_doc_ok rid (int i) d"
        using assms(2) n by (simp add: numbered_def)
      ultimately show ?thesis
        using False by (auto simp: le_Suc_eq split: option.splits)
    qed
  qed
  moreover have "numbered k' rid' t \<longleftrightarrow> numbered k' rid' s" if "rid' \<noteq> rid" for k' rid'
    using that t assms(4) by (simp add: numbered_def)
  ultimately show ?thesis
    using assms(1,3) t by (auto simp: attempts_inv_def) (metis of_nat_Suc add.commute)
qed (use assms(1) in simp)

subsection \<open>Every operation keeps the numbering\<close>

lemma att_seq:
  assumes "att.keeps m" and "op_seq m n s = (r, t)"
  shows "attempts_kept s t \<or> (\<exists>u. attempts_kept s u \<and> n u = (r, t))"
proof (cases "m s")
  case (Pair x u)
  then have "attempts_kept s u" using assms(1) att.keepsD by blast
  with Pair assms(2) show ?thesis by (cases x) (auto simp: op_seq_def op_bind_def)
qed

lemma inv_seq:
  assumes "att.keeps m" and "op_seq m n s = (r, t)" and "attempts_inv k s"
    and "\<And>u. attempts_kept s u \<Longrightarrow> n u = (r, t) \<Longrightarrow> attempts_inv k t"
  shows "attempts_inv k t"
  using att_seq [OF assms(1,2)] assms(3,4) attempts_inv_kept by blast

lemma inv_keeps: "att.keeps m \<Longrightarrow> m s = (r, t) \<Longrightarrow> attempts_inv k s \<Longrightarrow> attempts_inv k t"
  using att.keepsD attempts_inv_kept by blast

lemma numbered_kept: "attempts_kept s t \<Longrightarrow> numbered k rid s \<Longrightarrow> numbered k rid t"
proof -
  assume k: "attempts_kept s t" and i: "numbered k rid s"
  have "attempt_path t rid n = attempt_path s rid n" for n
    using k by (intro attempt_path_root) (simp add: attempts_kept_def)
  with k i show ?thesis by (simp add: numbered_def attempts_kept_def)
qed

lemma attempt_record_fields:
  "attempt_record e rid n r = Inr a \<Longrightarrow> ra_repair_id a = rid \<and> ra_attempt a = n"
  by (auto simp: attempt_record_def)

lemma att_start: "att.keeps (start_attempt e b rid n)"
  unfolding start_attempt_def by (intro att_rules)

lemma att_conclude: "att.keeps (conclude_attempt e m b rid n passed rec)"
  unfolding conclude_attempt_def by (intro att_rules)

lemma save_then_inv:
  assumes "op_seq (save_attempt a) rest s = (r, t)" and "att.keeps rest"
    and "\<And>r u. save_attempt a s = (r, u) \<Longrightarrow> attempts_inv m u"
  shows "attempts_inv m t"
proof (cases "save_attempt a s")
  case (Pair x u)
  then have "attempts_inv m u" by (rule assms(3))
  with Pair assms(1,2) show ?thesis
    by (cases x) (auto simp: op_seq_def op_bind_def intro: inv_keeps)
qed

lemma run_attempt_inv:
  assumes "attempts_inv m s" and "numbered k rid s" and "int k + 1 \<le> m"
    and run: "run_attempt e m b p rid (int k + 1) runner s = (r, t)"
  shows "attempts_inv m t"
  using run unfolding run_attempt_def
proof (rule inv_seq [OF att_start _ assms(1)])
  fix u
  assume u: "attempts_kept s u"
    and rest: "op_bind (op_lift (attempt_result (rn_run runner b p (int k + 1)))) (\<lambda>r.
       op_bind (op_lift (attempt_record e rid (int k + 1) r)) (\<lambda>rec.
       op_seq (save_attempt rec) (conclude_attempt e m b rid (int k + 1) (sr_passed r) rec))) u = (r, t)"
  have iu: "attempts_inv m u" and nu: "numbered k rid u"
    using attempts_inv_kept [OF u assms(1)] numbered_kept [OF u assms(2)] by simp_all
  have saved: "attempts_inv m t"
    if a: "attempt_record e rid (int k + 1) x = Inr a"
      and c: "op_seq (save_attempt a) (conclude_attempt e m b rid (int k + 1) (sr_passed x) a) u = (r, t)"
    for x a
    using c att_conclude
    by (rule save_then_inv) (rule save_next_attempt [OF iu nu assms(3)]; use attempt_record_fields [OF a] in simp)
  show "attempts_inv m t"
    using rest iu by (auto simp: op_bind_lift split: sum.splits intro: saved)
qed

lemma apply_repair_inv:
  assumes "attempts_inv m s" and "apply_repair e m rid n runner s = (r, t)"
  shows "attempts_inv m t"
proof -
  have fail: "attempts_inv m t" if "op_seq (record_bundle_state e b FAILED) (op_raise x) s = (r, t)" for b x
    using that by (rule inv_keeps [OF _ _ assms(1), rotated]) (intro att_rules)
  have run: "attempts_inv m t"
    if "list_attempts rid s = Inr as" and "n = int (length as) + 1" and "\<not> m < n"
      and "run_attempt e m b p rid n runner s = (r, t)" for as b p
    using run_attempt_inv [OF assms(1)] list_attempts_length [OF that(1) assms(1)] that by simp
  show ?thesis
    using assms unfolding apply_repair_def
    by (auto simp: op_simps split: sum.splits if_splits intro: fail run)
qed

subsection \<open>Reachable stores\<close>

text \<open>One call of the service, with any arguments.\<close>

inductive loop_step :: "int \<Rightarrow> loop_store \<Rightarrow> loop_store \<Rightarrow> bool" for m where
  step_prepare: "prepare_failed_run e prep s = (x, t) \<Longrightarrow> loop_step m s t"
| step_propose: "propose e rid scope patch cause code s = (y, t) \<Longrightarrow> loop_step m s t"
| step_apply: "apply_repair e m rid n runner s = (z, t) \<Longrightarrow> loop_step m s t"
| step_validate: "validate_research_artifact e aid req corr s = (w, t) \<Longrightarrow> loop_step m s t"
| step_verify: "verify_research_artifact e c req' ty dep s = (v, t) \<Longrightarrow> loop_step m s t"
| step_promote: "promote_research_artifact e c did prev s = (d, t) \<Longrightarrow> loop_step m s t"
| step_rollback: "rollback_research_artifact e did reason s = (d, t) \<Longrightarrow> loop_step m s t"

definition no_attempts :: "int \<Rightarrow> loop_store \<Rightarrow> bool" where
  "no_attempts m s \<longleftrightarrow>
     1 \<le> m \<and> dict_ok (st_files s) \<and> list_all (\<lambda>(p, _). \<not> attempt_name (last p)) (st_files s)"

lemma loop_step_inv: "loop_step m s t \<Longrightarrow> attempts_inv m s \<Longrightarrow> attempts_inv m t"
  by (induction rule: loop_step.induct) (blast intro: inv_keeps [OF att_operations(1)]
      inv_keeps [OF att_operations(2)] inv_keeps [OF att_operations(3)] inv_keeps [OF att_operations(4)]
      inv_keeps [OF att_operations(5)] inv_keeps [OF att_operations(6)] apply_repair_inv)+

lemma no_attempts_inv: "no_attempts m s \<Longrightarrow> attempts_inv m s"
proof -
  assume s: "no_attempts m s"
  have "file_at s (attempt_path s rid n) = None" if "attempt_name n" for rid n
    using s that file_at_None_iff [of s "attempt_path s rid n"]
    by (fastforce simp: no_attempts_def list_all_iff attempt_path_def)
  then have "numbered 0 rid s" for rid by (simp add: numbered_def)
  moreover have "int 0 \<le> m" using s by (simp add: no_attempts_def)
  ultimately show ?thesis
    using s unfolding attempts_inv_def no_attempts_def by blast
qed

interpretation repair_attempts: invariant_system "no_attempts m" "loop_step m" "attempts_inv m" for m
  by unfold_locales (auto intro: no_attempts_inv loop_step_inv)

section \<open>Stored records conform to their models\<close>

text \<open>
  \<open>conforms\<close>: every record in a file satisfies the constraints of its model, so that it loads.  Each
  operation keeps it, since it builds a record (which checks it) before writing it; a rollback does
  so for a reason of at most 2000 characters, because \<open>model_copy\<close> does not check.
\<close>

definition line_conforms :: "log_line \<Rightarrow> bool" where
  "line_conforms l = (case l of Lifecycle_Line r \<Rightarrow> lifecycle_valid r | Event_Line _ \<Rightarrow> True)"

fun document_conforms :: "document \<Rightarrow> bool" where
  "document_conforms (Bundle_Doc b) = bundle_valid b"
| "document_conforms (Proposal_Doc p) = proposal_valid p"
| "document_conforms (Attempt_Doc a) = attempt_valid a"
| "document_conforms (Report_Doc r) = report_valid r"
| "document_conforms (Verification_Doc v) = verification_valid v"
| "document_conforms (Deployment_Doc d) = deployment_valid d"
| "document_conforms (Log_Doc ls) = list_all line_conforms ls"
| "document_conforms _ = True"

definition conforms :: "loop_store \<Rightarrow> bool" where
  "conforms s \<longleftrightarrow> list_all (\<lambda>(_, d). document_conforms d) (st_files s)"

interpretation conf: invariant_frame conforms .

lemma dict_set_all: "list_all P d \<Longrightarrow> P (k, v) \<Longrightarrow> list_all P (dict_set k v d)"
  by (induction k v d rule: dict_set.induct) auto

lemma conforms_put: "conforms s \<Longrightarrow> document_conforms d \<Longrightarrow> conforms (put_file p d s)"
  by (simp add: conforms_def put_file_def dict_set_all)

lemma conforms_file: "conforms s \<Longrightarrow> file_at s p = Some d \<Longrightarrow> document_conforms d"
  by (auto simp: conforms_def file_at_def list_all_iff dest!: map_of_SomeD)

lemma conforms_append: "conforms s \<Longrightarrow> line_conforms l \<Longrightarrow> conforms (append_line p l s)"
  unfolding append_line_def
  by (rule conforms_put) (auto split: option.splits document.splits dest: conforms_file)

lemma conf_write_doc: "document_conforms d \<Longrightarrow> conf.keeps (write_doc p d)"
  unfolding write_doc_def by (auto intro!: conf.keeps_rules conf.keeps_write conforms_put)

lemma conf_write_line: "line_conforms l \<Longrightarrow> conf.keeps (write_line p l)"
  unfolding write_line_def by (auto intro!: conf.keeps_rules conf.keeps_write conforms_append)

lemma conf_store:
  "bundle_valid b \<Longrightarrow> conf.keeps (save_bundle e b)"
  "proposal_valid p \<Longrightarrow> conf.keeps (save_proposal p)"
  "attempt_valid a \<Longrightarrow> conf.keeps (save_attempt a)"
  "lifecycle_valid r \<Longrightarrow> conf.keeps (record_lifecycle r)"
  "report_valid vr \<Longrightarrow> conf.keeps (save_validation_report vr root)"
  "verification_valid v \<Longrightarrow> conf.keeps (save_verification v)"
  "deployment_valid d \<Longrightarrow> conf.keeps (save_deployment d)"
  "conf.keeps (emit e ty corr rid aid run st dt mt)" "conf.keeps (write_promotion_marker d' x y)"
  unfolding save_bundle_def save_proposal_def save_attempt_def record_lifecycle_def
    save_validation_report_def save_verification_def save_deployment_def emit_def
    write_promotion_marker_def op_all.simps
  by (intro conf.keeps_rules conf_write_doc conf_write_line; simp add: line_conforms_def)+

lemma conf_record_built: "conf.keeps (record_built r)"
  unfolding record_built_def by (rule conf.keeps_bind_lift) (auto intro: conf_store)

lemma conf_bundle_state: "conf.keeps (record_bundle_state e b st)"
  by (simp add: record_bundle_state_def conf_record_built)

lemmas conf_rules =
  conf.keeps_bind_lift conf.keeps_bind_try conf.keeps_rules conf_store conf_record_built conf_bundle_state

lemma built_valid:
  "package_bundle e prep dir s = Inr b \<Longrightarrow> bundle_valid b"
  "build_proposal e b scope patch cause code = Inr p \<Longrightarrow> proposal_valid p"
  "attempt_record e rid n r = Inr a \<Longrightarrow> attempt_valid a"
  "build_report e aid root corr s = Inr vr \<Longrightarrow> report_valid vr"
  "build_verification e c did req ty s = Inr v \<Longrightarrow> verification_valid v"
  "promotion_gate e c did prev s = Inr d \<Longrightarrow> deployment_valid d"
  by (auto simp: package_bundle_def build_proposal_def attempt_record_def build_report_def
      build_verification_def promotion_gate_def Let_def res_bind_Inr_iff split: prod.splits)

lemma loaded_deployment_valid: "load_deployment did s = Inr d \<Longrightarrow> deployment_valid d"
  by (auto simp: load_deployment_def res_bind_Inr_iff load_model_Inr_iff)

lemma not_found_as_gate_Inr [simp]: "not_found_as_gate msg r = Inr x \<longleftrightarrow> r = Inr x"
  by (auto simp: not_found_as_gate_def split: sum.splits loop_error.splits)

lemma rolled_back_valid: "deployment_valid d \<Longrightarrow> at_most 2000 reason \<Longrightarrow> deployment_valid (rolled_back e reason d)"
  by (simp add: deployment_valid_def rolled_back_def opt_at_most_def)

lemma conf_operations:
  "conf.keeps (prepare_failed_run e prep)"
  "conf.keeps (propose e rid scope patch cause code)"
  "conf.keeps (apply_repair e m rid n runner)"
  "conf.keeps (validate_research_artifact e aid req corr)"
  "conf.keeps (verify_research_artifact e c req ty dep)"
  "conf.keeps (promote_research_artifact e c did prev)"
  "at_most 2000 reason \<Longrightarrow> conf.keeps (rollback_research_artifact e did reason)"
  unfolding prepare_failed_run_def package_repair_def propose_def apply_repair_def run_attempt_def
    start_attempt_def conclude_attempt_def validate_research_artifact_def verify_research_artifact_def
    promote_research_artifact_def rollback_research_artifact_def Let_def list.map op_all.simps
  by (intro conf_rules; erule built_valid)+
    (intro conf_rules; use rolled_back_valid loaded_deployment_valid in force)

end
