(* ===== verification/Guard_Props.thy ===== *)
theory Guard_Props
  imports Sandbox_Guard
begin

section \<open>What the static guard decides\<close>

text \<open>
  \<open>visit_order\<close> is the reference definition: the nodes in the order of an unbounded visit.  The
  visitor with its budget agrees with it exactly while the tree has at most \<open>max_nodes\<close> nodes.
\<close>

function visit_order :: "pynode \<Rightarrow> pynode list" where
  "visit_order n = n # concat (map visit_order (visited_children n))"
  by pat_completeness auto
termination
  by (relation "measure size") auto

declare visit_order.simps [simp del]

definition node_violations :: "pynode \<Rightarrow> guard_violation list" where
  "node_violations n = map (violation_at n) (node_rules n)"

definition in_budget :: "visitor \<Rightarrow> pynode list \<Rightarrow> bool" where
  "in_budget st ns \<longleftrightarrow> vi_node_count st + length ns \<le> max_nodes"

definition visited :: "pynode list \<Rightarrow> visitor \<Rightarrow> visitor" where
  "visited ns st =
     st\<lparr>vi_node_count := vi_node_count st + length ns,
        vi_violations := vi_violations st @ concat (map node_violations ns)\<rparr>"

definition visits_as :: "pynode list \<Rightarrow> visitor \<Rightarrow> visitor \<Rightarrow> bool" where
  "visits_as ns st t \<longleftrightarrow>
     (if in_budget st ns then t = visited ns st
      else vi_complexity_exceeded t \<and> vi_violations t \<noteq> [])"

lemma visited_append: "visited ms (visited ns st) = visited (ns @ ms) st"
  by (simp add: visited_def)

lemma visit_exceeded: "vi_complexity_exceeded st \<Longrightarrow> visit n st = st"
  by (simp add: visit.simps)

lemma fold_visit_exceeded: "vi_complexity_exceeded st \<Longrightarrow> fold visit ns st = st"
  by (induction ns) (simp_all add: visit_exceeded)

lemma in_budget_visited: "in_budget (visited ns st) ms \<longleftrightarrow> in_budget st (ns @ ms)"
  by (simp add: in_budget_def visited_def add.assoc)

lemma fold_visit:
  assumes "\<And>n st. n \<in> set ns \<Longrightarrow> \<not> vi_complexity_exceeded st \<Longrightarrow> vi_node_count st \<le> max_nodes \<Longrightarrow>
             visits_as (visit_order n) st (visit n st)"
    and "\<not> vi_complexity_exceeded st" and "vi_node_count st \<le> max_nodes"
  shows "visits_as (concat (map visit_order ns)) st (fold visit ns st)"
  using assms
proof (induction ns arbitrary: st)
  case Nil
  then show ?case by (simp add: visits_as_def in_budget_def visited_def)
next
  case (Cons n ns)
  have v: "visits_as (visit_order n) st (visit n st)" using Cons.prems by simp
  show ?case
  proof (cases "in_budget st (visit_order n)")
    case True
    let ?t = "visited (visit_order n) st"
    have t: "visit n st = ?t" using v True by (simp add: visits_as_def)
    have "visits_as (concat (map visit_order ns)) ?t (fold visit ns ?t)"
      using Cons.prems True by (intro Cons.IH) (auto simp: visited_def in_budget_def)
    then show ?thesis
      by (simp add: t visits_as_def in_budget_visited visited_append)
  next
    case False
    then have x: "vi_complexity_exceeded (visit n st)" "vi_violations (visit n st) \<noteq> []"
      using v by (simp_all add: visits_as_def)
    have "\<not> in_budget st (visit_order n @ concat (map visit_order ns))"
      using False by (simp add: in_budget_def)
    then show ?thesis
      using x by (simp add: visits_as_def fold_visit_exceeded)
  qed
qed

lemma visit_visits:
  "\<not> vi_complexity_exceeded st \<Longrightarrow> vi_node_count st \<le> max_nodes \<Longrightarrow>
     visits_as (visit_order n) st (visit n st)"
proof (induction n arbitrary: st rule: measure_induct_rule [of size])
  case (less n)
  show ?case
  proof (cases "vi_node_count st = max_nodes")
    case True
    then show ?thesis
      using less.prems
      by (simp add: visit.simps [of n] visits_as_def in_budget_def visit_order.simps [of n] add_rules_def)
  next
    case False
    let ?cs = "visited_children n"
    let ?t = "visited [n] st"
    have t: "visit n st = fold visit ?cs ?t"
      using less.prems False
      by (simp add: visit.simps [of n] add_rules_def visited_def node_violations_def)
    have "visits_as (concat (map visit_order ?cs)) ?t (fold visit ?cs ?t)"
      using less False by (intro fold_visit) (auto simp: visited_def)
    then show ?thesis
      unfolding t by (simp add: visits_as_def in_budget_visited visited_append visit_order.simps [of n])
  qed
qed

lemma sort_remdups_Nil [simp]: "sort (remdups xs) = [] \<longleftrightarrow> xs = []"
  by (metis remdups_eq_nil_iff set_empty set_sort sort_key_simps(1))

lemma visit_clean:
  "vi_violations (visit n new_visitor) = [] \<longleftrightarrow>
     length (visit_order n) \<le> max_nodes \<and> list_all (\<lambda>m. node_rules m = []) (visit_order n)"
proof -
  have "visits_as (visit_order n) new_visitor (visit n new_visitor)"
    by (rule visit_visits) (simp_all add: new_visitor_def)
  then show ?thesis
    by (auto simp: visits_as_def in_budget_def new_visitor_def visited_def node_violations_def list_all_iff
             split: if_splits)
qed

text \<open>
  C24: the guard allows a code exactly when the code has no lone surrogate and no huge hexadecimal
  literal, parses and compiles, and its tree has at most 256 nodes none of which breaks a rule: the
  visit with its budget decides what an unbounded visit of every node would.
\<close>

theorem guard_allows_iff:
  "gr_allowed (evaluate_code sha256 parse code) \<longleftrightarrow>
     \<not> has_surrogate code \<and> \<not> huge_hex_literal code \<and>
     (case parse code of
        None \<Rightarrow> False
      | Some tree \<Rightarrow> length (visit_order tree) \<le> max_nodes \<and>
                     list_all (\<lambda>n. node_rules n = []) (visit_order tree))"
  by (simp add: evaluate_code_def denied_def visit_clean Let_def split: option.splits)

end
