(* ===== verification/Loop_Props.thy ===== *)
theory Loop_Props
  imports Loop_Attempts Guard_Props
begin

section \<open>What the repair loop guarantees\<close>

text \<open>
  The properties of the closed loop, over the frames of \<open>Loop_Facts\<close> and \<open>Loop_Attempts\<close>,
  and a small store on which they apply.
\<close>

subsection \<open>A store to apply them to\<close>

definition demo_env :: loop_env where
  "demo_env =
     \<lparr>le_now = ''t'', le_uuid = (\<lambda>_. ''u''), le_correlation_id = ''c'', le_sha256 = id,
      le_parse = (\<lambda>c. Some (Other_node ''Module'' (0, 0) [Name_node (1, 0) c])),
      le_json_loads = (\<lambda>_. None), le_document_text = (\<lambda>_. ''D''), le_redact = id, le_redact_json = id,
      le_content_mode = ''redacted''\<rparr>"

definition demo_root :: path where
  "demo_root = [''s'', ''a'']"

definition demo_digest :: string where
  "demo_digest = ''generated_code.py'' @ nul @ ''x'' @ nul"

definition demo_report :: validation_report where
  "demo_report =
     \<lparr>vr_artifact_id = ''a'', vr_correlation_id = ''c'', vr_checks = [], vr_passed = True,
      vr_created_at = [], vr_artifact_digest = demo_digest, vr_artifact_root = Some demo_root\<rparr>"

definition demo_verification :: promotion_verification where
  "demo_verification =
     \<lparr>pv_candidate = ''a'', pv_deployment_id = ''d'', pv_correlation_id = ''c'',
      pv_candidate_type = Feature_Definition, pv_validation_report_id = ''a'',
      pv_artifact_digest = demo_digest, pv_artifact_root = Some demo_root, pv_passed = True,
      pv_created_at = []\<rparr>"

definition demo_deployment :: deployment_state where
  "demo_deployment =
     \<lparr>ds_deployment_id = ''e'', ds_candidate = ''a'', ds_candidate_type = Feature_Definition,
      ds_correlation_id = ''c'', ds_validation_report_id = ''a'', ds_artifact_root = None,
      ds_previous_candidate = None, ds_status = Status_Promoted, ds_created_at = [],
      ds_updated_at = [], ds_rollback_reason = None\<rparr>"

definition demo_bundle :: repair_bundle where
  "demo_bundle =
     \<lparr>rb_repair_id = ''r'', rb_correlation_id = ''c'', rb_failed_job_id = ''j'',
      rb_failed_session_id = None, rb_user_request = [], rb_plan_summary = [], rb_generated_code = [],
      rb_static_guard_result = JObj [], rb_stdout = [], rb_stderr = [], rb_error_trace = [],
      rb_input_dataset_references = [], rb_artifact_manifest = JObj [], rb_output_state = JObj [],
      rb_validation_result = JObj [], rb_environment_summary = JObj [],
      rb_redaction_status = ''redacted'', rb_run_id = None, rb_artifact_id = None,
      rb_experiment_id = None, rb_feature_id = None, rb_hypothesis_id = None, rb_pattern_id = None\<rparr>"

definition demo_proposal :: repair_proposal where
  "demo_proposal =
     \<lparr>rp_proposal_id = ''p'', rp_repair_id = ''r'', rp_correlation_id = ''c'',
      rp_scope = Sandbox_Research_Code, rp_suspected_failure_cause = ''x'', rp_proposed_patch = ''x'',
      rp_replacement_generated_code = [], rp_expected_validation_checks = [], rp_accepted = True,
      rp_rejection_reason = None\<rparr>"

definition demo_store :: loop_store where
  "demo_store =
     \<lparr>st_root = [''s''],
      st_files =
        [([''s'', ''a'', ''generated_code.py''], Text_Doc ''x''),
         ([''s'', ''validations'', ''a.json''], Report_Doc demo_report),
         ([''s'', ''deployments'', ''d-verification.json''], Verification_Doc demo_verification),
         ([''s'', ''deployments'', ''e.json''], Deployment_Doc demo_deployment),
         ([''s'', ''bundles'', ''r'', ''repair-bundle.json''], Bundle_Doc demo_bundle),
         ([''s'', ''bundles'', ''r'', ''repair-proposal.json''], Proposal_Doc demo_proposal),
         ([''s'', ''bundles'', ''r'', ''lifecycle.jsonl''],
          Log_Doc [Lifecycle_Line (bundle_record demo_env demo_bundle AI_FIX)])]\<rparr>"

definition demo_runner :: sandbox_runner where
  "demo_runner = \<lparr>rn_is_sandbox = True, rn_run = (\<lambda>_ _ _. Run_Result (failed_result []))\<rparr>"

subsection \<open>The recorded state of a repair\<close>

lemma state_not_lifecycle:
  "state_path s rid = Inr p \<Longrightarrow> lifecycle_path s rid = Inr q \<Longrightarrow> p \<noteq> q \<and> ''..'' \<notin> set p \<and> ''..'' \<notin> set q"
  using state_path_Inr [of s rid p] lifecycle_path_Inr [of s rid q]
    long_no_dots [of "''-state.json''" "drop 9 rid"] long_no_dots [of "''-lifecycle.jsonl''" "drop 9 rid"]
    safe_id_no_dots [of rid]
  by (auto split: if_splits)

lemma lifecycle_path_root:
  "st_root t = st_root s \<Longrightarrow> lifecycle_path t rid = lifecycle_path s rid \<and> scoped_path t = scoped_path s"
  by (auto simp: lifecycle_path_def bundle_dir_def scoped_path_def fun_eq_iff)

lemma state_path_root: "st_root t = st_root s \<Longrightarrow> state_path t rid = state_path s rid"
  by (auto simp: state_path_def bundle_dir_def)

lemma recorded_is_current:
  assumes "record_built r s = (Inr (), t)"
  shows "current_lifecycle (lr_repair_id r) t = Inr r \<and> lifecycle_valid r"
proof -
  let ?id = "lr_repair_id r"
  obtain p q p' q' where v: "lifecycle_valid r"
    and p: "lifecycle_path s ?id = Inr p" "scoped_path s p ''lifecycle'' = Inr p'"
    and t: "state_path (append_line p' (Lifecycle_Line r) s) ?id = Inr q"
      "scoped_path (append_line p' (Lifecycle_Line r) s) q ''state'' = Inr q'"
      "t = put_file q' (Json_Doc (state_json (lr_state r) ''state'' (lr_created_at r)))
             (append_line p' (Lifecycle_Line r) s)"
    using assms
    by (auto simp: record_built_def record_lifecycle_def write_line_def write_doc_def op_simps build_def
        op_seq_def op_bind_Inr_iff res_bind_Inr_iff split: sum.splits if_splits)
  have q: "state_path s ?id = Inr q"
    using t(1) state_path_root [of "append_line p' (Lifecycle_Line r) s" s] by simp
  have "p' = p" "q' = q" "q \<noteq> p"
    using state_not_lifecycle [OF q p(1)] scoped_path_no_dots [OF p(2)] scoped_path_no_dots [OF t(2)]
    by auto
  moreover have "st_root t = st_root s" using t(3) by simp
  ultimately have "lifecycle_path t ?id = Inr p" "scoped_path t p ''lifecycle'' = Inr p"
    and "log_at t p = log_at s p @ [Lifecycle_Line r]"
    using p t(3) lifecycle_path_root [of t s ?id] by simp_all
  with v show ?thesis
    by (cases "log_at s p") (auto simp: current_lifecycle_def)
qed

subsection \<open>Validation\<close>

text \<open>
  C23: a validation report that passed was made from a directory whose generated code is present, is
  allowed by the static guard and shows no prohibited behaviour, and it carries the digest and the
  place of that directory.
\<close>

theorem passed_report_is_guarded:
  assumes "build_report e aid root corr s = Inr r" and "vr_passed r"
  shows "\<exists>d. root = Some d \<and> vr_artifact_root r = Some d \<and> vr_artifact_id r = aid \<and>
     vr_artifact_digest r = artifact_digest e d s \<and>
     (let code = read_text e (Some (d @ [''generated_code.py''])) s in
      code \<noteq> [] \<and> gr_allowed (evaluate_code (le_sha256 e) (le_parse e) code) \<and>
      prohibited_behaviors code = [])"
proof -
  have r: "vr_artifact_root r = root" "vr_artifact_id r = aid"
      "vr_artifact_digest r = (case root of None \<Rightarrow> [] | Some d \<Rightarrow> artifact_digest e d s)"
    and checks: "list_all vc_passed (validation_checks e aid root s)"
    using assms by (auto simp: build_report_def Let_def res_bind_Inr_iff)
  obtain d where d: "root = Some d"
    using checks
    by (cases root) (simp_all add: validation_checks_def static_guard_check_def check_of_def Let_def)
  with r checks show ?thesis
    by (auto simp: validation_checks_def static_guard_check_def check_of_def Let_def split: if_splits)
qed

definition evidence_env :: loop_env where
  "evidence_env =
     demo_env\<lparr>le_json_loads := (\<lambda>t.
       if t = ''M'' then Some (JObj [(''artifact_id'', JStr ''b''), (''artifact_type'', JStr ''feature'')])
       else if t = ''S'' then Some (JObj [(''status'', JStr ''passed'')])
       else None)\<rparr>"

definition evidence_root :: path where
  "evidence_root = [''s'', ''research'', ''b'']"

definition evidence_store :: loop_store where
  "evidence_store =
     \<lparr>st_root = [''s''],
      st_files = map (\<lambda>(n, t). (evidence_root @ [n], Text_Doc t))
        [(''manifest.json'', ''M''), (''result.json'', ''S''), (''lineage.json'', ''S''),
         (''execution.json'', ''S''), (''quality_status.json'', ''S''), (''summary.md'', ''caveat''),
         (''generated_code.py'', ''x'')]\<rparr>"

lemma evidence_passes:
  "case build_report evidence_env ''b'' (Some evidence_root) (Some ''c'') evidence_store of
     Inl _ \<Rightarrow> False | Inr r \<Rightarrow> vr_passed r"
  by code_simp

theorem passed_report_is_guarded_witness:
  "\<exists>r. build_report evidence_env ''b'' (Some evidence_root) (Some ''c'') evidence_store = Inr r \<and>
     vr_artifact_digest r = artifact_digest evidence_env evidence_root evidence_store"
proof -
  obtain r where r: "build_report evidence_env ''b'' (Some evidence_root) (Some ''c'') evidence_store = Inr r"
    and "vr_passed r"
    using evidence_passes by (auto split: sum.splits)
  from passed_report_is_guarded [OF this] show ?thesis using r by auto
qed

subsection \<open>Promotion\<close>

text \<open>A file that the rest of a promotion leaves alone: no marker, no log.\<close>

definition same_file :: "path \<Rightarrow> loop_store \<Rightarrow> loop_store \<Rightarrow> bool" where
  "same_file p s t \<longleftrightarrow>
     st_root t = st_root s \<and> file_at t (base_path s @ p) = file_at s (base_path s @ p)"

interpretation same: effect_frame "same_file p" for p
  by unfold_locales (auto simp: same_file_def base_path_def)

lemma same_write_doc:
  assumes "\<And>s q. f s = Inr q \<Longrightarrow> q \<noteq> base_path s @ p"
  shows "same.keeps p (write_doc f d)"
  unfolding same.keeps_def
proof
  fix s
  show "same_file p s (snd (write_doc f d s))"
    using assms [of s] by (cases "f s") (auto simp: write_doc_def op_simps same_file_def)
qed

lemma same_write_line:
  assumes "\<And>s q. f s = Inr q \<Longrightarrow> q \<noteq> base_path s @ p"
  shows "same.keeps p (write_line f l)"
  unfolding same.keeps_def
proof
  fix s
  show "same_file p s (snd (write_line f l s))"
    using assms [of s] by (cases "f s") (auto simp: write_line_def append_line_def op_simps same_file_def)
qed

lemma deployment_not_marker:
  "did \<noteq> ''promotion'' \<Longrightarrow> same.keeps [''deployments'', did @ ''.json''] (write_promotion_marker d st reason)"
  unfolding write_promotion_marker_def
  by (intro same.keeps_rules same_write_doc) (auto dest!: scoped_path_snoc)

lemma deployment_not_log: "same.keeps [''deployments'', did @ ''.json''] (emit e ty corr rid aid run st dt mt)"
  unfolding emit_def by (intro same_write_line) (auto dest!: event_path_Inr)

lemma deployment_not_lifecycle: "same.keeps [''deployments'', did @ ''.json''] (record_built r)"
  unfolding record_built_def record_lifecycle_def
  using long_no_dots [of "''-state.json''" "drop 9 (lr_repair_id r)"]
    long_no_dots [of "''-lifecycle.jsonl''" "drop 9 (lr_repair_id r)"]
  by (intro same.keeps_rules same_write_doc same_write_line)
    (auto simp: res_bind_Inr_iff dest!: lifecycle_path_Inr state_path_Inr scoped_path_no_dots
      dest: dots_not_safe split: if_splits)

lemma saved_deployment:
  assumes "save_deployment d s = (Inr (), t)" and "deployment_valid d"
  shows "file_at t (base_path t @ [''deployments'', ds_deployment_id d @ ''.json'']) = Some (Deployment_Doc d)"
  using assms by (auto simp: save_deployment_def write_doc_def op_bind_Inr_iff op_simps deployment_path_Inr_iff
      split: sum.splits)

lemma load_deployment_file:
  "load_deployment did s = Inr d \<longleftrightarrow>
     safe_id did \<and> deployment_valid d \<and>
     file_at s (base_path s @ [''deployments'', did @ ''.json'']) = Some (Deployment_Doc d)"
  by (auto simp: load_deployment_def res_bind_Inr_iff load_model_Inr_iff deployment_path_Inr_iff)

lemma same_file_seq:
  assumes "op_seq m n s = (Inr x, t)" and "same.keeps p m"
  shows "\<exists>u. same_file p s u \<and> n u = (Inr x, t)"
  using assms same.keepsD [OF assms(2)] by (fastforce simp: op_seq_def op_bind_Inr_iff)

lemma promoted_is_recorded:
  assumes "op_seq (save_deployment d)
      (op_seq (write_promotion_marker d st reason) (op_seq (emit e ty corr rid aid run st' dt mt)
        (op_seq (record_built r) (op_return d)))) s = (Inr d', t)"
    and "deployment_valid d" and "ds_deployment_id d \<noteq> ''promotion''"
  shows "load_deployment (ds_deployment_id d) t = Inr d"
proof -
  let ?p = "[''deployments'', ds_deployment_id d @ ''.json'']"
  obtain a where a: "save_deployment d s = (Inr (), a)"
    and b: "op_seq (write_promotion_marker d st reason) (op_seq (emit e ty corr rid aid run st' dt mt)
        (op_seq (record_built r) (op_return d))) a = (Inr d', t)"
    using assms(1) by (auto simp: op_seq_def op_bind_Inr_iff)
  obtain u where u: "same_file ?p a u"
    and c: "op_seq (emit e ty corr rid aid run st' dt mt) (op_seq (record_built r) (op_return d)) u = (Inr d', t)"
    using same_file_seq [OF b deployment_not_marker [OF assms(3)]] by blast
  obtain v where v: "same_file ?p u v" and c': "op_seq (record_built r) (op_return d) v = (Inr d', t)"
    using same_file_seq [OF c deployment_not_log] by blast
  have "same_file ?p v t"
    using same_file_seq [OF c' deployment_not_lifecycle] by (auto simp: op_simps)
  then have "same_file ?p a t" using u v same.rel_trans by blast
  then have "file_at t (base_path t @ ?p) = Some (Deployment_Doc d)"
    using saved_deployment [OF a assms(2)] by (simp add: same_file_def base_path_def)
  moreover have "safe_id (ds_deployment_id d)" using assms(2) by (simp add: deployment_valid_def)
  ultimately show ?thesis using assms(2) by (simp add: load_deployment_file)
qed

lemma gate_evidence:
  assumes "promotion_gate e candidate did previous s = Inr d"
  shows "\<exists>v r root.
     load_verification did s = Inr v \<and> pv_candidate v = candidate \<and> pv_passed v \<and>
     load_validation_report candidate s = Inr r \<and> vr_passed r \<and> vr_correlation_id r = pv_correlation_id v \<and>
     is_under (base_path s) root \<and> is_dir s root \<and>
     artifact_digest e root s = vr_artifact_digest r \<and> candidate_is_safe e root candidate s"
    and "deployment_valid d \<and> ds_deployment_id d = did \<and> ds_candidate d = candidate \<and>
         ds_status d = Status_Promoted"
proof -
  obtain v root r where g: "load_verification did s = Inr v" "pv_candidate v = candidate" "pv_passed v"
      "verified_artifact_root v s = Inr (Some root)" "load_validation_report candidate s = Inr r"
      "vr_passed r" "vr_artifact_digest r = pv_artifact_digest v" "vr_correlation_id r = pv_correlation_id v"
      "artifact_digest e root s = pv_artifact_digest v" "candidate_is_safe e root candidate s"
    and d: "deployment_valid d" "ds_deployment_id d = did" "ds_candidate d = candidate"
      "ds_status d = Status_Promoted"
    using assms
    by (auto simp: promotion_gate_def res_bind_Inr_iff raise_if_def split: if_splits option.splits)
  have "is_under (base_path s) root \<and> is_dir s root"
    using g(4) by (auto simp: verified_artifact_root_def scoped_directory_def ensure_tree_confined_def
        base_path_def res_bind_Inr_iff dest: resolve_under_Inr
        split: option.splits sum.splits loop_error.splits if_splits)
  with g show "\<exists>v r root.
     load_verification did s = Inr v \<and> pv_candidate v = candidate \<and> pv_passed v \<and>
     load_validation_report candidate s = Inr r \<and> vr_passed r \<and> vr_correlation_id r = pv_correlation_id v \<and>
     is_under (base_path s) root \<and> is_dir s root \<and>
     artifact_digest e root s = vr_artifact_digest r \<and> candidate_is_safe e root candidate s"
    by (intro exI [of _ v] exI [of _ r] exI [of _ root]) simp
  show "deployment_valid d \<and> ds_deployment_id d = did \<and> ds_candidate d = candidate \<and>
      ds_status d = Status_Promoted"
    using d by simp
qed

text \<open>
  C21: a promotion succeeds only on current evidence: the verification of this deployment and the
  validation report of the candidate both passed and belong together, the digest of the artifact
  directory, which lies inside the store, is still the one that was validated, and its code stays
  inside the read-only boundary; then the deployment is recorded as promoted.
\<close>

theorem promoted_on_current_evidence:
  assumes "promote_research_artifact e candidate did previous s = (Inr d, t)"
  shows "(\<exists>v r root.
     load_verification did s = Inr v \<and> pv_candidate v = candidate \<and> pv_passed v \<and>
     load_validation_report candidate s = Inr r \<and> vr_passed r \<and> vr_correlation_id r = pv_correlation_id v \<and>
     is_under (base_path s) root \<and> is_dir s root \<and>
     artifact_digest e root s = vr_artifact_digest r \<and> candidate_is_safe e root candidate s) \<and>
     ds_candidate d = candidate \<and> ds_status d = Status_Promoted \<and>
     (did = ''promotion'' \<or> load_deployment did t = Inr d)"
proof -
  have gate: "promotion_gate e candidate did previous s = Inr d"
    and rest: "op_seq (save_deployment d)
      (op_seq (write_promotion_marker d ''PROMOTED'' [])
       (op_seq (emit e ''RESEARCH_ARTIFACT_PROMOTED'' (ds_correlation_id d) [] candidate [] ''PROMOTED''
                 ''research artifact promoted''
                 (JObj [(''deployment_id'', JStr did),
                        (''artifact_type'', JStr (artifact_type_value (ds_candidate_type d)))]))
        (op_seq (record_built (artifact_record candidate PROMOTED (ds_correlation_id d) (ds_updated_at d)
                   ''research artifact promotion recorded''))
          (op_return d)))) s = (Inr d, t)"
    using assms
    by (auto simp: promote_research_artifact_def op_bind_lift op_bind_try op_seq_def op_bind_Inr_iff op_simps
        split: sum.splits)
  have d: "deployment_valid d" "ds_deployment_id d = did" "ds_candidate d = candidate"
      "ds_status d = Status_Promoted"
    using gate_evidence(2) [OF gate] by simp_all
  have "load_deployment did t = Inr d" if "did \<noteq> ''promotion''"
    using promoted_is_recorded [OF rest] d that by simp
  with gate_evidence(1) [OF gate] d show ?thesis by blast
qed

lemma demo_promotes:
  "\<not> isl (fst (promote_research_artifact demo_env ''a'' ''d'' None demo_store))"
  by code_simp

theorem promoted_on_current_evidence_witness:
  "\<exists>d t. promote_research_artifact demo_env ''a'' ''d'' None demo_store = (Inr d, t) \<and>
     ds_status d = Status_Promoted \<and> load_deployment ''d'' t = Inr d"
proof -
  obtain d t where r: "promote_research_artifact demo_env ''a'' ''d'' None demo_store = (Inr d, t)"
    using demo_promotes by (metis surjective_pairing sum.collapse(2))
  show ?thesis
    using promoted_on_current_evidence [OF r] r by auto
qed

subsection \<open>Attempts\<close>

lemma run_attempt_outcome:
  assumes "run_attempt e m b p rid n runner s = (Inr a, t)"
  shows "current_lifecycle (rb_repair_id b) t = Inr (bundle_record e b (state_after_attempt m n (ra_passed a)))
         \<and> ra_repair_id a = rid \<and> ra_attempt a = n"
proof -
  obtain r u where a: "attempt_record e rid n r = Inr a"
    and rec: "record_built (bundle_record e b (state_after_attempt m n (sr_passed r))) u = (Inr (), t)"
    using assms
    unfolding run_attempt_def conclude_attempt_def record_bundle_state_def op_success by auto
  have "ra_passed a = sr_passed r" using a by (auto simp: attempt_record_def)
  then show ?thesis
    using recorded_is_current [OF rec] attempt_record_fields [OF a] by (simp add: bundle_record_def)
qed

text \<open>
  C22: an attempt is made only for an accepted proposal, within the maximum, as the next number after
  the recorded ones, while the repair is in no terminal state and with a sandbox runner; the repair
  then stands at VALIDATE after a success, at FAILED after the last failure and at AI_FIX after
  another one.
\<close>

theorem attempt_is_guarded:
  assumes "apply_repair e m rid n runner s = (Inr a, t)"
  shows "\<exists>b p l as.
     load_bundle rid s = Inr b \<and> load_proposal rid s = Inr p \<and> rp_accepted p \<and> 1 \<le> n \<and> n \<le> m \<and>
     current_lifecycle rid s = Inr l \<and> lr_state l \<notin> set terminal_states \<and>
     list_attempts rid s = Inr as \<and> n = int (length as) + 1 \<and> rn_is_sandbox runner \<and>
     ra_attempt a = n \<and> ra_repair_id a = rid \<and>
     current_lifecycle (rb_repair_id b) t =
       Inr (bundle_record e b (state_after_attempt m n (ra_passed a)))"
proof -
  obtain b p l as where g: "load_bundle rid s = Inr b" "load_proposal rid s = Inr p" "rp_accepted p" "1 \<le> n"
      "n \<le> m" "current_lifecycle rid s = Inr l" "lr_state l \<notin> set terminal_states"
      "list_attempts rid s = Inr as" "n = int (length as) + 1" "rn_is_sandbox runner"
    and run: "run_attempt e m b p rid n runner s = (Inr a, t)"
    using assms unfolding apply_repair_def op_success by (auto simp: op_success split: if_splits)
  show ?thesis
    using g run_attempt_outcome [OF run] by blast
qed

lemma demo_attempts: "\<not> isl (fst (apply_repair demo_env 3 ''r'' 1 demo_runner demo_store))"
  by code_simp

theorem attempt_is_guarded_witness:
  "\<exists>a t. apply_repair demo_env 3 ''r'' 1 demo_runner demo_store = (Inr a, t) \<and> ra_attempt a = 1"
proof -
  obtain a t where r: "apply_repair demo_env 3 ''r'' 1 demo_runner demo_store = (Inr a, t)"
    using demo_attempts by (metis surjective_pairing sum.collapse(2))
  show ?thesis using attempt_is_guarded [OF r] r by auto
qed

text \<open>
  In every store the service can reach, the attempts recorded for a repair are numbered from 1
  without a gap, at most the configured maximum of them, and each file holds the attempt of its
  repair and its number.
\<close>

lemma attempts_are_numbered:
  assumes "reach (no_attempts m) (loop_step m) s"
  shows "\<exists>k. int k \<le> m \<and> numbered k rid s"
  using repair_attempts.reach_inv [OF assms] by (simp add: attempts_inv_def)

lemma attempts_are_numbered_witness:
  "\<exists>k. int k \<le> 3 \<and> numbered k ''r'' (snd (apply_repair demo_env 3 ''r'' 1 demo_runner demo_store))"
proof (rule attempts_are_numbered)
  have "no_attempts 3 demo_store" by code_simp
  then show "reach (no_attempts 3) (loop_step 3) (snd (apply_repair demo_env 3 ''r'' 1 demo_runner demo_store))"
    by (rule reach_step [OF reach_init]) (rule step_apply [OF surjective_pairing])
qed

text \<open>
  Asking for an attempt past the maximum writes FAILED over whatever state the repair is in,
  VALIDATE and REJECTED included, before it raises.
\<close>

lemma late_attempt_overwrites_state:
  assumes "load_bundle rid s = Inr b" and "load_proposal rid s = Inr p" and "rp_accepted p"
    and "1 \<le> n" and "m < n" and "apply_repair e m rid n runner s = (r, t)"
    and "record_bundle_state e b FAILED s = (Inr (), u)"
  shows "r = Inl (Boundary_Error ''maximum repair attempts exhausted'') \<and>
         current_lifecycle (rb_repair_id b) t = Inr (bundle_record e b FAILED)"
proof -
  have "record_built (bundle_record e b FAILED) s = (Inr (), u)"
    using assms(7) by (simp add: record_bundle_state_def)
  then have "current_lifecycle (rb_repair_id b) u = Inr (bundle_record e b FAILED)"
    using recorded_is_current by (fastforce simp: bundle_record_def)
  moreover have "r = Inl (Boundary_Error ''maximum repair attempts exhausted'') \<and> t = u"
    using assms by (simp add: apply_repair_def op_simps op_seq_def op_bind_def)
  ultimately show ?thesis by simp
qed

lemma late_attempt_overwrites_state_witness:
  "\<exists>r t. apply_repair demo_env 3 ''r'' 4 demo_runner demo_store = (r, t) \<and>
     (case current_lifecycle ''r'' t of Inr l \<Rightarrow> lr_state l = FAILED | Inl _ \<Rightarrow> False)"
proof -
  obtain r t where r: "apply_repair demo_env 3 ''r'' 4 demo_runner demo_store = (r, t)"
    by (cases "apply_repair demo_env 3 ''r'' 4 demo_runner demo_store")
  have "load_bundle ''r'' demo_store = Inr demo_bundle" "load_proposal ''r'' demo_store = Inr demo_proposal"
    and rec: "\<not> isl (fst (record_bundle_state demo_env demo_bundle FAILED demo_store))"
    by code_simp+
  moreover obtain u where "record_bundle_state demo_env demo_bundle FAILED demo_store = (Inr (), u)"
    using rec by (metis surjective_pairing sum.collapse(2) unit.exhaust)
  moreover have "rp_accepted demo_proposal" "rb_repair_id demo_bundle = ''r''"
    by (simp_all add: demo_proposal_def demo_bundle_def)
  ultimately show ?thesis
    using late_attempt_overwrites_state [OF _ _ _ _ _ r, of demo_bundle demo_proposal] r
    by (auto simp: bundle_record_def)
qed

subsection \<open>Rollback\<close>

text \<open>A deployment file that does not load, and stays so while nothing writes a deployment.\<close>

definition unreadable :: "path \<Rightarrow> loop_store \<Rightarrow> bool" where
  "unreadable p s \<longleftrightarrow>
     (case file_at s (base_path s @ p) of
        None \<Rightarrow> False
      | Some d \<Rightarrow> (case as_deployment d of None \<Rightarrow> True | Some x \<Rightarrow> \<not> deployment_valid x))"

interpretation unread: invariant_frame "unreadable p" for p .

lemma unread_write_doc: "as_deployment d = None \<Longrightarrow> unread.keeps p (write_doc f d)"
  unfolding write_doc_def
  by (intro unread.keeps_rules unread.keeps_write) (simp add: unreadable_def)

lemma unread_write_line: "unread.keeps p (write_line f l)"
  unfolding write_line_def append_line_def
  by (intro unread.keeps_rules unread.keeps_write) (simp add: unreadable_def)

lemma unread_rest:
  "unread.keeps p (op_seq (write_promotion_marker d st reason) (op_seq (emit e ty corr rid aid run st' dt mt)
     (op_seq (record_built r) (op_return d))))"
  unfolding write_promotion_marker_def emit_def record_built_def record_lifecycle_def
  by (intro unread.keeps_rules unread_write_doc unread_write_line; simp)

lemma unreadable_load:
  "unreadable [''deployments'', did @ ''.json''] s \<Longrightarrow> safe_id did \<Longrightarrow>
     \<exists>msg. load_deployment did s = Inl (Persistence_Error msg)"
  unfolding load_deployment_def unreadable_def
  using deployment_path_Inr_iff [of s did "base_path s @ [''deployments'', did @ ''.json'']"]
  by (auto simp: load_model_def split: option.splits)

lemma long_reason_invalid: "\<not> at_most 2000 reason \<Longrightarrow> \<not> deployment_valid (rolled_back e reason d)"
  by (simp add: deployment_valid_def rolled_back_def opt_at_most_def)

text \<open>
  Rolling back with a reason longer than 2000 characters raises, and leaves a deployment record
  that can no longer be loaded.
\<close>

lemma long_reason_loses_deployment:
  assumes "load_deployment did s = Inr d" and "ds_deployment_id d = did" and "\<not> at_most 2000 reason"
    and "rollback_research_artifact e did reason s = (r, t)"
  shows "isl r \<and> (\<exists>msg. load_deployment did t = Inl (Persistence_Error msg))"
proof -
  let ?d = "rolled_back e reason d" and ?p = "[''deployments'', did @ ''.json'']"
  let ?rest = "op_seq (write_promotion_marker ?d ''ROLLED_BACK'' reason)
      (op_seq (emit e ''RESEARCH_ARTIFACT_ROLLED_BACK'' (ds_correlation_id ?d) [] (ds_candidate ?d) []
                ''ROLLED_BACK'' ''research artifact promotion rolled back''
                (JObj [(''deployment_id'', JStr did), (''reason'', JStr reason)]))
        (op_seq (record_built (artifact_record (ds_candidate ?d) ROLLED_BACK (ds_correlation_id ?d)
                  (ds_updated_at ?d) reason))
          (op_return ?d)))"
  let ?u = "put_file (base_path s @ ?p) (Deployment_Doc ?d) s"
  have id: "ds_deployment_id ?d = did" "safe_id did"
    using assms(1,2) by (simp_all add: rolled_back_def load_deployment_file)
  have path: "deployment_path s did = Inr (base_path s @ ?p)"
    using id by (simp add: deployment_path_Inr_iff)
  have rest: "?rest ?u = (r, t)"
    using assms(1,4) id(1) path
    by (simp add: rollback_research_artifact_def op_bind_try not_found_as_gate_def Let_def
        save_deployment_def write_doc_def op_seq_def op_bind_def op_try_apply op_write_apply)
  have "unreadable ?p ?u"
    using long_reason_invalid [OF assms(3)] by (simp add: unreadable_def)
  then have "unreadable ?p t"
    using unread.keepsD [OF unread_rest rest] by blast
  moreover have "isl r"
  proof (cases r)
    case (Inr x)
    then have "\<exists>a b. record_built (artifact_record (ds_candidate ?d) ROLLED_BACK (ds_correlation_id ?d)
                 (ds_updated_at ?d) reason) a = (Inr (), b)"
      using rest by (auto simp: op_success)
    then show ?thesis
      using recorded_is_current assms(3)
      by (fastforce simp: artifact_record_def lifecycle_valid_def)
  qed simp
  ultimately show ?thesis using unreadable_load id(2) by blast
qed

lemma long_reason: "\<not> at_most 2000 (replicate 2001 CHR ''x'')"
proof -
  have "\<not> continuation_byte CHR ''x''" by code_simp
  then show ?thesis by (simp add: at_most_def py_len_def)
qed

lemma long_reason_loses_deployment_witness:
  "\<exists>msg. load_deployment ''e''
      (snd (rollback_research_artifact demo_env ''e'' (replicate 2001 CHR ''x'') demo_store)) =
      Inl (Persistence_Error msg)"
proof -
  have "load_deployment ''e'' demo_store = Inr demo_deployment" by code_simp
  moreover have "ds_deployment_id demo_deployment = ''e''" by (simp add: demo_deployment_def)
  ultimately show ?thesis
    using long_reason_loses_deployment [OF _ _ long_reason surjective_pairing] by blast
qed

subsection \<open>Logs and records\<close>

lemma loop_step_grows: "loop_step m s t \<Longrightarrow> logs_grow s t"
  by (induction rule: loop_step.induct) (blast intro: grow.keepsD [OF grow_operations(1)]
      grow.keepsD [OF grow_operations(2)] grow.keepsD [OF grow_operations(3)]
      grow.keepsD [OF grow_operations(4)] grow.keepsD [OF grow_operations(5)]
      grow.keepsD [OF grow_operations(6)] grow.keepsD [OF grow_operations(7)])+

text \<open>
  The lifecycle and event logs are append-only: over any number of calls of the service, failed
  ones included, what a log held stays its prefix.
\<close>

lemma logs_are_append_only:
  assumes "(loop_step m)\<^sup>*\<^sup>* s t" and "log_name (last p)"
  shows "prefix (log_at s p) (log_at t p)"
proof -
  have "logs_grow s t"
    using assms(1)
    by (induction rule: rtranclp_induct) (auto intro: grow.rel_refl grow.rel_trans loop_step_grows)
  then show ?thesis using assms(2) by (simp add: logs_grow_def)
qed

lemma logs_are_append_only_witness:
  "prefix [Lifecycle_Line (bundle_record demo_env demo_bundle AI_FIX)]
     (log_at (snd (apply_repair demo_env 3 ''r'' 1 demo_runner demo_store))
       [''s'', ''bundles'', ''r'', ''lifecycle.jsonl''])"
proof -
  let ?p = "[''s'', ''bundles'', ''r'', ''lifecycle.jsonl'']"
  have "log_at demo_store ?p = [Lifecycle_Line (bundle_record demo_env demo_bundle AI_FIX)]"
    by (simp add: log_at_def file_at_def demo_store_def)
  moreover have "log_name (last ?p)" by code_simp
  ultimately show ?thesis
    using logs_are_append_only [of 3 demo_store "snd (apply_repair demo_env 3 ''r'' 1 demo_runner demo_store)" ?p]
    by (simp add: r_into_rtranclp step_apply [OF surjective_pairing])
qed

text \<open>
  C25: preparing a failed run, proposing, applying a repair, validating, verifying and promoting an
  artifact, whether they return or raise, keep all stored records conforming to the constraints of
  their models; so does a rollback, when its reason has at most 2000 characters.
\<close>

theorem records_conform:
  assumes "conforms s"
  shows "list_all conforms
    [snd (prepare_failed_run e prep s),
     snd (propose e rid scope patch cause code s),
     snd (apply_repair e m rid n runner s),
     snd (validate_research_artifact e aid req corr s),
     snd (verify_research_artifact e c req ty dep s),
     snd (promote_research_artifact e c did prev s)] \<and>
    (at_most 2000 reason \<longrightarrow> conforms (snd (rollback_research_artifact e did reason s)))"
  using conf_operations assms by (simp add: conf.keeps_def)

theorem records_conform_witness:
  "conforms (snd (rollback_research_artifact demo_env ''e'' ''x''
     (snd (promote_research_artifact demo_env ''a'' ''d'' None demo_store))))"
proof -
  have "at_most 2000 ''x''" "conforms demo_store" by code_simp+
  then show ?thesis using records_conform by simp
qed

end
