(* ===== verification/Ranking_Gate.thy ===== *)
theory Ranking_Gate
  imports Effects Complex_Main
begin

section \<open>The promotion gate of ranking policies\<close>

text \<open>
  \<open>ranking_policy_gate/gate.py\<close>.

  The warehouse tables the gate reads and writes are lists of rows in insertion order; a date is its
  ISO text and a JSON column the list it holds.  Every column it reads is \<open>NOT NULL\<close> in the schema.
  Coverage is the exact quotient.  The digest of the evidence bundle is an argument, a function of
  the payload.
\<close>

subsection \<open>Tables\<close>

record manifest_row =
  mf_id :: string
  mf_date :: string
  mf_policy_id :: string
  mf_policy_version :: string
  mf_policy_hash :: string
  mf_eligible :: int
  mf_complete :: int
  mf_incomplete :: int
  mf_sufficiency :: string
  mf_assumptions_hash :: string
  mf_dataset_hash :: string
  mf_ranking_run_ref :: string
  mf_price_basis :: string
  mf_adjustment_version :: string

record replay_row =
  rl_id :: string
  rl_end_date :: string
  rl_policy_hash :: string
  rl_period_count :: int
  rl_ranking_run_refs :: "string list"
  rl_manifest_ids :: "string list"
  rl_dataset_hash :: string
  rl_price_basis :: string
  rl_adjustment_version :: string
  rl_membership_resolver_version :: string
  rl_caveats :: "string list"

datatype decision_status =
    INSUFFICIENT_EVIDENCE | RESEARCH_VALIDATED | ACCEPTED | REJECTED_DECISION | RETIRED

definition activating_statuses :: "decision_status list" where
  "activating_statuses = [ACCEPTED]"

record promotion_rule =
  pr_rule_version :: string
  pr_min_sample_count :: int
  pr_min_period_count :: int
  pr_min_coverage :: rat

definition default_promotion_rule :: promotion_rule where
  "default_promotion_rule =
     \<lparr>pr_rule_version = ''ranking-promotion-rule-v2'', pr_min_sample_count = 30,
      pr_min_period_count = 3, pr_min_coverage = 1 / 2\<rparr>"

record evidence_summary =
  es_policy_id :: string
  es_policy_version :: string
  es_policy_hash :: string
  es_cutoff :: string
  es_sample_count :: int
  es_period_count :: int
  es_coverage :: rat
  es_manifest_ids :: "string list"
  es_replay_ids :: "string list"
  es_ranking_run_refs :: "string list"
  es_assumptions_hashes :: "string list"
  es_dataset_hashes :: "string list"
  es_bundle_hash :: "string option"
  es_verification_status :: string

record decision_row =
  dr_id :: string
  dr_status :: decision_status
  dr_rule_version :: string
  dr_reviewer :: string
  dr_rationale :: string
  dr_limitations :: "string list"
  dr_activates :: bool
  dr_contract_version :: string
  dr_reviewed_at :: string
  dr_evidence :: evidence_summary

record gate_db =
  gd_manifests :: "manifest_row list"
  gd_replays :: "replay_row list"
  gd_decisions :: "decision_row list"

subsection \<open>Errors and reasons\<close>

datatype shortfall =
    Few_Samples int int
  | Few_Periods int int
  | Low_Coverage rat rat
  | No_Baseline
  | Bad_Status string

datatype gate_error =
    Unknown_Manifest string
  | Manifest_After_Cutoff string
  | Manifest_Other_Policy string
  | Manifest_Identity string
  | Unknown_Replay string
  | Replay_After_Cutoff string
  | Replay_Other_Policy string
  | Replay_Unreviewed string
  | Replay_Contaminated string
  | Mixed_Price_Bases "string list"
  | Mixed_Adjustment_Versions "string list"
  | Different_Assumptions
  | Run_Refs_Mismatch
  | Reviewer_Required
  | Insufficient_To_Activate "shortfall list"
  | Not_Insufficient
  | Duplicate_Decision

record promotion_assessment =
  pa_eligible :: bool
  pa_reasons :: "shortfall list"
  pa_rule_version :: string

definition assess_promotion :: "evidence_summary \<Rightarrow> promotion_rule \<Rightarrow> promotion_assessment" where
  "assess_promotion ev rule =
     (let reasons =
        (if es_sample_count ev < pr_min_sample_count rule
         then [Few_Samples (es_sample_count ev) (pr_min_sample_count rule)] else []) @
        (if es_period_count ev < pr_min_period_count rule
         then [Few_Periods (es_period_count ev) (pr_min_period_count rule)] else []) @
        (if es_coverage ev < pr_min_coverage rule
         then [Low_Coverage (es_coverage ev) (pr_min_coverage rule)] else []) @
        (if es_manifest_ids ev = [] then [No_Baseline] else []) @
        (if es_verification_status ev \<notin> {''VERIFIED'', ''UNVERIFIED''}
         then [Bad_Status (es_verification_status ev)] else []) in
      \<lparr>pa_eligible = (reasons = []), pa_reasons = reasons, pa_rule_version = pr_rule_version rule\<rparr>)"

subsection \<open>Verification of the evidence\<close>

definition check_manifest ::
  "gate_db \<Rightarrow> evidence_summary \<Rightarrow> string \<Rightarrow> gate_error + manifest_row" where
  "check_manifest db ev mid =
     (case find (\<lambda>m. mf_id m = mid) (gd_manifests db) of
        None \<Rightarrow> Inl (Unknown_Manifest mid)
      | Some m \<Rightarrow>
          if es_cutoff ev < mf_date m then Inl (Manifest_After_Cutoff mid)
          else if mf_policy_hash m \<noteq> es_policy_hash ev then Inl (Manifest_Other_Policy mid)
          else if mf_policy_id m \<noteq> es_policy_id ev \<or> mf_policy_version m \<noteq> es_policy_version ev
          then Inl (Manifest_Identity mid)
          else Inr m)"

definition check_replay :: "gate_db \<Rightarrow> evidence_summary \<Rightarrow> string \<Rightarrow> gate_error + replay_row" where
  "check_replay db ev rid =
     (case find (\<lambda>r. rl_id r = rid) (gd_replays db) of
        None \<Rightarrow> Inl (Unknown_Replay rid)
      | Some r \<Rightarrow>
          if es_cutoff ev < rl_end_date r then Inl (Replay_After_Cutoff rid)
          else if rl_policy_hash r \<noteq> es_policy_hash ev then Inl (Replay_Other_Policy rid)
          else if \<not> set (rl_manifest_ids r) \<subseteq> set (es_manifest_ids ev) then Inl (Replay_Unreviewed rid)
          else if ''future_data_contamination'' \<in> set (rl_caveats r) then Inl (Replay_Contaminated rid)
          else Inr r)"

text \<open>\<open>sorted({...})\<close>.\<close>

definition sorted_set :: "string list \<Rightarrow> string list" where
  "sorted_set xs = sort (remdups xs)"

definition run_refs :: "manifest_row list \<Rightarrow> replay_row list \<Rightarrow> string list" where
  "run_refs ms rs =
     sorted_set (filter (\<lambda>x. x \<noteq> []) (map mf_ranking_run_ref ms) @ concat (map rl_ranking_run_refs rs))"

definition dataset_hashes :: "manifest_row list \<Rightarrow> replay_row list \<Rightarrow> string list" where
  "dataset_hashes ms rs =
     sorted_set (filter (\<lambda>x. x \<noteq> []) (map mf_dataset_hash ms @ map rl_dataset_hash rs))"

definition coherence_error ::
  "evidence_summary \<Rightarrow> manifest_row list \<Rightarrow> replay_row list \<Rightarrow> gate_error option" where
  "coherence_error ev ms rs =
     (let bases = remdups (map mf_price_basis ms @ map rl_price_basis rs);
          versions = remdups (map mf_adjustment_version ms @ map rl_adjustment_version rs);
          refs = run_refs ms rs in
      if 1 < length bases then Some (Mixed_Price_Bases (sort bases))
      else if 1 < length versions then Some (Mixed_Adjustment_Versions (sort versions))
      else if 1 < length (sorted_set (map mf_assumptions_hash ms)) then Some Different_Assumptions
      else if es_ranking_run_refs ev \<noteq> [] \<and> set (es_ranking_run_refs ev) \<noteq> set refs
      then Some Run_Refs_Mismatch
      else None)"

definition period_count :: "manifest_row list \<Rightarrow> replay_row list \<Rightarrow> int" where
  "period_count ms rs =
     fold (\<lambda>r n. max n (rl_period_count r)) rs (int (length (remdups (map mf_date ms))))"

definition sample_count :: "manifest_row list \<Rightarrow> int" where
  "sample_count ms = sum_list (map mf_complete ms)"

definition coverage :: "manifest_row list \<Rightarrow> rat" where
  "coverage ms =
     (let eligible = sum_list (map mf_eligible ms) in
      if eligible \<noteq> 0 then of_int (sample_count ms) / of_int eligible else 0)"

definition verification_status :: "manifest_row list \<Rightarrow> string" where
  "verification_status ms =
     (if ms \<noteq> [] \<and> list_all (\<lambda>m. mf_sufficiency m = ''SUFFICIENT'') ms then ''VERIFIED'' else ''PARTIAL'')"

record bundle_payload =
  bp_policy_hash :: string
  bp_cutoff :: string
  bp_manifests :: "manifest_row list"
  bp_replays :: "replay_row list"
  bp_ranking_run_refs :: "string list"
  bp_assumptions_hashes :: "string list"
  bp_dataset_hashes :: "string list"

definition verified_summary ::
  "(bundle_payload \<Rightarrow> string) \<Rightarrow> evidence_summary \<Rightarrow> manifest_row list \<Rightarrow> replay_row list \<Rightarrow>
   evidence_summary" where
  "verified_summary digest ev ms rs =
     (let refs = run_refs ms rs;
          assumptions = sorted_set (map mf_assumptions_hash ms);
          datasets = dataset_hashes ms rs in
      ev\<lparr>es_sample_count := sample_count ms, es_period_count := period_count ms rs,
         es_coverage := coverage ms, es_ranking_run_refs := refs,
         es_assumptions_hashes := assumptions, es_dataset_hashes := datasets,
         es_bundle_hash := Some (digest
           \<lparr>bp_policy_hash = es_policy_hash ev, bp_cutoff = es_cutoff ev, bp_manifests = ms,
            bp_replays = rs, bp_ranking_run_refs = refs, bp_assumptions_hashes = assumptions,
            bp_dataset_hashes = datasets\<rparr>),
         es_verification_status := verification_status ms\<rparr>)"

definition verify_evidence ::
  "(bundle_payload \<Rightarrow> string) \<Rightarrow> gate_db \<Rightarrow> evidence_summary \<Rightarrow> gate_error + evidence_summary" where
  "verify_evidence digest db ev =
     res_bind (res_map (check_manifest db ev) (es_manifest_ids ev)) (\<lambda>ms.
     res_bind (res_map (check_replay db ev) (es_replay_ids ev)) (\<lambda>rs.
       case coherence_error ev ms rs of
         Some err \<Rightarrow> Inl err
       | None \<Rightarrow> Inr (verified_summary digest ev ms rs)))"

subsection \<open>Decisions\<close>

record review =
  rv_status :: decision_status
  rv_reviewer :: string
  rv_rationale :: string
  rv_reviewed_at :: string
  rv_limitations :: "string list"

definition is_verified :: "evidence_summary \<Rightarrow> bool" where
  "is_verified ev \<longleftrightarrow> es_verification_status ev = ''VERIFIED''"

definition decision_error ::
  "review \<Rightarrow> evidence_summary \<Rightarrow> promotion_rule \<Rightarrow> gate_error option" where
  "decision_error rv verified rule =
     (let a = assess_promotion verified rule in
      if rv_status rv \<in> set activating_statuses \<and> (\<not> pa_eligible a \<or> \<not> is_verified verified)
      then Some (Insufficient_To_Activate
             (pa_reasons a @
              (if is_verified verified then [] else [Bad_Status (es_verification_status verified)])))
      else if rv_status rv = INSUFFICIENT_EVIDENCE \<and> pa_eligible a \<and> is_verified verified
      then Some Not_Insufficient
      else None)"

definition new_decision ::
  "string \<Rightarrow> review \<Rightarrow> evidence_summary \<Rightarrow> promotion_rule \<Rightarrow> decision_row" where
  "new_decision did rv verified rule =
     \<lparr>dr_id = did, dr_status = rv_status rv, dr_rule_version = pr_rule_version rule,
      dr_reviewer = rv_reviewer rv, dr_rationale = rv_rationale rv,
      dr_limitations = rv_limitations rv, dr_activates = rv_status rv \<in> set activating_statuses,
      dr_contract_version = ''ranking-policy-decision-v2'', dr_reviewed_at = rv_reviewed_at rv,
      dr_evidence = verified\<rparr>"

text \<open>The identifier is the primary key of the table: inserting a present one raises.\<close>

definition insert_decision :: "decision_row \<Rightarrow> (gate_db, gate_error, unit) op" where
  "insert_decision d =
     (\<lambda>db. if dr_id d \<in> dr_id ` set (gd_decisions db) then (Inl Duplicate_Decision, db)
           else (Inr (), db\<lparr>gd_decisions := gd_decisions db @ [d]\<rparr>))"

definition record_decision ::
  "(bundle_payload \<Rightarrow> string) \<Rightarrow> evidence_summary \<Rightarrow> review \<Rightarrow> promotion_rule \<Rightarrow> string \<Rightarrow>
   (gate_db, gate_error, string) op" where
  "record_decision digest ev rv rule uuid =
     op_seq (op_guard (strip (rv_reviewer rv) = [] \<or> strip (rv_rationale rv) = []) Reviewer_Required)
      (op_bind (op_try (\<lambda>db. verify_evidence digest db ev)) (\<lambda>verified.
       (case decision_error rv verified rule of
          Some err \<Rightarrow> op_raise err
        | None \<Rightarrow>
            (let did = ''rpd_'' @ take 16 uuid in
             op_seq (insert_decision (new_decision did rv verified rule)) (op_return did)))))"

text \<open>The decisions of a policy by the time of their review.\<close>

definition get_decisions :: "gate_db \<Rightarrow> string \<Rightarrow> string \<Rightarrow> decision_row list" where
  "get_decisions db pid version =
     sort_key dr_reviewed_at
       (filter (\<lambda>d. es_policy_id (dr_evidence d) = pid \<and> es_policy_version (dr_evidence d) = version)
         (gd_decisions db))"

end
