(* ===== verification/Ranking_Props.thy ===== *)
theory Ranking_Props
  imports Ranking_Gate
begin

section \<open>What a recorded ranking decision rests on\<close>

lemma check_manifest_Inr:
  "check_manifest db ev mid = Inr m \<longleftrightarrow>
     find (\<lambda>m. mf_id m = mid) (gd_manifests db) = Some m \<and> mf_date m \<le> es_cutoff ev \<and>
     mf_policy_hash m = es_policy_hash ev \<and> mf_policy_id m = es_policy_id ev \<and>
     mf_policy_version m = es_policy_version ev"
  by (auto simp: check_manifest_def not_less split: option.splits if_splits)

lemma check_replay_Inr:
  "check_replay db ev rid = Inr r \<longleftrightarrow>
     find (\<lambda>r. rl_id r = rid) (gd_replays db) = Some r \<and> rl_end_date r \<le> es_cutoff ev \<and>
     rl_policy_hash r = es_policy_hash ev \<and> set (rl_manifest_ids r) \<subseteq> set (es_manifest_ids ev) \<and>
     ''future_data_contamination'' \<notin> set (rl_caveats r)"
  by (auto simp: check_replay_def not_less split: option.splits if_splits)

definition manifests_of :: "gate_db \<Rightarrow> evidence_summary \<Rightarrow> manifest_row list \<Rightarrow> bool" where
  "manifests_of db ev ms \<longleftrightarrow> list_all2 (\<lambda>i m. check_manifest db ev i = Inr m) (es_manifest_ids ev) ms"

definition replays_of :: "gate_db \<Rightarrow> evidence_summary \<Rightarrow> replay_row list \<Rightarrow> bool" where
  "replays_of db ev rs \<longleftrightarrow> list_all2 (\<lambda>i r. check_replay db ev i = Inr r) (es_replay_ids ev) rs"

lemma verify_evidence_Inr:
  "verify_evidence digest db ev = Inr v \<longleftrightarrow>
     (\<exists>ms rs. manifests_of db ev ms \<and> replays_of db ev rs \<and> coherence_error ev ms rs = None \<and>
        v = verified_summary digest ev ms rs)"
  by (auto simp: verify_evidence_def res_bind_Inr_iff res_map_Inr_iff manifests_of_def replays_of_def
      split: option.splits)

lemma manifests_of_rows:
  "manifests_of db ev ms \<Longrightarrow> m \<in> set ms \<Longrightarrow>
     m \<in> set (gd_manifests db) \<and> mf_date m \<le> es_cutoff ev \<and> mf_policy_hash m = es_policy_hash ev \<and>
     mf_policy_id m = es_policy_id ev \<and> mf_policy_version m = es_policy_version ev"
  unfolding manifests_of_def
  by (drule (1) set_list_all2) (auto simp: check_manifest_Inr dest: find_Some_in)

lemma replays_of_rows:
  "replays_of db ev rs \<Longrightarrow> r \<in> set rs \<Longrightarrow>
     r \<in> set (gd_replays db) \<and> rl_end_date r \<le> es_cutoff ev \<and> rl_policy_hash r = es_policy_hash ev \<and>
     set (rl_manifest_ids r) \<subseteq> set (es_manifest_ids ev) \<and>
     ''future_data_contamination'' \<notin> set (rl_caveats r)"
  unfolding replays_of_def
  by (drule (1) set_list_all2) (auto simp: check_replay_Inr dest: find_Some_in)

text \<open>The evidence is enough for a rule.\<close>

definition sufficient :: "promotion_rule \<Rightarrow> manifest_row list \<Rightarrow> replay_row list \<Rightarrow> bool" where
  "sufficient rule ms rs \<longleftrightarrow>
     ms \<noteq> [] \<and> list_all (\<lambda>m. mf_sufficiency m = ''SUFFICIENT'') ms \<and>
     pr_min_sample_count rule \<le> sample_count ms \<and> pr_min_period_count rule \<le> period_count ms rs \<and>
     pr_min_coverage rule \<le> coverage ms"

lemma eligible_verified_iff:
  assumes "manifests_of db ev ms"
  shows "pa_eligible (assess_promotion (verified_summary digest ev ms rs) rule) \<and>
         is_verified (verified_summary digest ev ms rs) \<longleftrightarrow> sufficient rule ms rs"
proof -
  have "es_manifest_ids ev = [] \<longleftrightarrow> ms = []"
    using assms by (auto simp: manifests_of_def)
  then show ?thesis
    by (auto simp: assess_promotion_def verified_summary_def is_verified_def sufficient_def
        verification_status_def Let_def not_less)
qed

text \<open>The only decision that activates a policy is ACCEPTED.\<close>

lemma activates_iff [simp]: "st \<in> set activating_statuses \<longleftrightarrow> st = ACCEPTED"
  by (simp add: activating_statuses_def)

lemma decision_error_None:
  assumes "manifests_of db ev ms"
  shows "decision_error rv (verified_summary digest ev ms rs) rule = None \<longleftrightarrow>
     (rv_status rv = ACCEPTED \<longrightarrow> sufficient rule ms rs) \<and>
     (rv_status rv = INSUFFICIENT_EVIDENCE \<longrightarrow> \<not> sufficient rule ms rs)"
  using eligible_verified_iff [OF assms, of digest rs rule]
  by (auto simp: decision_error_def Let_def)

lemma record_decision_Inr:
  assumes "record_decision digest ev rv rule uuid db = (Inr did, db')"
  shows "\<exists>ms rs. manifests_of db ev ms \<and> replays_of db ev rs \<and> coherence_error ev ms rs = None \<and>
     strip (rv_reviewer rv) \<noteq> [] \<and> strip (rv_rationale rv) \<noteq> [] \<and>
     decision_error rv (verified_summary digest ev ms rs) rule = None \<and>
     db' = db\<lparr>gd_decisions := gd_decisions db @
             [new_decision did rv (verified_summary digest ev ms rs) rule]\<rparr>"
proof -
  obtain v where v: "verify_evidence digest db ev = Inr v" "decision_error rv v rule = None"
      "strip (rv_reviewer rv) \<noteq> []" "strip (rv_rationale rv) \<noteq> []"
      "db' = db\<lparr>gd_decisions := gd_decisions db @ [new_decision did rv v rule]\<rparr>"
    using assms
    by (auto simp: record_decision_def op_simps op_success insert_decision_def Let_def new_decision_def
        split: sum.splits option.splits if_splits)
  from v(1) obtain ms rs where "manifests_of db ev ms" "replays_of db ev rs"
      "coherence_error ev ms rs = None" "v = verified_summary digest ev ms rs"
    by (auto simp: verify_evidence_Inr)
  with v show ?thesis by blast
qed

text \<open>
  C26: a decision that is recorded is appended alone, on the evidence found in the database: the rows
  of every referenced manifest and replay, none after the cutoff, of another policy or contaminated
  by future data.  It activates the policy only as ACCEPTED, and then the manifests are sufficient
  and reach the sample, period and coverage minima; INSUFFICIENT_EVIDENCE is recorded only when they
  do not.
\<close>

theorem decision_rests_on_evidence:
  assumes "record_decision digest ev rv rule uuid db = (Inr did, db')"
  shows "\<exists>ms rs d. manifests_of db ev ms \<and> replays_of db ev rs \<and>
     (\<forall>m. m \<in> set ms \<longrightarrow> m \<in> set (gd_manifests db) \<and> mf_date m \<le> es_cutoff ev \<and>
        mf_policy_hash m = es_policy_hash ev) \<and>
     (\<forall>r. r \<in> set rs \<longrightarrow> r \<in> set (gd_replays db) \<and> rl_end_date r \<le> es_cutoff ev \<and>
        ''future_data_contamination'' \<notin> set (rl_caveats r)) \<and>
     db' = db\<lparr>gd_decisions := gd_decisions db @ [d]\<rparr> \<and> dr_id d = did \<and>
     dr_evidence d = verified_summary digest ev ms rs \<and> dr_status d = rv_status rv \<and>
     (dr_activates d \<longleftrightarrow> dr_status d = ACCEPTED) \<and>
     (dr_activates d \<longrightarrow> sufficient rule ms rs) \<and>
     (dr_status d = INSUFFICIENT_EVIDENCE \<longrightarrow> \<not> sufficient rule ms rs)"
proof -
  obtain ms rs where e: "manifests_of db ev ms" "replays_of db ev rs"
      "decision_error rv (verified_summary digest ev ms rs) rule = None"
      "db' = db\<lparr>gd_decisions := gd_decisions db @
             [new_decision did rv (verified_summary digest ev ms rs) rule]\<rparr>"
    using record_decision_Inr [OF assms] by blast
  moreover have "\<forall>m. m \<in> set ms \<longrightarrow> m \<in> set (gd_manifests db) \<and> mf_date m \<le> es_cutoff ev \<and>
      mf_policy_hash m = es_policy_hash ev"
    using manifests_of_rows [OF e(1)] by blast
  moreover have "\<forall>r. r \<in> set rs \<longrightarrow> r \<in> set (gd_replays db) \<and> rl_end_date r \<le> es_cutoff ev \<and>
      ''future_data_contamination'' \<notin> set (rl_caveats r)"
    using replays_of_rows [OF e(2)] by blast
  moreover note decision_error_None [OF e(1), of rv digest rs rule]
  ultimately show ?thesis
    by (intro exI [of _ ms] exI [of _ rs]
        exI [of _ "new_decision did rv (verified_summary digest ev ms rs) rule"])
      (simp add: new_decision_def)
qed

text \<open>A refused decision leaves the database as it was.\<close>

lemma refused_decision_keeps_db:
  "record_decision digest ev rv rule uuid db = (Inl err, db') \<Longrightarrow> db' = db"
  by (auto simp: record_decision_def op_simps op_seq_def op_bind_def insert_decision_def Let_def
      split: sum.splits option.splits if_splits prod.splits)

subsection \<open>A database to apply them to\<close>

definition demo_manifest :: "string \<Rightarrow> manifest_row" where
  "demo_manifest d =
     \<lparr>mf_id = d, mf_date = d, mf_policy_id = ''p'', mf_policy_version = ''1'', mf_policy_hash = ''h'',
      mf_eligible = 12, mf_complete = 10, mf_incomplete = 2, mf_sufficiency = ''SUFFICIENT'',
      mf_assumptions_hash = ''a'', mf_dataset_hash = ''s'', mf_ranking_run_ref = ''r'',
      mf_price_basis = ''raw'', mf_adjustment_version = ''v''\<rparr>"

definition demo_gate_db :: gate_db where
  "demo_gate_db =
     \<lparr>gd_manifests = map demo_manifest [''01'', ''02'', ''03''], gd_replays = [], gd_decisions = []\<rparr>"

definition demo_evidence :: "string list \<Rightarrow> evidence_summary" where
  "demo_evidence ids =
     \<lparr>es_policy_id = ''p'', es_policy_version = ''1'', es_policy_hash = ''h'', es_cutoff = ''09'',
      es_sample_count = 0, es_period_count = 0, es_coverage = 0, es_manifest_ids = ids,
      es_replay_ids = [], es_ranking_run_refs = [], es_assumptions_hashes = [],
      es_dataset_hashes = [], es_bundle_hash = None, es_verification_status = ''UNVERIFIED''\<rparr>"

definition demo_review :: review where
  "demo_review =
     \<lparr>rv_status = ACCEPTED, rv_reviewer = ''x'', rv_rationale = ''y'', rv_reviewed_at = ''t'',
      rv_limitations = []\<rparr>"

lemma demo_manifests:
  "manifests_of demo_gate_db (demo_evidence [''01'', ''02'', ''03'']) (map demo_manifest [''01'', ''02'', ''03''])"
proof -
  have "''01'' \<le> ''09''" "''02'' \<le> ''09''" "''03'' \<le> ''09''" by code_simp+
  then show ?thesis
    by (simp add: manifests_of_def check_manifest_Inr demo_gate_db_def demo_evidence_def demo_manifest_def)
qed

lemma demo_sufficient: "sufficient default_promotion_rule (map demo_manifest [''01'', ''02'', ''03'']) []"
  by (simp add: sufficient_def default_promotion_rule_def demo_manifest_def sample_count_def
      period_count_def coverage_def)

lemma demo_coherent:
  "coherence_error (demo_evidence [''01'', ''02'', ''03'']) (map demo_manifest [''01'', ''02'', ''03'']) [] = None"
  by (simp add: coherence_error_def demo_evidence_def demo_manifest_def sorted_set_def Let_def)

lemma demo_decision:
  "\<exists>did db'. record_decision (\<lambda>_. ''b'') (demo_evidence [''01'', ''02'', ''03'']) demo_review
     default_promotion_rule ''u'' demo_gate_db = (Inr did, db')"
proof -
  let ?ev = "demo_evidence [''01'', ''02'', ''03'']" and ?ms = "map demo_manifest [''01'', ''02'', ''03'']"
  have "verify_evidence (\<lambda>_. ''b'') demo_gate_db ?ev = Inr (verified_summary (\<lambda>_. ''b'') ?ev ?ms [])"
    unfolding verify_evidence_Inr
    using demo_manifests demo_coherent by (auto simp: replays_of_def demo_evidence_def)
  moreover have "decision_error demo_review (verified_summary (\<lambda>_. ''b'') ?ev ?ms []) default_promotion_rule = None"
    using decision_error_None [OF demo_manifests, of demo_review "\<lambda>_. ''b''" "[]" default_promotion_rule]
      demo_sufficient by (simp add: demo_review_def)
  moreover have "strip ''x'' \<noteq> []" "strip ''y'' \<noteq> []" by code_simp+
  ultimately show ?thesis
    by (simp add: record_decision_def op_simps op_seq_def op_bind_def insert_decision_def Let_def
        demo_review_def demo_gate_db_def)
qed

theorem decision_rests_on_evidence_witness:
  "\<exists>did db' d. record_decision (\<lambda>_. ''b'') (demo_evidence [''01'', ''02'', ''03'']) demo_review
     default_promotion_rule ''u'' demo_gate_db = (Inr did, db') \<and> gd_decisions db' = [d] \<and> dr_activates d"
proof -
  obtain did db' where r: "record_decision (\<lambda>_. ''b'') (demo_evidence [''01'', ''02'', ''03'']) demo_review
     default_promotion_rule ''u'' demo_gate_db = (Inr did, db')"
    using demo_decision by blast
  have "gd_decisions demo_gate_db = []" "rv_status demo_review = ACCEPTED"
    by (simp_all add: demo_gate_db_def demo_review_def)
  then show ?thesis
    using decision_rests_on_evidence [OF r] r by auto
qed

text \<open>
  The references are not required to be distinct: one manifest referenced \<open>k\<close> times is verified
  with \<open>k\<close> times its completed samples, at unchanged coverage.
\<close>

lemma repeated_manifest_counts_again:
  assumes "check_manifest db ev i = Inr m" and "es_manifest_ids ev = replicate (Suc k) i"
    and "es_replay_ids ev = []" and "es_ranking_run_refs ev = []"
  shows "\<exists>v. verify_evidence digest db ev = Inr v \<and>
     es_sample_count v = (int k + 1) * mf_complete m \<and> es_coverage v = coverage [m]"
proof -
  let ?ms = "replicate (Suc k) m"
  have ms: "manifests_of db ev ?ms" "replays_of db ev []"
    using assms by (simp_all add: manifests_of_def replays_of_def list_all2_conv_all_nth del: replicate_Suc)
  have one: "remdups (map f ?ms) = [f m]" for f :: "manifest_row \<Rightarrow> string"
    by (induction k) simp_all
  have "coherence_error ev ?ms [] = None"
    using one assms(4) by (simp add: coherence_error_def sorted_set_def Let_def del: replicate_Suc)
  then have "verify_evidence digest db ev = Inr (verified_summary digest ev ?ms [])"
    using ms by (auto simp: verify_evidence_Inr)
  moreover have total: "sum_list (map f ?ms) = (int k + 1) * f m" for f :: "manifest_row \<Rightarrow> int"
    by (induction k) (simp_all add: algebra_simps)
  moreover have "coverage ?ms = coverage [m]"
    unfolding coverage_def sample_count_def Let_def total
    using of_int_eq_0_iff [of "int k + 1", where ?'a = rat] by simp
  ultimately show ?thesis
    by (simp add: verified_summary_def sample_count_def Let_def del: replicate_Suc)
qed

lemma repeated_manifest_counts_again_witness:
  "\<exists>v. verify_evidence (\<lambda>_. ''b'') demo_gate_db (demo_evidence [''01'', ''01'', ''01'']) = Inr v \<and>
     es_sample_count v = 30"
proof -
  have "''01'' \<le> ''09''" by code_simp
  then have "check_manifest demo_gate_db (demo_evidence [''01'', ''01'', ''01'']) ''01'' = Inr (demo_manifest ''01'')"
    by (simp add: check_manifest_Inr demo_gate_db_def demo_evidence_def demo_manifest_def)
  then show ?thesis
    using repeated_manifest_counts_again
      [of demo_gate_db "demo_evidence [''01'', ''01'', ''01'']" "''01''" "demo_manifest ''01''" 2]
    by (auto simp: demo_evidence_def demo_manifest_def numeral_eq_Suc)
qed

end
