(* ===== verification/Py_Value.thy ===== *)
theory Py_Value
  imports Effects PyDate Complex_Main
begin

section \<open>Python values\<close>

text \<open>
  The values that travel as tool arguments and tool outputs: what JSON can hold, tuples, and the
  requirement enumeration of \<open>data_availability/deep_readiness_models.py\<close>.  A float is a rational; a
  dictionary is its list of items in order.
\<close>

datatype context_requirement = NOT_REQUESTED | OPTIONAL | REQUIRED | INVALID

definition requirement_value :: "context_requirement \<Rightarrow> string" where
  "requirement_value r =
     (case r of NOT_REQUESTED \<Rightarrow> ''NOT_REQUESTED'' | OPTIONAL \<Rightarrow> ''OPTIONAL'' | REQUIRED \<Rightarrow> ''REQUIRED''
      | INVALID \<Rightarrow> ''INVALID'')"

datatype pval =
    PNone
  | PBool bool
  | PInt int
  | PFloat rat
  | PStr string
  | PList "pval list"
  | PTuple "pval list"
  | PDict "(string \<times> pval) list"
  | PRequirement context_requirement

type_synonym pdict = "(string \<times> pval) list"

text \<open>\<open>bool(value)\<close>, and \<open>a or b\<close>.\<close>

fun truthy :: "pval \<Rightarrow> bool" where
  "truthy PNone = False"
| "truthy (PBool b) = b"
| "truthy (PInt i) = (i \<noteq> 0)"
| "truthy (PFloat x) = (x \<noteq> 0)"
| "truthy (PStr s) = (s \<noteq> [])"
| "truthy (PList xs) = (xs \<noteq> [])"
| "truthy (PTuple xs) = (xs \<noteq> [])"
| "truthy (PDict d) = (d \<noteq> [])"
| "truthy (PRequirement r) = True"

definition py_or :: "pval \<Rightarrow> pval \<Rightarrow> pval" where
  "py_or a b = (if truthy a then a else b)"

text \<open>\<open>d.get(k)\<close> and \<open>d.get(k, default)\<close>.\<close>

definition dict_get :: "pdict \<Rightarrow> string \<Rightarrow> pval" where
  "dict_get d k = (case map_of d k of None \<Rightarrow> PNone | Some v \<Rightarrow> v)"

definition dict_get_or :: "pdict \<Rightarrow> string \<Rightarrow> pval \<Rightarrow> pval" where
  "dict_get_or d k x = (case map_of d k of None \<Rightarrow> x | Some v \<Rightarrow> v)"

text \<open>\<open>str(value)\<close>; the representation of floats, containers and enumeration members is an argument.\<close>

fun py_str :: "(pval \<Rightarrow> string) \<Rightarrow> pval \<Rightarrow> string" where
  "py_str rp PNone = ''None''"
| "py_str rp (PBool b) = (if b then ''True'' else ''False'')"
| "py_str rp (PInt i) = render_int i"
| "py_str rp (PStr s) = s"
| "py_str rp v = rp v"

definition is_list_value :: "pval \<Rightarrow> bool" where
  "is_list_value v = (case v of PList xs \<Rightarrow> True | _ \<Rightarrow> False)"

definition is_dict_value :: "pval \<Rightarrow> bool" where
  "is_dict_value v = (case v of PDict d \<Rightarrow> True | _ \<Rightarrow> False)"

lemma dict_get_set [simp]: "dict_get (dict_set k v d) k' = (if k' = k then v else dict_get d k')"
  by (simp add: dict_get_def)

lemma dict_get_Nil [simp]: "dict_get [] k = PNone"
  by (simp add: dict_get_def)

lemma dict_get_Cons [simp]: "dict_get ((k, v) # d) k' = (if k' = k then v else dict_get d k')"
  by (simp add: dict_get_def)

end
