(* ===== verification/Symbols.thy ===== *)
theory Symbols
  imports Py_Value
begin

section \<open>Canonical symbols\<close>

text \<open>
  \<open>core/symbols.py\<close>: one representation for the many shapes in which a classifier names tickers.
\<close>

datatype symbol_format_error =
    Not_A_String pval
  | Empty_Ticker
  | Not_A_Ticker string
  | Not_Derivable pval
  | Several_In_Symbol pval
  | Contradiction string "string list"

text \<open>The grammar \<open>[A-Z][A-Z0-9]{1,11}\<close>, matched on the whole text.\<close>

definition ticker_pattern :: "string \<Rightarrow> bool" where
  "ticker_pattern s \<longleftrightarrow>
     2 \<le> length s \<and> length s \<le> 12 \<and> is_upper_letter (hd s) \<and>
     list_all (\<lambda>c. is_upper_letter c \<or> is_digit c) (tl s)"

definition marker_prefixes :: "string list" where
  "marker_prefixes = [''CP'', ''CK'']"

record canonical_symbols =
  cs_symbols :: "string list"
  cs_primary :: "string option"

definition as_entities :: "canonical_symbols \<Rightarrow> pdict" where
  "as_entities c =
     [(''symbol'', case cs_primary c of None \<Rightarrow> PNone | Some s \<Rightarrow> PStr s),
      (''symbols'', PList (map PStr (cs_symbols c)))]"

definition is_valid_ticker :: "pval \<Rightarrow> bool" where
  "is_valid_ticker v = (case v of PStr s \<Rightarrow> ticker_pattern s | _ \<Rightarrow> False)"

definition validate_ticker :: "pval \<Rightarrow> symbol_format_error + string" where
  "validate_ticker v =
     (case v of
        PStr s \<Rightarrow>
          (let candidate = upper (strip s) in
           if candidate = [] then Inl Empty_Ticker
           else if \<not> ticker_pattern candidate then Inl (Not_A_Ticker s)
           else Inr candidate)
      | _ \<Rightarrow> Inl (Not_A_String v))"

definition looks_like_serialized_collection :: "string \<Rightarrow> bool" where
  "looks_like_serialized_collection t \<longleftrightarrow>
     2 \<le> length t \<and> hd t \<in> {CHR ''['', CHR ''(''} \<and> last t \<in> {CHR '')'', CHR '']''}"

text \<open>\<open>s.strip("'\"")\<close>.\<close>

definition is_quote :: "char \<Rightarrow> bool" where
  "is_quote c \<longleftrightarrow> c = CHR 34 \<or> c = CHR 39"

definition strip_quotes :: "string \<Rightarrow> string" where
  "strip_quotes s = rev (dropWhile is_quote (rev (dropWhile is_quote s)))"

definition split_serialized_collection :: "string \<Rightarrow> string list" where
  "split_serialized_collection t =
     map (\<lambda>p. strip (strip_quotes (strip p))) (split_at CHR '','' (butlast (tl t)))"

definition coerce_text :: "string \<Rightarrow> string list" where
  "coerce_text s =
     (let t = strip s in
      if t = [] then []
      else if looks_like_serialized_collection t
      then filter (\<lambda>p. p \<noteq> []) (split_serialized_collection t)
      else if CHR '','' \<in> set t
      then map (\<lambda>p. strip_quotes (strip p)) (filter (\<lambda>p. strip p \<noteq> []) (split_at CHR '','' t))
      else [strip_quotes t])"

fun coerce_tokens :: "pval \<Rightarrow> symbol_format_error + string list"
  and coerce_all :: "pval list \<Rightarrow> symbol_format_error + string list" where
  "coerce_tokens PNone = Inr []"
| "coerce_tokens (PList xs) = coerce_all xs"
| "coerce_tokens (PTuple xs) = coerce_all xs"
| "coerce_tokens (PStr s) = Inr (coerce_text s)"
| "coerce_tokens v = Inl (Not_Derivable v)"
| "coerce_all [] = Inr []"
| "coerce_all (x # xs) =
     res_bind (coerce_tokens x) (\<lambda>ts. res_bind (coerce_all xs) (\<lambda>us. Inr (ts @ us)))"

definition strip_marker_prefix :: "string list \<Rightarrow> string list" where
  "strip_marker_prefix tokens =
     (if 2 \<le> length tokens \<and> hd tokens \<in> set marker_prefixes then tl tokens else tokens)"

text \<open>The loop over the tokens, with the tickers seen so far.\<close>

fun dedupe_from :: "string list \<Rightarrow> string list \<Rightarrow> symbol_format_error + string list" where
  "dedupe_from seen [] = Inr seen"
| "dedupe_from seen (t # ts) =
     res_bind (validate_ticker (PStr t)) (\<lambda>k.
       dedupe_from (if k \<in> set seen then seen else seen @ [k]) ts)"

definition dedupe_validated :: "string list \<Rightarrow> symbol_format_error + string list" where
  "dedupe_validated tokens = dedupe_from [] tokens"

text \<open>The ticker of the field \<open>symbol\<close>.\<close>

definition primary_from_symbol :: "string list \<Rightarrow> symbol_format_error + string option" where
  "primary_from_symbol field =
     (case field of
        [] \<Rightarrow> Inr None
      | t # _ \<Rightarrow> res_bind (validate_ticker (PStr t)) (\<lambda>k. Inr (Some k)))"

definition join_symbols ::
  "string option \<Rightarrow> string list \<Rightarrow> symbol_format_error + canonical_symbols" where
  "join_symbols from_symbol symbols =
     (case from_symbol of
        Some p \<Rightarrow>
          if symbols \<noteq> [] \<and> p \<notin> set symbols then Inl (Contradiction p symbols)
          else Inr \<lparr>cs_symbols = (if symbols = [] then [p] else symbols), cs_primary = Some p\<rparr>
      | None \<Rightarrow>
          Inr \<lparr>cs_symbols = symbols, cs_primary = (case symbols of [] \<Rightarrow> None | k # _ \<Rightarrow> Some k)\<rparr>)"

definition canonicalize_symbol_entities :: "pdict \<Rightarrow> symbol_format_error + canonical_symbols" where
  "canonicalize_symbol_entities entities =
     res_bind (coerce_tokens (dict_get entities ''symbol'')) (\<lambda>symbol_tokens.
     res_bind (coerce_tokens (dict_get entities ''symbols'')) (\<lambda>symbols_tokens.
     (let symbol_field = strip_marker_prefix symbol_tokens in
      if 1 < length symbol_field then Inl (Several_In_Symbol (dict_get entities ''symbol''))
      else
        res_bind (primary_from_symbol symbol_field) (\<lambda>from_symbol.
        res_bind (dedupe_validated (strip_marker_prefix symbols_tokens)) (\<lambda>symbols.
          join_symbols from_symbol symbols)))))"

definition apply_canonical_symbols :: "pdict \<Rightarrow> symbol_format_error + pdict \<times> canonical_symbols" where
  "apply_canonical_symbols entities =
     res_bind (canonicalize_symbol_entities entities) (\<lambda>c.
       Inr (case cs_primary c of
              None \<Rightarrow> (entities, c)
            | Some p \<Rightarrow>
                (dict_set ''symbols'' (PList (map PStr (cs_symbols c)))
                  (dict_set ''symbol'' (PStr p) entities), c)))"

subsection \<open>What canonical symbols are\<close>

definition canonical :: "canonical_symbols \<Rightarrow> bool" where
  "canonical c \<longleftrightarrow>
     list_all ticker_pattern (cs_symbols c) \<and> distinct (cs_symbols c) \<and>
     (case cs_primary c of None \<Rightarrow> cs_symbols c = [] | Some p \<Rightarrow> p \<in> set (cs_symbols c))"

lemma validate_ticker_Inr: "validate_ticker v = Inr k \<Longrightarrow> ticker_pattern k"
  by (auto simp: validate_ticker_def Let_def split: pval.splits if_splits)

lemma dedupe_from_Inr:
  "dedupe_from seen ts = Inr ks \<Longrightarrow> list_all ticker_pattern seen \<and> distinct seen \<Longrightarrow>
     list_all ticker_pattern ks \<and> distinct ks"
proof (induction seen ts rule: dedupe_from.induct)
  case (2 seen t ts)
  from 2(2) obtain k where k: "validate_ticker (PStr t) = Inr k"
      "dedupe_from (if k \<in> set seen then seen else seen @ [k]) ts = Inr ks"
    by (auto simp: res_bind_Inr_iff)
  show ?case
    by (rule 2(1) [OF k(2)]) (use 2(3) validate_ticker_Inr [OF k(1)] in auto)
qed simp

lemma primary_from_symbol_Inr: "primary_from_symbol field = Inr (Some p) \<Longrightarrow> ticker_pattern p"
  by (auto simp: primary_from_symbol_def res_bind_Inr_iff dest: validate_ticker_Inr split: list.splits)

lemma join_symbols_canonical:
  "join_symbols q ks = Inr c \<Longrightarrow> list_all ticker_pattern ks \<Longrightarrow> distinct ks \<Longrightarrow>
     (\<And>p. q = Some p \<Longrightarrow> ticker_pattern p) \<Longrightarrow> canonical c"
  by (auto simp: join_symbols_def canonical_def split: option.splits if_splits list.splits)

lemma canonicalize_Inr:
  "canonicalize_symbol_entities entities = Inr c \<Longrightarrow>
     \<exists>field q ts ks. primary_from_symbol field = Inr q \<and> dedupe_validated ts = Inr ks \<and> join_symbols q ks = Inr c"
  unfolding canonicalize_symbol_entities_def Let_def res_bind_Inr_iff
  by (elim exE conjE) (simp add: res_bind_Inr_iff split: if_splits, blast)

lemma canonicalize_canonical: "canonicalize_symbol_entities entities = Inr c \<Longrightarrow> canonical c"
  by (drule canonicalize_Inr)
    (auto intro!: join_symbols_canonical dest: dedupe_from_Inr primary_from_symbol_Inr
      simp: dedupe_validated_def)

subsection \<open>Canonical symbols once more\<close>

lemma ticker_chars: "ticker_pattern s \<Longrightarrow> c \<in> set s \<Longrightarrow> is_upper_letter c \<or> is_digit c"
  by (cases s) (auto simp: ticker_pattern_def list_all_iff)

lemma ticker_plain:
  assumes "ticker_pattern s" and "c \<in> set s"
  shows "\<not> is_space c \<and> \<not> is_quote c \<and> c \<noteq> CHR '','' \<and> c \<noteq> CHR ''['' \<and> c \<noteq> CHR ''(''"
  using ticker_chars [OF assms]
  by (auto simp: is_upper_letter_def is_digit_def is_space_def is_quote_def char_code_def)

lemma validate_ticker_fixed: "ticker_pattern s \<Longrightarrow> validate_ticker (PStr s) = Inr s"
proof -
  assume s: "ticker_pattern s"
  have "strip s = s" using ticker_plain [OF s] by (intro strip_no_space) blast
  moreover have "upper s = s" using ticker_chars [OF s] by (intro upper_fixed) blast
  moreover have "s \<noteq> []" using s by (auto simp: ticker_pattern_def)
  ultimately show ?thesis using s by (simp add: validate_ticker_def Let_def)
qed

lemma strip_quotes_fixed: "\<forall>c \<in> set s. \<not> is_quote c \<Longrightarrow> strip_quotes s = s"
proof -
  assume *: "\<forall>c \<in> set s. \<not> is_quote c"
  have "dropWhile is_quote t = t" if "set t = set s" for t
    using that * by (cases t) auto
  then show ?thesis by (simp add: strip_quotes_def)
qed

lemma coerce_ticker: "ticker_pattern s \<Longrightarrow> coerce_tokens (PStr s) = Inr [s]"
proof -
  assume s: "ticker_pattern s"
  then have "s \<noteq> []" by (auto simp: ticker_pattern_def)
  have "strip s = s" using ticker_plain [OF s] by (intro strip_no_space) blast
  moreover have "strip_quotes s = s" using ticker_plain [OF s] by (intro strip_quotes_fixed) blast
  moreover have "\<not> looks_like_serialized_collection s" "CHR '','' \<notin> set s"
    using ticker_plain [OF s] hd_in_set [OF \<open>s \<noteq> []\<close>] by (auto simp: looks_like_serialized_collection_def)
  ultimately show ?thesis using \<open>s \<noteq> []\<close> by (simp add: coerce_text_def Let_def)
qed

lemma coerce_tickers: "list_all ticker_pattern ts \<Longrightarrow> coerce_tokens (PList (map PStr ts)) = Inr ts"
  by (induction ts) (simp_all add: coerce_ticker del: coerce_tokens.simps(4))

lemma dedupe_from_fixed:
  "list_all ticker_pattern ts \<Longrightarrow> distinct (seen @ ts) \<Longrightarrow> dedupe_from seen ts = Inr (seen @ ts)"
  by (induction ts arbitrary: seen) (simp_all add: validate_ticker_fixed)

lemma validate_ticker_lower: "ticker_pattern (upper s) \<Longrightarrow> strip s = s \<Longrightarrow> s \<noteq> [] \<Longrightarrow> validate_ticker (PStr s) = Inr (upper s)"
  by (simp add: validate_ticker_def Let_def upper_def)

text \<open>A canonical list keeps its leading ticker unless that is a marker before another one.\<close>

definition marker_first :: "canonical_symbols \<Rightarrow> bool" where
  "marker_first c \<longleftrightarrow> 2 \<le> length (cs_symbols c) \<and> hd (cs_symbols c) \<in> set marker_prefixes"

lemma strip_marker_prefix_canonical:
  "strip_marker_prefix (cs_symbols c) = (if marker_first c then tl (cs_symbols c) else cs_symbols c)"
  by (simp add: strip_marker_prefix_def marker_first_def)

lemma join_canonical:
  "canonical c \<Longrightarrow> join_symbols (cs_primary c) (cs_symbols c) = Inr c"
  by (cases "cs_primary c") (auto simp: canonical_def join_symbols_def)

lemma canonicalize_as_entities:
  assumes "canonical c"
  shows "canonicalize_symbol_entities (as_entities c) =
     join_symbols (cs_primary c) (strip_marker_prefix (cs_symbols c))"
proof -
  let ?ks = "strip_marker_prefix (cs_symbols c)"
  have ks: "list_all ticker_pattern (cs_symbols c)" "distinct (cs_symbols c)"
    using assms by (auto simp: canonical_def)
  then have "list_all ticker_pattern ?ks" "distinct ?ks"
    by (auto simp: strip_marker_prefix_def list_all_iff distinct_tl dest: list.set_sel(2) [rotated])
  then have d: "dedupe_validated ?ks = Inr ?ks"
    using dedupe_from_fixed [of ?ks "[]"] by (simp add: dedupe_validated_def)
  show ?thesis
  proof (cases "cs_primary c")
    case None
    then show ?thesis
      using d coerce_tickers [OF ks(1)]
      by (simp add: canonicalize_symbol_entities_def as_entities_def strip_marker_prefix_def
          primary_from_symbol_def)
  next
    case (Some p)
    then have "ticker_pattern p"
      using assms by (auto simp: canonical_def list_all_iff)
    then show ?thesis
      using d coerce_tickers [OF ks(1)] coerce_ticker validate_ticker_fixed Some
      by (simp add: canonicalize_symbol_entities_def as_entities_def strip_marker_prefix_def
          primary_from_symbol_def del: coerce_tokens.simps(4))
  qed
qed

end
