(* ===== verification/Tool_Policy.thy ===== *)
theory Tool_Policy
  imports Py_Value Loop_Policy
begin

section \<open>Tools and their policy\<close>

text \<open>
  \<open>policy/tool_policy.py\<close>, \<open>policy/assistant_policy.py\<close>, \<open>policy/command_policy.py\<close>, \<open>tools/models.py\<close> and
  \<open>assistant/tool_policy.py\<close>.  The deny lists of \<open>policy/safety_policy.py\<close> are in Loop_Policy.
\<close>

datatype tool_permission =
    READ_WATCHLIST | READ_FEATURES | READ_SCORE | READ_QUALITY | READ_LINEAGE | WRITE_NOTE | READ_HISTORY
  | WRITE_DATA

definition permission_value :: "tool_permission \<Rightarrow> string" where
  "permission_value p =
     (case p of
        READ_WATCHLIST \<Rightarrow> ''READ_WATCHLIST'' | READ_FEATURES \<Rightarrow> ''READ_FEATURES'' | READ_SCORE \<Rightarrow> ''READ_SCORE''
      | READ_QUALITY \<Rightarrow> ''READ_QUALITY'' | READ_LINEAGE \<Rightarrow> ''READ_LINEAGE'' | WRITE_NOTE \<Rightarrow> ''WRITE_NOTE''
      | READ_HISTORY \<Rightarrow> ''READ_HISTORY'' | WRITE_DATA \<Rightarrow> ''WRITE_DATA'')"

definition forbidden_permissions :: "string list" where
  "forbidden_permissions =
     [''NETWORK_ACCESS'', ''PYTHON_EXECUTION'', ''MCP_TOOL_CALL'', ''CODEBASE_MUTATION'', ''BROKER_EXECUTION'']"

record tool_capability =
  tc_name :: string
  tc_permission :: tool_permission
  tc_assistant :: bool
  tc_command :: bool
  tc_autonomous_plan :: bool
  tc_mutates_warehouse :: bool
  tc_requires_confirmation :: bool

definition tool_capability ::
  "string \<Rightarrow> tool_permission \<Rightarrow> bool \<Rightarrow> bool \<Rightarrow> bool \<Rightarrow> bool \<Rightarrow> bool \<Rightarrow> tool_capability" where
  "tool_capability n p a c pl m r =
     \<lparr>tc_name = n, tc_permission = p, tc_assistant = a, tc_command = c, tc_autonomous_plan = pl,
      tc_mutates_warehouse = m, tc_requires_confirmation = r\<rparr>"

definition tool_capabilities :: "tool_capability list" where
  "tool_capabilities =
    [
     tool_capability ''watchlist.scan'' READ_WATCHLIST True True True False False,
     tool_capability ''watchlist.filter'' READ_WATCHLIST True True True False False,
     tool_capability ''watchlist.summarize_deep'' READ_WATCHLIST True True True False False,
     tool_capability ''shortlist.generate'' READ_WATCHLIST True True True False False,
     tool_capability ''candidate.explain'' READ_SCORE True True True False False,
     tool_capability ''candidate.compare'' READ_SCORE True True True False False,
     tool_capability ''analysis.deep_symbol'' READ_SCORE True True True False False,
     tool_capability ''analysis.current_symbol'' READ_SCORE True True True False False,
     tool_capability ''scenario.generate_research_plan'' READ_SCORE True True True False False,
     tool_capability ''quality.get_status'' READ_QUALITY True True True False False,
     tool_capability ''quality.get_many_status'' READ_QUALITY True True True False False,
     tool_capability ''lineage.get_symbol_lineage'' READ_LINEAGE True True True False False,
     tool_capability ''market.get_regime'' READ_FEATURES True True True False False,
     tool_capability ''sector.get_strength'' READ_FEATURES True True True False False,
     tool_capability ''sector.get_symbol_alignment'' READ_FEATURES True True True False False,
     tool_capability ''evidence.get_setup_history'' READ_HISTORY True True True False False,
     tool_capability ''note.create'' WRITE_NOTE True True True False False,
     tool_capability ''history.list_sessions'' READ_HISTORY True True True False False,
     tool_capability ''research.indicator.run'' WRITE_DATA True True True True False,
     tool_capability ''research.feature.create'' WRITE_DATA True True True True False,
     tool_capability ''research.feature.validate'' WRITE_DATA True True True True False,
     tool_capability ''research.hypothesis.test'' WRITE_DATA True True True True False,
     tool_capability ''research.pattern.scan'' WRITE_DATA True True True True False,
     tool_capability ''research.event_study.run'' WRITE_DATA True True True True False,
     tool_capability ''data.ensure_current_symbol'' WRITE_DATA True True True True False,
     tool_capability ''data.fetch'' WRITE_DATA False True False True True]"

definition tool_permissions_by_name :: "(string \<times> tool_permission) list" where
  "tool_permissions_by_name = map (\<lambda>c. (tc_name c, tc_permission c)) tool_capabilities"

definition assistant_tool_names :: "string list" where
  "assistant_tool_names = map tc_name (filter tc_assistant tool_capabilities)"

definition autonomous_plan_tool_names :: "string list" where
  "autonomous_plan_tool_names =
     map tc_name (filter (\<lambda>c. tc_assistant c \<and> tc_autonomous_plan c) tool_capabilities)"

definition command_permissions :: "(string \<times> tool_permission list) list" where
  "command_permissions =
    [
     (''market-regime'', [READ_FEATURES]),
     (''sector-strength'', [READ_FEATURES]),
     (''data'', []),
     (''scan'', [READ_WATCHLIST]),
     (''analyze'', [READ_SCORE]),
     (''watchlist-summary'', [READ_WATCHLIST]),
     (''shortlist'', [READ_WATCHLIST]),
     (''research-plan'', [READ_SCORE]),
     (''setup-evidence'', [READ_HISTORY]),
     (''filter'', [READ_SCORE]),
     (''compare'', [READ_SCORE]),
     (''explain'', [READ_SCORE, READ_LINEAGE, READ_QUALITY]),
     (''quality'', [READ_QUALITY]),
     (''lineage'', [READ_LINEAGE]),
     (''note'', [WRITE_NOTE]),
     (''memory'', []),
     (''history'', [READ_HISTORY]),
     (''scoring-policy'', [WRITE_DATA]),
     (''context'', []),
     (''todo'', []),
     (''sandbox'', []),
     (''feature'', []),
     (''experiment'', []),
     (''hypothesis'', []),
     (''pattern'', []),
     (''model'', []),
     (''chat'', []),
     (''help'', []),
     (''repair'', []),
     (''validate'', []),
     (''deploy'', [])]"

text \<open>An unknown command is a \<open>KeyError\<close>.\<close>

definition permission_names :: "string \<Rightarrow> string list option" where
  "permission_names command = map_option (map permission_value) (map_of command_permissions command)"

subsection \<open>The policy of the assistant\<close>

definition approval_required_tools :: "string list" where
  "approval_required_tools = [''sandbox.run_research_code'']"

definition is_forbidden_tool :: "string \<Rightarrow> bool" where
  "is_forbidden_tool t \<longleftrightarrow>
     t \<in> set forbidden_tool_names \<or>
     list_ex (\<lambda>p. t = p \<or> starts_with t (p @ ''.'') \<or> starts_with t (p @ ''_'')) forbidden_tool_prefixes"

definition is_safe_tool :: "string \<Rightarrow> bool" where
  "is_safe_tool t \<longleftrightarrow> t \<in> set autonomous_plan_tool_names \<and> \<not> is_forbidden_tool t"

definition is_assistant_plan_tool :: "string \<Rightarrow> bool" where
  "is_assistant_plan_tool t \<longleftrightarrow>
     (is_safe_tool t \<or> t \<in> set approval_required_tools) \<and> \<not> is_forbidden_tool t"

text \<open>A step and a plan of \<open>assistant/models.py\<close>.\<close>

record plan_step =
  ps_id :: string
  ps_tool :: string
  ps_arguments :: pdict
  ps_purpose :: string
  ps_permission :: string

record assistant_plan =
  ap_intent :: string
  ap_steps :: "plan_step list"
  ap_assumptions :: "string list"
  ap_artifacts :: "string list"
  ap_refusal :: pval

definition is_refusal :: "assistant_plan \<Rightarrow> bool" where
  "is_refusal plan \<longleftrightarrow> ap_refusal plan \<noteq> PNone"

definition unsafe_tools_in_plan :: "assistant_plan \<Rightarrow> string list" where
  "unsafe_tools_in_plan plan = filter (\<lambda>t. \<not> is_safe_tool t) (map ps_tool (ap_steps plan))"

definition is_approval_required_plan :: "assistant_plan \<Rightarrow> bool" where
  "is_approval_required_plan plan =
     (case ap_steps plan of
        [s] \<Rightarrow> ps_tool s \<in> set approval_required_tools \<and> \<not> is_forbidden_tool (ps_tool s)
      | _ \<Rightarrow> False)"

definition is_safe_plan :: "assistant_plan \<Rightarrow> bool" where
  "is_safe_plan plan \<longleftrightarrow> ap_steps plan \<noteq> [] \<and> unsafe_tools_in_plan plan = []"

end
