(* ===== verification/Planner.thy ===== *)
theory Planner
  imports Symbols Tool_Policy
begin

section \<open>Plans of the research assistant\<close>

text \<open>
  \<open>assistant/planner.py\<close>, \<open>assistant/research_automation_plans.py\<close> and the request policy of
  \<open>assistant/policy.py\<close>: from a classified intent with its entities to a plan of tool calls.  Fresh
  identifiers and the representation of floats and containers are arguments.
\<close>

record planner_env =
  pe_ids :: "nat \<Rightarrow> string"
  pe_repr :: "pval \<Rightarrow> string"

record intent_result =
  ir_intent :: string
  ir_confidence :: rat
  ir_entities :: pdict
  ir_needs_clarification :: bool
  ir_clarification_question :: pval
  ir_safety_flags :: "pval list"

datatype plan_error = Plan_Validation_Error string

subsection \<open>Entities\<close>

definition resolve_symbol :: "pdict \<Rightarrow> string" where
  "resolve_symbol entities =
     (case canonicalize_symbol_entities entities of
        Inl _ \<Rightarrow> []
      | Inr c \<Rightarrow> (case cs_primary c of None \<Rightarrow> [] | Some s \<Rightarrow> s))"

definition resolve_symbols :: "pdict \<Rightarrow> string list" where
  "resolve_symbols entities =
     (case canonicalize_symbol_entities entities of Inl _ \<Rightarrow> [] | Inr c \<Rightarrow> cs_symbols c)"

definition plan_step_of ::
  "planner_env \<Rightarrow> nat \<Rightarrow> string \<Rightarrow> pdict \<Rightarrow> string \<Rightarrow> string \<Rightarrow> plan_step" where
  "plan_step_of env i tool args purpose permission =
     \<lparr>ps_id = take 8 (pe_ids env i), ps_tool = tool, ps_arguments = args, ps_purpose = purpose,
      ps_permission = permission\<rparr>"

definition date_args :: "pdict \<Rightarrow> pdict \<Rightarrow> pdict" where
  "date_args entities base =
     (case dict_get entities ''date'' of
        PStr d \<Rightarrow> if strip d \<noteq> [] then dict_set ''date'' (PStr (strip d)) base else base
      | _ \<Rightarrow> base)"

definition plan_of ::
  "string \<Rightarrow> plan_step list \<Rightarrow> string list \<Rightarrow> string list \<Rightarrow> assistant_plan" where
  "plan_of intent steps assumptions artifacts =
     \<lparr>ap_intent = intent, ap_steps = steps, ap_assumptions = assumptions, ap_artifacts = artifacts,
      ap_refusal = PNone\<rparr>"

definition refusal_plan :: "string \<Rightarrow> pval \<Rightarrow> assistant_plan" where
  "refusal_plan intent reason =
     \<lparr>ap_intent = intent, ap_steps = [], ap_assumptions = [], ap_artifacts = [], ap_refusal = reason\<rparr>"

definition missing_entity_plan :: "string \<Rightarrow> string \<Rightarrow> assistant_plan" where
  "missing_entity_plan intent entity =
     refusal_plan intent (PStr (''The '' @ intent @ '' workflow requires a '' @ entity @ ''.''))"

text \<open>\<open>if entities.get(key) is not None: args[key] = entities[key]\<close>.\<close>

definition copy_entity :: "pdict \<Rightarrow> string \<Rightarrow> pdict \<Rightarrow> pdict" where
  "copy_entity entities key args =
     (if dict_get entities key \<noteq> PNone then dict_set key (dict_get entities key) args else args)"

subsection \<open>One builder per intent\<close>

type_synonym plan_builder = "planner_env \<Rightarrow> pdict \<Rightarrow> assistant_plan"

definition build_scan_plan :: plan_builder where
  "build_scan_plan env entities =
     plan_of ''scan_candidates''
       [plan_step_of env 0 ''watchlist.scan'' (let args = date_args entities [] in
          if truthy (dict_get entities ''universe'')
          then dict_set ''universe'' (dict_get entities ''universe'') args else args)
          ''Retrieve ranked research candidates'' ''READ_WATCHLIST'']
       [] [''daily_watchlist'', ''candidate_score'']"

definition build_filter_plan :: plan_builder where
  "build_filter_plan env entities =
     plan_of ''filter_candidates''
       [plan_step_of env 0 ''watchlist.filter'' (date_args entities [(''filters'', dict_get_or entities ''filters'' (PDict []))])
          ''Filter candidates by criteria'' ''READ_WATCHLIST'']
       [] [''candidate_score'']"

definition build_compare_plan :: plan_builder where
  "build_compare_plan env entities =
     (let symbols = resolve_symbols entities;
          many = date_args entities [(''symbols'', PList (map PStr symbols))] in
      plan_of ''compare_symbols''
        [plan_step_of env 0 ''candidate.compare'' many
          ''Compare candidate scores and evidence'' ''READ_SCORE'',
        (if 1 < length symbols
         then plan_step_of env 1 ''quality.get_many_status'' many
          ''Check data quality for each symbol'' ''READ_QUALITY''
         else plan_step_of env 1 ''quality.get_status''
           (case symbols of [] \<Rightarrow> many | s # _ \<Rightarrow> date_args entities [(''symbol'', PStr s)])
           ''Check data quality for each symbol'' ''READ_QUALITY'')]
        [] [''candidate_score'', ''canonical_ohlcv''])"

definition build_explain_plan :: plan_builder where
  "build_explain_plan env entities =
     (let symbol = resolve_symbol entities in
      if symbol = [] then missing_entity_plan ''explain_symbol'' ''symbol''
      else
        (let args = date_args entities [(''symbol'', PStr symbol)] in
         plan_of ''explain_symbol''
           [plan_step_of env 0 ''candidate.explain'' args
          ''Explain candidate score and evidence'' ''READ_SCORE'',
           plan_step_of env 1 ''lineage.get_symbol_lineage'' args
          ''Retrieve data lineage'' ''READ_LINEAGE'',
           plan_step_of env 2 ''quality.get_status'' args
          ''Check data quality status'' ''READ_QUALITY'']
           [] [''candidate_score'', ''ingestion_run'']))"

definition provision_step ::
  "planner_env \<Rightarrow> pdict \<Rightarrow> string \<Rightarrow> bool \<Rightarrow> bool \<Rightarrow> plan_step" where
  "provision_step env entities symbol refresh data_only =
     (let args0 = date_args entities [(''symbol'', PStr symbol)];
          args1 = (if refresh then dict_set ''refresh'' (PBool True) args0 else args0);
          args2 = (if data_only then dict_set ''data_only'' (PBool True) args1 else args1) in
      plan_step_of env 0 ''data.ensure_current_symbol'' args2
        (if refresh then ''Refresh and validate the minimum current-symbol data''
         else ''Provision and validate the minimum current-symbol data'') ''WRITE_DATA'')"

definition build_deep_analysis_plan :: plan_builder where
  "build_deep_analysis_plan env entities =
     (let symbol = resolve_symbol entities in
      if symbol = [] then missing_entity_plan ''deep_analyze_symbol'' ''symbol''
      else
        plan_of ''deep_analyze_symbol''
          [plan_step_of env 0 ''analysis.current_symbol'' (date_args entities [(''symbol'', PStr symbol)])
          ''Inspect readiness, queue one repair if needed, and compose permitted research context'' ''READ_SCORE'']
          [''Only persisted warehouse artifacts are authoritative.''] [''candidate_score'', ''feature_snapshot'', ''canonical_ohlcv''])"

definition build_quality_plan :: plan_builder where
  "build_quality_plan env entities =
     (let symbol = resolve_symbol entities;
          args = (if symbol \<noteq> [] then dict_set ''symbol'' (PStr symbol) (date_args entities [])
                  else date_args entities []) in
      plan_of ''review_quality''
        [plan_step_of env 0 ''quality.get_status'' args
          ''Review data quality status'' ''READ_QUALITY'']
        [] [''canonical_ohlcv''])"

definition build_market_regime_plan :: plan_builder where
  "build_market_regime_plan env entities =
     plan_of ''review_market_regime''
       [plan_step_of env 0 ''market.get_regime'' (date_args entities [])
          ''Review persisted market regime research context'' ''READ_FEATURES'']
       [] [''market_regime_snapshot'']"

definition build_sector_strength_plan :: plan_builder where
  "build_sector_strength_plan env entities =
     plan_of ''review_sector_strength''
       [plan_step_of env 0 ''sector.get_strength'' (copy_entity entities ''top'' (date_args entities []))
          ''Review persisted sector strength research context'' ''READ_FEATURES'']
       [] [''sector_strength_snapshot'']"

definition build_symbol_sector_alignment_plan :: plan_builder where
  "build_symbol_sector_alignment_plan env entities =
     (let symbol = resolve_symbol entities in
      if symbol = [] then missing_entity_plan ''review_symbol_sector_alignment'' ''symbol''
      else
        plan_of ''review_symbol_sector_alignment''
          [plan_step_of env 0 ''sector.get_symbol_alignment'' (date_args entities [(''symbol'', PStr symbol)])
          (''Review a symbol'' @ [CHR 39] @ ''s persisted sector alignment'') ''READ_FEATURES'']
          [] [''symbol_master'', ''sector_strength_snapshot''])"

definition build_watchlist_deep_plan :: plan_builder where
  "build_watchlist_deep_plan env entities =
     plan_of ''summarize_watchlist_deep''
       [plan_step_of env 0 ''watchlist.summarize_deep'' (copy_entity entities ''top'' (date_args entities []))
          ''Summarize candidate classes, setups, sectors, quality, and risks'' ''READ_WATCHLIST'']
       [] [''daily_watchlist'', ''candidate_score'', ''market_regime_snapshot'']"

definition build_shortlist_plan :: plan_builder where
  "build_shortlist_plan env entities =
     plan_of ''generate_shortlist''
       [plan_step_of env 0 ''shortlist.generate'' (copy_entity entities ''min_score'' (copy_entity entities ''top'' (date_args entities [])))
          ''Rank a bounded research shortlist from persisted evidence'' ''READ_WATCHLIST'',
       plan_step_of env 1 ''market.get_regime'' (date_args entities [])
          ''Attach persisted market context to the shortlist review'' ''READ_FEATURES'']
       [''The shortlist is research prioritization only, not an execution or allocation list.''] [''daily_watchlist'', ''candidate_score'', ''sector_strength_snapshot'', ''market_regime_snapshot'']"

definition build_scenario_plan :: plan_builder where
  "build_scenario_plan env entities =
     (let symbol = resolve_symbol entities in
      if symbol = [] then missing_entity_plan ''generate_research_scenario'' ''symbol''
      else
        plan_of ''generate_research_scenario''
          [plan_step_of env 0 ''scenario.generate_research_plan'' (date_args entities [(''symbol'', PStr symbol)])
          ''Build conditional base, confirmation, failed-confirmation, and low-quality-drift research scenarios'' ''READ_SCORE'']
          [''Scenario conditions are descriptive research context and never execution instructions.''] [''candidate_score'', ''feature_snapshot'', ''canonical_ohlcv''])"

definition build_setup_evidence_plan :: plan_builder where
  "build_setup_evidence_plan env entities =
     (let setup_type = upper (strip (py_str (pe_repr env) (dict_get_or entities ''setup_type'' (PStr []))));
          args = date_args entities [(''setup_type'', PStr setup_type)] in
      if setup_type = [] then missing_entity_plan ''review_setup_evidence'' ''setup_type''
      else
        plan_of ''review_setup_evidence''
          [plan_step_of env 0 ''evidence.get_setup_history'' 
          (if dict_get entities ''horizon_sessions'' \<noteq> PNone
           then dict_set ''horizon_sessions'' (dict_get entities ''horizon_sessions'') args
           else if dict_get entities ''horizon'' \<noteq> PNone
           then dict_set ''horizon_sessions'' (dict_get entities ''horizon'') args
           else args)
          ''Review persisted historical outcome evidence for the setup'' ''READ_HISTORY'']
          [] [''setup_type_performance'', ''candidate_outcome''])"

definition build_lineage_plan :: plan_builder where
  "build_lineage_plan env entities =
     (let symbol = resolve_symbol entities in
      if symbol = [] then missing_entity_plan ''show_lineage'' ''symbol''
      else
        plan_of ''show_lineage''
          [plan_step_of env 0 ''lineage.get_symbol_lineage'' (date_args entities [(''symbol'', PStr symbol)])
          ''Show data lineage'' ''READ_LINEAGE'']
          [] [''candidate_score'', ''ingestion_run''])"

definition build_summarize_plan :: plan_builder where
  "build_summarize_plan env entities =
     plan_of ''summarize_watchlist''
       [plan_step_of env 0 ''watchlist.scan'' (date_args entities [])
          ''Retrieve candidates for a short summary'' ''READ_WATCHLIST'']
       [] [''daily_watchlist'']"

definition build_note_plan :: plan_builder where
  "build_note_plan env entities =
     plan_of ''create_research_note''
       [plan_step_of env 0 ''note.create'' 
          (let args = [(''symbol'', PStr (resolve_symbol entities)),
                       (''note_text'', dict_get_or entities ''note_text'' (PStr []))] in
           if truthy (dict_get entities ''tags'')
           then dict_set ''tags'' (dict_get entities ''tags'') args else args)
          ''Persist research note'' ''WRITE_NOTE'']
       [] []"

definition build_history_plan :: plan_builder where
  "build_history_plan env entities =
     plan_of ''show_history''
       [plan_step_of env 0 ''history.list_sessions'' [(''limit'', dict_get_or entities ''limit'' (PInt 20))]
          ''List recent research sessions'' ''READ_HISTORY'']
       [] []"

definition build_fetch_plan :: plan_builder where
  "build_fetch_plan env entities =
     (let symbol = resolve_symbol entities in
      if symbol = [] then missing_entity_plan ''fetch_data'' ''symbol''
      else
        plan_of ''fetch_data''
          [provision_step env entities symbol True True]
          [''Provisioning is bounded to deterministic OHLCV and canonical data for the current symbol; it never performs arbitrary or unrestricted data fetching.''] [''canonical_ohlcv''])"

definition build_sandbox_plan :: plan_builder where
  "build_sandbox_plan env entities =
     plan_of ''sandbox_research_calculation''
       [plan_step_of env 0 ''sandbox.run_research_code'' 
          [(''purpose'', PStr (strip (py_str (pe_repr env)
              (dict_get_or entities ''purpose'' (PStr ''offline research calculation'')))))]
          ''Prepare an approval-gated sandbox research calculation'' ''SANDBOX_APPROVAL'']
       [] []"

definition build_refusal_plan :: plan_builder where
  "build_refusal_plan env entities =
     refusal_plan ''unsupported_or_unsafe''
       (dict_get_or entities ''reason'' (PStr ''This request is not supported in the research assistant.''))"

subsection \<open>Research automation\<close>

definition live_execution_pattern :: regex where
  "live_execution_pattern =
     Seq Word_Boundary
       (Seq (alts [lit ''deploy'', lit ''broker'', lit ''order'', lit ''live trade'', lit ''execute trade'',
                   lit ''portfolio'', lit ''margin'', lit ''transfer'']) Word_Boundary)"

definition common_artifacts :: "string list" where
  "common_artifacts =
     [''research_artifact'', ''manifest.json'', ''result.json'', ''summary.md'', ''lineage.json'', ''validation.json'']"

definition common_assumptions :: "string list" where
  "common_assumptions =
     [''Dataset refs and warehouse coverage are resolved before computation.'',
      ''Generated code: none; this plan uses an approved deterministic research tool.'',
      ''Caveats include sample size, coverage, data quality, lookahead, survivorship, and research-only status.'']"

definition automation_plan ::
  "planner_env \<Rightarrow> string \<Rightarrow> string \<Rightarrow> pdict \<Rightarrow> string \<Rightarrow> assistant_plan" where
  "automation_plan env intent tool arguments purpose =
     plan_of intent
       [plan_step_of env 0 tool (filter (\<lambda>(k, v). v \<noteq> PNone) arguments) purpose ''WRITE_DATA'']
       common_assumptions common_artifacts"

text \<open>\<open>entities.get(a) or entities.get(b)\<close>.\<close>

definition either_entity :: "pdict \<Rightarrow> string \<Rightarrow> string \<Rightarrow> pval" where
  "either_entity entities a b = py_or (dict_get entities a) (dict_get entities b)"

definition indicator_plan :: plan_builder where
  "indicator_plan env entities =
     automation_plan env ''create_indicator_experiment'' ''research.indicator.run''
       [(''description'', either_entity entities ''description'' ''indicator''),
        (''universe'', dict_get entities ''universe''),
        (''start_date'', either_entity entities ''start_date'' ''start''),
        (''end_date'', either_entity entities ''end_date'' ''end'')]
       ''Resolve a dataset and run a relative-strength indicator experiment''"

definition feature_plan :: plan_builder where
  "feature_plan env entities =
     automation_plan env ''create_feature'' ''research.feature.create''
       [(''definition'', dict_get entities ''definition''),
        (''universe'', dict_get entities ''universe'')]
       ''Persist a reproducible research feature definition''"

definition validate_feature_plan :: plan_builder where
  "validate_feature_plan env entities =
     automation_plan env ''validate_feature'' ''research.feature.validate''
       [(''feature'', either_entity entities ''feature'' ''feature_name'')]
       ''Validate feature schema, symbol coverage, date coverage, and quality''"

definition hypothesis_plan :: plan_builder where
  "hypothesis_plan env entities =
     automation_plan env ''test_hypothesis'' ''research.hypothesis.test''
       [(''hypothesis'', either_entity entities ''hypothesis'' ''description'')]
       ''Evaluate a bounded historical hypothesis as evidence''"

definition pattern_plan :: plan_builder where
  "pattern_plan env entities =
     automation_plan env ''scan_pattern'' ''research.pattern.scan''
       [(''pattern'', either_entity entities ''pattern'' ''description''),
        (''universe'', dict_get entities ''universe''),
        (''date'', dict_get entities ''date'')]
       ''Scan persisted historical features for a supported pattern''"

definition event_study_plan :: plan_builder where
  "event_study_plan env entities =
     (let condition = py_str (pe_repr env)
            (py_or (either_entity entities ''event_condition'' ''description'') (PStr [])) in
      if searches live_execution_pattern condition
      then refusal_plan ''run_offline_event_study''
        (PStr ''Live execution is unsupported; only offline research event studies are allowed.'')
      else automation_plan env ''run_offline_event_study'' ''research.event_study.run''
        [(''event_condition'', PStr condition),
         (''horizon'', dict_get_or entities ''horizon'' (PInt 10)),
         (''start_date'', either_entity entities ''start_date'' ''start''),
         (''end_date'', either_entity entities ''end_date'' ''end'')]
        ''Run an offline research event study without trading execution'')"

definition research_automation_plan_builders :: "(string \<times> plan_builder) list" where
  "research_automation_plan_builders =
     [(''create_indicator_experiment'', indicator_plan),
      (''create_feature'', feature_plan),
      (''validate_feature'', validate_feature_plan),
      (''test_hypothesis'', hypothesis_plan),
      (''scan_pattern'', pattern_plan),
      (''run_offline_event_study'', event_study_plan)]"

subsection \<open>The plan builder\<close>

definition plan_builders :: "(string \<times> plan_builder) list" where
  "plan_builders =
     [(''scan_candidates'', build_scan_plan),
      (''filter_candidates'', build_filter_plan),
      (''compare_symbols'', build_compare_plan),
      (''explain_symbol'', build_explain_plan),
      (''deep_analyze_symbol'', build_deep_analysis_plan),
      (''review_quality'', build_quality_plan),
      (''review_market_regime'', build_market_regime_plan),
      (''review_sector_strength'', build_sector_strength_plan),
      (''review_symbol_sector_alignment'', build_symbol_sector_alignment_plan),
      (''summarize_watchlist'', build_summarize_plan),
      (''summarize_watchlist_deep'', build_watchlist_deep_plan),
      (''generate_shortlist'', build_shortlist_plan),
      (''generate_research_scenario'', build_scenario_plan),
      (''review_setup_evidence'', build_setup_evidence_plan),
      (''show_lineage'', build_lineage_plan),
      (''create_research_note'', build_note_plan),
      (''show_history'', build_history_plan),
      (''fetch_data'', build_fetch_plan),
      (''sandbox_research_calculation'', build_sandbox_plan),
      (''unsupported_or_unsafe'', build_refusal_plan)] @ research_automation_plan_builders"

definition validate_plan :: "assistant_plan \<Rightarrow> plan_error + unit" where
  "validate_plan plan =
     (if is_refusal plan then Inr ()
      else case find (\<lambda>s. \<not> is_assistant_plan_tool (ps_tool s)) (ap_steps plan) of
        None \<Rightarrow> Inr ()
      | Some s \<Rightarrow> Inl (Plan_Validation_Error (ps_tool s)))"

text \<open>
  The builders raise nothing: every look-up has a default and a malformed symbol is caught.  So the
  clause that turns an exception of theirs into \<open>PlanBuildError\<close> is not reached.
\<close>

definition build_plan :: "planner_env \<Rightarrow> intent_result \<Rightarrow> plan_error + assistant_plan" where
  "build_plan env ir =
     (let builder = (case map_of plan_builders (ir_intent ir) of None \<Rightarrow> build_refusal_plan | Some b \<Rightarrow> b);
          plan = builder env (ir_entities ir) in
      res_bind (validate_plan plan) (\<lambda>_. Inr plan))"

end
