(* ===== verification/Intents.thy ===== *)
theory Intents
  imports Planner
begin

section \<open>Requests and their classification\<close>

text \<open>
  \<open>assistant/response_json.py\<close>, \<open>assistant/intent.py\<close> and \<open>assistant/policy.py\<close>: the refusal of requests by
  their words, the classification by a language model with its repair and its fallback, and the checks
  of the answer.  \<open>json.loads\<close>, \<open>float\<close> of a text and what the model answers are arguments.  Letters
  are the ASCII ones, also where Python counts others to a word.
\<close>

subsection \<open>Words in a text\<close>

text \<open>\<open>s.find(p)\<close> and \<open>s.rfind(p)\<close>.\<close>

definition first_index :: "string \<Rightarrow> string \<Rightarrow> nat option" where
  "first_index p s = find (\<lambda>i. starts_with (drop i s) p) [0..<Suc (length s)]"

definition last_index :: "string \<Rightarrow> string \<Rightarrow> nat option" where
  "last_index p s = find (\<lambda>i. starts_with (drop i s) p) (rev [0..<Suc (length s)])"

text \<open>\<open>(?<!\w)p(?!\w)\<close> somewhere in the text.\<close>

definition occurs_as_word :: "string \<Rightarrow> string \<Rightarrow> bool" where
  "occurs_as_word p s =
     list_ex (\<lambda>i. starts_with (drop i s) p \<and>
        \<not> (0 < i \<and> word_char (s ! (i - 1))) \<and>
        \<not> (i + length p < length s \<and> word_char (s ! (i + length p)))) [0..<Suc (length s)]"

definition is_letter :: "char \<Rightarrow> bool" where
  "is_letter c \<longleftrightarrow> is_upper_letter c \<or> is_lower_letter c"

text \<open>
  The maximal runs of word characters, of which \<open>\b([A-Za-z]+)\b\<close> finds those made of letters.
\<close>

fun word_runs :: "string \<Rightarrow> string \<Rightarrow> string list" where
  "word_runs run [] = (if run = [] then [] else [rev run])"
| "word_runs run (c # s) =
     (if word_char c then word_runs (c # run) s
      else if run = [] then word_runs [] s else rev run # word_runs [] s)"

definition letter_words :: "string \<Rightarrow> string list" where
  "letter_words s = filter (list_all is_letter) (word_runs [] s)"

subsection \<open>The request policy\<close>

record refusal_error =
  re_reason :: string
  re_category :: string
  re_suggestion :: "string option"

definition trading_execution_phrases :: "string list" where
  "trading_execution_phrases =
     [''buy'', ''sell'', ''order'', ''place order'', ''execute trade'', ''execute a trade'',
      ''broker'', ''account management'', ''portfolio management'', ''autonomous trade'',
      ''short sell'', ''long position'']"

definition unavailable_tool_phrases :: "string list" where
  "unavailable_tool_phrases =
     [''web search'', ''search the web'', ''fetch url'', ''browse'', ''python code'', ''run code'',
      ''execute code'', ''mcp'', ''filesystem'', ''read file'', ''write file'', ''codebase'',
      ''sql query'', ''raw sql'']"

definition safety_bypass_phrases :: "string list" where
  "safety_bypass_phrases =
     [''hide trace'', ''disable trace'', ''bypass safety'', ''ignore safety'', ''fabricate'',
      ''invent data'', ''make up data'', ''fake data'', ''override score'', ''change the score'',
      ''modify the score'']"

definition prediction_certainty_phrases :: "string list" where
  "prediction_certainty_phrases =
     [''guaranteed'', ''will definitely'', ''100% sure'', ''certain to'', ''always profitable'',
      ''risk-free'']"

definition output_execution_phrases :: "string list" where
  "output_execution_phrases =
     [''buy now'', ''sell now'', ''place order'', ''execute order'', ''execute a trade'',
      ''buy order'', ''sell order'', ''position size'', ''allocate capital'', ''use margin'',
      ''contact broker'']"

definition check_policy :: "string \<Rightarrow> refusal_error option" where
  "check_policy prompt =
     (let low = lower prompt in
      if list_ex (\<lambda>p. occurs_in p low) trading_execution_phrases
      then Some \<lparr>re_reason = ''This request involves trading execution, account or allocation management. The research assistant supports research only.'',
              re_category = ''TRADING_EXECUTION'',
              re_suggestion = Some (''Ask about a symbol'' @ [CHR 0x27] @ ''s score, setup, risk flags, or data quality instead.'')\<rparr>
      else if list_ex (\<lambda>p. occurs_in p low) unavailable_tool_phrases
      then Some \<lparr>re_reason = ''This request requires tools not available in this phase (web search, code execution, MCP, raw SQL, filesystem access).'',
              re_category = ''UNAVAILABLE_TOOL'',
              re_suggestion = Some ''Use bounded local research tools instead.''\<rparr>
      else if list_ex (\<lambda>p. occurs_in p low) safety_bypass_phrases
      then Some \<lparr>re_reason = ''Requests to bypass controls, hide traces, or fabricate data are not allowed.'',
              re_category = ''SAFETY_BYPASS'',
              re_suggestion = None\<rparr>
      else if list_ex (\<lambda>p. occurs_in p low) prediction_certainty_phrases
      then Some \<lparr>re_reason = ''The research assistant cannot make guaranteed predictions.'',
              re_category = ''PREDICTION_CERTAINTY'',
              re_suggestion = Some ''Ask for current persisted evidence and caveats instead.''\<rparr>
      else None)"

text \<open>The category of the refusal is the first flag as it is.\<close>

definition check_intent_policy :: "intent_result \<Rightarrow> (string \<times> pval) option" where
  "check_intent_policy ir =
     (if ir_intent ir = ''unsupported_or_unsafe''
      then Some (''This request is not supported by the research assistant.'',
             case ir_safety_flags ir of [] \<Rightarrow> PStr ''UNSUPPORTED'' | f # _ \<Rightarrow> f)
      else None)"

subsection \<open>Answers\<close>

record assistant_answer =
  aa_summary :: string
  aa_basis :: string
  aa_risks_caveats :: string
  aa_tool_trace_summary :: string
  aa_missing_data :: "string list"
  aa_grounded_source_refs :: "string list"
  aa_research_metadata :: pdict
  aa_claim_source_refs :: "(string \<times> string list) list"

definition policy_sensitive_research_intents :: "string list" where
  "policy_sensitive_research_intents =
     [''generate_shortlist'', ''generate_research_scenario'', ''create_indicator_experiment'',
      ''create_feature'', ''validate_feature'', ''test_hypothesis'', ''scan_pattern'',
      ''run_offline_event_study'']"

record research_policy_result =
  rp_status :: string
  rp_violations :: "string list"
  rp_disclaimer :: bool

text \<open>The phrases found are in the order of the source; Python's order of a set is not fixed.\<close>

definition validate_research_answer_policy ::
  "assistant_answer \<Rightarrow> string \<Rightarrow> research_policy_result" where
  "validate_research_answer_policy a intent =
     (let txt = lower (aa_summary a @ '' '' @ aa_basis a @ '' '' @ aa_risks_caveats a);
          found = filter (\<lambda>p. occurs_in p txt) output_execution_phrases;
          disclaimer = list_ex (\<lambda>p. occurs_in p txt)
            [''research-only'', ''research only'', ''not a recommendation''];
          violations =
            (if intent \<in> set policy_sensitive_research_intents \<and> \<not> disclaimer
             then found @ [''missing research-only disclaimer''] else found) in
      \<lparr>rp_status = (if violations = [] then ''PASS'' else ''FAIL''), rp_violations = remdups violations,
       rp_disclaimer = disclaimer\<rparr>)"

subsection \<open>JSON in a response\<close>

definition fence :: string where
  "fence = ''```''"

definition strip_markdown_fence :: "string \<Rightarrow> string" where
  "strip_markdown_fence t =
     (let stripped = strip t in
      if \<not> starts_with stripped fence then stripped
      else case first_index newline stripped of
        None \<Rightarrow> stripped
      | Some i \<Rightarrow>
          (let inner = drop (i + 1) stripped in
           strip (case last_index fence inner of None \<Rightarrow> inner | Some k \<Rightarrow> take k inner)))"

text \<open>The scan from the first brace on, with what it passed in reverse.\<close>

fun scan_object :: "nat \<Rightarrow> bool \<Rightarrow> bool \<Rightarrow> string \<Rightarrow> string \<Rightarrow> string option" where
  "scan_object d in_string esc acc [] = None"
| "scan_object d in_string esc acc (c # s) =
     (if in_string then
        scan_object d (esc \<or> c \<noteq> CHR 34) (\<not> esc \<and> c = CHR 92) (c # acc) s
      else if c = CHR 34 then scan_object d True False (c # acc) s
      else if c = CHR ''{'' then scan_object (d + 1) False False (c # acc) s
      else if c = CHR ''}'' then
        (if d = 1 then Some (rev (c # acc)) else scan_object (d - 1) False False (c # acc) s)
      else scan_object d False False (c # acc) s)"

definition extract_json_from_text :: "string \<Rightarrow> string option" where
  "extract_json_from_text t =
     (case first_index ''{'' t of None \<Rightarrow> None | Some i \<Rightarrow> scan_object 0 False False [] (drop i t))"

datatype request_error =
    Intent_Classification_Error
  | Input_Validation_Error symbol_format_error
  | Raised_Type_Error
  | Raised_Overflow_Error

record classifier_env =
  ce_loads :: "string \<Rightarrow> pval option"
  ce_float :: "string \<Rightarrow> rat option"

text \<open>The first of the candidates that is a JSON object.\<close>

fun first_object :: "(string \<Rightarrow> pval option) \<Rightarrow> string list \<Rightarrow> pdict option" where
  "first_object loads [] = None"
| "first_object loads (t # ts) =
     (if t = [] then first_object loads ts
      else case loads t of Some (PDict d) \<Rightarrow> Some d | _ \<Rightarrow> first_object loads ts)"

definition parse_json_response :: "(string \<Rightarrow> pval option) \<Rightarrow> string \<Rightarrow> pdict option" where
  "parse_json_response loads t =
     (let clean = strip_markdown_fence t in
      first_object loads
        ([t] @ (if clean \<noteq> t then [clean] else []) @
         (case extract_json_from_text t of None \<Rightarrow> [] | Some e \<Rightarrow> [e])))"

definition as_list :: "pval \<Rightarrow> pval list option" where
  "as_list v = (case v of PList xs \<Rightarrow> Some xs | _ \<Rightarrow> None)"

definition claim_refs :: "(pval \<Rightarrow> string) \<Rightarrow> pdict \<Rightarrow> (string \<times> string list) list" where
  "claim_refs rp d =
     foldl (\<lambda>acc (k, refs).
       case as_list refs of
         None \<Rightarrow> acc
       | Some xs \<Rightarrow>
           if strip k = [] then acc
           else dict_set (strip k) (rev (remdups (rev (map (py_str rp) (filter truthy xs))))) acc) [] d"

definition parse_synthesis_response ::
  "classifier_env \<Rightarrow> (pval \<Rightarrow> string) \<Rightarrow> string \<Rightarrow> assistant_answer option" where
  "parse_synthesis_response ce rp t =
     (case parse_json_response (ce_loads ce) t of
        None \<Rightarrow> None
      | Some d \<Rightarrow>
          (let text_of = (\<lambda>k. py_str rp (dict_get_or d k (PStr [])));
               missing = dict_get_or d ''missing_data'' (PList []) in
           Some \<lparr>aa_summary = text_of ''summary'', aa_basis = text_of ''basis'',
             aa_risks_caveats = text_of ''risks_caveats'', aa_tool_trace_summary = text_of ''tool_trace_summary'',
             aa_missing_data =
               (case as_list missing of None \<Rightarrow> [py_str rp missing] | Some xs \<Rightarrow> map (py_str rp) xs),
             aa_grounded_source_refs =
               (case as_list (dict_get_or d ''grounded_source_refs'' (PList [])) of
                  None \<Rightarrow> [] | Some xs \<Rightarrow> map (py_str rp) xs),
             aa_research_metadata = [],
             aa_claim_source_refs =
               (case dict_get_or d ''claim_source_refs'' (PDict []) of PDict c \<Rightarrow> claim_refs rp c | _ \<Rightarrow> [])\<rparr>))"

subsection \<open>The response of the classifier\<close>

definition research_intelligence_intents :: "string list" where
  "research_intelligence_intents =
     [''deep_analyze_symbol'', ''review_market_regime'', ''review_sector_strength'',
      ''summarize_watchlist_deep'', ''generate_shortlist'', ''generate_research_scenario'',
      ''review_setup_evidence'', ''create_indicator_experiment'', ''create_feature'',
      ''validate_feature'', ''test_hypothesis'', ''scan_pattern'', ''run_offline_event_study'']"

definition supported_intents :: "string list" where
  "supported_intents =
     [''scan_candidates'', ''filter_candidates'', ''compare_symbols'', ''explain_symbol'',
      ''review_quality'', ''review_symbol_sector_alignment'', ''show_lineage'',
      ''summarize_watchlist'', ''create_research_note'', ''show_history'', ''fetch_data'',
      ''sandbox_research_calculation'', ''unsupported_or_unsafe''] @ research_intelligence_intents"

definition intent_aliases :: "(string \<times> string) list" where
  "intent_aliases =
     [(''get_stock_info'', ''explain_symbol''), (''show_stock_info'', ''explain_symbol''),
      (''get_stock'', ''explain_symbol'')]"

definition symbol_requiring_intents :: "string list" where
  "symbol_requiring_intents =
     [''explain_symbol'', ''deep_analyze_symbol'', ''review_symbol_sector_alignment'',
      ''generate_research_scenario'', ''show_lineage'', ''compare_symbols'']"

definition symbol_stopwords :: "string list" where
  "symbol_stopwords =
     [''CP'', ''CK'', ''MA'', ''VN'', ''USD'', ''VND'', ''PE'', ''PB'', ''EPS'', ''ROE'', ''ROA'',
      ''AND'', ''THE'', ''FOR'', ''WHY'', ''HOW'', ''CUA'', ''VOI'', ''CHO'', ''NAO'', ''HAY'',
      ''XEM'']"

definition ticker_cues :: "string list" where
  "ticker_cues =
     [''CP'', ''CK'', ''MA'', ''STOCK'', ''SYMBOL'', ''TICKER'', ''PHIEU'', ''MASP'']"

text \<open>A list with \<open>x\<close> appended unless it holds it.\<close>

definition add_new :: "'a \<Rightarrow> 'a list \<Rightarrow> 'a list" where
  "add_new x xs = (if x \<in> set xs then xs else xs @ [x])"

definition ticker_shaped :: "string \<Rightarrow> bool" where
  "ticker_shaped t \<longleftrightarrow> length t = 3 \<and> list_all is_letter t \<and> t \<notin> set symbol_stopwords"

fun cued_symbols :: "string list \<Rightarrow> string list \<Rightarrow> string list" where
  "cued_symbols acc (w # v # ws) =
     cued_symbols (if w \<in> set ticker_cues \<and> ticker_shaped v then add_new v acc else acc) (v # ws)"
| "cued_symbols acc ws = acc"

definition recover_symbols_from_prompt :: "string \<Rightarrow> string list" where
  "recover_symbols_from_prompt prompt =
     (let raw = letter_words prompt;
          cued = cued_symbols [] (map upper raw) in
      if cued \<noteq> [] then cued
      else foldl (\<lambda>acc w. if list_all is_upper_letter w \<and> ticker_shaped (upper w) then add_new (upper w) acc else acc)
             [] raw)"

text \<open>\<open>s.replace("-", "_")\<close>.\<close>

definition intent_of_value :: "pval \<Rightarrow> string" where
  "intent_of_value v =
     (let raw = (case v of PStr s \<Rightarrow> s | _ \<Rightarrow> ''unsupported_or_unsafe'');
          i = map (\<lambda>c. if c = CHR ''-'' then CHR ''_'' else c) (lower (strip raw));
          j = (if i \<in> set supported_intents then i
               else case map_of intent_aliases i of None \<Rightarrow> ''unsupported_or_unsafe'' | Some a \<Rightarrow> a) in
      if j \<in> set supported_intents then j else ''unsupported_or_unsafe'')"

definition prepare_entities :: "string \<Rightarrow> string \<Rightarrow> pdict \<Rightarrow> request_error + pdict" where
  "prepare_entities prompt intent entities =
     (if intent \<notin> set symbol_requiring_intents then Inr entities
      else case apply_canonical_symbols entities of
        Inl err \<Rightarrow> Inl (Input_Validation_Error err)
      | Inr (entities', c) \<Rightarrow>
          (let recovered = recover_symbols_from_prompt prompt in
           if cs_primary c = None \<and> prompt \<noteq> [] \<and> recovered \<noteq> []
           then case apply_canonical_symbols (dict_set ''symbols'' (PList (map PStr recovered)) entities') of
             Inl err \<Rightarrow> Inl (Input_Validation_Error err)
           | Inr (entities'', _) \<Rightarrow> Inr entities''
           else Inr entities'))"

text \<open>
  \<open>float(value)\<close> with the default 0.5; an integer too large for a double raises another exception.
\<close>

definition max_double_int :: int where
  "max_double_int = 2 ^ 1024 - 2 ^ 970"

definition confidence_of :: "classifier_env \<Rightarrow> pval \<Rightarrow> request_error + rat" where
  "confidence_of ce v =
     (case v of
        PBool b \<Rightarrow> Inr (if b then 1 else 0)
      | PInt i \<Rightarrow> if max_double_int \<le> \<bar>i\<bar> then Inl Raised_Overflow_Error else Inr (of_int i)
      | PFloat x \<Rightarrow> Inr x
      | PStr s \<Rightarrow> Inr (case ce_float ce s of None \<Rightarrow> 1 / 2 | Some x \<Rightarrow> x)
      | _ \<Rightarrow> Inr (1 / 2))"

text \<open>\<open>list(value)\<close>; a text gives its characters.\<close>

definition list_of_value :: "pval \<Rightarrow> request_error + pval list" where
  "list_of_value v =
     (case v of
        PList xs \<Rightarrow> Inr xs
      | PTuple xs \<Rightarrow> Inr xs
      | PStr s \<Rightarrow> Inr (map (\<lambda>c. PStr [c]) s)
      | PDict d \<Rightarrow> Inr (map (\<lambda>(k, _). PStr k) d)
      | _ \<Rightarrow> Inl Raised_Type_Error)"

definition parse_classifier_response ::
  "classifier_env \<Rightarrow> string \<Rightarrow> string \<Rightarrow> request_error + intent_result" where
  "parse_classifier_response ce t prompt =
     (case parse_json_response (ce_loads ce) t of
        None \<Rightarrow> Inl Intent_Classification_Error
      | Some d \<Rightarrow>
          (let intent = intent_of_value (dict_get_or d ''intent'' (PStr ''unsupported_or_unsafe''));
               entities = (case dict_get_or d ''entities'' (PDict []) of PDict e \<Rightarrow> e | _ \<Rightarrow> []) in
           res_bind (prepare_entities prompt intent entities) (\<lambda>entities'.
           res_bind (confidence_of ce (dict_get_or d ''confidence'' (PFloat (1 / 2)))) (\<lambda>confidence.
           res_bind (list_of_value (dict_get_or d ''safety_flags'' (PList []))) (\<lambda>flags.
             Inr \<lparr>ir_intent = intent, ir_confidence = confidence, ir_entities = entities',
                  ir_needs_clarification = truthy (dict_get_or d ''needs_clarification'' (PBool False)),
                  ir_clarification_question = dict_get d ''clarification_question'',
                  ir_safety_flags = flags\<rparr>)))))"

subsection \<open>The classifier\<close>

definition unsafe_keywords :: "string list" where
  "unsafe_keywords =
     [''buy'', ''sell'', ''order'', ''place order'', ''execute trade'', ''execute a trade'',
      ''broker'', ''account'', ''portfolio'', ''invest'', ''purchase'', ''transaction'', ''short'',
      ''long position'', ''guaranteed'', ''will go up'', ''will go down'', ''hide trace'',
      ''bypass'', ''fabricate'', ''ignore safety'', ''disable safety'']"

definition watchlist_keyword_patterns :: "string list" where
  "watchlist_keyword_patterns =
     [''watchlist'', ''watch list'', ''watchlist-summary'', ''watchlist summary'']"

definition watchlist_deep_keyword_patterns :: "string list" where
  "watchlist_deep_keyword_patterns =
     [''watchlist summary'', ''watchlist-summary'', ''summarize watchlist'',
      ''summarize today'' @ [CHR 0x27] @ ''s watchlist'', ''summary of watchlist'',
      ''summarize watchlist in depth'', ''deep watchlist'', ''watchlist in depth'',
      ''cau truc watchlist'',
      ''c'' @ [CHR 0xE1, CHR 0xBA, CHR 0xA5] @ ''u tr'' @ [CHR 0xC3, CHR 0xBA] @ ''c watchlist'',
      ''tom tat watchlist'',
      ''t'' @ [CHR 0xC3, CHR 0xB3] @ ''m t'' @ [CHR 0xE1, CHR 0xBA, CHR 0xAF] @ ''t watchlist'',
      ''tong hop watchlist'',
      ''t'' @ [CHR 0xE1, CHR 0xBB, CHR 0x95] @ ''ng h'' @ [CHR 0xE1, CHR 0xBB, CHR 0xA3] @ ''p watchlist'']"

definition analyze_keyword_patterns :: "string list" where
  "analyze_keyword_patterns =
     [''phan tich'', ''ph'' @ [CHR 0xC3, CHR 0xA2] @ ''n t'' @ [CHR 0xC3, CHR 0xAD] @ ''ch'',
      ''analyze'', ''analysis'', ''deep analyze'', ''deep analysis'']"

definition analyze_symbol_cues :: "string list" where
  "analyze_symbol_cues =
     [''co phieu'',
      ''c'' @ [CHR 0xE1, CHR 0xBB, CHR 0x95] @ '' phi'' @ [CHR 0xE1, CHR 0xBA, CHR 0xBF] @ ''u'',
      ''stock'', ''symbol'', ''ticker'']"

definition analyze_symbol_stopwords :: "string list" where
  "analyze_symbol_stopwords =
     [''BUY'', ''SELL'', ''THE'', ''FOR'', ''CAN'', ''TO'', ''ANALYZE'']"

definition looks_like_symbol :: "string \<Rightarrow> bool" where
  "looks_like_symbol t \<longleftrightarrow>
     2 \<le> length t \<and> length t \<le> 8 \<and> list_all is_letter t \<and> upper t \<notin> set analyze_symbol_stopwords"

text \<open>
  The group of \<open>\bcue\s+([A-Za-z]{2,8})\b\<close> at a position: the spaces after the cue and the whole run
  of word characters after them.
\<close>

definition symbol_after_cue_at :: "string \<Rightarrow> string \<Rightarrow> nat \<Rightarrow> string option" where
  "symbol_after_cue_at cue s i =
     (let rest = drop (i + length cue) s;
          run = takeWhile word_char (dropWhile is_space rest) in
      if starts_with (drop i s) cue \<and> at_word_boundary s i \<and> rest \<noteq> [] \<and> is_space (hd rest) \<and>
         2 \<le> length run \<and> length run \<le> 8 \<and> list_all is_letter run
      then Some run else None)"

definition symbol_after_cue :: "string \<Rightarrow> string \<Rightarrow> string option" where
  "symbol_after_cue cue s =
     (case find (\<lambda>i. symbol_after_cue_at cue s i \<noteq> None) [0..<Suc (length s)] of
        None \<Rightarrow> None
      | Some i \<Rightarrow> symbol_after_cue_at cue s i)"

fun first_cued :: "string list \<Rightarrow> string \<Rightarrow> string option" where
  "first_cued [] s = None"
| "first_cued (cue # cues) s =
     (case symbol_after_cue cue s of
        Some t \<Rightarrow> if looks_like_symbol (upper t) then Some (upper t) else first_cued cues s
      | None \<Rightarrow> first_cued cues s)"

definition extract_symbol_from_prompt :: "string \<Rightarrow> string option" where
  "extract_symbol_from_prompt prompt =
     (case first_cued analyze_symbol_cues (lower prompt) of
        Some t \<Rightarrow> Some t
      | None \<Rightarrow> map_option upper
          (find looks_like_symbol (filter (\<lambda>w. 2 \<le> length w \<and> length w \<le> 8) (letter_words prompt))))"

definition analysis_intent_fallback :: "string \<Rightarrow> (string \<times> pdict) option" where
  "analysis_intent_fallback prompt =
     (if \<not> list_ex (\<lambda>p. occurs_in p (lower prompt)) analyze_keyword_patterns then None
      else case extract_symbol_from_prompt prompt of
        None \<Rightarrow> None
      | Some t \<Rightarrow> Some (''deep_analyze_symbol'', [(''symbol'', PStr t)]))"

definition watchlist_intent_fallback :: "string \<Rightarrow> string option" where
  "watchlist_intent_fallback prompt =
     (let low = lower prompt in
      if \<not> list_ex (\<lambda>p. occurs_in p low) watchlist_keyword_patterns then None
      else if list_ex (\<lambda>p. occurs_in p low) watchlist_deep_keyword_patterns
      then Some ''summarize_watchlist_deep'' else Some ''scan_candidates'')"

definition intent_classification_fallback :: "string \<Rightarrow> (string \<times> pdict) option" where
  "intent_classification_fallback prompt =
     (case analysis_intent_fallback prompt of
        Some r \<Rightarrow> Some r
      | None \<Rightarrow> map_option (\<lambda>i. (i, [])) (watchlist_intent_fallback prompt))"

definition deterministic_precheck :: "string \<Rightarrow> bool" where
  "deterministic_precheck prompt = list_ex (\<lambda>k. occurs_as_word k (lower prompt)) unsafe_keywords"

definition plain_intent :: "string \<Rightarrow> rat \<Rightarrow> pdict \<Rightarrow> pval list \<Rightarrow> intent_result" where
  "plain_intent intent confidence entities flags =
     \<lparr>ir_intent = intent, ir_confidence = confidence, ir_entities = entities,
      ir_needs_clarification = False, ir_clarification_question = PNone, ir_safety_flags = flags\<rparr>"

text \<open>The fallback, or an \<open>IntentClassificationError\<close> when there is none.\<close>

definition fallback_or_error :: "string \<Rightarrow> request_error + intent_result" where
  "fallback_or_error prompt =
     (case intent_classification_fallback prompt of
        Some (intent, entities) \<Rightarrow> Inr (plain_intent intent (19 / 20) entities [])
      | None \<Rightarrow> Inl Intent_Classification_Error)"

text \<open>
  What the language model answers to the request and, when that is no JSON object, to its repair:
  a text, or an exception.
\<close>

datatype chat_outcome = Chat_Failed | Chat_Text string

definition classify ::
  "classifier_env \<Rightarrow> chat_outcome \<Rightarrow> chat_outcome \<Rightarrow> string \<Rightarrow> request_error + intent_result" where
  "classify ce first second prompt =
     (if deterministic_precheck prompt
      then Inr (plain_intent ''unsupported_or_unsafe'' 1 [] [PStr ''TRADING_EXECUTION''])
      else case first of
        Chat_Failed \<Rightarrow> fallback_or_error prompt
      | Chat_Text t \<Rightarrow>
          (case parse_classifier_response ce t prompt of
             Inl Intent_Classification_Error \<Rightarrow>
               (case second of
                  Chat_Failed \<Rightarrow> fallback_or_error prompt
                | Chat_Text u \<Rightarrow>
                    (case parse_classifier_response ce u prompt of
                       Inl _ \<Rightarrow> fallback_or_error prompt
                     | Inr ir \<Rightarrow> Inr ir))
           | r \<Rightarrow> r))"

end
