(* ===== verification/Tool_Executor.thy ===== *)
theory Tool_Executor
  imports Registries Intents
begin

section \<open>Traced execution of local tools\<close>

text \<open>
  \<open>tools/errors.py\<close>, \<open>tools/registry.py\<close>, \<open>tools/trace_support.py\<close>, \<open>tools/executor.py\<close>, the trace
  functions of \<open>warehouse/session_repo.py\<close> and the tables of \<open>warehouse/assistant_repo.py\<close>.

  A tool is a function of its arguments and of the research data of the warehouse, which it may
  change; it leaves the tables of sessions and traces alone.  The redaction of what is stored is an
  argument.  Time stamps are left out: a row records whether it is finished.  The writes to the
  observability logs, whose failures are swallowed, are left out too.
\<close>

subsection \<open>Exceptions and outputs\<close>

datatype exc =
    Tool_Permission_Error string string
  | Tool_Not_Found_Error string
  | Tool_Layer_Error string
  | Actionable_Tool_Error string
  | Deferred_Trace_State_Error
  | Assistant_Tool_Error string
  | Actionable_Assistant_Error string
  | Assistant_Refusal pval
  | Assistant_Input_Error string
  | Command_Validation_Error string
  | Warehouse_Error string
  | Constraint_Error string
  | Plan_Hash_Mismatch
  | Lifecycle_Error string string
  | Foreign_Error string string

text \<open>\<open>type(exc).__name__\<close>.\<close>

definition exc_type :: "exc \<Rightarrow> string" where
  "exc_type e =
     (case e of
        Tool_Permission_Error _ _ \<Rightarrow> ''ToolPermissionError''
      | Tool_Not_Found_Error _ \<Rightarrow> ''ToolNotFoundError''
      | Tool_Layer_Error _ \<Rightarrow> ''ToolExecutionError''
      | Actionable_Tool_Error _ \<Rightarrow> ''ActionableToolError''
      | Deferred_Trace_State_Error \<Rightarrow> ''DeferredToolTraceStateError''
      | Assistant_Tool_Error _ \<Rightarrow> ''ToolExecutionError''
      | Actionable_Assistant_Error _ \<Rightarrow> ''ActionableToolExecutionError''
      | Assistant_Refusal _ \<Rightarrow> ''RefusalError''
      | Assistant_Input_Error _ \<Rightarrow> ''AssistantInputValidationError''
      | Command_Validation_Error _ \<Rightarrow> ''CommandValidationError''
      | Warehouse_Error n \<Rightarrow> n
      | Constraint_Error _ \<Rightarrow> ''ConstraintException''
      | Plan_Hash_Mismatch \<Rightarrow> ''PreparedPlanHashMismatchError''
      | Lifecycle_Error _ _ \<Rightarrow> ''AssistantLifecycleError''
      | Foreign_Error n _ \<Rightarrow> n)"

datatype tool_output = Dataclass_Output pdict | Plain_Output pval

fun json_safe :: "pval \<Rightarrow> pval" where
  "json_safe (PDict d) = PDict (map (\<lambda>(k, v). (k, json_safe v)) d)"
| "json_safe (PList xs) = PList (map json_safe xs)"
| "json_safe (PTuple xs) = PList (map json_safe xs)"
| "json_safe v = v"

text \<open>The characters of the text are counted, not its bytes.\<close>

definition summarize_output :: "(pval \<Rightarrow> string) \<Rightarrow> tool_output \<Rightarrow> pdict" where
  "summarize_output rp out =
     (case out of
        Dataclass_Output d \<Rightarrow>
          [(''summary'', dict_get d ''summary''),
           (''rows'', case dict_get d ''data'' of PList xs \<Rightarrow> PInt (int (length xs)) | _ \<Rightarrow> PNone)]
      | Plain_Output v \<Rightarrow> [(''result'', PStr (py_take 200 (py_str rp v)))])"

subsection \<open>The registry\<close>

record tool_spec =
  tsp_name :: string
  tsp_permission :: tool_permission

type_synonym 'w tool_impl = "pdict \<Rightarrow> 'w \<Rightarrow> (exc + tool_output) \<times> 'w"

type_synonym 'w tool_registry = "(string \<times> tool_spec \<times> 'w tool_impl) list"

definition tool_register ::
  "tool_spec \<times> 'w tool_impl \<Rightarrow> 'w tool_registry \<Rightarrow> string + 'w tool_registry" where
  "tool_register t reg =
     (if permission_value (tsp_permission (fst t)) \<in> set forbidden_permissions
      then Inl (''Tool '' @ quoted (tsp_name (fst t)) @ '' attempted to use forbidden permission '' @
             quoted (permission_value (tsp_permission (fst t))) @ ''.'')
      else if map_of reg (tsp_name (fst t)) \<noteq> None
      then Inl (''Tool '' @ quoted (tsp_name (fst t)) @ '' is already registered.'')
      else Inr (dict_set (tsp_name (fst t)) t reg))"

definition tool_get_spec :: "'w tool_registry \<Rightarrow> string \<Rightarrow> exc + tool_spec" where
  "tool_get_spec reg name =
     (case map_of reg name of None \<Rightarrow> Inl (Tool_Not_Found_Error name) | Some (spec, _) \<Rightarrow> Inr spec)"

definition tool_names :: "'w tool_registry \<Rightarrow> string list" where
  "tool_names reg = sort (map fst reg)"

definition tool_call ::
  "'w tool_registry \<Rightarrow> string \<Rightarrow> tool_permission list \<Rightarrow> pdict \<Rightarrow> 'w \<Rightarrow> (exc + tool_output) \<times> 'w" where
  "tool_call reg name granted kwargs w =
     (case map_of reg name of
        None \<Rightarrow> (Inl (Tool_Not_Found_Error name), w)
      | Some (spec, impl) \<Rightarrow>
          if tsp_permission spec \<notin> set granted
          then (Inl (Tool_Permission_Error name (permission_value (tsp_permission spec))), w)
          else impl kwargs w)"

lemma permission_never_forbidden: "permission_value p \<notin> set forbidden_permissions"
  by (cases p) (simp_all add: permission_value_def forbidden_permissions_def)

text \<open>No permission is forbidden, so the registry is a registration like the others.\<close>

interpretation tools: registration "\<lambda>t. tsp_name (fst t)" "\<lambda>n. n" tool_register map_of
  by unfold_locales (auto simp: tool_register_def permission_never_forbidden split: if_splits)

subsection \<open>The tables\<close>

record trace_row =
  tt_id :: string
  tt_session :: "string option"
  tt_assistant_session :: "string option"
  tt_parent_type :: string
  tt_tool :: string
  tt_status :: string
  tt_finished :: bool
  tt_input :: pdict
  tt_output :: "pdict option"
  tt_error :: "pdict option"

record session_row =
  as_id :: string
  as_status :: string
  as_finished :: bool
  as_surface :: string
  as_prompt :: string
  as_intent :: "string option"
  as_plan :: "assistant_plan option"
  as_answer :: "assistant_answer option"
  as_refusal :: "string option"
  as_error :: "pdict option"

record turn_row =
  tn_id :: string
  tn_session :: string
  tn_plan :: assistant_plan
  tn_plan_hash :: string
  tn_policy_status :: string
  tn_status :: string
  tn_finished :: bool

record llm_row =
  lt_id :: string
  lt_session :: string
  lt_stage :: string
  lt_status :: string
  lt_finished :: bool
  lt_error :: "pdict option"

record 'w warehouse =
  wh_traces :: "trace_row list"
  wh_sessions :: "session_row list"
  wh_turns :: "turn_row list"
  wh_llm :: "llm_row list"
  wh_data :: 'w

subsection \<open>The executor\<close>

record trace_event =
  te_tool :: string
  te_status :: string
  te_trace :: string

record pending_trace =
  pt_id :: string
  pt_tool :: string
  pt_input :: pdict
  pt_status :: string
  pt_output :: "pdict option"
  pt_error :: "pdict option"

record executor =
  ex_session :: "string option"
  ex_assistant_session :: "string option"
  ex_parent_type :: string
  ex_deferred :: bool
  ex_pending :: "pending_trace list"
  ex_prestarted :: "string list"
  ex_all_prestarted :: "string list"

text \<open>
  What the code runs over: the warehouse, the executor object, the events its callback received, and
  how many identifiers and transactions have been used.
\<close>

record 'w machine =
  mc_db :: "'w warehouse"
  mc_exec :: executor
  mc_events :: "trace_event list"
  mc_fresh :: nat
  mc_tx :: nat

type_synonym ('w, 'a) run = "('w machine, exc, 'a) op"

text \<open>
  What is not the code's: fresh identifiers, \<open>redact_structure\<close> and \<open>sanitize_text\<close>, the summary of an
  exception, \<open>str\<close> of a float or a container.
\<close>

record trace_env =
  xe_uuid :: "nat \<Rightarrow> string"
  xe_redact :: "pdict \<Rightarrow> pdict"
  xe_text :: "string \<Rightarrow> string"
  xe_summary :: "exc \<Rightarrow> string"
  xe_repr :: "pval \<Rightarrow> string"

definition on_traces :: "(trace_row list \<Rightarrow> trace_row list) \<Rightarrow> 'w machine \<Rightarrow> 'w machine" where
  "on_traces f m = m\<lparr>mc_db := (mc_db m)\<lparr>wh_traces := f (wh_traces (mc_db m))\<rparr>\<rparr>"

definition on_exec :: "(executor \<Rightarrow> executor) \<Rightarrow> 'w machine \<Rightarrow> 'w machine" where
  "on_exec f m = m\<lparr>mc_exec := f (mc_exec m)\<rparr>"

definition fresh_id :: "trace_env \<Rightarrow> ('w, string) run" where
  "fresh_id env = (\<lambda>m. (Inr (xe_uuid env (mc_fresh m)), m\<lparr>mc_fresh := mc_fresh m + 1\<rparr>))"

text \<open>The identifier is the primary key of the table.\<close>

definition insert_trace :: "trace_row \<Rightarrow> ('w, unit) run" where
  "insert_trace row =
     (\<lambda>m. if tt_id row \<in> tt_id ` set (wh_traces (mc_db m)) then (Inl (Constraint_Error (tt_id row)), m)
          else (Inr (), on_traces (\<lambda>rows. rows @ [row]) m))"

definition new_trace ::
  "trace_env \<Rightarrow> executor \<Rightarrow> string \<Rightarrow> pdict \<Rightarrow> string \<Rightarrow> trace_row" where
  "new_trace env ex tool input tid =
     \<lparr>tt_id = tid, tt_session = ex_session ex, tt_assistant_session = ex_assistant_session ex,
      tt_parent_type = ex_parent_type ex, tt_tool = xe_text env tool, tt_status = ''RUNNING'',
      tt_finished = False, tt_input = xe_redact env input, tt_output = None, tt_error = None\<rparr>"

definition create_tool_trace ::
  "trace_env \<Rightarrow> executor \<Rightarrow> string \<Rightarrow> pdict \<Rightarrow> string option \<Rightarrow> ('w, string) run" where
  "create_tool_trace env ex tool input tid =
     op_bind (case tid of Some i \<Rightarrow> op_return i | None \<Rightarrow> fresh_id env) (\<lambda>i.
     op_seq (insert_trace (new_trace env ex tool input i)) (op_return i))"

text \<open>An empty dictionary is stored as \<open>NULL\<close>.\<close>

definition non_empty :: "pdict option \<Rightarrow> pdict option" where
  "non_empty d = (if d = Some [] then None else d)"

definition finish_row ::
  "trace_env \<Rightarrow> string \<Rightarrow> pdict option \<Rightarrow> pdict option \<Rightarrow> pdict option \<Rightarrow> trace_row \<Rightarrow> trace_row" where
  "finish_row env status out err input r =
     r\<lparr>tt_finished := True, tt_status := status,
       tt_output := map_option (xe_redact env) (non_empty out),
       tt_error := map_option (xe_redact env) (non_empty err),
       tt_input := (case input of None \<Rightarrow> tt_input r | Some d \<Rightarrow> xe_redact env d)\<rparr>"

definition finish_tool_trace ::
  "trace_env \<Rightarrow> string \<Rightarrow> string \<Rightarrow> pdict option \<Rightarrow> pdict option \<Rightarrow> pdict option \<Rightarrow> ('w, unit) run" where
  "finish_tool_trace env tid status out err input =
     op_write (on_traces (update_where (\<lambda>r. tt_id r = tid) (finish_row env status out err input)))"

definition finish_trace ::
  "trace_env \<Rightarrow> string \<Rightarrow> string \<Rightarrow> pdict \<Rightarrow> string \<Rightarrow> pdict option \<Rightarrow> pdict option \<Rightarrow> ('w, unit) run" where
  "finish_trace env tid tool input status out err =
     op_bind (op_read mc_exec) (\<lambda>ex.
       if ex_deferred ex
       then op_write (on_exec (\<lambda>x. x\<lparr>ex_pending := ex_pending x @
              [\<lparr>pt_id = tid, pt_tool = tool, pt_input = input, pt_status = status, pt_output = out,
                pt_error = err\<rparr>]\<rparr>))
       else finish_tool_trace env tid status out err None)"

text \<open>
  The callback: absent, or one that is given every event and may raise on some of them.
\<close>

type_synonym callback = "(trace_event \<Rightarrow> exc option) option"

definition emit_event :: "callback \<Rightarrow> string \<Rightarrow> string \<Rightarrow> string \<Rightarrow> ('w, unit) run" where
  "emit_event cb tool status tid =
     (case cb of
        None \<Rightarrow> op_return ()
      | Some f \<Rightarrow>
          (let ev = \<lparr>te_tool = tool, te_status = status, te_trace = tid\<rparr> in
           op_seq (op_write (\<lambda>m. m\<lparr>mc_events := mc_events m @ [ev]\<rparr>))
             (case f ev of None \<Rightarrow> op_return () | Some e \<Rightarrow> op_raise e)))"

definition run_tool :: "'w tool_registry \<Rightarrow> string \<Rightarrow> tool_permission list \<Rightarrow> pdict \<Rightarrow> ('w, tool_output) run" where
  "run_tool reg name granted kwargs =
     (\<lambda>m. case tool_call reg name granted kwargs (wh_data (mc_db m)) of
        (r, w) \<Rightarrow> (r, m\<lparr>mc_db := (mc_db m)\<lparr>wh_data := w\<rparr>\<rparr>))"

definition error_details :: "trace_env \<Rightarrow> exc \<Rightarrow> pdict" where
  "error_details env e = [(''message'', PStr (xe_summary env e)), (''error_type'', PStr (exc_type e))]"

text \<open>The two \<open>except\<close> clauses do the same but for the logs.\<close>

definition call_failed ::
  "trace_env \<Rightarrow> callback \<Rightarrow> string \<Rightarrow> pdict \<Rightarrow> string \<Rightarrow> exc \<Rightarrow> ('w, tool_output) run" where
  "call_failed env cb name input tid e =
     op_seq (finish_trace env tid name input ''FAILED'' None (Some (error_details env e)))
      (op_seq (emit_event cb name ''FAILED'' tid) (op_raise e))"

definition start_trace :: "trace_env \<Rightarrow> string \<Rightarrow> pdict \<Rightarrow> ('w, string) run" where
  "start_trace env name input =
     op_bind (op_read mc_exec) (\<lambda>ex.
       if ex_deferred ex
       then (case ex_prestarted ex of
               [] \<Rightarrow> op_raise Deferred_Trace_State_Error
             | t # ts \<Rightarrow> op_seq (op_write (on_exec (\<lambda>x. x\<lparr>ex_prestarted := ts\<rparr>))) (op_return t))
       else create_tool_trace env ex name input None)"

definition safe_arguments :: "pdict \<Rightarrow> pdict" where
  "safe_arguments kwargs = map (\<lambda>(k, v). (k, json_safe v)) kwargs"

definition executor_call ::
  "trace_env \<Rightarrow> 'w tool_registry \<Rightarrow> callback \<Rightarrow> string \<Rightarrow> tool_permission list option \<Rightarrow> pdict \<Rightarrow>
   ('w, tool_output) run" where
  "executor_call env reg cb name granted_permissions kwargs =
     op_bind (op_lift (tool_get_spec reg name)) (\<lambda>spec.
     (let granted = (case granted_permissions of
                       None \<Rightarrow> [tsp_permission spec]
                     | Some [] \<Rightarrow> [tsp_permission spec]
                     | Some ps \<Rightarrow> ps);
          input = safe_arguments kwargs in
      op_bind (start_trace env name input) (\<lambda>tid.
      op_seq (emit_event cb name ''RUNNING'' tid)
       (op_catch
         (op_bind (run_tool reg name granted kwargs) (\<lambda>out.
          op_seq (finish_trace env tid name input ''SUCCESS'' (Some (summarize_output (xe_repr env) out)) None)
           (op_seq (emit_event cb name ''SUCCESS'' tid) (op_return out))))
         (call_failed env cb name input tid)))))"

subsection \<open>Flushing deferred traces\<close>

definition flush_pending :: "trace_env \<Rightarrow> executor \<Rightarrow> pending_trace \<Rightarrow> ('w, unit) run" where
  "flush_pending env ex p =
     op_seq (if pt_id p \<in> set (ex_all_prestarted ex) then op_return ()
             else op_bind (create_tool_trace env ex (pt_tool p) (pt_input p) (Some (pt_id p))) (\<lambda>_. op_return ()))
      (finish_tool_trace env (pt_id p) (pt_status p) (pt_output p) (pt_error p) (Some (pt_input p)))"

definition not_executed :: pdict where
  "not_executed =
     [(''error_type'', PStr ''ToolNotExecuted''),
      (''message'', PStr ''Command ended before the planned tool call.'')]"

definition executor_flush :: "trace_env \<Rightarrow> ('w, unit) run" where
  "executor_flush env =
     op_bind (op_read mc_exec) (\<lambda>ex.
     op_seq (op_all (map (flush_pending env ex) (ex_pending ex)))
      (op_seq (op_all (map (\<lambda>t. finish_tool_trace env t ''FAILED'' None (Some not_executed) None)
                 (ex_prestarted ex)))
        (op_write (on_exec (\<lambda>x. x\<lparr>ex_pending := [], ex_prestarted := []\<rparr>)))))"

end
