(* ===== verification/Assistant_Executor.thy ===== *)
theory Assistant_Executor
  imports Tool_Executor
begin

section \<open>Execution of a plan\<close>

text \<open>
  \<open>assistant/executor.py\<close>: the steps of a plan, each checked against the policy, with its data made
  ready, executed under a trace, stopped at the first failure.  The readiness services of
  \<open>data_availability\<close> and the date resolver are arguments.  A date that an explicit provisioning step
  resolves is handed to the steps after it; that the caller's plan object changes with them is left
  out.
\<close>

definition analysis_tools :: "string list" where
  "analysis_tools =
     [''candidate.explain'', ''candidate.compare'', ''analysis.deep_symbol'', ''scenario.generate_research_plan'']"

definition fail_closed_analysis_tools :: "string list" where
  "fail_closed_analysis_tools = [''analysis.deep_symbol'', ''scenario.generate_research_plan'']"

definition provision_tool :: string where
  "provision_tool = ''data.ensure_current_symbol''"

subsection \<open>Arguments of a step\<close>

definition context_requirements :: "context_requirement list" where
  "context_requirements = [NOT_REQUESTED, OPTIONAL, REQUIRED, INVALID]"

definition requirement_of :: "pval \<Rightarrow> context_requirement" where
  "requirement_of v =
     (case v of
        PRequirement r \<Rightarrow> r
      | PStr s \<Rightarrow>
          (case find (\<lambda>r. requirement_value r = upper (strip s)) context_requirements of
             Some r \<Rightarrow> r | None \<Rightarrow> INVALID)
      | _ \<Rightarrow> NOT_REQUESTED)"

definition normalize_tool_arguments :: "pdict \<Rightarrow> pdict" where
  "normalize_tool_arguments args =
     concat (map (\<lambda>(k, v).
       if ends_with k ''_requirement''
       then (if requirement_of v = NOT_REQUESTED then [] else [(k, PRequirement (requirement_of v))])
       else if v = PRequirement NOT_REQUESTED then [] else [(k, v)]) args)"

definition text_items :: "pval list \<Rightarrow> string list" where
  "text_items vs = concat (map (\<lambda>v. case v of PStr s \<Rightarrow> if strip s \<noteq> [] then [s] else [] | _ \<Rightarrow> []) vs)"

definition symbols_in :: "pdict \<Rightarrow> string list" where
  "symbols_in args =
     (case map_of args ''symbols'' of
        Some (PList vs) \<Rightarrow> text_items vs
      | Some (PTuple vs) \<Rightarrow> text_items vs
      | Some (PStr s) \<Rightarrow> if strip s \<noteq> [] then [s] else []
      | _ \<Rightarrow> [])"

definition step_symbols :: "pdict \<Rightarrow> string list" where
  "step_symbols args =
     (case dict_get args ''symbol'' of
        PStr s \<Rightarrow> if strip s \<noteq> [] then [s] else symbols_in args
      | _ \<Rightarrow> symbols_in args)"

subsection \<open>Readiness of the data\<close>

record readiness_artifact =
  ra_error :: "string option"
  ra_remediation :: "string option"
  ra_remediation_steps :: "string list"

record readiness =
  rd_ready :: bool
  rd_artifacts :: "readiness_artifact list"
  rd_failure_summary :: string
  rd_correlation_id :: string

record 'w readiness_env =
  ry_date :: "pval \<Rightarrow> exc + string"
  ry_deep :: "string \<Rightarrow> string \<Rightarrow> context_requirement \<Rightarrow> context_requirement \<Rightarrow> 'w \<Rightarrow> (exc + readiness) \<times> 'w"
  ry_symbol :: "string \<Rightarrow> string \<Rightarrow> 'w \<Rightarrow> (exc + unit) \<times> 'w"

definition readiness_error_message :: "readiness \<Rightarrow> string" where
  "readiness_error_message rd =
     (let failed = find (\<lambda>a. case ra_error a of None \<Rightarrow> False | Some e \<Rightarrow> e \<noteq> []) (rd_artifacts rd);
          remediation = (case failed of
             None \<Rightarrow> []
           | Some a \<Rightarrow>
               if ra_remediation_steps a \<noteq> []
               then [''Remediation: '' @ join '' -> '' (ra_remediation_steps a)]
               else case ra_remediation a of
                 None \<Rightarrow> []
               | Some r \<Rightarrow> if r \<noteq> [] then [''Remediation: '' @ r] else []) in
      join ''. '' ([rd_failure_summary rd] @ remediation @ [''correlation_id='' @ rd_correlation_id rd]))"

definition on_data :: "('w \<Rightarrow> (exc + 'a) \<times> 'w) \<Rightarrow> ('w, 'a) run" where
  "on_data f =
     (\<lambda>m. case f (wh_data (mc_db m)) of (r, w) \<Rightarrow> (r, m\<lparr>mc_db := (mc_db m)\<lparr>wh_data := w\<rparr>\<rparr>))"

definition ensure_symbol :: "'w readiness_env \<Rightarrow> plan_step \<Rightarrow> string \<Rightarrow> string \<Rightarrow> ('w, unit) run" where
  "ensure_symbol re s date symbol =
     (if ps_tool s \<in> set fail_closed_analysis_tools
      then op_bind (on_data (ry_deep re symbol date
              (requirement_of (dict_get (ps_arguments s) ''market_regime_requirement''))
              (requirement_of (dict_get (ps_arguments s) ''sector_strength_requirement'')))) (\<lambda>rd.
             op_guard (\<not> rd_ready rd) (Assistant_Tool_Error (readiness_error_message rd)))
      else op_catch (on_data (ry_symbol re symbol date)) (\<lambda>_. op_return ()))"

definition ensure_data_for_step :: "'w readiness_env \<Rightarrow> plan_step \<Rightarrow> bool \<Rightarrow> ('w, unit) run" where
  "ensure_data_for_step re s provisioned =
     (if ps_tool s \<notin> set analysis_tools \<or> provisioned \<or> step_symbols (ps_arguments s) = []
      then op_return ()
      else op_bind (op_lift (ry_date re (dict_get (ps_arguments s) ''date''))) (\<lambda>date.
             op_all (map (ensure_symbol re s date) (step_symbols (ps_arguments s)))))"

subsection \<open>Results of provisioning\<close>

definition result_data :: "pval \<Rightarrow> pdict option" where
  "result_data result =
     (case result of
        PDict d \<Rightarrow> (case dict_get d ''data'' of PDict e \<Rightarrow> Some e | _ \<Rightarrow> None)
      | _ \<Rightarrow> None)"

definition ready_outcomes :: "string list" where
  "ready_outcomes = [''READY'', ''REUSED'', ''REFRESHED'']"

definition provisioning_message :: "(pval \<Rightarrow> string) \<Rightarrow> pdict \<Rightarrow> string" where
  "provisioning_message rp d =
     join ''. ''
       ([case dict_get d ''errors'' of
           PList (e # _) \<Rightarrow> py_str rp e
         | _ \<Rightarrow> ''Current-symbol data could not be provisioned.''] @
        (case dict_get d ''remediation'' of
           PList (c # cs) \<Rightarrow> [''Remediation: '' @ join '' -> '' (map (py_str rp) (c # cs))]
         | _ \<Rightarrow> []) @
        (if truthy (dict_get d ''correlation_id'')
         then [''correlation_id='' @ py_str rp (dict_get d ''correlation_id'')] else []))"

definition assert_provisioning_ready :: "(pval \<Rightarrow> string) \<Rightarrow> pval \<Rightarrow> ('w, unit) run" where
  "assert_provisioning_ready rp result =
     (let d = (case result_data result of None \<Rightarrow> [] | Some d \<Rightarrow> d) in
      op_guard (dict_get d ''outcome'' \<notin> PStr ` set ready_outcomes)
        (Assistant_Tool_Error (provisioning_message rp d)))"

definition with_date :: "string \<Rightarrow> string \<Rightarrow> plan_step \<Rightarrow> plan_step" where
  "with_date symbol date s =
     (if ps_tool s \<in> set analysis_tools \<and> dict_get (ps_arguments s) ''symbol'' = PStr symbol \<and>
         dict_get (ps_arguments s) ''date'' \<in> {PNone, PStr ''today''}
      then s\<lparr>ps_arguments := dict_set ''date'' (PStr date) (ps_arguments s)\<rparr> else s)"

definition apply_provisioned_date :: "plan_step list \<Rightarrow> plan_step \<Rightarrow> pval \<Rightarrow> plan_step list" where
  "apply_provisioned_date downstream s result =
     (case (result_data result, dict_get (ps_arguments s) ''symbol'') of
        (Some d, PStr symbol) \<Rightarrow>
          (case dict_get d ''resolved_date'' of
             PStr date \<Rightarrow> map (with_date symbol date) downstream
           | _ \<Rightarrow> downstream)
      | _ \<Rightarrow> downstream)"

subsection \<open>Steps\<close>

text \<open>\<open>str(exc)\<close>; the permission and look-up messages are those of \<open>tools/errors.py\<close>.\<close>

definition exc_message :: "exc \<Rightarrow> string" where
  "exc_message e =
     (case e of
        Tool_Permission_Error t r \<Rightarrow> ''Tool '' @ quoted t @ '' requires permission '' @ quoted r @ ''.''
      | Tool_Not_Found_Error t \<Rightarrow> ''Tool '' @ quoted t @ '' is not registered.''
      | Tool_Layer_Error s \<Rightarrow> s
      | Actionable_Tool_Error s \<Rightarrow> s
      | Deferred_Trace_State_Error \<Rightarrow> ''Deferred tool execution requires a started trace.''
      | Assistant_Tool_Error s \<Rightarrow> s
      | Actionable_Assistant_Error s \<Rightarrow> s
      | Command_Validation_Error s \<Rightarrow> s
      | Warehouse_Error s \<Rightarrow> s
      | Constraint_Error s \<Rightarrow> s
      | Foreign_Error _ s \<Rightarrow> s
      | _ \<Rightarrow> [])"

text \<open>What the \<open>except\<close> clauses of \<open>_execute_step\<close> make of an exception.\<close>

definition step_exc :: "exc \<Rightarrow> exc" where
  "step_exc e =
     (case e of
        Assistant_Tool_Error _ \<Rightarrow> e
      | Actionable_Assistant_Error _ \<Rightarrow> e
      | Actionable_Tool_Error s \<Rightarrow> Actionable_Assistant_Error s
      | _ \<Rightarrow> Assistant_Tool_Error (exc_message e))"

definition result_of :: "tool_output \<Rightarrow> pval" where
  "result_of out = (case out of Dataclass_Output d \<Rightarrow> PDict d | Plain_Output v \<Rightarrow> v)"

definition step_arguments :: "string option \<Rightarrow> plan_step \<Rightarrow> pdict" where
  "step_arguments correlation s =
     (let args = normalize_tool_arguments (ps_arguments s) in
      case correlation of
        Some c \<Rightarrow> if ps_tool s = provision_tool then dict_set ''correlation_id'' (PStr c) args else args
      | None \<Rightarrow> args)"

definition execute_step ::
  "trace_env \<Rightarrow> 'w tool_registry \<Rightarrow> callback \<Rightarrow> string option \<Rightarrow> plan_step \<Rightarrow> ('w, pval) run" where
  "execute_step env reg cb correlation s =
     op_catch
       (op_bind (op_lift (case map_of tool_permissions_by_name (ps_tool s) of
                   None \<Rightarrow> Inl (Foreign_Error ''KeyError'' (quoted (ps_tool s)))
                 | Some p \<Rightarrow> Inr p)) (\<lambda>permission.
        op_bind (executor_call env reg cb (ps_tool s) (Some [permission]) (step_arguments correlation s)) (\<lambda>out.
        op_return (result_of out))))
       (\<lambda>e. op_raise (step_exc e))"

definition policy_message :: "string \<Rightarrow> string" where
  "policy_message tool = ''Tool '' @ quoted tool @ '' is not allowed by the assistant tool policy.''"

definition assert_safe_tool :: "string \<Rightarrow> ('w, unit) run" where
  "assert_safe_tool tool = op_guard (\<not> is_safe_tool tool) (Assistant_Tool_Error (policy_message tool))"

definition after_provisioning ::
  "trace_env \<Rightarrow> plan_step \<Rightarrow> pval \<Rightarrow> plan_step list \<Rightarrow> ('w, plan_step list) run" where
  "after_provisioning env s result rest =
     (if ps_tool s = provision_tool
      then op_seq (assert_provisioning_ready (xe_repr env) result)
             (op_return (apply_provisioned_date rest s result))
      else op_return rest)"

lemma length_after_provisioning:
  "after_provisioning env s result rest m = (Inr rest', m') \<Longrightarrow> length rest' = length rest"
  by (auto simp: after_provisioning_def op_success apply_provisioned_date_def
      split: if_splits option.splits pval.splits)

text \<open>The loop; \<open>n\<close> bounds the number of steps left, which is their number.\<close>

fun execute_steps ::
  "trace_env \<Rightarrow> 'w readiness_env \<Rightarrow> 'w tool_registry \<Rightarrow> callback \<Rightarrow> string option \<Rightarrow> bool \<Rightarrow> nat \<Rightarrow>
   plan_step list \<Rightarrow> (string \<times> pval) list \<Rightarrow> ('w, (string \<times> pval) list) run" where
  "execute_steps env re reg cb corr provisioned (Suc n) (s # rest) results =
     op_seq (assert_safe_tool (ps_tool s))
      (op_seq (ensure_data_for_step re s provisioned)
       (op_bind (execute_step env reg cb corr s) (\<lambda>result.
        op_bind (after_provisioning env s result rest) (\<lambda>rest'.
        execute_steps env re reg cb corr provisioned n rest' (dict_set (ps_id s) result results)))))"
| "execute_steps env re reg cb corr provisioned n steps results = op_return results"

text \<open>
  The correlation identifier of the context, or the one that is set when there is none.
\<close>

definition execute_plan ::
  "trace_env \<Rightarrow> 'w readiness_env \<Rightarrow> 'w tool_registry \<Rightarrow> callback \<Rightarrow> string \<Rightarrow> assistant_plan \<Rightarrow>
   bool option \<Rightarrow> ('w, (string \<times> pval) list) run" where
  "execute_plan env re reg cb correlation plan provisioned =
     op_seq (op_guard (is_refusal plan) (Assistant_Refusal (py_or (ap_refusal plan) (PStr ''Unsupported request''))))
      (execute_steps env re reg cb (Some correlation)
        (case provisioned of
           Some b \<Rightarrow> b
         | None \<Rightarrow> list_ex (\<lambda>s. ps_tool s = provision_tool) (ap_steps plan))
        (length (ap_steps plan)) (ap_steps plan) [])"

end
