(* ===== verification/Managed_Turn.thy ===== *)
theory Managed_Turn
  imports Assistant_Executor
begin

section \<open>Prepared turns and their execution\<close>

text \<open>
  \<open>assistant/managed_tools.py\<close>, \<open>managed_execute.py\<close>, \<open>managed_sandbox.py\<close>, \<open>managed_failures.py\<close>,
  \<open>managed_prepare.py\<close>, the previews and cancellations of \<open>connected_controls.py\<close>, and the functions
  of \<open>warehouse/assistant_repo.py\<close>, over the transactions of \<open>warehouse/write_coordinator.py\<close>.

  A transaction is one step of the machine.  Which of them cannot be opened or cannot be committed is
  an argument; what happened inside is then undone, but for the objects in memory.  Arguments too are the readiness
  services, the tools, the language model, the sandbox, the research audit and its projection.
\<close>

subsection \<open>Transactions\<close>

datatype tx_fault = No_Fault | Enter_Fails | Commit_Fails

type_synonym tx_faults = "nat \<Rightarrow> tx_fault"

definition transaction :: "tx_faults \<Rightarrow> ('w, 'a) run \<Rightarrow> ('w, 'a) run" where
  "transaction faults body =
     (\<lambda>m. let m0 = m\<lparr>mc_tx := mc_tx m + 1\<rparr> in
       if faults (mc_tx m) = Enter_Fails then (Inl (Warehouse_Error ''WarehouseOpenError''), m0)
       else case body m0 of
         (Inl e, m1) \<Rightarrow> (Inl e, m1\<lparr>mc_db := mc_db m\<rparr>)
       | (Inr x, m1) \<Rightarrow>
           if faults (mc_tx m) = Commit_Fails
           then (Inl (Warehouse_Error ''TransactionException''), m1\<lparr>mc_db := mc_db m\<rparr>)
           else (Inr x, m1))"

text \<open>A read-only connection: nothing is written through it.\<close>

definition read_connection :: "tx_faults \<Rightarrow> ('w, 'a) run \<Rightarrow> ('w, 'a) run" where
  "read_connection faults body =
     (\<lambda>m. let m0 = m\<lparr>mc_tx := mc_tx m + 1\<rparr> in
       if faults (mc_tx m) = Enter_Fails then (Inl (Warehouse_Error ''WarehouseOpenError''), m0)
       else case body m0 of (r, m1) \<Rightarrow> (r, m1\<lparr>mc_db := mc_db m\<rparr>))"

text \<open>\<open>try: ... except Exception\<close>, with the outcome as a value, and with a failure swallowed.\<close>

definition op_attempt :: "('s, 'e, 'a) op \<Rightarrow> ('s, 'e, 'e + 'a) op" where
  "op_attempt m = (\<lambda>s. case m s of (r, t) \<Rightarrow> (Inr r, t))"

definition quietly :: "('s, 'e, unit) op \<Rightarrow> ('s, 'e, unit) op" where
  "quietly m = op_catch m (\<lambda>_. op_return ())"

fun op_collect :: "('s, 'e, 'a) op list \<Rightarrow> ('s, 'e, 'a list) op" where
  "op_collect [] = op_return []"
| "op_collect (m # ms) = op_bind m (\<lambda>x. op_bind (op_collect ms) (\<lambda>xs. op_return (x # xs)))"

subsection \<open>Sessions, turns and model traces\<close>

definition on_db :: "('w warehouse \<Rightarrow> 'w warehouse) \<Rightarrow> 'w machine \<Rightarrow> 'w machine" where
  "on_db f m = m\<lparr>mc_db := f (mc_db m)\<rparr>"

definition create_assistant_session :: "trace_env \<Rightarrow> string \<Rightarrow> string \<Rightarrow> ('w, string) run" where
  "create_assistant_session env surface prompt =
     op_bind (fresh_id env) (\<lambda>sid.
     op_bind (op_read (\<lambda>m. sid \<in> as_id ` set (wh_sessions (mc_db m)))) (\<lambda>taken.
     op_seq (op_guard taken (Constraint_Error sid))
      (op_seq (op_write (on_db (\<lambda>db. db\<lparr>wh_sessions := wh_sessions db @
          [\<lparr>as_id = sid, as_status = ''RUNNING'', as_finished = False, as_surface = surface,
            as_prompt = xe_text env prompt, as_intent = None, as_plan = None, as_answer = None,
            as_refusal = None, as_error = None\<rparr>]\<rparr>)))
        (op_return sid))))"

definition finish_session_row ::
  "trace_env \<Rightarrow> string \<Rightarrow> string option \<Rightarrow> assistant_plan option \<Rightarrow> assistant_answer option \<Rightarrow> string option \<Rightarrow>
   pdict option \<Rightarrow> session_row \<Rightarrow> session_row" where
  "finish_session_row env status intent plan answer refusal err r =
     r\<lparr>as_finished := True, as_status := status,
       as_intent := (case intent of None \<Rightarrow> as_intent r | Some i \<Rightarrow> Some i),
       as_plan := plan, as_answer := answer,
       as_refusal := (case refusal of None \<Rightarrow> None | Some t \<Rightarrow> if t = [] then None else Some (xe_text env t)),
       as_error := map_option (xe_redact env) (non_empty err)\<rparr>"

definition finish_assistant_session ::
  "trace_env \<Rightarrow> string \<Rightarrow> string \<Rightarrow> string option \<Rightarrow> assistant_plan option \<Rightarrow> assistant_answer option \<Rightarrow>
   string option \<Rightarrow> pdict option \<Rightarrow> ('w, unit) run" where
  "finish_assistant_session env sid status intent plan answer refusal err =
     op_write (on_db (\<lambda>db. db\<lparr>wh_sessions :=
       update_where (\<lambda>r. as_id r = sid) (finish_session_row env status intent plan answer refusal err)
         (wh_sessions db)\<rparr>))"

definition mark_assistant_session_prepared :: "string \<Rightarrow> string \<Rightarrow> assistant_plan \<Rightarrow> ('w, unit) run" where
  "mark_assistant_session_prepared sid intent plan =
     op_write (on_db (\<lambda>db. db\<lparr>wh_sessions :=
       update_where (\<lambda>r. as_id r = sid)
         (\<lambda>r. r\<lparr>as_status := ''PREPARED'', as_intent := Some intent, as_plan := Some plan\<rparr>) (wh_sessions db)\<rparr>))"

definition create_llm_trace :: "trace_env \<Rightarrow> string \<Rightarrow> string \<Rightarrow> ('w, string) run" where
  "create_llm_trace env sid stage =
     op_bind (fresh_id env) (\<lambda>i.
     op_bind (op_read (\<lambda>m. i \<in> lt_id ` set (wh_llm (mc_db m)))) (\<lambda>taken.
     op_seq (op_guard taken (Constraint_Error i))
      (op_seq (op_write (on_db (\<lambda>db. db\<lparr>wh_llm := wh_llm db @
          [\<lparr>lt_id = i, lt_session = sid, lt_stage = stage, lt_status = ''RUNNING'', lt_finished = False,
            lt_error = None\<rparr>]\<rparr>)))
        (op_return i))))"

definition finish_llm_trace :: "trace_env \<Rightarrow> string \<Rightarrow> string \<Rightarrow> pdict option \<Rightarrow> ('w, unit) run" where
  "finish_llm_trace env i status err =
     op_write (on_db (\<lambda>db. db\<lparr>wh_llm :=
       update_where (\<lambda>r. lt_id r = i)
         (\<lambda>r. r\<lparr>lt_finished := True, lt_status := status,
               lt_error := map_option (xe_redact env) (non_empty err)\<rparr>) (wh_llm db)\<rparr>))"

record prepared_turn =
  pp_turn_id :: string
  pp_session_id :: string
  pp_intent :: string
  pp_plan :: assistant_plan
  pp_plan_hash :: string

definition persist_prepared_turn :: "prepared_turn \<Rightarrow> ('w, unit) run" where
  "persist_prepared_turn p =
     op_bind (op_read (\<lambda>m. pp_turn_id p \<in> tn_id ` set (wh_turns (mc_db m)))) (\<lambda>taken.
     op_seq (op_guard taken (Constraint_Error (pp_turn_id p)))
      (op_write (on_db (\<lambda>db. db\<lparr>wh_turns := wh_turns db @
         [\<lparr>tn_id = pp_turn_id p, tn_session = pp_session_id p, tn_plan = pp_plan p,
           tn_plan_hash = pp_plan_hash p, tn_policy_status = ''PASS'', tn_status = ''PREPARED'',
           tn_finished = False\<rparr>]\<rparr>))))"

definition finish_prepared_turn :: "string \<Rightarrow> string \<Rightarrow> ('w, unit) run" where
  "finish_prepared_turn tid status =
     op_write (on_db (\<lambda>db. db\<lparr>wh_turns :=
       update_where (\<lambda>r. tn_id r = tid) (\<lambda>r. r\<lparr>tn_status := status, tn_finished := True\<rparr>) (wh_turns db)\<rparr>))"

subsection \<open>The environment of a turn\<close>

record degradation =
  dg_stage :: string
  dg_category :: string
  dg_trace :: "string option"

type_synonym tool_results = "(string \<times> pval) list"

record 'w turn_env =
  tv_trace :: trace_env
  tv_ready :: "'w readiness_env"
  tv_registry :: "'w tool_registry"
  tv_faults :: tx_faults
  tv_correlation :: string
  tv_plan_hash :: "assistant_plan \<Rightarrow> string"
  tv_diagnostic :: "degradation \<Rightarrow> pdict"
  tv_synthesize :: "assistant_plan \<Rightarrow> tool_results \<Rightarrow> exc + assistant_answer \<times> degradation option"
  tv_sandbox :: "prepared_turn \<Rightarrow> 'w \<Rightarrow> (exc + assistant_answer) \<times> 'w"
  tv_prepare_job :: "string \<Rightarrow> 'w \<Rightarrow> (exc + pdict) \<times> 'w"
  tv_audit :: "tool_results \<Rightarrow> assistant_answer \<Rightarrow> 'w \<Rightarrow> (exc + string) \<times> 'w"
  tv_project :: "tool_results \<Rightarrow> assistant_answer \<Rightarrow> 'w \<Rightarrow> (exc + bool) \<times> 'w"

definition in_tx :: "'w turn_env \<Rightarrow> ('w, 'a) run \<Rightarrow> ('w, 'a) run" where
  "in_tx env body = transaction (tv_faults env) body"

subsection \<open>The tools of a turn\<close>

definition current_symbol_tool :: string where
  "current_symbol_tool = ''analysis.current_symbol''"

definition is_write_step :: "plan_step \<Rightarrow> exc + bool" where
  "is_write_step s =
     (case map_of tool_permissions_by_name (ps_tool s) of
        None \<Rightarrow> Inl (Foreign_Error ''KeyError'' (quoted (ps_tool s)))
      | Some p \<Rightarrow> Inr (starts_with (permission_value p) ''WRITE_''))"

text \<open>The symbol and the date that a provisioning step resolved.\<close>

type_synonym provisioned = "(string \<times> string) option"

definition with_provisioned_date :: "plan_step \<Rightarrow> provisioned \<Rightarrow> plan_step" where
  "with_provisioned_date s prov =
     (case prov of
        None \<Rightarrow> s
      | Some (symbol, date) \<Rightarrow>
          if ps_tool s \<noteq> ''analysis.deep_symbol'' \<or> dict_get (ps_arguments s) ''symbol'' \<noteq> PStr symbol \<or>
             dict_get (ps_arguments s) ''date'' \<notin> {PNone, PStr ''today''}
          then s
          else s\<lparr>ps_arguments := dict_set ''date'' (PStr date) (ps_arguments s)\<rparr>)"

definition is_provisioned_symbol :: "plan_step \<Rightarrow> provisioned \<Rightarrow> bool" where
  "is_provisioned_symbol s prov =
     (case prov of
        None \<Rightarrow> False
      | Some (symbol, _) \<Rightarrow>
          ps_tool s = ''analysis.deep_symbol'' \<and> dict_get (ps_arguments s) ''symbol'' = PStr symbol)"

definition provisioned_session :: "plan_step \<Rightarrow> pval \<Rightarrow> provisioned" where
  "provisioned_session s result =
     (if ps_tool s \<noteq> provision_tool then None
      else case (result_data result, dict_get (ps_arguments s) ''symbol'') of
        (Some d, PStr symbol) \<Rightarrow>
          (case dict_get d ''resolved_date'' of PStr date \<Rightarrow> Some (symbol, date) | _ \<Rightarrow> None)
      | _ \<Rightarrow> None)"

definition assistant_executor :: "string \<Rightarrow> string list \<Rightarrow> executor" where
  "assistant_executor session prestarted =
     \<lparr>ex_session = None, ex_assistant_session = Some session, ex_parent_type = ''assistant'',
      ex_deferred = True, ex_pending = [], ex_prestarted = prestarted, ex_all_prestarted = prestarted\<rparr>"

text \<open>The callback that collects the events of a turn.\<close>

definition collect_events :: callback where
  "collect_events = Some (\<lambda>_. None)"

definition set_executor :: "string \<Rightarrow> string list \<Rightarrow> ('w, unit) run" where
  "set_executor session prestarted = op_write (on_exec (\<lambda>_. assistant_executor session prestarted))"

definition run_step ::
  "'w turn_env \<Rightarrow> prepared_turn \<Rightarrow> plan_step \<Rightarrow> string \<Rightarrow> provisioned \<Rightarrow> bool option \<Rightarrow> ('w, tool_results) run" where
  "run_step env p s tid prov explicit =
     op_seq (set_executor (pp_session_id p) [tid])
       (execute_plan (tv_trace env) (tv_ready env) (tv_registry env) collect_events (tv_correlation env)
          ((pp_plan p)\<lparr>ap_steps := [with_provisioned_date s prov]\<rparr>) explicit)"

definition flush_traces :: "'w turn_env \<Rightarrow> ('w, unit) run" where
  "flush_traces env = executor_flush (tv_trace env)"

text \<open>
  One step.  An executor without traces stands for the one that is not there before the connection
  is open: flushing it does nothing.
\<close>

definition managed_step ::
  "'w turn_env \<Rightarrow> prepared_turn \<Rightarrow> plan_step \<Rightarrow> string \<Rightarrow> provisioned \<Rightarrow> ('w, tool_results) run" where
  "managed_step env p s tid prov =
     op_seq (set_executor (pp_session_id p) [])
      (if ps_tool s = current_symbol_tool
       then op_bind (run_step env p s tid prov None) (\<lambda>results.
            op_seq (in_tx env (flush_traces env)) (op_return results))
       else op_bind (op_lift (is_write_step s)) (\<lambda>writes.
         if writes
         then in_tx env
           (op_bind (run_step env p s tid prov (Some (is_provisioned_symbol s prov))) (\<lambda>results.
            op_seq (flush_traces env) (op_return results)))
         else op_bind (read_connection (tv_faults env)
             (run_step env p s tid prov (Some (is_provisioned_symbol s prov)))) (\<lambda>results.
           op_seq (in_tx env (flush_traces env)) (op_return results))))"

definition turn_error :: "'w turn_env \<Rightarrow> exc \<Rightarrow> pdict" where
  "turn_error env e =
     [(''error_type'', PStr (exc_type e)), (''message'', PStr (xe_summary (tv_trace env) e))]"

definition finish_execution_failure ::
  "'w turn_env \<Rightarrow> prepared_turn \<Rightarrow> exc \<Rightarrow> string list \<Rightarrow> ('w, unit) run" where
  "finish_execution_failure env p e trace_ids =
     op_seq (op_all (map (\<lambda>t. finish_tool_trace (tv_trace env) t ''FAILED'' None (Some (turn_error env e)) None)
               trace_ids))
      (op_seq (finish_assistant_session (tv_trace env) (pp_session_id p) ''FAILED'' (Some (pp_intent p))
                 (Some (pp_plan p)) None None (Some (turn_error env e)))
        (finish_prepared_turn (pp_turn_id p) ''FAILED''))"

definition replay_trace_events :: "callback \<Rightarrow> ('w, unit) run" where
  "replay_trace_events cb =
     op_bind (op_read mc_events) (\<lambda>evs.
       case cb of
         None \<Rightarrow> op_return ()
       | Some f \<Rightarrow> op_all (map (\<lambda>ev. case f ev of None \<Rightarrow> op_return () | Some e \<Rightarrow> op_raise e) evs))"

definition managed_failure ::
  "'w turn_env \<Rightarrow> callback \<Rightarrow> prepared_turn \<Rightarrow> string list \<Rightarrow> exc \<Rightarrow> ('w, 'a) run" where
  "managed_failure env cb p rest e =
     op_seq (in_tx env (op_seq (flush_traces env) (finish_execution_failure env p e rest)))
      (op_seq (replay_trace_events cb) (op_raise e))"

fun managed_steps ::
  "'w turn_env \<Rightarrow> callback \<Rightarrow> prepared_turn \<Rightarrow> (plan_step \<times> string) list \<Rightarrow> provisioned \<Rightarrow> tool_results \<Rightarrow>
   ('w, tool_results) run" where
  "managed_steps env cb p [] prov results = op_return results"
| "managed_steps env cb p ((s, tid) # rest) prov results =
     op_bind (op_catch (managed_step env p s tid prov) (managed_failure env cb p (map snd rest))) (\<lambda>new.
     (let results' = foldl (\<lambda>d (k, v). dict_set k v d) results new;
          resolved = provisioned_session s (dict_get results' (ps_id s)) in
      managed_steps env cb p rest (if resolved = None then prov else resolved) results'))"

definition execute_managed_tools ::
  "'w turn_env \<Rightarrow> callback \<Rightarrow> prepared_turn \<Rightarrow> string list \<Rightarrow> ('w, tool_results) run" where
  "execute_managed_tools env cb p trace_ids =
     op_seq (op_write (\<lambda>m. m\<lparr>mc_events := []\<rparr>))
      (op_bind (managed_steps env cb p (zip (ap_steps (pp_plan p)) trace_ids) None []) (\<lambda>results.
       op_seq (replay_trace_events cb) (op_return results)))"

subsection \<open>Degraded answers\<close>

definition with_degradation :: "'w turn_env \<Rightarrow> assistant_answer \<Rightarrow> degradation \<Rightarrow> assistant_answer" where
  "with_degradation env a d =
     (let diagnostic = PDict (tv_diagnostic env d);
          meta = aa_research_metadata a;
          earlier = (case dict_get_or meta ''degradations'' (PList []) of PList xs \<Rightarrow> xs | _ \<Rightarrow> []) in
      a\<lparr>aa_research_metadata :=
         dict_set ''degradations'' (PList (earlier @ [diagnostic]))
          (dict_set ''degradation'' diagnostic
            (dict_set ''synthesis_status'' (PStr ''DEGRADED_SUCCESS'') meta))\<rparr>)"

text \<open>The answer and the status of the session on the way to the end of a turn.\<close>

type_synonym outcome = "assistant_answer \<times> string"

definition degrade :: "'w turn_env \<Rightarrow> string \<Rightarrow> string \<Rightarrow> string option \<Rightarrow> outcome \<Rightarrow> outcome" where
  "degrade env stage category trace out =
     (with_degradation env (fst out) \<lparr>dg_stage = stage, dg_category = category, dg_trace = trace\<rparr>,
      ''DEGRADED_SUCCESS'')"

definition degraded_if_failed ::
  "'w turn_env \<Rightarrow> string \<Rightarrow> string \<Rightarrow> string option \<Rightarrow> outcome \<Rightarrow> exc + 'a \<Rightarrow> outcome" where
  "degraded_if_failed env stage category trace out r =
     (case r of Inl _ \<Rightarrow> degrade env stage category trace out | Inr _ \<Rightarrow> out)"

subsection \<open>Execution of a prepared turn\<close>

definition finish_turn :: "'w turn_env \<Rightarrow> prepared_turn \<Rightarrow> string \<Rightarrow> ('w, unit) run" where
  "finish_turn env p status = in_tx env (finish_prepared_turn (pp_turn_id p) status)"

definition fail_turn :: "'w turn_env \<Rightarrow> prepared_turn \<Rightarrow> pdict \<Rightarrow> ('w, unit) run" where
  "fail_turn env p details =
     op_seq (quietly (finish_turn env p ''FAILED''))
       (quietly (in_tx env (finish_assistant_session (tv_trace env) (pp_session_id p) ''FAILED''
          (Some (pp_intent p)) (Some (pp_plan p)) None None (Some details))))"

definition with_lifecycle :: "'w turn_env \<Rightarrow> string \<Rightarrow> string \<Rightarrow> string option \<Rightarrow> pdict \<Rightarrow> pdict" where
  "with_lifecycle env stage category trace details =
     details @ [(''lifecycle'',
       PDict (tv_diagnostic env \<lparr>dg_stage = stage, dg_category = category, dg_trace = trace\<rparr>))]"

definition create_turn_traces :: "'w turn_env \<Rightarrow> prepared_turn \<Rightarrow> ('w, string list) run" where
  "create_turn_traces env p =
     in_tx env (op_collect (map (\<lambda>s.
       create_tool_trace (tv_trace env) (assistant_executor (pp_session_id p) []) (ps_tool s) (ps_arguments s) None)
       (ap_steps (pp_plan p))))"

definition finish_llm :: "'w turn_env \<Rightarrow> string option \<Rightarrow> string \<Rightarrow> pdict option \<Rightarrow> ('w, unit) run" where
  "finish_llm env trace status err =
     (case trace of
        None \<Rightarrow> op_return ()
      | Some i \<Rightarrow> in_tx env (finish_llm_trace (tv_trace env) i status err))"

text \<open>
  The audit identifier is written into the answer inside the transaction, so it stays there when the
  commit fails.
\<close>

definition note_audit :: "'w turn_env \<Rightarrow> tool_results \<Rightarrow> assistant_answer \<Rightarrow> ('w, assistant_answer) run" where
  "note_audit env results a =
     op_read (\<lambda>m.
       if tv_faults env (mc_tx m) = Enter_Fails then a
       else case fst (tv_audit env results a (wh_data (mc_db m))) of
         Inl _ \<Rightarrow> a
       | Inr i \<Rightarrow>
           a\<lparr>aa_research_metadata :=
              dict_set ''research_answer_audit_id'' (PStr i) (aa_research_metadata a)\<rparr>)"

definition audit_answer ::
  "'w turn_env \<Rightarrow> prepared_turn \<Rightarrow> tool_results \<Rightarrow> string option \<Rightarrow> outcome \<Rightarrow> ('w, outcome) run" where
  "audit_answer env p results trace out =
     (if ap_intent (pp_plan p) \<notin> set research_intelligence_intents then op_return out
      else
        op_bind (note_audit env results (fst out)) (\<lambda>noted.
        op_bind (op_attempt (in_tx env (on_data (tv_audit env results (fst out))))) (\<lambda>r.
          case r of
            Inl _ \<Rightarrow> op_return (degrade env ''AUDIT_PERSIST'' ''AUDIT_PERSIST_FAILURE'' trace (noted, snd out))
          | Inr _ \<Rightarrow>
              op_bind (op_attempt (in_tx env (on_data (tv_project env results noted)))) (\<lambda>projected.
                op_return (if projected = Inr True then (noted, snd out)
                  else degrade env ''KNOWLEDGE_PROJECTION'' ''KNOWLEDGE_PROJECTION_FAILURE'' trace (noted, snd out))))))"

text \<open>\<open>answer.research_metadata.get("degradation")\<close> if it is a dictionary.\<close>

definition diagnostic_of :: "assistant_answer \<Rightarrow> pdict option" where
  "diagnostic_of a =
     (case dict_get (aa_research_metadata a) ''degradation'' of PDict d \<Rightarrow> Some d | _ \<Rightarrow> None)"

definition note_diagnostic :: "'w turn_env \<Rightarrow> string option \<Rightarrow> outcome \<Rightarrow> ('w, unit) run" where
  "note_diagnostic env trace out =
     (case diagnostic_of (fst out) of
        None \<Rightarrow> op_return ()
      | Some d \<Rightarrow> quietly (finish_llm env trace (snd out) (Some d)))"

text \<open>A closing write whose failure degrades the answer and is noted on the model trace.\<close>

definition closing_write ::
  "'w turn_env \<Rightarrow> string option \<Rightarrow> (outcome \<Rightarrow> ('w, unit) run) \<Rightarrow> outcome \<Rightarrow> ('w, outcome) run" where
  "closing_write env trace act out =
     op_bind (op_attempt (act out)) (\<lambda>r.
       case r of
         Inr _ \<Rightarrow> op_return out
       | Inl _ \<Rightarrow>
           (let out' = degrade env ''SESSION_FINALIZE'' ''SESSION_FINALIZE_FAILURE'' trace out in
            op_seq (note_diagnostic env trace out') (op_return out')))"

definition finalize_turn ::
  "'w turn_env \<Rightarrow> prepared_turn \<Rightarrow> tool_results \<Rightarrow> exc + string \<Rightarrow> assistant_answer \<times> degradation option \<Rightarrow>
   ('w, assistant_answer) run" where
  "finalize_turn env p results trace_result synthesized =
     (let trace = (case trace_result of Inl _ \<Rightarrow> None | Inr i \<Rightarrow> Some i);
          dg = map_option (\<lambda>d. d\<lparr>dg_trace := trace\<rparr>) (snd synthesized);
          out0 = (case dg of
              None \<Rightarrow> (fst synthesized, ''SUCCESS'')
            | Some d \<Rightarrow> (with_degradation env (fst synthesized) d, ''DEGRADED_SUCCESS''));
          out1 = degraded_if_failed env ''AUDIT_PERSIST'' ''SYNTHESIS_TRACE_CREATE_FAILURE'' None out0 trace_result in
      op_bind (op_attempt (finish_llm env trace (snd out1) (map_option (tv_diagnostic env) dg))) (\<lambda>r.
      op_bind (audit_answer env p results trace
        (degraded_if_failed env ''AUDIT_PERSIST'' ''SYNTHESIS_TRACE_PERSIST_FAILURE'' trace out1 r)) (\<lambda>out2.
      op_seq (note_diagnostic env trace out2)
       (op_bind (closing_write env trace (\<lambda>_. finish_turn env p ''EXECUTED'') out2) (\<lambda>out3.
        op_bind (closing_write env trace (\<lambda>out. in_tx env
            (finish_assistant_session (tv_trace env) (pp_session_id p) (snd out) (Some (pp_intent p))
               (Some (pp_plan p)) (Some (fst out)) None None)) out3) (\<lambda>out4.
        op_return (fst out4)))))))"

text \<open>After the trace of the synthesis was created or not.\<close>

definition synthesize_with ::
  "'w turn_env \<Rightarrow> prepared_turn \<Rightarrow> tool_results \<Rightarrow> exc + string \<Rightarrow> ('w, assistant_answer) run" where
  "synthesize_with env p results trace_result =
     (case tv_synthesize env (pp_plan p) results of
        Inl e \<Rightarrow>
          (let trace = (case trace_result of Inl _ \<Rightarrow> None | Inr i \<Rightarrow> Some i) in
           op_seq (quietly (finish_llm env trace ''FAILED''
               (Some [(''message'', PStr (xe_summary (tv_trace env) e))])))
            (op_seq (fail_turn env p
                (with_lifecycle env ''ANSWER_VALIDATION'' ''SYNTHESIS_FAIL_CLOSED'' trace (turn_error env e)))
              (op_raise (Lifecycle_Error ''ANSWER_VALIDATION'' ''SYNTHESIS_FAIL_CLOSED''))))
      | Inr synthesized \<Rightarrow> finalize_turn env p results trace_result synthesized)"

text \<open>
  The callback \<open>on_synthesizing\<close>: absent, or what calling it raises, if anything.  It is called outside
  every \<open>try\<close>, after the trace of the synthesis was created.
\<close>

type_synonym stage_callback = "exc option option"

definition call_synthesizing :: "stage_callback \<Rightarrow> ('w, unit) run" where
  "call_synthesizing sy =
     (case sy of
        None \<Rightarrow> op_return ()
      | Some None \<Rightarrow> op_return ()
      | Some (Some e) \<Rightarrow> op_raise e)"

definition synthesize_turn ::
  "'w turn_env \<Rightarrow> stage_callback \<Rightarrow> prepared_turn \<Rightarrow> tool_results \<Rightarrow> ('w, assistant_answer) run" where
  "synthesize_turn env sy p results =
     op_bind (op_attempt (in_tx env (create_llm_trace (tv_trace env) (pp_session_id p) ''synthesize'')))
       (\<lambda>trace. op_seq (call_synthesizing sy) (synthesize_with env p results trace))"

definition execute_coordinated_sandbox :: "'w turn_env \<Rightarrow> prepared_turn \<Rightarrow> ('w, assistant_answer) run" where
  "execute_coordinated_sandbox env p =
     op_bind (op_catch (in_tx env (on_data (tv_sandbox env p)))
       (\<lambda>e. op_seq (in_tx env (finish_execution_failure env p e [])) (op_raise e))) (\<lambda>a.
     op_seq (in_tx env
       (op_seq (finish_assistant_session (tv_trace env) (pp_session_id p) ''SUCCESS'' (Some (pp_intent p))
                  (Some (pp_plan p)) (Some a) None None)
         (finish_prepared_turn (pp_turn_id p) ''EXECUTED'')))
      (op_return a))"

definition refuse_changed_plan :: "'w turn_env \<Rightarrow> prepared_turn \<Rightarrow> ('w, assistant_answer) run" where
  "refuse_changed_plan env p =
     op_seq (in_tx env
       (op_seq (finish_prepared_turn (pp_turn_id p) ''HASH_MISMATCH'')
         (finish_assistant_session (tv_trace env) (pp_session_id p) ''VALIDATION_ERROR'' None None None None
            (Some [(''error_type'', PStr ''PlanHashMismatch''), (''message'', PStr ''prepared plan changed'')]))))
      (op_raise Plan_Hash_Mismatch)"

definition execute_prepared ::
  "'w turn_env \<Rightarrow> callback \<Rightarrow> stage_callback \<Rightarrow> prepared_turn \<Rightarrow> ('w, assistant_answer) run" where
  "execute_prepared env cb sy p =
     (if tv_plan_hash env (pp_plan p) \<noteq> pp_plan_hash p then refuse_changed_plan env p
      else if is_approval_required_plan (pp_plan p) then execute_coordinated_sandbox env p
      else
        op_bind (op_attempt (create_turn_traces env p)) (\<lambda>traces.
          case traces of
            Inl e \<Rightarrow>
              op_seq (fail_turn env p (turn_error env e))
                (op_raise (Lifecycle_Error ''AUDIT_PERSIST'' ''TOOL_TRACE_CREATE_FAILURE''))
          | Inr trace_ids \<Rightarrow>
              op_bind (op_attempt (execute_managed_tools env cb p trace_ids)) (\<lambda>outputs.
                case outputs of
                  Inl e \<Rightarrow>
                    op_seq (fail_turn env p
                        (with_lifecycle env ''TOOL_EXECUTION'' ''TOOL_EXECUTION_FAILURE''
                          (case trace_ids of [] \<Rightarrow> None | t # _ \<Rightarrow> Some t) (turn_error env e)))
                      (op_raise (Lifecycle_Error ''TOOL_EXECUTION'' ''TOOL_EXECUTION_FAILURE''))
                | Inr results \<Rightarrow> synthesize_turn env sy p results)))"

subsection \<open>Previews and cancellations\<close>

definition preview_prepared :: "'w turn_env \<Rightarrow> prepared_turn \<Rightarrow> ('w, unit) run" where
  "preview_prepared env p =
     in_tx env
       (op_seq (finish_assistant_session (tv_trace env) (pp_session_id p) ''SUCCESS'' (Some (pp_intent p))
                  (Some (pp_plan p)) None None None)
         (finish_prepared_turn (pp_turn_id p) ''PREVIEWED''))"

definition cancel_prepared :: "'w turn_env \<Rightarrow> prepared_turn \<Rightarrow> ('w, unit) run" where
  "cancel_prepared env p =
     in_tx env
       (op_seq (finish_prepared_turn (pp_turn_id p) ''CANCELLED'')
         (finish_assistant_session (tv_trace env) (pp_session_id p) ''VALIDATION_ERROR'' None None None None
            (Some [(''error_type'', PStr ''Cancelled''), (''message'', PStr ''prepared turn cancelled'')])))"

end
