(* ===== verification/Turn_Prepare.thy ===== *)
theory Turn_Prepare
  imports Managed_Turn
begin

section \<open>Preparation of a turn\<close>

text \<open>
  \<open>assistant/managed_prepare.py\<close>, \<open>assistant/effective_date.py\<close> and \<open>ask\<close> of
  \<open>assistant/managed_runtime.py\<close>: from a request to a refusal or a prepared turn.  The resolution of a
  date against the calendar, the projection of the prompt that is stored and the reading of the symbol
  memory are arguments.
\<close>

subsection \<open>The date a request is about\<close>

definition current_symbol_session_intents :: "string list" where
  "current_symbol_session_intents = [''deep_analyze_symbol'', ''fetch_data'']"

definition normalize_date_candidate :: "string option \<Rightarrow> string option" where
  "normalize_date_candidate v =
     (case v of None \<Rightarrow> None | Some t \<Rightarrow> if strip t = [] then None else Some (strip t))"

text \<open>
  \<open>resolve_date\<close> and \<open>resolve_market_session_date\<close>: a date, or the message of a \<open>ValueError\<close>.
\<close>

record date_env =
  de_resolve :: "string option \<Rightarrow> string + string"
  de_market :: "string option \<Rightarrow> string + string"

definition date_message :: "string \<Rightarrow> string" where
  "date_message v =
     ''Invalid date value '' @ quoted v @ ''; expected '' @ quoted ''today'' @ '' or ISO format YYYY-MM-DD.''"

definition validate_date_candidate :: "date_env \<Rightarrow> string option \<Rightarrow> exc + unit" where
  "validate_date_candidate de v =
     (case v of
        None \<Rightarrow> Inr ()
      | Some t \<Rightarrow>
          (case de_resolve de v of Inl _ \<Rightarrow> Inl (Assistant_Input_Error (date_message t)) | Inr _ \<Rightarrow> Inr ()))"

definition resolved_or_invalid :: "string + string \<Rightarrow> exc + string" where
  "resolved_or_invalid r =
     (case r of Inl message \<Rightarrow> Inl (Assistant_Input_Error message) | Inr d \<Rightarrow> Inr d)"

definition resolve_effective_target_date ::
  "date_env \<Rightarrow> string option \<Rightarrow> string option \<Rightarrow> string \<Rightarrow> bool \<Rightarrow> exc + string" where
  "resolve_effective_target_date de classified_date request_date intent implicit =
     (let classified = normalize_date_candidate classified_date;
          requested = normalize_date_candidate request_date;
          selected = (if classified \<noteq> None then classified else requested) in
      res_bind (validate_date_candidate de selected) (\<lambda>_.
        if intent \<in> set current_symbol_session_intents \<and> implicit \<and>
           (case classified of None \<Rightarrow> True | Some t \<Rightarrow> lower t = ''today'')
        then Inr ''today''
        else if intent \<in> set current_symbol_session_intents
        then resolved_or_invalid (de_market de (if classified = None \<and> implicit then None else selected))
        else resolved_or_invalid (de_resolve de selected)))"

subsection \<open>Preparation\<close>

record assistant_request =
  aq_prompt :: string
  aq_date :: "string option"
  aq_date_implicit :: bool

record 'w prepare_env =
  pv_turn :: "'w turn_env"
  pv_classifier :: classifier_env
  pv_first :: "string \<Rightarrow> chat_outcome"
  pv_second :: "string \<Rightarrow> chat_outcome"
  pv_planner :: planner_env
  pv_dates :: date_env
  pv_surface :: string
  pv_projection :: "string \<Rightarrow> string"
  pv_memory :: "'w \<Rightarrow> exc option"

datatype preparation = Prepared prepared_turn | Refused string pval "string option"

text \<open>What ends a preparation early: a refusal or an exception.\<close>

datatype stop = Stop_Refused string pval "string option" | Stop_Raised exc

type_synonym ('w, 'a) prep = "('w machine, stop, 'a) op"

definition raising :: "('w, 'a) run \<Rightarrow> ('w, 'a) prep" where
  "raising m = (\<lambda>s. case m s of (Inl e, t) \<Rightarrow> (Inl (Stop_Raised e), t) | (Inr x, t) \<Rightarrow> (Inr x, t))"

text \<open>\<open>except Exception as exc: raise other from exc\<close>.\<close>

definition raising_as :: "exc \<Rightarrow> ('w, 'a) run \<Rightarrow> ('w, 'a) prep" where
  "raising_as e m = (\<lambda>s. case m s of (Inl _, t) \<Rightarrow> (Inl (Stop_Raised e), t) | (Inr x, t) \<Rightarrow> (Inr x, t))"

definition request_exc :: "request_error \<Rightarrow> exc" where
  "request_exc e =
     (case e of
        Intent_Classification_Error \<Rightarrow> Foreign_Error ''IntentClassificationError'' []
      | Input_Validation_Error _ \<Rightarrow> Assistant_Input_Error ''INVALID_SYMBOL_FORMAT''
      | Raised_Type_Error \<Rightarrow> Foreign_Error ''TypeError'' []
      | Raised_Overflow_Error \<Rightarrow> Foreign_Error ''OverflowError'' [])"

definition policy_stop :: "string \<Rightarrow> ('w, unit) prep" where
  "policy_stop prompt =
     (case check_policy prompt of
        None \<Rightarrow> op_return ()
      | Some r \<Rightarrow> op_raise (Stop_Refused (re_reason r) (PStr (re_category r)) (re_suggestion r)))"

definition intent_stop :: "intent_result \<Rightarrow> ('w, unit) prep" where
  "intent_stop ir =
     (case check_intent_policy ir of
        None \<Rightarrow> op_return ()
      | Some (reason, category) \<Rightarrow> op_raise (Stop_Refused reason category None))"

definition classify_request :: "'w prepare_env \<Rightarrow> string \<Rightarrow> string \<Rightarrow> ('w, intent_result) prep" where
  "classify_request env sid prompt =
     op_bind (raising (in_tx (pv_turn env) (create_llm_trace (tv_trace (pv_turn env)) sid ''classify''))) (\<lambda>trace.
     (case classify (pv_classifier env) (pv_first env prompt) (pv_second env prompt) prompt of
        Inl e \<Rightarrow>
          op_seq (raising (quietly (finish_llm (pv_turn env) (Some trace) ''FAILED''
              (Some [(''message'', PStr (xe_summary (tv_trace (pv_turn env)) (request_exc e)))]))))
            (op_raise (Stop_Raised (Lifecycle_Error ''CLASSIFY'' ''CLASSIFICATION_FAILURE'')))
      | Inr ir \<Rightarrow>
          op_seq (raising_as (Lifecycle_Error ''AUDIT_PERSIST'' ''CLASSIFY_TRACE_PERSIST_FAILURE'')
              (finish_llm (pv_turn env) (Some trace) ''SUCCESS'' None))
            (op_return ir)))"

definition classified_date :: "intent_result \<Rightarrow> string option" where
  "classified_date ir = (case dict_get (ir_entities ir) ''date'' of PStr d \<Rightarrow> Some d | _ \<Rightarrow> None)"

definition dated :: "'w prepare_env \<Rightarrow> assistant_request \<Rightarrow> intent_result \<Rightarrow> exc + intent_result" where
  "dated env rq ir =
     res_bind (resolve_effective_target_date (pv_dates env) (classified_date ir)
         (normalize_date_candidate (aq_date rq)) (ir_intent ir) (aq_date_implicit rq)) (\<lambda>d.
       Inr (ir\<lparr>ir_entities := dict_set ''date'' (PStr d) (ir_entities ir)\<rparr>))"

definition planned :: "'w prepare_env \<Rightarrow> intent_result \<Rightarrow> exc + assistant_plan" where
  "planned env ir =
     (case build_plan (pv_planner env) ir of
        Inl _ \<Rightarrow> Inl (Lifecycle_Error ''PLAN'' ''PLAN_BUILD_FAILURE'')
      | Inr plan \<Rightarrow> Inr plan)"

definition read_memory :: "'w prepare_env \<Rightarrow> ('w, unit) run" where
  "read_memory env =
     read_connection (tv_faults (pv_turn env))
       (\<lambda>m. (case pv_memory env (wh_data (mc_db m)) of None \<Rightarrow> Inr () | Some e \<Rightarrow> Inl e, m))"

text \<open>
  \<open>SandboxExecutionService.materialize_assistant_plan\<close>: a job of the sandbox is prepared, not run, and
  its arguments take the place of those of the step.
\<close>

definition materialize_assistant_plan :: "'w turn_env \<Rightarrow> assistant_plan \<Rightarrow> 'w \<Rightarrow> (exc + assistant_plan) \<times> 'w" where
  "materialize_assistant_plan env plan w =
     (case ap_steps plan of
        [s] \<Rightarrow>
          if ps_tool s \<noteq> ''sandbox.run_research_code'' \<or> map_of (ps_arguments s) ''job_id'' \<noteq> None
          then (Inr plan, w)
          else (case tv_prepare_job env (strip (py_str (xe_repr (tv_trace env))
                  (dict_get_or (ps_arguments s) ''purpose'' (PStr ''offline research calculation'')))) w of
              (Inl e, w') \<Rightarrow> (Inl e, w')
            | (Inr args, w') \<Rightarrow> (Inr (plan\<lparr>ap_steps := [s\<lparr>ps_arguments := args\<rparr>]\<rparr>), w'))
      | _ \<Rightarrow> (Inr plan, w))"

definition materialized :: "'w prepare_env \<Rightarrow> assistant_plan \<Rightarrow> ('w, assistant_plan) run" where
  "materialized env plan =
     (if is_approval_required_plan plan
      then in_tx (pv_turn env) (on_data (materialize_assistant_plan (pv_turn env) plan))
      else op_return plan)"

definition persist_turn :: "'w prepare_env \<Rightarrow> prepared_turn \<Rightarrow> ('w, unit) run" where
  "persist_turn env p =
     in_tx (pv_turn env)
       (op_seq (persist_prepared_turn p)
         (mark_assistant_session_prepared (pp_session_id p) (pp_intent p) (pp_plan p)))"

text \<open>Up to the prepared turn, and to its storage.\<close>

definition prepare_turn ::
  "'w prepare_env \<Rightarrow> assistant_request \<Rightarrow> string \<Rightarrow> ('w, prepared_turn) prep" where
  "prepare_turn env rq sid =
     op_seq (raising (op_lift (validate_date_candidate (pv_dates env) (normalize_date_candidate (aq_date rq)))))
      (op_seq (policy_stop (aq_prompt rq))
       (op_bind (classify_request env sid (aq_prompt rq)) (\<lambda>ir0.
        op_bind (raising (op_lift (dated env rq ir0))) (\<lambda>ir.
        op_seq (intent_stop ir)
         (op_bind (raising (op_lift (planned env ir))) (\<lambda>plan0.
          op_seq (raising (read_memory env))
           (op_bind (raising (materialized env plan0)) (\<lambda>plan.
            op_bind (raising (fresh_id (tv_trace (pv_turn env)))) (\<lambda>i.
            op_return \<lparr>pp_turn_id = ''turn-'' @ i, pp_session_id = sid, pp_intent = ir_intent ir,
              pp_plan = plan, pp_plan_hash = tv_plan_hash (pv_turn env) plan\<rparr>)))))))))"

definition prepare_session ::
  "'w prepare_env \<Rightarrow> assistant_request \<Rightarrow> string \<Rightarrow> ('w, prepared_turn) prep" where
  "prepare_session env rq sid =
     op_bind (prepare_turn env rq sid) (\<lambda>p. op_seq (raising (persist_turn env p)) (op_return p))"

definition finish_prepare_failure :: "'w prepare_env \<Rightarrow> string \<Rightarrow> exc \<Rightarrow> string \<Rightarrow> ('w, unit) run" where
  "finish_prepare_failure env sid e status =
     (let details = turn_error (pv_turn env) e;
          details' = (case e of
              Lifecycle_Error stage category \<Rightarrow> with_lifecycle (pv_turn env) stage category None details
            | _ \<Rightarrow> details) in
      quietly (in_tx (pv_turn env)
        (finish_assistant_session (tv_trace (pv_turn env)) sid status None None None None (Some details'))))"

definition prepare_stopped :: "'w prepare_env \<Rightarrow> string \<Rightarrow> stop \<Rightarrow> ('w, preparation) run" where
  "prepare_stopped env sid st =
     (case st of
        Stop_Refused reason category suggestion \<Rightarrow>
          op_seq (quietly (in_tx (pv_turn env)
              (finish_assistant_session (tv_trace (pv_turn env)) sid ''REFUSED'' None None None (Some reason) None)))
            (op_return (Refused reason category suggestion))
      | Stop_Raised e \<Rightarrow>
          (case e of
             Assistant_Input_Error _ \<Rightarrow>
               op_seq (finish_prepare_failure env sid e ''VALIDATION_ERROR'') (op_raise e)
           | Lifecycle_Error _ _ \<Rightarrow>
               op_seq (finish_prepare_failure env sid e ''FAILED'') (op_raise e)
           | _ \<Rightarrow>
               op_seq (finish_prepare_failure env sid e ''FAILED'')
                 (op_raise (Lifecycle_Error ''AUDIT_PERSIST'' ''PREPARE_PERSIST_FAILURE''))))"

definition prepare :: "'w prepare_env \<Rightarrow> assistant_request \<Rightarrow> ('w, preparation) run" where
  "prepare env rq =
     op_bind (op_attempt (in_tx (pv_turn env)
         (create_assistant_session (tv_trace (pv_turn env)) (pv_surface env)
            (pv_projection env (aq_prompt rq))))) (\<lambda>created.
       case created of
         Inl _ \<Rightarrow> op_raise (Lifecycle_Error ''AUDIT_PERSIST'' ''SESSION_CREATE_FAILURE'')
       | Inr sid \<Rightarrow>
           (\<lambda>m. case prepare_session env rq sid m of
              (Inl st, m') \<Rightarrow> prepare_stopped env sid st m'
            | (Inr p, m') \<Rightarrow> (Inr (Prepared p), m')))"

subsection \<open>A request from start to end\<close>

datatype reply =
    Reply_Refused string pval "string option"
  | Reply_Preview assistant_plan
  | Reply_Answer assistant_answer assistant_plan

definition ask ::
  "'w prepare_env \<Rightarrow> callback \<Rightarrow> bool \<Rightarrow> assistant_request \<Rightarrow> ('w, reply) run" where
  "ask env cb no_execute rq =
     op_bind (prepare env rq) (\<lambda>prepared.
       case prepared of
         Refused reason category suggestion \<Rightarrow> op_return (Reply_Refused reason category suggestion)
       | Prepared p \<Rightarrow>
           if is_approval_required_plan (pp_plan p) \<or> no_execute
           then op_seq (preview_prepared (pv_turn env) p) (op_return (Reply_Preview (pp_plan p)))
           else op_bind (execute_prepared (pv_turn env) cb None p) (\<lambda>a.
             op_return (Reply_Answer a (pp_plan p))))"

end
