(* ===== verification/Turn_Frames.thy ===== *)
theory Turn_Frames
  imports Assistant_Executor Turn_Prepare
begin

section \<open>What the executor does to its traces\<close>

text \<open>
  What one call writes, and the frame of deferred mode: the executor leaves the tables alone and
  accounts for every prestarted trace (\<open>deferred\<close>).
\<close>

context effect_frame begin

text \<open>What follows a check may rely on it.\<close>

lemma keeps_seq_guard: "(\<not> b \<Longrightarrow> keeps m) \<Longrightarrow> keeps (op_seq (op_guard b e) m)"
  by (auto simp: keeps_def op_simps rel_refl)

lemma keeps_case_prod: "(\<And>x y. keeps (f x y)) \<Longrightarrow> keeps (case p of (x, y) \<Rightarrow> f x y)"
  by (cases p) simp

end

subsection \<open>One call outside deferred mode\<close>

lemma insert_trace_new:
  "tt_id row \<notin> tt_id ` set (wh_traces (mc_db m)) \<Longrightarrow>
     insert_trace row m = (Inr (), on_traces (\<lambda>rows. rows @ [row]) m)"
  by (simp add: insert_trace_def)

lemma update_where_append [simp]: "update_where p f (rs @ ss) = update_where p f rs @ update_where p f ss"
  by (simp add: update_where_def)

lemma update_where_other: "i \<notin> k ` set rs \<Longrightarrow> update_where (\<lambda>r. k r = i) f rs = rs"
  by (rule update_where_none) auto

lemma direct_call:
  assumes "\<not> ex_deferred (mc_exec m)" and "map_of reg name = Some (spec, impl)"
    and "xe_uuid env (mc_fresh m) \<notin> tt_id ` set (wh_traces (mc_db m))"
    and "tool_call reg name (case perms of None \<Rightarrow> [tsp_permission spec] | Some [] \<Rightarrow> [tsp_permission spec] | Some ps \<Rightarrow> ps)
           kwargs (wh_data (mc_db m)) = (r, w)"
  shows "executor_call env reg None name perms kwargs m =
     (r, m\<lparr>mc_fresh := mc_fresh m + 1,
           mc_db := (mc_db m)\<lparr>wh_data := w, wh_traces := wh_traces (mc_db m) @
             [finish_row env (case r of Inl _ \<Rightarrow> ''FAILED'' | Inr _ \<Rightarrow> ''SUCCESS'')
               (case r of Inl _ \<Rightarrow> None | Inr out \<Rightarrow> Some (summarize_output (xe_repr env) out))
               (case r of Inl e \<Rightarrow> Some (error_details env e) | Inr _ \<Rightarrow> None) None
               (new_trace env (mc_exec m) name (safe_arguments kwargs) (xe_uuid env (mc_fresh m)))]\<rparr>\<rparr>)"
  using assms
  by (cases r)
    (simp_all add: executor_call_def tool_get_spec_def start_trace_def create_tool_trace_def fresh_id_def
      insert_trace_def op_simps op_bind_def op_seq_def op_catch_def emit_event_def run_tool_def
      finish_trace_def finish_tool_trace_def call_failed_def on_traces_def new_trace_def Let_def
      update_where_other)

subsection \<open>Deferred mode\<close>

definition tables :: "'w machine \<Rightarrow> trace_row list \<times> session_row list \<times> turn_row list \<times> llm_row list" where
  "tables m = (wh_traces (mc_db m), wh_sessions (mc_db m), wh_turns (mc_db m), wh_llm (mc_db m))"

definition final_statuses :: "string list" where
  "final_statuses = [''SUCCESS'', ''FAILED'']"

definition pending_ok :: "executor \<Rightarrow> bool" where
  "pending_ok ex \<longleftrightarrow> list_all (\<lambda>p. pt_status p \<in> set final_statuses) (ex_pending ex)"

definition trace_ids :: "executor \<Rightarrow> string set" where
  "trace_ids ex = pt_id ` set (ex_pending ex) \<union> set (ex_prestarted ex)"

definition deferred_rel :: "'w machine \<Rightarrow> 'w machine \<Rightarrow> bool" where
  "deferred_rel m m' \<longleftrightarrow>
     (ex_deferred (mc_exec m) \<longrightarrow>
        ex_deferred (mc_exec m') \<and> tables m' = tables m \<and>
        ex_all_prestarted (mc_exec m') = ex_all_prestarted (mc_exec m) \<and>
        trace_ids (mc_exec m') = trace_ids (mc_exec m) \<and>
        (pending_ok (mc_exec m) \<longrightarrow> pending_ok (mc_exec m')))"

interpretation deferred: effect_frame deferred_rel
  by unfold_locales (auto simp: deferred_rel_def)

text \<open>A call takes a prestarted trace and puts it among the pending ones, however the tool ends.\<close>

lemma deferred_call: "deferred.keeps (executor_call env reg (Some (\<lambda>_. None)) name perms kwargs)"
  unfolding deferred.keeps_def
proof
  fix m :: "'a machine"
  show "deferred_rel m (snd (executor_call env reg (Some (\<lambda>_. None)) name perms kwargs m))"
    unfolding executor_call_def
    by (auto simp: deferred_rel_def tables_def trace_ids_def pending_ok_def final_statuses_def
        start_trace_def op_simps op_bind_def op_seq_def op_catch_def emit_event_def run_tool_def
        finish_trace_def call_failed_def on_exec_def Let_def
        split: sum.splits list.splits prod.splits if_splits)
qed

lemma deferred_data: "deferred.keeps (on_data f)"
  by (auto simp: deferred.keeps_def on_data_def deferred_rel_def tables_def split: prod.splits)

lemma deferred_ensure: "deferred.keeps (ensure_data_for_step re s b)"
  unfolding ensure_data_for_step_def ensure_symbol_def
  by (auto intro!: deferred.keeps_rules deferred.keeps_all deferred_data)

lemma deferred_step: "deferred.keeps (execute_step env reg (Some (\<lambda>_. None)) corr s)"
  unfolding execute_step_def by (intro deferred.keeps_rules deferred_call)

lemma deferred_after: "deferred.keeps (after_provisioning env s result rest)"
  unfolding after_provisioning_def assert_provisioning_ready_def Let_def by (intro deferred.keeps_rules)

lemma deferred_steps:
  "deferred.keeps (execute_steps env re reg (Some (\<lambda>_. None)) corr b n steps results)"
proof (induction n arbitrary: steps results)
  case (Suc n)
  then show ?case
    by (cases steps)
      (auto simp: assert_safe_tool_def
        intro!: deferred.keeps_rules deferred_ensure deferred_step deferred_after)
qed (simp add: deferred.keeps_return)

lemma deferred_plan:
  "deferred.keeps (execute_plan env re reg (Some (\<lambda>_. None)) corr plan b)"
  unfolding execute_plan_def by (intro deferred.keeps_rules deferred_steps)


section \<open>Frames of a turn\<close>

text \<open>
  A relation between the machine before and after, kept by the parts of a turn, is kept by the turn.
  The parts each locale asks for are the ones its operations are made of: transactions
  (\<open>db_frame\<close>), closings of sessions and turns (\<open>records_frame\<close>), of model traces
  (\<open>closing_frame\<close>), the synthesis (\<open>synthesis_frame\<close>), the steps (\<open>steps_frame\<close>), the whole execution
  (\<open>turn_frame\<close>), the preparation up to the plan (\<open>planning_frame\<close>), to the stored turn
  (\<open>preparing_frame\<close>) and with its session (\<open>prepare_frame\<close>), a request (\<open>request_frame\<close>).
\<close>

subsection \<open>Transactions\<close>

definition records :: "'w machine \<Rightarrow> session_row list \<times> turn_row list \<times> llm_row list" where
  "records m = (wh_sessions (mc_db m), wh_turns (mc_db m), wh_llm (mc_db m))"

locale db_frame = effect_frame rel
  for rel :: "'w machine \<Rightarrow> 'w machine \<Rightarrow> bool" +
  assumes same_db: "mc_db m' = mc_db m \<Longrightarrow> rel m m'"
begin

lemma restored: "rel m (m1\<lparr>mc_db := mc_db m\<rparr>)"
  by (simp add: same_db)

lemma keeps_tx:
  assumes "keeps body"
  shows "keeps (in_tx env body)"
  unfolding keeps_def
proof
  fix m :: "'w machine"
  let ?m = "m\<lparr>mc_tx := mc_tx m + 1\<rparr>"
  obtain r m1 where b: "body ?m = (r, m1)" by fastforce
  have "rel m ?m" by (simp add: same_db)
  moreover have "rel ?m m1" using assms b by (rule keepsD)
  ultimately have "rel m ?m" "rel m m1" by (blast intro: rel_trans)+
  then show "rel m (snd (in_tx env body m))"
    using b restored [of m m1] by (cases r) (simp_all add: in_tx_def transaction_def Let_def)
qed

lemma keeps_connection: "keeps (read_connection faults body)"
  unfolding keeps_def
proof
  fix m :: "'w machine"
  show "rel m (snd (read_connection faults body m))"
    using restored by (auto simp: read_connection_def Let_def same_db split: prod.splits)
qed

lemma keeps_attempt: "keeps m \<Longrightarrow> keeps (op_attempt m)"
  by (auto simp: keeps_def op_attempt_def split: prod.splits) (metis snd_conv)

lemma keeps_quietly: "keeps m \<Longrightarrow> keeps (quietly m)"
  unfolding quietly_def by (intro keeps_rules)

lemma keeps_collect: "\<forall>m \<in> set ms. keeps m \<Longrightarrow> keeps (op_collect ms)"
  by (induction ms) (auto intro: keeps_rules)

lemma keeps_sum:
  "(\<And>e. keeps (f e)) \<Longrightarrow> (\<And>x. keeps (g x)) \<Longrightarrow> keeps (case r of Inl e \<Rightarrow> f e | Inr x \<Rightarrow> g x)"
  by (cases r) simp_all

lemma keeps_fresh: "keeps (fresh_id e)"
  by (simp add: keeps_def fresh_id_def same_db)

lemma keeps_on_db: "(\<And>m. rel m (on_db f m)) \<Longrightarrow> keeps (op_write (on_db f))"
  by (rule keeps_write)

lemmas db_rules = keeps_rules keeps_tx keeps_connection keeps_attempt keeps_quietly keeps_sum keeps_fresh

end

subsection \<open>Closing a session or a turn\<close>

locale records_frame = db_frame +
  assumes closes_session: "keeps (finish_assistant_session e sid st i plan a ref err)"
    and closes_turn: "keeps (finish_prepared_turn tid st)"
begin

lemmas records_rules = db_rules closes_session closes_turn

lemma keeps_fail_turn: "keeps (fail_turn env p details)"
  unfolding fail_turn_def finish_turn_def by (intro records_rules)

lemma keeps_refuse: "keeps (refuse_changed_plan env p)"
  unfolding refuse_changed_plan_def by (intro records_rules)

lemma keeps_preview: "keeps (preview_prepared env p)"
  unfolding preview_prepared_def by (intro records_rules)

lemma keeps_raising: "keeps m \<Longrightarrow> keeps (raising m)"
  by (auto simp: keeps_def raising_def split: prod.splits sum.splits) (metis snd_conv)+

lemma keeps_raising_as: "keeps m \<Longrightarrow> keeps (raising_as e m)"
  by (auto simp: keeps_def raising_as_def split: prod.splits sum.splits) (metis snd_conv)+

lemma keeps_finish_llm_if: "(\<And>i. keeps (finish_llm_trace (tv_trace env) i st err)) \<Longrightarrow> keeps (finish_llm env trace st err)"
  unfolding finish_llm_def by (intro records_rules)

lemma keeps_classify_if:
  "(\<And>e sid stage. keeps (create_llm_trace e sid stage)) \<Longrightarrow> (\<And>e i st err. keeps (finish_llm_trace e i st err)) \<Longrightarrow>
     keeps (classify_request env sid prompt)"
  unfolding classify_request_def
  by (intro db_rules keeps_raising keeps_raising_as keeps_finish_llm_if)

end

subsection \<open>The synthesis\<close>

locale closing_frame = records_frame rel
  for rel :: "'w machine \<Rightarrow> 'w machine \<Rightarrow> bool" +
  fixes env :: "'w turn_env"
  assumes closes_llm: "keeps (finish_llm_trace e i st err)"
    and audit: "keeps (on_data (tv_audit env results a))"
    and projection: "keeps (on_data (tv_project env results a))"
begin

lemmas keeps_finish_llm = keeps_finish_llm_if [OF closes_llm]

lemma keeps_note: "keeps (note_diagnostic env trace out)"
  unfolding note_diagnostic_def by (intro records_rules keeps_finish_llm)

lemma keeps_audit: "keeps (audit_answer env p results trace out)"
  unfolding audit_answer_def note_audit_def by (intro records_rules audit projection)

lemma keeps_closing: "(\<And>out. keeps (act out)) \<Longrightarrow> keeps (closing_write env trace act out)"
  unfolding closing_write_def Let_def by (intro records_rules keeps_note)

lemma keeps_finalize: "keeps (finalize_turn env p results trace_result syn)"
  unfolding finalize_turn_def finish_turn_def Let_def
  by (intro records_rules keeps_finish_llm keeps_audit keeps_note keeps_closing)

text \<open>It starts with the end of the model trace.\<close>

lemma finalize_parts:
  "\<exists>st err rest. finalize_turn env p results trace_result syn =
       op_bind (op_attempt (finish_llm env (case trace_result of Inl _ \<Rightarrow> None | Inr i \<Rightarrow> Some i) st err)) rest \<and>
     (\<forall>r. keeps (rest r))"
  unfolding finalize_turn_def finish_turn_def Let_def
  by (rule exI, rule exI, rule exI, rule conjI, rule refl)
    (intro allI records_rules keeps_finish_llm keeps_audit keeps_note keeps_closing)

end

locale synthesis_frame = closing_frame +
  assumes opens_llm: "keeps (create_llm_trace e sid stage)"
begin

lemma keeps_stage_call: "keeps (call_synthesizing sy)"
  by (auto simp: call_synthesizing_def keeps_return keeps_raise split: option.splits)

lemma keeps_synthesize: "keeps (synthesize_turn env sy p results)"
  unfolding synthesize_turn_def synthesize_with_def Let_def
  by (intro records_rules opens_llm keeps_finish_llm keeps_fail_turn keeps_finalize keeps_stage_call)

end

subsection \<open>The steps\<close>

lemma machine_same_simps:
  "wh_data (mc_db (on_exec f m)) = wh_data (mc_db m)" "records (on_exec f m) = records m"
  "wh_data (mc_db (on_traces g m)) = wh_data (mc_db m)" "records (on_traces g m) = records m"
  by (simp_all add: records_def on_exec_def on_traces_def)

lemma replay_same: "snd (replay_trace_events cb m) = m"
proof -
  have "snd (op_all (map (\<lambda>ev. case f ev of None \<Rightarrow> op_return () | Some e \<Rightarrow> op_raise e) evs) m) = m"
    for f :: "trace_event \<Rightarrow> exc option" and evs
    by (induction evs) (auto simp: op_seq_def op_bind_def op_simps split: option.splits)
  then show ?thesis
    by (simp add: replay_trace_events_def op_simps split: option.splits)
qed

locale steps_frame = records_frame rel
  for rel :: "'w machine \<Rightarrow> 'w machine \<Rightarrow> bool" +
  fixes env :: "'w turn_env"
  assumes same: "wh_data (mc_db m') = wh_data (mc_db m) \<Longrightarrow> records m' = records m \<Longrightarrow> rel m m'"
    and safe_tool: "is_safe_tool t \<Longrightarrow> keeps (run_tool (tv_registry env) t granted kwargs)"
    and deep_readiness: "keeps (on_data (ry_deep (tv_ready env) symbol date r1 r2))"
    and symbol_readiness: "keeps (on_data (ry_symbol (tv_ready env) symbol date))"
begin

lemma keeps_same:
  "(\<And>m. wh_data (mc_db (snd (f m))) = wh_data (mc_db m) \<and> records (snd (f m)) = records m) \<Longrightarrow> keeps f"
  by (simp add: keeps_def same)

lemma keeps_start: "keeps (start_trace e name input)"
  by (rule keeps_same)
    (auto simp: start_trace_def create_tool_trace_def fresh_id_def insert_trace_def op_simps op_bind_def op_seq_def
      machine_same_simps on_traces_def on_exec_def records_def split: list.splits if_splits)

lemma keeps_finish_tool: "keeps (finish_tool_trace e tid st out err input)"
  by (rule keeps_same) (simp add: finish_tool_trace_def op_simps machine_same_simps)

lemma keeps_finish: "keeps (finish_trace e tid tool input st out err)"
  unfolding finish_trace_def
  by (intro keeps_rules keeps_finish_tool keeps_write) (simp add: same machine_same_simps)

lemma keeps_create_trace: "keeps (create_tool_trace e ex tool input i)"
  by (rule keeps_same)
    (auto simp: create_tool_trace_def fresh_id_def insert_trace_def op_simps op_bind_def op_seq_def
      machine_same_simps on_traces_def records_def split: option.splits)

lemma keeps_emit: "keeps (emit_event cb tool st tid)"
  by (rule keeps_same)
    (auto simp: emit_event_def op_simps Let_def op_seq_def op_bind_def records_def split: option.splits)

lemma keeps_call: "is_safe_tool name \<Longrightarrow> keeps (executor_call e (tv_registry env) cb name perms kwargs)"
  unfolding executor_call_def call_failed_def Let_def
  by (intro keeps_rules keeps_start keeps_emit keeps_finish safe_tool)

lemma keeps_ensure: "keeps (ensure_data_for_step (tv_ready env) s b)"
  unfolding ensure_data_for_step_def ensure_symbol_def
  by (auto intro!: keeps_rules keeps_all deep_readiness symbol_readiness)

lemma keeps_step: "is_safe_tool (ps_tool s) \<Longrightarrow> keeps (execute_step e (tv_registry env) cb corr s)"
  unfolding execute_step_def by (intro keeps_rules keeps_call)

lemma keeps_after: "keeps (after_provisioning e s result rest)"
  unfolding after_provisioning_def assert_provisioning_ready_def Let_def by (intro keeps_rules)

lemma keeps_steps: "keeps (execute_steps e (tv_ready env) (tv_registry env) cb corr b n steps results)"
proof (induction n arbitrary: steps results)
  case (Suc n)
  show ?case
  proof (cases steps)
    case (Cons s rest)
    show ?thesis
      unfolding Cons execute_steps.simps assert_safe_tool_def
      by (rule keeps_seq_guard) (auto intro!: keeps_bind keeps_seq keeps_ensure keeps_step keeps_after Suc.IH)
  qed (simp add: keeps_return)
qed (simp add: keeps_return)

lemma keeps_plan: "keeps (execute_plan e (tv_ready env) (tv_registry env) cb corr plan b)"
  unfolding execute_plan_def by (intro keeps_rules keeps_steps)

lemma keeps_set_executor: "keeps (set_executor sid ids)"
  by (rule keeps_same) (simp add: set_executor_def op_simps machine_same_simps)

lemma keeps_run_step: "keeps (run_step env p s tid prov explicit)"
  unfolding run_step_def by (intro keeps_rules keeps_set_executor keeps_plan)

lemma keeps_flush: "keeps (flush_traces env)"
proof -
  have "keeps (op_write (on_exec f))" for f :: "executor \<Rightarrow> executor"
    by (rule keeps_write) (simp add: same machine_same_simps)
  then show ?thesis
    unfolding flush_traces_def executor_flush_def flush_pending_def
    by (auto intro!: keeps_bind keeps_read keeps_seq keeps_all keeps_finish_tool keeps_create_trace keeps_return)
qed

lemma keeps_managed_step: "keeps (managed_step env p s tid prov)"
  unfolding managed_step_def
  by (intro records_rules keeps_set_executor keeps_run_step keeps_flush)

lemma keeps_failure: "keeps (finish_execution_failure env p e ids)"
  unfolding finish_execution_failure_def
  by (intro keeps_seq keeps_all closes_session closes_turn) (auto intro: keeps_finish_tool)

lemma keeps_replay: "keeps (replay_trace_events cb)"
  by (simp add: keeps_def replay_same rel_refl)

lemma keeps_managed_failure: "keeps (managed_failure env cb p rest e)"
  unfolding managed_failure_def by (intro records_rules keeps_flush keeps_failure keeps_replay)

lemma keeps_managed_steps: "keeps (managed_steps env cb p zs prov results)"
proof (induction zs arbitrary: prov results)
  case (Cons z zs)
  then show ?case
    by (cases z) (auto simp: Let_def intro!: keeps_bind keeps_catch keeps_managed_step keeps_managed_failure)
qed (simp add: keeps_return)

lemma keeps_tools: "keeps (execute_managed_tools env cb p ids)"
proof -
  have "keeps (op_write (\<lambda>m. m\<lparr>mc_events := []\<rparr>))"
    by (rule keeps_write) (simp add: same records_def)
  then show ?thesis
    unfolding execute_managed_tools_def by (intro keeps_seq keeps_bind keeps_managed_steps keeps_replay keeps_return)
qed

lemma keeps_create_traces: "keeps (create_turn_traces env p)"
  unfolding create_turn_traces_def by (intro keeps_tx keeps_collect) (auto intro: keeps_create_trace)

end

subsection \<open>The execution of a turn\<close>

locale turn_frame = steps_frame +
  assumes synthesizes: "keeps (synthesize_turn env None p results)"
begin

lemma keeps_execute: "\<not> is_approval_required_plan (pp_plan p) \<Longrightarrow> keeps (execute_prepared env cb None p)"
  unfolding execute_prepared_def
  by (intro keeps_if keeps_refuse)
    (auto split: sum.splits
      intro!: keeps_bind keeps_seq keeps_raise keeps_attempt keeps_create_traces keeps_tools keeps_fail_turn
        synthesizes)

end

subsection \<open>The preparation\<close>

locale planning_frame = records_frame rel
  for rel :: "'w machine \<Rightarrow> 'w machine \<Rightarrow> bool" +
  fixes env :: "'w prepare_env"
  assumes classifies: "keeps (classify_request env sid prompt)"
    and prepares_job: "keeps (on_data (tv_prepare_job (pv_turn env) purpose))"
begin

lemma keeps_materialized: "keeps (materialized env plan)"
proof -
  have "keeps (on_data (materialize_assistant_plan (pv_turn env) plan))"
  proof (cases "\<exists>s. ap_steps plan = [s] \<and> ps_tool s = ''sandbox.run_research_code'' \<and> map_of (ps_arguments s) ''job_id'' = None")
    case True
    then obtain s where s: "ap_steps plan = [s]" "ps_tool s = ''sandbox.run_research_code''"
        "map_of (ps_arguments s) ''job_id'' = None"
      by blast
    define purpose where "purpose = strip (py_str (xe_repr (tv_trace (pv_turn env)))
        (dict_get_or (ps_arguments s) ''purpose'' (PStr ''offline research calculation'')))"
    have "snd (materialize_assistant_plan (pv_turn env) plan w) = snd (tv_prepare_job (pv_turn env) purpose w)" for w
      using s by (simp add: materialize_assistant_plan_def purpose_def split: prod.split sum.split)
    then have "snd (on_data (materialize_assistant_plan (pv_turn env) plan) m) =
        snd (on_data (tv_prepare_job (pv_turn env) purpose) m)" for m
      by (simp add: on_data_def prod.case_eq_if)
    then show ?thesis using prepares_job by (simp add: keeps_def)
  next
    case False
    then have "materialize_assistant_plan (pv_turn env) plan = (\<lambda>w. (Inr plan, w))"
      by (auto simp: materialize_assistant_plan_def fun_eq_iff split: list.splits)
    then show ?thesis by (simp add: keeps_def on_data_def same_db)
  qed
  then show ?thesis
    unfolding materialized_def by (intro db_rules)
qed

lemma keeps_read_memory: "keeps (read_memory env)"
  unfolding read_memory_def by (rule keeps_connection)

lemma keeps_prepare_turn: "keeps (prepare_turn env rq sid)"
  unfolding prepare_turn_def policy_stop_def intent_stop_def
  by (intro keeps_seq keeps_bind keeps_raising keeps_option keeps_lift keeps_return keeps_raise classifies
      keeps_read_memory keeps_materialized keeps_fresh keeps_case_prod)

lemma keeps_stopped: "keeps (prepare_stopped env sid st)"
  unfolding prepare_stopped_def finish_prepare_failure_def Let_def
  by (cases st) (auto intro!: records_rules split: exc.splits)

end

locale preparing_frame = planning_frame +
  assumes opens_turn: "keeps (persist_prepared_turn p)"
    and marks_session: "keeps (mark_assistant_session_prepared sid intent plan)"
begin

lemma keeps_prepare_session: "keeps (prepare_session env rq sid)"
  unfolding prepare_session_def persist_turn_def
  by (intro keeps_bind keeps_seq keeps_prepare_turn keeps_raising keeps_tx opens_turn marks_session keeps_return)

end

locale prepare_frame = preparing_frame +
  assumes opens_session: "keeps (create_assistant_session e surface prompt)"
begin

lemma keeps_prepare: "keeps (prepare env rq)"
proof -
  have "keeps (\<lambda>m. case prepare_session env rq sid m of
      (Inl st, m') \<Rightarrow> prepare_stopped env sid st m' | (Inr p, m') \<Rightarrow> (Inr (Prepared p), m'))" for sid
    using keeps_prepare_session [of rq sid] keeps_stopped
    by (auto simp: keeps_def split: prod.splits sum.splits) (metis snd_conv rel_trans)+
  then show ?thesis
    unfolding prepare_def by (intro records_rules opens_session)
qed

end

subsection \<open>A request\<close>

locale request_frame = turn_frame rel "pv_turn env" + prepare_frame rel env
  for rel :: "'w machine \<Rightarrow> 'w machine \<Rightarrow> bool" and env :: "'w prepare_env"
begin

lemma keeps_ask: "keeps (ask env cb no_execute rq)"
proof -
  have "keeps (case prepared of
         Refused reason category suggestion \<Rightarrow> op_return (Reply_Refused reason category suggestion)
       | Prepared p \<Rightarrow>
           if is_approval_required_plan (pp_plan p) \<or> no_execute
           then op_seq (preview_prepared (pv_turn env) p) (op_return (Reply_Preview (pp_plan p)))
           else op_bind (execute_prepared (pv_turn env) cb None p) (\<lambda>a. op_return (Reply_Answer a (pp_plan p))))" for prepared
    by (cases prepared)
      (auto intro!: keeps_return keeps_seq keeps_bind keeps_preview keeps_execute)
  then show ?thesis
    unfolding ask_def by (intro keeps_bind keeps_prepare)
qed

end

end
