(* ===== verification/Turn_Facts.thy ===== *)
theory Turn_Facts
  imports Turn_Frames
begin

section \<open>The records of a turn\<close>

subsection \<open>Finishing traces\<close>

text \<open>The rows of the given traces end with a final status, the others stay.\<close>

definition finishes :: "string set \<Rightarrow> trace_row list \<Rightarrow> trace_row list \<Rightarrow> bool" where
  "finishes ids rows rows' \<longleftrightarrow>
     list_all2 (\<lambda>r r'. tt_id r' = tt_id r \<and>
       (if tt_id r \<in> ids then tt_finished r' \<and> tt_status r' \<in> set final_statuses else r' = r)) rows rows'"

lemma finishes_refl: "finishes {} rows rows"
  by (simp add: finishes_def list_all2_same)

lemma finishes_trans:
  assumes "finishes T rows rows'" and "finishes U rows' rows''"
  shows "finishes (T \<union> U) rows rows''"
  unfolding finishes_def
  by (rule list_all2_trans [OF _ assms [unfolded finishes_def]]) (auto split: if_splits)

lemma finishes_update:
  "status \<in> set final_statuses \<Longrightarrow>
     finishes {tid} rows (update_where (\<lambda>r. tt_id r = tid) (finish_row env status out err input) rows)"
  by (auto simp: finishes_def update_where_def list_all2_conv_all_nth finish_row_def)

lemma finishes_append:
  assumes "finishes ids (rows @ new) rows''" and "ids \<inter> tt_id ` set rows = {}" and "tt_id ` set new \<subseteq> ids"
  shows "\<exists>new'. rows'' = rows @ new' \<and> (\<forall>r \<in> set new'. tt_finished r \<and> tt_status r \<in> set final_statuses)"
proof -
  obtain a b where ab: "rows'' = a @ b" "finishes ids rows a" "finishes ids new b"
    using assms(1) unfolding finishes_def list_all2_append1 by blast
  have "a = rows"
  proof (rule nth_equalityI)
    show "length a = length rows" using ab(2) by (simp add: finishes_def list_all2_lengthD)
  next
    fix i assume "i < length a"
    then show "a ! i = rows ! i"
      using ab(2) assms(2) by (auto simp: finishes_def list_all2_conv_all_nth split: if_splits)
  qed
  moreover have "tt_finished r \<and> tt_status r \<in> set final_statuses" if "r \<in> set b" for r
    using set_list_all2 [OF ab(3) [unfolded finishes_def] that] assms(3) by (auto split: if_splits)
  ultimately show ?thesis using ab(1) by blast
qed

lemma finishes_fold:
  "(\<And>x rows. x \<in> set xs \<Longrightarrow> finishes {k x} rows (f x rows)) \<Longrightarrow> finishes (k ` set xs) rows (fold f xs rows)"
proof (induction xs arbitrary: rows)
  case (Cons x xs)
  then show ?case
    using finishes_trans [of "{k x}" rows "f x rows" "k ` set xs"] by simp
qed (simp add: finishes_refl)

lemma op_all_writes: "op_all (map (\<lambda>x. op_write (g x)) xs) s = (Inr (), fold g xs s)"
  by (induction xs arbitrary: s) (simp_all add: op_simps)

lemma fold_on_traces: "fold (\<lambda>x. on_traces (f x)) xs m = on_traces (fold f xs) m"
  by (induction xs arbitrary: m) (simp_all add: on_traces_def)

lemma on_traces_simps [simp]:
  "on_traces g (on_traces f m) = on_traces (g \<circ> f) m"
  "wh_traces (mc_db (on_traces f m)) = f (wh_traces (mc_db m))"
  "wh_sessions (mc_db (on_traces f m)) = wh_sessions (mc_db m)"
  "wh_turns (mc_db (on_traces f m)) = wh_turns (mc_db m)"
  "wh_llm (mc_db (on_traces f m)) = wh_llm (mc_db m)"
  "wh_data (mc_db (on_traces f m)) = wh_data (mc_db m)"
  "mc_exec (on_traces f m) = mc_exec m" "mc_tx (on_traces f m) = mc_tx m"
  "mc_fresh (on_traces f m) = mc_fresh m" "mc_events (on_traces f m) = mc_events m"
  by (simp_all add: on_traces_def)

definition executor_ok :: "executor \<Rightarrow> bool" where
  "executor_ok ex \<longleftrightarrow> trace_ids ex \<subseteq> set (ex_all_prestarted ex) \<and> pending_ok ex"

lemma flush:
  assumes "executor_ok (mc_exec m)"
  shows "\<exists>rows. executor_flush env m =
       (Inr (), on_exec (\<lambda>x. x\<lparr>ex_pending := [], ex_prestarted := []\<rparr>) (on_traces (\<lambda>_. rows) m)) \<and>
     finishes (trace_ids (mc_exec m)) (wh_traces (mc_db m)) rows"
proof -
  let ?ex = "mc_exec m"
  define f where "f = (\<lambda>p :: pending_trace. update_where (\<lambda>r. tt_id r = pt_id p)
     (finish_row env (pt_status p) (pt_output p) (pt_error p) (Some (pt_input p))))"
  define g where "g = (\<lambda>t. update_where (\<lambda>r. tt_id r = t) (finish_row env ''FAILED'' None (Some not_executed) None))"
  have pend: "map (flush_pending env ?ex) (ex_pending ?ex) = map (\<lambda>p. op_write (on_traces (f p))) (ex_pending ?ex)"
    using assms by (auto simp: executor_ok_def trace_ids_def flush_pending_def finish_tool_trace_def f_def
        op_seq_def op_simps)
  have pre: "map (\<lambda>t. finish_tool_trace env t ''FAILED'' None (Some not_executed) None) (ex_prestarted ?ex) =
      map (\<lambda>t. op_write (on_traces (g t))) (ex_prestarted ?ex)"
    by (simp add: finish_tool_trace_def g_def)
  have run: "executor_flush env m =
      (Inr (), on_exec (\<lambda>x. x\<lparr>ex_pending := [], ex_prestarted := []\<rparr>)
        (on_traces (fold g (ex_prestarted ?ex)) (on_traces (fold f (ex_pending ?ex)) m)))"
    unfolding executor_flush_def op_bind_read pend pre
    by (simp add: op_simps op_all_writes fold_on_traces op_seq_def op_bind_def)
  let ?rows1 = "fold f (ex_pending ?ex) (wh_traces (mc_db m))"
  let ?rows2 = "fold g (ex_prestarted ?ex) ?rows1"
  have "finishes (pt_id ` set (ex_pending ?ex)) (wh_traces (mc_db m)) ?rows1"
    using assms unfolding f_def
    by (intro finishes_fold finishes_update) (auto simp: executor_ok_def pending_ok_def list_all_iff)
  moreover have "finishes ((\<lambda>t. t) ` set (ex_prestarted ?ex)) ?rows1 ?rows2"
    unfolding g_def by (intro finishes_fold finishes_update) (simp add: final_statuses_def)
  ultimately have fin: "finishes (trace_ids ?ex) (wh_traces (mc_db m)) ?rows2"
    unfolding trace_ids_def using finishes_trans by fastforce
  have eq: "on_traces (fold g (ex_prestarted ?ex)) (on_traces (fold f (ex_pending ?ex)) m) = on_traces (\<lambda>_. ?rows2) m"
    by (simp add: on_traces_def)
  show ?thesis
    using run [unfolded eq] fin by blast
qed

subsection \<open>Transactions that work\<close>

definition no_faults :: "'w turn_env \<Rightarrow> bool" where
  "no_faults env \<longleftrightarrow> (\<forall>n. tv_faults env n = No_Fault)"

lemma in_tx_apply:
  "no_faults env \<Longrightarrow> in_tx env body m =
     (case body (m\<lparr>mc_tx := mc_tx m + 1\<rparr>) of
        (Inl e, m') \<Rightarrow> (Inl e, m'\<lparr>mc_db := mc_db m\<rparr>)
      | (Inr x, m') \<Rightarrow> (Inr x, m'))"
  by (simp add: in_tx_def transaction_def no_faults_def Let_def split: prod.splits sum.splits)

lemma read_connection_apply:
  "no_faults env \<Longrightarrow> read_connection (tv_faults env) body m =
     (case body (m\<lparr>mc_tx := mc_tx m + 1\<rparr>) of (r, m') \<Rightarrow> (r, m'\<lparr>mc_db := mc_db m\<rparr>))"
  by (simp add: read_connection_def no_faults_def Let_def)

lemma tx_count_simps [simp]:
  "mc_exec (m\<lparr>mc_tx := n\<rparr>) = mc_exec m" "mc_db (m\<lparr>mc_tx := n\<rparr>) = mc_db m"
  "mc_exec (m\<lparr>mc_db := d\<rparr>) = mc_exec m"
  by simp_all

subsection \<open>One step of a turn\<close>

lemma records_simps [simp]:
  "records (on_traces f m) = records m" "records (on_exec g m) = records m"
  "records (m\<lparr>mc_tx := n\<rparr>) = records m" "records (m\<lparr>mc_events := evs\<rparr>) = records m"
  by (simp_all add: records_def on_exec_def)

lemma on_exec_simps [simp]:
  "mc_db (on_exec g m) = mc_db m" "mc_exec (on_exec g m) = g (mc_exec m)"
  "mc_events (on_exec g m) = mc_events m" "mc_tx (on_exec g m) = mc_tx m"
  by (simp_all add: on_exec_def)

lemma tables_records: "tables m' = tables m \<longleftrightarrow> wh_traces (mc_db m') = wh_traces (mc_db m) \<and> records m' = records m"
  by (auto simp: tables_def records_def)

text \<open>The executor of a step, whatever happened to it, accounts for the trace of the step.\<close>

definition step_executor :: "string \<Rightarrow> 'w machine \<Rightarrow> bool" where
  "step_executor tid m \<longleftrightarrow> executor_ok (mc_exec m) \<and> trace_ids (mc_exec m) = {tid}"

lemma run_step_ok:
  assumes "run_step env p s tid prov explicit m = (r, m')"
  shows "tables m' = tables m \<and> step_executor tid m'"
proof -
  let ?m = "on_exec (\<lambda>_. assistant_executor (pp_session_id p) [tid]) m"
  have "deferred_rel ?m m'"
    using assms deferred.keepsD [OF deferred_plan]
    by (simp add: run_step_def set_executor_def op_simps collect_events_def)
  then show ?thesis
    by (simp add: deferred_rel_def assistant_executor_def tables_def trace_ids_def pending_ok_def
        executor_ok_def step_executor_def)
qed

lemma flush_in_tx:
  assumes "no_faults env" and "executor_ok (mc_exec m)"
  shows "\<exists>m'. in_tx env (flush_traces env) m = (Inr (), m') \<and> records m' = records m \<and>
     finishes (trace_ids (mc_exec m)) (wh_traces (mc_db m)) (wh_traces (mc_db m'))"
  using assms(1) flush [of "m\<lparr>mc_tx := mc_tx m + 1\<rparr>" "tv_trace env"] assms(2)
  by (auto simp: in_tx_apply flush_traces_def)

definition listed_tool :: "plan_step \<Rightarrow> bool" where
  "listed_tool s \<longleftrightarrow> map_of tool_permissions_by_name (ps_tool s) \<noteq> None"

definition late_flush ::
  "'w turn_env \<Rightarrow> ('w, tool_results) run \<Rightarrow> ('w, tool_results) run" where
  "late_flush env run = op_bind run (\<lambda>results. op_seq (in_tx env (flush_traces env)) (op_return results))"

definition inner_flush ::
  "'w turn_env \<Rightarrow> ('w, tool_results) run \<Rightarrow> ('w, tool_results) run" where
  "inner_flush env run = in_tx env (op_bind run (\<lambda>results. op_seq (flush_traces env) (op_return results)))"

lemma managed_step_cases:
  assumes "listed_tool s"
  shows "\<exists>explicit m0. tables m0 = tables m \<and>
     (let run = run_step env p s tid prov explicit in
      managed_step env p s tid prov m = late_flush env run m0 \<or>
      managed_step env p s tid prov m = inner_flush env run m0 \<or>
      managed_step env p s tid prov m = late_flush env (read_connection (tv_faults env) run) m0)"
proof -
  let ?m = "on_exec (\<lambda>_. assistant_executor (pp_session_id p) []) m"
  have t: "tables ?m = tables m" by (simp add: tables_def)
  obtain w where w: "is_write_step s = Inr w"
    using assms by (auto simp: listed_tool_def is_write_step_def)
  let ?explicit = "if ps_tool s = current_symbol_tool then None else Some (is_provisioned_symbol s prov)"
  show ?thesis
    using w t
    by (intro exI [of _ ?explicit] exI [of _ ?m])
      (cases w; simp add: managed_step_def set_executor_def op_simps late_flush_def inner_flush_def)
qed

text \<open>What a step leaves: its trace finished, or an executor that still accounts for it.\<close>

definition step_result :: "string \<Rightarrow> 'w machine \<Rightarrow> (exc + 'a) \<times> 'w machine \<Rightarrow> bool" where
  "step_result tid m out \<longleftrightarrow>
     records (snd out) = records m \<and>
     (case fst out of
        Inr _ \<Rightarrow> finishes {tid} (wh_traces (mc_db m)) (wh_traces (mc_db (snd out)))
      | Inl _ \<Rightarrow> wh_traces (mc_db (snd out)) = wh_traces (mc_db m) \<and> step_executor tid (snd out))"

lemma late_flush_result:
  assumes "no_faults env" and "\<And>m r m'. run m = (r, m') \<Longrightarrow> tables m' = tables m \<and> step_executor tid m'"
  shows "step_result tid m (late_flush env run m)"
proof -
  obtain r m' where run: "run m = (r, m')" by fastforce
  then have s: "tables m' = tables m" "step_executor tid m'" using assms(2) by blast+
  show ?thesis
  proof (cases r)
    case (Inl e)
    then show ?thesis
      using run s by (simp add: late_flush_def op_bind_def step_result_def tables_records)
  next
    case (Inr x)
    obtain m'' where "in_tx env (flush_traces env) m' = (Inr (), m'')" "records m'' = records m'"
        "finishes (trace_ids (mc_exec m')) (wh_traces (mc_db m')) (wh_traces (mc_db m''))"
      using flush_in_tx [OF assms(1), of m'] s(2) unfolding step_executor_def by blast
    then show ?thesis
      using run s Inr
      by (simp add: late_flush_def op_bind_def op_seq_def op_simps step_result_def tables_records step_executor_def)
  qed
qed

lemma inner_flush_result:
  assumes "no_faults env" and "\<And>m r m'. run m = (r, m') \<Longrightarrow> tables m' = tables m \<and> step_executor tid m'"
  shows "step_result tid m (inner_flush env run m)"
proof -
  let ?m = "m\<lparr>mc_tx := mc_tx m + 1\<rparr>"
  obtain r m' where run: "run ?m = (r, m')" by fastforce
  then have s: "tables m' = tables ?m" "step_executor tid m'" using assms(2) by blast+
  show ?thesis
  proof (cases r)
    case (Inl e)
    then show ?thesis
      using run s(2) assms(1)
      by (simp add: inner_flush_def in_tx_apply op_bind_def step_result_def records_def step_executor_def)
  next
    case (Inr x)
    obtain rows where "executor_flush (tv_trace env) m' =
        (Inr (), on_exec (\<lambda>x. x\<lparr>ex_pending := [], ex_prestarted := []\<rparr>) (on_traces (\<lambda>_. rows) m'))"
        "finishes (trace_ids (mc_exec m')) (wh_traces (mc_db m')) rows"
      using flush [of m' "tv_trace env"] s(2) by (auto simp: step_executor_def)
    then show ?thesis
      using run s Inr assms(1)
      by (simp add: inner_flush_def in_tx_apply op_bind_def op_seq_def op_simps step_result_def tables_records
          flush_traces_def step_executor_def)
  qed
qed

lemma managed_step_result:
  assumes "no_faults env" and "listed_tool s"
  shows "step_result tid m (managed_step env p s tid prov m)"
proof -
  obtain explicit m0 where c: "tables m0 = tables m"
      "(let run = run_step env p s tid prov explicit in
      managed_step env p s tid prov m = late_flush env run m0 \<or>
      managed_step env p s tid prov m = inner_flush env run m0 \<or>
      managed_step env p s tid prov m = late_flush env (read_connection (tv_faults env) run) m0)"
    using managed_step_cases [OF assms(2)] by blast
  let ?run = "run_step env p s tid prov explicit"
  have read: "tables m'' = tables m' \<and> step_executor tid m''"
    if r: "read_connection (tv_faults env) ?run m' = (r, m'')" for m' m'' r
  proof -
    obtain m1 where "?run (m'\<lparr>mc_tx := mc_tx m' + 1\<rparr>) = (r, m1)" "m'' = m1\<lparr>mc_db := mc_db m'\<rparr>"
      using r assms(1) by (auto simp: read_connection_apply split: prod.splits)
    then show ?thesis
      using run_step_ok [of env p s tid prov explicit] by (auto simp: tables_def step_executor_def)
  qed
  have "step_result tid m0 (managed_step env p s tid prov m)"
    using c(2) late_flush_result [OF assms(1), of ?run tid m0] inner_flush_result [OF assms(1), of ?run tid m0]
      late_flush_result [OF assms(1), of "read_connection (tv_faults env) ?run" tid m0]
      run_step_ok [of env p s tid prov explicit] read
    unfolding Let_def by metis
  then show ?thesis
    using c(1) by (simp add: step_result_def tables_records split: sum.splits)
qed

subsection \<open>All steps of a turn\<close>

lemma on_db_simps [simp]:
  "mc_db (on_db f m) = f (mc_db m)" "mc_exec (on_db f m) = mc_exec m" "mc_events (on_db f m) = mc_events m"
  by (simp_all add: on_db_def)

lemma finish_failure_traces:
  "\<exists>m'. finish_execution_failure env p e ids m = (Inr (), m') \<and>
     finishes (set ids) (wh_traces (mc_db m)) (wh_traces (mc_db m'))"
proof -
  define f where "f = (\<lambda>t. update_where (\<lambda>r. tt_id r = t)
      (finish_row (tv_trace env) ''FAILED'' None (Some (turn_error env e)) None))"
  have all: "map (\<lambda>t. finish_tool_trace (tv_trace env) t ''FAILED'' None (Some (turn_error env e)) None) ids =
      map (\<lambda>t. op_write (on_traces (f t))) ids"
    by (simp add: finish_tool_trace_def f_def)
  have "finishes ((\<lambda>t. t) ` set ids) (wh_traces (mc_db m)) (fold f ids (wh_traces (mc_db m)))"
    unfolding f_def by (intro finishes_fold finishes_update) (simp add: final_statuses_def)
  then show ?thesis
    unfolding finish_execution_failure_def all
    by (simp add: op_seq_def op_bind_def op_all_writes fold_on_traces finish_assistant_session_def
        finish_prepared_turn_def op_simps)
qed

lemma managed_failure_traces:
  assumes "no_faults env" and "step_executor tid m"
  shows "\<exists>e' m'. managed_failure env cb p rest e m = (Inl e', m') \<and>
     finishes (insert tid (set rest)) (wh_traces (mc_db m)) (wh_traces (mc_db m'))"
proof -
  let ?m = "m\<lparr>mc_tx := mc_tx m + 1\<rparr>"
  obtain rows where f: "executor_flush (tv_trace env) ?m =
        (Inr (), on_exec (\<lambda>x. x\<lparr>ex_pending := [], ex_prestarted := []\<rparr>) (on_traces (\<lambda>_. rows) ?m))"
      "finishes {tid} (wh_traces (mc_db m)) rows"
    using flush [of ?m "tv_trace env"] assms(2) by (auto simp: step_executor_def)
  obtain m' where g: "finish_execution_failure env p e rest
        (on_exec (\<lambda>x. x\<lparr>ex_pending := [], ex_prestarted := []\<rparr>) (on_traces (\<lambda>_. rows) ?m)) = (Inr (), m')"
      "finishes (set rest) rows (wh_traces (mc_db m'))"
    using finish_failure_traces
      [of env p e rest "on_exec (\<lambda>x. x\<lparr>ex_pending := [], ex_prestarted := []\<rparr>) (on_traces (\<lambda>_. rows) ?m)"]
    by auto
  have "finishes (insert tid (set rest)) (wh_traces (mc_db m)) (wh_traces (mc_db m'))"
    using finishes_trans [OF f(2) g(2)] by simp
  moreover obtain r where "replay_trace_events cb m' = (r, m')"
    using replay_same [of cb m'] by (metis prod.collapse)
  ultimately show ?thesis
    using f(1) g(1) assms(1)
    by (cases r)
      (auto simp: managed_failure_def in_tx_apply flush_traces_def op_seq_def op_bind_def op_simps)
qed

lemma managed_steps_result:
  assumes "no_faults env"
  shows "\<forall>s \<in> fst ` set zs. listed_tool s \<Longrightarrow> managed_steps env cb p zs prov results m = (r, m') \<Longrightarrow>
     finishes (snd ` set zs) (wh_traces (mc_db m)) (wh_traces (mc_db m')) \<and>
     (case r of Inr _ \<Rightarrow> records m' = records m | Inl _ \<Rightarrow> True)"
proof (induction zs arbitrary: prov results m)
  case Nil
  then show ?case by (auto simp: op_simps finishes_refl split: sum.splits)
next
  case (Cons z rest)
  obtain s tid where z: "z = (s, tid)" by fastforce
  obtain out m1 where step: "managed_step env p s tid prov m = (out, m1)" by fastforce
  have sr: "step_result tid m (out, m1)"
    using managed_step_result [OF assms, of s tid m p prov] Cons.prems(1) step z by simp
  show ?case
  proof (cases out)
    case (Inl e)
    then have "wh_traces (mc_db m1) = wh_traces (mc_db m)" "step_executor tid m1"
      using sr by (simp_all add: step_result_def)
    then obtain e' m2 where f: "managed_failure env cb p (map snd rest) e m1 = (Inl e' :: exc + tool_results, m2)"
        "finishes (insert tid (snd ` set rest)) (wh_traces (mc_db m)) (wh_traces (mc_db m2))"
      using managed_failure_traces [OF assms, of tid m1 cb p "map snd rest" e] by auto
    moreover have "r = Inl e' \<and> m' = m2"
      using Cons.prems(2) Inl step f(1) by (auto simp: z op_bind_def op_catch_def)
    ultimately show ?thesis using z by simp
  next
    case (Inr new)
    then have 1: "records m1 = records m" "finishes {tid} (wh_traces (mc_db m)) (wh_traces (mc_db m1))"
      using sr by (simp_all add: step_result_def)
    obtain prov' results' where "managed_steps env cb p rest prov' results' m1 = (r, m')"
      using Cons.prems(2) Inr step by (auto simp: z op_bind_def op_catch_def Let_def)
    then have 2: "finishes (snd ` set rest) (wh_traces (mc_db m1)) (wh_traces (mc_db m'))"
        "(case r of Inr _ \<Rightarrow> records m' = records m1 | Inl _ \<Rightarrow> True)"
      using Cons.IH Cons.prems(1) by (metis image_insert insert_iff list.simps(15))+
    show ?thesis
      using finishes_trans [OF 1(2) 2(1)] 1(1) 2(2) z by (simp split: sum.splits)
  qed
qed

lemma managed_tools_result:
  assumes "no_faults env" and "\<forall>s \<in> set (ap_steps (pp_plan p)). listed_tool s"
    and "length ids = length (ap_steps (pp_plan p))" and "execute_managed_tools env cb p ids m = (r, m')"
  shows "finishes (set ids) (wh_traces (mc_db m)) (wh_traces (mc_db m'))"
proof -
  let ?zs = "zip (ap_steps (pp_plan p)) ids"
  obtain r1 m1 where run: "managed_steps env cb p ?zs None [] (m\<lparr>mc_events := []\<rparr>) = (r1, m1)" by fastforce
  have "snd ` set ?zs = set ids"
    using assms(3) by (metis list.set_map map_snd_zip)
  moreover have "\<forall>s \<in> fst ` set ?zs. listed_tool s"
    using assms(2) by (auto dest: set_zip_leftD)
  ultimately have "finishes (set ids) (wh_traces (mc_db m)) (wh_traces (mc_db m1))"
    using managed_steps_result [OF assms(1) _ run] by simp
  moreover have "m' = m1"
    using assms(4) run replay_same [of cb m1]
    by (auto simp: execute_managed_tools_def op_simps op_bind_def op_seq_def split: sum.splits prod.splits)
  ultimately show ?thesis by simp
qed

subsection \<open>Operations that leave the tool traces alone\<close>

lemmas row_op_defs =
  finish_assistant_session_def finish_prepared_turn_def create_llm_trace_def finish_llm_trace_def on_data_def
  op_bind_def op_seq_def op_simps fresh_id_def

interpretation untraced: synthesis_frame "\<lambda>m m'. wh_traces (mc_db m') = wh_traces (mc_db m)" env for env
  by unfold_locales
    (auto simp: effect_frame.keeps_def effect_frame_def row_op_defs split: prod.splits)

lemma untraced_data: "untraced.keeps (on_data f)"
  by (auto simp: untraced.keeps_def on_data_def split: prod.splits)

end
