(* ===== verification/Turn_Props.thy ===== *)
theory Turn_Props
  imports Turn_Facts
begin

section \<open>What a turn leaves behind\<close>

lemma op_seq_Inr: "m s = (Inr (), t) \<Longrightarrow> op_seq m n s = n t"
  by (simp add: op_seq_def op_bind_def)

subsection \<open>Closed sessions and turns\<close>

definition session_closed :: "prepared_turn \<Rightarrow> string set \<Rightarrow> 'w machine \<Rightarrow> bool" where
  "session_closed p sts m \<longleftrightarrow>
     list_all (\<lambda>s. as_id s = pp_session_id p \<longrightarrow> as_finished s \<and> as_status s \<in> sts) (wh_sessions (mc_db m))"

definition turn_closed :: "prepared_turn \<Rightarrow> string set \<Rightarrow> 'w machine \<Rightarrow> bool" where
  "turn_closed p sts m \<longleftrightarrow>
     list_all (\<lambda>t. tn_id t = pp_turn_id p \<longrightarrow> tn_finished t \<and> tn_status t \<in> sts) (wh_turns (mc_db m))"

lemma finish_session_closes:
  assumes "status \<in> sts"
  shows "\<exists>m'. finish_assistant_session env (pp_session_id p) status i pl a ref err m = (Inr (), m') \<and>
     session_closed p sts m' \<and> wh_turns (mc_db m') = wh_turns (mc_db m)"
  using assms
  by (auto simp: finish_assistant_session_def op_simps session_closed_def finish_session_row_def list_all_iff
      set_update_where)

lemma finish_turn_closes:
  assumes "status \<in> sts"
  shows "\<exists>m'. finish_prepared_turn (pp_turn_id p) status m = (Inr (), m') \<and>
     turn_closed p sts m' \<and> wh_sessions (mc_db m') = wh_sessions (mc_db m)"
  using assms
  by (auto simp: finish_prepared_turn_def op_simps turn_closed_def list_all_iff set_update_where)

lemma closed_cong:
  "wh_turns (mc_db m') = wh_turns (mc_db m) \<Longrightarrow> turn_closed p sts m' = turn_closed p sts m"
  "wh_sessions (mc_db m') = wh_sessions (mc_db m) \<Longrightarrow> session_closed p sts m' = session_closed p sts m"
  by (simp_all add: turn_closed_def session_closed_def)

lemma in_tx_turn:
  assumes "no_faults env" and "status \<in> sts"
  shows "\<exists>m'. finish_turn env p status m = (Inr (), m') \<and> turn_closed p sts m' \<and>
     wh_sessions (mc_db m') = wh_sessions (mc_db m)"
  using finish_turn_closes [OF assms(2), of p "m\<lparr>mc_tx := mc_tx m + 1\<rparr>"] assms(1)
  by (auto simp: finish_turn_def in_tx_apply)

lemma in_tx_session:
  assumes "no_faults env" and "status \<in> sts"
  shows "\<exists>m'. in_tx env (finish_assistant_session e (pp_session_id p) status i pl a ref err) m = (Inr (), m') \<and>
     session_closed p sts m' \<and> wh_turns (mc_db m') = wh_turns (mc_db m)"
  using finish_session_closes [OF assms(2), of e p i pl a ref err "m\<lparr>mc_tx := mc_tx m + 1\<rparr>"] assms(1)
  by (auto simp: in_tx_apply)

lemma quietly_returns: "m s = (Inr (), t) \<Longrightarrow> quietly m s = (Inr (), t)"
  by (simp add: quietly_def op_catch_def)

lemma fail_turn_closes:
  assumes "no_faults env"
  shows "\<exists>m'. fail_turn env p details m = (Inr (), m') \<and> session_closed p {''FAILED''} m' \<and>
     turn_closed p {''FAILED''} m'"
proof -
  obtain m1 where 1: "finish_turn env p ''FAILED'' m = (Inr (), m1)" "turn_closed p {''FAILED''} m1"
    using in_tx_turn [OF assms, of "''FAILED''" "{''FAILED''}" p m] by auto
  obtain m2 where "in_tx env (finish_assistant_session (tv_trace env) (pp_session_id p) ''FAILED''
          (Some (pp_intent p)) (Some (pp_plan p)) None None (Some details)) m1 = (Inr (), m2)"
      "session_closed p {''FAILED''} m2" "wh_turns (mc_db m2) = wh_turns (mc_db m1)"
    using in_tx_session [OF assms, of "''FAILED''" "{''FAILED''}"] by blast
  then show ?thesis
    using 1 closed_cong(1) [of m2 m1] by (simp add: fail_turn_def op_seq_def op_bind_def quietly_returns)
qed

subsection \<open>The end of a turn that answers\<close>

definition answer_statuses :: "string set" where
  "answer_statuses = {''SUCCESS'', ''DEGRADED_SUCCESS''}"

lemma success_status: "''SUCCESS'' \<in> answer_statuses"
  by (simp add: answer_statuses_def)

lemma degrade_status [simp]: "snd (degrade env stage cat trace out) \<in> answer_statuses"
  by (simp add: degrade_def answer_statuses_def)

lemma degraded_if_failed_status:
  "snd out \<in> answer_statuses \<Longrightarrow> snd (degraded_if_failed env stage cat trace out r) \<in> answer_statuses"
  by (simp add: degraded_if_failed_def split: sum.splits)

lemma attempt_returns: "op_attempt f m = (Inr (fst (f m)), snd (f m))"
  by (cases "f m") (simp add: op_attempt_def)

lemma quietly_always: "\<exists>m'. quietly f m = (Inr (), m')"
  by (auto simp: quietly_def op_catch_def op_simps split: prod.splits sum.splits)

lemma note_always: "\<exists>m'. note_diagnostic env trace out m = (Inr (), m')"
  using quietly_always by (auto simp: note_diagnostic_def op_simps split: option.splits)

lemma audit_returns:
  assumes "snd out \<in> answer_statuses"
  shows "\<exists>out' m'. audit_answer env p results trace out m = (Inr out', m') \<and> snd out' \<in> answer_statuses"
proof (cases "ap_intent (pp_plan p) \<in> set research_intelligence_intents")
  case False
  then show ?thesis using assms by (simp add: audit_answer_def op_simps)
next
  case True
  obtain noted where n: "note_audit env results (fst out) m = (Inr noted, m)"
    by (simp add: note_audit_def op_simps)
  obtain r m1 where r: "op_attempt (in_tx env (on_data (tv_audit env results (fst out)))) m = (Inr r, m1)"
    by (simp add: attempt_returns)
  obtain q m2 where q: "op_attempt (in_tx env (on_data (tv_project env results noted))) m1 = (Inr q, m2)"
    by (simp add: attempt_returns)
  show ?thesis
    using True assms n r q
    by (cases r) (auto simp: audit_answer_def op_bind_def op_simps)
qed

lemma closing_write_done:
  "act out m = (Inr (), m') \<Longrightarrow> closing_write env trace act out m = (Inr out, m')"
  by (simp add: closing_write_def op_bind_def op_attempt_def op_simps)

lemma finalize_closes:
  assumes "no_faults env"
  shows "\<exists>a m'. finalize_turn env p results trace_result synthesized m = (Inr a, m') \<and>
     session_closed p answer_statuses m' \<and> turn_closed p {''EXECUTED''} m'"
proof -
  define trace where "trace = (case trace_result of Inl _ \<Rightarrow> None | Inr i \<Rightarrow> Some i)"
  define dg where "dg = map_option (\<lambda>d. d\<lparr>dg_trace := trace\<rparr>) (snd synthesized)"
  define out0 where "out0 = (case dg of
      None \<Rightarrow> (fst synthesized, ''SUCCESS'')
    | Some d \<Rightarrow> (with_degradation env (fst synthesized) d, ''DEGRADED_SUCCESS''))"
  define out1 where
    "out1 = degraded_if_failed env ''AUDIT_PERSIST'' ''SYNTHESIS_TRACE_CREATE_FAILURE'' None out0 trace_result"
  have s1: "snd out1 \<in> answer_statuses"
    unfolding out1_def by (rule degraded_if_failed_status)
      (auto simp: out0_def answer_statuses_def split: option.splits)
  obtain r m1 where 1: "op_attempt (finish_llm env trace (snd out1) (map_option (tv_diagnostic env) dg)) m = (Inr r, m1)"
    by (simp add: attempt_returns)
  let ?out = "degraded_if_failed env ''AUDIT_PERSIST'' ''SYNTHESIS_TRACE_PERSIST_FAILURE'' trace out1 r"
  obtain out2 m2 where 2: "audit_answer env p results trace ?out m1 = (Inr out2, m2)" "snd out2 \<in> answer_statuses"
    using audit_returns [OF degraded_if_failed_status [OF s1]] by blast
  obtain m3 where 3: "note_diagnostic env trace out2 m2 = (Inr (), m3)"
    using note_always by blast
  obtain m4 where 4: "finish_turn env p ''EXECUTED'' m3 = (Inr (), m4)" "turn_closed p {''EXECUTED''} m4"
    using in_tx_turn [OF assms, of "''EXECUTED''" "{''EXECUTED''}" p m3] by auto
  obtain m5 where 5: "in_tx env (finish_assistant_session (tv_trace env) (pp_session_id p) (snd out2)
        (Some (pp_intent p)) (Some (pp_plan p)) (Some (fst out2)) None None) m4 = (Inr (), m5)"
      "session_closed p answer_statuses m5" "wh_turns (mc_db m5) = wh_turns (mc_db m4)"
    using in_tx_session [OF assms 2(2)] by blast
  have "finalize_turn env p results trace_result synthesized m = (Inr (fst out2), m5)"
    unfolding finalize_turn_def Let_def trace_def [symmetric] dg_def [symmetric] out0_def [symmetric]
      out1_def [symmetric]
    using 1 2(1) 3 4(1) 5(1)
    by (simp add: op_bind_def op_seq_def closing_write_done op_simps)
  then show ?thesis
    using 4(2) 5(2) closed_cong(1) [OF 5(3)] by simp
qed

lemma lifecycle_closes:
  assumes "no_faults env"
  shows "\<exists>m'. op_seq (fail_turn env p details) (op_raise e) m = (Inl e, m') \<and>
     session_closed p {''FAILED''} m' \<and> turn_closed p {''FAILED''} m'"
  using fail_turn_closes [OF assms, of p details m] by (auto simp: op_seq_def op_bind_def op_simps)

definition turn_ended :: "prepared_turn \<Rightarrow> (exc + assistant_answer) \<times> 'w machine \<Rightarrow> bool" where
  "turn_ended p out \<longleftrightarrow>
     (case fst out of
        Inr _ \<Rightarrow> session_closed p answer_statuses (snd out) \<and> turn_closed p {''EXECUTED''} (snd out)
      | Inl _ \<Rightarrow> session_closed p {''FAILED'', ''VALIDATION_ERROR''} (snd out) \<and>
                turn_closed p {''FAILED'', ''HASH_MISMATCH''} (snd out))"

lemma closed_mono:
  "session_closed p A m \<Longrightarrow> A \<subseteq> B \<Longrightarrow> session_closed p B m"
  "turn_closed p A m \<Longrightarrow> A \<subseteq> B \<Longrightarrow> turn_closed p B m"
  by (auto simp: session_closed_def turn_closed_def list_all_iff)

lemma failed_ended:
  assumes "no_faults env"
  shows "turn_ended p (op_seq (fail_turn env p details) (op_raise e) m)"
proof -
  obtain m' where "op_seq (fail_turn env p details) (op_raise e :: ('a, assistant_answer) run) m = (Inl e, m')"
      "session_closed p {''FAILED''} m'" "turn_closed p {''FAILED''} m'"
    using lifecycle_closes [OF assms] by blast
  then show ?thesis
    by (auto simp: turn_ended_def elim: closed_mono)
qed

lemma synthesize_with_ended:
  assumes "no_faults env"
  shows "turn_ended p (synthesize_with env p results tr m)"
proof (cases "tv_synthesize env (pp_plan p) results")
  case (Inl e)
  let ?trace = "case tr of Inl _ \<Rightarrow> None | Inr i \<Rightarrow> Some i"
  let ?note = "quietly (finish_llm env ?trace ''FAILED'' (Some [(''message'', PStr (xe_summary (tv_trace env) e))]))"
  let ?fail = "fail_turn env p (with_lifecycle env ''ANSWER_VALIDATION'' ''SYNTHESIS_FAIL_CLOSED'' ?trace (turn_error env e))"
  let ?raise = "op_raise (Lifecycle_Error ''ANSWER_VALIDATION'' ''SYNTHESIS_FAIL_CLOSED'')"
  obtain m2 where q: "?note m = (Inr (), m2)"
    by (metis quietly_always)
  have "synthesize_with env p results tr m = op_seq ?note (op_seq ?fail ?raise) m"
    by (simp only: synthesize_with_def Inl sum.case Let_def)
  also have "\<dots> = op_seq ?fail ?raise m2"
    using q by (rule op_seq_Inr)
  finally show ?thesis
    by (simp only: failed_ended [OF assms])
next
  case (Inr syn)
  obtain a m2 where "finalize_turn env p results tr syn m = (Inr a, m2)"
      "session_closed p answer_statuses m2" "turn_closed p {''EXECUTED''} m2"
    using finalize_closes [OF assms] by blast
  then show ?thesis
    by (simp add: synthesize_with_def Inr turn_ended_def)
qed

definition synthesizing_returns :: "stage_callback \<Rightarrow> bool" where
  "synthesizing_returns sy \<longleftrightarrow> (case sy of Some (Some e) \<Rightarrow> False | _ \<Rightarrow> True)"

lemma call_returns: "synthesizing_returns sy \<Longrightarrow> call_synthesizing sy = op_return ()"
  by (auto simp: synthesizing_returns_def call_synthesizing_def split: option.splits)

lemma synthesize_ended:
  "no_faults env \<Longrightarrow> synthesizing_returns sy \<Longrightarrow> turn_ended p (synthesize_turn env sy p results m)"
  by (simp add: synthesize_turn_def call_returns op_seq_def op_bind_def op_simps attempt_returns
      synthesize_with_ended)

lemma sandbox_ended:
  assumes "no_faults env"
  shows "turn_ended p (execute_coordinated_sandbox env p m)"
proof -
  obtain r m1 where r: "in_tx env (on_data (tv_sandbox env p)) m = (r, m1)" by fastforce
  show ?thesis
  proof (cases r)
    case (Inl e)
    let ?m = "m1\<lparr>mc_tx := mc_tx m1 + 1\<rparr>"
    obtain m2 where 2: "finish_assistant_session (tv_trace env) (pp_session_id p) ''FAILED'' (Some (pp_intent p))
          (Some (pp_plan p)) None None (Some (turn_error env e)) ?m = (Inr (), m2)"
        "session_closed p {''FAILED''} m2"
      using finish_session_closes [OF singletonI] by blast
    obtain m3 where 3: "finish_prepared_turn (pp_turn_id p) ''FAILED'' m2 = (Inr (), m3)"
        "turn_closed p {''FAILED''} m3" "wh_sessions (mc_db m3) = wh_sessions (mc_db m2)"
      using finish_turn_closes [OF singletonI] by blast
    have "finish_execution_failure env p e [] ?m = (Inr (), m3)"
      using 2(1) 3(1) by (simp add: finish_execution_failure_def op_seq_def op_bind_def op_simps)
    then have "execute_coordinated_sandbox env p m = (Inl e, m3)"
      using r Inl assms
      by (simp add: execute_coordinated_sandbox_def op_bind_def op_catch_def op_seq_def in_tx_apply op_simps)
    then show ?thesis
      using 2(2) 3(2) closed_cong(2) [OF 3(3)] by (auto simp: turn_ended_def elim: closed_mono)
  next
    case (Inr a)
    let ?m = "m1\<lparr>mc_tx := mc_tx m1 + 1\<rparr>"
    obtain m2 where 2: "finish_assistant_session (tv_trace env) (pp_session_id p) ''SUCCESS'' (Some (pp_intent p))
          (Some (pp_plan p)) (Some a) None None ?m = (Inr (), m2)" "session_closed p answer_statuses m2"
      using finish_session_closes [OF success_status] by blast
    obtain m3 where 3: "finish_prepared_turn (pp_turn_id p) ''EXECUTED'' m2 = (Inr (), m3)"
        "turn_closed p {''EXECUTED''} m3" "wh_sessions (mc_db m3) = wh_sessions (mc_db m2)"
      using finish_turn_closes [OF singletonI] by blast
    have "execute_coordinated_sandbox env p m = (Inr a, m3)"
      using r Inr assms 2(1) 3(1)
      by (simp add: execute_coordinated_sandbox_def op_bind_def op_catch_def op_seq_def in_tx_apply op_simps)
    then show ?thesis
      using 2(2) 3(2) closed_cong(2) [OF 3(3)] by (simp add: turn_ended_def)
  qed
qed

lemma refuse_ended:
  assumes "no_faults env"
  shows "turn_ended p (refuse_changed_plan env p m)"
proof -
  let ?m = "m\<lparr>mc_tx := mc_tx m + 1\<rparr>"
  let ?err = "Some [(''error_type'', PStr ''PlanHashMismatch''), (''message'', PStr ''prepared plan changed'')]"
  obtain m1 where 1: "finish_prepared_turn (pp_turn_id p) ''HASH_MISMATCH'' ?m = (Inr (), m1)"
      "turn_closed p {''HASH_MISMATCH''} m1"
    using finish_turn_closes [OF singletonI] by blast
  obtain m2 where 2: "finish_assistant_session (tv_trace env) (pp_session_id p) ''VALIDATION_ERROR'' None None None None
        ?err m1 = (Inr (), m2)" "session_closed p {''VALIDATION_ERROR''} m2" "wh_turns (mc_db m2) = wh_turns (mc_db m1)"
    using finish_session_closes [OF singletonI] by blast
  have "refuse_changed_plan env p m = (Inl Plan_Hash_Mismatch, m2)"
    using assms 1(1) 2(1) by (simp add: refuse_changed_plan_def op_seq_def op_bind_def in_tx_apply op_simps)
  then show ?thesis
    using 1(2) 2(2) closed_cong(1) [OF 2(3)] by (auto simp: turn_ended_def elim: closed_mono)
qed

subsection \<open>The traces of a turn\<close>

lemma create_trace_Inr:
  "create_tool_trace env ex tool input None m = (Inr i, m') \<Longrightarrow>
     i \<notin> tt_id ` set (wh_traces (mc_db m)) \<and>
     wh_traces (mc_db m') = wh_traces (mc_db m) @ [new_trace env ex tool input i]"
  by (auto simp: create_tool_trace_def op_success fresh_id_def insert_trace_def new_trace_def split: if_splits)

lemma collect_traces:
  "op_collect (map (\<lambda>s. create_tool_trace env ex (ps_tool s) (ps_arguments s) None) steps) m = (Inr ids, m') \<Longrightarrow>
     wh_traces (mc_db m') = wh_traces (mc_db m) @
       map (\<lambda>(s, i). new_trace env ex (ps_tool s) (ps_arguments s) i) (zip steps ids) \<and>
     length ids = length steps \<and> distinct ids \<and> set ids \<inter> tt_id ` set (wh_traces (mc_db m)) = {}"
proof (induction steps arbitrary: m ids)
  case Nil
  then show ?case by (simp add: op_simps)
next
  case (Cons s steps)
  then obtain i m1 ids' where 1: "create_tool_trace env ex (ps_tool s) (ps_arguments s) None m = (Inr i, m1)"
      "op_collect (map (\<lambda>s. create_tool_trace env ex (ps_tool s) (ps_arguments s) None) steps) m1 = (Inr ids', m')"
      "ids = i # ids'"
    by (auto simp: op_success)
  note new = create_trace_Inr [OF 1(1)]
  have "tt_id (new_trace env ex (ps_tool s) (ps_arguments s) i) = i"
    by (simp add: new_trace_def)
  then show ?case
    using new Cons.IH [OF 1(2)] 1(3) by auto
qed

lemma create_turn_traces_Inr:
  assumes "create_turn_traces env p m = (Inr ids, m')"
  shows "wh_traces (mc_db m') = wh_traces (mc_db m) @
      map (\<lambda>(s, i). new_trace (tv_trace env) (assistant_executor (pp_session_id p) []) (ps_tool s) (ps_arguments s) i)
        (zip (ap_steps (pp_plan p)) ids) \<and>
    length ids = length (ap_steps (pp_plan p)) \<and> distinct ids \<and>
    set ids \<inter> tt_id ` set (wh_traces (mc_db m)) = {}"
proof -
  have "op_collect (map (\<lambda>s. create_tool_trace (tv_trace env) (assistant_executor (pp_session_id p) [])
       (ps_tool s) (ps_arguments s) None) (ap_steps (pp_plan p))) (m\<lparr>mc_tx := mc_tx m + 1\<rparr>) = (Inr ids, m')"
    using assms
    by (auto simp: create_turn_traces_def in_tx_def transaction_def Let_def split: if_splits prod.splits sum.splits)
  then show ?thesis using collect_traces by fastforce
qed

lemma create_turn_traces_Inl:
  "create_turn_traces env p m = (Inl e, m') \<Longrightarrow> wh_traces (mc_db m') = wh_traces (mc_db m)"
  by (auto simp: create_turn_traces_def in_tx_def transaction_def Let_def split: if_splits prod.splits sum.splits)

lemma new_trace_id [simp]: "tt_id (new_trace env ex tool input i) = i"
  by (simp add: new_trace_def)

lemma safe_tool_listed: "is_safe_tool (ps_tool s) \<Longrightarrow> listed_tool s"
  by (auto simp: is_safe_tool_def autonomous_plan_tool_names_def listed_tool_def tool_permissions_by_name_def
      map_of_eq_None_iff image_image)

definition executable_plan :: "assistant_plan \<Rightarrow> bool" where
  "executable_plan plan \<longleftrightarrow>
     list_all (\<lambda>s. is_safe_tool (ps_tool s)) (ap_steps plan) \<or> is_approval_required_plan plan"

definition traces_finished :: "'w machine \<Rightarrow> 'w machine \<Rightarrow> bool" where
  "traces_finished m m' \<longleftrightarrow>
     (\<exists>new. wh_traces (mc_db m') = wh_traces (mc_db m) @ new \<and>
        list_all (\<lambda>r. tt_finished r \<and> tt_status r \<in> set final_statuses) new)"

lemma traces_finished_same: "wh_traces (mc_db m') = wh_traces (mc_db m) \<Longrightarrow> traces_finished m m'"
  by (simp add: traces_finished_def)

lemma tools_traces_finished:
  assumes "no_faults env" and "list_all (\<lambda>s. is_safe_tool (ps_tool s)) (ap_steps (pp_plan p))"
    and "create_turn_traces env p m = (Inr ids, m1)" and "execute_managed_tools env cb p ids m1 = (r, m2)"
  shows "traces_finished m m2"
proof -
  let ?new = "map (\<lambda>(s, i). new_trace (tv_trace env) (assistant_executor (pp_session_id p) [])
      (ps_tool s) (ps_arguments s) i) (zip (ap_steps (pp_plan p)) ids)"
  have c: "wh_traces (mc_db m1) = wh_traces (mc_db m) @ ?new" "length ids = length (ap_steps (pp_plan p))"
      "set ids \<inter> tt_id ` set (wh_traces (mc_db m)) = {}"
    using create_turn_traces_Inr [OF assms(3)] by blast+
  have "\<forall>s \<in> set (ap_steps (pp_plan p)). listed_tool s"
    using assms(2) safe_tool_listed by (auto simp: list_all_iff)
  then have f: "finishes (set ids) (wh_traces (mc_db m) @ ?new) (wh_traces (mc_db m2))"
    using managed_tools_result [OF assms(1) _ c(2) assms(4)] unfolding c(1) by blast
  have "tt_id ` set ?new \<subseteq> set ids"
    by (auto dest: set_zip_rightD)
  then obtain new' where "wh_traces (mc_db m2) = wh_traces (mc_db m) @ new'"
      "\<forall>r \<in> set new'. tt_finished r \<and> tt_status r \<in> set final_statuses"
    using finishes_append [OF f c(3)] by blast
  then show ?thesis by (auto simp: traces_finished_def list_all_iff)
qed

lemma untraced_sandbox: "untraced.keeps (execute_coordinated_sandbox env p)"
  unfolding execute_coordinated_sandbox_def finish_execution_failure_def
  by (intro untraced.records_rules untraced_data) (simp_all add: untraced.keeps_return)

lemma turn_closes:
  assumes "no_faults env" and "executable_plan (pp_plan p)" and "execute_prepared env cb sy p m = (r, m')"
  shows "(synthesizing_returns sy \<longrightarrow> turn_ended p (r, m')) \<and> traces_finished m m'"
proof (cases "tv_plan_hash env (pp_plan p) \<noteq> pp_plan_hash p \<or> is_approval_required_plan (pp_plan p)")
  case True
  then have "execute_prepared env cb sy p m = refuse_changed_plan env p m \<or>
      execute_prepared env cb sy p m = execute_coordinated_sandbox env p m"
    by (auto simp: execute_prepared_def)
  then show ?thesis
    using refuse_ended [OF assms(1)] sandbox_ended [OF assms(1)] assms(3)
      untraced.keepsD [OF untraced.keeps_refuse] untraced.keepsD [OF untraced_sandbox] traces_finished_same by metis
next
  case False
  obtain r1 m1 where c: "create_turn_traces env p m = (r1, m1)" by fastforce
  have run: "execute_prepared env cb sy p m =
     (case r1 of
        Inl e \<Rightarrow> op_seq (fail_turn env p (turn_error env e))
                 (op_raise (Lifecycle_Error ''AUDIT_PERSIST'' ''TOOL_TRACE_CREATE_FAILURE'')) m1
      | Inr ids \<Rightarrow>
          (case fst (execute_managed_tools env cb p ids m1) of
             Inl e \<Rightarrow> op_seq (fail_turn env p
                 (with_lifecycle env ''TOOL_EXECUTION'' ''TOOL_EXECUTION_FAILURE''
                   (case ids of [] \<Rightarrow> None | t # _ \<Rightarrow> Some t) (turn_error env e)))
               (op_raise (Lifecycle_Error ''TOOL_EXECUTION'' ''TOOL_EXECUTION_FAILURE''))
               (snd (execute_managed_tools env cb p ids m1))
           | Inr results \<Rightarrow> synthesize_turn env sy p results (snd (execute_managed_tools env cb p ids m1))))"
    using False c
    by (cases r1) (simp_all add: execute_prepared_def op_bind_def attempt_returns split: sum.splits)
  have fail: "untraced.keeps (op_seq (fail_turn env p d) (op_raise e))" for d and e :: exc
    by (intro untraced.keeps_rules untraced.keeps_fail_turn)
  show ?thesis
  proof (cases r1)
    case (Inl e)
    then show ?thesis
      using run assms(3) failed_ended [OF assms(1)] untraced.keepsD [OF fail] create_turn_traces_Inl [of env p m e m1] c
      by (metis (no_types, lifting) sum.case(1) traces_finished_same)
  next
    case (Inr ids)
    obtain r2 m2 where t: "execute_managed_tools env cb p ids m1 = (r2, m2)" by fastforce
    have "traces_finished m m2"
      using tools_traces_finished [OF assms(1) _ _ t] c Inr assms(2) False by (simp add: executable_plan_def)
    moreover have "wh_traces (mc_db m') = wh_traces (mc_db m2) \<and> (synthesizing_returns sy \<longrightarrow> turn_ended p (r, m'))"
    proof (cases r2)
      case (Inl e)
      then show ?thesis
        using run assms(3) failed_ended [OF assms(1)] untraced.keepsD [OF fail] Inr t
        by (metis (no_types, lifting) fst_conv snd_conv sum.case(1) sum.case(2))
    next
      case 2: (Inr results)
      then show ?thesis
        using run assms(3) synthesize_ended [OF assms(1)] untraced.keepsD [OF untraced.keeps_synthesize] Inr t
        by (metis (no_types, lifting) fst_conv snd_conv sum.case(2))
    qed
    ultimately show ?thesis by (simp add: traces_finished_def)
  qed
qed

text \<open>
  C32: when the warehouse can be opened and written and the plan is one the assistant may execute, the
  execution of a prepared turn, however it ends, leaves every tool trace it started finished and older
  traces untouched; and unless the callback told of the synthesis raises, the session and the turn are
  closed, as executed with an answer, or as failed when an exception is raised.
\<close>

theorem turn_leaves_nothing_open:
  assumes "no_faults env" and "executable_plan (pp_plan p)"
  shows "(synthesizing_returns sy \<longrightarrow> turn_ended p (execute_prepared env cb sy p m)) \<and>
    traces_finished m (snd (execute_prepared env cb sy p m))"
  using turn_closes [OF assms] by (metis prod.collapse)

subsection \<open>A step whose connection cannot be opened\<close>

interpretation kept: db_frame
    "\<lambda>m m'. filter (\<lambda>r. tt_id r = i) (wh_traces (mc_db m')) = filter (\<lambda>r. tt_id r = i) (wh_traces (mc_db m))" for i
  by unfold_locales auto

lemma kept_of_untraced: "untraced.keeps f \<Longrightarrow> kept.keeps i f"
  by (simp add: untraced.keeps_def kept.keeps_def)

lemma filter_update_other:
  "(\<And>r. tt_id (f r) = tt_id r) \<Longrightarrow> i \<noteq> t \<Longrightarrow>
     filter (\<lambda>r. tt_id r = i) (update_where (\<lambda>r. tt_id r = t) f rows) = filter (\<lambda>r. tt_id r = i) rows"
  by (induction rows) auto

lemma kept_finish_other: "i \<noteq> t \<Longrightarrow> kept.keeps i (finish_tool_trace env t st out err inp)"
  unfolding finish_tool_trace_def
  by (rule kept.keeps_write) (simp add: filter_update_other finish_row_def)

lemma kept_finish_failure: "i \<notin> set ids \<Longrightarrow> kept.keeps i (finish_execution_failure env p e ids)"
  unfolding finish_execution_failure_def
  by (intro kept.keeps_seq kept.keeps_all kept_of_untraced [OF untraced.closes_session] kept_of_untraced [OF untraced.closes_turn])
    (auto intro: kept_finish_other)

definition blank_executor :: "'w machine \<Rightarrow> bool" where
  "blank_executor m \<longleftrightarrow> ex_pending (mc_exec m) = [] \<and> ex_prestarted (mc_exec m) = []"

lemma blank_flush:
  "blank_executor m \<Longrightarrow> executor_flush env m = (Inr (), on_exec (\<lambda>x. x\<lparr>ex_pending := [], ex_prestarted := []\<rparr>) m)"
  by (simp add: blank_executor_def executor_flush_def op_simps op_seq_def op_bind_def)

lemma kept_failure:
  fixes m :: "'w machine"
  assumes "blank_executor m" and "i \<notin> set rest"
  shows "filter (\<lambda>r. tt_id r = i) (wh_traces (mc_db (snd (managed_failure env cb p rest e m :: (exc + tool_results) \<times> 'w machine)))) =
     filter (\<lambda>r. tt_id r = i) (wh_traces (mc_db m))"
proof -
  let ?m = "m\<lparr>mc_tx := mc_tx m + 1\<rparr>"
  let ?body = "op_seq (flush_traces env) (finish_execution_failure env p e rest)"
  have "blank_executor ?m" using assms(1) by (simp add: blank_executor_def)
  then have "?body ?m = finish_execution_failure env p e rest (on_exec (\<lambda>x. x\<lparr>ex_pending := [], ex_prestarted := []\<rparr>) ?m)"
    by (simp add: flush_traces_def op_seq_def op_bind_def blank_flush)
  then have body: "filter (\<lambda>r. tt_id r = i) (wh_traces (mc_db (snd (?body ?m)))) = filter (\<lambda>r. tt_id r = i) (wh_traces (mc_db m))"
    using kept_finish_failure [OF assms(2), of env p e] by (simp add: kept.keeps_def)
  then have "filter (\<lambda>r. tt_id r = i) (wh_traces (mc_db (snd (in_tx env ?body m)))) = filter (\<lambda>r. tt_id r = i) (wh_traces (mc_db m))"
    by (auto simp: in_tx_def transaction_def Let_def split: prod.splits sum.splits)
  moreover have "wh_traces (mc_db (snd (managed_failure env cb p rest e m :: (exc + tool_results) \<times> 'w machine))) = wh_traces (mc_db (snd (in_tx env ?body m)))"
    using replay_same [of cb "snd (in_tx env ?body m)"]
    by (auto simp: managed_failure_def op_seq_def op_bind_def op_simps split: prod.splits sum.splits)
  ultimately show ?thesis by simp
qed

lemma managed_failure_raises: "\<exists>e'. fst (managed_failure env cb p rest e m) = Inl e'"
  by (auto simp: managed_failure_def op_seq_def op_bind_def op_simps split: prod.splits sum.splits)

lemma unopened_step:
  assumes "listed_tool s" and "ps_tool s \<noteq> current_symbol_tool" and "tv_faults env (mc_tx m) = Enter_Fails"
  shows "\<exists>e m'. managed_step env p s tid prov m = (Inl e, m') \<and> mc_db m' = mc_db m \<and> blank_executor m'"
proof -
  obtain w where "is_write_step s = Inr w"
    using assms(1) by (auto simp: listed_tool_def is_write_step_def)
  then show ?thesis
    using assms(2,3)
    by (cases w)
      (simp_all add: managed_step_def set_executor_def op_simps in_tx_def transaction_def read_connection_def
        Let_def op_bind_def blank_executor_def assistant_executor_def)
qed

lemma unopened_tools:
  assumes "ap_steps (pp_plan p) = s # rest" and "listed_tool s" and "ps_tool s \<noteq> current_symbol_tool"
    and "tv_faults env (mc_tx m) = Enter_Fails" and "distinct (i # ids)" and "length ids = length rest"
  shows "\<exists>e m'. execute_managed_tools env cb p (i # ids) m = (Inl e, m') \<and>
     filter (\<lambda>r. tt_id r = i) (wh_traces (mc_db m')) = filter (\<lambda>r. tt_id r = i) (wh_traces (mc_db m))"
proof -
  let ?m = "m\<lparr>mc_events := []\<rparr>"
  obtain e m1 where 1: "managed_step env p s i None ?m = (Inl e, m1)" "mc_db m1 = mc_db ?m" "blank_executor m1"
    using unopened_step [OF assms(2,3), of env ?m p i None] assms(4) by auto
  have i: "i \<notin> set (map snd (zip rest ids))"
    using assms(5) by (auto dest: set_zip_rightD)
  obtain e' m2 where 2: "managed_failure env cb p (map snd (zip rest ids)) e m1 = (Inl e' :: exc + tool_results, m2)"
    using managed_failure_raises by (metis prod.collapse)
  have "execute_managed_tools env cb p (i # ids) m = (Inl e', m2)"
    using 1(1) 2 assms(1)
    by (simp add: execute_managed_tools_def op_simps op_bind_def op_catch_def)
  moreover have "filter (\<lambda>r. tt_id r = i) (wh_traces (mc_db m2)) = filter (\<lambda>r. tt_id r = i) (wh_traces (mc_db m))"
    using kept_failure [OF 1(3) i, of env cb p e] 2 1(2) by simp
  ultimately show ?thesis by blast
qed

end
