(* ===== verification/Planner_Props.thy ===== *)
theory Planner_Props
  imports Planner
begin

section \<open>What the planner builds\<close>

definition tool_allowed :: "string \<Rightarrow> string \<Rightarrow> bool" where
  "tool_allowed t perm \<longleftrightarrow>
     is_safe_tool t \<and> map_option permission_value (map_of tool_permissions_by_name t) = Some perm"

text \<open>A step calls a tool of the policy under the permission the policy gives it.\<close>

definition step_allowed :: "plan_step \<Rightarrow> bool" where
  "step_allowed s \<longleftrightarrow> tool_allowed (ps_tool s) (ps_permission s)"

definition sandbox_step :: "plan_step \<Rightarrow> bool" where
  "sandbox_step s \<longleftrightarrow> ps_tool s = ''sandbox.run_research_code'' \<and> ps_permission s = ''SANDBOX_APPROVAL''"

text \<open>
  A plan is a refusal without steps, or not a refusal and made of allowed steps, or the one step that
  asks for the sandbox.  The plan for an unsupported request is the exception: its reason is taken
  from the entities as it is, and \<open>null\<close> makes it a plan without steps that is not a refusal.
\<close>

definition null_reason :: "pdict \<Rightarrow> bool" where
  "null_reason entities \<longleftrightarrow> map_of entities ''reason'' = Some PNone"

definition plan_allowed :: "pdict \<Rightarrow> assistant_plan \<Rightarrow> bool" where
  "plan_allowed entities plan \<longleftrightarrow>
     (if ap_steps plan = [] then is_refusal plan \<or> ap_intent plan = ''unsupported_or_unsafe'' \<and> null_reason entities
      else \<not> is_refusal plan \<and>
        (list_all step_allowed (ap_steps plan) \<or> (\<exists>s. ap_steps plan = [s] \<and> sandbox_step s)))"

lemma allowed_tools:
  "list_all (\<lambda>(t, p). tool_allowed t p)
     [(''watchlist.scan'', ''READ_WATCHLIST''), (''watchlist.filter'', ''READ_WATCHLIST''),
      (''watchlist.summarize_deep'', ''READ_WATCHLIST''), (''shortlist.generate'', ''READ_WATCHLIST''),
      (''candidate.explain'', ''READ_SCORE''), (''candidate.compare'', ''READ_SCORE''),
      (''analysis.current_symbol'', ''READ_SCORE''), (''scenario.generate_research_plan'', ''READ_SCORE''),
      (''quality.get_status'', ''READ_QUALITY''), (''quality.get_many_status'', ''READ_QUALITY''),
      (''lineage.get_symbol_lineage'', ''READ_LINEAGE''), (''market.get_regime'', ''READ_FEATURES''),
      (''sector.get_strength'', ''READ_FEATURES''), (''sector.get_symbol_alignment'', ''READ_FEATURES''),
      (''evidence.get_setup_history'', ''READ_HISTORY''), (''note.create'', ''WRITE_NOTE''),
      (''history.list_sessions'', ''READ_HISTORY''), (''research.indicator.run'', ''WRITE_DATA''),
      (''research.feature.create'', ''WRITE_DATA''), (''research.feature.validate'', ''WRITE_DATA''),
      (''research.hypothesis.test'', ''WRITE_DATA''), (''research.pattern.scan'', ''WRITE_DATA''),
      (''research.event_study.run'', ''WRITE_DATA''), (''data.ensure_current_symbol'', ''WRITE_DATA'')]"
  by code_simp

lemmas allowed_tool = allowed_tools [unfolded list.pred_inject prod.case, simplified]

lemma step_allowed_of [simp]:
  "step_allowed (plan_step_of env i t a p perm) = tool_allowed t perm"
  by (simp add: step_allowed_def plan_step_of_def)

lemma steps_of_plan [simp]: "ap_steps (plan_of intent steps as fs) = steps"
  by (simp add: plan_of_def)

lemma refusal_of_plan [simp]: "\<not> is_refusal (plan_of intent steps as fs)"
  by (simp add: plan_of_def is_refusal_def)

lemma plan_allowed_refusal [simp]: "reason \<noteq> PNone \<Longrightarrow> plan_allowed entities (refusal_plan intent reason)"
  by (simp add: plan_allowed_def refusal_plan_def is_refusal_def)

lemma plan_allowed_missing [simp]: "plan_allowed entities (missing_entity_plan intent entity)"
  by (simp add: missing_entity_plan_def)

lemma plan_allowed_unsupported: "plan_allowed entities (build_refusal_plan env entities)"
  by (auto simp: build_refusal_plan_def plan_allowed_def refusal_plan_def is_refusal_def dict_get_or_def
      null_reason_def split: option.splits)

lemma plan_allowed_steps [simp]:
  "steps \<noteq> [] \<Longrightarrow> list_all step_allowed steps \<Longrightarrow> plan_allowed entities (plan_of intent steps as fs)"
  by (simp add: plan_allowed_def)

lemma plan_allowed_sandbox: "plan_allowed entities (build_sandbox_plan env entities)"
  by (simp add: build_sandbox_plan_def plan_allowed_def sandbox_step_def plan_step_of_def)

lemmas builder_defs =
  build_scan_plan_def build_filter_plan_def build_compare_plan_def build_explain_plan_def
  build_deep_analysis_plan_def build_quality_plan_def build_market_regime_plan_def
  build_sector_strength_plan_def build_symbol_sector_alignment_plan_def build_summarize_plan_def
  build_watchlist_deep_plan_def build_shortlist_plan_def build_scenario_plan_def
  build_setup_evidence_plan_def build_lineage_plan_def build_note_plan_def build_history_plan_def
  build_fetch_plan_def provision_step_def indicator_plan_def feature_plan_def
  validate_feature_plan_def hypothesis_plan_def pattern_plan_def event_study_plan_def automation_plan_def

lemma builders_allowed:
  "(intent, b) \<in> set plan_builders \<Longrightarrow> plan_allowed entities (b env entities)"
  unfolding plan_builders_def research_automation_plan_builders_def
  apply (simp only: append.simps list.set insert_iff empty_iff prod.inject simp_thms)
  apply (elim disjE conjE; hypsubst;
      (rule plan_allowed_sandbox plan_allowed_unsupported | simp add: builder_defs allowed_tool Let_def))
  done

lemma built_allowed: "build_plan env ir = Inr plan \<Longrightarrow> plan_allowed (ir_entities ir) plan"
  by (auto simp: build_plan_def Let_def res_bind_Inr_iff plan_allowed_unsupported builders_allowed
      split: option.splits dest: map_of_SomeD)

lemma safe_plan_tools: "is_safe_plan plan \<longleftrightarrow> ap_steps plan \<noteq> [] \<and> list_all (\<lambda>s. is_safe_tool (ps_tool s)) (ap_steps plan)"
  by (auto simp: is_safe_plan_def unsafe_tools_in_plan_def filter_empty_conv list_all_iff)

lemma sandbox_tool:
  "\<not> is_safe_tool ''sandbox.run_research_code'' \<and> is_assistant_plan_tool ''sandbox.run_research_code'' \<and>
   \<not> is_forbidden_tool ''sandbox.run_research_code''"
  by code_simp

lemma safe_plan_tool: "is_safe_tool t \<Longrightarrow> is_assistant_plan_tool t"
  by (simp add: is_assistant_plan_tool_def is_safe_tool_def)

lemma approval_plan_tools:
  "is_approval_required_plan plan \<longleftrightarrow> map ps_tool (ap_steps plan) = [''sandbox.run_research_code'']"
  using sandbox_tool
  by (cases "ap_steps plan") (auto simp: is_approval_required_plan_def approval_required_tools_def split: list.splits)

lemma allowed_plan_kind:
  assumes "plan_allowed entities plan" and "ap_steps plan \<noteq> []"
  shows "is_safe_plan plan \<and> \<not> is_approval_required_plan plan \<or>
     is_approval_required_plan plan \<and> \<not> is_safe_plan plan"
proof -
  have "list_all step_allowed (ap_steps plan) \<or> (\<exists>s. ap_steps plan = [s] \<and> sandbox_step s)"
    using assms by (simp add: plan_allowed_def)
  then show ?thesis
  proof
    assume l: "list_all step_allowed (ap_steps plan)"
    then have safe: "is_safe_plan plan"
      using assms(2) by (auto simp: safe_plan_tools list_all_iff step_allowed_def tool_allowed_def)
    moreover have "\<not> is_approval_required_plan plan"
      using safe sandbox_tool
      by (auto simp: approval_plan_tools safe_plan_tools)
    ultimately show ?thesis by blast
  next
    assume "\<exists>s. ap_steps plan = [s] \<and> sandbox_step s"
    then show ?thesis
      using sandbox_tool
      by (auto simp: approval_plan_tools safe_plan_tools sandbox_step_def)
  qed
qed

lemma allowed_plan_validates: "plan_allowed entities plan \<Longrightarrow> validate_plan plan = Inr ()"
proof -
  assume p: "plan_allowed entities plan"
  have "is_assistant_plan_tool (ps_tool s)" if "s \<in> set (ap_steps plan)" for s
    using that allowed_plan_kind [OF p] safe_plan_tool sandbox_tool
    by (cases "ap_steps plan") (auto simp: safe_plan_tools list_all_iff approval_plan_tools)
  then show ?thesis
    by (auto simp: validate_plan_def split: option.splits dest!: find_Some_in)
qed

lemma build_plan_Inr:
  "build_plan env ir = Inr ((case map_of plan_builders (ir_intent ir) of
     None \<Rightarrow> build_refusal_plan | Some b \<Rightarrow> b) env (ir_entities ir))"
proof -
  have "plan_allowed (ir_entities ir) ((case map_of plan_builders (ir_intent ir) of
     None \<Rightarrow> build_refusal_plan | Some b \<Rightarrow> b) env (ir_entities ir))"
    by (auto simp: plan_allowed_unsupported builders_allowed split: option.splits dest: map_of_SomeD)
  then show ?thesis
    by (simp add: build_plan_def Let_def allowed_plan_validates)
qed

text \<open>
  C27: whatever the classifier returned, a plan is built, and it stays within the policy: a refusal
  without steps, or steps that each call a tool approved for autonomous use under the permission its
  capability names, or the single step that asks for approval of a sandbox run.  Only a request
  classified as unsupported with a \<open>null\<close> reason yields a plan without steps that is not a refusal.
\<close>

theorem planner_stays_within_policy:
  "\<exists>plan. build_plan env ir = Inr plan \<and> plan_allowed (ir_entities ir) plan \<and>
     (case ap_steps plan of [] \<Rightarrow> True | _ \<Rightarrow> is_safe_plan plan \<noteq> is_approval_required_plan plan)"
proof -
  obtain plan where p: "build_plan env ir = Inr plan"
    using build_plan_Inr by blast
  have "case ap_steps plan of [] \<Rightarrow> True | _ \<Rightarrow> is_safe_plan plan \<noteq> is_approval_required_plan plan"
    using allowed_plan_kind [OF built_allowed [OF p]] by (cases "ap_steps plan") auto
  then show ?thesis
    using p built_allowed [OF p] by blast
qed

subsection \<open>Requests without a symbol\<close>

definition symbol_intents :: "string list" where
  "symbol_intents =
     [''explain_symbol'', ''deep_analyze_symbol'', ''review_symbol_sector_alignment'',
      ''generate_research_scenario'', ''show_lineage'', ''fetch_data'']"

lemma refusal_missing [simp]: "is_refusal (missing_entity_plan intent entity)"
  by (simp add: missing_entity_plan_def refusal_plan_def is_refusal_def)

lemma symbol_builders:
  "map_of plan_builders ''explain_symbol'' = Some build_explain_plan"
  "map_of plan_builders ''deep_analyze_symbol'' = Some build_deep_analysis_plan"
  "map_of plan_builders ''review_symbol_sector_alignment'' = Some build_symbol_sector_alignment_plan"
  "map_of plan_builders ''generate_research_scenario'' = Some build_scenario_plan"
  "map_of plan_builders ''show_lineage'' = Some build_lineage_plan"
  "map_of plan_builders ''fetch_data'' = Some build_fetch_plan"
  by (simp_all add: plan_builders_def)

lemma symbol_intent_refuses_iff:
  assumes "ir_intent ir \<in> set symbol_intents" and "build_plan env ir = Inr plan"
  shows "is_refusal plan \<longleftrightarrow> resolve_symbol (ir_entities ir) = []"
  using assms
  by (cases "resolve_symbol (ir_entities ir) = []")
    (auto simp: build_plan_Inr symbol_intents_def symbol_builders build_explain_plan_def
      build_deep_analysis_plan_def build_symbol_sector_alignment_plan_def build_scenario_plan_def
      build_lineage_plan_def build_fetch_plan_def Let_def)

subsection \<open>Symbols on their way to the planner\<close>

text \<open>
  Canonicalizing canonical symbols again, as the planner does with what the parser of the
  classifier left, gives them back exactly when the first of several is not a marker.
\<close>

lemma canonical_again_iff:
  assumes "canonicalize_symbol_entities entities = Inr c"
  shows "canonical c \<and> (canonicalize_symbol_entities (as_entities c) = Inr c \<longleftrightarrow> \<not> marker_first c)"
proof -
  have c: "canonical c"
    using assms by (rule canonicalize_canonical)
  have "join_symbols (cs_primary c) (tl (cs_symbols c)) \<noteq> Inr c" if "marker_first c"
    using that by (cases "cs_symbols c") (auto simp: join_symbols_def marker_first_def split: option.splits)
  then show ?thesis
    using c canonicalize_as_entities [OF c] join_canonical [OF c]
    by (simp add: strip_marker_prefix_canonical)
qed

lemma canonical_again_iff_witness:
  "canonicalize_symbol_entities (as_entities \<lparr>cs_symbols = [''FPT'', ''VCB''], cs_primary = Some ''FPT''\<rparr>)
     = Inr \<lparr>cs_symbols = [''FPT'', ''VCB''], cs_primary = Some ''FPT''\<rparr>"
proof -
  have "canonicalize_symbol_entities [(''symbols'', PStr ''fpt, VCB'')] =
      Inr \<lparr>cs_symbols = [''FPT'', ''VCB''], cs_primary = Some ''FPT''\<rparr>"
    by code_simp
  moreover have "\<not> marker_first \<lparr>cs_symbols = [''FPT'', ''VCB''], cs_primary = Some ''FPT''\<rparr>"
    by (simp add: marker_first_def marker_prefixes_def)
  ultimately show ?thesis
    using canonical_again_iff by blast
qed

lemma marker_ticker: "ticker_pattern ''CP''"
  by code_simp

lemma marker_symbols:
  assumes "ticker_pattern t" and "t \<noteq> ''CP''"
  shows "canonicalize_symbol_entities [(''symbols'', PList [PStr ''cp'', PStr t])] =
     Inr \<lparr>cs_symbols = [''CP'', t], cs_primary = Some ''CP''\<rparr>"
proof -
  have "coerce_tokens (PStr ''cp'') = Inr [''cp'']" "validate_ticker (PStr ''cp'') = Inr ''CP''"
    by code_simp+
  then show ?thesis
    using assms coerce_ticker [OF assms(1)] validate_ticker_fixed [OF assms(1)]
    by (simp add: canonicalize_symbol_entities_def strip_marker_prefix_def marker_prefixes_def
        primary_from_symbol_def dedupe_validated_def join_symbols_def del: coerce_tokens.simps(4))
qed

text \<open>
  The marker "cp" before a ticker is stripped only in upper case.  In lower case it is taken for
  the primary symbol CP, and the planner, which canonicalizes again and strips it now, refuses the
  request for want of a symbol, although the same list with "CP" names the ticker.
\<close>

lemma lower_case_marker_is_refused:
  assumes "ticker_pattern t" and "t \<noteq> ''CP''" and "ir_intent ir \<in> set symbol_intents"
    and "apply_canonical_symbols [(''symbols'', PList [PStr ''cp'', PStr t])] = Inr (ir_entities ir, c)"
  shows "cs_primary c = Some ''CP'' \<and> (\<exists>plan. build_plan env ir = Inr plan \<and> is_refusal plan) \<and>
     resolve_symbol [(''symbols'', PList [PStr ''CP'', PStr t])] = t"
proof -
  have c: "c = \<lparr>cs_symbols = [''CP'', t], cs_primary = Some ''CP''\<rparr>"
      "ir_entities ir = [(''symbols'', PList [PStr ''CP'', PStr t]), (''symbol'', PStr ''CP'')]"
    using assms(4) marker_symbols [OF assms(1,2)] by (auto simp: apply_canonical_symbols_def)
  have cp: "coerce_tokens (PStr ''CP'') = Inr [''CP'']" "validate_ticker (PStr ''CP'') = Inr ''CP''"
    by (rule coerce_ticker validate_ticker_fixed, rule marker_ticker)+
  note t = coerce_ticker [OF assms(1)] validate_ticker_fixed [OF assms(1)]
  have "resolve_symbol (ir_entities ir) = []"
    using cp t assms(2)
    by (simp add: c(2) resolve_symbol_def canonicalize_symbol_entities_def strip_marker_prefix_def
        marker_prefixes_def primary_from_symbol_def dedupe_validated_def join_symbols_def
        del: coerce_tokens.simps(4))
  moreover have "resolve_symbol [(''symbols'', PList [PStr ''CP'', PStr t])] = t"
    using cp t
    by (simp add: resolve_symbol_def canonicalize_symbol_entities_def strip_marker_prefix_def
        marker_prefixes_def primary_from_symbol_def dedupe_validated_def join_symbols_def
        del: coerce_tokens.simps(4))
  ultimately show ?thesis
    using symbol_intent_refuses_iff [OF assms(3)] build_plan_Inr c(1) by auto
qed

definition marked_request :: "string \<Rightarrow> intent_result" where
  "marked_request t =
     \<lparr>ir_intent = ''explain_symbol'', ir_confidence = 1,
      ir_entities = [(''symbols'', PList [PStr ''CP'', PStr t]), (''symbol'', PStr ''CP'')],
      ir_needs_clarification = False, ir_clarification_question = PNone, ir_safety_flags = []\<rparr>"

lemma lower_case_marker_is_refused_witness:
  "\<exists>plan. build_plan \<lparr>pe_ids = (\<lambda>n. ''a''), pe_repr = (\<lambda>v. [])\<rparr> (marked_request ''FPT'') = Inr plan \<and> is_refusal plan"
proof -
  have "ticker_pattern ''FPT''" by code_simp
  moreover have "apply_canonical_symbols [(''symbols'', PList [PStr ''cp'', PStr ''FPT''])] =
      Inr (ir_entities (marked_request ''FPT''), \<lparr>cs_symbols = [''CP'', ''FPT''], cs_primary = Some ''CP''\<rparr>)"
    by code_simp
  ultimately show ?thesis
    using lower_case_marker_is_refused [of "''FPT''" "marked_request ''FPT''"]
    by (simp add: marked_request_def symbol_intents_def)
qed

end
