(* ===== verification/Intents_Props.thy ===== *)
theory Intents_Props
  imports Intents Planner_Props
begin

section \<open>What reaches the planner\<close>

subsection \<open>The supported intents\<close>

lemma intent_of_value_supported: "intent_of_value v \<in> set supported_intents"
proof -
  have "''unsupported_or_unsafe'' \<in> set supported_intents"
    by (simp add: supported_intents_def)
  then show ?thesis by (auto simp: intent_of_value_def Let_def)
qed

lemma fallback_intents:
  "intent_classification_fallback prompt = Some (i, entities) \<Longrightarrow>
     i = ''deep_analyze_symbol'' \<and> (\<exists>t. entities = [(''symbol'', PStr t)] \<and> extract_symbol_from_prompt prompt = Some t) \<or>
     i \<in> {''summarize_watchlist_deep'', ''scan_candidates''} \<and> entities = []"
  by (auto simp: intent_classification_fallback_def analysis_intent_fallback_def watchlist_intent_fallback_def
      Let_def split: option.splits if_splits)

lemma upper_letter: "is_letter c \<Longrightarrow> is_upper_letter (upper_char c)"
  by (auto simp: is_letter_def is_upper_letter_def is_lower_letter_def char_code_upper_char)

lemma letters_upper: "list_all is_letter t \<Longrightarrow> list_all is_upper_letter (upper t)"
  by (simp add: upper_def list_all_iff upper_letter)

lemma letters_ticker:
  assumes "list_all is_upper_letter t" and "2 \<le> length t" and "length t \<le> 12"
  shows "ticker_pattern t"
  using assms by (cases t) (auto simp: ticker_pattern_def list_all_iff)

lemma looks_like_symbol_ticker: "looks_like_symbol t \<Longrightarrow> ticker_pattern (upper t)"
  unfolding looks_like_symbol_def by (rule letters_ticker) (auto simp: letters_upper)

lemma first_cued_ticker: "first_cued cues s = Some t \<Longrightarrow> ticker_pattern t"
  by (induction cues s rule: first_cued.induct)
    (auto split: option.splits if_splits dest: looks_like_symbol_ticker)

lemma extracted_ticker: "extract_symbol_from_prompt prompt = Some t \<Longrightarrow> ticker_pattern t"
  by (auto simp: extract_symbol_from_prompt_def split: option.splits
      dest!: find_Some_in dest: first_cued_ticker looks_like_symbol_ticker)

subsection \<open>The symbols of a request\<close>

text \<open>Canonicalization looks at two entities only.\<close>

lemma canonicalize_cong:
  "dict_get d ''symbol'' = dict_get e ''symbol'' \<Longrightarrow> dict_get d ''symbols'' = dict_get e ''symbols'' \<Longrightarrow>
     canonicalize_symbol_entities d = canonicalize_symbol_entities e"
  by (simp only: canonicalize_symbol_entities_def)

text \<open>
  The entities name canonical symbols: read again they give these symbols, or, when a marker leads
  them, what is left without it.
\<close>

definition symbols_settled :: "pdict \<Rightarrow> bool" where
  "symbols_settled entities \<longleftrightarrow>
     (\<exists>c. canonical c \<and> canonicalize_symbol_entities entities =
        (if marker_first c then join_symbols (cs_primary c) (tl (cs_symbols c)) else Inr c))"

lemma applied_settled:
  assumes "apply_canonical_symbols entities = Inr (entities', c)"
  shows "symbols_settled entities'"
proof -
  have c: "canonicalize_symbol_entities entities = Inr c" "canonical c"
    using assms canonicalize_canonical
    by (auto simp: apply_canonical_symbols_def res_bind_Inr_iff split: option.splits)
  show ?thesis
  proof (cases "cs_primary c")
    case None
    then have "entities' = entities" "\<not> marker_first c"
      using assms c by (auto simp: apply_canonical_symbols_def canonical_def marker_first_def)
    then show ?thesis
      using c unfolding symbols_settled_def by (intro exI [of _ c]) simp
  next
    case (Some p)
    then have "entities' = dict_set ''symbols'' (PList (map PStr (cs_symbols c))) (dict_set ''symbol'' (PStr p) entities)"
      using assms c by (auto simp: apply_canonical_symbols_def)
    then have "canonicalize_symbol_entities entities' = canonicalize_symbol_entities (as_entities c)"
      using Some by (intro canonicalize_cong) (simp_all add: as_entities_def)
    then show ?thesis
      using canonicalize_as_entities [OF c(2)] join_canonical [OF c(2)] c(2)
      unfolding symbols_settled_def by (intro exI [of _ c]) (simp add: strip_marker_prefix_canonical)
  qed
qed

lemma ticker_settled: "ticker_pattern t \<Longrightarrow> symbols_settled [(''symbol'', PStr t)]"
proof -
  assume t: "ticker_pattern t"
  let ?c = "\<lparr>cs_symbols = [t], cs_primary = Some t\<rparr>"
  have "canonicalize_symbol_entities [(''symbol'', PStr t)] = Inr ?c"
    using coerce_ticker [OF t] validate_ticker_fixed [OF t]
    by (simp add: canonicalize_symbol_entities_def strip_marker_prefix_def primary_from_symbol_def
        dedupe_validated_def join_symbols_def del: coerce_tokens.simps(4))
  moreover have "canonical ?c" "\<not> marker_first ?c"
    using t by (simp_all add: canonical_def marker_first_def)
  ultimately show ?thesis
    unfolding symbols_settled_def by (intro exI [of _ ?c]) simp
qed

lemma prepare_entities_settled:
  "prepare_entities prompt intent entities = Inr entities' \<Longrightarrow> intent \<in> set symbol_requiring_intents \<Longrightarrow>
     symbols_settled entities'"
  by (auto simp: prepare_entities_def Let_def applied_settled split: sum.splits if_splits)

lemma parsed_settled:
  "parse_classifier_response ce t prompt = Inr ir \<Longrightarrow>
     ir_intent ir \<in> set supported_intents \<and>
     (ir_intent ir \<in> set symbol_requiring_intents \<longrightarrow> symbols_settled (ir_entities ir))"
  by (auto simp: parse_classifier_response_def Let_def res_bind_Inr_iff intent_of_value_supported
      prepare_entities_settled split: option.splits)

lemma fallback_settled:
  assumes "fallback_or_error prompt = Inr ir"
  shows "ir_intent ir \<in> set supported_intents \<and>
     (ir_intent ir \<in> set symbol_requiring_intents \<longrightarrow> symbols_settled (ir_entities ir))"
proof -
  obtain i entities where f: "intent_classification_fallback prompt = Some (i, entities)"
      "ir_intent ir = i" "ir_entities ir = entities"
    using assms by (auto simp: fallback_or_error_def plain_intent_def split: option.splits)
  have "{''deep_analyze_symbol'', ''summarize_watchlist_deep'', ''scan_candidates''} \<subseteq> set supported_intents"
    by (simp add: supported_intents_def research_intelligence_intents_def)
  moreover have "''summarize_watchlist_deep'' \<notin> set symbol_requiring_intents"
      "''scan_candidates'' \<notin> set symbol_requiring_intents"
    by (simp_all add: symbol_requiring_intents_def)
  ultimately show ?thesis
    using fallback_intents [OF f(1)] f(2,3) extracted_ticker ticker_settled by auto
qed

text \<open>
  C28: a classified request, whatever the language model answers, has a supported intent, its symbols
  are well-formed tickers if the intent needs any, and a plan within the policy is built for it.  It
  comes from a well-formed answer, or, when the model fails or neither answer can be parsed, from the
  deterministic fallback on the prompt; a prompt with an unsafe word is classified as unsupported,
  refused by the policy, and the same for all answers of the model.
\<close>

theorem classified_request_is_safe:
  assumes "classify ce first second prompt = Inr ir"
  shows "ir_intent ir \<in> set supported_intents \<and>
     (ir_intent ir \<in> set symbol_requiring_intents \<longrightarrow> symbols_settled (ir_entities ir)) \<and>
     (\<exists>plan. build_plan env ir = Inr plan \<and> plan_allowed (ir_entities ir) plan) \<and>
     (if deterministic_precheck prompt
      then ir_intent ir = ''unsupported_or_unsafe'' \<and> check_intent_policy ir \<noteq> None \<and>
        (\<forall>first' second'. classify ce first' second' prompt = Inr ir)
      else fallback_or_error prompt = Inr ir \<or>
        (\<exists>t. Chat_Text t \<in> {first, second} \<and> parse_classifier_response ce t prompt = Inr ir))"
proof -
  have un: "''unsupported_or_unsafe'' \<in> set supported_intents" "''unsupported_or_unsafe'' \<notin> set symbol_requiring_intents"
    by (simp_all add: supported_intents_def symbol_requiring_intents_def)
  have "ir_intent ir \<in> set supported_intents \<and>
     (ir_intent ir \<in> set symbol_requiring_intents \<longrightarrow> symbols_settled (ir_entities ir)) \<and>
     (if deterministic_precheck prompt
      then ir_intent ir = ''unsupported_or_unsafe'' \<and> check_intent_policy ir \<noteq> None \<and>
        (\<forall>first' second'. classify ce first' second' prompt = Inr ir)
      else fallback_or_error prompt = Inr ir \<or>
        (\<exists>t. Chat_Text t \<in> {first, second} \<and> parse_classifier_response ce t prompt = Inr ir))"
  proof (cases "deterministic_precheck prompt")
    case True
    then have "ir = plain_intent ''unsupported_or_unsafe'' 1 [] [PStr ''TRADING_EXECUTION'']"
      using assms by (simp add: classify_def)
    then show ?thesis using un True by (simp add: plain_intent_def check_intent_policy_def classify_def)
  next
    case False
    then have "fallback_or_error prompt = Inr ir \<or>
        (\<exists>t. Chat_Text t \<in> {first, second} \<and> parse_classifier_response ce t prompt = Inr ir)"
      using assms by (auto simp: classify_def split: chat_outcome.splits sum.splits request_error.splits)
    then show ?thesis using False parsed_settled fallback_settled by auto
  qed
  then show ?thesis
    using build_plan_Inr built_allowed by blast
qed

definition no_json :: classifier_env where
  "no_json = \<lparr>ce_loads = (\<lambda>t. None), ce_float = (\<lambda>t. None)\<rparr>"

theorem classified_request_is_safe_witness:
  "\<exists>ir. classify no_json Chat_Failed Chat_Failed ''analyze FPT'' = Inr ir \<and> symbols_settled (ir_entities ir)"
proof -
  have c: "classify no_json Chat_Failed Chat_Failed ''analyze FPT'' =
      Inr (plain_intent ''deep_analyze_symbol'' (19 / 20) [(''symbol'', PStr ''FPT'')] [])"
    by code_simp
  moreover have "''deep_analyze_symbol'' \<in> set symbol_requiring_intents"
    by (simp add: symbol_requiring_intents_def)
  ultimately show ?thesis
    using classified_request_is_safe [OF c] by (simp add: plain_intent_def)
qed

subsection \<open>Entities that are null\<close>

text \<open>
  The schema of the classifier makes every entity present, \<open>null\<close> where there is none.  A \<open>null\<close>
  setup type passes the check for a missing one and evidence for the setup "NONE" is looked up.
\<close>

lemma null_setup_type_is_looked_up:
  assumes "ir_intent ir = ''review_setup_evidence''" and "map_of (ir_entities ir) ''setup_type'' = Some PNone"
  shows "\<exists>plan s. build_plan env ir = Inr plan \<and> \<not> is_refusal plan \<and> ap_steps plan = [s] \<and>
     ps_tool s = ''evidence.get_setup_history'' \<and> dict_get (ps_arguments s) ''setup_type'' = PStr ''NONE''"
proof -
  have "map_of plan_builders ''review_setup_evidence'' = Some build_setup_evidence_plan"
    by (simp add: plan_builders_def)
  moreover have "upper (strip ''None'') = ''NONE''"
    by code_simp
  moreover have "dict_get (date_args e d) ''setup_type'' = dict_get d ''setup_type''" for e d
    by (simp add: date_args_def split: pval.splits)
  ultimately show ?thesis
    using assms
    by (simp add: build_plan_Inr build_setup_evidence_plan_def Let_def dict_get_or_def plan_step_of_def)
qed

lemma null_setup_type_is_looked_up_witness:
  "\<exists>plan s. build_plan \<lparr>pe_ids = (\<lambda>n. ''a''), pe_repr = (\<lambda>v. [])\<rparr>
     (plain_intent ''review_setup_evidence'' 1 [(''setup_type'', PNone)] []) = Inr plan \<and> ap_steps plan = [s] \<and>
     dict_get (ps_arguments s) ''setup_type'' = PStr ''NONE''"
  using null_setup_type_is_looked_up
    [of "plain_intent ''review_setup_evidence'' 1 [(''setup_type'', PNone)] []"
        "\<lparr>pe_ids = (\<lambda>n. ''a''), pe_repr = (\<lambda>v. [])\<rparr>"]
  by (auto simp: plain_intent_def)

end
