(* ===== verification/Assistant_Props.thy ===== *)
theory Assistant_Props
  imports Turn_Props Intents_Props
begin

section \<open>Properties of the research assistant\<close>

subsection \<open>Single calls and turns\<close>

text \<open>
  Outside deferred mode and without a callback, a call of a registered tool returns what the tool
  returns or raises, and adds exactly one trace, finished with the status of the outcome; no
  other trace changes.  No set of permissions that is empty or left out is ever too small.
\<close>

lemma direct_call_is_traced:
  assumes "\<not> ex_deferred (mc_exec m)" and "map_of reg name = Some (spec, impl)"
    and "xe_uuid env (mc_fresh m) \<notin> tt_id ` set (wh_traces (mc_db m))"
    and "executor_call env reg None name perms kwargs m = (r, m')"
  shows "\<exists>row. wh_traces (mc_db m') = wh_traces (mc_db m) @ [row] \<and> tt_finished row \<and>
     tt_tool row = xe_text env name \<and>
     tt_status row = (case r of Inl _ \<Rightarrow> ''FAILED'' | Inr _ \<Rightarrow> ''SUCCESS'') \<and>
     (if perms \<in> {None, Some []} \<or> tsp_permission spec \<in> set (the perms)
      then (r, wh_data (mc_db m')) = impl kwargs (wh_data (mc_db m))
      else r = Inl (Tool_Permission_Error name (permission_value (tsp_permission spec))) \<and>
           wh_data (mc_db m') = wh_data (mc_db m))"
proof -
  let ?granted = "case perms of None \<Rightarrow> [tsp_permission spec] | Some [] \<Rightarrow> [tsp_permission spec] | Some ps \<Rightarrow> ps"
  obtain q w where t: "tool_call reg name ?granted kwargs (wh_data (mc_db m)) = (q, w)" by fastforce
  note c = direct_call [OF assms(1-3) t]
  have "r = q" "wh_data (mc_db m') = w"
    using assms(4) c by auto
  moreover have "(q, w) = (if perms \<in> {None, Some []} \<or> tsp_permission spec \<in> set (the perms)
      then impl kwargs (wh_data (mc_db m))
      else (Inl (Tool_Permission_Error name (permission_value (tsp_permission spec))), wh_data (mc_db m)))"
    using t assms(2) by (auto simp: tool_call_def split: option.splits list.splits if_splits)
  moreover have "\<exists>row. wh_traces (mc_db m') = wh_traces (mc_db m) @ [row] \<and> tt_finished row \<and>
      tt_tool row = xe_text env name \<and> tt_status row = (case q of Inl _ \<Rightarrow> ''FAILED'' | Inr _ \<Rightarrow> ''SUCCESS'')"
    using assms(4) c by (auto simp: finish_row_def new_trace_def)
  ultimately show ?thesis
    by (auto split: if_splits)
qed

definition demo_trace_env :: trace_env where
  "demo_trace_env =
     \<lparr>xe_uuid = (\<lambda>n. replicate (Suc n) CHR ''u''), xe_redact = (\<lambda>d. d), xe_text = (\<lambda>t. t),
      xe_summary = (\<lambda>e. []), xe_repr = (\<lambda>v. [])\<rparr>"

definition demo_registry :: "nat tool_registry" where
  "demo_registry =
     [(''note.create'', \<lparr>tsp_name = ''note.create'', tsp_permission = WRITE_NOTE\<rparr>,
       \<lambda>args w. (Inr (Plain_Output PNone), w + 1)),
      (''quality.get_status'', \<lparr>tsp_name = ''quality.get_status'', tsp_permission = READ_QUALITY\<rparr>,
       \<lambda>args w. (Inr (Plain_Output PNone), w))]"

definition demo_executor :: executor where
  "demo_executor =
     \<lparr>ex_session = None, ex_assistant_session = None, ex_parent_type = ''command'', ex_deferred = False,
      ex_pending = [], ex_prestarted = [], ex_all_prestarted = []\<rparr>"

definition demo_machine :: "nat machine" where
  "demo_machine =
     \<lparr>mc_db = \<lparr>wh_traces = [], wh_sessions = [], wh_turns = [], wh_llm = [], wh_data = 0\<rparr>,
      mc_exec = demo_executor, mc_events = [], mc_fresh = 0, mc_tx = 0\<rparr>"

lemma direct_call_is_traced_witness:
  "\<exists>row m'. executor_call demo_trace_env demo_registry None ''note.create'' None [] demo_machine =
       (Inr (Plain_Output PNone), m') \<and> wh_traces (mc_db m') = [row] \<and> tt_status row = ''SUCCESS'' \<and>
     wh_data (mc_db m') = 1"
proof -
  let ?call = "executor_call demo_trace_env demo_registry None ''note.create'' None [] demo_machine"
  obtain r m' where c: "?call = (r, m')" by fastforce
  have "map_of demo_registry ''note.create'' = Some (\<lparr>tsp_name = ''note.create'', tsp_permission = WRITE_NOTE\<rparr>,
       \<lambda>args w. (Inr (Plain_Output PNone), w + 1))"
    by (simp add: demo_registry_def)
  note p = direct_call_is_traced [OF _ this _ c]
  show ?thesis
    using p c by (auto simp: demo_machine_def demo_executor_def)
qed

text \<open>
  A prepared turn whose plan no longer has the hash it was prepared with is not executed: no tool
  runs, no trace is started and the call raises.
\<close>

lemma changed_plan_is_not_executed:
  assumes "tv_plan_hash env (pp_plan p) \<noteq> pp_plan_hash p" and "execute_prepared env cb sy p m = (r, m')"
  shows "(\<exists>e. r = Inl e) \<and> wh_data (mc_db m') = wh_data (mc_db m) \<and> wh_traces (mc_db m') = wh_traces (mc_db m)"
  using assms
  by (auto simp: execute_prepared_def refuse_changed_plan_def op_seq_def op_bind_def in_tx_def transaction_def
      Let_def finish_prepared_turn_def finish_assistant_session_def op_simps on_db_def split: if_splits)

definition demo_turn_env :: "tx_faults \<Rightarrow> nat turn_env" where
  "demo_turn_env faults =
     \<lparr>tv_trace = demo_trace_env,
      tv_ready = \<lparr>ry_date = (\<lambda>v. Inr []),
        ry_deep = (\<lambda>s d a b w. (Inr \<lparr>rd_ready = True, rd_artifacts = [], rd_failure_summary = [],
          rd_correlation_id = []\<rparr>, w)),
        ry_symbol = (\<lambda>s d w. (Inr (), w))\<rparr>,
      tv_registry = demo_registry, tv_faults = faults, tv_correlation = ''c'', tv_plan_hash = (\<lambda>p. ap_intent p),
      tv_diagnostic = (\<lambda>d. []),
      tv_synthesize = (\<lambda>p r. Inl (Foreign_Error ''E'' [])),
      tv_sandbox = (\<lambda>p w. (Inl (Foreign_Error ''E'' []), w)), tv_prepare_job = (\<lambda>p w. (Inr [], w)),
      tv_audit = (\<lambda>r a w. (Inr [], w)), tv_project = (\<lambda>r a w. (Inr True, w))\<rparr>"

definition demo_turn :: "string \<Rightarrow> string \<Rightarrow> prepared_turn" where
  "demo_turn tool hash =
     \<lparr>pp_turn_id = ''t'', pp_session_id = ''s'', pp_intent = ''i'',
      pp_plan = \<lparr>ap_intent = ''h'',
        ap_steps = [\<lparr>ps_id = ''1'', ps_tool = tool, ps_arguments = [], ps_purpose = [], ps_permission = []\<rparr>],
        ap_assumptions = [], ap_artifacts = [], ap_refusal = PNone\<rparr>,
      pp_plan_hash = hash\<rparr>"

lemma changed_plan_is_not_executed_witness:
  "wh_data (mc_db (snd (execute_prepared (demo_turn_env (\<lambda>n. No_Fault)) None None (demo_turn ''note.create'' ''x'')
     demo_machine))) = 0"
proof -
  obtain r m' where e: "execute_prepared (demo_turn_env (\<lambda>n. No_Fault)) None None (demo_turn ''note.create'' ''x'')
      demo_machine = (r, m')" by fastforce
  have "tv_plan_hash (demo_turn_env (\<lambda>n. No_Fault)) (pp_plan (demo_turn ''note.create'' ''x'')) \<noteq>
      pp_plan_hash (demo_turn ''note.create'' ''x'')"
    by (simp add: demo_turn_env_def demo_turn_def)
  then show ?thesis
    using changed_plan_is_not_executed [OF _ e] e by (simp add: demo_machine_def)
qed

theorem turn_leaves_nothing_open_witness:
  "turn_ended (demo_turn ''note.create'' ''h'')
     (execute_prepared (demo_turn_env (\<lambda>n. No_Fault)) None (Some None) (demo_turn ''note.create'' ''h'') demo_machine)"
proof -
  have "no_faults (demo_turn_env (\<lambda>n. No_Fault))"
    by (simp add: no_faults_def demo_turn_env_def)
  moreover have "is_safe_tool ''note.create''"
    using allowed_tool by (simp add: tool_allowed_def)
  then have "executable_plan (pp_plan (demo_turn ''note.create'' ''h''))"
    by (simp add: executable_plan_def demo_turn_def)
  moreover have "synthesizing_returns (Some None)"
    by (simp add: synthesizing_returns_def)
  ultimately show ?thesis
    using turn_leaves_nothing_open by blast
qed

text \<open>
  When the warehouse cannot be opened for the first step of a turn, the execution fails, but the
  trace that was started for that step is not finished: the executor that accounts for it does not
  exist yet, and only the traces of the later steps are closed.
\<close>

lemma unopened_step_stays_running:
  assumes "tv_plan_hash env (pp_plan p) = pp_plan_hash p" and "ap_steps (pp_plan p) = s # rest"
    and "is_safe_tool (ps_tool s)" and "ps_tool s \<noteq> current_symbol_tool"
    and "create_turn_traces env p m = (Inr (i # ids), m1)" and "tv_faults env (mc_tx m1) = Enter_Fails"
  shows "\<exists>e m' row. execute_prepared env cb sy p m = (Inl e, m') \<and> row \<in> set (wh_traces (mc_db m')) \<and>
     tt_id row = i \<and> tt_status row = ''RUNNING'' \<and> \<not> tt_finished row"
proof -
  have na: "\<not> is_approval_required_plan (pp_plan p)"
    using assms(2,3) sandbox_tool by (auto simp: approval_plan_tools)
  have c: "wh_traces (mc_db m1) = wh_traces (mc_db m) @
      map (\<lambda>(s, i). new_trace (tv_trace env) (assistant_executor (pp_session_id p) []) (ps_tool s) (ps_arguments s) i)
        (zip (s # rest) (i # ids))" "length ids = length rest" "distinct (i # ids)"
    using create_turn_traces_Inr [OF assms(5)] assms(2) by simp_all
  let ?row = "new_trace (tv_trace env) (assistant_executor (pp_session_id p) []) (ps_tool s) (ps_arguments s) i"
  obtain e m2 where t: "execute_managed_tools env cb p (i # ids) m1 = (Inl e, m2)"
      "filter (\<lambda>r. tt_id r = i) (wh_traces (mc_db m2)) = filter (\<lambda>r. tt_id r = i) (wh_traces (mc_db m1))"
    using unopened_tools [OF assms(2) safe_tool_listed [OF assms(3)] assms(4,6) c(3,2)] by blast
  let ?fail = "fail_turn env p (with_lifecycle env ''TOOL_EXECUTION'' ''TOOL_EXECUTION_FAILURE'' (Some i) (turn_error env e))"
  have "execute_prepared env cb sy p m =
      op_seq ?fail (op_raise (Lifecycle_Error ''TOOL_EXECUTION'' ''TOOL_EXECUTION_FAILURE'')) m2"
    using assms(1,5) na t(1) by (simp add: execute_prepared_def op_bind_def op_attempt_def)
  moreover obtain m3 where f: "?fail m2 = (Inr (), m3)"
    unfolding fail_turn_def op_seq_def op_bind_def
    using quietly_always [of "finish_turn env p ''FAILED''" m2] quietly_always by fastforce
  ultimately have "execute_prepared env cb sy p m =
      (Inl (Lifecycle_Error ''TOOL_EXECUTION'' ''TOOL_EXECUTION_FAILURE''), m3)"
    by (simp add: op_seq_Inr op_simps)
  moreover have "wh_traces (mc_db m3) = wh_traces (mc_db m2)"
    using untraced.keepsD [OF untraced.keeps_fail_turn f] .
  moreover have "?row \<in> set (filter (\<lambda>r. tt_id r = i) (wh_traces (mc_db m1)))"
    using c(1) by (simp add: new_trace_def)
  then have "?row \<in> set (wh_traces (mc_db m2))"
    using t(2) by (metis filter_is_subset subsetD)
  ultimately show ?thesis
    by (intro exI [of _ "Lifecycle_Error ''TOOL_EXECUTION'' ''TOOL_EXECUTION_FAILURE''"] exI [of _ m3] exI [of _ ?row])
      (simp add: new_trace_def)
qed

lemma unopened_step_stays_running_witness:
  "\<exists>e m' row. execute_prepared (demo_turn_env (\<lambda>n. if n = 1 then Enter_Fails else No_Fault)) None None
       (demo_turn ''note.create'' ''h'') demo_machine = (Inl e, m') \<and>
     row \<in> set (wh_traces (mc_db m')) \<and> tt_status row = ''RUNNING'' \<and> \<not> tt_finished row"
proof -
  let ?env = "demo_turn_env (\<lambda>n. if n = 1 then Enter_Fails else No_Fault)"
  let ?p = "demo_turn ''note.create'' ''h''"
  obtain m1 where "create_turn_traces ?env ?p demo_machine = (Inr [''u''], m1)" "mc_tx m1 = 1"
    by (simp add: create_turn_traces_def demo_turn_env_def demo_turn_def demo_machine_def demo_trace_env_def
        in_tx_def transaction_def op_collect.simps create_tool_trace_def fresh_id_def insert_trace_def op_simps
        op_bind_def op_seq_def on_traces_def)
  moreover have "is_safe_tool ''note.create''"
    using allowed_tool by (simp add: tool_allowed_def)
  ultimately show ?thesis
    using unopened_step_stays_running [of ?env ?p "hd (ap_steps (pp_plan ?p))" "[]" demo_machine "''u''" "[]" m1 None None]
    by (auto simp: demo_turn_def demo_turn_env_def current_symbol_tool_def)
qed

end
