(* ===== verification/Ask_Props.thy ===== *)
theory Ask_Props
  imports Assistant_Props
begin

section \<open>A request from start to end\<close>

lemmas frame_unfolds = effect_frame.keeps_def effect_frame_def

subsection \<open>What moves the research data\<close>

text \<open>
  One step of the data: a safe tool, a readiness service, the preparation (not the run) of a sandbox
  job, the audit of an answer, its projection.
\<close>

definition research_step :: "'w turn_env \<Rightarrow> 'w \<Rightarrow> 'w \<Rightarrow> bool" where
  "research_step env w w' \<longleftrightarrow>
     (\<exists>t granted kwargs. is_safe_tool t \<and> w' = snd (tool_call (tv_registry env) t granted kwargs w)) \<or>
     (\<exists>symbol date a b. w' = snd (ry_deep (tv_ready env) symbol date a b w)) \<or>
     (\<exists>symbol date. w' = snd (ry_symbol (tv_ready env) symbol date w)) \<or>
     (\<exists>purpose. w' = snd (tv_prepare_job env purpose w)) \<or>
     (\<exists>results a. w' = snd (tv_audit env results a w) \<or> w' = snd (tv_project env results a w))"

definition research_rel :: "'w turn_env \<Rightarrow> 'w machine \<Rightarrow> 'w machine \<Rightarrow> bool" where
  "research_rel env m m' \<longleftrightarrow> (research_step env)\<^sup>*\<^sup>* (wh_data (mc_db m)) (wh_data (mc_db m'))"

lemma research_same: "wh_data (mc_db m') = wh_data (mc_db m) \<Longrightarrow> research_rel env m m'"
  by (simp add: research_rel_def)

lemma research_one: "research_step env (wh_data (mc_db m)) (wh_data (mc_db m')) \<Longrightarrow> research_rel env m m'"
  by (simp add: research_rel_def)

interpretation research: effect_frame "research_rel env" for env
  by unfold_locales (auto simp: research_rel_def)

lemma research_on_data: "(\<And>w. research_step env w (snd (f w))) \<Longrightarrow> research.keeps env (on_data f)"
  unfolding research.keeps_def
  by (auto simp: on_data_def split: prod.splits intro!: research_one) (metis snd_conv)

lemma research_moves:
  "research_step env w (snd (ry_deep (tv_ready env) symbol date a b w))"
  "research_step env w (snd (ry_symbol (tv_ready env) symbol date w))"
  "research_step env w (snd (tv_prepare_job env purpose w))"
  "research_step env w (snd (tv_audit env results answer w))"
  "research_step env w (snd (tv_project env results answer w))"
  unfolding research_step_def by blast+

lemma research_tool: "is_safe_tool t \<Longrightarrow> research.keeps env (run_tool (tv_registry env) t granted kwargs)"
  unfolding research.keeps_def
  by (auto simp: run_tool_def research_step_def split: prod.splits intro!: research_one) (metis snd_conv)

interpretation research: records_frame "research_rel env" for env
  by unfold_locales (auto simp: research.keeps_def row_op_defs on_db_def intro!: research_same split: prod.splits)

interpretation research: synthesis_frame "research_rel env" env for env
  by unfold_locales
    (intro research_on_data research_moves |
     (auto simp: research.keeps_def row_op_defs on_db_def intro!: research_same split: prod.splits)[1])+

interpretation research: request_frame "research_rel (pv_turn env)" env for env
proof (unfold_locales, goal_cases)
  case (1 m' m)
  then show ?case by (simp add: research_same)
next
  case (2 t granted kwargs)
  then show ?case by (rule research_tool)
next
  case (3 symbol date r1 r2)
  show ?case by (intro research_on_data research_moves)
next
  case (4 symbol date)
  show ?case by (intro research_on_data research_moves)
next
  case (5 p results)
  show ?case by (rule research.keeps_synthesize)
next
  case (6 sid prompt)
  show ?case by (intro research.keeps_classify_if research.opens_llm research.closes_llm)
next
  case (7 purpose)
  show ?case by (intro research_on_data research_moves)
qed (auto simp: research.keeps_def persist_prepared_turn_def mark_assistant_session_prepared_def
      create_assistant_session_def row_op_defs on_db_def intro!: research_same split: prod.splits)

text \<open>
  C30: whatever is asked and however the request ends, the research data move only by tools that are
  safe, by the readiness services, by the preparation of a sandbox job and by the audit of the answer.
  A request never runs the sandbox: that takes an approval of its own.
\<close>

theorem request_moves_data_by_safe_tools:
  "(research_step (pv_turn env))\<^sup>*\<^sup>* (wh_data (mc_db m)) (wh_data (mc_db (snd (ask env cb no_execute rq m))))"
  using research.keeps_ask [of env cb no_execute rq] unfolding research.keeps_def research_rel_def by blast

subsection \<open>What is left open\<close>

definition open_sessions :: "'w machine \<Rightarrow> string set" where
  "open_sessions m = as_id ` {s \<in> set (wh_sessions (mc_db m)). \<not> as_finished s}"

definition open_turns :: "'w machine \<Rightarrow> string set" where
  "open_turns m = tn_id ` {t \<in> set (wh_turns (mc_db m)). \<not> tn_finished t}"

definition open_llm :: "'w machine \<Rightarrow> string set" where
  "open_llm m = lt_id ` {t \<in> set (wh_llm (mc_db m)). \<not> lt_finished t}"

definition open_traces :: "'w machine \<Rightarrow> string set" where
  "open_traces m = tt_id ` {t \<in> set (wh_traces (mc_db m)). \<not> tt_finished t}"

definition nothing_open :: "'w machine \<Rightarrow> bool" where
  "nothing_open m \<longleftrightarrow> open_sessions m = {} \<and> open_turns m = {} \<and> open_llm m = {} \<and> open_traces m = {}"

lemma open_cong:
  "wh_sessions (mc_db m') = wh_sessions (mc_db m) \<Longrightarrow> open_sessions m' = open_sessions m"
  "wh_turns (mc_db m') = wh_turns (mc_db m) \<Longrightarrow> open_turns m' = open_turns m"
  "wh_llm (mc_db m') = wh_llm (mc_db m) \<Longrightarrow> open_llm m' = open_llm m"
  "wh_traces (mc_db m') = wh_traces (mc_db m) \<Longrightarrow> open_traces m' = open_traces m"
  by (simp_all add: open_sessions_def open_turns_def open_llm_def open_traces_def)

text \<open>Finishing the rows with one key.\<close>

lemma unfinished_after:
  assumes "\<And>x. fin (f x) \<and> k (f x) = k x"
  shows "k ` {x \<in> set (update_where (\<lambda>r. k r = i) f rs). \<not> fin x} = k ` {x \<in> set rs. \<not> fin x} - {i}"
proof (intro set_eqI iffI)
  fix y assume "y \<in> k ` {x \<in> set (update_where (\<lambda>r. k r = i) f rs). \<not> fin x}"
  then obtain x where "x \<in> set rs" "\<not> fin (if k x = i then f x else x)" "y = k (if k x = i then f x else x)"
    by (auto simp: set_update_where)
  then show "y \<in> k ` {x \<in> set rs. \<not> fin x} - {i}"
    using assms by (auto split: if_splits)
next
  fix y assume "y \<in> k ` {x \<in> set rs. \<not> fin x} - {i}"
  then obtain x where "x \<in> set rs" "\<not> fin x" "y = k x" "k x \<noteq> i"
    by auto
  then have "x \<in> set (update_where (\<lambda>r. k r = i) f rs)"
    unfolding set_update_where by (intro image_eqI [of _ _ x]) simp_all
  then show "y \<in> k ` {x \<in> set (update_where (\<lambda>r. k r = i) f rs). \<not> fin x}"
    using \<open>\<not> fin x\<close> \<open>y = k x\<close> by blast
qed

lemma open_finish:
  "open_sessions (snd (finish_assistant_session e sid st i plan a ref err m)) = open_sessions m - {sid}"
  "open_turns (snd (finish_prepared_turn tid st m)) = open_turns m - {tid}"
  "open_llm (snd (finish_llm_trace e l st err m)) = open_llm m - {l}"
  by (simp_all add: finish_assistant_session_def finish_prepared_turn_def finish_llm_trace_def op_simps on_db_def
      open_sessions_def open_turns_def open_llm_def unfinished_after finish_session_row_def)

interpretation sessions: effect_frame "\<lambda>m m'. open_sessions m' \<subseteq> open_sessions m"
  by unfold_locales auto

interpretation turns: effect_frame "\<lambda>m m'. open_turns m' \<subseteq> open_turns m"
  by unfold_locales auto

text \<open>A statement that writes other tables.\<close>

lemma other_rows:
  "wh_sessions (mc_db (snd (finish_prepared_turn tid st m))) = wh_sessions (mc_db m)"
  "wh_turns (mc_db (snd (finish_assistant_session e sid st i plan a ref err m))) = wh_turns (mc_db m)"
  "wh_llm (mc_db (snd (finish_prepared_turn tid st m))) = wh_llm (mc_db m)"
  "wh_llm (mc_db (snd (finish_assistant_session e sid st i plan a ref err m))) = wh_llm (mc_db m)"
  "wh_sessions (mc_db (snd (finish_llm_trace e l st err m))) = wh_sessions (mc_db m)"
  "wh_turns (mc_db (snd (finish_llm_trace e l st err m))) = wh_turns (mc_db m)"
  "wh_sessions (mc_db (snd (create_llm_trace e sid stage m))) = wh_sessions (mc_db m)"
  "wh_turns (mc_db (snd (create_llm_trace e sid stage m))) = wh_turns (mc_db m)"
  "wh_sessions (mc_db (snd (persist_prepared_turn p m))) = wh_sessions (mc_db m)"
  "wh_llm (mc_db (snd (persist_prepared_turn p m))) = wh_llm (mc_db m)"
  "wh_turns (mc_db (snd (mark_assistant_session_prepared sid j pl m))) = wh_turns (mc_db m)"
  "wh_llm (mc_db (snd (mark_assistant_session_prepared sid j pl m))) = wh_llm (mc_db m)"
  "wh_turns (mc_db (snd (create_assistant_session e surface prompt m))) = wh_turns (mc_db m)"
  "wh_llm (mc_db (snd (create_assistant_session e surface prompt m))) = wh_llm (mc_db m)"
  "records (snd (on_data f m)) = records m" "records (snd (run_tool reg name granted kwargs m)) = records m"
  by (auto simp: finish_assistant_session_def finish_prepared_turn_def finish_llm_trace_def create_llm_trace_def
      persist_prepared_turn_def mark_assistant_session_prepared_def create_assistant_session_def on_data_def
      run_tool_def fresh_id_def op_bind_def op_seq_def op_simps on_db_def records_def split: prod.splits)

lemma open_records:
  "records m' = records m \<Longrightarrow> open_sessions m' = open_sessions m"
  "records m' = records m \<Longrightarrow> open_turns m' = open_turns m"
  "records m' = records m \<Longrightarrow> open_llm m' = open_llm m"
  by (simp_all add: records_def open_sessions_def open_turns_def open_llm_def)

lemma same_db_records: "mc_db m' = mc_db m \<Longrightarrow> records m' = records m"
  by (simp add: records_def)

lemmas open_others =
  other_rows(1,5,7,9) [THEN open_cong(1)] other_rows(2,6,8,11,13) [THEN open_cong(2)]
  other_rows(3,4,10,12,14) [THEN open_cong(3)] other_rows(15,16) [THEN open_records(1)]
  other_rows(15,16) [THEN open_records(2)] other_rows(15,16) [THEN open_records(3)]

lemma unfinished_kept:
  assumes "\<And>x. fin (f x) = fin x \<and> k (f x) = k x"
  shows "k ` {x \<in> set (update_where p f rs). \<not> fin x} = k ` {x \<in> set rs. \<not> fin x}"
proof -
  define g where "g = (\<lambda>r. if p r then f r else r)"
  have g: "fin (g x) = fin x" "k (g x) = k x" for x
    using assms by (simp_all add: g_def)
  then have "{x \<in> g ` set rs. \<not> fin x} = g ` {x \<in> set rs. \<not> fin x}"
    by auto
  then show ?thesis
    unfolding set_update_where g_def [symmetric] by (simp add: image_image g)
qed

lemma marking_opens: "open_sessions (snd (mark_assistant_session_prepared sid i plan m)) = open_sessions m"
  by (simp add: mark_assistant_session_prepared_def op_simps open_sessions_def on_db_def unfinished_kept)

interpretation sessions: synthesis_frame "\<lambda>m m'. open_sessions m' \<subseteq> open_sessions m" env for env
  by unfold_locales (auto simp: sessions.keeps_def open_finish open_others dest: same_db_records open_records)

interpretation turns: synthesis_frame "\<lambda>m m'. open_turns m' \<subseteq> open_turns m" env for env
  by unfold_locales (auto simp: turns.keeps_def open_finish open_others dest: same_db_records open_records)

interpretation sessions: turn_frame "\<lambda>m m'. open_sessions m' \<subseteq> open_sessions m" env for env
  by unfold_locales
    (rule sessions.keeps_synthesize | (auto simp: sessions.keeps_def open_others dest: open_records)[1])+

interpretation turns: turn_frame "\<lambda>m m'. open_turns m' \<subseteq> open_turns m" env for env
  by unfold_locales
    (rule turns.keeps_synthesize | (auto simp: turns.keeps_def open_others dest: open_records)[1])+

interpretation sessions: preparing_frame "\<lambda>m m'. open_sessions m' \<subseteq> open_sessions m" env for env
  by unfold_locales
    (rule sessions.keeps_classify_if sessions.opens_llm sessions.closes_llm |
     (auto simp: sessions.keeps_def open_others marking_opens)[1])+

interpretation turns: planning_frame "\<lambda>m m'. open_turns m' \<subseteq> open_turns m" env for env
  by unfold_locales
    (rule turns.keeps_classify_if turns.opens_llm turns.closes_llm | (auto simp: turns.keeps_def open_others)[1])+

interpretation untraced: prepare_frame "\<lambda>m m'. wh_traces (mc_db m') = wh_traces (mc_db m)" env for env
  by unfold_locales
    (rule untraced.keeps_classify_if untraced.opens_llm untraced.closes_llm |
     (auto simp: untraced.keeps_def row_op_defs on_db_def persist_prepared_turn_def
       mark_assistant_session_prepared_def create_assistant_session_def split: prod.splits)[1])+

subsection \<open>Model traces\<close>

lemma finish_llm_closes:
  assumes "no_faults env" and "open_llm m \<subseteq> set_option trace"
  shows "\<exists>m'. finish_llm env trace st err m = (Inr (), m') \<and> open_llm m' = {}"
proof (cases trace)
  case None
  then show ?thesis using assms(2) by (simp add: finish_llm_def op_simps)
next
  case (Some i)
  let ?m = "m\<lparr>mc_tx := mc_tx m + 1\<rparr>"
  obtain m' where f: "finish_llm_trace (tv_trace env) i st err ?m = (Inr (), m')"
    by (simp add: finish_llm_trace_def op_simps)
  have "open_llm m' = open_llm ?m - {i}"
    using open_finish(3) [of "tv_trace env" i st err ?m] f by simp
  moreover have "open_llm ?m = open_llm m" by (rule open_cong) simp
  ultimately show ?thesis
    using assms Some f by (auto simp: finish_llm_def in_tx_apply)
qed

lemma create_llm_opens:
  assumes "in_tx env (create_llm_trace e sid stage) m = (r, m')"
  shows "open_llm m' \<subseteq> open_llm m \<union> (case r of Inl _ \<Rightarrow> {} | Inr i \<Rightarrow> {i})"
  using assms
  by (auto simp: in_tx_def transaction_def Let_def create_llm_trace_def fresh_id_def op_bind_def op_seq_def op_simps
      on_db_def open_llm_def split: if_splits)

definition llm_rel :: "'w turn_env \<Rightarrow> 'w machine \<Rightarrow> 'w machine \<Rightarrow> bool" where
  "llm_rel env m m' \<longleftrightarrow> (no_faults env \<longrightarrow> open_llm m = {} \<longrightarrow> open_llm m' = {})"

lemma llm_smaller: "open_llm m' \<subseteq> open_llm m \<Longrightarrow> llm_rel env m m'"
  by (auto simp: llm_rel_def)

interpretation llm: effect_frame "llm_rel env" for env
  by unfold_locales (auto simp: llm_rel_def)

interpretation llm: closing_frame "llm_rel env" env' for env env'
  by unfold_locales
    (auto simp: llm.keeps_def open_finish open_others intro!: llm_smaller dest: same_db_records open_records)

lemma llm_synthesize: "llm.keeps env (synthesize_turn env None p results)"
  unfolding llm.keeps_def
proof
  fix m
  let ?create = "in_tx env (create_llm_trace (tv_trace env) (pp_session_id p) ''synthesize'')"
  obtain tr m1 where c: "?create m = (tr, m1)" by fastforce
  let ?trace = "case tr of Inl _ \<Rightarrow> None | Inr i \<Rightarrow> Some i"
  have run: "synthesize_turn env None p results m = synthesize_with env p results tr m1"
    using c by (simp add: synthesize_turn_def call_synthesizing_def op_seq_def op_bind_def attempt_returns op_simps)
  have "open_llm (snd (synthesize_with env p results tr m1)) = {}" if nf: "no_faults env" and "open_llm m = {}"
  proof -
    have o: "open_llm m1 \<subseteq> set_option ?trace"
      using create_llm_opens [OF c] that(2) by (simp split: sum.splits)
    show ?thesis
    proof (cases "tv_synthesize env (pp_plan p) results")
      case (Inl e)
      let ?f = "finish_llm env ?trace ''FAILED'' (Some [(''message'', PStr (xe_summary (tv_trace env) e))])"
      obtain m2 where f: "?f m1 = (Inr (), m2)" "open_llm m2 = {}"
        using finish_llm_closes [OF nf o] by blast
      define rest :: "('a, assistant_answer) run" where "rest = op_seq (fail_turn env p (with_lifecycle env ''ANSWER_VALIDATION'' ''SYNTHESIS_FAIL_CLOSED'' ?trace (turn_error env e)))
          (op_raise (Lifecycle_Error ''ANSWER_VALIDATION'' ''SYNTHESIS_FAIL_CLOSED''))"
      have keep: "llm.keeps env rest"
        unfolding rest_def by (intro llm.keeps_seq llm.keeps_fail_turn llm.keeps_raise)
      have "synthesize_with env p results tr m1 = op_seq (quietly ?f) rest m1"
        by (simp add: synthesize_with_def Inl Let_def rest_def)
      also have "\<dots> = rest m2"
        by (rule op_seq_Inr) (rule quietly_returns, rule f(1))
      finally show ?thesis
        using keep f(2) nf by (simp add: llm.keeps_def llm_rel_def)
    next
      case (Inr syn)
      obtain st err rest where p: "finalize_turn env p results tr syn =
          op_bind (op_attempt (finish_llm env ?trace st err)) rest" "\<And>r. llm.keeps env (rest r)"
        using llm.finalize_parts by metis
      obtain m2 where f: "finish_llm env ?trace st err m1 = (Inr (), m2)" "open_llm m2 = {}"
        using finish_llm_closes [OF nf o] by blast
      have "synthesize_with env p results tr m1 = rest (Inr ()) m2"
        using f(1) by (simp add: synthesize_with_def Inr p(1) op_bind_def attempt_returns)
      then show ?thesis
        using p(2) [of "Inr ()"] f(2) nf by (simp add: llm.keeps_def llm_rel_def)
    qed
  qed
  then show "llm_rel env m (snd (synthesize_turn env None p results m))"
    by (simp add: llm_rel_def run)
qed

lemma llm_classify: "llm.keeps (pv_turn env) (classify_request env sid prompt)"
  unfolding llm.keeps_def
proof
  fix m
  let ?t = "pv_turn env"
  let ?create = "in_tx ?t (create_llm_trace (tv_trace ?t) sid ''classify'')"
  obtain tr m1 where c: "?create m = (tr, m1)" by fastforce
  have "open_llm (snd (classify_request env sid prompt m)) = {}" if nf: "no_faults ?t" and "open_llm m = {}"
  proof (cases tr)
    case (Inl e)
    then show ?thesis
      using c create_llm_opens [OF c] that(2) by (simp add: classify_request_def op_bind_def raising_def)
  next
    case (Inr i)
    have o: "open_llm m1 \<subseteq> set_option (Some i)"
      using create_llm_opens [OF c] that(2) Inr by simp
    have f: "\<exists>m2. finish_llm ?t (Some i) st err m1 = (Inr (), m2) \<and> open_llm m2 = {}" for st err
      by (rule finish_llm_closes [OF nf o])
    show ?thesis
    proof (cases "classify (pv_classifier env) (pv_first env prompt) (pv_second env prompt) prompt")
      case (Inl e)
      then show ?thesis
        using c Inr f [of "''FAILED''" "Some [(''message'', PStr (xe_summary (tv_trace ?t) (request_exc e)))]"]
        by (auto simp: classify_request_def op_bind_def op_seq_def raising_def quietly_returns op_simps)
    next
      case (Inr ir)
      then show ?thesis
        using c \<open>tr = Inr i\<close> f [of "''SUCCESS''" None]
        by (auto simp: classify_request_def op_bind_def op_seq_def raising_def raising_as_def op_simps)
    qed
  qed
  then show "llm_rel ?t m (snd (classify_request env sid prompt m))"
    by (simp add: llm_rel_def)
qed

interpretation llm: request_frame "llm_rel (pv_turn env)" env for env
  by unfold_locales
    (rule llm_synthesize llm_classify |
     (auto simp: llm.keeps_def open_others intro!: llm_smaller dest: open_records)[1])+

subsection \<open>The prepared turn\<close>

lemma raising_Inr: "raising f m = (Inr x, m') \<longleftrightarrow> f m = (Inr x, m')"
  by (auto simp: raising_def split: prod.splits sum.splits)

lemma materialized_plan:
  assumes "materialized env plan m = (Inr plan', m')"
  shows "plan' = plan \<or> is_approval_required_plan plan \<and> is_approval_required_plan plan'"
proof (cases "is_approval_required_plan plan")
  case True
  then obtain w w' where "materialize_assistant_plan (pv_turn env) plan w = (Inr plan', w')"
    using assms
    by (auto simp: materialized_def in_tx_def transaction_def Let_def on_data_def split: if_splits prod.splits sum.splits)
  then have "map ps_tool (ap_steps plan') = map ps_tool (ap_steps plan)"
    by (auto simp: materialize_assistant_plan_def split: list.splits if_splits prod.splits sum.splits)
  then show ?thesis using True by (simp add: approval_plan_tools)
next
  case False
  then show ?thesis using assms by (simp add: materialized_def op_simps)
qed

lemma allowed_executable: "plan_allowed entities plan \<Longrightarrow> executable_plan plan"
  using allowed_plan_kind [of entities plan]
  by (cases "ap_steps plan = []") (auto simp: executable_plan_def safe_plan_tools)

lemma prepared_turn_executable:
  assumes "prepare_turn env rq sid m = (Inr p, m')"
  shows "pp_session_id p = sid \<and> executable_plan (pp_plan p)"
proof -
  obtain ir plan0 m1 m2 where p: "planned env ir = Inr plan0" "materialized env plan0 m1 = (Inr (pp_plan p), m2)"
      "pp_session_id p = sid"
    using assms
    by (auto simp: prepare_turn_def op_seq_def op_bind_Inr_iff raising_Inr op_lift_apply op_return_apply)
  have "executable_plan plan0"
    using p(1) built_allowed [of _ ir plan0] allowed_executable by (auto simp: planned_def split: sum.splits)
  then show ?thesis
    using materialized_plan [OF p(2)] p(3) by (auto simp: executable_plan_def)
qed

subsection \<open>The end of a preparation\<close>

lemma in_tx_closes_session:
  assumes "no_faults env"
  shows "\<exists>m'. in_tx env (finish_assistant_session e sid st i plan a ref err) m = (Inr (), m') \<and>
     open_sessions m' = open_sessions m - {sid}"
proof -
  let ?m = "m\<lparr>mc_tx := mc_tx m + 1\<rparr>"
  obtain m' where f: "finish_assistant_session e sid st i plan a ref err ?m = (Inr (), m')"
    by (simp add: finish_assistant_session_def op_simps)
  have "open_sessions ?m = open_sessions m" by (rule open_cong) simp
  then show ?thesis
    using f open_finish(1) [of e sid st i plan a ref err ?m] assms by (auto simp: in_tx_apply)
qed

lemma quiet_session_end:
  assumes "no_faults env"
  shows "\<exists>m'. quietly (in_tx env (finish_assistant_session e sid st i plan a ref err)) m = (Inr (), m') \<and>
     open_sessions m' = open_sessions m - {sid}"
  using in_tx_closes_session [OF assms] quietly_returns by metis

lemma stopped_closes:
  assumes "no_faults (pv_turn env)"
  shows "open_sessions (snd (prepare_stopped env sid st m)) = open_sessions m - {sid}"
proof (cases st)
  case (Stop_Refused reason category suggestion)
  obtain m' where "quietly (in_tx (pv_turn env) (finish_assistant_session (tv_trace (pv_turn env)) sid
        ''REFUSED'' None None None (Some reason) None)) m = (Inr (), m')" "open_sessions m' = open_sessions m - {sid}"
    using quiet_session_end [OF assms] by blast
  then show ?thesis
    by (simp add: Stop_Refused prepare_stopped_def op_seq_Inr op_return_apply)
next
  case (Stop_Raised e)
  have "open_sessions (snd (op_seq (finish_prepare_failure env sid e1 status) (op_raise e2 :: ('a, preparation) run) m)) =
      open_sessions m - {sid}" for e1 e2 status
  proof -
    obtain m' where "finish_prepare_failure env sid e1 status m = (Inr (), m')" "open_sessions m' = open_sessions m - {sid}"
      using quiet_session_end [OF assms] unfolding finish_prepare_failure_def Let_def by blast
    then show ?thesis by (simp add: op_seq_Inr op_raise_apply)
  qed
  then show ?thesis
    by (simp add: Stop_Raised prepare_stopped_def split: exc.splits)
qed

lemma persist_opens:
  assumes "persist_turn env p m = (Inr (), m')"
  shows "open_turns m' \<subseteq> insert (pp_turn_id p) (open_turns m)"
  using assms
  by (auto simp: persist_turn_def in_tx_def transaction_def Let_def op_success persist_prepared_turn_def
      mark_assistant_session_prepared_def on_db_def open_turns_def split: if_splits prod.splits sum.splits)

lemma persist_fails: "persist_turn env p m = (Inl e, m') \<Longrightarrow> open_turns m' = open_turns m"
  by (rule open_cong) (auto simp: persist_turn_def in_tx_def transaction_def Let_def split: if_splits prod.splits sum.splits)

lemma prepare_session_opens:
  assumes "prepare_session env rq sid m = (r, m')" and "open_turns m = {}"
  shows "open_turns m' \<subseteq> (case r of Inr p \<Rightarrow> {pp_turn_id p} | Inl _ \<Rightarrow> {})" and
    "r = Inr p \<Longrightarrow> pp_session_id p = sid \<and> executable_plan (pp_plan p)"
proof -
  obtain q m1 where t: "prepare_turn env rq sid m = (q, m1)" by fastforce
  have o: "open_turns m1 = {}"
    using turns.keepsD [OF turns.keeps_prepare_turn t] assms(2) by simp
  show "open_turns m' \<subseteq> (case r of Inr p \<Rightarrow> {pp_turn_id p} | Inl _ \<Rightarrow> {})"
  proof (cases q)
    case (Inl st)
    then show ?thesis
      using assms(1) t o by (auto simp: prepare_session_def op_bind_def)
  next
    case (Inr p)
    obtain u m2 where u: "persist_turn env p m1 = (u, m2)" by fastforce
    then show ?thesis
      using assms(1) t o Inr persist_opens [of env p m1 m2] persist_fails [of env p m1 _ m2]
      by (cases u) (auto simp: prepare_session_def op_bind_def op_seq_def raising_def op_simps)
  qed
  show "r = Inr p \<Longrightarrow> pp_session_id p = sid \<and> executable_plan (pp_plan p)"
    using assms(1) t prepared_turn_executable [of env rq sid m p m1]
    by (auto simp: prepare_session_def op_success raising_Inr)
qed

lemma create_session_opens:
  assumes "in_tx env (create_assistant_session e surface prompt) m = (r, m')"
  shows "open_sessions m' \<subseteq> open_sessions m \<union> (case r of Inl _ \<Rightarrow> {} | Inr sid \<Rightarrow> {sid})"
    and "open_turns m' = open_turns m"
proof -
  show "open_sessions m' \<subseteq> open_sessions m \<union> (case r of Inl _ \<Rightarrow> {} | Inr sid \<Rightarrow> {sid})"
    using assms
    by (auto simp: in_tx_def transaction_def Let_def create_assistant_session_def fresh_id_def op_bind_def op_seq_def
        op_simps on_db_def open_sessions_def split: if_splits)
  show "open_turns m' = open_turns m"
    using assms
    by (intro open_cong)
      (auto simp: in_tx_def transaction_def Let_def create_assistant_session_def fresh_id_def op_bind_def op_seq_def
        op_simps on_db_def split: if_splits)
qed

lemma prepare_opens:
  assumes "no_faults (pv_turn env)" and "open_sessions m = {}" and "open_turns m = {}" and "prepare env rq m = (r, m')"
  shows "(\<exists>p. r = Inr (Prepared p) \<and> open_sessions m' \<subseteq> {pp_session_id p} \<and> open_turns m' \<subseteq> {pp_turn_id p} \<and>
       executable_plan (pp_plan p)) \<or>
     (\<forall>p. r \<noteq> Inr (Prepared p)) \<and> open_sessions m' = {} \<and> open_turns m' = {}"
proof -
  obtain r1 m1 where c: "in_tx (pv_turn env) (create_assistant_session (tv_trace (pv_turn env)) (pv_surface env)
      (pv_projection env (aq_prompt rq))) m = (r1, m1)" by fastforce
  show ?thesis
  proof (cases r1)
    case (Inl e)
    then show ?thesis
      using assms(2-4) c create_session_opens [OF c] by (auto simp: prepare_def op_bind_def attempt_returns op_simps)
  next
    case (Inr sid)
    have o: "open_sessions m1 \<subseteq> {sid}" "open_turns m1 = {}"
      using create_session_opens [OF c] assms(2,3) Inr by auto
    obtain q m2 where s: "prepare_session env rq sid m1 = (q, m2)" by fastforce
    have q: "prepare env rq m = (case q of Inl st \<Rightarrow> prepare_stopped env sid st m2 | Inr p \<Rightarrow> (Inr (Prepared p), m2))"
      using c Inr s by (simp add: prepare_def op_bind_def attempt_returns split: sum.splits)
    have o2: "open_sessions m2 \<subseteq> {sid}"
      using sessions.keepsD [OF sessions.keeps_prepare_session s] o(1) by blast
    note t = prepare_session_opens [OF s o(2)]
    show ?thesis
    proof (cases q)
      case (Inl st)
      then have ps: "prepare_stopped env sid st m2 = (r, m')"
        using q assms(4) by simp
      have "open_sessions m' = {}"
        using stopped_closes [OF assms(1), of sid st m2] o2 unfolding ps by auto
      moreover have "open_turns m' = {}"
        using t(1) Inl turns.keepsD [OF turns.keeps_stopped ps] by simp
      moreover have "r \<noteq> Inr (Prepared p)" for p
        using ps by (auto simp: prepare_stopped_def op_success split: stop.splits exc.splits)
      ultimately show ?thesis by blast
    next
      case (Inr p)
      then show ?thesis
        using q assms(4) t o2 by auto
    qed
  qed
qed

subsection \<open>Nothing is left open\<close>

lemma closed_sessions: "open_sessions m \<subseteq> {pp_session_id p} \<Longrightarrow> session_closed p sts m \<Longrightarrow> open_sessions m = {}"
  by (auto simp: open_sessions_def session_closed_def list_all_iff)

lemma closed_turns: "open_turns m \<subseteq> {pp_turn_id p} \<Longrightarrow> turn_closed p sts m \<Longrightarrow> open_turns m = {}"
  by (auto simp: open_turns_def turn_closed_def list_all_iff)

lemma finished_traces: "traces_finished m m' \<Longrightarrow> open_traces m' = open_traces m"
  by (auto simp: traces_finished_def open_traces_def list_all_iff)

lemma preview_closes:
  assumes "no_faults env" and "open_sessions m \<subseteq> {pp_session_id p}" and "open_turns m \<subseteq> {pp_turn_id p}"
  shows "\<exists>m'. preview_prepared env p m = (Inr (), m') \<and> open_sessions m' = {} \<and> open_turns m' = {} \<and>
     wh_traces (mc_db m') = wh_traces (mc_db m)"
proof -
  let ?m = "m\<lparr>mc_tx := mc_tx m + 1\<rparr>"
  let ?f = "finish_assistant_session (tv_trace env) (pp_session_id p) ''SUCCESS'' (Some (pp_intent p))
    (Some (pp_plan p)) None None None"
  let ?g = "finish_prepared_turn (pp_turn_id p) ''PREVIEWED''"
  obtain m1 m2 where f: "?f ?m = (Inr (), m1)" and g: "?g m1 = (Inr (), m2)"
    by (simp add: finish_assistant_session_def finish_prepared_turn_def op_simps)
  have same: "open_sessions ?m = open_sessions m" "open_turns ?m = open_turns m"
    by (rule open_cong, simp)+
  have s1: "open_sessions m1 = open_sessions ?m - {pp_session_id p}"
    using open_finish(1) f by (metis snd_conv)
  have t1: "open_turns m1 = open_turns ?m"
    using f other_rows(2) open_cong(2) by (metis snd_conv)
  have s2: "open_sessions m2 = open_sessions m1"
    using g other_rows(1) open_cong(1) by (metis snd_conv)
  have t2: "open_turns m2 = open_turns m1 - {pp_turn_id p}"
    using open_finish(2) g by (metis snd_conv)
  have run: "preview_prepared env p m = (Inr (), m2)"
    using f g assms(1) by (simp add: preview_prepared_def in_tx_apply op_seq_Inr)
  have "wh_traces (mc_db m2) = wh_traces (mc_db m)"
    using untraced.keepsD [OF untraced.keeps_preview run] .
  then show ?thesis
    using run s1 s2 t1 t2 same assms(2,3) by (intro exI [of _ m2] conjI) auto
qed

lemma execute_closes:
  assumes "no_faults env" and "open_sessions m \<subseteq> {pp_session_id p}" and "open_turns m \<subseteq> {pp_turn_id p}"
    and "executable_plan (pp_plan p)" and "\<not> is_approval_required_plan (pp_plan p)"
    and "execute_prepared env cb None p m = (r, m')"
  shows "open_sessions m' = {} \<and> open_turns m' = {} \<and> open_traces m' = open_traces m"
proof -
  have c: "turn_ended p (r, m')" "traces_finished m m'"
    using turn_closes [OF assms(1,4,6)] by (simp_all add: synthesizing_returns_def)
  have "open_sessions m' \<subseteq> open_sessions m"
    using sessions.keepsD [OF sessions.keeps_execute [OF assms(5)] assms(6)] .
  moreover have "open_turns m' \<subseteq> open_turns m"
    using turns.keepsD [OF turns.keeps_execute [OF assms(5)] assms(6)] .
  ultimately have o: "open_sessions m' \<subseteq> {pp_session_id p}" "open_turns m' \<subseteq> {pp_turn_id p}"
    using assms(2,3) by blast+
  then show ?thesis
    using c(1) closed_sessions [OF o(1)] closed_turns [OF o(2)] finished_traces [OF c(2)]
    by (cases r) (auto simp: turn_ended_def)
qed

text \<open>
  C29: when the warehouse works, a request, whatever is asked and however it ends, refused, previewed,
  answered or raised, leaves no session, no turn, no tool trace and no model trace open.
\<close>

theorem request_leaves_nothing_open:
  assumes "no_faults (pv_turn env)" and "nothing_open m"
  shows "nothing_open (snd (ask env cb no_execute rq m))"
proof -
  have o: "open_sessions m = {}" "open_turns m = {}" "open_llm m = {}" "open_traces m = {}"
    using assms(2) by (simp_all add: nothing_open_def)
  obtain r m1 where p: "prepare env rq m = (r, m1)" by fastforce
  have tr: "open_traces m1 = {}"
    using open_cong(4) [OF untraced.keepsD [OF untraced.keeps_prepare p]] o(4) by simp
  have llm: "open_llm (snd (ask env cb no_execute rq m)) = {}"
    using llm.keeps_ask [of env cb no_execute rq] assms(1) o(3) by (simp add: llm.keeps_def llm_rel_def)
  have "open_sessions (snd (ask env cb no_execute rq m)) = {} \<and> open_turns (snd (ask env cb no_execute rq m)) = {} \<and>
      open_traces (snd (ask env cb no_execute rq m)) = {}"
    using prepare_opens [OF assms(1) o(1,2) p]
  proof (elim disjE exE conjE)
    fix t assume t: "r = Inr (Prepared t)" "open_sessions m1 \<subseteq> {pp_session_id t}" "open_turns m1 \<subseteq> {pp_turn_id t}"
      "executable_plan (pp_plan t)"
    show ?thesis
    proof (cases "is_approval_required_plan (pp_plan t) \<or> no_execute")
      case True
      obtain m2 where "preview_prepared (pv_turn env) t m1 = (Inr (), m2)" "open_sessions m2 = {}" "open_turns m2 = {}"
          "wh_traces (mc_db m2) = wh_traces (mc_db m1)"
        using preview_closes [OF assms(1) t(2,3)] by blast
      then show ?thesis
        using p t(1) True tr open_cong(4) [of m2 m1]
        by (simp add: ask_def op_bind_def op_seq_def op_simps)
    next
      case False
      obtain r2 m2 where e: "execute_prepared (pv_turn env) cb None t m1 = (r2, m2)" by fastforce
      have "snd (ask env cb no_execute rq m) = m2"
        using p t(1) False e by (cases r2) (simp_all add: ask_def op_bind_def op_simps)
      then show ?thesis
        using execute_closes [OF assms(1) t(2-4) _ e] False tr by simp
    qed
  next
    assume n: "\<forall>t. r \<noteq> Inr (Prepared t)" "open_sessions m1 = {}" "open_turns m1 = {}"
    have "snd (ask env cb no_execute rq m) = m1"
      using n(1) p by (cases r) (auto simp: ask_def op_bind_def op_simps split: preparation.splits)
    then show ?thesis using n(2,3) tr by simp
  qed
  then show ?thesis using llm by (simp add: nothing_open_def)
qed

definition demo_prepare_env :: "nat prepare_env" where
  "demo_prepare_env =
     \<lparr>pv_turn = demo_turn_env (\<lambda>n. No_Fault), pv_classifier = no_json, pv_first = (\<lambda>p. Chat_Failed),
      pv_second = (\<lambda>p. Chat_Failed), pv_planner = \<lparr>pe_ids = (\<lambda>n. ''1''), pe_repr = (\<lambda>v. [])\<rparr>,
      pv_dates = \<lparr>de_resolve = (\<lambda>v. Inr ''2026-01-02''), de_market = (\<lambda>v. Inr ''2026-01-02'')\<rparr>,
      pv_surface = ''cli'', pv_projection = (\<lambda>p. p), pv_memory = (\<lambda>w. None)\<rparr>"

definition demo_request :: "string \<Rightarrow> assistant_request" where
  "demo_request prompt = \<lparr>aq_prompt = prompt, aq_date = None, aq_date_implicit = True\<rparr>"

lemma demo_faults: "no_faults (pv_turn demo_prepare_env)"
  by (simp add: no_faults_def demo_prepare_env_def demo_turn_env_def)

theorem request_leaves_nothing_open_witness:
  "nothing_open (snd (ask demo_prepare_env None False (demo_request ''analyze FPT'') demo_machine))"
proof -
  have "nothing_open demo_machine"
    by (simp add: nothing_open_def demo_machine_def open_sessions_def open_turns_def open_llm_def open_traces_def)
  then show ?thesis
    using request_leaves_nothing_open [OF demo_faults] by blast
qed

subsection \<open>Refused requests\<close>

text \<open>
  C31: a prompt with a phrase the policy forbids is refused with the reason, the category and the
  suggestion of the policy; the session is stored as refused, and neither the model nor a tool is
  called: no model trace, no turn, no tool trace is written and the research data stay.
\<close>

theorem forbidden_prompt_is_refused:
  assumes "no_faults (pv_turn env)" and "check_policy (aq_prompt rq) = Some re"
    and "validate_date_candidate (pv_dates env) (normalize_date_candidate (aq_date rq)) = Inr ()"
    and "xe_uuid (tv_trace (pv_turn env)) (mc_fresh m) \<notin> as_id ` set (wh_sessions (mc_db m))"
  shows "\<exists>m' row. ask env cb no_execute rq m =
       (Inr (Reply_Refused (re_reason re) (PStr (re_category re)) (re_suggestion re)), m') \<and>
     wh_sessions (mc_db m') = wh_sessions (mc_db m) @ [row] \<and> as_status row = ''REFUSED'' \<and> as_finished row \<and>
     wh_llm (mc_db m') = wh_llm (mc_db m) \<and> wh_turns (mc_db m') = wh_turns (mc_db m) \<and>
     wh_traces (mc_db m') = wh_traces (mc_db m) \<and> wh_data (mc_db m') = wh_data (mc_db m)"
proof -
  let ?e = "tv_trace (pv_turn env)"
  let ?sid = "xe_uuid ?e (mc_fresh m)"
  define row where "row = \<lparr>as_id = ?sid, as_status = ''RUNNING'', as_finished = False, as_surface = pv_surface env,
      as_prompt = xe_text ?e (pv_projection env (aq_prompt rq)), as_intent = None, as_plan = None, as_answer = None,
      as_refusal = None, as_error = None\<rparr>"
  define m1 where "m1 = m\<lparr>mc_tx := mc_tx m + 1, mc_fresh := mc_fresh m + 1,
      mc_db := (mc_db m)\<lparr>wh_sessions := wh_sessions (mc_db m) @ [row]\<rparr>\<rparr>"
  have c: "in_tx (pv_turn env) (create_assistant_session ?e (pv_surface env) (pv_projection env (aq_prompt rq))) m =
      (Inr ?sid, m1)"
    using assms(1,4)
    by (simp add: in_tx_apply create_assistant_session_def fresh_id_def op_bind_def op_seq_def op_simps on_db_def
        m1_def row_def)
  have "prepare_session env rq ?sid m1 = (Inl (Stop_Refused (re_reason re) (PStr (re_category re)) (re_suggestion re)), m1)"
    using assms(2,3)
    by (simp add: prepare_session_def prepare_turn_def op_seq_def op_bind_def raising_def policy_stop_def op_simps)
  then have "prepare env rq m = prepare_stopped env ?sid (Stop_Refused (re_reason re) (PStr (re_category re)) (re_suggestion re)) m1"
    using c by (simp add: prepare_def op_bind_def attempt_returns)
  moreover have "update_where (\<lambda>r. as_id r = ?sid) f (wh_sessions (mc_db m)) = wh_sessions (mc_db m)" for f
    using assms(4) by (rule update_where_other)
  ultimately show ?thesis
    using assms(1)
    by (simp add: ask_def prepare_stopped_def op_bind_def op_seq_def quietly_def op_catch_def in_tx_apply
        finish_assistant_session_def op_simps on_db_def m1_def row_def finish_session_row_def)
qed

theorem forbidden_prompt_is_refused_witness:
  "\<exists>m' row reason category suggestion. ask demo_prepare_env None False (demo_request ''place order for FPT'') demo_machine =
       (Inr (Reply_Refused reason category suggestion), m') \<and> wh_sessions (mc_db m') = [row] \<and> as_status row = ''REFUSED''"
proof -
  have "check_policy ''place order for FPT'' \<noteq> None"
    by code_simp
  then obtain re where "check_policy (aq_prompt (demo_request ''place order for FPT'')) = Some re"
    by (auto simp: demo_request_def)
  from forbidden_prompt_is_refused [OF demo_faults this, of demo_machine None False] show ?thesis
    by (auto simp: demo_prepare_env_def demo_request_def validate_date_candidate_def normalize_date_candidate_def
        demo_machine_def)
qed

end
