(* ===== verification/Sandbox_Paths.thy ===== *)
theory Sandbox_Paths
  imports PyDate
begin

section \<open>Paths of sandbox artifacts\<close>

text \<open>
  \<open>sandbox/contracts.py\<close>, and the path checks of \<open>sandbox/_descriptor.py\<close>, \<open>storage.py\<close>,
  \<open>artifact_manifest.py\<close> and \<open>layout.py\<close>.

  What \<open>PurePosixPath\<close> and \<open>PureWindowsPath\<close> make of a text is written out: its root or drive and its
  components, without the empty ones and without \<open>.\<close>.
\<close>

datatype sandbox_error =
    Execution_Error string
  | Job_Not_Found string
  | Job_Transition string string
  | Job_Validation string string
  | Path_Error string
  | Artifact_Not_Found string
  | Artifact_Type string
  | Artifact_Size string int
  | Writer_State
  | Guard_State
  | Guard_Mismatch
  | Code_Digest string string
  | Manifest_Error string
  | Entry_Conflict
  | Docker_Policy string string
  | Model_Invalid string
  | Constraint_Violation string
  | Invalid_Value string
  | Purpose_Unsupported string

subsection \<open>Characters\<close>

definition slash :: char where
  "slash = CHR 0x2F"

definition backslash :: char where
  "backslash = CHR 0x5C"

definition nul_char :: char where
  "nul_char = CHR 0x00"

subsection \<open>POSIX paths\<close>

definition posix_root :: "string \<Rightarrow> string" where
  "posix_root s =
     (if take 2 s = [slash, slash] \<and> take 1 (drop 2 s) \<noteq> [slash] then [slash, slash]
      else if take 1 s = [slash] then [slash] else [])"

definition posix_tail :: "string \<Rightarrow> string list" where
  "posix_tail s = filter (\<lambda>p. p \<noteq> [] \<and> p \<noteq> ''.'') (split_at slash s)"

definition posix_parts :: "string \<Rightarrow> string list" where
  "posix_parts s = (if posix_root s = [] then [] else [posix_root s]) @ posix_tail s"

definition posix_absolute :: "string \<Rightarrow> bool" where
  "posix_absolute s \<longleftrightarrow> posix_root s \<noteq> []"

definition as_posix :: "string \<Rightarrow> string" where
  "as_posix s =
     (if posix_parts s = [] then ''.'' else posix_root s @ join [slash] (posix_tail s))"

subsection \<open>Windows paths\<close>

definition win_text :: "string \<Rightarrow> string" where
  "win_text s = map (\<lambda>c. if c = slash then backslash else c) s"

definition index_from :: "char \<Rightarrow> string \<Rightarrow> nat \<Rightarrow> nat option" where
  "index_from c s i =
     (let n = i + length (takeWhile (\<lambda>x. x \<noteq> c) (drop i s)) in if n < length s then Some n else None)"

text \<open>The text after its first character.\<close>

definition after_first :: "string \<Rightarrow> string" where
  "after_first s = dropWhile is_continuation (tl s)"

text \<open>\<open>ntpath.splitroot\<close>: drive, root and rest of a text with backslashes only.\<close>

definition win_splitroot :: "string \<Rightarrow> string \<times> string \<times> string" where
  "win_splitroot p =
     (if take 1 p = [backslash] then
        (if take 1 (drop 1 p) = [backslash] then
           (let start = (if upper (take 8 p) = [backslash, backslash, CHR ''?'', backslash] @ ''UNC'' @ [backslash]
                         then 8 else 2) in
            case index_from backslash p start of
              None \<Rightarrow> (p, [], [])
            | Some i \<Rightarrow>
                (case index_from backslash p (i + 1) of
                   None \<Rightarrow> (p, [], [])
                 | Some j \<Rightarrow> (take j p, [backslash], drop (j + 1) p)))
         else ([], [backslash], drop 1 p))
      else
        (let rest = after_first p; n = length p - length rest in
         if take 1 rest = '':'' \<and> p \<noteq> [] then
           (if take 1 (drop 1 rest) = [backslash] then (take (n + 1) p, [backslash], drop 2 rest)
            else (take (n + 1) p, [], drop 1 rest))
         else ([], [], p)))"

text \<open>\<open>PureWindowsPath\<close> gives a share its root.\<close>

definition win_parse :: "string \<Rightarrow> string \<times> string \<times> string" where
  "win_parse s =
     (case win_splitroot (win_text s) of (drv, root, rest) \<Rightarrow>
        if root = [] \<and> take 1 drv = [backslash] \<and> last drv \<noteq> backslash then
          (let ps = split_at backslash drv in
           if length ps = 4 \<and> ps ! 2 \<notin> {[], ''?'', ''.'', ''?.''} then (drv, [backslash], rest)
           else if length ps = 6 then (drv, [backslash], rest)
           else (drv, root, rest))
        else (drv, root, rest))"

definition win_absolute :: "string \<Rightarrow> bool" where
  "win_absolute s \<longleftrightarrow> (case win_parse s of (drv, root, rest) \<Rightarrow> drv \<noteq> [] \<and> root \<noteq> [])"

definition win_parts :: "string \<Rightarrow> string list" where
  "win_parts s =
     (case win_parse s of (drv, root, rest) \<Rightarrow>
        (if drv @ root = [] then [] else [drv @ root]) @
        filter (\<lambda>p. p \<noteq> [] \<and> p \<noteq> ''.'') (split_at backslash rest))"

subsection \<open>Approved inputs\<close>

definition max_approved_read_paths :: nat where
  "max_approved_read_paths = 32"

definition max_approved_read_paths_json_length :: int where
  "max_approved_read_paths_json_length = 4096"

definition max_output_artifacts :: nat where
  "max_output_artifacts = 32"

definition max_output_artifact_path_length :: int where
  "max_output_artifact_path_length = 1024"

definition output_directory :: string where
  "output_directory = ''output''"

definition is_output_path :: "string \<Rightarrow> bool" where
  "is_output_path s \<longleftrightarrow> posix_parts s \<noteq> [] \<and> hd (posix_parts s) = output_directory"

definition parse_approved_read_path :: "string \<Rightarrow> sandbox_error + string" where
  "parse_approved_read_path v =
     (if v \<noteq> [] \<and> \<not> posix_absolute v \<and> \<not> win_absolute v \<and> ''..'' \<notin> set (posix_parts v) \<and>
         v \<noteq> ''.'' \<and> backslash \<notin> set v \<and> as_posix v = v \<and> \<not> is_output_path v
      then Inr v
      else Inl (Job_Validation ''approved_read_paths''
             ''must be canonical, relative, traversal-free, and outside output''))"

definition validate_approved_read_paths :: "string list \<Rightarrow> sandbox_error + string list" where
  "validate_approved_read_paths vs =
     res_bind (res_map parse_approved_read_path vs) (\<lambda>parsed.
       if max_approved_read_paths < length parsed
       then Inl (Job_Validation ''approved_read_paths'' ''exceeds maximum count'')
       else if \<not> distinct parsed
       then Inl (Job_Validation ''approved_read_paths'' ''must not contain duplicates'')
       else Inr parsed)"

subsection \<open>Expected outputs\<close>

datatype artifact_kind = Result_Kind | Summary_Kind | Chart_Kind | Table_Kind

fun kind_value :: "artifact_kind \<Rightarrow> string" where
  "kind_value Result_Kind = ''result''"
| "kind_value Summary_Kind = ''summary''"
| "kind_value Chart_Kind = ''chart''"
| "kind_value Table_Kind = ''table''"

record expected_artifact =
  xa_kind :: artifact_kind
  xa_path :: string
  xa_media_type :: string

definition require_artifact_path :: "string \<Rightarrow> string \<Rightarrow> sandbox_error + unit" where
  "require_artifact_path path expected =
     (if path \<noteq> expected then Inl (Job_Validation ''artifact.path'' (''must be '' @ expected)) else Inr ())"

definition require_media_type :: "string \<Rightarrow> string \<Rightarrow> sandbox_error + unit" where
  "require_media_type media expected =
     (if media \<noteq> expected then Inl (Job_Validation ''media_type'' (''must be '' @ expected)) else Inr ())"

definition require_directory :: "string \<Rightarrow> string \<Rightarrow> sandbox_error + unit" where
  "require_directory path dir =
     (if \<not> starts_with path (dir @ ''/'')
      then Inl (Job_Validation ''artifact.path'' (''must be under '' @ dir @ ''/'')) else Inr ())"

definition validate_path_scope :: "expected_artifact \<Rightarrow> sandbox_error + expected_artifact" where
  "validate_path_scope a =
     (let p = xa_path a in
      if \<not> (p \<noteq> [] \<and> \<not> posix_absolute p \<and> \<not> win_absolute p \<and> ''..'' \<notin> set (posix_parts p) \<and> as_posix p = p)
      then Inl (Job_Validation ''artifact.path'' ''must be canonical, relative, and traversal-free'')
      else case xa_kind a of
        Result_Kind \<Rightarrow>
          res_bind (require_artifact_path p ''output/result.json'') (\<lambda>_.
          res_bind (require_media_type (xa_media_type a) ''application/json'') (\<lambda>_. Inr a))
      | Summary_Kind \<Rightarrow>
          res_bind (require_artifact_path p ''output/summary.md'') (\<lambda>_.
          res_bind (require_media_type (xa_media_type a) ''text/markdown'') (\<lambda>_. Inr a))
      | Chart_Kind \<Rightarrow>
          res_bind (require_directory p ''output/charts'') (\<lambda>_.
          res_bind (require_media_type (xa_media_type a) ''image/png'') (\<lambda>_. Inr a))
      | Table_Kind \<Rightarrow>
          res_bind (require_directory p ''output/tables'') (\<lambda>_.
          res_bind (require_media_type (xa_media_type a) ''text/csv'') (\<lambda>_. Inr a)))"

text \<open>The length bounds of the fields, the stripped media type, then the scope of the path.\<close>

definition validate_artifact :: "expected_artifact \<Rightarrow> sandbox_error + expected_artifact" where
  "validate_artifact a =
     (if max_output_artifact_path_length < code_points (xa_path a)
      then Inl (Model_Invalid ''path'')
      else if xa_media_type a = [] then Inl (Model_Invalid ''media_type'')
      else if strip (xa_media_type a) = [] then Inl (Job_Validation ''media_type'' ''must not be blank'')
      else validate_path_scope (a\<lparr>xa_media_type := strip (xa_media_type a)\<rparr>))"

definition result_artifact :: expected_artifact where
  "result_artifact =
     \<lparr>xa_kind = Result_Kind, xa_path = ''output/result.json'', xa_media_type = ''application/json''\<rparr>"

definition summary_artifact :: expected_artifact where
  "summary_artifact =
     \<lparr>xa_kind = Summary_Kind, xa_path = ''output/summary.md'', xa_media_type = ''text/markdown''\<rparr>"

definition required_artifacts :: "expected_artifact list" where
  "required_artifacts = [result_artifact, summary_artifact]"

definition validate_output_schema :: "expected_artifact list \<Rightarrow> sandbox_error + expected_artifact list" where
  "validate_output_schema as =
     res_bind (res_map validate_artifact as) (\<lambda>bs.
       if length bs < length required_artifacts \<or> max_output_artifacts < length bs
       then Inl (Model_Invalid ''artifacts'')
       else if \<not> distinct (map xa_path bs)
       then Inl (Job_Validation ''artifacts'' ''must not contain duplicates'')
       else if \<not> list_all (\<lambda>r. r \<in> set bs) required_artifacts
       then Inl (Job_Validation ''artifacts'' ''must include canonical result and summary artifacts'')
       else Inr bs)"

subsection \<open>Artifact paths\<close>

definition parse_artifact_parts :: "string \<Rightarrow> sandbox_error + string list" where
  "parse_artifact_parts raw =
     (if posix_parts raw \<noteq> [] \<and> \<not> posix_absolute raw \<and> \<not> win_absolute raw \<and>
         ''..'' \<notin> set (posix_parts raw) \<and> ''..'' \<notin> set (win_parts raw) \<and> raw \<noteq> ''.'' \<and>
         backslash \<notin> set raw \<and> as_posix raw = raw
      then Inr (posix_parts raw) else Inl (Path_Error raw))"

definition parse_job_component :: "string \<Rightarrow> sandbox_error + string" where
  "parse_job_component v =
     (if v \<noteq> [] \<and> length (posix_parts v) = 1 \<and> length (win_parts v) = 1 \<and> \<not> posix_absolute v \<and>
         \<not> win_absolute v \<and> v \<noteq> ''.'' \<and> v \<noteq> ''..''
      then Inr v else Inl (Path_Error v))"

definition manifest_path :: string where
  "manifest_path = ''manifest.json''"

definition validate_manifest_path :: "string \<Rightarrow> sandbox_error + unit" where
  "validate_manifest_path v =
     (if posix_parts v \<noteq> [] \<and> \<not> posix_absolute v \<and> \<not> win_absolute v \<and> ''..'' \<notin> set (posix_parts v) \<and>
         ''..'' \<notin> set (win_parts v) \<and> v \<noteq> ''.'' \<and> backslash \<notin> set v \<and> as_posix v = v \<and>
         v \<noteq> manifest_path
      then Inr ()
      else Inl (Manifest_Error ''path must be canonical, job-relative, and must not be manifest.json''))"

text \<open>\<open>SandboxArtifactLayout\<close>.\<close>

definition request_path :: string where "request_path = ''request.json''"
definition generated_code_path :: string where "generated_code_path = ''generated_code.py''"
definition input_references_path :: string where "input_references_path = ''inputs/references.json''"
definition guard_path :: string where "guard_path = ''guard.json''"
definition execution_path :: string where "execution_path = ''execution.json''"
definition validation_path :: string where "validation_path = ''validation.json''"
definition lifecycle_file :: string where "lifecycle_file = ''lifecycle.jsonl''"
definition result_path :: string where "result_path = ''output/result.json''"
definition summary_path :: string where "summary_path = ''output/summary.md''"
definition stdout_path :: string where "stdout_path = ''output/stdout.txt''"
definition stderr_path :: string where "stderr_path = ''output/stderr.txt''"

lemmas layout_defs =
  request_path_def generated_code_path_def input_references_path_def guard_path_def execution_path_def
  validation_path_def lifecycle_file_def result_path_def summary_path_def stdout_path_def stderr_path_def
  manifest_path_def

subsection \<open>What the checks give\<close>

lemma parse_approved_read_path_eq: "parse_approved_read_path v = Inr w \<Longrightarrow> w = v"
  by (simp add: parse_approved_read_path_def split: if_splits)

lemma res_map_same:
  assumes "\<And>v w. f v = Inr w \<Longrightarrow> w = v" and "res_map f vs = Inr ws"
  shows "ws = vs"
  using assms(2) by (induction vs arbitrary: ws) (auto simp: res_bind_Inr_iff dest: assms(1))

lemma validate_approved_read_paths_eq: "validate_approved_read_paths vs = Inr ws \<Longrightarrow> ws = vs"
  by (auto simp: validate_approved_read_paths_def res_bind_Inr_iff split: if_splits
      dest: res_map_same [where f = parse_approved_read_path, rotated] parse_approved_read_path_eq)

text \<open>A path with these parts stays below the directory it is taken from.\<close>

definition contained_parts :: "string list \<Rightarrow> bool" where
  "contained_parts ps \<longleftrightarrow>
     ps \<noteq> [] \<and> (\<forall>p \<in> set ps. p \<noteq> [] \<and> p \<noteq> ''.'' \<and> p \<noteq> ''..'' \<and> slash \<notin> set p)"

lemma split_at_no_sep: "p \<in> set (split_at d s) \<Longrightarrow> d \<notin> set p"
  by (induction s arbitrary: p) (auto split: if_splits list.splits)

lemma parse_artifact_parts_contained:
  assumes "parse_artifact_parts raw = Inr ps"
  shows "contained_parts ps"
  using assms
  by (auto simp: parse_artifact_parts_def contained_parts_def posix_parts_def posix_absolute_def posix_tail_def
      dest: split_at_no_sep split: if_splits)

lemma split_at_nonempty [simp]: "split_at d s \<noteq> []"
  by (cases s) (auto split: list.splits)

lemma join_split_at: "join [d] (split_at d s) = s"
proof (induction s)
  case (Cons c s)
  obtain p ps where ps: "split_at d s = p # ps" by (cases "split_at d s") auto
  with Cons show ?case by (cases ps) auto
qed simp

lemma split_at_append: "d \<notin> set p \<Longrightarrow> split_at d (p @ d # s) = p # split_at d s"
  by (induction p) auto

lemma split_at_single: "d \<notin> set p \<Longrightarrow> split_at d p = [p]"
  by (induction p) auto

lemma split_at_join:
  "ps \<noteq> [] \<Longrightarrow> \<forall>p \<in> set ps. d \<notin> set p \<Longrightarrow> split_at d (join [d] ps) = ps"
  by (induction "[d]" ps rule: join.induct) (simp_all add: split_at_append split_at_single)

text \<open>Two paths with the same canonical text are the same path.\<close>

lemma join_slash_inj:
  "contained_parts ps \<Longrightarrow> contained_parts qs \<Longrightarrow> join [slash] ps = join [slash] qs \<Longrightarrow> ps = qs"
  by (metis contained_parts_def split_at_join)

end
