(* ===== verification/Sandbox_State.thy ===== *)
theory Sandbox_State
  imports Sandbox_Paths Sandbox_Guard Managed_Turn
begin

section \<open>Sandbox jobs: values and state\<close>

text \<open>
  The values of \<open>sandbox/models.py\<close>, \<open>approval.py\<close>, \<open>repository.py\<close>, \<open>docker_policy.py\<close> and
  \<open>docker_runtime.py\<close>, and the state the sandbox works on: two tables of the warehouse, the files below
  the run directories, the writer of the current call and the calls made to the Docker command.

  \<open>sandbox_env\<close> collects what the code takes from outside: SHA-256, the Python parser, pydantic's and
  \<open>json\<close>'s reading of a text into typed fields, the clock and \<open>uuid4\<close>, the run contexts of
  \<open>observability/context.py\<close>, the generator of programs, the host and the Docker command.  Time, fresh
  identifiers and failures of the disk are read at the tick of the state, which every such event advances.
\<close>

subsection \<open>JSON texts\<close>

text \<open>\<open>json.dumps(..., ensure_ascii=False)\<close> with \<open>sort_keys\<close>, compact and with \<open>indent=2\<close>.\<close>

definition hex_digit_of :: "nat \<Rightarrow> char" where
  "hex_digit_of n = ''0123456789abcdef'' ! n"

definition json_escape :: "char \<Rightarrow> string" where
  "json_escape c =
     (if char_code c < 32 \<and> escape_char c = [c]
      then [backslash] @ ''u00'' @ [hex_digit_of (char_code c div 16), hex_digit_of (char_code c mod 16)]
      else escape_char c)"

definition json_text :: "string \<Rightarrow> string" where
  "json_text s = [CHR 34] @ concat (map json_escape s) @ [CHR 34]"

fun sorted_keys :: "json \<Rightarrow> json" where
  "sorted_keys (JArr js) = JArr (map sorted_keys js)"
| "sorted_keys (JObj kvs) = JObj (sort_key fst (map (\<lambda>(k, v). (k, sorted_keys v)) kvs))"
| "sorted_keys j = j"

fun json_compact :: "json \<Rightarrow> string" where
  "json_compact JNull = ''null''"
| "json_compact (JBool b) = (if b then ''true'' else ''false'')"
| "json_compact (JInt i) = render_int i"
| "json_compact (JFloat s) = s"
| "json_compact (JStr s) = json_text s"
| "json_compact (JArr js) = ''['' @ join '','' (map json_compact js) @ '']''"
| "json_compact (JObj kvs) =
     ''{'' @ join '','' (map (\<lambda>(k, v). json_text k @ '':'' @ json_compact v) kvs) @ ''}''"

definition new_line :: "nat \<Rightarrow> string" where
  "new_line n = CHR 10 # replicate (2 * n) (CHR '' '')"

fun json_pretty :: "nat \<Rightarrow> json \<Rightarrow> string" where
  "json_pretty n (JArr js) =
     (if js = [] then ''[]''
      else ''['' @ new_line (n + 1) @ join ('','' @ new_line (n + 1)) (map (json_pretty (n + 1)) js) @
        new_line n @ '']'')"
| "json_pretty n (JObj kvs) =
     (if kvs = [] then ''{}''
      else ''{'' @ new_line (n + 1) @
        join ('','' @ new_line (n + 1))
          (map (\<lambda>(k, v). json_text k @ '': '' @ json_pretty (n + 1) v) kvs) @
        new_line n @ ''}'')"
| "json_pretty n j = json_compact j"

definition json_document :: "json \<Rightarrow> string" where
  "json_document j = json_pretty 0 (sorted_keys j) @ [CHR 10]"

definition json_line :: "json \<Rightarrow> string" where
  "json_line j = json_compact (sorted_keys j) @ [CHR 10]"

text \<open>\<open>ensure_ascii=True\<close>: characters beyond ASCII by their code units.\<close>

fun utf8_code :: "string \<Rightarrow> nat list" where
  "utf8_code [] = []"
| "utf8_code (c # s) =
     (let n = char_code c; k = (\<lambda>i. char_code (s ! i) - 128) in
      if 240 \<le> n \<and> 3 \<le> length s then
        ((n - 240) * 262144 + k 0 * 4096 + k 1 * 64 + k 2) # utf8_code (drop 3 s)
      else if 224 \<le> n \<and> 2 \<le> length s then ((n - 224) * 4096 + k 0 * 64 + k 1) # utf8_code (drop 2 s)
      else if 192 \<le> n \<and> 1 \<le> length s then ((n - 192) * 64 + k 0) # utf8_code (drop 1 s)
      else n # utf8_code s)"

definition unit_escape :: "nat \<Rightarrow> string" where
  "unit_escape n =
     [backslash, CHR ''u'', hex_digit_of (n div 4096 mod 16), hex_digit_of (n div 256 mod 16),
      hex_digit_of (n div 16 mod 16), hex_digit_of (n mod 16)]"

definition ascii_escape :: "nat \<Rightarrow> string" where
  "ascii_escape n =
     (if n < 128 then json_escape (char_of n)
      else if n < 65536 then unit_escape n
      else unit_escape (55296 + (n - 65536) div 1024) @ unit_escape (56320 + (n - 65536) mod 1024))"

definition references_json :: "string list \<Rightarrow> string" where
  "references_json rs =
     ''['' @ join '','' (map (\<lambda>s. [CHR 34] @ concat (map ascii_escape (utf8_code s)) @ [CHR 34]) rs) @ '']''"

subsection \<open>Jobs\<close>

datatype sandbox_status = Queued | Validating | Running | Succeeded | Failed | Rejected | Cancelled

fun sandbox_status_value :: "sandbox_status \<Rightarrow> string" where
  "sandbox_status_value Queued = ''queued''"
| "sandbox_status_value Validating = ''validating''"
| "sandbox_status_value Running = ''running''"
| "sandbox_status_value Succeeded = ''succeeded''"
| "sandbox_status_value Failed = ''failed''"
| "sandbox_status_value Rejected = ''rejected''"
| "sandbox_status_value Cancelled = ''cancelled''"

definition is_terminal :: "sandbox_status \<Rightarrow> bool" where
  "is_terminal st \<longleftrightarrow> st \<notin> {Queued, Validating, Running}"

record resource_limits =
  rl_cpu_millis :: int
  rl_memory_mb :: int
  rl_timeout_seconds :: int

record sandbox_job =
  sj_job_id :: string
  sj_run_id :: string
  sj_purpose :: string
  sj_code :: string
  sj_correlation_id :: string
  sj_limits :: resource_limits
  sj_network_enabled :: bool
  sj_read_paths :: "string list"
  sj_outputs :: "expected_artifact list"
  sj_status :: sandbox_status

record job_request =
  jq_purpose :: string
  jq_code :: string
  jq_correlation_id :: string
  jq_limits :: resource_limits
  jq_input_paths :: "string list"

record sandbox_row =
  sr_job_id :: string
  sr_run_id :: string
  sr_correlation_id :: string
  sr_purpose :: string
  sr_code_digest :: string
  sr_status :: sandbox_status
  sr_limits :: resource_limits
  sr_network_enabled :: bool
  sr_read_paths :: "string list"
  sr_outputs :: "expected_artifact list"
  sr_result_summary :: "string option"
  sr_rejection_reason :: "string option"
  sr_failure_reason :: "string option"
  sr_created_at :: int

record approval =
  av_approval_id :: string
  av_job_id :: string
  av_plan_digest :: string
  av_code_digest :: string
  av_input_references :: "string list"
  av_references_digest :: string
  av_correlation_id :: string
  av_approver :: string
  av_approved_at :: int

record generated_program =
  gp_code :: string
  gp_summary :: string
  gp_references :: "string list"

record retained_arguments =
  ra_purpose :: string
  ra_job_id :: string
  ra_run_id :: string
  ra_correlation_id :: string
  ra_code_digest :: string
  ra_input_references :: "string list"
  ra_limits :: resource_limits
  ra_image :: string

record retained_request =
  rq_purpose :: string
  rq_correlation_id :: string
  rq_limits :: resource_limits
  rq_network_enabled :: bool

subsection \<open>Docker results\<close>

datatype docker_failure =
    HOST_NOT_LINUX
  | DOCKER_LAUNCH_FAILED
  | DOCKER_NOT_FOUND
  | DAEMON_UNAVAILABLE
  | DAEMON_TIMEOUT
  | SERVER_NOT_LINUX
  | IMAGE_NOT_AVAILABLE
  | IMAGE_PROBE_TIMEOUT
  | RUNTIME_TIMEOUT
  | RUNTIME_FAILED

fun docker_failure_value :: "docker_failure \<Rightarrow> string" where
  "docker_failure_value HOST_NOT_LINUX = ''host_not_linux''"
| "docker_failure_value DOCKER_LAUNCH_FAILED = ''docker_launch_failed''"
| "docker_failure_value DOCKER_NOT_FOUND = ''docker_not_found''"
| "docker_failure_value DAEMON_UNAVAILABLE = ''daemon_unavailable''"
| "docker_failure_value DAEMON_TIMEOUT = ''daemon_timeout''"
| "docker_failure_value SERVER_NOT_LINUX = ''server_not_linux''"
| "docker_failure_value IMAGE_NOT_AVAILABLE = ''image_not_available''"
| "docker_failure_value IMAGE_PROBE_TIMEOUT = ''image_probe_timeout''"
| "docker_failure_value RUNTIME_TIMEOUT = ''runtime_timeout''"
| "docker_failure_value RUNTIME_FAILED = ''runtime_failed''"

record preflight_result =
  pf_docker_available :: bool
  pf_linux_supported :: bool
  pf_detail :: string
  pf_failure_code :: "docker_failure option"
  pf_server_os :: "string option"

record docker_result =
  dk_return_code :: int
  dk_stdout :: string
  dk_stderr :: string
  dk_failure_code :: "docker_failure option"
  dk_detail :: string
  dk_stdout_truncated :: bool
  dk_stderr_truncated :: bool
  dk_cleanup :: "bool option"
  dk_preflight :: "preflight_result option"

text \<open>What \<open>DockerCommand.invoke\<close> raises: the command is not found, another error of the system, the
  time limit.\<close>

datatype command_error = Command_Not_Found | Launch_Error | Timeout_Expired

subsection \<open>Files\<close>

text \<open>
  What is at a path of the host.  A link says whether what it leads to lies outside the job directory
  below which it is met; \<open>Special\<close> is a pipe, a socket or a device.
\<close>

datatype file_node = Regular string | Directory | Link bool | Special

type_synonym files = "(path \<times> file_node) list"

text \<open>An error of the system while a file is replaced: before it took effect, or after.\<close>

datatype io_fault = No_Io_Fault | Fails_Before | Fails_After

record manifest_entry =
  me_path :: string
  me_sha256 :: string
  me_byte_length :: nat
  me_media_type :: string

record artifact_writer =
  aw_host_entries :: "manifest_entry list option"
  aw_request_digest :: "string option"
  aw_guard :: "guard_result option"

text \<open>A call of the command: its arguments, its time limit and the files it found.\<close>

record docker_call =
  dc_argv :: "string list"
  dc_timeout :: int
  dc_files :: files

record audit_event =
  ae_event_type :: string
  ae_status :: string
  ae_job_id :: string
  ae_correlation_id :: string
  ae_metadata :: "(string \<times> json) list"

record failure_record =
  fr_error_type :: string
  fr_error_message :: string
  fr_job_id :: string
  fr_status :: string
  fr_failure_code :: string

record sandbox_state =
  sb_jobs :: "sandbox_row list"
  sb_approvals :: "approval list"
  sb_files :: files
  sb_writer :: artifact_writer
  sb_calls :: "docker_call list"
  sb_audit :: "audit_event list"
  sb_failures :: "failure_record list"
  sb_tick :: nat

type_synonym 'a sandbox_op = "(sandbox_state, sandbox_error, 'a) op"

datatype loads_outcome = Loaded json | Decode_Error | Load_Raises string

record result_reference =
  rr_kind :: artifact_kind
  rr_path :: string

record result_envelope =
  en_schema_version :: int
  en_summary :: string
  en_artifacts :: "result_reference list"

record sandbox_env =
  se_sha256 :: "string \<Rightarrow> string"
  se_parse :: "string \<Rightarrow> pynode option"
  se_uuid :: "nat \<Rightarrow> string"
  se_now :: "nat \<Rightarrow> string"
  se_clock :: "nat \<Rightarrow> int"
  se_fault :: "nat \<Rightarrow> io_fault"
  se_run_dir :: "string \<Rightarrow> path"
  se_new_run :: "string \<Rightarrow> files \<Rightarrow> files"
  se_absolute :: bool
  se_linked :: bool
  se_run_id :: string
  se_correlation_id :: string
  se_image :: string
  se_platform :: string
  se_invoke :: "string list \<Rightarrow> int \<Rightarrow> nat \<Rightarrow> files \<Rightarrow> (command_error + docker_result) \<times> files"
  se_generate :: "string \<Rightarrow> sandbox_error + generated_program"
  se_arguments :: "pdict \<Rightarrow> retained_arguments option"
  se_retained_request :: "string \<Rightarrow> retained_request option"
  se_references :: "string \<Rightarrow> string list option"
  se_utf8 :: "string \<Rightarrow> bool"
  se_loads :: "string \<Rightarrow> loads_outcome"
  se_envelope :: "string \<Rightarrow> result_envelope option"
  se_repr :: "pval \<Rightarrow> string"

definition new_writer :: artifact_writer where
  "new_writer = \<lparr>aw_host_entries = None, aw_request_digest = None, aw_guard = None\<rparr>"

definition on_writer :: "(artifact_writer \<Rightarrow> artifact_writer) \<Rightarrow> sandbox_state \<Rightarrow> sandbox_state" where
  "on_writer f s = s\<lparr>sb_writer := f (sb_writer s)\<rparr>"

definition on_files :: "(files \<Rightarrow> files) \<Rightarrow> sandbox_state \<Rightarrow> sandbox_state" where
  "on_files f s = s\<lparr>sb_files := f (sb_files s)\<rparr>"

text \<open>The tick an event happens at.\<close>

definition next_tick :: "nat sandbox_op" where
  "next_tick = (\<lambda>s. (Inr (sb_tick s), s\<lparr>sb_tick := sb_tick s + 1\<rparr>))"

end
