(* ===== verification/Sandbox_Store.thy ===== *)
theory Sandbox_Store
  imports Sandbox_State
begin

section \<open>Sandbox jobs and approvals in the warehouse\<close>

text \<open>
  \<open>sandbox/models.py\<close>, \<open>repository.py\<close>, \<open>approval.py\<close> and \<open>execution_approval.py\<close> with the constraints
  of \<open>warehouse/sandbox_schema.py\<close>.

  A value pydantic refuses is \<open>Model_Invalid\<close>, whatever a validator raised inside: its errors are
  \<open>ValueError\<close>s, which pydantic collects.  A row keeps the filesystem policy and the outputs as values;
  their JSON text counts for the length bound and the constraint on it.
\<close>

subsection \<open>Requests and jobs\<close>

definition max_sandbox_job_detail_length :: int where
  "max_sandbox_job_detail_length = 1000"

definition max_sandbox_purpose_length :: int where
  "max_sandbox_purpose_length = 200"

definition max_sandbox_correlation_id_length :: int where
  "max_sandbox_correlation_id_length = 128"

definition max_code_length :: int where
  "max_code_length = 50000"

definition valid_limits :: "resource_limits \<Rightarrow> bool" where
  "valid_limits l \<longleftrightarrow>
     1 \<le> rl_cpu_millis l \<and> rl_cpu_millis l \<le> 4000 \<and> 16 \<le> rl_memory_mb l \<and> rl_memory_mb l \<le> 4096 \<and>
     1 \<le> rl_timeout_seconds l \<and> rl_timeout_seconds l \<le> 300"

definition parse_sandbox_metadata :: "string \<Rightarrow> sandbox_error + string" where
  "parse_sandbox_metadata v =
     (let n = strip v in
      if n = [] \<or> CHR 13 \<in> set n \<or> CHR 10 \<in> set n \<or> nul_char \<in> set n
      then Inl (Job_Validation ''metadata'' ''must be a single non-empty line'')
      else Inr n)"

definition pydantic :: "string \<Rightarrow> sandbox_error + 'a \<Rightarrow> sandbox_error + 'a" where
  "pydantic field r = (case r of Inl e \<Rightarrow> Inl (Model_Invalid field) | Inr x \<Rightarrow> Inr x)"

definition bounded_text :: "string \<Rightarrow> int \<Rightarrow> string \<Rightarrow> sandbox_error + unit" where
  "bounded_text field n s =
     (if s = [] \<or> n < code_points s then Inl (Model_Invalid field) else Inr ())"

definition validate_job_request :: "job_request \<Rightarrow> sandbox_error + job_request" where
  "validate_job_request q =
     res_bind (bounded_text ''purpose'' max_sandbox_purpose_length (jq_purpose q)) (\<lambda>_.
     res_bind (pydantic ''purpose'' (parse_sandbox_metadata (jq_purpose q))) (\<lambda>purpose.
     res_bind (bounded_text ''code'' max_code_length (jq_code q)) (\<lambda>_.
     if nul_char \<in> set (jq_code q) then Inl (Model_Invalid ''code'') else
     res_bind (bounded_text ''correlation_id'' max_sandbox_correlation_id_length (jq_correlation_id q)) (\<lambda>_.
     res_bind (pydantic ''correlation_id'' (parse_sandbox_metadata (jq_correlation_id q))) (\<lambda>corr.
     if \<not> valid_limits (jq_limits q) then Inl (Model_Invalid ''resource_limits'') else
     res_bind (pydantic ''approved_input_paths'' (res_map parse_approved_read_path (jq_input_paths q)))
       (\<lambda>paths. Inr (q\<lparr>jq_purpose := purpose, jq_correlation_id := corr, jq_input_paths := paths\<rparr>)))))))"

text \<open>\<open>SandboxFilesystemPolicy\<close>.\<close>

definition filesystem_policy :: "string list \<Rightarrow> sandbox_error + string list" where
  "filesystem_policy paths =
     (if max_approved_read_paths < length paths then Inl (Model_Invalid ''approved_read_paths'')
      else pydantic ''approved_read_paths'' (validate_approved_read_paths paths))"

definition into_job :: "job_request \<Rightarrow> string \<Rightarrow> string \<Rightarrow> sandbox_error + sandbox_job" where
  "into_job q job_id run_id =
     res_bind (filesystem_policy (jq_input_paths q)) (\<lambda>paths.
       Inr \<lparr>sj_job_id = job_id, sj_run_id = run_id, sj_purpose = jq_purpose q, sj_code = jq_code q,
            sj_correlation_id = jq_correlation_id q, sj_limits = jq_limits q, sj_network_enabled = False,
            sj_read_paths = paths, sj_outputs = required_artifacts, sj_status = Queued\<rparr>)"

definition code_digest :: "sandbox_env \<Rightarrow> sandbox_job \<Rightarrow> string" where
  "code_digest env j = se_sha256 env (sj_code j)"

definition parse_sandbox_job_detail :: "string \<Rightarrow> sandbox_error + string" where
  "parse_sandbox_job_detail v =
     (if strip v = [] \<or> max_sandbox_job_detail_length < code_points v
      then Inl (Job_Validation ''terminal_detail'' ''must contain 1 to 1000 non-blank characters'')
      else Inr v)"

definition validate_sandbox_job :: "sandbox_job \<Rightarrow> sandbox_error + unit" where
  "validate_sandbox_job j =
     (if sj_status j \<noteq> Queued then Inl (Job_Validation ''status'' ''must be queued on creation'')
      else if max_sandbox_purpose_length < code_points (sj_purpose j)
      then Inl (Job_Validation ''purpose'' ''must be a bounded non-empty line'')
      else res_bind (parse_sandbox_metadata (sj_purpose j)) (\<lambda>p.
      if p \<noteq> sj_purpose j then Inl (Job_Validation ''purpose'' ''must be canonical'')
      else if max_sandbox_correlation_id_length < code_points (sj_correlation_id j)
      then Inl (Job_Validation ''correlation_id'' ''must be a bounded non-empty line'')
      else res_bind (parse_sandbox_metadata (sj_correlation_id j)) (\<lambda>c.
      if c \<noteq> sj_correlation_id j then Inl (Job_Validation ''correlation_id'' ''must be canonical'')
      else res_bind (validate_approved_read_paths (sj_read_paths j)) (\<lambda>_.
      res_bind (filesystem_policy (sj_read_paths j)) (\<lambda>_.
      res_bind (pydantic ''artifacts'' (validate_output_schema (sj_outputs j))) (\<lambda>_. Inr ()))))))"

subsection \<open>The table of jobs\<close>

definition policy_json :: "string list \<Rightarrow> string" where
  "policy_json paths =
     json_compact (JObj [(''approved_read_paths'', JArr (map JStr paths)),
       (''writable_output_directory'', JStr output_directory)])"

fun has_double_dot :: "string \<Rightarrow> bool" where
  "has_double_dot (a # b # s) = (a = CHR ''.'' \<and> b = CHR ''.'' \<or> has_double_dot (b # s))"
| "has_double_dot s = False"

text \<open>\<open>sandbox_artifact_is_valid\<close>.\<close>

definition artifact_is_valid :: "expected_artifact \<Rightarrow> bool" where
  "artifact_is_valid a \<longleftrightarrow>
     (let p = xa_path a; ps = split_at slash p in
      p \<noteq> [] \<and> code_points p \<le> max_output_artifact_path_length \<and> \<not> starts_with p ''/'' \<and>
      backslash \<notin> set p \<and> [] \<notin> set ps \<and> ''.'' \<notin> set ps \<and> ''..'' \<notin> set ps \<and>
      (case xa_kind a of
         Result_Kind \<Rightarrow> p = ''output/result.json'' \<and> xa_media_type a = ''application/json''
       | Summary_Kind \<Rightarrow> p = ''output/summary.md'' \<and> xa_media_type a = ''text/markdown''
       | Chart_Kind \<Rightarrow> starts_with p ''output/charts/'' \<and> 14 < code_points p \<and> xa_media_type a = ''image/png''
       | Table_Kind \<Rightarrow> starts_with p ''output/tables/'' \<and> 14 < code_points p \<and> xa_media_type a = ''text/csv''))"

text \<open>\<open>trim\<close> of the warehouse takes spaces only.\<close>

definition trim :: "string \<Rightarrow> string" where
  "trim s = rev (dropWhile (\<lambda>c. c = CHR '' '') (rev (dropWhile (\<lambda>c. c = CHR '' '') s)))"

definition detail_fits :: "string option \<Rightarrow> bool" where
  "detail_fits d \<longleftrightarrow>
     (case d of None \<Rightarrow> True
      | Some t \<Rightarrow> trim t \<noteq> [] \<and> code_points (trim t) \<le> max_sandbox_job_detail_length)"

definition row_constraints :: "sandbox_row \<Rightarrow> bool" where
  "row_constraints r \<longleftrightarrow>
     sr_correlation_id r \<noteq> [] \<and> code_points (sr_correlation_id r) \<le> max_sandbox_correlation_id_length \<and>
     sr_purpose r \<noteq> [] \<and> code_points (sr_purpose r) \<le> max_sandbox_purpose_length \<and>
     0 < rl_cpu_millis (sr_limits r) \<and> 0 < rl_memory_mb (sr_limits r) \<and> 0 < rl_timeout_seconds (sr_limits r) \<and>
     \<not> sr_network_enabled r \<and>
     code_points (policy_json (sr_read_paths r)) \<le> max_approved_read_paths_json_length \<and>
     length (sr_read_paths r) \<le> max_approved_read_paths \<and>
     \<not> has_double_dot (policy_json (sr_read_paths r)) \<and>
     2 \<le> length (sr_outputs r) \<and> length (sr_outputs r) \<le> max_output_artifacts \<and>
     list_all artifact_is_valid (sr_outputs r) \<and> distinct (sr_outputs r) \<and>
     result_artifact \<in> set (sr_outputs r) \<and> summary_artifact \<in> set (sr_outputs r) \<and>
     detail_fits (sr_result_summary r) \<and> detail_fits (sr_rejection_reason r) \<and>
     detail_fits (sr_failure_reason r)"

definition row_of_job :: "sandbox_env \<Rightarrow> int \<Rightarrow> sandbox_job \<Rightarrow> sandbox_row" where
  "row_of_job env tm j =
     \<lparr>sr_job_id = sj_job_id j, sr_run_id = sj_run_id j, sr_correlation_id = sj_correlation_id j,
      sr_purpose = sj_purpose j, sr_code_digest = code_digest env j, sr_status = sj_status j,
      sr_limits = sj_limits j, sr_network_enabled = sj_network_enabled j, sr_read_paths = sj_read_paths j,
      sr_outputs = sj_outputs j, sr_result_summary = None, sr_rejection_reason = None,
      sr_failure_reason = None, sr_created_at = tm\<rparr>"

definition on_jobs :: "(sandbox_row list \<Rightarrow> sandbox_row list) \<Rightarrow> sandbox_state \<Rightarrow> sandbox_state" where
  "on_jobs f s = s\<lparr>sb_jobs := f (sb_jobs s)\<rparr>"

definition insert_job :: "sandbox_row \<Rightarrow> unit sandbox_op" where
  "insert_job r =
     op_bind (op_read (\<lambda>s. sr_job_id r \<in> sr_job_id ` set (sb_jobs s) \<or> \<not> row_constraints r)) (\<lambda>refused.
     op_seq (op_guard refused (Constraint_Violation ''sandbox_job''))
       (op_write (on_jobs (\<lambda>js. js @ [r]))))"

definition create_job :: "sandbox_env \<Rightarrow> sandbox_job \<Rightarrow> unit sandbox_op" where
  "create_job env j =
     op_bind (op_lift (validate_sandbox_job j)) (\<lambda>_.
     op_seq (op_guard (max_approved_read_paths_json_length < code_points (policy_json (sj_read_paths j)))
         (Job_Validation ''filesystem_policy'' ''serialized value too large''))
     (op_bind next_tick (\<lambda>n. insert_job (row_of_job env (se_clock env n) j))))"

definition find_job :: "string \<Rightarrow> sandbox_state \<Rightarrow> sandbox_row option" where
  "find_job i s = find (\<lambda>r. sr_job_id r = i) (sb_jobs s)"

definition get_sandbox_job :: "string \<Rightarrow> sandbox_row option sandbox_op" where
  "get_sandbox_job i = op_read (find_job i)"

definition list_sandbox_jobs :: "sandbox_state \<Rightarrow> sandbox_row list" where
  "list_sandbox_jobs s = sort_key (\<lambda>r. (sr_created_at r, sr_job_id r)) (sb_jobs s)"

definition list_by_correlation :: "string \<Rightarrow> sandbox_state \<Rightarrow> sandbox_row list" where
  "list_by_correlation c s = filter (\<lambda>r. sr_correlation_id r = c) (list_sandbox_jobs s)"

text \<open>An \<open>UPDATE ... RETURNING\<close> of one row: whether there was a row to update.\<close>

definition update_job :: "string \<Rightarrow> sandbox_status set \<Rightarrow> (sandbox_row \<Rightarrow> sandbox_row) \<Rightarrow> bool sandbox_op" where
  "update_job i sources f =
     op_bind (op_read (\<lambda>s. \<exists>r \<in> set (sb_jobs s). sr_job_id r = i \<and> sr_status r \<in> sources)) (\<lambda>hit.
     op_bind (op_read (\<lambda>s. \<forall>r \<in> set (sb_jobs s). sr_job_id r = i \<and> sr_status r \<in> sources \<longrightarrow> row_constraints (f r)))
       (\<lambda>fits.
     op_seq (op_guard (\<not> fits) (Constraint_Violation ''sandbox_job''))
     (op_seq (op_write (on_jobs (update_where (\<lambda>r. sr_job_id r = i \<and> sr_status r \<in> sources) f)))
       (op_return hit))))"

definition transition_error :: "string \<Rightarrow> unit sandbox_op" where
  "transition_error i =
     op_bind (get_sandbox_job i) (\<lambda>current.
       case current of
         None \<Rightarrow> op_raise (Job_Not_Found i)
       | Some r \<Rightarrow> op_raise (Job_Transition i (sandbox_status_value (sr_status r))))"

definition active_sources :: "sandbox_status set" where
  "active_sources = {Queued, Validating, Running}"

definition claim_for_validation :: "string \<Rightarrow> unit sandbox_op" where
  "claim_for_validation i =
     op_bind (update_job i {Queued} (\<lambda>r. r\<lparr>sr_status := Validating\<rparr>)) (\<lambda>hit.
       if hit then op_return () else transition_error i)"

definition end_sandbox_job :: "string \<Rightarrow> (sandbox_row \<Rightarrow> sandbox_row) \<Rightarrow> unit sandbox_op" where
  "end_sandbox_job i f =
     op_bind (update_job i active_sources f) (\<lambda>hit. if hit then op_return () else transition_error i)"

definition mark_succeeded :: "string \<Rightarrow> string \<Rightarrow> unit sandbox_op" where
  "mark_succeeded i summary =
     op_bind (op_lift (parse_sandbox_job_detail summary)) (\<lambda>d.
       end_sandbox_job i (\<lambda>r. r\<lparr>sr_status := Succeeded, sr_result_summary := Some d\<rparr>))"

definition mark_rejected :: "string \<Rightarrow> string \<Rightarrow> unit sandbox_op" where
  "mark_rejected i reason =
     op_bind (op_lift (parse_sandbox_job_detail reason)) (\<lambda>d.
       end_sandbox_job i (\<lambda>r. r\<lparr>sr_status := Rejected, sr_rejection_reason := Some d\<rparr>))"

definition mark_failed :: "string \<Rightarrow> string \<Rightarrow> unit sandbox_op" where
  "mark_failed i reason =
     op_bind (op_lift (parse_sandbox_job_detail reason)) (\<lambda>d.
       end_sandbox_job i (\<lambda>r. r\<lparr>sr_status := Failed, sr_failure_reason := Some d\<rparr>))"

subsection \<open>Approvals\<close>

definition is_sha256_hex :: "string \<Rightarrow> bool" where
  "is_sha256_hex d \<longleftrightarrow> length d = 64 \<and> set d \<subseteq> set ''0123456789abcdef''"

definition validate_digest :: "string \<Rightarrow> string \<Rightarrow> sandbox_error + unit" where
  "validate_digest name d =
     (if is_sha256_hex d then Inr ()
      else Inl (Invalid_Value (''sandbox approval '' @ name @ '' must be a SHA-256 hex digest'')))"

text \<open>A moment of approval: whether it names its time zone, and when it is.\<close>

type_synonym moment = "bool \<times> int"

definition new_approval ::
  "sandbox_env \<Rightarrow> string \<Rightarrow> string \<Rightarrow> string \<Rightarrow> string list \<Rightarrow> string \<Rightarrow> string \<Rightarrow> moment \<Rightarrow>
   approval sandbox_op" where
  "new_approval env job_id plan_digest digest references corr approver tm =
     op_bind (op_lift (validate_digest ''plan_digest'' plan_digest)) (\<lambda>_.
     op_bind (op_lift (validate_digest ''code_digest'' digest)) (\<lambda>_.
     op_seq (op_guard (job_id = [] \<or> corr = [] \<or> strip approver = [] \<or> \<not> fst tm)
        (Invalid_Value ''sandbox approval requires job, correlation, approver, and timestamp''))
     (op_seq (op_guard (list_ex (\<lambda>v. v = [] \<or> nul_char \<in> set v) references)
        (Invalid_Value ''sandbox approval input references must be non-empty strings''))
     (op_bind next_tick (\<lambda>n. op_return
        \<lparr>av_approval_id = se_uuid env n, av_job_id = job_id, av_plan_digest = plan_digest,
         av_code_digest = digest, av_input_references = references,
         av_references_digest = se_sha256 env (references_json references), av_correlation_id = corr,
         av_approver = strip approver, av_approved_at = snd tm\<rparr>)))))"

definition approval_constraints :: "approval \<Rightarrow> bool" where
  "approval_constraints a \<longleftrightarrow>
     code_points (av_plan_digest a) = 64 \<and> code_points (av_code_digest a) = 64 \<and>
     code_points (av_references_digest a) = 64 \<and> trim (av_approver a) \<noteq> []"

definition create_approval :: "approval \<Rightarrow> unit sandbox_op" where
  "create_approval a =
     op_bind (op_read (\<lambda>s. av_approval_id a \<in> av_approval_id ` set (sb_approvals s) \<or> \<not> approval_constraints a))
       (\<lambda>refused.
     op_seq (op_guard refused (Invalid_Value ''sandbox approval already exists''))
       (op_write (\<lambda>s. s\<lparr>sb_approvals := sb_approvals s @ [a]\<rparr>)))"

definition get_approval :: "string \<Rightarrow> sandbox_state \<Rightarrow> approval option" where
  "get_approval i s = find (\<lambda>a. av_approval_id a = i) (sb_approvals s)"

definition list_for_job :: "string \<Rightarrow> sandbox_state \<Rightarrow> approval list" where
  "list_for_job i s =
     rev (sort_key (\<lambda>a. (av_approved_at a, av_approval_id a))
       (filter (\<lambda>a. av_job_id a = i) (sb_approvals s)))"

definition create_bound_approval ::
  "sandbox_env \<Rightarrow> string \<Rightarrow> sandbox_job \<Rightarrow> string \<Rightarrow> moment option \<Rightarrow> approval sandbox_op" where
  "create_bound_approval env plan_hash j approver tm =
     op_bind next_tick (\<lambda>n.
     op_bind (new_approval env (sj_job_id j) plan_hash (code_digest env j) (sj_read_paths j)
        (sj_correlation_id j) approver (case tm of None \<Rightarrow> (True, se_clock env n) | Some t \<Rightarrow> t)) (\<lambda>a.
     op_seq (create_approval a) (op_return a)))"

definition is_bound :: "sandbox_env \<Rightarrow> string \<Rightarrow> sandbox_job \<Rightarrow> approval \<Rightarrow> bool" where
  "is_bound env plan_hash j a \<longleftrightarrow>
     av_plan_digest a = plan_hash \<and> av_code_digest a = code_digest env j \<and>
     av_correlation_id a = sj_correlation_id j \<and> av_input_references a = sj_read_paths j"

definition require_bound_approval :: "sandbox_env \<Rightarrow> string \<Rightarrow> sandbox_job \<Rightarrow> approval sandbox_op" where
  "require_bound_approval env plan_hash j =
     op_try (\<lambda>s. case find (is_bound env plan_hash j) (list_for_job (sj_job_id j) s) of
        None \<Rightarrow> Inl (Execution_Error ''sandbox execution requires explicit approval before running'')
      | Some a \<Rightarrow> Inr a)"

end
