(* ===== verification/Sandbox_Files.thy ===== *)
theory Sandbox_Files
  imports Sandbox_Store
begin

section \<open>The files of a sandbox job\<close>

text \<open>
  \<open>sandbox/storage.py\<close>, \<open>_descriptor.py\<close> and \<open>_atomic.py\<close>: every file of a job is reached from the
  directory of the job, component by component and without following a link.

  Errors of the system are modelled where a file is replaced or removed; creating a directory fails only
  on what is there already.  The permission bits of the files are left out.
\<close>

subsection \<open>The job directory\<close>

definition host_text :: "sandbox_env \<Rightarrow> path \<Rightarrow> string" where
  "host_text env p = (if se_absolute env then [slash] else []) @ join [slash] p"

definition job_dir :: "sandbox_env \<Rightarrow> string \<Rightarrow> string \<Rightarrow> path" where
  "job_dir env run_id job_id = se_run_dir env run_id @ [''sandbox'', job_id]"

definition open_or_create_directory :: "string \<Rightarrow> path \<Rightarrow> unit sandbox_op" where
  "open_or_create_directory raw p =
     op_bind (op_read (\<lambda>s. map_of (sb_files s) p)) (\<lambda>node.
       case node of
         None \<Rightarrow> op_write (on_files (dict_set p Directory))
       | Some Directory \<Rightarrow> op_return ()
       | Some _ \<Rightarrow> op_raise (Path_Error raw))"

text \<open>\<open>SandboxArtifactStorage(run_context, job_id)\<close>.\<close>

definition open_storage :: "sandbox_env \<Rightarrow> string \<Rightarrow> string \<Rightarrow> path sandbox_op" where
  "open_storage env run_id job_id =
     (let run = se_run_dir env run_id in
      op_seq (op_guard (se_platform env \<noteq> ''Linux'') (Path_Error (host_text env run)))
      (op_bind (op_lift (parse_job_component job_id)) (\<lambda>c.
       op_bind (op_read (\<lambda>s. map_of (sb_files s) run \<noteq> Some Directory)) (\<lambda>missing.
       op_seq (op_guard missing (Path_Error (host_text env run)))
       (op_seq (open_or_create_directory ''sandbox'' (run @ [''sandbox'']))
       (op_seq (open_or_create_directory c (job_dir env run_id c))
         (op_return (job_dir env run_id c))))))))"

text \<open>The directories above the last component, from the job directory down.\<close>

definition inner_dirs :: "path \<Rightarrow> string list \<Rightarrow> path list" where
  "inner_dirs dir parts = map (\<lambda>k. dir @ take k parts) [1..<length parts]"

definition first_missing :: "files \<Rightarrow> path list \<Rightarrow> path option" where
  "first_missing f ps = find (\<lambda>p. map_of f p \<noteq> Some Directory) ps"

subsection \<open>Reading\<close>

definition read_leaf :: "string \<Rightarrow> int \<Rightarrow> file_node option \<Rightarrow> sandbox_error + string" where
  "read_leaf raw max_bytes node =
     (case node of
        None \<Rightarrow> Inl (Artifact_Not_Found raw)
      | Some (Regular content) \<Rightarrow>
          if max_bytes < int (length content) then Inl (Artifact_Size raw max_bytes) else Inr content
      | Some _ \<Rightarrow> Inl (Artifact_Type raw))"

definition read_file :: "path \<Rightarrow> string \<Rightarrow> int \<Rightarrow> files \<Rightarrow> sandbox_error + string" where
  "read_file dir raw max_bytes f =
     res_bind (parse_artifact_parts raw) (\<lambda>parts.
       case first_missing f (inner_dirs dir parts) of
         Some p \<Rightarrow> Inl (if map_of f p = None then Artifact_Not_Found raw else Path_Error raw)
       | None \<Rightarrow> read_leaf raw max_bytes (map_of f (dir @ parts)))"

definition read_bounded_regular_file :: "path \<Rightarrow> string \<Rightarrow> int \<Rightarrow> string sandbox_op" where
  "read_bounded_regular_file dir raw max_bytes = op_try (\<lambda>s. read_file dir raw max_bytes (sb_files s))"

subsection \<open>Writing\<close>

definition create_directories :: "string \<Rightarrow> path list \<Rightarrow> unit sandbox_op" where
  "create_directories raw ps = op_all (map (open_or_create_directory raw) ps)"

definition write_atomic_file :: "sandbox_env \<Rightarrow> string \<Rightarrow> path \<Rightarrow> string \<Rightarrow> unit sandbox_op" where
  "write_atomic_file env raw p content =
     op_bind next_tick (\<lambda>n.
     op_bind (op_read (\<lambda>s. map_of (sb_files s) p = Some Directory)) (\<lambda>is_dir.
     op_seq (op_guard (se_fault env n = Fails_Before \<or> is_dir) (Path_Error raw))
     (op_seq (op_write (on_files (dict_set p (Regular content))))
       (op_guard (se_fault env n = Fails_After) (Path_Error raw)))))"

definition write_atomic_bytes :: "sandbox_env \<Rightarrow> path \<Rightarrow> string \<Rightarrow> string \<Rightarrow> unit sandbox_op" where
  "write_atomic_bytes env dir raw content =
     op_bind (op_lift (parse_artifact_parts raw)) (\<lambda>parts.
     op_seq (create_directories raw (inner_dirs dir parts))
       (write_atomic_file env raw (dir @ parts) content))"

definition ensure_directory :: "path \<Rightarrow> string \<Rightarrow> path sandbox_op" where
  "ensure_directory dir raw =
     op_bind (op_lift (parse_artifact_parts raw)) (\<lambda>parts.
     op_seq (create_directories raw (inner_dirs dir parts @ [dir @ parts]))
       (op_return (dir @ parts)))"

definition remove_leaf :: "sandbox_env \<Rightarrow> string \<Rightarrow> path \<Rightarrow> unit sandbox_op" where
  "remove_leaf env raw p =
     op_bind (op_read (\<lambda>s. map_of (sb_files s) p)) (\<lambda>node.
       case node of
         None \<Rightarrow> op_return ()
       | Some (Link b) \<Rightarrow> op_raise (Path_Error raw)
       | Some Directory \<Rightarrow> op_raise (Path_Error raw)
       | Some _ \<Rightarrow>
           op_bind next_tick (\<lambda>n.
           op_seq (op_guard (se_fault env n = Fails_Before) (Path_Error raw))
           (op_seq (op_write (on_files (dict_del p)))
             (op_guard (se_fault env n = Fails_After) (Path_Error raw)))))"

definition invalidate_file :: "sandbox_env \<Rightarrow> path \<Rightarrow> string \<Rightarrow> unit sandbox_op" where
  "invalidate_file env dir raw =
     op_bind (op_lift (parse_artifact_parts raw)) (\<lambda>parts.
     op_bind (op_read (\<lambda>s. case first_missing (sb_files s) (inner_dirs dir parts) of
         None \<Rightarrow> Some True | Some p \<Rightarrow> if map_of (sb_files s) p = None then None else Some False)) (\<lambda>reached.
       case reached of
         None \<Rightarrow> op_return ()
       | Some False \<Rightarrow> op_raise (Path_Error raw)
       | Some True \<Rightarrow> remove_leaf env raw (dir @ parts)))"

text \<open>
  \<open>path_for\<close>: the path is taken below the job directory unless a link on it leads out of it; a NUL makes
  \<open>resolve\<close> raise.
\<close>

definition leads_outside :: "files \<Rightarrow> path \<Rightarrow> string list \<Rightarrow> bool" where
  "leads_outside f dir parts = list_ex (\<lambda>k. map_of f (dir @ take k parts) = Some (Link True)) [1..<length parts + 1]"

definition path_for :: "path \<Rightarrow> string \<Rightarrow> path sandbox_op" where
  "path_for dir raw =
     (if posix_parts raw \<noteq> [] \<and> \<not> posix_absolute raw \<and> \<not> win_absolute raw \<and>
         ''..'' \<notin> set (posix_parts raw) \<and> ''..'' \<notin> set (win_parts raw)
      then op_seq (op_guard (nul_char \<in> set raw) (Invalid_Value ''embedded null byte''))
        (op_bind (op_read (\<lambda>s. leads_outside (sb_files s) dir (posix_parts raw))) (\<lambda>out.
           if out then op_raise (Path_Error raw) else op_return (dir @ posix_parts raw)))
      else op_raise (Path_Error raw))"

end
