(* ===== verification/Sandbox_Docker.thy ===== *)
theory Sandbox_Docker
  imports Sandbox_Files
begin

section \<open>The Docker boundary\<close>

text \<open>
  \<open>sandbox/docker_policy.py\<close>, \<open>docker_runtime.py\<close> and the bounded capture of \<open>docker_subprocess.py\<close>.

  The process that runs the Docker client is the argument \<open>se_invoke\<close>: from the arguments, the time limit
  and the files it finds it gives an outcome and the files it leaves.  Every call is recorded.
\<close>

subsection \<open>Image references\<close>

fun literally :: "string \<Rightarrow> regex" where
  "literally [] = Empty"
| "literally (c # s) = Seq (Chars (\<lambda>x. x = c)) (literally s)"

fun repeated :: "nat \<Rightarrow> regex \<Rightarrow> regex" where
  "repeated 0 r = Empty"
| "repeated (Suc n) r = Seq r (repeated n r)"

definition full_match :: "regex \<Rightarrow> string \<Rightarrow> bool" where
  "full_match r s \<longleftrightarrow> length s \<in> set (ends r s 0)"

definition lower_alnum :: "char \<Rightarrow> bool" where
  "lower_alnum c \<longleftrightarrow> is_lower_letter c \<or> is_digit c"

definition lower_hex :: "char \<Rightarrow> bool" where
  "lower_hex c \<longleftrightarrow> c \<in> set ''0123456789abcdef''"

text \<open>\<open>[a-z0-9]+(?:[._-][a-z0-9]+)*\<close>.\<close>

definition image_name :: regex where
  "image_name =
     Seq (plus (Chars lower_alnum))
       (Star (Seq (Chars (\<lambda>c. c \<in> set ''._-'')) (plus (Chars lower_alnum))))"

definition image_pattern :: regex where
  "image_pattern =
     Seq (opt (Seq image_name (Seq (opt (Seq (literally '':'') (plus (Chars is_digit)))) (literally ''/''))))
       (Seq image_name (Seq (Star (Seq (literally ''/'') image_name))
         (Seq (literally ''@sha256:'') (repeated 64 (Chars lower_hex)))))"

definition parse_docker_image_reference :: "string \<Rightarrow> sandbox_error + string" where
  "parse_docker_image_reference raw =
     (if full_match image_pattern raw then Inr raw
      else Inl (Docker_Policy raw ''must be a sha256 digest-only image reference''))"

text \<open>\<open>str(image).split("@", 1)[1]\<close> of a reference with an \<open>@\<close>.\<close>

definition image_digest :: "string \<Rightarrow> string" where
  "image_digest img = tl (dropWhile (\<lambda>c. c \<noteq> CHR ''@'') img)"

subsection \<open>Execution requests\<close>

record docker_request =
  dr_image :: string
  dr_code_path :: path
  dr_input_paths :: "path list"
  dr_output_path :: path
  dr_limits :: resource_limits
  dr_environment :: "string list"

definition new_docker_request ::
  "string \<Rightarrow> path \<Rightarrow> path list \<Rightarrow> path \<Rightarrow> resource_limits \<Rightarrow> sandbox_error + docker_request" where
  "new_docker_request img code inputs outdir limits =
     res_bind (parse_docker_image_reference img) (\<lambda>_.
       Inr \<lparr>dr_image = img, dr_code_path = code, dr_input_paths = inputs, dr_output_path = outdir,
            dr_limits = limits, dr_environment = []\<rparr>)"

definition container_code_path :: string where
  "container_code_path = ''/sandbox/code.py''"

definition container_input_directory :: string where
  "container_input_directory = ''/sandbox/inputs''"

definition container_output_path :: string where
  "container_output_path = ''/sandbox/output''"

definition docker_pids_limit :: int where
  "docker_pids_limit = 64"

definition docker_uid :: int where
  "docker_uid = 65532"

record security_profile =
  sp_image_digest :: string
  sp_limits :: resource_limits
  sp_pids_limit :: int
  sp_network :: string
  sp_root_read_only :: bool
  sp_code_read_only :: bool
  sp_inputs_read_only :: bool
  sp_output_read_write :: bool
  sp_input_mount_count :: nat
  sp_user_id :: int
  sp_capabilities_dropped :: string
  sp_no_new_privileges :: bool
  sp_pull_policy :: string
  sp_environment_forwarded :: bool

definition effective_security_profile :: "docker_request \<Rightarrow> security_profile" where
  "effective_security_profile q =
     \<lparr>sp_image_digest = image_digest (dr_image q), sp_limits = dr_limits q,
      sp_pids_limit = docker_pids_limit, sp_network = ''none'', sp_root_read_only = True,
      sp_code_read_only = True, sp_inputs_read_only = True, sp_output_read_write = True,
      sp_input_mount_count = length (dr_input_paths q), sp_user_id = docker_uid,
      sp_capabilities_dropped = ''ALL'', sp_no_new_privileges = True, sp_pull_policy = ''never'',
      sp_environment_forwarded = (dr_environment q \<noteq> [])\<rparr>"

definition docker_container_name :: "sandbox_env \<Rightarrow> docker_request \<Rightarrow> string" where
  "docker_container_name env q =
     ''vnalpha-sandbox-'' @ take 16 (se_sha256 env (host_text env (dr_output_path q)))"

subsection \<open>Mount sources\<close>

definition unsafe_mount_source_characters :: "char list" where
  "unsafe_mount_source_characters = [nul_char, CHR 13, CHR 10, CHR '','', CHR '':'', CHR ''='']"

definition crosses_link :: "files \<Rightarrow> path \<Rightarrow> bool" where
  "crosses_link f p =
     list_ex (\<lambda>k. case map_of f (take k p) of Some (Link b) \<Rightarrow> True | _ \<Rightarrow> False) [0..<length p + 1]"

text \<open>A link that leads nowhere is refused with the other reason.\<close>

definition validate_mount_path :: "sandbox_env \<Rightarrow> files \<Rightarrow> string \<Rightarrow> path \<Rightarrow> sandbox_error + path" where
  "validate_mount_path env f label p =
     (let raw = host_text env p in
      if \<not> se_absolute env \<or> list_ex (\<lambda>c. c \<in> set unsafe_mount_source_characters) raw
      then Inl (Docker_Policy raw (label @ '' must be an absolute plain path''))
      else if map_of f p = None then Inl (Docker_Policy raw (label @ '' must resolve on the host''))
      else if se_linked env \<or> crosses_link f p
      then Inl (Docker_Policy raw (label @ '' must not traverse a symlink''))
      else Inr p)"

definition plain_node :: "file_node \<Rightarrow> bool" where
  "plain_node n \<longleftrightarrow> (case n of Regular c \<Rightarrow> True | Directory \<Rightarrow> True | _ \<Rightarrow> False)"

definition validate_mount_tree :: "sandbox_env \<Rightarrow> files \<Rightarrow> string \<Rightarrow> path \<Rightarrow> sandbox_error + unit" where
  "validate_mount_tree env f label base =
     (case find (\<lambda>(q, n). is_under base q \<and> q \<noteq> base \<and> \<not> plain_node n) f of
        None \<Rightarrow> Inr ()
      | Some (q, n) \<Rightarrow>
          Inl (Docker_Policy (host_text env q) (label @ '' must not contain symbolic or special files'')))"

definition validate_regular_file :: "sandbox_env \<Rightarrow> files \<Rightarrow> string \<Rightarrow> path \<Rightarrow> sandbox_error + path" where
  "validate_regular_file env f label p =
     res_bind (validate_mount_path env f label p) (\<lambda>p.
       case map_of f p of
         Some (Regular c) \<Rightarrow> Inr p
       | _ \<Rightarrow> Inl (Docker_Policy (host_text env p) (label @ '' must be a regular file'')))"

definition validate_input_path :: "sandbox_env \<Rightarrow> files \<Rightarrow> string \<Rightarrow> path \<Rightarrow> sandbox_error + path" where
  "validate_input_path env f label p =
     res_bind (validate_mount_path env f label p) (\<lambda>p.
       case map_of f p of
         Some (Regular c) \<Rightarrow> Inr p
       | Some Directory \<Rightarrow> res_bind (validate_mount_tree env f label p) (\<lambda>_. Inr p)
       | _ \<Rightarrow> Inl (Docker_Policy (host_text env p) (label @ '' must be a regular file or directory'')))"

definition validate_directory :: "sandbox_env \<Rightarrow> files \<Rightarrow> string \<Rightarrow> path \<Rightarrow> sandbox_error + path" where
  "validate_directory env f label p =
     res_bind (validate_mount_path env f label p) (\<lambda>p.
       if map_of f p = Some Directory then res_bind (validate_mount_tree env f label p) (\<lambda>_. Inr p)
       else Inl (Docker_Policy (host_text env p) (label @ '' must be a directory'')))"

fun disjoint_sources :: "path list \<Rightarrow> bool" where
  "disjoint_sources [] = True"
| "disjoint_sources (p # ps) =
     (list_all (\<lambda>q. \<not> is_under q p \<and> \<not> is_under p q) ps \<and> disjoint_sources ps)"

definition validate_distinct_mount_sources :: "path \<Rightarrow> path list \<Rightarrow> path \<Rightarrow> sandbox_error + unit" where
  "validate_distinct_mount_sources code inputs outdir =
     (if disjoint_sources (code # inputs @ [outdir]) then Inr ()
      else Inl (Docker_Policy ''mount sources'' ''must not overlap''))"

subsection \<open>The command line\<close>

definition read_write_mount :: "sandbox_env \<Rightarrow> path \<Rightarrow> string \<Rightarrow> string" where
  "read_write_mount env source dest =
     ''--mount=type=bind,src='' @ host_text env source @ '',dst='' @ dest @ '',bind-recursive=disabled''"

definition read_only_mount :: "sandbox_env \<Rightarrow> path \<Rightarrow> string \<Rightarrow> string" where
  "read_only_mount env source dest = read_write_mount env source dest @ '',readonly''"

definition format_cpu_limit :: "int \<Rightarrow> string" where
  "format_cpu_limit cpu_millis =
     render_int (cpu_millis div 1000) @ ''.'' @ digits_of 3 (nat (cpu_millis mod 1000))"

definition input_mounts :: "sandbox_env \<Rightarrow> path list \<Rightarrow> string list" where
  "input_mounts env ps =
     map (\<lambda>(i, p). read_only_mount env p (container_input_directory @ ''/'' @ render_int (int i)))
       (zip [0..<length ps] ps)"

definition docker_argv :: "sandbox_env \<Rightarrow> docker_request \<Rightarrow> string list" where
  "docker_argv env q =
     [''docker'', ''run'',
      ''--name='' @ docker_container_name env q,
      ''--rm'',
      ''--pull=never'',
      ''--network=none'',
      ''--read-only'',
      ''--user='' @ render_int docker_uid,
      ''--cap-drop=ALL'',
      ''--security-opt=no-new-privileges'',
      ''--pids-limit='' @ render_int docker_pids_limit,
      ''--cpus='' @ format_cpu_limit (rl_cpu_millis (dr_limits q)),
      ''--memory='' @ render_int (rl_memory_mb (dr_limits q)) @ ''m'',
      ''--memory-swap='' @ render_int (rl_memory_mb (dr_limits q)) @ ''m'',
      ''--workdir=/sandbox'',
      read_only_mount env (dr_code_path q) container_code_path] @
     input_mounts env (dr_input_paths q) @
     [read_write_mount env (dr_output_path q) container_output_path,
      ''--entrypoint=/usr/local/bin/python'',
      dr_image q,
      container_code_path]"

definition build_docker_run_argv :: "sandbox_env \<Rightarrow> docker_request \<Rightarrow> files \<Rightarrow> sandbox_error + string list" where
  "build_docker_run_argv env q f =
     (if dr_environment q \<noteq> []
      then Inl (Docker_Policy ''environment'' ''environment forwarding is forbidden'')
      else
        res_bind (validate_regular_file env f ''code path'' (dr_code_path q)) (\<lambda>code.
        res_bind (res_map (validate_input_path env f ''input path'') (dr_input_paths q)) (\<lambda>inputs.
        res_bind (validate_directory env f ''output path'' (dr_output_path q)) (\<lambda>outdir.
        res_bind (validate_distinct_mount_sources code inputs outdir) (\<lambda>_.
          Inr (docker_argv env q))))))"

subsection \<open>Running\<close>

definition invoke :: "sandbox_env \<Rightarrow> string list \<Rightarrow> int \<Rightarrow> (command_error + docker_result) sandbox_op" where
  "invoke env argv timeout =
     (\<lambda>s. case se_invoke env argv timeout (sb_tick s) (sb_files s) of
        (r, f) \<Rightarrow>
          (Inr r, s\<lparr>sb_files := f,
             sb_calls := sb_calls s @ [\<lparr>dc_argv = argv, dc_timeout = timeout, dc_files = sb_files s\<rparr>],
             sb_tick := sb_tick s + 1\<rparr>))"

definition version_argv :: "string list" where
  "version_argv = [''docker'', ''version'', ''--format'', ''{{.Server.Os}}'']"

definition inspect_argv :: "string \<Rightarrow> string list" where
  "inspect_argv img = [''docker'', ''image'', ''inspect'', ''--format'', ''{{.Id}}'', img]"

definition preflight_timeout_seconds :: int where
  "preflight_timeout_seconds = 5"

definition cleanup_timeout_seconds :: int where
  "cleanup_timeout_seconds = 5"

definition preflight_failure ::
  "docker_failure \<Rightarrow> string \<Rightarrow> bool \<Rightarrow> bool \<Rightarrow> string option \<Rightarrow> preflight_result" where
  "preflight_failure code detail available linux os =
     \<lparr>pf_docker_available = available, pf_linux_supported = linux, pf_detail = detail,
      pf_failure_code = Some code, pf_server_os = os\<rparr>"

text \<open>\<open>decode("ascii", errors="replace").strip().lower()\<close>.\<close>

definition ascii_decoded :: "string \<Rightarrow> string" where
  "ascii_decoded bs =
     concat (map (\<lambda>c. if char_code c < 128 then [c] else [CHR 0xEF, CHR 0xBF, CHR 0xBD]) bs)"

definition probe_image :: "sandbox_env \<Rightarrow> string \<Rightarrow> string \<Rightarrow> preflight_result sandbox_op" where
  "probe_image env img os =
     op_bind (invoke env (inspect_argv img) preflight_timeout_seconds) (\<lambda>r. op_return (case r of
         Inl Command_Not_Found \<Rightarrow>
           preflight_failure DOCKER_NOT_FOUND ''Docker client is not available'' False True (Some os)
       | Inl Launch_Error \<Rightarrow>
           preflight_failure DOCKER_LAUNCH_FAILED ''Docker command could not be launched'' False True (Some os)
       | Inl Timeout_Expired \<Rightarrow>
           preflight_failure IMAGE_PROBE_TIMEOUT ''Local Docker image probe timed out'' True True (Some os)
       | Inr probe \<Rightarrow>
           if dk_return_code probe \<noteq> 0
           then preflight_failure IMAGE_NOT_AVAILABLE ''Required local digest image is unavailable''
             True True (Some os)
           else \<lparr>pf_docker_available = True, pf_linux_supported = True,
              pf_detail = ''Docker daemon and required local digest image are available'',
              pf_failure_code = None, pf_server_os = Some os\<rparr>))"

definition preflight :: "sandbox_env \<Rightarrow> string \<Rightarrow> preflight_result sandbox_op" where
  "preflight env img =
     (if se_platform env \<noteq> ''Linux''
      then op_return (preflight_failure HOST_NOT_LINUX ''Docker sandbox execution requires a Linux host''
             False False None)
      else
        op_bind (invoke env version_argv preflight_timeout_seconds) (\<lambda>r. case r of
            Inl Command_Not_Found \<Rightarrow>
              op_return (preflight_failure DOCKER_NOT_FOUND ''Docker client is not available'' False True None)
          | Inl Launch_Error \<Rightarrow>
              op_return (preflight_failure DOCKER_LAUNCH_FAILED ''Docker command could not be launched''
                False True None)
          | Inl Timeout_Expired \<Rightarrow>
              op_return (preflight_failure DAEMON_TIMEOUT ''Docker daemon preflight timed out'' True True None)
          | Inr probe \<Rightarrow>
              (let os = lower (strip (ascii_decoded (dk_stdout probe))) in
               if dk_return_code probe \<noteq> 0
               then op_return (preflight_failure DAEMON_UNAVAILABLE ''Docker daemon preflight failed''
                 True True None)
               else if os \<noteq> ''linux''
               then op_return (preflight_failure SERVER_NOT_LINUX ''Docker server must run Linux containers''
                 True False (Some os))
               else probe_image env img os)))"

definition failed_execution ::
  "docker_failure \<Rightarrow> string \<Rightarrow> bool option \<Rightarrow> preflight_result \<Rightarrow> docker_result" where
  "failed_execution code detail cleanup pf =
     \<lparr>dk_return_code = - 1, dk_stdout = [], dk_stderr = [], dk_failure_code = Some code, dk_detail = detail,
      dk_stdout_truncated = False, dk_stderr_truncated = False, dk_cleanup = cleanup,
      dk_preflight = Some pf\<rparr>"

definition kill_container :: "sandbox_env \<Rightarrow> string \<Rightarrow> bool sandbox_op" where
  "kill_container env name =
     op_bind (invoke env [''docker'', ''kill'', name] cleanup_timeout_seconds) (\<lambda>r.
       op_return (case r of Inl e \<Rightarrow> False | Inr res \<Rightarrow> dk_return_code res = 0))"

definition run_container :: "sandbox_env \<Rightarrow> docker_request \<Rightarrow> preflight_result \<Rightarrow> docker_result sandbox_op" where
  "run_container env q pf =
     op_bind (op_try (\<lambda>s. build_docker_run_argv env q (sb_files s))) (\<lambda>argv.
     op_bind (invoke env argv (rl_timeout_seconds (dr_limits q))) (\<lambda>r. case r of
         Inl Command_Not_Found \<Rightarrow>
           op_return (failed_execution DOCKER_NOT_FOUND ''Docker client is not available'' None pf)
       | Inl Launch_Error \<Rightarrow>
           op_return (failed_execution DOCKER_LAUNCH_FAILED ''Docker command could not be launched'' None pf)
       | Inl Timeout_Expired \<Rightarrow>
           op_bind (kill_container env (docker_container_name env q)) (\<lambda>cleaned.
             op_return (failed_execution RUNTIME_TIMEOUT ''Docker execution timed out'' (Some cleaned) pf))
       | Inr execution \<Rightarrow>
           op_return
             (if dk_return_code execution = 0 then execution\<lparr>dk_preflight := Some pf\<rparr>
              else execution\<lparr>dk_failure_code := Some RUNTIME_FAILED, dk_detail := ''Docker execution failed'',
                     dk_cleanup := None, dk_preflight := Some pf\<rparr>)))"

definition run_docker :: "sandbox_env \<Rightarrow> docker_request \<Rightarrow> docker_result sandbox_op" where
  "run_docker env q =
     op_bind (preflight env (dr_image q)) (\<lambda>pf.
       case pf_failure_code pf of
         Some code \<Rightarrow> op_return (failed_execution code (pf_detail pf) None pf)
       | None \<Rightarrow> run_container env q pf)"

text \<open>\<open>_capture_stream\<close>, over the chunks that were read.\<close>

definition max_docker_capture_bytes :: nat where
  "max_docker_capture_bytes = 64 * 1024"

definition capture_chunk :: "string \<times> bool \<Rightarrow> string \<Rightarrow> string \<times> bool" where
  "capture_chunk st chunk =
     (case st of (captured, truncated) \<Rightarrow>
        let remaining = max_docker_capture_bytes - length captured in
        (captured @ take remaining chunk, truncated \<or> remaining < length chunk))"

definition capture_stream :: "string list \<Rightarrow> string \<times> bool" where
  "capture_stream chunks = foldl capture_chunk ([], False) chunks"

end
