(* ===== verification/Sandbox_Writer.thy ===== *)
theory Sandbox_Writer
  imports Sandbox_Docker Goals
begin

section \<open>Artifacts of a sandbox job\<close>

text \<open>
  \<open>sandbox/artifact_manifest.py\<close>, \<open>execution_evidence.py\<close>, \<open>output_validation.py\<close> with
  \<open>_output_validation_types.py\<close>, \<open>artifact_finalization.py\<close> and \<open>artifact_writer.py\<close>: what is written for a
  job, what of the outputs of its container is accepted, and the manifest of both.

  \<open>json.loads\<close> and pydantic's reading are arguments; the hooks and the validators the source adds to them
  are written out.  A text for which \<open>json.loads\<close> raises something other than a decoding error (an integer
  of more than 4300 digits, a nesting beyond the recursion limit) is \<open>Load_Raises\<close>.
\<close>

subsection \<open>Manifest entries\<close>

definition hex_digest :: "string \<Rightarrow> bool" where
  "hex_digest d \<longleftrightarrow> length d = 64 \<and> set d \<subseteq> set ''0123456789abcdefABCDEF''"

definition new_entry :: "sandbox_env \<Rightarrow> string \<Rightarrow> string \<Rightarrow> string \<Rightarrow> sandbox_error + manifest_entry" where
  "new_entry env p content media =
     res_bind (validate_manifest_path p) (\<lambda>_.
     if \<not> hex_digest (se_sha256 env content)
     then Inl (Manifest_Error ''sha256 must be a 64-character hexadecimal digest'')
     else if strip media = [] then Inl (Manifest_Error ''media type must not be blank'')
     else Inr \<lparr>me_path = p, me_sha256 = se_sha256 env content, me_byte_length = length content,
            me_media_type = media\<rparr>)"

definition new_manifest :: "manifest_entry list \<Rightarrow> sandbox_error + manifest_entry list" where
  "new_manifest es =
     (if distinct (map me_path es) then Inr es
      else Inl (Manifest_Error ''entry paths must not contain duplicates''))"

definition entry_json :: "manifest_entry \<Rightarrow> json" where
  "entry_json e =
     JObj [(''byte_length'', JInt (int (me_byte_length e))), (''media_type'', JStr (me_media_type e)),
       (''path'', JStr (me_path e)), (''sha256'', JStr (me_sha256 e))]"

definition manifest_bytes :: "manifest_entry list \<Rightarrow> string" where
  "manifest_bytes es = json_document (JObj [(''entries'', JArr (map entry_json (sort_key me_path es)))])"

subsection \<open>Evidence of an execution\<close>

datatype execution_status = Execution_Succeeded | Execution_Rejected | Execution_Failed

fun execution_status_value :: "execution_status \<Rightarrow> string" where
  "execution_status_value Execution_Succeeded = ''succeeded''"
| "execution_status_value Execution_Rejected = ''rejected''"
| "execution_status_value Execution_Failed = ''failed''"

record execution_evidence =
  ev_status :: execution_status
  ev_result :: docker_result
  ev_failure_code :: "string option"
  ev_controls :: "security_profile option"

definition evidence_from ::
  "execution_status \<Rightarrow> docker_result \<Rightarrow> docker_request option \<Rightarrow> string option \<Rightarrow> execution_evidence" where
  "evidence_from st res q code =
     \<lparr>ev_status = st, ev_result = res,
      ev_failure_code = (if code = None then map_option docker_failure_value (dk_failure_code res) else code),
      ev_controls = map_option effective_security_profile q\<rparr>"

definition text_json :: "string option \<Rightarrow> json" where
  "text_json v = (case v of None \<Rightarrow> JNull | Some s \<Rightarrow> JStr s)"

definition flag_json :: "bool option \<Rightarrow> json" where
  "flag_json v = (case v of None \<Rightarrow> JNull | Some b \<Rightarrow> JBool b)"

definition preflight_json :: "preflight_result option \<Rightarrow> json" where
  "preflight_json pf =
     (case pf of None \<Rightarrow> JNull
      | Some p \<Rightarrow> JObj
          [(''detail'', JStr (pf_detail p)), (''docker_available'', JBool (pf_docker_available p)),
           (''failure_code'', text_json (map_option docker_failure_value (pf_failure_code p))),
           (''linux_supported'', JBool (pf_linux_supported p)), (''server_os'', text_json (pf_server_os p))])"

definition controls_json :: "security_profile option \<Rightarrow> json" where
  "controls_json c =
     (case c of None \<Rightarrow> JNull
      | Some p \<Rightarrow> JObj
          [(''capabilities_dropped'', JStr (sp_capabilities_dropped p)),
           (''code_read_only'', JBool (sp_code_read_only p)),
           (''cpu_millis'', JInt (rl_cpu_millis (sp_limits p))),
           (''environment_forwarded'', JBool (sp_environment_forwarded p)),
           (''image_digest'', JStr (sp_image_digest p)),
           (''input_mount_count'', JInt (int (sp_input_mount_count p))),
           (''inputs_read_only'', JBool (sp_inputs_read_only p)),
           (''memory_mb'', JInt (rl_memory_mb (sp_limits p))),
           (''network'', JStr (sp_network p)),
           (''no_new_privileges'', JBool (sp_no_new_privileges p)),
           (''output_read_write'', JBool (sp_output_read_write p)),
           (''pids_limit'', JInt (sp_pids_limit p)),
           (''pull_policy'', JStr (sp_pull_policy p)),
           (''root_read_only'', JBool (sp_root_read_only p)),
           (''timeout_seconds'', JInt (rl_timeout_seconds (sp_limits p))),
           (''user_id'', JInt (sp_user_id p))])"

definition evidence_bytes :: "execution_evidence \<Rightarrow> string" where
  "evidence_bytes ev =
     (let r = ev_result ev in
      json_document (JObj
        [(''cleanup_succeeded'', flag_json (dk_cleanup r)),
         (''detail'', JStr (dk_detail r)),
         (''failure_code'', text_json (ev_failure_code ev)),
         (''return_code'', JInt (dk_return_code r)),
         (''schema_version'', JInt 2),
         (''preflight'', preflight_json (dk_preflight r)),
         (''security_controls'', controls_json (ev_controls ev)),
         (''status'', JStr (execution_status_value (ev_status ev))),
         (''stderr_truncated'', JBool (dk_stderr_truncated r)),
         (''stdout_truncated'', JBool (dk_stdout_truncated r))]))"

subsection \<open>The result of a container\<close>

fun has_nonfinite :: "json \<Rightarrow> bool" where
  "has_nonfinite (JFloat s) = (s \<in> {''NaN'', ''Infinity'', ''-Infinity''})"
| "has_nonfinite (JArr js) = list_ex has_nonfinite js"
| "has_nonfinite (JObj kvs) = list_ex (\<lambda>(k, v). has_nonfinite v) kvs"
| "has_nonfinite j = False"

definition valid_envelope :: "result_envelope \<Rightarrow> bool" where
  "valid_envelope e \<longleftrightarrow>
     en_schema_version e = 1 \<and>
     en_summary e \<noteq> [] \<and> code_points (en_summary e) \<le> max_sandbox_job_detail_length \<and>
     strip (en_summary e) \<noteq> [] \<and>
     length (en_artifacts e) \<le> max_output_artifacts - 2 \<and>
     (\<forall>r \<in> set (en_artifacts e). rr_kind r \<in> {Chart_Kind, Table_Kind}) \<and>
     distinct (map rr_path (en_artifacts e))"

text \<open>
  \<open>se_loads\<close> is how the one call of \<open>json.loads\<close> ends.  The hooks run while the text is read, so a
  duplicate key or a non-finite number met before another error ends the call first; such a call counts
  as \<open>Decode_Error\<close>, and what is loaded to the end is asked here.
\<close>

definition parse_result :: "sandbox_env \<Rightarrow> string \<Rightarrow> sandbox_error + result_envelope option" where
  "parse_result env content =
     (if \<not> se_utf8 env content then Inr None
      else case se_loads env content of
        Decode_Error \<Rightarrow> Inr None
      | Load_Raises m \<Rightarrow> Inl (Invalid_Value m)
      | Loaded j \<Rightarrow>
          if has_duplicate_member j \<or> has_nonfinite j then Inr None
          else case se_envelope env content of
            None \<Rightarrow> Inr None
          | Some e \<Rightarrow> Inr (if valid_envelope e then Some e else None))"

subsection \<open>Validation of the outputs\<close>

datatype validation_failure =
    MISSING_ARTIFACT
  | UNSAFE_ARTIFACT
  | ARTIFACT_TOO_LARGE
  | INVALID_RESULT
  | INVALID_SUMMARY
  | ARTIFACT_REFERENCE_MISMATCH

fun validation_failure_value :: "validation_failure \<Rightarrow> string" where
  "validation_failure_value MISSING_ARTIFACT = ''missing_artifact''"
| "validation_failure_value UNSAFE_ARTIFACT = ''unsafe_artifact''"
| "validation_failure_value ARTIFACT_TOO_LARGE = ''artifact_too_large''"
| "validation_failure_value INVALID_RESULT = ''invalid_result''"
| "validation_failure_value INVALID_SUMMARY = ''invalid_summary''"
| "validation_failure_value ARTIFACT_REFERENCE_MISMATCH = ''artifact_reference_mismatch''"

fun failure_detail :: "validation_failure \<Rightarrow> string" where
  "failure_detail MISSING_ARTIFACT = ''expected sandbox artifact is missing''"
| "failure_detail UNSAFE_ARTIFACT = ''expected sandbox artifact is unsafe''"
| "failure_detail ARTIFACT_TOO_LARGE = ''expected sandbox artifact exceeds the byte limit''"
| "failure_detail INVALID_RESULT = ''sandbox result does not satisfy the output contract''"
| "failure_detail INVALID_SUMMARY = ''sandbox summary does not satisfy the output contract''"
| "failure_detail ARTIFACT_REFERENCE_MISMATCH =
     ''sandbox artifact references do not match the expected contract''"

record output_evidence =
  oe_succeeded :: bool
  oe_failure_code :: "validation_failure option"
  oe_artifact_path :: "string option"
  oe_detail :: string
  oe_validated_paths :: "string list"

record output_validation =
  ov_evidence :: output_evidence
  ov_result :: "result_envelope option"
  ov_inventory :: "manifest_entry list"

definition output_evidence_bytes :: "output_evidence \<Rightarrow> string" where
  "output_evidence_bytes e =
     json_line (JObj
       [(''artifact_path'', text_json (oe_artifact_path e)), (''detail'', JStr (oe_detail e)),
        (''failure_code'', text_json (map_option validation_failure_value (oe_failure_code e))),
        (''schema_version'', JInt 1),
        (''status'', JStr (if oe_succeeded e then ''succeeded'' else ''failed'')),
        (''validated_paths'', JArr (map JStr (oe_validated_paths e)))])"

definition max_result_json_bytes :: int where
  "max_result_json_bytes = 1048576"

definition max_summary_markdown_bytes :: int where
  "max_summary_markdown_bytes = 262144"

definition max_optional_artifact_bytes :: int where
  "max_optional_artifact_bytes = 10485760"

text \<open>One output read: the reason it is refused, or its entry and content.\<close>

definition read_output ::
  "sandbox_env \<Rightarrow> path \<Rightarrow> files \<Rightarrow> string \<Rightarrow> int \<Rightarrow> string \<Rightarrow>
   sandbox_error + (validation_failure + (manifest_entry \<times> string))" where
  "read_output env dir f p max_bytes media =
     (case read_file dir p max_bytes f of
        Inl (Artifact_Not_Found q) \<Rightarrow> Inr (Inl MISSING_ARTIFACT)
      | Inl (Artifact_Size q n) \<Rightarrow> Inr (Inl ARTIFACT_TOO_LARGE)
      | Inl _ \<Rightarrow> Inr (Inl UNSAFE_ARTIFACT)
      | Inr content \<Rightarrow> res_bind (new_entry env p content media) (\<lambda>e. Inr (Inr (e, content))))"

definition failed_validation ::
  "validation_failure \<Rightarrow> string \<Rightarrow> manifest_entry list \<Rightarrow> output_validation" where
  "failed_validation code p inventory =
     \<lparr>ov_evidence = \<lparr>oe_succeeded = False, oe_failure_code = Some code, oe_artifact_path = Some p,
        oe_detail = failure_detail code, oe_validated_paths = map me_path inventory\<rparr>,
      ov_result = None, ov_inventory = inventory\<rparr>"

definition is_nonblank_utf8 :: "sandbox_env \<Rightarrow> string \<Rightarrow> bool" where
  "is_nonblank_utf8 env content \<longleftrightarrow> se_utf8 env content \<and> strip content \<noteq> []"

definition optional_artifacts :: "expected_artifact list \<Rightarrow> expected_artifact list" where
  "optional_artifacts schema = filter (\<lambda>a. xa_kind a \<in> {Chart_Kind, Table_Kind}) schema"

definition references_match :: "result_envelope \<Rightarrow> expected_artifact list \<Rightarrow> bool" where
  "references_match e schema \<longleftrightarrow>
     set (map (\<lambda>r. (rr_kind r, rr_path r)) (en_artifacts e)) =
     set (map (\<lambda>a. (xa_kind a, xa_path a)) (optional_artifacts schema))"

text \<open>The optional artifacts in order; the first refused one ends the validation.\<close>

fun read_optional ::
  "sandbox_env \<Rightarrow> path \<Rightarrow> files \<Rightarrow> expected_artifact list \<Rightarrow> manifest_entry list \<Rightarrow>
   sandbox_error + (output_validation + manifest_entry list)" where
  "read_optional env dir f [] inventory = Inr (Inr inventory)"
| "read_optional env dir f (a # as) inventory =
     res_bind (read_output env dir f (xa_path a) max_optional_artifact_bytes (xa_media_type a)) (\<lambda>r. case r of
         Inl code \<Rightarrow> Inr (Inl (failed_validation code (xa_path a) inventory))
       | Inr (e, content) \<Rightarrow> read_optional env dir f as (inventory @ [e]))"

definition validate_rest ::
  "sandbox_env \<Rightarrow> expected_artifact list \<Rightarrow> path \<Rightarrow> files \<Rightarrow> manifest_entry \<Rightarrow> result_envelope \<Rightarrow>
   sandbox_error + output_validation" where
  "validate_rest env schema dir f result_entry parsed =
     res_bind (read_output env dir f summary_path max_summary_markdown_bytes ''text/markdown'') (\<lambda>r. case r of
         Inl code \<Rightarrow> Inr (failed_validation code summary_path [result_entry])
       | Inr (summary_entry, content) \<Rightarrow>
           if \<not> is_nonblank_utf8 env content
           then Inr (failed_validation INVALID_SUMMARY summary_path [result_entry, summary_entry])
           else res_bind (read_optional env dir f (optional_artifacts schema) [result_entry, summary_entry])
             (\<lambda>r. case r of
                Inl failed \<Rightarrow> Inr failed
              | Inr inventory \<Rightarrow>
                  if \<not> references_match parsed schema
                  then Inr (failed_validation ARTIFACT_REFERENCE_MISMATCH result_path inventory)
                  else Inr \<lparr>ov_evidence = \<lparr>oe_succeeded = True, oe_failure_code = None, oe_artifact_path = None,
                         oe_detail = ''sandbox outputs satisfy the expected artifact contract'',
                         oe_validated_paths = map me_path inventory\<rparr>,
                       ov_result = Some parsed, ov_inventory = inventory\<rparr>))"

definition validate_outputs ::
  "sandbox_env \<Rightarrow> expected_artifact list \<Rightarrow> path \<Rightarrow> files \<Rightarrow> sandbox_error + output_validation" where
  "validate_outputs env schema dir f =
     res_bind (read_output env dir f result_path max_result_json_bytes ''application/json'') (\<lambda>r. case r of
         Inl code \<Rightarrow> Inr (failed_validation code result_path [])
       | Inr (result_entry, content) \<Rightarrow>
           res_bind (parse_result env content) (\<lambda>parsed. case parsed of
               None \<Rightarrow> Inr (failed_validation INVALID_RESULT result_path [result_entry])
             | Some e \<Rightarrow> validate_rest env schema dir f result_entry e))"

subsection \<open>The manifest\<close>

definition max_artifact_bytes :: "expected_artifact \<Rightarrow> int" where
  "max_artifact_bytes a =
     (case xa_kind a of
        Result_Kind \<Rightarrow> max_result_json_bytes
      | Summary_Kind \<Rightarrow> max_summary_markdown_bytes
      | _ \<Rightarrow> max_optional_artifact_bytes)"

definition read_entry ::
  "sandbox_env \<Rightarrow> expected_artifact list \<Rightarrow> path \<Rightarrow> files \<Rightarrow> string \<Rightarrow> sandbox_error + manifest_entry" where
  "read_entry env schema dir f p =
     (case find (\<lambda>a. xa_path a = p) (rev schema) of
        None \<Rightarrow> Inl Entry_Conflict
      | Some a \<Rightarrow>
          res_bind (read_file dir p (max_artifact_bytes a) f) (\<lambda>content.
            new_entry env p content (xa_media_type a)))"

definition build_manifest ::
  "sandbox_env \<Rightarrow> expected_artifact list \<Rightarrow> path \<Rightarrow> files \<Rightarrow> manifest_entry list \<Rightarrow> output_validation \<Rightarrow>
   sandbox_error + manifest_entry list" where
  "build_manifest env schema dir f host v =
     (let paths = oe_validated_paths (ov_evidence v) in
      if \<not> distinct paths then Inl Entry_Conflict
      else if list_ex (\<lambda>p. p \<in> me_path ` set host) paths then Inl Entry_Conflict
      else if list_ex (\<lambda>p. p \<notin> xa_path ` set schema) paths then Inl Entry_Conflict
      else res_bind (res_map (read_entry env schema dir f) paths) (\<lambda>observed. new_manifest (host @ observed)))"

subsection \<open>The writer\<close>

definition job_digest_error :: "sandbox_env \<Rightarrow> string \<Rightarrow> string \<Rightarrow> sandbox_error + unit" where
  "job_digest_error env code persisted =
     (if se_sha256 env code \<noteq> persisted then Inl (Code_Digest persisted (se_sha256 env code)) else Inr ())"

definition limits_json :: "resource_limits \<Rightarrow> json" where
  "limits_json l =
     JObj [(''cpu_millis'', JInt (rl_cpu_millis l)), (''memory_mb'', JInt (rl_memory_mb l)),
       (''timeout_seconds'', JInt (rl_timeout_seconds l))]"

definition request_bytes :: "sandbox_env \<Rightarrow> sandbox_job \<Rightarrow> string" where
  "request_bytes env j =
     json_document (JObj
       [(''code_digest'', JStr (code_digest env j)),
        (''correlation_id'', JStr (sj_correlation_id j)),
        (''job_id'', JStr (sj_job_id j)),
        (''network_enabled'', JBool (sj_network_enabled j)),
        (''purpose'', JStr (sj_purpose j)),
        (''resource_limits'', limits_json (sj_limits j)),
        (''run_id'', JStr (sj_run_id j))])"

definition references_bytes :: "sandbox_job \<Rightarrow> string" where
  "references_bytes j = json_document (JObj [(''approved_read_paths'', JArr (map JStr (sj_read_paths j)))])"

definition violation_json :: "guard_violation \<Rightarrow> json" where
  "violation_json v =
     JObj [(''column'', JInt (gv_column v)), (''line'', JInt (gv_line v)),
       (''node_type'', JStr (gv_node_type v)), (''rule'', JStr (rule_value (gv_rule v)))]"

definition guard_bytes :: "guard_result \<Rightarrow> string" where
  "guard_bytes g =
     json_document (JObj
       [(''allowed'', JBool (gr_allowed g)), (''code_digest'', JStr (gr_code_digest g)),
        (''schema_version'', JInt (int (gr_schema_version g))),
        (''violations'', JArr (map violation_json (gr_violations g)))])"

definition replace_entries :: "manifest_entry list \<Rightarrow> manifest_entry list \<Rightarrow> manifest_entry list" where
  "replace_entries es new = filter (\<lambda>e. me_path e \<notin> me_path ` set new) es @ new"

definition host_entries :: "manifest_entry list sandbox_op" where
  "host_entries =
     op_try (\<lambda>s. case aw_host_entries (sb_writer s) of None \<Rightarrow> Inl Writer_State | Some es \<Rightarrow> Inr es)"

definition set_host_entries :: "manifest_entry list \<Rightarrow> unit sandbox_op" where
  "set_host_entries es = op_write (on_writer (\<lambda>w. w\<lparr>aw_host_entries := Some es\<rparr>))"

text \<open>The mode 0o644 that the source gives the generated code is not part of a file here.\<close>

definition persist_request :: "sandbox_env \<Rightarrow> path \<Rightarrow> sandbox_job \<Rightarrow> unit sandbox_op" where
  "persist_request env dir j =
     op_seq (op_guard (has_surrogate (sj_code j)) (Invalid_Value ''surrogates not allowed''))
     (op_seq (op_lift (job_digest_error env (sj_code j) (code_digest env j)))
     (op_seq (invalidate_file env dir manifest_path)
     (op_seq (op_write (on_writer (\<lambda>_. new_writer)))
     (op_seq (invalidate_file env dir guard_path)
     (op_seq (write_atomic_bytes env dir request_path (request_bytes env j))
     (op_seq (write_atomic_bytes env dir generated_code_path (sj_code j))
     (op_seq (write_atomic_bytes env dir input_references_path (references_bytes j))
     (op_bind (op_lift (new_entry env request_path (request_bytes env j) ''application/json'')) (\<lambda>e1.
      op_bind (op_lift (new_entry env generated_code_path (sj_code j) ''text/x-python'')) (\<lambda>e2.
      op_bind (op_lift (new_entry env input_references_path (references_bytes j) ''application/json'')) (\<lambda>e3.
      op_seq (set_host_entries [e1, e2, e3])
        (op_write (on_writer (\<lambda>w. w\<lparr>aw_request_digest := Some (code_digest env j)\<rparr>))))))))))))))"

definition persist_guard :: "sandbox_env \<Rightarrow> path \<Rightarrow> guard_result \<Rightarrow> unit sandbox_op" where
  "persist_guard env dir g =
     op_bind host_entries (\<lambda>es.
     op_bind (op_try (\<lambda>s. case aw_request_digest (sb_writer s) of None \<Rightarrow> Inl Writer_State | Some d \<Rightarrow> Inr d))
       (\<lambda>digest.
     op_seq (op_guard (gr_code_digest g \<noteq> digest) (Code_Digest digest (gr_code_digest g)))
     (op_seq (invalidate_file env dir manifest_path)
     (op_seq (write_atomic_bytes env dir guard_path (guard_bytes g))
     (op_bind (op_lift (new_entry env guard_path (guard_bytes g) ''application/json'')) (\<lambda>e.
      op_seq (set_host_entries (filter (\<lambda>x. me_path x \<noteq> guard_path) es @ [e]))
        (op_write (on_writer (\<lambda>w. w\<lparr>aw_guard := Some g\<rparr>)))))))))"

definition persist_execution :: "sandbox_env \<Rightarrow> path \<Rightarrow> execution_evidence \<Rightarrow> unit sandbox_op" where
  "persist_execution env dir ev =
     op_bind host_entries (\<lambda>es.
     op_bind (op_read (\<lambda>s. aw_guard (sb_writer s) = None)) (\<lambda>unguarded.
     op_seq (op_guard unguarded Guard_State)
     (op_seq (invalidate_file env dir manifest_path)
     (op_seq (write_atomic_bytes env dir stdout_path (dk_stdout (ev_result ev)))
     (op_seq (write_atomic_bytes env dir stderr_path (dk_stderr (ev_result ev)))
     (op_seq (write_atomic_bytes env dir execution_path (evidence_bytes ev))
     (op_bind (op_lift (new_entry env stdout_path (dk_stdout (ev_result ev)) ''text/plain'')) (\<lambda>e1.
      op_bind (op_lift (new_entry env stderr_path (dk_stderr (ev_result ev)) ''text/plain'')) (\<lambda>e2.
      op_bind (op_lift (new_entry env execution_path (evidence_bytes ev) ''application/json'')) (\<lambda>e3.
      set_host_entries (replace_entries es [e1, e2, e3])))))))))))"

definition max_lifecycle_bytes :: int where
  "max_lifecycle_bytes = 65536"

definition persist_lifecycle_line :: "sandbox_env \<Rightarrow> path \<Rightarrow> json \<Rightarrow> unit sandbox_op" where
  "persist_lifecycle_line env dir payload =
     op_bind host_entries (\<lambda>es.
     op_bind (op_try (\<lambda>s. case read_file dir lifecycle_file max_lifecycle_bytes (sb_files s) of
         Inl (Artifact_Not_Found q) \<Rightarrow> Inr []
       | r \<Rightarrow> r)) (\<lambda>existing.
     op_seq (invalidate_file env dir manifest_path)
     (op_seq (write_atomic_bytes env dir lifecycle_file (existing @ json_line payload))
     (op_bind (op_lift (new_entry env lifecycle_file (existing @ json_line payload) ''application/x-ndjson''))
       (\<lambda>e. set_host_entries (replace_entries es [e]))))))"

definition persist_validation_and_manifest ::
  "sandbox_env \<Rightarrow> path \<Rightarrow> output_validation \<Rightarrow> expected_artifact list \<Rightarrow> unit sandbox_op" where
  "persist_validation_and_manifest env dir v schema =
     op_bind host_entries (\<lambda>es.
     (let bytes = output_evidence_bytes (ov_evidence v) in
      op_seq (invalidate_file env dir manifest_path)
      (op_seq (write_atomic_bytes env dir validation_path bytes)
      (op_bind (op_lift (new_entry env validation_path bytes ''application/json'')) (\<lambda>e.
       op_bind (op_try (\<lambda>s. build_manifest env schema dir (sb_files s) (replace_entries es [e]) v)) (\<lambda>m.
       op_seq (write_atomic_bytes env dir manifest_path (manifest_bytes m))
         (set_host_entries (replace_entries es [e]))))))))"

definition require_persisted_guard :: "guard_result \<Rightarrow> unit sandbox_op" where
  "require_persisted_guard g =
     op_try (\<lambda>s.
       case aw_host_entries (sb_writer s) of
         None \<Rightarrow> Inl Writer_State
       | Some es \<Rightarrow>
           (case aw_guard (sb_writer s) of
              None \<Rightarrow> Inl Guard_State
            | Some h \<Rightarrow> if h \<noteq> g then Inl Guard_Mismatch else Inr ()))"

end
