(* ===== verification/Sandbox_Run.thy ===== *)
theory Sandbox_Run
  imports Sandbox_Writer
begin

section \<open>Execution of a prepared sandbox turn\<close>

text \<open>
  \<open>sandbox/docker_orchestration.py\<close> with its types and terminalizer, \<open>failure_observability.py\<close>,
  \<open>execution_lifecycle.py\<close>, \<open>retained_binding.py\<close>, \<open>execution_answers.py\<close>, \<open>prepared_execution.py\<close> and
  \<open>execution_service.py\<close>.

  Every call of the service is made on a service of its own, as its callers do.  The current run context
  is there already; the context of another run is made by the argument \<open>se_new_run\<close>.  The calls of
  \<open>log_audit\<close> and the records of \<open>append_jsonl\<close> are lists of the state: neither raises.
\<close>

subsection \<open>Orchestration results\<close>

datatype orchestration_failure =
    GUARD_DENIED
  | GUARD_DIGEST_MISMATCH
  | GUARD_EVIDENCE_MISMATCH
  | GUARD_NOT_PERSISTED
  | INVALID_RUNNER_RESULT
  | ARTIFACT_PERSISTENCE_FAILED
  | OUTPUT_VALIDATION_FAILED
  | JOB_STATUS_PERSISTENCE_FAILED
  | Runner_Failure docker_failure

fun orchestration_failure_value :: "orchestration_failure \<Rightarrow> string" where
  "orchestration_failure_value GUARD_DENIED = ''guard_denied''"
| "orchestration_failure_value GUARD_DIGEST_MISMATCH = ''guard_digest_mismatch''"
| "orchestration_failure_value GUARD_EVIDENCE_MISMATCH = ''guard_evidence_mismatch''"
| "orchestration_failure_value GUARD_NOT_PERSISTED = ''guard_not_persisted''"
| "orchestration_failure_value INVALID_RUNNER_RESULT = ''invalid_runner_result''"
| "orchestration_failure_value ARTIFACT_PERSISTENCE_FAILED = ''artifact_persistence_failed''"
| "orchestration_failure_value OUTPUT_VALIDATION_FAILED = ''output_validation_failed''"
| "orchestration_failure_value JOB_STATUS_PERSISTENCE_FAILED = ''job_status_persistence_failed''"
| "orchestration_failure_value (Runner_Failure c) = docker_failure_value c"

record orchestration_result =
  or_status :: execution_status
  or_failure :: "orchestration_failure option"
  or_execution :: "docker_result option"

definition rejecting_failures :: "docker_failure set" where
  "rejecting_failures =
     {HOST_NOT_LINUX, DOCKER_LAUNCH_FAILED, DOCKER_NOT_FOUND, DAEMON_UNAVAILABLE, DAEMON_TIMEOUT,
      SERVER_NOT_LINUX, IMAGE_NOT_AVAILABLE, IMAGE_PROBE_TIMEOUT}"

definition classify_execution :: "docker_result \<Rightarrow> (execution_status \<times> docker_failure option) option" where
  "classify_execution r =
     (case dk_failure_code r of
        None \<Rightarrow> if dk_return_code r = 0 then Some (Execution_Succeeded, None) else None
      | Some c \<Rightarrow>
          if c \<in> rejecting_failures then Some (Execution_Rejected, Some c) else Some (Execution_Failed, Some c))"

definition validation_failure_reason :: "validation_failure option \<Rightarrow> string" where
  "validation_failure_reason c =
     (case c of
        None \<Rightarrow> ''sandbox output validation failed''
      | Some MISSING_ARTIFACT \<Rightarrow> ''sandbox output validation failed: expected artifact missing''
      | Some INVALID_RESULT \<Rightarrow> ''sandbox output validation failed: invalid result''
      | Some INVALID_SUMMARY \<Rightarrow> ''sandbox output validation failed: invalid result''
      | Some ARTIFACT_REFERENCE_MISMATCH \<Rightarrow> ''sandbox output validation failed: artifact reference mismatch''
      | Some UNSAFE_ARTIFACT \<Rightarrow> ''sandbox output validation failed: unsafe artifact''
      | Some ARTIFACT_TOO_LARGE \<Rightarrow> ''sandbox output validation failed: unsafe artifact'')"

definition ended :: "execution_status \<Rightarrow> orchestration_failure option \<Rightarrow> docker_result option \<Rightarrow> orchestration_result" where
  "ended st code execution = \<lparr>or_status = st, or_failure = code, or_execution = execution\<rparr>"

subsection \<open>Failures on record\<close>

definition failure_classification :: "orchestration_failure \<Rightarrow> string \<times> string" where
  "failure_classification c =
     (case c of
        Runner_Failure d \<Rightarrow>
          if d \<in> rejecting_failures
          then (''SandboxDockerPreflightFailure'', ''Sandbox Docker preflight rejected execution'')
          else (''SandboxDockerRuntimeFailure'', ''Sandbox Docker execution failed'')
      | INVALID_RUNNER_RESULT \<Rightarrow>
          (''SandboxDockerRunnerContractFailure'', ''Sandbox Docker runner returned an invalid result'')
      | _ \<Rightarrow> (''SandboxExecutionPersistenceFailure'', ''Sandbox execution evidence could not be persisted''))"

definition record_failure :: "sandbox_job \<Rightarrow> execution_status \<Rightarrow> orchestration_failure \<Rightarrow> unit sandbox_op" where
  "record_failure j st code =
     op_write (\<lambda>s. s\<lparr>sb_failures := sb_failures s @
       [\<lparr>fr_error_type = fst (failure_classification code), fr_error_message = snd (failure_classification code),
         fr_job_id = sj_job_id j, fr_status = execution_status_value st,
         fr_failure_code = orchestration_failure_value code\<rparr>]\<rparr>)"

subsection \<open>The orchestrator\<close>

text \<open>\<open>try: ...; return True\<close> with the errors of an \<open>except\<close> clause as \<open>False\<close>.\<close>

definition succeeds :: "(sandbox_error \<Rightarrow> bool) \<Rightarrow> unit sandbox_op \<Rightarrow> bool sandbox_op" where
  "succeeds handled m =
     op_catch (op_seq m (op_return True)) (\<lambda>e. if handled e then op_return False else op_raise e)"

definition evidence_errors :: "sandbox_error \<Rightarrow> bool" where
  "evidence_errors e =
     (case e of Guard_Mismatch \<Rightarrow> True | Guard_State \<Rightarrow> True | Path_Error p \<Rightarrow> True | Writer_State \<Rightarrow> True
      | _ \<Rightarrow> False)"

definition finalization_errors :: "sandbox_error \<Rightarrow> bool" where
  "finalization_errors e =
     (case e of Guard_State \<Rightarrow> True | Artifact_Not_Found p \<Rightarrow> True | Entry_Conflict \<Rightarrow> True | Path_Error p \<Rightarrow> True
      | Artifact_Size p n \<Rightarrow> True | Artifact_Type p \<Rightarrow> True | Writer_State \<Rightarrow> True | _ \<Rightarrow> False)"

definition status_errors :: "sandbox_error \<Rightarrow> bool" where
  "status_errors e = (case e of Job_Not_Found i \<Rightarrow> True | Job_Transition i st \<Rightarrow> True | _ \<Rightarrow> False)"

definition failed_after_terminalization ::
  "sandbox_job \<Rightarrow> docker_result \<Rightarrow> orchestration_failure \<Rightarrow> orchestration_result sandbox_op" where
  "failed_after_terminalization j execution code =
     op_bind (succeeds status_errors
        (mark_failed (sj_job_id j) ''sandbox output finalization could not be persisted'')) (\<lambda>marked.
       op_return (ended Execution_Failed (Some (if marked then code else JOB_STATUS_PERSISTENCE_FAILED))
         (Some execution)))"

definition validate_now ::
  "sandbox_env \<Rightarrow> path \<Rightarrow> expected_artifact list \<Rightarrow> output_validation sandbox_op" where
  "validate_now env dir schema = op_try (\<lambda>s. validate_outputs env schema dir (sb_files s))"

definition finalize_execution ::
  "sandbox_env \<Rightarrow> path \<Rightarrow> sandbox_job \<Rightarrow> docker_result \<Rightarrow> orchestration_result sandbox_op" where
  "finalize_execution env dir j execution =
     op_bind (validate_now env dir (sj_outputs j)) (\<lambda>v.
     op_bind (succeeds finalization_errors (persist_validation_and_manifest env dir v (sj_outputs j))) (\<lambda>stored.
       if \<not> stored then failed_after_terminalization j execution ARTIFACT_PERSISTENCE_FAILED
       else if oe_succeeded (ov_evidence v) then
         (case ov_result v of
            None \<Rightarrow> failed_after_terminalization j execution ARTIFACT_PERSISTENCE_FAILED
          | Some e \<Rightarrow>
              op_bind (succeeds status_errors (mark_succeeded (sj_job_id j) (en_summary e))) (\<lambda>marked.
                op_return (if marked then ended Execution_Succeeded None (Some execution)
                  else ended Execution_Failed (Some JOB_STATUS_PERSISTENCE_FAILED) (Some execution))))
       else
         op_bind (succeeds status_errors (mark_failed (sj_job_id j)
             (validation_failure_reason (oe_failure_code (ov_evidence v))))) (\<lambda>marked.
           op_return (ended Execution_Failed
             (Some (if marked then OUTPUT_VALIDATION_FAILED else JOB_STATUS_PERSISTENCE_FAILED))
             (Some execution)))))"

text \<open>What follows the run: its evidence, then the failure it reports or the outputs it left.\<close>

definition conclude_execution ::
  "sandbox_env \<Rightarrow> path \<Rightarrow> sandbox_job \<Rightarrow> docker_request \<Rightarrow> docker_result \<Rightarrow> orchestration_result sandbox_op" where
  "conclude_execution env dir j q execution =
     (let persistence_failed =
        op_seq (record_failure j Execution_Failed ARTIFACT_PERSISTENCE_FAILED)
          (op_return (ended Execution_Failed (Some ARTIFACT_PERSISTENCE_FAILED) (Some execution))) in
      case classify_execution execution of
        None \<Rightarrow>
          op_bind (succeeds evidence_errors (persist_execution env dir
              (evidence_from Execution_Failed execution (Some q) (Some ''invalid_runner_result'')))) (\<lambda>stored.
            if \<not> stored then persistence_failed
            else op_seq (record_failure j Execution_Failed INVALID_RUNNER_RESULT)
              (op_return (ended Execution_Failed (Some INVALID_RUNNER_RESULT) (Some execution))))
      | Some (st, failure) \<Rightarrow>
          op_bind (succeeds evidence_errors (persist_execution env dir
              (evidence_from st execution (Some q) None))) (\<lambda>stored.
            if \<not> stored then persistence_failed
            else case failure of
              Some c \<Rightarrow> op_seq (record_failure j st (Runner_Failure c))
                (op_return (ended st (Some (Runner_Failure c)) (Some execution)))
            | None \<Rightarrow> finalize_execution env dir j execution))"

definition start_container ::
  "sandbox_env \<Rightarrow> path \<Rightarrow> sandbox_job \<Rightarrow> string \<Rightarrow> orchestration_result sandbox_op" where
  "start_container env dir j img =
     op_bind (ensure_directory dir output_directory) (\<lambda>outdir.
     op_bind (path_for dir generated_code_path) (\<lambda>code.
     op_bind (op_collect (map (path_for dir) (sj_read_paths j))) (\<lambda>inputs.
     op_bind (op_lift (new_docker_request img code inputs outdir (sj_limits j))) (\<lambda>q.
     op_bind (run_docker env q) (conclude_execution env dir j q)))))"

text \<open>\<open>SandboxDockerOrchestrator.execute\<close>.\<close>

definition orchestrate ::
  "sandbox_env \<Rightarrow> path \<Rightarrow> sandbox_job \<Rightarrow> guard_result \<Rightarrow> string \<Rightarrow> orchestration_result sandbox_op" where
  "orchestrate env dir j g img =
     (let rejected = (\<lambda>c. op_return (ended Execution_Rejected (Some c) None)) in
      if gr_code_digest g \<noteq> code_digest env j then rejected GUARD_DIGEST_MISMATCH
      else if \<not> gr_allowed g then rejected GUARD_DENIED
      else
        op_bind (op_read (\<lambda>s. fst (require_persisted_guard g s))) (\<lambda>r. case r of
            Inl Guard_Mismatch \<Rightarrow> rejected GUARD_EVIDENCE_MISMATCH
          | Inl _ \<Rightarrow> rejected GUARD_NOT_PERSISTED
          | Inr _ \<Rightarrow> start_container env dir j img))"

subsection \<open>Lifecycle events\<close>

definition persist_lifecycle_event ::
  "sandbox_env \<Rightarrow> path \<Rightarrow> sandbox_job \<Rightarrow> string \<Rightarrow> string \<Rightarrow> string \<Rightarrow> (string \<times> json) list \<Rightarrow> unit sandbox_op" where
  "persist_lifecycle_event env dir j event status summary metadata =
     op_bind next_tick (\<lambda>n.
     op_seq (persist_lifecycle_line env dir (JObj
        [(''event_id'', JStr (se_uuid env n)), (''created_at'', JStr (se_now env n)),
         (''event_type'', JStr event), (''job_id'', JStr (sj_job_id j)), (''run_id'', JStr (sj_run_id j)),
         (''correlation_id'', JStr (sj_correlation_id j)), (''status'', JStr status),
         (''summary'', JStr summary), (''metadata'', JObj metadata)]))
      (op_write (\<lambda>s. s\<lparr>sb_audit := sb_audit s @
         [\<lparr>ae_event_type = event, ae_status = status, ae_job_id = sj_job_id j,
           ae_correlation_id = sj_correlation_id j, ae_metadata = metadata\<rparr>]\<rparr>)))"

definition failure_reason :: "orchestration_failure option \<Rightarrow> string" where
  "failure_reason c =
     (case c of
        None \<Rightarrow> ''sandbox execution did not produce a validated result''
      | Some (Runner_Failure d) \<Rightarrow>
          if d \<in> rejecting_failures then ''sandbox execution boundary rejected the job''
          else ''sandbox runtime failed''
      | Some d \<Rightarrow> orchestration_failure_value d)"

subsection \<open>Retained jobs\<close>

definition retained_error :: "string \<Rightarrow> 'a option \<Rightarrow> sandbox_error + 'a" where
  "retained_error name v = (case v of None \<Rightarrow> Inl (Model_Invalid name) | Some x \<Rightarrow> Inr x)"

definition assert_binding ::
  "sandbox_env \<Rightarrow> sandbox_row \<Rightarrow> sandbox_job \<Rightarrow> retained_arguments \<Rightarrow> string list \<Rightarrow> sandbox_error + unit" where
  "assert_binding env r j a references =
     (if sr_code_digest r \<noteq> code_digest env j \<or> ra_code_digest a \<noteq> code_digest env j
      then Inl (Execution_Error ''sandbox job digest mismatch'')
      else if ra_purpose a \<noteq> sj_purpose j then Inl (Execution_Error ''sandbox purpose binding changed'')
      else if ra_correlation_id a \<noteq> sj_correlation_id j
      then Inl (Execution_Error ''sandbox correlation binding changed'')
      else if ra_input_references a \<noteq> sj_read_paths j
      then Inl (Execution_Error ''sandbox input binding changed'')
      else if references \<noteq> sj_read_paths j
      then Inl (Execution_Error ''sandbox retained input references changed'')
      else if ra_limits a \<noteq> sj_limits j then Inl (Execution_Error ''sandbox resource binding changed'')
      else Inr ())"

definition enter_run :: "sandbox_env \<Rightarrow> string \<Rightarrow> unit sandbox_op" where
  "enter_run env run_id =
     (if run_id = se_run_id env then op_return () else op_write (on_files (se_new_run env run_id)))"

definition max_request_bytes :: int where
  "max_request_bytes = 32768"

definition max_code_bytes :: int where
  "max_code_bytes = 65536"

definition max_input_reference_bytes :: int where
  "max_input_reference_bytes = 16384"

definition retained_job :: "retained_arguments \<Rightarrow> sandbox_row \<Rightarrow> retained_request \<Rightarrow> string \<Rightarrow> sandbox_job" where
  "retained_job a r q code =
     \<lparr>sj_job_id = ra_job_id a, sj_run_id = ra_run_id a, sj_purpose = rq_purpose q, sj_code = code,
      sj_correlation_id = rq_correlation_id q, sj_limits = rq_limits q,
      sj_network_enabled = rq_network_enabled q, sj_read_paths = sr_read_paths r,
      sj_outputs = sr_outputs r, sj_status = sr_status r\<rparr>"

definition chosen_image :: "sandbox_env \<Rightarrow> retained_arguments \<Rightarrow> sandbox_error + string" where
  "chosen_image env a =
     (if ra_image a = se_image env then Inr (se_image env) else parse_docker_image_reference (ra_image a))"

definition queued_row :: "retained_arguments \<Rightarrow> sandbox_state \<Rightarrow> sandbox_error + sandbox_row" where
  "queued_row a s =
     (case find_job (ra_job_id a) s of
        None \<Rightarrow> Inl (Execution_Error (''sandbox job not found: '' @ ra_job_id a))
      | Some r \<Rightarrow>
          if sr_status r \<noteq> Queued then Inl (Job_Transition (ra_job_id a) (sandbox_status_value (sr_status r)))
          else Inr r)"

definition load_retained_sandbox_job :: "sandbox_env \<Rightarrow> pdict \<Rightarrow> (sandbox_job \<times> string) sandbox_op" where
  "load_retained_sandbox_job env arguments =
     op_bind (op_lift (retained_error ''arguments'' (se_arguments env arguments))) (\<lambda>a.
     op_seq (op_guard (\<not> valid_limits (ra_limits a)) (Model_Invalid ''resource_limits''))
     (op_bind (op_try (queued_row a)) (\<lambda>r.
     op_seq (enter_run env (ra_run_id a))
     (op_bind (open_storage env (ra_run_id a) (ra_job_id a)) (\<lambda>dir.
     op_bind (read_bounded_regular_file dir request_path max_request_bytes) (\<lambda>request_text.
     op_bind (op_lift (retained_error ''request'' (se_retained_request env request_text))) (\<lambda>q.
     op_seq (op_guard (\<not> valid_limits (rq_limits q)) (Model_Invalid ''resource_limits''))
     (op_bind (read_bounded_regular_file dir generated_code_path max_code_bytes) (\<lambda>code.
     op_seq (op_guard (\<not> se_utf8 env code) (Invalid_Value ''invalid utf-8''))
     (op_bind (read_bounded_regular_file dir input_references_path max_input_reference_bytes) (\<lambda>reference_text.
     op_bind (op_lift (retained_error ''references'' (se_references env reference_text))) (\<lambda>references.
     op_bind (op_lift (assert_binding env r (retained_job a r q code) a references)) (\<lambda>_.
     op_bind (op_lift (chosen_image env a)) (\<lambda>img.
       op_return (retained_job a r q code, img)))))))))))))))"

subsection \<open>Answers\<close>

definition validated_only_caveat :: string where
  "validated_only_caveat =
     ''Validated artifacts only; generated code, stdout, stderr, and '' @
     ''unvalidated files were not used for the final answer.''"

definition sandbox_answer ::
  "string \<Rightarrow> string \<Rightarrow> string \<Rightarrow> string \<Rightarrow> string list \<Rightarrow> pdict \<Rightarrow> assistant_answer" where
  "sandbox_answer summary basis caveats traced refs metadata =
     \<lparr>aa_summary = summary, aa_basis = basis, aa_risks_caveats = caveats, aa_tool_trace_summary = traced,
      aa_missing_data = [], aa_grounded_source_refs = refs, aa_research_metadata = metadata,
      aa_claim_source_refs = []\<rparr>"

definition manifest_count :: "sandbox_env \<Rightarrow> string \<Rightarrow> sandbox_error + nat" where
  "manifest_count env text =
     (case se_loads env text of
        Loaded (JObj kvs) \<Rightarrow>
          (case map_of (rev kvs) ''entries'' of
             None \<Rightarrow> Inr 0
           | Some (JArr js) \<Rightarrow> Inr (length js)
           | Some _ \<Rightarrow> Inl (Invalid_Value ''entries''))
      | Load_Raises m \<Rightarrow> Inl (Invalid_Value m)
      | _ \<Rightarrow> Inl (Invalid_Value ''manifest.json''))"

definition max_manifest_bytes :: int where
  "max_manifest_bytes = 262144"

definition success_answer :: "sandbox_env \<Rightarrow> path \<Rightarrow> sandbox_job \<Rightarrow> string \<Rightarrow> assistant_answer sandbox_op" where
  "success_answer env dir j step_id =
     op_bind (read_bounded_regular_file dir result_path max_result_json_bytes) (\<lambda>text.
     op_bind (op_lift (parse_result env text)) (\<lambda>parsed.
     case parsed of
       None \<Rightarrow> op_raise (Execution_Error ''validated sandbox result could not be parsed'')
     | Some e \<Rightarrow>
         op_bind (read_bounded_regular_file dir summary_path max_summary_markdown_bytes) (\<lambda>_.
         op_bind (read_bounded_regular_file dir manifest_path max_manifest_bytes) (\<lambda>manifest_text.
         op_bind (op_lift (manifest_count env manifest_text)) (\<lambda>n.
           op_return (sandbox_answer (en_summary e)
             (''Validated sandbox job '' @ sj_job_id j @ '' completed with '' @ render_int (int n) @
              '' persisted artifacts.'')
             (''Research-only sandbox result. '' @ validated_only_caveat)
             ''Executed sandbox.run_research_code through the Docker sandbox.''
             [''tool:sandbox.run_research_code:'' @ step_id, sj_job_id j]
             [(''sandbox_job_id'', PStr (sj_job_id j)), (''sandbox_run_id'', PStr (sj_run_id j)),
              (''sandbox_correlation_id'', PStr (sj_correlation_id j)),
              (''sandbox_manifest_path'', PStr (''logs/runs/'' @ sj_run_id j @ ''/sandbox/'' @ sj_job_id j @
                 ''/manifest.json''))]))))))"

definition rejected_answer :: "sandbox_job \<Rightarrow> assistant_answer" where
  "rejected_answer j =
     sandbox_answer (''Sandbox job '' @ sj_job_id j @ '' was rejected before execution.'')
       ''The static sandbox guard rejected the retained generated code.''
       validated_only_caveat ''No validated sandbox result was produced.'' []
       [(''sandbox_job_id'', PStr (sj_job_id j)), (''sandbox_status'', PStr ''rejected'')]"

definition failed_answer :: "sandbox_job \<Rightarrow> string \<Rightarrow> assistant_answer" where
  "failed_answer j reason =
     sandbox_answer (''Sandbox job '' @ sj_job_id j @ '' failed: '' @ reason @ ''.'')
       ''The Docker sandbox did not produce a validated result.''
       validated_only_caveat ''No validated sandbox result was produced.'' []
       [(''sandbox_job_id'', PStr (sj_job_id j)), (''sandbox_status'', PStr ''failed'')]"

subsection \<open>The execution\<close>

definition persist_manifest :: "sandbox_env \<Rightarrow> path \<Rightarrow> sandbox_job \<Rightarrow> unit sandbox_op" where
  "persist_manifest env dir j =
     op_bind (validate_now env dir (sj_outputs j)) (\<lambda>v.
       persist_validation_and_manifest env dir v (sj_outputs j))"

definition reject_code :: "sandbox_env \<Rightarrow> path \<Rightarrow> sandbox_job \<Rightarrow> guard_result \<Rightarrow> assistant_answer sandbox_op" where
  "reject_code env dir j g =
     op_seq (mark_rejected (sj_job_id j) ''sandbox static guard rejected generated code'')
     (op_seq (persist_lifecycle_event env dir j ''SANDBOX_GUARD_REJECTED'' ''rejected''
         ''Sandbox job was rejected by the static guard.''
         [(''code_digest'', JStr (gr_code_digest g)),
          (''rule_codes'', JArr (map JStr (sort (remdups (map (rule_value \<circ> gv_rule) (gr_violations g)))))),
          (''violation_count'', JInt (int (length (gr_violations g))))])
     (op_seq (persist_manifest env dir j) (op_return (rejected_answer j))))"

text \<open>The terminal status of a run that did not succeed, where the orchestrator left none.\<close>

definition close_job :: "sandbox_job \<Rightarrow> orchestration_result \<Rightarrow> unit sandbox_op" where
  "close_job j res =
     op_bind (get_sandbox_job (sj_job_id j)) (\<lambda>stored.
       if (case stored of None \<Rightarrow> False | Some r \<Rightarrow> sr_status r \<in> active_sources) then
         (if or_status res = Execution_Rejected then mark_rejected (sj_job_id j) (failure_reason (or_failure res))
          else mark_failed (sj_job_id j) (failure_reason (or_failure res)))
       else op_return ())"

definition report_failure ::
  "sandbox_env \<Rightarrow> path \<Rightarrow> sandbox_job \<Rightarrow> string \<Rightarrow> orchestration_result \<Rightarrow> assistant_answer sandbox_op" where
  "report_failure env dir j img res =
     op_seq (close_job j res)
     (op_bind (get_sandbox_job (sj_job_id j)) (\<lambda>stored.
      op_seq (persist_lifecycle_event env dir j ''SANDBOX_JOB_FAILED''
          (sandbox_status_value (case stored of None \<Rightarrow> sj_status j | Some r \<Rightarrow> sr_status r))
          ''Sandbox job did not produce a validated result.''
          [(''failure_code'', text_json (map_option orchestration_failure_value (or_failure res))),
           (''image_digest'', JStr (image_digest img))])
      (op_seq (persist_manifest env dir j)
        (op_return (failed_answer j (failure_reason (or_failure res)))))))"

definition run_claimed ::
  "sandbox_env \<Rightarrow> path \<Rightarrow> sandbox_job \<Rightarrow> guard_result \<Rightarrow> string \<Rightarrow> string \<Rightarrow> assistant_answer sandbox_op" where
  "run_claimed env dir j g img step_id =
     op_seq (persist_lifecycle_event env dir j ''SANDBOX_JOB_STARTED'' ''running''
        ''Sandbox job execution started.''
        [(''image_digest'', JStr (image_digest img)), (''runtime_kind'', JStr ''docker'')])
     (op_bind (orchestrate env dir j g img) (\<lambda>res.
        if or_status res = Execution_Succeeded then
          op_seq (persist_lifecycle_event env dir j ''SANDBOX_JOB_SUCCEEDED'' ''succeeded''
            ''Sandbox job completed successfully.'' [(''image_digest'', JStr (image_digest img))])
          (op_seq (persist_manifest env dir j) (success_answer env dir j step_id))
        else report_failure env dir j img res))"

definition execute_job ::
  "sandbox_env \<Rightarrow> sandbox_job \<Rightarrow> string \<Rightarrow> string \<Rightarrow> assistant_answer sandbox_op" where
  "execute_job env j img step_id =
     op_seq (enter_run env (sj_run_id j))
     (op_bind (open_storage env (sj_run_id j) (sj_job_id j)) (\<lambda>dir.
      op_seq (op_write (on_writer (\<lambda>_. new_writer)))
      (op_seq (persist_request env dir j)
      (let g = evaluate_code (se_sha256 env) (se_parse env) (sj_code j) in
       op_seq (persist_guard env dir g)
         (if \<not> gr_allowed g then reject_code env dir j g else run_claimed env dir j g img step_id)))))"

definition execute_prepared_sandbox_turn ::
  "sandbox_env \<Rightarrow> assistant_plan \<Rightarrow> string \<Rightarrow> assistant_answer sandbox_op" where
  "execute_prepared_sandbox_turn env plan plan_hash =
     (case ap_steps plan of
        [step] \<Rightarrow>
          if ps_tool step \<noteq> ''sandbox.run_research_code''
          then op_raise (Execution_Error ''prepared plan is not a sandbox execution request'')
          else
            op_bind (load_retained_sandbox_job env (ps_arguments step)) (\<lambda>(j, img).
            op_bind (require_bound_approval env plan_hash j) (\<lambda>_.
            op_seq (claim_for_validation (sj_job_id j)) (execute_job env j img (ps_id step))))
      | _ \<Rightarrow> op_raise (Execution_Error ''sandbox execution requires exactly one prepared step''))"

subsection \<open>The service\<close>

definition with_service :: "sandbox_env \<Rightarrow> 'a sandbox_op \<Rightarrow> 'a sandbox_op" where
  "with_service env m = op_bind (op_lift (parse_docker_image_reference (se_image env))) (\<lambda>_. m)"

definition default_limits :: resource_limits where
  "default_limits = \<lparr>rl_cpu_millis = 500, rl_memory_mb = 256, rl_timeout_seconds = 30\<rparr>"

definition preview_arguments :: "sandbox_env \<Rightarrow> sandbox_job \<Rightarrow> string \<Rightarrow> pdict" where
  "preview_arguments env j summary =
     [(''purpose'', PStr (sj_purpose j)), (''job_id'', PStr (sj_job_id j)), (''run_id'', PStr (sj_run_id j)),
      (''correlation_id'', PStr (sj_correlation_id j)), (''code_summary'', PStr summary),
      (''code_digest'', PStr (code_digest env j)),
      (''input_references'', PList (map PStr (sj_read_paths j))),
      (''resource_limits'', PDict
         [(''cpu_millis'', PInt (rl_cpu_millis (sj_limits j))), (''memory_mb'', PInt (rl_memory_mb (sj_limits j))),
          (''timeout_seconds'', PInt (rl_timeout_seconds (sj_limits j)))]),
      (''image'', PStr (se_image env)), (''image_digest'', PStr (image_digest (se_image env)))]"

definition created_metadata :: "sandbox_env \<Rightarrow> sandbox_job \<Rightarrow> (string \<times> json) list" where
  "created_metadata env j =
     [(''code_digest'', JStr (code_digest env j)), (''image_digest'', JStr (image_digest (se_image env))),
      (''cpu_millis'', JInt (rl_cpu_millis (sj_limits j))), (''memory_mb'', JInt (rl_memory_mb (sj_limits j))),
      (''timeout_seconds'', JInt (rl_timeout_seconds (sj_limits j))),
      (''input_reference_count'', JInt (int (length (sj_read_paths j)))),
      (''network_enabled'', JBool (sj_network_enabled j))]"

definition prepare_job :: "sandbox_env \<Rightarrow> string \<Rightarrow> (sandbox_job \<times> string) sandbox_op" where
  "prepare_job env purpose =
     op_bind (op_lift (se_generate env purpose)) (\<lambda>program.
     op_bind (op_lift (validate_job_request
        \<lparr>jq_purpose = purpose, jq_code = gp_code program, jq_correlation_id = se_correlation_id env,
         jq_limits = default_limits, jq_input_paths = gp_references program\<rparr>)) (\<lambda>q.
     op_bind next_tick (\<lambda>n.
     op_bind (op_lift (into_job q (''job-'' @ se_uuid env n) (se_run_id env))) (\<lambda>j.
     op_seq (create_job env j)
     (op_bind (open_storage env (sj_run_id j) (sj_job_id j)) (\<lambda>dir.
      op_seq (op_write (on_writer (\<lambda>_. new_writer)))
      (op_seq (persist_request env dir j)
      (op_seq (persist_lifecycle_event env dir j ''SANDBOX_JOB_CREATED'' ''queued''
          ''Sandbox job created and awaiting approval.'' (created_metadata env j))
        (op_return (j, gp_summary program))))))))))"

definition materialize_sandbox_plan :: "sandbox_env \<Rightarrow> assistant_plan \<Rightarrow> assistant_plan sandbox_op" where
  "materialize_sandbox_plan env plan =
     (case ap_steps plan of
        [step] \<Rightarrow>
          if ps_tool step \<noteq> ''sandbox.run_research_code'' \<or> ''job_id'' \<in> fst ` set (ps_arguments step)
          then op_return plan
          else
            op_bind (prepare_job env (strip (py_str (se_repr env)
               (dict_get_or (ps_arguments step) ''purpose'' (PStr ''offline research calculation'')))))
              (\<lambda>(j, summary). op_return (plan\<lparr>ap_steps :=
                 [step\<lparr>ps_arguments := preview_arguments env j summary\<rparr>]\<rparr>))
      | _ \<Rightarrow> op_return plan)"

definition approve_prepared_turn ::
  "sandbox_env \<Rightarrow> assistant_plan \<Rightarrow> string \<Rightarrow> string \<Rightarrow> moment option \<Rightarrow> approval sandbox_op" where
  "approve_prepared_turn env plan plan_hash approver tm =
     (case ap_steps plan of
        [step] \<Rightarrow>
          if ps_tool step \<noteq> ''sandbox.run_research_code''
          then op_raise (Invalid_Value ''prepared plan is not a sandbox execution request'')
          else
            op_bind (load_retained_sandbox_job env (ps_arguments step)) (\<lambda>(j, img).
              create_bound_approval env plan_hash j approver tm)
      | _ \<Rightarrow> op_raise (Execution_Error ''sandbox execution requires exactly one prepared step''))"

text \<open>
  \<open>warehouse_transaction\<close> around a call: an exception undoes what was written to the warehouse, not the
  files and not the containers.
\<close>

definition in_warehouse_transaction :: "'a sandbox_op \<Rightarrow> 'a sandbox_op" where
  "in_warehouse_transaction m =
     (\<lambda>s. case m s of
        (Inl e, t) \<Rightarrow> (Inl e, t\<lparr>sb_jobs := sb_jobs s, sb_approvals := sb_approvals s\<rparr>)
      | (Inr x, t) \<Rightarrow> (Inr x, t))"

text \<open>The calls of the service, connected (each write is kept) or coordinated (in a transaction).\<close>

datatype sandbox_call =
    Materialize assistant_plan
  | Approve assistant_plan string string "moment option"
  | Execute assistant_plan string

definition service_call :: "sandbox_env \<Rightarrow> sandbox_call \<Rightarrow> unit sandbox_op" where
  "service_call env c =
     (case c of
        Materialize plan \<Rightarrow>
          with_service env (op_bind (materialize_sandbox_plan env plan) (\<lambda>_. op_return ()))
      | Approve plan plan_hash approver tm \<Rightarrow>
          with_service env (op_bind (approve_prepared_turn env plan plan_hash approver tm) (\<lambda>_. op_return ()))
      | Execute plan plan_hash \<Rightarrow>
          with_service env (op_bind (execute_prepared_sandbox_turn env plan plan_hash) (\<lambda>_. op_return ())))"

definition coordinated_call :: "sandbox_env \<Rightarrow> bool \<Rightarrow> sandbox_call \<Rightarrow> unit sandbox_op" where
  "coordinated_call env coordinated c =
     (if coordinated then in_warehouse_transaction (service_call env c) else service_call env c)"

end
