(* ===== verification/Sandbox_Frames.thy ===== *)
theory Sandbox_Frames
  imports Sandbox_Run
begin

section \<open>What the sandbox operations leave alone\<close>

text \<open>
  Relations between the state before and after that every operation of a layer moves along.
  \<open>writer_frame\<close>: the relation survives writing the artifacts whose names are allowed, so it survives the
  operations of the writer.  \<open>store_frame\<close>: it only looks at the tables and the container calls, so it
  survives everything done to files.  \<open>table_frame\<close>: it survives the operations on the two tables, hence all
  that is done without a container.  \<open>service_frame\<close>: it also survives calls of the Docker command, hence
  every call of the service.
\<close>

lemma bind_tick [op_simps]:
  "op_bind next_tick f s = f (sb_tick s) (s\<lparr>sb_tick := sb_tick s + 1\<rparr>)"
  by (simp add: op_bind_def next_tick_def)

subsection \<open>Rules of every frame\<close>

locale sandbox_frame = effect_frame rel
  for rel :: "sandbox_state \<Rightarrow> sandbox_state \<Rightarrow> bool"
begin

lemma keeps_collect: "\<forall>m \<in> set ms. keeps m \<Longrightarrow> keeps (op_collect ms)"
  by (induction ms) (auto intro: keeps_rules)

lemma keeps_sum:
  "(\<And>e. keeps (f e)) \<Longrightarrow> (\<And>x. keeps (g x)) \<Longrightarrow> keeps (case r of Inl e \<Rightarrow> f e | Inr x \<Rightarrow> g x)"
  by (cases r) simp_all

lemma keeps_pair: "(\<And>a b. keeps (f a b)) \<Longrightarrow> keeps (case p of (a, b) \<Rightarrow> f a b)"
  by (cases p) simp

lemma keeps_node:
  "(\<And>c. keeps (f c)) \<Longrightarrow> keeps d \<Longrightarrow> (\<And>b. keeps (l b)) \<Longrightarrow> keeps sp \<Longrightarrow>
   keeps (case n of Regular c \<Rightarrow> f c | Directory \<Rightarrow> d | Link b \<Rightarrow> l b | Special \<Rightarrow> sp)"
  by (cases n) simp_all

lemma keeps_command_error:
  "keeps a \<Longrightarrow> keeps b \<Longrightarrow> keeps c \<Longrightarrow>
   keeps (case e of Command_Not_Found \<Rightarrow> a | Launch_Error \<Rightarrow> b | Timeout_Expired \<Rightarrow> c)"
  by (cases e) simp_all

lemma keeps_single:
  "(\<And>x. keeps (f x)) \<Longrightarrow> keeps m \<Longrightarrow> keeps (case xs of [] \<Rightarrow> m | x # ys \<Rightarrow> (case ys of [] \<Rightarrow> f x | _ # _ \<Rightarrow> m))"
  by (cases xs) (auto split: list.split)

lemma keeps_succeeds: "keeps m \<Longrightarrow> keeps (succeeds handled m)"
  unfolding succeeds_def by (intro keeps_rules)

lemmas sandbox_rules =
  keeps_rules keeps_sum keeps_pair keeps_node keeps_command_error keeps_single keeps_succeeds

end

subsection \<open>The writer\<close>

locale writer_frame = sandbox_frame rel
  for rel :: "sandbox_state \<Rightarrow> sandbox_state \<Rightarrow> bool" +
  fixes env :: sandbox_env
    and dir :: path
    and allowed :: "string \<Rightarrow> bool"
  assumes memory:
      "sb_jobs t = sb_jobs s \<Longrightarrow> sb_approvals t = sb_approvals s \<Longrightarrow> sb_calls t = sb_calls s \<Longrightarrow>
       sb_files t = sb_files s \<Longrightarrow> rel s t"
    and writes: "allowed raw \<Longrightarrow> keeps (write_atomic_bytes env dir raw content)"
    and removes: "allowed raw \<Longrightarrow> keeps (invalidate_file env dir raw)"
begin

lemma keeps_tick: "keeps next_tick"
  by (simp add: keeps_def next_tick_def memory)

lemma keeps_on_writer: "keeps (op_write (on_writer f))"
  by (rule keeps_write) (simp add: memory on_writer_def)

lemma keeps_host_entries: "keeps host_entries" "keeps (set_host_entries es)"
  unfolding host_entries_def set_host_entries_def by (intro keeps_try keeps_on_writer)+

lemma keeps_validate: "keeps (validate_now env dir schema)"
  unfolding validate_now_def by (rule keeps_try)

lemmas writer_rules = sandbox_rules keeps_tick keeps_on_writer keeps_host_entries keeps_validate writes removes

lemma keeps_request:
  assumes "\<forall>raw \<in> {manifest_path, guard_path, request_path, generated_code_path, input_references_path}. allowed raw"
  shows "keeps (persist_request env dir j)"
  unfolding persist_request_def using assms by (intro writer_rules) auto

lemma keeps_guard_file:
  assumes "allowed manifest_path" "allowed guard_path"
  shows "keeps (persist_guard env dir g)"
  unfolding persist_guard_def using assms by (intro writer_rules)

lemma keeps_execution:
  assumes "\<forall>raw \<in> {manifest_path, stdout_path, stderr_path, execution_path}. allowed raw"
  shows "keeps (persist_execution env dir ev)"
  unfolding persist_execution_def using assms by (intro writer_rules) auto

lemma keeps_lifecycle_line:
  assumes "allowed manifest_path" "allowed lifecycle_file"
  shows "keeps (persist_lifecycle_line env dir payload)"
  unfolding persist_lifecycle_line_def using assms by (intro writer_rules)

lemma keeps_lifecycle:
  assumes "allowed manifest_path" "allowed lifecycle_file"
  shows "keeps (persist_lifecycle_event env dir j event status summary metadata)"
  unfolding persist_lifecycle_event_def
  by (intro keeps_bind keeps_seq keeps_tick keeps_lifecycle_line [OF assms] keeps_write) (simp add: memory)

lemma keeps_validation:
  assumes "allowed manifest_path" "allowed validation_path"
  shows "keeps (persist_validation_and_manifest env dir v schema)"
  unfolding persist_validation_and_manifest_def Let_def using assms by (intro writer_rules)

lemma keeps_manifest:
  assumes "allowed manifest_path" "allowed validation_path"
  shows "keeps (persist_manifest env dir j)"
  unfolding persist_manifest_def by (intro keeps_bind keeps_validate keeps_validation [OF assms])

lemma keeps_record_failure: "keeps (record_failure j st code)"
  unfolding record_failure_def by (rule keeps_write) (simp add: memory)

end

subsection \<open>Files\<close>

locale store_frame = sandbox_frame rel
  for rel :: "sandbox_state \<Rightarrow> sandbox_state \<Rightarrow> bool" +
  assumes same_tables:
      "sb_jobs t = sb_jobs s \<Longrightarrow> sb_approvals t = sb_approvals s \<Longrightarrow> sb_calls t = sb_calls s \<Longrightarrow> rel s t"
begin

lemma keeps_on_files: "keeps (op_write (on_files f))"
  by (rule keeps_write) (simp add: same_tables on_files_def)

lemma keeps_next: "keeps next_tick"
  by (simp add: keeps_def next_tick_def same_tables)

lemmas file_rules = sandbox_rules keeps_on_files keeps_next

lemma keeps_open_directory: "keeps (open_or_create_directory raw p)"
  unfolding open_or_create_directory_def by (intro file_rules)

lemma keeps_create_directories: "keeps (create_directories raw ps)"
  unfolding create_directories_def by (rule keeps_all) (auto intro: keeps_open_directory)

lemma keeps_open_storage: "keeps (open_storage e run_id job_id)"
  unfolding open_storage_def Let_def by (intro file_rules keeps_open_directory)

lemma keeps_write_file: "keeps (write_atomic_bytes e dir raw content)"
  unfolding write_atomic_bytes_def write_atomic_file_def by (intro file_rules keeps_create_directories)

lemma keeps_remove_file: "keeps (invalidate_file e dir raw)"
  unfolding invalidate_file_def remove_leaf_def by (intro file_rules) (auto intro!: file_rules split: bool.split)

lemma keeps_ensure_directory: "keeps (ensure_directory dir raw)"
  unfolding ensure_directory_def by (intro file_rules keeps_create_directories)

lemma keeps_path_for: "keeps (path_for dir raw)"
  unfolding path_for_def by (intro file_rules)

lemma keeps_path_for_all: "keeps (op_collect (map (path_for dir) ps))"
  by (rule keeps_collect) (auto intro: keeps_path_for)

lemma keeps_read_file: "keeps (read_bounded_regular_file dir raw max_bytes)"
  unfolding read_bounded_regular_file_def by (rule keeps_try)

lemma keeps_enter_run: "keeps (enter_run e run_id)"
  unfolding enter_run_def by (intro file_rules)

lemma keeps_load: "keeps (load_retained_sandbox_job e arguments)"
  unfolding load_retained_sandbox_job_def
  by (intro file_rules keeps_enter_run keeps_open_storage keeps_read_file)

lemma keeps_success_answer: "keeps (success_answer e dir j step_id)"
  unfolding success_answer_def by (intro file_rules keeps_read_file)

lemma keeps_get_job: "keeps (get_sandbox_job i)"
  unfolding get_sandbox_job_def by (rule keeps_read)

lemma keeps_require: "keeps (require_bound_approval e h j)"
  unfolding require_bound_approval_def by (rule keeps_try)

end

sublocale store_frame \<subseteq> files: writer_frame rel e dir "\<lambda>_. True" for e dir
  by unfold_locales (auto intro: same_tables keeps_write_file keeps_remove_file)

context store_frame
begin

lemmas artifact_rules =
  files.keeps_request [OF ballI, OF TrueI] files.keeps_guard_file [OF TrueI TrueI]
  files.keeps_execution [OF ballI, OF TrueI] files.keeps_lifecycle [OF TrueI TrueI]
  files.keeps_validation [OF TrueI TrueI] files.keeps_manifest [OF TrueI TrueI]
  files.keeps_record_failure files.keeps_validate files.keeps_on_writer

lemmas store_rules =
  file_rules artifact_rules keeps_open_storage keeps_ensure_directory keeps_path_for keeps_path_for_all
  keeps_read_file keeps_enter_run keeps_load keeps_success_answer keeps_get_job keeps_require

end

subsection \<open>The tables\<close>

locale table_frame = store_frame +
  assumes creates: "keeps (create_job e j)"
    and claims: "keeps (claim_for_validation i)"
    and succeeding: "keeps (mark_succeeded i detail)"
    and rejecting: "keeps (mark_rejected i detail)"
    and failing: "keeps (mark_failed i detail)"
    and approves: "keeps (create_approval a)"
begin

lemmas table_rules = store_rules creates claims succeeding rejecting failing approves

lemma keeps_finalize: "keeps (finalize_execution e dir j execution)"
  unfolding finalize_execution_def failed_after_terminalization_def by (intro table_rules)

lemma keeps_conclude: "keeps (conclude_execution e dir j q execution)"
  unfolding conclude_execution_def Let_def by (intro table_rules keeps_finalize)

lemma keeps_report: "keeps (report_failure e dir j img res)"
  unfolding report_failure_def close_job_def by (intro table_rules)

lemma keeps_reject: "keeps (reject_code e dir j g)"
  unfolding reject_code_def by (intro table_rules)

lemma keeps_materialize: "keeps (materialize_sandbox_plan e plan)"
  unfolding materialize_sandbox_plan_def prepare_job_def by (intro table_rules)

lemma keeps_approve: "keeps (approve_prepared_turn e plan h approver tm)"
  unfolding approve_prepared_turn_def create_bound_approval_def new_approval_def by (intro table_rules)

end

subsection \<open>Containers\<close>

locale service_frame = table_frame +
  assumes calls: "keeps (invoke e argv timeout)"
begin

lemmas service_rules = table_rules calls keeps_conclude keeps_report keeps_reject

lemma keeps_preflight: "keeps (preflight e img)"
  unfolding preflight_def probe_image_def Let_def by (intro service_rules)

lemma keeps_run_docker: "keeps (run_docker e q)"
  unfolding run_docker_def run_container_def kill_container_def by (intro service_rules keeps_preflight)

lemma keeps_start: "keeps (start_container e dir j img)"
  unfolding start_container_def by (intro service_rules keeps_run_docker)

lemma keeps_orchestrate: "keeps (orchestrate e dir j g img)"
  unfolding orchestrate_def Let_def
  by (intro keeps_if keeps_bind keeps_return keeps_read)
    (auto intro!: service_rules keeps_start split: sum.split sandbox_error.split)

lemma keeps_execute_job: "keeps (execute_job e j img step_id)"
  unfolding execute_job_def run_claimed_def Let_def by (intro service_rules keeps_orchestrate)

lemma keeps_execute: "keeps (execute_prepared_sandbox_turn e plan h)"
  unfolding execute_prepared_sandbox_turn_def by (intro service_rules keeps_execute_job)

lemma keeps_service_call: "keeps (service_call e c)"
  unfolding service_call_def with_service_def
  by (cases c) (auto intro!: service_rules keeps_execute keeps_materialize keeps_approve)

end

end
