(* ===== verification/Sandbox_Life.thy ===== *)
theory Sandbox_Life
  imports Sandbox_Frames
begin

section \<open>The life of a sandbox job\<close>

text \<open>
  What any sequence of calls of the service can do to the two tables, and how often it can start the
  container of a job.  \<open>tables_moved\<close> and \<open>sandbox_ok\<close> are frames of every call; the number of container
  starts is bounded call by call.
\<close>

subsection \<open>Rows only move forward\<close>

text \<open>A row without what a transition writes.\<close>

definition request_part :: "sandbox_row \<Rightarrow> sandbox_row" where
  "request_part r =
     r\<lparr>sr_status := Queued, sr_result_summary := None, sr_rejection_reason := None, sr_failure_reason := None\<rparr>"

fun later_status :: "sandbox_status \<Rightarrow> sandbox_status \<Rightarrow> bool" where
  "later_status Queued st = (st \<in> {Queued, Validating, Succeeded, Failed, Rejected})"
| "later_status Validating st = (st \<in> {Validating, Succeeded, Failed, Rejected})"
| "later_status Running st = (st \<in> {Running, Succeeded, Failed, Rejected})"
| "later_status st st' = (st' = st)"

definition row_moved :: "sandbox_row \<Rightarrow> sandbox_row \<Rightarrow> bool" where
  "row_moved r r' \<longleftrightarrow>
     request_part r' = request_part r \<and> later_status (sr_status r) (sr_status r') \<and>
     (is_terminal (sr_status r) \<longrightarrow> r' = r)"

definition tables_moved :: "sandbox_state \<Rightarrow> sandbox_state \<Rightarrow> bool" where
  "tables_moved s t \<longleftrightarrow>
     length (sb_jobs s) \<le> length (sb_jobs t) \<and>
     list_all2 row_moved (sb_jobs s) (take (length (sb_jobs s)) (sb_jobs t)) \<and>
     take (length (sb_approvals s)) (sb_approvals t) = sb_approvals s"

lemma later_status_refl: "later_status st st"
  by (cases st) auto

lemma later_status_trans: "later_status a b \<Longrightarrow> later_status b c \<Longrightarrow> later_status a c"
  by (cases a; cases b) auto

lemma row_moved_refl: "row_moved r r"
  by (simp add: row_moved_def later_status_refl)

lemma row_moved_trans: "row_moved a b \<Longrightarrow> row_moved b c \<Longrightarrow> row_moved a c"
  unfolding row_moved_def by (metis later_status_trans)

lemma row_moved_id: "row_moved r r' \<Longrightarrow> sr_job_id r' = sr_job_id r"
  unfolding row_moved_def request_part_def by (drule conjunct1, drule arg_cong [where f = sr_job_id]) simp

lemma take_prefix_trans:
  "take (length a) b = a \<Longrightarrow> take (length b) c = b \<Longrightarrow> take (length a) c = a"
  by (metis append_take_drop_id append_assoc append_eq_conv_conj)

lemma tables_moved_refl: "tables_moved s s"
  by (simp add: tables_moved_def list_all2_refl row_moved_refl)

lemma tables_moved_trans:
  assumes "tables_moved s t" and "tables_moved t u"
  shows "tables_moved s u"
proof -
  let ?n = "length (sb_jobs s)"
  have n: "?n \<le> length (sb_jobs t)" "length (sb_jobs t) \<le> length (sb_jobs u)"
    using assms by (simp_all add: tables_moved_def)
  have "list_all2 row_moved (take ?n (sb_jobs t)) (take ?n (take (length (sb_jobs t)) (sb_jobs u)))"
    using assms(2) by (simp only: tables_moved_def list_all2_takeI)
  then have "list_all2 row_moved (take ?n (sb_jobs t)) (take ?n (sb_jobs u))"
    using n by (simp add: min.absorb1)
  moreover have "list_all2 row_moved (sb_jobs s) (take ?n (sb_jobs t))"
    using assms(1) by (simp add: tables_moved_def)
  ultimately have "list_all2 row_moved (sb_jobs s) (take ?n (sb_jobs u))"
    using list_all2_trans [of row_moved row_moved row_moved] row_moved_trans by blast
  with assms n show ?thesis
    by (auto simp: tables_moved_def intro: take_prefix_trans)
qed

lemma tables_moved_same:
  "sb_jobs t = sb_jobs s \<Longrightarrow> sb_approvals t = sb_approvals s \<Longrightarrow> tables_moved s t"
  by (simp add: tables_moved_def list_all2_refl row_moved_refl)

lemma tables_moved_jobs:
  "list_all2 row_moved (sb_jobs s) js \<Longrightarrow> tables_moved s (s\<lparr>sb_jobs := js\<rparr>)"
  using list_all2_lengthD [of row_moved "sb_jobs s" js] by (simp add: tables_moved_def)

lemma tables_moved_append: "tables_moved s (s\<lparr>sb_jobs := sb_jobs s @ js\<rparr>)"
  by (simp add: tables_moved_def list_all2_refl row_moved_refl)

lemma list_all2_update_where:
  "(\<And>r. p r \<Longrightarrow> row_moved r (f r)) \<Longrightarrow> list_all2 row_moved rs (update_where p f rs)"
  by (induction rs) (auto simp: row_moved_refl)

text \<open>An update of a row, as a step of the state.\<close>

lemma update_job_eq:
  "update_job i sources f s =
     (if \<forall>r \<in> set (sb_jobs s). sr_job_id r = i \<and> sr_status r \<in> sources \<longrightarrow> row_constraints (f r)
      then (Inr (\<exists>r \<in> set (sb_jobs s). sr_job_id r = i \<and> sr_status r \<in> sources),
        s\<lparr>sb_jobs := update_where (\<lambda>r. sr_job_id r = i \<and> sr_status r \<in> sources) f (sb_jobs s)\<rparr>)
      else (Inl (Constraint_Violation ''sandbox_job''), s))"
  by (auto simp: update_job_def on_jobs_def op_simps)

lemma update_job_cases:
  obtains "snd (update_job i sources f s) = s"
  | "snd (update_job i sources f s) =
      s\<lparr>sb_jobs := update_where (\<lambda>r. sr_job_id r = i \<and> sr_status r \<in> sources) f (sb_jobs s)\<rparr>"
    "\<forall>r \<in> set (sb_jobs s). sr_job_id r = i \<and> sr_status r \<in> sources \<longrightarrow> row_constraints (f r)"
  by (cases "\<forall>r \<in> set (sb_jobs s). sr_job_id r = i \<and> sr_status r \<in> sources \<longrightarrow> row_constraints (f r)")
    (simp_all add: update_job_eq)

lemma update_job_moves:
  assumes "\<And>r. sr_status r \<in> sources \<Longrightarrow> row_moved r (f r)"
  shows "tables_moved s (snd (update_job i sources f s))"
  by (rule update_job_cases [of i sources f s])
    (auto simp: tables_moved_refl intro!: tables_moved_jobs list_all2_update_where assms)

text \<open>Ending an \<open>UPDATE ... RETURNING\<close> with the error of the row's status changes nothing more.\<close>

lemma transition_error_state: "snd (transition_error i s) = s"
  by (simp add: transition_error_def get_sandbox_job_def op_simps split: option.split)

lemma update_or_error_state:
  "snd (op_bind (update_job i sources f) (\<lambda>hit. if hit then op_return () else transition_error i) s) =
     snd (update_job i sources f s)"
  by (simp add: op_bind_def op_simps transition_error_state split: prod.split sum.split)

lemma claim_state:
  "snd (claim_for_validation i s) = snd (update_job i {Queued} (\<lambda>r. r\<lparr>sr_status := Validating\<rparr>) s)"
  by (simp add: claim_for_validation_def update_or_error_state)

text \<open>The three terminal updates: nothing for a text that is no detail, otherwise the update.\<close>

lemma mark_cases:
  assumes "P s" and "P (snd (update_job i active_sources (f d) s))"
  shows "P (snd (op_bind (op_lift (parse_sandbox_job_detail d)) (\<lambda>d. end_sandbox_job i (f d)) s))"
  using assms by (simp add: parse_sandbox_job_detail_def op_simps end_sandbox_job_def update_or_error_state)

lemma active_not_terminal: "st \<in> active_sources \<longleftrightarrow> \<not> is_terminal st"
  by (auto simp: active_sources_def is_terminal_def)

lemma mark_rows_moved:
  assumes "sr_status r \<in> active_sources"
  shows "row_moved r (r\<lparr>sr_status := Succeeded, sr_result_summary := d\<rparr>)"
    "row_moved r (r\<lparr>sr_status := Rejected, sr_rejection_reason := d\<rparr>)"
    "row_moved r (r\<lparr>sr_status := Failed, sr_failure_reason := d\<rparr>)"
  using assms by (auto simp: row_moved_def request_part_def active_sources_def is_terminal_def)

lemma marks_move:
  "tables_moved s (snd (mark_succeeded i d s))"
  "tables_moved s (snd (mark_rejected i d s))"
  "tables_moved s (snd (mark_failed i d s))"
  unfolding mark_succeeded_def mark_rejected_def mark_failed_def
  by - (rule mark_cases, rule tables_moved_refl, simp add: update_job_moves mark_rows_moved)+

lemma claim_moves: "tables_moved s (snd (claim_for_validation i s))"
  unfolding claim_state by (rule update_job_moves) (auto simp: row_moved_def request_part_def is_terminal_def)

text \<open>An insertion: nothing, or one more row that passed the constraints.\<close>

lemma create_job_cases:
  obtains "sb_jobs (snd (create_job env j s)) = sb_jobs s" "sb_approvals (snd (create_job env j s)) = sb_approvals s"
  | tm where "sb_jobs (snd (create_job env j s)) = sb_jobs s @ [row_of_job env tm j]"
    "sb_approvals (snd (create_job env j s)) = sb_approvals s"
    "sj_job_id j \<notin> sr_job_id ` set (sb_jobs s)" "row_constraints (row_of_job env tm j)" "sj_status j = Queued"
proof -
  let ?r = "row_of_job env (se_clock env (sb_tick s)) j"
  have queued: "sj_status j = Queued" if "validate_sandbox_job j = Inr u" for u
    using that by (simp add: validate_sandbox_job_def split: if_splits)
  show thesis
  proof (cases "(\<exists>u. validate_sandbox_job j = Inr u) \<and>
      \<not> max_approved_read_paths_json_length < code_points (policy_json (sj_read_paths j)) \<and>
      sr_job_id ?r \<notin> sr_job_id ` set (sb_jobs s) \<and> row_constraints ?r")
    case True
    then show thesis
      using that(2) [of "se_clock env (sb_tick s)"] queued
      by (auto simp: create_job_def insert_job_def on_jobs_def op_simps row_of_job_def)
  next
    case False
    then show thesis
      using that(1)
      by (auto simp: create_job_def insert_job_def on_jobs_def op_simps split: sum.split)
  qed
qed

lemma create_moves: "tables_moved s (snd (create_job env j s))"
proof (cases rule: create_job_cases [of env j s])
  case 1
  then show ?thesis by (simp add: tables_moved_same)
next
  case (2 tm)
  then show ?thesis by (simp add: tables_moved_def list_all2_refl row_moved_refl)
qed

lemma create_approval_cases:
  obtains "snd (create_approval a s) = s"
  | "snd (create_approval a s) = s\<lparr>sb_approvals := sb_approvals s @ [a]\<rparr>"
    "av_approval_id a \<notin> av_approval_id ` set (sb_approvals s)" "approval_constraints a"
  by (cases "av_approval_id a \<in> av_approval_id ` set (sb_approvals s) \<or> \<not> approval_constraints a")
    (auto simp: create_approval_def op_simps)

lemma approval_moves: "tables_moved s (snd (create_approval a s))"
  by (rule create_approval_cases [of a s]) (simp_all add: tables_moved_def list_all2_refl row_moved_refl)

lemma invoke_tables:
  "sb_jobs (snd (invoke env argv timeout s)) = sb_jobs s"
  "sb_approvals (snd (invoke env argv timeout s)) = sb_approvals s"
  by (simp_all add: invoke_def split: prod.split)

interpretation life: service_frame tables_moved
proof
  show "tables_moved s u" if "tables_moved s t" "tables_moved t u" for s t u
    using that by (rule tables_moved_trans)
  have f: "effect_frame tables_moved"
    by unfold_locales (rule tables_moved_refl, erule (1) tables_moved_trans)
  note k = effect_frame.keeps_def [OF f]
  show "effect_frame.keeps tables_moved (invoke e argv timeout)" for e argv timeout
    by (simp add: k tables_moved_same invoke_tables)
  show "effect_frame.keeps tables_moved (create_job e j)" for e j
    by (simp add: k create_moves)
  show "effect_frame.keeps tables_moved (claim_for_validation i)" for i
    by (simp add: k claim_moves)
  show "effect_frame.keeps tables_moved (mark_succeeded i d)" "effect_frame.keeps tables_moved (mark_rejected i d)"
    "effect_frame.keeps tables_moved (mark_failed i d)" for i d
    by (simp_all add: k marks_move)
  show "effect_frame.keeps tables_moved (create_approval a)" for a
    by (simp add: k approval_moves)
qed (auto simp: tables_moved_refl intro: tables_moved_same)

subsection \<open>The tables stay well formed\<close>

definition row_consistent :: "sandbox_row \<Rightarrow> bool" where
  "row_consistent r \<longleftrightarrow>
     row_constraints r \<and>
     (sr_result_summary r \<noteq> None \<longleftrightarrow> sr_status r = Succeeded) \<and>
     (sr_rejection_reason r \<noteq> None \<longleftrightarrow> sr_status r = Rejected) \<and>
     (sr_failure_reason r \<noteq> None \<longleftrightarrow> sr_status r = Failed)"

definition sandbox_ok :: "sandbox_state \<Rightarrow> bool" where
  "sandbox_ok s \<longleftrightarrow>
     distinct (map sr_job_id (sb_jobs s)) \<and> (\<forall>r \<in> set (sb_jobs s). row_consistent r) \<and>
     distinct (map av_approval_id (sb_approvals s)) \<and> (\<forall>a \<in> set (sb_approvals s). approval_constraints a)"

lemma sandbox_ok_same:
  "sb_jobs t = sb_jobs s \<Longrightarrow> sb_approvals t = sb_approvals s \<Longrightarrow> sandbox_ok s \<Longrightarrow> sandbox_ok t"
  by (simp add: sandbox_ok_def)

lemma update_job_ok:
  assumes "sandbox_ok s"
    and "\<And>r. sr_job_id (f r) = sr_job_id r"
    and "\<And>r. row_consistent r \<Longrightarrow> sr_status r \<in> sources \<Longrightarrow> row_constraints (f r) \<Longrightarrow> row_consistent (f r)"
  shows "sandbox_ok (snd (update_job i sources f s))"
proof (cases rule: update_job_cases [of i sources f s])
  case 2
  let ?p = "\<lambda>r. sr_job_id r = i \<and> sr_status r \<in> sources"
  have "map sr_job_id (update_where ?p f (sb_jobs s)) = map sr_job_id (sb_jobs s)"
    by (rule map_update_where) (rule assms(2))
  moreover have "\<forall>r \<in> set (update_where ?p f (sb_jobs s)). row_consistent r"
    using 2(2) assms(1,3) by (auto simp: set_update_where sandbox_ok_def)
  ultimately show ?thesis
    using assms(1) 2(1) by (simp add: sandbox_ok_def)
qed (simp add: assms)

lemma claim_ok: "sandbox_ok s \<Longrightarrow> sandbox_ok (snd (claim_for_validation i s))"
  unfolding claim_state by (rule update_job_ok) (auto simp: row_consistent_def)

lemma mark_rows_consistent:
  assumes "row_consistent r" and "sr_status r \<in> active_sources"
  shows "row_constraints (r\<lparr>sr_status := Succeeded, sr_result_summary := Some d\<rparr>) \<Longrightarrow>
      row_consistent (r\<lparr>sr_status := Succeeded, sr_result_summary := Some d\<rparr>)"
    "row_constraints (r\<lparr>sr_status := Rejected, sr_rejection_reason := Some d\<rparr>) \<Longrightarrow>
      row_consistent (r\<lparr>sr_status := Rejected, sr_rejection_reason := Some d\<rparr>)"
    "row_constraints (r\<lparr>sr_status := Failed, sr_failure_reason := Some d\<rparr>) \<Longrightarrow>
      row_consistent (r\<lparr>sr_status := Failed, sr_failure_reason := Some d\<rparr>)"
  using assms by (auto simp: row_consistent_def active_sources_def)

lemma marks_ok:
  assumes "sandbox_ok s"
  shows "sandbox_ok (snd (mark_succeeded i d s))" "sandbox_ok (snd (mark_rejected i d s))"
    "sandbox_ok (snd (mark_failed i d s))"
  unfolding mark_succeeded_def mark_rejected_def mark_failed_def
  by - (rule mark_cases, rule assms, simp add: assms update_job_ok mark_rows_consistent)+

lemma create_ok:
  assumes "sandbox_ok s"
  shows "sandbox_ok (snd (create_job env j s))"
  using assms
  by (cases rule: create_job_cases [of env j s])
    (auto simp: sandbox_ok_def row_consistent_def row_of_job_def)

lemma approval_ok: "sandbox_ok s \<Longrightarrow> sandbox_ok (snd (create_approval a s))"
  by (rule create_approval_cases [of a s]) (auto simp: sandbox_ok_def)

interpretation tables: service_frame "\<lambda>s t. sandbox_ok s \<longrightarrow> sandbox_ok t"
proof
  have f: "effect_frame (\<lambda>s t. sandbox_ok s \<longrightarrow> sandbox_ok t)"
    by unfold_locales auto
  note k = effect_frame.keeps_def [OF f]
  let ?keeps = "effect_frame.keeps (\<lambda>s t. sandbox_ok s \<longrightarrow> sandbox_ok t)"
  show "?keeps (invoke e argv timeout)" for e argv timeout
    by (auto simp: k invoke_tables intro: sandbox_ok_same)
  show "?keeps (create_job e j)" for e j
    by (simp add: k create_ok)
  show "?keeps (claim_for_validation i)" for i
    by (simp add: k claim_ok)
  show "?keeps (mark_succeeded i d)" "?keeps (mark_rejected i d)" "?keeps (mark_failed i d)" for i d
    by (simp_all add: k marks_ok)
  show "?keeps (create_approval a)" for a
    by (simp add: k approval_ok)
qed (auto intro: sandbox_ok_same)

subsection \<open>Histories\<close>

text \<open>Calls one after the other, each coordinated or not.\<close>

definition run_sandbox_calls :: "sandbox_env \<Rightarrow> (bool \<times> sandbox_call) list \<Rightarrow> sandbox_state \<Rightarrow> sandbox_state" where
  "run_sandbox_calls env cs s = fold (\<lambda>(b, c) s. snd (coordinated_call env b c s)) cs s"

lemma coordinated_state:
  "snd (coordinated_call env b c s) = snd (service_call env c s) \<or>
   sb_jobs (snd (coordinated_call env b c s)) = sb_jobs s \<and>
   sb_approvals (snd (coordinated_call env b c s)) = sb_approvals s"
  by (simp add: coordinated_call_def in_warehouse_transaction_def split: prod.split sum.split)

lemma coordinated_moves: "tables_moved s (snd (coordinated_call env b c s))"
  using coordinated_state [of env b c s] life.keeps_service_call [of env c]
  by (auto simp: life.keeps_def tables_moved_same)

lemma coordinated_ok: "sandbox_ok s \<Longrightarrow> sandbox_ok (snd (coordinated_call env b c s))"
  using coordinated_state [of env b c s] tables.keeps_service_call [of env c]
  by (auto simp: tables.keeps_def intro: sandbox_ok_same)

lemma history_moves: "tables_moved s (run_sandbox_calls env cs s)"
  unfolding run_sandbox_calls_def
  by (induction cs arbitrary: s) (auto simp: tables_moved_refl split: prod.split intro: tables_moved_trans coordinated_moves)

lemma history_ok: "sandbox_ok s \<Longrightarrow> sandbox_ok (run_sandbox_calls env cs s)"
  unfolding run_sandbox_calls_def
  by (induction cs arbitrary: s) (auto split: prod.split intro: coordinated_ok)

end
