(* ===== verification/Sandbox_Starts.thy ===== *)
theory Sandbox_Starts
  imports Sandbox_Life
begin

section \<open>Container starts\<close>

text \<open>
  How often the calls of the service start a container.  Everything but one place of the runner is a frame
  of \<open>idle\<close>: it starts none.
\<close>

subsection \<open>Nothing but the runner starts one\<close>

definition is_container_start :: "docker_call \<Rightarrow> bool" where
  "is_container_start c \<longleftrightarrow> take 2 (dc_argv c) = [''docker'', ''run'']"

definition container_starts :: "sandbox_state \<Rightarrow> nat" where
  "container_starts s = length (filter is_container_start (sb_calls s))"

text \<open>The operations on the tables make no calls.\<close>

lemma update_job_calls: "sb_calls (snd (update_job i sources f s)) = sb_calls s"
  by (rule update_job_cases [of i sources f s]) simp_all

lemma table_calls:
  "sb_calls (snd (create_job env j s)) = sb_calls s"
  "sb_calls (snd (claim_for_validation i s)) = sb_calls s"
  "sb_calls (snd (mark_succeeded i d s)) = sb_calls s"
  "sb_calls (snd (mark_rejected i d s)) = sb_calls s"
  "sb_calls (snd (mark_failed i d s)) = sb_calls s"
  "sb_calls (snd (create_approval a s)) = sb_calls s"
proof -
  show "sb_calls (snd (create_job env j s)) = sb_calls s"
    by (simp add: create_job_def insert_job_def on_jobs_def op_simps split: sum.split)
  show "sb_calls (snd (claim_for_validation i s)) = sb_calls s"
    by (simp add: claim_state update_job_calls)
  show "sb_calls (snd (mark_succeeded i d s)) = sb_calls s"
    unfolding mark_succeeded_def by (rule mark_cases) (simp_all add: update_job_calls)
  show "sb_calls (snd (mark_rejected i d s)) = sb_calls s"
    unfolding mark_rejected_def by (rule mark_cases) (simp_all add: update_job_calls)
  show "sb_calls (snd (mark_failed i d s)) = sb_calls s"
    unfolding mark_failed_def by (rule mark_cases) (simp_all add: update_job_calls)
  show "sb_calls (snd (create_approval a s)) = sb_calls s"
    by (rule create_approval_cases [of a s]) simp_all
qed

lemma container_starts_same: "sb_calls t = sb_calls s \<Longrightarrow> container_starts t = container_starts s"
  by (simp add: container_starts_def)

lemmas table_starts = table_calls [THEN container_starts_same]

interpretation idle: table_frame "\<lambda>s t. container_starts t = container_starts s"
proof
  have f: "effect_frame (\<lambda>s t. container_starts t = container_starts s)"
    by unfold_locales auto
  note k = effect_frame.keeps_def [OF f]
  let ?keeps = "effect_frame.keeps (\<lambda>s t. container_starts t = container_starts s)"
  show "?keeps (create_job e j)" "?keeps (claim_for_validation i)" "?keeps (mark_succeeded i d)"
    "?keeps (mark_rejected i d)" "?keeps (mark_failed i d)" "?keeps (create_approval a)" for e j i d a
    by (simp_all add: k table_starts)
qed (simp_all add: container_starts_def)

lemma idle_invoke: "take 2 argv \<noteq> [''docker'', ''run''] \<Longrightarrow> idle.keeps (invoke env argv timeout)"
  unfolding idle.keeps_def
  by (simp add: invoke_def container_starts_def is_container_start_def split: prod.split)

lemma idle_preflight: "idle.keeps (preflight env img)"
  unfolding preflight_def probe_image_def Let_def
  by (intro idle.table_rules idle_invoke) (simp_all add: version_argv_def inspect_argv_def)

lemma idle_kill: "idle.keeps (kill_container env name)"
  unfolding kill_container_def by (intro idle.table_rules idle_invoke) simp

subsection \<open>At most so many starts\<close>

definition starts_within :: "nat \<Rightarrow> 'a sandbox_op \<Rightarrow> bool" where
  "starts_within n m \<longleftrightarrow>
     (\<forall>s. container_starts s \<le> container_starts (snd (m s)) \<and>
          container_starts (snd (m s)) \<le> container_starts s + n)"

lemma starts_withinD:
  "starts_within n m \<Longrightarrow> m s = (r, t) \<Longrightarrow> container_starts s \<le> container_starts t \<and> container_starts t \<le> container_starts s + n"
  unfolding starts_within_def by (metis snd_conv)

lemma within_idle: "idle.keeps m \<Longrightarrow> starts_within n m"
  by (simp add: idle.keeps_def starts_within_def)

lemma within_bind:
  assumes "starts_within a m" and "\<And>x. starts_within b (f x)"
  shows "starts_within (a + b) (op_bind m f)"
  unfolding starts_within_def
proof
  fix s
  obtain r t where m: "m s = (r, t)" by fastforce
  with assms(1) have t: "container_starts s \<le> container_starts t" "container_starts t \<le> container_starts s + a"
    by (auto dest: starts_withinD)
  show "container_starts s \<le> container_starts (snd (op_bind m f s)) \<and>
      container_starts (snd (op_bind m f s)) \<le> container_starts s + (a + b)"
  proof (cases r)
    case (Inl e)
    with m t show ?thesis by (simp add: op_bind_def)
  next
    case (Inr x)
    have "container_starts t \<le> container_starts (snd (f x t)) \<and>
        container_starts (snd (f x t)) \<le> container_starts t + b"
      using assms(2) by (simp add: starts_within_def)
    with m t Inr show ?thesis by (simp add: op_bind_def)
  qed
qed

lemma within_first:
  assumes "starts_within n m" and "\<And>x. idle.keeps (f x)"
  shows "starts_within n (op_bind m f)"
  using within_bind [OF assms(1), of 0 f] assms(2) by (simp add: within_idle)

lemma within_last:
  assumes "idle.keeps m" and "\<And>x. starts_within n (f x)"
  shows "starts_within n (op_bind m f)"
  using within_bind [OF within_idle [OF assms(1)] assms(2), of 0] by simp

lemma within_seq_last: "idle.keeps m \<Longrightarrow> starts_within n k \<Longrightarrow> starts_within n (op_seq m k)"
  unfolding op_seq_def by (rule within_last)

lemma within_if: "(b \<Longrightarrow> starts_within n m) \<Longrightarrow> (\<not> b \<Longrightarrow> starts_within n k) \<Longrightarrow> starts_within n (if b then m else k)"
  by simp

lemma within_return: "starts_within n (op_return x)" "starts_within n (op_raise e)"
  by (simp_all add: within_idle idle.table_rules)

lemma within_single:
  "(\<And>x. starts_within n (f x)) \<Longrightarrow> starts_within n m \<Longrightarrow>
   starts_within n (case xs of [] \<Rightarrow> m | x # ys \<Rightarrow> (case ys of [] \<Rightarrow> f x | _ # _ \<Rightarrow> m))"
  by (cases xs) (auto split: list.split)

lemma within_pair: "(\<And>a b. starts_within n (f a b)) \<Longrightarrow> starts_within n (case p of (a, b) \<Rightarrow> f a b)"
  by (cases p) simp

lemmas within_rules = within_if within_return within_single within_pair within_last within_seq_last

lemma within_invoke: "starts_within 1 (invoke env argv timeout)"
  by (simp add: starts_within_def invoke_def container_starts_def split: prod.split)

lemma within_run_docker: "starts_within 1 (run_docker env q)"
proof -
  have "starts_within 1 (run_container env q pf)" for pf
    unfolding run_container_def
    by (intro within_last within_first within_invoke idle.table_rules idle_kill)
  then show ?thesis
    unfolding run_docker_def
    by (intro within_last idle_preflight) (simp add: within_return split: option.split)
qed

lemma within_start: "starts_within 1 (start_container env dir j img)"
  unfolding start_container_def
  by (intro within_last within_first within_run_docker idle.table_rules idle.keeps_conclude)

lemma within_orchestrate: "starts_within 1 (orchestrate env dir j g img)"
  unfolding orchestrate_def Let_def
  by (intro within_rules idle.table_rules) (simp add: within_return within_start split: sum.split sandbox_error.split del: One_nat_def)

lemma within_run_claimed: "starts_within 1 (run_claimed env dir j g img step_id)"
  unfolding run_claimed_def
  by (intro within_seq_last within_first within_orchestrate idle.table_rules idle.keeps_report)

lemma within_execute_job: "starts_within 1 (execute_job env j img step_id)"
  unfolding execute_job_def Let_def
  by (intro within_rules within_run_claimed idle.table_rules within_idle [OF idle.keeps_reject])

lemma within_execute: "starts_within 1 (execute_prepared_sandbox_turn env plan h)"
  unfolding execute_prepared_sandbox_turn_def
  by (intro within_rules within_execute_job idle.table_rules)

definition starts_allowed :: "sandbox_call \<Rightarrow> nat" where
  "starts_allowed c = (case c of Execute plan h \<Rightarrow> 1 | _ \<Rightarrow> 0)"

lemma within_service_call: "starts_within (starts_allowed c) (service_call env c)"
proof (cases c)
  case (Execute plan h)
  show ?thesis
    unfolding Execute service_call_def with_service_def starts_allowed_def sandbox_call.case
    by (intro within_last within_first within_execute idle.table_rules)
next
  case (Materialize plan)
  show ?thesis
    unfolding Materialize service_call_def with_service_def starts_allowed_def sandbox_call.case
    by (intro within_idle idle.table_rules idle.keeps_materialize)
next
  case (Approve plan h approver tm)
  show ?thesis
    unfolding Approve service_call_def with_service_def starts_allowed_def sandbox_call.case
    by (intro within_idle idle.table_rules idle.keeps_approve)
qed

subsection \<open>A start needs a queued and approved job\<close>

definition same_records :: "sandbox_state \<Rightarrow> sandbox_state \<Rightarrow> bool" where
  "same_records s t \<longleftrightarrow> sb_jobs t = sb_jobs s \<and> sb_approvals t = sb_approvals s \<and> sb_calls t = sb_calls s"

interpretation still: store_frame same_records
  by unfold_locales (simp_all add: same_records_def)

text \<open>What the retained job of the arguments is.\<close>

definition retained_for ::
  "sandbox_env \<Rightarrow> pdict \<Rightarrow> sandbox_state \<Rightarrow> retained_arguments \<Rightarrow> sandbox_row \<Rightarrow> sandbox_job \<Rightarrow> string \<Rightarrow> bool" where
  "retained_for env arguments s a row j img \<longleftrightarrow>
     se_arguments env arguments = Some a \<and> valid_limits (ra_limits a) \<and>
     find_job (ra_job_id a) s = Some row \<and> sr_status row = Queued \<and>
     sj_job_id j = ra_job_id a \<and> sj_run_id j = ra_run_id a \<and> sj_purpose j = ra_purpose a \<and>
     sj_correlation_id j = ra_correlation_id a \<and> sj_limits j = ra_limits a \<and>
     sj_read_paths j = sr_read_paths row \<and> ra_input_references a = sr_read_paths row \<and>
     sj_outputs j = sr_outputs row \<and>
     code_digest env j = sr_code_digest row \<and> ra_code_digest a = sr_code_digest row \<and>
     chosen_image env a = Inr img"

lemma queued_row_Inr: "queued_row a s = Inr row \<Longrightarrow> find_job (ra_job_id a) s = Some row \<and> sr_status row = Queued"
  by (simp add: queued_row_def split: option.splits if_splits)

lemma retained_error_Inr: "retained_error n v = Inr x \<longleftrightarrow> v = Some x"
  by (simp add: retained_error_def split: option.split)

lemma assert_binding_Inr:
  "assert_binding env r j a refs = Inr u \<longleftrightarrow>
     sr_code_digest r = code_digest env j \<and> ra_code_digest a = code_digest env j \<and> ra_purpose a = sj_purpose j \<and>
     ra_correlation_id a = sj_correlation_id j \<and> ra_input_references a = sj_read_paths j \<and>
     refs = sj_read_paths j \<and> ra_limits a = sj_limits j"
  by (auto simp: assert_binding_def)

lemma load_retained:
  assumes "load_retained_sandbox_job env arguments s = (Inr (j, img), t)"
  shows "\<exists>a row. retained_for env arguments s a row j img" and "same_records s t"
proof -
  show "same_records s t"
    using still.keeps_load assms by (rule still.keepsD)
  from assms show "\<exists>a row. retained_for env arguments s a row j img"
    by (auto simp: load_retained_sandbox_job_def op_success retained_error_Inr assert_binding_Inr retained_for_def
        retained_job_def dest!: queued_row_Inr split: if_splits)
qed

text \<open>The parts of an execution that started a container.\<close>

lemma execution_parts:
  assumes "execute_prepared_sandbox_turn env plan h s = (r, t)"
    and "container_starts t \<noteq> container_starts s"
  obtains step j img s1 ap s2 where
    "ap_steps plan = [step]" "ps_tool step = ''sandbox.run_research_code''"
    "load_retained_sandbox_job env (ps_arguments step) s = (Inr (j, img), s1)"
    "require_bound_approval env h j s1 = (Inr ap, s1)"
    "claim_for_validation (sj_job_id j) s1 = (Inr (), s2)"
    "execute_job env j img (ps_id step) s2 = (r, t)"
proof -
  have "\<exists>step. ap_steps plan = [step] \<and> ps_tool step = ''sandbox.run_research_code''"
    using assms by (auto simp: execute_prepared_sandbox_turn_def op_simps split: list.splits if_splits)
  then obtain step where step: "ap_steps plan = [step]" "ps_tool step = ''sandbox.run_research_code''" by blast
  obtain l s1 where l: "load_retained_sandbox_job env (ps_arguments step) s = (l, s1)" by fastforce
  have s1: "container_starts s1 = container_starts s"
    using idle.keeps_load l by (rule idle.keepsD)
  show thesis
  proof (cases l)
    case (Inl e)
    then show thesis
      using assms step l s1 by (simp add: execute_prepared_sandbox_turn_def op_bind_def)
  next
    case (Inr ji)
    obtain j img where ji: "ji = (j, img)" by fastforce
    obtain q where q: "require_bound_approval env h j s1 = (q, s1)"
      by (simp add: require_bound_approval_def op_simps)
    show thesis
    proof (cases q)
      case (Inl e)
      then show thesis
        using assms step l s1 \<open>l = Inr ji\<close> ji q by (simp add: execute_prepared_sandbox_turn_def op_bind_def)
    next
      case (Inr ap)
      obtain c s2 where c: "claim_for_validation (sj_job_id j) s1 = (c, s2)" by fastforce
      have s2: "container_starts s2 = container_starts s1"
        using idle.claims c by (rule idle.keepsD)
      show thesis
      proof (cases c)
        case (Inl e)
        then show thesis
          using assms step l s1 s2 \<open>l = Inr ji\<close> ji q \<open>q = Inr ap\<close> c
          by (simp add: execute_prepared_sandbox_turn_def op_bind_def op_seq_def)
      next
        case (Inr u)
        then have "execute_job env j img (ps_id step) s2 = (r, t)"
          using assms step l \<open>l = Inr ji\<close> ji q \<open>q = Inr ap\<close> c
          by (simp add: execute_prepared_sandbox_turn_def op_bind_def op_seq_def)
        then show thesis
          using that step l \<open>l = Inr ji\<close> ji q \<open>q = Inr ap\<close> c Inr by simp
      qed
    qed
  qed
qed

subsection \<open>Counting over a history\<close>

definition used_up :: "string \<Rightarrow> sandbox_state \<Rightarrow> bool" where
  "used_up i s \<longleftrightarrow> (\<exists>r \<in> set (sb_jobs s). sr_job_id r = i \<and> sr_status r \<noteq> Queued)"

lemma used_up_same: "sb_jobs t = sb_jobs s \<Longrightarrow> used_up i t = used_up i s"
  by (simp add: used_up_def)

lemma later_not_queued: "later_status a b \<Longrightarrow> a \<noteq> Queued \<Longrightarrow> b \<noteq> Queued"
  by (cases a) auto

lemma used_up_moved:
  assumes "tables_moved s t" and "used_up i s"
  shows "used_up i t"
proof -
  obtain r where r: "r \<in> set (sb_jobs s)" "sr_job_id r = i" "sr_status r \<noteq> Queued"
    using assms(2) by (auto simp: used_up_def)
  have "list_all2 row_moved (sb_jobs s) (take (length (sb_jobs s)) (sb_jobs t))"
    using assms(1) by (simp add: tables_moved_def)
  then obtain r' where r': "r' \<in> set (take (length (sb_jobs s)) (sb_jobs t))" "row_moved r r'"
    using set_list_all2_left [OF _ r(1)] by blast
  then have "sr_status r' \<noteq> Queued"
    using r(3) by (auto simp: row_moved_def dest: later_not_queued)
  then show ?thesis
    using r(2) r' row_moved_id by (fastforce simp: used_up_def dest: in_set_takeD)
qed

lemma claim_uses:
  assumes "claim_for_validation i s = (Inr (), t)"
  shows "used_up i t"
proof -
  let ?f = "\<lambda>r. r\<lparr>sr_status := Validating\<rparr>" and ?p = "\<lambda>r. sr_job_id r = i \<and> sr_status r \<in> {Queued}"
  have "(\<exists>r \<in> set (sb_jobs s). ?p r) \<and> sb_jobs t = update_where ?p ?f (sb_jobs s)"
    using assms
    by (auto simp: claim_for_validation_def update_job_eq transition_error_def get_sandbox_job_def op_bind_def op_simps
        split: if_splits option.splits)
  then obtain r where "?f r \<in> set (sb_jobs t)" "sr_job_id r = i"
    by (auto simp: set_update_where)
  then show ?thesis
    by (auto simp: used_up_def intro!: bexI [of _ "?f r"])
qed

lemma queued_not_used_up:
  assumes "sandbox_ok s" "find_job i s = Some row" "sr_status row = Queued"
  shows "\<not> used_up i s"
proof
  assume "used_up i s"
  then obtain r where r: "r \<in> set (sb_jobs s)" "sr_job_id r = i" "sr_status r \<noteq> Queued"
    by (auto simp: used_up_def)
  moreover have "row \<in> set (sb_jobs s)" "sr_job_id row = i"
    using find_Some_in assms(2) unfolding find_job_def by fast+
  ultimately have "r = row"
    using assms(1) by (auto simp: sandbox_ok_def intro: distinct_map_inj)
  with r(3) assms(3) show False by simp
qed

text \<open>The call executes the job of this id.\<close>

definition executes :: "sandbox_env \<Rightarrow> string \<Rightarrow> sandbox_call \<Rightarrow> bool" where
  "executes env i c \<longleftrightarrow>
     (case c of
        Execute plan h \<Rightarrow>
          (case ap_steps plan of
             [step] \<Rightarrow> (case se_arguments env (ps_arguments step) of None \<Rightarrow> False | Some a \<Rightarrow> ra_job_id a = i)
           | _ \<Rightarrow> False)
      | _ \<Rightarrow> False)"

text \<open>A call that started a container: whose job, and what became of the claim.\<close>

lemma service_start:
  assumes "sandbox_ok s" and "service_call env c s = (r, t)" and "container_starts t \<noteq> container_starts s"
  obtains i where "executes env i c" "\<not> used_up i s" "used_up i t"
proof -
  obtain plan h where c: "c = Execute plan h"
    using assms(2,3) starts_withinD [OF within_service_call assms(2)]
    by (cases c) (auto simp: starts_allowed_def)
  obtain r' where e: "execute_prepared_sandbox_turn env plan h s = (r', t)"
  proof (cases "parse_docker_image_reference (se_image env)")
    case (Inl e)
    then show thesis
      using assms(2,3) c by (auto simp: service_call_def with_service_def op_simps)
  next
    case (Inr img)
    obtain r1 t1 where 1: "execute_prepared_sandbox_turn env plan h s = (r1, t1)" by fastforce
    then have "t1 = t"
      using assms(2) c Inr
      by (auto simp: service_call_def with_service_def op_simps op_bind_def split: sum.splits)
    with 1 that show thesis by blast
  qed
  obtain step j img s1 ap s2 where parts:
    "ap_steps plan = [step]" "ps_tool step = ''sandbox.run_research_code''"
    "load_retained_sandbox_job env (ps_arguments step) s = (Inr (j, img), s1)"
    "require_bound_approval env h j s1 = (Inr ap, s1)"
    "claim_for_validation (sj_job_id j) s1 = (Inr (), s2)"
    "execute_job env j img (ps_id step) s2 = (r', t)"
    by (rule execution_parts [OF e assms(3)])
  obtain a row where a: "retained_for env (ps_arguments step) s a row j img"
    using load_retained(1) [OF parts(3)] by blast
  show thesis
  proof (rule that [of "sj_job_id j"])
    show "executes env (sj_job_id j) c"
      using c parts(1) a by (simp add: executes_def retained_for_def)
    show "\<not> used_up (sj_job_id j) s"
      using queued_not_used_up [OF assms(1)] a by (simp add: retained_for_def)
    show "used_up (sj_job_id j) t"
      using life.keepsD [OF life.keeps_execute_job parts(6)] claim_uses [OF parts(5)] by (rule used_up_moved)
  qed
qed

definition undone :: "bool \<Rightarrow> sandbox_error + unit \<Rightarrow> bool" where
  "undone coordinated r \<longleftrightarrow> coordinated \<and> (case r of Inl e \<Rightarrow> True | Inr x \<Rightarrow> False)"

lemma coordinated_start:
  assumes "sandbox_ok s" and "coordinated_call env b c s = (r, t)" and "container_starts t \<noteq> container_starts s"
  obtains i where "executes env i c" "\<not> used_up i s" "used_up i t \<or> undone b r"
proof -
  obtain r1 t1 where 1: "service_call env c s = (r1, t1)" by fastforce
  have *: "container_starts t = container_starts t1" "undone b r \<or> t = t1"
    using assms(2) 1
    by (auto simp: coordinated_call_def in_warehouse_transaction_def undone_def container_starts_def
        split: if_splits sum.splits)
  with assms(3) have "container_starts t1 \<noteq> container_starts s" by simp
  from service_start [OF assms(1) 1 this] obtain i where
    "executes env i c" "\<not> used_up i s" "used_up i t1" by blast
  with * that show thesis by blast
qed

lemma coordinated_starts_le:
  assumes "coordinated_call env b c s = (r, t)"
  shows "container_starts s \<le> container_starts t" "container_starts t \<le> container_starts s + 1"
proof -
  obtain r1 t1 where 1: "service_call env c s = (r1, t1)" by fastforce
  have "container_starts t = container_starts t1"
    using assms 1
    by (auto simp: coordinated_call_def in_warehouse_transaction_def container_starts_def
        split: if_splits sum.splits)
  moreover have "starts_allowed c \<le> 1"
    by (simp add: starts_allowed_def split: sandbox_call.split)
  ultimately show "container_starts s \<le> container_starts t" "container_starts t \<le> container_starts s + 1"
    using starts_withinD [OF within_service_call 1] by simp_all
qed

text \<open>The log of a history: each call, whether it was undone, and how many containers it started.\<close>

fun call_log ::
  "sandbox_env \<Rightarrow> (bool \<times> sandbox_call) list \<Rightarrow> sandbox_state \<Rightarrow> (sandbox_call \<times> bool \<times> nat) list" where
  "call_log env [] s = []"
| "call_log env ((b, c) # cs) s =
     (case coordinated_call env b c s of
        (r, t) \<Rightarrow> (c, undone b r, container_starts t - container_starts s) # call_log env cs t)"

definition starts_of :: "sandbox_env \<Rightarrow> string \<Rightarrow> (sandbox_call \<times> bool \<times> nat) list \<Rightarrow> nat" where
  "starts_of env i es = sum_list (map (\<lambda>(c, u, n). if executes env i c then n else 0) es)"

definition undone_starts_of :: "sandbox_env \<Rightarrow> string \<Rightarrow> (sandbox_call \<times> bool \<times> nat) list \<Rightarrow> nat" where
  "undone_starts_of env i es = length (filter (\<lambda>(c, u, n). executes env i c \<and> u \<and> n = 1) es)"

lemma executes_unique: "executes env i c \<Longrightarrow> executes env k c \<Longrightarrow> k = i"
  by (auto simp: executes_def split: sandbox_call.splits list.splits option.splits)

lemma starts_of_le:
  assumes "sandbox_ok s"
  shows "starts_of env i (call_log env cs s) \<le>
    undone_starts_of env i (call_log env cs s) + (if used_up i s then 0 else 1)"
  using assms
proof (induction cs arbitrary: s)
  case Nil
  then show ?case by (simp add: starts_of_def undone_starts_of_def)
next
  case (Cons bc cs)
  obtain b c where bc: "bc = (b, c)" by fastforce
  obtain r t where t: "coordinated_call env b c s = (r, t)" by fastforce
  let ?n = "container_starts t - container_starts s" and ?log = "call_log env cs t"
  let ?here = "if executes env i c then ?n else 0"
    and ?undone = "if executes env i c \<and> undone b r \<and> ?n = 1 then 1 else (0 :: nat)"
  have ok: "sandbox_ok t" and moved: "tables_moved s t"
    using coordinated_ok [OF Cons.prems, of env b c] coordinated_moves [of s env b c] t by simp_all
  have ih: "starts_of env i ?log \<le> undone_starts_of env i ?log + (if used_up i t then 0 else 1)"
    by (rule Cons.IH [OF ok])
  have entries: "starts_of env i (call_log env (bc # cs) s) = ?here + starts_of env i ?log"
    "undone_starts_of env i (call_log env (bc # cs) s) = ?undone + undone_starts_of env i ?log"
    by (simp_all add: bc t starts_of_def undone_starts_of_def)
  have step: "?here + (if used_up i t then 0 else 1) \<le> ?undone + (if used_up i s then 0 else 1)"
  proof (cases "executes env i c \<and> ?n \<noteq> 0")
    case True
    then have "container_starts t \<noteq> container_starts s" by simp
    from coordinated_start [OF Cons.prems t this] obtain k where
      k: "executes env k c" "\<not> used_up k s" "used_up k t \<or> undone b r" by blast
    then have "k = i" using True executes_unique by blast
    moreover have "?n = 1" using True coordinated_starts_le [OF t] by linarith
    ultimately show ?thesis using True k by auto
  next
    case False
    then show ?thesis using used_up_moved [OF moved] by auto
  qed
  show ?case unfolding entries using ih step by linarith
qed

lemma log_entries:
  assumes "sandbox_ok s"
  shows "list_all (\<lambda>(c, u, n). n = 0 \<or> n = 1 \<and> (\<exists>i. executes env i c)) (call_log env cs s)"
  using assms
proof (induction cs arbitrary: s)
  case (Cons bc cs)
  obtain b c where bc: "bc = (b, c)" by fastforce
  obtain r t where t: "coordinated_call env b c s = (r, t)" by fastforce
  have "container_starts t - container_starts s = 0 \<or>
      container_starts t - container_starts s = 1 \<and> (\<exists>i. executes env i c)"
    using coordinated_starts_le [OF t] coordinated_start [OF Cons.prems t]
    by (cases "container_starts t = container_starts s") (simp, metis add_diff_cancel_left' le_antisym less_Suc_eq_le
      not_less_eq_eq Suc_eq_plus1 le_SucE diff_self_eq_0)
  moreover have "sandbox_ok t"
    using coordinated_ok [OF Cons.prems, of env b c] t by simp
  ultimately show ?case using Cons.IH by (simp add: bc t)
qed simp

end
