(* ===== verification/Sandbox_Safety.thy ===== *)
theory Sandbox_Safety
  imports Sandbox_Starts
begin

section \<open>What a started container runs\<close>

text \<open>
  Every container start of the service is made on the arguments the Docker policy builds, and finds the
  approved code in the file it mounts.  The first is a frame on the calls; the second needs that the probes
  before the start (\<open>docker version\<close>, \<open>docker image inspect\<close>) leave the files of the job alone.
\<close>

subsection \<open>Nodes that stay\<close>

definition holds_node :: "path \<Rightarrow> file_node \<Rightarrow> files \<Rightarrow> bool" where
  "holds_node p n f \<longleftrightarrow> map_of f p = Some n"

interpretation node: sandbox_frame "\<lambda>s t. holds_node p n (sb_files s) \<longrightarrow> holds_node p n (sb_files t)" for p n
  by unfold_locales auto

lemma node_same_files:
  "(\<And>s. sb_files (snd (m s)) = sb_files s) \<Longrightarrow> node.keeps p n m"
  unfolding node.keeps_def by simp

lemma node_tick: "node.keeps p n next_tick"
  by (rule node_same_files) (simp add: next_tick_def)

lemma node_directory: "node.keeps p n (open_or_create_directory raw q)"
  unfolding node.keeps_def
  by (auto simp: open_or_create_directory_def on_files_def holds_node_def op_simps split: option.split file_node.split)

lemma node_directories: "node.keeps p n (create_directories raw ps)"
  unfolding create_directories_def by (rule node.keeps_all) (auto intro: node_directory)

lemma node_ensure: "node.keeps p n (ensure_directory dir raw)"
  unfolding ensure_directory_def by (intro node.sandbox_rules node_directories)

lemma node_path_for: "node.keeps p n (path_for dir raw)"
  unfolding path_for_def by (intro node.sandbox_rules)

lemma node_put: "p \<noteq> q \<Longrightarrow> node.keeps p n (op_write (on_files (dict_set q m)))"
  by (rule node.keeps_write) (simp add: on_files_def holds_node_def)

lemma node_delete: "p \<noteq> q \<Longrightarrow> node.keeps p n (op_write (on_files (dict_del q)))"
  by (rule node.keeps_write) (simp add: on_files_def holds_node_def map_of_dict_del)

lemma node_write:
  assumes "\<And>parts. parse_artifact_parts raw = Inr parts \<Longrightarrow> p \<noteq> dir @ parts"
  shows "node.keeps p n (write_atomic_bytes env dir raw content)"
  unfolding write_atomic_bytes_def write_atomic_file_def
  by (intro node.keeps_bind_lift node.sandbox_rules node_directories node_tick node_put) (simp add: assms)

lemma node_remove:
  assumes "\<And>parts. parse_artifact_parts raw = Inr parts \<Longrightarrow> p \<noteq> dir @ parts"
  shows "node.keeps p n (invalidate_file env dir raw)"
proof -
  have "node.keeps p n (remove_leaf env raw q)" if "p \<noteq> q" for q
    unfolding remove_leaf_def using that by (intro node.sandbox_rules node_tick node_delete)
  then show ?thesis
    unfolding invalidate_file_def
    by (intro node.keeps_bind_lift node.sandbox_rules) (auto simp: assms intro: node.sandbox_rules split: bool.split)
qed

text \<open>A write that returned put the content there.\<close>

lemma write_puts:
  assumes "write_atomic_bytes env dir raw content s = (Inr u, t)" and "parse_artifact_parts raw = Inr parts"
  shows "holds_node (dir @ parts) (Regular content) (sb_files t)"
  using assms
  by (auto simp: write_atomic_bytes_def write_atomic_file_def on_files_def holds_node_def op_simps op_seq_def
      op_bind_Inr_iff split: if_splits)

subsection \<open>Calls\<close>

definition started_only :: "(docker_call \<Rightarrow> bool) \<Rightarrow> sandbox_state \<Rightarrow> sandbox_state \<Rightarrow> bool" where
  "started_only ok s t \<longleftrightarrow>
     (\<exists>cs. sb_calls t = sb_calls s @ cs \<and> list_all (\<lambda>c. is_container_start c \<longrightarrow> ok c) cs)"

lemma started_only_same: "sb_calls t = sb_calls s \<Longrightarrow> started_only ok s t"
  by (simp add: started_only_def)

lemma started_only_trans: "started_only ok s t \<Longrightarrow> started_only ok t u \<Longrightarrow> started_only ok s u"
  unfolding started_only_def by (elim exE conjE, rule_tac x = "cs @ csa" in exI) simp

interpretation starts: table_frame "started_only ok" for ok
proof
  have f: "effect_frame (started_only ok)" for ok
    by unfold_locales (simp add: started_only_same, erule (1) started_only_trans)
  note k = effect_frame.keeps_def [OF f]
  show "effect_frame.keeps (started_only ok) (create_job e j)" for e j
    by (simp add: k started_only_same table_calls)
  show "effect_frame.keeps (started_only ok) (claim_for_validation i)" for i
    by (simp add: k started_only_same table_calls)
  show "effect_frame.keeps (started_only ok) (mark_succeeded i d)"
    "effect_frame.keeps (started_only ok) (mark_rejected i d)"
    "effect_frame.keeps (started_only ok) (mark_failed i d)" for i d
    by (simp_all add: k started_only_same table_calls)
  show "effect_frame.keeps (started_only ok) (create_approval a)" for a
    by (simp add: k started_only_same table_calls)
qed (simp add: started_only_same | erule (1) started_only_trans)+

lemma starts_invoke:
  "take 2 argv \<noteq> [''docker'', ''run''] \<Longrightarrow> starts.keeps ok (invoke env argv timeout)"
  unfolding starts.keeps_def
  by (auto simp: invoke_def started_only_def is_container_start_def split: prod.split)

lemma starts_preflight: "starts.keeps ok (preflight env img)"
  unfolding preflight_def probe_image_def Let_def
  by (intro starts.table_rules starts_invoke) (simp_all add: version_argv_def inspect_argv_def)

lemma starts_kill: "starts.keeps ok (kill_container env name)"
  unfolding kill_container_def by (intro starts.table_rules starts_invoke) simp

text \<open>An operation whose starts are all fine when the files are as required before it.\<close>

definition starts_when :: "(files \<Rightarrow> bool) \<Rightarrow> (docker_call \<Rightarrow> bool) \<Rightarrow> 'a sandbox_op \<Rightarrow> bool" where
  "starts_when req ok m \<longleftrightarrow> (\<forall>s. req (sb_files s) \<longrightarrow> started_only ok s (snd (m s)))"

lemma when_none: "starts.keeps ok m \<Longrightarrow> starts_when req ok m"
  by (simp add: starts.keeps_def starts_when_def)

lemma when_first:
  assumes "starts_when req ok m" and "\<And>x. starts.keeps ok (f x)"
  shows "starts_when req ok (op_bind m f)"
  unfolding starts_when_def
proof (intro allI impI)
  fix s :: sandbox_state
  assume req: "req (sb_files s)"
  obtain r t where m: "m s = (r, t)" by fastforce
  have "started_only ok s t"
    using assms(1) req m unfolding starts_when_def by (metis snd_conv)
  then show "started_only ok s (snd (op_bind m f s))"
    using assms(2) m
    by (cases r) (auto simp: op_bind_def starts.keeps_def intro: started_only_trans)
qed

text \<open>Files that stay as required up to the start: what the writer writes, the output directory and the
  probes leave them so.\<close>

locale code_frame = writer_frame "\<lambda>s t. req (sb_files s) \<longrightarrow> req (sb_files t)" env dir allowed
  for req env dir allowed +
  assumes directories: "keeps (ensure_directory dir output_directory)"
    and probes: "take 2 argv \<noteq> [''docker'', ''run''] \<Longrightarrow> keeps (invoke env argv timeout)"
begin

lemma when_last:
  assumes "starts.keeps ok m" and "keeps m" and "\<And>x s t. m s = (Inr x, t) \<Longrightarrow> starts_when req ok (f x)"
  shows "starts_when req ok (op_bind m f)"
  unfolding starts_when_def
proof (intro allI impI)
  fix s :: sandbox_state
  assume req: "req (sb_files s)"
  obtain r t where m: "m s = (r, t)" by fastforce
  have t: "started_only ok s t" "req (sb_files t)"
    using starts.keepsD [OF assms(1) m] keepsD [OF assms(2) m] req by simp_all
  show "started_only ok s (snd (op_bind m f s))"
  proof (cases r)
    case (Inl e)
    then show ?thesis using m t by (simp add: op_bind_def)
  next
    case (Inr x)
    then have "started_only ok t (snd (f x t))"
      using assms(3) m t by (auto simp: starts_when_def)
    then show ?thesis
      using m t Inr by (auto simp: op_bind_def intro: started_only_trans)
  qed
qed

lemma when_seq: "starts.keeps ok m \<Longrightarrow> keeps m \<Longrightarrow> starts_when req ok k \<Longrightarrow> starts_when req ok (op_seq m k)"
  unfolding op_seq_def by (rule when_last)

lemma keeps_same: "(\<And>s. snd (m s) = s) \<Longrightarrow> keeps m"
  by (simp add: keeps_def)

lemma keeps_preflight: "keeps (preflight env img)"
  unfolding preflight_def probe_image_def Let_def
  by (intro sandbox_rules probes) (simp_all add: version_argv_def inspect_argv_def)

end

text \<open>A start on the arguments of the request, with the files as required.\<close>

definition lawful_start :: "sandbox_env \<Rightarrow> (files \<Rightarrow> bool) \<Rightarrow> docker_request \<Rightarrow> docker_call \<Rightarrow> bool" where
  "lawful_start env req q c \<longleftrightarrow>
     build_docker_run_argv env q (dc_files c) = Inr (dc_argv c) \<and>
     dc_timeout c = rl_timeout_seconds (dr_limits q) \<and> req (dc_files c)"

lemma run_container_starts: "starts_when req (lawful_start env req q) (run_container env q pf)"
  unfolding starts_when_def
proof (intro allI impI)
  fix s :: sandbox_state
  assume req: "req (sb_files s)"
  show "started_only (lawful_start env req q) s (snd (run_container env q pf s))"
  proof (cases "build_docker_run_argv env q (sb_files s)")
    case (Inl e)
    then show ?thesis by (simp add: run_container_def op_simps started_only_same)
  next
    case (Inr argv)
    let ?after = "\<lambda>r. case r of
         Inl Command_Not_Found \<Rightarrow>
           op_return (failed_execution DOCKER_NOT_FOUND ''Docker client is not available'' None pf)
       | Inl Launch_Error \<Rightarrow>
           op_return (failed_execution DOCKER_LAUNCH_FAILED ''Docker command could not be launched'' None pf)
       | Inl Timeout_Expired \<Rightarrow>
           op_bind (kill_container env (docker_container_name env q)) (\<lambda>cleaned.
             op_return (failed_execution RUNTIME_TIMEOUT ''Docker execution timed out'' (Some cleaned) pf))
       | Inr execution \<Rightarrow>
           op_return
             (if dk_return_code execution = 0 then execution\<lparr>dk_preflight := Some pf\<rparr>
              else execution\<lparr>dk_failure_code := Some RUNTIME_FAILED, dk_detail := ''Docker execution failed'',
                     dk_cleanup := None, dk_preflight := Some pf\<rparr>)"
    obtain r f where "se_invoke env argv (rl_timeout_seconds (dr_limits q)) (sb_tick s) (sb_files s) = (r, f)"
      by fastforce
    then obtain t where i: "invoke env argv (rl_timeout_seconds (dr_limits q)) s = (Inr r, t)"
      "started_only (lawful_start env req q) s t"
      using Inr req by (auto simp: invoke_def started_only_def lawful_start_def)
    have "starts.keeps (lawful_start env req q) (?after r)"
      by (intro starts.table_rules starts_kill)
    then have "started_only (lawful_start env req q) t (snd (?after r t))"
      by (simp add: starts.keeps_def)
    then show ?thesis
      using i Inr by (auto simp: run_container_def op_simps op_bind_def intro: started_only_trans)
  qed
qed

text \<open>The request of a job in its directory.\<close>

definition container_request :: "path \<Rightarrow> sandbox_job \<Rightarrow> string \<Rightarrow> docker_request" where
  "container_request dir j img =
     \<lparr>dr_image = img, dr_code_path = dir @ [generated_code_path],
      dr_input_paths = map (\<lambda>p. dir @ posix_parts p) (sj_read_paths j),
      dr_output_path = dir @ [output_directory], dr_limits = sj_limits j, dr_environment = []\<rparr>"

lemma path_for_Inr: "path_for dir raw s = (Inr p, t) \<Longrightarrow> p = dir @ posix_parts raw \<and> t = s"
  by (auto simp: path_for_def op_simps op_bind_def op_seq_def split: if_splits)

lemma path_for_all_Inr:
  "op_collect (map (path_for dir) raws) s = (Inr ps, t) \<Longrightarrow> ps = map (\<lambda>r. dir @ posix_parts r) raws \<and> t = s"
  by (induction raws arbitrary: ps s t) (auto simp: op_success dest!: path_for_Inr, blast?)

lemma path_for_state: "snd (path_for dir raw s) = s"
  by (simp add: path_for_def op_simps)

lemma parts_of_layout:
  "posix_parts generated_code_path = [generated_code_path]"
  "parse_artifact_parts output_directory = Inr [output_directory]"
  "parse_artifact_parts generated_code_path = Inr [generated_code_path]"
  by code_simp+

lemma path_for_all_state: "snd (op_collect (map (path_for dir) raws) s) = s"
proof (induction raws arbitrary: s)
  case (Cons r rs)
  obtain x where x: "path_for dir r s = (x, s)"
    using path_for_state by (metis prod.collapse)
  obtain y where y: "op_collect (map (path_for dir) rs) s = (y, s)"
    using Cons.IH by (metis prod.collapse)
  show ?case
    by (cases x; cases y) (simp_all add: x y op_bind_def op_simps)
qed (simp add: op_simps)

lemma ensure_directory_Inr:
  "ensure_directory dir output_directory s = (Inr p, t) \<Longrightarrow> p = dir @ [output_directory]"
  by (auto simp: ensure_directory_def parts_of_layout op_simps op_seq_def op_bind_Inr_iff)

lemma new_docker_request_Inr:
  "new_docker_request img code inputs outdir limits = Inr q \<Longrightarrow>
   q = \<lparr>dr_image = img, dr_code_path = code, dr_input_paths = inputs, dr_output_path = outdir,
        dr_limits = limits, dr_environment = []\<rparr> \<and> parse_docker_image_reference img = Inr img"
  by (auto simp: new_docker_request_def res_bind_Inr_iff parse_docker_image_reference_def split: if_splits)

context code_frame
begin

lemma run_docker_starts: "starts_when req (lawful_start env req q) (run_docker env q)"
  unfolding run_docker_def
  by (rule when_last [OF starts_preflight keeps_preflight])
    (auto intro: run_container_starts when_none starts.table_rules split: option.split)

lemma start_container_starts:
  "starts_when req (\<lambda>c. parse_docker_image_reference img = Inr img \<and>
     lawful_start env req (container_request dir j img) c) (start_container env dir j img)"
  (is "starts_when req ?ok _")
  unfolding start_container_def
proof (rule when_last)
  fix outdir s t
  assume "ensure_directory dir output_directory s = (Inr outdir, t)"
  then have outdir: "outdir = dir @ [output_directory]" by (rule ensure_directory_Inr)
  show "starts_when req ?ok (op_bind (path_for dir generated_code_path) (\<lambda>code.
      op_bind (op_collect (map (path_for dir) (sj_read_paths j))) (\<lambda>inputs.
      op_bind (op_lift (new_docker_request img code inputs outdir (sj_limits j))) (\<lambda>q.
      op_bind (run_docker env q) (conclude_execution env dir j q)))))"
  proof (rule when_last)
    fix code s t
    assume "path_for dir generated_code_path s = (Inr code, t)"
    then have code: "code = dir @ [generated_code_path]"
      using path_for_Inr parts_of_layout(1) by metis
    show "starts_when req ?ok (op_bind (op_collect (map (path_for dir) (sj_read_paths j))) (\<lambda>inputs.
      op_bind (op_lift (new_docker_request img code inputs outdir (sj_limits j))) (\<lambda>q.
      op_bind (run_docker env q) (conclude_execution env dir j q))))"
    proof (rule when_last)
      fix inputs s t
      assume "op_collect (map (path_for dir) (sj_read_paths j)) s = (Inr inputs, t)"
      then have inputs: "inputs = map (\<lambda>r. dir @ posix_parts r) (sj_read_paths j)"
        using path_for_all_Inr by blast
      show "starts_when req ?ok (op_bind (op_lift (new_docker_request img code inputs outdir (sj_limits j))) (\<lambda>q.
        op_bind (run_docker env q) (conclude_execution env dir j q)))"
      proof (rule when_last)
        fix q s t
        assume "op_lift (new_docker_request img code inputs outdir (sj_limits j)) s = (Inr q, t)"
        then have "new_docker_request img code inputs outdir (sj_limits j) = Inr q"
          by (simp add: op_simps)
        from new_docker_request_Inr [OF this]
        have "q = container_request dir j img" "parse_docker_image_reference img = Inr img"
          by (simp_all add: container_request_def code inputs outdir)
        then show "starts_when req ?ok (op_bind (run_docker env q) (conclude_execution env dir j q))"
          using run_docker_starts [of q] by (intro when_first starts.keeps_conclude) simp
      qed (intro starts.table_rules keeps_lift)+
    qed (intro starts.table_rules keeps_same path_for_all_state)+
  qed (intro starts.table_rules keeps_same path_for_state)+
qed (intro starts.table_rules directories)+

lemma orchestrate_starts:
  "starts_when req (\<lambda>c. parse_docker_image_reference img = Inr img \<and>
     lawful_start env req (container_request dir j img) c) (orchestrate env dir j g img)"
proof -
  have "starts_when req ok (op_return x :: 'x sandbox_op)" for ok and x :: 'x
    by (intro when_none starts.table_rules)
  then show ?thesis
    unfolding orchestrate_def Let_def
    by (auto intro!: when_last start_container_starts starts.table_rules keeps_read
        split: sum.split sandbox_error.split)
qed

lemma run_claimed_starts:
  assumes "allowed manifest_path" and "allowed lifecycle_file"
  shows "starts_when req (\<lambda>c. parse_docker_image_reference img = Inr img \<and>
     lawful_start env req (container_request dir j img) c) (run_claimed env dir j g img step_id)"
  unfolding run_claimed_def
  by (intro when_seq when_first orchestrate_starts starts.table_rules starts.keeps_report
      keeps_lifecycle [OF assms])

end

subsection \<open>The code of the job\<close>

text \<open>Nothing but \<open>docker run\<close> changes files: the probes and the kill of a container do not.\<close>

definition quiet_probes :: "sandbox_env \<Rightarrow> bool" where
  "quiet_probes env \<longleftrightarrow>
     (\<forall>argv timeout n f. take 2 argv \<noteq> [''docker'', ''run''] \<longrightarrow> snd (se_invoke env argv timeout n f) = f)"

abbreviation code_path :: "path \<Rightarrow> path" where
  "code_path dir \<equiv> dir @ [generated_code_path]"

abbreviation other_artifact :: "string \<Rightarrow> bool" where
  "other_artifact raw \<equiv> parse_artifact_parts raw \<noteq> Inr [generated_code_path]"

lemma other_artifacts:
  "\<forall>raw \<in> {manifest_path, lifecycle_file, guard_path, request_path, input_references_path}. other_artifact raw"
  by code_simp

interpretation code: code_frame
  "\<lambda>f. quiet_probes env \<longrightarrow> holds_node (code_path dir) (Regular src) f" env dir other_artifact
  for env dir src
proof
  let ?rel = "\<lambda>s t. (quiet_probes env \<longrightarrow> holds_node (code_path dir) (Regular src) (sb_files s)) \<longrightarrow>
    (quiet_probes env \<longrightarrow> holds_node (code_path dir) (Regular src) (sb_files t))"
  have f: "effect_frame ?rel" by unfold_locales auto
  note k = effect_frame.keeps_def [OF f]
  have kept: "effect_frame.keeps ?rel m" if "node.keeps (code_path dir) (Regular src) m" for m :: "'x sandbox_op"
    using that by (auto simp: k node.keeps_def)
  show "effect_frame.keeps ?rel (write_atomic_bytes env dir raw content)" if "other_artifact raw" for raw content
    by (rule kept, rule node_write) (use that in auto)
  show "effect_frame.keeps ?rel (invalidate_file env dir raw)" if "other_artifact raw" for raw
    by (rule kept, rule node_remove) (use that in auto)
  show "effect_frame.keeps ?rel (ensure_directory dir output_directory)"
    by (rule kept, rule node_ensure)
  show "effect_frame.keeps ?rel (invoke env argv timeout)" if "take 2 argv \<noteq> [''docker'', ''run'']" for argv timeout
  proof -
    have "sb_files (snd (invoke env argv timeout s)) = sb_files s" if "quiet_probes env" for s
      using that \<open>take 2 argv \<noteq> _\<close>
      by (simp add: invoke_def quiet_probes_def split: prod.split) (metis snd_conv)
    then show ?thesis by (simp add: k)
  qed
qed auto

lemma persist_request_puts:
  assumes "persist_request env dir j s = (Inr u, t)"
  shows "holds_node (code_path dir) (Regular (sj_code j)) (sb_files t)"
proof -
  from assms obtain s1 s2 s3 where
    "write_atomic_bytes env dir generated_code_path (sj_code j) s1 = (Inr (), s2)"
    and w: "write_atomic_bytes env dir input_references_path (references_bytes j) s2 = (Inr (), s3)"
    and t: "sb_files t = sb_files s3"
    by (auto simp: persist_request_def set_host_entries_def on_writer_def op_success)
  then have "holds_node (code_path dir) (Regular (sj_code j)) (sb_files s2)"
    using write_puts parts_of_layout(3) by blast
  moreover have "node.keeps (code_path dir) (Regular (sj_code j))
      (write_atomic_bytes env dir input_references_path (references_bytes j))"
    by (rule node_write) (use other_artifacts in auto)
  ultimately show ?thesis
    using w t unfolding node.keeps_def by (metis snd_conv)
qed

lemma open_storage_Inr: "open_storage env run_id job_id s = (Inr dir, t) \<Longrightarrow> dir = job_dir env run_id job_id"
  by (auto simp: open_storage_def parse_job_component_def op_success Let_def split: if_splits)

text \<open>What a start has to be, for the job that was loaded.\<close>

definition start_of_job :: "sandbox_env \<Rightarrow> sandbox_job \<Rightarrow> string \<Rightarrow> docker_call \<Rightarrow> bool" where
  "start_of_job env j img c \<longleftrightarrow>
     (let dir = job_dir env (sj_run_id j) (sj_job_id j) in
      gr_allowed (evaluate_code (se_sha256 env) (se_parse env) (sj_code j)) \<and>
      parse_docker_image_reference img = Inr img \<and>
      lawful_start env (\<lambda>f. quiet_probes env \<longrightarrow> holds_node (code_path dir) (Regular (sj_code j)) f)
        (container_request dir j img) c)"

lemma started_only_mono:
  "started_only ok s t \<Longrightarrow> (\<And>c. ok c \<Longrightarrow> ok' c) \<Longrightarrow> started_only ok' s t"
  unfolding started_only_def by (elim exE, rule exI) (auto simp: list_all_iff)

lemma starts_bind:
  assumes "starts.keeps ok m" and "\<And>x t. m s = (Inr x, t) \<Longrightarrow> started_only ok t (snd (f x t))"
  shows "started_only ok s (snd (op_bind m f s))"
proof -
  obtain r t where m: "m s = (r, t)" by fastforce
  have "started_only ok s t" using starts.keepsD [OF assms(1) m] .
  then show ?thesis
    using m assms(2) by (cases r) (auto simp: op_bind_def intro: started_only_trans)
qed

lemma starts_seq:
  "starts.keeps ok m \<Longrightarrow> (\<And>t. m s = (Inr (), t) \<Longrightarrow> started_only ok t (snd (k t))) \<Longrightarrow>
   started_only ok s (snd (op_seq m k s))"
  unfolding op_seq_def by (rule starts_bind) auto

lemma execute_job_starts: "started_only (start_of_job env j img) s (snd (execute_job env j img step_id s))"
  unfolding execute_job_def
proof (rule starts_seq)
  fix t
  let ?ok = "start_of_job env j img" and ?g = "evaluate_code (se_sha256 env) (se_parse env) (sj_code j)"
  let ?last = "\<lambda>dir. if \<not> gr_allowed ?g then reject_code env dir j ?g else run_claimed env dir j ?g img step_id"
  show "started_only ?ok t (snd (op_bind (open_storage env (sj_run_id j) (sj_job_id j)) (\<lambda>dir.
      op_seq (op_write (on_writer (\<lambda>_. new_writer))) (op_seq (persist_request env dir j)
      (let g = ?g in op_seq (persist_guard env dir g)
         (if \<not> gr_allowed g then reject_code env dir j g else run_claimed env dir j g img step_id)))) t))"
  proof (rule starts_bind)
    fix dir s1
    assume "open_storage env (sj_run_id j) (sj_job_id j) t = (Inr dir, s1)"
    then have dir: "dir = job_dir env (sj_run_id j) (sj_job_id j)" by (rule open_storage_Inr)
    have guarded: "started_only ?ok s3 (snd (op_seq (persist_guard env dir ?g) (?last dir) s3))"
      if "holds_node (code_path dir) (Regular (sj_code j)) (sb_files s3)" for s3
    proof (rule starts_seq)
      fix s4
      assume g: "persist_guard env dir ?g s3 = (Inr (), s4)"
      have "holds_node (code_path dir) (Regular (sj_code j)) (sb_files s4)" if "quiet_probes env"
        using code.keepsD [OF code.keeps_guard_file g] other_artifacts that
          \<open>holds_node _ _ (sb_files s3)\<close> by blast
      then have *: "quiet_probes env \<longrightarrow> holds_node (code_path dir) (Regular (sj_code j)) (sb_files s4)" by blast
      show "started_only ?ok s4 (snd (?last dir s4))"
      proof (cases "gr_allowed ?g")
        case True
        have "started_only (\<lambda>c. parse_docker_image_reference img = Inr img \<and>
            lawful_start env (\<lambda>f. quiet_probes env \<longrightarrow> holds_node (code_path dir) (Regular (sj_code j)) f)
              (container_request dir j img) c) s4 (snd (run_claimed env dir j ?g img step_id s4))"
          using code.run_claimed_starts [of env dir "sj_code j" img j ?g step_id] other_artifacts *
          unfolding starts_when_def by blast
        then have "started_only ?ok s4 (snd (run_claimed env dir j ?g img step_id s4))"
          by (rule started_only_mono) (use True in \<open>simp add: start_of_job_def dir Let_def\<close>)
        then show ?thesis using True by simp
      next
        case False
        then show ?thesis
          using starts.keeps_reject [of ?ok env dir j ?g] by (simp add: starts.keeps_def)
      qed
    qed (rule starts.artifact_rules)
    show "started_only ?ok s1 (snd (op_seq (op_write (on_writer (\<lambda>_. new_writer))) (op_seq (persist_request env dir j)
      (let g = ?g in op_seq (persist_guard env dir g)
         (if \<not> gr_allowed g then reject_code env dir j g else run_claimed env dir j g img step_id))) s1))"
      unfolding Let_def
      by (intro starts_seq guarded starts.table_rules) (erule persist_request_puts)
  qed (rule starts.table_rules)
qed (rule starts.table_rules)

lemma approval_found:
  assumes "require_bound_approval env h j s = (Inr ap, t)"
  shows "ap \<in> set (sb_approvals s)" "av_job_id ap = sj_job_id j" "is_bound env h j ap"
proof -
  have "find (is_bound env h j) (list_for_job (sj_job_id j) s) = Some ap"
    using assms by (auto simp: require_bound_approval_def op_simps split: option.splits)
  then have "ap \<in> set (list_for_job (sj_job_id j) s)" "is_bound env h j ap"
    by (auto dest: find_Some_in)
  then show "ap \<in> set (sb_approvals s)" "av_job_id ap = sj_job_id j" "is_bound env h j ap"
    by (simp_all add: list_for_job_def)
qed

text \<open>A start of an execution: the step, the row, the retained job, and the approval.\<close>

definition approved_start ::
  "sandbox_env \<Rightarrow> assistant_plan \<Rightarrow> string \<Rightarrow> sandbox_state \<Rightarrow> sandbox_job \<Rightarrow> string \<Rightarrow> bool" where
  "approved_start env plan h s j img \<longleftrightarrow>
     (\<exists>step a row ap.
        ap_steps plan = [step] \<and> ps_tool step = ''sandbox.run_research_code'' \<and>
        retained_for env (ps_arguments step) s a row j img \<and>
        ap \<in> set (sb_approvals s) \<and> av_job_id ap = sj_job_id j \<and> is_bound env h j ap)"

lemma execution_starts:
  "started_only (\<lambda>c. \<exists>j img. approved_start env plan h s j img \<and> start_of_job env j img c) s
     (snd (execute_prepared_sandbox_turn env plan h s))"
  (is "started_only ?ok s _")
proof (cases "\<exists>step. ap_steps plan = [step] \<and> ps_tool step = ''sandbox.run_research_code''")
  case True
  then obtain step where step: "ap_steps plan = [step]" "ps_tool step = ''sandbox.run_research_code''" by blast
  have "started_only ?ok s (snd (op_bind (load_retained_sandbox_job env (ps_arguments step)) (\<lambda>(j, img).
      op_bind (require_bound_approval env h j) (\<lambda>_.
      op_seq (claim_for_validation (sj_job_id j)) (execute_job env j img (ps_id step)))) s))"
  proof (rule starts_bind)
    fix ji s1
    assume l: "load_retained_sandbox_job env (ps_arguments step) s = (Inr ji, s1)"
    obtain j img where ji: "ji = (j, img)" by fastforce
    obtain a row where a: "retained_for env (ps_arguments step) s a row j img"
      using load_retained(1) l ji by blast
    have s1: "sb_approvals s1 = sb_approvals s"
      using load_retained(2) l ji unfolding same_records_def by blast
    have "started_only ?ok s1 (snd (op_bind (require_bound_approval env h j) (\<lambda>_.
        op_seq (claim_for_validation (sj_job_id j)) (execute_job env j img (ps_id step))) s1))"
    proof (rule starts_bind)
      fix ap s2
      assume "require_bound_approval env h j s1 = (Inr ap, s2)"
      then have "approved_start env plan h s j img"
        using approval_found step a s1 unfolding approved_start_def by metis
      then have "started_only ?ok s3 (snd (execute_job env j img (ps_id step) s3))" for s3
        by (intro started_only_mono [OF execute_job_starts]) blast
      then show "started_only ?ok s2 (snd (op_seq (claim_for_validation (sj_job_id j))
          (execute_job env j img (ps_id step)) s2))"
        by (intro starts_seq starts.claims)
    qed (rule starts.table_rules)
    then show "started_only ?ok s1 (snd ((case ji of (j, img) \<Rightarrow> op_bind (require_bound_approval env h j) (\<lambda>_.
        op_seq (claim_for_validation (sj_job_id j)) (execute_job env j img (ps_id step)))) s1))"
      by (simp add: ji)
  qed (rule starts.table_rules)
  then show ?thesis using step by (simp add: execute_prepared_sandbox_turn_def)
next
  case False
  then have "snd (execute_prepared_sandbox_turn env plan h s) = s"
    by (auto simp: execute_prepared_sandbox_turn_def op_simps split: list.split)
  then show ?thesis by (simp add: started_only_same)
qed

text \<open>The calls a run made, in the order they were made.\<close>

definition new_calls :: "sandbox_state \<Rightarrow> sandbox_state \<Rightarrow> docker_call list" where
  "new_calls s t = drop (length (sb_calls s)) (sb_calls t)"

lemma started_only_calls: "started_only ok s t \<Longrightarrow> list_all ok (filter is_container_start (new_calls s t))"
  by (auto simp: started_only_def new_calls_def list_all_iff)

end
