(* ===== verification/Sandbox_Demo.thy ===== *)
theory Sandbox_Demo
  imports Sandbox_Safety
begin

section \<open>A run of the sandbox service\<close>

text \<open>
  One approved job on an environment in which everything works, evaluated step by step from the claim to
  the finished run: the witness of the properties.  The texts of the artifacts stay unevaluated, nothing
  on the way looks into them.
\<close>

subsection \<open>The environment and the approved job\<close>

definition demo_sha :: string where "demo_sha = replicate 64 (CHR ''a'')"

definition demo_image :: string where "demo_image = ''vnalpha/sandbox@sha256:'' @ demo_sha"

definition demo_run :: path where
  "demo_run = [''logs'', ''runs'', ''r1'']"

abbreviation demo_dir :: path where
  "demo_dir \<equiv> demo_run @ [''sandbox'', ''job-u0'']"

definition demo_result :: docker_result where
  "demo_result =
     \<lparr>dk_return_code = 0, dk_stdout = ''linux'', dk_stderr = [], dk_failure_code = None, dk_detail = [],
      dk_stdout_truncated = False, dk_stderr_truncated = False, dk_cleanup = None, dk_preflight = None\<rparr>"

definition demo_invoke ::
  "string list \<Rightarrow> int \<Rightarrow> nat \<Rightarrow> files \<Rightarrow> (command_error + docker_result) \<times> files" where
  "demo_invoke argv timeout n f =
     (if take 2 argv = [''docker'', ''run'']
      then (Inr demo_result, dict_set (demo_dir @ [''output'', ''result.json'']) (Regular ''R'')
          (dict_set (demo_dir @ [''output'', ''summary.md'']) (Regular ''S'') f))
      else (Inr demo_result, f))"

text \<open>The argument is what \<open>json.loads\<close> makes of the result.\<close>

definition demo_box :: "loads_outcome \<Rightarrow> sandbox_env" where
  "demo_box ld =
     \<lparr>se_sha256 = (\<lambda>_. demo_sha), se_parse = (\<lambda>_. Some (Other_node ''Module'' (0, 0) [])),
      se_uuid = (\<lambda>n. ''u'' @ render_int (int n)), se_now = (\<lambda>n. ''t''), se_clock = int,
      se_fault = (\<lambda>_. No_Io_Fault), se_run_dir = (\<lambda>r. demo_run), se_new_run = (\<lambda>_ f. f),
      se_absolute = True, se_linked = False, se_run_id = ''r1'', se_correlation_id = ''c1'',
      se_image = demo_image, se_platform = ''Linux'', se_invoke = demo_invoke,
      se_generate = (\<lambda>p. Inr \<lparr>gp_code = ''x = 1'', gp_summary = ''one'', gp_references = []\<rparr>),
      se_arguments = (\<lambda>d. Some \<lparr>ra_purpose = ''sum of 1'', ra_job_id = ''job-u0'', ra_run_id = ''r1'',
        ra_correlation_id = ''c1'', ra_code_digest = demo_sha, ra_input_references = [],
        ra_limits = default_limits, ra_image = demo_image\<rparr>),
      se_retained_request = (\<lambda>t. Some \<lparr>rq_purpose = ''sum of 1'', rq_correlation_id = ''c1'',
        rq_limits = default_limits, rq_network_enabled = False\<rparr>),
      se_references = (\<lambda>t. Some []), se_utf8 = (\<lambda>_. True), se_loads = (\<lambda>_. ld),
      se_envelope = (\<lambda>_. Some \<lparr>en_schema_version = 1, en_summary = ''one is 1'', en_artifacts = []\<rparr>),
      se_repr = (\<lambda>_. [])\<rparr>"

definition demo_plan :: assistant_plan where
  "demo_plan =
     \<lparr>ap_intent = ''sandbox_research_calculation'',
      ap_steps = [\<lparr>ps_id = ''s1'', ps_tool = ''sandbox.run_research_code'',
        ps_arguments = [(''purpose'', PStr ''sum of 1'')], ps_purpose = [], ps_permission = ''SANDBOX_APPROVAL''\<rparr>],
      ap_assumptions = [], ap_artifacts = [], ap_refusal = PNone\<rparr>"

definition demo_start :: sandbox_state where
  "demo_start =
     \<lparr>sb_jobs = [], sb_approvals = [], sb_files = [(demo_run, Directory)],
      sb_writer = new_writer, sb_calls = [], sb_audit = [], sb_failures = [], sb_tick = 0\<rparr>"

definition demo_row :: sandbox_row where
  "demo_row =
     \<lparr>sr_job_id = ''job-u0'', sr_run_id = ''r1'', sr_correlation_id = ''c1'', sr_purpose = ''sum of 1'',
      sr_code_digest = demo_sha, sr_status = Queued, sr_limits = default_limits, sr_network_enabled = False,
      sr_read_paths = [], sr_outputs = required_artifacts, sr_result_summary = None,
      sr_rejection_reason = None, sr_failure_reason = None, sr_created_at = 0\<rparr>"

definition demo_approval :: approval where
  "demo_approval =
     \<lparr>av_approval_id = ''a1'', av_job_id = ''job-u0'', av_plan_digest = demo_sha, av_code_digest = demo_sha,
      av_input_references = [], av_references_digest = demo_sha, av_correlation_id = ''c1'',
      av_approver = ''user'', av_approved_at = 1\<rparr>"

definition demo_approved :: sandbox_state where
  "demo_approved = demo_start\<lparr>sb_jobs := [demo_row], sb_approvals := [demo_approval],
     sb_files := [(demo_run, Directory),
       (demo_run @ [''sandbox''], Directory), (demo_dir, Directory),
       (demo_dir @ [''inputs''], Directory),
       (demo_dir @ [''request.json''], Regular ''Q''),
       (demo_dir @ [''generated_code.py''], Regular ''x''),
       (demo_dir @ [''inputs'', ''references.json''], Regular ''F'')]\<rparr>"

definition demo_job :: sandbox_job where
  "demo_job =
     \<lparr>sj_job_id = ''job-u0'', sj_run_id = ''r1'', sj_purpose = ''sum of 1'', sj_code = ''x'',
      sj_correlation_id = ''c1'', sj_limits = default_limits,
      sj_network_enabled = False, sj_read_paths = [],
      sj_outputs = required_artifacts, sj_status = Queued\<rparr>"

subsection \<open>Loading the job\<close>

lemma demo_load: "load_retained_sandbox_job (demo_box ld) x demo_approved = (Inr (demo_job, demo_image), demo_approved)"
  by code_simp

lemma demo_fields:
  "se_sha256 (demo_box ld) c = demo_sha" "se_fault (demo_box ld) n = No_Io_Fault" "se_run_dir (demo_box ld) r = demo_run"
  "se_invoke (demo_box ld) = demo_invoke" "se_run_id (demo_box ld) = ''r1''" "se_absolute (demo_box ld)" "\<not> se_linked (demo_box ld)"
  "se_platform (demo_box ld) = ''Linux''" "se_image (demo_box ld) = demo_image"
  by (simp_all add: demo_box_def)

lemma demo_sha_ok: "hex_digest demo_sha" by code_simp

lemmas layout = layout_defs output_directory_def

lemma layout_parts:
  "list_all (\<lambda>p. parse_artifact_parts p = Inr [p] \<and> validate_manifest_path p = Inr () \<or> p = manifest_path)
     [request_path, manifest_path, guard_path, generated_code_path, lifecycle_file, validation_path, execution_path]"
  "parse_artifact_parts manifest_path = Inr [manifest_path]"
  "parse_artifact_parts input_references_path = Inr [''inputs'', ''references.json'']"
  "validate_manifest_path input_references_path = Inr ()"
  "list_all (\<lambda>p. parse_artifact_parts (''output/'' @ p) = Inr [output_directory, p] \<and> validate_manifest_path (''output/'' @ p) = Inr ())
     [''result.json'', ''summary.md'', ''stdout.txt'', ''stderr.txt'']"
  by code_simp+

lemmas layout_facts = layout_parts [unfolded layout, simplified]

lemma one_or_two: "[1..<Suc 0] = []" "[Suc 0..<Suc 0] = []" "[Suc 0..<2] = [1]" "[Suc 0..<Suc (Suc 0)] = [1]"  by code_simp+

definition demo_claimed :: sandbox_state where
  "demo_claimed = demo_approved\<lparr>sb_jobs := [demo_row\<lparr>sr_status := Validating\<rparr>]\<rparr>"

definition demo_guard :: guard_result where
  "demo_guard = evaluate_code (\<lambda>_. demo_sha) (\<lambda>_. Some (Other_node ''Module'' (0, 0) [])) (sj_code demo_job)"

definition demo_request_text :: string where
  "demo_request_text = request_bytes (demo_box Decode_Error) demo_job"

lemma demo_request_bytes: "request_bytes (demo_box ld) demo_job = demo_request_text"
  by (simp add: demo_request_text_def request_bytes_def code_digest_def demo_fields)

definition demo_files :: "(string list \<times> file_node) list \<Rightarrow> files" where
  "demo_files cs =
     [(demo_run, Directory), (demo_run @ [''sandbox''], Directory), (demo_dir, Directory),
      (demo_dir @ [''inputs''], Directory),
      (demo_dir @ [''request.json''], Regular demo_request_text),
      (demo_dir @ [''generated_code.py''], Regular (sj_code demo_job)),
      (demo_dir @ [''inputs'', ''references.json''], Regular (references_bytes demo_job))] @
     map (\<lambda>(p, n). (demo_dir @ p, n)) cs"

declare demo_request_text_def [code del] references_bytes_def [code del] guard_bytes_def [code del]

lemma demo_facts: "gr_allowed demo_guard" "gr_code_digest demo_guard = demo_sha" "has_surrogate (sj_code demo_job) = False"
  "strip ''application/json'' \<noteq> []" "strip ''text/x-python'' \<noteq> []" "strip ''application/x-ndjson'' \<noteq> []"
  "strip ''text/plain'' \<noteq> []"
  by code_simp+

lemmas demo_steps = op_simps op_seq_def op_bind_def demo_fields write_atomic_bytes_def invalidate_file_def
   layout layout_facts parts_of_layout [unfolded layout] new_entry_def demo_sha_ok  inner_dirs_def write_atomic_file_def
   create_directories_def open_or_create_directory_def one_or_two demo_facts
   remove_leaf_def host_entries_def set_host_entries_def on_writer_def on_files_def first_missing_def job_digest_error_def
   code_digest_def new_writer_def next_tick_def demo_request_bytes

definition demo_state ::
  "(string list \<times> file_node) list \<Rightarrow> manifest_entry list \<Rightarrow> guard_result option \<Rightarrow> docker_call list \<Rightarrow>
   audit_event list \<Rightarrow> nat \<Rightarrow> sandbox_state" where
  "demo_state fs es g cs as n =
     \<lparr>sb_jobs = [demo_row\<lparr>sr_status := Validating\<rparr>], sb_approvals = [demo_approval], sb_files = demo_files fs,
      sb_writer = \<lparr>aw_host_entries = Some es, aw_request_digest = Some demo_sha, aw_guard = g\<rparr>,
      sb_calls = cs, sb_audit = as, sb_failures = [], sb_tick = n\<rparr>"

definition demo_entry :: "string \<Rightarrow> string \<Rightarrow> string \<Rightarrow> manifest_entry" where
  "demo_entry p c m = \<lparr>me_path = p, me_sha256 = demo_sha, me_byte_length = length c, me_media_type = m\<rparr>"

definition demo_kept :: "manifest_entry list" where
  "demo_kept =
    [demo_entry request_path demo_request_text ''application/json'',
     demo_entry generated_code_path (sj_code demo_job) ''text/x-python'',
     demo_entry input_references_path (references_bytes demo_job) ''application/json'']"

subsection \<open>The request and the guard\<close>

lemma demo_persisted_request:
  "persist_request (demo_box ld) demo_dir demo_job demo_claimed = (Inr (), demo_state [] demo_kept None [] [] 3)"
  by (simp add: persist_request_def demo_steps demo_claimed_def demo_approved_def demo_start_def
      demo_files_def demo_state_def demo_entry_def demo_kept_def del: upt_Suc)

abbreviation demo_guarded :: sandbox_state where
  "demo_guarded \<equiv> demo_state [([''guard.json''], Regular (guard_bytes demo_guard))]
     (demo_kept @ [demo_entry guard_path (guard_bytes demo_guard) ''application/json'']) (Some demo_guard) [] [] 4"

lemma demo_persisted_guard:
  "persist_guard (demo_box ld) demo_dir demo_guard (demo_state [] demo_kept None [] [] 3) = (Inr (), demo_guarded)"
  by (simp add: persist_guard_def demo_steps demo_files_def demo_state_def demo_entry_def demo_kept_def del: upt_Suc)

text \<open>The files before the run, with the lifecycle line that was written; those it finds.\<close>

definition demo_before :: "string \<Rightarrow> (string list \<times> file_node) list" where
  "demo_before line =
     [([''guard.json''], Regular (guard_bytes demo_guard)), ([''lifecycle.jsonl''], Regular line)]"

definition demo_ready :: "string \<Rightarrow> (string list \<times> file_node) list" where
  "demo_ready line = demo_before line @ [([''output''], Directory)]"

definition demo_entries :: "string \<Rightarrow> manifest_entry list" where
  "demo_entries line = demo_kept @ [demo_entry guard_path (guard_bytes demo_guard) ''application/json'',
      demo_entry lifecycle_file line ''application/x-ndjson'']"

lemmas demo_file_defs = demo_files_def demo_before_def demo_ready_def

lemma demo_lifecycle:
  obtains line as where
    "persist_lifecycle_event (demo_box ld) demo_dir demo_job event status summary metadata demo_guarded =
     (Inr (), demo_state (demo_before line) (demo_entries line) (Some demo_guard) [] as 6)"
  by (rule that) (simp add: persist_lifecycle_event_def persist_lifecycle_line_def read_file_def read_leaf_def
      demo_steps demo_file_defs demo_state_def demo_entry_def demo_kept_def demo_entries_def replace_entries_def
      del: upt_Suc)

subsection \<open>The container\<close>

lemma demo_ensure:
  "ensure_directory demo_dir output_directory (demo_state (demo_before line) es g cs as n) =
     (Inr (demo_dir @ [output_directory]), demo_state (demo_ready line) es g cs as n)"
  by (simp add: ensure_directory_def demo_steps demo_state_def demo_file_defs del: upt_Suc)

lemma demo_path_for:
  "path_for demo_dir generated_code_path (demo_state (demo_ready line) es g cs as n) =
     (Inr (demo_dir @ [generated_code_path]), demo_state (demo_ready line) es g cs as n)"
  by code_simp

lemma demo_request_made: "new_docker_request demo_image code inputs out l =
   Inr \<lparr>dr_image = demo_image, dr_code_path = code, dr_input_paths = inputs, dr_output_path = out,
            dr_limits = l, dr_environment = []\<rparr>"
proof -
  have "parse_docker_image_reference demo_image = Inr demo_image" by code_simp
  then show ?thesis by (simp add: new_docker_request_def res_bind.simps)
qed

lemma demo_preflight:
  obtains cs where "preflight (demo_box ld) demo_image (demo_state (demo_ready line) es g [] as n) =
    (Inr \<lparr>pf_docker_available = True, pf_linux_supported = True,
              pf_detail = ''Docker daemon and required local digest image are available'',
              pf_failure_code = None, pf_server_os = Some ''linux''\<rparr>, demo_state (demo_ready line) es g cs as (n + 2))"
   "filter is_container_start cs = []"
proof -
  have "lower (strip (ascii_decoded (dk_stdout demo_result))) = ''linux''" "dk_return_code demo_result = 0" by code_simp+
  then show thesis
    by - (rule that, simp add: preflight_def probe_image_def invoke_def version_argv_def inspect_argv_def
      demo_invoke_def demo_fields op_simps op_bind_def Let_def demo_state_def, simp add: is_container_start_def)
qed

lemma demo_mounts:
  "validate_regular_file (demo_box ld) (demo_files (demo_ready line)) ''code path'' (demo_dir @ [generated_code_path]) = Inr (demo_dir @ [generated_code_path])"
  "validate_directory (demo_box ld) (demo_files (demo_ready line)) ''output path'' (demo_dir @ [output_directory]) = Inr (demo_dir @ [output_directory])"
  "validate_distinct_mount_sources (demo_dir @ [generated_code_path]) [] (demo_dir @ [output_directory]) = Inr ()"
  "sj_read_paths demo_job = []"
  by code_simp+

lemma demo_argv:
  "build_docker_run_argv (demo_box ld) (container_request demo_dir demo_job demo_image) (demo_files (demo_ready line)) =
    Inr (docker_argv (demo_box ld) (container_request demo_dir demo_job demo_image))"
  by (simp add: build_docker_run_argv_def container_request_def demo_mounts [simplified])

definition demo_left :: "string \<Rightarrow> (string list \<times> file_node) list" where
  "demo_left line = demo_ready line @ [([''output'', ''summary.md''], Regular ''S''), ([''output'', ''result.json''], Regular ''R'')]"

lemma demo_invoked:
  "invoke (demo_box ld) (docker_argv (demo_box ld) q) timeout (demo_state (demo_ready line) es g cs as n) =
     (Inr (Inr demo_result), demo_state (demo_left line) es g
        (cs @ [\<lparr>dc_argv = docker_argv (demo_box ld) q, dc_timeout = timeout, dc_files = demo_files (demo_ready line)\<rparr>])
        as (n + 1))"
proof -
  have "take 2 (docker_argv (demo_box ld) q) = [''docker'', ''run'']"
    by (simp add: docker_argv_def)
  then show ?thesis
    by (simp add: invoke_def demo_fields demo_invoke_def demo_state_def demo_left_def demo_file_defs)
qed

lemma demo_docker:
  obtains cs pf where "run_docker (demo_box ld) (container_request demo_dir demo_job demo_image)
      (demo_state (demo_ready line) es g [] as n) =
    (Inr (demo_result\<lparr>dk_preflight := Some pf\<rparr>), demo_state (demo_left line) es g cs as (Suc (Suc (Suc n))))"
    "length (filter is_container_start cs) = 1"
proof -
  let ?q = "container_request demo_dir demo_job demo_image"
  obtain cs pf where pf: "preflight (demo_box ld) demo_image (demo_state (demo_ready line) es g [] as n) =
      (Inr pf, demo_state (demo_ready line) es g cs as (n + 2))" "pf_failure_code pf = None"
      "filter is_container_start cs = []"
    by (rule demo_preflight [of ld line es g as n]) simp
  have q: "dr_image ?q = demo_image" "sb_files (demo_state fs es g cs as n) = demo_files fs" "dk_return_code demo_result = 0" for fs es g cs as n
    by (simp_all add: container_request_def demo_state_def demo_result_def)
  have "is_container_start \<lparr>dc_argv = docker_argv (demo_box ld) ?q, dc_timeout = t, dc_files = f\<rparr>" for t f
    by (simp add: is_container_start_def docker_argv_def)
  then show thesis
    by - (rule that [of pf], simp add: run_docker_def run_container_def op_bind_def op_simps pf q demo_argv demo_invoked,
      simp add: pf)
qed

subsection \<open>The evidence and the outputs\<close>

declare evidence_bytes_def [code del]

abbreviation demo_outcome :: "preflight_result \<Rightarrow> docker_result" where
  "demo_outcome pf \<equiv> demo_result\<lparr>dk_preflight := Some pf\<rparr>"

definition demo_reported :: "string \<Rightarrow> string \<Rightarrow> (string list \<times> file_node) list" where
  "demo_reported line ev = demo_left line @
     [([''output'', ''stdout.txt''], Regular ''linux''), ([''output'', ''stderr.txt''], Regular []),
      ([''execution.json''], Regular ev)]"

definition demo_reported_entries :: "string \<Rightarrow> string \<Rightarrow> manifest_entry list" where
  "demo_reported_entries line ev = demo_entries line @
     [demo_entry stdout_path ''linux'' ''text/plain'', demo_entry stderr_path [] ''text/plain'',
      demo_entry execution_path ev ''application/json'']"

lemma demo_execution:
  "ev_result ev = demo_outcome pf \<Longrightarrow> evidence_bytes ev = text \<Longrightarrow>
   persist_execution (demo_box ld) demo_dir ev
      (demo_state (demo_left line) (demo_entries line) (Some demo_guard) cs as n) =
     (Inr (), demo_state (demo_reported line text) (demo_reported_entries line text) (Some demo_guard) cs as (n + 3))"
  by (simp add: persist_execution_def demo_steps demo_file_defs demo_left_def demo_reported_def demo_state_def
      demo_entries_def demo_entry_def demo_kept_def demo_reported_entries_def demo_result_def replace_entries_def
      del: upt_Suc)

definition demo_validation :: output_validation where
  "demo_validation =
     \<lparr>ov_evidence =
        \<lparr>oe_succeeded = True, oe_failure_code = None, oe_artifact_path = None,
         oe_detail = ''sandbox outputs satisfy the expected artifact contract'',
         oe_validated_paths = [''output/result.json'', ''output/summary.md'']\<rparr>,
      ov_result = Some \<lparr>en_schema_version = 1, en_summary = ''one is 1'', en_artifacts = []\<rparr>,
      ov_inventory =
        [demo_entry ''output/result.json'' ''R'' ''application/json'',
         demo_entry ''output/summary.md'' ''S'' ''text/markdown'']\<rparr>"

abbreviation demo_good :: sandbox_env where
  "demo_good \<equiv> demo_box (Loaded (JObj []))"

lemma demo_validate: "validate_outputs demo_good (sj_outputs demo_job) demo_dir (demo_files (demo_reported line ev)) = Inr demo_validation"
 by code_simp

declare output_evidence_bytes_def [code del]

lemma demo_built_manifest:
  "build_manifest demo_good (sj_outputs demo_job) demo_dir
     (demo_files (demo_reported line ev @ [([''validation.json''], Regular v)]))
     (demo_reported_entries line ev @ [demo_entry validation_path v ''application/json'']) demo_validation =
   Inr (demo_reported_entries line ev @ demo_entry validation_path v ''application/json'' # ov_inventory demo_validation)"
  by code_simp

lemma demo_last_files:
  "map_of (demo_files (demo_reported line ev)) (demo_dir @ [''manifest.json'']) = None"
  "map_of (demo_files (demo_reported line ev)) (demo_dir @ [''validation.json'']) = None"
  "dict_set (demo_dir @ [''validation.json'']) x (demo_files (demo_reported line ev)) =
     demo_files (demo_reported line ev @ [([''validation.json''], x)])"
  "map_of (demo_files (demo_reported line ev @ [([''validation.json''], x)])) (demo_dir @ [''manifest.json'']) = None"
  "dict_set (demo_dir @ [''manifest.json'']) y (demo_files (demo_reported line ev @ [([''validation.json''], x)])) =
     demo_files (demo_reported line ev @ [([''validation.json''], x), ([''manifest.json''], y)])"
  by (simp_all add: demo_file_defs demo_left_def demo_reported_def)

lemma demo_finalize_validation:
  obtains fs es where
  "persist_validation_and_manifest demo_good demo_dir demo_validation (sj_outputs demo_job)
     (demo_state (demo_reported line ev) (demo_reported_entries line ev) (Some demo_guard) cs as n) =
     (Inr (), demo_state fs es (Some demo_guard) cs as (n + 2))"
proof -
  let ?v = "output_evidence_bytes (ov_evidence demo_validation)"
  have r: "replace_entries (demo_reported_entries line ev) [demo_entry ''validation.json'' ?v ''application/json''] =
     demo_reported_entries line ev @ [demo_entry ''validation.json'' ?v ''application/json'']"
    by (simp add: replace_entries_def demo_reported_entries_def demo_entries_def demo_kept_def demo_entry_def layout)
  let ?m = "manifest_bytes (demo_reported_entries line ev @ demo_entry validation_path ?v ''application/json'' # ov_inventory demo_validation)"
  show thesis
    by (rule that [of "demo_reported line ev @ [([''validation.json''], Regular ?v), ([''manifest.json''], Regular ?m)]"
       "demo_reported_entries line ev @ [demo_entry ''validation.json'' ?v ''application/json'']"])
    (simp add: persist_validation_and_manifest_def demo_steps demo_state_def Let_def r [unfolded demo_entry_def] demo_last_files [simplified] demo_built_manifest [unfolded demo_entry_def layout] demo_entry_def del: upt_Suc)
qed

lemma demo_row_fits: "row_constraints (demo_row\<lparr>sr_status := Succeeded, sr_result_summary := Some ''one is 1''\<rparr>)"
  "parse_sandbox_job_detail ''one is 1'' = Inr ''one is 1''"
  by code_simp+

lemma demo_finalized:
  obtains t where
    "finalize_execution demo_good demo_dir demo_job (demo_outcome pf)
      (demo_state (demo_reported line ev) (demo_reported_entries line ev) (Some demo_guard) cs as n) =
      (Inr (ended Execution_Succeeded None (Some (demo_outcome pf))), t)"
    "sb_calls t = cs"
proof -
  obtain fs es where p: "persist_validation_and_manifest demo_good demo_dir demo_validation (sj_outputs demo_job)
     (demo_state (demo_reported line ev) (demo_reported_entries line ev) (Some demo_guard) cs as n) =
     (Inr (), demo_state fs es (Some demo_guard) cs as (n + 2))"
    by (rule demo_finalize_validation)
  have v: "validate_now demo_good demo_dir (sj_outputs demo_job)
      (demo_state (demo_reported line ev) es g cs as n) = (Inr demo_validation, demo_state (demo_reported line ev) es g cs as n)" for es g
    by (simp add: validate_now_def op_simps demo_state_def demo_validate)
  have ok: "oe_succeeded (ov_evidence demo_validation)"
    "ov_result demo_validation = Some \<lparr>en_schema_version = 1, en_summary = ''one is 1'', en_artifacts = []\<rparr>"
    by (simp_all add: demo_validation_def)
  have i: "sr_job_id demo_row = sj_job_id demo_job" by (simp add: demo_row_def demo_job_def)
  obtain t where t: "mark_succeeded (sj_job_id demo_job) ''one is 1'' (demo_state fs es (Some demo_guard) cs as (n + 2)) = (Inr (), t)"
    "sb_calls t = cs"
    by (rule that, simp add: mark_succeeded_def op_bind_def op_simps end_sandbox_job_def demo_row_fits update_job_eq
        demo_state_def active_sources_def i) simp
  show thesis
    by (rule that [of t], simp add: finalize_execution_def succeeds_def op_seq_def op_catch_def op_bind_def op_simps p v ok t(1) [simplified])
      (simp add: t)
qed

subsection \<open>The whole run\<close>

lemma demo_orchestrate:
  obtains cs ev pf where
    "orchestrate (demo_box ld) demo_dir demo_job demo_guard demo_image
       (demo_state (demo_before line) (demo_entries line) (Some demo_guard) [] as n) =
     finalize_execution (demo_box ld) demo_dir demo_job (demo_outcome pf)
       (demo_state (demo_reported line ev) (demo_reported_entries line ev) (Some demo_guard) cs as (n + 6))"
    "length (filter is_container_start cs) = 1"
proof -
  let ?es = "demo_entries line" and ?g = "Some demo_guard" and ?q = "container_request demo_dir demo_job demo_image"
  obtain cs pf where d: "run_docker (demo_box ld) ?q (demo_state (demo_ready line) ?es ?g [] as n) =
      (Inr (demo_outcome pf), demo_state (demo_left line) ?es ?g cs as (Suc (Suc (Suc n))))"
    "length (filter is_container_start cs) = 1"
    by (rule demo_docker)
  have c: "classify_execution (demo_outcome pf) = Some (Execution_Succeeded, None)"
    by (simp add: classify_execution_def demo_result_def)
  let ?ev = "evidence_from Execution_Succeeded (demo_outcome pf) (Some ?q) None"
  let ?text = "evidence_bytes ?ev"
  have e: "persist_execution (demo_box ld) demo_dir ?ev
      (demo_state (demo_left line) ?es ?g cs as (Suc (Suc (Suc n)))) =
     (Inr (), demo_state (demo_reported line ?text) (demo_reported_entries line ?text) ?g cs as
       (Suc (Suc (Suc n)) + 3))"
    by (rule demo_execution) (simp_all add: evidence_from_def)
  let ?final = "finalize_execution (demo_box ld) demo_dir demo_job (demo_outcome pf)
      (demo_state (demo_reported line ?text) (demo_reported_entries line ?text) ?g cs as (n + 6))"
  have co: "conclude_execution (demo_box ld) demo_dir demo_job ?q (demo_outcome pf)
      (demo_state (demo_left line) ?es ?g cs as (Suc (Suc (Suc n)))) = ?final"
    by (simp add: conclude_execution_def Let_def c succeeds_def op_seq_def op_catch_def op_bind_def op_simps e
        add.commute [of 6])
  have q: "?q = \<lparr>dr_image = demo_image, dr_code_path = demo_dir @ [generated_code_path], dr_input_paths = [],
      dr_output_path = demo_dir @ [output_directory], dr_limits = sj_limits demo_job, dr_environment = []\<rparr>"
    by (simp add: container_request_def demo_mounts)
  have st: "start_container (demo_box ld) demo_dir demo_job demo_image
      (demo_state (demo_before line) ?es ?g [] as n) = ?final"
    using d(1) co unfolding q
    by (simp add: start_container_def op_bind_def demo_ensure [simplified] demo_path_for [simplified] demo_mounts
        op_simps demo_request_made)
  have "fst (require_persisted_guard demo_guard (demo_state (demo_before line) ?es ?g [] as n)) = Inr ()"
    by (simp add: require_persisted_guard_def op_simps demo_state_def)
  with st have "orchestrate (demo_box ld) demo_dir demo_job demo_guard demo_image
      (demo_state (demo_before line) ?es ?g [] as n) = ?final"
    by (simp add: orchestrate_def op_simps demo_facts demo_fields code_digest_def)
  then show thesis using d(2) by (rule that)
qed

lemma demo_orchestrated:
  obtains r t where
    "orchestrate demo_good demo_dir demo_job demo_guard demo_image
      (demo_state (demo_before line) (demo_entries line) (Some demo_guard) [] as n) =
      (Inr (ended Execution_Succeeded None (Some r)), t)"
    "container_starts t = 1"
proof -
  obtain cs ev pf where o: "orchestrate demo_good demo_dir demo_job demo_guard demo_image
       (demo_state (demo_before line) (demo_entries line) (Some demo_guard) [] as n) =
     finalize_execution demo_good demo_dir demo_job (demo_outcome pf)
       (demo_state (demo_reported line ev) (demo_reported_entries line ev) (Some demo_guard) cs as (n + 6))"
    "length (filter is_container_start cs) = 1"
    by (rule demo_orchestrate)
  obtain t where
    "finalize_execution demo_good demo_dir demo_job (demo_outcome pf)
       (demo_state (demo_reported line ev) (demo_reported_entries line ev) (Some demo_guard) cs as (n + 6)) =
      (Inr (ended Execution_Succeeded None (Some (demo_outcome pf))), t)" "sb_calls t = cs"
    by (rule demo_finalized)
  with o that show thesis by (simp add: container_starts_def)
qed

text \<open>With a result \<open>json.loads\<close> cannot read, the orchestrator raises.\<close>

lemma demo_unreadable:
  obtains t where
    "orchestrate (demo_box (Load_Raises m)) demo_dir demo_job demo_guard demo_image
      (demo_state (demo_before line) (demo_entries line) (Some demo_guard) [] as n) = (Inl (Invalid_Value m), t)"
    "container_starts t = 1"
proof -
  have "validate_outputs (demo_box (Load_Raises m)) (sj_outputs demo_job) demo_dir (demo_files (demo_reported line ev)) =
      Inl (Invalid_Value m)" for ev
    by code_simp
  then have v: "finalize_execution (demo_box (Load_Raises m)) demo_dir demo_job (demo_outcome pf)
      (demo_state (demo_reported line ev) es g cs as k) = (Inl (Invalid_Value m),
       demo_state (demo_reported line ev) es g cs as k)" for pf ev es g cs k
    by (simp add: finalize_execution_def validate_now_def op_simps op_bind_def demo_state_def)
  obtain cs ev pf where "orchestrate (demo_box (Load_Raises m)) demo_dir demo_job demo_guard demo_image
       (demo_state (demo_before line) (demo_entries line) (Some demo_guard) [] as n) =
     finalize_execution (demo_box (Load_Raises m)) demo_dir demo_job (demo_outcome pf)
       (demo_state (demo_reported line ev) (demo_reported_entries line ev) (Some demo_guard) cs as (n + 6))"
    "length (filter is_container_start cs) = 1"
    by (rule demo_orchestrate)
  then have "orchestrate (demo_box (Load_Raises m)) demo_dir demo_job demo_guard demo_image
       (demo_state (demo_before line) (demo_entries line) (Some demo_guard) [] as n) = (Inl (Invalid_Value m),
     demo_state (demo_reported line ev) (demo_reported_entries line ev) (Some demo_guard) cs as (n + 6))"
    by (simp only: v)
  then show thesis
    by (rule that) (use \<open>length _ = 1\<close> in \<open>simp add: container_starts_def demo_state_def\<close>)
qed

text \<open>The claimed job up to the orchestrator, and the execution of the prepared turn.\<close>

lemma demo_execute_job:
  obtains line as where
    "execute_job (demo_box ld) demo_job demo_image ''s1'' demo_claimed =
     op_bind (orchestrate (demo_box ld) demo_dir demo_job demo_guard demo_image) (\<lambda>res.
        if or_status res = Execution_Succeeded then
          op_seq (persist_lifecycle_event (demo_box ld) demo_dir demo_job ''SANDBOX_JOB_SUCCEEDED'' ''succeeded''
            ''Sandbox job completed successfully.'' [(''image_digest'', JStr (image_digest demo_image))])
          (op_seq (persist_manifest (demo_box ld) demo_dir demo_job)
            (success_answer (demo_box ld) demo_dir demo_job ''s1''))
        else report_failure (demo_box ld) demo_dir demo_job demo_image res)
       (demo_state (demo_before line) (demo_entries line) (Some demo_guard) [] as 6)"
proof -
  obtain line as where l: "persist_lifecycle_event (demo_box ld) demo_dir demo_job ''SANDBOX_JOB_STARTED'' ''running''
        ''Sandbox job execution started.''
        [(''image_digest'', JStr (image_digest demo_image)), (''runtime_kind'', JStr ''docker'')] demo_guarded =
    (Inr (), demo_state (demo_before line) (demo_entries line) (Some demo_guard) [] as 6)"
    by (rule demo_lifecycle)
  have "open_storage (demo_box ld) ''r1'' ''job-u0'' demo_claimed = (Inr demo_dir, demo_claimed)" by code_simp
  moreover have "sj_run_id demo_job = ''r1''" "sj_job_id demo_job = ''job-u0''"
    "demo_claimed\<lparr>sb_writer := new_writer\<rparr> = demo_claimed"
    by (simp_all add: demo_job_def demo_claimed_def demo_approved_def demo_start_def)
  moreover have "evaluate_code (se_sha256 (demo_box ld)) (se_parse (demo_box ld)) (sj_code demo_job) = demo_guard"
    by (simp add: demo_guard_def demo_box_def)
  ultimately show thesis
    using demo_facts(1) l
    by (intro that [of line as]) (simp add: execute_job_def run_claimed_def enter_run_def demo_fields op_bind_def
        op_seq_def op_simps on_writer_def demo_persisted_request Let_def demo_persisted_guard)
qed

lemma demo_execute:
  "execute_prepared_sandbox_turn (demo_box ld) demo_plan demo_sha demo_approved =
   execute_job (demo_box ld) demo_job demo_image ''s1'' demo_claimed"
proof -
  have "require_bound_approval (demo_box ld) demo_sha demo_job demo_approved = (Inr demo_approval, demo_approved)"
    by (simp add: require_bound_approval_def op_simps list_for_job_def is_bound_def demo_approved_def demo_start_def
        demo_approval_def demo_job_def code_digest_def demo_fields)
  moreover have "row_constraints (demo_row\<lparr>sr_status := Validating\<rparr>)" by code_simp
  then have "claim_for_validation (sj_job_id demo_job) demo_approved = (Inr (), demo_claimed)"
    by (simp add: claim_for_validation_def op_bind_def op_simps update_job_eq demo_approved_def demo_start_def
        demo_claimed_def) (simp add: demo_row_def demo_job_def)
  moreover obtain step where
    "ap_steps demo_plan = [step]" "ps_tool step = ''sandbox.run_research_code''" "ps_id step = ''s1''"
    by (simp add: demo_plan_def)
  ultimately show ?thesis
    by (simp add: execute_prepared_sandbox_turn_def op_bind_def op_seq_def demo_load)
qed

lemma demo_container_started:
  "container_starts (snd (execute_prepared_sandbox_turn demo_good demo_plan demo_sha demo_approved)) = 1"
proof -
  obtain line as where e: "execute_job demo_good demo_job demo_image ''s1'' demo_claimed =
     op_bind (orchestrate demo_good demo_dir demo_job demo_guard demo_image) (\<lambda>res.
        if or_status res = Execution_Succeeded then
          op_seq (persist_lifecycle_event demo_good demo_dir demo_job ''SANDBOX_JOB_SUCCEEDED'' ''succeeded''
            ''Sandbox job completed successfully.'' [(''image_digest'', JStr (image_digest demo_image))])
          (op_seq (persist_manifest demo_good demo_dir demo_job)
            (success_answer demo_good demo_dir demo_job ''s1''))
        else report_failure demo_good demo_dir demo_job demo_image res)
       (demo_state (demo_before line) (demo_entries line) (Some demo_guard) [] as 6)"
    (is "_ = op_bind _ ?tail _")
    by (rule demo_execute_job)
  obtain r t where o: "orchestrate demo_good demo_dir demo_job demo_guard demo_image
      (demo_state (demo_before line) (demo_entries line) (Some demo_guard) [] as 6) =
      (Inr (ended Execution_Succeeded None (Some r)), t)" "container_starts t = 1"
    by (rule demo_orchestrated)
  have "idle.keeps (?tail (ended Execution_Succeeded None (Some r)))"
    by (intro idle.table_rules idle.keeps_report)
  then have "container_starts (snd (?tail (ended Execution_Succeeded None (Some r)) t)) = container_starts t"
    unfolding idle.keeps_def by blast
  then show ?thesis
    unfolding demo_execute e using o by (simp add: op_bind_def)
qed

lemma demo_raised:
  obtains t where
    "execute_prepared_sandbox_turn (demo_box (Load_Raises m)) demo_plan demo_sha demo_approved =
       (Inl (Invalid_Value m), t)"
    "container_starts t = 1"
proof -
  obtain line as where e: "execute_job (demo_box (Load_Raises m)) demo_job demo_image ''s1'' demo_claimed =
     op_bind (orchestrate (demo_box (Load_Raises m)) demo_dir demo_job demo_guard demo_image) (\<lambda>res.
        if or_status res = Execution_Succeeded then
          op_seq (persist_lifecycle_event (demo_box (Load_Raises m)) demo_dir demo_job ''SANDBOX_JOB_SUCCEEDED''
            ''succeeded'' ''Sandbox job completed successfully.''
            [(''image_digest'', JStr (image_digest demo_image))])
          (op_seq (persist_manifest (demo_box (Load_Raises m)) demo_dir demo_job)
            (success_answer (demo_box (Load_Raises m)) demo_dir demo_job ''s1''))
        else report_failure (demo_box (Load_Raises m)) demo_dir demo_job demo_image res)
       (demo_state (demo_before line) (demo_entries line) (Some demo_guard) [] as 6)"
    by (rule demo_execute_job)
  obtain t where "orchestrate (demo_box (Load_Raises m)) demo_dir demo_job demo_guard demo_image
      (demo_state (demo_before line) (demo_entries line) (Some demo_guard) [] as 6) = (Inl (Invalid_Value m), t)"
    "container_starts t = 1"
    by (rule demo_unreadable)
  then show thesis
    by (intro that) (simp_all add: demo_execute e op_bind_def)
qed

end
