(* ===== verification/Sandbox_Confine.thy ===== *)
theory Sandbox_Confine
  imports Sandbox_Safety
begin

section \<open>The command line that starts a container\<close>

text \<open>
  What the arguments built for a request say when Docker reads them: which options there are, how each
  \<open>--mount\<close> splits at its commas, and what an accepted image reference looks like.
\<close>

subsection \<open>Image references\<close>

lemmas ends_step = ends.simps(1,2,3,4)

declare ends.simps [simp del]

lemma image_name_first:
  "j \<in> set (ends image_name s i) \<Longrightarrow> i < length s \<and> lower_alnum (s ! i)"
  by (auto simp: image_name_def plus_def ends_step split: if_splits)

lemma ends_literally:
  "ends (literally t) s i = (if take (length t) (drop i s) = t then [i + length t] else [])"
proof (induction t arbitrary: i)
  case (Cons c t)
  show ?case
  proof (cases "i < length s")
    case True
    then have "drop i s = s ! i # drop (Suc i) s" by (rule Cons_nth_drop_Suc [symmetric])
    then show ?thesis using True Cons by (auto simp: ends_step)
  next
    case False
    then show ?thesis by (simp add: ends_step)
  qed
qed (simp add: ends_step)

lemma ends_literal:
  "j \<in> set (ends (Seq (literally t) r) s i) \<Longrightarrow>
   take (length t) (drop i s) = t \<and> j \<in> set (ends r s (i + length t))"
  by (simp add: ends_step ends_literally split: if_splits)

lemma ends_seq: "j \<in> set (ends (Seq a b) s i) \<longleftrightarrow> (\<exists>k \<in> set (ends a s i). j \<in> set (ends b s k))"
  by (simp add: ends_step)

lemma ends_repeated:
  "j \<in> set (ends (repeated n (Chars p)) s i) \<Longrightarrow> i \<le> length s \<Longrightarrow>
   j = i + n \<and> j \<le> length s \<and> list_all p (take n (drop i s))"
proof (induction n arbitrary: i)
  case (Suc n)
  then have i: "i < length s" "p (s ! i)" and "j \<in> set (ends (repeated n (Chars p)) s (Suc i))"
    by (auto simp: ends_step split: if_splits)
  with Suc.IH [of "Suc i"] have "j = Suc i + n \<and> j \<le> length s \<and> list_all p (take n (drop (Suc i) s))"
    by simp
  moreover have "drop i s = s ! i # drop (Suc i) s" using i(1) by (rule Cons_nth_drop_Suc [symmetric])
  ultimately show ?case using i by simp
qed (simp add: ends_step)

lemma accepted_image:
  assumes "parse_docker_image_reference raw = Inr img"
  obtains name d where "img = raw" "raw = name @ ''@sha256:'' @ d" "is_sha256_hex d" "lower_alnum (hd raw)"
    "raw \<noteq> []"
proof -
  from assms have raw: "img = raw" "length raw \<in> set (ends image_pattern raw 0)"
    by (auto simp: parse_docker_image_reference_def full_match_def split: if_splits)
  then have "raw \<noteq> [] \<and> lower_alnum (raw ! 0)"
    by (auto simp: image_pattern_def opt_def ends_step dest: image_name_first)
  then have first: "raw \<noteq> []" "lower_alnum (hd raw)"
    by (simp_all add: hd_conv_nth)
  from raw(2) obtain k where
    "length raw \<in> set (ends (Seq (literally ''@sha256:'') (repeated 64 (Chars lower_hex))) raw k)"
    unfolding image_pattern_def ends_seq by blast
  from ends_literal [OF this] have k: "length raw \<in> set (ends (repeated 64 (Chars lower_hex)) raw (k + 8))"
    "take 8 (drop k raw) = ''@sha256:''"
    by (simp_all add: eval_nat_numeral)
  then have "length (take 8 (drop k raw)) = 8" by simp
  then have le: "k + 8 \<le> length raw" by simp
  from ends_repeated [OF k(1) le]
  have d: "length raw = k + 8 + 64" "list_all lower_hex (take 64 (drop (k + 8) raw))" by auto
  have "drop k raw = take 8 (drop k raw) @ drop 8 (drop k raw)"
    by (rule append_take_drop_id [symmetric])
  then have "drop k raw = ''@sha256:'' @ drop (k + 8) raw"
    unfolding k(2) by (simp add: add.commute)
  then have split: "raw = take k raw @ ''@sha256:'' @ drop (k + 8) raw"
    by (metis append_take_drop_id)
  have "is_sha256_hex (drop (k + 8) raw)"
  proof -
    have "take 64 (drop (k + 8) raw) = drop (k + 8) raw" using d(1) by simp
    then have "list_all lower_hex (drop (k + 8) raw)" using d(2) by (simp only:)
    then have "set (drop (k + 8) raw) \<subseteq> set ''0123456789abcdef''"
      unfolding list_all_iff lower_hex_def by blast
    then show ?thesis
      unfolding is_sha256_hex_def using d(1) by (simp del: set_simps list.set)
  qed
  then show thesis
    by (rule that [OF raw(1) split _ first(2) first(1)])
qed

subsection \<open>Mounts\<close>

definition is_mount :: "string \<Rightarrow> bool" where
  "is_mount a \<longleftrightarrow> starts_with a ''--mount=''"

definition mount_fields :: "string \<Rightarrow> string list" where
  "mount_fields a = split_at (CHR '','') (drop 8 a)"

definition bind_fields :: "string \<Rightarrow> string \<Rightarrow> bool \<Rightarrow> string list" where
  "bind_fields src dst ro =
     [''type=bind'', ''src='' @ src, ''dst='' @ dst, ''bind-recursive=disabled''] @ (if ro then [''readonly''] else [])"

lemma mount_is_mount [simp]: "is_mount (read_write_mount env p d)" "is_mount (read_only_mount env p d)"
  by (simp_all add: is_mount_def starts_with_def read_write_mount_def read_only_mount_def)

lemma split_mount:
  assumes "CHR '','' \<notin> set s" and "CHR '','' \<notin> set d"
  shows "split_at (CHR '','') (''type=bind,src='' @ s @ '',dst='' @ d @ '',bind-recursive=disabled'' @ rest) =
    [''type=bind'', ''src='' @ s, ''dst='' @ d] @ split_at (CHR '','') (''bind-recursive=disabled'' @ rest)"
proof -
  have 1: "split_at (CHR '','') (d @ CHR '','' # t) = d # split_at (CHR '','') t"
    "split_at (CHR '','') (s @ CHR '','' # t) = s # split_at (CHR '','') t" for t
    using assms by (simp_all add: split_at_append)
  show ?thesis by (simp add: 1)
qed

lemma read_write_fields:
  assumes "CHR '','' \<notin> set (host_text env p)" and "CHR '','' \<notin> set d"
  shows "mount_fields (read_write_mount env p d) = bind_fields (host_text env p) d False"
    "mount_fields (read_only_mount env p d) = bind_fields (host_text env p) d True"
  using split_mount [OF assms, of "[]"] split_mount [OF assms, of "'',readonly''"]
  by (simp_all add: mount_fields_def read_write_mount_def read_only_mount_def bind_fields_def)

text \<open>A source that passed the checks has a text without commas.\<close>

lemma mount_path_plain:
  assumes "validate_mount_path env f label p = Inr q"
  shows "q = p" "CHR '','' \<notin> set (host_text env p)" "CHR ''='' \<notin> set (host_text env p)"
    "CHR '':'' \<notin> set (host_text env p)" "se_absolute env"
  using assms
  by (auto simp: validate_mount_path_def Let_def unsafe_mount_source_characters_def list_ex_iff split: if_splits)

lemma regular_source:
  "validate_regular_file env f label p = Inr q \<Longrightarrow>
     q = p \<and> CHR '','' \<notin> set (host_text env p) \<and> (\<exists>c. map_of f p = Some (Regular c))"
  unfolding validate_regular_file_def res_bind_Inr_iff
  by (elim exE conjE, frule mount_path_plain(2), drule mount_path_plain(1))
    (simp split: option.splits file_node.splits)

lemma input_source:
  "validate_input_path env f label p = Inr q \<Longrightarrow> q = p \<and> CHR '','' \<notin> set (host_text env p)"
  unfolding validate_input_path_def res_bind_Inr_iff
  by (elim exE conjE, frule mount_path_plain(2), drule mount_path_plain(1))
    (auto simp: res_bind_Inr_iff split: option.splits file_node.splits)

lemma directory_source:
  "validate_directory env f label p = Inr q \<Longrightarrow>
     q = p \<and> CHR '','' \<notin> set (host_text env p) \<and> map_of f p = Some Directory"
  unfolding validate_directory_def res_bind_Inr_iff
  by (elim exE conjE, frule mount_path_plain(2), drule mount_path_plain(1))
    (simp add: res_bind_Inr_iff split: if_splits)

lemma inputs_plain:
  assumes "res_map (validate_input_path env f label) ps = Inr qs"
  shows "qs = ps \<and> list_all (\<lambda>p. CHR '','' \<notin> set (host_text env p)) ps"
  using assms by (induction ps arbitrary: qs) (auto simp: res_bind_Inr_iff dest: input_source)

lemma disjoint_sorted: "disjoint_sources ps \<longleftrightarrow> sorted_wrt (\<lambda>p q. \<not> is_under q p \<and> \<not> is_under p q) ps"
  by (induction ps) (auto simp: list_all_iff)

lemma int_digits_plain: "c \<in> set (int_digits n) \<Longrightarrow> \<exists>k < (10 :: nat). c = char_of (48 + k)"
proof (induction n rule: int_digits.induct)
  case (1 n)
  show ?case
  proof (cases "n < 10")
    case True
    with 1(2) have "c = char_of (48 + n)" by (subst (asm) int_digits.simps) simp
    with True show ?thesis by blast
  next
    case False
    with 1(2) have "c \<in> set (int_digits (n div 10)) \<or> c = char_of (48 + n mod 10)"
      by (subst (asm) int_digits.simps) (simp, blast)
    moreover have "n mod 10 < 10" by simp
    ultimately show ?thesis using 1(1) [OF False] by blast
  qed
qed

lemma digits_no_comma: "CHR '','' \<notin> set (render_int (int n))"
proof
  assume "CHR '','' \<in> set (render_int (int n))"
  then obtain k :: nat where k: "k < 10" "CHR '','' = char_of (48 + k)"
    by (auto simp: render_int_def dest: int_digits_plain)
  then have "of_char (CHR '','') = (48 + k) mod 256"
    by (metis of_char_of)
  with k(1) show False by simp
qed

subsection \<open>Options\<close>

definition option_name :: "string \<Rightarrow> string" where
  "option_name a = takeWhile (\<lambda>c. c \<noteq> CHR ''='') a"

definition confining_options :: "string list" where
  "confining_options =
     [''--rm'', ''--pull=never'', ''--network=none'', ''--read-only'', ''--user=65532'', ''--cap-drop=ALL'',
      ''--security-opt=no-new-privileges'', ''--pids-limit=64'', ''--workdir=/sandbox'',
      ''--entrypoint=/usr/local/bin/python'']"

text \<open>The options that depend on the request: the name and the limits.\<close>

definition request_options :: "sandbox_env \<Rightarrow> docker_request \<Rightarrow> resource_limits \<Rightarrow> string list" where
  "request_options env q limits =
     [''--name='' @ docker_container_name env q, ''--cpus='' @ format_cpu_limit (rl_cpu_millis limits),
      ''--memory='' @ render_int (rl_memory_mb limits) @ ''m'',
      ''--memory-swap='' @ render_int (rl_memory_mb limits) @ ''m'']"

text \<open>The arguments between \<open>docker run\<close> and the image.\<close>

definition run_options :: "sandbox_env \<Rightarrow> docker_request \<Rightarrow> string list" where
  "run_options env q = drop 2 (butlast (butlast (docker_argv env q)))"

lemma argv_parts: "docker_argv env q = [''docker'', ''run''] @ run_options env q @ [dr_image q, container_code_path]"
  by (simp add: docker_argv_def run_options_def butlast_append)

lemma input_mounts_are: "list_all is_mount (input_mounts env ps)"
  by (auto simp: input_mounts_def list_all_iff)


lemma option_values:
  "is_mount (''--name='' @ v) = False" "is_mount (''--user='' @ v) = False" "is_mount (''--pids-limit='' @ v) = False"
  "is_mount (''--cpus='' @ v) = False" "is_mount (''--memory='' @ v) = False"
  "is_mount (''--memory-swap='' @ v) = False"
  by (simp_all add: is_mount_def starts_with_def)

lemma option_flags:
  "is_mount ''--rm'' = False" "is_mount ''--pull=never'' = False" "is_mount ''--network=none'' = False"
  "is_mount ''--read-only'' = False" "is_mount ''--cap-drop=ALL'' = False"
  "is_mount ''--security-opt=no-new-privileges'' = False" "is_mount ''--workdir=/sandbox'' = False"
  "is_mount ''--entrypoint=/usr/local/bin/python'' = False"
  by code_simp+

lemma option_names:
  "option_name (''--name='' @ v) = ''--name''" "option_name (''--user='' @ v) = ''--user''"
  "option_name (''--pids-limit='' @ v) = ''--pids-limit''" "option_name (''--cpus='' @ v) = ''--cpus''"
  "option_name (''--memory='' @ v) = ''--memory''" "option_name (''--memory-swap='' @ v) = ''--memory-swap''"
  by (simp_all add: option_name_def)

lemma flag_names:
  "option_name ''--rm'' = ''--rm''" "option_name ''--pull=never'' = ''--pull''"
  "option_name ''--network=none'' = ''--network''" "option_name ''--read-only'' = ''--read-only''"
  "option_name ''--cap-drop=ALL'' = ''--cap-drop''"
  "option_name ''--security-opt=no-new-privileges'' = ''--security-opt''"
  "option_name ''--workdir=/sandbox'' = ''--workdir''"
  "option_name ''--entrypoint=/usr/local/bin/python'' = ''--entrypoint''"
  by code_simp+

lemmas filtered_options =
  filter_append filter.simps mount_is_mount option_values option_flags if_True if_False not_False_eq_True not_True_eq_False

lemma not_a_mount: "list_all (\<lambda>o'. \<not> is_mount o') confining_options"
  by code_simp

lemma command_options:
  assumes "new_docker_request img code inputs outdir limits = Inr q"
    and "build_docker_run_argv env q f = Inr argv"
  shows "argv = [''docker'', ''run''] @ run_options env q @ [img, container_code_path]"
    and "list_all (\<lambda>a. starts_with a ''--'') (run_options env q)"
    and "list_all (\<lambda>a. a \<in> set (run_options env q)) confining_options"
    and "distinct (map option_name (filter (\<lambda>a. \<not> is_mount a) (run_options env q)))"
    and "set (filter (\<lambda>a. \<not> is_mount a) (run_options env q)) =
      set confining_options \<union> set (request_options env q limits)"
    and "map mount_fields (filter is_mount (run_options env q)) =
      bind_fields (host_text env code) container_code_path True #
      map (\<lambda>(i, p). bind_fields (host_text env p) (container_input_directory @ ''/'' @ render_int (int i)) True)
        (zip [0..<length inputs] inputs) @
      [bind_fields (host_text env outdir) container_output_path False]"
    and "sorted_wrt (\<lambda>p q. \<not> is_under q p \<and> \<not> is_under p q) (code # inputs @ [outdir])"
proof -
  have q: "q = \<lparr>dr_image = img, dr_code_path = code, dr_input_paths = inputs, dr_output_path = outdir,
      dr_limits = limits, dr_environment = []\<rparr>"
    using new_docker_request_Inr [OF assms(1)] by blast
  obtain code' inputs' outdir' u where b: "argv = docker_argv env q"
    "validate_regular_file env f ''code path'' (dr_code_path q) = Inr code'"
    "res_map (validate_input_path env f ''input path'') (dr_input_paths q) = Inr inputs'"
    "validate_directory env f ''output path'' (dr_output_path q) = Inr outdir'"
    "validate_distinct_mount_sources code' inputs' outdir' = Inr u"
    using assms(2) by (auto simp: build_docker_run_argv_def res_bind_Inr_iff split: if_splits)
  have plain: "code' = code" "inputs' = inputs" "outdir' = outdir" "CHR '','' \<notin> set (host_text env code)"
    "list_all (\<lambda>p. CHR '','' \<notin> set (host_text env p)) inputs" "CHR '','' \<notin> set (host_text env outdir)"
    using regular_source [OF b(2)] inputs_plain [OF b(3)] directory_source [OF b(4)] by (simp_all add: q)
  show "argv = [''docker'', ''run''] @ run_options env q @ [img, container_code_path]"
    using argv_parts [of env q] by (simp add: b(1) q)
  show "sorted_wrt (\<lambda>p q. \<not> is_under q p \<and> \<not> is_under p q) (code # inputs @ [outdir])"
    using b(5) by (simp add: validate_distinct_mount_sources_def plain disjoint_sorted del: disjoint_sources.simps
        split: if_splits)
  have opts: "run_options env q =
     [''--name='' @ docker_container_name env q,
      ''--rm'', ''--pull=never'', ''--network=none'', ''--read-only'', ''--user='' @ render_int docker_uid,
      ''--cap-drop=ALL'', ''--security-opt=no-new-privileges'', ''--pids-limit='' @ render_int docker_pids_limit,
      ''--cpus='' @ format_cpu_limit (rl_cpu_millis limits),
      ''--memory='' @ render_int (rl_memory_mb limits) @ ''m'',
      ''--memory-swap='' @ render_int (rl_memory_mb limits) @ ''m'', ''--workdir=/sandbox'',
      read_only_mount env code container_code_path] @
     input_mounts env inputs @
     [read_write_mount env outdir container_output_path, ''--entrypoint=/usr/local/bin/python'']"
    by (simp add: run_options_def docker_argv_def q butlast_append)
  have user: "''--user='' @ render_int docker_uid = ''--user=65532''"
    "''--pids-limit='' @ render_int docker_pids_limit = ''--pids-limit=64''"
    by (simp add: render_int_def docker_uid_def docker_pids_limit_def int_digits.simps, code_simp)+
  have start: "starts_with (read_only_mount env p d) ''--''" "starts_with (read_write_mount env p d) ''--''" for p d
    by (simp_all add: starts_with_def read_only_mount_def read_write_mount_def)
  show "list_all (\<lambda>a. starts_with a ''--'') (run_options env q)"
    unfolding opts by (auto simp: start input_mounts_def list_all_iff) (simp_all add: starts_with_def)
  show "list_all (\<lambda>a. a \<in> set (run_options env q)) confining_options"
    unfolding opts user by (simp add: confining_options_def)
  have others: "filter (\<lambda>a. \<not> is_mount a) (input_mounts env inputs) = []" "filter is_mount (input_mounts env inputs) = input_mounts env inputs"
    using input_mounts_are [of env inputs] by (simp_all add: filter_empty_conv list_all_iff)
  show "distinct (map option_name (filter (\<lambda>a. \<not> is_mount a) (run_options env q)))"
    unfolding opts filtered_options others
    by (simp only: list.map map_append option_names flag_names) (simp add: option_name_def)
  show "set (filter (\<lambda>a. \<not> is_mount a) (run_options env q)) =
      set confining_options \<union> set (request_options env q limits)"
    unfolding opts filtered_options others unfolding user
    by (simp only: filtered_options confining_options_def request_options_def set_append list.set Un_insert_left Un_empty_left
        Un_empty_right insert_commute)
  have nocomma: "CHR '','' \<notin> set container_code_path" "CHR '','' \<notin> set container_output_path"
     "CHR '','' \<notin> set (container_input_directory @ ''/'' @ render_int (int i))" for i
    using digits_no_comma [of i]
    by (simp_all add: container_code_path_def container_output_path_def container_input_directory_def)
  have ins: "map mount_fields (input_mounts env inputs) =
      map (\<lambda>(i, p). bind_fields (host_text env p) (container_input_directory @ ''/'' @ render_int (int i)) True)
        (zip [0..<length inputs] inputs)"
  proof -
    let ?dst = "\<lambda>i. container_input_directory @ ''/'' @ render_int (int i)"
    have *: "mount_fields (case x of (i, p) \<Rightarrow> read_only_mount env p (?dst i)) =
        (case x of (i, p) \<Rightarrow> bind_fields (host_text env p) (?dst i) True)"
      if "x \<in> set (zip [0..<length inputs] inputs)" for x
    proof -
      obtain i p where x: "x = (i, p)" by fastforce
      then have "CHR '','' \<notin> set (host_text env p)"
        using that plain(5) unfolding list_all_iff by (blast dest: set_zip_rightD)
      then show ?thesis
        unfolding x prod.case by (rule read_write_fields) (rule nocomma)
    qed
    show ?thesis
      unfolding input_mounts_def map_map comp_def by (rule map_cong [OF refl]) (rule *)
  qed
  have "filter is_mount (run_options env q) =
      read_only_mount env code container_code_path # input_mounts env inputs @
      [read_write_mount env outdir container_output_path]"
    unfolding opts by (simp only: filtered_options others) simp
  then show "map mount_fields (filter is_mount (run_options env q)) =
      bind_fields (host_text env code) container_code_path True #
      map (\<lambda>(i, p). bind_fields (host_text env p) (container_input_directory @ ''/'' @ render_int (int i)) True)
        (zip [0..<length inputs] inputs) @
      [bind_fields (host_text env outdir) container_output_path False]"
    by (simp add: ins read_write_fields plain nocomma)
qed

end
