(* ===== verification/Sandbox_Validated.thy ===== *)
theory Sandbox_Validated
  imports Sandbox_Safety
begin

section \<open>What a succeeded run has shown\<close>

text \<open>
  A run reported as succeeded went through the validation of its outputs; what that validation accepted,
  and what of it is still there when the job has been closed.
\<close>

subsection \<open>Outputs that validate\<close>

text \<open>A step that refused, and one that gave something to go on with.\<close>

lemma bind_output:
  "res_bind m (\<lambda>r. case r of Inl c \<Rightarrow> h c | Inr (x, y) \<Rightarrow> k x y) = Inr z \<longleftrightarrow>
     (\<exists>c. m = Inr (Inl c) \<and> h c = Inr z) \<or> (\<exists>x y. m = Inr (Inr (x, y)) \<and> k x y = Inr z)"
proof (cases m)
  case (Inr r)
  then show ?thesis by (cases r) (auto split: prod.split)
qed simp

lemma bind_sum:
  "res_bind m (\<lambda>r. case r of Inl c \<Rightarrow> h c | Inr x \<Rightarrow> k x) = Inr z \<longleftrightarrow>
     (\<exists>c. m = Inr (Inl c) \<and> h c = Inr z) \<or> (\<exists>x. m = Inr (Inr x) \<and> k x = Inr z)"
proof (cases m)
  case (Inr r)
  then show ?thesis by (cases r) auto
qed simp

lemma bind_option:
  "res_bind m (\<lambda>p. case p of None \<Rightarrow> a | Some x \<Rightarrow> k x) = Inr z \<longleftrightarrow>
     m = Inr None \<and> a = Inr z \<or> (\<exists>x. m = Inr (Some x) \<and> k x = Inr z)"
proof (cases m)
  case (Inr r)
  then show ?thesis by (cases r) auto
qed simp

lemma read_output_Inr:
  assumes "read_output env dir f p n media = Inr (Inr (e, content))"
  shows "read_file dir p n f = Inr content"
  using assms by (auto simp: read_output_def res_bind_Inr_iff split: sum.splits sandbox_error.splits)

lemma not_failed [simp]: "\<not> oe_succeeded (ov_evidence (failed_validation code p es))"
  by (simp add: failed_validation_def)

lemma read_optional_Inr:
  assumes "read_optional env dir f as inventory = Inr (Inr inventory')"
  shows "list_all (\<lambda>a. \<exists>c. read_file dir (xa_path a) max_optional_artifact_bytes f = Inr c) as"
  using assms
proof (induction as arbitrary: inventory)
  case (Cons a as)
  then obtain e c where "read_output env dir f (xa_path a) max_optional_artifact_bytes (xa_media_type a) = Inr (Inr (e, c))"
    "read_optional env dir f as (inventory @ [e]) = Inr (Inr inventory')"
    by (auto simp: bind_output)
  then show ?case using Cons.IH by (auto dest: read_output_Inr)
qed simp

lemma read_optional_failed:
  assumes "read_optional env dir f as inventory = Inr (Inl v)"
  shows "\<not> oe_succeeded (ov_evidence v)"
  using assms by (induction as arbitrary: inventory) (auto simp: bind_output)

lemma parse_result_valid: "parse_result env content = Inr (Some e) \<Longrightarrow> valid_envelope e"
  by (simp add: parse_result_def split: if_splits loads_outcome.splits option.splits)

definition outputs_valid :: "sandbox_env \<Rightarrow> expected_artifact list \<Rightarrow> path \<Rightarrow> files \<Rightarrow> result_envelope \<Rightarrow> bool" where
  "outputs_valid env schema dir f e \<longleftrightarrow>
     (\<exists>content. read_file dir result_path max_result_json_bytes f = Inr content \<and>
        parse_result env content = Inr (Some e)) \<and>
     (\<exists>content. read_file dir summary_path max_summary_markdown_bytes f = Inr content \<and>
        is_nonblank_utf8 env content) \<and>
     list_all (\<lambda>a. \<exists>c. read_file dir (xa_path a) max_optional_artifact_bytes f = Inr c) (optional_artifacts schema) \<and>
     references_match e schema"

lemma validated:
  assumes "validate_outputs env schema dir f = Inr v" and "oe_succeeded (ov_evidence v)"
  shows "\<exists>e. ov_result v = Some e \<and> outputs_valid env schema dir f e"
proof -
  obtain re content e where
    r: "read_output env dir f result_path max_result_json_bytes ''application/json'' = Inr (Inr (re, content))"
    "parse_result env content = Inr (Some e)" "validate_rest env schema dir f re e = Inr v"
    using assms unfolding validate_outputs_def bind_output bind_option by auto
  obtain se summary inventory where
    s: "read_output env dir f summary_path max_summary_markdown_bytes ''text/markdown'' = Inr (Inr (se, summary))"
    "is_nonblank_utf8 env summary"
    "read_optional env dir f (optional_artifacts schema) [re, se] = Inr (Inr inventory)"
    "references_match e schema" "ov_result v = Some e"
    using r(3) assms(2) unfolding validate_rest_def bind_output
    by (auto simp: bind_sum dest: read_optional_failed split: if_splits)
  then show ?thesis
    using r unfolding outputs_valid_def by (blast dest: read_output_Inr read_optional_Inr)
qed

subsection \<open>From the run to the closed job\<close>

interpretation kept: writer_frame "\<lambda>s t. holds_node p n (sb_files s) \<longrightarrow> holds_node p n (sb_files t)" env dir
  "\<lambda>raw. \<forall>parts. parse_artifact_parts raw = Inr parts \<longrightarrow> p \<noteq> dir @ parts"
  for p n env dir
  by unfold_locales (auto intro: node_write node_remove)

text \<open>Every node but the evidence of the validation and the manifest.\<close>

definition same_artifacts :: "path \<Rightarrow> files \<Rightarrow> files \<Rightarrow> bool" where
  "same_artifacts dir f g \<longleftrightarrow>
     (\<forall>p n. p \<noteq> dir @ [validation_path] \<longrightarrow> p \<noteq> dir @ [manifest_path] \<longrightarrow> holds_node p n f \<longrightarrow> holds_node p n g)"

lemma validation_keeps:
  assumes "persist_validation_and_manifest env dir v schema s = (r, t)"
  shows "same_artifacts dir (sb_files s) (sb_files t)"
proof -
  have parts: "parse_artifact_parts manifest_path = Inr [manifest_path]"
    "parse_artifact_parts validation_path = Inr [validation_path]"
    by code_simp+
  have "holds_node p n (sb_files t)"
    if "p \<noteq> dir @ [validation_path]" "p \<noteq> dir @ [manifest_path]" "holds_node p n (sb_files s)" for p n
    using node.keepsD [OF kept.keeps_validation [of p dir n env v schema] assms] that by (simp add: parts)
  then show ?thesis unfolding same_artifacts_def by blast
qed

lemma update_job_files: "sb_files (snd (update_job i sources f s)) = sb_files s"
  by (rule update_job_cases [of i sources f s]) simp_all

lemma mark_succeeded_files: "sb_files (snd (mark_succeeded i d s)) = sb_files s"
  unfolding mark_succeeded_def by (rule mark_cases) (simp_all add: update_job_files)

lemma mark_succeeded_row:
  assumes "mark_succeeded i d s = (Inr (), t)"
  shows "\<exists>r \<in> set (sb_jobs t). sr_job_id r = i \<and> sr_status r = Succeeded \<and> sr_result_summary r = Some d"
proof -
  let ?f = "\<lambda>r. r\<lparr>sr_status := Succeeded, sr_result_summary := Some d\<rparr>"
    and ?p = "\<lambda>r. sr_job_id r = i \<and> sr_status r \<in> active_sources"
  have "parse_sandbox_job_detail d = Inr d" "end_sandbox_job i ?f s = (Inr (), t)"
    using assms by (auto simp: mark_succeeded_def parse_sandbox_job_detail_def op_simps split: if_splits)
  then have "(\<exists>r \<in> set (sb_jobs s). ?p r) \<and> sb_jobs t = update_where ?p ?f (sb_jobs s)"
    by (auto simp: end_sandbox_job_def update_job_eq transition_error_def get_sandbox_job_def op_bind_def op_simps
        split: if_splits option.splits)
  then obtain r where "?f r \<in> set (sb_jobs t)" "sr_job_id r = i"
    by (auto simp: set_update_where)
  then show ?thesis by (intro bexI [of _ "?f r"]) simp_all
qed

lemma succeeds_Inr:
  assumes "succeeds h m s = (Inr True, t)"
  shows "m s = (Inr (), t)"
proof -
  obtain r u where m: "m s = (r, u)" by fastforce
  then show ?thesis
    using assms by (cases r) (auto simp: succeeds_def op_catch_def op_seq_def op_bind_def op_simps split: if_splits)
qed

lemma finalized_success:
  assumes "finalize_execution env dir j execution s = (Inr res, t)" and "or_status res = Execution_Succeeded"
  obtains e where "outputs_valid env (sj_outputs j) dir (sb_files s) e"
    "same_artifacts dir (sb_files s) (sb_files t)"
    "\<exists>r \<in> set (sb_jobs t). sr_job_id r = sj_job_id j \<and> sr_status r = Succeeded \<and>
       sr_result_summary r = Some (en_summary e)"
proof -
  have *: "or_status (ended st c x) = st" for st c x by (simp add: ended_def)
  have ft: "or_status x = Execution_Failed" if "failed_after_terminalization j execution c u = (Inr x, w)" for c u x w
    using that by (auto simp: failed_after_terminalization_def op_success *)
  obtain v s1 e s2 where p: "validate_outputs env (sj_outputs j) dir (sb_files s) = Inr v"
    "oe_succeeded (ov_evidence v)" "ov_result v = Some e"
    "succeeds finalization_errors (persist_validation_and_manifest env dir v (sj_outputs j)) s = (Inr True, s1)"
    "succeeds status_errors (mark_succeeded (sj_job_id j) (en_summary e)) s1 = (Inr True, s2)" "s2 = t"
    using assms unfolding finalize_execution_def validate_now_def
    by (auto simp: op_success * dest: ft split: if_splits option.splits)
  obtain e' where "ov_result v = Some e'" "outputs_valid env (sj_outputs j) dir (sb_files s) e'"
    using validated [OF p(1,2)] by blast
  moreover have m: "mark_succeeded (sj_job_id j) (en_summary e) s1 = (Inr (), t)"
    using succeeds_Inr [OF p(5)] p(6) by simp
  moreover have "sb_files t = sb_files s1"
    using mark_succeeded_files [of "sj_job_id j" "en_summary e" s1] m by simp
  moreover have "same_artifacts dir (sb_files s) (sb_files s1)"
    using validation_keeps [OF succeeds_Inr [OF p(4)]] .
  ultimately show thesis
    using p(3) mark_succeeded_row [OF m] by (intro that [of e]) simp_all
qed

lemma orchestrated_success:
  assumes "orchestrate env dir j g img s = (Inr res, t)" and "or_status res = Execution_Succeeded"
  obtains execution u where "finalize_execution env dir j execution u = (Inr res, t)"
    "dk_return_code execution = 0" "dk_failure_code execution = None"
proof -
  have *: "or_status (ended st c x) = st" for st c x by (simp add: ended_def)
  have "start_container env dir j img s = (Inr res, t)"
    using assms unfolding orchestrate_def Let_def
    by (auto simp: op_success * split: if_splits sum.splits sandbox_error.splits)
  then obtain q execution s1 where c: "conclude_execution env dir j q execution s1 = (Inr res, t)"
    by (auto simp: start_container_def op_success)
  have bad: "classify_execution execution \<noteq> Some (Execution_Succeeded, Some c)"
    and good: "classify_execution execution = Some (st, None) \<Longrightarrow> st = Execution_Succeeded" for st c
    by (auto simp: classify_execution_def split: option.splits if_splits)
  from c assms(2) obtain st u where u: "finalize_execution env dir j execution u = (Inr res, t)"
    "classify_execution execution = Some (st, None)"
    by (auto simp: conclude_execution_def Let_def op_success * bad split: if_splits option.splits)
  from good [OF u(2)] u have "classify_execution execution = Some (Execution_Succeeded, None)" by simp
  with u(1) show thesis
    using that by (auto simp: classify_execution_def split: option.splits if_splits)
qed

end
