(* ===== verification/Sandbox_Props.thy ===== *)
theory Sandbox_Props
  imports Sandbox_Demo Sandbox_Confine Sandbox_Validated
begin

section \<open>Properties of the sandbox service\<close>

text \<open>C10: Only approved code reaches a container: every container that the execution of a prepared turn
  starts belongs to the one sandbox step of the plan, whose job is queued and bound to the arguments of the
  step, has an approval of exactly this plan, code, correlation and inputs on record, and a code the static
  guard allows; it is started with the arguments the Docker policy builds from the approved limits, inputs
  and image, under the approved time limit, and the code file it mounts holds the approved code.  The
  commands that only probe Docker or stop a container are assumed to leave the files alone.\<close>
theorem container_runs_approved_code:
  assumes "quiet_probes env"
  shows "list_all (\<lambda>c. \<exists>j img.
      approved_start env plan plan_hash s j img \<and>
      gr_allowed (evaluate_code (se_sha256 env) (se_parse env) (sj_code j)) \<and>
      parse_docker_image_reference img = Inr img \<and>
      dc_argv c = docker_argv env (container_request (job_dir env (sj_run_id j) (sj_job_id j)) j img) \<and>
      dc_timeout c = rl_timeout_seconds (sj_limits j) \<and>
      map_of (dc_files c) (job_dir env (sj_run_id j) (sj_job_id j) @ [generated_code_path]) =
        Some (Regular (sj_code j)))
    (filter is_container_start (new_calls s (snd (execute_prepared_sandbox_turn env plan plan_hash s))))"
proof -
  have built: "argv = docker_argv env q" if "build_docker_run_argv env q f = Inr argv" for q f argv
    using that by (auto simp: build_docker_run_argv_def res_bind_Inr_iff split: if_splits)
  show ?thesis
    by (rule started_only_calls, rule started_only_mono [OF execution_starts], elim exE conjE)
      (auto simp: start_of_job_def lawful_start_def holds_node_def Let_def container_request_def assms
        dest!: built)
qed

lemma demo_quiet: "quiet_probes (demo_box ld)"
  by (simp add: quiet_probes_def demo_fields demo_invoke_def)

text \<open>The approved demonstration job does start a container.\<close>

lemma container_runs_approved_code_witness:
  "\<exists>c j img. c \<in> set (new_calls demo_approved
       (snd (execute_prepared_sandbox_turn demo_good demo_plan demo_sha demo_approved))) \<and>
     is_container_start c \<and> approved_start demo_good demo_plan demo_sha demo_approved j img \<and>
     dc_timeout c = rl_timeout_seconds (sj_limits j)"
proof -
  let ?cs = "new_calls demo_approved
    (snd (execute_prepared_sandbox_turn demo_good demo_plan demo_sha demo_approved))"
  have "sb_calls demo_approved = []"
    by (simp add: demo_approved_def demo_start_def)
  then have "length (filter is_container_start ?cs) = 1"
    using demo_container_started by (simp add: new_calls_def container_starts_def)
  then obtain c where "c \<in> set (filter is_container_start ?cs)"
    by (cases "filter is_container_start ?cs") auto
  then show ?thesis
    using container_runs_approved_code [OF demo_quiet, of "Loaded (JObj [])" demo_plan demo_sha demo_approved]
    unfolding list_all_iff by fastforce
qed

text \<open>C11: A job starts at most one container: whatever calls of the service are made in whatever order from
  empty tables, each starts at most one container and only for the job it executes, and the containers
  started for a job are at most one more than the executions of it that a surrounding warehouse transaction
  undid.\<close>
theorem job_starts_once:
  "starts_of env i (call_log env cs (s\<lparr>sb_jobs := [], sb_approvals := []\<rparr>)) \<le>
     1 + undone_starts_of env i (call_log env cs (s\<lparr>sb_jobs := [], sb_approvals := []\<rparr>)) \<and>
   list_all (\<lambda>(c, undone, n). n = 0 \<or> n = 1 \<and> (\<exists>i. executes env i c))
     (call_log env cs (s\<lparr>sb_jobs := [], sb_approvals := []\<rparr>))"
proof -
  have ok: "sandbox_ok (s\<lparr>sb_jobs := [], sb_approvals := []\<rparr>)"
    by (simp add: sandbox_ok_def)
  have "\<not> used_up i (s\<lparr>sb_jobs := [], sb_approvals := []\<rparr>)"
    by (simp add: used_up_def)
  with starts_of_le [OF ok, of env i cs] log_entries [OF ok] show ?thesis by simp
qed

text \<open>C14: In every history of calls of the service from empty tables, job and approval ids stay unique, every
  row satisfies the constraints of the schema and has a summary, a rejection or a failure reason exactly in
  the status it belongs to; and whatever is called later, no row or approval disappears, what was requested
  never changes, a status only moves forward, and a finished row no longer changes at all.\<close>
theorem sandbox_history:
  "sandbox_ok (run_sandbox_calls env cs (s\<lparr>sb_jobs := [], sb_approvals := []\<rparr>)) \<and>
   tables_moved (run_sandbox_calls env cs (s\<lparr>sb_jobs := [], sb_approvals := []\<rparr>))
     (run_sandbox_calls env (cs @ ds) (s\<lparr>sb_jobs := [], sb_approvals := []\<rparr>))"
proof -
  have "sandbox_ok (s\<lparr>sb_jobs := [], sb_approvals := []\<rparr>)"
    by (simp add: sandbox_ok_def)
  then show ?thesis
    using history_ok history_moves by (simp add: run_sandbox_calls_def)
qed

text \<open>C12: The command that starts a container confines it: \<open>docker run\<close> gets options only, then the image and
  the path of the code; beside the mounts the options are exactly the fixed ones, which cut the network, make
  the root read-only, drop the capabilities and fix user, process limit, working directory and entry point,
  and the name, the CPU limit and the memory limits of the request, none of them twice; the mounts read, field
  by field, as the code, the inputs and the output directory, of which only the last can be written; no
  mount lies inside another; and the image is pinned by a SHA-256 digest and cannot be read as an option.\<close>
theorem docker_command_is_confined:
  assumes "new_docker_request img code inputs outdir limits = Inr q"
    and "build_docker_run_argv env q f = Inr argv"
  shows "\<exists>opts name d.
    argv = [''docker'', ''run''] @ opts @ [img, container_code_path] \<and>
    list_all (\<lambda>a. starts_with a ''--'') opts \<and>
    distinct (map option_name (filter (\<lambda>a. \<not> is_mount a) opts)) \<and>
    list_all (\<lambda>a. a \<in> set opts) confining_options \<and>
    set (filter (\<lambda>a. \<not> is_mount a) opts) =
      set confining_options \<union>
      {''--name='' @ docker_container_name env q, ''--cpus='' @ format_cpu_limit (rl_cpu_millis limits),
       ''--memory='' @ render_int (rl_memory_mb limits) @ ''m'',
       ''--memory-swap='' @ render_int (rl_memory_mb limits) @ ''m''} \<and>
    map mount_fields (filter is_mount opts) =
      bind_fields (host_text env code) container_code_path True #
      map (\<lambda>(i, p). bind_fields (host_text env p) (container_input_directory @ ''/'' @ render_int (int i)) True)
        (zip [0..<length inputs] inputs) @
      [bind_fields (host_text env outdir) container_output_path False] \<and>
    sorted_wrt (\<lambda>p q. \<not> is_under q p \<and> \<not> is_under p q) (code # inputs @ [outdir]) \<and>
    img = name @ ''@sha256:'' @ d \<and> is_sha256_hex d \<and> lower_alnum (hd img)"
proof -
  have "parse_docker_image_reference img = Inr img"
    using new_docker_request_Inr [OF assms(1)] by blast
  then obtain name d where "img = name @ ''@sha256:'' @ d" "is_sha256_hex d" "lower_alnum (hd img)"
    by (rule accepted_image)
  then show ?thesis
    using command_options [OF assms] unfolding request_options_def list.set
    by (intro exI [of _ "run_options env q"] exI [of _ name] exI [of _ d] conjI)
qed

lemma docker_command_is_confined_witness:
  "\<exists>argv. build_docker_run_argv demo_good (container_request demo_dir demo_job demo_image)
      (demo_files (demo_ready [])) = Inr argv \<and>
    (\<exists>opts. argv = [''docker'', ''run''] @ opts @ [demo_image, container_code_path] \<and>
       list_all (\<lambda>a. a \<in> set opts) confining_options)"
proof -
  have "new_docker_request demo_image (demo_dir @ [generated_code_path]) [] (demo_dir @ [output_directory])
      (sj_limits demo_job) = Inr (container_request demo_dir demo_job demo_image)"
    by (simp add: demo_request_made container_request_def demo_mounts)
  note confined = docker_command_is_confined [OF this]
  have argv: "build_docker_run_argv demo_good (container_request demo_dir demo_job demo_image)
      (demo_files (demo_ready [])) = Inr (docker_argv demo_good (container_request demo_dir demo_job demo_image))"
    by (rule demo_argv)
  then show ?thesis
    using confined [OF argv] by (elim exE conjE) (intro exI conjI, assumption+)
qed

text \<open>C13: A run is reported as succeeded only on validated outputs: when the orchestrator ends with success, the
  outputs it found are complete for the schema of the job, within their limits and free of links, the result
  is readable and lists exactly the expected optional artifacts; all of them are still there unchanged, and
  the row of the job is stored as succeeded with the summary of that result.\<close>
theorem succeeded_run_was_validated:
  assumes "orchestrate env dir j g img s = (Inr res, t)" and "or_status res = Execution_Succeeded"
  shows "\<exists>f e. outputs_valid env (sj_outputs j) dir f e \<and> valid_envelope e \<and>
     same_artifacts dir f (sb_files t) \<and>
     (\<exists>r \<in> set (sb_jobs t). sr_job_id r = sj_job_id j \<and> sr_status r = Succeeded \<and>
        sr_result_summary r = Some (en_summary e))"
proof -
  obtain execution u where "finalize_execution env dir j execution u = (Inr res, t)"
    by (rule orchestrated_success [OF assms])
  from this assms(2) obtain e where "outputs_valid env (sj_outputs j) dir (sb_files u) e"
    "same_artifacts dir (sb_files u) (sb_files t)"
    "\<exists>r \<in> set (sb_jobs t). sr_job_id r = sj_job_id j \<and> sr_status r = Succeeded \<and>
       sr_result_summary r = Some (en_summary e)"
    by (rule finalized_success)
  then show ?thesis
    unfolding outputs_valid_def using parse_result_valid by blast
qed

lemma succeeded_run_was_validated_witness:
  "\<exists>f e. outputs_valid demo_good (sj_outputs demo_job) demo_dir f e \<and> valid_envelope e"
proof -
  obtain r t where "orchestrate demo_good demo_dir demo_job demo_guard demo_image
      (demo_state (demo_before []) (demo_entries []) (Some demo_guard) [] [] 6) =
      (Inr (ended Execution_Succeeded None (Some r)), t)"
    by (rule demo_orchestrated)
  from succeeded_run_was_validated [OF this] show ?thesis
    by (auto simp: ended_def)
qed

text \<open>An undone execution can be repeated: when the container leaves a result on which \<open>json.loads\<close> raises
  something other than a decoding error, a coordinated execution has started its container and then loses
  the claim with its transaction; the job is queued and approved as before, ready for another container.\<close>
lemma unreadable_result_reopens_job:
  "(case coordinated_call (demo_box (Load_Raises m)) True (Execute demo_plan demo_sha) demo_approved of
      (r, t) \<Rightarrow>
        r = Inl (Invalid_Value m) \<and> container_starts t = 1 \<and>
        sb_jobs t = [demo_row] \<and> sr_status demo_row = Queued \<and> sb_approvals t = [demo_approval])"
proof -
  obtain t where t: "execute_prepared_sandbox_turn (demo_box (Load_Raises m)) demo_plan demo_sha demo_approved =
       (Inl (Invalid_Value m), t)" "container_starts t = 1"
    by (rule demo_raised)
  have "parse_docker_image_reference demo_image = Inr demo_image" by code_simp
  then show ?thesis
    using t by (simp add: coordinated_call_def in_warehouse_transaction_def service_call_def with_service_def
        demo_fields op_simps op_bind_def container_starts_def demo_approved_def demo_start_def) (simp add: demo_row_def)
qed

end
