(* ===== verification/Ensure_Values.thy ===== *)
theory Ensure_Values
  imports Py_Value
begin

section \<open>Values of the readiness of market data\<close>

text \<open>
  \<open>data_availability/models.py\<close>, \<open>policy.py\<close>, \<open>dates.py\<close> and \<open>failure_classification.py\<close>: what is asked,
  what is found, what is done about it and how a failure of it is told.  An exception is its type name
  and its text.  Texts are the UTF-8 bytes of the Python strings.
\<close>

record py_error =
  pe_type :: string
  pe_text :: string

definition raised_runtime_error :: "string \<Rightarrow> py_error" where
  "raised_runtime_error m = \<lparr>pe_type = ''RuntimeError'', pe_text = m\<rparr>"

subsection \<open>Dates\<close>

text \<open>\<open>date.fromordinal\<close>, and \<open>d - timedelta(days=n)\<close> with its overflow.\<close>

definition date_of_ordinal :: "int \<Rightarrow> py_date" where
  "date_of_ordinal ordinal =
     (let n0 = ordinal - 1;
          n400 = n0 div 146097; r400 = n0 mod 146097;
          n100 = r400 div 36524; r100 = r400 mod 36524;
          n4 = r100 div 1461; r4 = r100 mod 1461;
          n1 = r4 div 365; r1 = r4 mod 365;
          year = nat (400 * n400 + 100 * n100 + 4 * n4 + n1 + 1) in
      if n1 = 4 \<or> n100 = 4 then \<lparr>d_year = year - 1, d_month = 12, d_day = 31\<rparr>
      else
        let month = last (filter (\<lambda>m. days_before_month year m \<le> r1) [1..<13]) in
        \<lparr>d_year = year, d_month = month, d_day = nat (r1 - days_before_month year month + 1)\<rparr>)"

definition max_ordinal :: int where
  "max_ordinal = 3652059"

definition minus_days :: "py_date \<Rightarrow> int \<Rightarrow> py_error + py_date" where
  "minus_days d n =
     (let k = date_ordinal d - n in
      if 1 \<le> k \<and> k \<le> max_ordinal then Inr (date_of_ordinal k)
      else Inl \<lparr>pe_type = ''OverflowError'', pe_text = ''date value out of range''\<rparr>)"

definition invalid_date :: "(string \<Rightarrow> string) \<Rightarrow> string \<Rightarrow> py_error" where
  "invalid_date repr v =
     \<lparr>pe_type = ''InvalidEnsureDateError'',
      pe_text = ''Invalid target date '' @ repr v @ ''; expected YYYY-MM-DD or '' @
        [CHR 0x27] @ ''today'' @ [CHR 0x27, CHR ''.'']\<rparr>"

definition normalize_explicit_date ::
  "(string \<Rightarrow> py_date option) \<Rightarrow> (string \<Rightarrow> string) \<Rightarrow> string \<Rightarrow> py_error + string" where
  "normalize_explicit_date other repr v =
     (case fromisoformat other (strip v) of
        None \<Rightarrow> Inl (invalid_date repr v)
      | Some d \<Rightarrow> if isoformat d \<noteq> strip v then Inl (invalid_date repr v) else Inr (strip v))"

definition normalize_optional_date ::
  "(string \<Rightarrow> py_date option) \<Rightarrow> (string \<Rightarrow> string) \<Rightarrow> py_date \<Rightarrow> string option \<Rightarrow> py_error + string" where
  "normalize_optional_date other repr today v =
     (case v of
        None \<Rightarrow> Inr (isoformat today)
      | Some t \<Rightarrow> if lower (strip t) = ''today'' then Inr (isoformat today)
          else normalize_explicit_date other repr t)"

subsection \<open>Models\<close>

datatype ensure_status = READY | PARTIAL | FAILED

datatype ensure_action =
    CACHE_HIT
  | SYMBOLS_SYNCED
  | OHLCV_SYNCED
  | CANONICAL_BUILT
  | BENCHMARK_SYNCED
  | BENCHMARK_CANONICAL_BUILT
  | FEATURES_BUILT
  | SCORED

fun action_value :: "ensure_action \<Rightarrow> string" where
  "action_value CACHE_HIT = ''CACHE_HIT''"
| "action_value SYMBOLS_SYNCED = ''SYMBOLS_SYNCED''"
| "action_value OHLCV_SYNCED = ''OHLCV_SYNCED''"
| "action_value CANONICAL_BUILT = ''CANONICAL_BUILT''"
| "action_value BENCHMARK_SYNCED = ''BENCHMARK_SYNCED''"
| "action_value BENCHMARK_CANONICAL_BUILT = ''BENCHMARK_CANONICAL_BUILT''"
| "action_value FEATURES_BUILT = ''FEATURES_BUILT''"
| "action_value SCORED = ''SCORED''"

datatype action_status = SUCCESS | FAILURE

text \<open>\<open>ao_timed\<close> tells whether \<open>elapsed_ms\<close> is set.\<close>

record action_outcome =
  ao_action :: ensure_action
  ao_status :: action_status
  ao_dataset :: "string option"
  ao_symbol :: "string option"
  ao_failure_category :: "string option"
  ao_root_cause :: "string option"
  ao_timed :: bool

datatype data_artifact =
  Symbol_Master | Canonical_Ohlcv | Benchmark_Ohlcv | Feature_Snapshot | Candidate_Score

datatype evidence_issue =
    SCORE_MISSING
  | SCORE_STALE
  | FEATURE_SNAPSHOT_MISSING
  | FEATURE_SNAPSHOT_INVALID
  | FEATURE_LINEAGE_INCOMPLETE
  | CANONICAL_HISTORY_INSUFFICIENT
  | CANONICAL_GAPS_UNRESOLVED
  | BENCHMARK_HISTORY_INSUFFICIENT
  | QUALITY_UNACCEPTABLE
  | LINEAGE_INCOMPLETE

fun issue_value :: "evidence_issue \<Rightarrow> string" where
  "issue_value SCORE_MISSING = ''score_missing''"
| "issue_value SCORE_STALE = ''score_stale''"
| "issue_value FEATURE_SNAPSHOT_MISSING = ''feature_snapshot_missing''"
| "issue_value FEATURE_SNAPSHOT_INVALID = ''feature_snapshot_invalid''"
| "issue_value FEATURE_LINEAGE_INCOMPLETE = ''feature_lineage_incomplete''"
| "issue_value CANONICAL_HISTORY_INSUFFICIENT = ''canonical_history_insufficient''"
| "issue_value CANONICAL_GAPS_UNRESOLVED = ''canonical_gaps_unresolved''"
| "issue_value BENCHMARK_HISTORY_INSUFFICIENT = ''benchmark_history_insufficient''"
| "issue_value QUALITY_UNACCEPTABLE = ''quality_unacceptable''"
| "issue_value LINEAGE_INCOMPLETE = ''lineage_incomplete''"

definition score_issues :: "evidence_issue list" where
  "score_issues = [SCORE_MISSING, SCORE_STALE, LINEAGE_INCOMPLETE]"

definition feature_issues :: "evidence_issue list" where
  "feature_issues = [FEATURE_SNAPSHOT_MISSING, FEATURE_SNAPSHOT_INVALID, FEATURE_LINEAGE_INCOMPLETE]"

definition canonical_issues :: "evidence_issue list" where
  "canonical_issues = [CANONICAL_HISTORY_INSUFFICIENT, CANONICAL_GAPS_UNRESOLVED, QUALITY_UNACCEPTABLE]"

definition evidence_issue_artifact :: "evidence_issue \<Rightarrow> data_artifact" where
  "evidence_issue_artifact i =
     (if i \<in> set score_issues then Candidate_Score
      else if i \<in> set feature_issues then Feature_Snapshot
      else if i \<in> set canonical_issues then Canonical_Ohlcv
      else Benchmark_Ohlcv)"

record artifact_evidence =
  ev_artifact :: data_artifact
  ev_available :: bool
  ev_row_count :: "int option"
  ev_required_row_count :: "int option"
  ev_window_start_date :: "string option"
  ev_observed_as_of_date :: "string option"
  ev_freshness :: string
  ev_quality_status :: string
  ev_lineage_status :: string
  ev_lineage_fields :: "string set"
  ev_provider :: "string option"
  ev_ingestion_run_id :: "string option"
  ev_generated_at :: "string option"
  ev_methodology_version :: "string option"
  ev_feature_build_version :: "string option"
  ev_scoring_version :: "string option"
  ev_benchmark_as_of_date :: "string option"
  ev_benchmark_row_count :: "int option"
  ev_source_symbol :: "string option"
  ev_symbol_metadata :: "(string \<times> string) list"
  ev_issues :: "evidence_issue list"

definition new_evidence :: "data_artifact \<Rightarrow> bool \<Rightarrow> artifact_evidence" where
  "new_evidence a available =
     \<lparr>ev_artifact = a, ev_available = available, ev_row_count = None, ev_required_row_count = None,
      ev_window_start_date = None, ev_observed_as_of_date = None, ev_freshness = ''unknown'',
      ev_quality_status = ''not_applicable'', ev_lineage_status = ''not_applicable'',
      ev_lineage_fields = {}, ev_provider = None, ev_ingestion_run_id = None, ev_generated_at = None,
      ev_methodology_version = None, ev_feature_build_version = None, ev_scoring_version = None,
      ev_benchmark_as_of_date = None, ev_benchmark_row_count = None, ev_source_symbol = None,
      ev_symbol_metadata = [], ev_issues = []\<rparr>"

record cache_eligibility =
  ce_eligible :: bool
  ce_reasons :: "string list"
  ce_score_fresh :: bool
  ce_feature_present :: bool
  ce_canonical_sufficient :: bool
  ce_benchmark_sufficient :: bool
  ce_quality_acceptable :: bool
  ce_lineage_acceptable :: bool
  ce_issues :: "evidence_issue list"

text \<open>The dictionary \<open>extra\<close> is its two keys.\<close>

record ensure_result =
  er_symbol :: string
  er_target_date :: string
  er_status :: ensure_status
  er_actions_taken :: "ensure_action list"
  er_action_outcomes :: "action_outcome list"
  er_warnings :: "string list"
  er_errors :: "string list"
  er_canonical_bars :: int
  er_feature_snapshot_exists :: bool
  er_candidate_score_exists :: bool
  er_freshness :: string
  er_lineage_actions :: "string list"
  er_cache_rejection_reasons :: "string list"
  er_symbol_known :: "bool option"
  er_benchmark_bars :: "int option"
  er_candidate_score_as_of_date :: "string option"
  er_quality_status :: "string option"
  er_lineage_fields :: "string set"
  er_core_evidence_evaluated :: bool
  er_failure_code :: "string option"
  er_artifact_evidence :: "artifact_evidence list"
  er_raw_window_ready :: "bool option"
  er_eligibility_reasons :: "string list option"

definition new_result :: "string \<Rightarrow> string \<Rightarrow> ensure_status \<Rightarrow> ensure_result" where
  "new_result symbol target st =
     \<lparr>er_symbol = symbol, er_target_date = target, er_status = st, er_actions_taken = [],
      er_action_outcomes = [], er_warnings = [], er_errors = [], er_canonical_bars = 0,
      er_feature_snapshot_exists = False, er_candidate_score_exists = False, er_freshness = ''unknown'',
      er_lineage_actions = [], er_cache_rejection_reasons = [], er_symbol_known = None,
      er_benchmark_bars = None, er_candidate_score_as_of_date = None, er_quality_status = None,
      er_lineage_fields = {}, er_core_evidence_evaluated = False, er_failure_code = None,
      er_artifact_evidence = [], er_raw_window_ready = None, er_eligibility_reasons = None\<rparr>"

definition is_ready :: "ensure_result \<Rightarrow> bool" where
  "is_ready r \<longleftrightarrow> er_status r = READY"

record availability_policy =
  ap_benchmark :: string
  ap_lookback_days :: int
  ap_min_required_bars :: int
  ap_auto_sync :: bool
  ap_stale_after_calendar_days :: int
  ap_require_benchmark_history :: bool
  ap_acceptable_quality_statuses :: "string list"
  ap_required_lineage_fields :: "string list"
  ap_source :: "string option"
  ap_base_url :: "string option"

definition default_availability_policy :: availability_policy where
  "default_availability_policy =
     \<lparr>ap_benchmark = ''VNINDEX'', ap_lookback_days = 420, ap_min_required_bars = 120, ap_auto_sync = True,
      ap_stale_after_calendar_days = 7, ap_require_benchmark_history = True,
      ap_acceptable_quality_statuses = [''pass''],
      ap_required_lineage_fields =
        [''as_of_bar_date'', ''scoring_version'', ''scoring_policy_id'', ''scoring_policy_version'',
         ''scoring_policy_hash'', ''scoring_policy_status'', ''feature_build_version'',
         ''selected_provider'', ''ingestion_run_id''],
      ap_source = None, ap_base_url = None\<rparr>"

subsection \<open>How a failure is told\<close>

definition max_root_cause_chars :: int where
  "max_root_cause_chars = 240"

fun dataset_for_action :: "ensure_action \<Rightarrow> string" where
  "dataset_for_action SYMBOLS_SYNCED = ''reference.symbols''"
| "dataset_for_action OHLCV_SYNCED = ''equity.ohlcv''"
| "dataset_for_action CANONICAL_BUILT = ''equity.canonical_ohlcv''"
| "dataset_for_action BENCHMARK_SYNCED = ''index.ohlcv''"
| "dataset_for_action BENCHMARK_CANONICAL_BUILT = ''index.canonical_ohlcv''"
| "dataset_for_action FEATURES_BUILT = ''feature_snapshot''"
| "dataset_for_action SCORED = ''candidate_score''"
| "dataset_for_action CACHE_HIT = lower (action_value CACHE_HIT)"

definition benchmark_actions :: "ensure_action list" where
  "benchmark_actions = [BENCHMARK_SYNCED, BENCHMARK_CANONICAL_BUILT]"

definition subject_symbol :: "ensure_action \<Rightarrow> string \<Rightarrow> string \<Rightarrow> string" where
  "subject_symbol a symbol benchmark = (if a \<in> set benchmark_actions then benchmark else symbol)"

definition message_markers :: "(string \<times> string) list" where
  "message_markers =
     [(''no raw'', ''NO_RAW_ROWS''),
      (''does not support'', ''PROVIDER_UNSUPPORTED_DATASET''),
      (''not support index'', ''PROVIDER_UNSUPPORTED_DATASET''),
      (''cannot connect'', ''PROVIDER_UNREACHABLE''),
      (''connection'', ''PROVIDER_UNREACHABLE''),
      (''timeout'', ''PROVIDER_UNREACHABLE''),
      (''timed out'', ''PROVIDER_UNREACHABLE''),
      (''schema'', ''CANONICAL_SCHEMA_INVALID''),
      (''quarantine'', ''CANONICAL_SCHEMA_INVALID''),
      (''did not reach'', ''SESSION_DATA_UNAVAILABLE''),
      (''returned no data'', ''SESSION_DATA_UNAVAILABLE''),
      (''provider unavailable'', ''SESSION_DATA_UNAVAILABLE''),
      (''benchmark'', ''BENCHMARK_JOIN_EMPTY''),
      (''lookback'', ''INSUFFICIENT_LOOKBACK''),
      (''insufficient'', ''INSUFFICIENT_LOOKBACK''),
      (''no row'', ''SCORE_INPUT_MISSING''),
      (''produced no'', ''SCORE_INPUT_MISSING''),
      (''credential'', ''PROVIDER_AUTH_MISSING''),
      (''auth'', ''PROVIDER_AUTH_MISSING''),
      (''not a completed'', ''SESSION_NOT_COMPLETED''),
      (''calendar'', ''SESSION_NOT_COMPLETED''),
      (''postcondition'', ''POSTCONDITION_UNSATISFIED'')]"

fun action_default_category :: "ensure_action \<Rightarrow> string" where
  "action_default_category SYMBOLS_SYNCED = ''SYMBOL_SYNC_FAILED''"
| "action_default_category OHLCV_SYNCED = ''OHLCV_SYNC_FAILED''"
| "action_default_category CANONICAL_BUILT = ''CANONICAL_BUILD_FAILED''"
| "action_default_category BENCHMARK_SYNCED = ''BENCHMARK_SYNC_FAILED''"
| "action_default_category BENCHMARK_CANONICAL_BUILT = ''BENCHMARK_CANONICAL_BUILD_FAILED''"
| "action_default_category FEATURES_BUILT = ''FEATURE_BUILD_FAILED''"
| "action_default_category SCORED = ''SCORE_BUILD_FAILED''"
| "action_default_category CACHE_HIT = ''PROVISIONING_FAILED''"

definition classify_action_failure :: "ensure_action \<Rightarrow> py_error \<Rightarrow> string" where
  "classify_action_failure a e =
     (case find (\<lambda>(marker, category). occurs_in marker (lower (pe_text e))) message_markers of
        Some (marker, category) \<Rightarrow> category
      | None \<Rightarrow> action_default_category a)"

text \<open>The last characters are U+2026 in UTF-8.\<close>

definition sanitize_root_cause :: "py_error \<Rightarrow> string" where
  "sanitize_root_cause e =
     (let stripped = strip (pe_text e);
          message = join '' '' (split_words (if stripped = [] then pe_type e else stripped)) in
      pe_type e @ '': '' @
        (if max_root_cause_chars < code_points message
         then rstrip (take_points (nat (max_root_cause_chars - 1)) message) @ [CHR 0xE2, CHR 0x80, CHR 0xA6]
         else message))"

end
