(* ===== verification/Ensure_Warehouse.thy ===== *)
theory Ensure_Warehouse
  imports Ensure_Values
begin

section \<open>What the warehouse says about a symbol\<close>

text \<open>
  \<open>data_availability/checks.py\<close>, \<open>raw_evidence.py\<close>, \<open>ohlcv_gap_checks.py\<close>,
  \<open>relative_strength_checks.py\<close> and \<open>features/status.py\<close>.  A table is the list of its rows, a row the
  columns that these queries read, \<open>NULL\<close> is \<open>None\<close>; a timestamp is its date and its microseconds, so that
  \<open>CAST(time AS DATE)\<close> is its first part.  What \<open>json.loads\<close> makes of a lineage text is an argument, with
  the items of an object as they are written.
\<close>

datatype lineage_text =
    Not_Json
  | Not_Object
  | Object_Items "(string \<times> pval) list"
  | Json_Raises py_error

record read_env =
  re_other_dates :: "string \<Rightarrow> py_date option"
  re_repr_text :: "string \<Rightarrow> string"
  re_repr :: "pval \<Rightarrow> string"
  re_json :: "string \<Rightarrow> lineage_text"

record symbol_row =
  sm_symbol :: string
  sm_last_seen_at :: "string option"
  sm_is_active :: "bool option"
  sm_exchange :: "string option"
  sm_name :: "string option"
  sm_sector :: "string option"
  sm_industry :: "string option"

record canonical_row =
  cb_symbol :: string
  cb_date :: py_date
  cb_micros :: int
  cb_interval :: string
  cb_selected_provider :: "string option"
  cb_quality_status :: "string option"
  cb_ingestion_run_id :: "string option"
  cb_source_service_run_id :: "string option"

record raw_row =
  rb_symbol :: string
  rb_date :: py_date
  rb_interval :: string
  rb_provider :: "string option"
  rb_price_basis :: "string option"
  rb_quality_status :: "string option"

record gap_row =
  gp_symbol :: string
  gp_interval :: string
  gp_session_date :: py_date
  gp_gap_kind :: string
  gp_resolved_at :: "string option"

record feature_row =
  fr_symbol :: string
  fr_date :: py_date
  fr_as_of_bar_date :: "py_date option"
  fr_benchmark_as_of_bar_date :: "py_date option"
  fr_source_row_count :: "int option"
  fr_benchmark_row_count :: "int option"
  fr_data_status :: "string option"
  fr_build_version :: "string option"
  fr_generated_at :: "string option"
  fr_lineage_json :: "string option"
  fr_profile :: "string option"
  fr_neutral_completeness :: "string option"
  fr_relative_strength_completeness :: "string option"

record strength_row =
  rs_symbol :: string
  rs_date :: py_date
  rs_benchmark_symbol :: string
  rs_horizon_sessions :: int
  rs_benchmark_bar_date :: "py_date option"
  rs_benchmark_row_count :: "int option"
  rs_data_status :: string

record score_row =
  sc_symbol :: string
  sc_date :: py_date
  sc_candidate_class :: string
  sc_lineage_json :: "string option"
  sc_policy_id :: "string option"
  sc_policy_version :: "string option"
  sc_policy_hash :: "string option"
  sc_policy_status :: "string option"

text \<open>\<open>relative_strength_snapshot\<close> may not exist.\<close>

record warehouse =
  wh_symbols :: "symbol_row list"
  wh_canonical :: "canonical_row list"
  wh_raw :: "raw_row list"
  wh_gaps :: "gap_row list"
  wh_features :: "feature_row list"
  wh_strength :: "strength_row list option"
  wh_scores :: "score_row list"

subsection \<open>SQL\<close>

text \<open>A text as a \<open>DATE\<close>, \<open>BETWEEN\<close>, \<open>TRIM\<close> (which takes blanks only), \<open>COALESCE(x, '')\<close> and \<open>MAX\<close>, \<open>MIN\<close>.\<close>

definition sql_date :: "string \<Rightarrow> py_error + py_date" where
  "sql_date s =
     (case fromisoformat (\<lambda>_. None) s of
        Some d \<Rightarrow> Inr d
      | None \<Rightarrow> Inl \<lparr>pe_type = ''ConversionException'', pe_text = ''invalid date field format''\<rparr>)"

definition date_upto :: "py_date \<Rightarrow> py_date \<Rightarrow> bool" where
  "date_upto d e \<longleftrightarrow> date_key d \<le> date_key e"

definition sql_trim :: "string \<Rightarrow> string" where
  "sql_trim s = rev (dropWhile (\<lambda>c. c = CHR 32) (rev (dropWhile (\<lambda>c. c = CHR 32) s)))"

definition or_empty :: "string option \<Rightarrow> string" where
  "or_empty v = (case v of None \<Rightarrow> [] | Some s \<Rightarrow> s)"

definition max_date :: "py_date list \<Rightarrow> py_date option" where
  "max_date ds =
     (if ds = [] then None
      else Some (foldl (\<lambda>a b. if date_key a < date_key b then b else a) (hd ds) (tl ds)))"

definition min_date :: "py_date list \<Rightarrow> py_date option" where
  "min_date ds =
     (if ds = [] then None
      else Some (foldl (\<lambda>a b. if date_key b < date_key a then b else a) (hd ds) (tl ds)))"

text \<open>\<open>ORDER BY time DESC LIMIT 1\<close>; the primary key leaves no ties.\<close>

definition bar_time :: "canonical_row \<Rightarrow> (nat \<times> nat \<times> nat) \<times> int" where
  "bar_time r = (date_key (cb_date r), cb_micros r)"

definition latest_bar :: "canonical_row list \<Rightarrow> canonical_row option" where
  "latest_bar rs =
     (if rs = [] then None
      else Some (foldl (\<lambda>a b. if bar_time a < bar_time b then b else a) (hd rs) (tl rs)))"

definition daily_bars :: "string \<Rightarrow> py_date \<Rightarrow> warehouse \<Rightarrow> canonical_row list" where
  "daily_bars symbol target w =
     filter (\<lambda>r. cb_symbol r = symbol \<and> cb_interval r = ''1D'' \<and> date_upto (cb_date r) target) (wh_canonical w)"

definition window_bars :: "string \<Rightarrow> py_date \<Rightarrow> py_date \<Rightarrow> warehouse \<Rightarrow> canonical_row list" where
  "window_bars symbol start target w = filter (\<lambda>r. date_upto start (cb_date r)) (daily_bars symbol target w)"

subsection \<open>Symbol master and price history\<close>

definition get_symbol_master_status :: "string \<Rightarrow> warehouse \<Rightarrow> bool" where
  "get_symbol_master_status symbol w = list_ex (\<lambda>r. sm_symbol r = symbol) (wh_symbols w)"

definition get_canonical_ohlcv_status ::
  "string \<Rightarrow> string \<Rightarrow> string \<Rightarrow> warehouse \<Rightarrow> py_error + int" where
  "get_canonical_ohlcv_status symbol target start w =
     res_bind (sql_date start) (\<lambda>a. res_bind (sql_date target) (\<lambda>b.
       Inr (int (length (window_bars symbol a b w)))))"

definition get_latest_canonical_bar_date :: "string \<Rightarrow> string \<Rightarrow> warehouse \<Rightarrow> py_error + string option" where
  "get_latest_canonical_bar_date symbol target w =
     res_bind (sql_date target) (\<lambda>b.
       Inr (map_option isoformat (max_date (map cb_date (daily_bars symbol b w)))))"

definition usable_raw_bar :: "string \<Rightarrow> py_date \<Rightarrow> py_date \<Rightarrow> raw_row \<Rightarrow> bool" where
  "usable_raw_bar symbol start target r \<longleftrightarrow>
     rb_symbol r = symbol \<and> rb_interval r = ''1D'' \<and>
     date_upto start (rb_date r) \<and> date_upto (rb_date r) target \<and>
     lower (sql_trim (or_empty (rb_quality_status r))) \<in> {''pass'', ''success''} \<and>
     (upper (sql_trim (or_empty (rb_provider r))) \<noteq> ''FIINQUANTX'' \<or>
      upper (sql_trim (or_empty (rb_price_basis r))) = ''RAW_UNADJUSTED'')"

definition get_raw_ohlcv_window_evidence ::
  "string \<Rightarrow> string \<Rightarrow> string \<Rightarrow> warehouse \<Rightarrow> py_error + int \<times> string option" where
  "get_raw_ohlcv_window_evidence symbol start target w =
     res_bind (sql_date start) (\<lambda>a. res_bind (sql_date target) (\<lambda>b.
       let dates = map rb_date (filter (usable_raw_bar symbol a b) (wh_raw w)) in
       Inr (int (length (remdups dates)), map_option isoformat (max_date dates))))"

definition count_unresolved_true_gaps :: "string \<Rightarrow> string \<Rightarrow> string \<Rightarrow> warehouse \<Rightarrow> py_error + int" where
  "count_unresolved_true_gaps symbol start target w =
     res_bind (sql_date start) (\<lambda>a. res_bind (sql_date target) (\<lambda>b.
       Inr (int (length (filter (\<lambda>r. gp_symbol r = symbol \<and> gp_interval r = ''1D'' \<and>
         gp_gap_kind r = ''TRUE_GAP'' \<and> gp_resolved_at r = None \<and>
         date_upto a (gp_session_date r) \<and> date_upto (gp_session_date r) b) (wh_gaps w))))))"

definition compute_lookback_start :: "read_env \<Rightarrow> string \<Rightarrow> int \<Rightarrow> py_error + string" where
  "compute_lookback_start env target days =
     res_bind (normalize_explicit_date (re_other_dates env) (re_repr_text env) target) (\<lambda>t.
     res_bind (minus_days (iso_date t) days) (\<lambda>d. Inr (isoformat d)))"

subsection \<open>Freshness and lineage\<close>

text \<open>\<open>_parse_date(str(s))\<close> of the first ten characters.\<close>

definition parse_date_prefix :: "read_env \<Rightarrow> string \<Rightarrow> py_date option" where
  "parse_date_prefix env s = fromisoformat (re_other_dates env) (take_points 10 s)"

definition evidence_freshness :: "read_env \<Rightarrow> bool \<Rightarrow> string option \<Rightarrow> string \<Rightarrow> string" where
  "evidence_freshness env available observed target =
     (if \<not> available then ''missing''
      else case (if or_empty observed = [] then None else parse_date_prefix env (or_empty observed),
                 parse_date_prefix env target) of
          (Some o_date, Some t_date) \<Rightarrow>
            if date_ordinal t_date - date_ordinal o_date > 7 then ''stale'' else ''ready''
        | _ \<Rightarrow> ''unknown'')"

definition date_text :: "string option \<Rightarrow> string option" where
  "date_text v = (if or_empty v = [] then None else map_option (take_points 10) v)"

text \<open>The dictionary of an object: a repeated key has its last value.\<close>

definition decode_lineage :: "read_env \<Rightarrow> string option \<Rightarrow> py_error + pdict" where
  "decode_lineage env v =
     (if or_empty v = [] then Inr []
      else case re_json env (or_empty v) of
          Object_Items kvs \<Rightarrow> Inr (foldl (\<lambda>d (k, x). dict_set k x d) [] kvs)
        | Json_Raises e \<Rightarrow> Inl e
        | _ \<Rightarrow> Inr [])"

definition has_value :: "pval \<Rightarrow> bool" where
  "has_value v \<longleftrightarrow> v \<noteq> PNone \<and> v \<noteq> PStr []"

definition lineage_field_names :: "pdict \<Rightarrow> string set" where
  "lineage_field_names l = set (map fst (filter (\<lambda>(k, v). has_value v) l))"

definition lineage_value :: "read_env \<Rightarrow> pdict \<Rightarrow> string list \<Rightarrow> string option" where
  "lineage_value env l keys =
     map_option (\<lambda>k. py_str (re_repr env) (dict_get l k)) (find (\<lambda>k. has_value (dict_get l k)) keys)"

subsection \<open>Feature status\<close>

datatype feature_data_status = EXACT_DATE | STALE_DATE | MISSING_BENCHMARK

fun feature_status_value :: "feature_data_status \<Rightarrow> string" where
  "feature_status_value EXACT_DATE = ''EXACT_DATE''"
| "feature_status_value STALE_DATE = ''STALE_DATE''"
| "feature_status_value MISSING_BENCHMARK = ''MISSING_BENCHMARK''"

datatype feature_exclusion =
  Stale_Feature_Date | Missing_Benchmark | Unknown_Feature_Status

text \<open>Eligible is having no reason for an exclusion.\<close>

record feature_eligibility =
  fe_raw_status :: "string option"
  fe_status :: "feature_data_status option"
  fe_exclusion_reason :: "feature_exclusion option"

definition feature_eligible :: "feature_eligibility \<Rightarrow> bool" where
  "feature_eligible e \<longleftrightarrow> fe_exclusion_reason e = None"

definition parse_feature_eligibility :: "string option \<Rightarrow> feature_eligibility" where
  "parse_feature_eligibility raw =
     (let normalized = upper (strip (or_empty raw)) in
      case find (\<lambda>st. feature_status_value st = normalized) [EXACT_DATE, STALE_DATE, MISSING_BENCHMARK] of
        None \<Rightarrow> \<lparr>fe_raw_status = raw, fe_status = None, fe_exclusion_reason = Some Unknown_Feature_Status\<rparr>
      | Some st \<Rightarrow> \<lparr>fe_raw_status = raw, fe_status = Some st,
          fe_exclusion_reason = (case st of EXACT_DATE \<Rightarrow> None | STALE_DATE \<Rightarrow> Some Stale_Feature_Date
            | MISSING_BENCHMARK \<Rightarrow> Some Missing_Benchmark)\<rparr>)"

definition feature_status_contract_version :: string where
  "feature_status_contract_version = ''feature-data-status-v1''"

text \<open>The key must occur exactly once in the text.\<close>

definition contract_version :: "read_env \<Rightarrow> string option \<Rightarrow> py_error + pval" where
  "contract_version env lineage =
     (case lineage of
        None \<Rightarrow> Inr PNone
      | Some s \<Rightarrow> (case re_json env s of
            Object_Items kvs \<Rightarrow>
              (case filter (\<lambda>(k, v). k = ''feature_status_contract_version'') kvs of
                 [(k, v)] \<Rightarrow> Inr v
               | _ \<Rightarrow> Inr PNone)
          | Json_Raises e \<Rightarrow> Inl e
          | _ \<Rightarrow> Inr PNone))"

definition parse_feature_snapshot_eligibility ::
  "read_env \<Rightarrow> string option \<Rightarrow> string option \<Rightarrow> py_error + feature_eligibility" where
  "parse_feature_snapshot_eligibility env raw lineage =
     (let e = parse_feature_eligibility raw in
      if \<not> feature_eligible e then Inr e
      else res_bind (contract_version env lineage) (\<lambda>v.
        if v = PStr feature_status_contract_version then Inr e
        else Inr (e\<lparr>fe_exclusion_reason := Some Unknown_Feature_Status\<rparr>)))"

subsection \<open>Evidence\<close>

record score_evidence =
  se_exists :: bool
  se_candidate_class :: "string option"
  se_as_of_bar_date :: "string option"
  se_quality_status :: "string option"
  se_lineage :: pdict

definition if_given :: "string option \<Rightarrow> string option" where
  "if_given v = (if or_empty v = [] then None else v)"

definition checked_policy_key :: "pdict \<Rightarrow> string \<times> string option \<Rightarrow> pdict" where
  "checked_policy_key l kv =
     (case kv of (k, persisted) \<Rightarrow>
        if or_empty persisted = [] \<or> dict_get l k \<noteq> PStr (or_empty persisted) then dict_del k l else l)"

definition policy_columns :: "score_row \<Rightarrow> (string \<times> string option) list" where
  "policy_columns r =
     [(''scoring_policy_id'', sc_policy_id r), (''scoring_policy_version'', sc_policy_version r),
      (''scoring_policy_hash'', sc_policy_hash r), (''scoring_policy_status'', sc_policy_status r)]"

definition find_score :: "string \<Rightarrow> py_date \<Rightarrow> warehouse \<Rightarrow> score_row option" where
  "find_score symbol d w = find (\<lambda>r. sc_symbol r = symbol \<and> sc_date r = d) (wh_scores w)"

definition get_candidate_score_evidence ::
  "read_env \<Rightarrow> string \<Rightarrow> string \<Rightarrow> warehouse \<Rightarrow> py_error + score_evidence" where
  "get_candidate_score_evidence env symbol target w =
     res_bind (sql_date target) (\<lambda>d.
       case find_score symbol d w of
         None \<Rightarrow> Inr \<lparr>se_exists = False, se_candidate_class = None, se_as_of_bar_date = None,
           se_quality_status = None, se_lineage = []\<rparr>
       | Some r \<Rightarrow>
           res_bind (decode_lineage env (sc_lineage_json r)) (\<lambda>lineage.
             let as_of = py_or (dict_get lineage ''as_of_bar_date'') (dict_get lineage ''feature_date'') in
             Inr \<lparr>se_exists = True, se_candidate_class = Some (sc_candidate_class r),
               se_as_of_bar_date = (if truthy as_of then Some (py_str (re_repr env) as_of) else None),
               se_quality_status =
                 (case latest_bar (daily_bars symbol d w) of None \<Rightarrow> None | Some b \<Rightarrow> if_given (cb_quality_status b)),
               se_lineage = foldl checked_policy_key lineage (policy_columns r)\<rparr>))"

definition get_symbol_master_evidence :: "string \<Rightarrow> warehouse \<Rightarrow> artifact_evidence" where
  "get_symbol_master_evidence symbol w =
     (let row = find (\<lambda>r. sm_symbol r = symbol) (wh_symbols w) in
      (new_evidence Symbol_Master (row \<noteq> None))
        \<lparr>ev_observed_as_of_date := (case row of None \<Rightarrow> None | Some r \<Rightarrow> date_text (sm_last_seen_at r)),
         ev_freshness := (if row \<noteq> None then ''ready'' else ''missing''),
         ev_source_symbol := Some symbol,
         ev_symbol_metadata :=
           (case row of None \<Rightarrow> []
            | Some r \<Rightarrow> concat (map (\<lambda>(k, v). case v of None \<Rightarrow> [] | Some x \<Rightarrow> [(k, x)])
                [(''is_active'', map_option (\<lambda>b. if b then ''True'' else ''False'') (sm_is_active r)),
                 (''exchange'', sm_exchange r), (''name'', sm_name r), (''sector'', sm_sector r),
                 (''industry'', sm_industry r)]))\<rparr>)"

definition get_ohlcv_evidence ::
  "read_env \<Rightarrow> string \<Rightarrow> string \<Rightarrow> string \<Rightarrow> data_artifact \<Rightarrow> warehouse \<Rightarrow> py_error + artifact_evidence" where
  "get_ohlcv_evidence env symbol target start artifact w =
     res_bind (sql_date start) (\<lambda>a. res_bind (sql_date target) (\<lambda>b.
       let bars = window_bars symbol a b w;
           metadata = latest_bar (daily_bars symbol b w);
           column = (\<lambda>f. case metadata of None \<Rightarrow> None | Some r \<Rightarrow> if_given (f r));
           observed = map_option isoformat (max_date (map cb_date bars));
           fields = set (map fst (filter (\<lambda>(k, v). v \<noteq> None)
             [(''ingestion_run_id'', column cb_ingestion_run_id),
              (''source_service_run_id'', column cb_source_service_run_id)])) in
       Inr ((new_evidence artifact (bars \<noteq> []))
         \<lparr>ev_row_count := Some (int (length bars)),
          ev_window_start_date := map_option isoformat (min_date (map cb_date bars)),
          ev_observed_as_of_date := observed,
          ev_freshness := evidence_freshness env (bars \<noteq> []) observed target,
          ev_quality_status := (case column cb_quality_status of None \<Rightarrow> ''unknown'' | Some q \<Rightarrow> q),
          ev_lineage_status := (if fields \<noteq> {} then ''complete'' else ''unknown''),
          ev_lineage_fields := fields,
          ev_provider := column cb_selected_provider,
          ev_ingestion_run_id := column cb_ingestion_run_id,
          ev_source_symbol := Some symbol\<rparr>)))"

definition find_feature :: "string \<Rightarrow> py_date \<Rightarrow> warehouse \<Rightarrow> feature_row option" where
  "find_feature symbol d w = find (\<lambda>r. fr_symbol r = symbol \<and> fr_date r = d) (wh_features w)"

text \<open>\<open>str(column)\<close> of a column that may be \<open>NULL\<close>.\<close>

definition column_text :: "string option \<Rightarrow> string" where
  "column_text v = (case v of None \<Rightarrow> ''None'' | Some s \<Rightarrow> s)"

definition profile_acceptable :: "string \<Rightarrow> feature_row \<Rightarrow> bool" where
  "profile_acceptable target r \<longleftrightarrow>
     date_text (map_option isoformat (fr_as_of_bar_date r)) = Some target \<and>
     feature_eligible (parse_feature_eligibility (if_given (fr_data_status r))) \<and>
     column_text (fr_profile r) \<in> {''STANDARD_120'', ''FULL_252''} \<and>
     column_text (fr_neutral_completeness r) = ''COMPLETE'' \<and>
     column_text (fr_relative_strength_completeness r) = ''COMPLETE''"

definition get_feature_snapshot_evidence ::
  "read_env \<Rightarrow> string \<Rightarrow> string \<Rightarrow> warehouse \<Rightarrow> py_error + artifact_evidence" where
  "get_feature_snapshot_evidence env symbol target w =
     res_bind (sql_date target) (\<lambda>d.
       case find_feature symbol d w of
         None \<Rightarrow> Inr ((new_evidence Feature_Snapshot False)\<lparr>ev_freshness := ''missing''\<rparr>)
       | Some r \<Rightarrow>
           res_bind (decode_lineage env (fr_lineage_json r)) (\<lambda>lineage.
           res_bind (parse_feature_snapshot_eligibility env (if_given (fr_data_status r)) (fr_lineage_json r))
             (\<lambda>e.
             let as_of = map_option isoformat (fr_as_of_bar_date r);
                 profile = profile_acceptable target r;
                 version = if_given (fr_build_version r) in
             Inr ((new_evidence Feature_Snapshot (profile \<and> feature_eligible e))
               \<lparr>ev_row_count := fr_source_row_count r,
                ev_observed_as_of_date := date_text as_of,
                ev_freshness := evidence_freshness env True as_of target,
                ev_quality_status := (if profile then ''EXACT_DATE'' else ''INCOMPLETE_FEATURE_PROFILE''),
                ev_lineage_status := (if feature_eligible e then ''complete'' else ''incomplete''),
                ev_lineage_fields := lineage_field_names lineage,
                ev_provider := lineage_value env lineage [''selected_provider'', ''provider''],
                ev_ingestion_run_id := lineage_value env lineage [''ingestion_run_id''],
                ev_generated_at := if_given (fr_generated_at r),
                ev_methodology_version := version,
                ev_feature_build_version := version,
                ev_benchmark_as_of_date := date_text (map_option isoformat (fr_benchmark_as_of_bar_date r)),
                ev_benchmark_row_count := fr_benchmark_row_count r,
                ev_source_symbol := Some symbol\<rparr>))))"

definition get_candidate_score_artifact_evidence ::
  "read_env \<Rightarrow> string \<Rightarrow> string \<Rightarrow> warehouse \<Rightarrow> py_error + artifact_evidence" where
  "get_candidate_score_artifact_evidence env symbol target w =
     res_bind (get_candidate_score_evidence env symbol target w) (\<lambda>e.
       let l = se_lineage e; fields = lineage_field_names l in
       Inr ((new_evidence Candidate_Score (se_exists e))
         \<lparr>ev_row_count := Some (if se_exists e then 1 else 0),
          ev_observed_as_of_date := se_as_of_bar_date e,
          ev_freshness := evidence_freshness env (se_exists e) (se_as_of_bar_date e) target,
          ev_lineage_status := (if fields \<noteq> {} then ''complete'' else ''unknown''),
          ev_lineage_fields := fields,
          ev_provider := lineage_value env l [''selected_provider'', ''provider''],
          ev_ingestion_run_id := lineage_value env l [''ingestion_run_id''],
          ev_generated_at := lineage_value env l [''score_generated_at'', ''generated_at''],
          ev_methodology_version := lineage_value env l [''feature_build_version'', ''scoring_version''],
          ev_feature_build_version := lineage_value env l [''feature_build_version''],
          ev_scoring_version := lineage_value env l [''scoring_version''],
          ev_source_symbol := Some symbol\<rparr>))"

subsection \<open>Relative strength\<close>

definition lineage_benchmark_symbol :: "read_env \<Rightarrow> string option \<Rightarrow> py_error + string" where
  "lineage_benchmark_symbol env lineage =
     (case lineage of
        None \<Rightarrow> Inr ''VNINDEX''
      | Some s \<Rightarrow> (case re_json env s of
            Object_Items kvs \<Rightarrow>
              (let v = dict_get (foldl (\<lambda>d (k, x). dict_set k x d) [] kvs) ''benchmark_symbol'' in
               Inr (if truthy v then py_str (re_repr env) v else ''VNINDEX''))
          | Json_Raises e \<Rightarrow> Inl e
          | _ \<Rightarrow> Inr ''VNINDEX''))"

record strength_evidence =
  st_available :: bool
  st_benchmark_symbol :: string
  st_benchmark_bar_date :: "string option"
  st_benchmark_row_count :: "int option"

definition max_count :: "int list \<Rightarrow> int option" where
  "max_count ns = (if ns = [] then None else Some (foldl max (hd ns) (tl ns)))"

definition get_relative_strength_evidence ::
  "read_env \<Rightarrow> string \<Rightarrow> string \<Rightarrow> warehouse \<Rightarrow> py_error + strength_evidence" where
  "get_relative_strength_evidence env symbol target w =
     res_bind (sql_date target) (\<lambda>d.
     res_bind (lineage_benchmark_symbol env
         (case find_feature symbol d w of None \<Rightarrow> None | Some r \<Rightarrow> fr_lineage_json r)) (\<lambda>benchmark.
       case wh_strength w of
         None \<Rightarrow> Inr \<lparr>st_available = True, st_benchmark_symbol = benchmark, st_benchmark_bar_date = None,
           st_benchmark_row_count = None\<rparr>
       | Some rows \<Rightarrow>
           let hits = filter (\<lambda>r. rs_symbol r = symbol \<and> rs_date r = d \<and> rs_benchmark_symbol r = benchmark \<and>
                 rs_data_status r = ''SUCCESS'' \<and> rs_horizon_sessions r \<in> {20, 60}) rows in
           Inr \<lparr>st_available = (length hits = 2), st_benchmark_symbol = benchmark,
             st_benchmark_bar_date =
               map_option isoformat (max_date (List.map_filter rs_benchmark_bar_date hits)),
             st_benchmark_row_count = max_count (List.map_filter rs_benchmark_row_count hits)\<rparr>))"

section \<open>The plan that makes a symbol ready\<close>

text \<open>
  \<open>data_availability/cache.py\<close> and \<open>planner.py\<close>: the snapshot of what the warehouse says, the issues that
  keep it from being used as it is, and the actions these issues ask for.
\<close>

record data_snapshot =
  ds_symbol :: string
  ds_target_date :: string
  ds_lookback_start :: string
  ds_symbol_known :: bool
  ds_canonical_bars :: int
  ds_benchmark_bars :: int
  ds_feature_snapshot_exists :: bool
  ds_candidate_score_exists :: bool
  ds_candidate_score_as_of_date :: "string option"
  ds_quality_status :: "string option"
  ds_lineage_fields :: "string set"
  ds_artifact_evidence :: "artifact_evidence list"
  ds_unresolved_true_gap_count :: int
  ds_latest_canonical_bar_date :: "string option"
  ds_latest_benchmark_bar_date :: "string option"
  ds_feature_row_exists :: "bool option"
  ds_feature_profile_acceptable :: bool
  ds_feature_lineage_acceptable :: bool
  ds_raw_ohlcv_bars :: int
  ds_latest_raw_bar_date :: "string option"

subsection \<open>Eligibility\<close>

definition score_is_fresh :: "read_env \<Rightarrow> data_snapshot \<Rightarrow> availability_policy \<Rightarrow> bool" where
  "score_is_fresh env s p \<longleftrightarrow>
     ds_candidate_score_exists s \<and>
     (case ds_candidate_score_as_of_date s of
        None \<Rightarrow> False
      | Some text \<Rightarrow>
          (case (fromisoformat (re_other_dates env) text, fromisoformat (re_other_dates env) (ds_target_date s)) of
             (Some score, Some target) \<Rightarrow>
               \<not> date_key target < date_key score \<and>
               (ap_stale_after_calendar_days p \<le> 0 \<or>
                date_ordinal target - date_ordinal score \<le> ap_stale_after_calendar_days p)
           | _ \<Rightarrow> False))"

definition feature_row_exists :: "data_snapshot \<Rightarrow> bool" where
  "feature_row_exists s =
     (case ds_feature_row_exists s of None \<Rightarrow> ds_feature_snapshot_exists s | Some b \<Rightarrow> b)"

definition benchmark_sufficient :: "data_snapshot \<Rightarrow> availability_policy \<Rightarrow> bool" where
  "benchmark_sufficient s p \<longleftrightarrow>
     \<not> ap_require_benchmark_history p \<or> ap_min_required_bars p \<le> ds_benchmark_bars s"

definition quality_acceptable :: "data_snapshot \<Rightarrow> availability_policy \<Rightarrow> bool" where
  "quality_acceptable s p \<longleftrightarrow>
     (case ds_quality_status s of
        None \<Rightarrow> False
      | Some q \<Rightarrow> lower (strip q) \<in> set (map (\<lambda>v. lower (strip v)) (ap_acceptable_quality_statuses p)))"

definition lineage_acceptable :: "data_snapshot \<Rightarrow> availability_policy \<Rightarrow> bool" where
  "lineage_acceptable s p \<longleftrightarrow> list_all (\<lambda>k. k \<in> ds_lineage_fields s) (ap_required_lineage_fields p)"

definition eligibility_issues :: "read_env \<Rightarrow> data_snapshot \<Rightarrow> availability_policy \<Rightarrow> evidence_issue list" where
  "eligibility_issues env s p =
     (if \<not> ds_candidate_score_exists s then [SCORE_MISSING]
      else if \<not> score_is_fresh env s p then [SCORE_STALE] else []) @
     (if \<not> feature_row_exists s then [FEATURE_SNAPSHOT_MISSING]
      else if \<not> ds_feature_profile_acceptable s then [FEATURE_SNAPSHOT_INVALID]
      else if \<not> ds_feature_lineage_acceptable s then [FEATURE_LINEAGE_INCOMPLETE]
      else if \<not> ds_feature_snapshot_exists s then [FEATURE_SNAPSHOT_INVALID] else []) @
     (if \<not> ap_min_required_bars p \<le> ds_canonical_bars s then [CANONICAL_HISTORY_INSUFFICIENT] else []) @
     (if ds_unresolved_true_gap_count s \<noteq> 0 then [CANONICAL_GAPS_UNRESOLVED] else []) @
     (if \<not> benchmark_sufficient s p then [BENCHMARK_HISTORY_INSUFFICIENT] else []) @
     (if \<not> quality_acceptable s p then [QUALITY_UNACCEPTABLE] else []) @
     (if ds_candidate_score_exists s \<and> \<not> lineage_acceptable s p then [LINEAGE_INCOMPLETE] else [])"

definition evaluate_cache_eligibility ::
  "read_env \<Rightarrow> data_snapshot \<Rightarrow> availability_policy \<Rightarrow> cache_eligibility" where
  "evaluate_cache_eligibility env s p =
     (let issues = eligibility_issues env s p in
      \<lparr>ce_eligible = (issues = []),
       ce_reasons = map issue_value issues,
       ce_score_fresh = score_is_fresh env s p,
       ce_feature_present = (ds_feature_snapshot_exists s \<and> ds_feature_profile_acceptable s \<and>
         ds_feature_lineage_acceptable s),
       ce_canonical_sufficient = (ap_min_required_bars p \<le> ds_canonical_bars s \<and>
         ds_unresolved_true_gap_count s = 0),
       ce_benchmark_sufficient = benchmark_sufficient s p,
       ce_quality_acceptable = quality_acceptable s p,
       ce_lineage_acceptable = lineage_acceptable s p,
       ce_issues = issues\<rparr>)"

subsection \<open>The snapshot\<close>

text \<open>The evidence of the features also needs the relative strength.\<close>

definition strength_checked :: "artifact_evidence \<Rightarrow> strength_evidence \<Rightarrow> artifact_evidence" where
  "strength_checked e st =
     e\<lparr>ev_available := (ev_available e \<and> st_available st),
       ev_benchmark_as_of_date :=
         (if or_empty (st_benchmark_bar_date st) \<noteq> [] then st_benchmark_bar_date st else ev_benchmark_as_of_date e),
       ev_benchmark_row_count :=
         (case st_benchmark_row_count st of
            Some n \<Rightarrow> if n \<noteq> 0 then Some n else ev_benchmark_row_count e
          | None \<Rightarrow> ev_benchmark_row_count e)\<rparr>"

text \<open>Each piece of evidence gets the issues of its artifact.\<close>

definition with_issues ::
  "availability_policy \<Rightarrow> evidence_issue list \<Rightarrow> artifact_evidence \<Rightarrow> artifact_evidence" where
  "with_issues p issues e =
     (let own = filter (\<lambda>i. evidence_issue_artifact i = ev_artifact e) issues in
      e\<lparr>ev_required_row_count :=
          (if ev_artifact e \<in> {Canonical_Ohlcv, Benchmark_Ohlcv} then Some (ap_min_required_bars p)
           else ev_required_row_count e),
        ev_issues := own,
        ev_freshness := (if SCORE_STALE \<in> set own then ''stale'' else ev_freshness e)\<rparr>)"

definition capture_availability_snapshot ::
  "read_env \<Rightarrow> string \<Rightarrow> string \<Rightarrow> availability_policy \<Rightarrow> warehouse \<Rightarrow> py_error + data_snapshot" where
  "capture_availability_snapshot env symbol target p w =
     res_bind (compute_lookback_start env target (ap_lookback_days p)) (\<lambda>start.
     res_bind (get_candidate_score_evidence env symbol target w) (\<lambda>score.
     res_bind (get_feature_snapshot_evidence env symbol target w) (\<lambda>feature0.
     res_bind (get_ohlcv_evidence env symbol target start Canonical_Ohlcv w) (\<lambda>canonical.
     res_bind (get_ohlcv_evidence env (ap_benchmark p) target start Benchmark_Ohlcv w) (\<lambda>benchmark.
     res_bind (get_raw_ohlcv_window_evidence symbol start target w) (\<lambda>raw.
     res_bind (get_relative_strength_evidence env symbol target w) (\<lambda>strength.
     let feature = strength_checked feature0 strength in
     res_bind (get_canonical_ohlcv_status symbol target start w) (\<lambda>bars.
     res_bind (get_canonical_ohlcv_status (ap_benchmark p) target start w) (\<lambda>benchmark_bars.
     res_bind (get_latest_canonical_bar_date symbol target w) (\<lambda>latest.
     res_bind (get_latest_canonical_bar_date (ap_benchmark p) target w) (\<lambda>latest_benchmark.
     res_bind (count_unresolved_true_gaps symbol start target w) (\<lambda>gaps.
     res_bind (get_candidate_score_artifact_evidence env symbol target w) (\<lambda>score_artifact.
     let s = \<lparr>ds_symbol = symbol, ds_target_date = target, ds_lookback_start = start,
           ds_symbol_known = get_symbol_master_status symbol w,
           ds_canonical_bars = bars, ds_benchmark_bars = benchmark_bars,
           ds_feature_snapshot_exists = ev_available feature,
           ds_candidate_score_exists = se_exists score,
           ds_candidate_score_as_of_date = se_as_of_bar_date score,
           ds_quality_status = Some (ev_quality_status canonical),
           ds_lineage_fields = lineage_field_names (se_lineage score),
           ds_artifact_evidence =
             [get_symbol_master_evidence symbol w, canonical, benchmark, feature, score_artifact],
           ds_unresolved_true_gap_count = gaps,
           ds_latest_canonical_bar_date = latest, ds_latest_benchmark_bar_date = latest_benchmark,
           ds_feature_row_exists = Some (ev_freshness feature \<noteq> ''missing''),
           ds_feature_profile_acceptable = (ev_quality_status feature = ''EXACT_DATE''),
           ds_feature_lineage_acceptable = (ev_lineage_status feature = ''complete''),
           ds_raw_ohlcv_bars = fst raw, ds_latest_raw_bar_date = snd raw\<rparr> in
     Inr (s\<lparr>ds_artifact_evidence :=
       map (with_issues p (eligibility_issues env s p)) (ds_artifact_evidence s)\<rparr>))))))))))))))"

subsection \<open>The plan\<close>

definition canonical_is_stale :: "read_env \<Rightarrow> string option \<Rightarrow> string \<Rightarrow> bool" where
  "canonical_is_stale env latest target =
     (case latest of
        None \<Rightarrow> False
      | Some l \<Rightarrow> (case (fromisoformat (re_other_dates env) l, fromisoformat (re_other_dates env) target) of
            (Some d, Some t) \<Rightarrow> date_key d < date_key t
          | _ \<Rightarrow> False))"

definition meets :: "evidence_issue list \<Rightarrow> evidence_issue list \<Rightarrow> bool" where
  "meets issues wanted = list_ex (\<lambda>i. i \<in> set wanted) issues"

definition price_actions :: "read_env \<Rightarrow> data_snapshot \<Rightarrow> availability_policy \<Rightarrow> ensure_action list" where
  "price_actions env s p =
     (let issues = eligibility_issues env s p;
          raw_ready = ap_min_required_bars p \<le> ds_raw_ohlcv_bars s \<and>
            \<not> canonical_is_stale env (ds_latest_raw_bar_date s) (ds_target_date s) in
      if ap_auto_sync p \<and> (meets issues canonical_issues \<or>
           canonical_is_stale env (ds_latest_canonical_bar_date s) (ds_target_date s))
      then (if CANONICAL_GAPS_UNRESOLVED \<in> set issues \<or> \<not> raw_ready then [OHLCV_SYNCED] else []) @
        [CANONICAL_BUILT]
      else [])"

definition benchmark_plan :: "read_env \<Rightarrow> data_snapshot \<Rightarrow> availability_policy \<Rightarrow> ensure_action list" where
  "benchmark_plan env s p =
     (let missing = ap_require_benchmark_history p \<and> ds_benchmark_bars s < ap_min_required_bars p;
          stale = ap_require_benchmark_history p \<and> ap_min_required_bars p \<le> ds_benchmark_bars s \<and>
            canonical_is_stale env (ds_latest_benchmark_bar_date s) (ds_target_date s) in
      if (missing \<or> stale) \<and> ap_auto_sync p then [BENCHMARK_SYNCED, BENCHMARK_CANONICAL_BUILT] else [])"

definition plan_data_availability ::
  "read_env \<Rightarrow> data_snapshot \<Rightarrow> availability_policy \<Rightarrow> ensure_action list" where
  "plan_data_availability env s p =
     (let issues = eligibility_issues env s p; bars = price_actions env s p @ benchmark_plan env s p in
      if issues = [] then []
      else if \<not> ds_symbol_known s \<and> ap_auto_sync p then [SYMBOLS_SYNCED]
      else if bars \<noteq> [] then bars
      else if ap_auto_sync p \<and> meets issues feature_issues then [FEATURES_BUILT]
      else if ap_auto_sync p \<and> meets issues score_issues then [SCORED]
      else [])"

end
