(* ===== verification/Ensure_Lock.thy ===== *)
theory Ensure_Lock
  imports Ensure_Values
begin

section \<open>The lock of an ensure flow\<close>

text \<open>
  \<open>data_availability/lock.py\<close>.  The lock directory is a dictionary from file names to lock files; a file
  is what its text parses to (nothing when it does not parse) and its modification time, in
  microseconds.  Creation, takeover and removal run under an exclusive \<open>flock\<close> of the guard file, so
  each call is one step.  Failures of the file system are not modelled.
\<close>

record lock_metadata =
  lm_symbol :: string
  lm_target_date :: string
  lm_owner_token :: string
  lm_pid :: int
  lm_hostname :: string
  lm_created_at :: string

record lock_file =
  lf_metadata :: "lock_metadata option"
  lf_mtime :: int

type_synonym lock_dir = "(string \<times> lock_file) list"

definition stale_threshold :: int where
  "stale_threshold = 300 * 1000000"

text \<open>\<open>urllib.parse.quote(s, safe="")\<close>.\<close>

definition unreserved :: "char \<Rightarrow> bool" where
  "unreserved c \<longleftrightarrow> is_alnum c \<or> c \<in> {CHR ''_'', CHR ''.'', CHR ''-'', CHR ''~''}"

definition upper_hex :: "nat \<Rightarrow> char" where
  "upper_hex n = (if n < 10 then char_of (48 + n) else char_of (55 + n))"

definition quote_char :: "char \<Rightarrow> string" where
  "quote_char c =
     (if unreserved c then [c]
      else [CHR 0x25, upper_hex (char_code c div 16), upper_hex (char_code c mod 16)])"

definition quote_text :: "string \<Rightarrow> string" where
  "quote_text s = concat (map quote_char s)"

definition lock_path :: "string \<Rightarrow> string \<Rightarrow> string" where
  "lock_path symbol target =
     ''data-ensure-'' @ quote_text (strip (upper symbol)) @ ''-'' @ quote_text target @ ''.lock''"

definition create_lock :: "string \<Rightarrow> lock_metadata \<Rightarrow> int \<Rightarrow> lock_dir \<Rightarrow> bool \<times> lock_dir" where
  "create_lock path m now d =
     (case map_of d path of
        Some f \<Rightarrow> (False, d)
      | None \<Rightarrow> (True, dict_set path \<lparr>lf_metadata = Some m, lf_mtime = now\<rparr> d))"

definition lock_is_stale :: "string \<Rightarrow> int \<Rightarrow> int \<Rightarrow> lock_dir \<Rightarrow> bool" where
  "lock_is_stale path stale now d =
     (case map_of d path of
        None \<Rightarrow> False
      | Some f \<Rightarrow> max stale 0 \<le> now - lf_mtime f)"

definition acquire_lock :: "string \<Rightarrow> lock_metadata \<Rightarrow> int \<Rightarrow> int \<Rightarrow> lock_dir \<Rightarrow> bool \<times> lock_dir" where
  "acquire_lock path m stale now d =
     (case create_lock path m now d of
        (True, t) \<Rightarrow> (True, t)
      | (False, t) \<Rightarrow>
          if \<not> lock_is_stale path stale now t then (False, t)
          else create_lock path m now (dict_del path t))"

definition owner_of :: "lock_file \<Rightarrow> string option" where
  "owner_of f = map_option lm_owner_token (lf_metadata f)"

definition release_lock :: "string \<Rightarrow> string \<Rightarrow> bool \<Rightarrow> lock_dir \<Rightarrow> lock_dir" where
  "release_lock path token acquired d =
     (if \<not> acquired then d
      else case map_of d path of
          None \<Rightarrow> d
        | Some f \<Rightarrow> if owner_of f = Some token then dict_del path d else d)"

subsection \<open>Many flows and one directory\<close>

text \<open>
  Every lock object has its owner token; \<open>lo_since\<close> remembers when it last acquired.  A process may
  stop at any time: it takes no further step.
\<close>

record lock_owner =
  lo_path :: string
  lo_acquired :: bool
  lo_since :: int

record lock_system =
  ls_now :: int
  ls_dir :: lock_dir
  ls_owners :: "(string \<times> lock_owner) list"

definition lock_start :: "lock_system \<Rightarrow> bool" where
  "lock_start s \<longleftrightarrow> ls_owners s = []"

inductive lock_step :: "lock_system \<Rightarrow> lock_system \<Rightarrow> bool" where
  lock_tick: "0 \<le> n \<Longrightarrow> lock_step s (s\<lparr>ls_now := ls_now s + n\<rparr>)"
| lock_new: "map_of (ls_owners s) token = None \<Longrightarrow>
    list_all (\<lambda>(p, f). owner_of f \<noteq> Some token) (ls_dir s) \<Longrightarrow>
    lock_step s (s\<lparr>ls_owners := dict_set token \<lparr>lo_path = path, lo_acquired = False, lo_since = 0\<rparr> (ls_owners s)\<rparr>)"
| lock_acquire: "map_of (ls_owners s) (lm_owner_token m) = Some o1 \<Longrightarrow> \<not> lo_acquired o1 \<Longrightarrow>
    acquire_lock (lo_path o1) m stale_threshold (ls_now s) (ls_dir s) = (ok, d) \<Longrightarrow>
    lock_step s (s\<lparr>ls_dir := d,
      ls_owners := dict_set (lm_owner_token m) (o1\<lparr>lo_acquired := ok, lo_since := ls_now s\<rparr>) (ls_owners s)\<rparr>)"
| lock_release: "map_of (ls_owners s) token = Some o1 \<Longrightarrow>
    lock_step s (s\<lparr>ls_dir := release_lock (lo_path o1) token (lo_acquired o1) (ls_dir s),
      ls_owners := dict_set token (o1\<lparr>lo_acquired := False\<rparr>) (ls_owners s)\<rparr>)"

text \<open>
  A flow that holds the lock finds its own file there, or its acquisition is older than the threshold;
  two that hold the same lock acquired it at least the threshold apart.
\<close>

definition holds_lock :: "lock_system \<Rightarrow> string \<Rightarrow> string \<Rightarrow> int \<Rightarrow> bool" where
  "holds_lock s token path since \<longleftrightarrow>
     map_of (ls_owners s) token = Some \<lparr>lo_path = path, lo_acquired = True, lo_since = since\<rparr>"

definition own_file :: "lock_system \<Rightarrow> string \<Rightarrow> string \<Rightarrow> int \<Rightarrow> bool" where
  "own_file s token path since \<longleftrightarrow>
     (\<exists>f. map_of (ls_dir s) path = Some f \<and> owner_of f = Some token \<and> lf_mtime f = since)"

definition lock_inv :: "lock_system \<Rightarrow> bool" where
  "lock_inv s \<longleftrightarrow>
     (\<forall>t p a. holds_lock s t p a \<longrightarrow>
        a \<le> ls_now s \<and> (own_file s t p a \<or> a + stale_threshold \<le> ls_now s)) \<and>
     (\<forall>t u p a b. holds_lock s t p a \<longrightarrow> holds_lock s u p b \<longrightarrow> t \<noteq> u \<longrightarrow> stale_threshold \<le> \<bar>a - b\<bar>)"

inductive_cases lock_stepE: "lock_step s t"

lemma acquire_lock_cases:
  assumes "acquire_lock path m stale_threshold now d = (ok, e)"
  obtains (created) "ok" "map_of d path = None"
      "map_of e = (map_of d)(path \<mapsto> \<lparr>lf_metadata = Some m, lf_mtime = now\<rparr>)"
  | (refused) "\<not> ok" "e = d"
  | (taken) f where "ok" "map_of d path = Some f" "stale_threshold \<le> now - lf_mtime f"
      "map_of e = (map_of d)(path \<mapsto> \<lparr>lf_metadata = Some m, lf_mtime = now\<rparr>)"
  using assms
  by (auto simp: acquire_lock_def create_lock_def lock_is_stale_def stale_threshold_def map_of_dict_del fun_eq_iff
      split: option.splits if_splits)

lemma inv_of_holders:
  assumes "\<And>t p a. holds_lock s' t p a \<Longrightarrow> a \<le> ls_now s' \<and> (own_file s' t p a \<or> a + stale_threshold \<le> ls_now s')"
    and "\<And>t u p a b. holds_lock s' t p a \<Longrightarrow> holds_lock s' u p b \<Longrightarrow> t \<noteq> u \<Longrightarrow> stale_threshold \<le> \<bar>a - b\<bar>"
  shows "lock_inv s'"
  using assms unfolding lock_inv_def by blast

lemma holder_facts:
  assumes "lock_inv s" and "holds_lock s t p a"
  shows "a \<le> ls_now s" and "own_file s t p a \<or> a + stale_threshold \<le> ls_now s"
  using assms unfolding lock_inv_def by blast+

lemma holders_apart:
  "lock_inv s \<Longrightarrow> holds_lock s t p a \<Longrightarrow> holds_lock s u p b \<Longrightarrow> t \<noteq> u \<Longrightarrow> stale_threshold \<le> \<bar>a - b\<bar>"
  unfolding lock_inv_def by blast

lemma inv_acquired:
  assumes inv: "lock_inv s" and owner: "map_of (ls_owners s) token = Some o1" and free: "\<not> lo_acquired o1"
    and m: "lm_owner_token m = token"
    and new: "map_of d = (map_of (ls_dir s))(lo_path o1 \<mapsto> \<lparr>lf_metadata = Some m, lf_mtime = ls_now s\<rparr>)"
    and old: "\<And>f. map_of (ls_dir s) (lo_path o1) = Some f \<Longrightarrow> stale_threshold \<le> ls_now s - lf_mtime f"
  shows "lock_inv (s\<lparr>ls_dir := d,
    ls_owners := dict_set token (o1\<lparr>lo_acquired := True, lo_since := ls_now s\<rparr>) (ls_owners s)\<rparr>)"
    (is "lock_inv ?s")
proof -
  have holds: "holds_lock ?s t p a \<longleftrightarrow>
      (if t = token then p = lo_path o1 \<and> a = ls_now s else holds_lock s t p a)" for t p a
    by (cases o1) (auto simp: holds_lock_def)
  have displaced: "a + stale_threshold \<le> ls_now s" if "holds_lock s t (lo_path o1) a" "t \<noteq> token" for t a
    using holder_facts [OF inv that(1)] old by (auto simp: own_file_def)
  show ?thesis
  proof (rule inv_of_holders)
    fix t p a assume h: "holds_lock ?s t p a"
    show "a \<le> ls_now ?s \<and> (own_file ?s t p a \<or> a + stale_threshold \<le> ls_now ?s)"
    proof (cases "t = token")
      case True
      with h holds show ?thesis by (simp add: own_file_def new m owner_of_def)
    next
      case False
      with h holds have o: "holds_lock s t p a" by simp
      show ?thesis
        using holder_facts [OF inv o] displaced o False by (cases "p = lo_path o1") (auto simp: own_file_def new)
    qed
  next
    fix t u p a b assume h: "holds_lock ?s t p a" "holds_lock ?s u p b" "t \<noteq> u"
    show "stale_threshold \<le> \<bar>a - b\<bar>"
      using h holders_apart [OF inv] displaced [of u b] displaced [of t a]
      by (auto simp: holds split: if_splits)
  qed
qed

text \<open>A step that gives the lock to nobody, takes no file from its holder and does not turn back the clock.\<close>

lemma inv_fewer:
  assumes inv: "lock_inv s" and holds: "\<And>t p a. holds_lock s' t p a \<Longrightarrow> holds_lock s t p a"
    and files: "\<And>t p a. holds_lock s' t p a \<Longrightarrow> own_file s t p a \<Longrightarrow> own_file s' t p a"
    and now: "ls_now s \<le> ls_now s'"
  shows "lock_inv s'"
proof (rule inv_of_holders)
  fix t p a assume h: "holds_lock s' t p a"
  show "a \<le> ls_now s' \<and> (own_file s' t p a \<or> a + stale_threshold \<le> ls_now s')"
    using holder_facts [OF inv holds [OF h]] files [OF h] now by auto
next
  fix t u p a b assume "holds_lock s' t p a" "holds_lock s' u p b" "t \<noteq> u"
  then show "stale_threshold \<le> \<bar>a - b\<bar>"
    using holds holders_apart [OF inv] by blast
qed

lemma lock_inv_step: "lock_step s t \<Longrightarrow> lock_inv s \<Longrightarrow> lock_inv t"
proof (induction rule: lock_step.induct)
  case (lock_tick n s)
  from lock_tick.prems show ?case
    by (rule inv_fewer) (use lock_tick.hyps in \<open>auto simp: holds_lock_def own_file_def\<close>)
next
  case (lock_new s token path)
  from lock_new.prems show ?case
    by (rule inv_fewer) (auto simp: holds_lock_def own_file_def split: if_splits)
next
  case (lock_acquire s m o1 ok d)
  from lock_acquire.hyps(3) show ?case
  proof (cases rule: acquire_lock_cases)
    case created
    with inv_acquired [OF lock_acquire.prems lock_acquire.hyps(1,2) refl created(3)] show ?thesis by simp
  next
    case refused
    from lock_acquire.prems show ?thesis
      by (rule inv_fewer)
        (use refused in \<open>cases o1, auto simp: holds_lock_def own_file_def split: if_splits\<close>)
  next
    case (taken f)
    with inv_acquired [OF lock_acquire.prems lock_acquire.hyps(1,2) refl taken(4)] show ?thesis by simp
  qed
next
  case (lock_release s token o1)
  from lock_release.prems show ?case
    by (rule inv_fewer; cases o1)
      (auto simp: holds_lock_def own_file_def release_lock_def map_of_dict_del split: if_splits option.splits)
qed

interpretation ensure_lock: invariant_system lock_start lock_step lock_inv
proof unfold_locales
  show "lock_start s \<Longrightarrow> lock_inv s" for s
    by (simp add: lock_start_def lock_inv_def holds_lock_def)
qed (rule lock_inv_step)

end
