(* ===== verification/Ensure_Service.thy ===== *)
theory Ensure_Service
  imports Ensure_Warehouse Ensure_Lock
begin

section \<open>The ensure flow\<close>

text \<open>
  \<open>data_availability/service.py\<close>, \<open>actions.py\<close>, \<open>results.py\<close>, \<open>observability.py\<close> and \<open>ensure.py\<close>: the locked flow
  that takes a snapshot, runs the planned actions phase by phase, each verified against a new snapshot,
  and tells what came of it.

  The synchronisations and builds that the actions call belong to other packages: \<open>en_call\<close> and
  \<open>en_score\<close> say what each call returns or raises and what it does to the world, which is the warehouse, the
  lock directory and the clock; what other processes do meanwhile is part of it.  The state also records the
  calls and the audit entries.
\<close>

datatype call_routing = Call_Routing (routing_source: "string option") (routing_base_url: "string option") (routing_client: bool)

datatype dependency_call =
    Sync_Symbols call_routing
  | Sync_Ohlcv "string list" string string call_routing
  | Sync_Index string string string call_routing
  | Build_Canonical string
  | Build_Features string "string list" string
  | Score_Universe string "string list"

record ensure_world =
  ew_warehouse :: warehouse
  ew_locks :: lock_dir
  ew_now :: int

record audit_entry =
  au_event_type :: string
  au_summary :: string
  au_status :: string
  au_level :: string
  au_extra :: "(string \<times> json) list"

record ensure_state =
  es_world :: ensure_world
  es_calls :: "dependency_call list"
  es_audit :: "audit_entry list"

type_synonym 'a ensure_op = "(ensure_state, py_error, 'a) op"

record ensure_env =
  en_read :: read_env
  en_today :: py_date
  en_token :: string
  en_pid :: int
  en_hostname :: string
  en_created_at :: string
  en_call :: "dependency_call \<Rightarrow> ensure_world \<Rightarrow> (py_error + (string \<times> int) list) \<times> ensure_world"
  en_score :: "dependency_call \<Rightarrow> ensure_world \<Rightarrow> (py_error + int) \<times> ensure_world"

record ensure_request =
  eq_symbol :: string
  eq_target_date :: "string option"
  eq_policy :: availability_policy
  eq_client :: bool
  eq_force_refresh :: bool

record normalized_request =
  nq_symbol :: string
  nq_target_date :: string
  nq_policy :: availability_policy
  nq_client :: bool
  nq_force_refresh :: bool

subsection \<open>Audit\<close>

definition log_audit :: "string \<Rightarrow> string \<Rightarrow> string \<Rightarrow> string \<Rightarrow> (string \<times> json) list \<Rightarrow> unit ensure_op" where
  "log_audit event summary status level extra =
     op_write (\<lambda>s. s\<lparr>es_audit := es_audit s @ [\<lparr>au_event_type = event, au_summary = summary, au_status = status,
       au_level = level, au_extra = extra\<rparr>]\<rparr>)"

definition log_flow :: "string \<Rightarrow> string \<Rightarrow> string \<Rightarrow> string \<Rightarrow> string \<Rightarrow> string \<Rightarrow> (string \<times> json) list \<Rightarrow> unit ensure_op" where
  "log_flow event symbol target summary status level extra =
     log_audit event summary status level ([(''symbol'', JStr symbol), (''target_date'', JStr target)] @ extra)"

definition log_ensure_started :: "string \<Rightarrow> string \<Rightarrow> unit ensure_op" where
  "log_ensure_started symbol target = log_flow ''DATA_ENSURE_STARTED'' symbol target
     (''Data provisioning started for '' @ symbol @ '' on '' @ target) ''OK'' ''INFO'' []"

definition log_ensure_cache_hit :: "string \<Rightarrow> string \<Rightarrow> unit ensure_op" where
  "log_ensure_cache_hit symbol target = log_flow ''DATA_ENSURE_CACHE_HIT'' symbol target
     (''Cache hit: fresh candidate_score exists for '' @ symbol @ '' on '' @ target) ''OK'' ''INFO'' []"

definition log_ensure_cache_rejected :: "string \<Rightarrow> string \<Rightarrow> string list \<Rightarrow> unit ensure_op" where
  "log_ensure_cache_rejected symbol target reasons = log_flow ''DATA_ENSURE_CACHE_REJECTED'' symbol target
     (''Cache evidence rejected for '' @ symbol @ '' on '' @ target) ''WARN'' ''WARNING''
     [(''reasons'', JArr (map JStr reasons))]"

definition log_ensure_ready :: "string \<Rightarrow> string \<Rightarrow> string list \<Rightarrow> unit ensure_op" where
  "log_ensure_ready symbol target actions = log_flow ''DATA_ENSURE_READY'' symbol target
     (''Data ready for '' @ symbol @ '' on '' @ target) ''OK'' ''INFO'' [(''actions'', JArr (map JStr actions))]"

definition log_ensure_partial :: "string \<Rightarrow> string \<Rightarrow> string list \<Rightarrow> unit ensure_op" where
  "log_ensure_partial symbol target warnings = log_flow ''DATA_ENSURE_PARTIAL'' symbol target
     (''Data partially ready for '' @ symbol @ '' on '' @ target @ ''.'') ''WARN'' ''WARNING''
     [(''warning_count'', JInt (int (length warnings)))]"

definition log_ensure_failed :: "string \<Rightarrow> string \<Rightarrow> string list \<Rightarrow> unit ensure_op" where
  "log_ensure_failed symbol target errors = log_flow ''DATA_ENSURE_FAILED'' symbol target
     (''Data provisioning failed for '' @ symbol @ '' on '' @ target @ ''.'') ''FAILED'' ''ERROR''
     [(''error_count'', JInt (int (length errors)))]"

text \<open>
  The three events of an action: the stem of the event, the key and the text of each summary.  The two
  canonical builds share theirs.
\<close>

fun event_stem :: "ensure_action \<Rightarrow> string" where
  "event_stem SYMBOLS_SYNCED = ''DATA_ENSURE_SYMBOLS_SYNC''"
| "event_stem OHLCV_SYNCED = ''DATA_ENSURE_SYMBOL_OHLCV_SYNC''"
| "event_stem BENCHMARK_SYNCED = ''DATA_ENSURE_BENCHMARK_SYNC''"
| "event_stem FEATURES_BUILT = ''DATA_ENSURE_FEATURE_BUILD''"
| "event_stem SCORED = ''DATA_ENSURE_SCORE''"
| "event_stem _ = ''DATA_ENSURE_CANONICAL_BUILD''"

definition event_key :: "ensure_action \<Rightarrow> string" where
  "event_key a = (if a = BENCHMARK_SYNCED then ''benchmark'' else ''symbol'')"

fun started_summary :: "ensure_action \<Rightarrow> string" where
  "started_summary SYMBOLS_SYNCED = ''Syncing symbol_master for ''"
| "started_summary OHLCV_SYNCED = ''Syncing OHLCV for ''"
| "started_summary BENCHMARK_SYNCED = ''Syncing benchmark OHLCV for ''"
| "started_summary FEATURES_BUILT = ''Building features for ''"
| "started_summary SCORED = ''Scoring ''"
| "started_summary _ = ''Building canonical OHLCV for ''"

fun ended_summary :: "ensure_action \<Rightarrow> string" where
  "ended_summary SYMBOLS_SYNCED = ''symbol_master sync''"
| "ended_summary OHLCV_SYNCED = ''OHLCV sync''"
| "ended_summary BENCHMARK_SYNCED = ''Benchmark sync''"
| "ended_summary FEATURES_BUILT = ''Feature build''"
| "ended_summary SCORED = ''Scoring''"
| "ended_summary _ = ''Canonical build''"

definition log_action_started :: "ensure_action \<Rightarrow> string \<Rightarrow> unit ensure_op" where
  "log_action_started a subject = log_audit (event_stem a @ ''_STARTED'') (started_summary a @ subject)
     ''OK'' ''INFO'' [(event_key a, JStr subject)]"

text \<open>\<open>rows\<close>: the name of the count, its verb and its value, for the actions that report one.\<close>

definition log_action_succeeded ::
  "ensure_action \<Rightarrow> string \<Rightarrow> (string \<times> int) option \<Rightarrow> unit ensure_op" where
  "log_action_succeeded a subject rows =
     log_audit (event_stem a @ ''_SUCCEEDED'')
       (ended_summary a @ '' succeeded for '' @ subject @
        (case rows of None \<Rightarrow> [] | Some (k, n) \<Rightarrow> '': '' @ render_int n @ '' rows '' @ k))
       ''OK'' ''INFO''
       ((event_key a, JStr subject) # (case rows of None \<Rightarrow> [] | Some (k, n) \<Rightarrow> [(k, JInt n)]))"

definition unreachable_error :: "ensure_action \<Rightarrow> py_error" where
  "unreachable_error a =
     \<lparr>pe_type = ''AssertionError'',
      pe_text = ''Expected code to be unreachable, but got: <EnsureDataAction.'' @ action_value a @ '': '' @
        [CHR 0x27] @ action_value a @ [CHR 0x27, CHR ''>'']\<rparr>"

definition log_action_failure :: "ensure_action \<Rightarrow> string \<Rightarrow> py_error \<Rightarrow> unit ensure_op" where
  "log_action_failure a symbol e =
     (if a = CACHE_HIT then op_raise (unreachable_error a)
      else log_audit (event_stem a @ ''_FAILED'') (ended_summary a @ '' failed for '' @ symbol @ ''.'')
        ''FAILED'' ''ERROR'' [(event_key a, JStr symbol), (''error_type'', JStr (pe_type e))])"

subsection \<open>Actions\<close>

definition routing_kwargs :: "normalized_request \<Rightarrow> call_routing" where
  "routing_kwargs q =
     Call_Routing (if_given (ap_source (nq_policy q))) (if_given (ap_base_url (nq_policy q))) (nq_client q)"

definition call_dependency :: "ensure_env \<Rightarrow> dependency_call \<Rightarrow> (string \<times> int) list ensure_op" where
  "call_dependency env c =
     (\<lambda>s. case en_call env c (es_world s) of (r, w) \<Rightarrow> (r, s\<lparr>es_world := w, es_calls := es_calls s @ [c]\<rparr>))"

definition call_score :: "ensure_env \<Rightarrow> dependency_call \<Rightarrow> int ensure_op" where
  "call_score env c =
     (\<lambda>s. case en_score env c (es_world s) of (r, w) \<Rightarrow> (r, s\<lparr>es_world := w, es_calls := es_calls s @ [c]\<rparr>))"

definition count_of :: "string \<Rightarrow> (string \<times> int) list \<Rightarrow> int" where
  "count_of k m = (case map_of m k of None \<Rightarrow> 0 | Some n \<Rightarrow> n)"

definition counted_call ::
  "ensure_env \<Rightarrow> ensure_action \<Rightarrow> string \<Rightarrow> string \<Rightarrow> dependency_call \<Rightarrow> unit ensure_op" where
  "counted_call env a subject k c =
     op_seq (log_action_started a subject)
     (op_bind (call_dependency env c) (\<lambda>m. log_action_succeeded a subject (Some (k, count_of k m))))"

definition score_universe :: "ensure_env \<Rightarrow> dependency_call \<Rightarrow> unit ensure_op" where
  "score_universe env c =
     op_bind (call_score env c) (\<lambda>rows.
       op_guard (rows < 1) (raised_runtime_error ''Scoring produced no row for the requested symbol.''))"

definition execute_action ::
  "ensure_env \<Rightarrow> normalized_request \<Rightarrow> string \<Rightarrow> ensure_action \<Rightarrow> unit ensure_op" where
  "execute_action env q start a =
     (let symbol = nq_symbol q; target = nq_target_date q; benchmark = ap_benchmark (nq_policy q) in
      case a of
        SYMBOLS_SYNCED \<Rightarrow>
          op_seq (log_action_started a symbol)
          (op_bind (call_dependency env (Sync_Symbols (routing_kwargs q))) (\<lambda>_. log_action_succeeded a symbol None))
      | OHLCV_SYNCED \<Rightarrow>
          counted_call env a symbol ''inserted'' (Sync_Ohlcv [symbol] start target (routing_kwargs q))
      | CANONICAL_BUILT \<Rightarrow> counted_call env a symbol ''upserted'' (Build_Canonical symbol)
      | BENCHMARK_SYNCED \<Rightarrow>
          counted_call env a benchmark ''inserted'' (Sync_Index benchmark start target (routing_kwargs q))
      | BENCHMARK_CANONICAL_BUILT \<Rightarrow> counted_call env a benchmark ''upserted'' (Build_Canonical benchmark)
      | FEATURES_BUILT \<Rightarrow>
          op_seq (log_action_started a symbol)
          (op_bind (call_dependency env (Build_Features target [symbol] benchmark))
            (\<lambda>_. log_action_succeeded a symbol None))
      | SCORED \<Rightarrow>
          op_seq (log_action_started a symbol)
          (op_seq (score_universe env (Score_Universe target [symbol])) (log_action_succeeded a symbol None))
      | CACHE_HIT \<Rightarrow> op_raise (unreachable_error a))"

subsection \<open>Verification of an action\<close>

definition take_snapshot :: "ensure_env \<Rightarrow> normalized_request \<Rightarrow> data_snapshot ensure_op" where
  "take_snapshot env q =
     op_try (\<lambda>s. capture_availability_snapshot (en_read env) (nq_symbol q) (nq_target_date q) (nq_policy q)
       (ew_warehouse (es_world s)))"

definition raw_window_ready :: "int \<Rightarrow> string option \<Rightarrow> string \<Rightarrow> availability_policy \<Rightarrow> bool" where
  "raw_window_ready rows latest target p \<longleftrightarrow> ap_min_required_bars p \<le> rows \<and> latest = Some target"

definition action_postcondition_satisfied ::
  "ensure_env \<Rightarrow> normalized_request \<Rightarrow> data_snapshot \<Rightarrow> ensure_action \<Rightarrow> warehouse \<Rightarrow> py_error + bool" where
  "action_postcondition_satisfied env q s a w =
     (let p = nq_policy q; issues = eligibility_issues (en_read env) s p; target = ds_target_date s in
      case a of
        SYMBOLS_SYNCED \<Rightarrow> Inr (ds_symbol_known s)
      | OHLCV_SYNCED \<Rightarrow> Inr (raw_window_ready (ds_raw_ohlcv_bars s) (ds_latest_raw_bar_date s) target p)
      | CANONICAL_BUILT \<Rightarrow>
          Inr (\<not> meets issues canonical_issues \<and> ds_latest_canonical_bar_date s = Some target)
      | BENCHMARK_SYNCED \<Rightarrow>
          res_bind (get_raw_ohlcv_window_evidence (ap_benchmark p) (ds_lookback_start s) target w)
            (\<lambda>(rows, latest). Inr (raw_window_ready rows latest target p))
      | BENCHMARK_CANONICAL_BUILT \<Rightarrow>
          Inr (BENCHMARK_HISTORY_INSUFFICIENT \<notin> set issues \<and> ds_latest_benchmark_bar_date s = Some target)
      | FEATURES_BUILT \<Rightarrow> Inr (\<not> meets issues feature_issues)
      | SCORED \<Rightarrow> Inr (\<not> meets issues score_issues \<and> ds_candidate_score_as_of_date s = Some target)
      | CACHE_HIT \<Rightarrow> Inr True)"

definition or_none :: "string option \<Rightarrow> string" where
  "or_none v = (if or_empty v = [] then ''none'' else or_empty v)"

definition postcondition_failure_detail :: "normalized_request \<Rightarrow> data_snapshot \<Rightarrow> ensure_action \<Rightarrow> string" where
  "postcondition_failure_detail q s a =
     (let target = ds_target_date s in
      case a of
        OHLCV_SYNCED \<Rightarrow>
          ''OHLCV did not reach '' @ target @ '': latest available raw bar is '' @ or_none (ds_latest_raw_bar_date s) @
          '' ('' @ render_int (ds_raw_ohlcv_bars s) @ '' bars). The provider returned no data '' @
          ''for the requested session (provider unavailable or session not yet published).''
      | CANONICAL_BUILT \<Rightarrow>
          ''Canonical OHLCV did not reach '' @ target @ '': latest canonical bar is '' @
          or_none (ds_latest_canonical_bar_date s) @ ''.''
      | FEATURES_BUILT \<Rightarrow> ''Feature snapshot for '' @ target @ '' could not be built or validated.''
      | SCORED \<Rightarrow> ''Candidate score for '' @ target @ '' is missing or stale after scoring.''
      | _ \<Rightarrow>
          if a \<in> set benchmark_actions then
            ''Benchmark '' @ ap_benchmark (nq_policy q) @ '' did not reach '' @ target @ '': latest benchmark bar is '' @
            or_none (ds_latest_benchmark_bar_date s) @ '' ('' @ render_int (ds_benchmark_bars s) @ '' bars).''
          else action_value a @ '' postcondition was not satisfied after reload.'')"

definition verify_action :: "ensure_env \<Rightarrow> normalized_request \<Rightarrow> ensure_action \<Rightarrow> unit ensure_op" where
  "verify_action env q a =
     op_bind (take_snapshot env q) (\<lambda>after.
     op_bind (op_try (\<lambda>s. action_postcondition_satisfied env q after a (ew_warehouse (es_world s)))) (\<lambda>ok.
       op_guard (\<not> ok) (raised_runtime_error (postcondition_failure_detail q after a))))"

text \<open>
  What became of one action: whether its time was taken, and the exception it ended with.  The clock starts
  after the first snapshot.
\<close>

definition attempt_action ::
  "ensure_env \<Rightarrow> normalized_request \<Rightarrow> ensure_action \<Rightarrow> (bool \<times> py_error option) ensure_op" where
  "attempt_action env q a =
     (\<lambda>s. case take_snapshot env q s of
        (Inl e, t) \<Rightarrow> (Inr (False, Some e), t)
      | (Inr before, t) \<Rightarrow>
          (case op_seq (execute_action env q (ds_lookback_start before) a) (verify_action env q a) t of
             (Inl e, u) \<Rightarrow> (Inr (True, Some e), u)
           | (Inr _, u) \<Rightarrow> (Inr (True, None), u)))"

fun execute_planned_actions ::
  "ensure_env \<Rightarrow> normalized_request \<Rightarrow> ensure_action list \<Rightarrow>
   (ensure_action \<times> bool \<times> py_error option) list ensure_op" where
  "execute_planned_actions env q [] = op_return []"
| "execute_planned_actions env q (a # as) =
     op_bind (attempt_action env q a) (\<lambda>(timed, e).
     op_seq (case e of None \<Rightarrow> op_return () | Some x \<Rightarrow> log_action_failure a (nq_symbol q) x)
     (op_bind (execute_planned_actions env q as) (\<lambda>rest. op_return ((a, timed, e) # rest))))"

text \<open>The warning, whose action name \<open>_legacy_warning\<close> replaces.\<close>

fun legacy_name :: "ensure_action \<Rightarrow> string" where
  "legacy_name SYMBOLS_SYNCED = ''symbol_master sync''"
| "legacy_name OHLCV_SYNCED = ''OHLCV sync''"
| "legacy_name CANONICAL_BUILT = ''Canonical build''"
| "legacy_name BENCHMARK_SYNCED = ''Benchmark sync''"
| "legacy_name BENCHMARK_CANONICAL_BUILT = ''Benchmark canonical build''"
| "legacy_name FEATURES_BUILT = ''Feature build''"
| "legacy_name SCORED = ''Scoring''"
| "legacy_name CACHE_HIT = action_value CACHE_HIT"

definition legacy_warning :: "ensure_action \<Rightarrow> py_error \<Rightarrow> string" where
  "legacy_warning a e = legacy_name a @ '' failed: '' @ pe_text e"

definition outcome_of :: "normalized_request \<Rightarrow> ensure_action \<times> bool \<times> py_error option \<Rightarrow> action_outcome" where
  "outcome_of q run =
     (case run of (a, timed, e) \<Rightarrow>
       \<lparr>ao_action = a, ao_status = (if e = None then SUCCESS else FAILURE),
        ao_dataset = Some (dataset_for_action a),
        ao_symbol = Some (subject_symbol a (nq_symbol q) (ap_benchmark (nq_policy q))),
        ao_failure_category = map_option (classify_action_failure a) e,
        ao_root_cause = map_option sanitize_root_cause e,
        ao_timed = timed\<rparr>)"

definition run_actions ::
  "ensure_env \<Rightarrow> normalized_request \<Rightarrow> ensure_action list \<Rightarrow> ensure_result \<Rightarrow> ensure_result ensure_op" where
  "run_actions env q as r =
     op_bind (execute_planned_actions env q as) (\<lambda>runs.
       op_return (r
         \<lparr>er_actions_taken := er_actions_taken r @ map fst (filter (\<lambda>(a, timed, e). e = None) runs),
          er_action_outcomes := er_action_outcomes r @ map (outcome_of q) runs,
          er_warnings := er_warnings r @
            concat (map (\<lambda>(a, timed, e). case e of None \<Rightarrow> [] | Some x \<Rightarrow> [legacy_warning a x]) runs)\<rparr>))"

subsection \<open>Results\<close>

definition record_snapshot_evidence ::
  "ensure_result \<Rightarrow> data_snapshot \<Rightarrow> availability_policy \<Rightarrow> ensure_result" where
  "record_snapshot_evidence r s p =
     r\<lparr>er_symbol_known := Some (ds_symbol_known s),
       er_benchmark_bars := Some (ds_benchmark_bars s),
       er_candidate_score_as_of_date := ds_candidate_score_as_of_date s,
       er_quality_status := ds_quality_status s,
       er_lineage_fields := ds_lineage_fields s,
       er_artifact_evidence := ds_artifact_evidence s,
       er_core_evidence_evaluated := True,
       er_raw_window_ready := Some (ap_min_required_bars p \<le> ds_raw_ohlcv_bars s \<and>
         ds_latest_raw_bar_date s = Some (ds_target_date s) \<and> ds_unresolved_true_gap_count s = 0)\<rparr>"

definition cache_hit_outcome :: action_outcome where
  "cache_hit_outcome = \<lparr>ao_action = CACHE_HIT, ao_status = SUCCESS, ao_dataset = None, ao_symbol = None,
     ao_failure_category = None, ao_root_cause = None, ao_timed = False\<rparr>"

definition cache_hit_result ::
  "ensure_result \<Rightarrow> data_snapshot \<Rightarrow> availability_policy \<Rightarrow> ensure_result ensure_op" where
  "cache_hit_result r s p =
     (let r1 = record_snapshot_evidence
         (r\<lparr>er_canonical_bars := ds_canonical_bars s, er_feature_snapshot_exists := ds_feature_snapshot_exists s,
            er_candidate_score_exists := True\<rparr>) s p;
          r2 = r1\<lparr>er_actions_taken := er_actions_taken r1 @ [CACHE_HIT],
            er_action_outcomes := er_action_outcomes r1 @ [cache_hit_outcome],
            er_freshness := ''cache_hit'', er_lineage_actions := [action_value CACHE_HIT],
            er_status := READY\<rparr> in
      op_seq (log_ensure_cache_hit (er_symbol r) (er_target_date r)) (op_return r2))"

definition missing_symbol_result ::
  "ensure_result \<Rightarrow> data_snapshot \<Rightarrow> availability_policy \<Rightarrow> ensure_result ensure_op" where
  "missing_symbol_result r s p =
     (let r1 = record_snapshot_evidence r s p;
          r2 = r1\<lparr>er_symbol_known := Some False,
            er_errors := er_errors r1 @ [''Symbol '' @ [CHR 0x27] @ er_symbol r @ [CHR 0x27] @
              '' not found in symbol_master.''],
            er_status := FAILED\<rparr> in
      op_seq (log_ensure_failed (er_symbol r) (er_target_date r) (er_errors r2)) (op_return r2))"

definition gap_warnings :: "data_snapshot \<Rightarrow> availability_policy \<Rightarrow> string list" where
  "gap_warnings s p =
     (if ds_canonical_bars s < ap_min_required_bars p
      then [''Insufficient canonical bars: '' @ render_int (ds_canonical_bars s) @ '' < '' @
        render_int (ap_min_required_bars p) @ '' required.''] else []) @
     (if 0 < ds_unresolved_true_gap_count s
      then [''Unresolved canonical OHLCV gaps: '' @ render_int (ds_unresolved_true_gap_count s) @
        ''. Run a bounded OHLCV repair.''] else []) @
     (if ap_require_benchmark_history p \<and> ds_benchmark_bars s < ap_min_required_bars p
      then [''Benchmark '' @ [CHR 0x27] @ ap_benchmark p @ [CHR 0x27] @ '' has insufficient bars: '' @
        render_int (ds_benchmark_bars s) @ ''. RS features will be NaN.''] else [])"

definition any_action_failed :: "ensure_result \<Rightarrow> bool" where
  "any_action_failed r \<longleftrightarrow> list_ex (\<lambda>o1. ao_status o1 = FAILURE) (er_action_outcomes r)"

definition finalise_result ::
  "ensure_env \<Rightarrow> ensure_result \<Rightarrow> data_snapshot \<Rightarrow> availability_policy \<Rightarrow> ensure_result ensure_op" where
  "finalise_result env r s p =
     (let e = evaluate_cache_eligibility (en_read env) s p;
          r1 = record_snapshot_evidence
            (r\<lparr>er_canonical_bars := ds_canonical_bars s, er_feature_snapshot_exists := ds_feature_snapshot_exists s,
               er_candidate_score_exists := ds_candidate_score_exists s\<rparr>) s p;
          r2 = r1\<lparr>er_lineage_actions := map action_value (er_actions_taken r),
            er_freshness := (if ds_canonical_bars s < ap_min_required_bars p then ''missing_canonical''
              else if ce_eligible e then ''ready'' else ''partial''),
            er_warnings := er_warnings r @ gap_warnings s p\<rparr> in
      if \<not> ce_eligible e \<or> any_action_failed r then
        let r3 = r2\<lparr>er_warnings := (if er_warnings r2 \<noteq> [] then er_warnings r2
                else [''Candidate cache evidence remains incomplete: '' @ join '', '' (ce_reasons e) @ ''.'']),
              er_eligibility_reasons := Some (ce_reasons e), er_status := PARTIAL\<rparr> in
        op_seq (log_ensure_partial (er_symbol r) (er_target_date r) (er_warnings r3)) (op_return r3)
      else
        op_seq (log_ensure_ready (er_symbol r) (er_target_date r) (er_lineage_actions r2))
          (op_return (r2\<lparr>er_status := READY\<rparr>)))"

subsection \<open>The flow\<close>

definition provision_order :: "ensure_action list" where
  "provision_order = [OHLCV_SYNCED, CANONICAL_BUILT, BENCHMARK_SYNCED, BENCHMARK_CANONICAL_BUILT]"

definition ensure_plan :: "ensure_env \<Rightarrow> normalized_request \<Rightarrow> data_snapshot \<Rightarrow> ensure_action list" where
  "ensure_plan env q s = plan_data_availability (en_read env) s (nq_policy q)"

definition augment_refresh_provision_actions ::
  "ensure_action list \<Rightarrow> data_snapshot \<Rightarrow> availability_policy \<Rightarrow> ensure_action list" where
  "augment_refresh_provision_actions as s p =
     (if \<not> ap_auto_sync p then as
      else
        let own = (if ap_min_required_bars p \<le> ds_canonical_bars s then [OHLCV_SYNCED, CANONICAL_BUILT] else []);
            benchmark = (if ap_require_benchmark_history p \<and> ap_min_required_bars p \<le> ds_benchmark_bars s
              then [BENCHMARK_SYNCED, BENCHMARK_CANONICAL_BUILT] else []) in
        filter (\<lambda>a. a \<in> set (as @ own @ benchmark)) provision_order)"

definition succeeded_any :: "ensure_action list \<Rightarrow> ensure_result \<Rightarrow> bool" where
  "succeeded_any as r \<longleftrightarrow>
     list_ex (\<lambda>o1. ao_action o1 \<in> set as \<and> ao_status o1 = SUCCESS) (er_action_outcomes r)"

definition score_phase ::
  "ensure_env \<Rightarrow> normalized_request \<Rightarrow> ensure_result \<Rightarrow> ensure_result ensure_op" where
  "score_phase env q r =
     op_bind (take_snapshot env q) (\<lambda>s.
     let as = (if nq_force_refresh q \<and> succeeded_any [FEATURES_BUILT] r then [SCORED]
           else filter (\<lambda>a. a = SCORED) (ensure_plan env q s)) in
     op_bind (run_actions env q as r) (\<lambda>r1.
     op_bind (take_snapshot env q) (\<lambda>final. finalise_result env r1 final (nq_policy q))))"

definition feature_phase ::
  "ensure_env \<Rightarrow> normalized_request \<Rightarrow> ensure_result \<Rightarrow> ensure_result ensure_op" where
  "feature_phase env q r =
     op_bind (take_snapshot env q) (\<lambda>s.
     let plan = ensure_plan env q s;
         as = (if ap_auto_sync (nq_policy q) \<and> (nq_force_refresh q \<or> succeeded_any provision_order r) \<and>
               \<not> list_ex (\<lambda>a. a \<in> set provision_order) plan
             then [FEATURES_BUILT] else filter (\<lambda>a. a = FEATURES_BUILT) plan) in
     op_bind (run_actions env q as r) (score_phase env q))"

definition provision_phase ::
  "ensure_env \<Rightarrow> normalized_request \<Rightarrow> data_snapshot \<Rightarrow> ensure_result \<Rightarrow> ensure_result ensure_op" where
  "provision_phase env q s r =
     (let as = filter (\<lambda>a. a \<in> set provision_order) (ensure_plan env q s) in
      op_bind (run_actions env q
        (if nq_force_refresh q then augment_refresh_provision_actions as s (nq_policy q) else as) r)
        (feature_phase env q))"

definition symbol_phase ::
  "ensure_env \<Rightarrow> normalized_request \<Rightarrow> data_snapshot \<Rightarrow> ensure_result \<Rightarrow> ensure_result ensure_op" where
  "symbol_phase env q s r =
     op_bind (run_actions env q (filter (\<lambda>a. a = SYMBOLS_SYNCED) (ensure_plan env q s)) r) (\<lambda>r1.
     op_bind (take_snapshot env q) (\<lambda>s1.
       if \<not> ds_symbol_known s1 then missing_symbol_result r1 s1 (nq_policy q)
       else provision_phase env q s1 r1))"

definition ensure_locked :: "ensure_env \<Rightarrow> normalized_request \<Rightarrow> ensure_result ensure_op" where
  "ensure_locked env q =
     (let symbol = nq_symbol q; target = nq_target_date q; r = new_result symbol target FAILED in
      op_seq (log_ensure_started symbol target)
      (op_bind (take_snapshot env q) (\<lambda>s.
        let e = evaluate_cache_eligibility (en_read env) s (nq_policy q) in
        if ce_eligible e \<and> \<not> nq_force_refresh q then cache_hit_result r s (nq_policy q)
        else
          let reasons = (if nq_force_refresh q \<and> ce_eligible e then [''force_refresh''] else ce_reasons e) in
          op_seq (log_ensure_cache_rejected symbol target reasons)
            (symbol_phase env q s (r\<lparr>er_cache_rejection_reasons := reasons\<rparr>)))))"

definition normalise_inputs :: "ensure_env \<Rightarrow> ensure_request \<Rightarrow> py_error + normalized_request" where
  "normalise_inputs env q =
     res_bind (normalize_optional_date (re_other_dates (en_read env)) (re_repr_text (en_read env)) (en_today env)
       (eq_target_date q)) (\<lambda>target.
     Inr \<lparr>nq_symbol = strip (upper (eq_symbol q)), nq_target_date = target, nq_policy = eq_policy q,
       nq_client = eq_client q, nq_force_refresh = eq_force_refresh q\<rparr>)"

definition flow_lock :: "normalized_request \<Rightarrow> string" where
  "flow_lock q = lock_path (nq_symbol q) (nq_target_date q)"

definition flow_metadata :: "ensure_env \<Rightarrow> normalized_request \<Rightarrow> lock_metadata" where
  "flow_metadata env q =
     \<lparr>lm_symbol = strip (upper (nq_symbol q)), lm_target_date = nq_target_date q, lm_owner_token = en_token env,
      lm_pid = en_pid env, lm_hostname = en_hostname env, lm_created_at = en_created_at env\<rparr>"

definition acquire_flow :: "ensure_env \<Rightarrow> normalized_request \<Rightarrow> bool ensure_op" where
  "acquire_flow env q =
     (\<lambda>s. case acquire_lock (flow_lock q) (flow_metadata env q) stale_threshold (ew_now (es_world s))
           (ew_locks (es_world s)) of
        (ok, d) \<Rightarrow> (Inr ok, s\<lparr>es_world := (es_world s)\<lparr>ew_locks := d\<rparr>\<rparr>))"

definition release_flow :: "ensure_env \<Rightarrow> normalized_request \<Rightarrow> ensure_state \<Rightarrow> ensure_state" where
  "release_flow env q s =
     s\<lparr>es_world := (es_world s)\<lparr>ew_locks := release_lock (flow_lock q) (en_token env) True (ew_locks (es_world s))\<rparr>\<rparr>"

definition op_finally :: "('s, 'e, 'a) op \<Rightarrow> ('s \<Rightarrow> 's) \<Rightarrow> ('s, 'e, 'a) op" where
  "op_finally m f = (\<lambda>s. case m s of (r, t) \<Rightarrow> (r, f t))"

definition contended_result :: "normalized_request \<Rightarrow> ensure_result" where
  "contended_result q =
     (new_result (nq_symbol q) (nq_target_date q) PARTIAL)
       \<lparr>er_failure_code := Some ''LOCK_CONTENDED'',
        er_warnings := [''Another ensure flow is active for '' @ nq_symbol q @ ''/'' @ nq_target_date q @
          ''. Skipping.'']\<rparr>"

definition ensure_data_availability :: "ensure_env \<Rightarrow> ensure_request \<Rightarrow> ensure_result ensure_op" where
  "ensure_data_availability env request =
     op_bind (op_lift (normalise_inputs env request)) (\<lambda>q.
     op_bind (acquire_flow env q) (\<lambda>acquired.
       if \<not> acquired then op_return (contended_result q)
       else op_finally (ensure_locked env q) (release_flow env q)))"

definition ensure_symbol_analysis_ready ::
  "ensure_env \<Rightarrow> string \<Rightarrow> string option \<Rightarrow> availability_policy \<Rightarrow> bool \<Rightarrow> bool \<Rightarrow> ensure_result ensure_op" where
  "ensure_symbol_analysis_ready env symbol target p client force =
     ensure_data_availability env
       \<lparr>eq_symbol = symbol, eq_target_date = target, eq_policy = p, eq_client = client, eq_force_refresh = force\<rparr>"

end
