(* ===== verification/Ensure_Facts.thy ===== *)
theory Ensure_Facts
  imports Ensure_Service
begin

section \<open>What an ensure flow does\<close>

text \<open>
  The eligibility of a snapshot in terms of the tables it was taken from, the actions of the phases and the
  calls they make, and the way a flow gets from its start to its result.
\<close>

subsection \<open>Eligible snapshots and the tables\<close>

text \<open>The rows that analysis of a symbol on a date rests on.\<close>

definition quality_text :: "canonical_row option \<Rightarrow> string" where
  "quality_text b =
     (case b of None \<Rightarrow> ''unknown''
      | Some r \<Rightarrow> if or_empty (cb_quality_status r) = [] then ''unknown'' else or_empty (cb_quality_status r))"

definition unresolved_gap :: "string \<Rightarrow> py_date \<Rightarrow> py_date \<Rightarrow> gap_row \<Rightarrow> bool" where
  "unresolved_gap symbol a b r \<longleftrightarrow>
     gp_symbol r = symbol \<and> gp_interval r = ''1D'' \<and> gp_gap_kind r = ''TRUE_GAP'' \<and>
     gp_resolved_at r = None \<and> date_upto a (gp_session_date r) \<and> date_upto (gp_session_date r) b"

definition prices_ready :: "string \<Rightarrow> py_date \<Rightarrow> py_date \<Rightarrow> availability_policy \<Rightarrow> warehouse \<Rightarrow> bool" where
  "prices_ready symbol a d p w \<longleftrightarrow>
     ap_min_required_bars p \<le> int (length (window_bars symbol a d w)) \<and>
     list_all (\<lambda>g. \<not> unresolved_gap symbol a d g) (wh_gaps w) \<and>
     lower (strip (quality_text (latest_bar (daily_bars symbol d w)))) \<in>
       set (map (\<lambda>v. lower (strip v)) (ap_acceptable_quality_statuses p)) \<and>
     (\<not> ap_require_benchmark_history p \<or>
      ap_min_required_bars p \<le> int (length (window_bars (ap_benchmark p) a d w)))"

definition features_ready :: "read_env \<Rightarrow> string \<Rightarrow> string \<Rightarrow> py_date \<Rightarrow> warehouse \<Rightarrow> bool" where
  "features_ready env symbol target d w \<longleftrightarrow>
     (\<exists>r e st. find_feature symbol d w = Some r \<and> profile_acceptable target r \<and>
        parse_feature_snapshot_eligibility env (if_given (fr_data_status r)) (fr_lineage_json r) = Inr e \<and>
        feature_eligible e \<and>
        get_relative_strength_evidence env symbol target w = Inr st \<and> st_available st)"

definition score_ready ::
  "read_env \<Rightarrow> string \<Rightarrow> string \<Rightarrow> py_date \<Rightarrow> availability_policy \<Rightarrow> warehouse \<Rightarrow> bool" where
  "score_ready env symbol target d p w \<longleftrightarrow>
     (\<exists>r lineage as_of day today.
        find_score symbol d w = Some r \<and> decode_lineage env (sc_lineage_json r) = Inr lineage \<and>
        as_of = py_or (dict_get lineage ''as_of_bar_date'') (dict_get lineage ''feature_date'') \<and> truthy as_of \<and>
        fromisoformat (re_other_dates env) (py_str (re_repr env) as_of) = Some day \<and>
        fromisoformat (re_other_dates env) target = Some today \<and>
        \<not> date_key today < date_key day \<and>
        (ap_stale_after_calendar_days p \<le> 0 \<or>
         date_ordinal today - date_ordinal day \<le> ap_stale_after_calendar_days p) \<and>
        list_all (\<lambda>k. k \<in> lineage_field_names (foldl checked_policy_key lineage (policy_columns r)))
          (ap_required_lineage_fields p))"

definition warehouse_ready ::
  "read_env \<Rightarrow> string \<Rightarrow> string \<Rightarrow> availability_policy \<Rightarrow> warehouse \<Rightarrow> bool" where
  "warehouse_ready env symbol target p w \<longleftrightarrow>
     (\<exists>start a d. compute_lookback_start env target (ap_lookback_days p) = Inr start \<and>
        sql_date start = Inr a \<and> sql_date target = Inr d \<and>
        prices_ready symbol a d p w \<and> features_ready env symbol target d w \<and>
        score_ready env symbol target d p w)"

lemma freshness_not_missing: "evidence_freshness env True observed target \<noteq> ''missing''"
  by (simp add: evidence_freshness_def split: option.splits prod.splits if_splits)

lemma no_issues:
  "eligibility_issues env s p = [] \<longleftrightarrow>
     ds_candidate_score_exists s \<and> score_is_fresh env s p \<and> feature_row_exists s \<and>
     ds_feature_profile_acceptable s \<and> ds_feature_lineage_acceptable s \<and> ds_feature_snapshot_exists s \<and>
     ap_min_required_bars p \<le> ds_canonical_bars s \<and> ds_unresolved_true_gap_count s = 0 \<and>
     benchmark_sufficient s p \<and> quality_acceptable s p \<and> lineage_acceptable s p"
  by (auto simp: eligibility_issues_def)

lemma eligible_no_issues: "ce_eligible (evaluate_cache_eligibility env s p) \<longleftrightarrow> eligibility_issues env s p = []"
  by (simp add: evaluate_cache_eligibility_def Let_def)

lemma fresh_of_evidence [simp]:
  "score_is_fresh env (s\<lparr>ds_artifact_evidence := x\<rparr>) p = score_is_fresh env s p"
  by (simp add: score_is_fresh_def split: option.split)

lemma row_exists_of_evidence [simp]:
  "feature_row_exists (s\<lparr>ds_artifact_evidence := x\<rparr>) = feature_row_exists s"
  by (simp add: feature_row_exists_def split: option.split)

lemma quality_of_evidence [simp]:
  "quality_acceptable (s\<lparr>ds_artifact_evidence := x\<rparr>) p = quality_acceptable s p"
  by (simp add: quality_acceptable_def split: option.split)

lemma issues_of_evidence [simp]:
  "eligibility_issues env (s\<lparr>ds_artifact_evidence := x\<rparr>) p = eligibility_issues env s p"
  unfolding eligibility_issues_def benchmark_sufficient_def lineage_acceptable_def by simp

text \<open>What the single queries contribute.\<close>

lemma new_evidence_available [simp]: "ev_available (new_evidence a b) = b"
  by (simp add: new_evidence_def)

lemma new_evidence_quality: "ev_quality_status (new_evidence a b) = ''not_applicable''"
  by (simp add: new_evidence_def)

lemma ohlcv_quality:
  assumes "get_ohlcv_evidence env symbol target start artifact w = Inr e" and "sql_date target = Inr d"
  shows "ev_quality_status e = quality_text (latest_bar (daily_bars symbol d w))"
proof -
  from assms have "ev_quality_status e =
      (case (case latest_bar (daily_bars symbol d w) of None \<Rightarrow> None | Some r \<Rightarrow> if_given (cb_quality_status r)) of
         None \<Rightarrow> ''unknown'' | Some q \<Rightarrow> q)"
    by (cases "sql_date start") (simp_all add: get_ohlcv_evidence_def Let_def del: res_bind.simps(1), auto)
  then show ?thesis
    by (auto simp: quality_text_def if_given_def or_empty_def split: option.split)
qed

lemma feature_evidence:
  assumes "get_feature_snapshot_evidence env symbol target w = Inr e" and "sql_date target = Inr d"
  shows "(ev_freshness e \<noteq> ''missing'' \<and> ev_quality_status e = ''EXACT_DATE'' \<and> ev_lineage_status e = ''complete'' \<and>
      ev_available e) \<longleftrightarrow>
    (\<exists>r x. find_feature symbol d w = Some r \<and> profile_acceptable target r \<and>
       parse_feature_snapshot_eligibility env (if_given (fr_data_status r)) (fr_lineage_json r) = Inr x \<and>
       feature_eligible x)"
proof (cases "find_feature symbol d w")
  case None
  with assms have "\<not> ev_available e"
    by (simp add: get_feature_snapshot_evidence_def) (simp add: eq_commute)
  with None show ?thesis by simp
next
  case (Some r)
  from assms Some obtain l x where
    x: "parse_feature_snapshot_eligibility env (if_given (fr_data_status r)) (fr_lineage_json r) = Inr x" and
    l: "decode_lineage env (fr_lineage_json r) = Inr l"
    by (simp add: get_feature_snapshot_evidence_def res_bind_Inr_iff) blast
  with assms Some have e: "ev_available e = (profile_acceptable target r \<and> feature_eligible x)"
      "ev_freshness e \<noteq> ''missing''"
      "ev_quality_status e = (if profile_acceptable target r then ''EXACT_DATE'' else ''INCOMPLETE_FEATURE_PROFILE'')"
      "ev_lineage_status e = (if feature_eligible x then ''complete'' else ''incomplete'')"
    by (simp_all add: get_feature_snapshot_evidence_def Let_def eq_commute [of _ e] freshness_not_missing)
  show ?thesis
    unfolding e(1,3,4) using e(2) Some x by (cases "profile_acceptable target r"; cases "feature_eligible x") simp_all
qed

lemma captured:
  assumes "capture_availability_snapshot env symbol target p w = Inr s"
  obtains start a d score feature canonical strength where
    "compute_lookback_start env target (ap_lookback_days p) = Inr start"
    "sql_date start = Inr a" "sql_date target = Inr d"
    "get_candidate_score_evidence env symbol target w = Inr score"
    "get_feature_snapshot_evidence env symbol target w = Inr feature"
    "get_ohlcv_evidence env symbol target start Canonical_Ohlcv w = Inr canonical"
    "get_relative_strength_evidence env symbol target w = Inr strength"
    "ds_symbol s = symbol" "ds_target_date s = target" "ds_lookback_start s = start"
    "ds_symbol_known s = get_symbol_master_status symbol w"
    "ds_canonical_bars s = int (length (window_bars symbol a d w))"
    "ds_benchmark_bars s = int (length (window_bars (ap_benchmark p) a d w))"
    "ds_unresolved_true_gap_count s = int (length (filter (unresolved_gap symbol a d) (wh_gaps w)))"
    "ds_feature_snapshot_exists s = (ev_available feature \<and> st_available strength)"
    "ds_feature_row_exists s = Some (ev_freshness feature \<noteq> ''missing'')"
    "ds_feature_profile_acceptable s = (ev_quality_status feature = ''EXACT_DATE'')"
    "ds_feature_lineage_acceptable s = (ev_lineage_status feature = ''complete'')"
    "ds_candidate_score_exists s = se_exists score"
    "ds_candidate_score_as_of_date s = se_as_of_bar_date score"
    "ds_quality_status s = Some (ev_quality_status canonical)"
    "ds_lineage_fields s = lineage_field_names (se_lineage score)"
proof -
  have gaps: "(\<lambda>r. gp_symbol r = symbol \<and> gp_interval r = ''1D'' \<and> gp_gap_kind r = ''TRUE_GAP'' \<and>
      gp_resolved_at r = None \<and> date_upto a (gp_session_date r) \<and> date_upto (gp_session_date r) b) =
      unresolved_gap symbol a b" for a b
    by (rule ext) (simp add: unresolved_gap_def)
  obtain start a d where w: "compute_lookback_start env target (ap_lookback_days p) = Inr start"
      "sql_date start = Inr a" "sql_date target = Inr d"
    using assms
    by (auto simp: capture_availability_snapshot_def res_bind_Inr_iff Let_def get_canonical_ohlcv_status_def)
  obtain score feature canonical strength where parts:
      "get_candidate_score_evidence env symbol target w = Inr score"
      "get_feature_snapshot_evidence env symbol target w = Inr feature"
      "get_ohlcv_evidence env symbol target start Canonical_Ohlcv w = Inr canonical"
      "get_relative_strength_evidence env symbol target w = Inr strength"
    using assms w(1) by (auto simp: capture_availability_snapshot_def res_bind_Inr_iff Let_def)
  have "ds_symbol s = symbol \<and> ds_target_date s = target \<and> ds_lookback_start s = start \<and>
    ds_symbol_known s = get_symbol_master_status symbol w \<and>
    ds_canonical_bars s = int (length (window_bars symbol a d w)) \<and>
    ds_benchmark_bars s = int (length (window_bars (ap_benchmark p) a d w)) \<and>
    ds_unresolved_true_gap_count s = int (length (filter (unresolved_gap symbol a d) (wh_gaps w))) \<and>
    ds_feature_snapshot_exists s = (ev_available feature \<and> st_available strength) \<and>
    ds_feature_row_exists s = Some (ev_freshness feature \<noteq> ''missing'') \<and>
    ds_feature_profile_acceptable s = (ev_quality_status feature = ''EXACT_DATE'') \<and>
    ds_feature_lineage_acceptable s = (ev_lineage_status feature = ''complete'') \<and>
    ds_candidate_score_exists s = se_exists score \<and>
    ds_candidate_score_as_of_date s = se_as_of_bar_date score \<and>
    ds_quality_status s = Some (ev_quality_status canonical) \<and>
    ds_lineage_fields s = lineage_field_names (se_lineage score)"
    using assms w parts
    by (simp add: capture_availability_snapshot_def res_bind_Inr_iff Let_def get_canonical_ohlcv_status_def
        count_unresolved_true_gaps_def gaps strength_checked_def) (elim exE conjE, hypsubst, simp)
  then show ?thesis
    by (elim conjE) (rule that [OF w parts])
qed

lemma score_evidence_ready:
  assumes e: "get_candidate_score_evidence env symbol target w = Inr e" and d: "sql_date target = Inr d"
    and s: "ds_target_date s = target" "ds_candidate_score_exists s = se_exists e"
      "ds_candidate_score_as_of_date s = se_as_of_bar_date e" "ds_lineage_fields s = lineage_field_names (se_lineage e)"
  shows "(ds_candidate_score_exists s \<and> score_is_fresh env s p \<and> lineage_acceptable s p) \<longleftrightarrow>
    score_ready env symbol target d p w"
proof (cases "find_score symbol d w")
  case None
  with e d have "\<not> se_exists e"
    by (auto simp: get_candidate_score_evidence_def)
  with None s show ?thesis by (simp add: score_ready_def)
next
  case (Some r)
  with e d obtain l where l: "decode_lineage env (sc_lineage_json r) = Inr l"
    by (auto simp: get_candidate_score_evidence_def res_bind_Inr_iff)
  let ?as_of = "py_or (dict_get l ''as_of_bar_date'') (dict_get l ''feature_date'')"
  from e d Some l have fields: "se_exists e" "se_lineage e = foldl checked_policy_key l (policy_columns r)"
      "se_as_of_bar_date e = (if truthy ?as_of then Some (py_str (re_repr env) ?as_of) else None)"
    by (auto simp: get_candidate_score_evidence_def Let_def)
  show ?thesis
    by (simp add: score_ready_def score_is_fresh_def lineage_acceptable_def Some l s fields split: option.split)
qed

lemma capture_eligible_iff:
  assumes "capture_availability_snapshot env symbol target p w = Inr s"
  shows "eligibility_issues env s p = [] \<longleftrightarrow> warehouse_ready env symbol target p w"
proof -
  from assms obtain start a d score feature canonical strength where
    start: "compute_lookback_start env target (ap_lookback_days p) = Inr start"
      "sql_date start = Inr a" and d: "sql_date target = Inr d" and
    parts: "get_candidate_score_evidence env symbol target w = Inr score"
      "get_feature_snapshot_evidence env symbol target w = Inr feature"
      "get_ohlcv_evidence env symbol target start Canonical_Ohlcv w = Inr canonical"
      "get_relative_strength_evidence env symbol target w = Inr strength" and
    s: "ds_target_date s = target" "ds_candidate_score_exists s = se_exists score"
      "ds_candidate_score_as_of_date s = se_as_of_bar_date score"
      "ds_lineage_fields s = lineage_field_names (se_lineage score)" and
    f: "ds_feature_snapshot_exists s = (ev_available feature \<and> st_available strength)"
      "ds_feature_row_exists s = Some (ev_freshness feature \<noteq> ''missing'')"
      "ds_feature_profile_acceptable s = (ev_quality_status feature = ''EXACT_DATE'')"
      "ds_feature_lineage_acceptable s = (ev_lineage_status feature = ''complete'')" and
    c: "ds_canonical_bars s = int (length (window_bars symbol a d w))"
      "ds_benchmark_bars s = int (length (window_bars (ap_benchmark p) a d w))"
      "ds_unresolved_true_gap_count s = int (length (filter (unresolved_gap symbol a d) (wh_gaps w)))"
      "ds_quality_status s = Some (ev_quality_status canonical)"
    by (rule captured)
  have prices: "(ap_min_required_bars p \<le> ds_canonical_bars s \<and> ds_unresolved_true_gap_count s = 0 \<and>
      benchmark_sufficient s p \<and> quality_acceptable s p) \<longleftrightarrow> prices_ready symbol a d p w"
    by (auto simp: prices_ready_def c filter_empty_conv list_all_iff benchmark_sufficient_def quality_acceptable_def
        ohlcv_quality [OF parts(3) d])
  have features: "(feature_row_exists s \<and> ds_feature_profile_acceptable s \<and> ds_feature_lineage_acceptable s \<and>
      ds_feature_snapshot_exists s) \<longleftrightarrow> features_ready env symbol target d w"
    using feature_evidence [OF parts(2) d]
    by (simp add: f feature_row_exists_def features_ready_def parts(4)) blast
  have "eligibility_issues env s p = [] \<longleftrightarrow>
      prices_ready symbol a d p w \<and> features_ready env symbol target d w \<and> score_ready env symbol target d p w"
    unfolding no_issues prices [symmetric] features [symmetric]
      score_evidence_ready [OF parts(1) d s, symmetric] by blast
  then show ?thesis
    by (simp add: warehouse_ready_def start d)
qed

subsection \<open>The actions of a phase\<close>

text \<open>The call that an action makes, with the start of the window it was given.\<close>

fun action_call :: "normalized_request \<Rightarrow> string \<Rightarrow> ensure_action \<Rightarrow> dependency_call option" where
  "action_call q start SYMBOLS_SYNCED = Some (Sync_Symbols (routing_kwargs q))"
| "action_call q start OHLCV_SYNCED =
     Some (Sync_Ohlcv [nq_symbol q] start (nq_target_date q) (routing_kwargs q))"
| "action_call q start CANONICAL_BUILT = Some (Build_Canonical (nq_symbol q))"
| "action_call q start BENCHMARK_SYNCED =
     Some (Sync_Index (ap_benchmark (nq_policy q)) start (nq_target_date q) (routing_kwargs q))"
| "action_call q start BENCHMARK_CANONICAL_BUILT = Some (Build_Canonical (ap_benchmark (nq_policy q)))"
| "action_call q start FEATURES_BUILT =
     Some (Build_Features (nq_target_date q) [nq_symbol q] (ap_benchmark (nq_policy q)))"
| "action_call q start SCORED = Some (Score_Universe (nq_target_date q) [nq_symbol q])"
| "action_call q start CACHE_HIT = None"

definition window_start :: "ensure_env \<Rightarrow> normalized_request \<Rightarrow> py_error + string" where
  "window_start env q = compute_lookback_start (en_read env) (nq_target_date q) (ap_lookback_days (nq_policy q))"

lemma log_audit_calls [simp]: "es_calls (snd (log_audit a b c d e s)) = es_calls s"
  by (simp add: log_audit_def op_simps)

lemma log_audit_world [simp]: "es_world (snd (log_audit a b c d e s)) = es_world s"
  by (simp add: log_audit_def op_simps)

lemma log_audit_returns: "log_audit a b c d e s = (Inr (), snd (log_audit a b c d e s))"
  by (simp add: log_audit_def op_simps)

lemma op_seq_log: "op_seq (log_audit a b c d e) m s = m (snd (log_audit a b c d e s))"
  by (simp add: log_audit_def op_simps)

lemmas logs = log_action_started_def log_action_succeeded_def op_seq_log

text \<open>An action makes its one call, whether it returns or raises.\<close>

lemma execute_action_calls:
  assumes "a \<noteq> CACHE_HIT"
  obtains c where "action_call q start a = Some c"
    "es_calls (snd (execute_action env q start a s)) = es_calls s @ [c]"
proof -
  have "\<exists>c. action_call q start a = Some c \<and>
      es_calls (snd (execute_action env q start a s)) = es_calls s @ [c]"
    using assms
    by (cases a) (auto simp: execute_action_def Let_def counted_call_def logs call_dependency_def call_score_def
        score_universe_def op_bind_def op_seq_def op_guard_apply log_audit_def op_simps
        split: prod.split sum.split)
  with that show ?thesis by blast
qed

lemma snapshot_state: "snd (take_snapshot env q s) = s"
  by (simp add: take_snapshot_def op_simps)

lemma snapshot_start: "take_snapshot env q s = (Inr d, t) \<Longrightarrow> window_start env q = Inr (ds_lookback_start d) \<and> t = s"
  by (auto simp: take_snapshot_def op_simps window_start_def elim: captured)

lemma verify_state: "snd (verify_action env q a s) = s"
  by (simp add: verify_action_def op_bind_def take_snapshot_def op_simps split: sum.split)

text \<open>The calls of an attempt: none when no snapshot could be taken before it, else the one of the action.\<close>

definition attempt_calls :: "ensure_env \<Rightarrow> normalized_request \<Rightarrow> ensure_action \<Rightarrow> bool \<Rightarrow> dependency_call list" where
  "attempt_calls env q a timed =
     (case (timed, window_start env q) of
        (True, Inr start) \<Rightarrow> (case action_call q start a of Some c \<Rightarrow> [c] | None \<Rightarrow> [])
      | _ \<Rightarrow> [])"

lemma attempt_makes:
  assumes "a \<noteq> CACHE_HIT"
  obtains timed e t where "attempt_action env q a s = (Inr (timed, e), t)"
    "es_calls t = es_calls s @ attempt_calls env q a timed" "e = None \<longrightarrow> timed"
proof (cases "take_snapshot env q s")
  case (Pair r u)
  show ?thesis
  proof (cases r)
    case (Inl x)
    with Pair snapshot_state [of env q s] show ?thesis
      by (intro that [of False "Some x" s]) (simp_all add: attempt_action_def attempt_calls_def)
  next
    case (Inr d)
    with Pair snapshot_start [of env q s d u] have u: "u = s" "window_start env q = Inr (ds_lookback_start d)" by auto
    let ?m = "op_seq (execute_action env q (ds_lookback_start d) a) (verify_action env q a)"
    have "snd (?m s) = snd (execute_action env q (ds_lookback_start d) a s)"
      by (simp add: op_seq_def op_bind_def verify_state split: prod.split sum.split)
    moreover obtain c where "action_call q (ds_lookback_start d) a = Some c"
      "es_calls (snd (execute_action env q (ds_lookback_start d) a s)) = es_calls s @ [c]"
      by (rule execute_action_calls [OF assms])
    ultimately have calls: "es_calls (snd (?m s)) = es_calls s @ attempt_calls env q a True"
      by (simp add: attempt_calls_def u)
    show ?thesis
      using that calls Pair Inr u by (cases "?m s"; cases "fst (?m s)") (auto simp: attempt_action_def)
  qed
qed

type_synonym action_run = "ensure_action \<times> bool \<times> py_error option"

definition run_calls :: "ensure_env \<Rightarrow> normalized_request \<Rightarrow> action_run list \<Rightarrow> dependency_call list" where
  "run_calls env q runs = concat (map (\<lambda>(a, timed, e). attempt_calls env q a timed) runs)"

definition timed_runs :: "action_run list \<Rightarrow> bool" where
  "timed_runs runs \<longleftrightarrow> list_all (\<lambda>(a, timed, e). e = None \<longrightarrow> timed) runs"

lemma log_failure_returns:
  assumes "a \<noteq> CACHE_HIT"
  obtains v where "log_action_failure a symbol e s = (Inr (), v)" "es_calls v = es_calls s" "es_world v = es_world s"
  using assms by (simp add: log_action_failure_def log_audit_def op_simps)

lemma execute_planned_makes:
  assumes "CACHE_HIT \<notin> set as"
  obtains runs t where "execute_planned_actions env q as s = (Inr runs, t)" "map fst runs = as"
    "es_calls t = es_calls s @ run_calls env q runs" "timed_runs runs"
proof -
  have "\<exists>runs t. execute_planned_actions env q as s = (Inr runs, t) \<and> map fst runs = as \<and>
      es_calls t = es_calls s @ run_calls env q runs \<and> timed_runs runs"
    using assms
  proof (induction as arbitrary: s)
    case Nil
    then show ?case by (simp add: op_simps run_calls_def timed_runs_def)
  next
    case (Cons a as)
    then have a: "a \<noteq> CACHE_HIT" by auto
    obtain timed e t where t: "attempt_action env q a s = (Inr (timed, e), t)"
      "es_calls t = es_calls s @ attempt_calls env q a timed" "e = None \<longrightarrow> timed"
      by (rule attempt_makes [OF a])
    let ?log = "case e of None \<Rightarrow> op_return () | Some x \<Rightarrow> log_action_failure a (nq_symbol q) x"
    obtain v where log: "?log t = (Inr (), v)" "es_calls v = es_calls t"
    proof (cases e)
      case None
      with that show ?thesis by (simp add: op_simps)
    next
      case (Some x)
      obtain v where "log_action_failure a (nq_symbol q) x t = (Inr (), v)" "es_calls v = es_calls t"
        by (rule log_failure_returns [OF a])
      with that Some show ?thesis by simp
    qed
    from Cons obtain runs u where "execute_planned_actions env q as v = (Inr runs, u)"
      "map fst runs = as" "es_calls u = es_calls v @ run_calls env q runs" "timed_runs runs"
      by (metis list.set_intros(2))
    then show ?case
      using t log by (intro exI [of _ "(a, timed, e) # runs"] exI [of _ u])
        (simp add: op_bind_def op_seq_def op_simps run_calls_def timed_runs_def)
  qed
  with that show ?thesis by blast
qed

text \<open>\<open>ran\<close>: from one state and result to another by these actions.\<close>

definition ran ::
  "ensure_env \<Rightarrow> normalized_request \<Rightarrow> ensure_action list \<Rightarrow> ensure_state \<Rightarrow> ensure_result \<Rightarrow>
   ensure_state \<Rightarrow> ensure_result \<Rightarrow> bool" where
  "ran env q as s r t r' \<longleftrightarrow>
     (\<exists>runs. map fst runs = as \<and> timed_runs runs \<and> es_calls t = es_calls s @ run_calls env q runs \<and>
        er_action_outcomes r' = er_action_outcomes r @ map (outcome_of q) runs \<and>
        er_actions_taken r' = er_actions_taken r @ map fst (filter (\<lambda>(a, timed, e). e = None) runs) \<and>
        er_symbol r' = er_symbol r \<and> er_target_date r' = er_target_date r)"

lemma ran_nothing: "ran env q [] s r s r"
  by (simp add: ran_def timed_runs_def run_calls_def)

lemma ran_trans: "ran env q as s r t r1 \<Longrightarrow> ran env q bs t r1 u r2 \<Longrightarrow> ran env q (as @ bs) s r u r2"
  unfolding ran_def
proof (elim exE conjE)
  fix xs ys
  assume "map fst xs = as" "timed_runs xs" "es_calls t = es_calls s @ run_calls env q xs"
    "er_action_outcomes r1 = er_action_outcomes r @ map (outcome_of q) xs"
    "er_actions_taken r1 = er_actions_taken r @ map fst (filter (\<lambda>(a, timed, e). e = None) xs)"
    "er_symbol r1 = er_symbol r" "er_target_date r1 = er_target_date r"
    "map fst ys = bs" "timed_runs ys" "es_calls u = es_calls t @ run_calls env q ys"
    "er_action_outcomes r2 = er_action_outcomes r1 @ map (outcome_of q) ys"
    "er_actions_taken r2 = er_actions_taken r1 @ map fst (filter (\<lambda>(a, timed, e). e = None) ys)"
    "er_symbol r2 = er_symbol r1" "er_target_date r2 = er_target_date r1"
  then show "\<exists>runs. map fst runs = as @ bs \<and> timed_runs runs \<and> es_calls u = es_calls s @ run_calls env q runs \<and>
      er_action_outcomes r2 = er_action_outcomes r @ map (outcome_of q) runs \<and>
      er_actions_taken r2 = er_actions_taken r @ map fst (filter (\<lambda>(a, timed, e). e = None) runs) \<and>
      er_symbol r2 = er_symbol r \<and> er_target_date r2 = er_target_date r"
    by (intro exI [of _ "xs @ ys"]) (simp add: timed_runs_def run_calls_def)
qed

lemma run_actions_ran:
  assumes "CACHE_HIT \<notin> set as"
  obtains t r' where "run_actions env q as r s = (Inr r', t)" "ran env q as s r t r'"
proof -
  obtain runs t where "execute_planned_actions env q as s = (Inr runs, t)" "map fst runs = as"
    "es_calls t = es_calls s @ run_calls env q runs" "timed_runs runs"
    by (rule execute_planned_makes [OF assms])
  with that show ?thesis
    by (simp add: run_actions_def op_bind_def op_simps ran_def) blast
qed

subsection \<open>Plans\<close>

definition pipeline :: "ensure_action list" where
  "pipeline = [SYMBOLS_SYNCED, OHLCV_SYNCED, CANONICAL_BUILT, BENCHMARK_SYNCED, BENCHMARK_CANONICAL_BUILT,
     FEATURES_BUILT, SCORED]"

text \<open>Each action at most once, in the order of the pipeline.\<close>

definition in_pipeline_order :: "ensure_action list \<Rightarrow> bool" where
  "in_pipeline_order as \<longleftrightarrow> as = filter (\<lambda>a. a \<in> set as) pipeline"

lemma filter_members: "filter P xs = filter (\<lambda>a. a \<in> set (filter P xs)) xs"
  by (rule filter_cong) auto

lemma price_actions_cases: "price_actions env s p \<in> {[], [CANONICAL_BUILT], [OHLCV_SYNCED, CANONICAL_BUILT]}"
  by (simp add: price_actions_def Let_def)

lemma benchmark_plan_cases: "benchmark_plan env s p \<in> {[], [BENCHMARK_SYNCED, BENCHMARK_CANONICAL_BUILT]}"
  by (simp add: benchmark_plan_def Let_def)

lemma provisions_ordered:
  "as \<in> {[], [CANONICAL_BUILT], [OHLCV_SYNCED, CANONICAL_BUILT]} \<Longrightarrow>
   bs \<in> {[], [BENCHMARK_SYNCED, BENCHMARK_CANONICAL_BUILT]} \<Longrightarrow>
   as @ bs = filter (\<lambda>a. a \<in> set (as @ bs)) provision_order"
  by (elim insertE emptyE; simp add: provision_order_def)

lemma plan_cases:
  obtains "plan_data_availability env s p = []"
  | "plan_data_availability env s p = [SYMBOLS_SYNCED]" "ap_auto_sync p"
  | as where "plan_data_availability env s p = filter (\<lambda>a. a \<in> set as) provision_order" "ap_auto_sync p"
  | "plan_data_availability env s p = [FEATURES_BUILT]" "ap_auto_sync p"
  | "plan_data_availability env s p = [SCORED]" "ap_auto_sync p"
proof -
  let ?bars = "price_actions env s p @ benchmark_plan env s p"
  have bars: "?bars = filter (\<lambda>a. a \<in> set ?bars) provision_order"
    by (rule provisions_ordered [OF price_actions_cases benchmark_plan_cases])
  have sync: "ap_auto_sync p" if "?bars \<noteq> []"
  proof (rule ccontr)
    assume "\<not> ap_auto_sync p"
    then have "price_actions env s p = []" "benchmark_plan env s p = []"
      by (simp_all add: price_actions_def benchmark_plan_def)
    with that show False by simp
  qed
  let ?issues = "eligibility_issues env s p"
  have plan: "plan_data_availability env s p =
      (if ?issues = [] then [] else if \<not> ds_symbol_known s \<and> ap_auto_sync p then [SYMBOLS_SYNCED]
       else if ?bars \<noteq> [] then ?bars else if ap_auto_sync p \<and> meets ?issues feature_issues then [FEATURES_BUILT]
       else if ap_auto_sync p \<and> meets ?issues score_issues then [SCORED] else [])"
    unfolding plan_data_availability_def Let_def ..
  consider "?issues = []" | "?issues \<noteq> []" "\<not> ds_symbol_known s \<and> ap_auto_sync p"
    | "?issues \<noteq> []" "\<not> (\<not> ds_symbol_known s \<and> ap_auto_sync p)" "?bars \<noteq> []"
    | "?issues \<noteq> []" "\<not> (\<not> ds_symbol_known s \<and> ap_auto_sync p)" "?bars = []"
    by blast
  then show ?thesis
  proof cases
    case 1
    with plan have "plan_data_availability env s p = []" by simp
    then show ?thesis by (rule that(1))
  next
    case 2
    with plan have "plan_data_availability env s p = [SYMBOLS_SYNCED]" by simp
    then show ?thesis using 2(2) by (intro that(2)) simp_all
  next
    case 3
    with plan have "plan_data_availability env s p = ?bars" by (simp only: if_True if_False simp_thms)
    with bars have "plan_data_availability env s p = filter (\<lambda>a. a \<in> set ?bars) provision_order"
      by (rule trans [rotated])
    then show ?thesis using sync [OF 3(3)] by (rule that(3))
  next
    case 4
    with plan have "plan_data_availability env s p =
        (if ap_auto_sync p \<and> meets ?issues feature_issues then [FEATURES_BUILT]
         else if ap_auto_sync p \<and> meets ?issues score_issues then [SCORED] else [])"
      by (simp only: if_True if_False simp_thms)
    with that(1,4,5) show ?thesis by (simp split: if_splits)
  qed
qed

lemma plan_provisions:
  "filter (\<lambda>a. a \<in> set provision_order) (plan_data_availability env s p) =
     filter (\<lambda>a. a \<in> set (plan_data_availability env s p)) provision_order"
  by (rule plan_cases [of env s p]) (simp_all add: provision_order_def)

lemma plan_singles:
  assumes "a \<notin> set provision_order"
  shows "filter (\<lambda>b. b = a) (plan_data_availability env s p) \<in> {[], [a]}"
  using assms by (cases rule: plan_cases [of env s p]) (auto simp: filter_empty_conv)

lemma augment_provisions:
  "\<exists>bs. augment_refresh_provision_actions (filter (\<lambda>a. a \<in> set as) provision_order) s p =
     filter (\<lambda>a. a \<in> set bs) provision_order"
  unfolding augment_refresh_provision_actions_def Let_def by (cases "ap_auto_sync p") (simp only: if_False if_True simp_thms, blast)+

lemma no_sync_no_plan: "\<not> ap_auto_sync p \<Longrightarrow> plan_data_availability env s p = []"
  by (cases rule: plan_cases [of env s p]) auto

lemma filtered_in_order: "as = filter P pipeline \<Longrightarrow> in_pipeline_order as"
  unfolding in_pipeline_order_def using filter_members by blast

lemma phases_in_order:
  assumes "as \<in> {[], [SYMBOLS_SYNCED]}" and "bs = filter (\<lambda>a. a \<in> set xs) provision_order"
    and "cs \<in> {[], [FEATURES_BUILT]}" and "ds \<in> {[], [SCORED]}"
  shows "in_pipeline_order (as @ bs @ cs @ ds)"
proof (rule filtered_in_order)
  have "filter (\<lambda>a. (a = SYMBOLS_SYNCED \<and> as \<noteq> []) \<or> (a \<in> set provision_order \<and> a \<in> set xs) \<or>
      (a = FEATURES_BUILT \<and> cs \<noteq> []) \<or> (a = SCORED \<and> ds \<noteq> [])) pipeline =
    (if as = [] then [] else [SYMBOLS_SYNCED]) @ filter (\<lambda>a. a \<in> set xs) provision_order @
      (if cs = [] then [] else [FEATURES_BUILT]) @ (if ds = [] then [] else [SCORED])" (is "?filter = _")
    by (simp add: pipeline_def provision_order_def)
  with assms show "as @ bs @ cs @ ds = ?filter" by auto
qed

subsection \<open>From the start to the result\<close>

text \<open>Logging moves nothing but the log.\<close>

definition only_logged :: "ensure_state \<Rightarrow> ensure_state \<Rightarrow> bool" where
  "only_logged s t \<longleftrightarrow> es_world t = es_world s \<and> es_calls t = es_calls s"

lemma only_logged_audit: "only_logged s (snd (log_audit a b c d e s))"
  by (simp add: only_logged_def)

lemma ran_from: "only_logged s s' \<Longrightarrow> ran env q as s' r t r' \<longleftrightarrow> ran env q as s r t r'"
  by (simp add: ran_def only_logged_def)

lemma log_flow_seq: "op_seq (log_flow ev a b c d l x) m s = m (snd (log_flow ev a b c d l x s))"
  by (simp add: log_flow_def op_seq_log)

lemma log_flow_only: "only_logged s (snd (log_flow ev a b c d l x s))"
  by (simp add: log_flow_def only_logged_audit)

lemmas flow_logs = log_ensure_started_def log_ensure_cache_hit_def log_ensure_cache_rejected_def log_ensure_ready_def
  log_ensure_partial_def log_ensure_failed_def

lemma finalise_effect:
  obtains r' t where "finalise_result env r s p u = (Inr r', t)" "only_logged u t"
    "er_action_outcomes r' = er_action_outcomes r" "er_actions_taken r' = er_actions_taken r"
    "er_symbol r' = er_symbol r" "er_target_date r' = er_target_date r"
    "er_status r' = (if eligibility_issues (en_read env) s p = [] \<and> \<not> any_action_failed r then READY else PARTIAL)"
proof -
  have "\<exists>r' t. finalise_result env r s p u = (Inr r', t) \<and> only_logged u t \<and>
    er_action_outcomes r' = er_action_outcomes r \<and> er_actions_taken r' = er_actions_taken r \<and>
    er_symbol r' = er_symbol r \<and> er_target_date r' = er_target_date r \<and>
    er_status r' = (if eligibility_issues (en_read env) s p = [] \<and> \<not> any_action_failed r then READY else PARTIAL)"
    by (cases "eligibility_issues (en_read env) s p = [] \<and> \<not> any_action_failed r")
      (auto simp: finalise_result_def Let_def flow_logs log_flow_seq op_return_apply eligible_no_issues
        record_snapshot_evidence_def log_flow_only)
  with that show ?thesis by blast
qed

lemma missing_effect:
  obtains r' t where "missing_symbol_result r s p u = (Inr r', t)" "only_logged u t"
    "er_action_outcomes r' = er_action_outcomes r" "er_actions_taken r' = er_actions_taken r"
    "er_symbol r' = er_symbol r" "er_target_date r' = er_target_date r" "er_status r' = FAILED"
  by (simp add: missing_symbol_result_def Let_def flow_logs log_flow_seq op_return_apply
      record_snapshot_evidence_def log_flow_only)

lemma hit_effect:
  obtains r' t where "cache_hit_result r s p u = (Inr r', t)" "only_logged u t"
    "er_action_outcomes r' = er_action_outcomes r @ [cache_hit_outcome]"
    "er_actions_taken r' = er_actions_taken r @ [CACHE_HIT]"
    "er_symbol r' = er_symbol r" "er_target_date r' = er_target_date r" "er_status r' = READY"
  by (simp add: cache_hit_result_def Let_def flow_logs log_flow_seq op_return_apply
      record_snapshot_evidence_def log_flow_only)

lemma snapshot_Inr:
  assumes "op_bind (take_snapshot env q) f s = (Inr r, t)"
  obtains d where "capture_availability_snapshot (en_read env) (nq_symbol q) (nq_target_date q) (nq_policy q)
      (ew_warehouse (es_world s)) = Inr d" "f d s = (Inr r, t)"
  using assms by (auto simp: take_snapshot_def op_simps split: sum.splits)

lemma run_then:
  assumes "op_bind (run_actions env q as r) f s = (Inr x, t)" and "CACHE_HIT \<notin> set as"
  obtains u r1 where "ran env q as s r u r1" "f r1 u = (Inr x, t)"
proof -
  obtain u r1 where "run_actions env q as r s = (Inr r1, u)" "ran env q as s r u r1"
    by (rule run_actions_ran [OF assms(2)])
  with assms(1) that show ?thesis by (simp add: op_bind_def)
qed

text \<open>
  How a flow ends once it ran actions: with the snapshot that the result was made from; the actions were
  none when the policy forbids synchronisation.
\<close>

definition flow_ended ::
  "ensure_env \<Rightarrow> normalized_request \<Rightarrow> ensure_action list \<Rightarrow> ensure_state \<Rightarrow> ensure_result \<Rightarrow>
   ensure_result \<Rightarrow> ensure_state \<Rightarrow> bool" where
  "flow_ended env q as s r r' t \<longleftrightarrow>
     (\<exists>d u r1. ran env q as s r u r1 \<and> only_logged u t \<and>
        capture_availability_snapshot (en_read env) (nq_symbol q) (nq_target_date q) (nq_policy q)
          (ew_warehouse (es_world t)) = Inr d \<and>
        er_action_outcomes r' = er_action_outcomes r1 \<and> er_actions_taken r' = er_actions_taken r1 \<and>
        er_symbol r' = er_symbol r1 \<and> er_target_date r' = er_target_date r1 \<and>
        (er_status r' = READY \<longrightarrow> eligibility_issues (en_read env) d (nq_policy q) = [] \<and> \<not> any_action_failed r1))"

lemma ended_after: "ran env q as s r u r1 \<Longrightarrow> flow_ended env q bs u r1 r' t \<Longrightarrow> flow_ended env q (as @ bs) s r r' t"
  unfolding flow_ended_def by (blast intro: ran_trans)

lemma score_phase_ends:
  assumes "score_phase env q r s = (Inr r', t)"
  obtains as where "as \<in> {[], [SCORED]}" "flow_ended env q as s r r' t"
    "\<not> ap_auto_sync (nq_policy q) \<and> \<not> succeeded_any [FEATURES_BUILT] r \<longrightarrow> as = []"
proof -
  from assms obtain d where "(let as = (if nq_force_refresh q \<and> succeeded_any [FEATURES_BUILT] r then [SCORED]
        else filter (\<lambda>a. a = SCORED) (ensure_plan env q d)) in
      op_bind (run_actions env q as r) (\<lambda>r1.
      op_bind (take_snapshot env q) (\<lambda>final. finalise_result env r1 final (nq_policy q)))) s = (Inr r', t)"
    unfolding score_phase_def by (rule snapshot_Inr)
  then obtain as where as: "as = (if nq_force_refresh q \<and> succeeded_any [FEATURES_BUILT] r then [SCORED]
        else filter (\<lambda>a. a = SCORED) (ensure_plan env q d))"
    and run: "op_bind (run_actions env q as r) (\<lambda>r1.
      op_bind (take_snapshot env q) (\<lambda>final. finalise_result env r1 final (nq_policy q))) s = (Inr r', t)"
    unfolding Let_def by blast
  have single: "as \<in> {[], [SCORED]}"
    using as plan_singles [of SCORED "en_read env" d "nq_policy q"]
    by (auto simp: ensure_plan_def provision_order_def)
  then obtain u r1 where u: "ran env q as s r u r1"
    "op_bind (take_snapshot env q) (\<lambda>final. finalise_result env r1 final (nq_policy q)) u = (Inr r', t)"
    using run by (elim run_then) auto
  from u(2) obtain e where e: "capture_availability_snapshot (en_read env) (nq_symbol q) (nq_target_date q)
      (nq_policy q) (ew_warehouse (es_world u)) = Inr e" "finalise_result env r1 e (nq_policy q) u = (Inr r', t)"
    by (rule snapshot_Inr)
  obtain r2 v where "finalise_result env r1 e (nq_policy q) u = (Inr r2, v)" "only_logged u v"
    "er_action_outcomes r2 = er_action_outcomes r1" "er_actions_taken r2 = er_actions_taken r1"
    "er_symbol r2 = er_symbol r1" "er_target_date r2 = er_target_date r1"
    "er_status r2 = (if eligibility_issues (en_read env) e (nq_policy q) = [] \<and> \<not> any_action_failed r1
       then READY else PARTIAL)"
    by (rule finalise_effect)
  with e u(1) have "flow_ended env q as s r r' t"
    unfolding flow_ended_def only_logged_def by (intro exI [of _ e] exI [of _ u] exI [of _ r1]) auto
  moreover have "\<not> ap_auto_sync (nq_policy q) \<and> \<not> succeeded_any [FEATURES_BUILT] r \<longrightarrow> as = []"
    using as by (simp add: ensure_plan_def no_sync_no_plan)
  ultimately show ?thesis using single that by blast
qed

lemma ran_none: "ran env q [] s r u r1 \<Longrightarrow> er_action_outcomes r1 = er_action_outcomes r"
  by (auto simp: ran_def)

lemma succeeded_none: "er_action_outcomes r = [] \<Longrightarrow> \<not> succeeded_any as r"
  by (simp add: succeeded_any_def)

definition nothing_to_do :: "normalized_request \<Rightarrow> ensure_result \<Rightarrow> bool" where
  "nothing_to_do q r \<longleftrightarrow> \<not> ap_auto_sync (nq_policy q) \<and> er_action_outcomes r = []"

lemma feature_phase_ends:
  assumes "feature_phase env q r s = (Inr r', t)"
  obtains as bs where "as \<in> {[], [FEATURES_BUILT]}" "bs \<in> {[], [SCORED]}" "flow_ended env q (as @ bs) s r r' t"
    "nothing_to_do q r \<longrightarrow> as @ bs = []"
proof -
  from assms obtain d where "(let plan = ensure_plan env q d;
         as = (if ap_auto_sync (nq_policy q) \<and> (nq_force_refresh q \<or> succeeded_any provision_order r) \<and>
               \<not> list_ex (\<lambda>a. a \<in> set provision_order) plan
             then [FEATURES_BUILT] else filter (\<lambda>a. a = FEATURES_BUILT) plan) in
     op_bind (run_actions env q as r) (score_phase env q)) s = (Inr r', t)"
    unfolding feature_phase_def by (rule snapshot_Inr)
  then obtain as where as: "as = (if ap_auto_sync (nq_policy q) \<and> (nq_force_refresh q \<or> succeeded_any provision_order r) \<and>
               \<not> list_ex (\<lambda>a. a \<in> set provision_order) (ensure_plan env q d)
             then [FEATURES_BUILT] else filter (\<lambda>a. a = FEATURES_BUILT) (ensure_plan env q d))"
    and run: "op_bind (run_actions env q as r) (score_phase env q) s = (Inr r', t)"
    unfolding Let_def by blast
  have single: "as \<in> {[], [FEATURES_BUILT]}"
    using as plan_singles [of FEATURES_BUILT "en_read env" d "nq_policy q"]
    by (auto simp: ensure_plan_def provision_order_def)
  then obtain u r1 where u: "ran env q as s r u r1" "score_phase env q r1 u = (Inr r', t)"
    using run by (elim run_then) auto
  from u(2) obtain bs where bs: "bs \<in> {[], [SCORED]}" "flow_ended env q bs u r1 r' t"
    "\<not> ap_auto_sync (nq_policy q) \<and> \<not> succeeded_any [FEATURES_BUILT] r1 \<longrightarrow> bs = []"
    by (rule score_phase_ends)
  have "as = []" if "nothing_to_do q r"
    using as that by (simp add: nothing_to_do_def ensure_plan_def no_sync_no_plan)
  with bs(3) u(1) have "nothing_to_do q r \<longrightarrow> as @ bs = []"
    using ran_none succeeded_none by (auto simp: nothing_to_do_def)
  with single bs ended_after [OF u(1) bs(2)] that show ?thesis by blast
qed

lemma provision_phase_ends:
  assumes "provision_phase env q d r s = (Inr r', t)"
  obtains xs bs cs where "bs \<in> {[], [FEATURES_BUILT]}" "cs \<in> {[], [SCORED]}"
    "flow_ended env q (filter (\<lambda>a. a \<in> set xs) provision_order @ bs @ cs) s r r' t"
    "nothing_to_do q r \<longrightarrow> filter (\<lambda>a. a \<in> set xs) provision_order @ bs @ cs = []"
proof -
  let ?as = "filter (\<lambda>a. a \<in> set provision_order) (ensure_plan env q d)"
  let ?run = "if nq_force_refresh q then augment_refresh_provision_actions ?as d (nq_policy q) else ?as"
  have planned: "?as = filter (\<lambda>a. a \<in> set (ensure_plan env q d)) provision_order"
    unfolding ensure_plan_def by (rule plan_provisions)
  obtain xs where xs: "?run = filter (\<lambda>a. a \<in> set xs) provision_order"
    using augment_provisions [of "ensure_plan env q d" d "nq_policy q"] planned by (cases "nq_force_refresh q") auto
  have none: "?run = []" if "nothing_to_do q r"
    using that by (simp add: nothing_to_do_def ensure_plan_def no_sync_no_plan augment_refresh_provision_actions_def)
  have "CACHE_HIT \<notin> set ?run"
    unfolding xs by (simp add: provision_order_def)
  moreover have "op_bind (run_actions env q ?run r) (feature_phase env q) s = (Inr r', t)"
    using assms by (simp add: provision_phase_def Let_def)
  ultimately obtain u r1 where u: "ran env q ?run s r u r1" "feature_phase env q r1 u = (Inr r', t)"
    by (elim run_then)
  from u(2) obtain bs cs where rest: "bs \<in> {[], [FEATURES_BUILT]}" "cs \<in> {[], [SCORED]}"
    "flow_ended env q (bs @ cs) u r1 r' t" "nothing_to_do q r1 \<longrightarrow> bs @ cs = []"
    by (rule feature_phase_ends)
  have "nothing_to_do q r \<longrightarrow> ?run @ bs @ cs = []"
    using none rest(4) u(1) ran_none by (auto simp: nothing_to_do_def)
  with rest ended_after [OF u(1) rest(3)] that show ?thesis unfolding xs by blast
qed

lemma symbol_phase_ends:
  assumes "symbol_phase env q d r s = (Inr r', t)"
  obtains as where "in_pipeline_order as" "flow_ended env q as s r r' t" "nothing_to_do q r \<longrightarrow> as = []"
proof -
  let ?as = "filter (\<lambda>a. a = SYMBOLS_SYNCED) (ensure_plan env q d)"
  have single: "?as \<in> {[], [SYMBOLS_SYNCED]}"
    unfolding ensure_plan_def by (rule plan_singles) (simp add: provision_order_def)
  then have "CACHE_HIT \<notin> set ?as" by auto
  with assms obtain u r1 where u: "ran env q ?as s r u r1" and
    next_phase: "op_bind (take_snapshot env q) (\<lambda>s1.
       if \<not> ds_symbol_known s1 then missing_symbol_result r1 s1 (nq_policy q)
       else provision_phase env q s1 r1) u = (Inr r', t)"
    unfolding symbol_phase_def by (elim run_then)
  have none: "?as = []" if "nothing_to_do q r"
    using that by (simp add: nothing_to_do_def ensure_plan_def no_sync_no_plan)
  from next_phase obtain e where e: "capture_availability_snapshot (en_read env) (nq_symbol q) (nq_target_date q)
      (nq_policy q) (ew_warehouse (es_world u)) = Inr e"
    "(if \<not> ds_symbol_known e then missing_symbol_result r1 e (nq_policy q) else provision_phase env q e r1) u =
       (Inr r', t)"
    by (rule snapshot_Inr)
  show ?thesis
  proof (cases "ds_symbol_known e")
    case True
    with e(2) have "provision_phase env q e r1 u = (Inr r', t)" by simp
    then obtain xs bs cs where rest: "bs \<in> {[], [FEATURES_BUILT]}" "cs \<in> {[], [SCORED]}"
      "flow_ended env q (filter (\<lambda>a. a \<in> set xs) provision_order @ bs @ cs) u r1 r' t"
      "nothing_to_do q r1 \<longrightarrow> filter (\<lambda>a. a \<in> set xs) provision_order @ bs @ cs = []"
      by (rule provision_phase_ends)
    have "in_pipeline_order (?as @ filter (\<lambda>a. a \<in> set xs) provision_order @ bs @ cs)"
      by (rule phases_in_order [OF single refl rest(1,2)])
    moreover have "nothing_to_do q r \<longrightarrow> ?as @ filter (\<lambda>a. a \<in> set xs) provision_order @ bs @ cs = []"
      using none rest(4) u ran_none by (auto simp: nothing_to_do_def)
    ultimately show ?thesis using ended_after [OF u rest(3)] that by blast
  next
    case False
    obtain r2 v where m: "missing_symbol_result r1 e (nq_policy q) u = (Inr r2, v)" "only_logged u v"
      "er_action_outcomes r2 = er_action_outcomes r1" "er_actions_taken r2 = er_actions_taken r1"
      "er_symbol r2 = er_symbol r1" "er_target_date r2 = er_target_date r1" "er_status r2 = FAILED"
      by (rule missing_effect)
    with e u False have "flow_ended env q ?as s r r' t"
      unfolding flow_ended_def only_logged_def by (intro exI [of _ e] exI [of _ u] exI [of _ r1]) auto
    moreover have "in_pipeline_order ?as"
      using phases_in_order [OF single, of "[]" "[]" "[]" "[]"] by (simp add: provision_order_def)
    ultimately show ?thesis using none that by blast
  qed
qed

text \<open>A locked flow is a cache hit on an eligible snapshot, or it ran the actions of its phases.\<close>

lemma locked_flow:
  assumes "ensure_locked env q s = (Inr r, t)"
  obtains (hit) d where "\<not> nq_force_refresh q" "only_logged s t"
      "capture_availability_snapshot (en_read env) (nq_symbol q) (nq_target_date q) (nq_policy q)
         (ew_warehouse (es_world t)) = Inr d"
      "eligibility_issues (en_read env) d (nq_policy q) = []"
      "er_action_outcomes r = [cache_hit_outcome]" "er_actions_taken r = [CACHE_HIT]"
      "er_symbol r = nq_symbol q" "er_target_date r = nq_target_date q" "er_status r = READY"
  | (worked) as reasons where "in_pipeline_order as" "\<not> ap_auto_sync (nq_policy q) \<longrightarrow> as = []"
      "flow_ended env q as s
         ((new_result (nq_symbol q) (nq_target_date q) FAILED)\<lparr>er_cache_rejection_reasons := reasons\<rparr>) r t"
proof -
  let ?r = "new_result (nq_symbol q) (nq_target_date q) FAILED"
  define s1 where "s1 = snd (log_ensure_started (nq_symbol q) (nq_target_date q) s)"
  have s1: "only_logged s s1"
    by (simp add: s1_def flow_logs log_flow_only)
  from assms have "op_bind (take_snapshot env q) (\<lambda>d.
      let e = evaluate_cache_eligibility (en_read env) d (nq_policy q) in
        if ce_eligible e \<and> \<not> nq_force_refresh q then cache_hit_result ?r d (nq_policy q)
        else
          let reasons = (if nq_force_refresh q \<and> ce_eligible e then [''force_refresh''] else ce_reasons e) in
          op_seq (log_ensure_cache_rejected (nq_symbol q) (nq_target_date q) reasons)
            (symbol_phase env q d (?r\<lparr>er_cache_rejection_reasons := reasons\<rparr>))) s1 = (Inr r, t)"
    by (simp add: ensure_locked_def Let_def s1_def flow_logs log_flow_seq)
  then obtain d where d: "capture_availability_snapshot (en_read env) (nq_symbol q) (nq_target_date q) (nq_policy q)
      (ew_warehouse (es_world s1)) = Inr d" and
    run: "(let e = evaluate_cache_eligibility (en_read env) d (nq_policy q) in
        if ce_eligible e \<and> \<not> nq_force_refresh q then cache_hit_result ?r d (nq_policy q)
        else
          let reasons = (if nq_force_refresh q \<and> ce_eligible e then [''force_refresh''] else ce_reasons e) in
          op_seq (log_ensure_cache_rejected (nq_symbol q) (nq_target_date q) reasons)
            (symbol_phase env q d (?r\<lparr>er_cache_rejection_reasons := reasons\<rparr>))) s1 = (Inr r, t)"
    by (rule snapshot_Inr)
  show ?thesis
  proof (cases "eligibility_issues (en_read env) d (nq_policy q) = [] \<and> \<not> nq_force_refresh q")
    case True
    obtain r' t' where h: "cache_hit_result ?r d (nq_policy q) s1 = (Inr r', t')" "only_logged s1 t'"
      "er_action_outcomes r' = er_action_outcomes ?r @ [cache_hit_outcome]"
      "er_actions_taken r' = er_actions_taken ?r @ [CACHE_HIT]"
      "er_symbol r' = er_symbol ?r" "er_target_date r' = er_target_date ?r" "er_status r' = READY"
      by (rule hit_effect)
    from True run have "cache_hit_result ?r d (nq_policy q) s1 = (Inr r, t)"
      by (simp add: Let_def eligible_no_issues)
    with h True d s1 show ?thesis
      by (intro hit [of d]) (simp_all add: only_logged_def new_result_def)
  next
    case False
    let ?e = "evaluate_cache_eligibility (en_read env) d (nq_policy q)"
    let ?reasons = "if nq_force_refresh q \<and> ce_eligible ?e then [''force_refresh''] else ce_reasons ?e"
    define s2 where "s2 = snd (log_ensure_cache_rejected (nq_symbol q) (nq_target_date q) ?reasons s1)"
    have s2: "only_logged s s2"
      using s1 by (simp add: s2_def flow_logs only_logged_def log_flow_def)
    from False have "\<not> (ce_eligible ?e \<and> \<not> nq_force_refresh q)"
      by (simp add: eligible_no_issues)
    with run have "symbol_phase env q d (?r\<lparr>er_cache_rejection_reasons := ?reasons\<rparr>) s2 = (Inr r, t)"
      unfolding Let_def s2_def by (simp only: if_False flow_logs log_flow_seq)
    then obtain as where as: "in_pipeline_order as"
      "flow_ended env q as s2 (?r\<lparr>er_cache_rejection_reasons := ?reasons\<rparr>) r t"
      "nothing_to_do q (?r\<lparr>er_cache_rejection_reasons := ?reasons\<rparr>) \<longrightarrow> as = []"
      by (rule symbol_phase_ends)
    have "flow_ended env q as s (?r\<lparr>er_cache_rejection_reasons := ?reasons\<rparr>) r t"
      using as(2) by (simp only: flow_ended_def ran_from [OF s2])
    with as(1,3) show ?thesis
      by (intro worked [of as ?reasons]) (simp_all add: nothing_to_do_def new_result_def)
  qed
qed

end
