(* ===== verification/Ensure_Demo.thy ===== *)
theory Ensure_Demo
  imports Ensure_Facts
begin

section \<open>Concrete flows\<close>

text \<open>
  A warehouse with a session of one symbol and its benchmark, whose score is missing, and the calls that
  write it: what the witnesses of the properties run on.  The years are small so that the kernel computes
  with them.
\<close>

definition demo_day :: py_date where
  "demo_day = \<lparr>d_year = 1, d_month = 2, d_day = 1\<rparr>"

definition demo_from :: py_date where
  "demo_from = \<lparr>d_year = 1, d_month = 1, d_day = 31\<rparr>"

definition demo_target :: string where
  "demo_target = ''0001-02-01''"

definition demo_read :: read_env where
  "demo_read =
     \<lparr>re_other_dates = (\<lambda>_. None), re_repr_text = (\<lambda>s. s), re_repr = (\<lambda>_. []),
      re_json = (\<lambda>s. if s = ''{}'' then Object_Items []
        else Object_Items [(''as_of_bar_date'', PStr demo_target),
          (''feature_status_contract_version'', PStr feature_status_contract_version)])\<rparr>"

definition demo_bar :: "string \<Rightarrow> canonical_row" where
  "demo_bar symbol =
     \<lparr>cb_symbol = symbol, cb_date = demo_day, cb_micros = 0, cb_interval = ''1D'', cb_selected_provider = None,
      cb_quality_status = Some ''pass'', cb_ingestion_run_id = None, cb_source_service_run_id = None\<rparr>"

definition demo_raw_bar :: "string \<Rightarrow> raw_row" where
  "demo_raw_bar symbol =
     \<lparr>rb_symbol = symbol, rb_date = demo_day, rb_interval = ''1D'', rb_provider = None, rb_price_basis = None,
      rb_quality_status = Some ''pass''\<rparr>"

definition demo_feature :: feature_row where
  "demo_feature =
     \<lparr>fr_symbol = ''FPT'', fr_date = demo_day, fr_as_of_bar_date = Some demo_day, fr_benchmark_as_of_bar_date = None,
      fr_source_row_count = None, fr_benchmark_row_count = None, fr_data_status = Some ''EXACT_DATE'',
      fr_build_version = None, fr_generated_at = None, fr_lineage_json = Some ''{...}'',
      fr_profile = Some ''STANDARD_120'', fr_neutral_completeness = Some ''COMPLETE'',
      fr_relative_strength_completeness = Some ''COMPLETE''\<rparr>"

definition demo_score :: score_row where
  "demo_score =
     \<lparr>sc_symbol = ''FPT'', sc_date = demo_day, sc_candidate_class = ''WATCH'', sc_lineage_json = Some ''{...}'',
      sc_policy_id = None, sc_policy_version = None, sc_policy_hash = None, sc_policy_status = None\<rparr>"

definition demo_warehouse :: warehouse where
  "demo_warehouse =
     \<lparr>wh_symbols = [\<lparr>sm_symbol = ''FPT'', sm_last_seen_at = None, sm_is_active = None, sm_exchange = None,
        sm_name = None, sm_sector = None, sm_industry = None\<rparr>],
      wh_canonical = [demo_bar ''FPT'', demo_bar ''VNINDEX''], wh_raw = [demo_raw_bar ''FPT''], wh_gaps = [],
      wh_features = [demo_feature], wh_strength = None, wh_scores = []\<rparr>"

definition demo_availability :: availability_policy where
  "demo_availability = default_availability_policy
     \<lparr>ap_lookback_days := 1, ap_min_required_bars := 1, ap_required_lineage_fields := [''as_of_bar_date'']\<rparr>"

definition demo_ensure_env :: ensure_env where
  "demo_ensure_env =
     \<lparr>en_read = demo_read, en_today = demo_day, en_token = ''me'', en_pid = 1, en_hostname = ''host'',
      en_created_at = ''now'',
      en_call = (\<lambda>c w. (Inr [], w)),
      en_score = (\<lambda>c w. (Inr 1, w\<lparr>ew_warehouse := (ew_warehouse w)\<lparr>wh_scores := [demo_score]\<rparr>\<rparr>))\<rparr>"

definition demo_ensure_state :: ensure_state where
  "demo_ensure_state =
     \<lparr>es_world = \<lparr>ew_warehouse = demo_warehouse, ew_locks = [], ew_now = 0\<rparr>, es_calls = [], es_audit = []\<rparr>"

definition demo_ensure_request :: ensure_request where
  "demo_ensure_request =
     \<lparr>eq_symbol = '' fpt '', eq_target_date = Some demo_target, eq_policy = demo_availability, eq_client = False,
      eq_force_refresh = False\<rparr>"

subsection \<open>Snapshots that can be taken\<close>

lemma capture_succeeds:
  assumes "compute_lookback_start env target (ap_lookback_days p) = Inr start"
    and "sql_date start = Inr a" and "sql_date target = Inr d"
    and "get_candidate_score_evidence env symbol target w = Inr score"
    and "get_feature_snapshot_evidence env symbol target w = Inr feature"
    and "get_relative_strength_evidence env symbol target w = Inr strength"
  obtains s where "capture_availability_snapshot env symbol target p w = Inr s"
    "ds_latest_canonical_bar_date s = map_option isoformat (max_date (map cb_date (daily_bars symbol d w)))"
    "ds_latest_benchmark_bar_date s =
       map_option isoformat (max_date (map cb_date (daily_bars (ap_benchmark p) d w)))"
    "(ds_raw_ohlcv_bars s, ds_latest_raw_bar_date s) =
       (let dates = map rb_date (filter (usable_raw_bar symbol a d) (wh_raw w)) in
        (int (length (remdups dates)), map_option isoformat (max_date dates)))"
proof -
  let ?raw = "let dates = map rb_date (filter (usable_raw_bar symbol a d) (wh_raw w)) in
    (int (length (remdups dates)), map_option isoformat (max_date dates))"
  let ?last = "\<lambda>x. map_option isoformat (max_date (map cb_date (daily_bars x d w)))"
  obtain c b n m g e where parts: "get_ohlcv_evidence env symbol target start Canonical_Ohlcv w = Inr c"
      "get_ohlcv_evidence env (ap_benchmark p) target start Benchmark_Ohlcv w = Inr b"
      "get_canonical_ohlcv_status symbol target start w = Inr n"
      "get_canonical_ohlcv_status (ap_benchmark p) target start w = Inr m"
      "count_unresolved_true_gaps symbol start target w = Inr g"
      "get_candidate_score_artifact_evidence env symbol target w = Inr e"
    by (simp add: get_ohlcv_evidence_def get_canonical_ohlcv_status_def count_unresolved_true_gaps_def
        get_candidate_score_artifact_evidence_def Let_def assms)
  have known: "get_raw_ohlcv_window_evidence symbol start target w = Inr ?raw"
      "get_latest_canonical_bar_date symbol target w = Inr (?last symbol)"
      "get_latest_canonical_bar_date (ap_benchmark p) target w = Inr (?last (ap_benchmark p))"
    by (simp_all add: get_raw_ohlcv_window_evidence_def get_latest_canonical_bar_date_def Let_def assms)
  note steps = capture_availability_snapshot_def assms parts known res_bind.simps Let_def
  obtain s where s: "capture_availability_snapshot env symbol target p w = Inr s"
    by (simp only: steps sum.inject simp_thms)
  then have "ds_latest_canonical_bar_date s = ?last symbol \<and> ds_latest_benchmark_bar_date s = ?last (ap_benchmark p) \<and>
      ds_raw_ohlcv_bars s = fst ?raw \<and> ds_latest_raw_bar_date s = snd ?raw"
    by (simp only: steps sum.inject) (hypsubst, simp)
  with that [OF s] show ?thesis by simp
qed

text \<open>What the tables of the two warehouses, with and without the score, say.\<close>

lemma demo_window_start: "compute_lookback_start demo_read demo_target (ap_lookback_days demo_availability) = Inr ''0001-01-31''"
  by code_simp

lemma demo_sql_dates:
  "sql_date ''0001-01-31'' = Inr demo_from" "sql_date demo_target = Inr demo_day"
  by code_simp+

lemma demo_decoded:
  "decode_lineage demo_read (Some ''{...}'') = Inr [(''as_of_bar_date'', PStr demo_target),
     (''feature_status_contract_version'', PStr feature_status_contract_version)]"
  by code_simp

lemma demo_profile: "profile_acceptable demo_target demo_feature"
  by code_simp

lemma demo_eligible:
  "parse_feature_snapshot_eligibility demo_read (if_given (fr_data_status demo_feature)) (fr_lineage_json demo_feature) =
     Inr \<lparr>fe_raw_status = Some ''EXACT_DATE'', fe_status = Some EXACT_DATE, fe_exclusion_reason = None\<rparr>"
  by code_simp

lemma demo_strength: "lineage_benchmark_symbol demo_read (Some ''{...}'') = Inr ''VNINDEX''"
  by code_simp

lemma demo_prices:
  "window_bars ''FPT'' demo_from demo_day demo_warehouse = [demo_bar ''FPT'']"
  "window_bars ''VNINDEX'' demo_from demo_day demo_warehouse = [demo_bar ''VNINDEX'']"
  "daily_bars ''FPT'' demo_day demo_warehouse = [demo_bar ''FPT'']"
  "daily_bars ''VNINDEX'' demo_day demo_warehouse = [demo_bar ''VNINDEX'']"
  "isoformat demo_day = demo_target" "fromisoformat (re_other_dates demo_read) demo_target = Some demo_day"
  by code_simp+

lemma demo_feature_row: "find_feature ''FPT'' demo_day (demo_warehouse\<lparr>wh_scores := rows\<rparr>) = Some demo_feature"
  by (simp add: find_feature_def demo_warehouse_def demo_feature_def)

lemma demo_feature_json: "fr_lineage_json demo_feature = Some ''{...}''"
  by (simp add: demo_feature_def)

lemma demo_same: "demo_warehouse\<lparr>wh_scores := []\<rparr> = demo_warehouse"
  by (simp add: demo_warehouse_def)

lemma demo_features_found:
  obtains f where "get_feature_snapshot_evidence demo_read ''FPT'' demo_target (demo_warehouse\<lparr>wh_scores := rows\<rparr>) = Inr f"
  using demo_eligible
  by (simp add: get_feature_snapshot_evidence_def demo_sql_dates demo_feature_row demo_feature_json demo_decoded Let_def)

lemma demo_strength_found:
  obtains st where
    "get_relative_strength_evidence demo_read ''FPT'' demo_target (demo_warehouse\<lparr>wh_scores := rows\<rparr>) = Inr st"
    "st_available st"
  by (simp add: get_relative_strength_evidence_def demo_sql_dates demo_feature_row demo_feature_json demo_strength)
    (simp add: demo_warehouse_def)

lemma demo_no_score:
  obtains e where "get_candidate_score_evidence demo_read ''FPT'' demo_target (demo_warehouse\<lparr>wh_scores := []\<rparr>) = Inr e"
    "\<not> se_exists e"
  by (simp add: get_candidate_score_evidence_def demo_sql_dates find_score_def)

text \<open>The scores do not touch what the other queries read.\<close>

lemma demo_capture:
  assumes score: "get_candidate_score_evidence demo_read ''FPT'' demo_target (demo_warehouse\<lparr>wh_scores := rows\<rparr>) = Inr e"
  obtains s where
    "capture_availability_snapshot demo_read ''FPT'' demo_target demo_availability (demo_warehouse\<lparr>wh_scores := rows\<rparr>) = Inr s"
    "ds_symbol_known s" "ds_target_date s = demo_target" "ds_benchmark_bars s = 1"
    "ds_latest_canonical_bar_date s = Some demo_target" "ds_latest_benchmark_bar_date s = Some demo_target"
    "ds_candidate_score_exists s = se_exists e" "ds_candidate_score_as_of_date s = se_as_of_bar_date e"
    "ds_lineage_fields s = lineage_field_names (se_lineage e)"
    "eligibility_issues demo_read s demo_availability =
       (if \<not> ds_candidate_score_exists s then [SCORE_MISSING]
        else if \<not> score_is_fresh demo_read s demo_availability then [SCORE_STALE] else []) @
       (if ds_candidate_score_exists s \<and> \<not> lineage_acceptable s demo_availability then [LINEAGE_INCOMPLETE] else [])"
proof -
  let ?w = "demo_warehouse\<lparr>wh_scores := rows\<rparr>" and ?a = demo_from
  obtain f where f: "get_feature_snapshot_evidence demo_read ''FPT'' demo_target ?w = Inr f"
    by (rule demo_features_found)
  obtain st where st: "get_relative_strength_evidence demo_read ''FPT'' demo_target ?w = Inr st" "st_available st"
    by (rule demo_strength_found)
  have ok: "ev_freshness f \<noteq> ''missing'' \<and> ev_quality_status f = ''EXACT_DATE'' \<and> ev_lineage_status f = ''complete'' \<and>
      ev_available f"
    using feature_evidence [OF f demo_sql_dates(2)] demo_feature_row demo_profile demo_eligible
    by (simp add: feature_eligible_def)
  have same: "window_bars x y z ?w = window_bars x y z demo_warehouse" "daily_bars x z ?w = daily_bars x z demo_warehouse"
    "wh_gaps ?w = []" for x y z
    by (simp_all add: window_bars_def daily_bars_def) (simp add: demo_warehouse_def)
  obtain s where s: "capture_availability_snapshot demo_read ''FPT'' demo_target demo_availability ?w = Inr s"
    "ds_latest_canonical_bar_date s = map_option isoformat (max_date (map cb_date (daily_bars ''FPT'' demo_day ?w)))"
    "ds_latest_benchmark_bar_date s =
       map_option isoformat (max_date (map cb_date (daily_bars (ap_benchmark demo_availability) demo_day ?w)))"
    by (rule capture_succeeds [OF demo_window_start demo_sql_dates score f st(1)])
  have policy: "ap_benchmark demo_availability = ''VNINDEX''" "ap_min_required_bars demo_availability = 1"
      "ap_acceptable_quality_statuses demo_availability = [''pass'']"
    by (simp_all add: demo_availability_def default_availability_policy_def)
  from s(1) have facts: "ds_symbol_known s = get_symbol_master_status ''FPT'' ?w \<and> ds_target_date s = demo_target \<and>
      ds_canonical_bars s = 1 \<and> ds_benchmark_bars s = 1 \<and> ds_unresolved_true_gap_count s = 0 \<and>
      ds_feature_snapshot_exists s \<and> ds_feature_row_exists s = Some True \<and> ds_feature_profile_acceptable s \<and>
      ds_feature_lineage_acceptable s \<and> ds_candidate_score_exists s = se_exists e \<and>
      ds_candidate_score_as_of_date s = se_as_of_bar_date e \<and> ds_quality_status s = Some ''pass'' \<and>
      ds_lineage_fields s = lineage_field_names (se_lineage e)"
  proof (cases rule: captured)
    case (1 start a d score feature canonical strength)
    then have known: "start = ''0001-01-31''" "a = ?a" "d = demo_day" "score = e" "feature = f" "strength = st"
      using demo_window_start demo_sql_dates score f st by simp_all
    have "ev_quality_status canonical = ''pass''"
      using ohlcv_quality [OF 1(6) 1(3)] by (simp add: known same demo_prices quality_text_def latest_bar_def demo_bar_def
        or_empty_def)
    with 1 show ?thesis
      unfolding known by (simp add: ok st(2) same demo_prices policy)
  qed
  have "lower (strip ''pass'') = ''pass''"
    by code_simp
  with facts have "eligibility_issues demo_read s demo_availability =
       (if \<not> ds_candidate_score_exists s then [SCORE_MISSING]
        else if \<not> score_is_fresh demo_read s demo_availability then [SCORE_STALE] else []) @
       (if ds_candidate_score_exists s \<and> \<not> lineage_acceptable s demo_availability then [LINEAGE_INCOMPLETE] else [])"
    by (simp add: eligibility_issues_def feature_row_exists_def benchmark_sufficient_def quality_acceptable_def policy)
  moreover have "get_symbol_master_status ''FPT'' ?w"
    by (simp add: get_symbol_master_status_def demo_warehouse_def)
  ultimately show ?thesis
    using facts s by (intro that [of s])
      (simp_all add: same demo_prices policy max_date_def, simp_all add: demo_bar_def demo_prices)
qed

subsection \<open>A flow that scores\<close>

definition demo_q :: normalized_request where
  "demo_q = \<lparr>nq_symbol = ''FPT'', nq_target_date = demo_target, nq_policy = demo_availability, nq_client = False,
     nq_force_refresh = False\<rparr>"

lemma demo_normalised: "normalise_inputs demo_ensure_env demo_ensure_request = Inr demo_q"
  by code_simp

lemma demo_q_fields [simp]:
  "nq_symbol demo_q = ''FPT''" "nq_target_date demo_q = demo_target" "nq_policy demo_q = demo_availability"
  "\<not> nq_force_refresh demo_q" "en_read demo_ensure_env = demo_read" "ap_auto_sync demo_availability"
  "ap_min_required_bars demo_availability = 1" "ap_benchmark demo_availability = ''VNINDEX''"
  by (simp_all add: demo_q_def demo_ensure_env_def demo_availability_def default_availability_policy_def)

definition demo_sees :: "warehouse \<Rightarrow> data_snapshot \<Rightarrow> bool" where
  "demo_sees w d \<longleftrightarrow> capture_availability_snapshot demo_read ''FPT'' demo_target demo_availability w = Inr d"

lemma demo_snapshot:
  "demo_sees w d \<Longrightarrow> ew_warehouse (es_world s) = w \<Longrightarrow> take_snapshot demo_ensure_env demo_q s = (Inr d, s)"
  by (simp add: demo_sees_def take_snapshot_def op_simps)

lemma demo_missing_score:
  obtains d where "demo_sees demo_warehouse d"
    "ds_symbol_known d" "eligibility_issues demo_read d demo_availability = [SCORE_MISSING]"
    "ensure_plan demo_ensure_env demo_q d = [SCORED]"
proof -
  obtain e where e: "get_candidate_score_evidence demo_read ''FPT'' demo_target (demo_warehouse\<lparr>wh_scores := []\<rparr>) = Inr e"
      "\<not> se_exists e"
    by (rule demo_no_score)
  from e(1) obtain d where d:
    "capture_availability_snapshot demo_read ''FPT'' demo_target demo_availability (demo_warehouse\<lparr>wh_scores := []\<rparr>) = Inr d"
    "ds_symbol_known d" "ds_target_date d = demo_target" "ds_benchmark_bars d = 1"
    "ds_latest_canonical_bar_date d = Some demo_target" "ds_latest_benchmark_bar_date d = Some demo_target"
    "ds_candidate_score_exists d = se_exists e" and
    issues: "eligibility_issues demo_read d demo_availability =
       (if \<not> ds_candidate_score_exists d then [SCORE_MISSING]
        else if \<not> score_is_fresh demo_read d demo_availability then [SCORE_STALE] else []) @
       (if ds_candidate_score_exists d \<and> \<not> lineage_acceptable d demo_availability then [LINEAGE_INCOMPLETE] else [])"
    by (rule demo_capture)
  from issues d(7) e(2) have "eligibility_issues demo_read d demo_availability = [SCORE_MISSING]" by simp
  moreover from this d have "ensure_plan demo_ensure_env demo_q d = [SCORED]"
    by (simp add: ensure_plan_def plan_data_availability_def Let_def price_actions_def benchmark_plan_def meets_def
        canonical_issues_def canonical_is_stale_def feature_issues_def score_issues_def demo_prices)
  ultimately show ?thesis
    using d(1,2) by (intro that [of d]) (simp_all add: demo_sees_def demo_same)
qed

definition scored_warehouse :: warehouse where
  "scored_warehouse = demo_warehouse\<lparr>wh_scores := [demo_score]\<rparr>"

lemma demo_score_found:
  "(case get_candidate_score_evidence demo_read ''FPT'' demo_target scored_warehouse of
     Inr e \<Rightarrow> se_exists e \<and> se_as_of_bar_date e = Some demo_target \<and>
       ''as_of_bar_date'' \<in> lineage_field_names (se_lineage e)
   | _ \<Rightarrow> False)"
  by code_simp

lemma demo_complete:
  obtains d where "demo_sees scored_warehouse d"
    "ds_candidate_score_as_of_date d = Some demo_target" "ds_target_date d = demo_target"
    "eligibility_issues demo_read d demo_availability = []"
proof -
  obtain e where e: "get_candidate_score_evidence demo_read ''FPT'' demo_target scored_warehouse = Inr e"
      "se_exists e" "se_as_of_bar_date e = Some demo_target" "''as_of_bar_date'' \<in> lineage_field_names (se_lineage e)"
    using demo_score_found by (auto split: sum.splits)
  from e(1) obtain d where d:
    "capture_availability_snapshot demo_read ''FPT'' demo_target demo_availability (demo_warehouse\<lparr>wh_scores := [demo_score]\<rparr>) = Inr d"
    "ds_target_date d = demo_target"
    "ds_candidate_score_exists d = se_exists e" "ds_candidate_score_as_of_date d = se_as_of_bar_date e"
    "ds_lineage_fields d = lineage_field_names (se_lineage e)" and
    issues: "eligibility_issues demo_read d demo_availability =
       (if \<not> ds_candidate_score_exists d then [SCORE_MISSING]
        else if \<not> score_is_fresh demo_read d demo_availability then [SCORE_STALE] else []) @
       (if ds_candidate_score_exists d \<and> \<not> lineage_acceptable d demo_availability then [LINEAGE_INCOMPLETE] else [])"
    unfolding scored_warehouse_def by (rule demo_capture)
  have "score_is_fresh demo_read d demo_availability"
    using d e by (simp add: score_is_fresh_def demo_prices) (simp add: demo_availability_def default_availability_policy_def)
  moreover have "lineage_acceptable d demo_availability"
    using d e by (simp add: lineage_acceptable_def demo_availability_def)
  ultimately have "eligibility_issues demo_read d demo_availability = []"
    using issues d(3) e(2) by simp
  with d e show ?thesis
    by (intro that [of d]) (simp_all add: demo_sees_def scored_warehouse_def)
qed

text \<open>The locked flow goes from phase to phase: only the last one acts.\<close>

lemma demo_flow:
  obtains r t where "ensure_data_availability demo_ensure_env demo_ensure_request demo_ensure_state = (Inr r, t)"
    "is_ready r" "er_actions_taken r = [SCORED]" "es_calls t = [Score_Universe demo_target [''FPT'']]"
proof -
  obtain d where d: "demo_sees demo_warehouse d" "ds_symbol_known d"
    "eligibility_issues demo_read d demo_availability = [SCORE_MISSING]" "ensure_plan demo_ensure_env demo_q d = [SCORED]"
    by (rule demo_missing_score)
  obtain e where e: "demo_sees scored_warehouse e" "ds_candidate_score_as_of_date e = Some demo_target"
    "ds_target_date e = demo_target" "eligibility_issues demo_read e demo_availability = []"
    by (rule demo_complete)
  have call: "en_score demo_ensure_env c w = (Inr 1, w\<lparr>ew_warehouse := (ew_warehouse w)\<lparr>wh_scores := [demo_score]\<rparr>\<rparr>)" for c w
    by (simp add: demo_ensure_env_def)
  note first = demo_snapshot [OF d(1)] and last = demo_snapshot [OF e(1)]
  have act: "\<exists>t. attempt_action demo_ensure_env demo_q SCORED s = (Inr (True, None), t) \<and>
      es_calls t = es_calls s @ [Score_Universe demo_target [''FPT'']] \<and> ew_warehouse (es_world t) = scored_warehouse"
    if "ew_warehouse (es_world s) = demo_warehouse" for s
    using that e
    by (simp add: attempt_action_def first execute_action_def Let_def logs score_universe_def call_score_def
        op_bind_def op_seq_def op_simps call log_audit_def verify_action_def scored_warehouse_def [symmetric] last
        action_postcondition_satisfied_def meets_def)
  have final: "\<exists>r' t. score_phase demo_ensure_env demo_q r s = (Inr r', t) \<and> is_ready r' \<and> er_actions_taken r' = [SCORED] \<and>
      es_calls t = es_calls s @ [Score_Universe demo_target [''FPT'']]"
    if start: "ew_warehouse (es_world s) = demo_warehouse" "er_action_outcomes r = []" "er_actions_taken r = []" for s r
  proof -
    obtain t where t: "attempt_action demo_ensure_env demo_q SCORED s = (Inr (True, None), t)"
      "es_calls t = es_calls s @ [Score_Universe demo_target [''FPT'']]" "ew_warehouse (es_world t) = scored_warehouse"
      using act [OF start(1)] by blast
    let ?r = "r\<lparr>er_actions_taken := [SCORED], er_action_outcomes := [outcome_of demo_q (SCORED, True, None)],
      er_warnings := er_warnings r\<rparr>"
    obtain r' u where u: "finalise_result demo_ensure_env ?r e demo_availability t = (Inr r', u)" "only_logged t u"
      "er_actions_taken r' = er_actions_taken ?r"
      "er_status r' = (if eligibility_issues (en_read demo_ensure_env) e demo_availability = [] \<and> \<not> any_action_failed ?r
        then READY else PARTIAL)"
      by (rule finalise_effect)
    have "\<not> any_action_failed ?r"
      by (simp add: any_action_failed_def outcome_of_def)
    with start t u e d show ?thesis
      by (simp add: score_phase_def op_bind_def first last run_actions_def op_seq_def op_simps is_ready_def only_logged_def)
  qed
  have whole: "\<exists>r' t. ensure_locked demo_ensure_env demo_q s = (Inr r', t) \<and> is_ready r' \<and> er_actions_taken r' = [SCORED] \<and>
      es_calls t = es_calls s @ [Score_Universe demo_target [''FPT'']]"
    if start: "ew_warehouse (es_world s) = demo_warehouse" for s
  proof -
    let ?reasons = "ce_reasons (evaluate_cache_eligibility demo_read d demo_availability)"
    let ?r = "(new_result ''FPT'' demo_target FAILED)\<lparr>er_cache_rejection_reasons := ?reasons\<rparr>"
    define s1 where "s1 = snd (log_ensure_started ''FPT'' demo_target s)"
    define s2 where "s2 = snd (log_ensure_cache_rejected ''FPT'' demo_target ?reasons s1)"
    have s2: "ew_warehouse (es_world s1) = demo_warehouse" "ew_warehouse (es_world s2) = demo_warehouse"
      "es_calls s2 = es_calls s"
      using start by (simp_all add: s1_def s2_def flow_logs log_flow_def)
    have rejected: "ensure_locked demo_ensure_env demo_q s = symbol_phase demo_ensure_env demo_q d ?r s2"
      using s2(1) d(3) by (simp add: ensure_locked_def Let_def s1_def s2_def flow_logs log_flow_seq op_bind_def first
        eligible_no_issues)
    have "symbol_phase demo_ensure_env demo_q d ?r s2 = score_phase demo_ensure_env demo_q ?r s2"
      using d s2(2) by (simp add: symbol_phase_def provision_phase_def feature_phase_def Let_def run_actions_def
        op_bind_def op_simps first succeeded_any_def provision_order_def new_result_def)
    with rejected final [OF s2(2), of ?r] s2(3) show ?thesis
      by (simp add: new_result_def)
  qed
  define u where "u = snd (acquire_flow demo_ensure_env demo_q demo_ensure_state)"
  have "acquire_flow demo_ensure_env demo_q demo_ensure_state = (Inr True, u)"
    "ew_warehouse (es_world u) = demo_warehouse" "es_calls u = []"
    by (simp_all add: u_def acquire_flow_def acquire_lock_def create_lock_def demo_ensure_state_def)
  moreover obtain r t where "ensure_locked demo_ensure_env demo_q u = (Inr r, t)" "is_ready r" "er_actions_taken r = [SCORED]"
      "es_calls t = es_calls u @ [Score_Universe demo_target [''FPT'']]"
    using whole [OF calculation(2)] by blast
  ultimately show ?thesis
    by (intro that [of r "release_flow demo_ensure_env demo_q t"])
      (simp_all add: ensure_data_availability_def demo_normalised op_simps op_bind_def op_finally_def release_flow_def)
qed

end
