(* ===== verification/Ensure_Props.thy ===== *)
theory Ensure_Props
  imports Ensure_Demo
begin

section \<open>Properties of the readiness service\<close>

lemma ensured:
  assumes "ensure_data_availability env request s = (x, t)" and "normalise_inputs env request = Inr q"
  obtains (contended) "\<not> fst (acquire_lock (flow_lock q) (flow_metadata env q) stale_threshold (ew_now (es_world s))
      (ew_locks (es_world s)))" "x = Inr (contended_result q)" "t = s"
  | (locked) u v where "ensure_locked env q u = (x, v)" "t = release_flow env q v"
      "es_calls u = es_calls s" "ew_warehouse (es_world u) = ew_warehouse (es_world s)"
proof (cases "acquire_lock (flow_lock q) (flow_metadata env q) stale_threshold (ew_now (es_world s))
    (ew_locks (es_world s))")
  case (Pair ok d)
  show ?thesis
  proof (cases ok)
    case True
    let ?u = "s\<lparr>es_world := (es_world s)\<lparr>ew_locks := d\<rparr>\<rparr>"
    obtain y v where run: "ensure_locked env q ?u = (y, v)" by (rule prod.exhaust)
    with assms Pair True have "x = y" "t = release_flow env q v"
      by (simp_all add: ensure_data_availability_def op_simps op_bind_def acquire_flow_def op_finally_def)
    with run show ?thesis by (intro locked [of ?u v]) simp_all
  next
    case False
    with Pair have "d = ew_locks (es_world s)"
      by (auto elim!: acquire_lock_cases)
    with assms Pair False show ?thesis
      by (intro contended) (auto simp: ensure_data_availability_def op_simps op_bind_def acquire_flow_def)
  qed
qed

lemma released_same [simp]:
  "es_calls (release_flow env q v) = es_calls v" "ew_warehouse (es_world (release_flow env q v)) = ew_warehouse (es_world v)"
  by (simp_all add: release_flow_def)

lemma ensured_Inr:
  assumes "ensure_data_availability env request s = (Inr r, t)"
  obtains q where "normalise_inputs env request = Inr q"
  using assms by (cases "normalise_inputs env request") (auto simp: ensure_data_availability_def op_simps)

lemma outcome_status: "ao_status (outcome_of q run) = (if snd (snd run) = None then SUCCESS else FAILURE)"
  by (simp add: outcome_of_def split: prod.split)

lemma no_hit_in_pipeline: "in_pipeline_order as \<Longrightarrow> CACHE_HIT \<notin> set as"
proof
  assume "in_pipeline_order as" and "CACHE_HIT \<in> set as"
  then have "CACHE_HIT \<in> set (filter (\<lambda>a. a \<in> set as) pipeline)"
    unfolding in_pipeline_order_def by (rule subst)
  then have "CACHE_HIT \<in> set pipeline" by simp
  then show False by (simp add: pipeline_def)
qed

lemma ended_runs:
  assumes "flow_ended env q as s r r' t"
  obtains runs where "map fst runs = as" "es_calls t = es_calls s @ run_calls env q runs"
    "er_action_outcomes r' = er_action_outcomes r @ map (outcome_of q) runs"
    "er_actions_taken r' = er_actions_taken r @ map fst (filter (\<lambda>(a, timed, e). e = None) runs)"
proof -
  from assms obtain u r1 where ran: "ran env q as s r u r1" and same: "only_logged u t"
      "er_action_outcomes r' = er_action_outcomes r1" "er_actions_taken r' = er_actions_taken r1"
    unfolding flow_ended_def by (elim exE conjE)
  from ran obtain runs where "map fst runs = as" "es_calls u = es_calls s @ run_calls env q runs"
      "er_action_outcomes r1 = er_action_outcomes r @ map (outcome_of q) runs"
      "er_actions_taken r1 = er_actions_taken r @ map fst (filter (\<lambda>(a, timed, e). e = None) runs)"
    unfolding ran_def by (elim exE conjE)
  with same that show ?thesis by (simp add: only_logged_def)
qed

text \<open>A ready answer: the snapshot of the warehouse it leaves is eligible, and no action failed.\<close>

lemma ready_capture:
  assumes "ensure_data_availability env request s = (Inr r, t)" and "is_ready r"
  obtains q d where "normalise_inputs env request = Inr q" "er_symbol r = nq_symbol q"
    "er_target_date r = nq_target_date q"
    "capture_availability_snapshot (en_read env) (nq_symbol q) (nq_target_date q) (nq_policy q)
       (ew_warehouse (es_world t)) = Inr d"
    "eligibility_issues (en_read env) d (nq_policy q) = []" "\<not> any_action_failed r"
proof -
  obtain q where q: "normalise_inputs env request = Inr q" by (rule ensured_Inr [OF assms(1)])
  from assms(1) q show ?thesis
  proof (cases rule: ensured)
    case contended
    with assms(2) show ?thesis by (simp add: is_ready_def contended_result_def new_result_def)
  next
    case (locked u v)
    from locked(1) show ?thesis
    proof (cases rule: locked_flow)
      case (hit d)
      with q locked show ?thesis
        by (intro that [of q d]) (simp_all add: any_action_failed_def cache_hit_outcome_def)
    next
      case (worked as reasons)
      from worked(3) obtain d w r1 where ran: "ran env q as u
          ((new_result (nq_symbol q) (nq_target_date q) FAILED)\<lparr>er_cache_rejection_reasons := reasons\<rparr>) w r1"
        and d: "capture_availability_snapshot (en_read env) (nq_symbol q) (nq_target_date q) (nq_policy q)
          (ew_warehouse (es_world v)) = Inr d"
        and same: "er_action_outcomes r = er_action_outcomes r1" "er_symbol r = er_symbol r1"
          "er_target_date r = er_target_date r1"
        and ready: "er_status r = READY \<longrightarrow> eligibility_issues (en_read env) d (nq_policy q) = [] \<and> \<not> any_action_failed r1"
        unfolding flow_ended_def by (elim exE conjE)
      from ran have "er_symbol r1 = nq_symbol q" "er_target_date r1 = nq_target_date q"
        unfolding ran_def by (auto simp: new_result_def)
      with q d same ready assms(2) locked(2) show ?thesis
        by (intro that [of q d]) (simp_all add: is_ready_def any_action_failed_def)
    qed
  qed
qed

lemma none_failed: "\<not> any_action_failed r \<longleftrightarrow> list_all (\<lambda>x. ao_status x = SUCCESS) (er_action_outcomes r)"
proof -
  have "(ao_status x \<noteq> FAILURE) = (ao_status x = SUCCESS)" for x
    by (cases "ao_status x") simp_all
  then show ?thesis unfolding any_action_failed_def list_all_iff list_ex_iff by blast
qed

text \<open>C15: Ready data are there: when the flow answers READY, the warehouse it leaves holds, for the symbol and the
  session, a history of the required length without unresolved gaps and of acceptable quality, the history of the
  benchmark where it is required, a complete feature snapshot with its relative strength, and a score no older
  than allowed with the required lineage; and no action of the flow failed.\<close>
theorem ready_data_are_there:
  assumes "ensure_data_availability env request s = (Inr r, t)" and "is_ready r"
  shows "\<exists>q. normalise_inputs env request = Inr q \<and> er_symbol r = nq_symbol q \<and> er_target_date r = nq_target_date q \<and>
     warehouse_ready (en_read env) (nq_symbol q) (nq_target_date q) (nq_policy q) (ew_warehouse (es_world t)) \<and>
     list_all (\<lambda>x. ao_status x = SUCCESS) (er_action_outcomes r)"
proof -
  from assms obtain q d where "normalise_inputs env request = Inr q" "er_symbol r = nq_symbol q"
    "er_target_date r = nq_target_date q" and
    d: "capture_availability_snapshot (en_read env) (nq_symbol q) (nq_target_date q) (nq_policy q)
       (ew_warehouse (es_world t)) = Inr d"
    "eligibility_issues (en_read env) d (nq_policy q) = []" and "\<not> any_action_failed r"
    by (rule ready_capture)
  with capture_eligible_iff [OF d(1)] none_failed [of r] show ?thesis by blast
qed

lemma ready_data_are_there_witness:
  "\<exists>r t. ensure_data_availability demo_ensure_env demo_ensure_request demo_ensure_state = (Inr r, t) \<and>
     er_actions_taken r = [SCORED] \<and> warehouse_ready demo_read ''FPT'' demo_target demo_availability (ew_warehouse (es_world t))"
proof -
  obtain r t where "ensure_data_availability demo_ensure_env demo_ensure_request demo_ensure_state = (Inr r, t)"
    "is_ready r" "er_actions_taken r = [SCORED]" by (rule demo_flow)
  with ready_data_are_there [OF this(1,2)] show ?thesis by (auto simp: demo_normalised)
qed

text \<open>C16: A flow does what it tells: its outcomes are actions of the pipeline, each at most once and in order; those
  taken are the ones that succeeded; the calls it made to the synchronisations and builds are those of its
  outcomes, with this symbol, this benchmark and this window, and none when the policy forbids
  synchronisation; a cache hit, which is never given to a forced refresh, calls nothing.\<close>
theorem flow_does_what_it_tells:
  assumes "ensure_data_availability env request s = (Inr r, t)"
  shows "\<exists>q. normalise_inputs env request = Inr q \<and>
     (if er_actions_taken r = [CACHE_HIT] then es_calls t = es_calls s \<and> \<not> nq_force_refresh q
      else in_pipeline_order (map ao_action (er_action_outcomes r)) \<and>
        er_actions_taken r = map ao_action (filter (\<lambda>x. ao_status x = SUCCESS) (er_action_outcomes r)) \<and>
        es_calls t = es_calls s @
          concat (map (\<lambda>x. attempt_calls env q (ao_action x) (ao_timed x)) (er_action_outcomes r)) \<and>
        (ap_auto_sync (nq_policy q) \<or> er_action_outcomes r = []))"
proof -
  obtain q where q: "normalise_inputs env request = Inr q" by (rule ensured_Inr [OF assms])
  have none: "in_pipeline_order []"
    by (simp add: in_pipeline_order_def)
  from assms q show ?thesis
  proof (cases rule: ensured)
    case contended
    with q none show ?thesis by (simp add: contended_result_def new_result_def)
  next
    case (locked u v)
    from locked(1) show ?thesis
    proof (cases rule: locked_flow)
      case (hit d)
      with q locked show ?thesis by (simp add: only_logged_def)
    next
      case (worked as reasons)
      let ?r = "(new_result (nq_symbol q) (nq_target_date q) FAILED)\<lparr>er_cache_rejection_reasons := reasons\<rparr>"
      obtain runs where run: "map fst runs = as" "es_calls v = es_calls u @ run_calls env q runs"
          "er_action_outcomes r = er_action_outcomes ?r @ map (outcome_of q) runs"
          "er_actions_taken r = er_actions_taken ?r @ map fst (filter (\<lambda>(a, timed, e). e = None) runs)"
        by (rule ended_runs [OF worked(3)])
      then have runs: "map fst runs = as" "es_calls v = es_calls u @ run_calls env q runs"
          "er_action_outcomes r = map (outcome_of q) runs"
          "er_actions_taken r = map fst (filter (\<lambda>(a, timed, e). e = None) runs)"
        by (simp_all add: new_result_def)
      have act: "map ao_action (er_action_outcomes r) = as"
        using runs(1) unfolding runs(3) by (simp add: outcome_of_def split_def comp_def)
      have taken: "er_actions_taken r = map ao_action (filter (\<lambda>x. ao_status x = SUCCESS) (er_action_outcomes r))"
        unfolding runs(3,4) by (simp add: filter_map comp_def outcome_of_def split_def)
      have calls: "run_calls env q runs =
          concat (map (\<lambda>x. attempt_calls env q (ao_action x) (ao_timed x)) (er_action_outcomes r))"
        unfolding runs(3) run_calls_def by (simp add: outcome_of_def split_def comp_def)
      have "set (er_actions_taken r) \<subseteq> set as"
        unfolding runs(4) runs(1) [symmetric] by auto
      moreover have "CACHE_HIT \<notin> set as"
        using worked(1) by (rule no_hit_in_pipeline)
      ultimately have "er_actions_taken r \<noteq> [CACHE_HIT]" by auto
      moreover have "ap_auto_sync (nq_policy q) \<or> er_action_outcomes r = []"
        using worked(2) act by auto
      ultimately show ?thesis
        using q worked(1) act taken calls runs(2) locked(2,3) by simp
    qed
  qed
qed

lemma flow_does_what_it_tells_witness:
  "\<exists>r t. ensure_data_availability demo_ensure_env demo_ensure_request demo_ensure_state = (Inr r, t) \<and>
     map ao_action (filter (\<lambda>x. ao_status x = SUCCESS) (er_action_outcomes r)) = [SCORED] \<and>
     es_calls t = concat (map (\<lambda>x. attempt_calls demo_ensure_env demo_q (ao_action x) (ao_timed x)) (er_action_outcomes r))"
proof -
  obtain r t where run: "ensure_data_availability demo_ensure_env demo_ensure_request demo_ensure_state = (Inr r, t)"
    "er_actions_taken r = [SCORED]" by (rule demo_flow)
  have "es_calls demo_ensure_state = []"
    by (simp add: demo_ensure_state_def)
  with flow_does_what_it_tells [OF run(1)] run show ?thesis by (simp add: demo_normalised)
qed

text \<open>Every issue is met by some step of the plan.\<close>

lemma every_issue_planned:
  "set issues \<noteq> {} \<Longrightarrow> \<not> meets issues canonical_issues \<Longrightarrow> \<not> meets issues feature_issues \<Longrightarrow>
   \<not> meets issues score_issues \<Longrightarrow> BENCHMARK_HISTORY_INSUFFICIENT \<in> set issues"
proof -
  assume some: "set issues \<noteq> {}" and none: "\<not> meets issues canonical_issues" "\<not> meets issues feature_issues"
    "\<not> meets issues score_issues"
  from some obtain i where i: "i \<in> set issues" by (cases issues) auto
  then have "i \<notin> set canonical_issues" "i \<notin> set feature_issues" "i \<notin> set score_issues"
    using none by (auto simp: meets_def list_ex_iff)
  then have "i = BENCHMARK_HISTORY_INSUFFICIENT"
    by (cases i) (simp_all add: canonical_issues_def feature_issues_def score_issues_def)
  with i show ?thesis by simp
qed

text \<open>C19: Every issue has its action: the plan is empty exactly when the snapshot has no issue or the policy forbids
  synchronisation.\<close>
theorem plan_answers_issues:
  "plan_data_availability env s p \<noteq> [] \<longleftrightarrow> eligibility_issues env s p \<noteq> [] \<and> ap_auto_sync p"
proof -
  have "plan_data_availability env s p \<noteq> []" if issues: "eligibility_issues env s p \<noteq> []" and sync: "ap_auto_sync p"
  proof
    let ?issues = "eligibility_issues env s p"
    assume none: "plan_data_availability env s p = []"
    have bars: "price_actions env s p @ benchmark_plan env s p = []"
      and rest: "\<not> meets ?issues feature_issues" "\<not> meets ?issues score_issues"
      using none issues sync unfolding plan_data_availability_def Let_def by (simp_all split: if_splits)
    have "\<not> meets ?issues canonical_issues"
      using bars sync by (auto simp: price_actions_def Let_def)
    with rest issues have "BENCHMARK_HISTORY_INSUFFICIENT \<in> set ?issues"
      by (intro every_issue_planned) simp_all
    then have "\<not> benchmark_sufficient s p"
      by (auto simp: eligibility_issues_def split: if_splits)
    with bars sync show False
      by (simp add: benchmark_plan_def benchmark_sufficient_def)
  qed
  moreover have "plan_data_availability env s p = []" if "eligibility_issues env s p = []"
    using that by (simp add: plan_data_availability_def)
  ultimately show ?thesis
    using no_sync_no_plan by blast
qed

text \<open>A locked flow on an eligible snapshot, not forced, only logs.\<close>

lemma eligible_is_hit:
  assumes "capture_availability_snapshot (en_read env) (nq_symbol q) (nq_target_date q) (nq_policy q)
      (ew_warehouse (es_world s)) = Inr d"
    and "eligibility_issues (en_read env) d (nq_policy q) = []" and "\<not> nq_force_refresh q"
  obtains r t where "ensure_locked env q s = (Inr r, t)" "only_logged s t" "er_status r = READY"
    "er_actions_taken r = [CACHE_HIT]"
proof -
  let ?r = "new_result (nq_symbol q) (nq_target_date q) FAILED"
  define s1 where "s1 = snd (log_ensure_started (nq_symbol q) (nq_target_date q) s)"
  have s1: "only_logged s s1"
    by (simp add: s1_def flow_logs log_flow_only)
  then have "take_snapshot env q s1 = (Inr d, s1)"
    using assms(1) by (simp add: take_snapshot_def op_simps only_logged_def)
  with assms(2,3) have "ensure_locked env q s = cache_hit_result ?r d (nq_policy q) s1"
    by (simp add: ensure_locked_def Let_def s1_def flow_logs log_flow_seq op_bind_def eligible_no_issues)
  moreover obtain r' t' where "cache_hit_result ?r d (nq_policy q) s1 = (Inr r', t')" "only_logged s1 t'"
      "er_actions_taken r' = er_actions_taken ?r @ [CACHE_HIT]" "er_status r' = READY"
    by (rule hit_effect)
  ultimately show ?thesis
    using s1 by (intro that [of r' t']) (simp_all add: only_logged_def new_result_def)
qed

text \<open>C20: Being ready lasts: asking again for data that were ready makes no call and leaves the warehouse alone,
  and the answer is a cache hit unless another flow holds the lock.\<close>
theorem ready_again_is_a_hit:
  assumes "ensure_data_availability env request s = (Inr r, t)" and "is_ready r"
  shows "\<exists>r' u. ensure_data_availability (env\<lparr>en_token := token\<rparr>) (request\<lparr>eq_force_refresh := False\<rparr>) t = (Inr r', u) \<and>
     es_calls u = es_calls t \<and> ew_warehouse (es_world u) = ew_warehouse (es_world t) \<and>
     (er_failure_code r' = Some ''LOCK_CONTENDED'' \<or> is_ready r' \<and> er_actions_taken r' = [CACHE_HIT])"
proof -
  let ?env = "env\<lparr>en_token := token\<rparr>" and ?request = "request\<lparr>eq_force_refresh := False\<rparr>"
  from assms obtain q0 d where q0: "normalise_inputs env request = Inr q0" and
    d: "capture_availability_snapshot (en_read env) (nq_symbol q0) (nq_target_date q0) (nq_policy q0)
       (ew_warehouse (es_world t)) = Inr d"
    "eligibility_issues (en_read env) d (nq_policy q0) = []"
    by (rule ready_capture)
  let ?q = "q0\<lparr>nq_force_refresh := False\<rparr>"
  have q: "normalise_inputs ?env ?request = Inr ?q"
    using q0 by (auto simp: normalise_inputs_def res_bind_Inr_iff)
  obtain x u where run: "ensure_data_availability ?env ?request t = (x, u)" by (rule prod.exhaust)
  from run q show ?thesis
  proof (cases rule: ensured)
    case contended
    with run show ?thesis by (simp add: contended_result_def)
  next
    case (locked v w)
    from d locked(4) obtain r' w' where hit: "ensure_locked ?env ?q v = (Inr r', w')" "only_logged v w'"
      "er_status r' = READY" "er_actions_taken r' = [CACHE_HIT]"
      by (elim eligible_is_hit [of ?env ?q v d, rotated -1]) simp_all
    with locked(1) have "x = Inr r'" "w = w'" by simp_all
    with run hit locked show ?thesis by (simp add: only_logged_def is_ready_def)
  qed
qed

lemma ready_again_is_a_hit_witness:
  "\<exists>t r u. ensure_data_availability (demo_ensure_env\<lparr>en_token := ''you''\<rparr>) (demo_ensure_request\<lparr>eq_force_refresh := False\<rparr>) t =
     (Inr r, u) \<and> es_calls u = [Score_Universe demo_target [''FPT'']]"
proof -
  obtain r t where run: "ensure_data_availability demo_ensure_env demo_ensure_request demo_ensure_state = (Inr r, t)"
    "is_ready r" "es_calls t = [Score_Universe demo_target [''FPT'']]" by (rule demo_flow)
  from ready_again_is_a_hit [OF run(1,2), of "''you''"] run(3) show ?thesis by auto
qed

lemma demo_token: "en_token demo_ensure_env = ''me''"
  by (simp add: demo_ensure_env_def)

text \<open>C18: A flow gives its lock back: one that finds the lock taken changes nothing and tells so; after any other, whether
  it returned or raised, the lock file is gone or somebody else's.\<close>
theorem flow_gives_back_its_lock:
  assumes "ensure_data_availability env request s = (x, t)" and "normalise_inputs env request = Inr q"
  shows "if fst (acquire_lock (flow_lock q) (flow_metadata env q) stale_threshold (ew_now (es_world s)) (ew_locks (es_world s)))
    then (case map_of (ew_locks (es_world t)) (flow_lock q) of
        None \<Rightarrow> True | Some f \<Rightarrow> owner_of f \<noteq> Some (en_token env))
    else t = s \<and> x = Inr (contended_result q)"
  using assms
proof (cases rule: ensured)
  case contended
  then show ?thesis by simp
next
  case (locked u v)
  have "case map_of (ew_locks (es_world t)) (flow_lock q) of None \<Rightarrow> True | Some f \<Rightarrow> owner_of f \<noteq> Some (en_token env)"
    unfolding locked(2) by (simp add: release_flow_def release_lock_def map_of_dict_del split: option.split)
  moreover have "t = s \<and> x = Inr (contended_result q)" if "\<not> fst (acquire_lock (flow_lock q) (flow_metadata env q)
      stale_threshold (ew_now (es_world s)) (ew_locks (es_world s)))"
    using assms that by (auto simp: ensure_data_availability_def op_simps op_bind_def acquire_flow_def
      elim!: acquire_lock_cases split: prod.splits)
  ultimately show ?thesis by simp
qed

lemma flow_gives_back_its_lock_witness:
  "\<exists>r t. ensure_data_availability demo_ensure_env demo_ensure_request demo_ensure_state = (Inr r, t) \<and>
     (case map_of (ew_locks (es_world t)) (flow_lock demo_q) of
        None \<Rightarrow> True | Some f \<Rightarrow> owner_of f \<noteq> Some ''me'')"
proof -
  obtain r t where run: "ensure_data_availability demo_ensure_env demo_ensure_request demo_ensure_state = (Inr r, t)"
    by (rule demo_flow)
  have "fst (acquire_lock (flow_lock demo_q) (flow_metadata demo_ensure_env demo_q) stale_threshold
      (ew_now (es_world demo_ensure_state)) (ew_locks (es_world demo_ensure_state)))"
    by (simp add: acquire_lock_def create_lock_def demo_ensure_state_def)
  with flow_gives_back_its_lock [OF run demo_normalised] run show ?thesis
    by (simp add: demo_token split: option.splits)
qed

text \<open>C33: A short history is told as a missing session: when the provider's bars reach the session but are fewer than
  required, the verification of the synchronisation says that they did not reach it and that the provider
  returned no data for it.\<close>
theorem short_history_is_misreported:
  assumes "take_snapshot env q s = (Inr d, s)" and "ds_latest_raw_bar_date d = Some (nq_target_date q)"
    and "ds_raw_ohlcv_bars d < ap_min_required_bars (nq_policy q)"
  shows "verify_action env q OHLCV_SYNCED s =
    (Inl (raised_runtime_error (''OHLCV did not reach '' @ nq_target_date q @ '': latest available raw bar is '' @
       nq_target_date q @ '' ('' @ render_int (ds_raw_ohlcv_bars d) @ '' bars). The provider returned no data '' @
       ''for the requested session (provider unavailable or session not yet published).'')), s)"
proof -
  have c: "capture_availability_snapshot (en_read env) (nq_symbol q) (nq_target_date q) (nq_policy q)
      (ew_warehouse (es_world s)) = Inr d"
    using assms(1) by (simp add: take_snapshot_def op_simps)
  then have t: "ds_target_date d = nq_target_date q" and "\<exists>b. sql_date (nq_target_date q) = Inr b"
    by (auto elim: captured)
  then have "nq_target_date q \<noteq> []"
    by (auto simp: sql_date_def fromisoformat_def iso_form_def)
  then have "or_none (ds_latest_raw_bar_date d) = nq_target_date q"
    using assms(2) by (simp add: or_none_def or_empty_def)
  then have "postcondition_failure_detail q d OHLCV_SYNCED =
      ''OHLCV did not reach '' @ nq_target_date q @ '': latest available raw bar is '' @
       nq_target_date q @ '' ('' @ render_int (ds_raw_ohlcv_bars d) @ '' bars). The provider returned no data '' @
       ''for the requested session (provider unavailable or session not yet published).''"
    by (simp only: postcondition_failure_detail_def Let_def ensure_action.case t)
  moreover have "action_postcondition_satisfied env q d OHLCV_SYNCED (ew_warehouse (es_world s)) = Inr False"
    using assms(3) by (simp add: action_postcondition_satisfied_def Let_def raw_window_ready_def)
  ultimately show ?thesis
    using assms(1) by (simp only: verify_action_def op_bind_def op_try_apply op_guard_apply prod.case sum.case if_True
      simp_thms)
qed

definition demo_longer :: normalized_request where
  "demo_longer = demo_q\<lparr>nq_policy := demo_availability\<lparr>ap_min_required_bars := 2\<rparr>\<rparr>"

lemma demo_short:
  obtains d where "take_snapshot demo_ensure_env demo_longer demo_ensure_state = (Inr d, demo_ensure_state)"
    "ds_latest_raw_bar_date d = Some demo_target" "ds_raw_ohlcv_bars d = 1"
proof -
  obtain e where e: "get_candidate_score_evidence demo_read ''FPT'' demo_target demo_warehouse = Inr e"
    using demo_no_score unfolding demo_same by blast
  obtain f where f: "get_feature_snapshot_evidence demo_read ''FPT'' demo_target demo_warehouse = Inr f"
    using demo_features_found [of "[]"] unfolding demo_same by blast
  obtain st where st: "get_relative_strength_evidence demo_read ''FPT'' demo_target demo_warehouse = Inr st"
    using demo_strength_found [of "[]"] unfolding demo_same by blast
  let ?p = "demo_availability\<lparr>ap_min_required_bars := 2\<rparr>"
  have "compute_lookback_start demo_read demo_target (ap_lookback_days ?p) = Inr ''0001-01-31''"
    using demo_window_start by simp
  then obtain d where d: "capture_availability_snapshot demo_read ''FPT'' demo_target ?p demo_warehouse = Inr d"
    "(ds_raw_ohlcv_bars d, ds_latest_raw_bar_date d) =
       (let dates = map rb_date (filter (usable_raw_bar ''FPT'' demo_from demo_day) (wh_raw demo_warehouse)) in
        (int (length (remdups dates)), map_option isoformat (max_date dates)))"
    by (rule capture_succeeds [OF _ demo_sql_dates e f st])
  have "filter (usable_raw_bar ''FPT'' demo_from demo_day) (wh_raw demo_warehouse) = [demo_raw_bar ''FPT'']"
    by code_simp
  with d demo_prices(5) show ?thesis
    by (intro that [of d]) (simp_all add: take_snapshot_def op_simps demo_longer_def demo_ensure_state_def max_date_def
      demo_raw_bar_def)
qed

lemma short_history_is_misreported_witness:
  "\<exists>e. verify_action demo_ensure_env demo_longer OHLCV_SYNCED demo_ensure_state = (Inl e, demo_ensure_state) \<and>
     pe_text e = ''OHLCV did not reach 0001-02-01: latest available raw bar is 0001-02-01 (1 bars). '' @
       ''The provider returned no data for the requested session '' @
       ''(provider unavailable or session not yet published).''"
proof -
  obtain d where d: "take_snapshot demo_ensure_env demo_longer demo_ensure_state = (Inr d, demo_ensure_state)"
    "ds_latest_raw_bar_date d = Some demo_target" "ds_raw_ohlcv_bars d = 1"
    by (rule demo_short)
  have q: "nq_target_date demo_longer = demo_target" "ap_min_required_bars (nq_policy demo_longer) = 2"
    by (simp_all add: demo_longer_def)
  have "render_int 1 = ''1''" by code_simp
  with short_history_is_misreported [OF d(1)] d q show ?thesis
    by (simp add: raised_runtime_error_def demo_target_def)
qed

text \<open>C17: A young lock is exclusive: whatever the flows do, one that holds a lock finds its own file there until 300
  seconds have passed since it acquired it, and two flows that hold the same lock acquired it at least 300
  seconds apart.\<close>
theorem young_lock_is_exclusive:
  assumes "reach lock_start lock_step s" and "holds_lock s t p a"
  shows "(own_file s t p a \<or> a + stale_threshold \<le> ls_now s) \<and>
    (\<forall>u b. holds_lock s u p b \<and> u \<noteq> t \<longrightarrow> stale_threshold \<le> \<bar>a - b\<bar>)"
proof -
  have inv: "lock_inv s"
    using assms(1) by (rule ensure_lock.reach_inv)
  with assms(2) show ?thesis
    using holder_facts(2) holders_apart by (metis (full_types))
qed

text \<open>Two flows that hold the same lock: the second one took it over while the first was still at work.\<close>

definition demo_lock_owner :: "string \<Rightarrow> lock_metadata" where
  "demo_lock_owner token = flow_metadata (demo_ensure_env\<lparr>en_token := token\<rparr>) demo_q"

definition demo_shared :: lock_system where
  "demo_shared =
     \<lparr>ls_now = stale_threshold,
      ls_dir = [(''lock'', \<lparr>lf_metadata = Some (demo_lock_owner ''you''), lf_mtime = stale_threshold\<rparr>)],
      ls_owners = [(''me'', \<lparr>lo_path = ''lock'', lo_acquired = True, lo_since = 0\<rparr>),
        (''you'', \<lparr>lo_path = ''lock'', lo_acquired = True, lo_since = stale_threshold\<rparr>)]\<rparr>"

lemma demo_shared_reached: "reach lock_start lock_step demo_shared"
proof -
  let ?mine = "[(''lock'', \<lparr>lf_metadata = Some (demo_lock_owner ''me''), lf_mtime = 0\<rparr>)]"
  let ?owner = "\<lambda>held since. \<lparr>lo_path = ''lock'', lo_acquired = held, lo_since = since\<rparr>"
  let ?s = "\<lambda>now dir owners. \<lparr>ls_now = now, ls_dir = dir, ls_owners = owners\<rparr>"
  have token: "lm_owner_token (demo_lock_owner x) = x" for x
    by (simp add: demo_lock_owner_def flow_metadata_def)
  have "reach lock_start lock_step (?s 0 [] [])"
    by (rule reach_init) (simp add: lock_start_def)
  moreover have "lock_step (?s 0 [] []) (?s 0 [] [(''me'', ?owner False 0)])"
    using lock_new [of "?s 0 [] []" "''me''" "''lock''"] by simp
  moreover have "lock_step (?s 0 [] [(''me'', ?owner False 0)]) (?s 0 ?mine [(''me'', ?owner True 0)])"
    using lock_acquire [of "?s 0 [] [(''me'', ?owner False 0)]" "demo_lock_owner ''me''" "?owner False 0" True ?mine]
    by (simp add: token acquire_lock_def create_lock_def)
  moreover have "lock_step (?s 0 ?mine [(''me'', ?owner True 0)]) (?s stale_threshold ?mine [(''me'', ?owner True 0)])"
    using lock_tick [of stale_threshold "?s 0 ?mine [(''me'', ?owner True 0)]"] by (simp add: stale_threshold_def)
  moreover have "lock_step (?s stale_threshold ?mine [(''me'', ?owner True 0)])
      (?s stale_threshold ?mine [(''me'', ?owner True 0), (''you'', ?owner False 0)])"
    using lock_new [of "?s stale_threshold ?mine [(''me'', ?owner True 0)]" "''you''" "''lock''"]
    by (simp add: owner_of_def token)
  moreover have "lock_step (?s stale_threshold ?mine [(''me'', ?owner True 0), (''you'', ?owner False 0)]) demo_shared"
    using lock_acquire [of "?s stale_threshold ?mine [(''me'', ?owner True 0), (''you'', ?owner False 0)]"
        "demo_lock_owner ''you''" "?owner False 0" True "ls_dir demo_shared"]
    by (simp add: token acquire_lock_def create_lock_def lock_is_stale_def dict_del_def stale_threshold_def demo_shared_def)
  ultimately show ?thesis by (meson reach_step)
qed

lemma young_lock_is_exclusive_witness:
  "holds_lock demo_shared ''me'' ''lock'' 0 \<and> holds_lock demo_shared ''you'' ''lock'' stale_threshold \<and>
   0 + stale_threshold \<le> ls_now demo_shared"
proof -
  have me: "holds_lock demo_shared ''me'' ''lock'' 0"
    by (simp add: holds_lock_def demo_shared_def)
  moreover have "holds_lock demo_shared ''you'' ''lock'' stale_threshold"
    by (simp add: holds_lock_def demo_shared_def)
  moreover have "\<not> own_file demo_shared ''me'' ''lock'' 0"
    by (simp add: own_file_def demo_shared_def stale_threshold_def)
  ultimately show ?thesis
    using young_lock_is_exclusive [OF demo_shared_reached me] by blast
qed

end
