(* ===== verification/Spec2Isabelle.thy ===== *)
theory Spec2Isabelle
  imports Goal_Facts Queue_Props Store_Props Worker_Props Router_Props Redaction_Props
    Contracts Runtime_Props Loop_Props Ranking_Props Ask_Props Sandbox_Props
    Ensure_Props
begin

text \<open>
  \<^bold>\<open>OpenStock: the provisioning queue, the provider platform, the readiness of market data, the guarded
  research loop, the sandbox and the research assistant.\<close>

  The repository holds two Python programs.  \<open>vnstock\<close> fetches Vietnamese market data from several
  providers; \<open>vnalpha\<close> keeps a research warehouse of it and provisions it through a durable job queue.
  This library models the three parts that decide what data the system works on, the one that decides which
  generated artifacts and ranking policies it trusts, the one that runs generated code in a container, and the one that
  turns a question into tool calls:

  \<^item> the \<^bold>\<open>provisioning queue\<close> of \<open>vnalpha\<close> (\<open>vnalpha/provisioning_queue\<close>): an SQLite table of jobs,
    the operations on it, and the worker that executes them;
  \<^item> the \<^bold>\<open>provider platform\<close> of \<open>vnstock\<close> (\<open>vnstock/core/provider\<close>, \<open>auth\<close>, \<open>contracts\<close>, \<open>runtime\<close>):
    provider registry, health records, routing, redaction, and the runtime that executes a fetch;
  \<^item> the \<^bold>\<open>readiness of market data\<close> of \<open>vnalpha\<close> (\<open>vnalpha/data_availability\<close>, \<open>vnalpha/features/status.py\<close>): what the
    warehouse says about a symbol and a session, the plan that completes it, and the locked flow that executes the plan;
  \<^item> the \<^bold>\<open>guarded research loop\<close> of \<open>vnalpha\<close> (\<open>vnalpha/closed_loop\<close>, the static guard of \<open>vnalpha/sandbox\<close>,
    \<open>vnalpha/ranking_policy_gate\<close>): repair of a failed run by sandboxed attempts, validation, promotion and rollback of
    the artifacts, the static guard of generated code, and the human gate of ranking policies;
  \<^item> the \<^bold>\<open>sandbox\<close> of \<open>vnalpha\<close> (\<open>vnalpha/sandbox\<close>): jobs of generated code, their approval, the container
    that runs them and the validation of what it leaves;
  \<^item> the \<^bold>\<open>research assistant\<close> of \<open>vnalpha\<close> (\<open>vnalpha/assistant\<close>, \<open>vnalpha/tools\<close>, \<open>vnalpha/policy\<close>): refusals,
    classification of a request by a language model, the plan, its execution by traced tools, and the records of a turn.

  \<^bold>\<open>Theories and code.\<close>

  \<^item> \<open>Prelude\<close>: strings, raising functions (a sum whose left side is the exception), tables, dictionaries; the locales
    \<open>keyed_store\<close>, \<open>invariant_system\<close> and \<open>simulation\<close>.  \<open>PyDate\<close>: calendar dates, their ISO form written and read, JSON rendering.
  \<^item> \<open>Goals\<close>: \<open>models.py\<close>, the goal types with their validators, canonical payload, identity and parser.
    \<open>typed_goal\<close> is the strict reading of a JSON object by the declared fields.  \<open>Goal_Facts\<close>: what validation
    guarantees; the payload round trip, field by field.
  \<^item> \<open>Queue_Model\<close>: \<open>queue_models.py\<close>, \<open>_records.py\<close>; a database is the record \<open>queue_db\<close> of its tables, a row
    the record \<open>job_row\<close>.  \<open>Queue_Ops\<close>: \<open>_submission.py\<close>, \<open>_lifecycle.py\<close>, \<open>_operations.py\<close>; each operation maps
    the database to a result or error and the database it leaves, one \<open>BEGIN IMMEDIATE\<close> transaction being one step.
    \<open>Queue_Store\<close>: \<open>_sqlite.py\<close>, \<open>repository.py\<close>, the schema versions, health, checkpoint.
  \<^item> \<open>Queue_Inv\<close>, \<open>Queue_Steps\<close>: the invariant of the tables and the step relation \<open>queue_step\<close> of all calls, an
    interpretation of \<open>invariant_system\<close>.  \<open>Queue_Life\<close>: the abstract life cycle of a job and its
    refinement, an interpretation of \<open>simulation\<close>.  \<open>Queue_Facts\<close>, \<open>Queue_Props\<close>, \<open>Store_Props\<close>: each operation exactly.
  \<^item> \<open>Finalization\<close>: \<open>finalization_trigger.py\<close>, the maintenance ledger and the finalization job of a run.
  \<^item> \<open>Worker\<close>: \<open>worker.py\<close>, \<open>_worker_execution.py\<close>, \<open>_worker_runtime.py\<close>, \<open>handlers.py\<close> as state-passing actions over
    a world in which other processes act between any two calls.  \<open>Worker_Logic\<close>: a small logic of such
    actions, two locales interpreted on the queue and on the clock of calls.
  \<^item> \<open>Provider_Model\<close>: \<open>exceptions.py\<close>, \<open>plugin.py\<close>, \<open>routing.py\<close> and the auth values.  \<open>Provider_Health\<close>: \<open>health.py\<close>, an
    interpretation of the locale \<open>health_store\<close>.  \<open>Registries\<close>: \<open>plugin_registry.py\<close> and \<open>contracts/base.py\<close>,
    interpretations of \<open>registration\<close>.  \<open>Contracts\<close>: the fifteen built-in contracts.
  \<^item> \<open>Router\<close>: \<open>plugin_router.py\<close>.  \<open>Router_Props\<close>: what is selected, and the cooldown.
  \<^item> \<open>Regex\<close>: regular expressions run by a backtracking matcher, and \<open>re.sub\<close>.  \<open>Redaction\<close>: \<open>redaction.py\<close>,
    \<open>context.py\<close>, \<open>diagnostics.py\<close>.  \<open>Redaction_Props\<close>: the matcher against the language of a pattern, and what redaction leaves.
  \<^item> \<open>Runtime\<close>: \<open>request.py\<close>, \<open>plugin_runtime.py\<close>, \<open>result.py\<close>.  \<open>Runtime_Props\<close>: the effect of a fetch on every way out.
  \<^item> \<open>Effects\<close>: operations that may raise over a state, with the locales \<open>effect_frame\<close> and \<open>invariant_frame\<close> for what
    every operation built from them keeps.
  \<^item> \<open>Sandbox_Guard\<close>: \<open>static_guard.py\<close> and its visitor, over syntax trees.  \<open>Guard_Props\<close>: the visitor with its budget
    against the rules of the whole tree.
  \<^item> \<open>Loop_Policy\<close>: \<open>policy.py\<close>, \<open>paths.py\<close>, \<open>service_config.py\<close>.  \<open>Loop_Model\<close>: \<open>models.py\<close> with the constraints of its records.
    \<open>Loop_Store\<close>: \<open>store.py\<close>, \<open>events.py\<close>, \<open>artifact_integrity.py\<close>; the store is one dictionary from paths to documents.
    \<open>Loop_Service\<close>: \<open>service.py\<close>, \<open>bundle.py\<close>, \<open>proposal.py\<close>.  \<open>Loop_Deploy\<close>: \<open>validation.py\<close>, \<open>deployment.py\<close>.
    \<open>Loop_Facts\<close>, \<open>Loop_Attempts\<close> interpret the two locales for the append-only logs, the numbering of
    attempts and the conformance of records; \<open>Loop_Props\<close> states the properties.
  \<^item> \<open>Ranking_Gate\<close>, \<open>Ranking_Props\<close>: \<open>ranking_policy_gate/gate.py\<close>.
  \<^item> \<open>Py_Value\<close>: the values of tool arguments.  \<open>Symbols\<close>: \<open>core/symbols.py\<close>.  \<open>Tool_Policy\<close>: the capability table of
    \<open>policy/tool_policy.py\<close> and what is derived from it.  \<open>Planner\<close>, \<open>Planner_Props\<close>: \<open>planner.py\<close>,
    \<open>research_automation_plans.py\<close>, and that their plans stay within the policy.  \<open>Intents\<close>, \<open>Intents_Props\<close>:
    \<open>policy.py\<close>, \<open>response_json.py\<close>, \<open>intent.py\<close>, and what reaches the planner.
  \<^item> \<open>Tool_Executor\<close>: \<open>tools/registry.py\<close> (an interpretation of \<open>registration\<close>) and \<open>tools/executor.py\<close> over the tables of traces,
    sessions, turns and model traces.  \<open>Assistant_Executor\<close>: \<open>assistant/executor.py\<close>.  \<open>Managed_Turn\<close>:
    \<open>managed_execute.py\<close>, \<open>managed_tools.py\<close> and the statements of \<open>assistant_repo.py\<close> in transactions.
    \<open>Turn_Prepare\<close>: \<open>managed_prepare.py\<close> and \<open>ask\<close>.
  \<^item> \<open>Turn_Frames\<close>: the frame of deferred mode, and the locales \<open>db_frame\<close> to \<open>request_frame\<close>, which give a
    relation that the parts of a turn keep to the whole; \<open>Turn_Facts\<close>, \<open>Turn_Props\<close>, \<open>Ask_Props\<close> interpret them for the tool
    traces, the rows that are open and the research data.  \<open>Assistant_Props\<close>: single calls and turns.

  \<^item> \<open>Sandbox_Paths\<close>: \<open>contracts.py\<close>, \<open>layout.py\<close> and the paths of \<open>_descriptor.py\<close>.  \<open>Sandbox_State\<close>: \<open>models.py\<close>, the
    values of the other modules, and the state: the two tables, one job directory as a dictionary of its nodes, the writer,
    the commands given to Docker and the records logged.  \<open>Sandbox_Store\<close>: \<open>repository.py\<close>, \<open>approval.py\<close>,
    \<open>execution_approval.py\<close> with the constraints of \<open>sandbox_schema.py\<close>.  \<open>Sandbox_Files\<close>: \<open>storage.py\<close>, \<open>_atomic.py\<close>.
    \<open>Sandbox_Docker\<close>: \<open>docker_policy.py\<close>, \<open>docker_runtime.py\<close>.  \<open>Sandbox_Writer\<close>: \<open>artifact_writer.py\<close>, the evidence, the
    manifest and \<open>output_validation.py\<close>.  \<open>Sandbox_Run\<close>: \<open>docker_orchestration.py\<close>, \<open>retained_binding.py\<close>,
    \<open>prepared_execution.py\<close>, \<open>execution_service.py\<close> and its calls inside a warehouse transaction.
  \<^item> \<open>Sandbox_Frames\<close>: the locales \<open>sandbox_frame\<close> to \<open>service_frame\<close>, which give a relation that single reads and writes
    keep to every operation of the service.  \<open>Sandbox_Life\<close> interprets them for the tables, \<open>Sandbox_Starts\<close> counts the
    containers, \<open>Sandbox_Safety\<close> follows the code from the approval to the file the container mounts,
    \<open>Sandbox_Confine\<close> reads the Docker command back field by field, \<open>Sandbox_Validated\<close> follows the outputs from the
    validator to the stored success, \<open>Sandbox_Demo\<close> runs one job, and \<open>Sandbox_Props\<close> states the properties.

  \<^item> \<open>Ensure_Values\<close>: \<open>models.py\<close>, \<open>policy.py\<close>, \<open>dates.py\<close>, \<open>failure_classification.py\<close>.  \<open>Ensure_Warehouse\<close>: \<open>checks.py\<close>,
    \<open>raw_evidence.py\<close>, \<open>ohlcv_gap_checks.py\<close>, \<open>relative_strength_checks.py\<close>, \<open>features/status.py\<close> as queries over
    tables that are lists of rows; the snapshot, its issues and the plan of \<open>cache.py\<close>, \<open>planner.py\<close>.  \<open>Ensure_Lock\<close>: \<open>lock.py\<close>, the steps of many
    flows on one lock directory and their invariant, an interpretation of \<open>invariant_system\<close>.  \<open>Ensure_Service\<close>: \<open>service.py\<close>,
    \<open>actions.py\<close>, \<open>results.py\<close>, \<open>observability.py\<close>, \<open>ensure.py\<close>; the flow is cut at its four calls of \<open>_run_actions\<close>.
  \<^item> \<open>Ensure_Facts\<close>: what an eligible snapshot says of the tables, what an action calls, and how a flow gets from its start
    to its result.  \<open>Ensure_Demo\<close> runs one flow; \<open>Ensure_Props\<close> states the properties.

  \<^bold>\<open>How the parts interact.\<close>  A request becomes a goal, the goal a job; the worker claims the job under a lease,
  runs the stages of its handler with a heartbeat, ends the job, and triggers the finalization of the maintenance run
  the job belongs to.  The stages fetch data through the runtime, which routes to a provider by health, calls it,
  validates the frame against the dataset's contract, and records the outcome in the health store that the next
  routing reads.  A failed research run is packaged, redacted, and repaired by numbered attempts in a sandbox whose code
  passed the static guard; the validation report that the guard and the other checks give is what verification and the
  promotion gate demand again, on the digest of the artifact as it is then.
  Before a symbol is analysed, the readiness flow takes its lock, compares the warehouse with the policy, and
  synchronises and builds what is missing, each action verified against a new snapshot of the warehouse.
  A question passes the refusals by words, the classifier and the planner; each step of the plan is checked
  against the tool policy again, its data are made ready, and it runs under a trace that was stored before and
  is finished afterwards, in a transaction of its own.  A plan with the sandbox step is executed only by the sandbox service:
  it reloads the retained job, demands the approval of exactly this plan and code, claims the job, asks the static
  guard again, starts the container, and stores success only after the outputs were validated.

  \<^bold>\<open>Bounds, clocks and fuel.\<close>  Integers are unbounded, as in Python; byte bounds are checked on lists of bytes.  Times
  are integers (milliseconds in the queue, microseconds in the platform) passed as arguments.  The worker loop takes
  fuel: one unit per round, and \<open>worker_loop_ends\<close> shows how much is enough.  The static guard's budget of 256 nodes is
  the code's own.  All other functions terminate
  by structure or by the measures given with them.

  \<^bold>\<open>Arguments of the model.\<close>  The JSON reader, the reading of a date and SHA-256 (record \<open>codec\<close>), SQLite pragmas and file-system probes, what a
  stage does to the warehouse, what a provider returns, what pandas says about a column, the quality
  validators; for the research loop the clock, fresh identifiers, SHA-256, Python's parser, \<open>json.loads\<close>, the text of a
  written document and the redaction of logs (record \<open>loop_env\<close>); for the assistant what the language model answers,
  the tools, the readiness services, the calendar, the sandbox, the audit of answers, and which transactions fail
  (records \<open>trace_env\<close>, \<open>turn_env\<close>, \<open>prepare_env\<close>); for the readiness of data what a synchronisation or build returns
  and does to the warehouse, the lock directory and the clock, the reader of lineage texts, \<open>repr\<close>, and the date forms that
  only newer releases of Python read (records \<open>ensure_env\<close>, \<open>read_env\<close>); for the sandbox SHA-256, Python's parser, the JSON readers with the
  errors they may raise, fresh identifiers and times, the generator of the code, which file operations fail, and what a
  Docker command returns and does to the files (record \<open>sandbox_env\<close>; only the commands that probe Docker or stop
  a container are assumed to leave the files alone, \<open>quiet_probes\<close>).  Where a property needs a law of one of them, it is a hypothesis, and its witness discharges it.

  \<^bold>\<open>Not modelled.\<close>  The adapters of the single providers (HTTP and data-frame reshaping), the warehouse beyond the queries named above,
  scoring, the tools of the assistant, its prompts and the synthesis of its answers, the chat, user
  interfaces.  In the research loop symbolic links, failures of the file system, and the two functions that look a run
  up by modification time.  In the readiness of data the deep readiness of the research context and
  its remediation, failures of the file system under the lock, and case folding beyond ASCII letters.
  In the sandbox the generator of numeric programs (floating-point statistics), the storing of
  its assistant turn, the handling of the Docker process and its pipes, and two executions that interleave within one call.  What else is left is the credential and
  session stores, the cache, the quality validators and model routing.
\<close>

end
